(* ===== verification/Prelude.thy ===== *)
theory Prelude
  imports Main "HOL-Library.Signed_Division" "HOL-Library.Char_ord" "HOL-Library.List_Lexorder"
begin

text \<open>
  What every component shares: errors and panics as values of a sum type and their
  sequencing, Go's fixed-width integers written out over \<^typ>\<open>int\<close>, the block context,
  hooks that run one after the other, the interface of a keyed store, and the lifting of
  an invariant from one step to a run.
\<close>

section \<open>Errors, panics and their sequencing\<close>

text \<open>
  A Go function that returns an \<open>error\<close>, or that may panic, returns a value of
  \<open>'a result\<close>. \<open>Sentinel m n\<close> is the error registered by module \<open>m\<close> under code \<open>n\<close>
  (wrapping an error keeps its sentinel, so the text of a wrapper is left out);
  \<open>Plain s\<close> is an anonymous error; \<open>Panic s\<close> is a Go panic, which unwinds like an error.
  A returned error makes the transaction's writes void, so \<open>Inl\<close> carries no state.
\<close>

datatype err = Sentinel string nat | Plain string | Panic string

type_synonym 'a result = "err + 'a"

definition rbind :: "'a result \<Rightarrow> ('a \<Rightarrow> 'b result) \<Rightarrow> 'b result" where
  "rbind m f = (case m of Inl e \<Rightarrow> Inl e | Inr x \<Rightarrow> f x)"

definition guard :: "bool \<Rightarrow> err \<Rightarrow> unit result" where
  "guard ok e = (if ok then Inr () else Inl e)"

definition is_panic :: "'a result \<Rightarrow> bool" where
  "is_panic m = (case m of Inl (Panic s) \<Rightarrow> True | _ \<Rightarrow> False)"

definition is_ok :: "'a result \<Rightarrow> bool" where
  "is_ok m = (case m of Inl e \<Rightarrow> False | Inr x \<Rightarrow> True)"

lemma rbind_Inl [simp]: "rbind (Inl e) f = Inl e"
  by (simp add: rbind_def)

lemma rbind_Inr [simp]: "rbind (Inr x) f = f x"
  by (simp add: rbind_def)

lemma rbind_eq_Inr [simp]: "rbind m f = Inr y \<longleftrightarrow> (\<exists>x. m = Inr x \<and> f x = Inr y)"
  by (cases m) auto

lemma rbind_eq_Inl: "rbind m f = Inl e \<longleftrightarrow> m = Inl e \<or> (\<exists>x. m = Inr x \<and> f x = Inl e)"
  by (cases m) auto

lemma rbind_assoc: "rbind (rbind m f) g = rbind m (\<lambda>x. rbind (f x) g)"
  by (cases m) auto

lemma rbind_cong [cong, fundef_cong]:
  "m = m' \<Longrightarrow> (\<And>x. m' = Inr x \<Longrightarrow> f x = f' x) \<Longrightarrow> rbind m f = rbind m' f'"
  by (cases m') auto

lemma guard_True [simp]: "guard True e = Inr ()"
  by (simp add: guard_def)

lemma guard_False [simp]: "guard False e = Inl e"
  by (simp add: guard_def)

lemma guard_eq_Inr [simp]: "guard b e = Inr u \<longleftrightarrow> b"
  by (simp add: guard_def)

lemma guard_eq_Inl [simp]: "guard b e = Inl e' \<longleftrightarrow> \<not> b \<and> e' = e"
  by (auto simp: guard_def)

lemma is_ok_Inr [simp]: "is_ok (Inr x)"
  by (simp add: is_ok_def)

lemma is_ok_Inl [simp]: "\<not> is_ok (Inl e)"
  by (simp add: is_ok_def)

lemma is_ok_iff: "is_ok m \<longleftrightarrow> (\<exists>x. m = Inr x)"
  by (cases m) auto

lemma is_panic_simps [simp]:
  "is_panic (Inl (Panic s))"
  "\<not> is_panic (Inl (Plain s))"
  "\<not> is_panic (Inl (Sentinel s n))"
  "\<not> is_panic (Inr x)"
  by (simp_all add: is_panic_def)

text \<open>\<open>on_ok Q m\<close>: if \<open>m\<close> returns, its value satisfies \<open>Q\<close>. The rules follow the code
  of a handler down to the states it can return.\<close>

definition on_ok :: "('a \<Rightarrow> bool) \<Rightarrow> 'a result \<Rightarrow> bool" where
  "on_ok Q m \<longleftrightarrow> (\<forall>x. m = Inr x \<longrightarrow> Q x)"

lemma on_okD: "on_ok Q m \<Longrightarrow> m = Inr x \<Longrightarrow> Q x"
  by (simp add: on_ok_def)

lemma on_ok_Inl [simp]: "on_ok Q (Inl e)"
  by (simp add: on_ok_def)

lemma on_ok_Inr [simp]: "on_ok Q (Inr x) = Q x"
  by (simp add: on_ok_def)

lemma on_okI: "(\<And>x. m = Inr x \<Longrightarrow> Q x) \<Longrightarrow> on_ok Q m"
  by (simp add: on_ok_def)

lemma on_ok_rbind: "(\<And>x. m = Inr x \<Longrightarrow> on_ok Q (f x)) \<Longrightarrow> on_ok Q (rbind m f)"
  by (auto simp: on_ok_def)

lemma on_ok_if: "(b \<Longrightarrow> on_ok Q m) \<Longrightarrow> (\<not> b \<Longrightarrow> on_ok Q m') \<Longrightarrow> on_ok Q (if b then m else m')"
  by simp

lemma on_ok_option:
  "(v = None \<Longrightarrow> on_ok Q m) \<Longrightarrow> (\<And>x. v = Some x \<Longrightarrow> on_ok Q (f x)) \<Longrightarrow>
     on_ok Q (case v of None \<Rightarrow> m | Some x \<Rightarrow> f x)"
  by (cases v) simp_all

lemma on_ok_prod: "(\<And>a b. p = (a, b) \<Longrightarrow> on_ok Q (f a b)) \<Longrightarrow> on_ok Q (case p of (a, b) \<Rightarrow> f a b)"
  by (cases p) simp

lemma on_ok_sum:
  "(\<And>e. v = Inl e \<Longrightarrow> on_ok Q (g e)) \<Longrightarrow> (\<And>x. v = Inr x \<Longrightarrow> on_ok Q (f x)) \<Longrightarrow>
     on_ok Q (case v of Inl e \<Rightarrow> g e | Inr x \<Rightarrow> f x)"
  by (cases v) simp_all

lemmas on_ok_intros = on_ok_rbind on_ok_if on_ok_option on_ok_prod on_ok_sum

section \<open>Go's integers\<close>

text \<open>
  \<open>cosmossdk.io/math.Int\<close> is an arbitrary-precision integer: its values are \<^typ>\<open>int\<close>.
  Values of \<open>int64\<close> and \<open>uint64\<close> are \<^typ>\<open>int\<close> too, with the wrap-around of every
  operation that can overflow written out.
\<close>

definition i64 :: "int \<Rightarrow> int" where
  "i64 x = (x + 2 ^ 63) mod 2 ^ 64 - 2 ^ 63"

definition u64 :: "int \<Rightarrow> int" where
  "u64 x = x mod 2 ^ 64"

lemma i64_id: "- (2 ^ 63) \<le> x \<Longrightarrow> x < 2 ^ 63 \<Longrightarrow> i64 x = x"
  by (simp add: i64_def)

lemma u64_id: "0 \<le> x \<Longrightarrow> x < 2 ^ 64 \<Longrightarrow> u64 x = x"
  by (simp add: u64_def)

lemma i64_range: "- (2 ^ 63) \<le> i64 x \<and> i64 x < 2 ^ 63"
  by (simp add: i64_def)

lemma u64_range: "0 \<le> u64 x \<and> u64 x < 2 ^ 64"
  by (simp add: u64_def)

lemma i64_diff: "0 \<le> a \<Longrightarrow> a < 2 ^ 63 \<Longrightarrow> 0 \<le> b \<Longrightarrow> b < 2 ^ 63 \<Longrightarrow> i64 (a - b) = a - b"
  by (rule i64_id) auto

text \<open>\<open>big.Int\<close>'s truncating quotient, which \<open>math.Int.Quo\<close> calls; a zero divisor panics.\<close>

definition int_quo :: "int \<Rightarrow> int \<Rightarrow> int result" where
  "int_quo a b = (if b = 0 then Inl (Panic ''division by zero'') else Inr (a sdiv b))"

lemma sdiv_nonneg: "0 \<le> a \<Longrightarrow> 0 < b \<Longrightarrow> a sdiv b = a div (b::int)"
  by (simp add: signed_divide_int_def sgn_if)

lemma int_quo_nonneg: "0 \<le> a \<Longrightarrow> 0 < b \<Longrightarrow> int_quo a b = Inr (a div b)"
  by (simp add: int_quo_def sdiv_nonneg)

section \<open>The block context\<close>

text \<open>
  What the keepers read of \<open>sdk.Context\<close>: the block height, the block time in
  nanoseconds since the Unix epoch, and the chain id. \<open>Time.Unix()\<close> is the floor in
  seconds.
\<close>

record block_ctx =
  BlockHeight :: int
  BlockTime :: int
  ChainID :: string

definition Unix :: "int \<Rightarrow> int" where
  "Unix t = t div 10 ^ 9"

definition ctx_ok :: "block_ctx \<Rightarrow> bool" where
  "ctx_ok ctx \<longleftrightarrow> 0 \<le> BlockHeight ctx \<and> BlockHeight ctx < 2 ^ 63 \<and>
     0 \<le> Unix (BlockTime ctx) \<and> Unix (BlockTime ctx) < 2 ^ 63"

lemma ctx_ok_u64_time: "ctx_ok ctx \<Longrightarrow> u64 (Unix (BlockTime ctx)) = Unix (BlockTime ctx)"
  by (auto simp: ctx_ok_def intro: u64_id)

lemma ctx_ok_u64_height: "ctx_ok ctx \<Longrightarrow> u64 (BlockHeight ctx) = BlockHeight ctx"
  by (auto simp: ctx_ok_def intro: u64_id)

section \<open>Hooks run in sequence\<close>

text \<open>
  Every \<open>Multi...Hooks\<close> of the repository is a slice whose elements run in order, the
  first error ending the loop. Such a slice is a list of state transformers.
\<close>

fun run_hooks :: "('s \<Rightarrow> 's result) list \<Rightarrow> 's \<Rightarrow> 's result" where
  "run_hooks [] s = Inr s"
| "run_hooks (h # hs) s = rbind (h s) (run_hooks hs)"

lemma run_hooks_append: "run_hooks (xs @ ys) s = rbind (run_hooks xs s) (run_hooks ys)"
  by (induction xs arbitrary: s) (auto simp: rbind_assoc)

text \<open>A relation between the states before and after that every hook of a slice keeps is
  kept by the slice.\<close>

lemma run_hooks_keeps:
  assumes "\<And>h s t. h \<in> set hs \<Longrightarrow> h s = Inr t \<Longrightarrow> P s t"
    and "\<And>s. P s s" and "\<And>s t u. P s t \<Longrightarrow> P t u \<Longrightarrow> P s u"
    and "run_hooks hs s = Inr t"
  shows "P s t"
  using assms(1,4)
proof (induction hs arbitrary: s)
  case Nil
  then show ?case by (simp add: assms(2))
next
  case (Cons h hs)
  then obtain u where u: "h s = Inr u" "run_hooks hs u = Inr t" by auto
  have "P s u" by (rule Cons.prems(1) [where h = h]) (simp_all add: u(1))
  moreover have "P u t"
  proof (rule Cons.IH [OF _ u(2)])
    show "P a b" if "g \<in> set hs" "g a = Inr b" for g a b
      by (rule Cons.prems(1) [of g]) (simp_all add: that)
  qed
  ultimately show ?case by (rule assms(3))
qed

section \<open>Invariants of runs\<close>

text \<open>
  A run performs a list of operations; an operation that returns an error (or panics in a
  transaction) leaves the state as it was, which is what \<open>baseapp\<close> does with a failed
  transaction.
\<close>

fun run_ops :: "('op \<Rightarrow> 's \<Rightarrow> 's result) \<Rightarrow> 'op list \<Rightarrow> 's \<Rightarrow> 's" where
  "run_ops step [] s = s"
| "run_ops step (x # xs) s =
     run_ops step xs (case step x s of Inl e \<Rightarrow> s | Inr t \<Rightarrow> t)"

locale invariant_step =
  fixes step :: "'op \<Rightarrow> 's \<Rightarrow> 's result"
    and inv :: "'s \<Rightarrow> bool"
  assumes step_inv: "inv s \<Longrightarrow> step x s = Inr t \<Longrightarrow> inv t"
begin

lemma run_inv: "inv s \<Longrightarrow> inv (run_ops step xs s)"
proof (induction xs arbitrary: s)
  case Nil
  then show ?case by simp
next
  case (Cons x xs)
  then show ?case by (cases "step x s") (auto intro: step_inv)
qed

end

text \<open>The same where the step keeps the invariant on some operations only, and each may use up
  one unit of a bounded resource, such as fresh identifiers.\<close>

locale budget_step =
  fixes step :: "'op \<Rightarrow> 's \<Rightarrow> 's result"
    and ok :: "'op \<Rightarrow> bool"
    and inv :: "int \<Rightarrow> 's \<Rightarrow> bool"
    and limit :: int
  assumes step_inv: "inv b s \<Longrightarrow> b < limit \<Longrightarrow> ok x \<Longrightarrow> step x s = Inr t \<Longrightarrow> inv (b + 1) t"
    and spend: "inv b s \<Longrightarrow> inv (b + 1) s"
begin

lemma run_inv:
  "list_all ok xs \<Longrightarrow> inv b s \<Longrightarrow> b + int (length xs) \<le> limit \<Longrightarrow>
     inv (b + int (length xs)) (run_ops step xs s)"
proof (induction xs arbitrary: b s)
  case Nil
  then show ?case by simp
next
  case (Cons x xs)
  have "inv (b + 1) (case step x s of Inl e \<Rightarrow> s | Inr t \<Rightarrow> t)"
    using Cons.prems by (cases "step x s") (auto intro: step_inv spend)
  then show ?case using Cons.IH [of "b + 1"] Cons.prems by (simp add: algebra_simps)
qed

end

section \<open>The interface of a keyed store\<close>

text \<open>
  A keeper's store section: \<open>get\<close> reads the entry of a key and \<open>put\<close> writes one. What a
  client relies on is that a read after a write sees it and that other keys are untouched.
\<close>

locale kv_store =
  fixes get :: "'s \<Rightarrow> 'k \<Rightarrow> 'v option"
    and put :: "'k \<Rightarrow> 'v \<Rightarrow> 's \<Rightarrow> 's"
  assumes get_put: "get (put k v s) k' = (if k' = k then Some v else get s k')"
begin

lemma get_put_same: "get (put k v s) k = Some v"
  by (simp add: get_put)

lemma get_put_other: "k' \<noteq> k \<Longrightarrow> get (put k v s) k' = get s k'"
  by (simp add: get_put)

text \<open>Importing a list of entries, as \<open>InitGenesis\<close> does: the last one of a key wins.\<close>

lemma get_fold_put:
  "get (fold (\<lambda>kv s. put (fst kv) (snd kv) s) kvs s) k =
     (case map_of (rev kvs) k of None \<Rightarrow> get s k | Some v \<Rightarrow> Some v)"
  by (induction kvs arbitrary: s) (auto simp: get_put map_add_def split: option.splits)

end

locale kv_store_del = kv_store +
  fixes del :: "'k \<Rightarrow> 's \<Rightarrow> 's"
  assumes get_del: "get (del k s) k' = (if k' = k then None else get s k')"
begin

lemma get_del_put: "get (del k (put k v s)) k' = (if k' = k then None else get s k')"
  by (simp add: get_del get_put)

end

section \<open>Key-value stores\<close>

text \<open>
  A section of the module store (the keys under one prefix) is an association list in
  ascending key order: reads, writes and deletions are by key, and an iterator visits the
  entries in that order. Values are stored as they are: the codec's marshalling is a
  bijection the model leaves out.
\<close>

type_synonym ('k, 'v) kvs = "('k \<times> 'v) list"

definition kv_get :: "('k, 'v) kvs \<Rightarrow> 'k \<Rightarrow> 'v option" where
  "kv_get m k = map_of m k"

fun kv_set :: "('k::linorder) \<Rightarrow> 'v \<Rightarrow> ('k, 'v) kvs \<Rightarrow> ('k, 'v) kvs" where
  "kv_set k v [] = [(k, v)]"
| "kv_set k v ((k', v') # m) =
     (if k < k' then (k, v) # (k', v') # m
      else if k = k' then (k, v) # m
      else (k', v') # kv_set k v m)"

definition kv_del :: "'k \<Rightarrow> ('k, 'v) kvs \<Rightarrow> ('k, 'v) kvs" where
  "kv_del k m = filter (\<lambda>kv. fst kv \<noteq> k) m"

definition kv_has :: "('k, 'v) kvs \<Rightarrow> 'k \<Rightarrow> bool" where
  "kv_has m k = (kv_get m k \<noteq> None)"

definition kv_ok :: "('k::linorder, 'v) kvs \<Rightarrow> bool" where
  "kv_ok m \<longleftrightarrow> sorted_wrt (<) (map fst m)"

lemma kv_get_Nil [simp]: "kv_get [] k = None"
  by (simp add: kv_get_def)

lemma kv_get_set: "kv_get (kv_set k v m) k' = (if k' = k then Some v else kv_get m k')"
  by (induction m) (auto simp: kv_get_def)

lemma kv_get_del: "kv_get (kv_del k m) k' = (if k' = k then None else kv_get m k')"
  by (induction m) (auto simp: kv_get_def kv_del_def)

lemma kv_set_keys: "fst ` set (kv_set k v m) = insert k (fst ` set m)"
  by (induction k v m rule: kv_set.induct) (simp_all add: insert_commute)

lemma kv_ok_Nil [simp]: "kv_ok []"
  by (simp add: kv_ok_def)

lemma kv_ok_set: "kv_ok m \<Longrightarrow> kv_ok (kv_set k v m)"
proof (induction m)
  case Nil
  then show ?case by (simp add: kv_ok_def)
next
  case (Cons kv m)
  obtain k' v' where kv: "kv = (k', v')" by (cases kv)
  show ?case
    using Cons kv_set_keys [of k v m] by (force simp: kv kv_ok_def)
qed

lemma kv_ok_del: "kv_ok m \<Longrightarrow> kv_ok (kv_del k m)"
  by (simp add: kv_ok_def kv_del_def sorted_wrt_map sorted_wrt_filter)

lemma kv_ok_distinct: "kv_ok m \<Longrightarrow> distinct (map fst m)"
  by (simp add: kv_ok_def strict_sorted_iff)

lemma kv_get_mem: "kv_ok m \<Longrightarrow> kv_get m k = Some v \<longleftrightarrow> (k, v) \<in> set m"
  by (simp add: kv_get_def kv_ok_distinct map_of_eq_Some_iff)

text \<open>The sum of a quantity over all entries, and how a write moves it.\<close>

definition kv_sum :: "('v \<Rightarrow> int) \<Rightarrow> ('k, 'v) kvs \<Rightarrow> int" where
  "kv_sum f m = sum_list (map (\<lambda>kv. f (snd kv)) m)"

lemma kv_sum_Nil [simp]: "kv_sum f [] = 0"
  by (simp add: kv_sum_def)

lemma kv_get_below:
  "kv_ok ((k', v') # m) \<Longrightarrow> k \<le> k' \<Longrightarrow> kv_get m k = None"
  by (force simp: kv_ok_def kv_get_def map_of_eq_None_iff)

lemma kv_sum_set:
  "kv_ok m \<Longrightarrow>
     kv_sum f (kv_set k v m) =
       kv_sum f m + f v - (case kv_get m k of None \<Rightarrow> 0 | Some w \<Rightarrow> f w)"
proof (induction m)
  case Nil
  then show ?case by (simp add: kv_sum_def)
next
  case (Cons kv m)
  obtain k' v' where kv: "kv = (k', v')" by (cases kv)
  have ok: "kv_ok m" using Cons.prems by (simp add: kv_ok_def)
  have IH: "kv_sum f (kv_set k v m) =
      kv_sum f m + f v - (case kv_get m k of None \<Rightarrow> 0 | Some w \<Rightarrow> f w)"
    by (rule Cons.IH [OF ok])
  show ?case
  proof (cases "k < k'")
    case True
    then have "kv_get m k = None" using Cons.prems kv_get_below [of k' v' m k] by (simp add: kv)
    then have "kv_get ((k', v') # m) k = None" using True by (simp add: kv_get_def)
    then show ?thesis using True by (simp add: kv kv_sum_def)
  next
    case False
    then show ?thesis using IH by (auto simp: kv kv_sum_def kv_get_def)
  qed
qed

lemma kv_sum_del:
  "kv_ok m \<Longrightarrow>
     kv_sum f (kv_del k m) = kv_sum f m - (case kv_get m k of None \<Rightarrow> 0 | Some w \<Rightarrow> f w)"
proof (induction m)
  case Nil
  then show ?case by (simp add: kv_del_def)
next
  case (Cons kv m)
  obtain k' v' where kv: "kv = (k', v')" by (cases kv)
  have ok: "kv_ok m" using Cons.prems by (simp add: kv_ok_def)
  have below: "k = k' \<Longrightarrow> kv_get m k = None" using Cons.prems kv_get_below [of k' v' m k] by (simp add: kv)
  show ?case using Cons.IH [OF ok] below by (auto simp: kv kv_sum_def kv_get_def kv_del_def)
qed

interpretation kvs: kv_store_del kv_get kv_set kv_del
  by unfold_locales (simp_all add: kv_get_set kv_get_del)

section \<open>Lists with keys\<close>

lemma sum_list_upd:
  fixes f :: "'a \<Rightarrow> int"
  assumes "i < length xs"
  shows "sum_list (map f (xs[i := y])) = sum_list (map f xs) - f (xs ! i) + f y"
  using assms by (induction xs arbitrary: i) (auto split: nat.splits)

lemma sum_list_nonneg_int:
  fixes f :: "'a \<Rightarrow> int"
  shows "(\<And>x. x \<in> set xs \<Longrightarrow> 0 \<le> f x) \<Longrightarrow> 0 \<le> sum_list (map f xs)"
  by (induction xs) auto

end
