(* ===== verification/SdkLib.thy ===== *)
theory SdkLib
  imports Prelude
begin

text \<open>
  What the modules use of the Cosmos SDK, which is not part of the repository: coin sets,
  denominations and addresses. The operations are the fields of a record \<open>sdk\<close> that every
  definition using them takes as an argument; \<open>sdk_laws\<close> states their documented behaviour
  as named hypotheses, and \<open>std_sdk\<close> is a concrete instance that satisfies them, on which the
  witnesses of the development evaluate. The data they work on is the SDK's public one:
  \<open>sdk.Coin\<close> is a denomination with an amount, \<open>sdk.Coins\<close> a slice of coins,
  \<open>sdk.AccAddress\<close> a byte string.
\<close>

type_synonym addr = string

record coin =
  Denom :: string
  Amount :: int

type_synonym coins = "coin list"

record sdk =
  NewCoin :: "string \<Rightarrow> int \<Rightarrow> coin result"
  NewCoins :: "coin list \<Rightarrow> coins result"
  AmountOf :: "coins \<Rightarrow> string \<Rightarrow> int"
  CoinsAdd :: "coins \<Rightarrow> coin list \<Rightarrow> coins"
  CoinsSub :: "coins \<Rightarrow> coin list \<Rightarrow> coins result"
  IsAllPositive :: "coins \<Rightarrow> bool"
  CoinsValidate :: "coins \<Rightarrow> unit result"
  ValidateDenom :: "string \<Rightarrow> unit result"
  AccAddressFromBech32 :: "string \<Rightarrow> addr result"
  ValAddressFromBech32 :: "string \<Rightarrow> addr result"
  AccAddressString :: "addr \<Rightarrow> string"
  NewModuleAddress :: "string \<Rightarrow> addr"

text \<open>\<open>sdk.MustAccAddressFromBech32\<close>: the same conversion, an error turned into a panic.\<close>

definition MustAccAddress :: "sdk \<Rightarrow> string \<Rightarrow> addr result" where
  "MustAccAddress S b =
     (case AccAddressFromBech32 S b of Inl e \<Rightarrow> Inl (Panic ''bech32'') | Inr a \<Rightarrow> Inr a)"

section \<open>The documented laws\<close>

definition denom_ok :: "sdk \<Rightarrow> string \<Rightarrow> bool" where
  "denom_ok S d \<longleftrightarrow> ValidateDenom S d = Inr ()"

definition coins_ok :: "sdk \<Rightarrow> coins \<Rightarrow> bool" where
  "coins_ok S cs \<longleftrightarrow> CoinsValidate S cs = Inr ()"

text \<open>\<open>NewCoin\<close> panics on a negative amount or an invalid denomination; \<open>NewCoins\<close> of one
  coin drops it when it is zero.\<close>

definition new_coin_laws :: "sdk \<Rightarrow> bool" where
  "new_coin_laws S \<longleftrightarrow>
     (\<forall>d a. NewCoin S d a =
        (if denom_ok S d \<and> 0 \<le> a then Inr \<lparr>Denom = d, Amount = a\<rparr>
         else Inl (Panic ''invalid coin''))) \<and>
     (\<forall>d a. denom_ok S d \<and> 0 \<le> a \<longrightarrow>
        NewCoins S [\<lparr>Denom = d, Amount = a\<rparr>] =
          Inr (if a = 0 then [] else [\<lparr>Denom = d, Amount = a\<rparr>]))"

text \<open>
  A valid set has positive amounts and distinct valid denominations. \<open>Add\<close> of a coin or of
  a valid set adds amounts per denomination and drops zeros; \<open>Sub\<close> subtracts them and
  panics when an amount would be negative.
\<close>

definition coins_laws :: "sdk \<Rightarrow> bool" where
  "coins_laws S \<longleftrightarrow>
     coins_ok S [] \<and> (\<forall>d. AmountOf S [] d = 0) \<and>
     (\<forall>d a d'. denom_ok S d \<and> 0 < a \<longrightarrow>
        coins_ok S [\<lparr>Denom = d, Amount = a\<rparr>] \<and>
        AmountOf S [\<lparr>Denom = d, Amount = a\<rparr>] d' = (if d' = d then a else 0)) \<and>
     (\<forall>cs d. coins_ok S cs \<longrightarrow> 0 \<le> AmountOf S cs d) \<and>
     (\<forall>cs. coins_ok S cs \<longrightarrow> IsAllPositive S cs = (cs \<noteq> [])) \<and>
     (\<forall>cs. coins_ok S cs \<longrightarrow> (cs = [] \<longleftrightarrow> (\<forall>d. AmountOf S cs d = 0)))"

definition coins_list_laws :: "sdk \<Rightarrow> bool" where
  "coins_list_laws S \<longleftrightarrow>
     (\<forall>cs. coins_ok S cs \<longrightarrow> distinct (map Denom cs) \<and>
        (\<forall>c\<in>set cs. denom_ok S (Denom c) \<and> 0 < Amount c \<and> AmountOf S cs (Denom c) = Amount c) \<and>
        (\<forall>d. d \<notin> Denom ` set cs \<longrightarrow> AmountOf S cs d = 0))"

definition coins_add_laws :: "sdk \<Rightarrow> bool" where
  "coins_add_laws S \<longleftrightarrow>
     (\<forall>cs d a. coins_ok S cs \<and> denom_ok S d \<and> 0 \<le> a \<longrightarrow>
        coins_ok S (CoinsAdd S cs [\<lparr>Denom = d, Amount = a\<rparr>]) \<and>
        (\<forall>d'. AmountOf S (CoinsAdd S cs [\<lparr>Denom = d, Amount = a\<rparr>]) d' =
           AmountOf S cs d' + (if d' = d then a else 0))) \<and>
     (\<forall>cs ds. coins_ok S cs \<and> coins_ok S ds \<longrightarrow>
        coins_ok S (CoinsAdd S cs ds) \<and>
        (\<forall>d. AmountOf S (CoinsAdd S cs ds) d = AmountOf S cs d + AmountOf S ds d))"

definition coins_sub_laws :: "sdk \<Rightarrow> bool" where
  "coins_sub_laws S \<longleftrightarrow>
     (\<forall>cs d a. coins_ok S cs \<and> denom_ok S d \<and> 0 \<le> a \<and> a \<le> AmountOf S cs d \<longrightarrow>
        (\<exists>cs'. CoinsSub S cs [\<lparr>Denom = d, Amount = a\<rparr>] = Inr cs' \<and> coins_ok S cs' \<and>
           (\<forall>d'. AmountOf S cs' d' = AmountOf S cs d' - (if d' = d then a else 0)))) \<and>
     (\<forall>cs ds. coins_ok S cs \<and> coins_ok S ds \<and> (\<forall>d. AmountOf S ds d \<le> AmountOf S cs d) \<longrightarrow>
        (\<exists>cs'. CoinsSub S cs ds = Inr cs' \<and> coins_ok S cs' \<and>
           (\<forall>d. AmountOf S cs' d = AmountOf S cs d - AmountOf S ds d))) \<and>
     (\<forall>cs ds. coins_ok S cs \<and> coins_ok S ds \<and> (\<exists>d. AmountOf S cs d < AmountOf S ds d) \<longrightarrow>
        CoinsSub S cs ds = Inl (Panic ''negative coin amount''))"

definition addr_laws :: "sdk \<Rightarrow> bool" where
  "addr_laws S \<longleftrightarrow> (\<forall>a. AccAddressFromBech32 S (AccAddressString S a) = Inr a)"

definition sdk_laws :: "sdk \<Rightarrow> bool" where
  "sdk_laws S \<longleftrightarrow>
     new_coin_laws S \<and> coins_laws S \<and> coins_list_laws S \<and> coins_add_laws S \<and> coins_sub_laws S \<and> addr_laws S"

text \<open>The laws in the form the proofs use.\<close>

lemma NewCoin_eq:
  "sdk_laws S \<Longrightarrow> NewCoin S d a =
     (if denom_ok S d \<and> 0 \<le> a then Inr \<lparr>Denom = d, Amount = a\<rparr>
      else Inl (Panic ''invalid coin''))"
  by (simp add: sdk_laws_def new_coin_laws_def)

lemma NewCoin_Inr:
  "sdk_laws S \<Longrightarrow> NewCoin S d a = Inr c \<longleftrightarrow>
     denom_ok S d \<and> 0 \<le> a \<and> c = \<lparr>Denom = d, Amount = a\<rparr>"
  by (auto simp: NewCoin_eq)

lemma NewCoins_single:
  "sdk_laws S \<Longrightarrow> denom_ok S d \<Longrightarrow> 0 \<le> a \<Longrightarrow>
     NewCoins S [\<lparr>Denom = d, Amount = a\<rparr>] =
       Inr (if a = 0 then [] else [\<lparr>Denom = d, Amount = a\<rparr>])"
  by (simp add: sdk_laws_def new_coin_laws_def)

lemma coins_ok_Nil: "sdk_laws S \<Longrightarrow> coins_ok S []"
  by (simp add: sdk_laws_def coins_laws_def)

lemma AmountOf_Nil: "sdk_laws S \<Longrightarrow> AmountOf S [] d = 0"
  by (simp add: sdk_laws_def coins_laws_def)

lemma coins_ok_single:
  "sdk_laws S \<Longrightarrow> denom_ok S d \<Longrightarrow> 0 < a \<Longrightarrow> coins_ok S [\<lparr>Denom = d, Amount = a\<rparr>]"
  by (simp add: sdk_laws_def coins_laws_def)

lemma AmountOf_single:
  "sdk_laws S \<Longrightarrow> denom_ok S d \<Longrightarrow> 0 < a \<Longrightarrow>
     AmountOf S [\<lparr>Denom = d, Amount = a\<rparr>] d' = (if d' = d then a else 0)"
  by (simp add: sdk_laws_def coins_laws_def)

lemma AmountOf_nonneg: "sdk_laws S \<Longrightarrow> coins_ok S cs \<Longrightarrow> 0 \<le> AmountOf S cs d"
  by (simp add: sdk_laws_def coins_laws_def)

lemma IsAllPositive_iff: "sdk_laws S \<Longrightarrow> coins_ok S cs \<Longrightarrow> IsAllPositive S cs = (cs \<noteq> [])"
  by (simp add: sdk_laws_def coins_laws_def)

lemma coins_Nil_iff:
  "sdk_laws S \<Longrightarrow> coins_ok S cs \<Longrightarrow> cs = [] \<longleftrightarrow> (\<forall>d. AmountOf S cs d = 0)"
  unfolding sdk_laws_def coins_laws_def by blast

lemma coins_ok_list:
  assumes "sdk_laws S" "coins_ok S cs"
  shows "distinct (map Denom cs)"
    and "c \<in> set cs \<Longrightarrow> denom_ok S (Denom c) \<and> 0 < Amount c \<and> AmountOf S cs (Denom c) = Amount c"
    and "d \<notin> Denom ` set cs \<Longrightarrow> AmountOf S cs d = 0"
  using assms by (simp_all add: sdk_laws_def coins_list_laws_def)

lemma coins_ok_add1:
  "sdk_laws S \<Longrightarrow> coins_ok S cs \<Longrightarrow> denom_ok S d \<Longrightarrow> 0 \<le> a \<Longrightarrow>
     coins_ok S (CoinsAdd S cs [\<lparr>Denom = d, Amount = a\<rparr>])"
  by (simp add: sdk_laws_def coins_add_laws_def)

lemma AmountOf_add1:
  "sdk_laws S \<Longrightarrow> coins_ok S cs \<Longrightarrow> denom_ok S d \<Longrightarrow> 0 \<le> a \<Longrightarrow>
     AmountOf S (CoinsAdd S cs [\<lparr>Denom = d, Amount = a\<rparr>]) d' =
       AmountOf S cs d' + (if d' = d then a else 0)"
  by (simp add: sdk_laws_def coins_add_laws_def)

lemma coins_ok_add:
  "sdk_laws S \<Longrightarrow> coins_ok S cs \<Longrightarrow> coins_ok S ds \<Longrightarrow> coins_ok S (CoinsAdd S cs ds)"
  by (simp add: sdk_laws_def coins_add_laws_def)

lemma AmountOf_add:
  "sdk_laws S \<Longrightarrow> coins_ok S cs \<Longrightarrow> coins_ok S ds \<Longrightarrow>
     AmountOf S (CoinsAdd S cs ds) d = AmountOf S cs d + AmountOf S ds d"
  by (simp add: sdk_laws_def coins_add_laws_def)

lemma CoinsSub1:
  assumes "sdk_laws S" "coins_ok S cs" "denom_ok S d" "0 \<le> a" "a \<le> AmountOf S cs d"
  obtains cs' where "CoinsSub S cs [\<lparr>Denom = d, Amount = a\<rparr>] = Inr cs'" "coins_ok S cs'"
    "\<And>d'. AmountOf S cs' d' = AmountOf S cs d' - (if d' = d then a else 0)"
  using assms unfolding sdk_laws_def coins_sub_laws_def by blast

lemma CoinsSub_set:
  assumes "sdk_laws S" "coins_ok S cs" "coins_ok S ds" "\<And>d. AmountOf S ds d \<le> AmountOf S cs d"
  obtains cs' where "CoinsSub S cs ds = Inr cs'" "coins_ok S cs'"
    "\<And>d. AmountOf S cs' d = AmountOf S cs d - AmountOf S ds d"
  using assms unfolding sdk_laws_def coins_sub_laws_def by blast

lemma CoinsSub_panic:
  "sdk_laws S \<Longrightarrow> coins_ok S cs \<Longrightarrow> coins_ok S ds \<Longrightarrow> AmountOf S cs d < AmountOf S ds d \<Longrightarrow>
     CoinsSub S cs ds = Inl (Panic ''negative coin amount'')"
  unfolding sdk_laws_def coins_sub_laws_def by blast

lemma bech32_roundtrip: "sdk_laws S \<Longrightarrow> AccAddressFromBech32 S (AccAddressString S a) = Inr a"
  by (simp add: sdk_laws_def addr_laws_def)

lemma MustAccAddress_string: "sdk_laws S \<Longrightarrow> MustAccAddress S (AccAddressString S a) = Inr a"
  by (simp add: MustAccAddress_def bech32_roundtrip)

lemmas sdk_simps = NewCoin_eq NewCoins_single coins_ok_Nil AmountOf_Nil coins_ok_single
  AmountOf_single coins_ok_add1 AmountOf_add1 coins_ok_add AmountOf_add MustAccAddress_string

end
