(* ===== verification/Commitments.thy ===== *)
theory Commitments
  imports SdkLib
begin

text \<open>
  The data of the commitment module (x/commitment/types): what one account has committed,
  claimed and put into vesting, with the methods of \<open>types/commitments.go\<close>.
\<close>

section \<open>Denominations and sentinel errors\<close>

definition Elys :: string where "Elys = ''uelys''"
definition Eden :: string where "Eden = ''ueden''"
definition EdenB :: string where "EdenB = ''uedenb''"

lemma denoms_distinct [simp]:
  "Eden \<noteq> EdenB" "EdenB \<noteq> Eden" "Eden \<noteq> Elys" "Elys \<noteq> Eden" "Elys \<noteq> EdenB" "EdenB \<noteq> Elys"
  by (simp_all add: Elys_def Eden_def EdenB_def)

definition ErrInsufficientCommittedTokens :: err where
  "ErrInsufficientCommittedTokens = Sentinel ''commitment'' 1003"
definition ErrInsufficientClaimed :: err where
  "ErrInsufficientClaimed = Sentinel ''commitment'' 1004"
definition ErrInvalidAmount :: err where
  "ErrInvalidAmount = Sentinel ''commitment'' 1005"
definition ErrInvalidDenom :: err where
  "ErrInvalidDenom = Sentinel ''commitment'' 1006"
definition ErrInsufficientVestingTokens :: err where
  "ErrInsufficientVestingTokens = Sentinel ''commitment'' 1007"
definition ErrCommitDisabled :: err where
  "ErrCommitDisabled = Sentinel ''commitment'' 1008"
definition ErrExceedMaxVestings :: err where
  "ErrExceedMaxVestings = Sentinel ''commitment'' 1010"
definition ErrInsufficientWithdrawableTokens :: err where
  "ErrInsufficientWithdrawableTokens = Sentinel ''commitment'' 1011"
definition ErrVestNowIsNotEnabled :: err where
  "ErrVestNowIsNotEnabled = Sentinel ''commitment'' 1012"
definition ErrUnsupportedUncommitToken :: err where
  "ErrUnsupportedUncommitToken = Sentinel ''commitment'' 1014"

lemmas commitment_errors = ErrInsufficientCommittedTokens_def ErrInsufficientClaimed_def
  ErrInvalidAmount_def ErrInvalidDenom_def ErrInsufficientVestingTokens_def
  ErrCommitDisabled_def ErrExceedMaxVestings_def ErrInsufficientWithdrawableTokens_def
  ErrVestNowIsNotEnabled_def ErrUnsupportedUncommitToken_def

section \<open>The records\<close>

record Lockup =
  lk_Amount :: int
  lk_UnlockTimestamp :: int

record CommittedTokens =
  ct_Denom :: string
  ct_Amount :: int
  ct_Lockups :: "Lockup list"

record VestingTokens =
  vt_Denom :: string
  vt_TotalAmount :: int
  vt_ClaimedAmount :: int
  vt_NumBlocks :: int
  vt_StartBlock :: int
  vt_VestStartedTimestamp :: int

record Commitments =
  cm_Creator :: string
  cm_CommittedTokens :: "CommittedTokens list"
  cm_Claimed :: coins
  cm_VestingTokens :: "VestingTokens list"

section \<open>Committed tokens\<close>

definition IsEmpty :: "Commitments \<Rightarrow> bool" where
  "IsEmpty c =
     (if 0 < length (cm_CommittedTokens c) then False
      else if 0 < length (cm_Claimed c) then False
      else if 0 < length (cm_VestingTokens c) then False
      else True)"

fun committed_amount :: "CommittedTokens list \<Rightarrow> string \<Rightarrow> int" where
  "committed_amount [] denom = 0"
| "committed_amount (t # ts) denom =
     (if ct_Denom t = denom then ct_Amount t else committed_amount ts denom)"

definition GetCommittedAmountForDenom :: "Commitments \<Rightarrow> string \<Rightarrow> int" where
  "GetCommittedAmountForDenom c denom = committed_amount (cm_CommittedTokens c) denom"

fun committed_lockups :: "CommittedTokens list \<Rightarrow> string \<Rightarrow> Lockup list" where
  "committed_lockups [] denom = []"
| "committed_lockups (t # ts) denom =
     (if ct_Denom t = denom then ct_Lockups t else committed_lockups ts denom)"

definition GetCommittedLockUpsForDenom :: "Commitments \<Rightarrow> string \<Rightarrow> Lockup list" where
  "GetCommittedLockUpsForDenom c denom = committed_lockups (cm_CommittedTokens c) denom"

text \<open>The loop of \<open>AddCommittedTokens\<close>: the first entry of the denomination grows, or a new
  one is appended; a lock-up is recorded when the unlock time is not zero.\<close>

fun add_committed ::
    "CommittedTokens list \<Rightarrow> string \<Rightarrow> int \<Rightarrow> int \<Rightarrow> CommittedTokens list" where
  "add_committed [] denom amount unlockTime =
     [\<lparr>ct_Denom = denom, ct_Amount = amount,
       ct_Lockups = (if unlockTime \<noteq> 0
         then [\<lparr>lk_Amount = amount, lk_UnlockTimestamp = unlockTime\<rparr>] else [])\<rparr>]"
| "add_committed (t # ts) denom amount unlockTime =
     (if ct_Denom t = denom
      then t\<lparr>ct_Amount := ct_Amount t + amount,
             ct_Lockups := (if unlockTime \<noteq> 0
               then ct_Lockups t @ [\<lparr>lk_Amount = amount, lk_UnlockTimestamp = unlockTime\<rparr>]
               else ct_Lockups t)\<rparr> # ts
      else t # add_committed ts denom amount unlockTime)"

definition AddCommittedTokens :: "string \<Rightarrow> int \<Rightarrow> int \<Rightarrow> Commitments \<Rightarrow> Commitments" where
  "AddCommittedTokens denom amount unlockTime c =
     c\<lparr>cm_CommittedTokens := add_committed (cm_CommittedTokens c) denom amount unlockTime\<rparr>"

definition lockup_sum :: "Lockup list \<Rightarrow> int" where
  "lockup_sum ls = sum_list (map lk_Amount ls)"

text \<open>The lock-ups still running at \<open>now\<close>: the loop of \<open>CommittedTokensLocked\<close> and of
  \<open>DeductFromCommitted\<close> keeps those whose unlock time is later.\<close>

definition running :: "int \<Rightarrow> Lockup list \<Rightarrow> Lockup list" where
  "running now ls = filter (\<lambda>l. lk_UnlockTimestamp l > now) ls"

fun tokens_locked ::
    "sdk \<Rightarrow> int \<Rightarrow> CommittedTokens list \<Rightarrow> coins \<Rightarrow> coins \<Rightarrow> (coins \<times> coins) result" where
  "tokens_locked S now [] locked committed = Inr (locked, committed)"
| "tokens_locked S now (t # ts) locked committed =
     rbind (NewCoin S (ct_Denom t) (lockup_sum (running now (ct_Lockups t)))) (\<lambda>lc.
     rbind (NewCoin S (ct_Denom t) (ct_Amount t)) (\<lambda>cc.
     tokens_locked S now ts (CoinsAdd S locked [lc]) (CoinsAdd S committed [cc])))"

definition CommittedTokensLocked ::
    "sdk \<Rightarrow> block_ctx \<Rightarrow> Commitments \<Rightarrow> (coins \<times> coins) result" where
  "CommittedTokensLocked S ctx c =
     tokens_locked S (u64 (Unix (BlockTime ctx))) (cm_CommittedTokens c) [] []"

text \<open>The loop of \<open>DeductFromCommitted\<close>. A liquidation ignores the lock-ups. An entry that
  reaches zero is deleted from the slice.\<close>

fun deduct_committed ::
    "CommittedTokens list \<Rightarrow> string \<Rightarrow> int \<Rightarrow> int \<Rightarrow> bool \<Rightarrow> CommittedTokens list result" where
  "deduct_committed [] denom amount currTime isLiquidation = Inl ErrInsufficientCommittedTokens"
| "deduct_committed (t # ts) denom amount currTime isLiquidation =
     (if ct_Denom t = denom
      then let newAmount = ct_Amount t - amount;
               newLockups = (if isLiquidation then [] else running currTime (ct_Lockups t))
           in if newAmount < 0 then Inl ErrInsufficientCommittedTokens
              else if lockup_sum newLockups > newAmount then Inl ErrInsufficientWithdrawableTokens
              else if newAmount = 0 then Inr ts
              else Inr (t\<lparr>ct_Amount := newAmount, ct_Lockups := newLockups\<rparr> # ts)
      else rbind (deduct_committed ts denom amount currTime isLiquidation) (\<lambda>ts'. Inr (t # ts')))"

definition DeductFromCommitted ::
    "string \<Rightarrow> int \<Rightarrow> int \<Rightarrow> bool \<Rightarrow> Commitments \<Rightarrow> Commitments result" where
  "DeductFromCommitted denom amount currTime isLiquidation c =
     rbind (deduct_committed (cm_CommittedTokens c) denom amount currTime isLiquidation) (\<lambda>ts.
       Inr (c\<lparr>cm_CommittedTokens := ts\<rparr>))"

section \<open>Claimed tokens\<close>

fun claimed_amount :: "coins \<Rightarrow> string \<Rightarrow> int" where
  "claimed_amount [] denom = 0"
| "claimed_amount (t # ts) denom = (if Denom t = denom then Amount t else claimed_amount ts denom)"

definition GetClaimedForDenom :: "Commitments \<Rightarrow> string \<Rightarrow> int" where
  "GetClaimedForDenom c denom = claimed_amount (cm_Claimed c) denom"

definition AddClaimed :: "sdk \<Rightarrow> coin \<Rightarrow> Commitments \<Rightarrow> Commitments" where
  "AddClaimed S amount c = c\<lparr>cm_Claimed := CoinsAdd S (cm_Claimed c) [amount]\<rparr>"

definition SubClaimed :: "sdk \<Rightarrow> coin \<Rightarrow> Commitments \<Rightarrow> Commitments result" where
  "SubClaimed S amount c =
     (if AmountOf S (cm_Claimed c) (Denom amount) < Amount amount
      then Inl ErrInsufficientClaimed
      else rbind (CoinsSub S (cm_Claimed c) [amount]) (\<lambda>cl. Inr (c\<lparr>cm_Claimed := cl\<rparr>)))"

section \<open>Vesting tokens\<close>

definition VestedSoFar :: "block_ctx \<Rightarrow> VestingTokens \<Rightarrow> int result" where
  "VestedSoFar ctx v =
     (let totalBlocks = min (i64 (BlockHeight ctx - vt_StartBlock v)) (vt_NumBlocks v)
      in int_quo (vt_TotalAmount v * totalBlocks) (vt_NumBlocks v))"

section \<open>Amounts\<close>

definition denoms_of :: "Commitments \<Rightarrow> string list" where
  "denoms_of c = map ct_Denom (cm_CommittedTokens c)"

lemma committed_amount_add:
  "committed_amount (add_committed ts d a u) d' =
     committed_amount ts d' + (if d' = d then a else 0)"
  by (induction ts) auto

lemma committed_lockups_add:
  "committed_lockups (add_committed ts d a u) d' =
     committed_lockups ts d' @
       (if d' = d \<and> u \<noteq> 0 then [\<lparr>lk_Amount = a, lk_UnlockTimestamp = u\<rparr>] else [])"
  by (induction ts) auto

lemma denoms_add:
  "map ct_Denom (add_committed ts d a u) =
     (if d \<in> set (map ct_Denom ts) then map ct_Denom ts else map ct_Denom ts @ [d])"
  by (induction ts) auto

lemma committed_amount_notin: "d \<notin> set (map ct_Denom ts) \<Longrightarrow> committed_amount ts d = 0"
  by (induction ts) auto

lemma committed_lockups_notin: "d \<notin> set (map ct_Denom ts) \<Longrightarrow> committed_lockups ts d = []"
  by (induction ts) auto

lemma claimed_amount_AmountOf:
  assumes "sdk_laws S" "coins_ok S cs"
  shows "claimed_amount cs d = AmountOf S cs d"
proof (cases "d \<in> Denom ` set cs")
  case True
  then obtain c where c: "c \<in> set cs" "d = Denom c" by auto
  have "distinct (map Denom cs)" by (rule coins_ok_list(1) [OF assms])
  then have "claimed_amount cs (Denom c) = Amount c"
    using c(1) by (induction cs) force+
  then show ?thesis using coins_ok_list(2) [OF assms c(1)] c(2) by simp
next
  case False
  then have "claimed_amount cs d = 0" by (induction cs) auto
  then show ?thesis using coins_ok_list(3) [OF assms False] by simp
qed

section \<open>Deduction\<close>

text \<open>When the loop finds no fault: the entry exists, holds the amount and, outside a
  liquidation, keeps enough for its running lock-ups.\<close>

definition can_deduct :: "CommittedTokens list \<Rightarrow> string \<Rightarrow> int \<Rightarrow> int \<Rightarrow> bool \<Rightarrow> bool" where
  "can_deduct ts d a now liq \<longleftrightarrow>
     d \<in> set (map ct_Denom ts) \<and> a \<le> committed_amount ts d \<and>
     (liq \<or> lockup_sum (running now (committed_lockups ts d)) \<le> committed_amount ts d - a)"

lemma lockup_sum_Nil [simp]: "lockup_sum [] = 0"
  by (simp add: lockup_sum_def)

lemma deduct_committed_ok: "is_ok (deduct_committed ts d a now liq) \<longleftrightarrow> can_deduct ts d a now liq"
proof (induction ts)
  case Nil
  then show ?case by (simp add: can_deduct_def)
next
  case (Cons t ts)
  then show ?case
    by (auto simp: can_deduct_def Let_def is_ok_iff)
qed

lemma deduct_committed_amount:
  "distinct (map ct_Denom ts) \<Longrightarrow> deduct_committed ts d a now liq = Inr ts' \<Longrightarrow>
     committed_amount ts' d' = committed_amount ts d' - (if d' = d then a else 0)"
proof (induction ts arbitrary: ts')
  case Nil
  then show ?case by simp
next
  case (Cons t ts)
  then show ?case
    by (auto simp: Let_def committed_amount_notin split: if_splits)
qed

lemma deduct_committed_lockups:
  "distinct (map ct_Denom ts) \<Longrightarrow> deduct_committed ts d a now liq = Inr ts' \<Longrightarrow>
     committed_lockups ts' d' =
       (if d' \<noteq> d then committed_lockups ts d'
        else if liq \<or> committed_amount ts d = a then []
        else running now (committed_lockups ts d))"
proof (induction ts arbitrary: ts')
  case Nil
  then show ?case by simp
next
  case (Cons t ts)
  then show ?case
    by (auto simp: Let_def committed_lockups_notin split: if_splits)
qed

lemma deduct_committed_denoms:
  "deduct_committed ts d a now liq = Inr ts' \<Longrightarrow>
     map ct_Denom ts' =
       (if committed_amount ts d = a then remove1 d (map ct_Denom ts) else map ct_Denom ts)"
proof (induction ts arbitrary: ts')
  case Nil
  then show ?case by simp
next
  case (Cons t ts)
  then show ?case by (auto simp: Let_def split: if_splits)
qed

lemma deduct_committed_error:
  "deduct_committed ts d a now liq = Inl e \<Longrightarrow>
     e = (if d \<in> set (map ct_Denom ts) \<and> a \<le> committed_amount ts d
          then ErrInsufficientWithdrawableTokens else ErrInsufficientCommittedTokens)"
  by (induction ts) (auto simp: Let_def rbind_eq_Inl split: if_splits)

section \<open>Runs of commits and withdrawals\<close>

text \<open>What the keeper does to an account's committed tokens over time: deposits, each with
  its unlock time (zero for none), and withdrawals at a block time.\<close>

datatype commit_op = Commit string int int | Uncommit string int int

fun apply_commit_op :: "commit_op \<Rightarrow> Commitments \<Rightarrow> Commitments result" where
  "apply_commit_op (Commit d a u) c = Inr (AddCommittedTokens d a u c)"
| "apply_commit_op (Uncommit d a now) c = DeductFromCommitted d a now False c"

fun op_ok :: "int \<Rightarrow> commit_op \<Rightarrow> bool" where
  "op_ok now (Commit d a u) \<longleftrightarrow> 0 \<le> a"
| "op_ok now (Uncommit d a t) \<longleftrightarrow> 0 \<le> a \<and> t \<le> now"

text \<open>What the deposits of a run still lock at \<open>now\<close>.\<close>

fun op_locks :: "int \<Rightarrow> string \<Rightarrow> commit_op \<Rightarrow> int" where
  "op_locks now d (Commit d' a u) = (if d' = d \<and> u \<noteq> 0 \<and> u > now then a else 0)"
| "op_locks now d (Uncommit d' a t) = 0"

definition locked_at :: "int \<Rightarrow> Commitments \<Rightarrow> string \<Rightarrow> int" where
  "locked_at now c d = lockup_sum (running now (GetCommittedLockUpsForDenom c d))"

definition lockups_ok :: "int \<Rightarrow> Commitments \<Rightarrow> bool" where
  "lockups_ok now c \<longleftrightarrow> distinct (denoms_of c) \<and>
     (\<forall>d. (\<forall>l\<in>set (GetCommittedLockUpsForDenom c d). 0 \<le> lk_Amount l) \<and>
          locked_at now c d \<le> GetCommittedAmountForDenom c d)"

lemma lockup_sum_append: "lockup_sum (xs @ ys) = lockup_sum xs + lockup_sum ys"
  by (simp add: lockup_sum_def)

lemma lockup_sum_nonneg: "\<forall>l\<in>set ls. 0 \<le> lk_Amount l \<Longrightarrow> 0 \<le> lockup_sum ls"
  by (auto simp: lockup_sum_def intro: sum_list_nonneg_int)

lemma running_running: "t \<le> now \<Longrightarrow> running now (running t ls) = running now ls"
  by (auto simp: running_def intro: filter_cong)

lemma running_Nil [simp]: "running now [] = []"
  by (simp add: running_def)

lemma running_sum_mono:
  "\<forall>l\<in>set ls. 0 \<le> lk_Amount l \<Longrightarrow> t \<le> now \<Longrightarrow>
     lockup_sum (running now ls) \<le> lockup_sum (running t ls)"
  by (induction ls) (auto simp: running_def lockup_sum_def)

lemma running_nonneg:
  "\<forall>l\<in>set ls. 0 \<le> lk_Amount l \<Longrightarrow> 0 \<le> lockup_sum (running now ls)"
  by (rule lockup_sum_nonneg) (auto simp: running_def)

lemma locked_at_add:
  "locked_at now (AddCommittedTokens d a u c) d' = locked_at now c d' +
     op_locks now d' (Commit d a u)"
  by (simp add: locked_at_def AddCommittedTokens_def GetCommittedLockUpsForDenom_def
      committed_lockups_add running_def lockup_sum_def)

lemma lockups_ok_add: "lockups_ok now c \<Longrightarrow> 0 \<le> a \<Longrightarrow> lockups_ok now (AddCommittedTokens d a u c)"
  unfolding lockups_ok_def locked_at_add
  by (auto simp: denoms_of_def AddCommittedTokens_def denoms_add
      GetCommittedLockUpsForDenom_def GetCommittedAmountForDenom_def committed_lockups_add
      committed_amount_add intro: add_mono order_trans)

lemma deduct_locked:
  assumes ok: "lockups_ok now c" and c': "DeductFromCommitted d a t False c = Inr c'"
    and a: "0 \<le> a" and t: "t \<le> now"
  shows "lockups_ok now c'" and "locked_at now c' d' = locked_at now c d'"
proof -
  obtain ts where ts: "deduct_committed (cm_CommittedTokens c) d a t False = Inr ts"
    and c'_eq: "c' = c\<lparr>cm_CommittedTokens := ts\<rparr>"
    using c' by (auto simp: DeductFromCommitted_def)
  let ?ls = "committed_lockups (cm_CommittedTokens c)" and ?am = "committed_amount (cm_CommittedTokens c)"
  have dist: "distinct (map ct_Denom (cm_CommittedTokens c))"
    using ok by (simp add: lockups_ok_def denoms_of_def)
  have nn: "\<forall>l\<in>set (?ls x). 0 \<le> lk_Amount l" for x
    using ok by (simp add: lockups_ok_def GetCommittedLockUpsForDenom_def)
  have le: "lockup_sum (running now (?ls x)) \<le> ?am x" for x
    using ok by (simp add: lockups_ok_def locked_at_def GetCommittedLockUpsForDenom_def
        GetCommittedAmountForDenom_def)
  have "can_deduct (cm_CommittedTokens c) d a t False"
    using ts deduct_committed_ok by (metis is_ok_Inr)
  then have room: "lockup_sum (running t (?ls d)) \<le> ?am d - a"
    by (simp add: can_deduct_def)
  have now: "lockup_sum (running now (?ls d)) \<le> ?am d - a"
    using room running_sum_mono [OF nn t] by (rule order_trans [rotated])
  have zero: "?am d = a \<Longrightarrow> lockup_sum (running now (?ls d)) = 0"
    using now running_nonneg [OF nn, of now d] by simp
  show locked: "locked_at now c' d' = locked_at now c d'" for d'
    using zero
    by (auto simp: locked_at_def c'_eq GetCommittedLockUpsForDenom_def running_running [OF t]
        deduct_committed_lockups [OF dist ts])
  have "\<forall>l\<in>set (committed_lockups ts x). 0 \<le> lk_Amount l" for x
    using nn by (auto simp: deduct_committed_lockups [OF dist ts] running_def)
  moreover have "locked_at now c' x \<le> committed_amount ts x" for x
    unfolding locked using now le
    by (auto simp: locked_at_def GetCommittedLockUpsForDenom_def
        deduct_committed_amount [OF dist ts])
  moreover have "distinct (map ct_Denom ts)"
    using dist by (simp add: deduct_committed_denoms [OF ts] distinct_remove1)
  ultimately show "lockups_ok now c'"
    by (simp add: lockups_ok_def c'_eq denoms_of_def GetCommittedLockUpsForDenom_def
        GetCommittedAmountForDenom_def)
qed

lemma run_commit_ops_locked:
  assumes "lockups_ok now c" and "list_all (op_ok now) ops"
  shows "lockups_ok now (run_ops apply_commit_op ops c) \<and>
    locked_at now (run_ops apply_commit_op ops c) d =
      locked_at now c d + sum_list (map (op_locks now d) ops)"
  using assms
proof (induction ops arbitrary: c)
  case Nil
  then show ?case by simp
next
  case (Cons x ops)
  show ?case
  proof (cases x)
    case (Commit e a u)
    then show ?thesis using Cons by (simp add: lockups_ok_add locked_at_add)
  next
    case (Uncommit e a t)
    show ?thesis
    proof (cases "DeductFromCommitted e a t False c")
      case (Inl err)
      then show ?thesis using Cons Uncommit by simp
    next
      case (Inr c')
      then show ?thesis using Cons Uncommit deduct_locked [OF Cons.prems(1) Inr] by simp
    qed
  qed
qed

section \<open>Vesting schedules\<close>

text \<open>The amount vested after \<open>elapsed\<close> blocks of a schedule of \<open>n\<close> blocks.\<close>

definition vested :: "int \<Rightarrow> int \<Rightarrow> int \<Rightarrow> int" where
  "vested tot n elapsed = tot * min elapsed n div n"

definition schedule_ok :: "block_ctx \<Rightarrow> VestingTokens \<Rightarrow> bool" where
  "schedule_ok ctx v \<longleftrightarrow> 0 < vt_NumBlocks v \<and> vt_NumBlocks v < 2 ^ 63 \<and>
     0 \<le> vt_StartBlock v \<and> vt_StartBlock v \<le> BlockHeight ctx \<and> BlockHeight ctx < 2 ^ 63 \<and>
     0 \<le> vt_TotalAmount v"

lemma VestedSoFar_eq:
  "schedule_ok ctx v \<Longrightarrow> VestedSoFar ctx v =
     Inr (vested (vt_TotalAmount v) (vt_NumBlocks v) (BlockHeight ctx - vt_StartBlock v))"
  by (simp add: schedule_ok_def VestedSoFar_def vested_def i64_diff int_quo_nonneg)

lemma vested_mono: "0 \<le> tot \<Longrightarrow> 0 < n \<Longrightarrow> e \<le> e' \<Longrightarrow> vested tot n e \<le> vested tot n e'"
  unfolding vested_def by (intro zdiv_mono1 mult_left_mono) auto

lemma vested_nonneg: "0 \<le> tot \<Longrightarrow> 0 < n \<Longrightarrow> 0 \<le> e \<Longrightarrow> 0 \<le> vested tot n e"
  by (simp add: vested_def pos_imp_zdiv_nonneg_iff)

lemma vested_all: "0 < n \<Longrightarrow> n \<le> e \<Longrightarrow> vested tot n e = tot"
  by (simp add: vested_def min_absorb2)

lemma vested_le: "0 \<le> tot \<Longrightarrow> 0 < n \<Longrightarrow> vested tot n e \<le> tot"
  using vested_mono [of tot n e "max e n"] vested_all [of n "max e n" tot] by simp

lemma vested_less: "0 < tot \<Longrightarrow> 0 < n \<Longrightarrow> e < n \<Longrightarrow> vested tot n e < tot"
proof -
  assume tot: "0 < tot" and n: "0 < n" and e: "e < n"
  have "tot * e div n * n \<le> tot * e" using n by (simp add: minus_mod_eq_div_mult [symmetric])
  also have "\<dots> < tot * n" using tot e by simp
  finally have "tot * e div n * n < tot * n" .
  with n have "tot * e div n < tot" by (simp add: mult_less_cancel_right)
  with e show "vested tot n e < tot" by (simp add: vested_def)
qed

end
