(* ===== verification/AssetProfile.thy ===== *)
theory AssetProfile
  imports SdkLib
begin

text \<open>
  The asset profile of a denomination (x/assetprofile): the stored record \<open>Entry\<close> and the
  operations of its keeper, \<open>keeper/entry.go\<close>.
\<close>

record Entry =
  en_Authority :: string
  en_BaseDenom :: string
  en_Decimals :: int
  en_Denom :: string
  en_Path :: string
  en_IbcChannelId :: string
  en_IbcCounterpartyChannelId :: string
  en_DisplayName :: string
  en_DisplaySymbol :: string
  en_Network :: string
  en_Address :: string
  en_ExternalSymbol :: string
  en_TransferLimit :: string
  en_Permissions :: "string list"
  en_UnitDenom :: string
  en_IbcCounterpartyDenom :: string
  en_IbcCounterpartyChainId :: string
  en_CommitEnabled :: bool
  en_WithdrawEnabled :: bool

text \<open>Go's zero value of \<open>Entry\<close>.\<close>

definition empty_entry :: Entry where
  "empty_entry =
     \<lparr>en_Authority = [], en_BaseDenom = [], en_Decimals = 0, en_Denom = [], en_Path = [],
      en_IbcChannelId = [], en_IbcCounterpartyChannelId = [], en_DisplayName = [],
      en_DisplaySymbol = [], en_Network = [], en_Address = [], en_ExternalSymbol = [],
      en_TransferLimit = [], en_Permissions = [], en_UnitDenom = [],
      en_IbcCounterpartyDenom = [], en_IbcCounterpartyChainId = [],
      en_CommitEnabled = False, en_WithdrawEnabled = False\<rparr>"

definition ErrAssetProfileNotFound :: err where
  "ErrAssetProfileNotFound = Sentinel ''assetprofile'' 1"

type_synonym ap_store = "(string, Entry) kvs"

text \<open>The key of an entry, \<open>types.EntryKey\<close>.\<close>

definition EntryKey :: "string \<Rightarrow> string" where
  "EntryKey baseDenom = baseDenom @ ''/''"

definition SetEntry :: "Entry \<Rightarrow> ap_store \<Rightarrow> ap_store" where
  "SetEntry e m = kv_set (EntryKey (en_BaseDenom e)) e m"

definition GetEntry :: "ap_store \<Rightarrow> string \<Rightarrow> Entry option" where
  "GetEntry m baseDenom = kv_get m (EntryKey baseDenom)"

text \<open>The iteration returns the first entry, in key order, with the denomination.\<close>

fun GetEntryByDenom :: "ap_store \<Rightarrow> string \<Rightarrow> Entry option" where
  "GetEntryByDenom [] denom = None"
| "GetEntryByDenom ((k, val) # m) denom =
     (if en_Denom val = denom then Some val else GetEntryByDenom m denom)"

definition RemoveEntry :: "string \<Rightarrow> ap_store \<Rightarrow> ap_store" where
  "RemoveEntry baseDenom m = kv_del (EntryKey baseDenom) m"

definition GetAllEntry :: "ap_store \<Rightarrow> Entry list" where
  "GetAllEntry m = map snd m"

definition BaseCurrency :: string where
  "BaseCurrency = ''uusdc''"

definition GetUsdcDenom :: "ap_store \<Rightarrow> string \<times> bool" where
  "GetUsdcDenom m =
     (case GetEntry m BaseCurrency of
        None \<Rightarrow> (BaseCurrency, False)
      | Some entry \<Rightarrow> (en_Denom entry, True))"

lemma EntryKey_inject [simp]: "EntryKey a = EntryKey b \<longleftrightarrow> a = b"
  by (simp add: EntryKey_def)

lemma GetEntry_SetEntry:
  "GetEntry (SetEntry e m) d = (if d = en_BaseDenom e then Some e else GetEntry m d)"
  by (simp add: GetEntry_def SetEntry_def kv_get_set)

lemma GetEntry_RemoveEntry:
  "GetEntry (RemoveEntry d m) d' = (if d' = d then None else GetEntry m d')"
  by (simp add: GetEntry_def RemoveEntry_def kv_get_del)

text \<open>Entries lie under their own base denominations.\<close>

definition entries_ok :: "ap_store \<Rightarrow> bool" where
  "entries_ok m \<longleftrightarrow> kv_ok m \<and> (\<forall>d e. GetEntry m d = Some e \<longrightarrow> en_BaseDenom e = d)"

lemma entries_ok_Set: "entries_ok m \<Longrightarrow> entries_ok (SetEntry e m)"
  by (auto simp: entries_ok_def GetEntry_SetEntry) (simp add: SetEntry_def kv_ok_set)

lemma entries_ok_Remove: "entries_ok m \<Longrightarrow> entries_ok (RemoveEntry d m)"
  by (auto simp: entries_ok_def GetEntry_RemoveEntry) (simp add: RemoveEntry_def kv_ok_del)

end
