(* ===== verification/SdkStd.thy ===== *)
theory SdkStd
  imports SdkLib
begin

text \<open>
  A concrete instance of the SDK interface, on which witnesses evaluate: a coin set is a list
  of coins with distinct denominations, an address is its own bech32 form, every non-empty
  string is a denomination. \<open>std_sdk_laws\<close> shows that it satisfies every law of \<open>sdk_laws\<close>,
  so the hypotheses the development makes about the SDK can hold together.
\<close>

fun amt_of :: "coins \<Rightarrow> string \<Rightarrow> int" where
  "amt_of [] d = 0"
| "amt_of (c # cs) d = (if Denom c = d then Amount c else amt_of cs d)"

fun upd1 :: "coins \<Rightarrow> string \<Rightarrow> int \<Rightarrow> coins" where
  "upd1 [] d a = (if a = 0 then [] else [\<lparr>Denom = d, Amount = a\<rparr>])"
| "upd1 (c # cs) d a =
     (if Denom c = d
      then (if Amount c + a = 0 then cs else \<lparr>Denom = d, Amount = Amount c + a\<rparr> # cs)
      else c # upd1 cs d a)"

fun std_add :: "coins \<Rightarrow> coin list \<Rightarrow> coins" where
  "std_add cs [] = cs"
| "std_add cs (d # ds) = std_add (upd1 cs (Denom d) (Amount d)) ds"

fun std_diff :: "coins \<Rightarrow> coin list \<Rightarrow> coins" where
  "std_diff cs [] = cs"
| "std_diff cs (d # ds) = std_diff (upd1 cs (Denom d) (- Amount d)) ds"

definition std_sub :: "coins \<Rightarrow> coin list \<Rightarrow> coins result" where
  "std_sub cs ds =
     (let r = std_diff cs ds
      in if list_all (\<lambda>c. 0 \<le> Amount c) r then Inr r
         else Inl (Panic ''negative coin amount''))"

definition std_valid :: "coins \<Rightarrow> bool" where
  "std_valid cs \<longleftrightarrow> distinct (map Denom cs) \<and> list_all (\<lambda>c. Denom c \<noteq> [] \<and> 0 < Amount c) cs"

definition std_new_coin :: "string \<Rightarrow> int \<Rightarrow> coin result" where
  "std_new_coin d a =
     (if d \<noteq> [] \<and> 0 \<le> a then Inr \<lparr>Denom = d, Amount = a\<rparr> else Inl (Panic ''invalid coin''))"

definition std_new_coins :: "coin list \<Rightarrow> coins result" where
  "std_new_coins cs =
     (let ds = filter (\<lambda>c. Amount c \<noteq> 0) cs
      in if std_valid ds then Inr ds else Inl (Panic ''invalid coins''))"

definition std_sdk :: sdk where
  "std_sdk =
     \<lparr>NewCoin = std_new_coin,
      NewCoins = std_new_coins,
      AmountOf = amt_of,
      CoinsAdd = std_add,
      CoinsSub = std_sub,
      IsAllPositive = (\<lambda>cs. cs \<noteq> [] \<and> list_all (\<lambda>c. 0 < Amount c) cs),
      CoinsValidate = (\<lambda>cs. if std_valid cs then Inr () else Inl (Plain ''invalid coins'')),
      ValidateDenom = (\<lambda>d. if d \<noteq> [] then Inr () else Inl (Plain ''invalid denom'')),
      AccAddressFromBech32 = (\<lambda>s. Inr s),
      ValAddressFromBech32 = (\<lambda>s. Inr s),
      AccAddressString = (\<lambda>a. a),
      NewModuleAddress = (\<lambda>m. ''module/'' @ m)\<rparr>"

lemma std_sdk_sel [simp]:
  "NewCoin std_sdk = std_new_coin" "NewCoins std_sdk = std_new_coins"
  "AmountOf std_sdk = amt_of" "CoinsAdd std_sdk = std_add" "CoinsSub std_sdk = std_sub"
  "IsAllPositive std_sdk = (\<lambda>cs. cs \<noteq> [] \<and> list_all (\<lambda>c. 0 < Amount c) cs)"
  "CoinsValidate std_sdk = (\<lambda>cs. if std_valid cs then Inr () else Inl (Plain ''invalid coins''))"
  "ValidateDenom std_sdk = (\<lambda>d. if d \<noteq> [] then Inr () else Inl (Plain ''invalid denom''))"
  "AccAddressFromBech32 std_sdk = (\<lambda>s. Inr s)" "ValAddressFromBech32 std_sdk = (\<lambda>s. Inr s)"
  "AccAddressString std_sdk = (\<lambda>a. a)"
  "NewModuleAddress std_sdk = (\<lambda>m. ''module/'' @ m)"
  by (simp_all add: std_sdk_def)

section \<open>The instance satisfies the laws\<close>

text \<open>While a subtraction runs, amounts may be negative: the sets it passes through have
  distinct denominations and no zero amount.\<close>

definition semi_valid :: "coins \<Rightarrow> bool" where
  "semi_valid cs \<longleftrightarrow> distinct (map Denom cs) \<and> (\<forall>c\<in>set cs. Denom c \<noteq> [] \<and> Amount c \<noteq> 0)"

lemma std_valid_semi: "std_valid cs \<Longrightarrow> semi_valid cs"
  by (auto simp: std_valid_def semi_valid_def list_all_iff)

lemma std_valid_iff: "std_valid cs \<longleftrightarrow> semi_valid cs \<and> list_all (\<lambda>c. 0 \<le> Amount c) cs"
  by (auto simp: std_valid_def semi_valid_def list_all_iff order_less_le)

lemma amt_of_notin: "d \<notin> Denom ` set cs \<Longrightarrow> amt_of cs d = 0"
  by (induction cs) auto

lemma amt_of_mem: "distinct (map Denom cs) \<Longrightarrow> c \<in> set cs \<Longrightarrow> amt_of cs (Denom c) = Amount c"
  by (induction cs) force+

lemma upd1_denoms: "Denom ` set (upd1 cs d a) \<subseteq> insert d (Denom ` set cs)"
  by (induction cs) auto

lemma semi_valid_upd1: "semi_valid cs \<Longrightarrow> d \<noteq> [] \<Longrightarrow> semi_valid (upd1 cs d a)"
proof (induction cs)
  case Nil
  then show ?case by (simp add: semi_valid_def)
next
  case (Cons c cs)
  from Cons.prems(1) have "semi_valid cs" by (simp add: semi_valid_def)
  then have IH: "semi_valid (upd1 cs d a)" by (rule Cons.IH) (rule Cons.prems(2))
  from Cons.prems(1) have c: "Denom c \<notin> Denom ` set cs" "distinct (map Denom cs)"
    "Denom c \<noteq> []" "Amount c \<noteq> 0" "\<forall>c\<in>set cs. Denom c \<noteq> [] \<and> Amount c \<noteq> 0"
    by (simp_all add: semi_valid_def)
  show ?case
  proof (cases "Denom c = d")
    case True
    then show ?thesis using c Cons.prems(2) by (auto simp: semi_valid_def)
  next
    case False
    then have "Denom c \<notin> Denom ` set (upd1 cs d a)" using c(1) upd1_denoms [of cs d a] by blast
    then show ?thesis using False c(3,4) IH by (simp add: semi_valid_def)
  qed
qed

lemma amt_of_upd1:
  "semi_valid cs \<Longrightarrow> amt_of (upd1 cs d a) d' = amt_of cs d' + (if d' = d then a else 0)"
  by (induction cs) (auto simp: semi_valid_def amt_of_notin)

lemma std_add_props:
  "semi_valid cs \<Longrightarrow> list_all (\<lambda>c. Denom c \<noteq> []) ds \<Longrightarrow> distinct (map Denom ds) \<Longrightarrow>
     semi_valid (std_add cs ds) \<and> amt_of (std_add cs ds) d = amt_of cs d + amt_of ds d"
  by (induction ds arbitrary: cs) (auto simp: semi_valid_upd1 amt_of_upd1 amt_of_notin)

lemma std_diff_props:
  "semi_valid cs \<Longrightarrow> list_all (\<lambda>c. Denom c \<noteq> []) ds \<Longrightarrow> distinct (map Denom ds) \<Longrightarrow>
     semi_valid (std_diff cs ds) \<and> amt_of (std_diff cs ds) d = amt_of cs d - amt_of ds d"
  by (induction ds arbitrary: cs) (auto simp: semi_valid_upd1 amt_of_upd1 amt_of_notin)

lemma semi_valid_nonneg_iff:
  "semi_valid cs \<Longrightarrow> list_all (\<lambda>c. 0 \<le> Amount c) cs \<longleftrightarrow> (\<forall>d. 0 \<le> amt_of cs d)"
proof
  assume "list_all (\<lambda>c. 0 \<le> Amount c) cs"
  then show "\<forall>d. 0 \<le> amt_of cs d" by (induction cs) auto
next
  assume cs: "semi_valid cs" and nn: "\<forall>d. 0 \<le> amt_of cs d"
  have "0 \<le> Amount c" if "c \<in> set cs" for c
    using cs nn [rule_format, of "Denom c"] amt_of_mem [OF _ that]
    by (simp add: semi_valid_def)
  then show "list_all (\<lambda>c. 0 \<le> Amount c) cs" by (simp add: list_all_iff)
qed

lemma std_valid_amounts: "std_valid cs \<longleftrightarrow> semi_valid cs \<and> (\<forall>d. 0 \<le> amt_of cs d)"
  using semi_valid_nonneg_iff std_valid_iff by blast

lemma std_valid_Nil_iff: "std_valid cs \<Longrightarrow> cs = [] \<longleftrightarrow> (\<forall>d. amt_of cs d = 0)"
  by (cases cs) (auto simp: std_valid_def dest: spec [of _ "Denom (hd cs)"])

lemma std_ok [simp]:
  "coins_ok std_sdk cs = std_valid cs" "denom_ok std_sdk d = (d \<noteq> [])"
  by (simp_all add: coins_ok_def denom_ok_def)

lemma std_add_valid:
  "std_valid cs \<Longrightarrow> list_all (\<lambda>c. Denom c \<noteq> [] \<and> 0 \<le> Amount c) ds \<Longrightarrow> distinct (map Denom ds) \<Longrightarrow>
     std_valid (std_add cs ds)"
proof -
  assume cs: "std_valid cs" and ds: "list_all (\<lambda>c. Denom c \<noteq> [] \<and> 0 \<le> Amount c) ds"
    "distinct (map Denom ds)"
  have "0 \<le> amt_of ds d" for d using ds(1) by (induction ds) auto
  moreover have "list_all (\<lambda>c. Denom c \<noteq> []) ds" using ds(1) by (auto simp: list_all_iff)
  ultimately show "std_valid (std_add cs ds)"
    using cs ds(2) std_add_props [of cs ds] by (simp add: std_valid_amounts)
qed

lemma std_sub_props:
  assumes "std_valid cs" "list_all (\<lambda>c. Denom c \<noteq> []) ds" "distinct (map Denom ds)"
  shows "std_sub cs ds =
    (if \<forall>d. amt_of ds d \<le> amt_of cs d then Inr (std_diff cs ds)
     else Inl (Panic ''negative coin amount''))"
    and "(\<forall>d. amt_of ds d \<le> amt_of cs d) \<Longrightarrow> std_valid (std_diff cs ds)"
    and "amt_of (std_diff cs ds) d = amt_of cs d - amt_of ds d"
proof -
  have p: "semi_valid (std_diff cs ds)" "\<And>d. amt_of (std_diff cs ds) d = amt_of cs d - amt_of ds d"
    using std_diff_props [OF std_valid_semi [OF assms(1)] assms(2,3)] by auto
  show "std_sub cs ds =
    (if \<forall>d. amt_of ds d \<le> amt_of cs d then Inr (std_diff cs ds)
     else Inl (Panic ''negative coin amount''))"
    using semi_valid_nonneg_iff [OF p(1)] by (simp add: std_sub_def p(2))
  show "(\<forall>d. amt_of ds d \<le> amt_of cs d) \<Longrightarrow> std_valid (std_diff cs ds)"
    by (simp add: std_valid_amounts p)
  show "amt_of (std_diff cs ds) d = amt_of cs d - amt_of ds d" by (rule p(2))
qed

lemma std_new_coin_laws: "new_coin_laws std_sdk"
  by (auto simp: new_coin_laws_def std_new_coin_def std_new_coins_def std_valid_def)

lemma std_coins_laws: "coins_laws std_sdk"
proof -
  have "0 \<le> amt_of cs d" if "std_valid cs" for cs d using that by (simp add: std_valid_amounts)
  moreover have "list_all (\<lambda>c. 0 < Amount c) cs" if "std_valid cs" for cs
    using that by (simp add: std_valid_def list_all_iff)
  ultimately show ?thesis
    using std_valid_Nil_iff by (simp add: coins_laws_def) (simp add: std_valid_def)
qed

lemma std_coins_list_laws: "coins_list_laws std_sdk"
  by (auto simp: coins_list_laws_def std_valid_def list_all_iff amt_of_mem amt_of_notin)

lemma std_coins_add_laws: "coins_add_laws std_sdk"
proof -
  have 1: "std_valid (std_add cs [\<lparr>Denom = d, Amount = a\<rparr>]) \<and>
      (\<forall>d'. amt_of (std_add cs [\<lparr>Denom = d, Amount = a\<rparr>]) d' =
        amt_of cs d' + (if d' = d then a else 0))"
    if "std_valid cs" "d \<noteq> []" "0 \<le> a" for cs d a
    using that std_add_valid [of cs "[\<lparr>Denom = d, Amount = a\<rparr>]"]
      std_add_props [OF std_valid_semi [OF that(1)], of "[\<lparr>Denom = d, Amount = a\<rparr>]"]
    by simp
  have 2: "std_valid (std_add cs ds) \<and>
      (\<forall>d. amt_of (std_add cs ds) d = amt_of cs d + amt_of ds d)"
    if "std_valid cs" "std_valid ds" for cs ds
  proof -
    have "list_all (\<lambda>c. Denom c \<noteq> [] \<and> 0 \<le> Amount c) ds" "distinct (map Denom ds)"
      "list_all (\<lambda>c. Denom c \<noteq> []) ds"
      using that(2) by (auto simp: std_valid_def list_all_iff less_imp_le)
    then show ?thesis
      using that(1) std_add_valid [of cs ds] std_add_props [OF std_valid_semi [OF that(1)], of ds]
      by blast
  qed
  show ?thesis using 1 2 by (simp add: coins_add_laws_def)
qed

lemma std_coins_sub_laws: "coins_sub_laws std_sdk"
proof -
  have 1: "\<exists>cs'. std_sub cs [\<lparr>Denom = d, Amount = a\<rparr>] = Inr cs' \<and> std_valid cs' \<and>
      (\<forall>d'. amt_of cs' d' = amt_of cs d' - (if d' = d then a else 0))"
    if "std_valid cs" "d \<noteq> []" "0 \<le> a" "a \<le> amt_of cs d" for cs d a
    using that std_sub_props [of cs "[\<lparr>Denom = d, Amount = a\<rparr>]"]
    by (auto simp: std_valid_amounts)
  have l: "list_all (\<lambda>c. Denom c \<noteq> []) ds \<and> distinct (map Denom ds)" if "std_valid ds" for ds
    using that by (auto simp: std_valid_def list_all_iff)
  have 2: "\<exists>cs'. std_sub cs ds = Inr cs' \<and> std_valid cs' \<and>
      (\<forall>d. amt_of cs' d = amt_of cs d - amt_of ds d)"
    if "std_valid cs" "std_valid ds" "\<forall>d. amt_of ds d \<le> amt_of cs d" for cs ds
    using that l [of ds] std_sub_props [of cs ds] by auto
  have 3: "std_sub cs ds = Inl (Panic ''negative coin amount'')"
    if "std_valid cs" "std_valid ds" "\<exists>d. amt_of cs d < amt_of ds d" for cs ds
    using that l [of ds] std_sub_props(1) [of cs ds] by (auto simp: not_le)
  show ?thesis using 1 2 3 by (simp add: coins_sub_laws_def)
qed

lemma std_sdk_laws: "sdk_laws std_sdk"
  by (simp add: sdk_laws_def std_new_coin_laws std_coins_laws std_coins_list_laws std_coins_add_laws
      std_coins_sub_laws addr_laws_def)

end
