(* ===== verification/SdkBank.thy ===== *)
theory SdkBank
  imports SdkStd
begin

text \<open>
  The bank keeper of the SDK, as the modules of the repository use it: an interface over an
  abstract ledger state \<open>'e\<close> (which also holds whatever else lies outside the module being
  modelled). \<open>bank_laws\<close> states what the documentation promises of the ledger: every
  transfer, mint and burn moves exactly the coins it names, and fails without them.
  \<open>std_bank\<close> is a concrete ledger that satisfies the laws.
\<close>

record 'e bank =
  BkMint :: "string \<Rightarrow> coins \<Rightarrow> 'e \<Rightarrow> 'e result"
  BkBurn :: "string \<Rightarrow> coins \<Rightarrow> 'e \<Rightarrow> 'e result"
  BkModToAcc :: "string \<Rightarrow> addr \<Rightarrow> coins \<Rightarrow> 'e \<Rightarrow> 'e result"
  BkAccToMod :: "addr \<Rightarrow> string \<Rightarrow> coins \<Rightarrow> 'e \<Rightarrow> 'e result"
  BkModToMod :: "string \<Rightarrow> string \<Rightarrow> coins \<Rightarrow> 'e \<Rightarrow> 'e result"
  BkSend :: "addr \<Rightarrow> addr \<Rightarrow> coins \<Rightarrow> 'e \<Rightarrow> 'e result"
  BkBalance :: "addr \<Rightarrow> string \<Rightarrow> 'e \<Rightarrow> int"
  BkAllBalances :: "addr \<Rightarrow> 'e \<Rightarrow> coins"
  BkSpendable :: "addr \<Rightarrow> 'e \<Rightarrow> coins"

text \<open>How a transfer of \<open>cs\<close> from \<open>src\<close> to \<open>dst\<close> moves the balance of one account in one
  denomination.\<close>

definition moved :: "sdk \<Rightarrow> addr \<Rightarrow> addr \<Rightarrow> coins \<Rightarrow> addr \<Rightarrow> string \<Rightarrow> int" where
  "moved S src dst cs a d =
     (if a = dst then AmountOf S cs d else 0) - (if a = src then AmountOf S cs d else 0)"

definition bank_move_laws :: "sdk \<Rightarrow> 'e bank \<Rightarrow> bool" where
  "bank_move_laws S B \<longleftrightarrow>
     (\<forall>m a cs e e'. coins_ok S cs \<and> BkModToAcc B m a cs e = Inr e' \<longrightarrow>
        (\<forall>x d. BkBalance B x d e' = BkBalance B x d e + moved S (NewModuleAddress S m) a cs x d)) \<and>
     (\<forall>m a cs e e'. coins_ok S cs \<and> BkAccToMod B a m cs e = Inr e' \<longrightarrow>
        (\<forall>x d. BkBalance B x d e' = BkBalance B x d e + moved S a (NewModuleAddress S m) cs x d))"

definition bank_supply_laws :: "sdk \<Rightarrow> 'e bank \<Rightarrow> bool" where
  "bank_supply_laws S B \<longleftrightarrow>
     (\<forall>m cs e e'. coins_ok S cs \<and> BkMint B m cs e = Inr e' \<longrightarrow>
        (\<forall>x d. BkBalance B x d e' =
           BkBalance B x d e + (if x = NewModuleAddress S m then AmountOf S cs d else 0))) \<and>
     (\<forall>m cs e e'. coins_ok S cs \<and> BkBurn B m cs e = Inr e' \<longrightarrow>
        (\<forall>x d. BkBalance B x d e' =
           BkBalance B x d e - (if x = NewModuleAddress S m then AmountOf S cs d else 0)))"

definition bank_laws :: "sdk \<Rightarrow> 'e bank \<Rightarrow> bool" where
  "bank_laws S B \<longleftrightarrow> bank_move_laws S B \<and> bank_supply_laws S B"

lemma BkModToAcc_balance:
  "bank_laws S B \<Longrightarrow> coins_ok S cs \<Longrightarrow> BkModToAcc B m a cs e = Inr e' \<Longrightarrow>
     BkBalance B x d e' = BkBalance B x d e + moved S (NewModuleAddress S m) a cs x d"
  unfolding bank_laws_def bank_move_laws_def by blast

lemma BkAccToMod_balance:
  "bank_laws S B \<Longrightarrow> coins_ok S cs \<Longrightarrow> BkAccToMod B a m cs e = Inr e' \<Longrightarrow>
     BkBalance B x d e' = BkBalance B x d e + moved S a (NewModuleAddress S m) cs x d"
  unfolding bank_laws_def bank_move_laws_def by blast

lemma BkMint_balance:
  "bank_laws S B \<Longrightarrow> coins_ok S cs \<Longrightarrow> BkMint B m cs e = Inr e' \<Longrightarrow>
     BkBalance B x d e' =
       BkBalance B x d e + (if x = NewModuleAddress S m then AmountOf S cs d else 0)"
  unfolding bank_laws_def bank_supply_laws_def by blast

lemma BkBurn_balance:
  "bank_laws S B \<Longrightarrow> coins_ok S cs \<Longrightarrow> BkBurn B m cs e = Inr e' \<Longrightarrow>
     BkBalance B x d e' =
       BkBalance B x d e - (if x = NewModuleAddress S m then AmountOf S cs d else 0)"
  unfolding bank_laws_def bank_supply_laws_def by blast

section \<open>A concrete ledger\<close>

text \<open>A ledger of account, denomination and amount; a debit of more than the balance fails.\<close>

type_synonym ledger = "(addr \<times> string, int) kvs"

definition lg_bal :: "addr \<Rightarrow> string \<Rightarrow> ledger \<Rightarrow> int" where
  "lg_bal a d e = (case kv_get e (a, d) of None \<Rightarrow> 0 | Some x \<Rightarrow> x)"

fun lg_add :: "addr \<Rightarrow> coins \<Rightarrow> ledger \<Rightarrow> ledger" where
  "lg_add a [] e = e"
| "lg_add a (c # cs) e = lg_add a cs ((((a, Denom c), lg_bal a (Denom c) e + Amount c)) # e)"

definition lg_debit :: "addr \<Rightarrow> coins \<Rightarrow> ledger \<Rightarrow> ledger result" where
  "lg_debit a cs e =
     (if list_all (\<lambda>c. Amount c \<le> lg_bal a (Denom c) e) cs
      then Inr (lg_add a (map (\<lambda>c. c\<lparr>Amount := - Amount c\<rparr>) cs) e)
      else Inl (Sentinel ''sdk'' 5))"

definition lg_send :: "addr \<Rightarrow> addr \<Rightarrow> coins \<Rightarrow> ledger \<Rightarrow> ledger result" where
  "lg_send a b cs e = rbind (lg_debit a cs e) (\<lambda>e1. Inr (lg_add b cs e1))"

definition std_bank :: "ledger bank" where
  "std_bank =
     \<lparr>BkMint = (\<lambda>m cs e. Inr (lg_add (NewModuleAddress std_sdk m) cs e)),
      BkBurn = (\<lambda>m cs e. lg_debit (NewModuleAddress std_sdk m) cs e),
      BkModToAcc = (\<lambda>m a cs e. lg_send (NewModuleAddress std_sdk m) a cs e),
      BkAccToMod = (\<lambda>a m cs e. lg_send a (NewModuleAddress std_sdk m) cs e),
      BkModToMod = (\<lambda>m n cs e. lg_send (NewModuleAddress std_sdk m) (NewModuleAddress std_sdk n) cs e),
      BkSend = lg_send,
      BkBalance = lg_bal,
      BkAllBalances = (\<lambda>a e. []),
      BkSpendable = (\<lambda>a e. [])\<rparr>"

lemma std_bank_sel [simp]:
  "BkMint std_bank m cs e = Inr (lg_add (''module/'' @ m) cs e)"
  "BkBurn std_bank m cs e = lg_debit (''module/'' @ m) cs e"
  "BkModToAcc std_bank m a cs e = lg_send (''module/'' @ m) a cs e"
  "BkAccToMod std_bank a m cs e = lg_send a (''module/'' @ m) cs e"
  "BkBalance std_bank = lg_bal"
  by (simp_all add: std_bank_def)

lemma lg_bal_upd: "lg_bal a d (((b, d'), x) # e) = (if a = b \<and> d = d' then x else lg_bal a d e)"
  by (simp add: lg_bal_def kv_get_def)

lemma lg_bal_add:
  "distinct (map Denom cs) \<Longrightarrow>
     lg_bal a d (lg_add b cs e) = lg_bal a d e + (if a = b then amt_of cs d else 0)"
  by (induction cs arbitrary: e) (auto simp: lg_bal_upd amt_of_notin)

lemma amt_of_neg: "amt_of (map (\<lambda>c. c\<lparr>Amount := - Amount c\<rparr>) cs) d = - amt_of cs d"
  by (induction cs) auto

lemma lg_debit_bal:
  "distinct (map Denom cs) \<Longrightarrow> lg_debit b cs e = Inr e' \<Longrightarrow>
     lg_bal a d e' = lg_bal a d e - (if a = b then amt_of cs d else 0)"
  by (auto simp: lg_debit_def lg_bal_add amt_of_neg comp_def split: if_splits)

lemma lg_send_bal:
  "std_valid cs \<Longrightarrow> lg_send a b cs e = Inr e' \<Longrightarrow>
     lg_bal x d e' = lg_bal x d e + moved std_sdk a b cs x d"
  by (auto simp: lg_send_def moved_def std_valid_def lg_bal_add lg_debit_bal)

lemma std_bank_laws: "bank_laws std_sdk std_bank"
  by (auto simp: bank_laws_def bank_move_laws_def bank_supply_laws_def lg_send_bal
      lg_debit_bal lg_bal_add std_valid_def)

end
