(* ===== verification/Dec.thy ===== *)
theory Dec
  imports Prelude
begin

text \<open>
  The decimals of \<open>cosmossdk.io/math\<close>, a library the repository calls. A \<open>LegacyDec\<close> is the
  integer it stores, the value times \<open>10 ^ 18\<close>: sums, differences, comparisons and products
  with an integer are exact on it. Multiplication and division round, so they are parameters
  of the model, the fields of \<open>dec_ops\<close>; \<open>dec_laws\<close> states the documented error of each,
  and \<open>std_dec\<close> is a concrete instance that satisfies the laws.
\<close>

abbreviation dec_one :: int where
  "dec_one \<equiv> 1000000000000000000"

text \<open>\<open>LegacyNewDecFromInt\<close>.\<close>

definition dec_of_int :: "int \<Rightarrow> int" where
  "dec_of_int n = n * dec_one"

record dec_ops =
  DMul :: "int \<Rightarrow> int \<Rightarrow> int"
  DMulTruncate :: "int \<Rightarrow> int \<Rightarrow> int"
  DQuo :: "int \<Rightarrow> int \<Rightarrow> int result"
  DQuoTruncate :: "int \<Rightarrow> int \<Rightarrow> int result"
  DQuoInt :: "int \<Rightarrow> int \<Rightarrow> int result"
  DTruncateInt :: "int \<Rightarrow> int"
  DRoundInt :: "int \<Rightarrow> int"
  DCeilInt :: "int \<Rightarrow> int"

text \<open>\<open>Mul\<close> rounds to the nearest decimal, \<open>MulTruncate\<close> and \<open>TruncateInt\<close> cut towards zero;
  \<open>Quo\<close> cuts the quotient at 36 digits and rounds that to 18; a zero divisor panics.\<close>

definition dec_mul_laws :: "dec_ops \<Rightarrow> bool" where
  "dec_mul_laws D \<longleftrightarrow>
     (\<forall>a b. 2 * \<bar>dec_one * DMul D a b - a * b\<bar> \<le> dec_one) \<and>
     (\<forall>a b. 0 \<le> a \<and> 0 \<le> b \<longrightarrow> DMulTruncate D a b = a * b div dec_one) \<and>
     (\<forall>a. 0 \<le> a \<longrightarrow> DTruncateInt D a = a div dec_one) \<and>
     (\<forall>a. 2 * \<bar>dec_one * DRoundInt D a - a\<bar> \<le> dec_one) \<and>
     (\<forall>a. a \<le> dec_one * DCeilInt D a \<and> dec_one * DCeilInt D a < a + dec_one)"

definition dec_quo_laws :: "dec_ops \<Rightarrow> bool" where
  "dec_quo_laws D \<longleftrightarrow>
     (\<forall>a. DQuo D a 0 = Inl (Panic ''division by zero'')) \<and>
     (\<forall>a b. 0 \<le> a \<and> 0 < b \<longrightarrow>
        (\<exists>q. DQuo D a b = Inr q \<and>
           2 * \<bar>dec_one * q - a * dec_one ^ 2 div b\<bar> \<le> dec_one)) \<and>
     (\<forall>a. DQuoTruncate D a 0 = Inl (Panic ''division by zero'')) \<and>
     (\<forall>a b. 0 \<le> a \<and> 0 < b \<longrightarrow> DQuoTruncate D a b = Inr (a * dec_one div b)) \<and>
     (\<forall>a. DQuoInt D a 0 = Inl (Panic ''division by zero'')) \<and>
     (\<forall>a b. 0 \<le> a \<and> 0 < b \<longrightarrow> DQuoInt D a b = Inr (a div b))"

definition dec_laws :: "dec_ops \<Rightarrow> bool" where
  "dec_laws D \<longleftrightarrow> dec_mul_laws D \<and> dec_quo_laws D"

section \<open>The laws in the form the proofs use\<close>

lemma DMul_bound: "dec_laws D \<Longrightarrow> 2 * \<bar>dec_one * DMul D a b - a * b\<bar> \<le> dec_one"
  unfolding dec_laws_def dec_mul_laws_def by blast

lemma DMulTruncate_eq: "dec_laws D \<Longrightarrow> 0 \<le> a \<Longrightarrow> 0 \<le> b \<Longrightarrow> DMulTruncate D a b = a * b div dec_one"
  unfolding dec_laws_def dec_mul_laws_def by blast

lemma DTruncateInt_eq: "dec_laws D \<Longrightarrow> 0 \<le> a \<Longrightarrow> DTruncateInt D a = a div dec_one"
  unfolding dec_laws_def dec_mul_laws_def by blast

lemma DRoundInt_bound: "dec_laws D \<Longrightarrow> 2 * \<bar>dec_one * DRoundInt D a - a\<bar> \<le> dec_one"
  unfolding dec_laws_def dec_mul_laws_def by blast

lemma DQuo_zero: "dec_laws D \<Longrightarrow> DQuo D a 0 = Inl (Panic ''division by zero'')"
  unfolding dec_laws_def dec_quo_laws_def by blast

lemma DQuo_Inr:
  assumes "dec_laws D" "0 \<le> a" "0 < b"
  obtains q where "DQuo D a b = Inr q"
    "2 * \<bar>dec_one * q - a * dec_one ^ 2 div b\<bar> \<le> dec_one"
  using assms unfolding dec_laws_def dec_quo_laws_def by blast

lemma DQuoInt_eq: "dec_laws D \<Longrightarrow> 0 \<le> a \<Longrightarrow> 0 < b \<Longrightarrow> DQuoInt D a b = Inr (a div b)"
  unfolding dec_laws_def dec_quo_laws_def by blast

lemma DQuoTruncate_eq: "dec_laws D \<Longrightarrow> 0 \<le> a \<Longrightarrow> 0 < b \<Longrightarrow> DQuoTruncate D a b = Inr (a * dec_one div b)"
  unfolding dec_laws_def dec_quo_laws_def by blast

lemma nearest_exact: "2 * \<bar>dec_one * x - dec_one * y\<bar> \<le> dec_one \<Longrightarrow> x = y"
proof -
  assume "2 * \<bar>dec_one * x - dec_one * y\<bar> \<le> dec_one"
  then have "\<bar>dec_one * (x - y)\<bar> < dec_one" by (simp add: right_diff_distrib)
  then have "\<bar>x - y\<bar> < 1" by (simp add: abs_mult)
  then show "x = y" by simp
qed

lemma nearest_nonneg:
  assumes "2 * \<bar>dec_one * x - y\<bar> \<le> dec_one" and "0 \<le> y"
  shows "0 \<le> x"
proof (rule ccontr)
  assume "\<not> 0 \<le> x"
  then have "dec_one * x \<le> - dec_one" by simp
  with assms show False by (simp add: abs_le_iff)
qed

text \<open>Where no digit is lost, the product is exact; products of non-negative decimals are
  not negative, and a factor of at most one does not enlarge.\<close>

lemma DMul_exact: "dec_laws D \<Longrightarrow> a * b = dec_one * c \<Longrightarrow> DMul D a b = c"
  using DMul_bound [of D a b] nearest_exact by auto

lemma DMul_one: "dec_laws D \<Longrightarrow> DMul D a dec_one = a"
  by (rule DMul_exact) auto

lemma DMul_nonneg:
  assumes "dec_laws D" "0 \<le> a" "0 \<le> b"
  shows "0 \<le> DMul D a b"
  by (rule nearest_nonneg [OF DMul_bound [OF assms(1)]]) (simp add: assms)

lemma DMul_le:
  assumes "dec_laws D" "0 \<le> a" "b \<le> dec_one"
  shows "DMul D a b \<le> a"
proof -
  have "a * b \<le> a * dec_one" using assms by (intro mult_left_mono) auto
  then have "dec_one * DMul D a b < dec_one * (a + 1)"
    using DMul_bound [OF assms(1), of a b] by (simp add: algebra_simps)
  then show ?thesis by simp
qed

lemma DQuo_nonneg:
  assumes "dec_laws D" "0 \<le> a" "0 < b" "DQuo D a b = Inr q"
  shows "0 \<le> q"
proof -
  obtain q' where q': "DQuo D a b = Inr q'"
    "2 * \<bar>dec_one * q' - a * dec_one ^ 2 div b\<bar> \<le> dec_one"
    by (rule DQuo_Inr [OF assms(1-3)])
  have "0 \<le> a * dec_one ^ 2 div b" using assms by (simp add: pos_imp_zdiv_nonneg_iff)
  with q' have "0 \<le> q'" by (blast intro: nearest_nonneg)
  then show ?thesis using q'(1) assms(4) by simp
qed

section \<open>A concrete instance\<close>

definition chop_pos :: "int \<Rightarrow> int" where
  "chop_pos x =
     (let q = x div dec_one; r = x mod dec_one
      in if 2 * r < dec_one then q
         else if 2 * r > dec_one then q + 1
         else if even q then q else q + 1)"

definition chop_round :: "int \<Rightarrow> int" where
  "chop_round x = (if x < 0 then - chop_pos (- x) else chop_pos x)"

definition std_dec :: dec_ops where
  "std_dec =
     \<lparr>DMul = (\<lambda>a b. chop_round (a * b)),
      DMulTruncate = (\<lambda>a b. a * b sdiv dec_one),
      DQuo = (\<lambda>a b. if b = 0 then Inl (Panic ''division by zero'')
                     else Inr (chop_round (a * dec_one ^ 2 sdiv b))),
      DQuoTruncate = (\<lambda>a b. if b = 0 then Inl (Panic ''division by zero'')
                     else Inr (a * dec_one sdiv b)),
      DQuoInt = (\<lambda>a b. if b = 0 then Inl (Panic ''division by zero'') else Inr (a sdiv b)),
      DTruncateInt = (\<lambda>a. a sdiv dec_one),
      DRoundInt = chop_round,
      DCeilInt = (\<lambda>a. - ((- a) div dec_one))\<rparr>"

lemma chop_pos_bound: "2 * \<bar>dec_one * chop_pos x - x\<bar> \<le> dec_one"
proof -
  let ?q = "x div dec_one" and ?r = "x mod dec_one"
  have x: "x = dec_one * ?q + ?r" by simp
  have r: "0 \<le> ?r" "?r < dec_one" by simp_all
  have "chop_pos x = ?q \<and> 2 * ?r \<le> dec_one \<or> chop_pos x = ?q + 1 \<and> dec_one \<le> 2 * ?r"
    by (auto simp: chop_pos_def Let_def)
  then show ?thesis
  proof
    assume c: "chop_pos x = ?q \<and> 2 * ?r \<le> dec_one"
    then have "dec_one * chop_pos x - x = - ?r" using x by linarith
    then show ?thesis using c r by simp
  next
    assume c: "chop_pos x = ?q + 1 \<and> dec_one \<le> 2 * ?r"
    then have "dec_one * chop_pos x = dec_one * ?q + dec_one" by (simp add: distrib_left)
    then have "dec_one * chop_pos x - x = dec_one - ?r" using x by linarith
    then show ?thesis using c r by simp
  qed
qed

lemma chop_round_bound: "2 * \<bar>dec_one * chop_round x - x\<bar> \<le> dec_one"
  using chop_pos_bound [of x] chop_pos_bound [of "- x"]
  by (simp add: chop_round_def) linarith

lemma ceil_bound: "a \<le> dec_one * - (- a div dec_one) \<and> dec_one * - (- a div dec_one) < a + dec_one"
proof -
  have "- a = dec_one * (- a div dec_one) + - a mod dec_one" by simp
  moreover have "0 \<le> - a mod dec_one" "- a mod dec_one < dec_one" by simp_all
  ultimately show ?thesis by linarith
qed

lemma std_dec_laws: "dec_laws std_dec"
proof -
  have "dec_mul_laws std_dec"
    unfolding dec_mul_laws_def std_dec_def
    using chop_round_bound ceil_bound by (simp add: sdiv_nonneg del: mult_minus_right)
  moreover have "dec_quo_laws std_dec"
    unfolding dec_quo_laws_def std_dec_def
    using chop_round_bound by (simp add: sdiv_nonneg)
  ultimately show ?thesis by (simp add: dec_laws_def)
qed

end
