(* ===== verification/CommitmentKeeper.thy ===== *)
theory CommitmentKeeper
  imports Commitments AssetProfile SdkBank Dec
begin

text \<open>
  The keeper of the commitment module (x/commitment/keeper): its store, the Eden and EdenB
  side of mint, burn and send (\<open>keeper.go\<close>), and the commitments themselves
  (\<open>commitments.go\<close>, \<open>params.go\<close>, \<open>hooks.go\<close>, \<open>total_supply.go\<close>).
\<close>

section \<open>The store\<close>

record VestingInfo =
  vi_BaseDenom :: string
  vi_VestingDenom :: string
  vi_NumBlocks :: int
  vi_VestNowFactor :: int
  vi_NumMaxVestings :: int

record Params =
  p_VestingInfos :: "VestingInfo list"
  p_TotalCommitted :: coins
  p_NumberOfCommitments :: int
  p_EnableVestNow :: bool
  p_StartAirdropClaimHeight :: int
  p_EndAirdropClaimHeight :: int
  p_EnableClaim :: bool
  p_StartKolClaimHeight :: int
  p_EndKolClaimHeight :: int
  p_StartRewardProgramClaimHeight :: int
  p_EndRewardProgramClaimHeight :: int

text \<open>Go's zero value, which \<open>GetParams\<close> returns for an empty store.\<close>

definition zero_params :: Params where
  "zero_params =
     \<lparr>p_VestingInfos = [], p_TotalCommitted = [], p_NumberOfCommitments = 0,
      p_EnableVestNow = False, p_StartAirdropClaimHeight = 0, p_EndAirdropClaimHeight = 0,
      p_EnableClaim = False, p_StartKolClaimHeight = 0, p_EndKolClaimHeight = 0,
      p_StartRewardProgramClaimHeight = 0, p_EndRewardProgramClaimHeight = 0\<rparr>"

record TotalSupply =
  ts_TotalEdenSupply :: int
  ts_TotalEdenbSupply :: int
  ts_TotalEdenVested :: int

text \<open>The airdrop lists hold an address and an amount each; \<open>KolList\<close> also two flags.\<close>

record AirdropEntry =
  ad_Address :: string
  ad_Amount :: int

record AirdropClaimed =
  ac_Address :: string
  ac_Claimed :: bool

record KolList =
  kol_Address :: string
  kol_Amount :: int
  kol_Claimed :: bool
  kol_Refunded :: bool

record RewardProgram =
  rp_Address :: string
  rp_Amount :: int
  rp_Claimed :: bool

record TotalClaimed =
  tc_TotalElysClaimed :: int
  tc_TotalEdenClaimed :: int

text \<open>The module's store, one field per key prefix of \<open>types/keys.go\<close>, and \<open>cs_ext\<close>, the
  state outside the module: the bank's ledger and the other modules' stores.\<close>

record 'e cstate =
  cs_commitments :: "(addr, Commitments) kvs"
  cs_params :: "Params option"
  cs_supply :: "TotalSupply option"
  cs_atom :: "(addr, AirdropEntry) kvs"
  cs_nft :: "(addr, AirdropEntry) kvs"
  cs_cadet :: "(addr, AirdropEntry) kvs"
  cs_governor :: "(addr, AirdropEntry) kvs"
  cs_airdrop_claimed :: "(addr, AirdropClaimed) kvs"
  cs_total_claimed :: "TotalClaimed option"
  cs_kol :: "(addr, KolList) kvs"
  cs_reward :: "(addr, RewardProgram) kvs"
  cs_total_reward :: "TotalClaimed option"
  cs_ext :: 'e

section \<open>The keeper's dependencies\<close>

text \<open>The interface \<open>CommitmentHooks\<close> (types/interfaces.go): what other modules do when
  commitments change, over the whole state.\<close>

record 's commit_hooks =
  hk_CommitmentChanged :: "addr \<Rightarrow> coins \<Rightarrow> 's \<Rightarrow> 's result"
  hk_EdenUncommitted :: "addr \<Rightarrow> coin \<Rightarrow> 's \<Rightarrow> 's result"
  hk_BeforeEdenInitialCommit :: "addr \<Rightarrow> 's \<Rightarrow> 's result"
  hk_BeforeEdenBInitialCommit :: "addr \<Rightarrow> 's \<Rightarrow> 's result"
  hk_BeforeEdenCommitChange :: "addr \<Rightarrow> 's \<Rightarrow> 's result"
  hk_BeforeEdenBCommitChange :: "addr \<Rightarrow> 's \<Rightarrow> 's result"

definition MultiCommitmentHooks :: "'s commit_hooks list \<Rightarrow> 's commit_hooks" where
  "MultiCommitmentHooks mh =
     \<lparr>hk_CommitmentChanged = (\<lambda>creator amount. run_hooks (map (\<lambda>h. hk_CommitmentChanged h creator amount) mh)),
      hk_EdenUncommitted = (\<lambda>creator amount. run_hooks (map (\<lambda>h. hk_EdenUncommitted h creator amount) mh)),
      hk_BeforeEdenInitialCommit = (\<lambda>addr. run_hooks (map (\<lambda>h. hk_BeforeEdenInitialCommit h addr) mh)),
      hk_BeforeEdenBInitialCommit = (\<lambda>addr. run_hooks (map (\<lambda>h. hk_BeforeEdenBInitialCommit h addr) mh)),
      hk_BeforeEdenCommitChange = (\<lambda>addr. run_hooks (map (\<lambda>h. hk_BeforeEdenCommitChange h addr) mh)),
      hk_BeforeEdenBCommitChange = (\<lambda>addr. run_hooks (map (\<lambda>h. hk_BeforeEdenBCommitChange h addr) mh))\<rparr>"

text \<open>The expected keepers: bank, asset profile, staking and account keepers, over the state
  outside the module.\<close>

record 'e keeper =
  k_sdk :: sdk
  k_dec :: dec_ops
  k_bank :: "'e bank"
  k_GetEntry :: "'e \<Rightarrow> string \<Rightarrow> Entry option"
  k_Delegate :: "string \<Rightarrow> string \<Rightarrow> coin \<Rightarrow> 'e \<Rightarrow> 'e result"
  k_Undelegate :: "string \<Rightarrow> string \<Rightarrow> coin \<Rightarrow> 'e \<Rightarrow> 'e result"
  k_IsVestingAccount :: "'e \<Rightarrow> addr \<Rightarrow> bool"
  k_hooks :: "'e cstate commit_hooks option"
  k_authority :: string

definition ModuleName :: string where
  "ModuleName = ''commitment''"

text \<open>A call of the bank keeper, and a call through the \<open>hooks\<close> field: unguarded, it is a
  nil dereference when no hooks are set; guarded by \<open>k.hooks != nil\<close>, it is skipped.\<close>

definition bank_call :: "('e \<Rightarrow> 'e result) \<Rightarrow> 'e cstate \<Rightarrow> 'e cstate result" where
  "bank_call f s = rbind (f (cs_ext s)) (\<lambda>e. Inr (s\<lparr>cs_ext := e\<rparr>))"

definition hook_call ::
    "'e keeper \<Rightarrow> ('e cstate commit_hooks \<Rightarrow> 'e cstate \<Rightarrow> 'e cstate result) \<Rightarrow>
     'e cstate \<Rightarrow> 'e cstate result" where
  "hook_call k f s = (case k_hooks k of None \<Rightarrow> Inl (Panic ''nil hooks'') | Some h \<Rightarrow> f h s)"

definition CommitmentChanged ::
    "'e keeper \<Rightarrow> addr \<Rightarrow> coins \<Rightarrow> 'e cstate \<Rightarrow> 'e cstate result" where
  "CommitmentChanged k creator amount s =
     (case k_hooks k of None \<Rightarrow> Inr s | Some h \<Rightarrow> hk_CommitmentChanged h creator amount s)"

definition EdenUncommitted ::
    "'e keeper \<Rightarrow> addr \<Rightarrow> coin \<Rightarrow> 'e cstate \<Rightarrow> 'e cstate result" where
  "EdenUncommitted k creator amount s =
     (case k_hooks k of None \<Rightarrow> Inr s | Some h \<Rightarrow> hk_EdenUncommitted h creator amount s)"

section \<open>Reading and writing the store\<close>

definition GetParams :: "'e cstate \<Rightarrow> Params" where
  "GetParams s = (case cs_params s of None \<Rightarrow> zero_params | Some p \<Rightarrow> p)"

definition SetParams :: "Params \<Rightarrow> 'e cstate \<Rightarrow> 'e cstate" where
  "SetParams p s = s\<lparr>cs_params := Some p\<rparr>"

text \<open>The first matching entry, and its position, as \<open>GetVestingInfo\<close> returns them.\<close>

fun find_vesting_info :: "VestingInfo list \<Rightarrow> string \<Rightarrow> nat \<Rightarrow> (VestingInfo \<times> nat) option" where
  "find_vesting_info [] baseDenom i = None"
| "find_vesting_info (v # vs) baseDenom i =
     (if vi_BaseDenom v = baseDenom then Some (v, i) else find_vesting_info vs baseDenom (Suc i))"

definition GetVestingInfo :: "'e cstate \<Rightarrow> string \<Rightarrow> (VestingInfo \<times> nat) option" where
  "GetVestingInfo s baseDenom = find_vesting_info (p_VestingInfos (GetParams s)) baseDenom 0"

definition GetTotalSupply :: "'e cstate \<Rightarrow> TotalSupply" where
  "GetTotalSupply s =
     (case cs_supply s of
        None \<Rightarrow> \<lparr>ts_TotalEdenSupply = 0, ts_TotalEdenbSupply = 0, ts_TotalEdenVested = 0\<rparr>
      | Some v \<Rightarrow> v)"

definition SetTotalSupply :: "TotalSupply \<Rightarrow> 'e cstate \<Rightarrow> 'e cstate" where
  "SetTotalSupply v s = s\<lparr>cs_supply := Some v\<rparr>"

definition HasCommitments :: "'e cstate \<Rightarrow> addr \<Rightarrow> bool" where
  "HasCommitments s creator = kv_has (cs_commitments s) creator"

definition GetCommitments :: "'e keeper \<Rightarrow> 'e cstate \<Rightarrow> addr \<Rightarrow> Commitments" where
  "GetCommitments k s creator =
     (case kv_get (cs_commitments s) creator of
        None \<Rightarrow> \<lparr>cm_Creator = AccAddressString (k_sdk k) creator, cm_CommittedTokens = [],
                 cm_Claimed = [], cm_VestingTokens = []\<rparr>
      | Some val \<Rightarrow> val)"

definition SetCommitments ::
    "'e keeper \<Rightarrow> Commitments \<Rightarrow> 'e cstate \<Rightarrow> 'e cstate result" where
  "SetCommitments k commitments s =
     rbind (MustAccAddress (k_sdk k) (cm_Creator commitments)) (\<lambda>a.
       let s1 = (if \<not> HasCommitments s a
                 then SetParams ((GetParams s)\<lparr>p_NumberOfCommitments :=
                        u64 (p_NumberOfCommitments (GetParams s) + 1)\<rparr>) s
                 else s)
       in Inr (s1\<lparr>cs_commitments := kv_set a commitments (cs_commitments s1)\<rparr>))"

definition RemoveCommitments :: "addr \<Rightarrow> 'e cstate \<Rightarrow> 'e cstate" where
  "RemoveCommitments creator s =
     (let s1 = (if HasCommitments s creator
                then SetParams ((GetParams s)\<lparr>p_NumberOfCommitments :=
                       u64 (p_NumberOfCommitments (GetParams s) - 1)\<rparr>) s
                else s)
      in s1\<lparr>cs_commitments := kv_del creator (cs_commitments s1)\<rparr>)"

definition GetAllCommitments :: "'e cstate \<Rightarrow> Commitments list" where
  "GetAllCommitments s = map snd (cs_commitments s)"

text \<open>\<open>IterateCommitments\<close> with a handler over an accumulated value: the handler says when
  to stop.\<close>

fun iterate_commitments ::
    "(Commitments \<Rightarrow> 'a \<Rightarrow> bool \<times> 'a) \<Rightarrow> (addr, Commitments) kvs \<Rightarrow> 'a \<Rightarrow> 'a" where
  "iterate_commitments handlerFn [] acc = acc"
| "iterate_commitments handlerFn ((a, c) # m) acc =
     (let (stop, acc') = handlerFn c acc
      in if stop then acc' else iterate_commitments handlerFn m acc')"

definition IterateCommitments ::
    "'e cstate \<Rightarrow> (Commitments \<Rightarrow> 'a \<Rightarrow> bool \<times> 'a) \<Rightarrow> 'a \<Rightarrow> 'a" where
  "IterateCommitments s handlerFn acc = iterate_commitments handlerFn (cs_commitments s) acc"

definition TotalNumberOfCommitments :: "'e cstate \<Rightarrow> int" where
  "TotalNumberOfCommitments s = i64 (p_NumberOfCommitments (GetParams s))"

end
