(* ===== verification/CommitmentCoins.thy ===== *)
theory CommitmentCoins
  imports CommitmentKeeper
begin

text \<open>
  The commitment keeper in the place of a bank keeper (x/commitment/keeper/keeper.go): Eden
  and EdenB are not coins of the ledger but amounts in the \<open>Claimed\<close> field of an account's
  commitments, so mint, burn and send split them off and hand the rest to the bank.
\<close>

section \<open>Moving Eden and EdenB in and out of an account's claimed tokens\<close>

text \<open>
  One branch of the four functions below: if the amount of \<open>denom\<close> in \<open>amt\<close> is positive,
  that coin leaves \<open>amt\<close> and enters (or leaves) the claimed tokens. The source also calls
  \<open>coinsChanged.Add(coin)\<close> and drops its result, so \<open>coinsChanged\<close> stays the nil set.
\<close>

definition take_in ::
    "sdk \<Rightarrow> string \<Rightarrow> coins \<times> Commitments \<Rightarrow> (coins \<times> Commitments) result" where
  "take_in S denom ac =
     (let (amt, commitments) = ac
      in if 0 < AmountOf S amt denom
         then rbind (NewCoin S denom (AmountOf S amt denom)) (\<lambda>coin.
              rbind (CoinsSub S amt [coin]) (\<lambda>amt'.
              Inr (amt', AddClaimed S coin commitments)))
         else Inr (amt, commitments))"

definition take_out ::
    "sdk \<Rightarrow> string \<Rightarrow> coins \<times> Commitments \<Rightarrow> (coins \<times> Commitments) result" where
  "take_out S denom ac =
     (let (amt, commitments) = ac
      in if 0 < AmountOf S amt denom
         then rbind (NewCoin S denom (AmountOf S amt denom)) (\<lambda>coin.
              rbind (CoinsSub S amt [coin]) (\<lambda>amt'.
              rbind (SubClaimed S coin commitments) (\<lambda>commitments'.
              Inr (amt', commitments'))))
         else Inr (amt, commitments))"

definition AddEdenEdenBOnAccount ::
    "'e keeper \<Rightarrow> addr \<Rightarrow> coins \<Rightarrow> 'e cstate \<Rightarrow> (coins \<times> coins \<times> 'e cstate) result" where
  "AddEdenEdenBOnAccount k addr amt s =
     (let coinsChanged = []
      in rbind (take_in (k_sdk k) Eden (amt, GetCommitments k s addr)) (\<lambda>ac1.
         rbind (take_in (k_sdk k) EdenB ac1) (\<lambda>(amt2, commitments2).
         rbind (SetCommitments k commitments2 s) (\<lambda>s'.
         Inr (amt2, coinsChanged, s')))))"

definition AddEdenEdenBOnModule ::
    "'e keeper \<Rightarrow> string \<Rightarrow> coins \<Rightarrow> 'e cstate \<Rightarrow> (coins \<times> coins \<times> 'e cstate) result" where
  "AddEdenEdenBOnModule k moduleName amt s =
     (let addr = NewModuleAddress (k_sdk k) moduleName; coinsChanged = []
      in rbind (take_in (k_sdk k) Eden (amt, GetCommitments k s addr)) (\<lambda>ac1.
         rbind (take_in (k_sdk k) EdenB ac1) (\<lambda>(amt2, commitments2).
         rbind (SetCommitments k commitments2 s) (\<lambda>s'.
         Inr (amt2, coinsChanged, s')))))"

definition SubEdenEdenBOnModule ::
    "'e keeper \<Rightarrow> string \<Rightarrow> coins \<Rightarrow> 'e cstate \<Rightarrow> (coins \<times> coins \<times> 'e cstate) result" where
  "SubEdenEdenBOnModule k moduleName amt s =
     (let addr = NewModuleAddress (k_sdk k) moduleName; coinsChanged = []
      in rbind (take_out (k_sdk k) Eden (amt, GetCommitments k s addr)) (\<lambda>ac1.
         rbind (take_out (k_sdk k) EdenB ac1) (\<lambda>(amt2, commitments2).
         rbind (SetCommitments k commitments2 s) (\<lambda>s'.
         Inr (amt2, coinsChanged, s')))))"

section \<open>The bank operations\<close>

definition GetAllBalances :: "'e keeper \<Rightarrow> addr \<Rightarrow> 'e cstate \<Rightarrow> coins result" where
  "GetAllBalances k addr s =
     (let S = k_sdk k; commitments = GetCommitments k s addr
      in rbind (NewCoin S Eden (AmountOf S (cm_Claimed commitments) Eden)) (\<lambda>ec.
         rbind (NewCoin S EdenB (AmountOf S (cm_Claimed commitments) EdenB)) (\<lambda>bc.
         Inr (CoinsAdd S (BkAllBalances (k_bank k) addr (cs_ext s))
                (CoinsAdd S (CoinsAdd S [] [ec]) [bc])))))"

definition MintCoins ::
    "'e keeper \<Rightarrow> string \<Rightarrow> coins \<Rightarrow> 'e cstate \<Rightarrow> 'e cstate result" where
  "MintCoins k moduleName amt s =
     rbind (AddEdenEdenBOnModule k moduleName amt s) (\<lambda>(amt', coinsChanged, s1).
       let prev = GetTotalSupply s1;
           s2 = SetTotalSupply
             (prev\<lparr>ts_TotalEdenSupply := ts_TotalEdenSupply prev + AmountOf (k_sdk k) coinsChanged Eden,
                   ts_TotalEdenbSupply := ts_TotalEdenbSupply prev + AmountOf (k_sdk k) coinsChanged EdenB\<rparr>) s1
       in if amt' = [] then Inr s2 else bank_call (BkMint (k_bank k) moduleName amt') s2)"

definition BurnCoins ::
    "'e keeper \<Rightarrow> string \<Rightarrow> coins \<Rightarrow> 'e cstate \<Rightarrow> 'e cstate result" where
  "BurnCoins k moduleName amt s =
     rbind (SubEdenEdenBOnModule k moduleName amt s) (\<lambda>(amt', coinsChanged, s1).
       let prev = GetTotalSupply s1;
           s2 = SetTotalSupply
             (prev\<lparr>ts_TotalEdenSupply := ts_TotalEdenSupply prev - AmountOf (k_sdk k) coinsChanged Eden,
                   ts_TotalEdenbSupply := ts_TotalEdenbSupply prev - AmountOf (k_sdk k) coinsChanged EdenB\<rparr>) s1
       in if amt' = [] then Inr s2 else bank_call (BkBurn (k_bank k) moduleName amt') s2)"

definition SendCoinsFromModuleToModule ::
    "'e keeper \<Rightarrow> string \<Rightarrow> string \<Rightarrow> coins \<Rightarrow> 'e cstate \<Rightarrow> 'e cstate result" where
  "SendCoinsFromModuleToModule k senderModule recipientModule amt s =
     rbind (SubEdenEdenBOnModule k senderModule amt s) (\<lambda>(_, _, s1).
     rbind (AddEdenEdenBOnModule k recipientModule amt s1) (\<lambda>(amt', _, s2).
       if amt' = [] then Inr s2
       else bank_call (BkModToMod (k_bank k) senderModule recipientModule amt') s2))"

definition SendCoinsFromModuleToAccount ::
    "'e keeper \<Rightarrow> string \<Rightarrow> addr \<Rightarrow> coins \<Rightarrow> 'e cstate \<Rightarrow> 'e cstate result" where
  "SendCoinsFromModuleToAccount k senderModule recipientAddr amt s =
     rbind (SubEdenEdenBOnModule k senderModule amt s) (\<lambda>(_, _, s1).
     rbind (AddEdenEdenBOnAccount k recipientAddr amt s1) (\<lambda>(amt', _, s2).
       if amt' = [] then Inr s2
       else bank_call (BkModToAcc (k_bank k) senderModule recipientAddr amt') s2))"

definition SendCoinsFromAccountToModule ::
    "'e keeper \<Rightarrow> addr \<Rightarrow> string \<Rightarrow> coins \<Rightarrow> 'e cstate \<Rightarrow> 'e cstate result" where
  "SendCoinsFromAccountToModule k senderAddr recipientModule amt s =
     bank_call (BkAccToMod (k_bank k) senderAddr recipientModule amt) s"

section \<open>Claimed tokens and the burning of EdenB\<close>

definition DeductClaimed ::
    "'e keeper \<Rightarrow> addr \<Rightarrow> string \<Rightarrow> int \<Rightarrow> 'e cstate \<Rightarrow> Commitments result" where
  "DeductClaimed k creator denom amount s =
     rbind (NewCoin (k_sdk k) denom amount) (\<lambda>coin.
     SubClaimed (k_sdk k) coin (GetCommitments k s creator))"

definition sub_edenb_supply :: "int \<Rightarrow> 'e cstate \<Rightarrow> 'e cstate" where
  "sub_edenb_supply amount s =
     (let prev = GetTotalSupply s
      in SetTotalSupply (prev\<lparr>ts_TotalEdenbSupply := ts_TotalEdenbSupply prev - amount\<rparr>) s)"

text \<open>
  The claimed tokens pay first, then the committed ones. The commitments are read once at
  the start and written at the end, and the hooks run in between.
\<close>

definition BurnEdenBoost ::
    "'e keeper \<Rightarrow> block_ctx \<Rightarrow> addr \<Rightarrow> string \<Rightarrow> int \<Rightarrow> 'e cstate \<Rightarrow> 'e cstate result" where
  "BurnEdenBoost k ctx creator denom amount s =
     (let S = k_sdk k; commitments = GetCommitments k s creator
      in if amount = 0 then Inr s
         else let claimed = GetClaimedForDenom commitments denom;
                  removal = (if claimed < amount then claimed else amount)
           in rbind (NewCoin S denom removal) (\<lambda>rc.
              rbind (SubClaimed S rc commitments) (\<lambda>commitments1.
              let s1 = sub_edenb_supply removal s;
                  amount1 = amount - removal
              in if amount1 = 0 then SetCommitments k commitments1 s1
                 else let committedAmount = GetCommittedAmountForDenom commitments1 denom;
                          amount2 = (if committedAmount < amount1 then committedAmount else amount1)
                   in if amount2 = 0 then Inr s1
                      else rbind (case k_hooks k of None \<Rightarrow> Inr s1
                                  | Some h \<Rightarrow> hk_BeforeEdenBCommitChange h creator s1) (\<lambda>s2.
                           rbind (DeductFromCommitted denom amount2
                                    (u64 (Unix (BlockTime ctx))) False commitments1) (\<lambda>commitments2.
                           rbind (SetCommitments k commitments2 (sub_edenb_supply amount2 s2)) (\<lambda>s3.
                           case k_hooks k of None \<Rightarrow> Inr s3
                           | Some h \<Rightarrow> rbind (NewCoin S denom amount2) (\<lambda>c.
                               hk_CommitmentChanged h creator [c] s3)))))))"

end
