(* ===== verification/CommitmentMsgs.thy ===== *)
theory CommitmentMsgs
  imports CommitmentCoins
begin

text \<open>
  Committing and uncommitting tokens (x/commitment/keeper: \<open>commit_liquid_tokens.go\<close>,
  \<open>deposit_liquid_tokens.go\<close>, \<open>msg_server_uncommit_tokens.go\<close>,
  \<open>msg_server_commit_claimed_rewards.go\<close>). Every handler returns the whole state it leaves,
  or the error or panic that undoes it.
\<close>

definition now_u64 :: "block_ctx \<Rightarrow> int" where
  "now_u64 ctx = u64 (Unix (BlockTime ctx))"

definition sdk_ErrInvalidAddress :: err where
  "sdk_ErrInvalidAddress = Plain ''sdk.ErrInvalidAddress''"
definition sdk_ErrInsufficientFunds :: err where
  "sdk_ErrInsufficientFunds = Plain ''sdk.ErrInsufficientFunds''"
definition gov_ErrInvalidSigner :: err where
  "gov_ErrInvalidSigner = Plain ''gov.ErrInvalidSigner''"

text \<open>\<open>bankKeeper.SendCoins...\<close> with its error replaced by \<open>ErrInsufficientFunds\<close>; a panic
  inside it is still a panic.\<close>

definition or_insufficient :: "'a result \<Rightarrow> 'a result" where
  "or_insufficient m =
     (case m of Inr x \<Rightarrow> Inr x
      | Inl e \<Rightarrow> (case e of Panic p \<Rightarrow> Inl (Panic p) | _ \<Rightarrow> Inl sdk_ErrInsufficientFunds))"

section \<open>Committing\<close>

definition CommitLiquidTokens ::
    "'e keeper \<Rightarrow> block_ctx \<Rightarrow> addr \<Rightarrow> string \<Rightarrow> int \<Rightarrow> int \<Rightarrow> 'e cstate \<Rightarrow> 'e cstate result" where
  "CommitLiquidTokens k ctx addr denom amount lockUntil s =
     (let S = k_sdk k in
      case k_GetEntry k (cs_ext s) denom of
        None \<Rightarrow> Inl ErrAssetProfileNotFound
      | Some assetProfile \<Rightarrow>
          if \<not> en_CommitEnabled assetProfile then Inl ErrCommitDisabled
          else rbind (NewCoin S denom amount) (\<lambda>coin.
               rbind (NewCoins S [coin]) (\<lambda>depositCoins.
               rbind (or_insufficient
                        (bank_call (BkAccToMod (k_bank k) addr ModuleName depositCoins) s)) (\<lambda>s1.
               let params = GetParams s1;
                   s2 = SetParams (params\<lparr>p_TotalCommitted :=
                          CoinsAdd S (p_TotalCommitted params) depositCoins\<rparr>) s1;
                   commitments = AddCommittedTokens denom amount lockUntil (GetCommitments k s2 addr)
               in rbind (SetCommitments k commitments s2) (\<lambda>s3.
                  CommitmentChanged k addr [coin] s3)))))"

definition DepositLiquidTokensClaimed ::
    "'e keeper \<Rightarrow> string \<Rightarrow> int \<Rightarrow> addr \<Rightarrow> 'e cstate \<Rightarrow> 'e cstate result" where
  "DepositLiquidTokensClaimed k denom amount sender s =
     (let S = k_sdk k in
      case k_GetEntry k (cs_ext s) denom of
        None \<Rightarrow> Inl ErrAssetProfileNotFound
      | Some assetProfile \<Rightarrow>
          if \<not> en_CommitEnabled assetProfile then Inl ErrCommitDisabled
          else rbind (NewCoin S denom amount) (\<lambda>coin.
               rbind (NewCoins S [coin]) (\<lambda>depositCoins.
               rbind (or_insufficient
                        (bank_call (BkAccToMod (k_bank k) sender ModuleName depositCoins) s)) (\<lambda>s1.
               SetCommitments k (AddClaimed S coin (GetCommitments k s1 sender)) s1))))"

definition CommitClaimedRewards ::
    "'e keeper \<Rightarrow> block_ctx \<Rightarrow> string \<Rightarrow> int \<Rightarrow> string \<Rightarrow> 'e cstate \<Rightarrow> 'e cstate result" where
  "CommitClaimedRewards k ctx msg_Creator msg_Amount msg_Denom s =
     (let S = k_sdk k in
      rbind (MustAccAddress S msg_Creator) (\<lambda>creator.
      case k_GetEntry k (cs_ext s) msg_Denom of
        None \<Rightarrow> Inl ErrAssetProfileNotFound
      | Some assetProfile \<Rightarrow>
          if \<not> en_CommitEnabled assetProfile then Inl ErrCommitDisabled
          else rbind (NewCoin S msg_Denom msg_Amount) (\<lambda>coin.
            let params = GetParams s;
                s1 = SetParams (params\<lparr>p_TotalCommitted :=
                       CoinsAdd S (p_TotalCommitted params) [coin]\<rparr>) s;
                commitments = GetCommitments k s1 creator
            in rbind (if msg_Denom = Eden
                      then (if 0 < GetCommittedAmountForDenom commitments Eden
                            then hook_call k (\<lambda>h. hk_BeforeEdenCommitChange h creator) s1
                            else hook_call k (\<lambda>h. hk_BeforeEdenInitialCommit h creator) s1)
                      else Inr s1) (\<lambda>s2.
               rbind (if msg_Denom = EdenB
                      then (if 0 < GetCommittedAmountForDenom commitments EdenB
                            then hook_call k (\<lambda>h. hk_BeforeEdenBCommitChange h creator) s2
                            else hook_call k (\<lambda>h. hk_BeforeEdenBInitialCommit h creator) s2)
                      else Inr s2) (\<lambda>s3.
               rbind (SubClaimed S coin commitments) (\<lambda>commitments1.
               rbind (SetCommitments k
                        (AddCommittedTokens msg_Denom msg_Amount (now_u64 ctx) commitments1) s3) (\<lambda>s4.
               CommitmentChanged k creator [coin] s4)))))))"

section \<open>Uncommitting\<close>

definition UncommitTokens ::
    "'e keeper \<Rightarrow> block_ctx \<Rightarrow> addr \<Rightarrow> string \<Rightarrow> int \<Rightarrow> bool \<Rightarrow> 'e cstate \<Rightarrow> 'e cstate result" where
  "UncommitTokens k ctx addr denom amount isLiquidation s =
     (let S = k_sdk k in
      case k_GetEntry k (cs_ext s) denom of
        None \<Rightarrow> Inl ErrAssetProfileNotFound
      | Some assetProfile \<Rightarrow>
          if \<not> en_WithdrawEnabled assetProfile then Inl ErrCommitDisabled
          else
            let commitments = GetCommitments k s addr
            in rbind (if denom = Eden
                      then hook_call k (\<lambda>h. hk_BeforeEdenCommitChange h addr) s else Inr s) (\<lambda>s1.
               rbind (if denom = EdenB
                      then hook_call k (\<lambda>h. hk_BeforeEdenBCommitChange h addr) s1 else Inr s1) (\<lambda>s2.
               rbind (DeductFromCommitted denom amount (now_u64 ctx) isLiquidation commitments)
                 (\<lambda>commitments1.
               rbind (SetCommitments k commitments1 s2) (\<lambda>s3.
               rbind (NewCoin S denom amount) (\<lambda>coin.
               rbind (NewCoins S [coin]) (\<lambda>liquidCoins.
               let edenAmount = AmountOf S liquidCoins Eden;
                   edenBAmount = AmountOf S liquidCoins EdenB
               in rbind (NewCoin S Eden edenAmount) (\<lambda>ec.
                  rbind (NewCoin S EdenB edenBAmount) (\<lambda>bc.
                  rbind (SetCommitments k (AddClaimed S bc (AddClaimed S ec commitments1)) s3) (\<lambda>s4.
                  rbind (CommitmentChanged k addr [coin] s4) (\<lambda>s5.
                  rbind (CoinsSub S liquidCoins [ec]) (\<lambda>w1.
                  rbind (CoinsSub S w1 [bc]) (\<lambda>withdrawCoins.
                  rbind (if withdrawCoins \<noteq> []
                         then bank_call (BkModToAcc (k_bank k) ModuleName addr withdrawCoins) s5
                         else Inr s5) (\<lambda>s6.
                  let params = GetParams s6
                  in rbind (CoinsSub S (p_TotalCommitted params) liquidCoins) (\<lambda>tc.
                     let s7 = SetParams (params\<lparr>p_TotalCommitted := tc\<rparr>) s6
                     in if denom = Eden then EdenUncommitted k addr coin s7
                        else Inr s7)))))))))))))))"

text \<open>The message handler: only Eden and EdenB may be uncommitted by a user.\<close>

definition msg_UncommitTokens ::
    "'e keeper \<Rightarrow> block_ctx \<Rightarrow> string \<Rightarrow> int \<Rightarrow> string \<Rightarrow> 'e cstate \<Rightarrow> 'e cstate result" where
  "msg_UncommitTokens k ctx msg_Creator msg_Amount msg_Denom s =
     (case AccAddressFromBech32 (k_sdk k) msg_Creator of
        Inl e \<Rightarrow> Inl sdk_ErrInvalidAddress
      | Inr addr \<Rightarrow>
          if msg_Denom \<noteq> Eden \<and> msg_Denom \<noteq> EdenB then Inl ErrUnsupportedUncommitToken
          else UncommitTokens k ctx addr msg_Denom msg_Amount False s)"

end
