(* ===== verification/CommitmentVesting.thy ===== *)
theory CommitmentVesting
  imports CommitmentMsgs
begin

text \<open>
  Vesting (x/commitment/keeper: \<open>msg_server_vest.go\<close>, \<open>msg_server_vest_liquid.go\<close>,
  \<open>msg_server_vest_now.go\<close>, \<open>msg_server_claim_vesting.go\<close>, \<open>msg_server_cancel_vest.go\<close>) and
  its parameters (\<open>msg_server_update_vesting_info.go\<close>, \<open>types/params.go\<close>).
\<close>

section \<open>Starting a vesting\<close>

definition ProcessTokenVesting ::
    "'e keeper \<Rightarrow> block_ctx \<Rightarrow> string \<Rightarrow> int \<Rightarrow> addr \<Rightarrow> 'e cstate \<Rightarrow> 'e cstate result" where
  "ProcessTokenVesting k ctx denom amount creator s =
     (case GetVestingInfo s denom of
        None \<Rightarrow> Inl ErrInvalidDenom
      | Some (vestingInfo, _) \<Rightarrow>
          let vestingTokens = cm_VestingTokens (GetCommitments k s creator)
          in if vi_NumMaxVestings vestingInfo \<le> int (length vestingTokens)
             then Inl ErrExceedMaxVestings
             else rbind (DeductClaimed k creator denom amount s) (\<lambda>commitments.
               let v = \<lparr>vt_Denom = vi_VestingDenom vestingInfo, vt_TotalAmount = amount,
                        vt_ClaimedAmount = 0, vt_NumBlocks = vi_NumBlocks vestingInfo,
                        vt_StartBlock = BlockHeight ctx,
                        vt_VestStartedTimestamp = Unix (BlockTime ctx)\<rparr>;
                   commitments' = commitments\<lparr>cm_VestingTokens := vestingTokens @ [v]\<rparr>;
                   prev = GetTotalSupply s;
                   s1 = (if denom = Eden
                         then SetTotalSupply
                           (prev\<lparr>ts_TotalEdenSupply := ts_TotalEdenSupply prev - amount,
                                 ts_TotalEdenVested := ts_TotalEdenVested prev + amount\<rparr>) s
                         else s)
               in SetCommitments k commitments' s1))"

definition msg_Vest ::
    "'e keeper \<Rightarrow> block_ctx \<Rightarrow> string \<Rightarrow> int \<Rightarrow> string \<Rightarrow> 'e cstate \<Rightarrow> 'e cstate result" where
  "msg_Vest k ctx msg_Creator msg_Amount msg_Denom s =
     rbind (MustAccAddress (k_sdk k) msg_Creator) (\<lambda>creator.
       ProcessTokenVesting k ctx msg_Denom msg_Amount creator s)"

definition msg_VestLiquid ::
    "'e keeper \<Rightarrow> block_ctx \<Rightarrow> string \<Rightarrow> int \<Rightarrow> string \<Rightarrow> 'e cstate \<Rightarrow> 'e cstate result" where
  "msg_VestLiquid k ctx msg_Creator msg_Amount msg_Denom s =
     rbind (MustAccAddress (k_sdk k) msg_Creator) (\<lambda>creator.
     rbind (DepositLiquidTokensClaimed k msg_Denom msg_Amount creator s) (\<lambda>s1.
       ProcessTokenVesting k ctx msg_Denom msg_Amount creator s1))"

definition msg_VestNow ::
    "'e keeper \<Rightarrow> string \<Rightarrow> int \<Rightarrow> string \<Rightarrow> 'e cstate \<Rightarrow> 'e cstate result" where
  "msg_VestNow k msg_Creator msg_Amount msg_Denom s =
     (let S = k_sdk k in
      if \<not> p_EnableVestNow (GetParams s) then Inl ErrVestNowIsNotEnabled
      else case GetVestingInfo s msg_Denom of
        None \<Rightarrow> Inl ErrInvalidDenom
      | Some (vestingInfo, _) \<Rightarrow>
          rbind (MustAccAddress S msg_Creator) (\<lambda>creator.
          rbind (DeductClaimed k creator msg_Denom msg_Amount s) (\<lambda>commitments.
          if vi_VestNowFactor vestingInfo = 0 then Inl ErrInvalidAmount
          else rbind (int_quo msg_Amount (vi_VestNowFactor vestingInfo)) (\<lambda>vestAmount.
               rbind (NewCoin S (vi_VestingDenom vestingInfo) vestAmount) (\<lambda>wc.
               rbind (NewCoins S [wc]) (\<lambda>withdrawCoins.
               rbind (if vi_VestingDenom vestingInfo = Elys
                      then bank_call (BkMint (k_bank k) ModuleName withdrawCoins) s
                      else Inr s) (\<lambda>s1.
               rbind (or_insufficient
                        (bank_call (BkModToAcc (k_bank k) ModuleName creator withdrawCoins) s1)) (\<lambda>s2.
               let prev = GetTotalSupply s2
               in SetCommitments k commitments
                    (SetTotalSupply
                      (prev\<lparr>ts_TotalEdenSupply := ts_TotalEdenSupply prev - msg_Amount,
                            ts_TotalEdenVested := ts_TotalEdenVested prev + msg_Amount\<rparr>) s2)))))))))"

section \<open>Claiming what has vested\<close>

text \<open>The loop of \<open>ClaimVesting\<close>: the coins to pay out, and the vestings that remain.\<close>

fun claim_vestings ::
    "sdk \<Rightarrow> block_ctx \<Rightarrow> VestingTokens list \<Rightarrow> coins \<Rightarrow> (coins \<times> VestingTokens list) result" where
  "claim_vestings S ctx [] newClaims = Inr (newClaims, [])"
| "claim_vestings S ctx (vesting # vs) newClaims =
     rbind (VestedSoFar ctx vesting) (\<lambda>vestedSoFar.
     rbind (NewCoin S (vt_Denom vesting) (vestedSoFar - vt_ClaimedAmount vesting)) (\<lambda>newClaim.
     rbind (claim_vestings S ctx vs (CoinsAdd S newClaims [newClaim])) (\<lambda>(claims, updated).
     Inr (claims,
          if vestedSoFar \<noteq> vt_TotalAmount vesting
          then vesting\<lparr>vt_ClaimedAmount := vestedSoFar\<rparr> # updated else updated))))"

definition ClaimVesting ::
    "'e keeper \<Rightarrow> block_ctx \<Rightarrow> string \<Rightarrow> 'e cstate \<Rightarrow> 'e cstate result" where
  "ClaimVesting k ctx msg_Sender s =
     (let S = k_sdk k in
      rbind (MustAccAddress S msg_Sender) (\<lambda>sender.
      let commitments = GetCommitments k s sender
      in rbind (claim_vestings S ctx (cm_VestingTokens commitments) []) (\<lambda>(newClaims, updated).
         rbind (if IsAllPositive S newClaims
                then rbind (if 0 < AmountOf S newClaims Elys
                            then rbind (NewCoin S Elys (AmountOf S newClaims Elys)) (\<lambda>elysCoin.
                                 bank_call (BkMint (k_bank k) ModuleName [elysCoin]) s)
                            else Inr s) (\<lambda>s1.
                     bank_call (BkModToAcc (k_bank k) ModuleName sender newClaims) s1)
                else Inr s) (\<lambda>s2.
         SetCommitments k (commitments\<lparr>cm_VestingTokens := updated\<rparr>) s2))))"

section \<open>Cancelling a vesting\<close>

definition skip_cancel :: "VestingTokens \<Rightarrow> bool" where
  "skip_cancel vesting \<longleftrightarrow>
     vt_Denom vesting \<noteq> Elys \<or> vt_NumBlocks vesting = 0 \<or> vt_TotalAmount vesting = 0"

definition cancel_one :: "block_ctx \<Rightarrow> int \<Rightarrow> VestingTokens \<Rightarrow> VestingTokens" where
  "cancel_one ctx cancelAmount vesting =
     vesting\<lparr>vt_TotalAmount := vt_TotalAmount vesting - vt_ClaimedAmount vesting - cancelAmount,
             vt_ClaimedAmount := 0,
             vt_NumBlocks := max 0 (i64 (vt_NumBlocks vesting -
                               i64 (BlockHeight ctx - vt_StartBlock vesting))),
             vt_StartBlock := BlockHeight ctx,
             vt_VestStartedTimestamp := Unix (BlockTime ctx)\<rparr>"

text \<open>The loop runs from the last vesting to the first: the updated list, what remains to
  cancel and what has been cancelled.\<close>

fun cancel_vestings ::
    "block_ctx \<Rightarrow> VestingTokens list \<Rightarrow> int \<Rightarrow> VestingTokens list \<times> int \<times> int" where
  "cancel_vestings ctx [] remaining = ([], remaining, 0)"
| "cancel_vestings ctx (vesting # vs) remaining =
     (let (vs', remaining', cancelled) = cancel_vestings ctx vs remaining
      in if skip_cancel vesting then (vesting # vs', remaining', cancelled)
         else let cancelAmount = min remaining' (vt_TotalAmount vesting - vt_ClaimedAmount vesting)
              in (cancel_one ctx cancelAmount vesting # vs',
                  remaining' - cancelAmount, cancelled + cancelAmount))"

definition msg_CancelVest ::
    "'e keeper \<Rightarrow> block_ctx \<Rightarrow> string \<Rightarrow> int \<Rightarrow> string \<Rightarrow> 'e cstate \<Rightarrow> 'e cstate result" where
  "msg_CancelVest k ctx msg_Creator msg_Amount msg_Denom s =
     (let S = k_sdk k in
      if msg_Denom \<noteq> Eden then Inl ErrInvalidDenom
      else case GetVestingInfo s Eden of
        None \<Rightarrow> Inl ErrInvalidDenom
      | Some _ \<Rightarrow>
          rbind (ClaimVesting k ctx msg_Creator s) (\<lambda>s1.
          rbind (MustAccAddress S msg_Creator) (\<lambda>creator.
          let commitments = GetCommitments k s1 creator;
              (vs, _, totalCancelled) =
                cancel_vestings ctx (cm_VestingTokens commitments) msg_Amount;
              newVestingTokens = filter (\<lambda>v. \<not> vt_ClaimedAmount v \<ge> vt_TotalAmount v) vs
          in if totalCancelled = 0 then Inl ErrInsufficientVestingTokens
             else rbind (NewCoin S Eden totalCancelled) (\<lambda>coin.
               let commitments' =
                     AddClaimed S coin (commitments\<lparr>cm_VestingTokens := newVestingTokens\<rparr>);
                   prev = GetTotalSupply s1
               in SetCommitments k commitments'
                    (SetTotalSupply
                      (prev\<lparr>ts_TotalEdenSupply := ts_TotalEdenSupply prev + totalCancelled,
                            ts_TotalEdenVested := ts_TotalEdenVested prev - totalCancelled\<rparr>) s1)))))"

section \<open>Vesting parameters\<close>

definition VestingInfo_Validate :: "sdk \<Rightarrow> VestingInfo \<Rightarrow> unit result" where
  "VestingInfo_Validate S v =
     (if ValidateDenom S (vi_BaseDenom v) \<noteq> Inr () then Inl ErrInvalidDenom
      else if ValidateDenom S (vi_VestingDenom v) \<noteq> Inr () then Inl ErrInvalidDenom
      else if vi_NumMaxVestings v < 0 then Inl (Plain ''num_max_vestings cannot be negative'')
      else if vi_NumBlocks v < 0 then Inl (Plain ''num_blocks cannot be negative'')
      else if \<not> 0 < vi_VestNowFactor v then Inl (Plain ''vesting now factor must be positive'')
      else Inr ())"

fun vesting_infos_Validate :: "sdk \<Rightarrow> VestingInfo list \<Rightarrow> unit result" where
  "vesting_infos_Validate S [] = Inr ()"
| "vesting_infos_Validate S (v # vs) =
     rbind (VestingInfo_Validate S v) (\<lambda>_. vesting_infos_Validate S vs)"

definition Params_Validate :: "sdk \<Rightarrow> Params \<Rightarrow> unit result" where
  "Params_Validate S p =
     rbind (vesting_infos_Validate S (p_VestingInfos p)) (\<lambda>_.
       CoinsValidate S (p_TotalCommitted p))"

definition DefaultParams :: Params where
  "DefaultParams = zero_params
     \<lparr>p_VestingInfos := [\<lparr>vi_BaseDenom = Eden, vi_VestingDenom = Elys, vi_NumBlocks = 1576800,
                          vi_VestNowFactor = 90, vi_NumMaxVestings = 10000\<rparr>],
      p_TotalCommitted := [], p_EnableVestNow := False\<rparr>"

definition msg_UpdateVestingInfo ::
    "'e keeper \<Rightarrow> string \<Rightarrow> VestingInfo \<Rightarrow> 'e cstate \<Rightarrow> 'e cstate result" where
  "msg_UpdateVestingInfo k msg_Authority info s =
     (if k_authority k \<noteq> msg_Authority then Inl gov_ErrInvalidSigner
      else let params = GetParams s;
               params' = (case GetVestingInfo s (vi_BaseDenom info) of
                   None \<Rightarrow> params\<lparr>p_VestingInfos := p_VestingInfos params @ [info]\<rparr>
                 | Some (_, index) \<Rightarrow>
                     params\<lparr>p_VestingInfos := (p_VestingInfos params)[index := info]\<rparr>)
           in case Params_Validate (k_sdk k) params' of
                Inl e \<Rightarrow> Inl (Plain ''params validation failed'')
              | Inr _ \<Rightarrow> Inr (SetParams params' s))"

definition msg_UpdateEnableVestNow ::
    "'e keeper \<Rightarrow> string \<Rightarrow> bool \<Rightarrow> 'e cstate \<Rightarrow> 'e cstate result" where
  "msg_UpdateEnableVestNow k msg_Authority msg_EnableVestNow s =
     (if k_authority k \<noteq> msg_Authority then Inl gov_ErrInvalidSigner
      else Inr (SetParams ((GetParams s)\<lparr>p_EnableVestNow := msg_EnableVestNow\<rparr>) s))"

end
