(* ===== verification/CommitmentClaims.thy ===== *)
theory CommitmentClaims
  imports CommitmentVesting
begin

text \<open>
  One-time claims of the commitment module: the airdrop (\<open>msg_server_claim_airdrop.go\<close>), the
  KOL list (\<open>msg_server_claim_kol.go\<close>) and the reward program (\<open>msg_server_claim.go\<close>), over
  the lists of \<open>airdrop.go\<close> and \<open>rewards.go\<close>; staking through the module
  (\<open>msg_server_stake.go\<close>, \<open>msg_server_unstake.go\<close>); genesis and the recomputed supply.
\<close>

definition ErrAirdropAlreadyClaimed :: err where
  "ErrAirdropAlreadyClaimed = Sentinel ''commitment'' 1015"
definition ErrAirdropNotStarted :: err where
  "ErrAirdropNotStarted = Sentinel ''commitment'' 1016"
definition ErrAirdropEnded :: err where
  "ErrAirdropEnded = Sentinel ''commitment'' 1017"
definition ErrMaxElysAmountReached :: err where
  "ErrMaxElysAmountReached = Sentinel ''commitment'' 1018"
definition ErrMaxEdenAmountReached :: err where
  "ErrMaxEdenAmountReached = Sentinel ''commitment'' 1019"
definition ErrKolNotFound :: err where
  "ErrKolNotFound = Sentinel ''commitment'' 1020"
definition ErrKolAlreadyClaimed :: err where
  "ErrKolAlreadyClaimed = Sentinel ''commitment'' 1021"
definition ErrKolRefunded :: err where
  "ErrKolRefunded = Sentinel ''commitment'' 1022"
definition ErrClaimNotEnabled :: err where
  "ErrClaimNotEnabled = Sentinel ''commitment'' 1023"
definition ErrRewardProgramNotFound :: err where
  "ErrRewardProgramNotFound = Sentinel ''commitment'' 1024"
definition ErrRewardProgramAlreadyClaimed :: err where
  "ErrRewardProgramAlreadyClaimed = Sentinel ''commitment'' 1025"
definition ErrRewardProgramNotStarted :: err where
  "ErrRewardProgramNotStarted = Sentinel ''commitment'' 1026"
definition ErrRewardProgramEnded :: err where
  "ErrRewardProgramEnded = Sentinel ''commitment'' 1027"

definition AirdropWallet :: string where
  "AirdropWallet = ''elys1wk7jwkqt2h9cnpkst85j9n454e4y8znlgk842n''"
definition KolWallet :: string where
  "KolWallet = ''elys1ykrphaysp9u5m8379f3d7pr9k7t0xq757lr9vj''"
definition MaxElysAmount :: int where "MaxElysAmount = 3218460000000"
definition MaxEdenAmount :: int where "MaxEdenAmount = 3441097000000"
definition maxEdenAmountToClaim :: int where "maxEdenAmountToClaim = 1000000000000"

section \<open>The lists\<close>

text \<open>The four airdrop lists are stores of the same shape: the entry of an address, or a zero
  one.\<close>

definition get_airdrop :: "'e keeper \<Rightarrow> (addr, AirdropEntry) kvs \<Rightarrow> addr \<Rightarrow> AirdropEntry" where
  "get_airdrop k m address =
     (case kv_get m address of
        Some val \<Rightarrow> val
      | None \<Rightarrow> \<lparr>ad_Address = AccAddressString (k_sdk k) address, ad_Amount = 0\<rparr>)"

definition GetAtomStaker :: "'e keeper \<Rightarrow> 'e cstate \<Rightarrow> addr \<Rightarrow> AirdropEntry" where
  "GetAtomStaker k s address = get_airdrop k (cs_atom s) address"
definition GetGovernor :: "'e keeper \<Rightarrow> 'e cstate \<Rightarrow> addr \<Rightarrow> AirdropEntry" where
  "GetGovernor k s address = get_airdrop k (cs_governor s) address"
definition GetNFTHolder :: "'e keeper \<Rightarrow> 'e cstate \<Rightarrow> addr \<Rightarrow> AirdropEntry" where
  "GetNFTHolder k s address = get_airdrop k (cs_nft s) address"
definition GetCadet :: "'e keeper \<Rightarrow> 'e cstate \<Rightarrow> addr \<Rightarrow> AirdropEntry" where
  "GetCadet k s address = get_airdrop k (cs_cadet s) address"

definition SetAtomStaker :: "'e keeper \<Rightarrow> AirdropEntry \<Rightarrow> 'e cstate \<Rightarrow> 'e cstate result" where
  "SetAtomStaker k val s =
     rbind (MustAccAddress (k_sdk k) (ad_Address val)) (\<lambda>a. Inr (s\<lparr>cs_atom := kv_set a val (cs_atom s)\<rparr>))"
definition SetGovernor :: "'e keeper \<Rightarrow> AirdropEntry \<Rightarrow> 'e cstate \<Rightarrow> 'e cstate result" where
  "SetGovernor k val s =
     rbind (MustAccAddress (k_sdk k) (ad_Address val)) (\<lambda>a. Inr (s\<lparr>cs_governor := kv_set a val (cs_governor s)\<rparr>))"
definition SetNFTHodler :: "'e keeper \<Rightarrow> AirdropEntry \<Rightarrow> 'e cstate \<Rightarrow> 'e cstate result" where
  "SetNFTHodler k val s =
     rbind (MustAccAddress (k_sdk k) (ad_Address val)) (\<lambda>a. Inr (s\<lparr>cs_nft := kv_set a val (cs_nft s)\<rparr>))"
definition SetCadet :: "'e keeper \<Rightarrow> AirdropEntry \<Rightarrow> 'e cstate \<Rightarrow> 'e cstate result" where
  "SetCadet k val s =
     rbind (MustAccAddress (k_sdk k) (ad_Address val)) (\<lambda>a. Inr (s\<lparr>cs_cadet := kv_set a val (cs_cadet s)\<rparr>))"

definition GetAllAtomStakers :: "'e cstate \<Rightarrow> AirdropEntry list" where
  "GetAllAtomStakers s = map snd (cs_atom s)"
definition GetAllGovernors :: "'e cstate \<Rightarrow> AirdropEntry list" where
  "GetAllGovernors s = map snd (cs_governor s)"
definition GetAllNFTHolders :: "'e cstate \<Rightarrow> AirdropEntry list" where
  "GetAllNFTHolders s = map snd (cs_nft s)"
definition GetAllCadets :: "'e cstate \<Rightarrow> AirdropEntry list" where
  "GetAllCadets s = map snd (cs_cadet s)"

definition GetAirdropClaimed :: "'e keeper \<Rightarrow> 'e cstate \<Rightarrow> addr \<Rightarrow> AirdropClaimed" where
  "GetAirdropClaimed k s address =
     (case kv_get (cs_airdrop_claimed s) address of
        Some val \<Rightarrow> val
      | None \<Rightarrow> \<lparr>ac_Address = AccAddressString (k_sdk k) address, ac_Claimed = False\<rparr>)"

definition SetAirdropClaimed :: "'e keeper \<Rightarrow> addr \<Rightarrow> 'e cstate \<Rightarrow> 'e cstate" where
  "SetAirdropClaimed k address s =
     s\<lparr>cs_airdrop_claimed :=
         kv_set address \<lparr>ac_Address = AccAddressString (k_sdk k) address, ac_Claimed = True\<rparr>
           (cs_airdrop_claimed s)\<rparr>"

definition GetAllAirdropClaimed :: "'e cstate \<Rightarrow> AirdropClaimed list" where
  "GetAllAirdropClaimed s = map snd (cs_airdrop_claimed s)"

definition GetTotalClaimed :: "'e cstate \<Rightarrow> TotalClaimed" where
  "GetTotalClaimed s =
     (case cs_total_claimed s of
        Some val \<Rightarrow> val | None \<Rightarrow> \<lparr>tc_TotalElysClaimed = 0, tc_TotalEdenClaimed = 0\<rparr>)"

definition SetTotalClaimed :: "TotalClaimed \<Rightarrow> 'e cstate \<Rightarrow> 'e cstate" where
  "SetTotalClaimed t s = s\<lparr>cs_total_claimed := Some t\<rparr>"

definition GetKol :: "'e keeper \<Rightarrow> 'e cstate \<Rightarrow> addr \<Rightarrow> KolList" where
  "GetKol k s address =
     (case kv_get (cs_kol s) address of
        Some val \<Rightarrow> val
      | None \<Rightarrow> \<lparr>kol_Address = AccAddressString (k_sdk k) address, kol_Amount = 0,
                 kol_Claimed = False, kol_Refunded = False\<rparr>)"

definition SetKol :: "'e keeper \<Rightarrow> KolList \<Rightarrow> 'e cstate \<Rightarrow> 'e cstate result" where
  "SetKol k val s =
     rbind (MustAccAddress (k_sdk k) (kol_Address val)) (\<lambda>a. Inr (s\<lparr>cs_kol := kv_set a val (cs_kol s)\<rparr>))"

text \<open>\<open>GetAllKol\<close> iterates over the cadets' prefix; the bytes of a \<open>Cadet\<close> (address, amount)
  unmarshal as a \<open>KolList\<close> whose flags are unset.\<close>

definition GetAllKol :: "'e cstate \<Rightarrow> KolList list" where
  "GetAllKol s =
     map (\<lambda>kv. \<lparr>kol_Address = ad_Address (snd kv), kol_Amount = ad_Amount (snd kv),
                kol_Claimed = False, kol_Refunded = False\<rparr>) (cs_cadet s)"

definition GetRewardProgram :: "'e keeper \<Rightarrow> 'e cstate \<Rightarrow> addr \<Rightarrow> RewardProgram" where
  "GetRewardProgram k s address =
     (case kv_get (cs_reward s) address of
        Some val \<Rightarrow> val
      | None \<Rightarrow> \<lparr>rp_Address = AccAddressString (k_sdk k) address, rp_Amount = 0,
                 rp_Claimed = False\<rparr>)"

definition SetRewardProgram :: "'e keeper \<Rightarrow> RewardProgram \<Rightarrow> 'e cstate \<Rightarrow> 'e cstate result" where
  "SetRewardProgram k val s =
     rbind (MustAccAddress (k_sdk k) (rp_Address val)) (\<lambda>a.
       Inr (s\<lparr>cs_reward := kv_set a val (cs_reward s)\<rparr>))"

definition GetAllRewardPrograms :: "'e cstate \<Rightarrow> RewardProgram list" where
  "GetAllRewardPrograms s = map snd (cs_reward s)"

definition GetTotalRewardProgramClaimed :: "'e cstate \<Rightarrow> TotalClaimed" where
  "GetTotalRewardProgramClaimed s =
     (case cs_total_reward s of
        Some val \<Rightarrow> val | None \<Rightarrow> \<lparr>tc_TotalElysClaimed = 0, tc_TotalEdenClaimed = 0\<rparr>)"

definition SetTotalRewardProgramClaimed :: "TotalClaimed \<Rightarrow> 'e cstate \<Rightarrow> 'e cstate" where
  "SetTotalRewardProgramClaimed t s = s\<lparr>cs_total_reward := Some t\<rparr>"

section \<open>Claiming\<close>

text \<open>\<open>sdk.NewCoins(sdk.NewCoin(denom, amount))\<close>.\<close>

definition one_coin :: "sdk \<Rightarrow> string \<Rightarrow> int \<Rightarrow> coins result" where
  "one_coin S denom amount = rbind (NewCoin S denom amount) (\<lambda>c. NewCoins S [c])"

definition ClaimAirdrop ::
    "'e keeper \<Rightarrow> block_ctx \<Rightarrow> string \<Rightarrow> 'e cstate \<Rightarrow> ('e cstate \<times> int \<times> int) result" where
  "ClaimAirdrop k ctx msg_ClaimAddress s =
     (let S = k_sdk k in
      rbind (MustAccAddress S msg_ClaimAddress) (\<lambda>sender.
      rbind (MustAccAddress S AirdropWallet) (\<lambda>airdropWallet.
      let params = GetParams s; currentHeight = u64 (BlockHeight ctx)
      in if \<not> p_EnableClaim params then Inl ErrClaimNotEnabled
         else if ac_Claimed (GetAirdropClaimed k s sender) then Inl ErrAirdropAlreadyClaimed
         else if currentHeight < p_StartAirdropClaimHeight params then Inl ErrAirdropNotStarted
         else if currentHeight > p_EndAirdropClaimHeight params then Inl ErrAirdropEnded
         else let total_elys = ad_Amount (GetNFTHolder k s sender) + ad_Amount (GetCadet k s sender) +
                    ad_Amount (GetGovernor k s sender);
                  total_eden = ad_Amount (GetAtomStaker k s sender)
           in rbind (one_coin S Elys total_elys) (\<lambda>elysCoins.
              rbind (bank_call (BkAccToMod (k_bank k) airdropWallet ModuleName elysCoins) s) (\<lambda>s1.
              rbind (bank_call (BkModToAcc (k_bank k) ModuleName sender elysCoins) s1) (\<lambda>s2.
              rbind (one_coin S Eden total_eden) (\<lambda>edenCoins.
              rbind (MintCoins k ModuleName edenCoins s2) (\<lambda>s3.
              rbind (SendCoinsFromModuleToAccount k ModuleName sender edenCoins s3) (\<lambda>s4.
              let s5 = SetAirdropClaimed k sender s4;
                  tot = GetTotalClaimed s5;
                  tot' = \<lparr>tc_TotalElysClaimed = tc_TotalElysClaimed tot + total_elys,
                          tc_TotalEdenClaimed = tc_TotalEdenClaimed tot + total_eden\<rparr>;
                  s6 = SetTotalClaimed tot' s5
              in if tc_TotalElysClaimed tot' > MaxElysAmount then Inl ErrMaxElysAmountReached
                 else if tc_TotalEdenClaimed tot' > MaxEdenAmount then Inl ErrMaxEdenAmountReached
                 else Inr (s6, total_elys, total_eden))))))))))"

text \<open>The answer: the liquid part and the vested part. \<open>0.125\<close> is the decimal
  \<open>125 * 10 ^ 15\<close>.\<close>

definition ClaimKol ::
    "'e keeper \<Rightarrow> block_ctx \<Rightarrow> string \<Rightarrow> bool \<Rightarrow> 'e cstate \<Rightarrow> ('e cstate \<times> int \<times> int) result" where
  "ClaimKol k ctx msg_ClaimAddress msg_Refund s =
     (let S = k_sdk k in
      rbind (MustAccAddress S msg_ClaimAddress) (\<lambda>sender.
      rbind (MustAccAddress S KolWallet) (\<lambda>kolWallet.
      let params = GetParams s; currentHeight = u64 (BlockHeight ctx); kol = GetKol k s sender
      in if \<not> p_EnableClaim params then Inl ErrClaimNotEnabled
         else if currentHeight < p_StartKolClaimHeight params then Inl ErrAirdropNotStarted
         else if currentHeight > p_EndKolClaimHeight params then Inl ErrAirdropEnded
         else if kol_Amount kol = 0 then Inl ErrKolNotFound
         else if kol_Claimed kol then Inl ErrKolAlreadyClaimed
         else if kol_Refunded kol then Inl ErrKolRefunded
         else if msg_Refund
         then rbind (SetKol k (kol\<lparr>kol_Refunded := True\<rparr>) s) (\<lambda>s1. Inr (s1, 0, 0))
         else let total_elys = kol_Amount kol;
                  liquid_elys = DTruncateInt (k_dec k)
                    (DMul (k_dec k) (dec_of_int total_elys) 125000000000000000)
           in rbind (if 0 < liquid_elys
                     then rbind (one_coin S Elys liquid_elys) (\<lambda>cs.
                          rbind (bank_call (BkAccToMod (k_bank k) kolWallet ModuleName cs) s) (\<lambda>s1.
                          bank_call (BkModToAcc (k_bank k) ModuleName sender cs) s1))
                     else Inr s) (\<lambda>s2.
              rbind (SetKol k (kol\<lparr>kol_Claimed := True\<rparr>) s2) (\<lambda>s3.
              Inr (s3, liquid_elys, total_elys - liquid_elys))))))"

definition ClaimRewardProgram ::
    "'e keeper \<Rightarrow> block_ctx \<Rightarrow> string \<Rightarrow> 'e cstate \<Rightarrow> ('e cstate \<times> int) result" where
  "ClaimRewardProgram k ctx msg_ClaimAddress s =
     (let S = k_sdk k in
      rbind (MustAccAddress S msg_ClaimAddress) (\<lambda>sender.
      let rewardProgram = GetRewardProgram k s sender; edenAmount = rp_Amount rewardProgram;
          params = GetParams s; currentHeight = u64 (BlockHeight ctx)
      in if edenAmount = 0 then Inl ErrRewardProgramNotFound
         else if \<not> p_EnableClaim params then Inl ErrClaimNotEnabled
         else if rp_Claimed rewardProgram then Inl ErrRewardProgramAlreadyClaimed
         else if currentHeight < p_StartRewardProgramClaimHeight params then Inl ErrRewardProgramNotStarted
         else if currentHeight > p_EndRewardProgramClaimHeight params then Inl ErrRewardProgramEnded
         else let tot = GetTotalRewardProgramClaimed s;
                  tot' = tot\<lparr>tc_TotalEdenClaimed := tc_TotalEdenClaimed tot + edenAmount\<rparr>;
                  s1 = SetTotalRewardProgramClaimed tot' s
           in rbind (one_coin S Eden edenAmount) (\<lambda>edenCoins.
              rbind (MintCoins k ModuleName edenCoins s1) (\<lambda>s2.
              rbind (SendCoinsFromModuleToAccount k ModuleName sender edenCoins s2) (\<lambda>s3.
              rbind (SetRewardProgram k (rewardProgram\<lparr>rp_Claimed := True\<rparr>) s3) (\<lambda>s4.
              if tc_TotalEdenClaimed tot' > maxEdenAmountToClaim then Inl ErrMaxEdenAmountReached
              else Inr (s4, edenAmount)))))))"

definition BurnAirdropWallet :: "'e keeper \<Rightarrow> block_ctx \<Rightarrow> 'e cstate \<Rightarrow> 'e cstate result" where
  "BurnAirdropWallet k ctx s =
     rbind (AccAddressFromBech32 (k_sdk k) ''elys1uqznyaahdmp3ay8zex5cwf729ggdhc45dtys4f'') (\<lambda>wallet.
     let amountToBurn = (if ChainID ctx = ''elysicstestnet-1'' then 1000000000 else 990250400000)
     in rbind (one_coin (k_sdk k) Elys amountToBurn) (\<lambda>cs.
        rbind (SendCoinsFromAccountToModule k wallet ModuleName cs s) (\<lambda>s1.
        BurnCoins k ModuleName cs s1)))"

definition msg_UpdateAirdropParams ::
    "'e keeper \<Rightarrow> string \<Rightarrow> Params \<Rightarrow> 'e cstate \<Rightarrow> 'e cstate result" where
  "msg_UpdateAirdropParams k msg_Authority msg s =
     (if k_authority k \<noteq> msg_Authority then Inl gov_ErrInvalidSigner
      else Inr (SetParams ((GetParams s)
        \<lparr>p_EnableClaim := p_EnableClaim msg,
         p_StartAirdropClaimHeight := p_StartAirdropClaimHeight msg,
         p_EndAirdropClaimHeight := p_EndAirdropClaimHeight msg,
         p_StartKolClaimHeight := p_StartKolClaimHeight msg,
         p_EndKolClaimHeight := p_EndKolClaimHeight msg,
         p_StartRewardProgramClaimHeight := p_StartRewardProgramClaimHeight msg,
         p_EndRewardProgramClaimHeight := p_EndRewardProgramClaimHeight msg\<rparr>) s))"

section \<open>Basic validation of messages\<close>

text \<open>\<open>ValidateBasic\<close> of the messages; an amount may be nil there.\<close>

definition address_ok :: "sdk \<Rightarrow> string \<Rightarrow> unit result" where
  "address_ok S a =
     (case AccAddressFromBech32 S a of Inl e \<Rightarrow> Inl sdk_ErrInvalidAddress | Inr _ \<Rightarrow> Inr ())"

definition val_address_ok :: "sdk \<Rightarrow> string \<Rightarrow> unit result" where
  "val_address_ok S a =
     (case ValAddressFromBech32 S a of Inl e \<Rightarrow> Inl sdk_ErrInvalidAddress | Inr _ \<Rightarrow> Inr ())"

definition amount_ok :: "int option \<Rightarrow> unit result" where
  "amount_ok amount =
     (case amount of None \<Rightarrow> Inl ErrInvalidAmount
      | Some a \<Rightarrow> if a < 0 \<or> a = 0 then Inl ErrInvalidAmount else Inr ())"

definition valid_denom :: "sdk \<Rightarrow> string \<Rightarrow> unit result" where
  "valid_denom S d = (if ValidateDenom S d = Inr () then Inr () else Inl ErrInvalidDenom)"

definition MsgCancelVest_ValidateBasic :: "sdk \<Rightarrow> string \<Rightarrow> int option \<Rightarrow> string \<Rightarrow> unit result" where
  "MsgCancelVest_ValidateBasic S creator amount denom =
     rbind (address_ok S creator) (\<lambda>_.
     if denom \<noteq> Eden then Inl ErrInvalidDenom else amount_ok amount)"

definition MsgClaimAirdrop_ValidateBasic :: "sdk \<Rightarrow> string \<Rightarrow> unit result" where
  "MsgClaimAirdrop_ValidateBasic S claimAddress = address_ok S claimAddress"
definition MsgClaimKol_ValidateBasic :: "sdk \<Rightarrow> string \<Rightarrow> unit result" where
  "MsgClaimKol_ValidateBasic S claimAddress = address_ok S claimAddress"
definition MsgClaimVesting_ValidateBasic :: "sdk \<Rightarrow> string \<Rightarrow> unit result" where
  "MsgClaimVesting_ValidateBasic S sender = address_ok S sender"
definition MsgUpdateAirdropParams_ValidateBasic :: "sdk \<Rightarrow> string \<Rightarrow> unit result" where
  "MsgUpdateAirdropParams_ValidateBasic S authority = address_ok S authority"
definition MsgUpdateEnableVestNow_ValidateBasic :: "sdk \<Rightarrow> string \<Rightarrow> unit result" where
  "MsgUpdateEnableVestNow_ValidateBasic S authority = address_ok S authority"

definition MsgUpdateVestingInfo_ValidateBasic :: "sdk \<Rightarrow> string \<Rightarrow> VestingInfo \<Rightarrow> unit result" where
  "MsgUpdateVestingInfo_ValidateBasic S authority info =
     rbind (address_ok S authority) (\<lambda>_. VestingInfo_Validate S info)"

definition MsgCommitClaimedRewards_ValidateBasic ::
    "sdk \<Rightarrow> string \<Rightarrow> int option \<Rightarrow> string \<Rightarrow> unit result" where
  "MsgCommitClaimedRewards_ValidateBasic S creator amount denom =
     rbind (address_ok S creator) (\<lambda>_. rbind (valid_denom S denom) (\<lambda>_. amount_ok amount))"

definition MsgUncommitTokens_ValidateBasic ::
    "sdk \<Rightarrow> string \<Rightarrow> int option \<Rightarrow> string \<Rightarrow> unit result" where
  "MsgUncommitTokens_ValidateBasic S creator amount denom =
     rbind (address_ok S creator) (\<lambda>_. rbind (valid_denom S denom) (\<lambda>_. amount_ok amount))"

definition MsgVest_ValidateBasic :: "sdk \<Rightarrow> string \<Rightarrow> int option \<Rightarrow> string \<Rightarrow> unit result" where
  "MsgVest_ValidateBasic S creator amount denom =
     rbind (address_ok S creator) (\<lambda>_. rbind (amount_ok amount) (\<lambda>_. valid_denom S denom))"
definition MsgVestLiquid_ValidateBasic :: "sdk \<Rightarrow> string \<Rightarrow> int option \<Rightarrow> string \<Rightarrow> unit result" where
  "MsgVestLiquid_ValidateBasic S creator amount denom =
     rbind (address_ok S creator) (\<lambda>_. rbind (amount_ok amount) (\<lambda>_. valid_denom S denom))"
definition MsgVestNow_ValidateBasic :: "sdk \<Rightarrow> string \<Rightarrow> int option \<Rightarrow> string \<Rightarrow> unit result" where
  "MsgVestNow_ValidateBasic S creator amount denom =
     rbind (address_ok S creator) (\<lambda>_. rbind (amount_ok amount) (\<lambda>_. valid_denom S denom))"

definition MsgStake_ValidateBasic ::
    "sdk \<Rightarrow> string \<Rightarrow> int option \<Rightarrow> string \<Rightarrow> string \<Rightarrow> unit result" where
  "MsgStake_ValidateBasic S creator amount asset validator =
     rbind (address_ok S creator) (\<lambda>_. rbind (valid_denom S asset) (\<lambda>_.
     rbind (if asset = Elys then val_address_ok S validator else Inr ()) (\<lambda>_. amount_ok amount)))"
definition MsgUnstake_ValidateBasic ::
    "sdk \<Rightarrow> string \<Rightarrow> int option \<Rightarrow> string \<Rightarrow> string \<Rightarrow> unit result" where
  "MsgUnstake_ValidateBasic S creator amount asset validator =
     rbind (address_ok S creator) (\<lambda>_. rbind (amount_ok amount) (\<lambda>_. rbind (valid_denom S asset) (\<lambda>_.
     if asset = Elys then val_address_ok S validator else Inr ())))"

section \<open>Staking\<close>

text \<open>
  \<open>NewCoin\<close> has already panicked on an invalid coin, so \<open>IsValid\<close> holds where the code asks
  it. The staking module's \<open>Delegate\<close> and \<open>Undelegate\<close> are parameters.
\<close>

definition performStakeElys ::
    "'e keeper \<Rightarrow> string \<Rightarrow> int \<Rightarrow> string \<Rightarrow> string \<Rightarrow> 'e cstate \<Rightarrow> 'e cstate result" where
  "performStakeElys k msg_Creator msg_Amount msg_Asset msg_Validator s =
     (let S = k_sdk k in
      rbind (AccAddressFromBech32 S msg_Creator) (\<lambda>address.
      rbind (ValAddressFromBech32 S msg_Validator) (\<lambda>validator.
      rbind (NewCoin S msg_Asset msg_Amount) (\<lambda>amount.
      if Amount amount = 0 then Inl (Plain ''invalid amount'')
      else if k_IsVestingAccount k (cs_ext s) address \<and>
              msg_Amount > AmountOf S (BkSpendable (k_bank k) address (cs_ext s)) msg_Asset
      then Inl (Plain ''sdk.ErrUnauthorized'')
      else bank_call (k_Delegate k msg_Creator msg_Validator amount) s))))"

definition performCommit ::
    "'e keeper \<Rightarrow> block_ctx \<Rightarrow> string \<Rightarrow> int \<Rightarrow> string \<Rightarrow> 'e cstate \<Rightarrow> 'e cstate result" where
  "performCommit k ctx msg_Creator msg_Amount msg_Asset s =
     rbind (MsgCommitClaimedRewards_ValidateBasic (k_sdk k) msg_Creator (Some msg_Amount) msg_Asset) (\<lambda>_.
     CommitClaimedRewards k ctx msg_Creator msg_Amount msg_Asset s)"

definition msg_Stake ::
    "'e keeper \<Rightarrow> block_ctx \<Rightarrow> string \<Rightarrow> int \<Rightarrow> string \<Rightarrow> string \<Rightarrow> 'e cstate \<Rightarrow> 'e cstate result" where
  "msg_Stake k ctx msg_Creator msg_Amount msg_Asset msg_Validator s =
     (if msg_Asset = Elys
      then performStakeElys k msg_Creator msg_Amount msg_Asset msg_Validator s
      else performCommit k ctx msg_Creator msg_Amount msg_Asset s)"

definition performUnstakeElys ::
    "'e keeper \<Rightarrow> string \<Rightarrow> int \<Rightarrow> string \<Rightarrow> string \<Rightarrow> 'e cstate \<Rightarrow> 'e cstate result" where
  "performUnstakeElys k msg_Creator msg_Amount msg_Asset msg_Validator s =
     (let S = k_sdk k in
      rbind (AccAddressFromBech32 S msg_Creator) (\<lambda>address.
      rbind (ValAddressFromBech32 S msg_Validator) (\<lambda>validator.
      rbind (NewCoin S msg_Asset msg_Amount) (\<lambda>amount.
      if Amount amount = 0 then Inl (Plain ''invalid amount'')
      else bank_call (k_Undelegate k msg_Creator msg_Validator amount) s))))"

definition performUncommit ::
    "'e keeper \<Rightarrow> block_ctx \<Rightarrow> string \<Rightarrow> int \<Rightarrow> string \<Rightarrow> 'e cstate \<Rightarrow> 'e cstate result" where
  "performUncommit k ctx msg_Creator msg_Amount msg_Asset s =
     rbind (MsgUncommitTokens_ValidateBasic (k_sdk k) msg_Creator (Some msg_Amount) msg_Asset) (\<lambda>_.
     msg_UncommitTokens k ctx msg_Creator msg_Amount msg_Asset s)"

definition msg_Unstake ::
    "'e keeper \<Rightarrow> block_ctx \<Rightarrow> string \<Rightarrow> int \<Rightarrow> string \<Rightarrow> string \<Rightarrow> 'e cstate \<Rightarrow> 'e cstate result" where
  "msg_Unstake k ctx msg_Creator msg_Amount msg_Asset msg_Validator s =
     (if msg_Asset = Elys
      then performUnstakeElys k msg_Creator msg_Amount msg_Asset msg_Validator s
      else performUncommit k ctx msg_Creator msg_Amount msg_Asset s)"

section \<open>The supply recomputed, and genesis\<close>

definition eden_supply_step ::
    "sdk \<Rightarrow> string \<Rightarrow> Commitments \<Rightarrow> int \<Rightarrow> int" where
  "eden_supply_step S d val acc =
     fold (\<lambda>token acc. if ct_Denom token = d then acc + ct_Amount token else acc)
       (cm_CommittedTokens val) acc + AmountOf S (cm_Claimed val) d"

text \<open>\<open>TotalEdenVested\<close> is not set there, so its \<open>math.Int\<close> is nil, which the codec stores
  as zero.\<close>

definition V10_SetEdenEdenBSupply :: "'e keeper \<Rightarrow> 'e cstate \<Rightarrow> 'e cstate" where
  "V10_SetEdenEdenBSupply k s =
     SetTotalSupply
       \<lparr>ts_TotalEdenSupply = fold (eden_supply_step (k_sdk k) Eden) (GetAllCommitments s) 0,
        ts_TotalEdenbSupply = fold (eden_supply_step (k_sdk k) EdenB) (GetAllCommitments s) 0,
        ts_TotalEdenVested = 0\<rparr> s"

definition V10_SetEdenVested :: "'e cstate \<Rightarrow> 'e cstate" where
  "V10_SetEdenVested s =
     (let totalEdenVested = fold (\<lambda>val acc. fold (\<lambda>token acc. acc + vt_TotalAmount token)
            (cm_VestingTokens val) acc) (GetAllCommitments s) 0
      in SetTotalSupply ((GetTotalSupply s)\<lparr>ts_TotalEdenVested := totalEdenVested\<rparr>) s)"

record GenesisState =
  gs_Params :: Params
  gs_Commitments :: "Commitments list"
  gs_AtomStakers :: "AirdropEntry list"
  gs_Cadets :: "AirdropEntry list"
  gs_Governors :: "AirdropEntry list"
  gs_NftHolders :: "AirdropEntry list"
  gs_KolList :: "KolList list"

fun set_all :: "('v \<Rightarrow> 's \<Rightarrow> 's result) \<Rightarrow> 'v list \<Rightarrow> 's \<Rightarrow> 's result" where
  "set_all setv [] s = Inr s"
| "set_all setv (v # vs) s = rbind (setv v s) (set_all setv vs)"

definition InitGenesis :: "'e keeper \<Rightarrow> GenesisState \<Rightarrow> 'e cstate \<Rightarrow> 'e cstate result" where
  "InitGenesis k g s =
     rbind (set_all (SetCommitments k) (gs_Commitments g) (SetParams (gs_Params g) s)) (\<lambda>s1.
     rbind (set_all (SetAtomStaker k) (gs_AtomStakers g) s1) (\<lambda>s2.
     rbind (set_all (SetNFTHodler k) (gs_NftHolders g) s2) (\<lambda>s3.
     rbind (set_all (SetGovernor k) (gs_Governors g) s3) (\<lambda>s4.
     rbind (set_all (SetCadet k) (gs_Cadets g) s4) (\<lambda>s5.
     set_all (SetKol k) (gs_KolList g) s5)))))"

definition ExportGenesis :: "'e cstate \<Rightarrow> GenesisState" where
  "ExportGenesis s =
     \<lparr>gs_Params = GetParams s, gs_Commitments = GetAllCommitments s,
      gs_AtomStakers = GetAllAtomStakers s, gs_Cadets = GetAllCadets s,
      gs_Governors = GetAllGovernors s, gs_NftHolders = GetAllNFTHolders s,
      gs_KolList = GetAllKol s\<rparr>"

section \<open>Queries\<close>

definition q_CommitmentVestingInfo ::
    "'e keeper \<Rightarrow> block_ctx \<Rightarrow> string \<Rightarrow> 'e cstate \<Rightarrow> (int \<times> (int \<times> int \<times> int \<times> int) list) result" where
  "q_CommitmentVestingInfo k ctx req_Address s =
     rbind (MustAccAddress (k_sdk k) req_Address) (\<lambda>address.
       fold (\<lambda>vesting acc. rbind acc (\<lambda>(totalVesting, details).
            rbind (VestedSoFar ctx vesting) (\<lambda>sofar.
            Inr (totalVesting + (vt_TotalAmount vesting - vt_ClaimedAmount vesting),
                 details @ [(vt_TotalAmount vesting, vt_ClaimedAmount vesting, sofar,
                   i64 (vt_NumBlocks vesting - i64 (BlockHeight ctx - vt_StartBlock vesting)))]))))
         (cm_VestingTokens (GetCommitments k s address)) (Inr (0, [])))"

definition q_AirDrop ::
    "'e keeper \<Rightarrow> string \<Rightarrow> 'e cstate \<Rightarrow> (int \<times> int \<times> int \<times> int \<times> bool) result" where
  "q_AirDrop k req_Address s =
     rbind (AccAddressFromBech32 (k_sdk k) req_Address) (\<lambda>address.
       Inr (ad_Amount (GetAtomStaker k s address), ad_Amount (GetCadet k s address),
            ad_Amount (GetNFTHolder k s address), ad_Amount (GetGovernor k s address),
            ac_Claimed (GetAirdropClaimed k s address)))"

definition q_Kol :: "'e keeper \<Rightarrow> string \<Rightarrow> 'e cstate \<Rightarrow> (int \<times> bool \<times> bool) result" where
  "q_Kol k req_Address s =
     rbind (MustAccAddress (k_sdk k) req_Address) (\<lambda>a.
       let kol = GetKol k s a in Inr (kol_Amount kol, kol_Claimed kol, kol_Refunded kol))"

definition q_TotalSupply :: "'e cstate \<Rightarrow> int \<times> int \<times> int" where
  "q_TotalSupply s =
     (let supply = GetTotalSupply s
      in (ts_TotalEdenSupply supply, ts_TotalEdenbSupply supply, ts_TotalEdenVested supply))"

definition q_RewardProgram :: "'e keeper \<Rightarrow> string \<Rightarrow> 'e cstate \<Rightarrow> (int \<times> bool) result" where
  "q_RewardProgram k req_Address s =
     rbind (AccAddressFromBech32 (k_sdk k) req_Address) (\<lambda>address.
       let rp = GetRewardProgram k s address in Inr (rp_Amount rp, rp_Claimed rp))"

end
