(* ===== verification/CommitmentInv.thy ===== *)
theory CommitmentInv
  imports CommitmentClaims
begin

text \<open>
  The invariant of the commitment store, what a write does to it and to quantities summed
  over all accounts, and the effect of the operations on one account.
\<close>

section \<open>The store invariant\<close>

text \<open>The keys are in order, every entry is stored under its creator's address, claimed
  tokens are a valid coin set, committed tokens have one entry per denomination, and
  \<open>NumberOfCommitments\<close> counts the entries.\<close>

definition entry_ok :: "sdk \<Rightarrow> addr \<Rightarrow> Commitments \<Rightarrow> bool" where
  "entry_ok S a c \<longleftrightarrow> AccAddressFromBech32 S (cm_Creator c) = Inr a \<and> coins_ok S (cm_Claimed c) \<and>
     distinct (denoms_of c)"

lemma entry_ok_vesting [simp]: "entry_ok S a (c\<lparr>cm_VestingTokens := vs\<rparr>) = entry_ok S a c"
  by (simp add: entry_ok_def denoms_of_def)

definition store_inv :: "'e keeper \<Rightarrow> 'e cstate \<Rightarrow> bool" where
  "store_inv k s \<longleftrightarrow> kv_ok (cs_commitments s) \<and>
     (\<forall>a c. kv_get (cs_commitments s) a = Some c \<longrightarrow> entry_ok (k_sdk k) a c) \<and>
     p_NumberOfCommitments (GetParams s) = u64 (int (length (cs_commitments s)))"

text \<open>What \<open>SetCommitments\<close> leaves when the creator's address converts.\<close>

definition put_commitments :: "addr \<Rightarrow> Commitments \<Rightarrow> 'e cstate \<Rightarrow> 'e cstate" where
  "put_commitments a c s =
     (if HasCommitments s a then s
      else SetParams ((GetParams s)\<lparr>p_NumberOfCommitments :=
             u64 (p_NumberOfCommitments (GetParams s) + 1)\<rparr>) s)
     \<lparr>cs_commitments := kv_set a c (cs_commitments s)\<rparr>"

lemma SetCommitments_ok:
  "AccAddressFromBech32 (k_sdk k) (cm_Creator c) = Inr a \<Longrightarrow>
     SetCommitments k c s = Inr (put_commitments a c s)"
  by (simp add: SetCommitments_def MustAccAddress_def put_commitments_def SetParams_def)

lemma SetCommitments_Inr:
  "SetCommitments k c s = Inr s' \<longleftrightarrow>
     (\<exists>a. AccAddressFromBech32 (k_sdk k) (cm_Creator c) = Inr a \<and> s' = put_commitments a c s)"
  by (auto simp: SetCommitments_def MustAccAddress_def put_commitments_def SetParams_def
      split: sum.splits)

lemma put_commitments_sel [simp]:
  "cs_commitments (put_commitments a c s) = kv_set a c (cs_commitments s)"
  "cs_supply (put_commitments a c s) = cs_supply s"
  "cs_ext (put_commitments a c s) = cs_ext s"
  "GetTotalSupply (put_commitments a c s) = GetTotalSupply s"
  by (simp_all add: put_commitments_def SetParams_def GetTotalSupply_def)

lemma put_commitments_params:
  "GetParams (put_commitments a c s) =
     (if HasCommitments s a then GetParams s
      else (GetParams s)\<lparr>p_NumberOfCommitments := u64 (p_NumberOfCommitments (GetParams s) + 1)\<rparr>)"
  by (simp add: put_commitments_def SetParams_def GetParams_def)

lemma GetCommitments_put:
  "GetCommitments k (put_commitments a c s) b = (if b = a then c else GetCommitments k s b)"
  by (simp add: GetCommitments_def kv_get_set)

lemma kv_set_length:
  "kv_ok m \<Longrightarrow> length (kv_set a c m) = (if kv_has m a then length m else Suc (length m))"
proof (induction m)
  case Nil
  then show ?case by (simp add: kv_has_def)
next
  case (Cons kv m)
  obtain b v where kv: "kv = (b, v)" by (cases kv)
  have ok: "kv_ok m" using Cons.prems by (simp add: kv_ok_def)
  have below: "a \<le> b \<Longrightarrow> \<not> kv_has m a"
    using Cons.prems kv_get_below [of b v m a] by (simp add: kv kv_has_def)
  have "kv_has ((b, v) # m) a \<longleftrightarrow> a = b \<or> kv_has m a"
    by (auto simp: kv_has_def kv_get_def)
  then show ?case using Cons.IH [OF ok] below by (auto simp: kv)
qed

lemma u64_Suc: "u64 (u64 (int n) + 1) = u64 (int (Suc n))"
proof -
  have "u64 (u64 (int n) + 1) = (int n + 1) mod 2 ^ 64"
    unfolding u64_def by (rule mod_add_left_eq)
  then show ?thesis by (simp add: u64_def add.commute)
qed

lemma store_inv_put:
  assumes "store_inv k s" and "entry_ok (k_sdk k) a c"
  shows "store_inv k (put_commitments a c s)"
  using assms
  by (auto simp: store_inv_def kv_ok_set kv_get_set put_commitments_params HasCommitments_def
      kv_set_length u64_Suc)

lemma GetCommitments_ok:
  assumes "sdk_laws (k_sdk k)" and "store_inv k s"
  shows "entry_ok (k_sdk k) a (GetCommitments k s a)"
  using assms
  by (auto simp: GetCommitments_def store_inv_def entry_ok_def bech32_roundtrip coins_ok_Nil
      denoms_of_def split: option.split)

text \<open>State changes outside the entries and the counter keep the invariant.\<close>

lemma store_inv_cong:
  "cs_commitments s' = cs_commitments s \<Longrightarrow>
     p_NumberOfCommitments (GetParams s') = p_NumberOfCommitments (GetParams s) \<Longrightarrow>
     store_inv k s' = store_inv k s"
  by (simp add: store_inv_def)

lemma state_frames [simp]:
  "cs_commitments (SetTotalSupply t s) = cs_commitments s"
  "cs_ext (SetTotalSupply t s) = cs_ext s"
  "GetParams (SetTotalSupply t s) = GetParams s"
  "GetTotalSupply (SetTotalSupply t s) = t"
  "cs_commitments (SetParams p s) = cs_commitments s"
  "cs_ext (SetParams p s) = cs_ext s"
  "GetParams (SetParams p s) = p"
  "GetTotalSupply (SetParams p s) = GetTotalSupply s"
  by (simp_all add: SetTotalSupply_def SetParams_def GetParams_def GetTotalSupply_def)

lemma bank_call_Inr:
  "bank_call f s = Inr s' \<longleftrightarrow> (\<exists>e. f (cs_ext s) = Inr e \<and> s' = s\<lparr>cs_ext := e\<rparr>)"
  by (auto simp: bank_call_def)

lemma ext_frames [simp]:
  "GetParams (s\<lparr>cs_ext := e\<rparr>) = GetParams s"
  "GetTotalSupply (s\<lparr>cs_ext := e\<rparr>) = GetTotalSupply s"
  "GetCommitments k (s\<lparr>cs_ext := e\<rparr>) a = GetCommitments k s a"
  "GetCommitments k (SetTotalSupply t s) a = GetCommitments k s a"
  "GetCommitments k (SetParams p s) a = GetCommitments k s a"
  "GetVestingInfo (s\<lparr>cs_ext := e\<rparr>) d = GetVestingInfo s d"
  by (simp_all add: GetParams_def GetTotalSupply_def GetCommitments_def GetVestingInfo_def)

lemma store_inv_frames [simp]:
  "store_inv k (s\<lparr>cs_ext := e\<rparr>) = store_inv k s"
  "store_inv k (SetTotalSupply t s) = store_inv k s"
  by (simp_all add: store_inv_def)

section \<open>Quantities summed over the accounts\<close>

text \<open>A quantity of one account that is zero for an account with no entry, and its total.\<close>

definition accounts_total :: "(Commitments \<Rightarrow> int) \<Rightarrow> 'e cstate \<Rightarrow> int" where
  "accounts_total f s = kv_sum f (cs_commitments s)"

locale account_measure =
  fixes f :: "Commitments \<Rightarrow> int"
  assumes f_empty: "f \<lparr>cm_Creator = cr, cm_CommittedTokens = [], cm_Claimed = [],
                      cm_VestingTokens = []\<rparr> = 0"
begin

lemma total_put:
  assumes "store_inv k s"
  shows "accounts_total f (put_commitments a c s) =
    accounts_total f s + f c - f (GetCommitments k s a)"
  using assms
  by (simp add: accounts_total_def store_inv_def kv_sum_set GetCommitments_def f_empty
      split: option.split)

lemma total_frames [simp]:
  "accounts_total f (s\<lparr>cs_ext := e\<rparr>) = accounts_total f s"
  "accounts_total f (SetTotalSupply t s) = accounts_total f s"
  "accounts_total f (SetParams p s) = accounts_total f s"
  by (simp_all add: accounts_total_def)

end

text \<open>Eden (or EdenB) that an account owns: claimed and committed.\<close>

definition owned :: "string \<Rightarrow> Commitments \<Rightarrow> int" where
  "owned d c = GetClaimedForDenom c d + GetCommittedAmountForDenom c d"

text \<open>Tokens of a denomination that an account's vestings still owe it.\<close>

definition owed_by :: "VestingTokens list \<Rightarrow> string \<Rightarrow> int" where
  "owed_by vs d =
     sum_list (map (\<lambda>v. if vt_Denom v = d then vt_TotalAmount v - vt_ClaimedAmount v else 0) vs)"

definition owed :: "string \<Rightarrow> Commitments \<Rightarrow> int" where
  "owed d c = owed_by (cm_VestingTokens c) d"

interpretation eden: account_measure "owned Eden"
  by unfold_locales (simp add: owned_def GetClaimedForDenom_def GetCommittedAmountForDenom_def)

interpretation edenb: account_measure "owned EdenB"
  by unfold_locales (simp add: owned_def GetClaimedForDenom_def GetCommittedAmountForDenom_def)

interpretation vesting: account_measure "owed Elys"
  by unfold_locales (simp add: owed_def owed_by_def)

section \<open>Effects on one account\<close>

lemma owned_update [simp]:
  "owned d (c\<lparr>cm_VestingTokens := vs\<rparr>) = owned d c"
  "owed d (c\<lparr>cm_Claimed := cl\<rparr>) = owed d c"
  "owed d (c\<lparr>cm_CommittedTokens := ts\<rparr>) = owed d c"
  "owed d (c\<lparr>cm_VestingTokens := vs\<rparr>) = owed_by vs d"
  by (simp_all add: owned_def owed_def GetClaimedForDenom_def GetCommittedAmountForDenom_def)

lemma AddClaimed_sel [simp]:
  "cm_Creator (AddClaimed S coin c) = cm_Creator c"
  "cm_CommittedTokens (AddClaimed S coin c) = cm_CommittedTokens c"
  "cm_VestingTokens (AddClaimed S coin c) = cm_VestingTokens c"
  "GetCommittedAmountForDenom (AddClaimed S coin c) d = GetCommittedAmountForDenom c d"
  "owed d (AddClaimed S coin c) = owed d c"
  by (simp_all add: AddClaimed_def GetCommittedAmountForDenom_def)

lemma AddClaimed_ok:
  assumes "sdk_laws S" "entry_ok S a c" "denom_ok S d" "0 \<le> x"
  shows "entry_ok S a (AddClaimed S \<lparr>Denom = d, Amount = x\<rparr> c)"
    and "GetClaimedForDenom (AddClaimed S \<lparr>Denom = d, Amount = x\<rparr> c) d' =
      GetClaimedForDenom c d' + (if d' = d then x else 0)"
    and "owned d' (AddClaimed S \<lparr>Denom = d, Amount = x\<rparr> c) = owned d' c + (if d' = d then x else 0)"
proof -
  have cl: "coins_ok S (cm_Claimed c)" using assms(2) by (simp add: entry_ok_def)
  have cl': "coins_ok S (CoinsAdd S (cm_Claimed c) [\<lparr>Denom = d, Amount = x\<rparr>])"
    by (rule coins_ok_add1 [OF assms(1) cl assms(3,4)])
  show "entry_ok S a (AddClaimed S \<lparr>Denom = d, Amount = x\<rparr> c)"
    using assms(2) cl' by (simp add: entry_ok_def AddClaimed_def denoms_of_def)
  show g: "GetClaimedForDenom (AddClaimed S \<lparr>Denom = d, Amount = x\<rparr> c) d' =
      GetClaimedForDenom c d' + (if d' = d then x else 0)" for d'
    using cl cl' assms
    by (simp add: GetClaimedForDenom_def AddClaimed_def claimed_amount_AmountOf AmountOf_add1)
  show "owned d' (AddClaimed S \<lparr>Denom = d, Amount = x\<rparr> c) = owned d' c + (if d' = d then x else 0)"
    using g by (simp add: owned_def)
qed

lemma SubClaimed_ok:
  assumes "sdk_laws S" "entry_ok S a c" "denom_ok S d" "0 \<le> x"
  shows "GetClaimedForDenom c d < x \<Longrightarrow>
      SubClaimed S \<lparr>Denom = d, Amount = x\<rparr> c = Inl ErrInsufficientClaimed"
    and "x \<le> GetClaimedForDenom c d \<Longrightarrow> \<exists>c'. SubClaimed S \<lparr>Denom = d, Amount = x\<rparr> c = Inr c'"
    and "SubClaimed S \<lparr>Denom = d, Amount = x\<rparr> c = Inr c' \<Longrightarrow>
      entry_ok S a c' \<and> x \<le> GetClaimedForDenom c d \<and>
      cm_VestingTokens c' = cm_VestingTokens c \<and> cm_CommittedTokens c' = cm_CommittedTokens c \<and>
      (\<forall>d'. GetClaimedForDenom c' d' = GetClaimedForDenom c d' - (if d' = d then x else 0))"
proof -
  have cl: "coins_ok S (cm_Claimed c)" using assms(2) by (simp add: entry_ok_def)
  have am: "GetClaimedForDenom c d' = AmountOf S (cm_Claimed c) d'" for d'
    by (simp add: GetClaimedForDenom_def claimed_amount_AmountOf assms(1) cl)
  show "GetClaimedForDenom c d < x \<Longrightarrow>
      SubClaimed S \<lparr>Denom = d, Amount = x\<rparr> c = Inl ErrInsufficientClaimed"
    by (simp add: SubClaimed_def am)
  show "\<exists>c'. SubClaimed S \<lparr>Denom = d, Amount = x\<rparr> c = Inr c'" if "x \<le> GetClaimedForDenom c d"
  proof -
    have x: "x \<le> AmountOf S (cm_Claimed c) d" using that by (simp add: am)
    obtain cs' where "CoinsSub S (cm_Claimed c) [\<lparr>Denom = d, Amount = x\<rparr>] = Inr cs'"
      by (rule CoinsSub1 [OF assms(1) cl assms(3,4) x])
    then show ?thesis using x by (simp add: SubClaimed_def)
  qed
  show "entry_ok S a c' \<and> x \<le> GetClaimedForDenom c d \<and>
      cm_VestingTokens c' = cm_VestingTokens c \<and> cm_CommittedTokens c' = cm_CommittedTokens c \<and>
      (\<forall>d'. GetClaimedForDenom c' d' = GetClaimedForDenom c d' - (if d' = d then x else 0))"
    if c': "SubClaimed S \<lparr>Denom = d, Amount = x\<rparr> c = Inr c'"
  proof -
    have x: "x \<le> AmountOf S (cm_Claimed c) d" using c' by (auto simp: SubClaimed_def split: if_splits)
    obtain cs' where cs': "CoinsSub S (cm_Claimed c) [\<lparr>Denom = d, Amount = x\<rparr>] = Inr cs'"
      "coins_ok S cs'"
      "\<And>d'. AmountOf S cs' d' = AmountOf S (cm_Claimed c) d' - (if d' = d then x else 0)"
      by (rule CoinsSub1 [OF assms(1) cl assms(3,4) x]) blast
    have "c' = c\<lparr>cm_Claimed := cs'\<rparr>" using c' x cs'(1) by (auto simp: SubClaimed_def)
    then show ?thesis
      using assms(1,2) cs'(2,3) x am
      by (simp add: entry_ok_def GetClaimedForDenom_def claimed_amount_AmountOf denoms_of_def)
  qed
qed

section \<open>Hooks\<close>

text \<open>What the model asks of the hooks of other modules: they keep a property \<open>P\<close> of the
  state.\<close>

definition keeps :: "('s \<Rightarrow> bool) \<Rightarrow> ('s \<Rightarrow> 's result) \<Rightarrow> bool" where
  "keeps P f \<longleftrightarrow> (\<forall>s t. P s \<longrightarrow> f s = Inr t \<longrightarrow> P t)"

definition hooks_keep :: "('s \<Rightarrow> bool) \<Rightarrow> 's commit_hooks \<Rightarrow> bool" where
  "hooks_keep P h \<longleftrightarrow>
     (\<forall>a cs. keeps P (hk_CommitmentChanged h a cs)) \<and> (\<forall>a c. keeps P (hk_EdenUncommitted h a c)) \<and>
     (\<forall>a. keeps P (hk_BeforeEdenInitialCommit h a)) \<and> (\<forall>a. keeps P (hk_BeforeEdenBInitialCommit h a)) \<and>
     (\<forall>a. keeps P (hk_BeforeEdenCommitChange h a)) \<and> (\<forall>a. keeps P (hk_BeforeEdenBCommitChange h a))"

definition hooks_inv :: "'e keeper \<Rightarrow> ('e cstate \<Rightarrow> bool) \<Rightarrow> bool" where
  "hooks_inv k P \<longleftrightarrow> (case k_hooks k of None \<Rightarrow> True | Some h \<Rightarrow> hooks_keep P h)"

lemma keepsD: "keeps P f \<Longrightarrow> P s \<Longrightarrow> f s = Inr t \<Longrightarrow> P t"
  by (simp add: keeps_def)

lemma hooks_inv_None: "k_hooks k = None \<Longrightarrow> hooks_inv k P"
  by (simp add: hooks_inv_def)

lemma hooks_invD:
  assumes "hooks_inv k P" "P s"
  shows "CommitmentChanged k a cs s = Inr t \<Longrightarrow> P t"
    and "EdenUncommitted k a c s = Inr t \<Longrightarrow> P t"
    and "hook_call k (\<lambda>h. hk_BeforeEdenInitialCommit h a) s = Inr t \<Longrightarrow> P t"
    and "hook_call k (\<lambda>h. hk_BeforeEdenBInitialCommit h a) s = Inr t \<Longrightarrow> P t"
    and "hook_call k (\<lambda>h. hk_BeforeEdenCommitChange h a) s = Inr t \<Longrightarrow> P t"
    and "hook_call k (\<lambda>h. hk_BeforeEdenBCommitChange h a) s = Inr t \<Longrightarrow> P t"
proof -
  have *: "hooks_keep P h" if "k_hooks k = Some h" for h using assms(1) that by (simp add: hooks_inv_def)
  note k = * [unfolded hooks_keep_def]
  show "CommitmentChanged k a cs s = Inr t \<Longrightarrow> P t"
    using k assms(2)
    by (cases "k_hooks k") (simp_all add: CommitmentChanged_def, metis keepsD)
  show "EdenUncommitted k a c s = Inr t \<Longrightarrow> P t"
    using k assms(2)
    by (cases "k_hooks k") (simp_all add: EdenUncommitted_def, metis keepsD)
  have call: "P t" if f: "\<And>h. hooks_keep P h \<Longrightarrow> keeps P (f h)" and call: "hook_call k f s = Inr t" for f
  proof -
    obtain h where h: "k_hooks k = Some h" "f h s = Inr t"
      using call by (cases "k_hooks k") (simp_all add: hook_call_def)
    show ?thesis by (rule keepsD [OF f [OF * [OF h(1)]] assms(2) h(2)])
  qed
  show "hook_call k (\<lambda>h. hk_BeforeEdenInitialCommit h a) s = Inr t \<Longrightarrow> P t"
    by (erule call [rotated]) (simp add: hooks_keep_def)
  show "hook_call k (\<lambda>h. hk_BeforeEdenBInitialCommit h a) s = Inr t \<Longrightarrow> P t"
    by (erule call [rotated]) (simp add: hooks_keep_def)
  show "hook_call k (\<lambda>h. hk_BeforeEdenCommitChange h a) s = Inr t \<Longrightarrow> P t"
    by (erule call [rotated]) (simp add: hooks_keep_def)
  show "hook_call k (\<lambda>h. hk_BeforeEdenBCommitChange h a) s = Inr t \<Longrightarrow> P t"
    by (erule call [rotated]) (simp add: hooks_keep_def)
qed

text \<open>The multi-hook of the application keeps what each of its parts keeps.\<close>

lemma keeps_run_hooks:
  assumes "\<And>h. h \<in> set hs \<Longrightarrow> keeps P (f h)"
  shows "keeps P (run_hooks (map f hs))"
  unfolding keeps_def
proof (intro allI impI)
  fix s t
  assume "P s" and run: "run_hooks (map f hs) s = Inr t"
  have "P s \<longrightarrow> P t"
    by (rule run_hooks_keeps [OF _ _ _ run]) (use assms in \<open>auto intro: keepsD\<close>)
  then show "P t" using \<open>P s\<close> by simp
qed

lemma multi_hooks_keep:
  "(\<And>h. h \<in> set mh \<Longrightarrow> hooks_keep P h) \<Longrightarrow> hooks_keep P (MultiCommitmentHooks mh)"
  by (auto simp: hooks_keep_def MultiCommitmentHooks_def intro!: keeps_run_hooks)

end
