(* ===== verification/CommitmentSteps.thy ===== *)
theory CommitmentSteps
  imports CommitmentInv
begin

text \<open>
  Properties of the commitment store that every operation keeps. \<open>coin_contract\<close> states what
  a property \<open>P\<close> of the state (over entries that satisfy \<open>Q\<close>) must promise of the elementary
  writes for mint, burn and send to keep it; \<open>store_contract\<close> adds the parameters and the
  hooks, and gives every message; \<open>claim_contract\<close> adds the lists of the one-time claims and
  gives every call. The interpretations at the end are the store's own invariant and the
  flags of the three claims.
\<close>

lemma or_insufficient_Inr: "or_insufficient m = Inr x \<longleftrightarrow> m = Inr x"
  by (auto simp: or_insufficient_def split: sum.splits err.splits)

lemma on_ok_False: "on_ok Q (Inl e)"
  by simp

section \<open>Mint, burn and send\<close>

locale coin_contract =
  fixes P :: "'e keeper \<Rightarrow> 'e cstate \<Rightarrow> bool"
    and Q :: "sdk \<Rightarrow> Commitments \<Rightarrow> bool"
  assumes laws: "P k s \<Longrightarrow> sdk_laws (k_sdk k)"
    and get: "P k s \<Longrightarrow> Q (k_sdk k) (GetCommitments k s a)"
    and set: "P k s \<Longrightarrow> Q (k_sdk k) c \<Longrightarrow> on_ok (P k) (SetCommitments k c s)"
    and ext: "P k s \<Longrightarrow> P k (s\<lparr>cs_ext := e\<rparr>)"
    and sup: "P k s \<Longrightarrow> P k (SetTotalSupply t s)"
    and Q_add: "sdk_laws S \<Longrightarrow> NewCoin S d x = Inr coin \<Longrightarrow> Q S c \<Longrightarrow> Q S (AddClaimed S coin c)"
    and Q_sub: "sdk_laws S \<Longrightarrow> NewCoin S d x = Inr coin \<Longrightarrow> SubClaimed S coin c = Inr c' \<Longrightarrow>
      Q S c \<Longrightarrow> Q S c'"
begin

text \<open>The rules follow a handler: a step that returns a state must keep the property, the
  value of any other step is remembered.\<close>

lemma state_bind:
  "on_ok (P k) m \<Longrightarrow> (\<And>x. P k x \<Longrightarrow> on_ok R (f x)) \<Longrightarrow> on_ok R (rbind m f)"
  by (auto simp: on_ok_def)

lemma state_bind3:
  "on_ok (\<lambda>(a, b, s). P k s) m \<Longrightarrow> (\<And>a b s. P k s \<Longrightarrow> on_ok R (f (a, b, s))) \<Longrightarrow>
     on_ok R (rbind m f)"
  by (force simp: on_ok_def)

lemma bank_keeps:
  assumes "P k s"
  shows "on_ok (P k) (bank_call f s)"
    and "on_ok (P k) (or_insufficient (bank_call f s))"
    and "on_ok (P k) (bank_call f (SetTotalSupply t s))"
    and "on_ok (P k) (Inr (SetTotalSupply t s))"
    and "on_ok (P k) (Inr s)"
  using ext [OF assms] ext [OF sup [OF assms]] sup [OF assms] assms
  by (auto simp: on_ok_def or_insufficient_Inr bank_call_Inr)

lemma if_supply: "P k s \<Longrightarrow> P k (if b then SetTotalSupply t s else s)"
  by (simp add: sup)

lemmas set_keeps = set set [OF sup] set [OF if_supply]

lemma take_Q:
  "take_in S d (amt, c) = Inr (amt', c') \<Longrightarrow> sdk_laws S \<Longrightarrow> Q S c \<Longrightarrow> Q S c'"
  "take_out S d (amt, c) = Inr (amt', c') \<Longrightarrow> sdk_laws S \<Longrightarrow> Q S c \<Longrightarrow> Q S c'"
  by (auto simp: take_in_def take_out_def intro: Q_add Q_sub split: if_splits)

lemma eden_edenb_keeps:
  assumes s: "P k s"
  shows "on_ok (\<lambda>(a, b, s). P k s) (AddEdenEdenBOnAccount k a amt s)"
    and "on_ok (\<lambda>(a, b, s). P k s) (AddEdenEdenBOnModule k m amt s)"
    and "on_ok (\<lambda>(a, b, s). P k s) (SubEdenEdenBOnModule k m amt s)"
  using get [OF s] laws [OF s] on_okD [OF set [OF s]]
  by (auto simp: AddEdenEdenBOnAccount_def AddEdenEdenBOnModule_def SubEdenEdenBOnModule_def
      Let_def on_ok_def dest!: take_Q)

lemma MintCoins_keeps:
  assumes s: "P k s"
  shows "on_ok (P k) (MintCoins k m amt s)"
  unfolding MintCoins_def Let_def
  by (rule s state_bind state_bind3 on_ok_intros bank_keeps set_keeps eden_edenb_keeps on_ok_False | assumption
      | fastforce intro: laws get Q_add Q_sub sup s)+

lemma BurnCoins_keeps:
  assumes s: "P k s"
  shows "on_ok (P k) (BurnCoins k m amt s)"
  unfolding BurnCoins_def Let_def
  by (rule s state_bind state_bind3 on_ok_intros bank_keeps set_keeps eden_edenb_keeps on_ok_False | assumption
      | fastforce intro: laws get Q_add Q_sub sup s)+

lemma SendCoinsFromModuleToModule_keeps:
  assumes s: "P k s"
  shows "on_ok (P k) (SendCoinsFromModuleToModule k m n amt s)"
  unfolding SendCoinsFromModuleToModule_def Let_def
  by (rule s state_bind state_bind3 on_ok_intros bank_keeps set_keeps eden_edenb_keeps on_ok_False | assumption
      | fastforce intro: laws get Q_add Q_sub sup s)+

lemma SendCoinsFromModuleToAccount_keeps:
  assumes s: "P k s"
  shows "on_ok (P k) (SendCoinsFromModuleToAccount k m a amt s)"
  unfolding SendCoinsFromModuleToAccount_def Let_def
  by (rule s state_bind state_bind3 on_ok_intros bank_keeps set_keeps eden_edenb_keeps on_ok_False | assumption
      | fastforce intro: laws get Q_add Q_sub sup s)+

lemma SendCoinsFromAccountToModule_keeps:
  assumes s: "P k s"
  shows "on_ok (P k) (SendCoinsFromAccountToModule k a m amt s)"
  unfolding SendCoinsFromAccountToModule_def Let_def
  by (rule s state_bind state_bind3 on_ok_intros bank_keeps set_keeps eden_edenb_keeps on_ok_False | assumption
      | fastforce intro: laws get Q_add Q_sub sup s)+

lemma BurnAirdropWallet_keeps:
  assumes s: "P k s"
  shows "on_ok (P k) (BurnAirdropWallet k ctx s)"
  unfolding BurnAirdropWallet_def Let_def
  by (rule s state_bind state_bind3 on_ok_intros bank_keeps set_keeps eden_edenb_keeps on_ok_False SendCoinsFromAccountToModule_keeps BurnCoins_keeps | assumption
      | fastforce intro: laws get Q_add Q_sub sup s)+

end

section \<open>Messages\<close>

locale store_contract = coin_contract +
  assumes params: "P k s \<Longrightarrow> p_NumberOfCommitments p = p_NumberOfCommitments (GetParams s) \<Longrightarrow>
      P k (SetParams p s)"
    and hooks: "P k s \<Longrightarrow> hooks_inv k (P k)"
    and Q_deduct: "DeductFromCommitted d x t liq c = Inr c' \<Longrightarrow> Q S c \<Longrightarrow> Q S c'"
    and Q_commit: "Q S c \<Longrightarrow> Q S (AddCommittedTokens d x u c)"
    and Q_vesting: "Q S c \<Longrightarrow> Q S (c\<lparr>cm_VestingTokens := vs\<rparr>)"
begin

lemma hooks_keep:
  assumes s: "P k s"
  shows "on_ok (P k) (CommitmentChanged k a cs s)"
    and "on_ok (P k) (EdenUncommitted k a c s)"
    and "on_ok (P k) (hook_call k (\<lambda>h. hk_BeforeEdenInitialCommit h a) s)"
    and "on_ok (P k) (hook_call k (\<lambda>h. hk_BeforeEdenBInitialCommit h a) s)"
    and "on_ok (P k) (hook_call k (\<lambda>h. hk_BeforeEdenCommitChange h a) s)"
    and "on_ok (P k) (hook_call k (\<lambda>h. hk_BeforeEdenBCommitChange h a) s)"
  using hooks_invD [OF hooks [OF s] s] by (auto simp: on_ok_def)

lemma optional_hook_keeps:
  assumes s: "P k s"
  shows "on_ok (P k) (case k_hooks k of None \<Rightarrow> Inr s | Some h \<Rightarrow> hk_BeforeEdenBCommitChange h a s)"
    and "on_ok (P k) (case k_hooks k of None \<Rightarrow> Inr s
            | Some h \<Rightarrow> rbind m (\<lambda>c. hk_CommitmentChanged h a [c] s))"
  using on_okD [OF hooks_keep(6) [OF s]] on_okD [OF hooks_keep(1) [OF s]] s
  by (auto simp: on_ok_def hook_call_def CommitmentChanged_def split: option.splits)

lemma sub_edenb_keeps: "P k s \<Longrightarrow> P k (sub_edenb_supply x s)"
  by (simp add: sub_edenb_supply_def Let_def sup)

lemma DeductClaimed_Q: "DeductClaimed k a d x s = Inr c \<Longrightarrow> P k s \<Longrightarrow> Q (k_sdk k) c"
  unfolding DeductClaimed_def by (auto intro: laws get Q_sub)

lemma UncommitTokens_keeps:
  assumes s: "P k s"
  shows "on_ok (P k) (UncommitTokens k ctx a d x liq s)"
  unfolding UncommitTokens_def Let_def
  by (rule s state_bind state_bind3 on_ok_intros bank_keeps hooks_keep set_keeps on_ok_False | assumption
      | fastforce intro: laws get Q_add Q_sub Q_deduct Q_commit Q_vesting params DeductClaimed_Q s)+

lemma msg_UncommitTokens_keeps:
  assumes s: "P k s"
  shows "on_ok (P k) (msg_UncommitTokens k ctx c x d s)"
  unfolding msg_UncommitTokens_def Let_def
  by (rule s state_bind state_bind3 on_ok_intros bank_keeps hooks_keep set_keeps on_ok_False UncommitTokens_keeps | assumption
      | fastforce intro: laws get Q_add Q_sub Q_deduct Q_commit Q_vesting params DeductClaimed_Q s)+

lemma CommitLiquidTokens_keeps:
  assumes s: "P k s"
  shows "on_ok (P k) (CommitLiquidTokens k ctx a d x u s)"
  unfolding CommitLiquidTokens_def Let_def
  by (rule s state_bind state_bind3 on_ok_intros bank_keeps hooks_keep set_keeps on_ok_False | assumption
      | fastforce intro: laws get Q_add Q_sub Q_deduct Q_commit Q_vesting params DeductClaimed_Q s)+

lemma DepositLiquidTokensClaimed_keeps:
  assumes s: "P k s"
  shows "on_ok (P k) (DepositLiquidTokensClaimed k d x a s)"
  unfolding DepositLiquidTokensClaimed_def Let_def
  by (rule s state_bind state_bind3 on_ok_intros bank_keeps hooks_keep set_keeps on_ok_False | assumption
      | fastforce intro: laws get Q_add Q_sub Q_deduct Q_commit Q_vesting params DeductClaimed_Q s)+

lemma CommitClaimedRewards_keeps:
  assumes s: "P k s"
  shows "on_ok (P k) (CommitClaimedRewards k ctx c x d s)"
  unfolding CommitClaimedRewards_def Let_def
  by (rule s state_bind state_bind3 on_ok_intros bank_keeps hooks_keep set_keeps on_ok_False | assumption
      | fastforce intro: laws get Q_add Q_sub Q_deduct Q_commit Q_vesting params DeductClaimed_Q s)+

lemma ProcessTokenVesting_keeps:
  assumes s: "P k s"
  shows "on_ok (P k) (ProcessTokenVesting k ctx d x a s)"
  unfolding ProcessTokenVesting_def Let_def
  by (rule s state_bind state_bind3 on_ok_intros bank_keeps hooks_keep set_keeps on_ok_False | assumption
      | fastforce intro: laws get Q_add Q_sub Q_deduct Q_commit Q_vesting params DeductClaimed_Q s)+

lemma msg_Vest_keeps:
  assumes s: "P k s"
  shows "on_ok (P k) (msg_Vest k ctx c x d s)"
  unfolding msg_Vest_def Let_def
  by (rule s state_bind state_bind3 on_ok_intros bank_keeps hooks_keep set_keeps on_ok_False ProcessTokenVesting_keeps | assumption
      | fastforce intro: laws get Q_add Q_sub Q_deduct Q_commit Q_vesting params DeductClaimed_Q s)+

lemma msg_VestLiquid_keeps:
  assumes s: "P k s"
  shows "on_ok (P k) (msg_VestLiquid k ctx c x d s)"
  unfolding msg_VestLiquid_def Let_def
  by (rule s state_bind state_bind3 on_ok_intros bank_keeps hooks_keep set_keeps on_ok_False DepositLiquidTokensClaimed_keeps ProcessTokenVesting_keeps | assumption
      | fastforce intro: laws get Q_add Q_sub Q_deduct Q_commit Q_vesting params DeductClaimed_Q s)+

lemma msg_VestNow_keeps:
  assumes s: "P k s"
  shows "on_ok (P k) (msg_VestNow k c x d s)"
  unfolding msg_VestNow_def Let_def
  by (rule s state_bind state_bind3 on_ok_intros bank_keeps hooks_keep set_keeps on_ok_False | assumption
      | fastforce intro: laws get Q_add Q_sub Q_deduct Q_commit Q_vesting params DeductClaimed_Q s)+

lemma ClaimVesting_keeps:
  assumes s: "P k s"
  shows "on_ok (P k) (ClaimVesting k ctx c s)"
  unfolding ClaimVesting_def Let_def
  by (rule s state_bind state_bind3 on_ok_intros bank_keeps hooks_keep set_keeps on_ok_False | assumption
      | fastforce intro: laws get Q_add Q_sub Q_deduct Q_commit Q_vesting params DeductClaimed_Q s)+

lemma msg_CancelVest_keeps:
  assumes s: "P k s"
  shows "on_ok (P k) (msg_CancelVest k ctx c x d s)"
  unfolding msg_CancelVest_def Let_def
  by (rule s state_bind state_bind3 on_ok_intros bank_keeps hooks_keep set_keeps on_ok_False ClaimVesting_keeps | assumption
      | fastforce intro: laws get Q_add Q_sub Q_deduct Q_commit Q_vesting params DeductClaimed_Q s)+

lemma BurnEdenBoost_keeps:
  assumes s: "P k s"
  shows "on_ok (P k) (BurnEdenBoost k ctx a d x s)"
  unfolding BurnEdenBoost_def Let_def
  by (rule s state_bind state_bind3 on_ok_intros bank_keeps hooks_keep set_keeps on_ok_False optional_hook_keeps sub_edenb_keeps set [OF sub_edenb_keeps] bank_keeps(5) [OF sub_edenb_keeps] optional_hook_keeps [OF sub_edenb_keeps] | assumption
      | fastforce intro: laws get Q_add Q_sub Q_deduct Q_commit Q_vesting params DeductClaimed_Q s)+

lemma msg_Stake_keeps:
  assumes s: "P k s"
  shows "on_ok (P k) (msg_Stake k ctx c x d v s)"
  unfolding msg_Stake_def performStakeElys_def performCommit_def Let_def
  by (rule s state_bind state_bind3 on_ok_intros bank_keeps hooks_keep set_keeps on_ok_False CommitClaimedRewards_keeps | assumption
      | fastforce intro: laws get Q_add Q_sub Q_deduct Q_commit Q_vesting params DeductClaimed_Q s)+

lemma msg_Unstake_keeps:
  assumes s: "P k s"
  shows "on_ok (P k) (msg_Unstake k ctx c x d v s)"
  unfolding msg_Unstake_def performUnstakeElys_def performUncommit_def Let_def
  by (rule s state_bind state_bind3 on_ok_intros bank_keeps hooks_keep set_keeps on_ok_False msg_UncommitTokens_keeps | assumption
      | fastforce intro: laws get Q_add Q_sub Q_deduct Q_commit Q_vesting params DeductClaimed_Q s)+

lemma params_msgs_keep:
  assumes "P k s"
  shows "on_ok (P k) (msg_UpdateVestingInfo k c info s)"
    and "on_ok (P k) (msg_UpdateEnableVestNow k c b s)"
    and "on_ok (P k) (msg_UpdateAirdropParams k c p s)"
  using assms
  by (auto simp: on_ok_def msg_UpdateVestingInfo_def msg_UpdateEnableVestNow_def
      msg_UpdateAirdropParams_def Let_def intro!: params split: if_splits sum.splits option.splits)

lemmas op_keeps = CommitLiquidTokens_keeps CommitClaimedRewards_keeps UncommitTokens_keeps
  msg_UncommitTokens_keeps msg_Vest_keeps msg_VestLiquid_keeps msg_VestNow_keeps ClaimVesting_keeps
  msg_CancelVest_keeps msg_Stake_keeps msg_Unstake_keeps MintCoins_keeps BurnCoins_keeps
  SendCoinsFromModuleToModule_keeps SendCoinsFromModuleToAccount_keeps
  SendCoinsFromAccountToModule_keeps BurnEdenBoost_keeps BurnAirdropWallet_keeps

end

section \<open>The lists of the claims\<close>

text \<open>Mint and send leave the lists of the one-time claims as they are: the first
  interpretation of \<open>coin_contract\<close>.\<close>

definition lists_of :: "'e cstate \<Rightarrow> (addr, KolList) kvs \<times> (addr, RewardProgram) kvs \<times>
    (addr, AirdropClaimed) kvs \<times> TotalClaimed option" where
  "lists_of s = (cs_kol s, cs_reward s, cs_airdrop_claimed s, cs_total_claimed s)"

definition claimed_ok :: "sdk \<Rightarrow> Commitments \<Rightarrow> bool" where
  "claimed_ok S c \<longleftrightarrow> coins_ok S (cm_Claimed c) \<and> distinct (denoms_of c)"

definition same_lists where
  "same_lists l k s \<longleftrightarrow> sdk_laws (k_sdk k) \<and> lists_of s = l"

lemma put_commitments_lists [simp]: "lists_of (put_commitments a c s) = lists_of s"
  by (simp add: put_commitments_def lists_of_def SetParams_def)

lemma lists_of_frames [simp]:
  "lists_of (s\<lparr>cs_ext := e\<rparr>) = lists_of s"
  "lists_of (SetTotalSupply t s) = lists_of s"
  "lists_of (SetParams p s) = lists_of s"
  "lists_of (SetTotalRewardProgramClaimed tc s) = lists_of s"
  by (simp_all add: lists_of_def SetTotalSupply_def SetParams_def SetTotalRewardProgramClaimed_def)

interpretation coins: coin_contract "same_lists l" "\<lambda>S c. True" for l
  by unfold_locales (auto simp: same_lists_def on_ok_def SetCommitments_Inr)

lemma coins_lists:
  assumes "sdk_laws (k_sdk k)"
  shows "MintCoins k m cs s = Inr t \<Longrightarrow> lists_of t = lists_of s"
    and "SendCoinsFromModuleToAccount k m a cs s = Inr t \<Longrightarrow> lists_of t = lists_of s"
  using on_okD [OF coins.MintCoins_keeps [of "lists_of s" k s]]
    on_okD [OF coins.SendCoinsFromModuleToAccount_keeps [of "lists_of s" k s]] assms
  by (auto simp: same_lists_def)

section \<open>Every call\<close>

locale claim_contract = store_contract +
  assumes kol: "P k s \<Longrightarrow> on_ok (P k) (SetKol k ((GetKol k s a)\<lparr>kol_Claimed := True\<rparr>) s)"
      "P k s \<Longrightarrow> on_ok (P k) (SetKol k ((GetKol k s a)\<lparr>kol_Refunded := True\<rparr>) s)"
    and reward: "P k s \<Longrightarrow> on_ok (P k) (SetRewardProgram k ((GetRewardProgram k s a)\<lparr>rp_Claimed := True\<rparr>) s)"
    and reward_total: "P k s \<Longrightarrow> P k (SetTotalRewardProgramClaimed tc s)"
    and airdrop: "P k s \<Longrightarrow> tc_TotalElysClaimed tc \<le> MaxElysAmount \<Longrightarrow>
      tc_TotalEdenClaimed tc \<le> MaxEdenAmount \<Longrightarrow> P k (SetTotalClaimed tc (SetAirdropClaimed k a s))"
begin

lemma ClaimAirdrop_keeps:
  assumes s: "P k s"
  shows "on_ok (\<lambda>x. P k (fst x)) (ClaimAirdrop k ctx c s)"
  unfolding ClaimAirdrop_def Let_def
  by (rule s state_bind on_ok_intros bank_keeps MintCoins_keeps SendCoinsFromModuleToAccount_keeps
      on_ok_False | assumption | simp add: airdrop)+

lemma ClaimKol_keeps:
  assumes s: "P k s"
  shows "on_ok (\<lambda>x. P k (fst x)) (ClaimKol k ctx c b s)"
proof -
  have get: "GetKol k (s\<lparr>cs_ext := e\<rparr>) a = GetKol k s a" for e a
    by (simp add: GetKol_def)
  note set = on_okD [OF kol(1) [OF ext [OF s]], unfolded get]
  show ?thesis
    using on_okD [OF kol(2) [OF s]] on_okD [OF kol(1) [OF s]] set
    by (auto simp: on_ok_def ClaimKol_def Let_def bank_call_Inr split: if_splits)
qed

lemma ClaimRewardProgram_keeps:
  assumes s: "P k s"
  shows "on_ok (\<lambda>x. P k (fst x)) (ClaimRewardProgram k ctx c s)"
proof -
  note S = laws [OF s]
  have get: "GetRewardProgram k t a = GetRewardProgram k s a" if "lists_of t = lists_of s" for t a
    using that by (simp add: GetRewardProgram_def lists_of_def)
  have step: "P k t'"
    if "MintCoins k m cs (SetTotalRewardProgramClaimed tc s) = Inr t1"
      "SendCoinsFromModuleToAccount k m a cs t1 = Inr t"
      "SetRewardProgram k ((GetRewardProgram k s a)\<lparr>rp_Claimed := True\<rparr>) t = Inr t'" for t1 t t' tc m a cs
  proof -
    have "P k t1" by (rule on_okD [OF MintCoins_keeps [OF reward_total [OF s]] that(1)])
    then have "P k t" by (rule on_okD [OF SendCoinsFromModuleToAccount_keeps that(2)])
    moreover have "GetRewardProgram k t a = GetRewardProgram k s a"
      by (rule get) (use coins_lists(1) [OF S that(1)] coins_lists(2) [OF S that(2)] in simp)
    ultimately show ?thesis
      using on_okD [OF reward [of k t a], of t'] that(3) by metis
  qed
  show ?thesis
    unfolding ClaimRewardProgram_def Let_def
    by (rule on_ok_intros on_ok_False)+ (simp, erule (2) step)
qed

lemma claims_keep:
  assumes "P k s"
  shows "on_ok (P k) (rbind (ClaimAirdrop k ctx c s) (\<lambda>r. Inr (fst r)))"
    and "on_ok (P k) (rbind (ClaimKol k ctx c b s) (\<lambda>r. Inr (fst r)))"
    and "on_ok (P k) (rbind (ClaimRewardProgram k ctx c s) (\<lambda>r. Inr (fst r)))"
  using ClaimAirdrop_keeps [OF assms, of ctx c] ClaimKol_keeps [OF assms, of ctx c b]
    ClaimRewardProgram_keeps [OF assms, of ctx c]
  by (auto simp: on_ok_def)

end

section \<open>Runs\<close>

text \<open>
  The entry points: the messages of \<open>MsgServer\<close>, with the keeper functions other modules
  call. Each comes with the block context it runs in.
\<close>

datatype commitment_call =
    CallCommitLiquid addr string int int
  | CallCommitClaimed string int string
  | CallUncommit addr string int bool
  | MsgUncommitTokens string int string
  | MsgVest string int string
  | MsgVestLiquid string int string
  | MsgVestNow string int string
  | MsgClaimVesting string
  | MsgCancelVest string int string
  | MsgStake string int string string
  | MsgUnstake string int string string
  | MsgUpdateVestingInfo string VestingInfo
  | MsgUpdateEnableVestNow string bool
  | MsgUpdateAirdropParams string Params
  | MsgClaimAirdrop string
  | MsgClaimKol string bool
  | MsgClaimRewardProgram string
  | CallMint string coins
  | CallBurn string coins
  | CallSendModuleToModule string string coins
  | CallSendModuleToAccount string addr coins
  | CallSendAccountToModule addr string coins
  | CallBurnEdenBoost addr string int
  | CallBurnAirdropWallet

fun handle ::
    "block_ctx \<times> commitment_call \<Rightarrow> 'e keeper \<times> 'e cstate \<Rightarrow> ('e keeper \<times> 'e cstate) result" where
  "handle (ctx, m) (k, s) = rbind
     (case m of
        CallCommitLiquid a d x u \<Rightarrow> CommitLiquidTokens k ctx a d x u s
      | CallCommitClaimed c x d \<Rightarrow> CommitClaimedRewards k ctx c x d s
      | CallUncommit a d x liq \<Rightarrow> UncommitTokens k ctx a d x liq s
      | MsgUncommitTokens c x d \<Rightarrow> msg_UncommitTokens k ctx c x d s
      | MsgVest c x d \<Rightarrow> msg_Vest k ctx c x d s
      | MsgVestLiquid c x d \<Rightarrow> msg_VestLiquid k ctx c x d s
      | MsgVestNow c x d \<Rightarrow> msg_VestNow k c x d s
      | MsgClaimVesting c \<Rightarrow> ClaimVesting k ctx c s
      | MsgCancelVest c x d \<Rightarrow> msg_CancelVest k ctx c x d s
      | MsgStake c x d v \<Rightarrow> msg_Stake k ctx c x d v s
      | MsgUnstake c x d v \<Rightarrow> msg_Unstake k ctx c x d v s
      | MsgUpdateVestingInfo c info \<Rightarrow> msg_UpdateVestingInfo k c info s
      | MsgUpdateEnableVestNow c b \<Rightarrow> msg_UpdateEnableVestNow k c b s
      | MsgUpdateAirdropParams c p \<Rightarrow> msg_UpdateAirdropParams k c p s
      | MsgClaimAirdrop c \<Rightarrow> rbind (ClaimAirdrop k ctx c s) (\<lambda>r. Inr (fst r))
      | MsgClaimKol c r \<Rightarrow> rbind (ClaimKol k ctx c r s) (\<lambda>r. Inr (fst r))
      | MsgClaimRewardProgram c \<Rightarrow> rbind (ClaimRewardProgram k ctx c s) (\<lambda>r. Inr (fst r))
      | CallMint m cs \<Rightarrow> MintCoins k m cs s
      | CallBurn m cs \<Rightarrow> BurnCoins k m cs s
      | CallSendModuleToModule m n cs \<Rightarrow> SendCoinsFromModuleToModule k m n cs s
      | CallSendModuleToAccount m a cs \<Rightarrow> SendCoinsFromModuleToAccount k m a cs s
      | CallSendAccountToModule a m cs \<Rightarrow> SendCoinsFromAccountToModule k a m cs s
      | CallBurnEdenBoost a d x \<Rightarrow> BurnEdenBoost k ctx a d x s
      | CallBurnAirdropWallet \<Rightarrow> BurnAirdropWallet k ctx s)
     (\<lambda>t. Inr (k, t))"

lemma handle_keeper: "handle cm (k, s) = Inr kt \<Longrightarrow> fst kt = k"
  by (cases cm) auto

context claim_contract
begin

lemma handle_keeps:
  assumes "P k s" "handle cm (k, s) = Inr (k', t)"
  shows "P k' t"
proof -
  obtain ctx m where eq: "cm = (ctx, m)" by (cases cm)
  have "on_ok (\<lambda>kt. P k (snd kt)) (handle (ctx, m) (k, s))"
    unfolding handle.simps
    by (rule state_bind)
      (cases m, simp_all add: op_keeps [OF assms(1)] claims_keep [OF assms(1)]
        params_msgs_keep [OF assms(1)] del: rbind_eq_Inr)
  from on_okD [OF this, of "(k', t)"] show ?thesis
    using assms(2) handle_keeper [OF assms(2)] by (simp add: eq)
qed

sublocale run: invariant_step handle "\<lambda>ks. P (fst ks) (snd ks)"
  by unfold_locales (metis handle_keeps prod.collapse)

lemma run_keeps:
  assumes "P k s"
  shows "P k (snd (run_ops handle calls (k, s)))"
proof -
  have "fst (run_ops handle calls (k, s)) = k"
  proof (induction calls arbitrary: s)
    case Nil
    then show ?case by simp
  next
    case (Cons c calls)
    then show ?case
      by (cases "handle c (k, s)") (auto dest: handle_keeper simp: split_paired_all)
  qed
  moreover have "P (fst (run_ops handle calls (k, s))) (snd (run_ops handle calls (k, s)))"
    by (rule run.run_inv) (simp add: assms)
  ultimately show ?thesis by simp
qed

end

section \<open>The contracts hold\<close>

text \<open>The store invariant: the entries' claimed coins are valid sets, their committed
  denominations distinct.\<close>

definition inv_ctx :: "'e keeper \<Rightarrow> bool" where
  "inv_ctx k \<longleftrightarrow> sdk_laws (k_sdk k) \<and> hooks_inv k (store_inv k)"

lemma claimed_ok_closed:
  assumes "sdk_laws S"
  shows "NewCoin S d x = Inr coin \<Longrightarrow> claimed_ok S c \<Longrightarrow> claimed_ok S (AddClaimed S coin c)"
    and "NewCoin S d x = Inr coin \<Longrightarrow> SubClaimed S coin c = Inr c' \<Longrightarrow> claimed_ok S c \<Longrightarrow> claimed_ok S c'"
proof -
  show "NewCoin S d x = Inr coin \<Longrightarrow> claimed_ok S c \<Longrightarrow> claimed_ok S (AddClaimed S coin c)"
    using assms by (auto simp: claimed_ok_def AddClaimed_def NewCoin_Inr coins_ok_add1 denoms_of_def)
  show "claimed_ok S c'"
    if new: "NewCoin S d x = Inr coin" and sub: "SubClaimed S coin c = Inr c'" and c: "claimed_ok S c"
  proof -
    have coin: "denom_ok S d" "0 \<le> x" "coin = \<lparr>Denom = d, Amount = x\<rparr>"
      using new assms by (simp_all add: NewCoin_Inr)
    have cl: "coins_ok S (cm_Claimed c)" using c by (simp add: claimed_ok_def)
    have le: "x \<le> AmountOf S (cm_Claimed c) d"
      using sub by (simp add: SubClaimed_def coin split: if_splits)
    obtain cs' where "CoinsSub S (cm_Claimed c) [\<lparr>Denom = d, Amount = x\<rparr>] = Inr cs'" "coins_ok S cs'"
      by (rule CoinsSub1 [OF assms cl coin(1,2) le])
    then show ?thesis using sub le c by (auto simp: SubClaimed_def coin claimed_ok_def denoms_of_def)
  qed
qed

lemma claimed_ok_deduct:
  "DeductFromCommitted d x t liq c = Inr c' \<Longrightarrow> claimed_ok S c \<Longrightarrow> claimed_ok S c'"
  by (auto simp: DeductFromCommitted_def claimed_ok_def denoms_of_def deduct_committed_denoms
      distinct_remove1)

lemma claimed_ok_commit: "claimed_ok S c \<Longrightarrow> claimed_ok S (AddCommittedTokens d x u c)"
  by (simp add: claimed_ok_def AddCommittedTokens_def denoms_of_def denoms_add)

lemma store_inv_lists [simp]:
  "store_inv k (s\<lparr>cs_kol := m\<rparr>) = store_inv k s"
  "store_inv k (s\<lparr>cs_reward := m'\<rparr>) = store_inv k s"
  "store_inv k (s\<lparr>cs_airdrop_claimed := c\<rparr>) = store_inv k s"
  "store_inv k (s\<lparr>cs_total_claimed := tc\<rparr>) = store_inv k s"
  "store_inv k (s\<lparr>cs_total_reward := tc\<rparr>) = store_inv k s"
  by (simp_all add: store_inv_def GetParams_def)

lemma keeps_conj: "keeps P f \<Longrightarrow> keeps (\<lambda>s. A \<and> P s) f"
  unfolding keeps_def by blast

lemma hooks_inv_conj: "hooks_inv k P \<Longrightarrow> hooks_inv k (\<lambda>s. A \<and> P s)"
  by (cases "k_hooks k") (simp_all add: hooks_inv_def hooks_keep_def keeps_conj)

lemmas list_writes = SetKol_def SetRewardProgram_def SetAirdropClaimed_def SetTotalClaimed_def
  SetTotalRewardProgramClaimed_def

interpretation store: claim_contract "\<lambda>k s. inv_ctx k \<and> store_inv k s" claimed_ok
proof (unfold_locales, goal_cases)
  case (2 k s a)
  then show ?case using GetCommitments_ok [of k s a] by (simp add: inv_ctx_def entry_ok_def claimed_ok_def)
next
  case (3 k s c)
  then show ?case
    by (auto simp: on_ok_def SetCommitments_Inr entry_ok_def claimed_ok_def intro!: store_inv_put)
next
  case (8 k s p)
  then show ?case by (simp add: store_inv_def)
next
  case (9 k s)
  then show ?case by (intro hooks_inv_conj) (simp add: inv_ctx_def)
next
  case (6 S d x coin c)
  then show ?case by (rule claimed_ok_closed(1))
next
  case (7 S d x coin c c')
  then show ?case by (rule claimed_ok_closed(2))
next
  case (10 d x t liq c c' S)
  then show ?case by (rule claimed_ok_deduct)
next
  case (11 S c d x u)
  then show ?case by (rule claimed_ok_commit)
qed (auto simp: inv_ctx_def on_ok_def list_writes claimed_ok_def denoms_of_def)

text \<open>The flags of the claims, once set, stay set, and the airdrop's totals stay under their
  caps.\<close>

definition airdrop_done :: "addr \<Rightarrow> 'e keeper \<Rightarrow> 'e cstate \<Rightarrow> bool" where
  "airdrop_done a k s \<longleftrightarrow> ac_Claimed (GetAirdropClaimed k s a)"

definition kol_done :: "addr \<Rightarrow> 'e keeper \<Rightarrow> 'e cstate \<Rightarrow> bool" where
  "kol_done a k s \<longleftrightarrow> kol_Claimed (GetKol k s a) \<or> kol_Refunded (GetKol k s a)"

definition reward_done :: "addr \<Rightarrow> 'e keeper \<Rightarrow> 'e cstate \<Rightarrow> bool" where
  "reward_done a k s \<longleftrightarrow> rp_Claimed (GetRewardProgram k s a)"

definition airdrop_capped :: "'e keeper \<Rightarrow> 'e cstate \<Rightarrow> bool" where
  "airdrop_capped k s \<longleftrightarrow> tc_TotalElysClaimed (GetTotalClaimed s) \<le> MaxElysAmount \<and>
     tc_TotalEdenClaimed (GetTotalClaimed s) \<le> MaxEdenAmount"

definition kept_flag :: "('e keeper \<Rightarrow> 'e cstate \<Rightarrow> bool) \<Rightarrow> 'e keeper \<Rightarrow> 'e cstate \<Rightarrow> bool" where
  "kept_flag F k s \<longleftrightarrow> sdk_laws (k_sdk k) \<and> hooks_inv k (F k) \<and> F k s"

lemma flags_of_lists:
  assumes "lists_of t = lists_of s"
  shows "airdrop_done a k t = airdrop_done a k s" "kol_done a k t = kol_done a k s"
    "reward_done a k t = reward_done a k s" "airdrop_capped k t = airdrop_capped k s"
  using assms
  by (simp_all add: lists_of_def airdrop_done_def kol_done_def reward_done_def airdrop_capped_def
      GetAirdropClaimed_def GetKol_def GetRewardProgram_def GetTotalClaimed_def)

lemma kept_flag_lists:
  assumes F: "\<And>k s t. lists_of t = lists_of s \<Longrightarrow> F k t = F k s"
  shows "store_contract (kept_flag F) (\<lambda>S c. True)"
proof (unfold_locales, goal_cases)
  case (3 k s c)
  have "F k (put_commitments a c s) = F k s" for a by (rule F) simp
  with 3 show ?case by (auto simp: on_ok_def SetCommitments_Inr kept_flag_def)
next
  case (4 k s e)
  then show ?case using F [of "s\<lparr>cs_ext := e\<rparr>" s] by (simp add: kept_flag_def)
next
  case (5 k s t)
  then show ?case using F [of "SetTotalSupply t s" s] by (simp add: kept_flag_def)
next
  case (8 k s p)
  then show ?case using F [of "SetParams p s" s] by (simp add: kept_flag_def)
next
  case (9 k s)
  then have "hooks_inv k (\<lambda>s. (sdk_laws (k_sdk k) \<and> hooks_inv k (F k)) \<and> F k s)"
    by (intro hooks_inv_conj) (simp add: kept_flag_def)
  then show ?case by (simp add: kept_flag_def [abs_def])
qed (simp_all add: kept_flag_def)

lemmas flag_defs = kept_flag_def airdrop_done_def kol_done_def reward_done_def airdrop_capped_def
  GetAirdropClaimed_def GetKol_def GetRewardProgram_def GetTotalClaimed_def

interpretation airdrop: claim_contract "kept_flag (airdrop_done a)" "\<lambda>S c. True" for a
  by (rule claim_contract.intro [OF kept_flag_lists [OF flags_of_lists(1)]], unfold_locales)
    (auto simp: flag_defs list_writes on_ok_def kv_get_set split: option.splits if_splits)

interpretation kols: claim_contract "kept_flag (kol_done a)" "\<lambda>S c. True" for a
  by (rule claim_contract.intro [OF kept_flag_lists [OF flags_of_lists(2)]], unfold_locales)
    (auto simp: flag_defs list_writes on_ok_def kv_get_set split: option.splits if_splits)

interpretation rewards: claim_contract "kept_flag (reward_done a)" "\<lambda>S c. True" for a
  by (rule claim_contract.intro [OF kept_flag_lists [OF flags_of_lists(3)]], unfold_locales)
    (auto simp: flag_defs list_writes on_ok_def kv_get_set split: option.splits if_splits)

interpretation capped: claim_contract "kept_flag airdrop_capped" "\<lambda>S c. True"
  by (rule claim_contract.intro [OF kept_flag_lists [OF flags_of_lists(4)]], unfold_locales)
    (auto simp: flag_defs list_writes on_ok_def split: option.splits)

end
