(* ===== verification/VestingLaws.thy ===== *)
theory VestingLaws
  imports CommitmentSteps
begin

text \<open>
  What the two loops over an account's vestings do: claiming pays what has vested and leaves
  the rest owed, whatever the instants of the claims; cancelling turns owed tokens back.
\<close>

section \<open>Claiming\<close>

text \<open>A vesting as the module keeps it: a schedule that has started, in a valid
  denomination, of which no more has been claimed than has vested.\<close>

definition vesting_ok :: "sdk \<Rightarrow> block_ctx \<Rightarrow> VestingTokens \<Rightarrow> bool" where
  "vesting_ok S ctx v \<longleftrightarrow> schedule_ok ctx v \<and> denom_ok S (vt_Denom v) \<and>
     0 \<le> vt_ClaimedAmount v \<and>
     vt_ClaimedAmount v \<le> vested (vt_TotalAmount v) (vt_NumBlocks v) (BlockHeight ctx - vt_StartBlock v)"

definition vested_at :: "block_ctx \<Rightarrow> VestingTokens \<Rightarrow> int" where
  "vested_at ctx v = vested (vt_TotalAmount v) (vt_NumBlocks v) (BlockHeight ctx - vt_StartBlock v)"

text \<open>What a claim pays of a denomination, and what it leaves of the vestings.\<close>

definition claimable :: "block_ctx \<Rightarrow> VestingTokens list \<Rightarrow> string \<Rightarrow> int" where
  "claimable ctx vs d =
     sum_list (map (\<lambda>v. if vt_Denom v = d then vested_at ctx v - vt_ClaimedAmount v else 0) vs)"

definition after_claim :: "block_ctx \<Rightarrow> VestingTokens list \<Rightarrow> VestingTokens list" where
  "after_claim ctx vs =
     map (\<lambda>v. v\<lparr>vt_ClaimedAmount := vested_at ctx v\<rparr>)
       (filter (\<lambda>v. vested_at ctx v \<noteq> vt_TotalAmount v) vs)"

lemma vesting_okD:
  assumes "vesting_ok S ctx v"
  shows "VestedSoFar ctx v = Inr (vested_at ctx v)" and "vt_ClaimedAmount v \<le> vested_at ctx v"
    and "vested_at ctx v \<le> vt_TotalAmount v" and "denom_ok S (vt_Denom v)"
    and "0 < vt_NumBlocks v" and "0 \<le> vt_TotalAmount v"
  using assms
  by (simp_all add: vesting_ok_def vested_at_def VestedSoFar_eq schedule_ok_def vested_le)

lemma claim_vestings_eq:
  assumes S: "sdk_laws S" and ok: "\<forall>v\<in>set vs. vesting_ok S ctx v" and acc: "coins_ok S acc"
  obtains cs where "claim_vestings S ctx vs acc = Inr (cs, after_claim ctx vs)" "coins_ok S cs"
    "\<And>d. AmountOf S cs d = AmountOf S acc d + claimable ctx vs d"
proof -
  have "\<exists>cs. claim_vestings S ctx vs acc = Inr (cs, after_claim ctx vs) \<and> coins_ok S cs \<and>
      (\<forall>d. AmountOf S cs d = AmountOf S acc d + claimable ctx vs d)"
    using ok acc
  proof (induction vs arbitrary: acc)
    case Nil
    then show ?case by (simp add: after_claim_def claimable_def)
  next
    case (Cons v vs)
    note v = vesting_okD [of S ctx v]
    have vok: "vesting_ok S ctx v" using Cons.prems by simp
    let ?x = "vested_at ctx v - vt_ClaimedAmount v"
    have x: "0 \<le> ?x" using v(2) vok by simp
    let ?acc = "CoinsAdd S acc [\<lparr>Denom = vt_Denom v, Amount = ?x\<rparr>]"
    have "coins_ok S ?acc" by (rule coins_ok_add1 [OF S Cons.prems(2) v(4) [OF vok] x])
    then obtain cs where cs: "claim_vestings S ctx vs ?acc = Inr (cs, after_claim ctx vs)"
      "coins_ok S cs" "\<And>d. AmountOf S cs d = AmountOf S ?acc d + claimable ctx vs d"
      using Cons.IH [of ?acc] Cons.prems(1) by auto
    have am: "AmountOf S ?acc d = AmountOf S acc d + (if d = vt_Denom v then ?x else 0)" for d
      by (rule AmountOf_add1 [OF S Cons.prems(2) v(4) [OF vok] x])
    have "claim_vestings S ctx (v # vs) acc = Inr (cs, after_claim ctx (v # vs))"
      using v(1,4) [OF vok] x cs(1) by (simp add: NewCoin_eq [OF S] after_claim_def)
    moreover have "AmountOf S cs d = AmountOf S acc d + claimable ctx (v # vs) d" for d
      by (simp add: cs(3) am claimable_def)
    ultimately show ?case using cs(2) by blast
  qed
  then show thesis using that by blast
qed

lemma claimable_owed:
  "\<forall>v\<in>set vs. vesting_ok S ctx v \<Longrightarrow>
     owed_by (after_claim ctx vs) d + claimable ctx vs d = owed_by vs d"
  by (induction vs) (auto simp: owed_by_def after_claim_def claimable_def)

lemma claimable_nonneg: "\<forall>v\<in>set vs. vesting_ok S ctx v \<Longrightarrow> 0 \<le> claimable ctx vs d"
  unfolding claimable_def by (rule sum_list_nonneg_int) (auto dest: vesting_okD(2))

text \<open>Vestings stay well formed as time passes, and a claim leaves well-formed ones.\<close>

definition later :: "block_ctx \<Rightarrow> block_ctx \<Rightarrow> bool" where
  "later c c' \<longleftrightarrow> BlockHeight c \<le> BlockHeight c' \<and> BlockHeight c' < 2 ^ 63"

lemma vested_at_mono: "vesting_ok S c v \<Longrightarrow> later c c' \<Longrightarrow> vested_at c v \<le> vested_at c' v"
  unfolding vested_at_def by (rule vested_mono) (auto simp: vesting_ok_def schedule_ok_def later_def)

lemma vesting_ok_later: "vesting_ok S c v \<Longrightarrow> later c c' \<Longrightarrow> vesting_ok S c' v"
  using vested_at_mono [of S c v c']
  by (auto simp: vesting_ok_def schedule_ok_def later_def vested_at_def)

lemma vested_at_claimed [simp]: "vested_at c (v\<lparr>vt_ClaimedAmount := x\<rparr>) = vested_at c v"
  by (simp add: vested_at_def)

lemma vesting_ok_after:
  "\<forall>v\<in>set vs. vesting_ok S c v \<Longrightarrow> \<forall>v\<in>set (after_claim c vs). vesting_ok S c v"
  by (auto simp: after_claim_def vesting_ok_def schedule_ok_def vested_at_def vested_nonneg)

text \<open>Claiming at \<open>c\<close> and again at \<open>c'\<close> pays and leaves what one claim at \<open>c'\<close> does.\<close>

lemma claim_twice:
  assumes "\<forall>v\<in>set vs. vesting_ok S c v" "later c c'"
  shows "after_claim c' (after_claim c vs) = after_claim c' vs"
    and "claimable c vs d + claimable c' (after_claim c vs) d = claimable c' vs d"
proof -
  have full: "vested_at c' v = vt_TotalAmount v"
    if "v \<in> set vs" "vested_at c v = vt_TotalAmount v" for v
    using that assms vested_at_mono [of S c v c'] vesting_okD(3) [OF vesting_ok_later, of S c v c']
    by (metis antisym)
  show "after_claim c' (after_claim c vs) = after_claim c' vs"
    using full by (induction vs) (auto simp: after_claim_def)
  show "claimable c vs d + claimable c' (after_claim c vs) d = claimable c' vs d"
    using full by (induction vs) (auto simp: after_claim_def claimable_def)
qed

section \<open>Cancelling\<close>

text \<open>What a cancellation can take back: the unclaimed part of the Elys vestings.\<close>

definition cancellable :: "VestingTokens list \<Rightarrow> int" where
  "cancellable vs =
     sum_list (map (\<lambda>v. if skip_cancel v then 0 else vt_TotalAmount v - vt_ClaimedAmount v) vs)"

definition claimed_le :: "VestingTokens \<Rightarrow> bool" where
  "claimed_le v \<longleftrightarrow> 0 \<le> vt_ClaimedAmount v \<and> vt_ClaimedAmount v \<le> vt_TotalAmount v"

lemma cancellable_nonneg: "\<forall>v\<in>set vs. claimed_le v \<Longrightarrow> 0 \<le> cancellable vs"
  unfolding cancellable_def by (rule sum_list_nonneg_int) (auto simp: claimed_le_def)

lemma cancel_vestings_amounts:
  assumes "\<forall>v\<in>set vs. claimed_le v" "0 \<le> x" "cancel_vestings ctx vs x = (vs', r, n)"
  shows "n = min x (cancellable vs) \<and> r = x - n"
  using assms
proof (induction vs arbitrary: vs' r n)
  case Nil
  then show ?case by (simp add: cancellable_def)
next
  case (Cons v vs)
  obtain vs1 r1 n1 where rec: "cancel_vestings ctx vs x = (vs1, r1, n1)" by (metis prod_cases3)
  have IH: "n1 = min x (cancellable vs)" "r1 = x - n1" using Cons.IH [of vs1 r1 n1] Cons.prems rec by auto
  have nn: "0 \<le> cancellable vs" using Cons.prems cancellable_nonneg by simp
  show ?case
  proof (cases "skip_cancel v")
    case True
    then show ?thesis using Cons.prems rec IH by (auto simp: cancellable_def Let_def)
  next
    case False
    have "0 \<le> vt_TotalAmount v - vt_ClaimedAmount v" using Cons.prems by (simp add: claimed_le_def)
    then have "min x (cancellable (v # vs)) = n1 + min r1 (vt_TotalAmount v - vt_ClaimedAmount v)"
      using False IH nn Cons.prems(2) by (simp add: cancellable_def [of "v # vs"] flip: cancellable_def)
    moreover have "n = n1 + min r1 (vt_TotalAmount v - vt_ClaimedAmount v) \<and>
        r = r1 - min r1 (vt_TotalAmount v - vt_ClaimedAmount v)"
      using False Cons.prems(3) rec by (simp add: Let_def)
    ultimately show ?thesis using IH by simp
  qed
qed

lemma cancel_one_owed [simp]:
  "vt_TotalAmount (cancel_one ctx a v) - vt_ClaimedAmount (cancel_one ctx a v) =
     vt_TotalAmount v - vt_ClaimedAmount v - a"
  "vt_Denom (cancel_one ctx a v) = vt_Denom v"
  by (simp_all add: cancel_one_def)

lemma cancel_vestings_owed:
  assumes "cancel_vestings ctx vs x = (vs', r, n)"
  shows "owed_by vs' d = owed_by vs d - (if d = Elys then n else 0)"
  using assms
proof (induction vs arbitrary: vs' r n)
  case Nil
  then show ?case by (simp add: owed_by_def)
next
  case (Cons v vs)
  obtain vs1 r1 n1 where rec: "cancel_vestings ctx vs x = (vs1, r1, n1)" by (metis prod_cases3)
  have "owed_by vs1 d = owed_by vs d - (if d = Elys then n1 else 0)" by (rule Cons.IH [OF rec])
  then show ?case using Cons.prems rec
    by (cases "skip_cancel v") (auto simp: owed_by_def skip_cancel_def Let_def)
qed

text \<open>Dropping the vestings that owe nothing changes no amount owed.\<close>

lemma owed_by_filter:
  "\<forall>v\<in>set vs. claimed_le v \<Longrightarrow>
     owed_by (filter (\<lambda>v. \<not> vt_ClaimedAmount v \<ge> vt_TotalAmount v) vs) d = owed_by vs d"
  by (induction vs) (auto simp: owed_by_def claimed_le_def)

lemma cancel_vestings_claimed_le:
  assumes "\<forall>v\<in>set vs. claimed_le v" "0 \<le> x" "cancel_vestings ctx vs x = (vs', r, n)"
  shows "\<forall>v\<in>set vs'. claimed_le v"
  using assms
proof (induction vs arbitrary: vs' r n)
  case Nil
  then show ?case by simp
next
  case (Cons v vs)
  obtain vs1 r1 n1 where rec: "cancel_vestings ctx vs x = (vs1, r1, n1)" by (metis prod_cases3)
  have IH: "\<forall>v\<in>set vs1. claimed_le v" using Cons.IH [OF _ _ rec] Cons.prems by simp
  have "claimed_le v" using Cons.prems by simp
  then have "claimed_le (cancel_one ctx (min r1 (vt_TotalAmount v - vt_ClaimedAmount v)) v)"
    by (simp add: claimed_le_def cancel_one_def)
  then show ?case using Cons.prems rec IH \<open>claimed_le v\<close>
    by (cases "skip_cancel v") (auto simp: Let_def)
qed

text \<open>After a claim every schedule has blocks left, and cancelling restarts it over them: the
  vestings that remain are again well formed.\<close>

lemma cancel_one_ok:
  assumes "vesting_ok S ctx v" "vested_at ctx v \<noteq> vt_TotalAmount v"
    "a \<le> vt_TotalAmount v - vt_ClaimedAmount v"
  shows "vesting_ok S ctx (cancel_one ctx a v)"
proof -
  have sch: "schedule_ok ctx v" and dn: "denom_ok S (vt_Denom v)"
    using assms(1) by (simp_all add: vesting_ok_def)
  let ?e = "BlockHeight ctx - vt_StartBlock v" and ?n = "vt_NumBlocks v"
  have n: "0 < ?n" "0 \<le> ?e" "?n < 2 ^ 63" "?e < 2 ^ 63" using sch by (simp_all add: schedule_ok_def)
  have "?e < ?n" using assms(2) n vested_all [of ?n ?e] by (force simp: vested_at_def)
  then have nb: "vt_NumBlocks (cancel_one ctx a v) = ?n - ?e"
    using n by (simp add: cancel_one_def i64_id)
  have "schedule_ok ctx (cancel_one ctx a v)"
    using sch \<open>?e < ?n\<close> n assms(3) nb by (simp add: schedule_ok_def) (simp add: cancel_one_def)
  then show ?thesis using dn by (simp add: vesting_ok_def cancel_one_def vested_def)
qed

lemma cancel_vestings_ok:
  assumes "\<forall>v\<in>set vs. vesting_ok S ctx v \<and> vested_at ctx v \<noteq> vt_TotalAmount v" "0 \<le> x"
    "cancel_vestings ctx vs x = (vs', r, n)"
  shows "\<forall>v\<in>set vs'. vesting_ok S ctx v"
  using assms
proof (induction vs arbitrary: vs' r n)
  case Nil
  then show ?case by simp
next
  case (Cons v vs)
  obtain vs1 r1 n1 where rec: "cancel_vestings ctx vs x = (vs1, r1, n1)" by (metis prod_cases3)
  have IH: "\<forall>v\<in>set vs1. vesting_ok S ctx v" using Cons.IH [OF _ _ rec] Cons.prems by simp
  have v: "vesting_ok S ctx v" "vested_at ctx v \<noteq> vt_TotalAmount v" using Cons.prems by simp_all
  have "vesting_ok S ctx (cancel_one ctx (min r1 (vt_TotalAmount v - vt_ClaimedAmount v)) v)"
    by (rule cancel_one_ok [OF v]) simp
  then show ?case using Cons.prems rec IH v(1) by (cases "skip_cancel v") (auto simp: Let_def)
qed

lemma after_claim_running:
  "v \<in> set (after_claim ctx vs) \<Longrightarrow> vested_at ctx v \<noteq> vt_TotalAmount v"
  by (auto simp: after_claim_def)

lemma vesting_ok_claimed_le: "vesting_ok S ctx v \<Longrightarrow> claimed_le v"
  using vesting_okD(2,3) [of S ctx v] by (simp add: vesting_ok_def claimed_le_def)

section \<open>The claim of an account\<close>

text \<open>The state \<open>ClaimVesting\<close> leaves, on the bank's ledger and in the account's entry.\<close>

lemma ClaimVesting_state:
  assumes S: "sdk_laws (k_sdk k)" "bank_laws (k_sdk k) (k_bank k)" and s: "store_inv k s"
    and a: "AccAddressFromBech32 (k_sdk k) sender = Inr a"
    and ok: "\<forall>v\<in>set (cm_VestingTokens (GetCommitments k s a)). vesting_ok (k_sdk k) ctx v"
    and run: "ClaimVesting k ctx sender s = Inr s'"
  obtains e where
    "s' = put_commitments a ((GetCommitments k s a)\<lparr>cm_VestingTokens :=
            after_claim ctx (cm_VestingTokens (GetCommitments k s a))\<rparr>) (s\<lparr>cs_ext := e\<rparr>)"
    "\<And>x d. BkBalance (k_bank k) x d e = BkBalance (k_bank k) x d (cs_ext s) +
       (if x = a then claimable ctx (cm_VestingTokens (GetCommitments k s a)) d else 0) -
       (if x = NewModuleAddress (k_sdk k) ModuleName \<and> d \<noteq> Elys
        then claimable ctx (cm_VestingTokens (GetCommitments k s a)) d else 0)"
proof -
  let ?S = "k_sdk k" and ?B = "k_bank k" and ?c = "GetCommitments k s a" and ?e = "cs_ext s"
  let ?vs = "cm_VestingTokens ?c" and ?m = "NewModuleAddress (k_sdk k) ModuleName"
  obtain cs where cs: "claim_vestings ?S ctx ?vs [] = Inr (cs, after_claim ctx ?vs)" "coins_ok ?S cs"
    "\<And>d. AmountOf ?S cs d = claimable ctx ?vs d"
    using claim_vestings_eq [OF S(1) ok coins_ok_Nil [OF S(1)]] by (simp add: AmountOf_Nil [OF S(1)]) blast
  have nn: "0 \<le> AmountOf ?S cs d" for d by (rule AmountOf_nonneg [OF S(1) cs(2)])
  have cr: "AccAddressFromBech32 ?S (cm_Creator ?c) = Inr a"
    using GetCommitments_ok [OF S(1) s, of a] by (simp add: entry_ok_def)
  let ?pay = "if IsAllPositive ?S cs
    then rbind (if 0 < AmountOf ?S cs Elys
                then rbind (NewCoin ?S Elys (AmountOf ?S cs Elys)) (\<lambda>elysCoin.
                     bank_call (BkMint ?B ModuleName [elysCoin]) s)
                else Inr s) (\<lambda>s1. bank_call (BkModToAcc ?B ModuleName a cs) s1)
    else Inr s"
  obtain s2 where s2: "?pay = Inr s2"
    and s': "SetCommitments k (?c\<lparr>cm_VestingTokens := after_claim ctx ?vs\<rparr>) s2 = Inr s'"
    using run by (auto simp: ClaimVesting_def MustAccAddress_def a cs(1) Let_def)
  have "\<exists>e. s2 = s\<lparr>cs_ext := e\<rparr> \<and> (\<forall>x d. BkBalance ?B x d e = BkBalance ?B x d ?e +
      (if x = a then AmountOf ?S cs d else 0) - (if x = ?m \<and> d \<noteq> Elys then AmountOf ?S cs d else 0))"
  proof (cases "IsAllPositive ?S cs")
    case False
    then have "cs = []" using IsAllPositive_iff [OF S(1) cs(2)] by simp
    then show ?thesis using s2 False by (auto simp: AmountOf_Nil [OF S(1)] intro!: exI [of _ ?e])
  next
    case True
    show ?thesis
    proof (cases "0 < AmountOf ?S cs Elys")
      case pos: True
      then obtain e1 e2 where e: "BkMint ?B ModuleName [\<lparr>Denom = Elys, Amount = AmountOf ?S cs Elys\<rparr>] ?e = Inr e1"
        "BkModToAcc ?B ModuleName a cs e1 = Inr e2" "s2 = s\<lparr>cs_ext := e2\<rparr>" "denom_ok ?S Elys"
        using s2 True by (auto simp: bank_call_Inr NewCoin_Inr [OF S(1)])
      show ?thesis
        using BkMint_balance [OF S(2) coins_ok_single [OF S(1) e(4) pos] e(1)]
          BkModToAcc_balance [OF S(2) cs(2) e(2)]
        by (intro exI [of _ e2]) (auto simp: e(3) moved_def AmountOf_single [OF S(1) e(4) pos])
    next
      case zero: False
      then obtain e2 where e: "BkModToAcc ?B ModuleName a cs ?e = Inr e2" "s2 = s\<lparr>cs_ext := e2\<rparr>"
        using s2 True by (auto simp: bank_call_Inr)
      have "AmountOf ?S cs Elys = 0" using zero nn [of Elys] by simp
      then show ?thesis
        using BkModToAcc_balance [OF S(2) cs(2) e(1)] by (intro exI [of _ e2]) (auto simp: e(2) moved_def)
    qed
  qed
  then obtain e where e: "s2 = s\<lparr>cs_ext := e\<rparr>" "\<And>x d. BkBalance ?B x d e = BkBalance ?B x d ?e +
      (if x = a then AmountOf ?S cs d else 0) - (if x = ?m \<and> d \<noteq> Elys then AmountOf ?S cs d else 0)"
    by blast
  have "s' = put_commitments a (?c\<lparr>cm_VestingTokens := after_claim ctx ?vs\<rparr>) (s\<lparr>cs_ext := e\<rparr>)"
    using s' cr by (simp add: SetCommitments_Inr e(1))
  then show thesis using that [of e] e(2) by (simp add: cs(3))
qed

text \<open>The state \<open>CancelVest\<close> leaves: it claims first, then cancels.\<close>

lemma CancelVest_state:
  assumes S: "sdk_laws (k_sdk k)" "bank_laws (k_sdk k) (k_bank k)" and s: "store_inv k s"
    and a: "AccAddressFromBech32 (k_sdk k) sender = Inr a"
    and ok: "\<forall>v\<in>set (cm_VestingTokens (GetCommitments k s a)). vesting_ok (k_sdk k) ctx v"
    and x: "0 \<le> x" and run: "msg_CancelVest k ctx sender x Eden s = Inr s'"
  obtains n where
    "0 < n" "n = min x (cancellable (after_claim ctx (cm_VestingTokens (GetCommitments k s a))))"
    "\<And>d. owned d (GetCommitments k s' a) = owned d (GetCommitments k s a) + (if d = Eden then n else 0)"
    "\<And>d. owed d (GetCommitments k s' a) = owed d (GetCommitments k s a) -
       claimable ctx (cm_VestingTokens (GetCommitments k s a)) d - (if d = Elys then n else 0)"
    "\<forall>v\<in>set (cm_VestingTokens (GetCommitments k s' a)). vesting_ok (k_sdk k) ctx v"
    "ts_TotalEdenSupply (GetTotalSupply s') = ts_TotalEdenSupply (GetTotalSupply s) + n"
    "ts_TotalEdenVested (GetTotalSupply s') = ts_TotalEdenVested (GetTotalSupply s) - n"
proof -
  let ?S = "k_sdk k" and ?c = "GetCommitments k s a"
  let ?vs = "after_claim ctx (cm_VestingTokens ?c)"
  obtain s1 where claim: "ClaimVesting k ctx sender s = Inr s1"
    using run by (auto simp: msg_CancelVest_def Let_def split: option.splits if_splits)
  obtain e where s1: "s1 = put_commitments a (?c\<lparr>cm_VestingTokens := ?vs\<rparr>) (s\<lparr>cs_ext := e\<rparr>)"
    by (rule ClaimVesting_state [OF S s a ok claim])
  have inv1: "entry_ok ?S a (?c\<lparr>cm_VestingTokens := ?vs\<rparr>)"
    using GetCommitments_ok [OF S(1) s, of a] by simp
  obtain vs' r n where cv: "cancel_vestings ctx ?vs x = (vs', r, n)" by (metis prod_cases3)
  let ?keep = "filter (\<lambda>v. \<not> vt_ClaimedAmount v \<ge> vt_TotalAmount v) vs'"
  have vs_ok: "\<forall>v\<in>set ?vs. vesting_ok ?S ctx v" by (rule vesting_ok_after [OF ok])
  have le: "\<forall>v\<in>set ?vs. claimed_le v" using vs_ok vesting_ok_claimed_le by blast
  have n: "n = min x (cancellable ?vs)" using cancel_vestings_amounts [OF le x cv] by simp
  let ?c1 = "?c\<lparr>cm_VestingTokens := ?keep\<rparr>"
  obtain coin where coin: "n \<noteq> 0" "NewCoin ?S Eden n = Inr coin"
    and set_s': "SetCommitments k (AddClaimed ?S coin ?c1) (SetTotalSupply ((GetTotalSupply s1)
        \<lparr>ts_TotalEdenSupply := ts_TotalEdenSupply (GetTotalSupply s1) + n,
         ts_TotalEdenVested := ts_TotalEdenVested (GetTotalSupply s1) - n\<rparr>) s1) = Inr s'"
    using run claim a cv
    by (auto simp: msg_CancelVest_def Let_def MustAccAddress_def s1 GetCommitments_put
        split: option.splits if_splits)
  have c: "denom_ok ?S Eden" "0 \<le> n" "coin = \<lparr>Denom = Eden, Amount = n\<rparr>"
    using coin(2) by (simp_all add: NewCoin_Inr [OF S(1)])
  have e1: "entry_ok ?S a ?c1" using inv1 by simp
  note add = AddClaimed_ok [OF S(1) e1 c(1,2), folded c(3)]
  have get: "GetCommitments k s' a = AddClaimed ?S coin ?c1"
    and sup: "GetTotalSupply s' = (GetTotalSupply s)
        \<lparr>ts_TotalEdenSupply := ts_TotalEdenSupply (GetTotalSupply s) + n,
         ts_TotalEdenVested := ts_TotalEdenVested (GetTotalSupply s) - n\<rparr>"
    using set_s' add(1) by (auto simp: SetCommitments_Inr entry_ok_def GetCommitments_put s1)
  have vs'_le: "\<forall>v\<in>set vs'. claimed_le v" by (rule cancel_vestings_claimed_le [OF le x cv])
  have vs'_ok: "\<forall>v\<in>set vs'. vesting_ok ?S ctx v"
    using cancel_vestings_ok [OF _ x cv] vs_ok after_claim_running by blast
  show thesis
  proof (rule that [of n])
    show "0 < n" using coin(1) c(2) by simp
    show "owned d (GetCommitments k s' a) = owned d ?c + (if d = Eden then n else 0)" for d
      using add(3) by (simp add: get)
    show "owed d (GetCommitments k s' a) = owed d ?c - claimable ctx (cm_VestingTokens ?c) d -
        (if d = Elys then n else 0)" for d
      using claimable_owed [OF ok, of d] cancel_vestings_owed [OF cv, of d] owed_by_filter [OF vs'_le, of d]
      by (simp add: get) (simp add: owed_def)
    show "\<forall>v\<in>set (cm_VestingTokens (GetCommitments k s' a)). vesting_ok ?S ctx v"
      using vs'_ok by (simp add: get)
  qed (simp_all add: n sup)
qed

end
