(* ===== verification/CommitmentSupply.thy ===== *)
theory CommitmentSupply
  imports VestingLaws
begin

text \<open>
  The counter \<open>TotalEdenSupply\<close> against the Eden the accounts own, claimed or committed: the
  messages of the module move both together. Hooks of other modules are taken to leave the
  module's own store alone here.
\<close>

section \<open>Frames\<close>

definition frame :: "'e cstate \<Rightarrow> 'e cstate \<Rightarrow> bool" where
  "frame s t \<longleftrightarrow> cs_commitments t = cs_commitments s \<and> cs_params t = cs_params s \<and>
     cs_supply t = cs_supply s"

definition hooks_frame :: "'e keeper \<Rightarrow> bool" where
  "hooks_frame k \<longleftrightarrow> (\<forall>s. hooks_inv k (frame s))"

definition eden_gap :: "'e cstate \<Rightarrow> int" where
  "eden_gap s = ts_TotalEdenSupply (GetTotalSupply s) - accounts_total (owned Eden) s"

lemma frame_refl [simp]: "frame s s"
  by (simp add: frame_def)

lemma frame_trans: "frame s t \<Longrightarrow> frame t u \<Longrightarrow> frame s u"
  by (simp add: frame_def)

lemma frame_get: "frame s t \<Longrightarrow> GetCommitments k t a = GetCommitments k s a"
  by (simp add: frame_def GetCommitments_def)

lemma frame_inv: "frame s t \<Longrightarrow> store_inv k t = store_inv k s"
  by (rule store_inv_cong) (simp_all add: frame_def GetParams_def)

lemma frame_gap: "frame s t \<Longrightarrow> eden_gap t = eden_gap s"
  by (simp add: frame_def eden_gap_def GetTotalSupply_def accounts_total_def)

lemma bank_frame: "bank_call f s = Inr t \<Longrightarrow> frame s t"
  by (auto simp: bank_call_Inr frame_def)

lemma hook_frames:
  assumes "hooks_frame k"
  shows "CommitmentChanged k a cs s = Inr t \<Longrightarrow> frame s t"
    and "EdenUncommitted k a c s = Inr t \<Longrightarrow> frame s t"
    and "hook_call k (\<lambda>h. hk_BeforeEdenInitialCommit h a) s = Inr t \<Longrightarrow> frame s t"
    and "hook_call k (\<lambda>h. hk_BeforeEdenBInitialCommit h a) s = Inr t \<Longrightarrow> frame s t"
    and "hook_call k (\<lambda>h. hk_BeforeEdenCommitChange h a) s = Inr t \<Longrightarrow> frame s t"
    and "hook_call k (\<lambda>h. hk_BeforeEdenBCommitChange h a) s = Inr t \<Longrightarrow> frame s t"
  using hooks_invD [of k "frame s" s] assms by (simp_all add: hooks_frame_def)

lemma gap_put:
  "store_inv k s \<Longrightarrow> eden_gap (put_commitments a c s) =
     eden_gap s - owned Eden c + owned Eden (GetCommitments k s a)"
  by (simp add: eden_gap_def eden.total_put)

lemma gap_supply [simp]:
  "eden_gap (SetTotalSupply v s) = ts_TotalEdenSupply v - accounts_total (owned Eden) s"
  "eden_gap (SetParams p s) = eden_gap s"
  by (simp_all add: eden_gap_def)

text \<open>Writing back an account's commitments with a change to what it owns.\<close>

lemma gap_set:
  assumes "SetCommitments k c s = Inr t" "store_inv k s" "entry_ok (k_sdk k) a c"
  shows "eden_gap t = eden_gap s - owned Eden c + owned Eden (GetCommitments k s a)"
    and "store_inv k t" and "GetCommitments k t a = c"
  using assms
  by (auto simp: SetCommitments_Inr entry_ok_def gap_put GetCommitments_put intro!: store_inv_put)

section \<open>What the steps change\<close>

lemma owned_deduct:
  "DeductFromCommitted d x now liq c = Inr c' \<Longrightarrow> distinct (denoms_of c) \<Longrightarrow>
     owned d' c' = owned d' c - (if d' = d then x else 0)"
  by (auto simp: DeductFromCommitted_def owned_def GetClaimedForDenom_def GetCommittedAmountForDenom_def
      denoms_of_def deduct_committed_amount)

lemma owned_add_committed:
  "owned d' (AddCommittedTokens d x u c) = owned d' c + (if d' = d then x else 0)"
  by (simp add: AddCommittedTokens_def owned_def GetClaimedForDenom_def GetCommittedAmountForDenom_def
      committed_amount_add)

lemma entry_ok_deduct: "DeductFromCommitted d x now liq c = Inr c' \<Longrightarrow> entry_ok S a c \<Longrightarrow> entry_ok S a c'"
  by (auto simp: DeductFromCommitted_def entry_ok_def denoms_of_def deduct_committed_denoms
      distinct_remove1)

lemma entry_ok_add_committed: "entry_ok S a c \<Longrightarrow> entry_ok S a (AddCommittedTokens d x u c)"
  by (simp add: AddCommittedTokens_def entry_ok_def denoms_of_def denoms_add)

lemma owned_sub:
  assumes "sdk_laws S" "NewCoin S d x = Inr coin" "SubClaimed S coin c = Inr c'" "entry_ok S a c"
  shows "owned d' c' = owned d' c - (if d' = d then x else 0)" and "entry_ok S a c'"
    and "x \<le> GetClaimedForDenom c d"
proof -
  have c: "denom_ok S d" "0 \<le> x" "coin = \<lparr>Denom = d, Amount = x\<rparr>"
    using assms(1,2) by (simp_all add: NewCoin_Inr)
  note sub = SubClaimed_ok(3) [OF assms(1,4) c(1,2), of c', folded c(3), OF assms(3)]
  then show "owned d' c' = owned d' c - (if d' = d then x else 0)"
    by (simp add: owned_def GetCommittedAmountForDenom_def)
  show "entry_ok S a c'" "x \<le> GetClaimedForDenom c d" using sub by simp_all
qed

lemma owned_add:
  assumes "sdk_laws S" "NewCoin S d x = Inr coin" "entry_ok S a c"
  shows "owned d' (AddClaimed S coin c) = owned d' c + (if d' = d then x else 0)"
    and "entry_ok S a (AddClaimed S coin c)"
  using assms AddClaimed_ok [of S a c d x] by (auto simp: NewCoin_Inr)

section \<open>Messages keep the gap\<close>

definition gap_ctx :: "'e keeper \<Rightarrow> 'e cstate \<Rightarrow> bool" where
  "gap_ctx k s \<longleftrightarrow> sdk_laws (k_sdk k) \<and> store_inv k s \<and> hooks_frame k"

lemma gap_ctxD:
  assumes "gap_ctx k s"
  shows "sdk_laws (k_sdk k)" "store_inv k s" "hooks_frame k"
    "distinct (denoms_of (GetCommitments k s a))" "entry_ok (k_sdk k) a (GetCommitments k s a)"
  using assms GetCommitments_ok [of k s a] by (simp_all add: gap_ctx_def entry_ok_def)

lemma maybe_frame:
  "(if b then m else Inr s) = Inr t \<Longrightarrow> (m = Inr t \<Longrightarrow> frame s t) \<Longrightarrow> frame s t"
  by (simp split: if_splits)

lemma Uncommit_gap:
  assumes g: "gap_ctx k s" and run: "UncommitTokens k ctx a d x liq s = Inr t"
  shows "eden_gap t = eden_gap s"
proof -
  let ?S = "k_sdk k"
  note G = gap_ctxD [OF g] and H = hook_frames [OF gap_ctxD(3) [OF g]]
  obtain s1 s2 c1 s3 coin liquid ec bc s4 s5 w1 w2 s6 tc where
    h1: "(if d = Eden then hook_call k (\<lambda>h. hk_BeforeEdenCommitChange h a) s else Inr s) = Inr s1"
    and h2: "(if d = EdenB then hook_call k (\<lambda>h. hk_BeforeEdenBCommitChange h a) s1 else Inr s1) = Inr s2"
    and ded: "DeductFromCommitted d x (now_u64 ctx) liq (GetCommitments k s a) = Inr c1"
    and set1: "SetCommitments k c1 s2 = Inr s3"
    and coin: "NewCoin ?S d x = Inr coin" "NewCoins ?S [coin] = Inr liquid"
    and ec: "NewCoin ?S Eden (AmountOf ?S liquid Eden) = Inr ec"
    and bc: "NewCoin ?S EdenB (AmountOf ?S liquid EdenB) = Inr bc"
    and set2: "SetCommitments k (AddClaimed ?S bc (AddClaimed ?S ec c1)) s3 = Inr s4"
    and ch: "CommitmentChanged k a [coin] s4 = Inr s5"
    and bank: "(if w2 \<noteq> [] then bank_call (BkModToAcc (k_bank k) ModuleName a w2) s5 else Inr s5) = Inr s6"
    and last: "(if d = Eden then EdenUncommitted k a coin (SetParams (GetParams s6\<lparr>p_TotalCommitted := tc\<rparr>) s6)
      else Inr (SetParams (GetParams s6\<lparr>p_TotalCommitted := tc\<rparr>) s6)) = Inr t"
  proof -
    obtain ap where ap: "k_GetEntry k (cs_ext s) d = Some ap" "en_WithdrawEnabled ap"
      using run by (cases "k_GetEntry k (cs_ext s) d")
        (auto simp: UncommitTokens_def Let_def simp del: rbind_eq_Inr split: if_splits)
    show thesis
      using run unfolding UncommitTokens_def Let_def ap option.case
      apply (simp only: ap(2) not_True_eq_False if_False rbind_eq_Inr)
      apply (elim exE conjE)
      apply (rule that; assumption)
      done
  qed
  have f2: "frame s s2"
    using frame_trans [OF maybe_frame [OF h1 H(5)] maybe_frame [OF h2 H(6)]] by blast
  have e1: "entry_ok ?S a c1" by (rule entry_ok_deduct [OF ded G(5)])
  note set1' = gap_set [OF set1 _ e1, unfolded frame_inv [OF f2], OF G(2)]
  have am: "AmountOf ?S liquid Eden = (if d = Eden then x else 0)"
    using coin NewCoin_Inr [OF G(1), of d x coin]
    by (auto simp: NewCoins_single [OF G(1)] AmountOf_Nil [OF G(1)] AmountOf_single [OF G(1)] split: if_splits)
  note add_ec = owned_add [OF G(1) ec e1] and add_bc = owned_add [OF G(1) bc owned_add(2) [OF G(1) ec e1]]
  note set2' = gap_set [OF set2 set1'(2) add_bc(2)]
  have "eden_gap s4 = eden_gap s"
    using set1'(1,3) set2'(1) owned_deduct [OF ded G(4)] am
    by (simp add: frame_gap [OF f2] frame_get [OF f2] add_ec(1) add_bc(1) split: if_splits)
  moreover have f: "frame s4 s5" "frame s5 s6"
    using H(1) [OF ch] maybe_frame [OF bank bank_frame] by blast+
  moreover have "eden_gap t = eden_gap (SetParams (GetParams s6\<lparr>p_TotalCommitted := tc\<rparr>) s6)"
    using last frame_gap [OF H(2)] by (auto split: if_splits)
  ultimately show ?thesis using frame_gap by (metis gap_supply(2))
qed

lemma CommitClaimed_gap:
  assumes g: "gap_ctx k s" and run: "CommitClaimedRewards k ctx cr x d s = Inr t"
  shows "eden_gap t = eden_gap s"
proof -
  let ?S = "k_sdk k"
  note G = gap_ctxD [OF g] and H = hook_frames [OF gap_ctxD(3) [OF g]]
  obtain a ap where ap: "MustAccAddress ?S cr = Inr a" "k_GetEntry k (cs_ext s) d = Some ap" "en_CommitEnabled ap"
    using run by (cases "k_GetEntry k (cs_ext s) d"; cases "MustAccAddress ?S cr")
      (auto simp: CommitClaimedRewards_def Let_def simp del: rbind_eq_Inr split: if_splits)
  obtain coin p s2 s3 c1 s4 where coin: "NewCoin ?S d x = Inr coin"
    and h1: "(if d = Eden then if 0 < GetCommittedAmountForDenom (GetCommitments k (SetParams p s) a) Eden
          then hook_call k (\<lambda>h. hk_BeforeEdenCommitChange h a) (SetParams p s)
          else hook_call k (\<lambda>h. hk_BeforeEdenInitialCommit h a) (SetParams p s)
        else Inr (SetParams p s)) = Inr s2"
    and h2: "(if d = EdenB then if 0 < GetCommittedAmountForDenom (GetCommitments k (SetParams p s) a) EdenB
          then hook_call k (\<lambda>h. hk_BeforeEdenBCommitChange h a) s2
          else hook_call k (\<lambda>h. hk_BeforeEdenBInitialCommit h a) s2
        else Inr s2) = Inr s3"
    and sub: "SubClaimed ?S coin (GetCommitments k (SetParams p s) a) = Inr c1"
    and set: "SetCommitments k (AddCommittedTokens d x (now_u64 ctx) c1) s3 = Inr s4"
    and last: "CommitmentChanged k a [coin] s4 = Inr t"
    and p: "p = (GetParams s)\<lparr>p_TotalCommitted := CoinsAdd ?S (p_TotalCommitted (GetParams s)) [coin]\<rparr>"
  proof -
    show thesis
      using run unfolding CommitClaimedRewards_def Let_def ap option.case rbind_Inr
      apply (simp only: ap(3) not_True_eq_False if_False rbind_eq_Inr)
      apply (elim exE conjE)
      apply (rule that; (assumption | rule refl))
      done
  qed
  let ?s1 = "SetParams p s"
  have inv1: "store_inv k ?s1" using G(2) by (simp add: p store_inv_def)
  have f12: "frame ?s1 s2"
    using h1 H(3) [of a ?s1 s2] H(5) [of a ?s1 s2] by (auto split: if_splits)
  have f23: "frame s2 s3"
    using h2 H(4) [of a s2 s3] H(6) [of a s2 s3] by (auto split: if_splits)
  note f = frame_trans [OF f12 f23]
  have e: "entry_ok ?S a (GetCommitments k ?s1 a)" using G(5) by simp
  note sb = owned_sub [OF G(1) coin sub e]
  have inv3: "store_inv k s3" using inv1 by (simp add: frame_inv [OF f])
  note st = gap_set [OF set inv3 entry_ok_add_committed [OF sb(2)]]
  have "eden_gap s4 = eden_gap s"
    using st(1) by (simp add: owned_add_committed sb(1) frame_gap [OF f] frame_get [OF f])
  then show ?thesis using frame_gap [OF H(1) [OF last]] by simp
qed

lemma Vest_gap:
  assumes g: "gap_ctx k s" and run: "ProcessTokenVesting k ctx d x a s = Inr t"
  shows "eden_gap t = eden_gap s"
proof -
  let ?S = "k_sdk k" and ?c = "GetCommitments k s a"
  note G = gap_ctxD [OF g]
  obtain vs coin c1 where coin: "NewCoin ?S d x = Inr coin" and sub: "SubClaimed ?S coin ?c = Inr c1"
    and set: "SetCommitments k (c1\<lparr>cm_VestingTokens := vs\<rparr>)
      (if d = Eden then SetTotalSupply ((GetTotalSupply s)
          \<lparr>ts_TotalEdenSupply := ts_TotalEdenSupply (GetTotalSupply s) - x,
           ts_TotalEdenVested := ts_TotalEdenVested (GetTotalSupply s) + x\<rparr>) s else s) = Inr t"
    using run by (cases "d = Eden")
      (auto simp: ProcessTokenVesting_def DeductClaimed_def Let_def split: option.splits if_splits)
  note sb = owned_sub [OF G(1) coin sub G(5)]
  show ?thesis
    using gap_set [OF set] G(2) sb by (auto simp: eden_gap_def split: if_splits)
qed

lemma ClaimVesting_gap:
  assumes g: "gap_ctx k s" and run: "ClaimVesting k ctx sender s = Inr t"
  shows "eden_gap t = eden_gap s" and "store_inv k t"
    and "GetTotalSupply t = GetTotalSupply s"
proof -
  note G = gap_ctxD [OF g]
  obtain a vs s2 where a: "MustAccAddress (k_sdk k) sender = Inr a" and f: "frame s s2"
    and set: "SetCommitments k ((GetCommitments k s a)\<lparr>cm_VestingTokens := vs\<rparr>) s2 = Inr t"
    using run
    by (auto simp: ClaimVesting_def Let_def dest!: bank_frame split: if_splits intro: frame_trans)
      (metis frame_refl frame_trans)+
  have "entry_ok (k_sdk k) a ((GetCommitments k s a)\<lparr>cm_VestingTokens := vs\<rparr>)" using G(5) by simp
  note st = gap_set [OF set _ this, unfolded frame_inv [OF f], OF G(2)]
  show "eden_gap t = eden_gap s" using st(1) by (simp add: frame_gap [OF f] frame_get [OF f])
  show "store_inv k t" by (rule st(2))
  show "GetTotalSupply t = GetTotalSupply s"
    using set f by (auto simp: SetCommitments_Inr frame_def GetTotalSupply_def put_commitments_def SetParams_def)
qed

lemma CancelVest_gap:
  assumes g: "gap_ctx k s" and run: "msg_CancelVest k ctx sender x d s = Inr t"
  shows "eden_gap t = eden_gap s"
proof -
  let ?S = "k_sdk k"
  note G = gap_ctxD [OF g]
  obtain s1 a vs n coin where claim: "ClaimVesting k ctx sender s = Inr s1"
    and coin: "NewCoin ?S Eden n = Inr coin"
    and set: "SetCommitments k (AddClaimed ?S coin ((GetCommitments k s1 a)\<lparr>cm_VestingTokens := vs\<rparr>))
      (SetTotalSupply ((GetTotalSupply s1)
          \<lparr>ts_TotalEdenSupply := ts_TotalEdenSupply (GetTotalSupply s1) + n,
           ts_TotalEdenVested := ts_TotalEdenVested (GetTotalSupply s1) - n\<rparr>) s1) = Inr t"
    using run by (auto simp: msg_CancelVest_def Let_def split_beta split: option.splits if_splits)
  note c = ClaimVesting_gap [OF g claim]
  have e: "entry_ok ?S a ((GetCommitments k s1 a)\<lparr>cm_VestingTokens := vs\<rparr>)"
    using GetCommitments_ok [OF G(1) c(2)] by simp
  note add = owned_add [OF G(1) coin e]
  show ?thesis
    using gap_set [OF set _ add(2)] c add(1) by (simp add: eden_gap_def)
qed

lemma VestNow_gap:
  assumes g: "gap_ctx k s" and run: "msg_VestNow k sender x Eden s = Inr t"
  shows "eden_gap t = eden_gap s"
proof -
  let ?S = "k_sdk k"
  note G = gap_ctxD [OF g]
  obtain a coin c1 s2 where coin: "NewCoin ?S Eden x = Inr coin"
    and sub: "SubClaimed ?S coin (GetCommitments k s a) = Inr c1" and f: "frame s s2"
    and set: "SetCommitments k c1 (SetTotalSupply ((GetTotalSupply s2)
          \<lparr>ts_TotalEdenSupply := ts_TotalEdenSupply (GetTotalSupply s2) - x,
           ts_TotalEdenVested := ts_TotalEdenVested (GetTotalSupply s2) + x\<rparr>) s2) = Inr t"
    using run
    by (auto simp: msg_VestNow_def DeductClaimed_def Let_def or_insufficient_Inr
        dest!: bank_frame split: option.splits if_splits) (metis frame_refl frame_trans)+
  note sb = owned_sub [OF G(1) coin sub G(5)]
  have "GetTotalSupply s2 = GetTotalSupply s" "accounts_total (owned Eden) s2 = accounts_total (owned Eden) s"
    using f by (simp_all add: frame_def GetTotalSupply_def accounts_total_def)
  then show ?thesis
    using gap_set [OF set _ sb(2)] sb(1) G(2) by (simp add: eden_gap_def frame_inv [OF f] frame_get [OF f])
qed

end
