(* ===== verification/CommitmentProps.thy ===== *)
theory CommitmentProps
  imports CommitmentSupply
begin

text \<open>
  The properties of the commitment module, with a concrete keeper and states on which their
  witnesses evaluate.
\<close>

section \<open>A concrete keeper\<close>

definition open_entry :: "string \<Rightarrow> Entry" where
  "open_entry d = empty_entry\<lparr>en_BaseDenom := d, en_Denom := d, en_CommitEnabled := True,
                              en_WithdrawEnabled := True\<rparr>"

text \<open>Every denomination may be committed and withdrawn, no hooks are set.\<close>

definition std_keeper :: "ledger keeper" where
  "std_keeper =
     \<lparr>k_sdk = std_sdk, k_dec = std_dec, k_bank = std_bank, k_GetEntry = (\<lambda>e d. Some (open_entry d)),
      k_Delegate = (\<lambda>a v c e. Inr e), k_Undelegate = (\<lambda>a v c e. Inr e),
      k_IsVestingAccount = (\<lambda>e a. False), k_hooks = None, k_authority = ''gov''\<rparr>"

definition empty_state :: "ledger cstate" where
  "empty_state =
     \<lparr>cs_commitments = [], cs_params = Some DefaultParams, cs_supply = None, cs_atom = [], cs_nft = [],
      cs_cadet = [], cs_governor = [], cs_airdrop_claimed = [], cs_total_claimed = None,
      cs_kol = [], cs_reward = [], cs_total_reward = None, cs_ext = []\<rparr>"

definition at_height :: "int \<Rightarrow> block_ctx" where
  "at_height h = \<lparr>BlockHeight = h, BlockTime = h * 5 * 10 ^ 9, ChainID = ''elys''\<rparr>"

lemma std_keeper_sel [simp]:
  "k_sdk std_keeper = std_sdk" "k_bank std_keeper = std_bank" "k_hooks std_keeper = None"
  "k_dec std_keeper = std_dec" "k_GetEntry std_keeper e d = Some (open_entry d)"
  by (simp_all add: std_keeper_def)

lemma std_keeper_inv: "inv_ctx std_keeper"
  by (simp add: inv_ctx_def std_sdk_laws hooks_inv_None)

lemma empty_state_inv: "store_inv k empty_state"
  by (simp add: store_inv_def empty_state_def GetParams_def DefaultParams_def zero_params_def u64_def)

text \<open>An account with a vesting of 1000 over 100 blocks from block 10, and one of 30.\<close>

definition sample_vestings :: "VestingTokens list" where
  "sample_vestings =
     [\<lparr>vt_Denom = Elys, vt_TotalAmount = 1000, vt_ClaimedAmount = 0, vt_NumBlocks = 100,
       vt_StartBlock = 10, vt_VestStartedTimestamp = 50\<rparr>,
      \<lparr>vt_Denom = Elys, vt_TotalAmount = 30, vt_ClaimedAmount = 0, vt_NumBlocks = 20,
       vt_StartBlock = 10, vt_VestStartedTimestamp = 50\<rparr>]"

definition sample_state :: "ledger cstate" where
  "sample_state = empty_state
     \<lparr>cs_commitments := [(''alice'',
        \<lparr>cm_Creator = ''alice'',
         cm_CommittedTokens = [\<lparr>ct_Denom = Eden, ct_Amount = 500, ct_Lockups = []\<rparr>],
         cm_Claimed = [\<lparr>Denom = Eden, Amount = 200\<rparr>],
         cm_VestingTokens = sample_vestings\<rparr>)],
      cs_params := Some (DefaultParams\<lparr>p_NumberOfCommitments := 1,
         p_TotalCommitted := [\<lparr>Denom = Eden, Amount = 500\<rparr>]\<rparr>),
      cs_supply := Some \<lparr>ts_TotalEdenSupply = 700, ts_TotalEdenbSupply = 0, ts_TotalEdenVested = 1030\<rparr>\<rparr>"

lemma sample_state_inv: "store_inv std_keeper sample_state"
  by (auto simp: store_inv_def sample_state_def GetParams_def kv_ok_def kv_get_def entry_ok_def
      coins_ok_def std_valid_def Eden_def u64_def denoms_of_def split: if_splits)

section \<open>The store\<close>

text \<open>C9: whatever messages and keeper calls run, in whatever order and with whatever
  arguments, the store of commitments stays in order, every entry lies under its creator's
  address with a valid set of claimed coins and one entry per committed denomination, and \<open>NumberOfCommitments\<close> is the number of
  entries.\<close>

theorem commitment_store_invariant:
  assumes "sdk_laws (k_sdk k)" and "hooks_inv k (store_inv k)" and "store_inv k s"
  shows "store_inv k (snd (run_ops handle calls (k, s)))"
  using store.run_keeps [of k s calls] assms by (simp add: inv_ctx_def)

theorem commitment_store_invariant_witness:
  "store_inv std_keeper (snd (run_ops handle
     [(at_height 20, MsgClaimVesting ''alice''), (at_height 30, MsgVest ''alice'' 50 Eden),
      (at_height 40, MsgCancelVest ''alice'' 40 Eden)] (std_keeper, sample_state)))"
  by (rule commitment_store_invariant)
    (simp_all add: std_sdk_laws hooks_inv_None sample_state_inv)

section \<open>Committed tokens\<close>

text \<open>C8: \<open>DeductFromCommitted\<close> succeeds exactly when the account has an entry of the
  denomination that holds the amount and, outside a liquidation, keeps enough for its running
  lock-ups; it then deducts exactly the amount there and nothing elsewhere, and drops the entry
  when nothing is left.\<close>

theorem DeductFromCommitted_exact:
  "(case DeductFromCommitted d a now liq c of
      Inl e \<Rightarrow> \<not> can_deduct (cm_CommittedTokens c) d a now liq \<and>
        e = (if d \<in> set (denoms_of c) \<and> a \<le> GetCommittedAmountForDenom c d
             then ErrInsufficientWithdrawableTokens else ErrInsufficientCommittedTokens)
    | Inr c' \<Rightarrow> can_deduct (cm_CommittedTokens c) d a now liq \<and>
        cm_Claimed c' = cm_Claimed c \<and> cm_VestingTokens c' = cm_VestingTokens c \<and>
        denoms_of c' = (if GetCommittedAmountForDenom c d = a then remove1 d (denoms_of c)
                        else denoms_of c) \<and>
        (distinct (denoms_of c) \<longrightarrow> (\<forall>d'. GetCommittedAmountForDenom c' d' =
           GetCommittedAmountForDenom c d' - (if d' = d then a else 0))))"
  using deduct_committed_ok [of "cm_CommittedTokens c" d a now liq]
  by (cases "deduct_committed (cm_CommittedTokens c) d a now liq")
    (auto simp: DeductFromCommitted_def denoms_of_def GetCommittedAmountForDenom_def
      deduct_committed_denoms deduct_committed_amount dest: deduct_committed_error)

theorem DeductFromCommitted_exact_witness:
  "\<exists>c'. DeductFromCommitted Eden 120 100 False (GetCommitments std_keeper sample_state ''alice'') = Inr c' \<and>
     GetCommittedAmountForDenom c' Eden = 380 \<and> denoms_of c' = [Eden]"
  using DeductFromCommitted_exact [where d = Eden and a = 120 and now = 100 and liq = False
      and c = "GetCommitments std_keeper sample_state ''alice''"]
  by (simp add: sample_state_def GetCommitments_def kv_get_def DeductFromCommitted_def
      GetCommittedAmountForDenom_def running_def lockup_sum_def denoms_of_def)



section \<open>Vesting\<close>

lemma sample_vestings_ok: "10 \<le> h \<Longrightarrow> h < 2 ^ 63 \<Longrightarrow> \<forall>v\<in>set sample_vestings. vesting_ok std_sdk (at_height h) v"
  by (simp add: sample_vestings_def vesting_ok_def schedule_ok_def denom_ok_def Elys_def at_height_def
      vested_nonneg)

lemma sample_alice:
  "cm_VestingTokens (GetCommitments std_keeper sample_state ''alice'') = sample_vestings"
  by (simp add: GetCommitments_def sample_state_def kv_get_def)



text \<open>C2: claiming never depends on when or how often an account claims: a claim at one block
  followed by one at a later block pays in total, and leaves, exactly what a single claim at the
  later block would; and on well-formed vestings a claim always returns.\<close>

theorem claims_path_independent:
  assumes "sdk_laws S" and "\<forall>v\<in>set vs. vesting_ok S c v" and "later c c'"
  shows "\<exists>cs1 vs1 cs2 vs2 cs. claim_vestings S c vs [] = Inr (cs1, vs1) \<and>
    claim_vestings S c' vs1 [] = Inr (cs2, vs2) \<and> claim_vestings S c' vs [] = Inr (cs, vs2) \<and>
    (\<forall>d. AmountOf S cs d = AmountOf S cs1 d + AmountOf S cs2 d)"
proof -
  note Nil = coins_ok_Nil [OF assms(1)]
  have ok': "\<forall>v\<in>set vs. vesting_ok S c' v" using assms(2,3) vesting_ok_later by blast
  have ok1: "\<forall>v\<in>set (after_claim c vs). vesting_ok S c' v"
    using vesting_ok_after [OF assms(2)] assms(3) vesting_ok_later by blast
  show ?thesis
    using claim_vestings_eq [OF assms(1,2) Nil] claim_vestings_eq [OF assms(1) ok1 Nil]
      claim_vestings_eq [OF assms(1) ok' Nil] claim_twice [OF assms(2,3)]
    by (metis AmountOf_Nil [OF assms(1)] add_0)
qed

theorem claims_path_independent_witness:
  "\<exists>cs1 vs1 cs2 vs2 cs. claim_vestings std_sdk (at_height 25) sample_vestings [] = Inr (cs1, vs1) \<and>
    claim_vestings std_sdk (at_height 40) vs1 [] = Inr (cs2, vs2) \<and>
    claim_vestings std_sdk (at_height 40) sample_vestings [] = Inr (cs, vs2) \<and>
    (\<forall>d. AmountOf std_sdk cs d = AmountOf std_sdk cs1 d + AmountOf std_sdk cs2 d)"
  by (rule claims_path_independent)
    (use std_sdk_laws sample_vestings_ok [of 25] in \<open>simp_all add: later_def at_height_def\<close>)

text \<open>C6: \<open>CancelVest\<close> first pays what has vested, then cancels the asked amount or all that
  is still owed, whichever is less: the account's owed Elys falls and its Eden rises by exactly
  that, the supply counters move by it, and the vestings that remain are well formed (blocks
  left, no more claimed than vested), so later claims and cancellations return.\<close>

theorem CancelVest_conserves:
  assumes "sdk_laws (k_sdk k)" and "bank_laws (k_sdk k) (k_bank k)" and "store_inv k s"
    and "AccAddressFromBech32 (k_sdk k) sender = Inr a"
    and "\<forall>v\<in>set (cm_VestingTokens (GetCommitments k s a)). vesting_ok (k_sdk k) ctx v"
    and "0 \<le> x" and "msg_CancelVest k ctx sender x Eden s = Inr s'"
  shows "\<exists>n. 0 < n \<and>
    n = min x (cancellable (after_claim ctx (cm_VestingTokens (GetCommitments k s a)))) \<and>
    owned Eden (GetCommitments k s' a) = owned Eden (GetCommitments k s a) + n \<and>
    owed Elys (GetCommitments k s' a) = owed Elys (GetCommitments k s a) -
      claimable ctx (cm_VestingTokens (GetCommitments k s a)) Elys - n \<and>
    (\<forall>v\<in>set (cm_VestingTokens (GetCommitments k s' a)). vesting_ok (k_sdk k) ctx v) \<and>
    ts_TotalEdenSupply (GetTotalSupply s') = ts_TotalEdenSupply (GetTotalSupply s) + n \<and>
    ts_TotalEdenVested (GetTotalSupply s') = ts_TotalEdenVested (GetTotalSupply s) - n"
proof -
  obtain n where n: "0 < n" "n = min x (cancellable (after_claim ctx (cm_VestingTokens (GetCommitments k s a))))"
    "\<And>d. owned d (GetCommitments k s' a) = owned d (GetCommitments k s a) + (if d = Eden then n else 0)"
    "\<And>d. owed d (GetCommitments k s' a) = owed d (GetCommitments k s a) -
       claimable ctx (cm_VestingTokens (GetCommitments k s a)) d - (if d = Elys then n else 0)"
    "\<forall>v\<in>set (cm_VestingTokens (GetCommitments k s' a)). vesting_ok (k_sdk k) ctx v"
    "ts_TotalEdenSupply (GetTotalSupply s') = ts_TotalEdenSupply (GetTotalSupply s) + n"
    "ts_TotalEdenVested (GetTotalSupply s') = ts_TotalEdenVested (GetTotalSupply s) - n"
    by (rule CancelVest_state [OF assms]) (rule that)
  show ?thesis
    by (rule exI [of _ n], intro conjI n(1,2,5-7)) (simp_all add: n(3,4))
qed

lemma sample_cancel:
  "\<exists>s'. msg_CancelVest std_keeper (at_height 25) ''alice'' 40 Eden sample_state = Inr s'"
  unfolding is_ok_iff [symmetric] by code_simp

theorem CancelVest_conserves_witness:
  "\<exists>s'. msg_CancelVest std_keeper (at_height 25) ''alice'' 40 Eden sample_state = Inr s' \<and>
     owned Eden (GetCommitments std_keeper s' ''alice'') = 740 \<and>
     owed Elys (GetCommitments std_keeper s' ''alice'') = 818 \<and>
     ts_TotalEdenSupply (GetTotalSupply s') = 740"
proof -
  obtain s' where run: "msg_CancelVest std_keeper (at_height 25) ''alice'' 40 Eden sample_state = Inr s'"
    using sample_cancel by blast
  obtain n where n: "n = min 40 (cancellable (after_claim (at_height 25) sample_vestings))"
    "owned Eden (GetCommitments std_keeper s' ''alice'') = owned Eden (GetCommitments std_keeper sample_state ''alice'') + n"
    "owed Elys (GetCommitments std_keeper s' ''alice'') = owed Elys (GetCommitments std_keeper sample_state ''alice'') -
      claimable (at_height 25) sample_vestings Elys - n"
    "ts_TotalEdenSupply (GetTotalSupply s') = ts_TotalEdenSupply (GetTotalSupply sample_state) + n"
    using CancelVest_conserves [of std_keeper sample_state "''alice''" "''alice''" "at_height 25" 40 s']
      run sample_state_inv sample_vestings_ok [of 25]
    by (auto simp: std_sdk_laws std_bank_laws sample_alice)
  have "claimable (at_height 25) sample_vestings Elys = 172"
    "cancellable (after_claim (at_height 25) sample_vestings) = 858"
    by (simp_all add: claimable_def cancellable_def after_claim_def vested_at_def vested_def
        sample_vestings_def at_height_def skip_cancel_def)
  moreover have "owed Elys (GetCommitments std_keeper sample_state ''alice'') = 1030"
    by (simp add: owed_def sample_alice) (simp add: owed_by_def sample_vestings_def)
  moreover have "owned Eden (GetCommitments std_keeper sample_state ''alice'') = 700"
    "ts_TotalEdenSupply (GetTotalSupply sample_state) = 700"
    by (simp_all add: owned_def GetCommitments_def sample_state_def kv_get_def GetClaimedForDenom_def
        GetCommittedAmountForDenom_def GetTotalSupply_def)
  ultimately show ?thesis using run n by simp
qed

section \<open>The supply of Eden\<close>

text \<open>The calls that move Eden between claimed, committed and vesting.\<close>

fun moves_eden :: "commitment_call \<Rightarrow> bool" where
  "moves_eden (CallCommitClaimed c x d) = True"
| "moves_eden (CallUncommit a d x liq) = True"
| "moves_eden (MsgUncommitTokens c x d) = True"
| "moves_eden (MsgVest c x d) = True"
| "moves_eden (MsgVestNow c x d) = (d = Eden)"
| "moves_eden (MsgClaimVesting c) = True"
| "moves_eden (MsgCancelVest c x d) = True"
| "moves_eden _ = False"



text \<open>What \<open>take_in\<close> adds to an account.\<close>

lemma take_in_owned:
  assumes S: "sdk_laws S" and e: "entry_ok S a c" and amt: "coins_ok S amt"
    and run: "take_in S d (amt, c) = Inr (amt', c')"
  shows "owned d' c' = owned d' c + (if d' = d then AmountOf S amt d else 0)" and "entry_ok S a c'"
    and "coins_ok S amt'" and "\<And>x. x \<noteq> d \<Longrightarrow> AmountOf S amt' x = AmountOf S amt x"
proof -
  have nn: "0 \<le> AmountOf S amt d" by (rule AmountOf_nonneg [OF S amt])
  have "owned d' c' = owned d' c + (if d' = d then AmountOf S amt d else 0) \<and> entry_ok S a c' \<and>
      coins_ok S amt' \<and> (\<forall>x. x \<noteq> d \<longrightarrow> AmountOf S amt' x = AmountOf S amt x)"
  proof (cases "0 < AmountOf S amt d")
    case False
    then show ?thesis using run nn e amt by (simp add: take_in_def split: if_splits)
  next
    case True
    obtain coin where coin: "NewCoin S d (AmountOf S amt d) = Inr coin"
      and sub: "CoinsSub S amt [coin] = Inr amt'" and c': "c' = AddClaimed S coin c"
      using run True by (auto simp: take_in_def)
    have c: "denom_ok S d" "coin = \<lparr>Denom = d, Amount = AmountOf S amt d\<rparr>"
      using coin by (simp_all add: NewCoin_Inr [OF S])
    obtain amt2 where "CoinsSub S amt [\<lparr>Denom = d, Amount = AmountOf S amt d\<rparr>] = Inr amt2"
      "coins_ok S amt2" "\<And>x. AmountOf S amt2 x = AmountOf S amt x - (if x = d then AmountOf S amt d else 0)"
      by (rule CoinsSub1 [OF S amt c(1) nn order_refl]) (rule that)
    then show ?thesis using owned_add [OF S coin e] sub c by (simp add: c')
  qed
  then show "owned d' c' = owned d' c + (if d' = d then AmountOf S amt d else 0)" "entry_ok S a c'"
    "coins_ok S amt'" "\<And>x. x \<noteq> d \<Longrightarrow> AmountOf S amt' x = AmountOf S amt x" by simp_all
qed

text \<open>\<open>MintCoins\<close> gives the module its Eden and EdenB but leaves \<open>TotalEdenSupply\<close>
  and \<open>TotalEdenbSupply\<close> where they were: every Eden minted widens the gap between the counter
  and what the accounts own. (The source means to add the minted amounts, but adds those of a coin
  set it never fills.)\<close>

theorem MintCoins_uncounted:
  assumes "sdk_laws (k_sdk k)" and "store_inv k s" and "coins_ok (k_sdk k) amt"
    and "MintCoins k m amt s = Inr t"
  shows "ts_TotalEdenSupply (GetTotalSupply t) = ts_TotalEdenSupply (GetTotalSupply s) \<and>
    ts_TotalEdenbSupply (GetTotalSupply t) = ts_TotalEdenbSupply (GetTotalSupply s) \<and>
    accounts_total (owned Eden) t = accounts_total (owned Eden) s + AmountOf (k_sdk k) amt Eden \<and>
    accounts_total (owned EdenB) t = accounts_total (owned EdenB) s + AmountOf (k_sdk k) amt EdenB"
proof -
  let ?S = "k_sdk k" and ?a = "NewModuleAddress (k_sdk k) m"
  note S = assms(1)
  obtain amt1 c1 amt2 c2 s1 where
    t1: "take_in ?S Eden (amt, GetCommitments k s ?a) = Inr (amt1, c1)"
    and t2: "take_in ?S EdenB (amt1, c1) = Inr (amt2, c2)"
    and set: "SetCommitments k c2 s = Inr s1"
    and fin: "GetTotalSupply t = (GetTotalSupply s1)" "cs_commitments t = cs_commitments s1"
    using assms(4)
    by (auto simp: MintCoins_def AddEdenEdenBOnModule_def Let_def AmountOf_Nil [OF S] bank_call_Inr
        split: if_splits)
  note 1 = take_in_owned [OF S GetCommitments_ok [OF S assms(2)] assms(3) t1]
  note 2 = take_in_owned [OF S 1(2) 1(3) t2]
  have s1: "s1 = put_commitments ?a c2 s" using set 2(2) by (auto simp: SetCommitments_Inr entry_ok_def)
  show ?thesis
    using 1(1) [of Eden] 1(1) [of EdenB] 2(1) [of Eden] 2(1) [of EdenB] 1(4) [of EdenB]
      eden.total_put [OF assms(2), of ?a c2] edenb.total_put [OF assms(2), of ?a c2]
    by (simp add: fin accounts_total_def s1)
qed

theorem MintCoins_uncounted_witness:
  "\<exists>t. MintCoins std_keeper ''commitment'' [\<lparr>Denom = Eden, Amount = 90\<rparr>] sample_state = Inr t \<and>
     accounts_total (owned Eden) t = 790 \<and> ts_TotalEdenSupply (GetTotalSupply t) = 700"
proof -
  have "is_ok (MintCoins std_keeper ''commitment'' [\<lparr>Denom = Eden, Amount = 90\<rparr>] sample_state)"
    by code_simp
  then obtain t where t: "MintCoins std_keeper ''commitment'' [\<lparr>Denom = Eden, Amount = 90\<rparr>] sample_state = Inr t"
    by (auto simp: is_ok_iff)
  have "accounts_total (owned Eden) sample_state = 700" "ts_TotalEdenSupply (GetTotalSupply sample_state) = 700"
    by (simp_all add: sample_state_def GetTotalSupply_def accounts_total_def kv_sum_def owned_def
        GetClaimedForDenom_def GetCommittedAmountForDenom_def)
  then show ?thesis
    using MintCoins_uncounted [OF _ sample_state_inv _ t] t
    by (simp add: std_sdk_laws coins_ok_def std_valid_def Eden_def)
qed

section \<open>One-time claims\<close>

text \<open>The entries of the KOL list and of the reward program lie under their own addresses.\<close>

definition lists_ok :: "'e keeper \<Rightarrow> 'e cstate \<Rightarrow> bool" where
  "lists_ok k s \<longleftrightarrow>
     (\<forall>a v. kv_get (cs_kol s) a = Some v \<longrightarrow> AccAddressFromBech32 (k_sdk k) (kol_Address v) = Inr a) \<and>
     (\<forall>a v. kv_get (cs_reward s) a = Some v \<longrightarrow> AccAddressFromBech32 (k_sdk k) (rp_Address v) = Inr a)"

lemma lists_ok_get:
  assumes "sdk_laws (k_sdk k)" "lists_ok k s"
  shows "MustAccAddress (k_sdk k) (kol_Address (GetKol k s a)) = Inr a"
    and "MustAccAddress (k_sdk k) (rp_Address (GetRewardProgram k s a)) = Inr a"
  using assms
  by (auto simp: lists_ok_def GetKol_def GetRewardProgram_def MustAccAddress_def bech32_roundtrip
      split: option.splits)

lemma ClaimAirdrop_done:
  "ClaimAirdrop k ctx c s = Inr r \<Longrightarrow>
     \<exists>a. MustAccAddress (k_sdk k) c = Inr a \<and> airdrop_done a k (fst r)"
  by (auto simp: ClaimAirdrop_def Let_def airdrop_done_def GetAirdropClaimed_def SetTotalClaimed_def
      SetAirdropClaimed_def kv_get_set split: if_splits)

lemma ClaimKol_done:
  assumes "sdk_laws (k_sdk k)" "lists_ok k s" "ClaimKol k ctx c b s = Inr r"
  shows "\<exists>a. MustAccAddress (k_sdk k) c = Inr a \<and> kol_done a k (fst r)"
  using assms(3) lists_ok_get(1) [OF assms(1,2)]
  by (auto simp: ClaimKol_def Let_def kol_done_def SetKol_def bank_call_Inr GetKol_def [of k "cs_kol_update _ _"]
      kv_get_set split: if_splits)

lemma ClaimRewardProgram_done:
  assumes "sdk_laws (k_sdk k)" "lists_ok k s" "ClaimRewardProgram k ctx c s = Inr r"
  shows "\<exists>a. MustAccAddress (k_sdk k) c = Inr a \<and> reward_done a k (fst r)"
  using assms(3) lists_ok_get(2) [OF assms(1,2)]
  by (auto simp: ClaimRewardProgram_def Let_def reward_done_def SetRewardProgram_def
      GetRewardProgram_def [of k "cs_reward_update _ _"] kv_get_set split: if_splits)

lemma done_refused:
  assumes "MustAccAddress (k_sdk k) c = Inr a"
  shows "airdrop_done a k s \<Longrightarrow> \<not> is_ok (ClaimAirdrop k ctx c s)"
    and "kol_done a k s \<Longrightarrow> \<not> is_ok (ClaimKol k ctx c b s)"
    and "reward_done a k s \<Longrightarrow> \<not> is_ok (ClaimRewardProgram k ctx c s)"
  using assms
  by (auto simp: is_ok_iff ClaimAirdrop_def ClaimKol_def ClaimRewardProgram_def Let_def airdrop_done_def
      kol_done_def reward_done_def split: if_splits)

text \<open>C11: an address claims the airdrop, its KOL allocation (or the refund) and its reward at
  most once: after a successful claim, whatever other calls run in between and whatever
  governance does to the claim windows, the same claim is refused.\<close>

theorem claims_at_most_once:
  assumes "sdk_laws (k_sdk k)" and "lists_ok k s"
    and "\<And>a. hooks_inv k (airdrop_done a k)" "\<And>a. hooks_inv k (kol_done a k)"
      "\<And>a. hooks_inv k (reward_done a k)"
  shows "(\<forall>r. ClaimAirdrop k ctx c s = Inr r \<longrightarrow>
      \<not> is_ok (ClaimAirdrop k ctx' c (snd (run_ops handle calls (k, fst r))))) \<and>
    (\<forall>r. ClaimKol k ctx c b s = Inr r \<longrightarrow>
      \<not> is_ok (ClaimKol k ctx' c b' (snd (run_ops handle calls (k, fst r))))) \<and>
    (\<forall>r. ClaimRewardProgram k ctx c s = Inr r \<longrightarrow>
      \<not> is_ok (ClaimRewardProgram k ctx' c (snd (run_ops handle calls (k, fst r)))))"
  using ClaimAirdrop_done [of k ctx c s] ClaimKol_done [OF assms(1,2), of ctx c b]
    ClaimRewardProgram_done [OF assms(1,2), of ctx c] done_refused [of k c]
    airdrop.run_keeps [of _ k _ calls] kols.run_keeps [of _ k _ calls] rewards.run_keeps [of _ k _ calls]
    assms(1,3-5)
  unfolding kept_flag_def by metis

theorem claims_at_most_once_witness:
  "\<exists>r. ClaimRewardProgram std_keeper (at_height 5) ''bob''
       (sample_state\<lparr>cs_reward := [(''bob'', \<lparr>rp_Address = ''bob'', rp_Amount = 70, rp_Claimed = False\<rparr>)],
          cs_params := Some (DefaultParams\<lparr>p_EnableClaim := True, p_EndRewardProgramClaimHeight := 9\<rparr>)\<rparr>) = Inr r \<and>
     snd r = 70 \<and>
     \<not> is_ok (ClaimRewardProgram std_keeper (at_height 6) ''bob'' (snd (run_ops handle
       [(at_height 5, MsgVest ''bob'' 20 Eden)] (std_keeper, fst r))))"
proof -
  let ?s = "sample_state\<lparr>cs_reward := [(''bob'', \<lparr>rp_Address = ''bob'', rp_Amount = 70, rp_Claimed = False\<rparr>)],
          cs_params := Some (DefaultParams\<lparr>p_EnableClaim := True, p_EndRewardProgramClaimHeight := 9\<rparr>)\<rparr>"
  have "(case ClaimRewardProgram std_keeper (at_height 5) ''bob'' ?s of Inr r \<Rightarrow> snd r = 70 | _ \<Rightarrow> False)"
    by code_simp
  then obtain r where r: "ClaimRewardProgram std_keeper (at_height 5) ''bob'' ?s = Inr r" "snd r = 70"
    by (auto split: sum.splits)
  have ok: "lists_ok std_keeper ?s"
    by (auto simp: lists_ok_def sample_state_def empty_state_def kv_get_def split: if_splits)
  have "\<not> is_ok (ClaimRewardProgram std_keeper (at_height 6) ''bob'' (snd (run_ops handle
       [(at_height 5, MsgVest ''bob'' 20 Eden)] (std_keeper, fst r))))"
    using claims_at_most_once [where k = std_keeper and s = ?s and c = "''bob''" and ctx = "at_height 5"
        and ctx' = "at_height 6" and calls = "[(at_height 5, MsgVest ''bob'' 20 Eden)]", OF _ ok]
    by (blast intro: r(1) std_sdk_laws [folded std_keeper_sel(1)] hooks_inv_None std_keeper_sel)
  then show ?thesis using r by blast
qed



end
