(* ===== verification/Epochs.thy ===== *)
theory Epochs
  imports Prelude
begin

text \<open>
  The epochs module (x/epochs): timers that fire in \<open>BeginBlocker\<close> and call the hooks of
  other modules. A \<open>time.Time\<close> is its instant in nanoseconds since the Unix epoch, a
  \<open>time.Duration\<close> its nanoseconds; Go's zero time is the instant \<open>zero_time\<close>.
\<close>

section \<open>Epoch infos and their store\<close>

record EpochInfo =
  ep_Identifier :: string
  ep_StartTime :: int
  ep_Duration :: int
  ep_CurrentEpoch :: int
  ep_CurrentEpochStartTime :: int
  ep_EpochCountingStarted :: bool
  ep_CurrentEpochStartHeight :: int

text \<open>January 1 of the year 1, in nanoseconds before 1970.\<close>

definition zero_time :: int where
  "zero_time = - 62135596800 * 10 ^ 9"

text \<open>The module's store, and the state of the modules whose hooks run.\<close>

record 'e estate =
  es_epochs :: "(string, EpochInfo) kvs"
  es_ext :: 'e

text \<open>\<open>EpochHooks\<close>: the identifier and the number of the epoch.\<close>

record 'e epoch_hooks =
  eh_AfterEpochEnd :: "string \<Rightarrow> int \<Rightarrow> 'e \<Rightarrow> 'e result"
  eh_BeforeEpochStart :: "string \<Rightarrow> int \<Rightarrow> 'e \<Rightarrow> 'e result"

definition MultiEpochHooks :: "'e epoch_hooks list \<Rightarrow> 'e epoch_hooks" where
  "MultiEpochHooks mh =
     \<lparr>eh_AfterEpochEnd = (\<lambda>i n. run_hooks (map (\<lambda>h. eh_AfterEpochEnd h i n) mh)),
      eh_BeforeEpochStart = (\<lambda>i n. run_hooks (map (\<lambda>h. eh_BeforeEpochStart h i n) mh))\<rparr>"

definition StartInitialEpoch :: "EpochInfo \<Rightarrow> EpochInfo" where
  "StartInitialEpoch ei = ei\<lparr>ep_EpochCountingStarted := True, ep_CurrentEpoch := 1,
     ep_CurrentEpochStartTime := ep_StartTime ei\<rparr>"

definition EndEpoch :: "EpochInfo \<Rightarrow> EpochInfo" where
  "EndEpoch ei = ei\<lparr>ep_CurrentEpoch := i64 (ep_CurrentEpoch ei + 1),
     ep_CurrentEpochStartTime := ep_CurrentEpochStartTime ei + ep_Duration ei\<rparr>"

text \<open>\<open>strings.TrimSpace\<close> leaves nothing exactly of a string of white space.\<close>

definition is_space :: "char \<Rightarrow> bool" where
  "is_space c \<longleftrightarrow> c \<in> {CHR '' '', CHR 0x09, CHR 0x0A, CHR 0x0B, CHR 0x0C, CHR 0x0D}"

definition EpochInfo_Validate :: "EpochInfo \<Rightarrow> unit result" where
  "EpochInfo_Validate ei =
     (if list_all is_space (ep_Identifier ei) then Inl (Plain ''epoch identifier cannot be blank'')
      else if ep_Duration ei = 0 then Inl (Plain ''epoch duration cannot be 0'')
      else if ep_CurrentEpoch ei < 0 then Inl (Plain ''current epoch cannot be negative'')
      else if ep_CurrentEpochStartHeight ei < 0
      then Inl (Plain ''current epoch start height cannot be negative'')
      else Inr ())"

fun genesis_epochs_Validate :: "string list \<Rightarrow> EpochInfo list \<Rightarrow> unit result" where
  "genesis_epochs_Validate seen [] = Inr ()"
| "genesis_epochs_Validate seen (epoch # es) =
     (if ep_Identifier epoch \<in> set seen then Inl (Plain ''duplicated epoch entry'')
      else rbind (EpochInfo_Validate epoch) (\<lambda>_.
        genesis_epochs_Validate (ep_Identifier epoch # seen) es))"

definition GetEpochInfo :: "'e estate \<Rightarrow> string \<Rightarrow> EpochInfo option" where
  "GetEpochInfo s identifier = kv_get (es_epochs s) identifier"

definition SetEpochInfo :: "EpochInfo \<Rightarrow> 'e estate \<Rightarrow> 'e estate" where
  "SetEpochInfo epoch s = s\<lparr>es_epochs := kv_set (ep_Identifier epoch) epoch (es_epochs s)\<rparr>"

definition DeleteEpochInfo :: "string \<Rightarrow> 'e estate \<Rightarrow> 'e estate" where
  "DeleteEpochInfo identifier s = s\<lparr>es_epochs := kv_del identifier (es_epochs s)\<rparr>"

definition AllEpochInfos :: "'e estate \<Rightarrow> EpochInfo list" where
  "AllEpochInfos s = map snd (es_epochs s)"

section \<open>The begin blocker\<close>

definition RunHooksAfterEpochEnd ::
    "'e epoch_hooks option \<Rightarrow> string \<Rightarrow> int \<Rightarrow> 'e estate \<Rightarrow> 'e estate result" where
  "RunHooksAfterEpochEnd hooks i n s =
     (case hooks of None \<Rightarrow> Inr s
      | Some h \<Rightarrow> rbind (eh_AfterEpochEnd h i n (es_ext s)) (\<lambda>e. Inr (s\<lparr>es_ext := e\<rparr>)))"

definition RunHooksBeforeEpochStart ::
    "'e epoch_hooks option \<Rightarrow> string \<Rightarrow> int \<Rightarrow> 'e estate \<Rightarrow> 'e estate result" where
  "RunHooksBeforeEpochStart hooks i n s =
     (case hooks of None \<Rightarrow> Inr s
      | Some h \<Rightarrow> rbind (eh_BeforeEpochStart h i n (es_ext s)) (\<lambda>e. Inr (s\<lparr>es_ext := e\<rparr>)))"

text \<open>\<open>panic(err)\<close> after a hook.\<close>

definition or_panic :: "'a result \<Rightarrow> 'a result" where
  "or_panic m = (case m of Inl e \<Rightarrow> Inl (Panic ''epoch hook'') | Inr x \<Rightarrow> Inr x)"

definition shouldInitialEpochStart :: "block_ctx \<Rightarrow> EpochInfo \<Rightarrow> bool" where
  "shouldInitialEpochStart ctx epochInfo \<longleftrightarrow>
     \<not> ep_EpochCountingStarted epochInfo \<and> \<not> ep_StartTime epochInfo > BlockTime ctx"

definition shouldEpochEnd :: "block_ctx \<Rightarrow> EpochInfo \<Rightarrow> bool" where
  "shouldEpochEnd ctx epochInfo \<longleftrightarrow>
     BlockTime ctx > ep_CurrentEpochStartTime epochInfo + ep_Duration epochInfo \<and>
     \<not> shouldInitialEpochStart ctx epochInfo \<and> \<not> ep_StartTime epochInfo > BlockTime ctx"

definition begin_epoch ::
    "'e epoch_hooks option \<Rightarrow> block_ctx \<Rightarrow> EpochInfo \<Rightarrow> 'e estate \<Rightarrow> 'e estate result" where
  "begin_epoch hooks ctx epochInfo s =
     (let initial = shouldInitialEpochStart ctx epochInfo;
          ending = shouldEpochEnd ctx epochInfo;
          info = epochInfo\<lparr>ep_CurrentEpochStartHeight := BlockHeight ctx\<rparr>
      in if initial
         then let info' = StartInitialEpoch info
              in or_panic (RunHooksBeforeEpochStart hooks (ep_Identifier info') (ep_CurrentEpoch info')
                   (SetEpochInfo info' s))
         else if ending
         then let info' = EndEpoch info
              in rbind (or_panic (RunHooksAfterEpochEnd hooks (ep_Identifier info') (ep_CurrentEpoch info') s))
                   (\<lambda>s1. or_panic (RunHooksBeforeEpochStart hooks (ep_Identifier info')
                            (ep_CurrentEpoch info') (SetEpochInfo info' s1)))
         else Inr s)"

text \<open>The iterator runs over the entries of the store in the order of their identifiers; each
  entry is written at most once, by its own step, so the steps see the entries as they were
  when the block began.\<close>

fun begin_epochs ::
    "'e epoch_hooks option \<Rightarrow> block_ctx \<Rightarrow> EpochInfo list \<Rightarrow> 'e estate \<Rightarrow> 'e estate result" where
  "begin_epochs hooks ctx [] s = Inr s"
| "begin_epochs hooks ctx (epochInfo # es) s =
     rbind (begin_epoch hooks ctx epochInfo s) (begin_epochs hooks ctx es)"

definition BeginBlocker :: "'e epoch_hooks option \<Rightarrow> block_ctx \<Rightarrow> 'e estate \<Rightarrow> 'e estate result" where
  "BeginBlocker hooks ctx s = begin_epochs hooks ctx (AllEpochInfos s) s"

section \<open>Genesis\<close>

definition epochs_InitGenesis :: "block_ctx \<Rightarrow> EpochInfo list \<Rightarrow> 'e estate \<Rightarrow> 'e estate" where
  "epochs_InitGenesis ctx epochs s =
     fold (\<lambda>epoch s. SetEpochInfo
       ((if ep_StartTime epoch = zero_time then epoch\<lparr>ep_StartTime := BlockTime ctx\<rparr> else epoch)
          \<lparr>ep_CurrentEpochStartHeight := BlockHeight ctx\<rparr>) s) epochs s"

definition epochs_ExportGenesis :: "'e estate \<Rightarrow> EpochInfo list" where
  "epochs_ExportGenesis s = AllEpochInfos s"

definition default_epoch :: "string \<Rightarrow> int \<Rightarrow> EpochInfo" where
  "default_epoch i d =
     \<lparr>ep_Identifier = i, ep_StartTime = zero_time, ep_Duration = d, ep_CurrentEpoch = 0,
      ep_CurrentEpochStartTime = zero_time, ep_EpochCountingStarted = False,
      ep_CurrentEpochStartHeight = 0\<rparr>"

definition DefaultEpochs :: "EpochInfo list" where
  "DefaultEpochs =
     [default_epoch ''band_epoch'' (15 * 10 ^ 9), default_epoch ''ten_days'' (864000 * 10 ^ 9),
      default_epoch ''five_minutes'' (300 * 10 ^ 9)]"

definition q_CurrentEpoch :: "'e estate \<Rightarrow> string \<Rightarrow> int option" where
  "q_CurrentEpoch s identifier = map_option ep_CurrentEpoch (GetEpochInfo s identifier)"

section \<open>One block\<close>

text \<open>What a block makes of one epoch info.\<close>

definition next_epoch :: "block_ctx \<Rightarrow> EpochInfo \<Rightarrow> EpochInfo" where
  "next_epoch ctx e =
     (if shouldInitialEpochStart ctx e
      then StartInitialEpoch (e\<lparr>ep_CurrentEpochStartHeight := BlockHeight ctx\<rparr>)
      else if shouldEpochEnd ctx e
      then EndEpoch (e\<lparr>ep_CurrentEpochStartHeight := BlockHeight ctx\<rparr>)
      else e)"

definition epochs_ok :: "'e estate \<Rightarrow> bool" where
  "epochs_ok s \<longleftrightarrow> kv_ok (es_epochs s) \<and>
     (\<forall>i e. kv_get (es_epochs s) i = Some e \<longrightarrow> ep_Identifier e = i)"

lemma next_epoch_id [simp]: "ep_Identifier (next_epoch ctx e) = ep_Identifier e"
  by (simp add: next_epoch_def StartInitialEpoch_def EndEpoch_def)

lemma begin_epoch_store:
  assumes "begin_epoch hooks ctx e s = Inr t"
  shows "es_epochs t =
    (if shouldInitialEpochStart ctx e \<or> shouldEpochEnd ctx e
     then kv_set (ep_Identifier e) (next_epoch ctx e) (es_epochs s) else es_epochs s)"
  using assms
  by (auto simp: begin_epoch_def Let_def or_panic_def RunHooksAfterEpochEnd_def
      RunHooksBeforeEpochStart_def SetEpochInfo_def next_epoch_def StartInitialEpoch_def EndEpoch_def
      split: if_splits sum.splits option.splits)

lemma begin_epochs_get:
  assumes "begin_epochs hooks ctx es s = Inr t"
    and "distinct (map ep_Identifier es)"
    and "\<forall>e\<in>set es. kv_get (es_epochs s) (ep_Identifier e) = Some e"
  shows "kv_get (es_epochs t) i =
    (if i \<in> ep_Identifier ` set es then map_option (next_epoch ctx) (kv_get (es_epochs s) i)
     else kv_get (es_epochs s) i)"
  using assms
proof (induction es arbitrary: s)
  case Nil
  then show ?case by simp
next
  case (Cons e es)
  obtain u where u: "begin_epoch hooks ctx e s = Inr u" "begin_epochs hooks ctx es u = Inr t"
    using Cons.prems(1) by auto
  have get: "kv_get (es_epochs u) j =
      (if j = ep_Identifier e then Some (next_epoch ctx e) else kv_get (es_epochs s) j)" for j
    using Cons.prems(3) begin_epoch_store [OF u(1)] by (auto simp: kv_get_set next_epoch_def)
  have other: "\<forall>x\<in>set es. ep_Identifier x \<noteq> ep_Identifier e"
    using Cons.prems(2) by (auto simp: image_iff)
  have "\<forall>x\<in>set es. kv_get (es_epochs u) (ep_Identifier x) = Some x"
    using Cons.prems(3) other by (simp add: get)
  then have "kv_get (es_epochs t) i =
      (if i \<in> ep_Identifier ` set es then map_option (next_epoch ctx) (kv_get (es_epochs u) i)
       else kv_get (es_epochs u) i)"
    using Cons.IH [OF u(2)] Cons.prems(2) by simp
  then show ?case using Cons.prems(3) other by (auto simp: get)
qed

lemma epochs_ok_all:
  assumes "epochs_ok s"
  shows "distinct (map ep_Identifier (AllEpochInfos s))"
    and "\<forall>e\<in>set (AllEpochInfos s). kv_get (es_epochs s) (ep_Identifier e) = Some e"
    and "kv_get (es_epochs s) i = Some e \<Longrightarrow> e \<in> set (AllEpochInfos s) \<and> ep_Identifier e = i"
proof -
  have ok: "kv_ok (es_epochs s)" using assms by (simp add: epochs_ok_def)
  have id: "ep_Identifier (snd kv) = fst kv" if "kv \<in> set (es_epochs s)" for kv
    using that assms kv_get_mem [OF ok, of "fst kv" "snd kv"] by (simp add: epochs_ok_def)
  then have "map ep_Identifier (AllEpochInfos s) = map fst (es_epochs s)"
    by (simp add: AllEpochInfos_def comp_def)
  then show "distinct (map ep_Identifier (AllEpochInfos s))" using kv_ok_distinct [OF ok] by simp
  show "\<forall>e\<in>set (AllEpochInfos s). kv_get (es_epochs s) (ep_Identifier e) = Some e"
    using id kv_get_mem [OF ok] by (auto simp: AllEpochInfos_def)
  show "kv_get (es_epochs s) i = Some e \<Longrightarrow> e \<in> set (AllEpochInfos s) \<and> ep_Identifier e = i"
    using id kv_get_mem [OF ok] by (force simp: AllEpochInfos_def)
qed

lemma BeginBlocker_get:
  assumes "epochs_ok s" "BeginBlocker hooks ctx s = Inr t"
  shows "kv_get (es_epochs t) i = map_option (next_epoch ctx) (kv_get (es_epochs s) i)"
  using begin_epochs_get [OF assms(2) [unfolded BeginBlocker_def] epochs_ok_all(1,2) [OF assms(1)], of i]
    epochs_ok_all(3) [OF assms(1), of i]
  by (cases "kv_get (es_epochs s) i") auto

lemma begin_epochs_kv_ok:
  "begin_epochs hooks ctx es s = Inr t \<Longrightarrow> kv_ok (es_epochs s) \<Longrightarrow> kv_ok (es_epochs t)"
  by (induction es arbitrary: s) (auto dest!: begin_epoch_store simp: kv_ok_set split: if_splits)

lemma BeginBlocker_ok: "epochs_ok s \<Longrightarrow> BeginBlocker hooks ctx s = Inr t \<Longrightarrow> epochs_ok t"
  using BeginBlocker_get [of s hooks ctx t] begin_epochs_kv_ok [of hooks ctx "AllEpochInfos s" s t]
  by (auto simp: epochs_ok_def BeginBlocker_def)

end
