(* ===== verification/EpochProps.thy ===== *)
theory EpochProps
  imports Epochs
begin

text \<open>
  The epoch timers over runs of blocks: they stay on the grid of their start time and duration,
  never run ahead of the clock, catch up one epoch per block after a gap, and tell their hooks
  the number of the epoch that starts.
\<close>

section \<open>Runs of blocks\<close>

fun run_blocks :: "'e epoch_hooks option \<Rightarrow> block_ctx list \<Rightarrow> 'e estate \<Rightarrow> 'e estate result" where
  "run_blocks hooks [] s = Inr s"
| "run_blocks hooks (c # cs) s = rbind (BeginBlocker hooks c s) (run_blocks hooks cs)"

text \<open>The timer of one identifier, over the block times alone.\<close>

fun run_timer :: "block_ctx list \<Rightarrow> EpochInfo \<Rightarrow> EpochInfo" where
  "run_timer [] e = e"
| "run_timer (c # cs) e = run_timer cs (next_epoch c e)"

lemma run_blocks_timer:
  "epochs_ok s \<Longrightarrow> run_blocks hooks cs s = Inr t \<Longrightarrow>
     epochs_ok t \<and> GetEpochInfo t i = map_option (run_timer cs) (GetEpochInfo s i)"
proof (induction cs arbitrary: s)
  case Nil
  then show ?case by (simp add: option.map_ident [unfolded id_def])
next
  case (Cons c cs)
  obtain u where u: "BeginBlocker hooks c s = Inr u" "run_blocks hooks cs u = Inr t"
    using Cons.prems(2) by auto
  have ok: "epochs_ok u" by (rule BeginBlocker_ok [OF Cons.prems(1) u(1)])
  have "GetEpochInfo u i = map_option (next_epoch c) (GetEpochInfo s i)"
    using BeginBlocker_get [OF Cons.prems(1) u(1)] by (simp add: GetEpochInfo_def)
  then show ?case using Cons.IH [OF ok u(2)] by (cases "GetEpochInfo s i") simp_all
qed

text \<open>On schedule at an instant: a started timer's epoch number and start time are points of
  the grid, not after the instant.\<close>

definition on_schedule :: "int \<Rightarrow> EpochInfo \<Rightarrow> bool" where
  "on_schedule now e \<longleftrightarrow> 0 < ep_Duration e \<and>
     (ep_EpochCountingStarted e \<longrightarrow> 1 \<le> ep_CurrentEpoch e \<and>
        ep_CurrentEpochStartTime e = ep_StartTime e + (ep_CurrentEpoch e - 1) * ep_Duration e \<and>
        ep_CurrentEpochStartTime e \<le> now)"

text \<open>Block times do not decrease, from \<open>now\<close> on, and lie within \<open>2 ^ 62\<close> nanoseconds (146
  years) of the timer's start.\<close>

fun times_ok :: "int \<Rightarrow> int \<Rightarrow> block_ctx list \<Rightarrow> bool" where
  "times_ok start now [] = True"
| "times_ok start now (c # cs) \<longleftrightarrow>
     now \<le> BlockTime c \<and> BlockTime c < start + 2 ^ 62 \<and> times_ok start (BlockTime c) cs"

definition last_time :: "int \<Rightarrow> block_ctx list \<Rightarrow> int" where
  "last_time now cs = (if cs = [] then now else BlockTime (last cs))"

lemma epoch_number_bound:
  fixes n d x :: int
  assumes "1 \<le> d" "0 \<le> n" "n * d < x"
  shows "n < x"
proof -
  have "n * 1 \<le> n * d" using assms(1,2) by (rule mult_left_mono)
  then show ?thesis using assms(3) by simp
qed

lemma next_epoch_started:
  assumes "on_schedule now e" "ep_EpochCountingStarted e" "now \<le> BlockTime c"
    "BlockTime c < ep_StartTime e + 2 ^ 62"
  shows "next_epoch c e =
    (if ep_CurrentEpochStartTime e + ep_Duration e < BlockTime c
     then e\<lparr>ep_CurrentEpochStartHeight := BlockHeight c, ep_CurrentEpoch := ep_CurrentEpoch e + 1,
            ep_CurrentEpochStartTime := ep_CurrentEpochStartTime e + ep_Duration e\<rparr>
     else e)"
proof -
  have sch: "0 < ep_Duration e" "1 \<le> ep_CurrentEpoch e" "ep_CurrentEpochStartTime e \<le> now"
    "ep_CurrentEpochStartTime e = ep_StartTime e + (ep_CurrentEpoch e - 1) * ep_Duration e"
    using assms(1,2) by (simp_all add: on_schedule_def)
  have "(ep_CurrentEpoch e - 1) * ep_Duration e < 2 ^ 62"
    using sch(3,4) assms(3,4) by linarith
  then have "ep_CurrentEpoch e - 1 < 2 ^ 62"
    using epoch_number_bound [of "ep_Duration e" "ep_CurrentEpoch e - 1" "2 ^ 62"] sch by simp
  then have i64: "i64 (ep_CurrentEpoch e + 1) = ep_CurrentEpoch e + 1"
    using sch(2) by (intro i64_id) simp_all
  have "0 \<le> (ep_CurrentEpoch e - 1) * ep_Duration e" using sch by simp
  then have "ep_StartTime e \<le> BlockTime c" using sch(3,4) assms(3) by linarith
  then show ?thesis
    using assms(2)
    by (simp add: next_epoch_def shouldInitialEpochStart_def shouldEpochEnd_def EndEpoch_def i64)
qed

lemma next_epoch_schedule:
  assumes "on_schedule now e" "now \<le> BlockTime c" "BlockTime c < ep_StartTime e + 2 ^ 62"
  shows "on_schedule (BlockTime c) (next_epoch c e) \<and> ep_StartTime (next_epoch c e) = ep_StartTime e \<and>
    ep_Duration (next_epoch c e) = ep_Duration e \<and>
    (ep_EpochCountingStarted e \<longrightarrow> ep_EpochCountingStarted (next_epoch c e))"
proof (cases "ep_EpochCountingStarted e")
  case True
  then show ?thesis
    using assms next_epoch_started [OF assms(1) True assms(2,3)]
    by (auto simp: on_schedule_def algebra_simps)
next
  case False
  then show ?thesis
    using assms(1)
    by (auto simp: on_schedule_def next_epoch_def shouldInitialEpochStart_def shouldEpochEnd_def
        StartInitialEpoch_def EndEpoch_def)
qed

lemma run_timer_schedule:
  "on_schedule now e \<Longrightarrow> times_ok (ep_StartTime e) now cs \<Longrightarrow>
     on_schedule (last_time now cs) (run_timer cs e) \<and> ep_StartTime (run_timer cs e) = ep_StartTime e \<and>
     ep_Duration (run_timer cs e) = ep_Duration e"
proof (induction cs arbitrary: now e)
  case Nil
  then show ?case by (simp add: last_time_def)
next
  case (Cons c cs)
  have n: "on_schedule (BlockTime c) (next_epoch c e)" "ep_StartTime (next_epoch c e) = ep_StartTime e"
    "ep_Duration (next_epoch c e) = ep_Duration e"
    using next_epoch_schedule [OF Cons.prems(1), of c] Cons.prems(2) by simp_all
  show ?case using Cons.IH [OF n(1)] Cons.prems(2) n by (cases cs) (simp_all add: last_time_def)
qed

section \<open>The properties\<close>

definition ticks :: "int list \<Rightarrow> block_ctx list" where
  "ticks ts = map (\<lambda>t. \<lparr>BlockHeight = t, BlockTime = t, ChainID = []\<rparr>) ts"

definition hourly :: EpochInfo where
  "hourly = \<lparr>ep_Identifier = ''h'', ep_StartTime = 100, ep_Duration = 10, ep_CurrentEpoch = 0,
     ep_CurrentEpochStartTime = 0, ep_EpochCountingStarted = False, ep_CurrentEpochStartHeight = 0\<rparr>"

definition hour_state :: "(string \<times> int) list estate" where
  "hour_state = \<lparr>es_epochs = [(''h'', hourly)], es_ext = []\<rparr>"

lemma hour_state_ok: "epochs_ok hour_state"
  by (auto simp: epochs_ok_def hour_state_def kv_ok_def kv_get_def hourly_def split: if_splits)

text \<open>C13: over any run of blocks, whatever their spacing, the current epoch of a timer is the
  point of the grid its number says, \<open>StartTime + (CurrentEpoch - 1) * Duration\<close>, never after the
  last block: epochs have no drift and never run ahead of the clock.\<close>

theorem epochs_on_schedule:
  assumes "epochs_ok s" and "run_blocks hooks cs s = Inr t" and "GetEpochInfo s i = Some e"
    and "on_schedule now e" and "times_ok (ep_StartTime e) now cs"
  shows "\<exists>e'. GetEpochInfo t i = Some e' \<and> ep_Identifier e' = i \<and>
    ep_StartTime e' = ep_StartTime e \<and> ep_Duration e' = ep_Duration e \<and>
    (ep_EpochCountingStarted e' \<longrightarrow> 1 \<le> ep_CurrentEpoch e' \<and>
       ep_CurrentEpochStartTime e' = ep_StartTime e + (ep_CurrentEpoch e' - 1) * ep_Duration e \<and>
       ep_CurrentEpochStartTime e' \<le> last_time now cs)"
proof -
  have t: "epochs_ok t" "GetEpochInfo t i = Some (run_timer cs e)"
    using run_blocks_timer [OF assms(1,2), of i] assms(3) by simp_all
  have "ep_Identifier (run_timer cs e) = i"
    using t by (simp add: epochs_ok_def GetEpochInfo_def)
  then show ?thesis
    using run_timer_schedule [OF assms(4,5)] t(2) unfolding on_schedule_def by auto
qed

theorem epochs_on_schedule_witness:
  "\<exists>t e'. run_blocks None (ticks [95, 101, 108, 125, 126, 127]) hour_state = Inr t \<and>
     GetEpochInfo t ''h'' = Some e' \<and> ep_CurrentEpoch e' = 3 \<and> ep_CurrentEpochStartTime e' \<le> 127"
proof -
  have "(case run_blocks None (ticks [95, 101, 108, 125, 126, 127]) hour_state of Inl _ \<Rightarrow> False
    | Inr t \<Rightarrow> (case GetEpochInfo t ''h'' of None \<Rightarrow> False
        | Some e \<Rightarrow> ep_CurrentEpoch e = 3 \<and> ep_EpochCountingStarted e))" by code_simp
  then obtain t e where t: "run_blocks None (ticks [95, 101, 108, 125, 126, 127]) hour_state = Inr t"
    "GetEpochInfo t ''h'' = Some e" "ep_CurrentEpoch e = 3" "ep_EpochCountingStarted e"
    by (auto split: sum.splits option.splits)
  have "ep_CurrentEpochStartTime e \<le> 127"
    using epochs_on_schedule [OF hour_state_ok t(1), of "''h''" hourly 90] t(2,4)
    by (simp add: on_schedule_def hourly_def hour_state_def GetEpochInfo_def kv_get_def ticks_def
        last_time_def)
  with t(1-3) show ?thesis by blast
qed

text \<open>C14: a timer that fell behind (the chain was halted, or blocks are longer than the epoch)
  catches up one epoch per block: after \<open>n\<close> blocks, all at times from \<open>T\<close> on, its current epoch
  started at least \<open>n\<close> durations later than before or ends at \<open>T\<close> or after.\<close>

theorem epochs_catch_up:
  assumes "on_schedule now e" and "ep_EpochCountingStarted e" and "times_ok (ep_StartTime e) now cs"
    and "\<forall>c\<in>set cs. T \<le> BlockTime c" and "epochs_ok s" and "run_blocks hooks cs s = Inr t"
    and "GetEpochInfo s i = Some e"
  shows "\<exists>e'. GetEpochInfo t i = Some e' \<and>
    min (ep_CurrentEpochStartTime e + int (length cs) * ep_Duration e) (T - ep_Duration e)
      \<le> ep_CurrentEpochStartTime e'"
proof -
  have "min (ep_CurrentEpochStartTime e + int (length cs) * ep_Duration e) (T - ep_Duration e)
      \<le> ep_CurrentEpochStartTime (run_timer cs e)"
    using assms(1-4)
  proof (induction cs arbitrary: now e)
    case Nil
    then show ?case by simp
  next
    case (Cons c cs)
    have c: "now \<le> BlockTime c" "BlockTime c < ep_StartTime e + 2 ^ 62" "T \<le> BlockTime c"
      using Cons.prems(3,4) by simp_all
    note n = next_epoch_schedule [OF Cons.prems(1) c(1,2)]
    have IH: "min (ep_CurrentEpochStartTime (next_epoch c e) + int (length cs) * ep_Duration e)
        (T - ep_Duration e) \<le> ep_CurrentEpochStartTime (run_timer cs (next_epoch c e))"
      using Cons.IH [of "BlockTime c" "next_epoch c e"] Cons.prems n by simp
    show ?case
    proof (cases "ep_CurrentEpochStartTime e + ep_Duration e < BlockTime c")
      case True
      then show ?thesis
        using IH next_epoch_started [OF Cons.prems(1,2) c(1,2)] by (simp add: algebra_simps)
    next
      case False
      have "0 < ep_Duration e" using Cons.prems(1) by (simp add: on_schedule_def)
      then have "T - ep_Duration e \<le> ep_CurrentEpochStartTime e + int (length cs) * ep_Duration e"
        using False c(3) by (smt (verit) mult_nonneg_nonneg of_nat_0_le_iff)
      then show ?thesis
        using IH next_epoch_started [OF Cons.prems(1,2) c(1,2)] False by simp
    qed
  qed
  then show ?thesis using run_blocks_timer [OF assms(5,6), of i] assms(7) by simp
qed

definition running_hour :: EpochInfo where
  "running_hour = hourly\<lparr>ep_CurrentEpoch := 1, ep_CurrentEpochStartTime := 100, ep_EpochCountingStarted := True\<rparr>"

theorem epochs_catch_up_witness:
  "\<exists>t e'. run_blocks None (ticks [200, 201, 202]) (hour_state\<lparr>es_epochs := [(''h'', running_hour)]\<rparr>) = Inr t \<and>
     GetEpochInfo t ''h'' = Some e' \<and> 130 \<le> ep_CurrentEpochStartTime e'"
proof -
  let ?s = "hour_state\<lparr>es_epochs := [(''h'', running_hour)]\<rparr>"
  have "is_ok (run_blocks None (ticks [200, 201, 202]) ?s)" by code_simp
  then obtain t where t: "run_blocks None (ticks [200, 201, 202]) ?s = Inr t" by (auto simp: is_ok_iff)
  have "epochs_ok ?s"
    by (auto simp: epochs_ok_def hour_state_def kv_ok_def kv_get_def running_hour_def hourly_def
        split: if_splits)
  then have "\<exists>e'. GetEpochInfo t ''h'' = Some e' \<and> 130 \<le> ep_CurrentEpochStartTime e'"
    using epochs_catch_up [of 150 running_hour "ticks [200, 201, 202]" 200 ?s None t "''h''", OF _ _ _ _ _ t]
    by (simp add: on_schedule_def running_hour_def hourly_def ticks_def GetEpochInfo_def kv_get_def)
  with t show ?thesis by blast
qed

text \<open>At the end of an epoch both hooks run, first \<open>AfterEpochEnd\<close>, then, once the new
  epoch is stored, \<open>BeforeEpochStart\<close>, and both get the number of the epoch that starts, one more
  than that of the epoch that ended; an error of either stops the block.\<close>

theorem epoch_end_hooks:
  assumes "shouldEpochEnd ctx e"
  shows "begin_epoch (Some h) ctx e s =
    (let n = i64 (ep_CurrentEpoch e + 1); i = ep_Identifier e in
     case eh_AfterEpochEnd h i n (es_ext s) of
       Inl x \<Rightarrow> Inl (Panic ''epoch hook'')
     | Inr e1 \<Rightarrow> (case eh_BeforeEpochStart h i n e1 of
         Inl x \<Rightarrow> Inl (Panic ''epoch hook'')
       | Inr e2 \<Rightarrow> Inr \<lparr>es_epochs = kv_set i (e\<lparr>ep_CurrentEpochStartHeight := BlockHeight ctx,
             ep_CurrentEpoch := n, ep_CurrentEpochStartTime := ep_CurrentEpochStartTime e + ep_Duration e\<rparr>)
             (es_epochs s), es_ext = e2\<rparr>))"
  using assms
  by (auto simp: begin_epoch_def Let_def shouldEpochEnd_def or_panic_def RunHooksAfterEpochEnd_def
      RunHooksBeforeEpochStart_def SetEpochInfo_def EndEpoch_def split: sum.splits)

definition recorder :: "(string \<times> int) list epoch_hooks" where
  "recorder = \<lparr>eh_AfterEpochEnd = (\<lambda>i n tr. Inr (tr @ [(''end'', n)])),
               eh_BeforeEpochStart = (\<lambda>i n tr. Inr (tr @ [(''start'', n)]))\<rparr>"

theorem epoch_end_hooks_witness:
  "ep_CurrentEpoch running_hour = 1 \<and>
   (\<exists>t. begin_epoch (Some recorder) (hd (ticks [115])) running_hour hour_state = Inr t \<and>
      es_ext t = [(''end'', 2), (''start'', 2)])"
  using epoch_end_hooks [of "hd (ticks [115])" running_hour recorder hour_state]
  by (simp add: shouldEpochEnd_def shouldInitialEpochStart_def running_hour_def hourly_def ticks_def
      recorder_def i64_def hour_state_def Let_def)

end
