(* ===== verification/AssetProfileMsgs.thy ===== *)
theory AssetProfileMsgs
  imports AssetProfile
begin

text \<open>
  The messages of the asset profile module (x/assetprofile/keeper: \<open>msg_server_entry.go\<close>,
  \<open>msg_server_add_entry.go\<close>, \<open>msg_server_create_wrapper.go\<close>,
  \<open>msg_server_register_wrapper.go\<close>) and their basic validation. A message that carries all
  fields of an entry is an \<^typ>\<open>Entry\<close>, whose \<open>en_Authority\<close> is the message's authority.
\<close>

definition ErrChannelIdAndDenomHashMismatch :: err where
  "ErrChannelIdAndDenomHashMismatch = Sentinel ''assetprofile'' 2"
definition ErrNotValidIbcDenom :: err where
  "ErrNotValidIbcDenom = Sentinel ''assetprofile'' 3"
definition ErrDecimalsInvalid :: err where
  "ErrDecimalsInvalid = Sentinel ''assetprofile'' 4"
definition ErrInvalidBaseDenom :: err where
  "ErrInvalidBaseDenom = Sentinel ''assetprofile'' 5"
definition ap_ErrInvalidAddress :: err where
  "ap_ErrInvalidAddress = Sentinel ''assetprofile'' 6"
definition ap_ErrInvalidRequest :: err where
  "ap_ErrInvalidRequest = Sentinel ''assetprofile'' 7"
definition ErrWrapperAlreadyExists :: err where
  "ErrWrapperAlreadyExists = Sentinel ''assetprofile'' 8"

definition ap_ErrInvalidSigner :: err where "ap_ErrInvalidSigner = Plain ''gov.ErrInvalidSigner''"
definition ap_ErrKeyNotFound :: err where "ap_ErrKeyNotFound = Plain ''sdk.ErrKeyNotFound''"
definition ap_ErrUnauthorized :: err where "ap_ErrUnauthorized = Plain ''sdk.ErrUnauthorized''"
definition ap_ErrRequest :: err where "ap_ErrRequest = Plain ''sdk.ErrInvalidRequest''"
definition ap_ErrAddress :: err where "ap_ErrAddress = Plain ''sdk.ErrInvalidAddress''"

lemmas ap_errors = ErrChannelIdAndDenomHashMismatch_def ErrNotValidIbcDenom_def ErrDecimalsInvalid_def
  ErrInvalidBaseDenom_def ap_ErrInvalidAddress_def ap_ErrInvalidRequest_def ErrWrapperAlreadyExists_def
  ap_ErrInvalidSigner_def ap_ErrKeyNotFound_def ap_ErrUnauthorized_def ap_ErrRequest_def ap_ErrAddress_def

section \<open>The keeper\<close>

text \<open>The authority, with what comes from ibc-go and go-ethereum: parsing a hash, the path of a
  denomination trace (none when the transfer keeper is nil), and the syntax of an address.\<close>

record ap_keeper =
  ak_authority :: string
  ak_ParseHexHash :: "string \<Rightarrow> string result"
  ak_GetDenomPath :: "(string \<Rightarrow> string option) option"
  ak_IsHexAddress :: "string \<Rightarrow> bool"

fun is_prefix :: "string \<Rightarrow> string \<Rightarrow> bool" where
  "is_prefix [] s = True"
| "is_prefix (c # p) [] = False"
| "is_prefix (c # p) (d # s) = (c = d \<and> is_prefix p s)"

definition TrimPrefix :: "string \<Rightarrow> string \<Rightarrow> string" where
  "TrimPrefix s p = (if is_prefix p s then drop (length p) s else s)"

fun Contains :: "string \<Rightarrow> string \<Rightarrow> bool" where
  "Contains [] sub = (sub = [])"
| "Contains (c # s) sub = (is_prefix sub (c # s) \<or> Contains s sub)"

text \<open>The check of the ibc denomination and channel, common to \<open>AddEntry\<close> and
  \<open>UpdateEntry\<close>.\<close>

definition check_ibc :: "ap_keeper \<Rightarrow> Entry \<Rightarrow> unit result" where
  "check_ibc k msg =
     (case ak_ParseHexHash k (TrimPrefix (en_Denom msg) ''ibc/'') of
        Inl e \<Rightarrow> Inr ()
      | Inr hash \<Rightarrow>
          (case ak_GetDenomPath k of
             None \<Rightarrow> Inr ()
           | Some GetDenom \<Rightarrow>
               (case GetDenom hash of
                  None \<Rightarrow> Inl ErrNotValidIbcDenom
                | Some path \<Rightarrow>
                    if \<not> Contains path (en_IbcChannelId msg)
                    then Inl ErrChannelIdAndDenomHashMismatch else Inr ())))"

section \<open>Messages\<close>

definition AddEntry :: "ap_keeper \<Rightarrow> Entry \<Rightarrow> ap_store \<Rightarrow> ap_store result" where
  "AddEntry k msg m =
     (case GetEntry m (en_BaseDenom msg) of
        Some _ \<Rightarrow> Inl ap_ErrRequest
      | None \<Rightarrow> rbind (check_ibc k msg) (\<lambda>_.
          Inr (SetEntry (msg\<lparr>en_Authority := ak_authority k\<rparr>) m)))"

definition UpdateEntry :: "ap_keeper \<Rightarrow> Entry \<Rightarrow> ap_store \<Rightarrow> ap_store result" where
  "UpdateEntry k msg m =
     (if ak_authority k \<noteq> en_Authority msg then Inl ap_ErrInvalidSigner
      else case GetEntry m (en_BaseDenom msg) of
        None \<Rightarrow> Inl ap_ErrKeyNotFound
      | Some entry \<Rightarrow>
          if en_Authority msg \<noteq> en_Authority entry then Inl ap_ErrUnauthorized
          else rbind (check_ibc k msg) (\<lambda>_. Inr (SetEntry msg m)))"

definition DeleteEntry :: "ap_keeper \<Rightarrow> string \<Rightarrow> string \<Rightarrow> ap_store \<Rightarrow> ap_store result" where
  "DeleteEntry k msg_Authority msg_BaseDenom m =
     (if ak_authority k \<noteq> msg_Authority then Inl ap_ErrInvalidSigner
      else case GetEntry m msg_BaseDenom of
        None \<Rightarrow> Inl ap_ErrKeyNotFound
      | Some entry \<Rightarrow>
          if msg_Authority \<noteq> en_Authority entry then Inl ap_ErrUnauthorized
          else Inr (RemoveEntry msg_BaseDenom m))"

definition generateSaltForDenom :: "string \<Rightarrow> string" where
  "generateSaltForDenom denom = denom @ ''_wrapper''"

definition getWrapperBytecode :: "string \<Rightarrow> string \<Rightarrow> string \<Rightarrow> int \<Rightarrow> string" where
  "getWrapperBytecode denom name symbol decimals = ''wrapper_bytecode_placeholder''"

definition calculateCreate2Address :: "string \<Rightarrow> string \<Rightarrow> string \<Rightarrow> string" where
  "calculateCreate2Address factory salt bytecode = ''0x742d35Cc6634C0532925a3b8D4C9db96C4b5Da5e''"

definition deployWrapperViaFactory :: "string \<Rightarrow> string \<Rightarrow> string \<Rightarrow> int \<Rightarrow> string" where
  "deployWrapperViaFactory denom name symbol decimals =
     (let factoryAddr = ''0x0000000000000000000000000000000000000806'';
          salt = generateSaltForDenom denom;
          bytecode = getWrapperBytecode denom name symbol decimals
      in calculateCreate2Address factoryAddr salt bytecode)"

text \<open>The answer is the wrapper's address; \<open>uint8\<close> wraps the decimals passed on.\<close>

definition CreateWrapper ::
    "ap_keeper \<Rightarrow> string \<Rightarrow> string \<Rightarrow> string \<Rightarrow> string \<Rightarrow> int \<Rightarrow> ap_store \<Rightarrow>
     (ap_store \<times> string) result" where
  "CreateWrapper k msg_Authority msg_BaseDenom msg_DisplayName msg_DisplaySymbol msg_Decimals m =
     (if ak_authority k \<noteq> msg_Authority then Inl ap_ErrInvalidSigner
      else let found = GetEntry m msg_BaseDenom
        in if (case found of None \<Rightarrow> False | Some entry \<Rightarrow> en_Address entry \<noteq> [])
           then Inl ErrWrapperAlreadyExists
           else let wrapperAddress = deployWrapperViaFactory msg_BaseDenom msg_DisplayName
                      msg_DisplaySymbol (msg_Decimals mod 256);
                    entry = (case found of
                        None \<Rightarrow> empty_entry\<lparr>en_BaseDenom := msg_BaseDenom, en_Denom := msg_BaseDenom\<rparr>
                      | Some entry \<Rightarrow> entry);
                    entry' = entry\<lparr>en_Address := wrapperAddress, en_DisplayName := msg_DisplayName,
                      en_DisplaySymbol := msg_DisplaySymbol, en_Decimals := msg_Decimals,
                      en_CommitEnabled := True, en_WithdrawEnabled := True\<rparr>
             in Inr (SetEntry entry' m, wrapperAddress))"

definition RegisterWrapper :: "ap_keeper \<Rightarrow> Entry \<Rightarrow> ap_store \<Rightarrow> ap_store result" where
  "RegisterWrapper k msg m =
     (if ak_authority k \<noteq> en_Authority msg then Inl ap_ErrInvalidSigner
      else if \<not> ak_IsHexAddress k (en_Address msg) then Inl ap_ErrInvalidAddress
      else let entry = (case GetEntry m (en_BaseDenom msg) of
            None \<Rightarrow> empty_entry\<lparr>en_BaseDenom := en_BaseDenom msg, en_Denom := en_Denom msg,
              en_Decimals := en_Decimals msg, en_DisplayName := en_DisplayName msg,
              en_DisplaySymbol := en_DisplaySymbol msg, en_Address := en_Address msg\<rparr>
          | Some entry \<Rightarrow> entry\<lparr>en_Address := en_Address msg, en_DisplayName := en_DisplayName msg,
              en_DisplaySymbol := en_DisplaySymbol msg, en_Decimals := en_Decimals msg\<rparr>)
        in Inr (SetEntry entry m))"

definition ValidateWrapperRegistration ::
    "ap_keeper \<Rightarrow> string \<Rightarrow> string \<Rightarrow> string \<Rightarrow> string \<Rightarrow> int \<Rightarrow> ap_store \<Rightarrow> unit result" where
  "ValidateWrapperRegistration k baseDenom wrapperAddress name symbol decimals m =
     (if baseDenom = [] then Inl ErrInvalidBaseDenom
      else if \<not> ak_IsHexAddress k wrapperAddress then Inl ap_ErrInvalidAddress
      else if decimals < 6 \<or> decimals > 18 then Inl ErrDecimalsInvalid
      else if name = [] then Inl ap_ErrInvalidRequest
      else if symbol = [] then Inl ap_ErrInvalidRequest
      else case GetEntry m baseDenom of
        None \<Rightarrow> Inr ()
      | Some entry \<Rightarrow> if en_Address entry \<noteq> [] then Inl ErrWrapperAlreadyExists else Inr ())"

definition RegisterWrapperForDenom ::
    "ap_keeper \<Rightarrow> string \<Rightarrow> string \<Rightarrow> string \<Rightarrow> string \<Rightarrow> int \<Rightarrow> ap_store \<Rightarrow> ap_store result" where
  "RegisterWrapperForDenom k baseDenom wrapperAddress name symbol decimals m =
     rbind (ValidateWrapperRegistration k baseDenom wrapperAddress name symbol decimals m) (\<lambda>_.
       let entry = (case GetEntry m baseDenom of
             None \<Rightarrow> empty_entry\<lparr>en_BaseDenom := baseDenom, en_Denom := baseDenom\<rparr>
           | Some entry \<Rightarrow> entry)
       in Inr (SetEntry (entry\<lparr>en_Address := wrapperAddress, en_DisplayName := name,
            en_DisplaySymbol := symbol, en_Decimals := decimals\<rparr>) m))"

section \<open>Basic validation and genesis\<close>

definition ap_address_ok :: "sdk \<Rightarrow> string \<Rightarrow> unit result" where
  "ap_address_ok S a =
     (case AccAddressFromBech32 S a of Inl e \<Rightarrow> Inl ap_ErrAddress | Inr _ \<Rightarrow> Inr ())"

definition MsgAddEntry_ValidateBasic :: "sdk \<Rightarrow> string \<Rightarrow> Entry \<Rightarrow> unit result" where
  "MsgAddEntry_ValidateBasic S msg_Creator msg =
     rbind (ap_address_ok S msg_Creator) (\<lambda>_.
     if en_Decimals msg < 6 \<or> en_Decimals msg > 18 then Inl ErrDecimalsInvalid
     else if en_BaseDenom msg = [] then Inl ErrInvalidBaseDenom
     else if length (en_BaseDenom msg) = 1 \<or> 128 < length (en_BaseDenom msg) then Inl ErrInvalidBaseDenom
     else ValidateDenom S (en_Denom msg))"

definition MsgUpdateEntry_ValidateBasic :: "sdk \<Rightarrow> Entry \<Rightarrow> unit result" where
  "MsgUpdateEntry_ValidateBasic S msg =
     rbind (ap_address_ok S (en_Authority msg)) (\<lambda>_.
     if en_Decimals msg < 6 \<or> en_Decimals msg > 18 then Inl ErrDecimalsInvalid
     else if ValidateDenom S (en_BaseDenom msg) \<noteq> Inr () then Inl ErrInvalidBaseDenom
     else if ValidateDenom S (en_Denom msg) \<noteq> Inr () then Inl (Plain ''invalid denom'')
     else Inr ())"

definition MsgDeleteEntry_ValidateBasic :: "sdk \<Rightarrow> string \<Rightarrow> string \<Rightarrow> unit result" where
  "MsgDeleteEntry_ValidateBasic S msg_Authority msg_BaseDenom =
     rbind (ap_address_ok S msg_Authority) (\<lambda>_.
     if ValidateDenom S msg_BaseDenom \<noteq> Inr () then Inl ErrInvalidBaseDenom else Inr ())"

definition MsgCreateWrapper_ValidateBasic ::
    "sdk \<Rightarrow> string \<Rightarrow> string \<Rightarrow> string \<Rightarrow> string \<Rightarrow> int \<Rightarrow> unit result" where
  "MsgCreateWrapper_ValidateBasic S msg_Authority msg_BaseDenom msg_DisplayName msg_DisplaySymbol msg_Decimals =
     rbind (ap_address_ok S msg_Authority) (\<lambda>_.
     if msg_BaseDenom = [] then Inl ErrInvalidBaseDenom
     else if msg_DisplayName = [] then Inl ap_ErrInvalidRequest
     else if msg_DisplaySymbol = [] then Inl ap_ErrInvalidRequest
     else if msg_Decimals < 6 \<or> msg_Decimals > 18 then Inl ErrDecimalsInvalid
     else Inr ())"

definition ap_InitGenesis :: "Entry list \<Rightarrow> ap_store \<Rightarrow> ap_store" where
  "ap_InitGenesis entries m = fold SetEntry entries m"

fun ap_genesis_Validate :: "string list \<Rightarrow> Entry list \<Rightarrow> unit result" where
  "ap_genesis_Validate seen [] = Inr ()"
| "ap_genesis_Validate seen (elem # es) =
     (if EntryKey (en_BaseDenom elem) \<in> set seen then Inl (Plain ''duplicated index for entry'')
      else ap_genesis_Validate (EntryKey (en_BaseDenom elem) # seen) es)"

end
