(* ===== verification/AssetProfileProps.thy ===== *)
theory AssetProfileProps
  imports AssetProfileMsgs
begin

text \<open>
  Who may change an entry of the asset profile, over runs of all its messages.
\<close>

datatype ap_msg =
    MAddEntry Entry
  | MUpdateEntry Entry
  | MDeleteEntry string string
  | MCreateWrapper string string string string int
  | MRegisterWrapper Entry

fun ap_handle :: "ap_msg \<Rightarrow> ap_keeper \<times> ap_store \<Rightarrow> (ap_keeper \<times> ap_store) result" where
  "ap_handle x (k, m) = rbind
     (case x of
        MAddEntry e \<Rightarrow> AddEntry k e m
      | MUpdateEntry e \<Rightarrow> UpdateEntry k e m
      | MDeleteEntry a d \<Rightarrow> DeleteEntry k a d m
      | MCreateWrapper a d n s dec \<Rightarrow> rbind (CreateWrapper k a d n s dec m) (\<lambda>r. Inr (fst r))
      | MRegisterWrapper e \<Rightarrow> RegisterWrapper k e m)
     (\<lambda>m'. Inr (k, m'))"

text \<open>The authority a message carries; anybody may send \<open>AddEntry\<close>.\<close>

fun msg_authority :: "ap_msg \<Rightarrow> string option" where
  "msg_authority (MAddEntry e) = None"
| "msg_authority (MUpdateEntry e) = Some (en_Authority e)"
| "msg_authority (MDeleteEntry a d) = Some a"
| "msg_authority (MCreateWrapper a d n s dec) = Some a"
| "msg_authority (MRegisterWrapper e) = Some (en_Authority e)"

definition ap_inv :: "ap_keeper \<times> ap_store \<Rightarrow> bool" where
  "ap_inv km \<longleftrightarrow> entries_ok (snd km)"

lemma ap_handle_inv: "ap_inv km \<Longrightarrow> ap_handle x km = Inr km' \<Longrightarrow> ap_inv km'"
  by (cases km; cases x)
    (auto simp: ap_inv_def AddEntry_def UpdateEntry_def DeleteEntry_def CreateWrapper_def
      RegisterWrapper_def Let_def entries_ok_Set entries_ok_Remove split: option.splits if_splits)

interpretation ap_run: invariant_step ap_handle ap_inv
  by unfold_locales (rule ap_handle_inv)

text \<open>An entry that no authority owns: it stays so, and stays there.\<close>

definition frozen :: "string \<Rightarrow> ap_keeper \<times> ap_store \<Rightarrow> bool" where
  "frozen d km \<longleftrightarrow> ak_authority (fst km) \<noteq> [] \<and> entries_ok (snd km) \<and>
     (\<exists>e. GetEntry (snd km) d = Some e \<and> en_Authority e = [])"

lemma ap_handle_frozen:
  assumes "frozen d km" "ap_handle x km = Inr km'"
  shows "frozen d km'"
proof -
  obtain k m where km: "km = (k, m)" by (cases km)
  have ok: "entries_ok (snd km')"
    using ap_handle_inv [of km x km'] assms by (simp add: ap_inv_def frozen_def)
  have id: "GetEntry m d' = Some e \<Longrightarrow> en_BaseDenom e = d'" for d' e
    using assms(1) by (simp add: frozen_def km entries_ok_def)
  show ?thesis
    using assms ok id
    by (cases x) (auto simp: frozen_def km AddEntry_def UpdateEntry_def DeleteEntry_def CreateWrapper_def
        RegisterWrapper_def Let_def GetEntry_SetEntry GetEntry_RemoveEntry split: option.splits if_splits)
qed

interpretation frozen_run: invariant_step ap_handle "frozen d" for d
  by unfold_locales (rule ap_handle_frozen)

section \<open>The properties\<close>

definition gov_keeper :: ap_keeper where
  "gov_keeper = \<lparr>ak_authority = ''gov'', ak_ParseHexHash = (\<lambda>s. Inl (Plain ''hash'')),
     ak_GetDenomPath = None, ak_IsHexAddress = (\<lambda>s. True)\<rparr>"

lemma gov_ibc [simp]: "check_ibc gov_keeper e = Inr ()"
  by (simp add: check_ibc_def gov_keeper_def)

text \<open>C15: entries stay under their own base denominations through any run of messages, and
  only a message that carries the governance authority changes or removes an entry that exists:
  anybody may add a new one, nobody else may touch it.\<close>

theorem entries_guarded:
  assumes "entries_ok m" and "ap_handle x (k, m) = Inr (k', m')"
  shows "entries_ok m' \<and>
    (msg_authority x \<noteq> Some (ak_authority k) \<longrightarrow> GetEntry m d = Some e \<longrightarrow> GetEntry m' d = Some e)"
  using ap_handle_inv [of "(k, m)" x "(k', m')"] assms
  by (cases x) (auto simp: ap_inv_def AddEntry_def UpdateEntry_def DeleteEntry_def CreateWrapper_def
      RegisterWrapper_def Let_def GetEntry_SetEntry split: option.splits if_splits)

theorem entries_guarded_witness:
  "\<exists>m'. ap_handle (MAddEntry (empty_entry\<lparr>en_BaseDenom := ''b''\<rparr>))
       (gov_keeper, SetEntry (empty_entry\<lparr>en_BaseDenom := ''a'', en_Decimals := 6\<rparr>) []) = Inr (gov_keeper, m') \<and>
     GetEntry m' ''a'' = Some (empty_entry\<lparr>en_BaseDenom := ''a'', en_Decimals := 6\<rparr>)"
proof -
  let ?m = "SetEntry (empty_entry\<lparr>en_BaseDenom := ''a'', en_Decimals := 6\<rparr>) []"
    and ?x = "MAddEntry (empty_entry\<lparr>en_BaseDenom := ''b''\<rparr>)"
  obtain m' where m': "ap_handle ?x (gov_keeper, ?m) = Inr (gov_keeper, m')"
    using GetEntry_SetEntry [of "empty_entry\<lparr>en_BaseDenom := ''a'', en_Decimals := 6\<rparr>" "[]" "''b''"]
    by (simp add: AddEntry_def gov_ibc GetEntry_def)
  have "entries_ok ?m" by (rule entries_ok_Set) (simp add: entries_ok_def GetEntry_def)
  from entries_guarded [OF this m', of "''a''"] m' show ?thesis
    by (auto simp: GetEntry_SetEntry)
qed

text \<open>C16: an entry that \<open>CreateWrapper\<close> made for a new denomination can never again be updated
  or deleted: it is stored without an authority, so after any run of messages both \<open>UpdateEntry\<close>
  and \<open>DeleteEntry\<close> are refused, governance's own included.\<close>

theorem wrapper_entry_frozen:
  assumes "entries_ok m" and "ak_authority k \<noteq> []" and "GetEntry m d = None"
    and "CreateWrapper k a d n sy dec m = Inr (m1, adr)"
  shows "(\<forall>msg. en_BaseDenom msg = d \<longrightarrow>
      \<not> is_ok (UpdateEntry k msg (snd (run_ops ap_handle xs (k, m1))))) \<and>
    (\<forall>a'. \<not> is_ok (DeleteEntry k a' d (snd (run_ops ap_handle xs (k, m1)))))"
proof -
  have m1: "GetEntry m1 d = Some (empty_entry\<lparr>en_BaseDenom := d, en_Denom := d, en_Address := adr,
      en_DisplayName := n, en_DisplaySymbol := sy, en_Decimals := dec, en_CommitEnabled := True,
      en_WithdrawEnabled := True\<rparr>)" "entries_ok m1"
    using assms(1,3,4)
    by (auto simp: CreateWrapper_def Let_def GetEntry_SetEntry entries_ok_Set split: if_splits)
  have "frozen d (k, m1)" using m1 assms(2) by (simp add: frozen_def empty_entry_def)
  then have "frozen d (run_ops ap_handle xs (k, m1))" by (rule frozen_run.run_inv)
  then obtain e where e: "GetEntry (snd (run_ops ap_handle xs (k, m1))) d = Some e" "en_Authority e = []"
    by (auto simp: frozen_def)
  show ?thesis
    using e assms(2) by (auto simp: is_ok_iff UpdateEntry_def DeleteEntry_def split: if_splits)
qed

theorem wrapper_entry_frozen_witness:
  "\<exists>m1 adr. CreateWrapper gov_keeper ''gov'' ''uatom'' ''Atom'' ''ATOM'' 6 [] = Inr (m1, adr) \<and>
     \<not> is_ok (DeleteEntry gov_keeper ''gov'' ''uatom'' (snd (run_ops ap_handle
        [MRegisterWrapper (empty_entry\<lparr>en_Authority := ''gov'', en_BaseDenom := ''uatom''\<rparr>)] (gov_keeper, m1))))"
proof -
  obtain m1 adr where c: "CreateWrapper gov_keeper ''gov'' ''uatom'' ''Atom'' ''ATOM'' 6 [] = Inr (m1, adr)"
    by (simp add: CreateWrapper_def gov_keeper_def GetEntry_def Let_def)
  have "\<not> is_ok (DeleteEntry gov_keeper ''gov'' ''uatom'' (snd (run_ops ap_handle
        [MRegisterWrapper (empty_entry\<lparr>en_Authority := ''gov'', en_BaseDenom := ''uatom''\<rparr>)] (gov_keeper, m1))))"
    using wrapper_entry_frozen [OF _ _ _ c, of "[MRegisterWrapper (empty_entry\<lparr>en_Authority := ''gov'',
        en_BaseDenom := ''uatom''\<rparr>)]"]
    by (simp add: entries_ok_def GetEntry_def gov_keeper_def)
  with c show ?thesis by blast
qed

end
