(* ===== verification/BigDec.thy ===== *)
theory BigDec
  imports Dec
begin

text \<open>
  The decimals of \<open>github.com/osmosis-labs/osmosis/osmomath\<close>, a library the repository calls.
  A \<open>BigDec\<close> is the integer it stores, the value times \<open>10 ^ 36\<close>: sums, differences,
  comparisons, \<open>MulInt64\<close>, \<open>BigDecFromSDKInt\<close> and \<open>BigDecFromDec\<close> are exact on it. The
  operations that round are the fields of \<open>bigdec_ops\<close>, \<open>bigdec_laws\<close> states their
  documented errors, and \<open>std_bigdec\<close> is a concrete instance that satisfies the laws.
\<close>

abbreviation big_one :: int where
  "big_one \<equiv> 1000000000000000000000000000000000000"

definition BigDecFromSDKInt :: "int \<Rightarrow> int" where
  "BigDecFromSDKInt n = n * big_one"

definition BigDecFromDec :: "int \<Rightarrow> int" where
  "BigDecFromDec d = d * dec_one"

record bigdec_ops =
  BMul :: "int \<Rightarrow> int \<Rightarrow> int"
  BMulDec :: "int \<Rightarrow> int \<Rightarrow> int"
  BQuo :: "int \<Rightarrow> int \<Rightarrow> int result"
  BQuoInt64 :: "int \<Rightarrow> int \<Rightarrow> int result"
  BDec :: "int \<Rightarrow> int"

text \<open>\<open>Mul\<close> and \<open>MulDec\<close> round to the nearest decimal; \<open>Quo\<close> cuts the quotient at 72 digits
  and rounds that to 36; \<open>QuoInt64\<close> and \<open>Dec\<close> cut towards zero; a zero divisor panics.\<close>

definition bigdec_laws :: "bigdec_ops \<Rightarrow> bool" where
  "bigdec_laws B \<longleftrightarrow>
     (\<forall>a b. 2 * \<bar>big_one * BMul B a b - a * b\<bar> \<le> big_one) \<and>
     (\<forall>a d. 2 * \<bar>dec_one * BMulDec B a d - a * d\<bar> \<le> dec_one) \<and>
     (\<forall>a. BQuo B a 0 = Inl (Panic ''division by zero'')) \<and>
     (\<forall>a b. b \<noteq> 0 \<longrightarrow>
        (\<exists>q. BQuo B a b = Inr q \<and> 2 * \<bar>big_one * q - a * big_one ^ 2 sdiv b\<bar> \<le> big_one)) \<and>
     (\<forall>a n. BQuoInt64 B a n = int_quo a n) \<and>
     (\<forall>a. BDec B a = a sdiv dec_one)"

section \<open>The laws in the form the proofs use\<close>

lemma BMul_bound: "bigdec_laws B \<Longrightarrow> 2 * \<bar>big_one * BMul B a b - a * b\<bar> \<le> big_one"
  unfolding bigdec_laws_def by blast

lemma BMulDec_bound: "bigdec_laws B \<Longrightarrow> 2 * \<bar>dec_one * BMulDec B a d - a * d\<bar> \<le> dec_one"
  unfolding bigdec_laws_def by blast

lemma BQuo_zero: "bigdec_laws B \<Longrightarrow> BQuo B a 0 = Inl (Panic ''division by zero'')"
  unfolding bigdec_laws_def by blast

lemma BQuo_Inr:
  assumes "bigdec_laws B" "b \<noteq> 0"
  obtains q where "BQuo B a b = Inr q" "2 * \<bar>big_one * q - a * big_one ^ 2 sdiv b\<bar> \<le> big_one"
  using assms unfolding bigdec_laws_def by blast

lemma BQuoInt64_eq: "bigdec_laws B \<Longrightarrow> BQuoInt64 B a n = int_quo a n"
  unfolding bigdec_laws_def by blast

lemma BDec_eq: "bigdec_laws B \<Longrightarrow> BDec B a = a sdiv dec_one"
  unfolding bigdec_laws_def by blast

lemma near_exact:
  fixes p x y :: int
  assumes "2 * \<bar>p * x - p * y\<bar> \<le> p" "0 < p"
  shows "x = y"
proof -
  have "\<bar>p * (x - y)\<bar> < p" using assms by (simp add: right_diff_distrib)
  then have "p * \<bar>x - y\<bar> < p * 1" using assms(2) by (simp add: abs_mult)
  then have "\<bar>x - y\<bar> < 1" using assms(2) mult_less_cancel_left_pos by blast
  then show "x = y" by simp
qed

lemma near_nonneg:
  fixes p x y :: int
  assumes "2 * \<bar>p * x - y\<bar> \<le> p" "0 < p" "0 \<le> y"
  shows "0 \<le> x"
proof (rule ccontr)
  assume "\<not> 0 \<le> x"
  then have "p * x \<le> p * - 1" using assms(2) by (intro mult_left_mono) auto
  with assms show False by (simp add: abs_le_iff)
qed

text \<open>Products that lose no digit are exact: with a decimal converted from \<open>LegacyDec\<close> or from
  an integer.\<close>

lemma BMul_exact: "bigdec_laws B \<Longrightarrow> a * b = big_one * c \<Longrightarrow> BMul B a b = c"
  using BMul_bound [of B a b] near_exact [of big_one "BMul B a b" c] by auto

lemma BMulDec_exact: "bigdec_laws B \<Longrightarrow> a * d = dec_one * c \<Longrightarrow> BMulDec B a d = c"
  using BMulDec_bound [of B a d] near_exact [of dec_one "BMulDec B a d" c] by auto

lemma BMulDec_int: "bigdec_laws B \<Longrightarrow> BMulDec B (BigDecFromSDKInt n) d = n * d * dec_one"
  by (rule BMulDec_exact) (simp_all add: BigDecFromSDKInt_def)

lemma BMul_neg_one: "bigdec_laws B \<Longrightarrow> BMul B a (- big_one) = - a"
  by (rule BMul_exact) simp_all

lemma BMul_nonneg: "bigdec_laws B \<Longrightarrow> 0 \<le> a \<Longrightarrow> 0 \<le> b \<Longrightarrow> 0 \<le> BMul B a b"
  by (rule near_nonneg [OF BMul_bound, of B a b]) simp_all

text \<open>\<open>Dec\<close> of a converted decimal gives it back, and cutting keeps the order against such
  decimals.\<close>

lemma BDec_BigDecFromDec: "bigdec_laws B \<Longrightarrow> BDec B (BigDecFromDec d) = d"
  by (simp add: BDec_eq BigDecFromDec_def signed_divide_int_def abs_mult sgn_mult
      mult_sgn_abs)

lemma sdiv_between:
  assumes "a * dec_one \<le> x" "x \<le> b * dec_one"
  shows "a \<le> x sdiv dec_one \<and> x sdiv dec_one \<le> b"
proof (cases "0 \<le> x")
  case True
  then show ?thesis
    using zdiv_mono1 [OF assms(1), of dec_one] zdiv_mono1 [OF assms(2), of dec_one]
    by (simp add: sdiv_nonneg)
next
  case False
  then have "x sdiv dec_one = - ((- x) div dec_one)"
    by (simp add: signed_divide_int_def sgn_if)
  moreover have "- b * dec_one \<le> - x" "- x \<le> - a * dec_one" using assms by simp_all
  then have "- b \<le> - x div dec_one" "- x div dec_one \<le> - a"
    using zdiv_mono1 [of "- b * dec_one" "- x" dec_one] zdiv_mono1 [of "- x" "- a * dec_one" dec_one]
    by simp_all
  ultimately show ?thesis by linarith
qed

lemma BDec_between:
  "bigdec_laws B \<Longrightarrow> BigDecFromDec a \<le> x \<Longrightarrow> x \<le> BigDecFromDec b \<Longrightarrow> a \<le> BDec B x \<and> BDec B x \<le> b"
  using sdiv_between [of a x b] by (simp add: BDec_eq BigDecFromDec_def)

lemma BDec_nonneg: "bigdec_laws B \<Longrightarrow> 0 \<le> x \<Longrightarrow> 0 \<le> BDec B x"
  by (simp add: BDec_eq sdiv_nonneg)

text \<open>The quotient of two integers is right to its last digit.\<close>

lemma sdiv_scale: "0 \<le> x \<Longrightarrow> 0 < y \<Longrightarrow> x * big_one * big_one ^ 2 sdiv (y * big_one) = x * big_one ^ 2 div (y :: int)"
proof -
  assume "0 \<le> x" "0 < y"
  then have "x * big_one * big_one ^ 2 sdiv (y * big_one) = x * big_one * big_one ^ 2 div (y * big_one)"
    by (intro sdiv_nonneg) simp_all
  also have "\<dots> = x * big_one ^ 2 * big_one div (y * big_one)" by (simp only: ac_simps)
  also have "\<dots> = x * big_one ^ 2 div y" by (rule div_mult_mult2) simp
  finally show ?thesis .
qed

lemma BQuo_ints:
  assumes "bigdec_laws B" "0 \<le> x" "0 < y"
    and "BQuo B (BigDecFromSDKInt x) (BigDecFromSDKInt y) = Inr r"
  shows "x * big_one < y * (r + 1)"
proof -
  have "BigDecFromSDKInt y \<noteq> 0" using assms(3) by (simp add: BigDecFromSDKInt_def)
  then obtain q where q: "BQuo B (BigDecFromSDKInt x) (BigDecFromSDKInt y) = Inr q"
    "2 * \<bar>big_one * q - BigDecFromSDKInt x * big_one ^ 2 sdiv BigDecFromSDKInt y\<bar> \<le> big_one"
    by (rule BQuo_Inr [OF assms(1)])
  define Q where "Q = x * big_one ^ 2 div y"
  have "BigDecFromSDKInt x * big_one ^ 2 sdiv BigDecFromSDKInt y = Q"
    unfolding BigDecFromSDKInt_def Q_def by (rule sdiv_scale [OF assms(2,3)])
  then have "2 * \<bar>big_one * r - Q\<bar> \<le> big_one" using q assms(4) by simp
  then have "Q + 1 \<le> big_one * (r + 1)" by (simp add: abs_le_iff)
  have "x * big_one ^ 2 = y * Q + x * big_one ^ 2 mod y" unfolding Q_def by (rule mult_div_mod_eq [symmetric])
  moreover have "x * big_one ^ 2 mod y < y" using assms(3) by simp
  ultimately have "x * big_one ^ 2 < y * (Q + 1)" by (simp only: distrib_left)
  also have "\<dots> \<le> y * (big_one * (r + 1))"
    using \<open>Q + 1 \<le> _\<close> assms(3) by (intro mult_left_mono) simp_all
  finally have "big_one * (x * big_one) < big_one * (y * (r + 1))" by (simp only: power2_eq_square ac_simps)
  then show ?thesis by (simp only: mult_less_cancel_left_pos [of big_one])
qed

section \<open>A concrete instance\<close>

definition near_pos :: "int \<Rightarrow> int \<Rightarrow> int" where
  "near_pos p x = (let q = x div p; r = x mod p in if 2 * r < p then q else q + 1)"

definition near :: "int \<Rightarrow> int \<Rightarrow> int" where
  "near p x = (if x < 0 then - near_pos p (- x) else near_pos p x)"

definition std_bigdec :: bigdec_ops where
  "std_bigdec =
     \<lparr>BMul = (\<lambda>a b. near big_one (a * b)),
      BMulDec = (\<lambda>a d. near dec_one (a * d)),
      BQuo = (\<lambda>a b. if b = 0 then Inl (Panic ''division by zero'')
                     else Inr (near big_one (a * big_one ^ 2 sdiv b))),
      BQuoInt64 = int_quo,
      BDec = (\<lambda>a. a sdiv dec_one)\<rparr>"

lemma near_pos_bound:
  assumes "0 < p"
  shows "2 * \<bar>p * near_pos p x - x\<bar> \<le> p"
proof -
  have x: "x = p * (x div p) + x mod p" by simp
  have r: "0 \<le> x mod p" "x mod p < p" using assms by simp_all
  show ?thesis
  proof (cases "2 * (x mod p) < p")
    case True
    then have "p * near_pos p x = p * (x div p)" by (simp add: near_pos_def Let_def)
    then have "p * near_pos p x - x = - (x mod p)" using x by linarith
    then show ?thesis using True r by simp
  next
    case False
    then have "p * near_pos p x = p * (x div p) + p" by (simp add: near_pos_def Let_def distrib_left)
    then have "p * near_pos p x - x = p - x mod p" using x by linarith
    then show ?thesis using False r by simp
  qed
qed

lemma near_bound: "0 < p \<Longrightarrow> 2 * \<bar>p * near p x - x\<bar> \<le> p"
  using near_pos_bound [of p x] near_pos_bound [of p "- x"] abs_minus_commute [of "- (p * near_pos p (- x))" x]
  by (simp add: near_def) (smt (verit) abs_minus_cancel)

lemma std_bigdec_laws: "bigdec_laws std_bigdec"
  unfolding bigdec_laws_def std_bigdec_def
  using near_bound [of big_one] near_bound [of dec_one] by simp

end
