(* ===== verification/StableStake.thy ===== *)
theory StableStake
  imports CommitmentClaims BigDec "HOL-Library.Product_Lexorder"
begin

text \<open>
  The lending pools of the stablestake module (x/stablestake): users bond a deposit
  denomination for shares, other modules borrow it against interest. This theory holds the
  data and the store (\<open>types/\<close>, \<open>keeper/pool.go\<close>, \<open>keeper/amm_pool.go\<close>,
  \<open>keeper/params.go\<close> and the store part of \<open>keeper/debt.go\<close>).
\<close>

section \<open>Data\<close>

record Pool =
  po_DepositDenom :: string
  po_InterestRate :: int
  po_InterestRateMax :: int
  po_InterestRateMin :: int
  po_InterestRateIncrease :: int
  po_InterestRateDecrease :: int
  po_HealthGainFactor :: int
  po_NetAmount :: int
  po_MaxLeverageRatio :: int
  po_MaxWithdrawRatio :: int
  po_Id :: int

record Debt =
  de_Address :: string
  de_Borrowed :: int
  de_InterestPaid :: int
  de_InterestStacked :: int
  de_BorrowTime :: int
  de_LastInterestCalcTime :: int
  de_LastInterestCalcBlock :: int
  de_PoolId :: int

record InterestBlock =
  ib_InterestRate :: int
  ib_BlockTime :: int
  ib_BlockHeight :: int
  ib_PoolId :: int

record AmmPool =
  ap_Id :: int
  ap_TotalLiabilities :: coins

record ss_Params =
  sp_LegacyDepositDenom :: string
  sp_LegacyRedemptionRate :: int
  sp_EpochLength :: int
  sp_LegacyInterestRate :: int
  sp_LegacyInterestRateMax :: int
  sp_LegacyInterestRateMin :: int
  sp_LegacyInterestRateIncrease :: int
  sp_LegacyInterestRateDecrease :: int
  sp_LegacyHealthGainFactor :: int
  sp_TotalValue :: int
  sp_LegacyMaxLeverageRatio :: int
  sp_LegacyMaxWithdrawRatio :: int

definition GetTotalLiablities :: "Debt \<Rightarrow> int" where
  "GetTotalLiablities debt = de_Borrowed debt + de_InterestStacked debt - de_InterestPaid debt"

definition UsdcPoolId :: int where
  "UsdcPoolId = 32767"

definition ss_ModuleName :: string where
  "ss_ModuleName = ''stablestake''"

definition ss_ErrInvalidBorrowDenom :: err where
  "ss_ErrInvalidBorrowDenom = Sentinel ''stablestake'' 2"
definition ss_ErrNegativeBorrowed :: err where
  "ss_ErrNegativeBorrowed = Sentinel ''stablestake'' 4"
definition ss_ErrMaxBorrowAmount :: err where
  "ss_ErrMaxBorrowAmount = Sentinel ''stablestake'' 5"
definition ss_ErrInvalidParams :: err where
  "ss_ErrInvalidParams = Sentinel ''stablestake'' 6"
definition ss_ErrInvalidWithdraw :: err where
  "ss_ErrInvalidWithdraw = Sentinel ''stablestake'' 7"
definition ss_ErrPoolNotFound :: err where
  "ss_ErrPoolNotFound = Sentinel ''stablestake'' 8"
definition ss_ErrPoolAlreadyExists :: err where
  "ss_ErrPoolAlreadyExists = Sentinel ''stablestake'' 9"

lemmas ss_errors = ss_ErrInvalidBorrowDenom_def ss_ErrNegativeBorrowed_def ss_ErrMaxBorrowAmount_def
  ss_ErrInvalidParams_def ss_ErrInvalidWithdraw_def ss_ErrPoolNotFound_def ss_ErrPoolAlreadyExists_def

section \<open>The store\<close>

text \<open>The bytes of a debt's key are the length of the owner, the owner and the pool's id; of an
  interest's, the pool's id and the height, all in big endian: their order is that of the tuples.\<close>

type_synonym debt_key = "nat \<times> addr \<times> int"

definition GetDebtKey :: "addr \<Rightarrow> int \<Rightarrow> debt_key" where
  "GetDebtKey owner poolId = (length owner, owner, poolId)"

text \<open>The module's store, with the state of the commitment module, whose \<open>cs_ext\<close> holds the
  bank's ledger and the other modules' stores.\<close>

record 'e sstate =
  ss_debts :: "(debt_key, Debt) kvs"
  ss_interest :: "(int \<times> int, InterestBlock) kvs"
  ss_params :: "ss_Params option"
  ss_amm :: "(int, AmmPool) kvs"
  ss_pools :: "(int, Pool) kvs"
  ss_commit :: "'e cstate"

text \<open>The hooks of other modules, and the keepers the module is given: the commitment keeper,
  the part of the bank it uses beyond that keeper's, asset profile, amm, leveragelp and oracle.\<close>

record 's stable_hooks =
  sh_AfterBond :: "addr \<Rightarrow> int \<Rightarrow> int \<Rightarrow> 's \<Rightarrow> 's result"
  sh_AfterUnbond :: "addr \<Rightarrow> int \<Rightarrow> int \<Rightarrow> 's \<Rightarrow> 's result"

definition MultiStableStakeHooks :: "'s stable_hooks list \<Rightarrow> 's stable_hooks" where
  "MultiStableStakeHooks mh =
     \<lparr>sh_AfterBond = (\<lambda>a n p. run_hooks (map (\<lambda>h. sh_AfterBond h a n p) mh)),
      sh_AfterUnbond = (\<lambda>a n p. run_hooks (map (\<lambda>h. sh_AfterUnbond h a n p) mh))\<rparr>"

record 'e skeeper =
  sk_commitment :: "'e keeper"
  sk_big :: bigdec_ops
  sk_GetSupply :: "string \<Rightarrow> 'e \<Rightarrow> int"
  sk_SetEntry :: "Entry \<Rightarrow> 'e \<Rightarrow> 'e"
  sk_GetEntryByDenom :: "'e \<Rightarrow> string \<Rightarrow> Entry option"
  sk_IsCreatorAllowed :: "'e \<Rightarrow> string \<Rightarrow> bool"
  sk_GetEnabledPoolIds :: "'e \<Rightarrow> int list"
  sk_PoolAssets :: "'e \<Rightarrow> int \<Rightarrow> coin list"
  sk_GetDenomPrice :: "'e \<Rightarrow> string \<Rightarrow> int"
  sk_hooks :: "'e sstate stable_hooks option"
  sk_authority :: string

abbreviation sk_sdk :: "'e skeeper \<Rightarrow> sdk" where
  "sk_sdk k \<equiv> k_sdk (sk_commitment k)"

abbreviation sk_bank :: "'e skeeper \<Rightarrow> 'e bank" where
  "sk_bank k \<equiv> k_bank (sk_commitment k)"

abbreviation ss_ext :: "'e sstate \<Rightarrow> 'e" where
  "ss_ext s \<equiv> cs_ext (ss_commit s)"

text \<open>A call of the bank, and of the commitment keeper.\<close>

definition ss_commit_call ::
    "('e cstate \<Rightarrow> 'e cstate result) \<Rightarrow> 'e sstate \<Rightarrow> 'e sstate result" where
  "ss_commit_call f s = rbind (f (ss_commit s)) (\<lambda>c. Inr (s\<lparr>ss_commit := c\<rparr>))"

definition ss_bank_call :: "('e \<Rightarrow> 'e result) \<Rightarrow> 'e sstate \<Rightarrow> 'e sstate result" where
  "ss_bank_call f s = ss_commit_call (bank_call f) s"

definition module_balance :: "'e skeeper \<Rightarrow> 'e sstate \<Rightarrow> string \<Rightarrow> int" where
  "module_balance k s denom =
     BkBalance (sk_bank k) (NewModuleAddress (sk_sdk k) ss_ModuleName) denom (ss_ext s)"

section \<open>Parameters and pools\<close>

definition ss_zero_params :: ss_Params where
  "ss_zero_params =
     \<lparr>sp_LegacyDepositDenom = [], sp_LegacyRedemptionRate = 0, sp_EpochLength = 0,
      sp_LegacyInterestRate = 0, sp_LegacyInterestRateMax = 0, sp_LegacyInterestRateMin = 0,
      sp_LegacyInterestRateIncrease = 0, sp_LegacyInterestRateDecrease = 0,
      sp_LegacyHealthGainFactor = 0, sp_TotalValue = 0, sp_LegacyMaxLeverageRatio = 0,
      sp_LegacyMaxWithdrawRatio = 0\<rparr>"

definition ss_GetParams :: "'e sstate \<Rightarrow> ss_Params" where
  "ss_GetParams s = (case ss_params s of None \<Rightarrow> ss_zero_params | Some p \<Rightarrow> p)"

definition ss_SetParams :: "ss_Params \<Rightarrow> 'e sstate \<Rightarrow> 'e sstate" where
  "ss_SetParams p s = s\<lparr>ss_params := Some p\<rparr>"

definition GetLegacyDepositDenom :: "'e skeeper \<Rightarrow> 'e sstate \<Rightarrow> string" where
  "GetLegacyDepositDenom k s =
     (let params = ss_GetParams s
      in case k_GetEntry (sk_commitment k) (ss_ext s) (sp_LegacyDepositDenom params) of
           None \<Rightarrow> sp_LegacyDepositDenom params
         | Some entry \<Rightarrow> en_Denom entry)"

definition GetAllPools :: "'e sstate \<Rightarrow> Pool list" where
  "GetAllPools s = map snd (ss_pools s)"

definition GetPool :: "'e sstate \<Rightarrow> int \<Rightarrow> Pool option" where
  "GetPool s poolId = kv_get (ss_pools s) poolId"

definition SetPool :: "Pool \<Rightarrow> 'e sstate \<Rightarrow> 'e sstate" where
  "SetPool pool s = s\<lparr>ss_pools := kv_set (po_Id pool) pool (ss_pools s)\<rparr>"

definition DeletePool :: "int \<Rightarrow> 'e sstate \<Rightarrow> 'e sstate" where
  "DeletePool poolId s = s\<lparr>ss_pools := kv_del poolId (ss_pools s)\<rparr>"

definition GetPoolByDenom :: "'e sstate \<Rightarrow> string \<Rightarrow> Pool option" where
  "GetPoolByDenom s denom = find (\<lambda>pool. po_DepositDenom pool = denom) (GetAllPools s)"

definition HasPoolByDenom :: "'e sstate \<Rightarrow> string \<Rightarrow> bool" where
  "HasPoolByDenom s depositDenom = list_ex (\<lambda>pool. po_DepositDenom pool = depositDenom) (GetAllPools s)"

text \<open>The reverse iterator starts at the greatest key.\<close>

definition GetLatestPool :: "'e sstate \<Rightarrow> Pool option" where
  "GetLatestPool s = (if ss_pools s = [] then None else Some (snd (last (ss_pools s))))"

definition GetNextPoolId :: "'e sstate \<Rightarrow> int" where
  "GetNextPoolId s = (case GetLatestPool s of None \<Rightarrow> UsdcPoolId | Some latestPool \<Rightarrow> u64 (po_Id latestPool + 1))"

text \<open>\<open>IterateLiquidityPools\<close> with a handler over an accumulated value.\<close>

fun iterate_pools :: "(Pool \<Rightarrow> 'a \<Rightarrow> bool \<times> 'a) \<Rightarrow> Pool list \<Rightarrow> 'a \<Rightarrow> 'a" where
  "iterate_pools handlerFn [] acc = acc"
| "iterate_pools handlerFn (pool # ps) acc =
     (let (stop, acc') = handlerFn pool acc in if stop then acc' else iterate_pools handlerFn ps acc')"

definition GetMaxBondableAmount :: "'e skeeper \<Rightarrow> 'e sstate \<Rightarrow> string \<Rightarrow> int" where
  "GetMaxBondableAmount k s asset =
     sum_list (map (\<lambda>poolId. sum_list (map (\<lambda>c. if Denom c = asset then Amount c else 0)
         (sk_PoolAssets k (ss_ext s) poolId))) (sk_GetEnabledPoolIds k (ss_ext s)))"

section \<open>Liabilities of the AMM pools\<close>

definition GetAmmPool :: "'e sstate \<Rightarrow> int \<Rightarrow> AmmPool" where
  "GetAmmPool s i =
     (case kv_get (ss_amm s) i of
        None \<Rightarrow> \<lparr>ap_Id = i, ap_TotalLiabilities = []\<rparr>
      | Some val \<Rightarrow> val)"

definition GetAllAmmPools :: "'e sstate \<Rightarrow> AmmPool list" where
  "GetAllAmmPools s = map snd (ss_amm s)"

definition SetAmmPool :: "AmmPool \<Rightarrow> 'e sstate \<Rightarrow> 'e sstate" where
  "SetAmmPool pool s = s\<lparr>ss_amm := kv_set (ap_Id pool) pool (ss_amm s)\<rparr>"

definition AddLiabilities :: "sdk \<Rightarrow> coin \<Rightarrow> AmmPool \<Rightarrow> AmmPool" where
  "AddLiabilities S coin p = p\<lparr>ap_TotalLiabilities := CoinsAdd S (ap_TotalLiabilities p) [coin]\<rparr>"

definition SubLiabilities :: "sdk \<Rightarrow> coin \<Rightarrow> AmmPool \<Rightarrow> AmmPool result" where
  "SubLiabilities S coin p =
     rbind (CoinsSub S (ap_TotalLiabilities p) [coin]) (\<lambda>cs. Inr (p\<lparr>ap_TotalLiabilities := cs\<rparr>))"

definition AddPoolLiabilities :: "'e skeeper \<Rightarrow> int \<Rightarrow> coin \<Rightarrow> 'e sstate \<Rightarrow> 'e sstate" where
  "AddPoolLiabilities k i coin s = SetAmmPool (AddLiabilities (sk_sdk k) coin (GetAmmPool s i)) s"

definition SubtractPoolLiabilities :: "'e skeeper \<Rightarrow> int \<Rightarrow> coin \<Rightarrow> 'e sstate \<Rightarrow> 'e sstate result" where
  "SubtractPoolLiabilities k i coin s =
     rbind (SubLiabilities (sk_sdk k) coin (GetAmmPool s i)) (\<lambda>p. Inr (SetAmmPool p s))"

end
