(* ===== verification/StableDebt.thy ===== *)
theory StableDebt
  imports StableStake
begin

text \<open>
  Debts and interest of the lending pools (x/stablestake/keeper: \<open>debt.go\<close>,
  \<open>interest_rate.go\<close>, \<open>begin_blocker.go\<close>).
\<close>

section \<open>Debts in the store\<close>

definition getDebt :: "'e skeeper \<Rightarrow> block_ctx \<Rightarrow> 'e sstate \<Rightarrow> addr \<Rightarrow> int \<Rightarrow> Debt" where
  "getDebt k ctx s addr poolId =
     (case kv_get (ss_debts s) (GetDebtKey addr poolId) of
        None \<Rightarrow> \<lparr>de_Address = AccAddressString (sk_sdk k) addr, de_Borrowed = 0, de_InterestPaid = 0,
                 de_InterestStacked = 0, de_BorrowTime = u64 (Unix (BlockTime ctx)),
                 de_LastInterestCalcTime = u64 (Unix (BlockTime ctx)),
                 de_LastInterestCalcBlock = u64 (BlockHeight ctx), de_PoolId = poolId\<rparr>
      | Some debt \<Rightarrow> debt)"

definition SetDebt :: "'e skeeper \<Rightarrow> Debt \<Rightarrow> 'e sstate \<Rightarrow> 'e sstate result" where
  "SetDebt k debt s =
     rbind (MustAccAddress (sk_sdk k) (de_Address debt)) (\<lambda>owner.
       Inr (s\<lparr>ss_debts := kv_set (GetDebtKey owner (de_PoolId debt)) debt (ss_debts s)\<rparr>))"

definition DeleteDebt :: "'e skeeper \<Rightarrow> Debt \<Rightarrow> 'e sstate \<Rightarrow> 'e sstate result" where
  "DeleteDebt k debt s =
     rbind (MustAccAddress (sk_sdk k) (de_Address debt)) (\<lambda>owner.
       Inr (s\<lparr>ss_debts := kv_del (GetDebtKey owner (de_PoolId debt)) (ss_debts s)\<rparr>))"

definition GetAllDebts :: "'e sstate \<Rightarrow> Debt list" where
  "GetAllDebts s = map snd (ss_debts s)"

section \<open>The interest of every block\<close>

text \<open>The entry of a block cumulates the rates of the consecutive blocks up to it.\<close>

definition SetInterestForPool :: "InterestBlock \<Rightarrow> 'e sstate \<Rightarrow> 'e sstate" where
  "SetInterestForPool interest s =
     (let put = (\<lambda>i. s\<lparr>ss_interest := kv_set (ib_PoolId interest, ib_BlockHeight interest) i (ss_interest s)\<rparr>)
      in case kv_get (ss_interest s) (ib_PoolId interest, u64 (ib_BlockHeight interest - 1)) of
           Some lastBlock \<Rightarrow> put (interest\<lparr>ib_InterestRate := ib_InterestRate interest + ib_InterestRate lastBlock\<rparr>)
         | None \<Rightarrow> put interest)"

definition DeleteInterestForPool :: "int \<Rightarrow> int \<Rightarrow> 'e sstate \<Rightarrow> 'e sstate" where
  "DeleteInterestForPool delBlock poolId s =
     s\<lparr>ss_interest := kv_del (poolId, u64 delBlock) (ss_interest s)\<rparr>"

text \<open>The blocks of one pool in the order of their heights, with the repair of a height that was
  never set.\<close>

definition GetAllInterestForPool :: "'e sstate \<Rightarrow> int \<Rightarrow> InterestBlock list" where
  "GetAllInterestForPool s poolId =
     map (\<lambda>((p, h), i). if ib_BlockHeight i = 0 then i\<lparr>ib_BlockHeight := h\<rparr> else i)
       (filter (\<lambda>((p, h), i). p = poolId) (ss_interest s))"

definition GetInterestAtHeight :: "'e sstate \<Rightarrow> int \<Rightarrow> int \<Rightarrow> InterestBlock" where
  "GetInterestAtHeight s height poolId =
     (case kv_get (ss_interest s) (poolId, height) of
        Some interest \<Rightarrow> interest
      | None \<Rightarrow> \<lparr>ib_InterestRate = 0, ib_BlockTime = 0, ib_BlockHeight = 0, ib_PoolId = 0\<rparr>)"

text \<open>The key of the first block stored for a pool, 0 when there is none.\<close>

definition first_stored :: "'e sstate \<Rightarrow> int \<Rightarrow> int" where
  "first_stored s poolId =
     (case filter (\<lambda>((p, h), i). p = poolId) (ss_interest s) of
        [] \<Rightarrow> 0
      | ((p, h), i) # _ \<Rightarrow> h)"

text \<open>\<open>Mul(rate).MulInt64(seconds).QuoInt64(blocks).QuoInt64(86400 * 365).Dec().RoundInt()\<close>, and
  the same without the blocks.\<close>

definition year_interest :: "'e skeeper \<Rightarrow> int \<Rightarrow> int result" where
  "year_interest k x =
     rbind (BQuoInt64 (sk_big k) x 31536000) (\<lambda>y.
       Inr (DRoundInt (k_dec (sk_commitment k)) (BDec (sk_big k) y)))"

definition GetInterestForPool ::
    "'e skeeper \<Rightarrow> block_ctx \<Rightarrow> 'e sstate \<Rightarrow> int \<Rightarrow> int \<Rightarrow> int \<Rightarrow> int \<Rightarrow> int result" where
  "GetInterestForPool k ctx s startBlock startTime borrowed poolId =
     (let B = sk_big k;
          height = u64 (BlockHeight ctx);
          seconds = i64 (Unix (BlockTime ctx) - i64 startTime);
          fallback = (case GetPool s poolId of
              None \<Rightarrow> Inr 0
            | Some pool \<Rightarrow> year_interest k (BMul B borrowed (BigDecFromDec (po_InterestRate pool)) * seconds))
      in if startBlock = height then Inr 0
         else case kv_get (ss_interest s) (poolId, height) of
             None \<Rightarrow> fallback
           | Some endInterestBlock \<Rightarrow>
               (case kv_get (ss_interest s) (poolId, startBlock) of
                  Some startInterestBlock \<Rightarrow>
                    let totalInterestRate = BigDecFromDec (ib_InterestRate endInterestBlock) -
                          BigDecFromDec (ib_InterestRate startInterestBlock);
                        numberOfBlocks = i64 (BlockHeight ctx - i64 startBlock)
                    in rbind (BQuoInt64 B (BMul B borrowed totalInterestRate * seconds) numberOfBlocks) (year_interest k)
                | None \<Rightarrow>
                    if first_stored s poolId > startBlock
                    then let totalInterest = BigDecFromDec (ib_InterestRate endInterestBlock);
                             numberOfBlocks = i64 (i64 (BlockHeight ctx - i64 startBlock) + 1)
                         in rbind (BQuoInt64 B (BMul B borrowed totalInterest * seconds) numberOfBlocks) (year_interest k)
                    else fallback))"

definition GetDebt :: "'e skeeper \<Rightarrow> block_ctx \<Rightarrow> 'e sstate \<Rightarrow> addr \<Rightarrow> int \<Rightarrow> Debt result" where
  "GetDebt k ctx s addr poolId =
     (let debt = getDebt k ctx s addr poolId
      in rbind (GetInterestForPool k ctx s (de_LastInterestCalcBlock debt) (de_LastInterestCalcTime debt)
                 (BigDecFromSDKInt (de_Borrowed debt)) (de_PoolId debt)) (\<lambda>newInterest.
         Inr (debt\<lparr>de_InterestStacked := de_InterestStacked debt + newInterest,
                   de_LastInterestCalcTime := u64 (Unix (BlockTime ctx)),
                   de_LastInterestCalcBlock := u64 (BlockHeight ctx)\<rparr>)))"

section \<open>Stacking interest, borrowing and repaying\<close>

definition UpdateInterestStacked ::
    "'e skeeper \<Rightarrow> block_ctx \<Rightarrow> Debt \<Rightarrow> int \<Rightarrow> 'e sstate \<Rightarrow> ('e sstate \<times> Debt) result" where
  "UpdateInterestStacked k ctx debt borrowingForPool s =
     (case GetPool s (de_PoolId debt) of
        None \<Rightarrow> Inr (s, debt)
      | Some pool \<Rightarrow>
          rbind (GetInterestForPool k ctx s (de_LastInterestCalcBlock debt) (de_LastInterestCalcTime debt)
                   (BigDecFromSDKInt (de_Borrowed debt)) (de_PoolId debt)) (\<lambda>newInterest.
          let debt' = debt\<lparr>de_InterestStacked := de_InterestStacked debt + newInterest,
                de_LastInterestCalcTime := u64 (Unix (BlockTime ctx)),
                de_LastInterestCalcBlock := u64 (BlockHeight ctx)\<rparr>
          in rbind (SetDebt k debt' s) (\<lambda>s1.
             rbind (NewCoin (sk_sdk k) (po_DepositDenom pool) newInterest) (\<lambda>coin.
             let s2 = AddPoolLiabilities k borrowingForPool coin s1
             in Inr (SetPool (pool\<lparr>po_NetAmount := po_NetAmount pool + newInterest\<rparr>) s2, debt')))))"

definition UpdateInterestAndGetDebt ::
    "'e skeeper \<Rightarrow> block_ctx \<Rightarrow> addr \<Rightarrow> int \<Rightarrow> int \<Rightarrow> 'e sstate \<Rightarrow> ('e sstate \<times> Debt) result" where
  "UpdateInterestAndGetDebt k ctx addr poolId borrowingForPool s =
     UpdateInterestStacked k ctx (getDebt k ctx s addr poolId) borrowingForPool s"

definition Borrow ::
    "'e skeeper \<Rightarrow> block_ctx \<Rightarrow> addr \<Rightarrow> coin \<Rightarrow> int \<Rightarrow> int \<Rightarrow> 'e sstate \<Rightarrow> 'e sstate result" where
  "Borrow k ctx addr amount poolId borrowingForPool s =
     (case GetPool s poolId of
        None \<Rightarrow> Inl ss_ErrPoolNotFound
      | Some pool \<Rightarrow>
          if po_DepositDenom pool \<noteq> Denom amount then Inl ss_ErrInvalidBorrowDenom
          else let balance = module_balance k s (po_DepositDenom pool);
                   borrowed = BigDecFromSDKInt (po_NetAmount pool - balance + Amount amount);
                   maxAllowed = BMulDec (sk_big k) (BigDecFromSDKInt (po_NetAmount pool)) (po_MaxLeverageRatio pool)
            in if borrowed > maxAllowed then Inl ss_ErrMaxBorrowAmount
               else rbind (UpdateInterestAndGetDebt k ctx addr poolId borrowingForPool s) (\<lambda>(s1, debt).
                    rbind (SetDebt k (debt\<lparr>de_Borrowed := de_Borrowed debt + Amount amount\<rparr>) s1) (\<lambda>s2.
                    ss_bank_call (BkModToAcc (sk_bank k) ss_ModuleName addr [amount])
                      (AddPoolLiabilities k borrowingForPool amount s2))))"

definition Repay ::
    "'e skeeper \<Rightarrow> block_ctx \<Rightarrow> addr \<Rightarrow> coin \<Rightarrow> int \<Rightarrow> int \<Rightarrow> 'e sstate \<Rightarrow> 'e sstate result" where
  "Repay k ctx addr amount poolId repayingForPool s =
     (case GetPool s poolId of
        None \<Rightarrow> Inl ss_ErrPoolNotFound
      | Some pool \<Rightarrow>
          if po_DepositDenom pool \<noteq> Denom amount then Inl ss_ErrInvalidBorrowDenom
          else rbind (ss_bank_call (BkAccToMod (sk_bank k) addr ss_ModuleName [amount]) s) (\<lambda>s1.
               rbind (UpdateInterestAndGetDebt k ctx addr poolId repayingForPool s1) (\<lambda>(s2, debt).
               let interestPayAmount = min (de_InterestStacked debt - de_InterestPaid debt) (Amount amount);
                   repayAmount = Amount amount - interestPayAmount;
                   debt' = debt\<lparr>de_Borrowed := de_Borrowed debt - repayAmount,
                     de_InterestPaid := de_InterestPaid debt + interestPayAmount\<rparr>
               in if de_Borrowed debt' < 0 then Inl ss_ErrNegativeBorrowed
                  else rbind (SubtractPoolLiabilities k repayingForPool amount s2) (\<lambda>s3.
                       if de_Borrowed debt' = 0 then DeleteDebt k debt' s3 else SetDebt k debt' s3))))"

definition CloseOnUnableToRepay ::
    "'e skeeper \<Rightarrow> block_ctx \<Rightarrow> addr \<Rightarrow> int \<Rightarrow> int \<Rightarrow> 'e sstate \<Rightarrow> 'e sstate result" where
  "CloseOnUnableToRepay k ctx addr poolId unableToPayForPool s =
     rbind (UpdateInterestAndGetDebt k ctx addr poolId unableToPayForPool s) (\<lambda>(s1, debt).
     rbind (DeleteDebt k debt s1) (\<lambda>s2.
     case GetPool s2 poolId of
       None \<Rightarrow> Inl ss_ErrPoolNotFound
     | Some pool \<Rightarrow>
         rbind (NewCoin (sk_sdk k) (po_DepositDenom pool) (GetTotalLiablities debt)) (\<lambda>coin.
         SubtractPoolLiabilities k unableToPayForPool coin s2)))"

section \<open>The interest rate\<close>

definition InterestRateComputationForPool :: "'e skeeper \<Rightarrow> 'e sstate \<Rightarrow> Pool \<Rightarrow> int result" where
  "InterestRateComputationForPool k s pool =
     (let B = sk_big k;
          interestRateMax = BigDecFromDec (po_InterestRateMax pool);
          interestRateMin = BigDecFromDec (po_InterestRateMin pool);
          interestRateIncrease = BigDecFromDec (po_InterestRateIncrease pool);
          interestRateDecrease = BigDecFromDec (po_InterestRateDecrease pool);
          healthGainFactor = BigDecFromDec (po_HealthGainFactor pool);
          prevInterestRate = BigDecFromDec (po_InterestRate pool)
      in if po_NetAmount pool = 0 then Inr prevInterestRate
         else let balance = module_balance k s (po_DepositDenom pool)
           in rbind (if 0 < po_NetAmount pool
                     then BQuo B (BigDecFromSDKInt (po_NetAmount pool - balance)) (BigDecFromSDKInt (po_NetAmount pool))
                     else Inr 0) (\<lambda>borrowRatio0.
              let maxAllowed0 = BMul B (BigDecFromDec (po_MaxLeverageRatio pool)) healthGainFactor;
                  borrowRatio1 = (if borrowRatio0 > maxAllowed0 then maxAllowed0 else borrowRatio0);
                  borrowRatio = (if maxAllowed0 = 0 then 0 else borrowRatio1);
                  maxAllowed = (if maxAllowed0 = 0 then big_one else maxAllowed0)
              in rbind (BQuo B borrowRatio maxAllowed) (\<lambda>usage.
                 let targetInterestRate = interestRateMin + BMul B usage (interestRateMax - interestRateMin);
                     interestRateChange = targetInterestRate - prevInterestRate;
                     maxFall = BMul B interestRateDecrease (- big_one);
                     interestRate =
                       (if interestRateChange \<ge> maxFall \<and> interestRateChange \<le> interestRateIncrease
                        then targetInterestRate
                        else if interestRateChange > interestRateIncrease
                        then prevInterestRate + interestRateIncrease
                        else if interestRateChange < maxFall
                        then prevInterestRate - interestRateDecrease
                        else prevInterestRate)
                 in Inr (if interestRate > interestRateMin \<and> interestRate < interestRateMax then interestRate
                         else if interestRate \<le> interestRateMin then interestRateMin
                         else if interestRate \<ge> interestRateMax then interestRateMax
                         else interestRate))))"

section \<open>The begin blocker\<close>

fun update_interest :: "'e skeeper \<Rightarrow> block_ctx \<Rightarrow> Pool list \<Rightarrow> 'e sstate \<Rightarrow> 'e sstate result" where
  "update_interest k ctx [] s = Inr s"
| "update_interest k ctx (pool # ps) s =
     rbind (InterestRateComputationForPool k s pool) (\<lambda>rate.
       let pool' = pool\<lparr>po_InterestRate := BDec (sk_big k) rate\<rparr>
       in update_interest k ctx ps
            (SetInterestForPool \<lparr>ib_InterestRate = po_InterestRate pool', ib_BlockTime = Unix (BlockTime ctx),
               ib_BlockHeight = u64 (BlockHeight ctx), ib_PoolId = po_Id pool'\<rparr> (SetPool pool' s)))"

definition UpdateInterestForAllPools :: "'e skeeper \<Rightarrow> block_ctx \<Rightarrow> 'e sstate \<Rightarrow> 'e sstate result" where
  "UpdateInterestForAllPools k ctx s = update_interest k ctx (GetAllPools s) s"

definition numBlocks :: int where
  "numBlocks = 15768000"

definition ss_BeginBlocker :: "'e skeeper \<Rightarrow> block_ctx \<Rightarrow> 'e sstate \<Rightarrow> 'e sstate result" where
  "ss_BeginBlocker k ctx s =
     rbind (UpdateInterestForAllPools k ctx s) (\<lambda>s1.
       Inr (if numBlocks < BlockHeight ctx
            then fold (\<lambda>pool. DeleteInterestForPool (BlockHeight ctx - numBlocks) (po_Id pool)) (GetAllPools s1) s1
            else s1))"

end
