(* ===== verification/StableMsgs.thy ===== *)
theory StableMsgs
  imports StableDebt
begin

text \<open>
  The messages of the stablestake module (x/stablestake/keeper: \<open>msg_server_*.go\<close>), the
  shares they mint and burn (\<open>types/share_denom.go\<close>, \<open>CalculateRedemptionRateForPool\<close>), basic
  validation, genesis and queries. A decimal of a message is never nil: a nil one is refused by
  its \<open>ValidateBasic\<close>.
\<close>

section \<open>The share denomination of a pool\<close>

text \<open>\<open>strconv.FormatUint(n, 10)\<close>, \<open>strings.Split(s, "/")\<close> and \<open>strconv.ParseUint(s, 10, 64)\<close>.\<close>

fun FormatNat :: "nat \<Rightarrow> string" where
  "FormatNat n = (if n < 10 then [''0123456789'' ! n]
     else FormatNat (n div 10) @ [''0123456789'' ! (n mod 10)])"

declare FormatNat.simps [simp del]

fun split_slash :: "string \<Rightarrow> string list" where
  "split_slash [] = [[]]"
| "split_slash (c # s) =
     (if c = CHR ''/'' then [] # split_slash s
      else case split_slash s of [] \<Rightarrow> [[c]] | w # ws \<Rightarrow> (c # w) # ws)"

definition digit_value :: "char \<Rightarrow> int option" where
  "digit_value c =
     (let n = of_char c :: int in if 48 \<le> n \<and> n \<le> 57 then Some (n - 48) else None)"

fun parse_digits :: "int \<Rightarrow> string \<Rightarrow> int option" where
  "parse_digits acc [] = Some acc"
| "parse_digits acc (c # s) =
     (case digit_value c of None \<Rightarrow> None | Some d \<Rightarrow> parse_digits (10 * acc + d) s)"

definition ParseUint :: "string \<Rightarrow> int option" where
  "ParseUint s =
     (if s = [] then None
      else case parse_digits 0 s of None \<Rightarrow> None | Some n \<Rightarrow> if n < 2 ^ 64 then Some n else None)"

definition GetShareDenomForPool :: "int \<Rightarrow> string" where
  "GetShareDenomForPool poolId =
     (if poolId = UsdcPoolId then ''stablestake/share''
      else ''stablestake/share/pool/'' @ FormatNat (nat poolId))"

definition GetPoolIDFromPath :: "string \<Rightarrow> int result" where
  "GetPoolIDFromPath path =
     (if path = ''stablestake/share'' then Inr UsdcPoolId
      else let parts = split_slash path
        in if length parts \<noteq> 4 \<or> parts ! 0 \<noteq> ''stablestake'' \<or> parts ! 1 \<noteq> ''share'' \<or> parts ! 2 \<noteq> ''pool''
           then Inl (Plain ''invalid path format'')
           else case ParseUint (parts ! 3) of
               None \<Rightarrow> Inl (Plain ''invalid pool ID'')
             | Some poolID \<Rightarrow> Inr poolID)"

definition CalculateRedemptionRateForPool :: "'e skeeper \<Rightarrow> 'e sstate \<Rightarrow> Pool \<Rightarrow> int result" where
  "CalculateRedemptionRateForPool k s pool =
     (let totalShares = sk_GetSupply k (GetShareDenomForPool (po_Id pool)) (ss_ext s)
      in if totalShares = 0 then Inr 0
         else BQuo (sk_big k) (BigDecFromSDKInt (po_NetAmount pool)) (BigDecFromSDKInt totalShares))"

section \<open>Bonding and unbonding\<close>

definition ss_hook_call ::
    "'e skeeper \<Rightarrow> ('e sstate stable_hooks \<Rightarrow> 'e sstate \<Rightarrow> 'e sstate result) \<Rightarrow> 'e sstate \<Rightarrow> 'e sstate result" where
  "ss_hook_call k f s = (case sk_hooks k of None \<Rightarrow> Inr s | Some h \<Rightarrow> f h s)"

text \<open>The asset profile of a share denomination that has none yet.\<close>

definition share_entry :: "'e skeeper \<Rightarrow> string \<Rightarrow> Entry \<Rightarrow> Entry" where
  "share_entry k shareDenom depositDenomProfile =
     empty_entry\<lparr>en_Authority := AccAddressString (sk_sdk k) (NewModuleAddress (sk_sdk k) ss_ModuleName),
       en_BaseDenom := shareDenom, en_Decimals := en_Decimals depositDenomProfile, en_Denom := shareDenom,
       en_DisplayName := shareDenom, en_CommitEnabled := True, en_WithdrawEnabled := True\<rparr>"

definition ensure_entry :: "'e skeeper \<Rightarrow> string \<Rightarrow> string \<Rightarrow> 'e sstate \<Rightarrow> 'e sstate result" where
  "ensure_entry k shareDenom depositDenom s =
     (case k_GetEntry (sk_commitment k) (ss_ext s) shareDenom of
        Some _ \<Rightarrow> Inr s
      | None \<Rightarrow>
          (case sk_GetEntryByDenom k (ss_ext s) depositDenom of
             None \<Rightarrow> Inl (Plain ''deposit denom profile not found'')
           | Some depositDenomProfile \<Rightarrow>
               ss_bank_call (\<lambda>e. Inr (sk_SetEntry k (share_entry k shareDenom depositDenomProfile) e)) s))"

definition msg_Bond ::
    "'e skeeper \<Rightarrow> block_ctx \<Rightarrow> string \<Rightarrow> int \<Rightarrow> int \<Rightarrow> 'e sstate \<Rightarrow> 'e sstate result" where
  "msg_Bond k ctx msg_Creator msg_Amount msg_PoolId s =
     (let S = sk_sdk k; B = sk_big k in
      case GetPool s msg_PoolId of
        None \<Rightarrow> Inl ss_ErrPoolNotFound
      | Some pool \<Rightarrow>
          let updatedNetAmount = po_NetAmount pool + msg_Amount;
              maxBondable = GetMaxBondableAmount k s (po_DepositDenom pool)
          in if updatedNetAmount > maxBondable then Inl (Plain ''max bondable amount'')
          else rbind (MustAccAddress S msg_Creator) (\<lambda>creator.
          rbind (CalculateRedemptionRateForPool k s pool) (\<lambda>rate.
          rbind (NewCoin S (po_DepositDenom pool) msg_Amount) (\<lambda>depositCoin.
          rbind (ss_bank_call (BkAccToMod (sk_bank k) creator ss_ModuleName [depositCoin]) s) (\<lambda>s1.
          let shareDenom = GetShareDenomForPool (po_Id pool);
              redemptionRate = (if rate = 0 then big_one else rate)
          in rbind (BQuo B (BigDecFromSDKInt (Amount depositCoin)) redemptionRate) (\<lambda>shares.
             let shareAmount = DRoundInt (k_dec (sk_commitment k)) (BDec B shares)
             in rbind (NewCoin S shareDenom shareAmount) (\<lambda>shareCoin.
                rbind (NewCoins S [shareCoin]) (\<lambda>shareCoins.
                rbind (ss_bank_call (BkMint (sk_bank k) ss_ModuleName shareCoins) s1) (\<lambda>s2.
                rbind (ss_bank_call (BkModToAcc (sk_bank k) ss_ModuleName creator shareCoins) s2) (\<lambda>s3.
                rbind (ensure_entry k shareDenom (po_DepositDenom pool) s3) (\<lambda>s4.
                rbind (ss_commit_call (CommitLiquidTokens (sk_commitment k) ctx creator shareDenom shareAmount 0) s4) (\<lambda>s5.
                ss_hook_call k (\<lambda>h. sh_AfterBond h creator shareAmount (po_Id pool))
                  (SetPool (pool\<lparr>po_NetAmount := updatedNetAmount\<rparr>) s5)))))))))))))"

definition msg_Unbond ::
    "'e skeeper \<Rightarrow> block_ctx \<Rightarrow> string \<Rightarrow> int \<Rightarrow> int \<Rightarrow> 'e sstate \<Rightarrow> 'e sstate result" where
  "msg_Unbond k ctx msg_Creator msg_Amount msg_PoolId s =
     (let S = sk_sdk k; B = sk_big k in
      case GetPool s msg_PoolId of
        None \<Rightarrow> Inl ss_ErrPoolNotFound
      | Some pool \<Rightarrow>
          rbind (MustAccAddress S msg_Creator) (\<lambda>creator.
          rbind (CalculateRedemptionRateForPool k s pool) (\<lambda>redemptionRate.
          let shareDenom = GetShareDenomForPool (po_Id pool)
          in rbind (ss_commit_call (UncommitTokens (sk_commitment k) ctx creator shareDenom msg_Amount False) s) (\<lambda>s1.
          rbind (NewCoin S shareDenom msg_Amount) (\<lambda>shareCoin.
          rbind (NewCoins S [shareCoin]) (\<lambda>shareCoins.
          rbind (ss_bank_call (BkAccToMod (sk_bank k) creator ss_ModuleName shareCoins) s1) (\<lambda>s2.
          rbind (ss_bank_call (BkBurn (sk_bank k) ss_ModuleName shareCoins) s2) (\<lambda>s3.
          let redemptionAmount = DRoundInt (k_dec (sk_commitment k))
                (BDec B (BMul B (BigDecFromSDKInt (Amount shareCoin)) redemptionRate));
              borrowed = po_NetAmount pool - module_balance k s3 (po_DepositDenom pool)
          in if borrowed < 0 then Inl ss_ErrInvalidWithdraw
             else rbind (if 0 < borrowed
                         then rbind (BQuo B (BigDecFromSDKInt borrowed)
                                       (BigDecFromSDKInt (po_NetAmount pool - redemptionAmount))) (\<lambda>borrowedRatio.
                              if borrowedRatio > BigDecFromDec (po_MaxWithdrawRatio pool)
                              then Inl ss_ErrInvalidWithdraw else Inr ())
                         else Inr ()) (\<lambda>_.
                  rbind (NewCoin S (po_DepositDenom pool) redemptionAmount) (\<lambda>redemptionCoin.
                  rbind (ss_bank_call (BkModToAcc (sk_bank k) ss_ModuleName creator [redemptionCoin]) s3) (\<lambda>s4.
                  ss_hook_call k (\<lambda>h. sh_AfterUnbond h creator msg_Amount (po_Id pool))
                    (SetPool (pool\<lparr>po_NetAmount := po_NetAmount pool - redemptionAmount\<rparr>) s4))))))))))))"

section \<open>Pools and parameters\<close>

text \<open>The message's fields are those of a pool; its id and net amount are not used.\<close>

definition msg_AddPool :: "'e skeeper \<Rightarrow> string \<Rightarrow> Pool \<Rightarrow> 'e sstate \<Rightarrow> ('e sstate \<times> int) result" where
  "msg_AddPool k msg_Sender msg s =
     (if \<not> sk_IsCreatorAllowed k (ss_ext s) msg_Sender
      then Inl (Plain ''sender is not allowed to create pool'')
      else if HasPoolByDenom s (po_DepositDenom msg) then Inl ss_ErrPoolAlreadyExists
      else let poolId = GetNextPoolId s
        in Inr (SetPool (msg\<lparr>po_Id := poolId, po_NetAmount := 0\<rparr>) s, poolId))"

definition msg_UpdatePool :: "'e skeeper \<Rightarrow> string \<Rightarrow> int \<Rightarrow> Pool \<Rightarrow> 'e sstate \<Rightarrow> 'e sstate result" where
  "msg_UpdatePool k msg_Authority msg_PoolId msg s =
     (if sk_authority k \<noteq> msg_Authority then Inl gov_ErrInvalidSigner
      else case GetPool s msg_PoolId of
        None \<Rightarrow> Inl ss_ErrPoolNotFound
      | Some pool \<Rightarrow> Inr (SetPool (pool\<lparr>
            po_InterestRateDecrease := po_InterestRateDecrease msg,
            po_InterestRateIncrease := po_InterestRateIncrease msg,
            po_HealthGainFactor := po_HealthGainFactor msg,
            po_MaxLeverageRatio := po_MaxLeverageRatio msg,
            po_InterestRateMax := po_InterestRateMax msg,
            po_InterestRateMin := po_InterestRateMin msg\<rparr>) s))"

definition ss_UpdateParams :: "'e skeeper \<Rightarrow> string \<Rightarrow> ss_Params \<Rightarrow> 'e sstate \<Rightarrow> 'e sstate result" where
  "ss_UpdateParams k msg_Authority msg_Params s =
     (if sk_authority k \<noteq> msg_Authority then Inl gov_ErrInvalidSigner
      else Inr (ss_SetParams (msg_Params\<lparr>sp_TotalValue := sp_TotalValue (ss_GetParams s)\<rparr>) s))"

section \<open>Basic validation\<close>

definition CheckLegacyDecNilAndNegative :: "int \<Rightarrow> string \<Rightarrow> unit result" where
  "CheckLegacyDecNilAndNegative value name =
     (if value < 0 then Inl (Plain (name @ '' is negative'')) else Inr ())"

definition ss_Params_Validate :: "sdk \<Rightarrow> ss_Params \<Rightarrow> unit result" where
  "ss_Params_Validate S p =
     rbind (ValidateDenom S (sp_LegacyDepositDenom p)) (\<lambda>_.
     rbind (CheckLegacyDecNilAndNegative (sp_LegacyRedemptionRate p) ''RedemptionRate'') (\<lambda>_.
     rbind (CheckLegacyDecNilAndNegative (sp_LegacyInterestRate p) ''InterestRate'') (\<lambda>_.
     rbind (CheckLegacyDecNilAndNegative (sp_LegacyInterestRateMax p) ''InterestRateMax'') (\<lambda>_.
     rbind (CheckLegacyDecNilAndNegative (sp_LegacyInterestRateMin p) ''InterestRateMin'') (\<lambda>_.
     rbind (guard (\<not> sp_LegacyInterestRateMax p < sp_LegacyInterestRateMin p)
             (Plain ''InterestRateMax must be greater than InterestRateMin'')) (\<lambda>_.
     rbind (CheckLegacyDecNilAndNegative (sp_LegacyInterestRateIncrease p) ''InterestRateIncrease'') (\<lambda>_.
     rbind (CheckLegacyDecNilAndNegative (sp_LegacyInterestRateDecrease p) ''InterestRateDecrease'') (\<lambda>_.
     rbind (CheckLegacyDecNilAndNegative (sp_LegacyHealthGainFactor p) ''HealthGainFactor'') (\<lambda>_.
     rbind (CheckLegacyDecNilAndNegative (sp_LegacyMaxLeverageRatio p) ''MaxLeverageRatio'') (\<lambda>_.
     if sp_TotalValue p < 0 then Inl (Plain ''TotalValue is negative'')
     else if sp_EpochLength p < 0 then Inl (Plain ''EpochLength is negative'')
     else Inr ()))))))))))"

definition ss_DefaultParams :: ss_Params where
  "ss_DefaultParams =
     \<lparr>sp_LegacyDepositDenom = ''uusdc'', sp_LegacyRedemptionRate = dec_one, sp_EpochLength = 1,
      sp_LegacyInterestRate = 15 * 10 ^ 16, sp_LegacyInterestRateMax = 17 * 10 ^ 16,
      sp_LegacyInterestRateMin = 12 * 10 ^ 16, sp_LegacyInterestRateIncrease = 10 ^ 16,
      sp_LegacyInterestRateDecrease = 10 ^ 16, sp_LegacyHealthGainFactor = dec_one, sp_TotalValue = 0,
      sp_LegacyMaxLeverageRatio = 7 * 10 ^ 17, sp_LegacyMaxWithdrawRatio = 7 * 10 ^ 17\<rparr>"

text \<open>The checks \<open>MsgAddPool\<close> and \<open>MsgUpdatePool\<close> share.\<close>

definition pool_rates_Validate :: "Pool \<Rightarrow> unit result" where
  "pool_rates_Validate msg =
     rbind (CheckLegacyDecNilAndNegative (po_InterestRateMax msg) ''InterestRateMax'') (\<lambda>_.
     rbind (CheckLegacyDecNilAndNegative (po_InterestRateMin msg) ''InterestRateMin'') (\<lambda>_.
     rbind (guard (\<not> po_InterestRateMax msg < po_InterestRateMin msg)
             (Plain ''InterestRateMax must be greater than InterestRateMin'')) (\<lambda>_.
     rbind (CheckLegacyDecNilAndNegative (po_InterestRateIncrease msg) ''InterestRateIncrease'') (\<lambda>_.
     rbind (CheckLegacyDecNilAndNegative (po_InterestRateDecrease msg) ''InterestRateDecrease'') (\<lambda>_.
     rbind (CheckLegacyDecNilAndNegative (po_HealthGainFactor msg) ''HealthGainFactor'') (\<lambda>_.
     CheckLegacyDecNilAndNegative (po_MaxLeverageRatio msg) ''MaxLeverageRatio''))))))"

definition ss_address_ok :: "sdk \<Rightarrow> string \<Rightarrow> unit result" where
  "ss_address_ok S a =
     (case AccAddressFromBech32 S a of Inl e \<Rightarrow> Inl sdk_ErrInvalidAddress | Inr _ \<Rightarrow> Inr ())"

definition MsgAddPool_ValidateBasic :: "sdk \<Rightarrow> string \<Rightarrow> Pool \<Rightarrow> unit result" where
  "MsgAddPool_ValidateBasic S msg_Sender msg =
     rbind (ss_address_ok S msg_Sender) (\<lambda>_.
     rbind (ValidateDenom S (po_DepositDenom msg)) (\<lambda>_.
     rbind (CheckLegacyDecNilAndNegative (po_InterestRate msg) ''InterestRate'') (\<lambda>_.
     pool_rates_Validate msg)))"

definition MsgUpdatePool_ValidateBasic :: "sdk \<Rightarrow> string \<Rightarrow> Pool \<Rightarrow> unit result" where
  "MsgUpdatePool_ValidateBasic S msg_Authority msg =
     rbind (ss_address_ok S msg_Authority) (\<lambda>_. pool_rates_Validate msg)"

definition MsgUpdateParams_ValidateBasic :: "sdk \<Rightarrow> string \<Rightarrow> ss_Params \<Rightarrow> unit result" where
  "MsgUpdateParams_ValidateBasic S msg_Authority msg_Params =
     rbind (ss_address_ok S msg_Authority) (\<lambda>_.
     case ss_Params_Validate S msg_Params of Inl e \<Rightarrow> Inl ss_ErrInvalidParams | Inr _ \<Rightarrow> Inr ())"

definition MsgBond_ValidateBasic :: "sdk \<Rightarrow> string \<Rightarrow> int \<Rightarrow> unit result" where
  "MsgBond_ValidateBasic S msg_Creator msg_Amount =
     rbind (ss_address_ok S msg_Creator) (\<lambda>_.
     if \<not> 0 < msg_Amount then Inl (Plain ''amount should be positive'') else Inr ())"

definition MsgUnbond_ValidateBasic :: "sdk \<Rightarrow> string \<Rightarrow> int \<Rightarrow> unit result" where
  "MsgUnbond_ValidateBasic S msg_Creator msg_Amount =
     rbind (ss_address_ok S msg_Creator) (\<lambda>_.
     if \<not> 0 < msg_Amount then Inl (Plain ''amount should be positive'') else Inr ())"

section \<open>Genesis and queries\<close>

record ss_GenesisState =
  sg_Params :: ss_Params
  sg_DebtList :: "Debt list"
  sg_InterestList :: "InterestBlock list"
  sg_Pools :: "Pool list"
  sg_AmmPools :: "AmmPool list"

fun set_debts :: "'e skeeper \<Rightarrow> Debt list \<Rightarrow> 'e sstate \<Rightarrow> 'e sstate result" where
  "set_debts k [] s = Inr s"
| "set_debts k (elem # es) s = rbind (SetDebt k elem s) (set_debts k es)"

definition ss_InitGenesis :: "'e skeeper \<Rightarrow> ss_GenesisState \<Rightarrow> 'e sstate \<Rightarrow> 'e sstate result" where
  "ss_InitGenesis k gs s =
     rbind (set_debts k (sg_DebtList gs) s) (\<lambda>s1.
       Inr (ss_SetParams (sg_Params gs)
         (fold SetAmmPool (sg_AmmPools gs)
           (fold SetPool (sg_Pools gs) (fold SetInterestForPool (sg_InterestList gs) s1)))))"

text \<open>A height that was never set is repaired from the first eight bytes of the key, which under
  the prefix of all interests are the pool's id.\<close>

definition GetAllInterest :: "'e sstate \<Rightarrow> InterestBlock list" where
  "GetAllInterest s =
     map (\<lambda>((p, h), i). if ib_BlockHeight i = 0 then i\<lparr>ib_BlockHeight := p\<rparr> else i) (ss_interest s)"

definition ss_ExportGenesis :: "'e sstate \<Rightarrow> ss_GenesisState" where
  "ss_ExportGenesis s =
     \<lparr>sg_Params = ss_GetParams s, sg_DebtList = GetAllDebts s, sg_InterestList = GetAllInterest s,
      sg_Pools = GetAllPools s, sg_AmmPools = GetAllAmmPools s\<rparr>"

fun ss_dup_debt :: "string list \<Rightarrow> Debt list \<Rightarrow> bool" where
  "ss_dup_debt seen [] = False"
| "ss_dup_debt seen (elem # es) = (de_Address elem \<in> set seen \<or> ss_dup_debt (de_Address elem # seen) es)"

fun ss_dup_interest :: "int list \<Rightarrow> InterestBlock list \<Rightarrow> bool" where
  "ss_dup_interest seen [] = False"
| "ss_dup_interest seen (elem # es) =
     (u64 (ib_BlockTime elem) \<in> set seen \<or> ss_dup_interest (u64 (ib_BlockTime elem) # seen) es)"

definition ss_GenesisState_Validate :: "sdk \<Rightarrow> ss_GenesisState \<Rightarrow> unit result" where
  "ss_GenesisState_Validate S gs =
     (if ss_dup_debt [] (sg_DebtList gs) then Inl (Plain ''duplicated index for debt'')
      else if ss_dup_interest [] (sg_InterestList gs) then Inl (Plain ''duplicated index for interest'')
      else ss_Params_Validate S (sg_Params gs))"

definition TVL :: "'e skeeper \<Rightarrow> 'e sstate \<Rightarrow> int \<Rightarrow> int" where
  "TVL k s poolId =
     (case GetPool s poolId of
        None \<Rightarrow> 0
      | Some pool \<Rightarrow> BMul (sk_big k) (sk_GetDenomPrice k (ss_ext s) (po_DepositDenom pool))
                      (BigDecFromSDKInt (po_NetAmount pool)))"

definition AllTVL :: "'e skeeper \<Rightarrow> 'e sstate \<Rightarrow> int" where
  "AllTVL k s = sum_list (map (\<lambda>pool. TVL k s (po_Id pool)) (GetAllPools s))"

definition GetTotalAndPerDenomTVL :: "'e skeeper \<Rightarrow> 'e sstate \<Rightarrow> int \<times> coins" where
  "GetTotalAndPerDenomTVL k s =
     fold (\<lambda>pool (totalTVL, denomTVL).
       let poolTVL = TVL k s (po_Id pool)
       in (totalTVL + poolTVL,
           CoinsAdd (sk_sdk k) denomTVL [\<lparr>Denom = po_DepositDenom pool,
             Amount = DTruncateInt (k_dec (sk_commitment k)) (BDec (sk_big k) poolTVL)\<rparr>]))
       (GetAllPools s) (0, [])"

text \<open>The borrow ratio query: net amount, total borrowed, ratio.\<close>

definition q_BorrowRatio :: "'e skeeper \<Rightarrow> 'e sstate \<Rightarrow> int \<Rightarrow> (int \<times> int \<times> int) result" where
  "q_BorrowRatio k s poolId =
     (case GetPool s poolId of
        None \<Rightarrow> Inl ss_ErrPoolNotFound
      | Some pool \<Rightarrow>
          let borrowed = po_NetAmount pool - module_balance k s (po_DepositDenom pool)
          in rbind (if po_NetAmount pool > 0
                    then BQuo (sk_big k) (BigDecFromSDKInt borrowed) (BigDecFromSDKInt (po_NetAmount pool))
                    else Inr 0) (\<lambda>borrowRatio.
             Inr (po_NetAmount pool, borrowed, BDec (sk_big k) borrowRatio)))"

definition q_MaxBondableAmount :: "'e skeeper \<Rightarrow> 'e sstate \<Rightarrow> int \<Rightarrow> int result" where
  "q_MaxBondableAmount k s poolId =
     (case GetPool s poolId of
        None \<Rightarrow> Inl (Plain ''pool not found'')
      | Some pool \<Rightarrow> Inr (GetMaxBondableAmount k s (po_DepositDenom pool)))"

definition q_Debt :: "'e skeeper \<Rightarrow> block_ctx \<Rightarrow> 'e sstate \<Rightarrow> string \<Rightarrow> int \<Rightarrow> Debt result" where
  "q_Debt k ctx s a poolId =
     rbind (MustAccAddress (sk_sdk k) a) (\<lambda>addr. GetDebt k ctx s addr poolId)"

end
