(* ===== verification/StableInv.thy ===== *)
theory StableInv
  imports StableMsgs CommitmentInv
begin

text \<open>
  The accounts of the lending pools: what a pool is owed, the invariant of the store, and the
  effect of every debt operation on both.
\<close>

section \<open>The store invariant\<close>

text \<open>A debt of an address to a pool.\<close>

definition debt_of :: "'e skeeper \<Rightarrow> addr \<Rightarrow> int \<Rightarrow> Debt \<Rightarrow> bool" where
  "debt_of k a q d \<longleftrightarrow> AccAddressFromBech32 (sk_sdk k) (de_Address d) = Inr a \<and> de_PoolId d = q"

text \<open>Nothing is borrowed below zero, no more interest is paid than was stacked, and no interest
  is left where nothing is borrowed.\<close>

definition debt_ok :: "Debt \<Rightarrow> bool" where
  "debt_ok d \<longleftrightarrow> 0 \<le> de_Borrowed d \<and> de_InterestPaid d \<le> de_InterestStacked d \<and>
     (de_Borrowed d = 0 \<longrightarrow> de_InterestStacked d = de_InterestPaid d)"

text \<open>Debts are in order and lie under the keys of their owner and pool, pools under their ids, and no two pools
  have the same deposit denomination.\<close>

definition ss_inv :: "'e skeeper \<Rightarrow> 'e sstate \<Rightarrow> bool" where
  "ss_inv k s \<longleftrightarrow> kv_ok (ss_debts s) \<and> kv_ok (ss_pools s) \<and>
     (\<forall>key d. kv_get (ss_debts s) key = Some d \<longrightarrow> debt_ok d \<and> (\<exists>a. key = GetDebtKey a (de_PoolId d) \<and> debt_of k a (de_PoolId d) d)) \<and>
     (\<forall>i pool. GetPool s i = Some pool \<longrightarrow> po_Id pool = i) \<and>
     (\<forall>i j p q. GetPool s i = Some p \<longrightarrow> GetPool s j = Some q \<longrightarrow> po_DepositDenom p = po_DepositDenom q \<longrightarrow> i = j)"

lemma ss_inv_denoms:
  "ss_inv k s \<Longrightarrow> GetPool s i = Some p \<Longrightarrow> GetPool s j = Some q \<Longrightarrow>
     po_DepositDenom p = po_DepositDenom q \<Longrightarrow> i = j"
  unfolding ss_inv_def by blast

lemma ss_inv_id: "ss_inv k s \<Longrightarrow> GetPool s i = Some p \<Longrightarrow> po_Id p = i"
  unfolding ss_inv_def by blast

lemma GetDebtKey_inject [simp]: "GetDebtKey a p = GetDebtKey b q \<longleftrightarrow> a = b \<and> p = q"
  by (auto simp: GetDebtKey_def)

text \<open>What the debts to a pool amount to, and what the pool's net amount counts beyond its coins
  and these debts.\<close>

definition liability_to :: "int \<Rightarrow> Debt \<Rightarrow> int" where
  "liability_to p d = (if de_PoolId d = p then GetTotalLiablities d else 0)"

definition outstanding :: "'e sstate \<Rightarrow> int \<Rightarrow> int" where
  "outstanding s p = kv_sum (liability_to p) (ss_debts s)"

definition pool_gap :: "'e skeeper \<Rightarrow> 'e sstate \<Rightarrow> int \<Rightarrow> int" where
  "pool_gap k s p =
     (case GetPool s p of
        None \<Rightarrow> 0
      | Some pool \<Rightarrow> po_NetAmount pool - module_balance k s (po_DepositDenom pool) - outstanding s p)"

section \<open>Frames\<close>

lemma ss_frames [simp]:
  "GetPool (s\<lparr>ss_debts := D\<rparr>) p = GetPool s p"
  "GetPool (s\<lparr>ss_amm := A\<rparr>) p = GetPool s p"
  "GetPool (s\<lparr>ss_commit := c\<rparr>) p = GetPool s p"
  "GetPool (s\<lparr>ss_interest := i\<rparr>) p = GetPool s p"
  "GetPool (s\<lparr>ss_params := q\<rparr>) p = GetPool s p"
  "getDebt k ctx (s\<lparr>ss_amm := A\<rparr>) a p = getDebt k ctx s a p"
  "getDebt k ctx (s\<lparr>ss_commit := c\<rparr>) a p = getDebt k ctx s a p"
  "getDebt k ctx (s\<lparr>ss_pools := P\<rparr>) a p = getDebt k ctx s a p"
  "module_balance k (s\<lparr>ss_debts := D\<rparr>) d = module_balance k s d"
  "module_balance k (s\<lparr>ss_amm := A\<rparr>) d = module_balance k s d"
  "module_balance k (s\<lparr>ss_pools := P\<rparr>) d = module_balance k s d"
  "module_balance k (s\<lparr>ss_interest := i\<rparr>) d = module_balance k s d"
  "module_balance k (s\<lparr>ss_params := q\<rparr>) d = module_balance k s d"
  "outstanding (s\<lparr>ss_amm := A\<rparr>) p = outstanding s p"
  "outstanding (s\<lparr>ss_commit := c\<rparr>) p = outstanding s p"
  "outstanding (s\<lparr>ss_pools := P\<rparr>) p = outstanding s p"
  "outstanding (s\<lparr>ss_interest := i\<rparr>) p = outstanding s p"
  "outstanding (s\<lparr>ss_params := q\<rparr>) p = outstanding s p"
  "ss_inv k (s\<lparr>ss_amm := A\<rparr>) = ss_inv k s"
  "ss_inv k (s\<lparr>ss_commit := c\<rparr>) = ss_inv k s"
  "ss_inv k (s\<lparr>ss_interest := i\<rparr>) = ss_inv k s"
  "ss_inv k (s\<lparr>ss_params := q\<rparr>) = ss_inv k s"
  by (simp_all add: GetPool_def getDebt_def module_balance_def outstanding_def ss_inv_def)

lemma GetInterestForPool_frames [simp]:
  "GetInterestForPool k ctx (s\<lparr>ss_commit := c\<rparr>) = GetInterestForPool k ctx s"
  "GetInterestForPool k ctx (s\<lparr>ss_debts := D\<rparr>) = GetInterestForPool k ctx s"
  "GetInterestForPool k ctx (s\<lparr>ss_amm := A\<rparr>) = GetInterestForPool k ctx s"
  by (simp_all add: fun_eq_iff GetInterestForPool_def first_stored_def Let_def cong: option.case_cong if_cong)

lemma AddPoolLiabilities_sel [simp]:
  "ss_debts (AddPoolLiabilities k i c s) = ss_debts s"
  "ss_pools (AddPoolLiabilities k i c s) = ss_pools s"
  "ss_commit (AddPoolLiabilities k i c s) = ss_commit s"
  "GetPool (AddPoolLiabilities k i c s) p = GetPool s p"
  "getDebt k' ctx (AddPoolLiabilities k i c s) a p = getDebt k' ctx s a p"
  "module_balance k' (AddPoolLiabilities k i c s) d = module_balance k' s d"
  "outstanding (AddPoolLiabilities k i c s) p = outstanding s p"
  "ss_inv k' (AddPoolLiabilities k i c s) = ss_inv k' s"
  by (simp_all add: AddPoolLiabilities_def SetAmmPool_def)

lemma SubtractPoolLiabilities_Inr:
  "SubtractPoolLiabilities k i c s = Inr t \<Longrightarrow> \<exists>A. t = s\<lparr>ss_amm := A\<rparr>"
  by (auto simp: SubtractPoolLiabilities_def SetAmmPool_def)

lemma GetPool_SetPool: "GetPool (SetPool pool s) i = (if i = po_Id pool then Some pool else GetPool s i)"
  by (simp add: GetPool_def SetPool_def kv_get_set)

lemma SetPool_sel [simp]:
  "ss_debts (SetPool pool s) = ss_debts s"
  "ss_commit (SetPool pool s) = ss_commit s"
  "ss_interest (SetPool pool s) = ss_interest s"
  "module_balance k (SetPool pool s) d = module_balance k s d"
  "outstanding (SetPool pool s) p = outstanding s p"
  "getDebt k ctx (SetPool pool s) a p = getDebt k ctx s a p"
  by (simp_all add: SetPool_def)

lemma ss_invI:
  assumes "kv_ok (ss_debts s)" "kv_ok (ss_pools s)"
    and "\<And>key d. kv_get (ss_debts s) key = Some d \<Longrightarrow> debt_ok d \<and> (\<exists>a. key = GetDebtKey a (de_PoolId d) \<and> debt_of k a (de_PoolId d) d)"
    and "\<And>i pool. GetPool s i = Some pool \<Longrightarrow> po_Id pool = i"
    and "\<And>i j p q. GetPool s i = Some p \<Longrightarrow> GetPool s j = Some q \<Longrightarrow> po_DepositDenom p = po_DepositDenom q \<Longrightarrow> i = j"
  shows "ss_inv k s"
  unfolding ss_inv_def using assms by blast

lemma ss_invD:
  assumes "ss_inv k s"
  shows "kv_ok (ss_debts s)" "kv_ok (ss_pools s)"
    and "kv_get (ss_debts s) key = Some d \<Longrightarrow> debt_ok d \<and> (\<exists>a. key = GetDebtKey a (de_PoolId d) \<and> debt_of k a (de_PoolId d) d)"
  using assms unfolding ss_inv_def by blast+

lemma ss_inv_SetPool:
  assumes "ss_inv k s" "GetPool s (po_Id pool) = Some old" "po_DepositDenom pool = po_DepositDenom old"
  shows "ss_inv k (SetPool pool s)"
proof (rule ss_invI)
  show "kv_ok (ss_debts (SetPool pool s))" "kv_ok (ss_pools (SetPool pool s))"
    using ss_invD(1,2) [OF assms(1)] by (simp_all add: SetPool_def kv_ok_set)
  show "debt_ok d \<and> (\<exists>a. key = GetDebtKey a (de_PoolId d) \<and> debt_of k a (de_PoolId d) d)"
    if "kv_get (ss_debts (SetPool pool s)) key = Some d" for key d
    using ss_invD(3) [OF assms(1)] that by simp
  show "po_Id p = i" if "GetPool (SetPool pool s) i = Some p" for i p
    using that ss_inv_id [OF assms(1)] by (auto simp: GetPool_SetPool split: if_splits)
  show "i = j" if "GetPool (SetPool pool s) i = Some p" "GetPool (SetPool pool s) j = Some q"
    "po_DepositDenom p = po_DepositDenom q" for i j p q
  proof -
    let ?p = "if i = po_Id pool then old else p" and ?q = "if j = po_Id pool then old else q"
    have "GetPool s i = Some ?p" "GetPool s j = Some ?q" "po_DepositDenom ?p = po_DepositDenom ?q"
      using that assms(2,3) by (auto simp: GetPool_SetPool)
    then show ?thesis by (rule ss_inv_denoms [OF assms(1)])
  qed
qed

section \<open>Writing and deleting debts\<close>

definition put_debt :: "addr \<Rightarrow> Debt \<Rightarrow> 'e sstate \<Rightarrow> 'e sstate" where
  "put_debt a d s = s\<lparr>ss_debts := kv_set (GetDebtKey a (de_PoolId d)) d (ss_debts s)\<rparr>"

definition del_debt :: "addr \<Rightarrow> int \<Rightarrow> 'e sstate \<Rightarrow> 'e sstate" where
  "del_debt a q s = s\<lparr>ss_debts := kv_del (GetDebtKey a q) (ss_debts s)\<rparr>"

lemma SetDebt_eq: "debt_of k a q d \<Longrightarrow> SetDebt k d s = Inr (put_debt a d s)"
  by (simp add: SetDebt_def debt_of_def MustAccAddress_def put_debt_def)

lemma DeleteDebt_eq: "debt_of k a q d \<Longrightarrow> DeleteDebt k d s = Inr (del_debt a q s)"
  by (auto simp: DeleteDebt_def debt_of_def MustAccAddress_def del_debt_def)

lemma put_debt_sel [simp]:
  "GetPool (put_debt a d s) p = GetPool s p"
  "module_balance k (put_debt a d s) e = module_balance k s e"
  "ss_commit (put_debt a d s) = ss_commit s"
  "GetPool (del_debt a q s) p = GetPool s p"
  "module_balance k (del_debt a q s) e = module_balance k s e"
  "ss_commit (del_debt a q s) = ss_commit s"
  by (simp_all add: put_debt_def del_debt_def)

lemma getDebt_put [simp]:
  "getDebt k ctx (put_debt a d s) b q = (if b = a \<and> q = de_PoolId d then d else getDebt k ctx s b q)"
  by (auto simp: getDebt_def put_debt_def kv_get_set)

lemma ss_inv_put_debt:
  assumes "ss_inv k s" "debt_of k a q d" "debt_ok d"
  shows "ss_inv k (put_debt a d s)"
proof -
  have q: "de_PoolId d = q" using assms(2) by (simp add: debt_of_def)
  then show ?thesis
    using assms by (auto simp: ss_inv_def put_debt_def kv_ok_set kv_get_set)
qed

lemma ss_inv_del_debt: "ss_inv k s \<Longrightarrow> ss_inv k (del_debt a q s)"
  by (auto simp: ss_inv_def del_debt_def kv_ok_del kv_get_del)

lemma getDebt_of:
  assumes "sdk_laws (sk_sdk k)" "ss_inv k s"
  shows "debt_of k a q (getDebt k ctx s a q)" "debt_ok (getDebt k ctx s a q)"
proof -
  show "debt_of k a q (getDebt k ctx s a q)"
  proof (cases "kv_get (ss_debts s) (GetDebtKey a q)")
    case None
    then show ?thesis by (simp add: getDebt_def debt_of_def bech32_roundtrip [OF assms(1)])
  next
    case (Some d)
    then obtain b where "GetDebtKey a q = GetDebtKey b (de_PoolId d)" "debt_of k b (de_PoolId d) d"
      using ss_invD(3) [OF assms(2)] by blast
    then show ?thesis using Some by (simp add: getDebt_def)
  qed
  show "debt_ok (getDebt k ctx s a q)"
    using ss_invD(3) [OF assms(2)]
    by (cases "kv_get (ss_debts s) (GetDebtKey a q)") (auto simp: getDebt_def debt_ok_def)
qed

text \<open>The stored contribution of a debt is that of \<open>getDebt\<close>: an absent one owes nothing.\<close>

lemma stored_liability:
  "(case kv_get (ss_debts s) (GetDebtKey a q) of None \<Rightarrow> 0 | Some d \<Rightarrow> liability_to p d) =
     liability_to p (getDebt k ctx s a q)"
  by (cases "kv_get (ss_debts s) (GetDebtKey a q)") (simp_all add: getDebt_def liability_to_def GetTotalLiablities_def)

lemma outstanding_put:
  "ss_inv k s \<Longrightarrow> outstanding (put_debt a d s) p =
     outstanding s p + liability_to p d - liability_to p (getDebt k ctx s a (de_PoolId d))"
  by (simp add: outstanding_def put_debt_def ss_inv_def kv_sum_set stored_liability [where k = k and ctx = ctx])

lemma outstanding_del:
  "ss_inv k s \<Longrightarrow> outstanding (del_debt a q s) p =
     outstanding s p - liability_to p (getDebt k ctx s a q)"
  by (simp add: outstanding_def del_debt_def ss_inv_def kv_sum_del stored_liability [where k = k and ctx = ctx])

section \<open>Stacking interest\<close>

definition ss_laws :: "'e skeeper \<Rightarrow> bool" where
  "ss_laws k \<longleftrightarrow> sdk_laws (sk_sdk k) \<and> bigdec_laws (sk_big k) \<and> dec_laws (k_dec (sk_commitment k))"

lemma ss_lawsD:
  assumes "ss_laws k"
  shows "sdk_laws (sk_sdk k)" "bigdec_laws (sk_big k)" "dec_laws (k_dec (sk_commitment k))"
  using assms by (simp_all add: ss_laws_def)

text \<open>No interest accrues on nothing.\<close>

lemma DRoundInt_zero: "dec_laws D \<Longrightarrow> DRoundInt D 0 = 0"
  using DRoundInt_bound [of D 0] by (intro nearest_exact) simp

lemma year_interest_zero: "ss_laws k \<Longrightarrow> year_interest k 0 = Inr 0"
  using ss_lawsD(2,3) [of k]
  by (simp add: year_interest_def BQuoInt64_eq int_quo_def BDec_eq DRoundInt_zero)

lemma interest_zero:
  assumes "ss_laws k" "GetInterestForPool k ctx s sb st 0 q = Inr n"
  shows "n = 0"
proof -
  have m: "BMul (sk_big k) 0 x = 0" for x by (rule BMul_exact [OF ss_lawsD(2) [OF assms(1)]]) simp
  show ?thesis
    using assms(2) year_interest_zero [OF assms(1)] ss_lawsD(2) [OF assms(1)]
    by (auto simp: GetInterestForPool_def Let_def m BQuoInt64_eq int_quo_def split: if_splits option.splits)
qed

text \<open>What \<open>UpdateInterestAndGetDebt\<close> does to a pool that exists: the debt and the pool's net
  amount grow by the same interest, which is not negative, and nothing else moves.\<close>

lemma UpdateInterest_effect:
  assumes "ss_laws k" "ss_inv k s" "GetPool s q = Some pool"
    and "UpdateInterestAndGetDebt k ctx a q b s = Inr (s1, debt)"
  obtains n where "0 \<le> n" "ss_inv k s1" "debt_of k a q debt" "debt_ok debt"
    "getDebt k ctx s1 a q = debt"
    "de_Borrowed debt = de_Borrowed (getDebt k ctx s a q)"
    "de_InterestPaid debt = de_InterestPaid (getDebt k ctx s a q)"
    "de_InterestStacked debt = de_InterestStacked (getDebt k ctx s a q) + n"
    "\<And>p. outstanding s1 p = outstanding s p + (if p = q then n else 0)"
    "\<And>p. GetPool s1 p = (if p = q then Some (pool\<lparr>po_NetAmount := po_NetAmount pool + n\<rparr>) else GetPool s p)"
    "ss_commit s1 = ss_commit s" "denom_ok (sk_sdk k) (po_DepositDenom pool)"
    "GetInterestForPool k ctx s (de_LastInterestCalcBlock (getDebt k ctx s a q))
       (de_LastInterestCalcTime (getDebt k ctx s a q)) (BigDecFromSDKInt (de_Borrowed debt)) q = Inr n"
proof -
  let ?d = "getDebt k ctx s a q"
  note S = ss_lawsD(1) [OF assms(1)]
  note d = getDebt_of(1) [OF S assms(2), of a q ctx] and ok = getDebt_of(2) [OF S assms(2), of ctx a q]
  have q: "de_PoolId ?d = q" using d by (simp add: debt_of_def)
  note id = ss_inv_id [OF assms(2,3)]
  obtain n where n: "GetInterestForPool k ctx s (de_LastInterestCalcBlock ?d) (de_LastInterestCalcTime ?d)
      (BigDecFromSDKInt (de_Borrowed ?d)) q = Inr n"
    using assms(3,4) by (auto simp: UpdateInterestAndGetDebt_def UpdateInterestStacked_def q split: option.splits)
  define debt' where "debt' = ?d\<lparr>de_InterestStacked := de_InterestStacked ?d + n,
    de_LastInterestCalcTime := u64 (Unix (BlockTime ctx)), de_LastInterestCalcBlock := u64 (BlockHeight ctx)\<rparr>"
  have d': "debt_of k a q debt'" using d by (simp add: debt'_def debt_of_def)
  have q': "de_PoolId debt' = q" using q by (simp add: debt'_def)
  have r: "denom_ok (sk_sdk k) (po_DepositDenom pool) \<and> 0 \<le> n \<and> debt = debt' \<and>
      s1 = SetPool (pool\<lparr>po_NetAmount := po_NetAmount pool + n\<rparr>)
        (AddPoolLiabilities k b \<lparr>Denom = po_DepositDenom pool, Amount = n\<rparr> (put_debt a debt' s))"
    using assms(3,4) n
    by (auto simp: UpdateInterestAndGetDebt_def UpdateInterestStacked_def q SetDebt_eq [OF d']
        NewCoin_Inr [OF S] debt'_def [symmetric] Let_def split: option.splits)
  have "de_Borrowed ?d = 0 \<Longrightarrow> n = 0"
    using interest_zero [OF assms(1)] n by (simp add: BigDecFromSDKInt_def)
  then have ok': "debt_ok debt'" using ok r by (auto simp: debt_ok_def debt'_def)
  have inv: "ss_inv k (AddPoolLiabilities k b \<lparr>Denom = po_DepositDenom pool, Amount = n\<rparr> (put_debt a debt' s))"
    using ss_inv_put_debt [OF assms(2) d' ok'] by simp
  have out: "outstanding s1 p = outstanding s p + (if p = q then n else 0)" for p
    using r outstanding_put [OF assms(2), of a debt' p ctx]
    by (simp add: q q' liability_to_def GetTotalLiablities_def) (simp add: debt'_def)
  have inv1: "ss_inv k s1"
  proof -
    have "ss_inv k (SetPool (pool\<lparr>po_NetAmount := po_NetAmount pool + n\<rparr>)
        (AddPoolLiabilities k b \<lparr>Denom = po_DepositDenom pool, Amount = n\<rparr> (put_debt a debt' s)))"
      by (rule ss_inv_SetPool [OF inv, where old = pool]) (simp_all add: id assms(3))
    then show ?thesis using r by blast
  qed
  show thesis
    by (rule that [of n])
      (use r inv1 out n d' ok' in \<open>simp_all add: q' GetPool_SetPool id\<close>, simp_all add: debt'_def)
qed

end
