(* ===== verification/StableGap.thy ===== *)
theory StableGap
  imports StableInv
begin

text \<open>
  The balance sheet of the lending pools: every operation but a forced close moves a pool's net
  amount exactly with its coins and the debts to it.
\<close>

section \<open>What the module relies on\<close>

text \<open>The bank refuses to move a coin set that is not valid, and a module cannot pay more than it
  has.\<close>

definition bank_valid_laws :: "sdk \<Rightarrow> 'e bank \<Rightarrow> bool" where
  "bank_valid_laws S B \<longleftrightarrow>
     (\<forall>m a cs e e'. BkModToAcc B m a cs e = Inr e' \<longrightarrow> coins_ok S cs \<and>
        (\<forall>d. 0 < AmountOf S cs d \<longrightarrow> AmountOf S cs d \<le> BkBalance B (NewModuleAddress S m) d e)) \<and>
     (\<forall>m a cs e e'. BkAccToMod B a m cs e = Inr e' \<longrightarrow> coins_ok S cs)"

definition ss_account :: "'e skeeper \<Rightarrow> addr" where
  "ss_account k = NewModuleAddress (sk_sdk k) ss_ModuleName"

text \<open>The SDK, the bank and the decimals follow their laws; asset profile and the hooks of other
  modules do not touch the store of stablestake or the coins of its account.\<close>

definition hooks_quiet :: "'e skeeper \<Rightarrow> 'e sstate stable_hooks \<Rightarrow> bool" where
  "hooks_quiet k h \<longleftrightarrow> (\<forall>D P f a n p.
     keeps (\<lambda>s. ss_debts s = D \<and> ss_pools s = P \<and> (\<forall>d. module_balance k s d = f d)) (sh_AfterBond h a n p) \<and>
     keeps (\<lambda>s. ss_debts s = D \<and> ss_pools s = P \<and> (\<forall>d. module_balance k s d = f d)) (sh_AfterUnbond h a n p))"

definition ss_env :: "'e skeeper \<Rightarrow> bool" where
  "ss_env k \<longleftrightarrow> ss_laws k \<and> bank_laws (sk_sdk k) (sk_bank k) \<and>
     bank_valid_laws (sk_sdk k) (sk_bank k) \<and>
     (\<forall>x e d. BkBalance (sk_bank k) (ss_account k) d (sk_SetEntry k x e) = BkBalance (sk_bank k) (ss_account k) d e) \<and>
     (\<forall>f. hooks_inv (sk_commitment k) (\<lambda>c. \<forall>d. BkBalance (sk_bank k) (ss_account k) d (cs_ext c) = f d)) \<and>
     (\<forall>h. sk_hooks k = Some h \<longrightarrow> hooks_quiet k h)"

lemma ss_envD:
  assumes "ss_env k"
  shows "sdk_laws (sk_sdk k)" "bank_laws (sk_sdk k) (sk_bank k)" "bank_valid_laws (sk_sdk k) (sk_bank k)"
    "ss_laws k"
  using assms by (simp_all add: ss_env_def ss_laws_def)

lemma module_balance_alt: "module_balance k s d = BkBalance (sk_bank k) (ss_account k) d (ss_ext s)"
  by (simp add: module_balance_def ss_account_def)

lemma ss_bank_call_Inr:
  "ss_bank_call f s = Inr t \<longleftrightarrow> (\<exists>e. f (ss_ext s) = Inr e \<and> t = s\<lparr>ss_commit := (ss_commit s)\<lparr>cs_ext := e\<rparr>\<rparr>)"
  by (auto simp: ss_bank_call_def ss_commit_call_def bank_call_def)

lemma ss_commit_call_Inr:
  "ss_commit_call f s = Inr t \<longleftrightarrow> (\<exists>c. f (ss_commit s) = Inr c \<and> t = s\<lparr>ss_commit := c\<rparr>)"
  by (auto simp: ss_commit_call_def)

text \<open>Coins out of and into the module's account.\<close>

lemma pay_out:
  assumes "ss_env k" "ss_bank_call (BkModToAcc (sk_bank k) ss_ModuleName a cs) s = Inr t"
  shows "coins_ok (sk_sdk k) cs \<and> (\<exists>c. t = s\<lparr>ss_commit := c\<rparr>) \<and>
    (\<forall>d. 0 < AmountOf (sk_sdk k) cs d \<longrightarrow> AmountOf (sk_sdk k) cs d \<le> module_balance k s d) \<and>
    (\<forall>d. module_balance k t d = module_balance k s d - (if a = ss_account k then 0 else AmountOf (sk_sdk k) cs d))"
proof -
  obtain e where e: "BkModToAcc (sk_bank k) ss_ModuleName a cs (ss_ext s) = Inr e"
    "t = s\<lparr>ss_commit := (ss_commit s)\<lparr>cs_ext := e\<rparr>\<rparr>"
    using assms(2) by (auto simp: ss_bank_call_Inr)
  have ok: "coins_ok (sk_sdk k) cs"
    and funds: "\<And>d. 0 < AmountOf (sk_sdk k) cs d \<Longrightarrow> AmountOf (sk_sdk k) cs d \<le> BkBalance (sk_bank k) (ss_account k) d (ss_ext s)"
    using ss_envD(3) [OF assms(1)] e(1) unfolding bank_valid_laws_def ss_account_def by blast+
  show ?thesis
    using ok funds e(2) BkModToAcc_balance [OF ss_envD(2) [OF assms(1)] ok e(1)]
    by (auto simp: module_balance_alt moved_def ss_account_def)
qed

lemma pay_in:
  assumes "ss_env k" "ss_bank_call (BkAccToMod (sk_bank k) a ss_ModuleName cs) s = Inr t"
  shows "coins_ok (sk_sdk k) cs \<and> (\<exists>c. t = s\<lparr>ss_commit := c\<rparr>) \<and>
    (\<forall>d. module_balance k t d = module_balance k s d + (if a = ss_account k then 0 else AmountOf (sk_sdk k) cs d))"
proof -
  obtain e where e: "BkAccToMod (sk_bank k) a ss_ModuleName cs (ss_ext s) = Inr e"
    "t = s\<lparr>ss_commit := (ss_commit s)\<lparr>cs_ext := e\<rparr>\<rparr>"
    using assms(2) by (auto simp: ss_bank_call_Inr)
  have ok: "coins_ok (sk_sdk k) cs" using ss_envD(3) [OF assms(1)] e(1) unfolding bank_valid_laws_def by blast
  show ?thesis
    using ok e(2) BkAccToMod_balance [OF ss_envD(2) [OF assms(1)] ok e(1)]
    by (auto simp: module_balance_alt moved_def ss_account_def)
qed

lemma one_coin_amount:
  assumes "sdk_laws S" "coins_ok S [c]"
  shows "AmountOf S [c] d = (if d = Denom c then Amount c else 0)"
  using coins_ok_list(2) [OF assms, of c] coins_ok_list(3) [OF assms, of d] by auto

section \<open>The balance sheet\<close>

definition same_gaps :: "'e skeeper \<Rightarrow> 'e sstate \<Rightarrow> 'e sstate \<Rightarrow> bool" where
  "same_gaps k s t \<longleftrightarrow> ss_inv k t \<and>
     (\<forall>p. map_option po_DepositDenom (GetPool t p) = map_option po_DepositDenom (GetPool s p)) \<and>
     (\<forall>p. pool_gap k t p = pool_gap k s p)"

lemma same_gapsI:
  assumes "ss_inv k t"
    and "\<And>p. GetPool s p = None \<Longrightarrow> GetPool t p = None"
    and "\<And>p pool. GetPool s p = Some pool \<Longrightarrow> \<exists>pool'. GetPool t p = Some pool' \<and>
      po_DepositDenom pool' = po_DepositDenom pool \<and>
      po_NetAmount pool' - module_balance k t (po_DepositDenom pool) - outstanding t p =
      po_NetAmount pool - module_balance k s (po_DepositDenom pool) - outstanding s p"
  shows "same_gaps k s t"
proof -
  have "map_option po_DepositDenom (GetPool t p) = map_option po_DepositDenom (GetPool s p) \<and>
      pool_gap k t p = pool_gap k s p" for p
    using assms(2) [of p] assms(3) [of p] by (cases "GetPool s p") (auto simp: pool_gap_def)
  then show ?thesis using assms(1) by (simp add: same_gaps_def)
qed

lemma same_gaps_refl: "ss_inv k s \<Longrightarrow> same_gaps k s s"
  by (simp add: same_gaps_def)

lemma same_gaps_trans: "same_gaps k s t \<Longrightarrow> same_gaps k t u \<Longrightarrow> same_gaps k s u"
  by (simp add: same_gaps_def)

text \<open>A change of one pool's net amount, its debts and the coins of its denomination that add up
  keeps every balance.\<close>

lemma same_gaps_pool:
  assumes inv: "ss_inv k s" "ss_inv k t" and q: "GetPool s q = Some pool" "GetPool t q = Some pool'"
    and sum: "po_DepositDenom pool' = po_DepositDenom pool"
      "po_NetAmount pool' - module_balance k t (po_DepositDenom pool) - outstanding t q =
       po_NetAmount pool - module_balance k s (po_DepositDenom pool) - outstanding s q"
    and others: "\<And>p. p \<noteq> q \<Longrightarrow> GetPool t p = GetPool s p \<and> outstanding t p = outstanding s p"
    and bal: "\<And>p r. p \<noteq> q \<Longrightarrow> GetPool s p = Some r \<Longrightarrow>
      module_balance k t (po_DepositDenom r) = module_balance k s (po_DepositDenom r)"
  shows "same_gaps k s t"
proof (rule same_gapsI [OF inv(2)])
  show "GetPool t p = None" if "GetPool s p = None" for p
    using that q(1) others [of p] by (cases "p = q") simp_all
next
  fix p r
  assume r: "GetPool s p = Some r"
  show "\<exists>pool'. GetPool t p = Some pool' \<and> po_DepositDenom pool' = po_DepositDenom r \<and>
      po_NetAmount pool' - module_balance k t (po_DepositDenom r) - outstanding t p =
      po_NetAmount r - module_balance k s (po_DepositDenom r) - outstanding s p"
  proof (cases "p = q")
    case True
    then show ?thesis using q sum r by simp
  next
    case False
    then show ?thesis using others [OF False] bal [OF False r] r by simp
  qed
qed

lemma other_denom:
  "ss_inv k s \<Longrightarrow> GetPool s q = Some pool \<Longrightarrow> GetPool s p = Some r \<Longrightarrow> p \<noteq> q \<Longrightarrow>
     po_DepositDenom r \<noteq> po_DepositDenom pool"
  using ss_inv_denoms by metis

section \<open>Debt operations\<close>

lemma UpdateInterest_gaps:
  assumes "ss_env k" "ss_inv k s" "UpdateInterestAndGetDebt k ctx a q b s = Inr (s1, debt)"
  shows "same_gaps k s s1"
proof (cases "GetPool s q")
  case None
  have "de_PoolId (getDebt k ctx s a q) = q"
    using getDebt_of(1) [OF ss_envD(1) [OF assms(1)] assms(2), of a q ctx] by (simp add: debt_of_def)
  then have "s1 = s" using None assms(3) by (simp add: UpdateInterestAndGetDebt_def UpdateInterestStacked_def)
  then show ?thesis using same_gaps_refl [OF assms(2)] by simp
next
  case (Some pool)
  obtain n where n: "ss_inv k s1" "\<And>p. outstanding s1 p = outstanding s p + (if p = q then n else 0)"
    "\<And>p. GetPool s1 p = (if p = q then Some (pool\<lparr>po_NetAmount := po_NetAmount pool + n\<rparr>) else GetPool s p)"
    "ss_commit s1 = ss_commit s"
    by (rule UpdateInterest_effect [OF ss_envD(4) [OF assms(1)] assms(2) Some assms(3)]) blast
  have "module_balance k s1 d = module_balance k s d" for d by (simp add: module_balance_def n(4))
  then show ?thesis
    by (intro same_gaps_pool [OF assms(2) n(1) Some, of "pool\<lparr>po_NetAmount := po_NetAmount pool + n\<rparr>"])
      (simp_all add: n(2,3))
qed

text \<open>What \<open>Borrow\<close> does, piece by piece.\<close>

lemma Borrow_effect:
  assumes "ss_env k" "ss_inv k s" "a \<noteq> ss_account k" "Borrow k ctx a amount q b s = Inr t"
  obtains pool n where "GetPool s q = Some pool" "po_DepositDenom pool = Denom amount" "0 \<le> n" "ss_inv k t"
    "\<And>e. module_balance k t e = module_balance k s e - (if e = Denom amount then Amount amount else 0)"
    "\<And>p. outstanding t p = outstanding s p + (if p = q then n + Amount amount else 0)"
    "\<And>p. GetPool t p = (if p = q then Some (pool\<lparr>po_NetAmount := po_NetAmount pool + n\<rparr>) else GetPool s p)"
    "de_Borrowed (getDebt k ctx t a q) = de_Borrowed (getDebt k ctx s a q) + Amount amount"
proof -
  note S = ss_envD(1) [OF assms(1)] and L = ss_envD(4) [OF assms(1)]
  obtain pool s1 debt where p: "GetPool s q = Some pool" "po_DepositDenom pool = Denom amount"
    and u: "UpdateInterestAndGetDebt k ctx a q b s = Inr (s1, debt)"
    and r: "rbind (SetDebt k (debt\<lparr>de_Borrowed := de_Borrowed debt + Amount amount\<rparr>) s1) (\<lambda>s2.
      ss_bank_call (BkModToAcc (sk_bank k) ss_ModuleName a [amount]) (AddPoolLiabilities k b amount s2)) = Inr t"
    using assms(4) by (auto simp: Borrow_def Let_def split: option.splits if_splits)
  obtain n where n: "ss_inv k s1" "debt_of k a q debt" "getDebt k ctx s1 a q = debt"
    "debt_ok debt" "0 \<le> n" "de_Borrowed debt = de_Borrowed (getDebt k ctx s a q)"
    "\<And>p. outstanding s1 p = outstanding s p + (if p = q then n else 0)"
    "\<And>p. GetPool s1 p = (if p = q then Some (pool\<lparr>po_NetAmount := po_NetAmount pool + n\<rparr>) else GetPool s p)"
    "ss_commit s1 = ss_commit s"
    by (rule UpdateInterest_effect [OF L assms(2) p(1) u]) blast
  let ?d = "debt\<lparr>de_Borrowed := de_Borrowed debt + Amount amount\<rparr>"
  let ?s = "AddPoolLiabilities k b amount (put_debt a ?d s1)"
  have d: "debt_of k a q ?d" "de_PoolId debt = q" using n(2) by (simp_all add: debt_of_def)
  have pay: "ss_bank_call (BkModToAcc (sk_bank k) ss_ModuleName a [amount]) ?s = Inr t"
    using r by (simp add: SetDebt_eq [OF d(1)])
  obtain c where c: "coins_ok (sk_sdk k) [amount]" "t = ?s\<lparr>ss_commit := c\<rparr>"
    "\<And>e. module_balance k t e = module_balance k ?s e - AmountOf (sk_sdk k) [amount] e"
    using pay_out [OF assms(1) pay] assms(3) by auto
  have bal: "module_balance k t e = module_balance k s e - (if e = Denom amount then Amount amount else 0)" for e
    using c(3) [of e] n(9) one_coin_amount [OF S c(1)] by (simp add: module_balance_def)
  have out: "outstanding t p = outstanding s p + (if p = q then n + Amount amount else 0)" for p
    using n(3,7) d(2) outstanding_put [OF n(1), of a ?d p ctx]
    by (simp add: c(2) liability_to_def GetTotalLiablities_def)
  have "0 < Amount amount" using coins_ok_list(2) [OF S c(1)] by simp
  then have ok: "debt_ok ?d" using n(4) by (auto simp: debt_ok_def)
  have inv: "ss_inv k t" using ss_inv_put_debt [OF n(1) d(1) ok] by (simp add: c(2))
  have gp: "GetPool t p = (if p = q then Some (pool\<lparr>po_NetAmount := po_NetAmount pool + n\<rparr>) else GetPool s p)" for p
    using n(8) by (simp add: c(2))
  have new: "getDebt k ctx t a q = ?d" by (simp add: c(2) d(2))
  show thesis by (rule that [OF p n(5) inv bal out gp]) (simp add: new n(6))
qed

lemma Borrow_gaps:
  assumes "ss_env k" "ss_inv k s" "a \<noteq> ss_account k" "Borrow k ctx a amount q b s = Inr t"
  shows "same_gaps k s t"
proof -
  obtain pool n where r: "GetPool s q = Some pool" "po_DepositDenom pool = Denom amount" "ss_inv k t"
    "\<And>e. module_balance k t e = module_balance k s e - (if e = Denom amount then Amount amount else 0)"
    "\<And>p. outstanding t p = outstanding s p + (if p = q then n + Amount amount else 0)"
    "\<And>p. GetPool t p = (if p = q then Some (pool\<lparr>po_NetAmount := po_NetAmount pool + n\<rparr>) else GetPool s p)"
    by (rule Borrow_effect [OF assms]) blast
  show ?thesis
    by (rule same_gaps_pool [OF assms(2) r(3,1), of "pool\<lparr>po_NetAmount := po_NetAmount pool + n\<rparr>"])
      (use other_denom [OF assms(2) r(1)] r(2) in \<open>simp_all add: r(4-6)\<close>)
qed

text \<open>What \<open>Repay\<close> does, piece by piece.\<close>

lemma Repay_effect:
  assumes "ss_env k" "ss_inv k s" "Repay k ctx a amount q b s = Inr t"
  obtains pool n debt' where "GetPool s q = Some pool" "po_DepositDenom pool = Denom amount"
    "coins_ok (sk_sdk k) [amount]" "0 \<le> n" "ss_inv k t" "debt_of k a q debt'" "debt_ok debt'"
    "let d = getDebt k ctx s a q; owed = de_InterestStacked d + n - de_InterestPaid d;
         pay = min owed (Amount amount)
     in de_Borrowed debt' = de_Borrowed d - (Amount amount - pay) \<and>
        de_InterestStacked debt' = de_InterestStacked d + n \<and>
        de_InterestPaid debt' = de_InterestPaid d + pay"
    "de_Borrowed debt' \<noteq> 0 \<Longrightarrow> getDebt k ctx t a q = debt'"
    "de_Borrowed debt' = 0 \<Longrightarrow> kv_get (ss_debts t) (GetDebtKey a q) = None"
    "\<And>p. outstanding t p = outstanding s p +
       (if p = q then (if de_Borrowed debt' = 0 then 0 else GetTotalLiablities debt') -
          GetTotalLiablities (getDebt k ctx s a q) else 0)"
    "\<And>p. GetPool t p = (if p = q then Some (pool\<lparr>po_NetAmount := po_NetAmount pool + n\<rparr>) else GetPool s p)"
    "\<And>e. module_balance k t e = module_balance k s e +
       (if e = Denom amount \<and> a \<noteq> ss_account k then Amount amount else 0)"
    "let d = getDebt k ctx s a q
     in GetInterestForPool k ctx s (de_LastInterestCalcBlock d) (de_LastInterestCalcTime d)
          (BigDecFromSDKInt (de_Borrowed d)) q = Inr n"
proof -
  note S = ss_envD(1) [OF assms(1)] and L = ss_envD(4) [OF assms(1)]
  obtain pool s0 s1 debt where p: "GetPool s q = Some pool" "po_DepositDenom pool = Denom amount"
    and pay: "ss_bank_call (BkAccToMod (sk_bank k) a ss_ModuleName [amount]) s = Inr s0"
    and u: "UpdateInterestAndGetDebt k ctx a q b s0 = Inr (s1, debt)"
    and r: "(let interestPayAmount = min (de_InterestStacked debt - de_InterestPaid debt) (Amount amount);
                 repayAmount = Amount amount - interestPayAmount;
                 debt' = debt\<lparr>de_Borrowed := de_Borrowed debt - repayAmount,
                   de_InterestPaid := de_InterestPaid debt + interestPayAmount\<rparr>
             in if de_Borrowed debt' < 0 then Inl ss_ErrNegativeBorrowed
                else rbind (SubtractPoolLiabilities k b amount s1) (\<lambda>s3.
                     if de_Borrowed debt' = 0 then DeleteDebt k debt' s3 else SetDebt k debt' s3)) = Inr t"
    using assms(3) by (auto simp: Repay_def split: option.splits if_splits)
  obtain c where c: "coins_ok (sk_sdk k) [amount]" "s0 = s\<lparr>ss_commit := c\<rparr>"
    "\<And>e. module_balance k s0 e = module_balance k s e +
       (if a = ss_account k then 0 else AmountOf (sk_sdk k) [amount] e)"
    using pay_in [OF assms(1) pay] by auto
  have inv0: "ss_inv k s0" "GetPool s0 q = Some pool" using assms(2) p(1) by (simp_all add: c(2))
  obtain n where n: "0 \<le> n" "ss_inv k s1" "debt_of k a q debt" "getDebt k ctx s1 a q = debt"
    "de_Borrowed debt = de_Borrowed (getDebt k ctx s0 a q)"
    "de_InterestPaid debt = de_InterestPaid (getDebt k ctx s0 a q)"
    "de_InterestStacked debt = de_InterestStacked (getDebt k ctx s0 a q) + n"
    "\<And>p. outstanding s1 p = outstanding s0 p + (if p = q then n else 0)"
    "\<And>p. GetPool s1 p = (if p = q then Some (pool\<lparr>po_NetAmount := po_NetAmount pool + n\<rparr>) else GetPool s0 p)"
    "ss_commit s1 = ss_commit s0" "debt_ok debt"
    "GetInterestForPool k ctx s0 (de_LastInterestCalcBlock (getDebt k ctx s0 a q))
       (de_LastInterestCalcTime (getDebt k ctx s0 a q)) (BigDecFromSDKInt (de_Borrowed debt)) q = Inr n"
    by (rule UpdateInterest_effect [OF L inv0 u]) blast
  define pay' where "pay' = min (de_InterestStacked debt - de_InterestPaid debt) (Amount amount)"
  define debt' where "debt' = debt\<lparr>de_Borrowed := de_Borrowed debt - (Amount amount - pay'),
    de_InterestPaid := de_InterestPaid debt + pay'\<rparr>"
  have d': "debt_of k a q debt'" "de_PoolId debt = q" "de_PoolId debt' = q"
    using n(3) by (simp_all add: debt_of_def debt'_def)
  have r': "(if de_Borrowed debt' < 0 then Inl ss_ErrNegativeBorrowed
      else rbind (SubtractPoolLiabilities k b amount s1) (\<lambda>s3.
           if de_Borrowed debt' = 0 then DeleteDebt k debt' s3 else SetDebt k debt' s3)) = Inr t"
    using r by (simp only: Let_def pay'_def debt'_def)
  obtain s3 where s3: "SubtractPoolLiabilities k b amount s1 = Inr s3" "0 \<le> de_Borrowed debt'"
    "(if de_Borrowed debt' = 0 then DeleteDebt k debt' s3 else SetDebt k debt' s3) = Inr t"
    using r' by (cases "de_Borrowed debt' < 0") (auto simp only: if_False if_True rbind_eq_Inr not_less sum.distinct)
  obtain A where A: "s3 = s1\<lparr>ss_amm := A\<rparr>" using SubtractPoolLiabilities_Inr [OF s3(1)] by blast
  have inv3: "ss_inv k s3" using n(2) by (simp add: A)
  have t: "t = (if de_Borrowed debt' = 0 then del_debt a q s3 else put_debt a debt' s3)"
    using s3(3) by (simp add: SetDebt_eq [OF d'(1)] DeleteDebt_eq [OF d'(1)] split: if_splits)
  have out: "outstanding t p = outstanding s p +
       (if p = q then (if de_Borrowed debt' = 0 then 0 else GetTotalLiablities debt') -
          GetTotalLiablities (getDebt k ctx s a q) else 0)" for p
  proof -
    have g: "getDebt k ctx s3 a q = debt" by (simp add: A n(4))
    have o3: "outstanding s3 p = outstanding s p + (if p = q then n else 0)" by (simp add: A n(8) c(2))
    have tot: "GetTotalLiablities debt = GetTotalLiablities (getDebt k ctx s a q) + n"
      using n(5-7) by (simp add: GetTotalLiablities_def c(2))
    have l: "liability_to p debt = (if p = q then GetTotalLiablities debt else 0)"
      "liability_to p debt' = (if p = q then GetTotalLiablities debt' else 0)"
      using d'(2,3) by (simp_all add: liability_to_def)
    show ?thesis
    proof (cases "de_Borrowed debt' = 0")
      case True
      have "outstanding t p = outstanding s3 p - liability_to p debt"
        using outstanding_del [OF inv3, of a q p ctx] True by (simp add: t g)
      then show ?thesis using True by (simp add: o3 tot l)
    next
      case False
      have "outstanding t p = outstanding s3 p + liability_to p debt' - liability_to p debt"
        using outstanding_put [OF inv3, of a debt' p ctx] False by (simp add: t g d'(3))
      then show ?thesis using False by (simp add: o3 tot l)
    qed
  qed
  have pos: "0 < Amount amount" using coins_ok_list(2) [OF S c(1)] by simp
  have f: "de_Borrowed debt' = de_Borrowed debt - (Amount amount - pay')"
    "de_InterestStacked debt' = de_InterestStacked debt"
    "de_InterestPaid debt' = de_InterestPaid debt + pay'"
    by (simp_all add: debt'_def)
  have "pay' = de_InterestStacked debt - de_InterestPaid debt \<and> pay' \<le> Amount amount \<or>
      pay' = Amount amount \<and> pay' < de_InterestStacked debt - de_InterestPaid debt"
    by (simp add: pay'_def min_def not_le)
  then have ok: "debt_ok debt'"
    using n(11) s3(2) pos unfolding debt_ok_def f by (elim disjE conjE) simp_all
  have inv: "ss_inv k t" using ss_inv_put_debt [OF inv3 d'(1) ok] ss_inv_del_debt [OF inv3] by (simp add: t)
  have bal: "module_balance k t e = module_balance k s0 e" for e
    by (simp add: t A) (simp add: module_balance_def n(10))
  have gp: "GetPool t p = (if p = q then Some (pool\<lparr>po_NetAmount := po_NetAmount pool + n\<rparr>) else GetPool s p)" for p
    by (simp add: t A n(9) c(2))
  have stored: "de_Borrowed debt' \<noteq> 0 \<Longrightarrow> getDebt k ctx t a q = debt'"
    "de_Borrowed debt' = 0 \<Longrightarrow> kv_get (ss_debts t) (GetDebtKey a q) = None"
    by (simp_all add: t d'(3)) (simp add: del_debt_def kv_get_del)
  have old: "getDebt k ctx s0 a q = getDebt k ctx s a q" by (simp add: c(2))
  have fields: "let d = getDebt k ctx s a q; owed = de_InterestStacked d + n - de_InterestPaid d;
         pay = min owed (Amount amount)
     in de_Borrowed debt' = de_Borrowed d - (Amount amount - pay) \<and>
        de_InterestStacked debt' = de_InterestStacked d + n \<and>
        de_InterestPaid debt' = de_InterestPaid d + pay"
    using n(5-7) by (simp add: f Let_def pay'_def old)
  have bal': "module_balance k t e = module_balance k s e +
       (if e = Denom amount \<and> a \<noteq> ss_account k then Amount amount else 0)" for e
    using c(3) [of e] by (simp add: bal one_coin_amount [OF S c(1)])
  have int: "let d = getDebt k ctx s a q
     in GetInterestForPool k ctx s (de_LastInterestCalcBlock d) (de_LastInterestCalcTime d)
          (BigDecFromSDKInt (de_Borrowed d)) q = Inr n"
    using n(12) by (simp add: Let_def n(5) old) (simp add: c(2))
  show thesis by (rule that [OF p c(1) n(1) inv d'(1) ok fields stored out gp bal' int])
qed

lemma Repay_gaps:
  assumes "ss_env k" "ss_inv k s" "a \<noteq> ss_account k" "Repay k ctx a amount q b s = Inr t"
  shows "same_gaps k s t"
proof -
  obtain pool n debt' where r: "GetPool s q = Some pool" "po_DepositDenom pool = Denom amount"
    "coins_ok (sk_sdk k) [amount]" "0 \<le> n" "ss_inv k t" "debt_of k a q debt'" "debt_ok debt'"
    "let d = getDebt k ctx s a q; owed = de_InterestStacked d + n - de_InterestPaid d;
         pay = min owed (Amount amount)
     in de_Borrowed debt' = de_Borrowed d - (Amount amount - pay) \<and>
        de_InterestStacked debt' = de_InterestStacked d + n \<and>
        de_InterestPaid debt' = de_InterestPaid d + pay"
    "\<And>p. outstanding t p = outstanding s p +
       (if p = q then (if de_Borrowed debt' = 0 then 0 else GetTotalLiablities debt') -
          GetTotalLiablities (getDebt k ctx s a q) else 0)"
    "\<And>p. GetPool t p = (if p = q then Some (pool\<lparr>po_NetAmount := po_NetAmount pool + n\<rparr>) else GetPool s p)"
    "\<And>e. module_balance k t e = module_balance k s e +
       (if e = Denom amount \<and> a \<noteq> ss_account k then Amount amount else 0)"
    by (rule Repay_effect [OF assms(1,2,4)]) blast
  have "(if de_Borrowed debt' = 0 then 0 else GetTotalLiablities debt') = GetTotalLiablities debt'"
    using r(7) by (simp add: debt_ok_def GetTotalLiablities_def)
  moreover have "GetTotalLiablities debt' = GetTotalLiablities (getDebt k ctx s a q) + n - Amount amount"
    using r(8) by (simp add: GetTotalLiablities_def Let_def)
  ultimately have out: "outstanding t p = outstanding s p + (if p = q then n - Amount amount else 0)" for p
    using r(9) by simp
  show ?thesis
    by (rule same_gaps_pool [OF assms(2) r(5) r(1), of "pool\<lparr>po_NetAmount := po_NetAmount pool + n\<rparr>"])
      (use other_denom [OF assms(2) r(1)] assms(3) r(2) in \<open>simp_all add: out r(10,11)\<close>)
qed

end
