(* ===== verification/StableShares.thy ===== *)
theory StableShares
  imports StableGap
begin

text \<open>
  Bonding and unbonding go through the bank and the commitment keeper; this theory shows that
  neither moves coins of the module's account beyond the deposit and the shares, and that the
  remaining operations keep the balance sheet too.
\<close>

section \<open>The commitment keeper and the module's coins\<close>

text \<open>The balances of stablestake's account in every denomination but that of a share.\<close>

definition watch :: "'e skeeper \<Rightarrow> string \<Rightarrow> (string \<Rightarrow> int) \<Rightarrow> 'e cstate \<Rightarrow> bool" where
  "watch k dn f c \<longleftrightarrow> (\<forall>d. d \<noteq> dn \<longrightarrow> BkBalance (sk_bank k) (ss_account k) d (cs_ext c) = f d)"

lemma watch_frames [simp]:
  "watch k dn f (SetParams p c) = watch k dn f c"
  "watch k dn f (put_commitments a x c) = watch k dn f c"
  by (simp_all add: watch_def)

lemma watch_hooks:
  assumes "ss_env k" "watch k dn f c"
  shows "on_ok (watch k dn f) (CommitmentChanged (sk_commitment k) a cs c)"
    and "on_ok (watch k dn f) (EdenUncommitted (sk_commitment k) a co c)"
    and "on_ok (watch k dn f) (hook_call (sk_commitment k) (\<lambda>h. hk_BeforeEdenCommitChange h a) c)"
    and "on_ok (watch k dn f) (hook_call (sk_commitment k) (\<lambda>h. hk_BeforeEdenBCommitChange h a) c)"
proof -
  let ?P = "\<lambda>c'. \<forall>d. BkBalance (sk_bank k) (ss_account k) d (cs_ext c') =
    BkBalance (sk_bank k) (ss_account k) d (cs_ext c)"
  have h: "hooks_inv (sk_commitment k) ?P"
    using assms(1) by (simp add: ss_env_def)
  have P: "?P c" by simp
  have w: "watch k dn f t" if "?P t" for t using assms(2) that by (simp add: watch_def)
  show "on_ok (watch k dn f) (CommitmentChanged (sk_commitment k) a cs c)"
    by (rule on_okI) (rule w, rule hooks_invD(1) [OF h P])
  show "on_ok (watch k dn f) (EdenUncommitted (sk_commitment k) a co c)"
    by (rule on_okI) (rule w, rule hooks_invD(2) [OF h P])
  show "on_ok (watch k dn f) (hook_call (sk_commitment k) (\<lambda>h. hk_BeforeEdenCommitChange h a) c)"
    by (rule on_okI) (rule w, rule hooks_invD(5) [OF h P])
  show "on_ok (watch k dn f) (hook_call (sk_commitment k) (\<lambda>h. hk_BeforeEdenBCommitChange h a) c)"
    by (rule on_okI) (rule w, rule hooks_invD(6) [OF h P])
qed

lemma watch_bank:
  assumes "ss_env k" "watch k dn f c" "\<forall>d. d \<noteq> dn \<longrightarrow> AmountOf (sk_sdk k) cs d = 0"
  shows "on_ok (watch k dn f) (bank_call (BkAccToMod (sk_bank k) a m cs) c)"
    and "on_ok (watch k dn f) (or_insufficient (bank_call (BkAccToMod (sk_bank k) a m cs) c))"
    and "on_ok (watch k dn f) (bank_call (BkModToAcc (sk_bank k) m a cs) c)"
proof -
  note B = ss_envD(2) [OF assms(1)] and V = ss_envD(3) [OF assms(1), unfolded bank_valid_laws_def]
  show 1: "on_ok (watch k dn f) (bank_call (BkAccToMod (sk_bank k) a m cs) c)"
  proof (rule on_okI)
    fix t
    assume "bank_call (BkAccToMod (sk_bank k) a m cs) c = Inr t"
    then obtain e where e: "BkAccToMod (sk_bank k) a m cs (cs_ext c) = Inr e" "t = c\<lparr>cs_ext := e\<rparr>"
      by (auto simp: bank_call_Inr)
    have "coins_ok (sk_sdk k) cs" using V e(1) by blast
    from BkAccToMod_balance [OF B this e(1)] show "watch k dn f t"
      using assms(2,3) by (auto simp: watch_def e(2) moved_def)
  qed
  then show "on_ok (watch k dn f) (or_insufficient (bank_call (BkAccToMod (sk_bank k) a m cs) c))"
    by (auto simp: on_ok_def or_insufficient_def split: sum.splits err.splits)
  show "on_ok (watch k dn f) (bank_call (BkModToAcc (sk_bank k) m a cs) c)"
  proof (rule on_okI)
    fix t
    assume "bank_call (BkModToAcc (sk_bank k) m a cs) c = Inr t"
    then obtain e where e: "BkModToAcc (sk_bank k) m a cs (cs_ext c) = Inr e" "t = c\<lparr>cs_ext := e\<rparr>"
      by (auto simp: bank_call_Inr)
    have "coins_ok (sk_sdk k) cs" using V e(1) by blast
    from BkModToAcc_balance [OF B this e(1)] show "watch k dn f t"
      using assms(2,3) by (auto simp: watch_def e(2) moved_def)
  qed
qed

lemma watch_bind:
  "on_ok (watch k dn f) m \<Longrightarrow> (\<And>c. watch k dn f c \<Longrightarrow> on_ok R (g c)) \<Longrightarrow> on_ok R (rbind m g)"
  by (auto simp: on_ok_def)

lemma watch_set: "watch k dn f c \<Longrightarrow> on_ok (watch k dn f) (SetCommitments (sk_commitment k) x c)"
  by (auto simp: on_ok_def SetCommitments_Inr)

text \<open>A coin set made of one coin has no other denomination.\<close>

lemma NewCoins_one:
  assumes "sdk_laws S" "NewCoin S d a = Inr c" "NewCoins S [c] = Inr cs"
  shows "coins_ok S cs \<and> (\<forall>d'. AmountOf S cs d' = (if d' = d then a else 0)) \<and> denom_ok S d \<and> 0 \<le> a"
proof -
  have c: "denom_ok S d" "0 \<le> a" "c = \<lparr>Denom = d, Amount = a\<rparr>" using assms(2) NewCoin_Inr [OF assms(1)] by auto
  then have "cs = (if a = 0 then [] else [c])" using assms(3) NewCoins_single [OF assms(1) c(1,2)] by auto
  then show ?thesis
    using c coins_ok_Nil [OF assms(1)] AmountOf_Nil [OF assms(1)] coins_ok_single [OF assms(1)]
      AmountOf_single [OF assms(1)] by auto
qed

lemma CommitLiquidTokens_watch:
  assumes "ss_env k" "watch k denom f c"
  shows "on_ok (watch k denom f) (CommitLiquidTokens (sk_commitment k) ctx a denom amount lockUntil c)"
proof -
  note S = ss_envD(1) [OF assms(1)]
  have one: "\<forall>d. d \<noteq> denom \<longrightarrow> AmountOf (sk_sdk k) cs d = 0"
    if "NewCoin (sk_sdk k) denom amount = Inr co" "NewCoins (sk_sdk k) [co] = Inr cs" for co cs
    using NewCoins_one [OF S that] by simp
  have step: "on_ok (watch k denom f) (rbind (SetCommitments (sk_commitment k) x (SetParams p s1))
      (CommitmentChanged (sk_commitment k) a cs))" if "watch k denom f s1" for x p cs s1
    by (rule watch_bind, rule watch_set) (use that watch_hooks [OF assms(1)] in simp_all)
  show ?thesis
    unfolding CommitLiquidTokens_def Let_def
    by (rule on_ok_option on_ok_if on_ok_Inl on_ok_rbind [where m = "NewCoin _ _ _"] on_ok_rbind [where m = "NewCoins _ _"]
        watch_bind watch_bank(2) [OF assms] one step | assumption | simp)+
qed

lemma withdraw_amounts:
  assumes "sdk_laws S" "NewCoin S denom amount = Inr coin" "NewCoins S [coin] = Inr lc"
    and "NewCoin S Eden (AmountOf S lc Eden) = Inr ec" "NewCoin S EdenB (AmountOf S lc EdenB) = Inr bc"
    and "CoinsSub S lc [ec] = Inr w1" "CoinsSub S w1 [bc] = Inr w"
  shows "\<forall>d. d \<noteq> denom \<longrightarrow> AmountOf S w d = 0"
proof -
  have lc: "coins_ok S lc" "\<And>d. AmountOf S lc d = (if d = denom then amount else 0)"
    using NewCoins_one [OF assms(1-3)] by auto
  have ec: "denom_ok S Eden" "0 \<le> AmountOf S lc Eden" "ec = \<lparr>Denom = Eden, Amount = AmountOf S lc Eden\<rparr>"
    and bc: "denom_ok S EdenB" "0 \<le> AmountOf S lc EdenB" "bc = \<lparr>Denom = EdenB, Amount = AmountOf S lc EdenB\<rparr>"
    using assms(4,5) NewCoin_Inr [OF assms(1)] by auto
  have w1: "coins_ok S w1 \<and> (\<forall>d. AmountOf S w1 d = AmountOf S lc d - (if d = Eden then AmountOf S lc Eden else 0))"
    by (rule CoinsSub1 [OF assms(1) lc(1) ec(1,2) order_refl]) (use assms(6) ec(3) in auto)
  have le: "AmountOf S lc EdenB \<le> AmountOf S w1 EdenB" using w1 by (simp add: Eden_def EdenB_def)
  have "\<forall>d. AmountOf S w d = AmountOf S w1 d - (if d = EdenB then AmountOf S lc EdenB else 0)"
    by (rule CoinsSub1 [OF assms(1) conjunct1 [OF w1] bc(1,2) le]) (use assms(7) bc(3) in auto)
  then show ?thesis using w1 lc(2) by simp
qed

lemma UncommitTokens_watch:
  assumes "ss_env k" "watch k denom f c"
  shows "on_ok (watch k denom f) (UncommitTokens (sk_commitment k) ctx a denom amount liq c)"
proof -
  note S = ss_envD(1) [OF assms(1)]
  have same: "on_ok (watch k denom f) (Inr c')" if "watch k denom f c'" for c' using that by simp
  have last: "on_ok (watch k denom f) (if denom = Eden then EdenUncommitted (sk_commitment k) a co (SetParams p c') else Inr (SetParams p c'))"
    if "watch k denom f c'" for c' p co
    by (rule on_ok_if, rule watch_hooks(2) [OF assms(1)]) (use that in simp_all)
  have pay: "on_ok (watch k denom f) (if w \<noteq> [] then bank_call (BkModToAcc (sk_bank k) m a w) c' else Inr c')"
    if "watch k denom f c'" "\<forall>d. d \<noteq> denom \<longrightarrow> AmountOf (sk_sdk k) w d = 0" for c' w m
    using that watch_bank(3) [OF assms(1) that] by simp
  show ?thesis
    unfolding UncommitTokens_def Let_def
    by (rule on_ok_option on_ok_Inl watch_bind [where m = "if _ = Eden then _ else _"]
        watch_bind [where m = "if _ = EdenB then _ else _"] watch_bind [where m = "SetCommitments _ _ _"]
        watch_bind [where m = "CommitmentChanged _ _ _ _"] watch_bind [where m = "if _ \<noteq> [] then _ else _"]
        last pay on_ok_if on_ok_rbind same watch_set watch_hooks [OF assms(1)] assms(2) | assumption
        | erule (5) withdraw_amounts [OF S])+
qed

section \<open>Bonding and unbonding\<close>

lemma watch_mint:
  assumes "ss_env k" "watch k dn f c" "coins_ok (sk_sdk k) cs" "\<forall>d. d \<noteq> dn \<longrightarrow> AmountOf (sk_sdk k) cs d = 0"
  shows "on_ok (watch k dn f) (bank_call (BkMint (sk_bank k) m cs) c)"
    and "on_ok (watch k dn f) (bank_call (BkBurn (sk_bank k) m cs) c)"
  using assms(2,4) BkMint_balance [OF ss_envD(2) [OF assms(1)] assms(3)]
    BkBurn_balance [OF ss_envD(2) [OF assms(1)] assms(3)]
  by (auto simp: on_ok_def bank_call_Inr watch_def)

lemma ensure_entry_watch:
  assumes "ss_env k" "watch k dn f (ss_commit s)" "ensure_entry k sd dd s = Inr t"
  shows "\<exists>c. t = s\<lparr>ss_commit := c\<rparr> \<and> watch k dn f c"
proof (cases "k_GetEntry (sk_commitment k) (ss_ext s) sd")
  case None
  have e: "BkBalance (sk_bank k) (ss_account k) d (sk_SetEntry k x e) = BkBalance (sk_bank k) (ss_account k) d e" for d x e
    using assms(1) by (simp add: ss_env_def)
  show ?thesis
    using None assms(2,3) by (auto simp: ensure_entry_def ss_bank_call_Inr watch_def e split: option.splits)
next
  case (Some y)
  then have "t = s\<lparr>ss_commit := ss_commit s\<rparr>" using assms(3) by (simp add: ensure_entry_def)
  then show ?thesis using assms(2) by blast
qed

text \<open>A step on the commitment module's state that keeps watch.\<close>

lemma watch_step:
  assumes "ss_commit_call g s = Inr t" "on_ok (watch k dn f) (g (ss_commit s))"
  shows "\<exists>c. t = s\<lparr>ss_commit := c\<rparr> \<and> watch k dn f c"
  using assms by (auto simp: ss_commit_call_Inr on_ok_def)

lemma hook_quiet:
  assumes "ss_env k" "ss_hook_call k g s = Inr t"
    and "\<And>h. hooks_quiet k h \<Longrightarrow>
      keeps (\<lambda>u. ss_debts u = ss_debts s \<and> ss_pools u = ss_pools s \<and> (\<forall>d. module_balance k u d = module_balance k s d)) (g h)"
  shows "ss_debts t = ss_debts s \<and> ss_pools t = ss_pools s \<and> (\<forall>d. module_balance k t d = module_balance k s d)"
proof (cases "sk_hooks k")
  case None
  then show ?thesis using assms(2) by (simp add: ss_hook_call_def)
next
  case (Some h)
  have q: "hooks_quiet k h" using assms(1) Some by (simp add: ss_env_def)
  have "g h s = Inr t" using assms(2) Some by (simp add: ss_hook_call_def)
  from keepsD [OF assms(3) [OF q] _ this] show ?thesis by simp
qed

lemma stable_hooks_quiet:
  assumes "ss_env k"
  shows "ss_hook_call k (\<lambda>h. sh_AfterBond h a n p) s = Inr t \<Longrightarrow>
      ss_debts t = ss_debts s \<and> ss_pools t = ss_pools s \<and> (\<forall>d. module_balance k t d = module_balance k s d)"
    and "ss_hook_call k (\<lambda>h. sh_AfterUnbond h a n p) s = Inr t \<Longrightarrow>
      ss_debts t = ss_debts s \<and> ss_pools t = ss_pools s \<and> (\<forall>d. module_balance k t d = module_balance k s d)"
  by (rule hook_quiet [OF assms], assumption, simp add: hooks_quiet_def)+

definition plain_denoms :: "'e sstate \<Rightarrow> bool" where
  "plain_denoms s \<longleftrightarrow> (\<forall>i pool q. GetPool s i = Some pool \<longrightarrow> po_DepositDenom pool \<noteq> GetShareDenomForPool q)"

text \<open>What bonding leaves: the pool's net amount and the module's coins of the deposit
  denomination grow by the deposit.\<close>

lemma Bond_effect:
  assumes "ss_env k" "msg_Bond k ctx msg_Creator amt q s = Inr t"
  obtains pool creator where "GetPool s q = Some pool"
    "MustAccAddress (sk_sdk k) msg_Creator = Inr creator" "0 < amt"
    "po_NetAmount pool + amt \<le> GetMaxBondableAmount k s (po_DepositDenom pool)"
    "ss_debts t = ss_debts s"
    "ss_pools t = ss_pools (SetPool (pool\<lparr>po_NetAmount := po_NetAmount pool + amt\<rparr>) s)"
    "\<And>d. d \<noteq> GetShareDenomForPool (po_Id pool) \<Longrightarrow> module_balance k t d = module_balance k s d +
       (if d = po_DepositDenom pool \<and> creator \<noteq> ss_account k then amt else 0)"
proof -
  note S = ss_envD(1) [OF assms(1)]
  obtain pool creator dc s1 rate shares sc scs s2 s3 s4 s5 where
    p: "GetPool s q = Some pool" "MustAccAddress (sk_sdk k) msg_Creator = Inr creator"
      "po_NetAmount pool + amt \<le> GetMaxBondableAmount k s (po_DepositDenom pool)"
      "NewCoin (sk_sdk k) (po_DepositDenom pool) amt = Inr dc"
    and s1: "ss_bank_call (BkAccToMod (sk_bank k) creator ss_ModuleName [dc]) s = Inr s1"
    and sc: "NewCoin (sk_sdk k) (GetShareDenomForPool (po_Id pool))
        (DRoundInt (k_dec (sk_commitment k)) (BDec (sk_big k) shares)) = Inr sc"
      "NewCoins (sk_sdk k) [sc] = Inr scs"
    and s2: "ss_bank_call (BkMint (sk_bank k) ss_ModuleName scs) s1 = Inr s2"
    and s3: "ss_bank_call (BkModToAcc (sk_bank k) ss_ModuleName creator scs) s2 = Inr s3"
    and s4: "ensure_entry k (GetShareDenomForPool (po_Id pool)) (po_DepositDenom pool) s3 = Inr s4"
    and s5: "ss_commit_call (CommitLiquidTokens (sk_commitment k) ctx creator (GetShareDenomForPool (po_Id pool))
        (DRoundInt (k_dec (sk_commitment k)) (BDec (sk_big k) shares)) 0) s4 = Inr s5"
    and t: "ss_hook_call k (\<lambda>h. sh_AfterBond h creator
        (DRoundInt (k_dec (sk_commitment k)) (BDec (sk_big k) shares)) (po_Id pool))
        (SetPool (pool\<lparr>po_NetAmount := po_NetAmount pool + amt\<rparr>) s5) = Inr t"
    using assms(2) by (auto simp: msg_Bond_def Let_def not_less split: option.splits if_splits)
  have dc: "dc = \<lparr>Denom = po_DepositDenom pool, Amount = amt\<rparr>" using p(4) NewCoin_Inr [OF S] by blast
  have in1: "coins_ok (sk_sdk k) [dc]" "\<exists>c. s1 = s\<lparr>ss_commit := c\<rparr>"
    "\<And>d. module_balance k s1 d = module_balance k s d +
       (if creator = ss_account k then 0 else AmountOf (sk_sdk k) [dc] d)"
    using pay_in [OF assms(1) s1] by blast+
  have amt: "0 < amt" using coins_ok_list(2) [OF S in1(1), of dc] by (simp add: dc)
  define sd where "sd = GetShareDenomForPool (po_Id pool)"
  define f where "f d = module_balance k s1 d" for d
  have scs: "coins_ok (sk_sdk k) scs" "\<forall>d. d \<noteq> sd \<longrightarrow> AmountOf (sk_sdk k) scs d = 0"
    using NewCoins_one [OF S sc] by (auto simp: sd_def)
  have w1: "watch k sd f (ss_commit s1)" by (simp add: watch_def f_def module_balance_alt)
  obtain c2 where c2: "s2 = s1\<lparr>ss_commit := c2\<rparr>" "watch k sd f c2"
    using watch_step [OF s2 [unfolded ss_bank_call_def] watch_mint(1) [OF assms(1) w1 scs]] by blast
  then have w2: "watch k sd f (ss_commit s2)" by simp
  obtain c3 where c3: "s3 = s2\<lparr>ss_commit := c3\<rparr>" "watch k sd f c3"
    using watch_step [OF s3 [unfolded ss_bank_call_def] watch_bank(3) [OF assms(1) w2 scs(2)]] by blast
  then have w3: "watch k sd f (ss_commit s3)" by simp
  obtain c4 where c4: "s4 = s3\<lparr>ss_commit := c4\<rparr>" "watch k sd f c4"
    using ensure_entry_watch [OF assms(1) w3 s4] by blast
  then have w4: "watch k sd f (ss_commit s4)" by simp
  obtain c5 where c5: "s5 = s4\<lparr>ss_commit := c5\<rparr>" "watch k sd f c5"
    using watch_step [OF s5 [folded sd_def] CommitLiquidTokens_watch [OF assms(1) w4]] by blast
  note q = stable_hooks_quiet(1) [OF assms(1) t]
  obtain c1 where c1: "s1 = s\<lparr>ss_commit := c1\<rparr>" using in1(2) by blast
  have st: "s5 = s\<lparr>ss_commit := c5\<rparr>" by (simp add: c5(1) c4(1) c3(1) c2(1) c1)
  have bal: "module_balance k t d = module_balance k s d +
       (if d = po_DepositDenom pool \<and> creator \<noteq> ss_account k then amt else 0)" if "d \<noteq> sd" for d
  proof -
    have "module_balance k t d = f d" using q c5(2) that by (simp add: watch_def module_balance_alt c5(1))
    then show ?thesis using in1(3) [of d] one_coin_amount [OF S in1(1), of d] by (auto simp: f_def dc)
  qed
  show thesis
    by (rule that [OF p(1,2) amt p(3)]) (use q bal in \<open>simp_all add: st SetPool_def sd_def\<close>)
qed

text \<open>What unbonding leaves: both fall by the redeemed amount.\<close>

lemma Unbond_effect:
  assumes "ss_env k" "plain_denoms s" "msg_Unbond k ctx msg_Creator amt q s = Inr t"
  obtains pool creator r rate where "GetPool s q = Some pool"
    "MustAccAddress (sk_sdk k) msg_Creator = Inr creator"
    "CalculateRedemptionRateForPool k s pool = Inr rate"
    "r = DRoundInt (k_dec (sk_commitment k)) (BDec (sk_big k) (BMul (sk_big k) (BigDecFromSDKInt amt) rate))"
    "0 < r" "r \<le> module_balance k s (po_DepositDenom pool)"
    "module_balance k s (po_DepositDenom pool) \<le> po_NetAmount pool"
    "module_balance k s (po_DepositDenom pool) < po_NetAmount pool \<longrightarrow>
      (\<exists>ratio. BQuo (sk_big k) (BigDecFromSDKInt (po_NetAmount pool - module_balance k s (po_DepositDenom pool)))
         (BigDecFromSDKInt (po_NetAmount pool - r)) = Inr ratio \<and> ratio \<le> BigDecFromDec (po_MaxWithdrawRatio pool))"
    "ss_debts t = ss_debts s"
    "ss_pools t = ss_pools (SetPool (pool\<lparr>po_NetAmount := po_NetAmount pool - r\<rparr>) s)"
    "\<And>d. d \<noteq> GetShareDenomForPool (po_Id pool) \<Longrightarrow> module_balance k t d = module_balance k s d -
       (if d = po_DepositDenom pool \<and> creator \<noteq> ss_account k then r else 0)"
proof -
  note S = ss_envD(1) [OF assms(1)]
  define R where "R rate x = DRoundInt (k_dec (sk_commitment k)) (BDec (sk_big k) (BMul (sk_big k) (BigDecFromSDKInt x) rate))" for rate x
  define sd :: "Pool \<Rightarrow> string" where "sd pool = GetShareDenomForPool (po_Id pool)" for pool
  obtain pool creator rate s1 sc scs s2 s3 rc s4 where
    p: "GetPool s q = Some pool" "MustAccAddress (sk_sdk k) msg_Creator = Inr creator"
      "CalculateRedemptionRateForPool k s pool = Inr rate"
    and s1: "ss_commit_call (UncommitTokens (sk_commitment k) ctx creator (sd pool) amt False) s = Inr s1"
    and sc: "NewCoin (sk_sdk k) (sd pool) amt = Inr sc" "NewCoins (sk_sdk k) [sc] = Inr scs"
    and s2: "ss_bank_call (BkAccToMod (sk_bank k) creator ss_ModuleName scs) s1 = Inr s2"
    and s3: "ss_bank_call (BkBurn (sk_bank k) ss_ModuleName scs) s2 = Inr s3"
    and rt: "module_balance k s3 (po_DepositDenom pool) \<le> po_NetAmount pool"
      "module_balance k s3 (po_DepositDenom pool) < po_NetAmount pool \<longrightarrow>
      (\<exists>ratio. BQuo (sk_big k) (BigDecFromSDKInt (po_NetAmount pool - module_balance k s3 (po_DepositDenom pool)))
         (BigDecFromSDKInt (po_NetAmount pool - R rate (Amount sc))) = Inr ratio \<and> ratio \<le> BigDecFromDec (po_MaxWithdrawRatio pool))"
    and rc: "NewCoin (sk_sdk k) (po_DepositDenom pool) (R rate (Amount sc)) = Inr rc"
    and s4: "ss_bank_call (BkModToAcc (sk_bank k) ss_ModuleName creator [rc]) s3 = Inr s4"
    and t: "ss_hook_call k (\<lambda>h. sh_AfterUnbond h creator amt (po_Id pool))
        (SetPool (pool\<lparr>po_NetAmount := po_NetAmount pool - R rate (Amount sc)\<rparr>) s4) = Inr t"
    using assms(3)
    by (auto simp: msg_Unbond_def Let_def not_less sd_def [symmetric] R_def [symmetric] split: option.splits if_splits)
  have sc': "Amount sc = amt" using sc(1) NewCoin_Inr [OF S] by auto
  define r where "r = R rate amt"
  have rc': "rc = \<lparr>Denom = po_DepositDenom pool, Amount = r\<rparr>"
    using rc NewCoin_Inr [OF S] by (simp add: sc' r_def)
  define f where "f d = module_balance k s d" for d
  have plain: "po_DepositDenom pool \<noteq> sd pool" using assms(2) p(1) by (simp add: plain_denoms_def sd_def)
  have scs: "coins_ok (sk_sdk k) scs" "\<forall>d. d \<noteq> sd pool \<longrightarrow> AmountOf (sk_sdk k) scs d = 0"
    using NewCoins_one [OF S sc] by auto
  have w: "watch k (sd pool) f (ss_commit s)" by (simp add: watch_def f_def module_balance_alt)
  obtain c1 where c1: "s1 = s\<lparr>ss_commit := c1\<rparr>" "watch k (sd pool) f c1"
    using watch_step [OF s1 UncommitTokens_watch [OF assms(1) w]] by blast
  then have w1: "watch k (sd pool) f (ss_commit s1)" by simp
  obtain c2 where c2: "s2 = s1\<lparr>ss_commit := c2\<rparr>" "watch k (sd pool) f c2"
    using watch_step [OF s2 [unfolded ss_bank_call_def] watch_bank(1) [OF assms(1) w1 scs(2)]] by blast
  then have w2: "watch k (sd pool) f (ss_commit s2)" by simp
  obtain c3 where c3: "s3 = s2\<lparr>ss_commit := c3\<rparr>" "watch k (sd pool) f c3"
    using watch_step [OF s3 [unfolded ss_bank_call_def] watch_mint(2) [OF assms(1) w2 scs]] by blast
  have b3: "module_balance k s3 d = module_balance k s d" if "d \<noteq> sd pool" for d
    using c3 that by (simp add: watch_def module_balance_alt f_def)
  have out: "coins_ok (sk_sdk k) [rc]" "\<exists>c. s4 = s3\<lparr>ss_commit := c\<rparr>"
    "0 < AmountOf (sk_sdk k) [rc] (Denom rc) \<Longrightarrow> AmountOf (sk_sdk k) [rc] (Denom rc) \<le> module_balance k s3 (Denom rc)"
    "\<And>d. module_balance k s4 d = module_balance k s3 d - (if creator = ss_account k then 0 else AmountOf (sk_sdk k) [rc] d)"
    using pay_out [OF assms(1) s4] by blast+
  have r: "0 < r" using coins_ok_list(2) [OF S out(1), of rc] by (simp add: rc')
  have r_le: "r \<le> module_balance k s (po_DepositDenom pool)"
    using out(3) b3 [OF plain] one_coin_amount [OF S out(1), of "Denom rc"] r by (simp add: rc')
  obtain c4 where c4: "s4 = s3\<lparr>ss_commit := c4\<rparr>" using out(2) by blast
  have st: "s4 = s\<lparr>ss_commit := c4\<rparr>" by (simp add: c4(1) c3(1) c2(1) c1(1))
  note q = stable_hooks_quiet(2) [OF assms(1) t]
  have bal: "module_balance k t d = module_balance k s d -
       (if d = po_DepositDenom pool \<and> creator \<noteq> ss_account k then r else 0)"
    if "d \<noteq> GetShareDenomForPool (po_Id pool)" for d
  proof -
    have "module_balance k t d = module_balance k s4 d" using q by simp
    moreover have "Amount rc = r" "Denom rc = po_DepositDenom pool" by (simp_all add: rc')
    ultimately show ?thesis
      using out(4) [of d] b3 [of d] that one_coin_amount [OF S out(1), of d] by (auto simp: sd_def)
  qed
  have pools: "ss_debts t = ss_debts s"
    "ss_pools t = ss_pools (SetPool (pool\<lparr>po_NetAmount := po_NetAmount pool - r\<rparr>) s)"
    using q by (simp_all add: st SetPool_def r_def sc')
  show thesis
    by (rule that [OF p(1-3) r_def [unfolded R_def] r r_le rt [unfolded b3 [OF plain] sc', folded r_def] pools bal])
qed

section \<open>The balance sheet, for the remaining operations\<close>

lemma same_store:
  assumes "ss_debts t = ss_debts s" "ss_pools t = ss_pools s"
  shows "ss_inv k t = ss_inv k s" "GetPool t p = GetPool s p" "outstanding t p = outstanding s p"
  using assms by (simp_all add: ss_inv_def GetPool_def outstanding_def)

lemma Bond_gaps:
  assumes "ss_env k" "ss_inv k s" "plain_denoms s" "msg_Bond k ctx msg_Creator amt q s = Inr t"
    and "MustAccAddress (sk_sdk k) msg_Creator \<noteq> Inr (ss_account k)"
  shows "same_gaps k s t"
proof -
  obtain pool creator where e: "GetPool s q = Some pool"
    "MustAccAddress (sk_sdk k) msg_Creator = Inr creator"
    "ss_debts t = ss_debts s"
    "ss_pools t = ss_pools (SetPool (pool\<lparr>po_NetAmount := po_NetAmount pool + amt\<rparr>) s)"
    "\<And>d. d \<noteq> GetShareDenomForPool (po_Id pool) \<Longrightarrow> module_balance k t d = module_balance k s d +
       (if d = po_DepositDenom pool \<and> creator \<noteq> ss_account k then amt else 0)"
    by (rule Bond_effect [OF assms(1,4)]) blast
  note id = ss_inv_id [OF assms(2) e(1)]
  let ?u = "SetPool (pool\<lparr>po_NetAmount := po_NetAmount pool + amt\<rparr>) s"
  have u: "ss_debts t = ss_debts ?u" "ss_pools t = ss_pools ?u" using e(3,4) by simp_all
  have inv: "ss_inv k ?u" by (rule ss_inv_SetPool [OF assms(2), where old = pool]) (simp_all add: id e(1))
  have bal: "GetPool s p = Some r \<Longrightarrow> module_balance k t (po_DepositDenom r) = module_balance k s (po_DepositDenom r) +
      (if po_DepositDenom r = po_DepositDenom pool then amt else 0)" for p r
    using e(2,5) assms(3,5) by (auto simp: plain_denoms_def)
  show ?thesis
    by (rule same_gaps_pool [OF assms(2) inv [folded same_store(1) [OF u]] e(1), of "pool\<lparr>po_NetAmount := po_NetAmount pool + amt\<rparr>"])
      (use other_denom [OF assms(2) e(1)] bal [OF e(1)] in \<open>simp_all add: same_store [OF u] GetPool_SetPool id bal\<close>)
qed

lemma Unbond_gaps:
  assumes "ss_env k" "ss_inv k s" "plain_denoms s" "msg_Unbond k ctx msg_Creator amt q s = Inr t"
    and "MustAccAddress (sk_sdk k) msg_Creator \<noteq> Inr (ss_account k)"
  shows "same_gaps k s t"
proof -
  obtain pool creator n where e: "GetPool s q = Some pool"
    "MustAccAddress (sk_sdk k) msg_Creator = Inr creator"
    "ss_debts t = ss_debts s"
    "ss_pools t = ss_pools (SetPool (pool\<lparr>po_NetAmount := po_NetAmount pool - n\<rparr>) s)"
    "\<And>d. d \<noteq> GetShareDenomForPool (po_Id pool) \<Longrightarrow> module_balance k t d = module_balance k s d -
       (if d = po_DepositDenom pool \<and> creator \<noteq> ss_account k then n else 0)"
    by (rule Unbond_effect [OF assms(1,3,4)]) blast
  note id = ss_inv_id [OF assms(2) e(1)]
  let ?u = "SetPool (pool\<lparr>po_NetAmount := po_NetAmount pool - n\<rparr>) s"
  have u: "ss_debts t = ss_debts ?u" "ss_pools t = ss_pools ?u" using e(3,4) by simp_all
  have inv: "ss_inv k ?u" by (rule ss_inv_SetPool [OF assms(2), where old = pool]) (simp_all add: id e(1))
  have bal: "GetPool s p = Some r \<Longrightarrow> module_balance k t (po_DepositDenom r) = module_balance k s (po_DepositDenom r) -
      (if po_DepositDenom r = po_DepositDenom pool then n else 0)" for p r
    using e(2,5) assms(3,5) by (auto simp: plain_denoms_def)
  show ?thesis
    by (rule same_gaps_pool [OF assms(2) inv [folded same_store(1) [OF u]] e(1), of "pool\<lparr>po_NetAmount := po_NetAmount pool - n\<rparr>"])
      (use other_denom [OF assms(2) e(1)] bal [OF e(1)] in \<open>simp_all add: same_store [OF u] GetPool_SetPool id bal\<close>)
qed

end
