(* ===== verification/StableRun.thy ===== *)
theory StableRun
  imports StableShares
begin

text \<open>
  The remaining operations of the lending pools and runs of all of them: the begin blocker, the
  pool messages, and the forced close, which is the one that moves the balance sheet.
\<close>

section \<open>Changes of a pool's terms\<close>

lemma same_gaps_SetPool:
  assumes "ss_inv k s" "GetPool s (po_Id pool) = Some old"
    and "po_DepositDenom pool = po_DepositDenom old" "po_NetAmount pool = po_NetAmount old"
  shows "same_gaps k s (SetPool pool s)"
  by (rule same_gaps_pool [OF assms(1) ss_inv_SetPool [OF assms(1-3)] assms(2), of pool])
    (use assms in \<open>simp_all add: GetPool_SetPool\<close>)

lemma same_gaps_other:
  assumes "ss_inv k s"
  shows "same_gaps k s (s\<lparr>ss_interest := i\<rparr>)" "same_gaps k s (s\<lparr>ss_params := p\<rparr>)"
  using assms by (simp_all add: same_gaps_def pool_gap_def split: option.split)

lemma UpdatePool_gaps:
  assumes "ss_inv k s" "msg_UpdatePool k a q msg s = Inr t"
  shows "same_gaps k s t"
proof -
  obtain pool where p: "GetPool s q = Some pool"
    using assms(2) by (auto simp: msg_UpdatePool_def split: option.splits if_splits)
  note id = ss_inv_id [OF assms(1) p]
  show ?thesis
    using assms(2) p
    by (auto simp: msg_UpdatePool_def id split: if_splits intro!: same_gaps_SetPool [OF assms(1), where old = pool])
qed

section \<open>The begin blocker\<close>

lemma SetInterest_sel:
  "ss_debts (SetInterestForPool i s) = ss_debts s" "ss_pools (SetInterestForPool i s) = ss_pools s"
  "ss_commit (SetInterestForPool i s) = ss_commit s"
  by (simp_all add: SetInterestForPool_def Let_def split: option.splits)

lemma SetInterest_upd: "\<exists>i'. SetInterestForPool i s = s\<lparr>ss_interest := i'\<rparr>"
  by (simp add: SetInterestForPool_def Let_def split: option.splits) blast

lemma GetPool_SetInterest [simp]: "GetPool (SetInterestForPool i s) p = GetPool s p"
  by (simp add: GetPool_def SetInterest_sel)

text \<open>The loop writes every pool of its list once: the list still shows the store's pools.\<close>

definition listed :: "Pool list \<Rightarrow> 'e sstate \<Rightarrow> bool" where
  "listed ps s \<longleftrightarrow> distinct (map po_Id ps) \<and> (\<forall>pool\<in>set ps. GetPool s (po_Id pool) = Some pool)"

lemma listed_all: "ss_inv k s \<Longrightarrow> listed (GetAllPools s) s"
proof -
  assume inv: "ss_inv k s"
  note ok = ss_invD(2) [OF inv]
  have mem: "(i, p) \<in> set (ss_pools s) \<Longrightarrow> GetPool s i = Some p \<and> po_Id p = i" for i p
    using kv_get_mem [OF ok, of i p] ss_inv_id [OF inv] by (simp add: GetPool_def)
  then have "map po_Id (GetAllPools s) = map fst (ss_pools s)"
    by (auto simp: GetAllPools_def)
  then have "distinct (map po_Id (GetAllPools s))" using kv_ok_distinct [OF ok] by simp
  moreover have "GetPool s (po_Id p) = Some p" if "p \<in> set (GetAllPools s)" for p
    using that mem by (auto simp: GetAllPools_def)
  ultimately show "listed (GetAllPools s) s" by (simp add: listed_def)
qed

lemma listed_step:
  assumes "listed (pool # ps) s" "po_Id pool' = po_Id pool"
  shows "listed ps (SetInterestForPool i (SetPool pool' s))"
  unfolding listed_def
proof (intro conjI ballI)
  show "distinct (map po_Id ps)" using assms(1) by (simp add: listed_def)
  fix r
  assume r: "r \<in> set ps"
  then have "po_Id r \<noteq> po_Id pool" "GetPool s (po_Id r) = Some r"
    using assms(1) by (force simp: listed_def)+
  then show "GetPool (SetInterestForPool i (SetPool pool' s)) (po_Id r) = Some r"
    by (simp add: GetPool_SetPool assms(2))
qed

lemma update_interest_gaps:
  "ss_inv k s \<Longrightarrow> listed ps s \<Longrightarrow> update_interest k ctx ps s = Inr t \<Longrightarrow> same_gaps k s t"
proof (induction ps arbitrary: s)
  case Nil
  then show ?case by (simp add: same_gaps_refl)
next
  case (Cons pool ps)
  obtain rate where rate: "InterestRateComputationForPool k s pool = Inr rate"
    using Cons.prems(3) by auto
  define pool' where "pool' = pool\<lparr>po_InterestRate := BDec (sk_big k) rate\<rparr>"
  define ib where "ib = \<lparr>ib_InterestRate = po_InterestRate pool', ib_BlockTime = Unix (BlockTime ctx),
    ib_BlockHeight = u64 (BlockHeight ctx), ib_PoolId = po_Id pool'\<rparr>"
  have u: "update_interest k ctx ps (SetInterestForPool ib (SetPool pool' s)) = Inr t"
    using Cons.prems(3) rate by (simp add: Let_def pool'_def ib_def)
  have p: "GetPool s (po_Id pool') = Some pool" using Cons.prems(2) by (simp add: listed_def pool'_def)
  have g1: "same_gaps k s (SetPool pool' s)"
    by (rule same_gaps_SetPool [OF Cons.prems(1) p]) (simp_all add: pool'_def)
  obtain i where i: "SetInterestForPool ib (SetPool pool' s) = SetPool pool' s\<lparr>ss_interest := i\<rparr>"
    using SetInterest_upd by blast
  have inv1: "ss_inv k (SetPool pool' s)" using g1 by (simp add: same_gaps_def)
  have g2: "same_gaps k s (SetInterestForPool ib (SetPool pool' s))"
    unfolding i by (rule same_gaps_trans [OF g1 same_gaps_other(1) [OF inv1]])
  have inv2: "ss_inv k (SetInterestForPool ib (SetPool pool' s))" using g2 by (simp add: same_gaps_def)
  have l: "listed ps (SetInterestForPool ib (SetPool pool' s))"
    by (rule listed_step [OF Cons.prems(2)]) (simp add: pool'_def)
  show ?case by (rule same_gaps_trans [OF g2 Cons.IH [OF inv2 l u]])
qed

lemma BeginBlocker_gaps:
  assumes "ss_inv k s" "ss_BeginBlocker k ctx s = Inr t"
  shows "same_gaps k s t"
proof -
  obtain u where u: "update_interest k ctx (GetAllPools s) s = Inr u"
    using assms(2) by (auto simp: ss_BeginBlocker_def UpdateInterestForAllPools_def)
  have g: "same_gaps k s u" by (rule update_interest_gaps [OF assms(1) listed_all [OF assms(1)] u])
  have del: "\<exists>i. fold (\<lambda>pool. DeleteInterestForPool d (po_Id pool)) ps v = v\<lparr>ss_interest := i\<rparr>"
    for d ps and v :: "'a sstate"
  proof (induction ps arbitrary: v)
    case Nil
    show ?case by (rule exI [of _ "ss_interest v"]) simp
  next
    case (Cons p ps)
    obtain i where "fold (\<lambda>pool. DeleteInterestForPool d (po_Id pool)) ps (DeleteInterestForPool d (po_Id p) v) =
        (DeleteInterestForPool d (po_Id p) v)\<lparr>ss_interest := i\<rparr>"
      using Cons.IH by blast
    then have "fold (\<lambda>pool. DeleteInterestForPool d (po_Id pool)) (p # ps) v = v\<lparr>ss_interest := i\<rparr>"
      by (simp add: DeleteInterestForPool_def)
    then show ?case by blast
  qed
  have t: "t = (if numBlocks < BlockHeight ctx
      then fold (\<lambda>pool. DeleteInterestForPool (BlockHeight ctx - numBlocks) (po_Id pool)) (GetAllPools u) u else u)"
    using assms(2) u by (simp add: ss_BeginBlocker_def UpdateInterestForAllPools_def)
  have "u = u\<lparr>ss_interest := ss_interest u\<rparr>" by simp
  with del [of "BlockHeight ctx - numBlocks" "GetAllPools u" u] have "\<exists>i. t = u\<lparr>ss_interest := i\<rparr>"
    unfolding t by (cases "numBlocks < BlockHeight ctx") (simp only: if_True, simp only: if_False, blast)
  then obtain i where "t = u\<lparr>ss_interest := i\<rparr>" by blast
  moreover have "ss_inv k u" using g by (simp add: same_gaps_def)
  ultimately show ?thesis using same_gaps_trans [OF g same_gaps_other(1)] by simp
qed

section \<open>New pools\<close>

text \<open>Pool ids are below a bound, past the first one.\<close>

definition ids_below :: "int \<Rightarrow> 'e sstate \<Rightarrow> bool" where
  "ids_below b s \<longleftrightarrow> UsdcPoolId < b \<and> (\<forall>i. GetPool s i \<noteq> None \<longrightarrow> 0 \<le> i \<and> i < b)"

lemma GetNextPoolId_fresh:
  assumes "ss_inv k s" "ids_below b s" "b < 2 ^ 64"
  shows "GetPool s (GetNextPoolId s) = None \<and> 0 \<le> GetNextPoolId s \<and> GetNextPoolId s < b + 1"
proof (cases "ss_pools s = []")
  case True
  then show ?thesis
    using assms(2) by (simp add: GetNextPoolId_def GetLatestPool_def GetPool_def ids_below_def UsdcPoolId_def)
next
  case False
  note ok = ss_invD(2) [OF assms(1)]
  obtain i p where l: "last (ss_pools s) = (i, p)" by (cases "last (ss_pools s)")
  have mem: "(i, p) \<in> set (ss_pools s)" using last_in_set [OF False] by (simp add: l)
  then have g: "GetPool s i = Some p" using kv_get_mem [OF ok] by (simp add: GetPool_def)
  have id: "po_Id p = i" by (rule ss_inv_id [OF assms(1) g])
  have b: "0 \<le> i" "i < b" using assms(2) g by (auto simp: ids_below_def)
  have n: "GetNextPoolId s = i + 1"
    using False l id b assms(3) by (simp add: GetNextPoolId_def GetLatestPool_def u64_id)
  have max: "j \<le> i" if "(j, q) \<in> set (ss_pools s)" for j q
  proof -
    obtain xs where xs: "ss_pools s = xs @ [(i, p)]" using append_butlast_last_id [OF False] l by metis
    then show ?thesis using ok that by (auto simp: kv_ok_def sorted_wrt_append)
  qed
  have "GetPool s (i + 1) = None"
  proof (rule ccontr)
    assume "GetPool s (i + 1) \<noteq> None"
    then obtain q where "(i + 1, q) \<in> set (ss_pools s)" using kv_get_mem [OF ok] by (auto simp: GetPool_def)
    from max [OF this] show False by simp
  qed
  then show ?thesis using n b by simp
qed

lemma AddPool_effect:
  assumes "ss_inv k s" "ids_below b s" "b < 2 ^ 64" "msg_AddPool k a msg s = Inr (t, i)"
  shows "ss_inv k t \<and> i < b + 1 \<and> 0 \<le> i \<and> GetPool s i = None \<and>
    (\<forall>p. GetPool t p = (if p = i then Some (msg\<lparr>po_Id := i, po_NetAmount := 0\<rparr>) else GetPool s p)) \<and>
    ss_debts t = ss_debts s \<and> ss_commit t = ss_commit s"
proof -
  note n = GetNextPoolId_fresh [OF assms(1-3)]
  have i: "i = GetNextPoolId s" "t = SetPool (msg\<lparr>po_Id := i, po_NetAmount := 0\<rparr>) s"
    "\<not> HasPoolByDenom s (po_DepositDenom msg)"
    using assms(4) by (auto simp: msg_AddPool_def Let_def split: if_splits)
  have other: "po_DepositDenom p \<noteq> po_DepositDenom msg" if "GetPool s j = Some p" for j p
    using i(3) that kv_get_mem [OF ss_invD(2) [OF assms(1)]]
    by (force simp: HasPoolByDenom_def list_ex_iff GetAllPools_def GetPool_def)
  have get: "GetPool t p = (if p = i then Some (msg\<lparr>po_Id := i, po_NetAmount := 0\<rparr>) else GetPool s p)" for p
    by (simp add: i(2) GetPool_SetPool)
  have inv: "ss_inv k t"
  proof (rule ss_invI)
    show "kv_ok (ss_debts t)" "kv_ok (ss_pools t)"
      using ss_invD(1,2) [OF assms(1)] by (simp_all add: i(2) SetPool_def kv_ok_set)
    show "debt_ok d \<and> (\<exists>a. key = GetDebtKey a (de_PoolId d) \<and> debt_of k a (de_PoolId d) d)"
      if "kv_get (ss_debts t) key = Some d" for key d
      using ss_invD(3) [OF assms(1)] that by (simp add: i(2))
    show "po_Id p = j" if "GetPool t j = Some p" for j p
      using that ss_inv_id [OF assms(1)] by (auto simp: get split: if_splits)
    show "m = j" if "GetPool t m = Some p" "GetPool t j = Some q" "po_DepositDenom p = po_DepositDenom q" for m j p q
      using that ss_inv_denoms [OF assms(1)] other by (auto simp: get split: if_splits) (metis other)
  qed
  show ?thesis using inv n get i by simp
qed

section \<open>A forced close\<close>

text \<open>What a forced close leaves: the debt is gone, the pool's net amount still counts it.\<close>

lemma Close_effect:
  assumes "ss_env k" "ss_inv k s" "GetPool s q = Some pool"
    and "CloseOnUnableToRepay k ctx a q b s = Inr t"
  obtains debt where "UpdateInterestAndGetDebt k ctx a q b s \<noteq> Inl x"
    "ss_inv k t" "kv_get (ss_debts t) (GetDebtKey a q) = None" "0 \<le> GetTotalLiablities debt"
    "\<exists>s1. UpdateInterestAndGetDebt k ctx a q b s = Inr (s1, debt)"
    "pool_gap k t q = pool_gap k s q + GetTotalLiablities debt"
    "\<And>p. p \<noteq> q \<Longrightarrow> pool_gap k t p = pool_gap k s p"
proof -
  note L = ss_envD(4) [OF assms(1)] and S = ss_envD(1) [OF assms(1)]
  obtain s1 debt where u: "UpdateInterestAndGetDebt k ctx a q b s = Inr (s1, debt)"
    using assms(4) by (auto simp: CloseOnUnableToRepay_def)
  obtain n where n: "ss_inv k s1" "debt_of k a q debt" "debt_ok debt" "getDebt k ctx s1 a q = debt"
    by (rule UpdateInterest_effect [OF L assms(2,3) u]) blast
  have g: "same_gaps k s s1" by (rule UpdateInterest_gaps [OF assms(1,2) u])
  obtain A where t: "t = (del_debt a q s1)\<lparr>ss_amm := A\<rparr>"
    using assms(4) u
    by (auto simp: CloseOnUnableToRepay_def DeleteDebt_eq [OF n(2)] split: option.splits
        dest!: SubtractPoolLiabilities_Inr)
  have inv: "ss_inv k t" using ss_inv_del_debt [OF n(1)] by (simp add: t)
  have out: "outstanding t p = outstanding s1 p - (if p = q then GetTotalLiablities debt else 0)" for p
    using outstanding_del [OF n(1), of a q p ctx] n(2,4)
    by (auto simp: t liability_to_def debt_of_def)
  have gap: "pool_gap k t p = pool_gap k s1 p + (if p = q then GetTotalLiablities debt else 0)"
    if "GetPool s1 p \<noteq> None" for p
    using that out [of p] by (auto simp: pool_gap_def t)
  have none: "pool_gap k t p = pool_gap k s1 p" if "GetPool s1 p = None" for p
    using that by (simp add: pool_gap_def t)
  have q: "GetPool s1 q \<noteq> None" using g assms(3) by (auto simp: same_gaps_def dest!: spec [of _ q])
  show thesis
  proof (rule that [of debt])
    show "kv_get (ss_debts t) (GetDebtKey a q) = None" by (simp add: t del_debt_def kv_get_del)
    show "0 \<le> GetTotalLiablities debt" using n(3) by (simp add: debt_ok_def GetTotalLiablities_def)
    show "pool_gap k t q = pool_gap k s q + GetTotalLiablities debt"
      using gap [OF q] g by (simp add: same_gaps_def)
    show "pool_gap k t p = pool_gap k s p" if "p \<noteq> q" for p
      using gap [of p] none [of p] g that by (cases "GetPool s1 p = None") (simp_all add: same_gaps_def)
  qed (use u inv in simp_all)
qed

end
