(* ===== verification/StableLedger.thy ===== *)
theory StableLedger
  imports StableRun
begin

text \<open>
  Runs of the lending pools' messages and keeper calls, and what they do to the balance sheet.
\<close>

datatype ss_call =
    SBorrow block_ctx addr coin int int
  | SRepay block_ctx addr coin int int
  | SUpdateInterest block_ctx addr int int
  | SBeginBlock block_ctx
  | SBond block_ctx string int int
  | SUnbond block_ctx string int int
  | SAddPool string Pool
  | SUpdatePool string int Pool
  | SUpdateParams string ss_Params

fun ss_handle :: "'e skeeper \<Rightarrow> ss_call \<Rightarrow> 'e sstate \<Rightarrow> 'e sstate result" where
  "ss_handle k (SBorrow ctx a c q b) s = Borrow k ctx a c q b s"
| "ss_handle k (SRepay ctx a c q b) s = Repay k ctx a c q b s"
| "ss_handle k (SUpdateInterest ctx a q b) s = rbind (UpdateInterestAndGetDebt k ctx a q b s) (\<lambda>r. Inr (fst r))"
| "ss_handle k (SBeginBlock ctx) s = ss_BeginBlocker k ctx s"
| "ss_handle k (SBond ctx m x q) s = msg_Bond k ctx m x q s"
| "ss_handle k (SUnbond ctx m x q) s = msg_Unbond k ctx m x q s"
| "ss_handle k (SAddPool m p) s = rbind (msg_AddPool k m p s) (\<lambda>r. Inr (fst r))"
| "ss_handle k (SUpdatePool m q p) s = msg_UpdatePool k m q p s"
| "ss_handle k (SUpdateParams m p) s = ss_UpdateParams k m p s"

text \<open>The module's account does not trade with itself, and a share is not a deposit.\<close>

fun ss_call_ok :: "'e skeeper \<Rightarrow> ss_call \<Rightarrow> bool" where
  "ss_call_ok k (SBorrow ctx a c q b) \<longleftrightarrow> a \<noteq> ss_account k"
| "ss_call_ok k (SRepay ctx a c q b) \<longleftrightarrow> a \<noteq> ss_account k"
| "ss_call_ok k (SBond ctx m x q) \<longleftrightarrow> MustAccAddress (sk_sdk k) m \<noteq> Inr (ss_account k)"
| "ss_call_ok k (SUnbond ctx m x q) \<longleftrightarrow> MustAccAddress (sk_sdk k) m \<noteq> Inr (ss_account k)"
| "ss_call_ok k (SAddPool m p) \<longleftrightarrow> (\<forall>q. po_DepositDenom p \<noteq> GetShareDenomForPool q)"
| "ss_call_ok k (SUpdateInterest ctx a q b) \<longleftrightarrow> True"
| "ss_call_ok k (SBeginBlock ctx) \<longleftrightarrow> True"
| "ss_call_ok k (SUpdatePool m q p) \<longleftrightarrow> True"
| "ss_call_ok k (SUpdateParams m p) \<longleftrightarrow> True"

definition sheet :: "'e skeeper \<Rightarrow> 'e sstate \<Rightarrow> int \<Rightarrow> 'e sstate \<Rightarrow> bool" where
  "sheet k s0 b s \<longleftrightarrow> ss_env k \<and> ss_inv k s \<and> plain_denoms s \<and> ids_below b s \<and>
     (\<forall>p. GetPool s0 p \<noteq> None \<longrightarrow> GetPool s p \<noteq> None \<and> pool_gap k s p = pool_gap k s0 p)"

lemma sheet_same_gaps:
  assumes "sheet k s0 b s" "same_gaps k s t"
  shows "sheet k s0 (b + 1) t"
proof -
  have d: "map_option po_DepositDenom (GetPool t p) = map_option po_DepositDenom (GetPool s p)" for p
    using assms(2) by (simp add: same_gaps_def)
  then have n: "GetPool t p = None \<longleftrightarrow> GetPool s p = None" for p by (metis option.map_disc_iff)
  have "plain_denoms t"
    unfolding plain_denoms_def
  proof (intro allI impI)
    fix i pool q
    assume "GetPool t i = Some pool"
    then obtain old where "GetPool s i = Some old" "po_DepositDenom old = po_DepositDenom pool"
      using d [of i] by (cases "GetPool s i") auto
    then show "po_DepositDenom pool \<noteq> GetShareDenomForPool q"
      using assms(1) by (auto simp: sheet_def plain_denoms_def)
  qed
  moreover have "ids_below (b + 1) t"
    using assms(1) by (fastforce simp: sheet_def ids_below_def n)
  ultimately show ?thesis
    using assms by (simp add: sheet_def same_gaps_def n)
qed

lemma sheet_AddPool:
  assumes s: "sheet k s0 b s" and b: "b < 2 ^ 64" and ok: "\<forall>q. po_DepositDenom m \<noteq> GetShareDenomForPool q"
    and add: "msg_AddPool k a m s = Inr (t, i)"
  shows "sheet k s0 (b + 1) t"
proof -
  have inv: "ss_inv k s" "ids_below b s" using s by (simp_all add: sheet_def)
  note e = AddPool_effect [OF inv b add]
  have bal: "module_balance k t d = module_balance k s d" for d using e by (simp add: module_balance_def)
  have out: "outstanding t p = outstanding s p" for p using e by (simp add: outstanding_def)
  have "pool_gap k t p = pool_gap k s p" if "GetPool s p \<noteq> None" for p
  proof -
    have "GetPool t p = GetPool s p" using e that by auto
    then show ?thesis by (simp add: pool_gap_def bal out split: option.split)
  qed
  moreover have "GetPool t p \<noteq> None" if "GetPool s p \<noteq> None" for p using e that by simp
  moreover have "plain_denoms t" using e s ok by (auto simp: sheet_def plain_denoms_def split: if_splits)
  moreover have "ids_below (b + 1) t"
    using e inv(2) by (fastforce simp: ids_below_def split: if_splits)
  ultimately show ?thesis using s e by (simp add: sheet_def)
qed

lemma sheet_step:
  assumes "sheet k s0 b s" "b < 2 ^ 64" "ss_call_ok k x" "ss_handle k x s = Inr t"
  shows "sheet k s0 (b + 1) t"
proof -
  have e: "ss_env k" "ss_inv k s" "plain_denoms s" using assms(1) by (simp_all add: sheet_def)
  show ?thesis
  proof (cases x)
    case (SBorrow ctx a c q b)
    then show ?thesis using assms(3,4) Borrow_gaps [OF e(1,2)] sheet_same_gaps [OF assms(1)] by simp
  next
    case (SRepay ctx a c q b)
    then show ?thesis using assms(3,4) Repay_gaps [OF e(1,2)] sheet_same_gaps [OF assms(1)] by simp
  next
    case (SUpdateInterest ctx a q b)
    then show ?thesis using assms(4) UpdateInterest_gaps [OF e(1,2)] sheet_same_gaps [OF assms(1)] by auto
  next
    case (SBeginBlock ctx)
    then show ?thesis using assms(4) BeginBlocker_gaps [OF e(2)] sheet_same_gaps [OF assms(1)] by simp
  next
    case (SBond ctx m y q)
    then show ?thesis using assms(3,4) Bond_gaps [OF e] sheet_same_gaps [OF assms(1)] by simp
  next
    case (SUnbond ctx m y q)
    then show ?thesis using assms(3,4) Unbond_gaps [OF e] sheet_same_gaps [OF assms(1)] by simp
  next
    case (SAddPool m p)
    then show ?thesis using assms(3,4) sheet_AddPool [OF assms(1,2)] by auto
  next
    case (SUpdatePool m q p)
    then show ?thesis using assms(4) UpdatePool_gaps [OF e(2)] sheet_same_gaps [OF assms(1)] by simp
  next
    case (SUpdateParams m p)
    then show ?thesis
      using assms(4) same_gaps_other(2) [OF e(2)] sheet_same_gaps [OF assms(1)]
      by (auto simp: ss_UpdateParams_def ss_SetParams_def split: if_splits)
  qed
qed

lemma sheet_spend: "sheet k s0 b s \<Longrightarrow> sheet k s0 (b + 1) s"
  by (rule sheet_same_gaps) (auto simp: sheet_def same_gaps_refl)

interpretation ledger: budget_step "ss_handle k" "ss_call_ok k" "sheet k s0" "2 ^ 64" for k s0
  by unfold_locales (auto intro: sheet_step sheet_spend)

end
