(* ===== verification/StableProps.thy ===== *)
theory StableProps
  imports StableLedger
begin

text \<open>
  The properties of the lending pools' balance sheet, and a concrete keeper on which their
  hypotheses hold.
\<close>

section \<open>A concrete lending module\<close>

text \<open>A ledger that refuses invalid coin sets, one AMM pool with ample funds, no hooks.\<close>

definition strict_bank :: "ledger bank" where
  "strict_bank = std_bank
     \<lparr>BkModToAcc := (\<lambda>m a cs e. if std_valid cs then lg_send (''module/'' @ m) a cs e else Inl (Plain ''invalid coins'')),
      BkAccToMod := (\<lambda>a m cs e. if std_valid cs then lg_send a (''module/'' @ m) cs e else Inl (Plain ''invalid coins''))\<rparr>"

definition lg_supply :: "string \<Rightarrow> ledger \<Rightarrow> int" where
  "lg_supply d e = sum_list (map (\<lambda>a. lg_bal a d e) (remdups (map (\<lambda>x. fst (fst x)) e)))"

definition lend_commitment :: "ledger keeper" where
  "lend_commitment =
     \<lparr>k_sdk = std_sdk, k_dec = std_dec, k_bank = strict_bank,
      k_GetEntry = (\<lambda>e d. Some (empty_entry\<lparr>en_BaseDenom := d, en_Denom := d, en_CommitEnabled := True,
                                          en_WithdrawEnabled := True\<rparr>)),
      k_Delegate = (\<lambda>a v c e. Inr e), k_Undelegate = (\<lambda>a v c e. Inr e),
      k_IsVestingAccount = (\<lambda>e a. False), k_hooks = None, k_authority = ''gov''\<rparr>"

definition lend_keeper :: "ledger skeeper" where
  "lend_keeper =
     \<lparr>sk_commitment = lend_commitment, sk_big = std_bigdec, sk_GetSupply = lg_supply,
      sk_SetEntry = (\<lambda>x e. e), sk_GetEntryByDenom = (\<lambda>e d. None), sk_IsCreatorAllowed = (\<lambda>e a. a = ''gov''),
      sk_GetEnabledPoolIds = (\<lambda>e. [1]), sk_PoolAssets = (\<lambda>e p. [\<lparr>Denom = ''uusdc'', Amount = 10 ^ 9\<rparr>]),
      sk_GetDenomPrice = (\<lambda>e d. big_one), sk_hooks = None, sk_authority = ''gov''\<rparr>"

definition usdc_pool :: Pool where
  "usdc_pool =
     \<lparr>po_DepositDenom = ''uusdc'', po_InterestRate = 15 * 10 ^ 16, po_InterestRateMax = 17 * 10 ^ 16,
      po_InterestRateMin = 12 * 10 ^ 16, po_InterestRateIncrease = 10 ^ 16, po_InterestRateDecrease = 10 ^ 16,
      po_HealthGainFactor = dec_one, po_NetAmount = 0, po_MaxLeverageRatio = 7 * 10 ^ 17,
      po_MaxWithdrawRatio = 7 * 10 ^ 17, po_Id = UsdcPoolId\<rparr>"

definition lend_state :: "ledger sstate" where
  "lend_state =
     \<lparr>ss_debts = [], ss_interest = [], ss_params = None, ss_amm = [],
      ss_pools = [(UsdcPoolId, usdc_pool)],
      ss_commit = \<lparr>cs_commitments = [], cs_params = Some zero_params, cs_supply = None, cs_atom = [], cs_nft = [],
        cs_cadet = [], cs_governor = [], cs_airdrop_claimed = [], cs_total_claimed = None,
        cs_kol = [], cs_reward = [], cs_total_reward = None,
        cs_ext = [((''alice'', ''uusdc''), 1000), ((''lp'', ''uusdc''), 500)]\<rparr>\<rparr>"

definition lend_ctx :: "int \<Rightarrow> block_ctx" where
  "lend_ctx h = \<lparr>BlockHeight = h, BlockTime = h * 864000 * 10 ^ 9, ChainID = ''elys''\<rparr>"

definition usdc :: "int \<Rightarrow> coin" where
  "usdc n = \<lparr>Denom = ''uusdc'', Amount = n\<rparr>"

lemma lend_keeper_sel [simp]:
  "sk_commitment lend_keeper = lend_commitment" "sk_big lend_keeper = std_bigdec"
  "sk_hooks lend_keeper = None" "k_sdk lend_commitment = std_sdk" "k_dec lend_commitment = std_dec"
  "k_bank lend_commitment = strict_bank" "k_hooks lend_commitment = None" "sk_SetEntry lend_keeper x e = e"
  by (simp_all add: lend_keeper_def lend_commitment_def)

lemma lg_debit_funds:
  "std_valid cs \<Longrightarrow> lg_debit a cs e = Inr e' \<Longrightarrow> 0 < amt_of cs d \<Longrightarrow> amt_of cs d \<le> lg_bal a d e"
proof -
  assume v: "std_valid cs" and r: "lg_debit a cs e = Inr e'" and nn: "0 < amt_of cs d"
  have all: "list_all (\<lambda>c. Amount c \<le> lg_bal a (Denom c) e) cs"
    using r by (simp add: lg_debit_def split: if_splits)
  show "amt_of cs d \<le> lg_bal a d e"
  proof (cases "d \<in> Denom ` set cs")
    case True
    then obtain c where c: "c \<in> set cs" "d = Denom c" by blast
    then have "amt_of cs d = Amount c" using v by (simp add: std_valid_def amt_of_mem)
    then show ?thesis using all c by (simp add: list_all_iff)
  next
    case False
    then show ?thesis using nn by (simp add: amt_of_notin)
  qed
qed

lemma strict_bank_laws: "bank_laws std_sdk strict_bank" "bank_valid_laws std_sdk strict_bank"
proof -
  have sel: "BkMint strict_bank m cs e = Inr (lg_add (''module/'' @ m) cs e)"
    "BkBurn strict_bank m cs e = lg_debit (''module/'' @ m) cs e" "BkBalance strict_bank = lg_bal"
    "BkModToAcc strict_bank m a cs e = (if std_valid cs then lg_send (''module/'' @ m) a cs e else Inl (Plain ''invalid coins''))"
    "BkAccToMod strict_bank a m cs e = (if std_valid cs then lg_send a (''module/'' @ m) cs e else Inl (Plain ''invalid coins''))"
    for m a cs e by (simp_all add: strict_bank_def std_bank_def)
  show "bank_laws std_sdk strict_bank"
    by (auto simp: bank_laws_def bank_move_laws_def bank_supply_laws_def sel lg_send_bal
        lg_debit_bal lg_bal_add std_valid_def)
  show "bank_valid_laws std_sdk strict_bank"
    by (auto simp: bank_valid_laws_def sel lg_send_def lg_debit_funds split: if_splits)
qed

lemma lend_env: "ss_env lend_keeper"
  using strict_bank_laws
  by (simp add: ss_env_def ss_laws_def std_sdk_laws std_bigdec_laws std_dec_laws hooks_inv_None)

lemma share_denom_hd: "hd (GetShareDenomForPool q) = CHR ''s''"
  by (simp add: GetShareDenomForPool_def)

lemma usdc_no_share: "''uusdc'' \<noteq> GetShareDenomForPool q"
proof
  assume eq: "''uusdc'' = GetShareDenomForPool q"
  from share_denom_hd [of q, folded eq] show False by simp
qed

lemma lend_state_ok: "ss_inv lend_keeper lend_state" "plain_denoms lend_state" "ids_below (UsdcPoolId + 1) lend_state"
proof -
  have g: "GetPool lend_state i = (if i = UsdcPoolId then Some usdc_pool else None)" for i
    by (simp add: GetPool_def lend_state_def kv_get_def)
  show "ss_inv lend_keeper lend_state"
    by (rule ss_invI) (auto simp: g usdc_pool_def split: if_splits, simp_all add: lend_state_def kv_ok_def)
  show "plain_denoms lend_state" by (auto simp: plain_denoms_def g usdc_pool_def usdc_no_share split: if_splits)
  show "ids_below (UsdcPoolId + 1) lend_state" by (simp add: ids_below_def g UsdcPoolId_def)
qed

definition lend_run :: "ss_call list" where
  "lend_run =
     [SBeginBlock (lend_ctx 1), SBond (lend_ctx 1) ''alice'' 1000 UsdcPoolId,
      SBorrow (lend_ctx 1) ''lp'' (usdc 600) UsdcPoolId 1,
      SRepay (lend_ctx 2) ''lp'' (usdc 100) UsdcPoolId 1]"

lemma lend_run_ok: "list_all (ss_call_ok lend_keeper) lend_run"
  by (simp add: lend_run_def ss_account_def ss_ModuleName_def MustAccAddress_def)

section \<open>The properties\<close>

text \<open>C17: over any run of bonds, unbonds, borrowings, repayments, interest updates, begin blocks
  and pool changes, a pool's net amount differs from the coins the module holds of its
  denomination plus all that its borrowers owe by the same number as at the start: the books
  balance, whatever the rounding of rates, shares and interest.\<close>

theorem pool_balance_sheet:
  assumes "ss_env k" and "ss_inv k s" and "plain_denoms s" and "ids_below b s"
    and "b + int (length xs) \<le> 2 ^ 64" and "list_all (ss_call_ok k) xs" and "GetPool s p = Some pool"
  shows "\<exists>pool'. GetPool (run_ops (ss_handle k) xs s) p = Some pool' \<and>
    po_NetAmount pool' = module_balance k (run_ops (ss_handle k) xs s) (po_DepositDenom pool') +
      outstanding (run_ops (ss_handle k) xs s) p +
      (po_NetAmount pool - module_balance k s (po_DepositDenom pool) - outstanding s p)"
proof -
  have "sheet k s b s" using assms by (simp add: sheet_def)
  from ledger.run_inv [OF assms(6) this assms(5)]
  have r: "GetPool (run_ops (ss_handle k) xs s) p \<noteq> None"
    "pool_gap k (run_ops (ss_handle k) xs s) p = pool_gap k s p"
    using assms(7) by (auto simp: sheet_def)
  then obtain pool' where "GetPool (run_ops (ss_handle k) xs s) p = Some pool'" by blast
  then show ?thesis using r(2) assms(7) by (simp add: pool_gap_def algebra_simps)
qed

theorem pool_balance_sheet_witness:
  "\<exists>pool. GetPool (run_ops (ss_handle lend_keeper) lend_run lend_state) UsdcPoolId = Some pool \<and>
     po_NetAmount pool = 1002 \<and>
     module_balance lend_keeper (run_ops (ss_handle lend_keeper) lend_run lend_state) ''uusdc'' +
       outstanding (run_ops (ss_handle lend_keeper) lend_run lend_state) UsdcPoolId = 1002"
proof -
  have init: "GetPool lend_state UsdcPoolId = Some usdc_pool"
    "po_NetAmount usdc_pool - module_balance lend_keeper lend_state (po_DepositDenom usdc_pool) -
      outstanding lend_state UsdcPoolId = 0"
    by code_simp+
  obtain pool' where p: "GetPool (run_ops (ss_handle lend_keeper) lend_run lend_state) UsdcPoolId = Some pool'"
    "po_NetAmount pool' = module_balance lend_keeper (run_ops (ss_handle lend_keeper) lend_run lend_state) (po_DepositDenom pool') +
      outstanding (run_ops (ss_handle lend_keeper) lend_run lend_state) UsdcPoolId"
    using pool_balance_sheet [OF lend_env lend_state_ok _ lend_run_ok init(1)] init(2)
    by (auto simp: lend_run_def UsdcPoolId_def)
  have "map_option (\<lambda>p. (po_NetAmount p, po_DepositDenom p))
      (GetPool (run_ops (ss_handle lend_keeper) lend_run lend_state) UsdcPoolId) = Some (1002, ''uusdc'')"
    by code_simp
  then have q: "po_NetAmount pool' = 1002" "po_DepositDenom pool' = ''uusdc''" using p(1) by simp_all
  show ?thesis using p(1) q(1) p(2) [unfolded q, symmetric] by blast
qed

end
