(* ===== verification/StableRates.thy ===== *)
theory StableRates
  imports StableRun
begin

text \<open>
  The interest rates the begin blocker sets: how far a rate moves in one block, where it can go,
  and how the stored interest of the blocks cumulates.
\<close>

section \<open>One computation\<close>

lemma BigDecFromDec_mono: "a \<le> b \<Longrightarrow> BigDecFromDec a \<le> BigDecFromDec b"
  by (simp add: BigDecFromDec_def)

lemma BigDecFromDec_add: "BigDecFromDec (a + b) = BigDecFromDec a + BigDecFromDec b"
  by (simp add: BigDecFromDec_def distrib_right)

lemma BigDecFromDec_diff: "BigDecFromDec (a - b) = BigDecFromDec a - BigDecFromDec b"
  by (simp add: BigDecFromDec_def left_diff_distrib)

text \<open>The rate between its bounds that a step of at most the increase up and the decrease down
  takes from the previous rate towards a target.\<close>

definition stepped_rate :: "int \<Rightarrow> int \<Rightarrow> int \<Rightarrow> int \<Rightarrow> int \<Rightarrow> int \<Rightarrow> int" where
  "stepped_rate lo hi inc dec prev target =
     min hi (max lo (max (prev - dec) (min (prev + inc) target)))"

lemma InterestRate_stepped:
  assumes "ss_laws k" "InterestRateComputationForPool k s pool = Inr r" "po_NetAmount pool \<noteq> 0"
    and "0 \<le> po_InterestRateIncrease pool" "0 \<le> po_InterestRateDecrease pool"
    and "po_InterestRateMin pool \<le> po_InterestRateMax pool"
  shows "\<exists>target. r = stepped_rate (BigDecFromDec (po_InterestRateMin pool)) (BigDecFromDec (po_InterestRateMax pool))
    (BigDecFromDec (po_InterestRateIncrease pool)) (BigDecFromDec (po_InterestRateDecrease pool))
    (BigDecFromDec (po_InterestRate pool)) target"
proof -
  have neg: "BMul (sk_big k) x (- big_one) = - x" for x by (rule BMul_neg_one [OF ss_lawsD(2) [OF assms(1)]])
  have inc: "0 \<le> BigDecFromDec (po_InterestRateIncrease pool)" "0 \<le> BigDecFromDec (po_InterestRateDecrease pool)"
    "BigDecFromDec (po_InterestRateMin pool) \<le> BigDecFromDec (po_InterestRateMax pool)"
    using assms(4-6) by (simp_all add: BigDecFromDec_def)
  let ?lo = "BigDecFromDec (po_InterestRateMin pool)" and ?hi = "BigDecFromDec (po_InterestRateMax pool)"
    and ?inc = "BigDecFromDec (po_InterestRateIncrease pool)" and ?dec = "BigDecFromDec (po_InterestRateDecrease pool)"
    and ?prev = "BigDecFromDec (po_InterestRate pool)"
  define clamped where "clamped rate =
      (if rate > ?lo \<and> rate < ?hi then rate else if rate \<le> ?lo then ?lo
       else if rate \<ge> ?hi then ?hi else rate)" for rate
  define moved where "moved target =
      (if target - ?prev \<ge> - ?dec \<and> target - ?prev \<le> ?inc then target
       else if target - ?prev > ?inc then ?prev + ?inc
       else if target - ?prev < - ?dec then ?prev - ?dec else ?prev)" for target
  have "\<exists>target. r = clamped (moved target)"
    using assms(2,3)
    unfolding InterestRateComputationForPool_def Let_def neg clamped_def moved_def
    by (simp only: if_False rbind_eq_Inr sum.inject) (elim exE conjE, rule exI, erule sym)
  then obtain target where "r = clamped (moved target)" by blast
  then have "r = stepped_rate (BigDecFromDec (po_InterestRateMin pool)) (BigDecFromDec (po_InterestRateMax pool))
    (BigDecFromDec (po_InterestRateIncrease pool)) (BigDecFromDec (po_InterestRateDecrease pool))
    (BigDecFromDec (po_InterestRate pool)) target"
    using inc by (simp add: stepped_rate_def clamped_def moved_def min_def max_def)
  then show ?thesis by blast
qed

section \<open>All pools\<close>

definition interest_at :: "'e sstate \<Rightarrow> int \<Rightarrow> int \<Rightarrow> int" where
  "interest_at s q h = (case kv_get (ss_interest s) (q, h) of None \<Rightarrow> 0 | Some i \<Rightarrow> ib_InterestRate i)"

lemma interest_at_SetInterest:
  "interest_at (SetInterestForPool i s) q h =
     (if q = ib_PoolId i \<and> h = ib_BlockHeight i then ib_InterestRate i + interest_at s q (u64 (h - 1))
      else interest_at s q h)"
  by (auto simp: interest_at_def SetInterestForPool_def Let_def kv_get_set split: option.split)

lemma interest_at_SetPool [simp]: "interest_at (SetPool p s) q h = interest_at s q h"
  by (simp add: interest_at_def SetPool_def)

lemma InterestRate_frame:
  "(\<And>d. module_balance k t d = module_balance k s d) \<Longrightarrow>
     InterestRateComputationForPool k t pool = InterestRateComputationForPool k s pool"
  by (simp only: InterestRateComputationForPool_def Let_def cong: if_cong)

text \<open>One round of the loop.\<close>

definition interest_round :: "'e skeeper \<Rightarrow> block_ctx \<Rightarrow> Pool \<Rightarrow> int \<Rightarrow> 'e sstate \<Rightarrow> 'e sstate" where
  "interest_round k ctx pool rate s =
     SetInterestForPool \<lparr>ib_InterestRate = BDec (sk_big k) rate, ib_BlockTime = Unix (BlockTime ctx),
         ib_BlockHeight = u64 (BlockHeight ctx), ib_PoolId = po_Id pool\<rparr>
       (SetPool (pool\<lparr>po_InterestRate := BDec (sk_big k) rate\<rparr>) s)"

lemma update_interest_round:
  "update_interest k ctx (pool # ps) s = Inr t \<longleftrightarrow>
     (\<exists>rate. InterestRateComputationForPool k s pool = Inr rate \<and>
        update_interest k ctx ps (interest_round k ctx pool rate s) = Inr t)"
  by (simp add: interest_round_def Let_def)

lemma interest_round_sel:
  "GetPool (interest_round k ctx pool rate s) q =
     (if q = po_Id pool then Some (pool\<lparr>po_InterestRate := BDec (sk_big k) rate\<rparr>) else GetPool s q)"
  "interest_at (interest_round k ctx pool rate s) q h =
     (if q = po_Id pool \<and> h = u64 (BlockHeight ctx)
      then BDec (sk_big k) rate + interest_at s q (u64 (h - 1)) else interest_at s q h)"
  "module_balance k (interest_round k ctx pool rate s) d = module_balance k s d"
  by (simp_all add: interest_round_def GetPool_SetPool interest_at_SetInterest)
    (simp add: module_balance_def SetInterest_sel)

lemma listed_round: "listed (pool # ps) s \<Longrightarrow> listed ps (interest_round k ctx pool rate s)"
  unfolding interest_round_def by (rule listed_step) simp_all

lemma update_interest_other:
  "q \<notin> po_Id ` set ps \<Longrightarrow> update_interest k ctx ps s = Inr t \<Longrightarrow>
     GetPool t q = GetPool s q \<and> interest_at t q h = interest_at s q h"
proof (induction ps arbitrary: s)
  case (Cons pool ps)
  then obtain rate where "q \<noteq> po_Id pool" "q \<notin> po_Id ` set ps"
    "update_interest k ctx ps (interest_round k ctx pool rate s) = Inr t"
    by (auto simp only: update_interest_round list.set image_insert insert_iff)
  then show ?case using Cons.IH by (simp add: interest_round_sel)
qed simp

lemma update_interest_pool:
  "listed ps s \<Longrightarrow> update_interest k ctx ps s = Inr t \<Longrightarrow> pool \<in> set ps \<Longrightarrow>
     u64 (u64 (BlockHeight ctx) - 1) \<noteq> u64 (BlockHeight ctx) \<Longrightarrow>
     \<exists>rate. InterestRateComputationForPool k s pool = Inr rate \<and>
       GetPool t (po_Id pool) = Some (pool\<lparr>po_InterestRate := BDec (sk_big k) rate\<rparr>) \<and>
       interest_at t (po_Id pool) (u64 (BlockHeight ctx)) =
         BDec (sk_big k) rate + interest_at s (po_Id pool) (u64 (u64 (BlockHeight ctx) - 1))"
proof (induction ps arbitrary: s)
  case (Cons p ps)
  obtain rate where r: "InterestRateComputationForPool k s p = Inr rate"
    "update_interest k ctx ps (interest_round k ctx p rate s) = Inr t"
    using Cons.prems(2) by (auto simp only: update_interest_round)
  have l: "listed ps (interest_round k ctx p rate s)" by (rule listed_round [OF Cons.prems(1)])
  show ?case
  proof (cases "pool = p")
    case True
    have "po_Id p \<notin> po_Id ` set ps" using Cons.prems(1) by (simp add: listed_def)
    from update_interest_other [OF this r(2)] show ?thesis
      using r(1) by (simp add: True interest_round_sel)
  next
    case False
    then have m: "pool \<in> set ps" using Cons.prems(3) by simp
    then have "po_Id pool \<noteq> po_Id p" using Cons.prems(1) by (force simp: listed_def)
    moreover have "InterestRateComputationForPool k (interest_round k ctx p rate s) pool =
        InterestRateComputationForPool k s pool"
      by (rule InterestRate_frame) (simp add: interest_round_sel)
    ultimately show ?thesis
      using Cons.IH [OF l r(2) m Cons.prems(4)] by (simp add: interest_round_sel)
  qed
qed simp

section \<open>The begin blocker\<close>

lemma u64_eq_iff: "u64 a = u64 b \<longleftrightarrow> 2 ^ 64 dvd a - b"
  by (simp only: u64_def mod_eq_dvd_iff)

lemma u64_pred: "u64 (u64 h - 1) = u64 (h - 1)"
  by (simp only: u64_def mod_diff_left_eq)

lemma u64_pred_neq: "u64 (u64 h - 1) \<noteq> u64 h"
  unfolding u64_pred u64_eq_iff by simp

lemma u64_numBlocks: "u64 (h - numBlocks) \<noteq> u64 h"
  unfolding u64_eq_iff numBlocks_def by simp

lemma fold_delete_interest:
  "GetPool (fold (\<lambda>pool. DeleteInterestForPool d (po_Id pool)) ps s) q = GetPool s q \<and>
   (h \<noteq> u64 d \<longrightarrow> interest_at (fold (\<lambda>pool. DeleteInterestForPool d (po_Id pool)) ps s) q h = interest_at s q h)"
  by (induction ps arbitrary: s) (simp_all add: DeleteInterestForPool_def interest_at_def kv_get_del)

text \<open>Every pool gets the rate computed in the state before the block, and the block's entry adds
  it to that of the block before.\<close>

lemma BeginBlocker_pool:
  assumes "ss_inv k s" "ss_BeginBlocker k ctx s = Inr t" "GetPool s q = Some pool"
  obtains rate where "InterestRateComputationForPool k s pool = Inr rate"
    "GetPool t q = Some (pool\<lparr>po_InterestRate := BDec (sk_big k) rate\<rparr>)"
    "interest_at t q (u64 (BlockHeight ctx)) =
       BDec (sk_big k) rate + interest_at s q (u64 (u64 (BlockHeight ctx) - 1))"
proof -
  obtain u where u: "update_interest k ctx (GetAllPools s) s = Inr u"
    using assms(2) by (auto simp: ss_BeginBlocker_def UpdateInterestForAllPools_def)
  have t: "t = (if numBlocks < BlockHeight ctx
      then fold (\<lambda>pool. DeleteInterestForPool (BlockHeight ctx - numBlocks) (po_Id pool)) (GetAllPools u) u else u)"
    using assms(2) u by (simp add: ss_BeginBlocker_def UpdateInterestForAllPools_def)
  have "pool \<in> set (GetAllPools s)"
    using assms(3) kv_get_mem [OF ss_invD(2) [OF assms(1)]] by (force simp: GetAllPools_def GetPool_def)
  from update_interest_pool [OF listed_all [OF assms(1)] u this u64_pred_neq]
  obtain rate where r: "InterestRateComputationForPool k s pool = Inr rate"
    "GetPool u q = Some (pool\<lparr>po_InterestRate := BDec (sk_big k) rate\<rparr>)"
    "interest_at u q (u64 (BlockHeight ctx)) =
       BDec (sk_big k) rate + interest_at s q (u64 (u64 (BlockHeight ctx) - 1))"
    by (auto simp: ss_inv_id [OF assms(1,3)])
  show thesis
    by (rule that [OF r(1)])
      (use r fold_delete_interest [of "BlockHeight ctx - numBlocks" "GetAllPools u" u q "u64 (BlockHeight ctx)"]
         u64_numBlocks [of "BlockHeight ctx"] in \<open>auto simp only: t if_True if_False split: if_split\<close>)
qed

section \<open>No block fails\<close>

lemma BQuo_total: "bigdec_laws B \<Longrightarrow> b \<noteq> 0 \<Longrightarrow> \<exists>q. BQuo B a b = Inr q"
  using BQuo_Inr by metis

lemma rbind_total: "\<exists>x. m = Inr x \<Longrightarrow> (\<And>x. \<exists>y. f x = Inr y) \<Longrightarrow> \<exists>y. rbind m f = Inr y"
  by auto

lemma InterestRate_total:
  assumes "bigdec_laws (sk_big k)"
  shows "\<exists>r. InterestRateComputationForPool k s pool = Inr r"
proof (cases "po_NetAmount pool = 0")
  case True
  then show ?thesis by (simp add: InterestRateComputationForPool_def)
next
  case False
  show ?thesis
    unfolding InterestRateComputationForPool_def Let_def if_not_P [OF False]
    by (intro rbind_total) (auto simp: BigDecFromSDKInt_def False intro!: BQuo_total [OF assms])
qed

lemma update_interest_total: "bigdec_laws (sk_big k) \<Longrightarrow> \<exists>t. update_interest k ctx ps s = Inr t"
proof (induction ps arbitrary: s)
  case (Cons pool ps)
  obtain r where "InterestRateComputationForPool k s pool = Inr r"
    using InterestRate_total [OF Cons.prems] by blast
  then show ?case using Cons.IH [OF Cons.prems] by (simp add: update_interest_round del: update_interest.simps)
qed simp

lemma BeginBlocker_total: "bigdec_laws (sk_big k) \<Longrightarrow> \<exists>t. ss_BeginBlocker k ctx s = Inr t"
  unfolding ss_BeginBlocker_def UpdateInterestForAllPools_def
  by (rule rbind_total [OF update_interest_total]) simp_all

end
