(* ===== verification/StableText.thy ===== *)
theory StableText
  imports StableMsgs
begin

text \<open>
  The text of share denominations: \<open>strconv.FormatUint\<close> followed by \<open>strings.Split\<close> and
  \<open>strconv.ParseUint\<close> gives the number back.
\<close>

lemma digit_value_nth: "i < 10 \<Longrightarrow> digit_value (''0123456789'' ! i) = Some (int i)"
proof -
  assume "i < 10"
  then have "i \<in> {0, 1, 2, 3, 4, 5, 6, 7, 8, 9}" by auto
  then show ?thesis by (auto simp: digit_value_def)
qed

lemma digit_not_slash: "i < 10 \<Longrightarrow> ''0123456789'' ! i \<noteq> CHR ''/''"
proof
  assume i: "i < 10" and eq: "''0123456789'' ! i = CHR ''/''"
  have "digit_value (CHR ''/'') = Some (int i)" using digit_value_nth [OF i] by (simp only: eq)
  then show False by (simp add: digit_value_def)
qed

lemma parse_digits_append:
  "parse_digits acc (xs @ ys) = (case parse_digits acc xs of None \<Rightarrow> None | Some a \<Rightarrow> parse_digits a ys)"
  by (induction acc xs rule: parse_digits.induct) (simp_all split: option.split)

lemma parse_FormatNat: "parse_digits 0 (FormatNat n) = Some (int n)"
proof (induction n rule: FormatNat.induct)
  case (1 n)
  show ?case
  proof (cases "n < 10")
    case True
    then show ?thesis by (simp add: FormatNat.simps [of n] digit_value_nth)
  next
    case False
    have "10 * int (n div 10) + int (n mod 10) = int n" by presburger
    then show ?thesis using 1 [OF False] False
      by (simp add: FormatNat.simps [of n] parse_digits_append digit_value_nth)
  qed
qed

lemma FormatNat_chars: "CHR ''/'' \<notin> set (FormatNat n)" "FormatNat n \<noteq> []"
proof -
  show "CHR ''/'' \<notin> set (FormatNat n)"
  proof (induction n rule: FormatNat.induct)
    case (1 n)
    have "CHR ''/'' \<noteq> ''0123456789'' ! (n mod 10)" "n < 10 \<Longrightarrow> CHR ''/'' \<noteq> ''0123456789'' ! n"
      using digit_not_slash [of "n mod 10"] digit_not_slash [of n] by simp_all
    then show ?case using 1 by (simp add: FormatNat.simps [of n] del: nth_Cons_numeral)
  qed
  show "FormatNat n \<noteq> []" by (simp add: FormatNat.simps [of n])
qed

lemma ParseUint_FormatNat: "int n < 2 ^ 64 \<Longrightarrow> ParseUint (FormatNat n) = Some (int n)"
  by (simp add: ParseUint_def FormatNat_chars parse_FormatNat)

lemma split_slash_plain: "CHR ''/'' \<notin> set s \<Longrightarrow> split_slash s = [s]"
  by (induction s) auto

lemma GetPoolIDFromPath_share:
  assumes "0 \<le> i" "i < 2 ^ 64"
  shows "GetPoolIDFromPath (GetShareDenomForPool i) = Inr i"
proof (cases "i = UsdcPoolId")
  case True
  then show ?thesis by (simp add: GetShareDenomForPool_def GetPoolIDFromPath_def)
next
  case False
  define path where "path = ''stablestake/share/pool/'' @ FormatNat (nat i)"
  have split: "split_slash path = [''stablestake'', ''share'', ''pool'', FormatNat (nat i)]"
    by (simp add: path_def split_slash_plain FormatNat_chars)
  have "path \<noteq> ''stablestake/share''" by (simp add: path_def)
  then have "GetPoolIDFromPath path = (case ParseUint (FormatNat (nat i)) of
      None \<Rightarrow> Inl (Plain ''invalid pool ID'') | Some poolID \<Rightarrow> Inr poolID)"
    by (simp add: GetPoolIDFromPath_def split)
  also have "\<dots> = Inr i" using assms ParseUint_FormatNat [of "nat i"] by simp
  finally show ?thesis using False by (simp add: GetShareDenomForPool_def path_def)
qed

end
