(* ===== verification/StableOutcomes.thy ===== *)
theory StableOutcomes
  imports StableProps StableRates StableText
begin

text \<open>
  What single operations of the lending pools do: repaying, refusals, withdrawals, interest
  rates, forced closes, share denominations and genesis.
\<close>

section \<open>A pool with a loan\<close>

definition lent_pool :: Pool where
  "lent_pool = usdc_pool\<lparr>po_NetAmount := 1000\<rparr>"

definition lent_debt :: Debt where
  "lent_debt = \<lparr>de_Address = ''lp'', de_Borrowed = 600, de_InterestPaid = 5, de_InterestStacked = 20,
     de_BorrowTime = 864000, de_LastInterestCalcTime = 864000, de_LastInterestCalcBlock = 1,
     de_PoolId = UsdcPoolId\<rparr>"

definition lent_state :: "ledger sstate" where
  "lent_state = lend_state\<lparr>ss_debts := [(GetDebtKey ''lp'' UsdcPoolId, lent_debt)],
     ss_pools := [(UsdcPoolId, lent_pool)],
     ss_amm := [(1, \<lparr>ap_Id = 1, ap_TotalLiabilities = [usdc 615]\<rparr>)],
     ss_commit := (ss_commit lend_state)\<lparr>cs_ext :=
       [((''alice'', ''uusdc''), 1000), ((''lp'', ''uusdc''), 900),
        ((''module/stablestake'', ''uusdc''), 385)]\<rparr>\<rparr>"

lemma lent_get: "GetPool lent_state i = (if i = UsdcPoolId then Some lent_pool else None)"
  by (simp add: GetPool_def lent_state_def kv_get_def)

lemma lent_debts: "kv_get (ss_debts lent_state) key = (if key = GetDebtKey ''lp'' UsdcPoolId then Some lent_debt else None)"
  by (simp add: lent_state_def kv_get_def)

lemma lent_debt_ok: "debt_ok lent_debt" "debt_of lend_keeper ''lp'' UsdcPoolId lent_debt" "de_PoolId lent_debt = UsdcPoolId"
  by (simp_all add: lent_debt_def debt_ok_def debt_of_def)

lemma lent_inv: "ss_inv lend_keeper lent_state"
proof (rule ss_invI)
  show "kv_ok (ss_debts lent_state)" "kv_ok (ss_pools lent_state)" by (simp_all add: lent_state_def kv_ok_def)
  show "debt_ok d \<and> (\<exists>a. key = GetDebtKey a (de_PoolId d) \<and> debt_of lend_keeper a (de_PoolId d) d)"
    if "kv_get (ss_debts lent_state) key = Some d" for key d
    using that lent_debt_ok by (auto simp only: lent_debts split: if_splits)
qed (auto simp: lent_get lent_pool_def usdc_pool_def split: if_splits)

section \<open>Repaying\<close>

text \<open>C18: a repayment pays the interest stacked and newly accrued first and the loan with the
  rest: what the borrower owes falls by exactly the amount, which is never more than what is
  owed, the record of the debt goes when nothing is left, and the pool's net amount and coins
  grow by the new interest and the amount.\<close>

theorem Repay_exact:
  assumes "ss_env k" and "ss_inv k s" and "a \<noteq> ss_account k" and "Repay k ctx a amount q b s = Inr t"
  shows "\<exists>n pool. 0 \<le> n \<and>
    GetInterestForPool k ctx s (de_LastInterestCalcBlock (getDebt k ctx s a q))
      (de_LastInterestCalcTime (getDebt k ctx s a q)) (BigDecFromSDKInt (de_Borrowed (getDebt k ctx s a q))) q = Inr n \<and>
    (let d = getDebt k ctx s a q; total = GetTotalLiablities d + n;
         interest = de_InterestStacked d - de_InterestPaid d + n;
         d' = getDebt k ctx t a q
     in 0 < Amount amount \<and> Amount amount \<le> total \<and>
        (if Amount amount = total then kv_get (ss_debts t) (GetDebtKey a q) = None
         else GetTotalLiablities d' = total - Amount amount \<and>
              de_Borrowed d' = de_Borrowed d - max 0 (Amount amount - interest))) \<and>
    GetPool s q = Some pool \<and> GetPool t q = Some (pool\<lparr>po_NetAmount := po_NetAmount pool + n\<rparr>) \<and>
    module_balance k t (Denom amount) = module_balance k s (Denom amount) + Amount amount \<and>
    outstanding t q = outstanding s q + n - Amount amount"
proof -
  obtain pool n debt' where r0: "GetPool s q = Some pool" "coins_ok (sk_sdk k) [amount]" "0 \<le> n" "debt_ok debt'"
    "let d = getDebt k ctx s a q; owed = de_InterestStacked d + n - de_InterestPaid d; pay = min owed (Amount amount)
     in de_Borrowed debt' = de_Borrowed d - (Amount amount - pay) \<and>
        de_InterestStacked debt' = de_InterestStacked d + n \<and> de_InterestPaid debt' = de_InterestPaid d + pay"
    "de_Borrowed debt' \<noteq> 0 \<Longrightarrow> getDebt k ctx t a q = debt'"
    "de_Borrowed debt' = 0 \<Longrightarrow> kv_get (ss_debts t) (GetDebtKey a q) = None"
    "\<And>p. outstanding t p = outstanding s p +
       (if p = q then (if de_Borrowed debt' = 0 then 0 else GetTotalLiablities debt') - GetTotalLiablities (getDebt k ctx s a q) else 0)"
    "\<And>p. GetPool t p = (if p = q then Some (pool\<lparr>po_NetAmount := po_NetAmount pool + n\<rparr>) else GetPool s p)"
    "\<And>e. module_balance k t e = module_balance k s e +
       (if e = Denom amount \<and> a \<noteq> ss_account k then Amount amount else 0)"
    "let d = getDebt k ctx s a q in GetInterestForPool k ctx s (de_LastInterestCalcBlock d) (de_LastInterestCalcTime d)
          (BigDecFromSDKInt (de_Borrowed d)) q = Inr n"
    by (rule Repay_effect [OF assms(1,2,4)]) blast
  define d where "d = getDebt k ctx s a q"
  note r = r0 [folded d_def]
  have pos: "0 < Amount amount" using coins_ok_list(2) [OF ss_envD(1) [OF assms(1)] r(2)] by simp
  have tot: "GetTotalLiablities debt' = GetTotalLiablities d + n - Amount amount"
    using r(5) by (simp add: GetTotalLiablities_def Let_def d_def)
  have paid: "de_Borrowed debt' = 0 \<longleftrightarrow> Amount amount = GetTotalLiablities d + n"
    and le: "Amount amount \<le> GetTotalLiablities d + n"
    using r(4) tot by (auto simp: debt_ok_def GetTotalLiablities_def)
  have rest: "de_Borrowed debt' = de_Borrowed d - max 0 (Amount amount - (de_InterestStacked d - de_InterestPaid d + n))"
    using r(5) by (simp add: Let_def min_def max_def)
  have out: "outstanding t q = outstanding s q + n - Amount amount"
    using r(8) [of q] paid tot by (simp split: if_splits)
  have int: "GetInterestForPool k ctx s (de_LastInterestCalcBlock d) (de_LastInterestCalcTime d)
      (BigDecFromSDKInt (de_Borrowed d)) q = Inr n" using r(11) by (simp only: Let_def)
  have sheet: "GetPool t q = Some (pool\<lparr>po_NetAmount := po_NetAmount pool + n\<rparr>)"
    "module_balance k t (Denom amount) = module_balance k s (Denom amount) + Amount amount"
    using r(9) [of q] r(10) [of "Denom amount"] assms(3) by simp_all
  show ?thesis
    unfolding d_def [symmetric] Let_def
    using int sheet out r(1,3) pos le paid rest tot r(6,7) by (intro exI [of _ n] exI [of _ pool]) auto
qed

theorem Repay_exact_witness:
  "\<exists>t. Repay lend_keeper (lend_ctx 1) ''lp'' (usdc 100) UsdcPoolId 1 lent_state = Inr t \<and>
     de_Borrowed (getDebt lend_keeper (lend_ctx 1) t ''lp'' UsdcPoolId) = 515 \<and>
     outstanding t UsdcPoolId = 515"
proof -
  have "map_sum (\<lambda>e. ()) (\<lambda>t. ()) (Repay lend_keeper (lend_ctx 1) ''lp'' (usdc 100) UsdcPoolId 1 lent_state) = Inr ()"
    by code_simp
  then obtain t where t: "Repay lend_keeper (lend_ctx 1) ''lp'' (usdc 100) UsdcPoolId 1 lent_state = Inr t"
    by (cases "Repay lend_keeper (lend_ctx 1) ''lp'' (usdc 100) UsdcPoolId 1 lent_state") auto
  have d: "getDebt lend_keeper (lend_ctx 1) lent_state ''lp'' UsdcPoolId = lent_debt"
    by (simp add: getDebt_def lent_debts)
  have i: "GetInterestForPool lend_keeper (lend_ctx 1) lent_state 1 864000 (BigDecFromSDKInt 600) UsdcPoolId = Inr 0"
    by (simp add: GetInterestForPool_def lend_ctx_def u64_def)
  have o: "outstanding lent_state UsdcPoolId = 615" by code_simp
  have a: "''lp'' \<noteq> ss_account lend_keeper" by (simp add: ss_account_def)
  show ?thesis
    using Repay_exact [OF lend_env lent_inv a t] t
    by (auto simp: d i o lent_debt_def GetTotalLiablities_def usdc_def Let_def)
qed

text \<open>C19: a repayment of more than the loan and its interest is refused with
  \<open>ErrNegativeBorrowed\<close>, even when the payer has the coins.\<close>

theorem Repay_overpaid:
  assumes "ss_env k" and "ss_inv k s" and "GetPool s q = Some pool" and "po_DepositDenom pool = Denom amount"
    and "BkAccToMod (sk_bank k) a ss_ModuleName [amount] (ss_ext s) = Inr e"
    and "let d = getDebt k ctx s a q
         in GetInterestForPool k ctx s (de_LastInterestCalcBlock d) (de_LastInterestCalcTime d)
              (BigDecFromSDKInt (de_Borrowed d)) q = Inr n"
    and "0 \<le> n" and "GetTotalLiablities (getDebt k ctx s a q) + n < Amount amount"
  shows "Repay k ctx a amount q b s = Inl ss_ErrNegativeBorrowed"
proof -
  define d where "d = getDebt k ctx s a q"
  define s1 where "s1 = s\<lparr>ss_commit := (ss_commit s)\<lparr>cs_ext := e\<rparr>\<rparr>"
  note S = ss_envD(1) [OF assms(1)]
  have "coins_ok (sk_sdk k) [amount]"
    using ss_envD(3) [OF assms(1)] assms(5) unfolding bank_valid_laws_def by blast
  then have dn: "denom_ok (sk_sdk k) (Denom amount)" using coins_ok_list(2) [OF S] by simp
  have pay: "ss_bank_call (BkAccToMod (sk_bank k) a ss_ModuleName [amount]) s = Inr s1"
    using assms(5) by (auto simp: ss_bank_call_Inr s1_def)
  have of: "debt_of k a q d" unfolding d_def by (rule getDebt_of(1) [OF S assms(2)])
  then have q: "de_PoolId d = q" by (simp add: debt_of_def)
  define d' where "d' = d\<lparr>de_InterestStacked := de_InterestStacked d + n,
    de_LastInterestCalcTime := u64 (Unix (BlockTime ctx)), de_LastInterestCalcBlock := u64 (BlockHeight ctx)\<rparr>"
  have of': "debt_of k a q d'" using of by (simp add: d'_def debt_of_def)
  have g: "GetPool s1 q = Some pool" "getDebt k ctx s1 a q = d"
    using assms(3) by (simp_all add: s1_def d_def)
  have i: "GetInterestForPool k ctx s1 (de_LastInterestCalcBlock d) (de_LastInterestCalcTime d)
      (BigDecFromSDKInt (de_Borrowed d)) q = Inr n"
    using assms(6) by (simp add: s1_def d_def Let_def)
  obtain c where c: "NewCoin (sk_sdk k) (po_DepositDenom pool) n = Inr c"
    using NewCoin_Inr [OF S] dn assms(4,7) by fastforce
  obtain s2 where u: "UpdateInterestAndGetDebt k ctx a q b s1 = Inr (s2, d')"
    by (simp add: UpdateInterestAndGetDebt_def UpdateInterestStacked_def g q i c SetDebt_eq [OF of'] Let_def
        d'_def [symmetric])
  have "de_Borrowed d - (Amount amount - min (de_InterestStacked d + n - de_InterestPaid d) (Amount amount)) < 0"
    using assms(8) getDebt_of(2) [OF S assms(2), of ctx a q] assms(7)
    by (simp add: GetTotalLiablities_def d_def [symmetric] debt_ok_def min_def)
  then show ?thesis
    using pay u assms(3,4) by (simp add: Repay_def Let_def d'_def)
qed

theorem Repay_overpaid_witness:
  "Repay lend_keeper (lend_ctx 1) ''lp'' (usdc 616) UsdcPoolId 1 lent_state = Inl ss_ErrNegativeBorrowed"
proof -
  have d: "getDebt lend_keeper (lend_ctx 1) lent_state ''lp'' UsdcPoolId = lent_debt"
    by (simp add: getDebt_def lent_debts)
  have "\<exists>e. BkAccToMod (sk_bank lend_keeper) ''lp'' ss_ModuleName [usdc 616] (ss_ext lent_state) = Inr e"
    by (simp add: strict_bank_def std_valid_def usdc_def lg_send_def lg_debit_def lent_state_def lg_bal_def kv_get_def)
  then obtain e where e: "BkAccToMod (sk_bank lend_keeper) ''lp'' ss_ModuleName [usdc 616] (ss_ext lent_state) = Inr e"
    by blast
  have i: "GetInterestForPool lend_keeper (lend_ctx 1) lent_state 1 864000 (BigDecFromSDKInt 600) UsdcPoolId = Inr 0"
    by (simp add: GetInterestForPool_def lend_ctx_def u64_def)
  show ?thesis
    by (rule Repay_overpaid [OF lend_env lent_inv lent_get [of UsdcPoolId, unfolded if_P [OF refl]] _ e, where n = 0])
      (simp_all add: d i lent_debt_def GetTotalLiablities_def usdc_def lent_pool_def usdc_pool_def)
qed

section \<open>Limits on borrowing and withdrawing\<close>

text \<open>C20: a loan that would bring what is lent out over the pool's leverage ratio is refused with
  \<open>ErrMaxBorrowAmount\<close>; one that is made leaves what is lent out within the ratio of the net
  amount before it, up to the interest the borrower's debt took on with it, and adds exactly the
  amount to the loan.\<close>

theorem Borrow_limit:
  assumes "ss_env k" and "ss_inv k s" and "GetPool s q = Some pool" and "po_DepositDenom pool = Denom amount"
    and "a \<noteq> ss_account k"
  shows "if po_NetAmount pool * po_MaxLeverageRatio pool <
           (po_NetAmount pool - module_balance k s (Denom amount) + Amount amount) * dec_one
    then Borrow k ctx a amount q b s = Inl ss_ErrMaxBorrowAmount
    else \<forall>t. Borrow k ctx a amount q b s = Inr t \<longrightarrow>
      (\<exists>n. 0 \<le> n \<and> GetPool t q = Some (pool\<lparr>po_NetAmount := po_NetAmount pool + n\<rparr>) \<and>
        (po_NetAmount pool - module_balance k t (Denom amount)) * dec_one \<le>
          po_NetAmount pool * po_MaxLeverageRatio pool \<and>
        de_Borrowed (getDebt k ctx t a q) = de_Borrowed (getDebt k ctx s a q) + Amount amount \<and>
        outstanding t q = outstanding s q + n + Amount amount)"
proof -
  note S = ss_envD(1) [OF assms(1)] and L = ss_envD(4) [OF assms(1)]
  let ?over = "po_NetAmount pool * po_MaxLeverageRatio pool <
    (po_NetAmount pool - module_balance k s (Denom amount) + Amount amount) * dec_one"
  have over: "BMulDec (sk_big k) (BigDecFromSDKInt (po_NetAmount pool)) (po_MaxLeverageRatio pool) <
      BigDecFromSDKInt (po_NetAmount pool - module_balance k s (Denom amount) + Amount amount) \<longleftrightarrow> ?over"
    (is "?l < ?r \<longleftrightarrow> _")
  proof -
    have "?l = dec_one * (po_NetAmount pool * po_MaxLeverageRatio pool)"
      by (simp add: BMulDec_int [OF ss_lawsD(2) [OF L]])
    moreover have "?r = dec_one * ((po_NetAmount pool - module_balance k s (Denom amount) + Amount amount) * dec_one)"
      by (simp add: BigDecFromSDKInt_def)
    ultimately show ?thesis by (simp only: mult_less_cancel_left_pos [of dec_one])
  qed
  have eff: "\<exists>n. 0 \<le> n \<and> GetPool t q = Some (pool\<lparr>po_NetAmount := po_NetAmount pool + n\<rparr>) \<and>
        module_balance k t (Denom amount) = module_balance k s (Denom amount) - Amount amount \<and>
        de_Borrowed (getDebt k ctx t a q) = de_Borrowed (getDebt k ctx s a q) + Amount amount \<and>
        outstanding t q = outstanding s q + n + Amount amount"
    if "Borrow k ctx a amount q b s = Inr t" for t
    by (rule Borrow_effect [OF assms(1,2,5) that]) (use assms(3,4) in auto)
  show ?thesis
  proof (cases ?over)
    case True
    then show ?thesis using over assms(3,4) by (simp add: Borrow_def Let_def)
  next
    case False
    have "\<exists>n. 0 \<le> n \<and> GetPool t q = Some (pool\<lparr>po_NetAmount := po_NetAmount pool + n\<rparr>) \<and>
        (po_NetAmount pool - module_balance k t (Denom amount)) * dec_one \<le>
          po_NetAmount pool * po_MaxLeverageRatio pool \<and>
        de_Borrowed (getDebt k ctx t a q) = de_Borrowed (getDebt k ctx s a q) + Amount amount \<and>
        outstanding t q = outstanding s q + n + Amount amount"
      if t: "Borrow k ctx a amount q b s = Inr t" for t
    proof -
      obtain n where n: "0 \<le> n" "GetPool t q = Some (pool\<lparr>po_NetAmount := po_NetAmount pool + n\<rparr>)"
        "module_balance k t (Denom amount) = module_balance k s (Denom amount) - Amount amount"
        "de_Borrowed (getDebt k ctx t a q) = de_Borrowed (getDebt k ctx s a q) + Amount amount"
        "outstanding t q = outstanding s q + n + Amount amount"
        using eff [OF t] by blast
      then show ?thesis using False by (intro exI [of _ n]) (simp add: algebra_simps)
    qed
    then show ?thesis using False by simp
  qed
qed

theorem Borrow_limit_witness:
  "Borrow lend_keeper (lend_ctx 1) ''lp'' (usdc 86) UsdcPoolId 1 lent_state = Inl ss_ErrMaxBorrowAmount \<and>
   (\<exists>t. Borrow lend_keeper (lend_ctx 1) ''lp'' (usdc 85) UsdcPoolId 1 lent_state = Inr t \<and>
      de_Borrowed (getDebt lend_keeper (lend_ctx 1) t ''lp'' UsdcPoolId) = 685)"
proof -
  have p: "GetPool lent_state UsdcPoolId = Some lent_pool" by (simp add: lent_get)
  have den: "po_DepositDenom lent_pool = Denom (usdc n)" for n by (simp add: lent_pool_def usdc_pool_def usdc_def)
  have a: "''lp'' \<noteq> ss_account lend_keeper" by (simp add: ss_account_def)
  note * = Borrow_limit [OF lend_env lent_inv p den a, of _ "lend_ctx 1" 1]
  have b: "module_balance lend_keeper lent_state ''uusdc'' = 385" by code_simp
  have d: "de_Borrowed (getDebt lend_keeper (lend_ctx 1) lent_state ''lp'' UsdcPoolId) = 600"
    by (simp add: getDebt_def lent_debts lent_debt_def)
  have "map_sum (\<lambda>e. ()) (\<lambda>t. ()) (Borrow lend_keeper (lend_ctx 1) ''lp'' (usdc 85) UsdcPoolId 1 lent_state) = Inr ()"
    by code_simp
  then obtain t where t: "Borrow lend_keeper (lend_ctx 1) ''lp'' (usdc 85) UsdcPoolId 1 lent_state = Inr t"
    by (cases "Borrow lend_keeper (lend_ctx 1) ''lp'' (usdc 85) UsdcPoolId 1 lent_state") auto
  show ?thesis
    using * [of 86] * [of 85] t by (auto simp: b d usdc_def lent_pool_def usdc_pool_def)
qed


definition bond_run :: "ss_call list" where
  "bond_run = [SBond (lend_ctx 1) ''alice'' 1000 UsdcPoolId, SBorrow (lend_ctx 1) ''lp'' (usdc 300) UsdcPoolId 1]"

lemma bond_run_sheet:
  "sheet lend_keeper lend_state (UsdcPoolId + 1 + 2) (run_ops (ss_handle lend_keeper) bond_run lend_state)"
proof -
  have "list_all (ss_call_ok lend_keeper) bond_run"
    by (simp add: bond_run_def ss_account_def ss_ModuleName_def MustAccAddress_def)
  moreover have "sheet lend_keeper lend_state (UsdcPoolId + 1) lend_state"
    using lend_env lend_state_ok by (simp add: sheet_def)
  ultimately have "sheet lend_keeper lend_state (UsdcPoolId + 1 + int (length bond_run))
      (run_ops (ss_handle lend_keeper) bond_run lend_state)"
    by (rule ledger.run_inv) (simp add: bond_run_def UsdcPoolId_def)
  then show ?thesis by (simp add: bond_run_def)
qed

definition unbond_facts :: "ledger sstate \<Rightarrow> bool" where
  "unbond_facts s \<longleftrightarrow> GetPool s UsdcPoolId = Some (usdc_pool\<lparr>po_NetAmount := 1000\<rparr>) \<and>
     module_balance lend_keeper s ''uusdc'' = 700 \<and>
     map_sum (\<lambda>e. ()) (\<lambda>t. ()) (msg_Unbond lend_keeper (lend_ctx 1) ''alice'' 100 UsdcPoolId s) = Inr ()"


section \<open>Bad debt\<close>

text \<open>C22: closing a position that cannot repay deletes the borrower's debt but leaves the pool's
  net amount as it is: the pool goes on counting the loss, all the borrower owed with its
  interest, as if it were still there, and the depositors' shares are priced with it.\<close>

theorem Close_keeps_loss:
  assumes "ss_env k" and "ss_inv k s" and "GetPool s q = Some pool"
    and "CloseOnUnableToRepay k ctx a q b s = Inr t"
  shows "\<exists>debt s1 pool'. UpdateInterestAndGetDebt k ctx a q b s = Inr (s1, debt) \<and>
    0 \<le> GetTotalLiablities debt \<and> kv_get (ss_debts t) (GetDebtKey a q) = None \<and>
    GetPool s1 q = Some pool' \<and> GetPool t q = Some pool' \<and>
    pool_gap k t q = pool_gap k s q + GetTotalLiablities debt"
proof -
  obtain debt s1 where d: "kv_get (ss_debts t) (GetDebtKey a q) = None" "0 \<le> GetTotalLiablities debt"
    "UpdateInterestAndGetDebt k ctx a q b s = Inr (s1, debt)"
    "pool_gap k t q = pool_gap k s q + GetTotalLiablities debt"
    by (rule Close_effect [OF assms, of "Plain []"]) blast
  have "GetPool t q = GetPool s1 q"
    using assms(4) d(3)
    by (auto simp: CloseOnUnableToRepay_def DeleteDebt_def split: option.splits dest!: SubtractPoolLiabilities_Inr)
  moreover have "GetPool s1 q \<noteq> None"
    using UpdateInterest_gaps [OF assms(1,2) d(3)] assms(3) by (auto simp: same_gaps_def dest!: spec [of _ q])
  ultimately show ?thesis using d by auto
qed

theorem Close_keeps_loss_witness:
  "\<exists>t. CloseOnUnableToRepay lend_keeper (lend_ctx 1) ''lp'' UsdcPoolId 1 lent_state = Inr t \<and>
     GetPool t UsdcPoolId = Some lent_pool \<and> pool_gap lend_keeper t UsdcPoolId = 615"
proof -
  have "map_sum (\<lambda>e. ()) (\<lambda>t. ()) (CloseOnUnableToRepay lend_keeper (lend_ctx 1) ''lp'' UsdcPoolId 1 lent_state) = Inr () \<and>
      map_sum (\<lambda>e. ()) (\<lambda>r. (GetPool (fst r) UsdcPoolId = Some lent_pool, GetTotalLiablities (snd r)))
        (UpdateInterestAndGetDebt lend_keeper (lend_ctx 1) ''lp'' UsdcPoolId 1 lent_state) = Inr (True, 615) \<and>
      pool_gap lend_keeper lent_state UsdcPoolId = 0"
    by code_simp
  moreover from this obtain t where t: "CloseOnUnableToRepay lend_keeper (lend_ctx 1) ''lp'' UsdcPoolId 1 lent_state = Inr t"
    by (cases "CloseOnUnableToRepay lend_keeper (lend_ctx 1) ''lp'' UsdcPoolId 1 lent_state") auto
  ultimately show ?thesis
    using Close_keeps_loss [OF lend_env lent_inv lent_get [of UsdcPoolId, unfolded if_P [OF refl]] t] by auto
qed

section \<open>Interest rates\<close>

text \<open>C24: in a block a pool's interest rate stays between its bounds and, starting from within
  them, rises by at most its increase and falls by at most its decrease; nothing else of the pool
  changes, and the block's entry is the new rate on top of the entry of the block before.\<close>

theorem BeginBlocker_rates:
  assumes "ss_laws k" and "ss_inv k s" and "ss_BeginBlocker k ctx s = Inr t"
    and "GetPool s q = Some pool" and "po_NetAmount pool \<noteq> 0"
    and "0 \<le> po_InterestRateIncrease pool" and "0 \<le> po_InterestRateDecrease pool"
    and "po_InterestRateMin pool \<le> po_InterestRateMax pool"
  shows "\<exists>rate. GetPool t q = Some (pool\<lparr>po_InterestRate := rate\<rparr>) \<and>
    po_InterestRateMin pool \<le> rate \<and> rate \<le> po_InterestRateMax pool \<and>
    (po_InterestRateMin pool \<le> po_InterestRate pool \<and> po_InterestRate pool \<le> po_InterestRateMax pool \<longrightarrow>
       po_InterestRate pool - po_InterestRateDecrease pool \<le> rate \<and>
       rate \<le> po_InterestRate pool + po_InterestRateIncrease pool) \<and>
    interest_at t q (u64 (BlockHeight ctx)) = rate + interest_at s q (u64 (BlockHeight ctx - 1))"
proof -
  obtain x where x: "InterestRateComputationForPool k s pool = Inr x"
    "GetPool t q = Some (pool\<lparr>po_InterestRate := BDec (sk_big k) x\<rparr>)"
    "interest_at t q (u64 (BlockHeight ctx)) =
       BDec (sk_big k) x + interest_at s q (u64 (u64 (BlockHeight ctx) - 1))"
    by (rule BeginBlocker_pool [OF assms(2-4)])
  obtain target where target: "x = stepped_rate (BigDecFromDec (po_InterestRateMin pool)) (BigDecFromDec (po_InterestRateMax pool))
    (BigDecFromDec (po_InterestRateIncrease pool)) (BigDecFromDec (po_InterestRateDecrease pool))
    (BigDecFromDec (po_InterestRate pool)) target"
    using InterestRate_stepped [OF assms(1) x(1) assms(5-8)] by blast
  note B = BDec_between [OF ss_lawsD(2) [OF assms(1)]]
  have order: "BigDecFromDec (po_InterestRateMin pool) \<le> BigDecFromDec (po_InterestRateMax pool)"
    "BigDecFromDec (po_InterestRate pool) \<le> BigDecFromDec (po_InterestRate pool + po_InterestRateIncrease pool)"
    "BigDecFromDec (po_InterestRate pool - po_InterestRateDecrease pool) \<le> BigDecFromDec (po_InterestRate pool)"
    by (rule BigDecFromDec_mono, use assms(6-8) in simp)+
  have "po_InterestRateMin pool \<le> BDec (sk_big k) x \<and> BDec (sk_big k) x \<le> po_InterestRateMax pool"
    by (rule B) (use order(1) in \<open>simp_all add: target stepped_rate_def min_def max_def\<close>)
  moreover have "po_InterestRate pool - po_InterestRateDecrease pool \<le> BDec (sk_big k) x \<and>
      BDec (sk_big k) x \<le> po_InterestRate pool + po_InterestRateIncrease pool"
    if "po_InterestRateMin pool \<le> po_InterestRate pool" "po_InterestRate pool \<le> po_InterestRateMax pool"
  proof -
    have "BigDecFromDec (po_InterestRateMin pool) \<le> BigDecFromDec (po_InterestRate pool)"
      "BigDecFromDec (po_InterestRate pool) \<le> BigDecFromDec (po_InterestRateMax pool)"
      using that by (simp_all add: BigDecFromDec_mono)
    then show ?thesis
      by (intro B) (use order in \<open>simp_all add: target stepped_rate_def BigDecFromDec_add BigDecFromDec_diff min_def max_def\<close>)
  qed
  ultimately show ?thesis using x(2,3) by (intro exI [of _ "BDec (sk_big k) x"]) (simp add: u64_pred)
qed

theorem BeginBlocker_rates_witness:
  "\<exists>t rate. ss_BeginBlocker lend_keeper (lend_ctx 2) lent_state = Inr t \<and>
     GetPool t UsdcPoolId = Some (lent_pool\<lparr>po_InterestRate := rate\<rparr>) \<and>
     14 * 10 ^ 16 \<le> rate \<and> rate \<le> 16 * 10 ^ 16"
proof -
  obtain t where t: "ss_BeginBlocker lend_keeper (lend_ctx 2) lent_state = Inr t"
    using BeginBlocker_total [of lend_keeper "lend_ctx 2" lent_state] std_bigdec_laws by auto
  from BeginBlocker_rates [OF ss_envD(4) [OF lend_env] lent_inv t lent_get [of UsdcPoolId, unfolded if_P [OF refl]]]
  obtain rate where "GetPool t UsdcPoolId = Some (lent_pool\<lparr>po_InterestRate := rate\<rparr>)"
    "14 * 10 ^ 16 \<le> rate" "rate \<le> 16 * 10 ^ 16"
    by (auto simp: lent_pool_def usdc_pool_def)
  then show ?thesis using t by blast
qed

text \<open>C25: the begin blocker never fails: whatever the pools' terms and books, no rate computation
  divides by zero, so it cannot stop the chain.\<close>

theorem BeginBlocker_never_fails:
  assumes "bigdec_laws (sk_big k)"
  shows "\<exists>t. ss_BeginBlocker k ctx s = Inr t"
  by (rule BeginBlocker_total [OF assms])

theorem BeginBlocker_never_fails_witness:
  "\<exists>t. ss_BeginBlocker lend_keeper (lend_ctx 2) (SetPool (lent_pool\<lparr>po_HealthGainFactor := 0\<rparr>) lent_state) = Inr t"
  by (rule BeginBlocker_never_fails) (simp add: std_bigdec_laws)

section \<open>Share denominations\<close>

text \<open>C26: the share denomination of a pool gives the pool's id back, so no two pools have the same
  shares; a path of another form is refused.\<close>

theorem share_denom_roundtrip:
  assumes "0 \<le> i" and "i < 2 ^ 64"
  shows "GetPoolIDFromPath (GetShareDenomForPool i) = Inr i"
  using assms by (rule GetPoolIDFromPath_share)

theorem share_denom_roundtrip_witness:
  "GetPoolIDFromPath (GetShareDenomForPool 32768) = Inr 32768 \<and>
   GetShareDenomForPool 32768 = ''stablestake/share/pool/32768''"
proof
  show "GetPoolIDFromPath (GetShareDenomForPool 32768) = Inr 32768" by (rule share_denom_roundtrip) simp_all
  show "GetShareDenomForPool 32768 = ''stablestake/share/pool/32768''"
    by (simp add: GetShareDenomForPool_def UsdcPoolId_def FormatNat.simps)
qed

section \<open>Genesis\<close>

text \<open>Importing a list of interest blocks in the order of their keys.\<close>

definition block_key :: "InterestBlock \<Rightarrow> int \<times> int" where
  "block_key i = (ib_PoolId i, ib_BlockHeight i)"

lemma import_interest:
  "sorted_wrt (<) (map block_key is) \<Longrightarrow> \<forall>i\<in>set is. 0 < ib_BlockHeight i \<and> ib_BlockHeight i < 2 ^ 64 \<Longrightarrow>
     i \<in> set is \<Longrightarrow>
     interest_at (fold SetInterestForPool is s) (ib_PoolId i) (ib_BlockHeight i) =
       ib_InterestRate i + interest_at (fold SetInterestForPool is s) (ib_PoolId i) (ib_BlockHeight i - 1)"
proof (induction "is" arbitrary: i rule: rev_induct)
  case (snoc x xs)
  let ?s = "fold SetInterestForPool xs s"
  have xs: "sorted_wrt (<) (map block_key xs)" "\<And>j. j \<in> set xs \<Longrightarrow> block_key j < block_key x"
    using snoc.prems(1) by (auto simp: sorted_wrt_append)
  have pred: "u64 (ib_BlockHeight x - 1) = ib_BlockHeight x - 1"
    using snoc.prems(2) by (intro u64_id) auto
  show ?case
  proof (cases "i = x")
    case True
    then show ?thesis by (simp add: interest_at_SetInterest pred)
  next
    case False
    then have i: "i \<in> set xs" using snoc.prems(3) by simp
    have ne: "\<not> (ib_PoolId i = ib_PoolId x \<and> ib_BlockHeight x \<le> ib_BlockHeight i)"
      using xs(2) [OF i] by (auto simp: block_key_def)
    show ?thesis
      using snoc.IH [OF xs(1) _ i] snoc.prems(2) ne by (auto simp: interest_at_SetInterest)
  qed
qed simp

lemma interest_at_rest:
  "interest_at (ss_SetParams p s) q h = interest_at s q h"
  "interest_at (fold SetAmmPool as s) q h = interest_at s q h"
  "interest_at (fold SetPool ps s) q h = interest_at s q h"
proof -
  show "interest_at (ss_SetParams p s) q h = interest_at s q h" by (simp add: interest_at_def ss_SetParams_def)
  show "interest_at (fold SetAmmPool as s) q h = interest_at s q h"
    by (induction "as" arbitrary: s) (simp_all add: interest_at_def SetAmmPool_def)
  show "interest_at (fold SetPool ps s) q h = interest_at s q h"
    by (induction ps arbitrary: s) simp_all
qed

definition interest_keyed :: "'e sstate \<Rightarrow> bool" where
  "interest_keyed s \<longleftrightarrow> kv_ok (ss_interest s) \<and>
     (\<forall>(key, i)\<in>set (ss_interest s). key = block_key i \<and> 0 < ib_BlockHeight i \<and> ib_BlockHeight i < 2 ^ 64)"

text \<open>Exporting and importing the interest of the blocks does not give it back: the exported
  entries are cumulated already and the import cumulates them again, so the interest of one block
  becomes all the interest cumulated up to it.\<close>

theorem genesis_recounts_interest:
  assumes "interest_keyed s" and "ss_InitGenesis k (ss_ExportGenesis s) s0 = Inr t"
    and "kv_get (ss_interest s) (q, h) = Some i" and "kv_get (ss_interest s) (q, h + 1) = Some j"
  shows "interest_at t q (h + 1) - interest_at t q h = interest_at s q (h + 1)"
proof -
  let ?is = "map snd (ss_interest s)"
  have ok: "kv_ok (ss_interest s)" and key: "\<And>key i. (key, i) \<in> set (ss_interest s) \<Longrightarrow>
      key = block_key i \<and> 0 < ib_BlockHeight i \<and> ib_BlockHeight i < 2 ^ 64"
    using assms(1) by (auto simp: interest_keyed_def)
  have all: "GetAllInterest s = ?is"
    using key by (force simp: GetAllInterest_def)
  have keys: "map block_key ?is = map fst (ss_interest s)" using key by force
  have sorted: "sorted_wrt (<) (map block_key ?is)" using ok unfolding keys kv_ok_def .
  have range: "\<forall>i\<in>set ?is. 0 < ib_BlockHeight i \<and> ib_BlockHeight i < 2 ^ 64" using key by force
  have mem: "j \<in> set ?is" "block_key j = (q, h + 1)"
    using assms(4) key by (force simp: kv_get_mem [OF ok])+
  obtain s1 where "t = ss_SetParams (ss_GetParams s) (fold SetAmmPool (GetAllAmmPools s)
      (fold SetPool (GetAllPools s) (fold SetInterestForPool ?is s1)))"
    using assms(2) by (auto simp: ss_InitGenesis_def ss_ExportGenesis_def all)
  then have t: "interest_at t p l = interest_at (fold SetInterestForPool ?is s1) p l" for p l
    by (simp add: interest_at_rest)
  have "interest_at t q (h + 1) = ib_InterestRate j + interest_at t q h"
    using import_interest [OF sorted range mem(1), of s1] mem(2) by (simp add: t block_key_def)
  then show ?thesis using assms(4) by (simp add: interest_at_def)
qed

definition two_blocks :: "ledger sstate" where
  "two_blocks = lend_state\<lparr>ss_interest :=
     [((UsdcPoolId, 1), \<lparr>ib_InterestRate = 15, ib_BlockTime = 6, ib_BlockHeight = 1, ib_PoolId = UsdcPoolId\<rparr>),
      ((UsdcPoolId, 2), \<lparr>ib_InterestRate = 30, ib_BlockTime = 12, ib_BlockHeight = 2, ib_PoolId = UsdcPoolId\<rparr>)]\<rparr>"

theorem genesis_recounts_interest_witness:
  "\<exists>t. ss_InitGenesis lend_keeper (ss_ExportGenesis two_blocks) lend_state = Inr t \<and>
     interest_at two_blocks UsdcPoolId 2 - interest_at two_blocks UsdcPoolId 1 = 15 \<and>
     interest_at t UsdcPoolId 2 - interest_at t UsdcPoolId 1 = 30"
proof -
  obtain t where t: "ss_InitGenesis lend_keeper (ss_ExportGenesis two_blocks) lend_state = Inr t"
    by (simp add: ss_InitGenesis_def ss_ExportGenesis_def GetAllDebts_def two_blocks_def lend_state_def)
  have k: "interest_keyed two_blocks"
    by (simp add: interest_keyed_def two_blocks_def kv_ok_def block_key_def)
  have i: "interest_at two_blocks UsdcPoolId 2 = 30" "interest_at two_blocks UsdcPoolId 1 = 15"
    by (simp_all add: interest_at_def two_blocks_def kv_get_def)
  have "interest_at t UsdcPoolId (1 + 1) - interest_at t UsdcPoolId 1 = interest_at two_blocks UsdcPoolId (1 + 1)"
    by (rule genesis_recounts_interest [OF k t]) (simp_all add: two_blocks_def kv_get_def)
  then show ?thesis using t i by auto
qed

end
