(* ===== verification/PowApprox.thy ===== *)
theory PowApprox
  imports BigDec
begin

text \<open>
  Powers with real exponents (utils: \<open>pow.go\<close>, \<open>pow_approx.go\<close>, \<open>math.go\<close>), which weighted AMM
  pools use. \<open>Pow\<close> splits off the integer part of the exponent; the rest is approximated by the
  binomial series for bases near one and by \<open>exp (a * ln b)\<close> otherwise.
\<close>

section \<open>What the library gives\<close>

text \<open>Integer powers of both decimals and the square root of \<open>LegacyDec\<close> are the library's.\<close>

record pow_env =
  pe_big :: bigdec_ops
  pe_dec :: dec_ops
  pe_PowerInteger :: "int \<Rightarrow> int \<Rightarrow> int"
  pe_Power :: "int \<Rightarrow> int \<Rightarrow> int"
  pe_ApproxSqrt :: "int \<Rightarrow> int result"

definition pow_laws :: "pow_env \<Rightarrow> bool" where
  "pow_laws E \<longleftrightarrow> bigdec_laws (pe_big E) \<and> dec_laws (pe_dec E) \<and>
     (\<forall>x. pe_PowerInteger E x 0 = big_one) \<and> (\<forall>x. pe_PowerInteger E x 1 = x) \<and>
     (\<forall>x n. 0 < x \<longrightarrow> 0 \<le> pe_PowerInteger E x n) \<and>
     (\<forall>x n. dec_one \<le> x \<longrightarrow> dec_one \<le> pe_Power E x n) \<and>
     (\<forall>x. 0 \<le> x \<longrightarrow> (\<exists>r. pe_ApproxSqrt E x = Inr r))"

text \<open>\<open>BigDec.TruncateDec\<close>, \<open>BigDec.Ceil\<close>; \<open>TruncateInt64\<close> of both decimals panics outside
  \<open>int64\<close>.\<close>

definition TruncateDec :: "int \<Rightarrow> int" where
  "TruncateDec x = x sdiv big_one * big_one"

definition BCeil :: "int \<Rightarrow> int" where
  "BCeil x = - ((- x) div big_one) * big_one"

definition to_int64 :: "int \<Rightarrow> int result" where
  "to_int64 n = (if - (2 ^ 63) \<le> n \<and> n < 2 ^ 63 then Inr n else Inl (Panic ''Int64() out of bound''))"

definition out_of_fuel :: err where
  "out_of_fuel = Plain ''out of fuel''"

section \<open>Constants and helpers\<close>

definition oneHalf :: int where "oneHalf = 500000000000000000"
definition twoDec :: int where "twoDec = 2000000000000000000"
definition ln2 :: int where "ln2 = 693147180559945309"
definition inverseLn2 :: int where "inverseLn2 = 1442695040888963407"
definition euler :: int where "euler = 2718281828459045235"
definition powIterationLimit :: int where "powIterationLimit = 150000"
definition powPrecision :: int where "powPrecision = 10000000000"

lemmas pow_consts = oneHalf_def twoDec_def ln2_def inverseLn2_def euler_def powIterationLimit_def powPrecision_def

definition AbsDifferenceWithSign :: "int \<Rightarrow> int \<Rightarrow> int \<times> bool" where
  "AbsDifferenceWithSign a b = (if a \<ge> b then (a - b, False) else (- a + b, True))"

definition Pow10Int64 :: "int \<Rightarrow> int result" where
  "Pow10Int64 decimal =
     (if decimal \<le> 18 then Inr (10 ^ nat decimal) else Inl (Panic ''cannot do more than 10^18 for int64''))"

definition Pow10 :: "int \<Rightarrow> int" where
  "Pow10 decimal = 10 ^ nat decimal * big_one"

section \<open>Exponential and logarithm\<close>

text \<open>The terms of the exponential series from the \<open>n\<close>th on.\<close>

function exp_terms :: "dec_ops \<Rightarrow> int \<Rightarrow> int \<Rightarrow> int \<Rightarrow> int \<Rightarrow> int result" where
  "exp_terms D y n term0 expY =
     (let term1 = DMul D term0 y sdiv n; expY' = expY + term1
      in if \<bar>term1\<bar> \<le> powPrecision then Inr expY'
         else if n > powIterationLimit then Inl (Plain ''failed to reach precision (Exp)'')
         else exp_terms D y (n + 1) term1 expY')"
  by pat_completeness auto
termination by (relation "measure (\<lambda>(D, y, n, t, e). nat (powIterationLimit + 1 - n))") auto

definition computeExp :: "pow_env \<Rightarrow> int \<Rightarrow> int result" where
  "computeExp E x =
     (let D = pe_dec E
      in if x = 0 then Inr dec_one
         else if x = dec_one then Inr euler
         else if x \<le> dec_of_int (- 42) then Inr 0
         else rbind (to_int64 (DTruncateInt D (DMul D x inverseLn2))) (\<lambda>k.
           let y = x - DMul D (dec_of_int k) ln2
           in rbind (exp_terms D y 1 dec_one dec_one) (\<lambda>expY.
              rbind (if k > 0 then Inr (pe_Power E twoDec (u64 k))
                     else if k < 0 then DQuo D dec_one (pe_Power E twoDec (u64 (- k)))
                     else Inr dec_one) (\<lambda>twoPowK.
                Inr (DMul D expY twoPowK)))))"

text \<open>The two loops that bring the argument of the logarithm into \<open>[0.5, 2]\<close>, with fuel.\<close>

fun halve :: "nat \<Rightarrow> dec_ops \<Rightarrow> int \<Rightarrow> int \<Rightarrow> (int \<times> int) result" where
  "halve 0 D x k = Inl out_of_fuel"
| "halve (Suc f) D x k =
     (if x > twoDec then rbind (DQuo D x twoDec) (\<lambda>x'. halve f D x' (k + 1)) else Inr (x, k))"

fun double :: "nat \<Rightarrow> int \<Rightarrow> int \<Rightarrow> (int \<times> int) result" where
  "double 0 x k = Inl out_of_fuel"
| "double (Suc f) x k = (if x < oneHalf then double f (x * 2) (k - 1) else Inr (x, k))"

function ln_terms :: "dec_ops \<Rightarrow> int \<Rightarrow> int \<Rightarrow> int \<Rightarrow> int \<Rightarrow> int result" where
  "ln_terms D y n yPower res =
     (let sign = (if (n + 1) mod 2 = 0 then 1 else - 1);
          term1 = yPower * sign sdiv n; res' = res + term1
      in if powPrecision > \<bar>term1\<bar> then Inr res'
         else if n > powIterationLimit then Inl (Plain ''failed to reach precision (Ln)'')
         else ln_terms D y (n + 1) (DMul D yPower y) res')"
  by pat_completeness auto
termination by (relation "measure (\<lambda>(D, y, n, t, e). nat (powIterationLimit + 1 - n))") auto

definition range_fuel :: nat where
  "range_fuel = 320"

definition computeLn :: "pow_env \<Rightarrow> int \<Rightarrow> int result" where
  "computeLn E x =
     (let D = pe_dec E
      in if x \<le> 0 then Inl (Plain ''x for computing it's Ln must be greater than 0'')
         else if x = dec_one then Inr 0
         else if x = twoDec then Inr ln2
         else rbind (halve range_fuel D x 0) (\<lambda>(x1, k1).
              rbind (double range_fuel x1 k1) (\<lambda>(x2, k).
                let y = x2 - dec_one
                in rbind (ln_terms D y 1 y 0) (\<lambda>res. Inr (res + ln2 * k)))))"

section \<open>The binomial series\<close>

text \<open>The loop from the \<open>i\<close>th term on; \<open>i\<close> starts at one and grows by one.\<close>

function maclaurin_terms ::
    "dec_ops \<Rightarrow> int \<Rightarrow> bool \<Rightarrow> int \<Rightarrow> int \<Rightarrow> int \<Rightarrow> int \<Rightarrow> bool \<Rightarrow> int \<Rightarrow> int result" where
  "maclaurin_terms D x xneg a precision i term0 negative acc =
     (if \<not> term0 \<ge> precision then Inr acc
      else let (c, cneg) = AbsDifferenceWithSign a (dec_of_int (i - 1))
        in rbind (DQuo D (DMul D (DMul D term0 c) x) (dec_of_int i)) (\<lambda>term1.
           if term1 = 0 then Inr acc
           else let negative' = (negative \<noteq> xneg) \<noteq> cneg;
                    acc' = (if negative' then acc - term1 else acc + term1)
             in if i \<ge> powIterationLimit then Inl (Panic ''failed to reach precision'')
                else maclaurin_terms D x xneg a precision (i + 1) term1 negative' acc'))"
  by pat_completeness auto
termination
  by (relation "measure (\<lambda>(D, x, xneg, a, p, i, t, g, s). nat (powIterationLimit - i))") auto

definition maclaurinSeriesApproximation :: "pow_env \<Rightarrow> int \<Rightarrow> int \<Rightarrow> int \<Rightarrow> int result" where
  "maclaurinSeriesApproximation E originalBase exp precision =
     (if \<not> originalBase > 0 then Inl (Panic ''base must be greater than 0'')
      else if exp = 0 then Inr dec_one
      else if exp = oneHalf then
        (case pe_ApproxSqrt E originalBase of Inl e \<Rightarrow> Inl (Panic ''sqrt'') | Inr r \<Rightarrow> Inr r)
      else let (x, xneg) = AbsDifferenceWithSign originalBase dec_one
        in maclaurin_terms (pe_dec E) x xneg exp precision 1 dec_one False dec_one)"

definition exponentialLogarithmicMethod :: "pow_env \<Rightarrow> int \<Rightarrow> int \<Rightarrow> int result" where
  "exponentialLogarithmicMethod E base exp =
     rbind (computeLn E base) (\<lambda>lnBase. computeExp E (DMul (pe_dec E) exp lnBase))"

section \<open>Powers\<close>

text \<open>\<open>Pow\<close>, given the approximation it calls for the fraction of the exponent; an error of the
  approximation is a panic.\<close>

definition Pow_with :: "(int \<Rightarrow> int \<Rightarrow> int result) \<Rightarrow> pow_env \<Rightarrow> int \<Rightarrow> int \<Rightarrow> int result" where
  "Pow_with approx E base exp =
     (if \<not> base > 0 then Inl (Panic ''base must be greater than 0'')
      else let integer = TruncateDec exp; fractional = exp - integer
        in rbind (to_int64 (integer sdiv big_one)) (\<lambda>n.
           let integerPow = pe_PowerInteger E base (u64 n)
           in if fractional = 0 then Inr integerPow
              else case approx (BDec (pe_big E) base) (BDec (pe_big E) fractional) of
                  Inl (Panic m) \<Rightarrow> Inl (Panic m)
                | Inl e \<Rightarrow> if e = out_of_fuel then Inl e else Inl (Panic ''power approximation'')
                | Inr fractionalPow \<Rightarrow> Inr (BMul (pe_big E) integerPow (BigDecFromDec fractionalPow))))"

text \<open>The two functions call each other: an exponent above one goes through \<open>Pow\<close>, whose fraction
  is below one. The fuel counts these calls.\<close>

primrec powerApproximation :: "nat \<Rightarrow> pow_env \<Rightarrow> int \<Rightarrow> int \<Rightarrow> int result" where
  "powerApproximation 0 = (\<lambda>E base exp. Inl out_of_fuel)"
| "powerApproximation (Suc f) = (\<lambda>E base exp.
     if \<not> base > 0 then Inl (Plain ''base must be greater than 0'')
     else if exp < 0 then Inl (Plain ''exp must be greater than 0'')
     else if exp = 0 then Inr dec_one
     else if exp = dec_one then Inr base
     else if exp = - dec_one then DQuo (pe_dec E) dec_one base
     else if exp = oneHalf then pe_ApproxSqrt E base
     else if exp mod dec_one = 0 \<and> exp > 0 \<and> exp \<le> dec_of_int (2 ^ 64 - 1)
       then rbind (to_int64 (DTruncateInt (pe_dec E) exp)) (\<lambda>n. Inr (pe_Power E base (u64 n)))
     else if exp > dec_one
       then rbind (Pow_with (powerApproximation f E) E (BigDecFromDec base) (BigDecFromDec exp)) (\<lambda>r.
              Inr (BDec (pe_big E) r))
     else if base \<ge> oneHalf \<and> base < twoDec
       then maclaurinSeriesApproximation E base exp powPrecision
     else exponentialLogarithmicMethod E base exp)"

definition Pow :: "pow_env \<Rightarrow> int \<Rightarrow> int \<Rightarrow> int result" where
  "Pow E = Pow_with (powerApproximation 2 E) E"

end
