(* ===== verification/PowLaws.thy ===== *)
theory PowLaws
  imports PowApprox
begin

text \<open>
  What holds of \<open>Pow\<close>: integer exponents are exact, and every call returns: the loops stop within
  their limits and the fuel of the definitions is never used up.
\<close>

declare exp_terms.simps [simp del] ln_terms.simps [simp del] maclaurin_terms.simps [simp del]

lemma pow_lawsD:
  assumes "pow_laws E"
  shows "bigdec_laws (pe_big E)" "dec_laws (pe_dec E)" "pe_PowerInteger E x 1 = x"
    "0 < x \<Longrightarrow> 0 \<le> pe_PowerInteger E x n" "dec_one \<le> x \<Longrightarrow> dec_one \<le> pe_Power E x n"
    "0 \<le> x \<Longrightarrow> \<exists>r. pe_ApproxSqrt E x = Inr r"
  using assms unfolding pow_laws_def by blast+

section \<open>Integer exponents\<close>

lemma sdiv_big_exact: "x * big_one sdiv big_one = x"
  by (simp add: signed_divide_int_def abs_mult sgn_mult mult_sgn_abs)

lemma TruncateDec_int: "TruncateDec (BigDecFromSDKInt n) = BigDecFromSDKInt n"
  by (simp add: TruncateDec_def BigDecFromSDKInt_def sdiv_big_exact)

lemma Pow_integer:
  assumes "0 < base" "0 \<le> n" "n < 2 ^ 63"
  shows "Pow E base (BigDecFromSDKInt n) = Inr (pe_PowerInteger E base n)"
  using assms
  by (simp add: Pow_def Pow_with_def TruncateDec_int to_int64_def u64_id)
    (simp add: BigDecFromSDKInt_def sdiv_big_exact u64_id)

lemma Pow_one: "pow_laws E \<Longrightarrow> 0 < base \<Longrightarrow> Pow E base big_one = Inr base"
  using Pow_integer [of base 1 E] by (simp add: BigDecFromSDKInt_def pow_lawsD(3))

section \<open>Every call returns\<close>

definition returns :: "'a result \<Rightarrow> bool" where
  "returns m \<longleftrightarrow> m \<noteq> Inl out_of_fuel"

lemma returns_simps [simp]:
  "returns (Inr x)" "returns (Inl (Panic m))" "returns (Inl (Plain m)) \<longleftrightarrow> m \<noteq> ''out of fuel''"
  by (simp_all add: returns_def out_of_fuel_def)

lemma returns_rbind: "returns m \<Longrightarrow> (\<And>x. m = Inr x \<Longrightarrow> returns (f x)) \<Longrightarrow> returns (rbind m f)"
  by (cases m) (auto simp: returns_def)

lemma returns_if: "(b \<Longrightarrow> returns x) \<Longrightarrow> (\<not> b \<Longrightarrow> returns y) \<Longrightarrow> returns (if b then x else y)"
  by simp

lemma returns_to_int64: "returns (to_int64 n)"
  by (simp add: to_int64_def)

lemmas returns_intros = returns_rbind returns_if returns_to_int64

lemma halve_returns:
  assumes "dec_laws D"
  shows "x \<le> 2 ^ m \<Longrightarrow> m < f \<Longrightarrow> returns (halve f D x k)"
proof (induction f arbitrary: x k m)
  case (Suc f)
  show ?case
  proof (cases "x > twoDec")
    case True
    then have x: "0 \<le> x" by (simp add: twoDec_def)
    obtain q where q: "DQuo D x twoDec = Inr q" "2 * \<bar>dec_one * q - x * dec_one ^ 2 div twoDec\<bar> \<le> dec_one"
      by (rule DQuo_Inr [OF assms x, of twoDec]) (simp_all add: twoDec_def)
    have "0 < m"
    proof (rule ccontr)
      assume "\<not> 0 < m"
      then show False using Suc.prems(1) True by (simp add: twoDec_def)
    qed
    then obtain m' where m: "m = Suc m'" by (cases m) auto
    have "2 * (x * dec_one ^ 2 div twoDec) \<le> x * dec_one"
    proof -
      have "x * dec_one ^ 2 div twoDec = x * dec_one div 2"
        using div_mult_mult2 [of dec_one "x * dec_one" 2] by (simp add: twoDec_def power2_eq_square mult.assoc)
      then show ?thesis by simp
    qed
    then have "2 * (dec_one * q) \<le> x * dec_one + dec_one" using q(2) by (simp add: abs_le_iff)
    then have "2 * q \<le> x + 1" by simp
    then have "q \<le> 2 ^ m'" using Suc.prems(1) by (simp add: m)
    then have "returns (halve f D q (k + 1))" using Suc.IH [of q m'] Suc.prems(2) by (simp add: m)
    then show ?thesis using q(1) True by simp
  qed simp
qed simp

lemma double_returns: "2 ^ j \<le> x \<Longrightarrow> 60 \<le> f + j \<Longrightarrow> 0 < f \<Longrightarrow> returns (double f x k)"
proof (induction f arbitrary: x k j)
  case (Suc f)
  show ?case
  proof (cases "x < oneHalf")
    case True
    have "\<not> 59 \<le> j"
    proof
      assume "59 \<le> j"
      then have "(2 :: int) ^ 59 \<le> 2 ^ j" by (intro power_increasing) simp_all
      then show False using Suc.prems(1) True by (simp add: oneHalf_def)
    qed
    then have "0 < f" "60 \<le> f + Suc j" using Suc.prems(2) by simp_all
    then have "returns (double f (x * 2) (k - 1))"
      using Suc.IH [of "Suc j" "x * 2"] Suc.prems(1) by simp
    then show ?thesis using True by simp
  qed simp
qed simp

lemma exp_terms_returns: "returns (exp_terms D y n t e)"
  by (induction D y n t e rule: exp_terms.induct) (subst exp_terms.simps, simp add: Let_def)

lemma ln_terms_returns: "returns (ln_terms D y n p r)"
  by (induction D y n p r rule: ln_terms.induct) (subst ln_terms.simps, simp add: Let_def)

lemma DQuo_returns: "dec_laws D \<Longrightarrow> 0 \<le> a \<Longrightarrow> 0 < b \<Longrightarrow> returns (DQuo D a b)"
  by (metis DQuo_Inr returns_simps(1))

lemma computeExp_returns:
  assumes "pow_laws E"
  shows "returns (computeExp E x)"
proof -
  have "0 < pe_Power E twoDec n" for n using pow_lawsD(5) [OF assms, of twoDec n] by (simp add: twoDec_def)
  then have q: "returns (DQuo (pe_dec E) dec_one (pe_Power E twoDec n))" for n
    by (intro DQuo_returns [OF pow_lawsD(2) [OF assms]]) simp_all
  show ?thesis
    unfolding computeExp_def Let_def by (intro returns_intros exp_terms_returns q) simp_all
qed

lemma computeLn_returns:
  assumes "pow_laws E" "x \<le> 2 ^ 315"
  shows "returns (computeLn E x)"
proof -
  have h: "returns (halve range_fuel (pe_dec E) x 0)"
    by (rule halve_returns [OF pow_lawsD(2) [OF assms(1)] assms(2)]) (simp add: range_fuel_def)
  have d: "returns (double range_fuel x1 k1)" if "0 < x1" for x1 k1
    by (rule double_returns [of 0]) (use that in \<open>simp_all add: range_fuel_def\<close>)
  have p: "0 < x1" if "halve f (pe_dec E) y k = Inr (x1, k1)" "0 < y" for f y k x1 k1
    using that
  proof (induction f arbitrary: y k)
    case (Suc f)
    show ?case
    proof (cases "y > twoDec")
      case True
      obtain q where q: "DQuo (pe_dec E) y twoDec = Inr q"
        "2 * \<bar>dec_one * q - y * dec_one ^ 2 div twoDec\<bar> \<le> dec_one"
        by (rule DQuo_Inr [OF pow_lawsD(2) [OF assms(1)], of y twoDec]) (use Suc.prems in \<open>simp_all add: twoDec_def\<close>)
      have "y * dec_one ^ 2 div twoDec = y * dec_one div 2"
        using div_mult_mult2 [of dec_one "y * dec_one" 2] by (simp add: twoDec_def power2_eq_square mult.assoc)
      then have "dec_one \<le> y * dec_one ^ 2 div twoDec" using True by (simp add: twoDec_def)
      then have "0 < q" using q(2) by (auto simp: abs_le_iff)
      then show ?thesis using Suc.IH [of q] Suc.prems(1) q(1) True by simp
    next
      case False
      then show ?thesis using Suc.prems by simp
    qed
  qed simp
  show ?thesis
    unfolding computeLn_def Let_def
    by (intro returns_intros h) (auto intro!: returns_intros d ln_terms_returns dest: p)
qed

lemma AbsDifference_nonneg: "AbsDifferenceWithSign a b = (c, g) \<Longrightarrow> 0 \<le> c"
  by (auto simp: AbsDifferenceWithSign_def split: if_splits)

lemma maclaurin_terms_returns:
  assumes "dec_laws D" "0 \<le> x" "0 \<le> p"
  shows "0 < i \<Longrightarrow> returns (maclaurin_terms D x g a p i t neg acc)"
proof (induction "nat (powIterationLimit - i)" arbitrary: i t neg acc rule: less_induct)
  case less
  obtain c h where c: "AbsDifferenceWithSign a (dec_of_int (i - 1)) = (c, h)" by fastforce
  have q: "returns (DQuo D (DMul D (DMul D t c) x) (dec_of_int i))" if "p \<le> t"
    using that less.prems assms AbsDifference_nonneg [OF c]
    by (intro DQuo_returns [OF assms(1)] DMul_nonneg [OF assms(1)]) (simp_all add: dec_of_int_def)
  have IH: "returns (maclaurin_terms D x g a p (i + 1) t' neg' acc')" if "\<not> powIterationLimit \<le> i" for t' neg' acc'
    by (rule less.hyps) (use that less.prems in auto)
  show ?case
    by (subst maclaurin_terms.simps) (use q IH in \<open>auto simp: c Let_def intro!: returns_rbind\<close>)
qed

lemma maclaurin_returns:
  assumes "pow_laws E"
  shows "returns (maclaurinSeriesApproximation E b e powPrecision)"
proof -
  obtain x g where x: "AbsDifferenceWithSign b dec_one = (x, g)" by fastforce
  show ?thesis
    using maclaurin_terms_returns [OF pow_lawsD(2) [OF assms] AbsDifference_nonneg [OF x], of powPrecision 1]
    by (simp add: maclaurinSeriesApproximation_def x powPrecision_def split: sum.split)
qed

lemma exponentialLogarithmic_returns:
  "pow_laws E \<Longrightarrow> b \<le> 2 ^ 315 \<Longrightarrow> returns (exponentialLogarithmicMethod E b e)"
  unfolding exponentialLogarithmicMethod_def
  by (intro returns_rbind computeLn_returns computeExp_returns)

text \<open>The approximation of an exponent up to one calls no power again.\<close>

lemma powerApproximation_small:
  assumes "pow_laws E" "b \<le> 2 ^ 315" "e \<le> dec_one"
  shows "returns (powerApproximation (Suc f) E b e)"
proof -
  have s: "returns (pe_ApproxSqrt E b)" if "0 < b"
    using pow_lawsD(6) [OF assms(1), of b] that by auto
  show ?thesis
    using assms(3) s maclaurin_returns [OF assms(1)] exponentialLogarithmic_returns [OF assms(1,2)]
    by (auto simp: intro!: returns_rbind returns_to_int64)
qed

lemma fraction_small: "BDec (pe_big E) (e - TruncateDec e) \<le> dec_one" if "pow_laws E"
proof -
  have "e - TruncateDec e \<le> BigDecFromDec dec_one"
  proof (cases "0 \<le> e")
    case True
    have "e = e div big_one * big_one + e mod big_one" "e mod big_one < big_one" by simp_all
    then show ?thesis using True by (simp add: TruncateDec_def sdiv_nonneg BigDecFromDec_def)
  next
    case False
    then have "TruncateDec e = - (- e div big_one) * big_one"
      by (simp add: TruncateDec_def signed_divide_int_def sgn_if)
    moreover have "- e = - e div big_one * big_one + - e mod big_one" "0 \<le> - e mod big_one" by simp_all
    ultimately have "e - TruncateDec e \<le> 0" by (simp only:)
    then show ?thesis by (simp add: BigDecFromDec_def)
  qed
  then show ?thesis
    using sdiv_between [of "min (-1) (e - TruncateDec e)" "e - TruncateDec e" dec_one] BDec_eq [OF pow_lawsD(1) [OF that]]
    by (simp add: BigDecFromDec_def min_def split: if_splits)
qed

lemma Pow_returns:
  assumes "pow_laws E" "base \<le> 2 ^ 315 * dec_one"
  shows "returns (Pow E base e)"
proof -
  note B = pow_lawsD(1) [OF assms(1)]
  have b: "BDec (pe_big E) base \<le> 2 ^ 315" if "0 < base"
    using BDec_between [OF B, of 0 base "2 ^ 315"] that assms(2) by (simp add: BigDecFromDec_def)
  have a: "returns (powerApproximation 2 E (BDec (pe_big E) base) (BDec (pe_big E) (e - TruncateDec e)))" if "0 < base"
    unfolding numeral_2_eq_2 by (rule powerApproximation_small [OF assms(1) b [OF that] fraction_small [OF assms(1)]])
  have c: "returns (case m of Inl (Panic w) \<Rightarrow> Inl (Panic w)
      | Inl er \<Rightarrow> if er = out_of_fuel then Inl er else Inl (Panic ''power approximation'')
      | Inr fr \<Rightarrow> Inr (f fr))" if "returns m" for m and f :: "int \<Rightarrow> int"
    using that by (auto simp: returns_def out_of_fuel_def split: sum.split err.split)
  show ?thesis
    unfolding Pow_def Pow_with_def Let_def
    by (intro returns_if returns_rbind returns_to_int64 c a) simp_all
qed

text \<open>A concrete environment: powers by squaring, the square root by Newton's iteration.\<close>

fun std_power_n :: "(int \<Rightarrow> int \<Rightarrow> int) \<Rightarrow> int \<Rightarrow> int \<Rightarrow> nat \<Rightarrow> int" where
  "std_power_n mul one x n =
     (if n = 0 then one else if n = 1 then x
      else if even n then std_power_n mul one (mul x x) (n div 2)
      else mul x (std_power_n mul one (mul x x) (n div 2)))"

declare std_power_n.simps [simp del]

fun newton_sqrt :: "nat \<Rightarrow> int \<Rightarrow> int \<Rightarrow> int" where
  "newton_sqrt 0 n x = x"
| "newton_sqrt (Suc f) n x = (if x = 0 then 0 else newton_sqrt f n ((x + n div x) div 2))"

definition std_pow :: pow_env where
  "std_pow =
     \<lparr>pe_big = std_bigdec, pe_dec = std_dec,
      pe_PowerInteger = (\<lambda>x n. std_power_n (BMul std_bigdec) big_one x (nat n)),
      pe_Power = (\<lambda>x n. std_power_n (DMul std_dec) dec_one x (nat n)),
      pe_ApproxSqrt = (\<lambda>x. Inr (newton_sqrt 300 (x * dec_one) x))\<rparr>"

lemma std_power_n_keeps:
  assumes "P one" "\<And>x y. P x \<Longrightarrow> P y \<Longrightarrow> P (mul x y)"
  shows "P x \<Longrightarrow> P (std_power_n mul one x n)"
proof (induction n arbitrary: x rule: less_induct)
  case (less n)
  show ?case
  proof (cases "n < 2")
    case True
    then show ?thesis using assms(1) less.prems by (subst std_power_n.simps) auto
  next
    case False
    then have "P (std_power_n mul one (mul x x) (n div 2))"
      using less.IH [of "n div 2" "mul x x"] less.prems assms(2) by simp
    then show ?thesis using less.prems assms(2) by (subst std_power_n.simps) (use False in auto)
  qed
qed

lemma DMul_ge_one:
  assumes "dec_laws D" "dec_one \<le> a" "dec_one \<le> b"
  shows "dec_one \<le> DMul D a b"
proof -
  have "dec_one * dec_one \<le> a * b" using assms(2,3) by (intro mult_mono) simp_all
  then have "2 * (dec_one * dec_one) \<le> 2 * (dec_one * DMul D a b) + dec_one"
    using DMul_bound [OF assms(1), of a b] by (simp add: abs_le_iff)
  then show ?thesis by simp
qed

lemma std_pow_laws: "pow_laws std_pow"
proof -
  have sel: "pe_big std_pow = std_bigdec" "pe_dec std_pow = std_dec"
    "pe_PowerInteger std_pow x n = std_power_n (BMul std_bigdec) big_one x (nat n)"
    "pe_Power std_pow x n = std_power_n (DMul std_dec) dec_one x (nat n)"
    "pe_ApproxSqrt std_pow x = Inr (newton_sqrt 300 (x * dec_one) x)" for x n
    by (simp_all add: std_pow_def)
  have "0 \<le> std_power_n (BMul std_bigdec) big_one x n" if "0 < x" for x n
    by (rule std_power_n_keeps [where P = "\<lambda>y. 0 \<le> y"])
      (use that in \<open>simp_all add: BMul_nonneg [OF std_bigdec_laws]\<close>)
  moreover have "dec_one \<le> std_power_n (DMul std_dec) dec_one x n" if "dec_one \<le> x" for x n
    by (rule std_power_n_keeps [where P = "\<lambda>y. dec_one \<le> y"])
      (use that in \<open>simp_all add: DMul_ge_one [OF std_dec_laws]\<close>)
  moreover have "std_power_n m one x 0 = one" "std_power_n m one x (Suc 0) = x" for m one x
    by (simp_all add: std_power_n.simps)
  ultimately show ?thesis
    by (simp add: pow_laws_def sel std_bigdec_laws std_dec_laws)
qed

end
