(* ===== verification/AmmPool.thy ===== *)
theory AmmPool
  imports PowLaws SdkStd
begin

text \<open>
  The pools of the amm module (x/amm/types: \<open>pool.go\<close>, \<open>pool_asset.go\<close>, \<open>pool_params.go\<close>,
  \<open>params.go\<close>, \<open>utils.go\<close>, \<open>new_balancer_pool.go\<close>): weighted pools of assets, priced by their
  balances or, for oracle pools, by the oracle.
\<close>

section \<open>Data\<close>

record PoolAsset =
  pa_Token :: coin
  pa_Weight :: int
  pa_ExternalLiquidityRatio :: int

record amm_PoolParams =
  pp_SwapFee :: int
  pp_UseOracle :: bool
  pp_FeeDenom :: string

record amm_Pool =
  am_PoolId :: int
  am_Address :: string
  am_PoolParams :: amm_PoolParams
  am_TotalShares :: coin
  am_PoolAssets :: "PoolAsset list"
  am_TotalWeight :: int
  am_RebalanceTreasury :: string

record amm_Params =
  mp_PoolCreationFee :: int
  mp_SlippageTrackDuration :: int
  mp_BaseAssets :: "string list"
  mp_WeightBreakingFeeExponent :: int
  mp_WeightBreakingFeeMultiplier :: int
  mp_WeightBreakingFeePortion :: int
  mp_WeightRecoveryFeePortion :: int
  mp_ThresholdWeightDifference :: int
  mp_AllowedPoolCreators :: "string list"
  mp_ThresholdWeightDifferenceSwapFee :: int
  mp_LpLockupDuration :: int
  mp_MinSlippage :: int
  mp_AllowedUpfrontSwapMakers :: "string list"

text \<open>What a pool's computations are given: the libraries, the oracle, and the accounted pool
  keeper where there is one.\<close>

record amm_env =
  ae_pow :: pow_env
  ae_sdk :: sdk
  ae_NewPoolAddress :: "int \<Rightarrow> addr"
  ae_NewPoolRebalanceTreasury :: "int \<Rightarrow> addr"
  ae_GetDenomPrice :: "string \<Rightarrow> int"
  ae_GetAssetDecimal :: "string \<Rightarrow> int option"
  ae_GetAccountedBalance :: "(int \<Rightarrow> string \<Rightarrow> int) option"

abbreviation ae_big :: "amm_env \<Rightarrow> bigdec_ops" where
  "ae_big E \<equiv> pe_big (ae_pow E)"

abbreviation ae_dec :: "amm_env \<Rightarrow> dec_ops" where
  "ae_dec E \<equiv> pe_dec (ae_pow E)"

definition amm_ErrLimitMaxAmount :: err where "amm_ErrLimitMaxAmount = Sentinel ''amm'' 6"
definition amm_ErrLimitMinAmount :: err where "amm_ErrLimitMinAmount = Sentinel ''amm'' 7"
definition amm_ErrInvalidMathApprox :: err where "amm_ErrInvalidMathApprox = Sentinel ''amm'' 8"
definition amm_ErrInvalidPool :: err where "amm_ErrInvalidPool = Sentinel ''amm'' 10"
definition amm_ErrDenomNotFoundInPool :: err where "amm_ErrDenomNotFoundInPool = Sentinel ''amm'' 11"
definition amm_ErrNegativeSwapFee :: err where "amm_ErrNegativeSwapFee = Sentinel ''amm'' 23"
definition amm_ErrTooMuchSwapFee :: err where "amm_ErrTooMuchSwapFee = Sentinel ''amm'' 25"
definition amm_ErrAmountTooLow :: err where "amm_ErrAmountTooLow = Sentinel ''amm'' 103"
definition amm_ErrTokenOutAmountZero :: err where "amm_ErrTokenOutAmountZero = Sentinel ''amm'' 115"

section \<open>Assets\<close>

definition GetPoolAssetByDenom :: "PoolAsset list \<Rightarrow> string \<Rightarrow> PoolAsset option" where
  "GetPoolAssetByDenom assets denom = find (\<lambda>asset. Denom (pa_Token asset) = denom) assets"

text \<open>\<open>sort.Search\<close>: the least index in the range at which a condition that is false, then true,
  becomes true.\<close>

function sort_search :: "(nat \<Rightarrow> bool) \<Rightarrow> nat \<Rightarrow> nat \<Rightarrow> nat" where
  "sort_search f i j =
     (if i < j then let h = (i + j) div 2 in if \<not> f h then sort_search f (h + 1) j else sort_search f i h else i)"
  by pat_completeness auto
termination by (relation "measure (\<lambda>(f, i, j). j - i)") auto

declare sort_search.simps [simp del]

definition GetPoolAssetAndIndex :: "amm_Pool \<Rightarrow> string \<Rightarrow> (nat \<times> PoolAsset) result" where
  "GetPoolAssetAndIndex p denom =
     (if denom = [] then Inl (Plain ''you tried to find the PoolAsset with empty denom'')
      else if am_PoolAssets p = [] then Inl amm_ErrDenomNotFoundInPool
      else let i = sort_search (\<lambda>i. denom \<le> Denom (pa_Token (am_PoolAssets p ! i))) 0 (length (am_PoolAssets p))
        in if i \<ge> length (am_PoolAssets p) then Inl amm_ErrDenomNotFoundInPool
           else if Denom (pa_Token (am_PoolAssets p ! i)) \<noteq> denom then Inl amm_ErrDenomNotFoundInPool
           else Inr (i, am_PoolAssets p ! i))"

abbreviation set_asset_amount :: "int \<Rightarrow> PoolAsset \<Rightarrow> PoolAsset" where
  "set_asset_amount n a \<equiv> a\<lparr>pa_Token := (pa_Token a)\<lparr>Amount := n\<rparr>\<rparr>"

fun addToPoolAssetBalances :: "amm_Pool \<Rightarrow> coins \<Rightarrow> amm_Pool result" where
  "addToPoolAssetBalances p [] = Inr p"
| "addToPoolAssetBalances p (coin # cs) =
     rbind (GetPoolAssetAndIndex p (Denom coin)) (\<lambda>(i, poolAsset).
       let poolAsset' = set_asset_amount (Amount (pa_Token poolAsset) + Amount coin) poolAsset
       in addToPoolAssetBalances (p\<lparr>am_PoolAssets := (am_PoolAssets p)[i := poolAsset']\<rparr>) cs)"

fun subtractFromPoolAssetBalances :: "amm_Pool \<Rightarrow> coins \<Rightarrow> amm_Pool result" where
  "subtractFromPoolAssetBalances p [] = Inr p"
| "subtractFromPoolAssetBalances p (coin # cs) =
     rbind (GetPoolAssetAndIndex p (Denom coin)) (\<lambda>(i, poolAsset).
       let poolAsset' = set_asset_amount (Amount (pa_Token poolAsset) - Amount coin) poolAsset
       in if Amount (pa_Token poolAsset') < 0
          then Inl (Plain ''poool asset balance becomes negative after subtraction'')
          else subtractFromPoolAssetBalances (p\<lparr>am_PoolAssets := (am_PoolAssets p)[i := poolAsset']\<rparr>) cs)"

definition ParsePoolAssetsByDenoms :: "amm_Pool \<Rightarrow> string \<Rightarrow> string \<Rightarrow> (PoolAsset \<times> PoolAsset) result" where
  "ParsePoolAssetsByDenoms p tokenADenom tokenBDenom =
     (case GetPoolAssetByDenom (am_PoolAssets p) tokenADenom of
        None \<Rightarrow> Inl (Plain ''does not exist in the pool'')
      | Some Aasset \<Rightarrow>
          (case GetPoolAssetByDenom (am_PoolAssets p) tokenBDenom of
             None \<Rightarrow> Inl (Plain ''does not exist in the pool'')
           | Some Basset \<Rightarrow> Inr (Aasset, Basset)))"

definition parsePoolAssets :: "amm_Pool \<Rightarrow> coins \<Rightarrow> string \<Rightarrow> (coin \<times> PoolAsset \<times> PoolAsset) result" where
  "parsePoolAssets p tokensA tokenBDenom =
     (if length tokensA \<noteq> 1 then Inl (Plain ''expected tokensB to be of length one'')
      else rbind (ParsePoolAssetsByDenoms p (Denom (tokensA ! 0)) tokenBDenom) (\<lambda>(Aasset, Basset).
        Inr (tokensA ! 0, Aasset, Basset)))"

definition parsePoolAssetsCoins :: "amm_Pool \<Rightarrow> coins \<Rightarrow> coins \<Rightarrow> (PoolAsset \<times> PoolAsset) result" where
  "parsePoolAssetsCoins p tokensA tokensB =
     (if length tokensB \<noteq> 1 then Inl (Plain ''expected tokensA to be of length one'')
      else rbind (parsePoolAssets p tokensA (Denom (tokensB ! 0))) (\<lambda>(_, Aasset, Basset). Inr (Aasset, Basset)))"

text \<open>\<open>GetPoolAssetsByDenom\<close> builds a map and refuses a repeated denomination; the map is then
  \<open>GetPoolAssetByDenom\<close>.\<close>

definition GetPoolAssetsByDenom :: "PoolAsset list \<Rightarrow> (string \<Rightarrow> PoolAsset option) result" where
  "GetPoolAssetsByDenom poolAssets =
     (if distinct (map (\<lambda>a. Denom (pa_Token a)) poolAssets) then Inr (GetPoolAssetByDenom poolAssets)
      else Inl (Plain ''repeating pool assets not allowed''))"

definition EnsureDenomInPool :: "(string \<Rightarrow> PoolAsset option) \<Rightarrow> coins \<Rightarrow> unit result" where
  "EnsureDenomInPool poolAssetsByDenom tokensIn =
     (if list_all (\<lambda>coin. poolAssetsByDenom (Denom coin) \<noteq> None) tokensIn then Inr ()
      else Inl amm_ErrDenomNotFoundInPool)"

definition poolAssetsCoins :: "sdk \<Rightarrow> PoolAsset list \<Rightarrow> coins" where
  "poolAssetsCoins S assets = fold (\<lambda>asset coins. CoinsAdd S coins [pa_Token asset]) assets []"

definition GetTotalPoolLiquidity :: "sdk \<Rightarrow> amm_Pool \<Rightarrow> coins" where
  "GetTotalPoolLiquidity S p = poolAssetsCoins S (am_PoolAssets p)"

definition GetAmmPoolBalance :: "amm_Pool \<Rightarrow> string \<Rightarrow> int result" where
  "GetAmmPoolBalance p denom =
     (case find (\<lambda>asset. Denom (pa_Token asset) = denom) (am_PoolAssets p) of
        Some asset \<Rightarrow> Inr (Amount (pa_Token asset))
      | None \<Rightarrow> Inl amm_ErrDenomNotFoundInPool)"

definition GetAssetExternalLiquidityRatio :: "amm_Pool \<Rightarrow> string \<Rightarrow> int result" where
  "GetAssetExternalLiquidityRatio pool asset =
     (case find (\<lambda>poolAsset. Denom (pa_Token poolAsset) = asset) (am_PoolAssets pool) of
        Some poolAsset \<Rightarrow> Inr (BigDecFromDec (pa_ExternalLiquidityRatio poolAsset))
      | None \<Rightarrow> Inl (Plain ''asset not found in the pool''))"

section \<open>Shares and liquidity\<close>

definition add_shares :: "int \<Rightarrow> amm_Pool \<Rightarrow> amm_Pool" where
  "add_shares n p = p\<lparr>am_TotalShares := (am_TotalShares p)\<lparr>Amount := Amount (am_TotalShares p) + n\<rparr>\<rparr>"

definition IncreaseLiquidity :: "int \<Rightarrow> coins \<Rightarrow> amm_Pool \<Rightarrow> amm_Pool result" where
  "IncreaseLiquidity sharesAmt coinsIn p =
     rbind (addToPoolAssetBalances p coinsIn) (\<lambda>p'. Inr (add_shares sharesAmt p'))"

definition DecreaseLiquidity :: "sdk \<Rightarrow> int \<Rightarrow> coins \<Rightarrow> amm_Pool \<Rightarrow> amm_Pool result" where
  "DecreaseLiquidity S sharesAmt coinsIn p =
     (if sharesAmt < 0 then Inl amm_ErrInvalidMathApprox
      else rbind (CoinsValidate S coinsIn) (\<lambda>_.
           rbind (subtractFromPoolAssetBalances p coinsIn) (\<lambda>p1.
           let p2 = add_shares (- sharesAmt) p1
           in if Amount (am_TotalShares p2) < 0 then Inl amm_ErrInvalidMathApprox else Inr p2)))"

definition UpdatePoolAssetBalance :: "coin \<Rightarrow> amm_Pool \<Rightarrow> amm_Pool result" where
  "UpdatePoolAssetBalance coin p =
     rbind (GetPoolAssetAndIndex p (Denom coin)) (\<lambda>(assetIndex, existingAsset).
       if Amount coin \<le> 0 then Inl amm_ErrInvalidMathApprox
       else Inr (p\<lparr>am_PoolAssets := (am_PoolAssets p)[assetIndex := existingAsset\<lparr>pa_Token := coin\<rparr>]\<rparr>))"

fun update_balances :: "coins \<Rightarrow> amm_Pool \<Rightarrow> amm_Pool result" where
  "update_balances [] p = Inr p"
| "update_balances (coin # cs) p = rbind (UpdatePoolAssetBalance coin p) (update_balances cs)"

definition UpdatePoolAssetBalances :: "sdk \<Rightarrow> coins \<Rightarrow> amm_Pool \<Rightarrow> amm_Pool result" where
  "UpdatePoolAssetBalances S coins p =
     (case CoinsValidate S coins of
        Inl e \<Rightarrow> Inl (Plain ''provided coins are invalid'')
      | Inr _ \<Rightarrow> update_balances coins p)"

fun needed_liquidity :: "amm_env \<Rightarrow> int \<Rightarrow> coins \<Rightarrow> coins \<Rightarrow> coins result" where
  "needed_liquidity E shareRatio [] acc = Inr acc"
| "needed_liquidity E shareRatio (coin # cs) acc =
     (let neededAmt = DRoundInt (ae_dec E) (BDec (ae_big E) (BCeil (BMul (ae_big E) (BigDecFromSDKInt (Amount coin)) shareRatio)))
      in if neededAmt \<le> 0 then Inl amm_ErrInvalidMathApprox
         else needed_liquidity E shareRatio cs (CoinsAdd (ae_sdk E) acc [\<lparr>Denom = Denom coin, Amount = neededAmt\<rparr>]))"

definition GetMaximalNoSwapLPAmount :: "amm_env \<Rightarrow> amm_Pool \<Rightarrow> int \<Rightarrow> coins result" where
  "GetMaximalNoSwapLPAmount E pool shareOutAmount =
     rbind (BQuo (ae_big E) (BigDecFromSDKInt shareOutAmount) (BigDecFromSDKInt (Amount (am_TotalShares pool)))) (\<lambda>shareRatio.
       if shareRatio \<le> 0 then Inl amm_ErrInvalidMathApprox
       else needed_liquidity E shareRatio (GetTotalPoolLiquidity (ae_sdk E) pool) [])"

section \<open>Values\<close>

text \<open>The loop of \<open>TVL\<close>: the value of the priced assets, the total weight, the weight priced.\<close>

fun tvl_loop :: "amm_env \<Rightarrow> amm_Pool \<Rightarrow> PoolAsset list \<Rightarrow> int \<times> int \<times> int \<Rightarrow> (int \<times> int \<times> int) result" where
  "tvl_loop E p [] acc = Inr acc"
| "tvl_loop E p (asset # as) (oracleAssetsTVL, totalWeight, oracleAssetsWeight) =
     (let denom = Denom (pa_Token asset);
          tokenPrice = ae_GetDenomPrice E denom;
          totalWeight' = totalWeight + pa_Weight asset
      in if tokenPrice = 0
         then if pp_UseOracle (am_PoolParams p) then Inl (Plain ''token price not set'')
              else tvl_loop E p as (oracleAssetsTVL, totalWeight', oracleAssetsWeight)
         else let amount = (case (if pp_UseOracle (am_PoolParams p) then ae_GetAccountedBalance E else None) of
                  None \<Rightarrow> Amount (pa_Token asset)
                | Some balance \<Rightarrow> let accountedPoolAmt = balance (am_PoolId p) denom
                    in if 0 < accountedPoolAmt then accountedPoolAmt else Amount (pa_Token asset))
           in tvl_loop E p as (oracleAssetsTVL + BMul (ae_big E) (BigDecFromSDKInt amount) tokenPrice,
                totalWeight', oracleAssetsWeight + pa_Weight asset))"

definition amm_TVL :: "amm_env \<Rightarrow> amm_Pool \<Rightarrow> int result" where
  "amm_TVL E p =
     rbind (tvl_loop E p (am_PoolAssets p) (0, 0, 0)) (\<lambda>(oracleAssetsTVL, totalWeight, oracleAssetsWeight).
       if oracleAssetsWeight = 0 then Inr 0
       else BQuo (ae_big E) (BMul (ae_big E) oracleAssetsTVL (BigDecFromSDKInt totalWeight))
              (BigDecFromSDKInt oracleAssetsWeight))"

definition OneShare :: int where
  "OneShare = 10 ^ 18"

definition LpTokenPriceForShare :: "amm_env \<Rightarrow> amm_Pool \<Rightarrow> int result" where
  "LpTokenPriceForShare E p =
     rbind (amm_TVL E p) (\<lambda>ammPoolTvl.
       if Amount (am_TotalShares p) = 0 then Inr big_one
       else BQuo (ae_big E) (BMul (ae_big E) ammPoolTvl (BigDecFromSDKInt OneShare))
              (BigDecFromSDKInt (Amount (am_TotalShares p))))"

definition LpTokenPriceForBaseUnits :: "amm_env \<Rightarrow> amm_Pool \<Rightarrow> int result" where
  "LpTokenPriceForBaseUnits E p =
     rbind (amm_TVL E p) (\<lambda>ammPoolTvl.
       if Amount (am_TotalShares p) = 0 then Inr big_one
       else BQuo (ae_big E) ammPoolTvl (BigDecFromSDKInt (Amount (am_TotalShares p))))"

end
