(* ===== verification/AmmCreate.thy ===== *)
theory AmmCreate
  imports AmmPool StableMsgs
begin

text \<open>
  Creating pools and checking their terms (x/amm/types: \<open>new_balancer_pool.go\<close>, \<open>pool.go\<close>,
  \<open>pool_params.go\<close>, \<open>params.go\<close>, \<open>pool_asset.go\<close>, \<open>route.go\<close> and the messages' basic
  validation). A number of a message is never nil: a nil one is refused with its negative values.
\<close>

section \<open>Terms\<close>

text \<open>A loop of checks that stops at the first error.\<close>

fun first_error :: "('a \<Rightarrow> unit result) \<Rightarrow> 'a list \<Rightarrow> unit result" where
  "first_error f [] = Inr ()"
| "first_error f (x # xs) = rbind (f x) (\<lambda>_. first_error f xs)"

definition MaxSwapFee :: int where
  "MaxSwapFee = 2 * 10 ^ 16"

definition amm_PoolParams_Validate :: "sdk \<Rightarrow> amm_PoolParams \<Rightarrow> unit result" where
  "amm_PoolParams_Validate S params =
     (if pp_SwapFee params < 0 then Inl amm_ErrNegativeSwapFee
      else if pp_SwapFee params > MaxSwapFee then Inl amm_ErrTooMuchSwapFee
      else ValidateDenom S (pp_FeeDenom params))"

text \<open>\<open>sdk.Coin.IsValid\<close>: a valid denomination and no negative amount.\<close>

definition coin_valid :: "sdk \<Rightarrow> coin \<Rightarrow> bool" where
  "coin_valid S c \<longleftrightarrow> ValidateDenom S (Denom c) = Inr () \<and> 0 \<le> Amount c"

definition PoolAsset_Validate :: "sdk \<Rightarrow> PoolAsset \<Rightarrow> unit result" where
  "PoolAsset_Validate S asset =
     (if \<not> coin_valid S (pa_Token asset) then Inl (Plain ''invalid pool asset token'')
      else if pa_Weight asset < 0 then Inl (Plain ''invalid pool asset weight'')
      else if pa_ExternalLiquidityRatio asset < dec_one then Inl (Plain ''invalid external liquidity ratio for asset'')
      else Inr ())"

definition validateWeight :: "PoolAsset \<Rightarrow> unit result" where
  "validateWeight pa =
     (if pa_Weight pa \<le> 0 then Inl (Plain ''a token's weight in the pool must be greater than 0'') else Inr ())"

definition dec_in_range :: "int \<Rightarrow> int \<Rightarrow> string \<Rightarrow> string \<Rightarrow> unit result" where
  "dec_in_range v hi name bound =
     (if v < 0 then Inl (Plain (name @ '' must be positive''))
      else if v > hi then Inl (Plain (name @ '' must be less than '' @ bound)) else Inr ())"

definition amm_Params_Validate :: "sdk \<Rightarrow> amm_Params \<Rightarrow> unit result" where
  "amm_Params_Validate S p =
     rbind (guard (\<not> mp_PoolCreationFee p < 0) (Plain ''pool creation fee must be positive'')) (\<lambda>_.
     rbind (first_error (ValidateDenom S) (mp_BaseAssets p)) (\<lambda>_.
     rbind (dec_in_range (mp_WeightBreakingFeeExponent p) (3 * dec_one) ''weightBreakingFeeExponent'' ''3'') (\<lambda>_.
     rbind (dec_in_range (mp_WeightBreakingFeeMultiplier p) (10 ^ 15) ''weightBreakingFeeMultiplier'' ''0.01%'') (\<lambda>_.
     rbind (dec_in_range (mp_WeightBreakingFeePortion p) dec_one ''weightBreakingFeePortion'' ''1'') (\<lambda>_.
     rbind (dec_in_range (mp_WeightRecoveryFeePortion p) dec_one ''weightRecoveryFeePortion'' ''1'') (\<lambda>_.
     rbind (dec_in_range (mp_ThresholdWeightDifference p) (10 ^ 17) ''thresholdWeightDifference'' ''0.1%'') (\<lambda>_.
     rbind (dec_in_range (mp_MinSlippage p) (10 ^ 16) ''MinSlippage'' ''1%'') (\<lambda>_.
     rbind (dec_in_range (mp_ThresholdWeightDifferenceSwapFee p) (15 * 10 ^ 16)
             ''thresholdWeightDifferenceSwapFee'' ''0.15%'') (\<lambda>_.
     first_error (\<lambda>m. if is_ok (AccAddressFromBech32 S m) then Inr ()
                      else Inl (Plain ''invalid upfront swap maker address'')) (mp_AllowedUpfrontSwapMakers p))))))))))"

definition amm_DefaultParams :: "string \<Rightarrow> amm_Params" where
  "amm_DefaultParams gov_address =
     \<lparr>mp_PoolCreationFee = 10000000, mp_SlippageTrackDuration = 604800, mp_BaseAssets = [],
      mp_WeightBreakingFeeExponent = 25 * 10 ^ 17, mp_WeightBreakingFeeMultiplier = 5 * 10 ^ 14,
      mp_WeightBreakingFeePortion = 5 * 10 ^ 17, mp_WeightRecoveryFeePortion = 10 ^ 17,
      mp_ThresholdWeightDifference = 4 * 10 ^ 16, mp_AllowedPoolCreators = [gov_address],
      mp_ThresholdWeightDifferenceSwapFee = 15 * 10 ^ 16, mp_LpLockupDuration = 60,
      mp_MinSlippage = 5 * 10 ^ 14, mp_AllowedUpfrontSwapMakers = []\<rparr>"

definition amm_IsCreatorAllowed :: "amm_Params \<Rightarrow> string \<Rightarrow> bool" where
  "amm_IsCreatorAllowed p creator = (creator \<in> set (mp_AllowedPoolCreators p))"

definition amm_Pool_Validate :: "amm_env \<Rightarrow> amm_Pool \<Rightarrow> unit result" where
  "amm_Pool_Validate E pool =
     (case AccAddressFromBech32 (ae_sdk E) (am_Address pool) of
        Inl e \<Rightarrow> Inl amm_ErrInvalidPool
      | Inr address \<Rightarrow>
          if address \<noteq> ae_NewPoolAddress E (am_PoolId pool) then Inl amm_ErrInvalidPool
          else if pp_UseOracle (am_PoolParams pool) \<and> length (am_PoolAssets pool) \<noteq> 2 then Inl amm_ErrInvalidPool
          else Inr ())"

section \<open>New pools\<close>

definition GuaranteedWeightPrecision :: int where
  "GuaranteedWeightPrecision = 1073741824"

definition InitPoolSharesSupply :: int where
  "InitPoolSharesSupply = OneShare * 100"

definition GetPoolShareDenom :: "int \<Rightarrow> string" where
  "GetPoolShareDenom poolId = ''amm/pool/'' @ FormatNat (nat poolId)"

text \<open>The loop of \<open>SetInitialPoolAssets\<close>: the denominations seen, the scaled assets, the weight.\<close>

fun initial_assets ::
    "PoolAsset list \<Rightarrow> string list \<Rightarrow> PoolAsset list \<Rightarrow> int \<Rightarrow> (PoolAsset list \<times> int) result" where
  "initial_assets [] seen scaled newTotalWeight = Inr (scaled, newTotalWeight)"
| "initial_assets (asset # as) seen scaled newTotalWeight =
     (if Amount (pa_Token asset) \<le> 0 then Inl (Plain ''can't add the zero or negative balance of token'')
      else rbind (validateWeight asset) (\<lambda>_.
        if Denom (pa_Token asset) \<in> set seen then Inl (Plain ''same PoolAsset already exists'')
        else let asset' = asset\<lparr>pa_Weight := pa_Weight asset * GuaranteedWeightPrecision\<rparr>
          in initial_assets as (Denom (pa_Token asset) # seen) (scaled @ [asset']) (newTotalWeight + pa_Weight asset')))"

definition sortPoolAssetsByDenom :: "PoolAsset list \<Rightarrow> PoolAsset list" where
  "sortPoolAssetsByDenom assets = sort_key (\<lambda>a. Denom (pa_Token a)) assets"

definition SetInitialPoolAssets :: "PoolAsset list \<Rightarrow> amm_Pool \<Rightarrow> amm_Pool result" where
  "SetInitialPoolAssets assets p =
     rbind (initial_assets assets (map (\<lambda>a. Denom (pa_Token a)) (am_PoolAssets p)) [] (am_TotalWeight p))
       (\<lambda>(scaledPoolAssets, newTotalWeight).
         Inr (p\<lparr>am_PoolAssets := sortPoolAssetsByDenom (am_PoolAssets p @ scaledPoolAssets),
                am_TotalWeight := newTotalWeight\<rparr>))"

definition NewBalancerPool :: "amm_env \<Rightarrow> int \<Rightarrow> amm_PoolParams \<Rightarrow> PoolAsset list \<Rightarrow> amm_Pool result" where
  "NewBalancerPool E poolId balancerPoolParams assets =
     rbind (NewCoin (ae_sdk E) (GetPoolShareDenom poolId) InitPoolSharesSupply) (\<lambda>shares.
     rbind (SetInitialPoolAssets assets
        \<lparr>am_PoolId = poolId, am_Address = AccAddressString (ae_sdk E) (ae_NewPoolAddress E poolId),
         am_PoolParams = \<lparr>pp_SwapFee = 0, pp_UseOracle = False, pp_FeeDenom = []\<rparr>, am_TotalShares = shares,
         am_PoolAssets = [], am_TotalWeight = 0,
         am_RebalanceTreasury = AccAddressString (ae_sdk E) (ae_NewPoolRebalanceTreasury E poolId)\<rparr>) (\<lambda>pool.
     rbind (amm_PoolParams_Validate (ae_sdk E) balancerPoolParams) (\<lambda>_.
       Inr (pool\<lparr>am_PoolParams := balancerPoolParams\<rparr>))))"

section \<open>Messages\<close>

definition amm_ErrPoolAssetsMustBeTwo :: err where "amm_ErrPoolAssetsMustBeTwo = Sentinel ''amm'' 113"
definition amm_ErrInvalidShareAmountOut :: err where "amm_ErrInvalidShareAmountOut = Sentinel ''amm'' 112"
definition amm_ErrEmptyRoutes :: err where "amm_ErrEmptyRoutes = Sentinel ''amm'' 21"

definition MsgCreatePool_ValidateBasic :: "sdk \<Rightarrow> string \<Rightarrow> amm_PoolParams \<Rightarrow> PoolAsset list \<Rightarrow> unit result" where
  "MsgCreatePool_ValidateBasic S msg_Sender params assets =
     rbind (ss_address_ok S msg_Sender) (\<lambda>_.
     if length assets \<noteq> 2 then Inl amm_ErrPoolAssetsMustBeTwo
     else rbind (amm_PoolParams_Validate S params) (\<lambda>_. first_error (PoolAsset_Validate S) assets))"

text \<open>\<open>sdk.Coin.Validate\<close>.\<close>

definition coin_Validate :: "sdk \<Rightarrow> coin \<Rightarrow> unit result" where
  "coin_Validate S c =
     rbind (ValidateDenom S (Denom c)) (\<lambda>_.
       if Amount c < 0 then Inl (Plain ''negative coin amount'') else Inr ())"

definition MsgJoinPool_ValidateBasic :: "sdk \<Rightarrow> string \<Rightarrow> coins \<Rightarrow> int \<Rightarrow> unit result" where
  "MsgJoinPool_ValidateBasic S msg_Sender maxAmountsIn shareAmountOut =
     rbind (ss_address_ok S msg_Sender) (\<lambda>_.
     if shareAmountOut < 0 then Inl amm_ErrInvalidShareAmountOut
     else first_error (coin_Validate S) maxAmountsIn)"

definition MsgExitPool_ValidateBasic :: "sdk \<Rightarrow> string \<Rightarrow> coins \<Rightarrow> string \<Rightarrow> int \<Rightarrow> unit result" where
  "MsgExitPool_ValidateBasic S msg_Sender minAmountsOut tokenOutDenom shareAmountIn =
     rbind (ss_address_ok S msg_Sender) (\<lambda>_.
     rbind (first_error (coin_Validate S) minAmountsOut) (\<lambda>_.
     if tokenOutDenom \<noteq> [] then Inl (Plain ''exit in single token not allowed'')
     else if shareAmountIn < 0 then Inl amm_ErrInvalidShareAmountOut
     else Inr ()))"

definition MsgSwapByDenom_ValidateBasic ::
    "sdk \<Rightarrow> string \<Rightarrow> string \<Rightarrow> coin \<Rightarrow> string \<Rightarrow> string \<Rightarrow> unit result" where
  "MsgSwapByDenom_ValidateBasic S msg_Sender msg_Recipient amount denomIn denomOut =
     rbind (ss_address_ok S msg_Sender) (\<lambda>_.
     rbind (if msg_Recipient \<noteq> [] then ss_address_ok S msg_Recipient else Inr ()) (\<lambda>_.
     rbind (coin_Validate S amount) (\<lambda>_.
     rbind (ValidateDenom S denomIn) (\<lambda>_.
     rbind (ValidateDenom S denomOut) (\<lambda>_.
     if denomIn = denomOut then Inl (Plain ''demom in cannot be same as denom out'') else Inr ())))))"

definition MsgUpdatePoolParams_ValidateBasic :: "sdk \<Rightarrow> string \<Rightarrow> int \<Rightarrow> amm_PoolParams \<Rightarrow> unit result" where
  "MsgUpdatePoolParams_ValidateBasic S msg_Authority poolId params =
     rbind (ss_address_ok S msg_Authority) (\<lambda>_.
     if poolId = 0 then Inl (Plain ''invalid pool id'') else amm_PoolParams_Validate S params)"

end
