(* ===== verification/AmmSwap.thy ===== *)
theory AmmSwap
  imports AmmCreate
begin

text \<open>
  Swaps against one pool (x/amm/types: \<open>solve_constant_function_invariant.go\<close>,
  \<open>calc_out_amt_given_in.go\<close>, \<open>calc_in_amt_given_out.go\<close>, \<open>swap_out_amt_given_in.go\<close>,
  \<open>swap_in_amt_given_out.go\<close>, \<open>weight_fees.go\<close>, \<open>amm_price.go\<close>, \<open>utils.go\<close>).
\<close>

section \<open>The invariant of a weighted pool\<close>

definition solveConstantFunctionInvariant :: "pow_env \<Rightarrow> int \<Rightarrow> int \<Rightarrow> int \<Rightarrow> int \<Rightarrow> int \<Rightarrow> int result" where
  "solveConstantFunctionInvariant W tokenBalanceFixedBefore tokenBalanceFixedAfter tokenWeightFixed
     tokenBalanceUnknownBefore tokenWeightUnknown =
     (let B = pe_big W
      in if tokenWeightUnknown = 0 then Inl amm_ErrAmountTooLow
         else rbind (BQuo B tokenWeightFixed tokenWeightUnknown) (\<lambda>weightRatio.
           if tokenBalanceFixedAfter = 0 \<or> tokenBalanceFixedAfter < 0 then Inl amm_ErrAmountTooLow
           else rbind (BQuo B tokenBalanceFixedBefore tokenBalanceFixedAfter) (\<lambda>y.
                rbind (Pow W y weightRatio) (\<lambda>yToWeightRatio.
                let paranthetical = big_one - yToWeightRatio
                in Inr (BMul B tokenBalanceUnknownBefore paranthetical)))))"

definition CalculateTokenARate :: "bigdec_ops \<Rightarrow> int \<Rightarrow> int \<Rightarrow> int \<Rightarrow> int \<Rightarrow> int result" where
  "CalculateTokenARate B tokenBalanceA tokenWeightA tokenBalanceB tokenWeightB =
     (if tokenBalanceA = 0 \<or> tokenWeightB = 0 then Inr 0
      else rbind (BQuo B (BMul B tokenBalanceB tokenWeightA) tokenWeightB) (\<lambda>q. BQuo B q tokenBalanceA))"

definition feeRatio :: "bigdec_ops \<Rightarrow> int \<Rightarrow> int \<Rightarrow> int" where
  "feeRatio B normalizedWeight spreadFactor = big_one - BMul B (big_one - normalizedWeight) spreadFactor"

definition calcPoolSharesOutGivenSingleAssetIn ::
    "pow_env \<Rightarrow> int \<Rightarrow> int \<Rightarrow> int \<Rightarrow> int \<Rightarrow> int \<Rightarrow> int result" where
  "calcPoolSharesOutGivenSingleAssetIn W tokenBalanceIn normalizedTokenWeightIn poolShares tokenAmountIn spreadFactor =
     (let tokenAmountInAfterFee = BMul (pe_big W) tokenAmountIn (feeRatio (pe_big W) normalizedTokenWeightIn spreadFactor)
      in rbind (solveConstantFunctionInvariant W (tokenBalanceIn + tokenAmountInAfterFee) tokenBalanceIn
                  normalizedTokenWeightIn poolShares big_one) (\<lambda>poolAmountOut. Inr (- poolAmountOut)))"

section \<open>Weights and rates\<close>

text \<open>A caller that replaces an error by a value; a panic goes through.\<close>

definition or_else :: "'a result \<Rightarrow> 'a \<Rightarrow> 'a result" where
  "or_else m d = (case m of Inl (Panic w) \<Rightarrow> Inl (Panic w) | Inl e \<Rightarrow> Inr d | Inr x \<Rightarrow> Inr x)"

fun rmap :: "('a \<Rightarrow> 'b result) \<Rightarrow> 'a list \<Rightarrow> 'b list result" where
  "rmap f [] = Inr []"
| "rmap f (x # xs) = rbind (f x) (\<lambda>y. rbind (rmap f xs) (\<lambda>ys. Inr (y # ys)))"

definition NormalizedWeights :: "bigdec_ops \<Rightarrow> PoolAsset list \<Rightarrow> (string \<times> int) list result" where
  "NormalizedWeights B poolAssets =
     (let total0 = sum_list (map pa_Weight poolAssets);
          totalWeight = (if total0 = 0 then 1 else total0)
      in rmap (\<lambda>asset. rbind (BQuo B (BigDecFromSDKInt (pa_Weight asset)) (BigDecFromSDKInt totalWeight)) (\<lambda>w.
           Inr (Denom (pa_Token asset), w))) poolAssets)"

definition GetOraclePoolNormalizedWeights :: "amm_env \<Rightarrow> PoolAsset list \<Rightarrow> (string \<times> int) list result" where
  "GetOraclePoolNormalizedWeights E poolAssets =
     (let B = ae_big E
      in rbind (rmap (\<lambda>asset. let tokenPrice = ae_GetDenomPrice E (Denom (pa_Token asset))
             in if tokenPrice = 0 then Inl (Plain ''price for token not set'')
                else Inr (Denom (pa_Token asset), BMul B (BigDecFromSDKInt (Amount (pa_Token asset))) tokenPrice))
           poolAssets) (\<lambda>oraclePoolWeights.
         let total0 = sum_list (map snd oraclePoolWeights);
             totalWeight = (if total0 = 0 then big_one else total0)
         in rmap (\<lambda>(denom, weight). rbind (BQuo B weight totalWeight) (\<lambda>w. Inr (denom, w))) oraclePoolWeights))"

definition weight_of :: "(string \<times> int) list \<Rightarrow> string \<Rightarrow> int" where
  "weight_of ws denom = (case find (\<lambda>w. fst w = denom) ws of None \<Rightarrow> 0 | Some w \<Rightarrow> snd w)"

definition GetDenomOracleAssetWeight :: "amm_env \<Rightarrow> PoolAsset list \<Rightarrow> string \<Rightarrow> int result" where
  "GetDenomOracleAssetWeight E poolAssets denom =
     rbind (or_else (GetOraclePoolNormalizedWeights E poolAssets) []) (\<lambda>ws. Inr (weight_of ws denom))"

definition GetDenomNormalizedWeight :: "bigdec_ops \<Rightarrow> PoolAsset list \<Rightarrow> string \<Rightarrow> int result" where
  "GetDenomNormalizedWeight B poolAssets denom =
     rbind (NormalizedWeights B poolAssets) (\<lambda>ws. Inr (weight_of ws denom))"

definition WeightDistanceFromTarget :: "amm_env \<Rightarrow> PoolAsset list \<Rightarrow> nat \<Rightarrow> int result" where
  "WeightDistanceFromTarget E poolAssets pool_length =
     (case GetOraclePoolNormalizedWeights E poolAssets of
        Inl (Panic w) \<Rightarrow> Inl (Panic w)
      | Inl e \<Rightarrow> Inr 0
      | Inr oracleWeights \<Rightarrow>
          rbind (NormalizedWeights (ae_big E) poolAssets) (\<lambda>targetWeights.
            let distanceSum = sum_list (map2 (\<lambda>t v. \<bar>snd t - snd v\<bar>) targetWeights oracleWeights)
            in if pool_length = 0 then Inr 0
               else BQuo (ae_big E) distanceSum (BigDecFromDec (dec_of_int (int pool_length)))))"

definition GetTokenARate :: "amm_env \<Rightarrow> amm_Pool \<Rightarrow> string \<Rightarrow> string \<Rightarrow> int result" where
  "GetTokenARate E p tokenA tokenB =
     (if \<not> pp_UseOracle (am_PoolParams p)
      then rbind (ParsePoolAssetsByDenoms p tokenA tokenB) (\<lambda>(Aasset, Basset).
             CalculateTokenARate (ae_big E)
               (BigDecFromSDKInt (Amount (pa_Token Aasset))) (BigDecFromSDKInt (pa_Weight Aasset))
               (BigDecFromSDKInt (Amount (pa_Token Basset))) (BigDecFromSDKInt (pa_Weight Basset)))
      else let priceA = ae_GetDenomPrice E tokenA; priceB = ae_GetDenomPrice E tokenB
        in if priceA = 0 then Inl amm_ErrInvalidMathApprox
           else if priceB = 0 then Inl amm_ErrInvalidMathApprox
           else BQuo (ae_big E) priceA priceB)"

definition GetTokenARateNormalized :: "amm_env \<Rightarrow> amm_Pool \<Rightarrow> string \<Rightarrow> string \<Rightarrow> int result" where
  "GetTokenARateNormalized E p tokenA tokenB =
     rbind (GetTokenARate E p tokenA tokenB) (\<lambda>baseRate.
       case ae_GetAssetDecimal E tokenA of
         None \<Rightarrow> Inl (Plain ''asset info not found for token'')
       | Some decimalA \<Rightarrow>
           (case ae_GetAssetDecimal E tokenB of
              None \<Rightarrow> Inl (Plain ''asset info not found for token'')
            | Some decimalB \<Rightarrow>
                let decimalDiff = decimalB - decimalA
                in if decimalDiff > 0 then rbind (Pow10Int64 decimalDiff) (\<lambda>m. BQuoInt64 (ae_big E) baseRate m)
                   else if decimalDiff < 0 then rbind (Pow10Int64 (- decimalDiff)) (\<lambda>m. Inr (baseRate * m))
                   else Inr baseRate))"

section \<open>The curve\<close>

text \<open>The weights and balances a swap is computed with: the pool's own, or for an oracle pool the
  snapshot's, weighed by their oracle value.\<close>

definition swap_assets :: "amm_env \<Rightarrow> amm_Pool \<Rightarrow> amm_Pool \<Rightarrow> coins \<Rightarrow> string \<Rightarrow> (coin \<times> PoolAsset \<times> PoolAsset) result" where
  "swap_assets E p snapshot tokens denom =
     rbind (parsePoolAssets p tokens denom) (\<lambda>(token, assetA, assetB).
       if pp_UseOracle (am_PoolParams p)
       then rbind (parsePoolAssets snapshot tokens denom) (\<lambda>(_, assetA', assetB'). Inr (token, assetA', assetB'))
       else Inr (token, assetA, assetB))"

definition swap_weights :: "amm_env \<Rightarrow> amm_Pool \<Rightarrow> PoolAsset \<Rightarrow> PoolAsset \<Rightarrow> (int \<times> int) result" where
  "swap_weights E p poolAssetIn poolAssetOut =
     (if pp_UseOracle (am_PoolParams p)
      then rbind (GetOraclePoolNormalizedWeights E [poolAssetIn, poolAssetOut]) (\<lambda>oracleWeights.
             Inr (snd (oracleWeights ! 0), snd (oracleWeights ! 1)))
      else Inr (BigDecFromSDKInt (pa_Weight poolAssetIn), BigDecFromSDKInt (pa_Weight poolAssetOut)))"

definition CalcOutAmtGivenIn ::
    "amm_env \<Rightarrow> amm_Pool \<Rightarrow> amm_Pool \<Rightarrow> coins \<Rightarrow> string \<Rightarrow> int \<Rightarrow> (coin \<times> int \<times> int) result" where
  "CalcOutAmtGivenIn E p snapshot tokensIn tokenOutDenom swapFee =
     (let B = ae_big E in
      rbind (swap_assets E p snapshot tokensIn tokenOutDenom) (\<lambda>(tokenIn, poolAssetIn, poolAssetOut).
      rbind (swap_weights E p poolAssetIn poolAssetOut) (\<lambda>(inWeight, outWeight).
      let tokenAmountInAfterFee = BMul B (BigDecFromSDKInt (Amount tokenIn)) (big_one - swapFee);
          poolTokenInBalance = BigDecFromSDKInt (Amount (pa_Token poolAssetIn));
          poolTokenOutBalance = BigDecFromSDKInt (Amount (pa_Token poolAssetOut));
          poolPostSwapInBalance = poolTokenInBalance + tokenAmountInAfterFee
      in rbind (solveConstantFunctionInvariant (ae_pow E) poolTokenInBalance poolPostSwapInBalance inWeight
                  poolTokenOutBalance outWeight) (\<lambda>tokenAmountOut.
         if tokenAmountOut = 0 then Inl amm_ErrTokenOutAmountZero
         else rbind (GetTokenARate E p (Denom tokenIn) tokenOutDenom) (\<lambda>rate.
              let amountOutWithoutSlippage = BMul B tokenAmountInAfterFee rate
              in if amountOutWithoutSlippage = 0 then Inl amm_ErrInvalidMathApprox
                 else rbind (BQuo B tokenAmountOut amountOutWithoutSlippage) (\<lambda>q.
                      let slippage = big_one - q;
                          tokenAmountOutInt = DTruncateInt (ae_dec E) (BDec B tokenAmountOut)
                      in if \<not> 0 < tokenAmountOutInt then Inl amm_ErrTokenOutAmountZero
                         else rbind (NewCoin (ae_sdk E) tokenOutDenom tokenAmountOutInt) (\<lambda>coin.
                              Inr (coin, slippage, tokenAmountOut))))))))"

definition CalcInAmtGivenOut ::
    "amm_env \<Rightarrow> amm_Pool \<Rightarrow> amm_Pool \<Rightarrow> coins \<Rightarrow> string \<Rightarrow> int \<Rightarrow> (coin \<times> int \<times> int) result" where
  "CalcInAmtGivenOut E p snapshot tokensOut tokenInDenom swapFee =
     (let B = ae_big E in
      rbind (swap_assets E p snapshot tokensOut tokenInDenom) (\<lambda>(tokenOut, poolAssetOut, poolAssetIn).
      rbind (swap_weights E p poolAssetIn poolAssetOut) (\<lambda>(inWeight, outWeight).
      let poolTokenOutBalance = BigDecFromSDKInt (Amount (pa_Token poolAssetOut));
          poolTokenInBalance = BigDecFromSDKInt (Amount (pa_Token poolAssetIn));
          poolPostSwapOutBalance = poolTokenOutBalance - BigDecFromSDKInt (Amount tokenOut)
      in rbind (solveConstantFunctionInvariant (ae_pow E) poolTokenOutBalance poolPostSwapOutBalance outWeight
                  poolTokenInBalance inWeight) (\<lambda>amountIn.
         let tokenAmountIn = - amountIn
         in rbind (GetTokenARate E p tokenInDenom (Denom tokenOut)) (\<lambda>rate.
            rbind (BQuo B (BigDecFromSDKInt (Amount tokenOut)) rate) (\<lambda>amountInWithoutSlippage.
            if tokenAmountIn = 0 then Inl amm_ErrAmountTooLow
            else rbind (BQuo B tokenAmountIn amountInWithoutSlippage) (\<lambda>q.
                 let slippage = big_one - q
                 in if swapFee \<ge> big_one then Inl amm_ErrTooMuchSwapFee
                    else rbind (BQuo B tokenAmountIn (big_one - swapFee)) (\<lambda>tokenAmountInBeforeFee.
                         let tokenInAmt = DTruncateInt (ae_dec E) (BDec B (BCeil tokenAmountInBeforeFee))
                         in if \<not> 0 < tokenInAmt then Inl amm_ErrInvalidMathApprox
                            else rbind (NewCoin (ae_sdk E) tokenInDenom tokenInAmt) (\<lambda>coin.
                                 Inr (coin, slippage, tokenAmountInBeforeFee))))))))))"

end
