(* ===== verification/AmmQuote.thy ===== *)
theory AmmQuote
  imports AmmSwap
begin

text \<open>
  Quotes of swaps with their fees (x/amm/types: \<open>swap_out_amt_given_in.go\<close>,
  \<open>swap_in_amt_given_out.go\<close>, \<open>weight_fees.go\<close>, \<open>utils.go\<close>): a weighted pool follows its curve;
  an oracle pool trades at the oracle's rate less a slippage, a fee for moving the pool away from
  its weights, and the swap fee.
\<close>

definition ApplyDiscount :: "bigdec_ops \<Rightarrow> int \<Rightarrow> int \<Rightarrow> int" where
  "ApplyDiscount B swapFee discount = BMul B swapFee (big_one - discount)"

section \<open>The pool after a swap\<close>

fun NewPoolAssetsAfterSwap :: "sdk \<Rightarrow> coins \<Rightarrow> coins \<Rightarrow> PoolAsset list \<Rightarrow> PoolAsset list result" where
  "NewPoolAssetsAfterSwap S inCoins outCoins [] = Inr []"
| "NewPoolAssetsAfterSwap S inCoins outCoins (asset # as) =
     (let denom = Denom (pa_Token asset);
          amountAfterSwap = Amount (pa_Token asset) + AmountOf S inCoins denom - AmountOf S outCoins denom
      in if amountAfterSwap < 0 then Inl (Plain ''negative pool amount after swap'')
         else rbind (NewCoin S denom amountAfterSwap) (\<lambda>token.
              rbind (NewPoolAssetsAfterSwap S inCoins outCoins as) (\<lambda>rest.
                Inr (\<lparr>pa_Token = token, pa_Weight = pa_Weight asset, pa_ExternalLiquidityRatio = 0\<rparr> # rest))))"

fun stacked_loop :: "bigdec_ops \<Rightarrow> PoolAsset list \<Rightarrow> PoolAsset list \<Rightarrow> int \<Rightarrow> int result" where
  "stacked_loop B assets [] stackedRatio = Inr stackedRatio"
| "stacked_loop B [] (asset # as) stackedRatio = Inl (Panic ''index out of range'')"
| "stacked_loop B (own # os) (asset # as) stackedRatio =
     (let assetDiff = BigDecFromSDKInt \<bar>Amount (pa_Token own) - Amount (pa_Token asset)\<bar>;
          amount = (if Amount (pa_Token asset) = 0 then 1 else Amount (pa_Token asset))
      in rbind (BQuo B assetDiff (BigDecFromSDKInt amount)) (\<lambda>assetStacked.
           stacked_loop B os as (stackedRatio + assetStacked)))"

definition StackedRatioFromSnapshot :: "bigdec_ops \<Rightarrow> amm_Pool \<Rightarrow> amm_Pool \<Rightarrow> int result" where
  "StackedRatioFromSnapshot B p snapshot = stacked_loop B (am_PoolAssets p) (am_PoolAssets snapshot) 0"

section \<open>Fees for moving the weights\<close>

definition big_99 :: int where
  "big_99 = 99 * 10 ^ 34"

definition GetWeightBreakingFee ::
    "pow_env \<Rightarrow> int \<Rightarrow> int \<Rightarrow> int \<Rightarrow> int \<Rightarrow> int \<Rightarrow> int \<Rightarrow> int \<Rightarrow> amm_Params \<Rightarrow> int result" where
  "GetWeightBreakingFee W finalWeightIn finalWeightOut targetWeightIn targetWeightOut initialWeightIn
     initialWeightOut distanceDiff params =
     (let B = pe_big W;
          multiplier = BigDecFromDec (mp_WeightBreakingFeeMultiplier params);
          exponent = BigDecFromDec (mp_WeightBreakingFeeExponent params);
          fee = (\<lambda>a b c d. rbind (BQuo B (BMul B a b) c) (\<lambda>q1. rbind (BQuo B q1 d) (\<lambda>q2.
             rbind (Pow W q2 exponent) (\<lambda>r. Inr (BMul B multiplier r)))))
      in if mp_WeightBreakingFeeMultiplier params = 0 then Inr 0
         else rbind (if 0 < distanceDiff
                then if finalWeightOut \<noteq> 0 \<and> finalWeightIn \<noteq> 0 \<and> targetWeightOut \<noteq> 0 \<and> targetWeightIn \<noteq> 0
                     then fee finalWeightIn targetWeightOut finalWeightOut targetWeightIn else Inr 0
                else if initialWeightOut \<noteq> 0 \<and> initialWeightIn \<noteq> 0 \<and> targetWeightOut \<noteq> 0 \<and> targetWeightIn \<noteq> 0
                     then fee initialWeightOut targetWeightIn initialWeightIn targetWeightOut else Inr 0)
           (\<lambda>weightBreakingFee. Inr (if weightBreakingFee > big_99 then big_99 else weightBreakingFee)))"

definition CalculateWeightFees ::
    "amm_env \<Rightarrow> amm_Pool \<Rightarrow> PoolAsset list \<Rightarrow> PoolAsset list \<Rightarrow> string \<Rightarrow> amm_Params \<Rightarrow> int \<Rightarrow>
       (int \<times> int \<times> bool) result" where
  "CalculateWeightFees E p accountedAssets finalAssetsPool tokenInDenom params weightBreakingFeePerpetualFactor =
     (let B = ae_big E; n = length (am_PoolAssets p) in
      rbind (WeightDistanceFromTarget E accountedAssets n) (\<lambda>initialWeightDistance.
      rbind (WeightDistanceFromTarget E finalAssetsPool n) (\<lambda>weightDistance.
      rbind (GetDenomNormalizedWeight B (am_PoolAssets p) tokenInDenom) (\<lambda>targetWeightIn.
      rbind (GetDenomOracleAssetWeight E finalAssetsPool tokenInDenom) (\<lambda>finalWeightIn.
      rbind (GetDenomOracleAssetWeight E accountedAssets tokenInDenom) (\<lambda>initialWeightIn.
      let distanceDiff = weightDistance - initialWeightDistance
      in rbind (GetWeightBreakingFee (ae_pow E) finalWeightIn (big_one - finalWeightIn) targetWeightIn
                  (big_one - targetWeightIn) initialWeightIn (big_one - initialWeightIn) distanceDiff params) (\<lambda>fee0.
         let weightBreakingFee = BMul B fee0 weightBreakingFeePerpetualFactor;
             weightRecoveryReward = BMul B weightBreakingFee (BigDecFromDec (mp_WeightBreakingFeePortion params));
             weightBalanceBonus = - weightBreakingFee
         in Inr (if distanceDiff < 0
                 then (if initialWeightDistance > BigDecFromDec (mp_ThresholdWeightDifference params)
                       then weightRecoveryReward else 0,
                       0, \<not> initialWeightDistance > BigDecFromDec (mp_ThresholdWeightDifferenceSwapFee params))
                 else if weightDistance < BigDecFromDec (mp_ThresholdWeightDifference params) then (0, 0, True)
                 else (weightBalanceBonus, weightBreakingFee, True)))))))))"

section \<open>Slippage\<close>

definition CalcGivenInSlippage :: "amm_env \<Rightarrow> amm_Pool \<Rightarrow> amm_Pool \<Rightarrow> coins \<Rightarrow> string \<Rightarrow> int result" where
  "CalcGivenInSlippage E p snapshot tokensIn tokenOutDenom =
     (let B = ae_big E in
      rbind (CalcOutAmtGivenIn E p snapshot tokensIn tokenOutDenom 0) (\<lambda>(_, _, balancerOutAmount).
      rbind (parsePoolAssets p tokensIn tokenOutDenom) (\<lambda>(tokenIn, _, _).
      let inTokenPrice = ae_GetDenomPrice E (Denom tokenIn); outTokenPrice = ae_GetDenomPrice E tokenOutDenom
      in if inTokenPrice = 0 then Inl (Plain ''price for inToken not set'')
         else if outTokenPrice = 0 then Inl (Plain ''price for outToken not set'')
         else rbind (BQuo B (BMul B (BigDecFromSDKInt (Amount tokenIn)) inTokenPrice) outTokenPrice) (\<lambda>oracleOutAmount.
              let slippageAmount = oracleOutAmount - balancerOutAmount
              in Inr (if slippageAmount < 0 then 0 else slippageAmount)))))"

definition CalcGivenOutSlippage :: "amm_env \<Rightarrow> amm_Pool \<Rightarrow> amm_Pool \<Rightarrow> coins \<Rightarrow> string \<Rightarrow> int result" where
  "CalcGivenOutSlippage E p snapshot tokensOut tokenInDenom =
     (let B = ae_big E in
      rbind (CalcInAmtGivenOut E p snapshot tokensOut tokenInDenom 0) (\<lambda>(_, _, balancerInAmount).
      rbind (parsePoolAssets p tokensOut tokenInDenom) (\<lambda>(tokenOut, _, _).
      let inTokenPrice = ae_GetDenomPrice E tokenInDenom; outTokenPrice = ae_GetDenomPrice E (Denom tokenOut)
      in if inTokenPrice = 0 then Inl (Plain ''price for inToken not set'')
         else if outTokenPrice = 0 then Inl (Plain ''price for outToken not set'')
         else rbind (BQuo B (BMul B (BigDecFromSDKInt (Amount tokenOut)) outTokenPrice) inTokenPrice) (\<lambda>oracleInAmount.
              let balancerSlippage = balancerInAmount - oracleInAmount
              in Inr (if balancerSlippage < 0 then 0 else balancerSlippage)))))"

section \<open>Swaps\<close>

text \<open>What a swap returns: the coin, the slippage, its amount, the bonus for rebalancing, the
  amount at the oracle's rate, and the swap fee taken.\<close>

record swap_quote =
  sq_Token :: coin
  sq_Slippage :: int
  sq_SlippageAmount :: int
  sq_WeightBalanceBonus :: int
  sq_OracleAmount :: int
  sq_SwapFee :: int

definition SwapOutAmtGivenIn ::
    "amm_env \<Rightarrow> amm_Pool \<Rightarrow> amm_Pool \<Rightarrow> coins \<Rightarrow> string \<Rightarrow> int \<Rightarrow> int \<Rightarrow> amm_Params \<Rightarrow> int \<Rightarrow> swap_quote result" where
  "SwapOutAmtGivenIn E p snapshot tokensIn tokenOutDenom swapFee weightBreakingFeePerpetualFactor params takerFees =
     (let B = ae_big E; S = ae_sdk E in
      if \<not> pp_UseOracle (am_PoolParams p)
      then if length tokensIn \<noteq> 1 then Inl (Plain ''expected tokensIn to be of length one'')
           else rbind (CalcOutAmtGivenIn E p snapshot tokensIn tokenOutDenom swapFee) (\<lambda>(balancerOutCoin, slippage, _).
                  Inr \<lparr>sq_Token = balancerOutCoin, sq_Slippage = slippage, sq_SlippageAmount = 0,
                       sq_WeightBalanceBonus = 0, sq_OracleAmount = 0, sq_SwapFee = swapFee\<rparr>)
      else
      rbind (parsePoolAssets p tokensIn tokenOutDenom) (\<lambda>(tokenIn, _, _).
      let inTokenPrice = ae_GetDenomPrice E (Denom tokenIn); outTokenPrice = ae_GetDenomPrice E tokenOutDenom in
      if inTokenPrice = 0 then Inl (Plain ''price for inToken not set'')
      else if outTokenPrice = 0 then Inl (Plain ''price for outToken not set'')
      else
      rbind (BQuo B (BMul B (BigDecFromSDKInt (Amount tokenIn)) inTokenPrice) outTokenPrice) (\<lambda>oracleOutAmount.
      rbind (GetAssetExternalLiquidityRatio p tokenOutDenom) (\<lambda>externalLiquidityRatio.
      if externalLiquidityRatio = 0 then Inl amm_ErrAmountTooLow
      else
      rbind (BQuo B (BigDecFromSDKInt (Amount tokenIn)) externalLiquidityRatio) (\<lambda>resized.
      rbind (NewCoin S (Denom tokenIn) (DRoundInt (ae_dec E) (BDec B resized))) (\<lambda>resizedCoin.
      rbind (CalcGivenInSlippage E p snapshot [resizedCoin] tokenOutDenom) (\<lambda>slippageAmount0.
      let slippageAmount1 = BMul B slippageAmount0 externalLiquidityRatio in
      rbind (BQuo B slippageAmount1 oracleOutAmount) (\<lambda>slippage1.
      let minSlippage = BigDecFromDec (mp_MinSlippage params);
          slippage = (if slippage1 < minSlippage then minSlippage else slippage1);
          slippageAmount = (if slippage1 < minSlippage then BMul B oracleOutAmount minSlippage else slippageAmount1);
          outAmountAfterSlippage = oracleOutAmount - slippageAmount in
      rbind (NewCoin S tokenOutDenom (DTruncateInt (ae_dec E) (BDec B outAmountAfterSlippage))) (\<lambda>outCoin.
      rbind (NewPoolAssetsAfterSwap S tokensIn [outCoin] (am_PoolAssets snapshot)) (\<lambda>newAssetPools.
      rbind (CalculateWeightFees E p (am_PoolAssets snapshot) newAssetPools (Denom tokenIn) params
               weightBreakingFeePerpetualFactor) (\<lambda>(weightBalanceBonus, weightBreakingFee, isSwapFee).
      let fee = (if isSwapFee then swapFee else 0) in
      if fee \<ge> big_one then Inl amm_ErrTooMuchSwapFee
      else
      let amount = BMul B (BMul B outAmountAfterSlippage (big_one - weightBreakingFee)) (big_one - (fee + takerFees)) in
      rbind (NewCoin S tokenOutDenom (DTruncateInt (ae_dec E) (BDec B amount))) (\<lambda>oracleOutCoin.
      Inr \<lparr>sq_Token = oracleOutCoin, sq_Slippage = slippage, sq_SlippageAmount = slippageAmount,
           sq_WeightBalanceBonus = weightBalanceBonus, sq_OracleAmount = oracleOutAmount, sq_SwapFee = fee\<rparr>))))))))))))"

definition SwapInAmtGivenOut ::
    "amm_env \<Rightarrow> amm_Pool \<Rightarrow> amm_Pool \<Rightarrow> coins \<Rightarrow> string \<Rightarrow> int \<Rightarrow> int \<Rightarrow> amm_Params \<Rightarrow> int \<Rightarrow> swap_quote result" where
  "SwapInAmtGivenOut E p snapshot tokensOut tokenInDenom swapFee weightBreakingFeePerpetualFactor params takerFees =
     (let B = ae_big E; S = ae_sdk E in
      if \<not> pp_UseOracle (am_PoolParams p)
      then rbind (CalcInAmtGivenOut E p snapshot tokensOut tokenInDenom swapFee) (\<lambda>(balancerInCoin, slippage, _).
             Inr \<lparr>sq_Token = balancerInCoin, sq_Slippage = slippage, sq_SlippageAmount = 0,
                  sq_WeightBalanceBonus = 0, sq_OracleAmount = 0, sq_SwapFee = swapFee\<rparr>)
      else
      rbind (parsePoolAssets p tokensOut tokenInDenom) (\<lambda>(tokenOut, _, _).
      let inTokenPrice = ae_GetDenomPrice E tokenInDenom; outTokenPrice = ae_GetDenomPrice E (Denom tokenOut) in
      if inTokenPrice = 0 then Inl (Plain ''price for inToken not set'')
      else if outTokenPrice = 0 then Inl (Plain ''price for outToken not set'')
      else
      rbind (BQuo B (BMul B (BigDecFromSDKInt (Amount tokenOut)) outTokenPrice) inTokenPrice) (\<lambda>oracleInAmount.
      rbind (GetAssetExternalLiquidityRatio p (Denom tokenOut)) (\<lambda>externalLiquidityRatio.
      if externalLiquidityRatio = 0 then Inl amm_ErrAmountTooLow
      else
      rbind (BQuo B (BigDecFromSDKInt (Amount tokenOut)) externalLiquidityRatio) (\<lambda>resized.
      rbind (NewCoin S (Denom tokenOut) (DRoundInt (ae_dec E) (BDec B resized))) (\<lambda>resizedCoin.
      rbind (CalcGivenOutSlippage E p snapshot [resizedCoin] tokenInDenom) (\<lambda>slippageAmount0.
      let slippageAmount1 = BMul B slippageAmount0 externalLiquidityRatio in
      rbind (BQuo B slippageAmount1 oracleInAmount) (\<lambda>slippage1.
      let minSlippage = BigDecFromDec (mp_MinSlippage params);
          slippage = (if slippage1 < minSlippage then minSlippage else slippage1);
          slippageAmount = (if slippage1 < minSlippage then BMul B oracleInAmount minSlippage else slippageAmount1);
          inAmountAfterSlippage = oracleInAmount + slippageAmount in
      rbind (NewCoin S tokenInDenom (DTruncateInt (ae_dec E) (BDec B inAmountAfterSlippage))) (\<lambda>inCoin.
      rbind (NewPoolAssetsAfterSwap S [inCoin] tokensOut (am_PoolAssets snapshot)) (\<lambda>newAssetPools.
      rbind (CalculateWeightFees E p (am_PoolAssets snapshot) newAssetPools tokenInDenom params
               weightBreakingFeePerpetualFactor) (\<lambda>(weightBalanceBonus, weightBreakingFee, isSwapFee).
      let fee = (if isSwapFee then swapFee else 0) in
      if fee \<ge> big_one then Inl amm_ErrTooMuchSwapFee
      else
      rbind (BQuo B inAmountAfterSlippage (big_one - weightBreakingFee)) (\<lambda>q1.
      rbind (BQuo B q1 (big_one - (fee + takerFees))) (\<lambda>q2.
      rbind (NewCoin S tokenInDenom (DTruncateInt (ae_dec E) (BDec B (BCeil q2)))) (\<lambda>tokenIn.
      Inr \<lparr>sq_Token = tokenIn, sq_Slippage = slippage, sq_SlippageAmount = slippageAmount,
           sq_WeightBalanceBonus = weightBalanceBonus, sq_OracleAmount = oracleInAmount, sq_SwapFee = fee\<rparr>))))))))))))))"

end
