(* ===== verification/AmmLp.thy ===== *)
theory AmmLp
  imports AmmQuote
begin

text \<open>
  Joining and leaving a pool (x/amm/types: \<open>pool_calc_join_pool_no_swap_shares.go\<close>,
  \<open>pool_calc_join_pool_shares.go\<close>, \<open>pool_join_pool.go\<close>, \<open>calc_exit_pool.go\<close>,
  \<open>pool_exit_pool.go\<close>).
\<close>

section \<open>Joining with every asset\<close>

text \<open>The ratio of every coin to the pool's liquidity.\<close>

fun share_ratios :: "bigdec_ops \<Rightarrow> (string \<Rightarrow> int) \<Rightarrow> coins \<Rightarrow> int list result" where
  "share_ratios B liquidity [] = Inr []"
| "share_ratios B liquidity (coin # cs) =
     (if liquidity (Denom coin) = 0 then Inl (Plain ''pool liquidity is zero for denom'')
      else rbind (BQuo B (BigDecFromSDKInt (Amount coin)) (BigDecFromSDKInt (liquidity (Denom coin)))) (\<lambda>shareRatio.
           rbind (share_ratios B liquidity cs) (\<lambda>rs. Inr (shareRatio # rs))))"

text \<open>\<open>OneBigDec().Quo(SmallestBigDec())\<close>.\<close>

definition maxRatio :: int where
  "maxRatio = big_one * big_one"

definition MaximalExactRatioJoin :: "amm_env \<Rightarrow> amm_Pool \<Rightarrow> coins \<Rightarrow> (int \<times> coins) result" where
  "MaximalExactRatioJoin E p tokensIn =
     (let B = ae_big E; S = ae_sdk E;
          poolLiquidity = GetTotalPoolLiquidity S p;
          liquidity = AmountOf S poolLiquidity
      in rbind (share_ratios B liquidity tokensIn) (\<lambda>coinShareRatios.
         let minShareRatio = fold min coinShareRatios maxRatio;
             maxShareRatio = fold max coinShareRatios 0
         in if minShareRatio = maxRatio then Inl (Plain ''unexpected error in MaximalExactRatioJoin'')
            else let numShares = DTruncateInt (ae_dec E)
                       (BDec B (BMul B minShareRatio (BigDecFromSDKInt (Amount (am_TotalShares p)))));
                     remCoins = (if minShareRatio = maxShareRatio then []
                       else fold (\<lambda>(coin, ratio) rem.
                              if ratio = minShareRatio then rem
                              else let usedAmount = DTruncateInt (ae_dec E) (BDec B (BCeil
                                         (BMul B minShareRatio (BigDecFromSDKInt (liquidity (Denom coin))))));
                                       newAmt = Amount coin - usedAmount
                                in if newAmt = 0 then rem
                                   else CoinsAdd S rem [\<lparr>Denom = Denom coin, Amount = newAmt\<rparr>])
                            (zip tokensIn coinShareRatios) [])
                 in Inr (numShares, remCoins)))"

text \<open>\<open>tokensJoined.IsAnyGT(tokensIn)\<close>: some coin of the first exceeds that of the second, when
  the second is not empty.\<close>

definition IsAnyGT :: "sdk \<Rightarrow> coins \<Rightarrow> coins \<Rightarrow> bool" where
  "IsAnyGT S a b \<longleftrightarrow> b \<noteq> [] \<and> list_ex (\<lambda>c. AmountOf S b (Denom c) \<noteq> 0 \<and> AmountOf S b (Denom c) < Amount c) a"

definition CalcJoinPoolNoSwapShares :: "amm_env \<Rightarrow> amm_Pool \<Rightarrow> coins \<Rightarrow> (int \<times> coins) result" where
  "CalcJoinPoolNoSwapShares E p tokensIn =
     rbind (GetPoolAssetsByDenom (am_PoolAssets p)) (\<lambda>poolAssetsByDenom.
     rbind (EnsureDenomInPool poolAssetsByDenom tokensIn) (\<lambda>_.
     if length tokensIn \<noteq> length (am_PoolAssets p)
     then Inl (Plain ''no-swap joins require LP'ing with all assets in pool'')
     else rbind (MaximalExactRatioJoin E p tokensIn) (\<lambda>(numShares, remainingTokensIn).
          rbind (CoinsSub (ae_sdk E) tokensIn remainingTokensIn) (\<lambda>tokensJoined.
          if IsAnyGT (ae_sdk E) tokensJoined tokensIn
          then Inl (Plain ''an error has occurred, more coins joined than token In'')
          else Inr (numShares, tokensJoined)))))"

section \<open>Joining with one asset\<close>

definition calcSingleAssetJoin :: "amm_env \<Rightarrow> amm_Pool \<Rightarrow> coin \<Rightarrow> int \<Rightarrow> PoolAsset \<Rightarrow> int \<Rightarrow> int result" where
  "calcSingleAssetJoin E p tokenIn spreadFactor tokenInPoolAsset totalShares =
     (if am_TotalWeight p = 0 then Inl (Plain ''pool misconfigured, total weight = 0'')
      else rbind (BQuo (ae_big E) (BigDecFromSDKInt (pa_Weight tokenInPoolAsset)) (BigDecFromSDKInt (am_TotalWeight p)))
        (\<lambda>normalizedWeight.
           rbind (calcPoolSharesOutGivenSingleAssetIn (ae_pow E)
                    (BigDecFromSDKInt (Amount (pa_Token tokenInPoolAsset))) normalizedWeight
                    (BigDecFromSDKInt totalShares) (BigDecFromSDKInt (Amount tokenIn)) spreadFactor)
             (\<lambda>poolShares. Inr (DTruncateInt (ae_dec E) (BDec (ae_big E) poolShares)))))"

definition CalcSingleAssetJoinPoolShares :: "amm_env \<Rightarrow> amm_Pool \<Rightarrow> coins \<Rightarrow> int \<Rightarrow> (int \<times> coins) result" where
  "CalcSingleAssetJoinPoolShares E p tokensIn takerFees =
     rbind (GetPoolAssetsByDenom (am_PoolAssets p)) (\<lambda>poolAssetsByDenom.
     rbind (EnsureDenomInPool poolAssetsByDenom tokensIn) (\<lambda>_.
     if length tokensIn \<noteq> 1 then Inl (Plain ''pool only supports LP'ing with one asset'')
     else case poolAssetsByDenom (Denom (tokensIn ! 0)) of
         None \<Rightarrow> Inl amm_ErrDenomNotFoundInPool
       | Some asset \<Rightarrow>
           rbind (calcSingleAssetJoin E p (tokensIn ! 0)
                    (BigDecFromDec (pp_SwapFee (am_PoolParams p)) + takerFees) asset (Amount (am_TotalShares p)))
             (\<lambda>numShares. Inr (numShares, tokensIn))))"

text \<open>The denomination of the other asset: the last one that differs.\<close>

definition other_denom_of :: "amm_Pool \<Rightarrow> string \<Rightarrow> string" where
  "other_denom_of p denom =
     fold (\<lambda>asset d. if Denom (pa_Token asset) = denom then d else Denom (pa_Token asset)) (am_PoolAssets p) []"

definition CalcJoinValueWithSlippage ::
    "amm_env \<Rightarrow> amm_Pool \<Rightarrow> amm_Pool \<Rightarrow> coin \<Rightarrow> int \<Rightarrow> amm_Params \<Rightarrow> (int \<times> int) result" where
  "CalcJoinValueWithSlippage E p snapshot tokenIn weightMultiplier params =
     (let B = ae_big E; tokenOutDenom = other_denom_of p (Denom tokenIn);
          outTokenPrice = ae_GetDenomPrice E tokenOutDenom; inTokenPrice = ae_GetDenomPrice E (Denom tokenIn) in
      if tokenOutDenom = [] then Inl (Plain ''token out denom not found'')
      else if outTokenPrice = 0 then Inl (Plain ''token price not set'')
      else if inTokenPrice = 0 then Inl (Plain ''token price not set'')
      else let joinValue = BMul B inTokenPrice (BigDecFromSDKInt (Amount tokenIn)) in
      rbind (GetAssetExternalLiquidityRatio p tokenOutDenom) (\<lambda>ratio0.
      let externalLiquidityRatio = (if ratio0 < big_one then big_one else ratio0);
          weightedAmount = BMul B (BigDecFromSDKInt (Amount tokenIn)) weightMultiplier in
      rbind (BQuo B weightedAmount externalLiquidityRatio) (\<lambda>resized.
      rbind (NewCoin (ae_sdk E) (Denom tokenIn) (DRoundInt (ae_dec E) (BDec B resized))) (\<lambda>resizedCoin.
      rbind (CalcGivenInSlippage E p snapshot [resizedCoin] tokenOutDenom) (\<lambda>slippageAmount0.
      let slippageAmount = BMul B slippageAmount0 externalLiquidityRatio;
          slippageValue0 = BMul B slippageAmount outTokenPrice in
      rbind (BQuo B slippageValue0 joinValue) (\<lambda>slippage0.
      let minSlippage = BMul B (BigDecFromDec (mp_MinSlippage params)) weightMultiplier;
          slippage = (if slippage0 < minSlippage then minSlippage else slippage0);
          slippageValue = (if slippage0 < minSlippage then BMul B joinValue minSlippage else slippageValue0)
      in Inr (joinValue - slippageValue, slippage)))))))"

text \<open>What a join returns: the coins joined, the shares, slippage, bonus and the two fees taken.\<close>

record join_quote =
  jq_Joined :: coins
  jq_Shares :: int
  jq_Slippage :: int
  jq_WeightBalanceBonus :: int
  jq_SwapFee :: int
  jq_TakerFees :: int

text \<open>The slippage reported for a one-sided join: of the assets not given, those whose swap is
  possible.\<close>

fun join_slippage :: "amm_env \<Rightarrow> amm_Pool \<Rightarrow> amm_Pool \<Rightarrow> coins \<Rightarrow> (string \<times> int) list \<Rightarrow> int \<Rightarrow> int result" where
  "join_slippage E p snapshot tokensIn [] totalSlippage = Inr totalSlippage"
| "join_slippage E p snapshot tokensIn ((asset, weight) # ws) totalSlippage =
     (if asset = Denom (tokensIn ! 0) then join_slippage E p snapshot tokensIn ws totalSlippage
      else case CalcOutAmtGivenIn E p snapshot tokensIn asset 0 of
          Inl (Panic w) \<Rightarrow> Inl (Panic w)
        | Inl e \<Rightarrow> join_slippage E p snapshot tokensIn ws totalSlippage
        | Inr (_, slippage, _) \<Rightarrow>
            join_slippage E p snapshot tokensIn ws (totalSlippage + BMul (ae_big E) slippage weight))"

definition JoinPool :: "amm_env \<Rightarrow> amm_Pool \<Rightarrow> amm_Pool \<Rightarrow> coins \<Rightarrow> amm_Params \<Rightarrow> int \<Rightarrow> (amm_Pool \<times> join_quote) result" where
  "JoinPool E p snapshot tokensIn params takerFees =
     (let B = ae_big E; S = ae_sdk E in
      if length tokensIn \<noteq> 1
      then rbind (CalcJoinPoolNoSwapShares E snapshot tokensIn) (\<lambda>(numShares, tokensJoined).
           rbind (IncreaseLiquidity numShares tokensJoined p) (\<lambda>p'.
             Inr (p', \<lparr>jq_Joined = tokensJoined, jq_Shares = numShares, jq_Slippage = 0, jq_WeightBalanceBonus = 0,
                       jq_SwapFee = 0, jq_TakerFees = 0\<rparr>)))
      else if \<not> pp_UseOracle (am_PoolParams p)
      then rbind (NormalizedWeights B (am_PoolAssets p)) (\<lambda>normalizedWeights.
           rbind (join_slippage E p snapshot tokensIn normalizedWeights 0) (\<lambda>totalSlippage.
           rbind (CalcSingleAssetJoinPoolShares E p tokensIn takerFees) (\<lambda>(numShares, tokensJoined).
           rbind (GetPoolAssetsByDenom (am_PoolAssets p)) (\<lambda>poolAssetsByDenom.
           case poolAssetsByDenom (Denom (tokensIn ! 0)) of
             None \<Rightarrow> Inl amm_ErrDenomNotFoundInPool
           | Some asset \<Rightarrow>
               rbind (BQuo B (BigDecFromSDKInt (pa_Weight asset)) (BigDecFromSDKInt (am_TotalWeight p))) (\<lambda>normalizedWeight.
               let swapFee = big_one - feeRatio B normalizedWeight (BigDecFromDec (pp_SwapFee (am_PoolParams p)));
                   takerFee = big_one - feeRatio B normalizedWeight takerFees
               in rbind (IncreaseLiquidity numShares tokensJoined p) (\<lambda>p'.
                  Inr (p', \<lparr>jq_Joined = tokensJoined, jq_Shares = numShares, jq_Slippage = totalSlippage,
                            jq_WeightBalanceBonus = 0, jq_SwapFee = swapFee, jq_TakerFees = takerFee\<rparr>)))))))
      else
      rbind (GetDenomOracleAssetWeight E (am_PoolAssets snapshot) (Denom (tokensIn ! 0))) (\<lambda>initialWeightIn.
      let initialWeightOut = big_one - initialWeightIn in
      rbind (CalcJoinValueWithSlippage E p snapshot (tokensIn ! 0) initialWeightOut params) (\<lambda>(joinValueWithSlippage, slippage).
      rbind (amm_TVL E p) (\<lambda>tvl.
      if tvl = 0 then Inl amm_ErrAmountTooLow
      else
      rbind (NewPoolAssetsAfterSwap S tokensIn [] (am_PoolAssets snapshot)) (\<lambda>newAssetPools.
      rbind (CalculateWeightFees E p (am_PoolAssets snapshot) newAssetPools (Denom (tokensIn ! 0)) params big_one)
        (\<lambda>(weightBalanceBonus0, weightBreakingFee0, isSwapFee).
      let weightBreakingFee = BMul B weightBreakingFee0 initialWeightOut;
          weightBalanceBonus = BMul B weightBalanceBonus0 initialWeightOut;
          swapFee = (if isSwapFee then BMul B (BigDecFromDec (pp_SwapFee (am_PoolParams p))) initialWeightOut else 0);
          takerFeesFinal = BMul B takerFees initialWeightOut in
      rbind (BQuo B (BMul B (BigDecFromSDKInt (Amount (am_TotalShares p))) joinValueWithSlippage) tvl) (\<lambda>q.
      let numSharesDec = BMul B (BMul B q (big_one - weightBreakingFee)) (big_one - (swapFee + takerFeesFinal));
          numShares = DRoundInt (ae_dec E) (BDec B numSharesDec) in
      rbind (IncreaseLiquidity numShares tokensIn p) (\<lambda>p'.
      Inr (p', \<lparr>jq_Joined = tokensIn, jq_Shares = numShares, jq_Slippage = slippage,
                jq_WeightBalanceBonus = weightBalanceBonus, jq_SwapFee = swapFee, jq_TakerFees = takerFeesFinal\<rparr>)))))))))"

section \<open>Leaving a pool\<close>

definition CalcExitValueWithSlippage ::
    "amm_env \<Rightarrow> amm_Pool \<Rightarrow> amm_Pool \<Rightarrow> int \<Rightarrow> string \<Rightarrow> int \<Rightarrow> bool \<Rightarrow> amm_Params \<Rightarrow> (int \<times> int \<times> coins) result" where
  "CalcExitValueWithSlippage E p snapshot exitingShares tokenOutDenom weightMultiplier applyFee params =
     (let B = ae_big E; S = ae_sdk E; totalShares = Amount (am_TotalShares p);
          tokenInDenom = other_denom_of p tokenOutDenom in
      rbind (amm_TVL E p) (\<lambda>tvl.
      if tokenInDenom = [] then Inl (Plain ''token in denom not found'')
      else if totalShares = 0 then Inl amm_ErrAmountTooLow
      else
      rbind (BQuo B (BMul B tvl (BigDecFromSDKInt exitingShares)) (BigDecFromSDKInt totalShares)) (\<lambda>exitValue.
      if \<not> applyFee then Inr (exitValue, 0, [])
      else
      let inTokenPrice = ae_GetDenomPrice E tokenInDenom; outTokenPrice = ae_GetDenomPrice E tokenOutDenom in
      if inTokenPrice = 0 then Inl (Plain ''token price not set'')
      else if outTokenPrice = 0 then Inl (Plain ''token price not set'')
      else
      rbind (GetAssetExternalLiquidityRatio p tokenOutDenom) (\<lambda>ratio0.
      let externalLiquidityRatio = (if ratio0 < big_one then big_one else ratio0) in
      rbind (BQuo B exitValue inTokenPrice) (\<lambda>tokenInAmount.
      let weightedAmount = BMul B tokenInAmount weightMultiplier in
      rbind (BQuo B (BigDecFromSDKInt (DTruncateInt (ae_dec E) (BDec B weightedAmount))) externalLiquidityRatio) (\<lambda>resized.
      rbind (NewCoin S tokenInDenom (DRoundInt (ae_dec E) (BDec B resized))) (\<lambda>resizedCoin.
      rbind (CalcGivenInSlippage E p snapshot [resizedCoin] tokenOutDenom) (\<lambda>slippageAmount0.
      let slippageAmount = BMul B slippageAmount0 externalLiquidityRatio;
          slippageValue0 = BMul B slippageAmount outTokenPrice in
      rbind (BQuo B slippageValue0 exitValue) (\<lambda>slippage0.
      let minSlippage = BMul B (BigDecFromDec (mp_MinSlippage params)) weightMultiplier;
          slippage = (if slippage0 < minSlippage then minSlippage else slippage0);
          slippageValue = (if slippage0 < minSlippage then BMul B exitValue minSlippage else slippageValue0) in
      if exitingShares \<ge> totalShares then Inl amm_ErrLimitMaxAmount
      else rbind (NewCoin S tokenOutDenom (DTruncateInt (ae_dec E) (BDec B slippageAmount))) (\<lambda>slippageCoin.
           Inr (exitValue - slippageValue, slippage, [slippageCoin])))))))))))"

text \<open>What an exit returns: the coins, the bonus, slippage, the two fees taken, the slippage's
  coins.\<close>

record exit_quote =
  eq_Coins :: coins
  eq_WeightBalanceBonus :: int
  eq_Slippage :: int
  eq_SwapFee :: int
  eq_TakerFees :: int
  eq_SlippageCoins :: coins

text \<open>The coins of a pro-rata exit, rounded down.\<close>

fun exit_coins :: "amm_env \<Rightarrow> coins \<Rightarrow> int \<Rightarrow> PoolAsset list \<Rightarrow> coins \<Rightarrow> coins result" where
  "exit_coins E poolLiquidity shareOutRatio [] exitedCoins = Inr exitedCoins"
| "exit_coins E poolLiquidity shareOutRatio (asset # as) exitedCoins =
     (let denom = Denom (pa_Token asset);
          exitAmt = DTruncateInt (ae_dec E) (BDec (ae_big E)
            (BMul (ae_big E) shareOutRatio (BigDecFromSDKInt (Amount (pa_Token asset)))))
      in if exitAmt \<le> 0 then exit_coins E poolLiquidity shareOutRatio as exitedCoins
         else if list_ex (\<lambda>c. Denom c = denom \<and> exitAmt \<ge> Amount c) poolLiquidity
         then Inl (Plain ''too many shares out'')
         else rbind (NewCoin (ae_sdk E) denom exitAmt) (\<lambda>c.
              exit_coins E poolLiquidity shareOutRatio as (CoinsAdd (ae_sdk E) exitedCoins [c])))"

definition CalcExitPool ::
    "amm_env \<Rightarrow> amm_Pool \<Rightarrow> amm_Pool \<Rightarrow> int \<Rightarrow> string \<Rightarrow> amm_Params \<Rightarrow> int \<Rightarrow> bool \<Rightarrow> exit_quote result" where
  "CalcExitPool E p snapshot exitingShares tokenOutDenom params takerFees applyFee =
     (let B = ae_big E; S = ae_sdk E; totalShares = Amount (am_TotalShares p) in
      if exitingShares \<ge> totalShares then Inl amm_ErrLimitMaxAmount
      else
      rbind (BQuo B (BigDecFromSDKInt exitingShares) (BigDecFromSDKInt totalShares)) (\<lambda>shareOutRatio.
      if \<not> (pp_UseOracle (am_PoolParams p) \<and> tokenOutDenom \<noteq> [])
      then rbind (exit_coins E (GetTotalPoolLiquidity S p) shareOutRatio (am_PoolAssets snapshot) []) (\<lambda>exitedCoins.
             Inr \<lparr>eq_Coins = exitedCoins, eq_WeightBalanceBonus = 0, eq_Slippage = 0, eq_SwapFee = 0,
                  eq_TakerFees = 0, eq_SlippageCoins = []\<rparr>)
      else
      let tokenPrice = ae_GetDenomPrice E tokenOutDenom in
      rbind (GetDenomOracleAssetWeight E (am_PoolAssets snapshot) tokenOutDenom) (\<lambda>initialWeightOut.
      let initialWeightIn = big_one - initialWeightOut in
      rbind (CalcExitValueWithSlippage E p snapshot exitingShares tokenOutDenom initialWeightIn applyFee params)
        (\<lambda>(exitValueWithSlippage, slippage, slippageCoins).
      if tokenPrice = 0 then Inl amm_ErrAmountTooLow
      else
      rbind (BQuo B exitValueWithSlippage tokenPrice) (\<lambda>oracleOutAmount.
      let tokenOutAmount0 = DRoundInt (ae_dec E) (BDec B oracleOutAmount) in
      if \<not> applyFee
      then rbind (NewCoin S tokenOutDenom tokenOutAmount0) (\<lambda>c.
             Inr \<lparr>eq_Coins = [c], eq_WeightBalanceBonus = 0, eq_Slippage = slippage, eq_SwapFee = 0,
                  eq_TakerFees = 0, eq_SlippageCoins = slippageCoins\<rparr>)
      else
      rbind (NewCoin S tokenOutDenom tokenOutAmount0) (\<lambda>outCoin.
      rbind (NewPoolAssetsAfterSwap S [] [outCoin] (am_PoolAssets snapshot)) (\<lambda>newAssetPools.
      if list_ex (\<lambda>asset. Amount (pa_Token asset) < 0) newAssetPools
      then Inl (Plain ''out amount exceeds liquidity balance'')
      else
      let tokenInDenom = fold (\<lambda>asset d. if Denom (pa_Token asset) \<noteq> tokenOutDenom
            then Denom (pa_Token asset) else d) newAssetPools [] in
      rbind (CalculateWeightFees E p (am_PoolAssets snapshot) newAssetPools tokenInDenom params big_one)
        (\<lambda>(weightBalanceBonus0, weightBreakingFee0, isSwapFee).
      let weightBreakingFee = BMul B weightBreakingFee0 initialWeightIn;
          weightBalanceBonus = BMul B weightBalanceBonus0 initialWeightIn;
          swapFee = (if isSwapFee then BMul B (BigDecFromDec (pp_SwapFee (am_PoolParams p))) initialWeightIn else 0);
          takerFeesFinal = BMul B takerFees initialWeightIn;
          tokenOutAmount = DRoundInt (ae_dec E) (BDec B (BMul B (BMul B oracleOutAmount (big_one - weightBreakingFee))
             (big_one - (swapFee + takerFeesFinal)))) in
      rbind (NewCoin S tokenOutDenom tokenOutAmount) (\<lambda>c.
      Inr \<lparr>eq_Coins = [c], eq_WeightBalanceBonus = weightBalanceBonus, eq_Slippage = slippage, eq_SwapFee = swapFee,
           eq_TakerFees = takerFeesFinal, eq_SlippageCoins = slippageCoins\<rparr>)))))))))"

definition processExitPool :: "sdk \<Rightarrow> coins \<Rightarrow> int \<Rightarrow> amm_Pool \<Rightarrow> amm_Pool result" where
  "processExitPool S exitingCoins exitingShares p =
     rbind (CoinsSub S (GetTotalPoolLiquidity S p) exitingCoins) (\<lambda>balances.
     rbind (UpdatePoolAssetBalances S balances p) (\<lambda>p1.
     rbind (NewCoin S (Denom (am_TotalShares p1)) (Amount (am_TotalShares p1) - exitingShares)) (\<lambda>shares.
       Inr (p1\<lparr>am_TotalShares := shares\<rparr>))))"

definition ExitPool ::
    "amm_env \<Rightarrow> amm_Pool \<Rightarrow> amm_Pool \<Rightarrow> int \<Rightarrow> string \<Rightarrow> amm_Params \<Rightarrow> int \<Rightarrow> bool \<Rightarrow> (amm_Pool \<times> exit_quote) result" where
  "ExitPool E p snapshot exitingShares tokenOutDenom params takerFees applyWeightBreakingFee =
     rbind (CalcExitPool E p snapshot exitingShares tokenOutDenom params takerFees applyWeightBreakingFee) (\<lambda>quote.
     rbind (processExitPool (ae_sdk E) (eq_Coins quote) exitingShares p) (\<lambda>p'. Inr (p', quote)))"

end
