(* ===== verification/AmmLaws.thy ===== *)
theory AmmLaws
  imports AmmLp
begin

text \<open>
  Facts about pools: looking up assets, the exact part of the arithmetic, and what a swap, a join
  and an exit do to the pool's balances.
\<close>

section \<open>Looking up an asset\<close>

lemma sort_search_stop: "\<not> i < j \<Longrightarrow> sort_search f i j = i"
  by (subst sort_search.simps) simp

lemma sort_search_True: "i < j \<Longrightarrow> f ((i + j) div 2) \<Longrightarrow> sort_search f i j = sort_search f i ((i + j) div 2)"
  by (subst sort_search.simps) (simp add: Let_def)

lemma sort_search_False: "i < j \<Longrightarrow> \<not> f ((i + j) div 2) \<Longrightarrow> sort_search f i j = sort_search f ((i + j) div 2 + 1) j"
  by (subst sort_search.simps) (simp add: Let_def)

text \<open>Of a condition that stays true once it is true, the search finds where it becomes true.\<close>

lemma sort_search_least:
  "i \<le> j \<Longrightarrow> \<forall>m n. m \<le> n \<longrightarrow> n < j \<longrightarrow> f m \<longrightarrow> f n \<Longrightarrow>
     (\<forall>m. i \<le> m \<longrightarrow> m < sort_search f i j \<longrightarrow> \<not> f m) \<and> (\<forall>m. sort_search f i j \<le> m \<longrightarrow> m < j \<longrightarrow> f m)
     \<and> i \<le> sort_search f i j \<and> sort_search f i j \<le> j"
proof (induction f i j rule: sort_search.induct)
  case (1 f i j)
  show ?case
  proof (cases "i < j")
    case True
    define h where "h = (i + j) div 2"
    have h: "i \<le> h" "h < j" using True by (simp_all add: h_def)
    show ?thesis
    proof (cases "f h")
      case fh: True
      have r: "sort_search f i j = sort_search f i h"
        unfolding h_def by (rule sort_search_True) (use True fh in \<open>simp_all add: h_def\<close>)
      have mono: "\<forall>m n. m \<le> n \<longrightarrow> n < h \<longrightarrow> f m \<longrightarrow> f n"
        using 1(4) h by (meson order.strict_trans)
      have nn: "\<not> \<not> f h" using fh by simp
      note IH = 1(2) [OF True h_def nn h(1) mono]
      have "f m" if "h \<le> m" "m < j" for m using 1(4) fh that by blast
      then show ?thesis using IH fh h unfolding r by (metis not_less le_trans less_imp_le)
    next
      case fh: False
      have r: "sort_search f i j = sort_search f (h + 1) j"
        unfolding h_def by (rule sort_search_False) (use True fh in \<open>simp_all add: h_def\<close>)
      have h1: "h + 1 \<le> j" using h by simp
      note IH = 1(1) [OF True h_def fh h1 1(4)]
      have "\<not> f m" if "m < h + 1" for m
      proof
        assume "f m"
        moreover have "m \<le> h" using that by simp
        ultimately have "f h" using 1(4) h(2) by blast
        then show False using fh by simp
      qed
      then show ?thesis using IH h unfolding r by (metis Suc_eq_plus1 Suc_leI not_less le_trans le_Suc_eq)
    qed
  next
    case False
    then have "i = j" using 1(3) by simp
    then show ?thesis by (simp add: sort_search_stop)
  qed
qed

definition denoms_of_assets :: "PoolAsset list \<Rightarrow> string list" where
  "denoms_of_assets as = map (\<lambda>a. Denom (pa_Token a)) as"

definition pool_sorted :: "amm_Pool \<Rightarrow> bool" where
  "pool_sorted p \<longleftrightarrow> sorted_wrt (<) (denoms_of_assets (am_PoolAssets p)) \<and> [] \<notin> set (denoms_of_assets (am_PoolAssets p))"

lemma pool_sorted_less:
  "pool_sorted p \<Longrightarrow> m < n \<Longrightarrow> n < length (am_PoolAssets p) \<Longrightarrow>
     Denom (pa_Token (am_PoolAssets p ! m)) < Denom (pa_Token (am_PoolAssets p ! n))"
  by (auto simp: pool_sorted_def denoms_of_assets_def sorted_wrt_iff_nth_less)

lemma asset_search:
  assumes "pool_sorted p" "i < length (am_PoolAssets p)" "Denom (pa_Token (am_PoolAssets p ! i)) = d"
  shows "GetPoolAssetAndIndex p d = Inr (i, am_PoolAssets p ! i)"
proof -
  let ?as = "am_PoolAssets p"
  define f where "f m \<longleftrightarrow> d \<le> Denom (pa_Token (am_PoolAssets p ! m))" for m
  note less = pool_sorted_less [OF assms(1)]
  have mono: "\<forall>m n. m \<le> n \<longrightarrow> n < length ?as \<longrightarrow> f m \<longrightarrow> f n"
  proof (intro allI impI)
    fix m n assume "m \<le> n" "n < length ?as" "f m"
    then show "f n" using less [of m n] by (cases "m = n") (auto simp: f_def)
  qed
  define r where "r = sort_search f 0 (length ?as)"
  have S: "\<forall>m. 0 \<le> m \<longrightarrow> m < r \<longrightarrow> \<not> f m" "\<forall>m. r \<le> m \<longrightarrow> m < length ?as \<longrightarrow> f m"
    using sort_search_least [of 0 "length ?as" f] mono by (simp_all add: r_def)
  have "f i" by (simp add: f_def assms(3))
  then have "\<not> i < r" using S(1) by auto
  moreover have "\<not> r < i"
  proof
    assume "r < i"
    then have "f r" using S(2) assms(2) by simp
    moreover have "Denom (pa_Token (?as ! r)) < d" using less [OF \<open>r < i\<close> assms(2)] assms(3) by simp
    ultimately show False by (simp add: f_def)
  qed
  ultimately have "r = i" by simp
  then have "sort_search (\<lambda>m. d \<le> Denom (pa_Token (am_PoolAssets p ! m))) 0 (length ?as) = i"
    unfolding r_def f_def .
  moreover have "d \<in> set (denoms_of_assets ?as)"
    using nth_mem [OF assms(2)] assms(3) by (auto simp: denoms_of_assets_def)
  then have "d \<noteq> []" using assms(1) by (auto simp: pool_sorted_def)
  moreover have "?as \<noteq> []" using assms(2) by auto
  ultimately show ?thesis using assms(2,3) by (simp add: GetPoolAssetAndIndex_def)
qed

lemma asset_search_none:
  assumes "d \<notin> set (denoms_of_assets (am_PoolAssets p))" "d \<noteq> []"
  shows "GetPoolAssetAndIndex p d = Inl amm_ErrDenomNotFoundInPool"
proof -
  have "Denom (pa_Token (am_PoolAssets p ! i)) \<noteq> d" if "i < length (am_PoolAssets p)" for i
    using assms(1) nth_mem [OF that] by (auto simp: denoms_of_assets_def)
  then show ?thesis using assms(2) by (simp add: GetPoolAssetAndIndex_def Let_def)
qed

lemma asset_search_Inr:
  assumes "GetPoolAssetAndIndex p d = Inr (i, a)"
  shows "i < length (am_PoolAssets p) \<and> a = am_PoolAssets p ! i \<and> Denom (pa_Token a) = d"
  using assms by (auto simp: GetPoolAssetAndIndex_def Let_def split: if_splits)

end
