(* ===== verification/AmmCurve.thy ===== *)
theory AmmCurve
  imports AmmLaws
begin

text \<open>
  The curve of a pool with two assets of one weight, in exact integers: the bounds that the
  rounded quotients give, and what follows for the product of the two balances.
\<close>

section \<open>Quotients from both sides\<close>

lemma BQuo_sides:
  assumes "bigdec_laws B" "0 \<le> a" "0 < b" "BQuo B a b = Inr q"
  shows "2 * (a * big_one ^ 2) < b * (2 * big_one * q + big_one + 2)"
    and "b * (2 * big_one * q) \<le> 2 * (a * big_one ^ 2) + b * big_one"
proof -
  have nz: "b \<noteq> 0" using assms(3) by simp
  define Q where "Q = a * big_one ^ 2 div b"
  have "a * big_one ^ 2 sdiv b = Q" unfolding Q_def using assms(2,3) by (intro sdiv_nonneg) simp_all
  moreover obtain q' where "BQuo B a b = Inr q'" "2 * \<bar>big_one * q' - a * big_one ^ 2 sdiv b\<bar> \<le> big_one"
    by (rule BQuo_Inr [OF assms(1) nz])
  ultimately have Q: "2 * \<bar>big_one * q - Q\<bar> \<le> big_one" using assms(4) by simp
  have split: "a * big_one ^ 2 = b * Q + a * big_one ^ 2 mod b"
    unfolding Q_def by (rule mult_div_mod_eq [symmetric])
  have r: "0 \<le> a * big_one ^ 2 mod b" "a * big_one ^ 2 mod b < b" using assms(3) by simp_all
  have "a * big_one ^ 2 < b * (Q + 1)" using split r(2) by (simp only: distrib_left)
  moreover have "b * (2 * (Q + 1)) \<le> b * (2 * big_one * q + big_one + 2)"
    using Q assms(3) by (intro mult_left_mono) (simp_all add: abs_le_iff)
  ultimately show "2 * (a * big_one ^ 2) < b * (2 * big_one * q + big_one + 2)"
    by (simp only: mult.left_commute [of b 2])
  have "b * (2 * big_one * q) \<le> b * (2 * Q + big_one)"
    using Q assms(3) by (intro mult_left_mono) (simp_all add: abs_le_iff)
  also have "\<dots> = 2 * (b * Q) + b * big_one" by (simp only: distrib_left mult.left_commute)
  also have "b * Q \<le> a * big_one ^ 2" using split r(1) by simp
  finally show "b * (2 * big_one * q) \<le> 2 * (a * big_one ^ 2) + b * big_one" by simp
qed

lemma BQuo_self:
  assumes "bigdec_laws B" "0 < a"
  shows "BQuo B a a = Inr big_one"
proof -
  have "a \<noteq> 0" using assms(2) by simp
  then obtain q where q: "BQuo B a a = Inr q" "2 * \<bar>big_one * q - a * big_one ^ 2 sdiv a\<bar> \<le> big_one"
    by (rule BQuo_Inr [OF assms(1)])
  have "a * big_one ^ 2 sdiv a = big_one * big_one"
    using assms(2) by (simp add: sdiv_nonneg)
  then have "q = big_one" using q(2) by (intro near_exact [of big_one]) simp_all
  then show ?thesis using q(1) by simp
qed

lemma BQuo_exact:
  assumes "bigdec_laws B" "0 < b" "0 \<le> c" "a * big_one = b * c"
  shows "BQuo B a b = Inr c"
proof -
  have "b \<noteq> 0" using assms(2) by simp
  then obtain q where q: "BQuo B a b = Inr q" "2 * \<bar>big_one * q - a * big_one ^ 2 sdiv b\<bar> \<le> big_one"
    by (rule BQuo_Inr [OF assms(1)])
  have "a * big_one ^ 2 = a * big_one * big_one" by (simp only: power2_eq_square mult.assoc)
  also have "\<dots> = b * (big_one * c)" unfolding assms(4) by (simp only: ac_simps)
  finally have "a * big_one ^ 2 sdiv b = b * (big_one * c) sdiv b" by (rule arg_cong)
  also have "\<dots> = big_one * c" using assms(2,3) by (simp add: sdiv_nonneg)
  finally have "q = c" using q(2) by (intro near_exact [of big_one]) simp_all
  then show ?thesis using q(1) by simp
qed

lemma BQuo_one: "bigdec_laws B \<Longrightarrow> 0 \<le> a \<Longrightarrow> BQuo B a big_one = Inr a"
proof -
  assume B: "bigdec_laws B" and a: "0 \<le> a"
  obtain q where q: "BQuo B a big_one = Inr q" "2 * \<bar>big_one * q - a * big_one ^ 2 sdiv big_one\<bar> \<le> big_one"
    by (rule BQuo_Inr [OF B, of big_one a]) simp_all
  have "a * big_one ^ 2 sdiv big_one = a * big_one ^ 2 div big_one" using a by (intro sdiv_nonneg) simp_all
  also have "\<dots> = big_one * a" using nonzero_mult_div_cancel_right [of big_one "a * big_one"]
    by (simp add: power2_eq_square mult.assoc [symmetric])
  finally have "q = a" using q(2) by (intro near_exact [of big_one]) simp_all
  then show ?thesis using q(1) by simp
qed

lemma BMul_int: "bigdec_laws B \<Longrightarrow> BMul B (BigDecFromSDKInt n) x = n * x"
  by (rule BMul_exact) (simp_all add: BigDecFromSDKInt_def)

lemma BMul_int_right: "bigdec_laws B \<Longrightarrow> BMul B x (BigDecFromSDKInt n) = n * x"
  by (rule BMul_exact) (simp_all add: BigDecFromSDKInt_def)

text \<open>\<open>Dec().TruncateInt()\<close> of a decimal that is not negative is its integer part.\<close>

lemma truncate_int:
  assumes "bigdec_laws B" "dec_laws D" "0 \<le> x"
  shows "DTruncateInt D (BDec B x) = x div big_one"
proof -
  have b: "BDec B x = x div dec_one" using assms(3) by (simp add: BDec_eq [OF assms(1)] sdiv_nonneg)
  moreover have "0 \<le> x div dec_one" using assms(3) by simp
  ultimately have "DTruncateInt D (BDec B x) = x div dec_one div dec_one"
    using DTruncateInt_eq [OF assms(2)] by simp
  also have "\<dots> = x div (dec_one * dec_one)" by (rule zdiv_zmult2_eq [symmetric]) simp
  finally show ?thesis by simp
qed

section \<open>Arithmetic of the curve\<close>

text \<open>What a swap takes out, given the quotient \<open>q\<close> of the balances before and after.\<close>

lemma curve_out:
  fixes X Y n x t q b :: int
  assumes quo: "2 * (X * b * b ^ 2) < n * (2 * b * q + b + 2)" and n: "0 < n" "n \<le> x * b"
    and out: "t * b \<le> Y * (b - q)" and "0 < Y" "0 < b" "x * Y \<le> b" "0 \<le> q" "2 < b" "0 < x"
  shows "X * Y \<le> x * (Y - t)"
proof (rule ccontr)
  assume "\<not> X * Y \<le> x * (Y - t)"
  then have lt: "x * (Y - t) + 1 \<le> X * Y" by simp
  have "n * (2 * b * q + b + 2) \<le> x * b * (2 * b * q + b + 2)"
    using n assms(6,8) by (intro mult_right_mono) simp_all
  with quo have "b * (2 * (X * b ^ 2)) < b * (x * (2 * b * q + b + 2))"
    by (simp only: ac_simps)
  then have "2 * (X * b ^ 2) < x * (2 * b * q + b + 2)"
    using assms(6) by (simp only: mult_less_cancel_left_pos)
  then have "Y * (2 * (X * b ^ 2)) < Y * (x * (2 * b * q + b + 2))"
    using assms(5) by (simp only: mult_less_cancel_left_pos)
  also have "\<dots> = 2 * b * x * (Y * q) + (x * Y) * (b + 2)" by (simp only: algebra_simps)
  also have "2 * b * x * (Y * q) \<le> 2 * b * x * (Y * b - t * b)"
    using out assms(6,10) by (intro mult_left_mono) (simp_all add: algebra_simps)
  also have "(x * Y) * (b + 2) \<le> b * (b + 2)" using assms(6,7) by (intro mult_right_mono) simp_all
  finally have "2 * (X * Y) * b ^ 2 < 2 * (x * (Y - t)) * b ^ 2 + b * (b + 2)"
    by (simp add: algebra_simps power2_eq_square)
  moreover have "2 * (x * (Y - t) + 1) * b ^ 2 \<le> 2 * (X * Y) * b ^ 2"
    using lt by (intro mult_right_mono) simp_all
  ultimately have "2 * b ^ 2 < b * (b + 2)" by (simp add: algebra_simps)
  then have "b * (2 * b) < b * (b + 2)" by (simp add: power2_eq_square algebra_simps)
  then have "2 * b < b + 2" using assms(6) by (simp only: mult_less_cancel_left_pos)
  then show False using assms(9) by simp
qed

text \<open>What a swap asks for, given the quotient \<open>q\<close> of the other balance.\<close>

lemma curve_in:
  fixes X Y y i q b :: int
  assumes quo: "2 * (Y * b ^ 2) < y * (2 * b * q + b + 2)"
    and inn: "X * (q - b) \<le> i * b" and "0 < X" "0 < y" "2 < b" "X * y \<le> b"
  shows "X * Y \<le> (X + i) * y"
proof (rule ccontr)
  assume "\<not> X * Y \<le> (X + i) * y"
  then have lt: "(X + i) * y + 1 \<le> X * Y" by simp
  have "X * (2 * (Y * b ^ 2)) < X * (y * (2 * b * q + b + 2))"
    using quo assms(3) by (simp only: mult_less_cancel_left_pos)
  also have "\<dots> = 2 * b * y * (X * q) + (X * y) * (b + 2)" by (simp only: algebra_simps)
  also have "2 * b * y * (X * q) \<le> 2 * b * y * (i * b + X * b)"
    using inn assms(4,5) by (intro mult_left_mono) (simp_all add: algebra_simps)
  also have "(X * y) * (b + 2) \<le> b * (b + 2)" using assms(5,6) by (intro mult_right_mono) simp_all
  finally have "2 * (X * Y) * b ^ 2 < 2 * ((X + i) * y) * b ^ 2 + b * (b + 2)"
    by (simp add: algebra_simps power2_eq_square)
  moreover have "2 * ((X + i) * y + 1) * b ^ 2 \<le> 2 * (X * Y) * b ^ 2"
    using lt by (intro mult_right_mono) simp_all
  ultimately have "2 * b ^ 2 < b * (b + 2)" by (simp add: algebra_simps)
  then have "b * (2 * b) < b * (b + 2)" by (simp add: power2_eq_square algebra_simps)
  then have "2 * b < b + 2" using assms(5) by (simp only: mult_less_cancel_left_pos)
  then show False using assms(5) by simp
qed

end
