(* ===== verification/AmmTrade.thy ===== *)
theory AmmTrade
  imports AmmCurve
begin

text \<open>
  What the two quotes of a weighted pool (\<open>CalcOutAmtGivenIn\<close>, \<open>CalcInAmtGivenOut\<close>) do to the
  product of the balances, when the two assets have one weight.
\<close>

lemma solve_equal_weights:
  assumes "pow_laws W" "0 < w" "0 < fa" "BQuo (pe_big W) fb fa = Inr y" "0 < y"
  shows "solveConstantFunctionInvariant W fb fa w ub w = Inr (BMul (pe_big W) ub (big_one - y))"
  using assms Pow_one [OF assms(1,5)] BQuo_self [OF pow_lawsD(1) [OF assms(1)] assms(2)]
  by (simp add: solveConstantFunctionInvariant_def Let_def)

lemma BCeil_ge: "x \<le> BCeil x"
proof -
  have "big_one * (- x div big_one) + - x mod big_one = - x" by (rule mult_div_mod_eq)
  moreover have "0 \<le> - x mod big_one" by simp
  ultimately have "big_one * (- x div big_one) \<le> - x" by linarith
  then show ?thesis by (simp add: BCeil_def)
qed

text \<open>Both assets in a pool that is not an oracle pool: found, of one positive weight, with
  positive balances.\<close>

definition even_pair :: "amm_Pool \<Rightarrow> string \<Rightarrow> PoolAsset \<Rightarrow> string \<Rightarrow> PoolAsset \<Rightarrow> bool" where
  "even_pair p d a d' a' \<longleftrightarrow>
     \<not> pp_UseOracle (am_PoolParams p) \<and>
     GetPoolAssetByDenom (am_PoolAssets p) d = Some a \<and> GetPoolAssetByDenom (am_PoolAssets p) d' = Some a' \<and>
     pa_Weight a = pa_Weight a' \<and> 0 < pa_Weight a \<and> 0 < Amount (pa_Token a) \<and> 0 < Amount (pa_Token a')"

lemma even_pairD:
  assumes "even_pair p d a d' a'"
  shows "swap_assets E p snapshot [\<lparr>Denom = d, Amount = n\<rparr>] d' = Inr (\<lparr>Denom = d, Amount = n\<rparr>, a, a')"
    and "swap_weights E p a a' = Inr (BigDecFromSDKInt (pa_Weight a), BigDecFromSDKInt (pa_Weight a))"
    and "swap_weights E p a' a = Inr (BigDecFromSDKInt (pa_Weight a), BigDecFromSDKInt (pa_Weight a))"
    and "0 < BigDecFromSDKInt (pa_Weight a)"
  using assms
  by (simp_all add: even_pair_def swap_assets_def swap_weights_def parsePoolAssets_def
      ParsePoolAssetsByDenoms_def BigDecFromSDKInt_def)

lemma CalcOut_product:
  fixes n fee :: int
  assumes E: "pow_laws (ae_pow E)" "sdk_laws (ae_sdk E)" and pair: "even_pair p d a d' a'"
    and X: "X = Amount (pa_Token a)" and Y: "Y = Amount (pa_Token a')"
    and n: "0 \<le> n" "(X + n) * Y \<le> big_one" "0 \<le> fee" "fee \<le> big_one"
    and out: "CalcOutAmtGivenIn E p snapshot [\<lparr>Denom = d, Amount = n\<rparr>] d' fee = Inr (coin, sl, t)"
  shows "Denom coin = d' \<and> 0 < Amount coin \<and> X * Y \<le> (X + n) * (Y - Amount coin)"
proof -
  let ?B = "ae_big E" and ?D = "ae_dec E"
  note B = pow_lawsD(1) [OF E(1)] and D = pow_lawsD(2) [OF E(1)]
  have XY: "0 < X" "0 < Y" using pair by (simp_all add: even_pair_def X Y)
  define N where "N = X * big_one + n * (big_one - fee)"
  have "0 \<le> n * (big_one - fee)" "n * (big_one - fee) \<le> n * big_one"
    using n by (simp_all add: mult_left_mono)
  then have N: "X * big_one \<le> N" "N \<le> (X + n) * big_one" "0 < N"
    using XY by (simp_all add: N_def distrib_right)
  have "N \<noteq> 0" using N(3) by simp
  then obtain y where y: "BQuo ?B (X * big_one) N = Inr y" by (rule BQuo_Inr [OF B])
  have "0 \<le> X * big_one" using XY by simp
  note S = BQuo_sides [OF B this N(3) y]
  have x: "(X + n) \<le> big_one"
  proof -
    have "(X + n) * 1 \<le> (X + n) * Y" using XY n(1) by (intro mult_left_mono) simp_all
    then show ?thesis using n(2) by simp
  qed
  have "0 < y"
  proof (rule ccontr)
    assume "\<not> 0 < y"
    then have "N * (2 * big_one * y + big_one + 2) \<le> N * (big_one + 2)" using N(3) by (intro mult_left_mono) simp_all
    moreover have "N * (big_one + 2) \<le> big_one * big_one * (big_one + 2)"
    proof (rule mult_right_mono)
      show "N \<le> big_one * big_one" using N(2) x mult_right_mono [OF x, of big_one] by simp
    qed simp
    moreover have "2 * (1 * big_one * big_one ^ 2) \<le> 2 * (X * big_one * big_one ^ 2)" using XY by simp
    ultimately show False using S(1) by simp
  qed
  have "y \<le> big_one"
  proof (rule ccontr)
    assume "\<not> y \<le> big_one"
    then have "N * (2 * big_one * (big_one + 1)) \<le> N * (2 * big_one * y)" using N(3) by (intro mult_left_mono) simp_all
    also note S(2)
    also have "2 * (X * big_one * big_one ^ 2) \<le> N * (2 * big_one ^ 2)" using N(1) by simp
    finally have "N * (2 * big_one * (big_one + 1)) \<le> N * (2 * big_one ^ 2 + big_one)" by (simp add: distrib_left)
    then show False using N(3) by (simp only: mult_le_cancel_left_pos) simp
  qed
  have sol: "solveConstantFunctionInvariant (ae_pow E) (X * big_one) N (BigDecFromSDKInt (pa_Weight a))
      (BigDecFromSDKInt Y) (BigDecFromSDKInt (pa_Weight a)) = Inr (Y * (big_one - y))"
    using solve_equal_weights [OF E(1) even_pairD(4) [OF pair] N(3) y \<open>0 < y\<close>] BMul_int [OF B] by simp
  have after: "BigDecFromSDKInt X + BMul ?B (BigDecFromSDKInt n) (big_one - fee) = N"
    using BMul_int [OF B, of n "big_one - fee"] by (simp add: N_def BigDecFromSDKInt_def [of X])
  have "coin = \<lparr>Denom = d', Amount = DTruncateInt ?D (BDec ?B (Y * (big_one - y)))\<rparr>
     \<and> 0 < DTruncateInt ?D (BDec ?B (Y * (big_one - y)))"
    using out sol after
    by (auto simp: CalcOutAmtGivenIn_def Let_def even_pairD [OF pair] X [symmetric] Y [symmetric]
        BigDecFromSDKInt_def [of X] NewCoin_Inr [OF E(2)] split: if_splits)
  moreover have "0 \<le> Y * (big_one - y)" using XY \<open>y \<le> big_one\<close> by simp
  then have "DTruncateInt ?D (BDec ?B (Y * (big_one - y))) = Y * (big_one - y) div big_one"
    by (rule truncate_int [OF B D])
  ultimately have coin: "Denom coin = d'" "0 < Amount coin" "Amount coin = Y * (big_one - y) div big_one" by auto
  have "Amount coin * big_one \<le> Y * (big_one - y)"
    using mult_div_mod_eq [of big_one "Y * (big_one - y)"] by (simp add: coin(3))
  then have "X * Y \<le> (X + n) * (Y - Amount coin)"
    by (intro curve_out [OF S(1) N(3,2)]) (use XY n \<open>0 < y\<close> in simp_all)
  then show ?thesis using coin by simp
qed

lemma CalcIn_product:
  fixes n fee :: int
  assumes E: "pow_laws (ae_pow E)" "sdk_laws (ae_sdk E)" and pair: "even_pair p d a d' a'"
    and Y: "Y = Amount (pa_Token a)" and X: "X = Amount (pa_Token a')"
    and n: "0 < n" "n < Y" "X * Y \<le> big_one" "0 \<le> fee"
    and inn: "CalcInAmtGivenOut E p snapshot [\<lparr>Denom = d, Amount = n\<rparr>] d' fee = Inr (coin, sl, t)"
  shows "Denom coin = d' \<and> 0 < Amount coin \<and> X * Y \<le> (X + Amount coin) * (Y - n)"
proof -
  let ?B = "ae_big E" and ?D = "ae_dec E"
  note B = pow_lawsD(1) [OF E(1)] and D = pow_lawsD(2) [OF E(1)]
  have XY: "0 < X" "0 < Y" using pair by (simp_all add: even_pair_def X Y)
  define N where "N = (Y - n) * big_one"
  have N: "0 < N" using n by (simp add: N_def)
  then have "N \<noteq> 0" by simp
  then obtain q where q: "BQuo ?B (Y * big_one) N = Inr q" by (rule BQuo_Inr [OF B])
  have "0 \<le> Y * big_one" using XY by simp
  note S = BQuo_sides [OF B this N q]
  have quo: "2 * (Y * big_one ^ 2) < (Y - n) * (2 * big_one * q + big_one + 2)"
    using S(1) unfolding N_def by (simp only: ac_simps)
  have "big_one < q + 1"
  proof (rule ccontr)
    assume "\<not> big_one < q + 1"
    then have "(Y - n) * (2 * big_one * q + big_one + 2) \<le> (Y - n) * (2 * big_one * (big_one - 1) + big_one + 2)"
      using n by (intro mult_left_mono) simp_all
    also have "\<dots> \<le> Y * (2 * big_one * (big_one - 1) + big_one + 2)" using n XY by (intro mult_right_mono) simp_all
    also have "\<dots> \<le> Y * (2 * big_one ^ 2)" using XY by (intro mult_left_mono) simp_all
    finally show False using quo by simp
  qed
  then have q1: "big_one \<le> q" by simp
  define T where "T = X * (q - big_one)"
  have T: "0 \<le> T" using XY q1 by (simp add: T_def)
  have qpos: "0 < q" using q1 by simp
  have sol: "solveConstantFunctionInvariant (ae_pow E) (Y * big_one) N (BigDecFromSDKInt (pa_Weight a))
      (BigDecFromSDKInt X) (BigDecFromSDKInt (pa_Weight a)) = Inr (- T)"
    using solve_equal_weights [OF E(1) even_pairD(4) [OF pair] N q qpos] BMul_int [OF B, of X "big_one - q"]
    by (simp add: T_def algebra_simps)
  have after: "BigDecFromSDKInt Y - BigDecFromSDKInt n = N" by (simp add: N_def BigDecFromSDKInt_def algebra_simps)
  obtain g where g: "fee < big_one" "BQuo ?B T (big_one - fee) = Inr g"
    "0 < DTruncateInt ?D (BDec ?B (BCeil g))" "coin = \<lparr>Denom = d', Amount = DTruncateInt ?D (BDec ?B (BCeil g))\<rparr>"
    using inn sol after
    by (auto simp: CalcInAmtGivenOut_def Let_def even_pairD [OF pair] X [symmetric] Y [symmetric]
        BigDecFromSDKInt_def [of Y] NewCoin_Inr [OF E(2)] split: if_splits)
  have "T \<le> g"
  proof (rule ccontr)
    assume "\<not> T \<le> g"
    have fee: "0 < big_one - fee" using g(1) by simp
    have "2 * (T * big_one ^ 2) < (big_one - fee) * (2 * big_one * g + big_one + 2)"
      by (rule BQuo_sides(1) [OF B T fee g(2)])
    also have "\<dots> \<le> (big_one - fee) * (2 * big_one * (T - 1) + big_one + 2)"
      using fee \<open>\<not> T \<le> g\<close> by (intro mult_left_mono) simp_all
    also have "\<dots> \<le> (big_one - fee) * (2 * big_one * T)" using g(1) by (intro mult_left_mono) simp_all
    also have "\<dots> \<le> big_one * (2 * big_one * T)" using n(4) T by (intro mult_right_mono) simp_all
    finally show False by simp
  qed
  note ceil = BCeil_ge [of g]
  have "0 \<le> BCeil g" using ceil \<open>T \<le> g\<close> T by simp
  then have "DTruncateInt ?D (BDec ?B (BCeil g)) = BCeil g div big_one" by (rule truncate_int [OF B D])
  then have "Amount coin * big_one = BCeil g" by (simp add: g(4) BCeil_def)
  then have "X * (q - big_one) \<le> Amount coin * big_one" using ceil \<open>T \<le> g\<close> by (simp add: T_def)
  moreover have "X * (Y - n) \<le> X * Y" using n XY by (intro mult_left_mono) simp_all
  then have "X * (Y - n) \<le> big_one" using n(3) by (rule order.trans)
  ultimately have "X * Y \<le> (X + Amount coin) * (Y - n)"
    by (intro curve_in [OF quo]) (use XY n in simp_all)
  then show ?thesis using g by simp
qed

end
