(* ===== verification/AmmBook.thy ===== *)
theory AmmBook
  imports AmmTrade
begin

text \<open>
  A pool read as the function from denominations to balances, and what the operations that move
  liquidity do to that function.
\<close>

section \<open>Lists read as maps\<close>

lemma map_of_list_update:
  "i < length xs \<Longrightarrow> distinct (map fst xs) \<Longrightarrow> fst kv = fst (xs ! i) \<Longrightarrow>
     map_of (xs[i := kv]) = (map_of xs)(fst kv \<mapsto> snd kv)"
proof (induction xs arbitrary: i)
  case (Cons x xs)
  show ?case
  proof (cases i)
    case 0
    then show ?thesis using Cons.prems by (cases kv) auto
  next
    case (Suc j)
    then have "fst x \<noteq> fst kv" using Cons.prems nth_mem [of j xs] by force
    moreover have "map_of (xs[j := kv]) = (map_of xs)(fst kv \<mapsto> snd kv)"
      by (rule Cons.IH) (use Cons.prems Suc in simp_all)
    ultimately show ?thesis using Suc by (cases x) (auto simp: fun_eq_iff)
  qed
qed simp

definition assets_map :: "PoolAsset list \<Rightarrow> string \<Rightarrow> PoolAsset option" where
  "assets_map as = map_of (map (\<lambda>a. (Denom (pa_Token a), a)) as)"

lemma GetPoolAssetByDenom_map: "GetPoolAssetByDenom as d = assets_map as d"
  by (induction as) (auto simp: GetPoolAssetByDenom_def assets_map_def)

lemma assets_map_None: "assets_map as d = None \<longleftrightarrow> d \<notin> Denom ` set (map pa_Token as)"
  by (induction as) (auto simp: assets_map_def)

definition pool_amt :: "amm_Pool \<Rightarrow> string \<Rightarrow> int" where
  "pool_amt p d = (case GetPoolAssetByDenom (am_PoolAssets p) d of None \<Rightarrow> 0 | Some a \<Rightarrow> Amount (pa_Token a))"

lemma pool_sorted_distinct: "pool_sorted p \<Longrightarrow> distinct (map fst (map (\<lambda>a. (Denom (pa_Token a), a)) (am_PoolAssets p)))"
  by (simp add: pool_sorted_def denoms_of_assets_def strict_sorted_iff o_def)

lemma assets_map_mem: "assets_map as d = Some a \<Longrightarrow> a \<in> set as \<and> Denom (pa_Token a) = d"
  by (induction as) (auto simp: assets_map_def split: if_splits)

lemma assets_map_nth:
  "pool_sorted p \<Longrightarrow> i < length (am_PoolAssets p) \<Longrightarrow>
     assets_map (am_PoolAssets p) (Denom (pa_Token (am_PoolAssets p ! i))) = Some (am_PoolAssets p ! i)"
  unfolding assets_map_def using pool_sorted_distinct [of p] by (intro map_of_is_SomeI) auto

text \<open>The two ways of finding an asset agree on a sorted pool.\<close>

lemma search_is_lookup:
  assumes "pool_sorted p" "d \<noteq> []"
  shows "map_sum (\<lambda>e. ()) snd (GetPoolAssetAndIndex p d) =
     (case GetPoolAssetByDenom (am_PoolAssets p) d of None \<Rightarrow> Inl () | Some a \<Rightarrow> Inr a)"
proof (cases "assets_map (am_PoolAssets p) d")
  case None
  then have "d \<notin> set (denoms_of_assets (am_PoolAssets p))"
    unfolding assets_map_None by (simp add: denoms_of_assets_def image_image)
  then show ?thesis using None asset_search_none assms(2) by (simp add: GetPoolAssetByDenom_map)
next
  case (Some a)
  then obtain i where i: "i < length (am_PoolAssets p)" "am_PoolAssets p ! i = a" "Denom (pa_Token a) = d"
    using assets_map_mem [OF Some] by (auto simp: in_set_conv_nth)
  then show ?thesis using asset_search [OF assms(1) i(1)] Some by (simp add: GetPoolAssetByDenom_map)
qed

lemma asset_search_denom: "GetPoolAssetAndIndex p d = Inr (i, a) \<Longrightarrow> Denom (pa_Token a) = d"
  using asset_search_Inr by blast

section \<open>Setting one balance\<close>

definition set_asset :: "nat \<Rightarrow> PoolAsset \<Rightarrow> amm_Pool \<Rightarrow> amm_Pool" where
  "set_asset i a p = p\<lparr>am_PoolAssets := (am_PoolAssets p)[i := a]\<rparr>"

lemma set_asset_facts:
  assumes "pool_sorted p" "GetPoolAssetAndIndex p d = Inr (i, a)" "Denom (pa_Token a') = d"
  shows "pool_sorted (set_asset i a' p)"
    and "pool_amt (set_asset i a' p) d' = (if d' = d then Amount (pa_Token a') else pool_amt p d')"
    and "denoms_of_assets (am_PoolAssets (set_asset i a' p)) = denoms_of_assets (am_PoolAssets p)"
    and "am_TotalShares (set_asset i a' p) = am_TotalShares p"
    and "pool_amt p d = Amount (pa_Token a)"
    and "assets_map (am_PoolAssets (set_asset i a' p)) = (assets_map (am_PoolAssets p))(d \<mapsto> a')"
    and "assets_map (am_PoolAssets p) d = Some a"
proof -
  note i = asset_search_Inr [OF assms(2)]
  show D: "denoms_of_assets (am_PoolAssets (set_asset i a' p)) = denoms_of_assets (am_PoolAssets p)"
    using i assms(3) by (simp add: set_asset_def denoms_of_assets_def map_update)
      (metis list_update_id length_map nth_map)
  then show "pool_sorted (set_asset i a' p)" using assms(1) by (simp add: pool_sorted_def)
  have M: "assets_map ((am_PoolAssets p)[i := a']) = (assets_map (am_PoolAssets p))(d \<mapsto> a')"
    using map_of_list_update [OF _ pool_sorted_distinct [OF assms(1)], of i "(d, a')"] i assms(3)
    by (auto simp: assets_map_def map_update)
  then show "assets_map (am_PoolAssets (set_asset i a' p)) = (assets_map (am_PoolAssets p))(d \<mapsto> a')"
    by (simp add: set_asset_def)
  show "assets_map (am_PoolAssets p) d = Some a" using assets_map_nth [OF assms(1), of i] i by auto
  from M show "pool_amt (set_asset i a' p) d' = (if d' = d then Amount (pa_Token a') else pool_amt p d')"
    by (simp add: pool_amt_def set_asset_def GetPoolAssetByDenom_map)
  show "am_TotalShares (set_asset i a' p) = am_TotalShares p" by (simp add: set_asset_def)
  show "pool_amt p d = Amount (pa_Token a)"
    using assets_map_nth [OF assms(1), of i] i by (auto simp: pool_amt_def GetPoolAssetByDenom_map)
qed

text \<open>Adding and taking out one coin.\<close>

lemma add_one_coin:
  assumes "pool_sorted p" "addToPoolAssetBalances p [c] = Inr p'" "assets_map (am_PoolAssets p) (Denom c) = Some a"
  shows "assets_map (am_PoolAssets p') =
      (assets_map (am_PoolAssets p))(Denom c \<mapsto> set_asset_amount (Amount (pa_Token a) + Amount c) a)"
    and "pool_sorted p'" "am_PoolParams p' = am_PoolParams p"
proof -
  obtain i b where ib: "GetPoolAssetAndIndex p (Denom c) = Inr (i, b)"
    "p' = set_asset i (set_asset_amount (Amount (pa_Token b) + Amount c) b) p"
    using assms(2) by (auto simp: set_asset_def)
  have "Denom (pa_Token (set_asset_amount (Amount (pa_Token b) + Amount c) b)) = Denom c"
    using asset_search_denom [OF ib(1)] by simp
  note F = set_asset_facts [OF assms(1) ib(1) this, folded ib(2)]
  have "b = a" using F(7) assms(3) by simp
  then show "assets_map (am_PoolAssets p') =
      (assets_map (am_PoolAssets p))(Denom c \<mapsto> set_asset_amount (Amount (pa_Token a) + Amount c) a)"
    using F(6) by simp
  show "pool_sorted p'" by (rule F(1))
  show "am_PoolParams p' = am_PoolParams p" by (simp add: ib(2) set_asset_def)
qed

lemma take_one_coin:
  assumes "pool_sorted p" "subtractFromPoolAssetBalances p [c] = Inr p'" "assets_map (am_PoolAssets p) (Denom c) = Some a"
  shows "assets_map (am_PoolAssets p') =
      (assets_map (am_PoolAssets p))(Denom c \<mapsto> set_asset_amount (Amount (pa_Token a) - Amount c) a)"
    and "pool_sorted p'" "am_PoolParams p' = am_PoolParams p"
proof -
  obtain i b where ib: "GetPoolAssetAndIndex p (Denom c) = Inr (i, b)"
    "p' = set_asset i (set_asset_amount (Amount (pa_Token b) - Amount c) b) p"
    using assms(2) by (auto simp: set_asset_def Let_def split: if_splits)
  have "Denom (pa_Token (set_asset_amount (Amount (pa_Token b) - Amount c) b)) = Denom c"
    using asset_search_denom [OF ib(1)] by simp
  note F = set_asset_facts [OF assms(1) ib(1) this, folded ib(2)]
  have "b = a" using F(7) assms(3) by simp
  then show "assets_map (am_PoolAssets p') =
      (assets_map (am_PoolAssets p))(Denom c \<mapsto> set_asset_amount (Amount (pa_Token a) - Amount c) a)"
    using F(6) by simp
  show "pool_sorted p'" by (rule F(1))
  show "am_PoolParams p' = am_PoolParams p" by (simp add: ib(2) set_asset_def)
qed

text \<open>What a list of coins holds of a denomination.\<close>

definition coin_sum :: "coins \<Rightarrow> string \<Rightarrow> int" where
  "coin_sum cs d = sum_list (map (\<lambda>c. if Denom c = d then Amount c else 0) cs)"

lemma coin_sum_simps [simp]:
  "coin_sum [] d = 0" "coin_sum (c # cs) d = (if Denom c = d then Amount c else 0) + coin_sum cs d"
  by (simp_all add: coin_sum_def)

lemma coin_sum_notin: "d \<notin> Denom ` set cs \<Longrightarrow> coin_sum cs d = 0"
  by (induction cs) auto

lemma coin_sum_mem: "distinct (map Denom cs) \<Longrightarrow> c \<in> set cs \<Longrightarrow> coin_sum cs (Denom c) = Amount c"
  by (induction cs) (auto simp: coin_sum_notin image_iff)

lemma coin_sum_AmountOf: "sdk_laws S \<Longrightarrow> coins_ok S cs \<Longrightarrow> coin_sum cs d = AmountOf S cs d"
  by (cases "d \<in> Denom ` set cs") (auto simp: coin_sum_notin coin_sum_mem coins_ok_list)

section \<open>Adding and subtracting liquidity\<close>

text \<open>A pool as an operation leaves it: the same assets in the same order, the shares of the
  pool before.\<close>

definition same_frame :: "amm_Pool \<Rightarrow> amm_Pool \<Rightarrow> bool" where
  "same_frame p p' \<longleftrightarrow> pool_sorted p' \<and> am_TotalShares p' = am_TotalShares p \<and>
     denoms_of_assets (am_PoolAssets p') = denoms_of_assets (am_PoolAssets p)"

lemma addTo_book:
  "addToPoolAssetBalances p cs = Inr p' \<Longrightarrow> pool_sorted p \<Longrightarrow>
     same_frame p p' \<and> (\<forall>d. pool_amt p' d = pool_amt p d + coin_sum cs d)"
proof (induction p cs rule: addToPoolAssetBalances.induct)
  case (1 p)
  then show ?case by (simp add: same_frame_def)
next
  case (2 p coin cs)
  obtain i a where ia: "GetPoolAssetAndIndex p (Denom coin) = Inr (i, a)" using 2(2) by auto
  define a' where "a' = set_asset_amount (Amount (pa_Token a) + Amount coin) a"
  have rest: "addToPoolAssetBalances (set_asset i a' p) cs = Inr p'"
    using 2(2) ia by (simp add: set_asset_def a'_def)
  have "Denom (pa_Token a') = Denom coin" using asset_search_denom [OF ia] by (simp add: a'_def)
  note F = set_asset_facts [OF 2(3) ia this]
  have "same_frame (set_asset i a' p) p' \<and> (\<forall>d. pool_amt p' d = pool_amt (set_asset i a' p) d + coin_sum cs d)"
    using 2(1) [OF ia refl a'_def] rest F(1) by (simp add: set_asset_def)
  then show ?case using F by (auto simp: same_frame_def a'_def)
qed

lemma subtractFrom_book:
  "subtractFromPoolAssetBalances p cs = Inr p' \<Longrightarrow> pool_sorted p \<Longrightarrow>
     same_frame p p' \<and> (\<forall>d. pool_amt p' d = pool_amt p d - coin_sum cs d)"
proof (induction p cs rule: subtractFromPoolAssetBalances.induct)
  case (1 p)
  then show ?case by (simp add: same_frame_def)
next
  case (2 p coin cs)
  obtain i a where ia: "GetPoolAssetAndIndex p (Denom coin) = Inr (i, a)" using 2(2) by auto
  define a' where "a' = set_asset_amount (Amount (pa_Token a) - Amount coin) a"
  have nn: "\<not> Amount (pa_Token a') < 0" and rest: "subtractFromPoolAssetBalances (set_asset i a' p) cs = Inr p'"
    using 2(2) ia by (simp_all add: set_asset_def a'_def Let_def split: if_splits)
  have "Denom (pa_Token a') = Denom coin" using asset_search_denom [OF ia] by (simp add: a'_def)
  note F = set_asset_facts [OF 2(3) ia this]
  have "same_frame (set_asset i a' p) p' \<and> (\<forall>d. pool_amt p' d = pool_amt (set_asset i a' p) d - coin_sum cs d)"
    using 2(1) [OF ia refl a'_def nn] rest F(1) by (simp add: set_asset_def)
  then show ?case using F by (auto simp: same_frame_def a'_def)
qed

lemma update_book:
  "update_balances cs p = Inr p' \<Longrightarrow> pool_sorted p \<Longrightarrow> distinct (map Denom cs) \<Longrightarrow>
     same_frame p p' \<and> (\<forall>d. pool_amt p' d = (if d \<in> Denom ` set cs then coin_sum cs d else pool_amt p d))"
proof (induction cs p rule: update_balances.induct)
  case (1 p)
  then show ?case by (simp add: same_frame_def)
next
  case (2 coin cs p)
  obtain p1 where p1: "UpdatePoolAssetBalance coin p = Inr p1" "update_balances cs p1 = Inr p'" using 2(2) by auto
  then obtain i a where ia: "GetPoolAssetAndIndex p (Denom coin) = Inr (i, a)"
    and p1_eq: "p1 = set_asset i (a\<lparr>pa_Token := coin\<rparr>) p"
    by (auto simp: UpdatePoolAssetBalance_def set_asset_def split: if_splits)
  have "Denom (pa_Token (a\<lparr>pa_Token := coin\<rparr>)) = Denom coin" by simp
  note F = set_asset_facts [OF 2(3) ia this, folded p1_eq]
  have "same_frame p1 p' \<and> (\<forall>d. pool_amt p' d = (if d \<in> Denom ` set cs then coin_sum cs d else pool_amt p1 d))"
    using 2 p1 F(1) by simp
  moreover have "coin_sum cs (Denom coin) = 0" using 2(4) by (intro coin_sum_notin) auto
  ultimately show ?case using F 2(4) by (auto simp: same_frame_def)
qed

section \<open>The interface of a book of balances\<close>

text \<open>
  What a caller relies on when it adds coins to a book of balances and takes coins out: each
  balance moves by the coins' amount, and the book stays well formed.
\<close>

locale balance_book =
  fixes amt :: "'s \<Rightarrow> string \<Rightarrow> int"
    and ok :: "'s \<Rightarrow> bool"
    and add :: "'s \<Rightarrow> coins \<Rightarrow> 's result"
    and sub :: "'s \<Rightarrow> coins \<Rightarrow> 's result"
  assumes add_amt: "ok s \<Longrightarrow> add s cs = Inr t \<Longrightarrow> ok t \<and> (\<forall>d. amt t d = amt s d + coin_sum cs d)"
    and sub_amt: "ok s \<Longrightarrow> sub s cs = Inr t \<Longrightarrow> ok t \<and> (\<forall>d. amt t d = amt s d - coin_sum cs d)"
begin

lemma add_then_sub: "ok s \<Longrightarrow> add s cs = Inr t \<Longrightarrow> sub t cs' = Inr u \<Longrightarrow>
    ok u \<and> (\<forall>d. amt u d = amt s d + coin_sum cs d - coin_sum cs' d)"
  using add_amt [of s cs t] sub_amt [of t cs' u] by simp

lemma add_sub_same: "ok s \<Longrightarrow> add s cs = Inr t \<Longrightarrow> sub t cs = Inr u \<Longrightarrow> amt u = amt s"
  using add_then_sub [of s cs t cs u] by (simp add: fun_eq_iff)

lemma sub_add_same: "ok s \<Longrightarrow> sub s cs = Inr t \<Longrightarrow> add t cs = Inr u \<Longrightarrow> amt u = amt s"
  using sub_amt [of s cs t] add_amt [of t cs u] by (simp add: fun_eq_iff)

end

interpretation pool_book: balance_book pool_amt pool_sorted addToPoolAssetBalances subtractFromPoolAssetBalances
  by unfold_locales (use addTo_book subtractFrom_book in \<open>auto simp: same_frame_def\<close>)

section \<open>The pool's liquidity as coins\<close>

definition pool_funds_ok :: "sdk \<Rightarrow> amm_Pool \<Rightarrow> bool" where
  "pool_funds_ok S p \<longleftrightarrow> pool_sorted p \<and>
     (\<forall>a\<in>set (am_PoolAssets p). denom_ok S (Denom (pa_Token a)) \<and> 0 \<le> Amount (pa_Token a))"

lemma liquidity_fold:
  assumes "sdk_laws S"
  shows "(\<forall>a\<in>set as. denom_ok S (Denom (pa_Token a)) \<and> 0 \<le> Amount (pa_Token a)) \<Longrightarrow> coins_ok S cs \<Longrightarrow>
     coins_ok S (fold (\<lambda>asset coins. CoinsAdd S coins [pa_Token asset]) as cs) \<and>
     AmountOf S (fold (\<lambda>asset coins. CoinsAdd S coins [pa_Token asset]) as cs) d
       = AmountOf S cs d + coin_sum (map pa_Token as) d"
proof (induction as arbitrary: cs)
  case (Cons a as)
  have t: "pa_Token a = \<lparr>Denom = Denom (pa_Token a), Amount = Amount (pa_Token a)\<rparr>" by simp
  have ok: "coins_ok S (CoinsAdd S cs [pa_Token a])"
    and amt: "AmountOf S (CoinsAdd S cs [pa_Token a]) d =
       AmountOf S cs d + (if d = Denom (pa_Token a) then Amount (pa_Token a) else 0)"
    using Cons.prems coins_ok_add1 [OF assms, of cs "Denom (pa_Token a)" "Amount (pa_Token a)"]
      AmountOf_add1 [OF assms, of cs "Denom (pa_Token a)" "Amount (pa_Token a)" d] t by simp_all
  have "coins_ok S (fold (\<lambda>asset coins. CoinsAdd S coins [pa_Token asset]) as (CoinsAdd S cs [pa_Token a])) \<and>
     AmountOf S (fold (\<lambda>asset coins. CoinsAdd S coins [pa_Token asset]) as (CoinsAdd S cs [pa_Token a])) d
       = AmountOf S (CoinsAdd S cs [pa_Token a]) d + coin_sum (map pa_Token as) d"
    using Cons.prems ok by (intro Cons.IH) simp_all
  then show ?case using amt by auto
qed simp

lemma pool_amt_coin_sum: "pool_sorted p \<Longrightarrow> pool_amt p d = coin_sum (map pa_Token (am_PoolAssets p)) d"
proof (cases "assets_map (am_PoolAssets p) d")
  case None
  then have "d \<notin> Denom ` set (map pa_Token (am_PoolAssets p))"
    unfolding assets_map_None .
  then show ?thesis using None by (simp add: pool_amt_def GetPoolAssetByDenom_map coin_sum_notin del: set_map)
next
  case (Some a)
  assume "pool_sorted p"
  then have "distinct (map Denom (map pa_Token (am_PoolAssets p)))"
    using pool_sorted_distinct [of p] by (simp add: o_def)
  moreover have "pa_Token a \<in> set (map pa_Token (am_PoolAssets p))" "Denom (pa_Token a) = d"
    using assets_map_mem [OF Some] by auto
  ultimately have "coin_sum (map pa_Token (am_PoolAssets p)) d = Amount (pa_Token a)"
    using coin_sum_mem by metis
  then show ?thesis using Some by (simp add: pool_amt_def GetPoolAssetByDenom_map)
qed

lemma liquidity_book:
  assumes "sdk_laws S" "pool_funds_ok S p"
  shows "coins_ok S (GetTotalPoolLiquidity S p)" "AmountOf S (GetTotalPoolLiquidity S p) d = pool_amt p d"
  using liquidity_fold [OF assms(1), of "am_PoolAssets p" "[]" d] assms
  by (simp_all add: pool_funds_ok_def GetTotalPoolLiquidity_def poolAssetsCoins_def coins_ok_Nil AmountOf_Nil
      pool_amt_coin_sum)

end
