(* ===== verification/AmmShares.thy ===== *)
theory AmmShares
  imports AmmBook
begin

text \<open>
  Joining with every asset and leaving with every asset: the amounts against the shares.
\<close>

section \<open>The ratio of shares\<close>

lemma ratio_sides:
  assumes "bigdec_laws B" "0 \<le> s" "0 < S" "BQuo B (BigDecFromSDKInt s) (BigDecFromSDKInt S) = Inr r"
  shows "2 * (S * r) \<le> 2 * (s * big_one) + S" "0 \<le> r"
proof -
  have s: "0 \<le> BigDecFromSDKInt s" and S: "0 < BigDecFromSDKInt S"
    using assms(2,3) by (simp_all add: BigDecFromSDKInt_def)
  note Q = BQuo_sides [OF assms(1) s S assms(4)]
  have "big_one ^ 2 * (2 * (S * r)) \<le> big_one ^ 2 * (2 * (s * big_one) + S)"
    using Q(2) by (simp add: BigDecFromSDKInt_def power2_eq_square algebra_simps)
  moreover have "(0 :: int) < big_one ^ 2" by simp
  ultimately show "2 * (S * r) \<le> 2 * (s * big_one) + S" by (rule mult_left_le_imp_le)
  show "0 \<le> r"
  proof (rule ccontr)
    assume "\<not> 0 \<le> r"
    then have "BigDecFromSDKInt S * (2 * big_one * r + big_one + 2) \<le> 0"
      using S by (intro mult_nonneg_nonpos) simp_all
    moreover have "0 \<le> 2 * (BigDecFromSDKInt s * big_one ^ 2)" using s by simp
    ultimately show False using Q(1) by linarith
  qed
qed

text \<open>The part of a balance that a ratio gives is at most the shares' part of it.\<close>

lemma exit_part:
  assumes "bigdec_laws B" "0 \<le> s" "0 < S" "BQuo B (BigDecFromSDKInt s) (BigDecFromSDKInt S) = Inr r"
    and "0 \<le> A" "A * S \<le> big_one"
  shows "A * r div big_one * S \<le> A * s"
proof (rule ccontr)
  note R = ratio_sides [OF assms(1-4)]
  assume "\<not> A * r div big_one * S \<le> A * s"
  then have "A * s + 1 \<le> A * r div big_one * S" by simp
  then have "2 * big_one * (A * s + 1) \<le> 2 * big_one * (A * r div big_one * S)" by (intro mult_left_mono) simp_all
  also have "\<dots> = 2 * S * (A * r div big_one * big_one)" by (simp only: ac_simps)
  also have "\<dots> \<le> 2 * S * (A * r)"
    using assms(3) mult_div_mod_eq [of big_one "A * r"] by (intro mult_left_mono) (simp_all add: mult.commute)
  also have "\<dots> = A * (2 * (S * r))" by (simp only: ac_simps)
  also have "\<dots> \<le> A * (2 * (s * big_one) + S)" using R(1) assms(5) by (intro mult_left_mono) simp_all
  also have "\<dots> = 2 * big_one * (A * s) + A * S" by (simp add: algebra_simps)
  finally show False using assms(6) by simp
qed

section \<open>Leaving with every asset\<close>

definition part_of :: "int \<Rightarrow> PoolAsset \<Rightarrow> coin" where
  "part_of r a = \<lparr>Denom = Denom (pa_Token a), Amount = r * Amount (pa_Token a) div big_one\<rparr>"

lemma part_sum:
  "distinct (map (\<lambda>a. Denom (pa_Token a)) as) \<Longrightarrow>
     coin_sum (map (part_of r) as) d = r * coin_sum (map pa_Token as) d div big_one"
proof (induction as)
  case (Cons a as)
  show ?case
  proof (cases "Denom (pa_Token a) = d")
    case True
    then have "coin_sum (map pa_Token as) d = 0" "coin_sum (map (part_of r) as) d = 0"
      using Cons.prems by (intro coin_sum_notin; force simp: part_of_def)+
    moreover have "Denom (part_of r a) = d" using True by (simp add: part_of_def)
    ultimately show ?thesis using True by (simp add: part_of_def [of r a])
  next
    case False
    then have "Denom (part_of r a) \<noteq> d" by (simp add: part_of_def)
    then show ?thesis using Cons False by simp
  qed
qed simp

lemma exit_coins_book:
  assumes "sdk_laws (ae_sdk E)" "bigdec_laws (ae_big E)" "dec_laws (ae_dec E)" "0 \<le> r"
  shows "exit_coins E liq r as acc = Inr cs \<Longrightarrow> coins_ok (ae_sdk E) acc \<Longrightarrow>
     \<forall>a\<in>set as. denom_ok (ae_sdk E) (Denom (pa_Token a)) \<and> 0 \<le> Amount (pa_Token a) \<Longrightarrow>
     coins_ok (ae_sdk E) cs \<and> AmountOf (ae_sdk E) cs d = AmountOf (ae_sdk E) acc d + coin_sum (map (part_of r) as) d \<and>
     (\<forall>a\<in>set as. 0 < Amount (part_of r a) \<longrightarrow>
        \<not> list_ex (\<lambda>c. Denom c = Denom (pa_Token a) \<and> Amount (part_of r a) \<ge> Amount c) liq)"
proof (induction as arbitrary: acc)
  case (Cons a as)
  let ?S = "ae_sdk E"
  define e where "e = Amount (part_of r a)"
  have "0 \<le> r * Amount (pa_Token a)" using Cons.prems assms(4) by simp
  then have e: "DTruncateInt (ae_dec E) (BDec (ae_big E) (BMul (ae_big E) r (BigDecFromSDKInt (Amount (pa_Token a))))) = e"
    and e0: "0 \<le> e"
    using truncate_int [OF assms(2,3)] by (simp_all add: BMul_int_right [OF assms(2)] e_def part_of_def mult.commute)
  have part: "part_of r a = \<lparr>Denom = Denom (pa_Token a), Amount = e\<rparr>" by (simp add: part_of_def e_def)
  show ?case
  proof (cases "e \<le> 0")
    case True
    then have "exit_coins E liq r as acc = Inr cs" using Cons.prems(1) e by simp
    then show ?thesis using Cons.IH [of acc] Cons.prems e0 True by (auto simp: part)
  next
    case False
    let ?acc = "CoinsAdd ?S acc [\<lparr>Denom = Denom (pa_Token a), Amount = e\<rparr>]"
    have ok: "denom_ok ?S (Denom (pa_Token a))" using Cons.prems by simp
    have "exit_coins E liq r as ?acc = Inr cs"
      and g: "\<not> list_ex (\<lambda>c. Denom c = Denom (pa_Token a) \<and> e \<ge> Amount c) liq"
      using Cons.prems(1) False ok by (simp_all add: e Let_def NewCoin_eq [OF assms(1)] split: if_splits)
    then show ?thesis
      using Cons.IH [of ?acc] Cons.prems ok e0 assms(1)
      by (auto simp: part coins_ok_add1 AmountOf_add1)
  qed
qed simp

text \<open>What a pro-rata exit pays of an asset, and that it leaves some of every asset it pays.\<close>

lemma CalcExitPool_book:
  assumes E: "sdk_laws (ae_sdk E)" "bigdec_laws (ae_big E)" "dec_laws (ae_dec E)"
    and pools: "pool_funds_ok (ae_sdk E) p" "pool_funds_ok (ae_sdk E) snap"
    and kind: "\<not> (pp_UseOracle (am_PoolParams p) \<and> out \<noteq> [])" and s: "0 \<le> s"
    and exit: "CalcExitPool E p snap s out params taker fee = Inr q"
  obtains r where "s < Amount (am_TotalShares p)"
    "BQuo (ae_big E) (BigDecFromSDKInt s) (BigDecFromSDKInt (Amount (am_TotalShares p))) = Inr r"
    "coins_ok (ae_sdk E) (eq_Coins q)"
    "\<And>d. AmountOf (ae_sdk E) (eq_Coins q) d = pool_amt snap d * r div big_one"
    "\<And>d. 0 < AmountOf (ae_sdk E) (eq_Coins q) d \<Longrightarrow> 0 < pool_amt p d \<Longrightarrow>
       AmountOf (ae_sdk E) (eq_Coins q) d < pool_amt p d"
proof -
  let ?S = "ae_sdk E"
  have lt: "s < Amount (am_TotalShares p)" using exit by (simp add: CalcExitPool_def Let_def split: if_splits)
  obtain r where r: "BQuo (ae_big E) (BigDecFromSDKInt s) (BigDecFromSDKInt (Amount (am_TotalShares p))) = Inr r"
    and cs: "exit_coins E (GetTotalPoolLiquidity ?S p) r (am_PoolAssets snap) [] = Inr (eq_Coins q)"
    using exit lt kind by (auto simp: CalcExitPool_def Let_def split: if_splits)
  have S0: "0 < Amount (am_TotalShares p)" using lt s by simp
  note R = ratio_sides [OF E(2) s S0 r]
  have assets: "\<forall>a\<in>set (am_PoolAssets snap). denom_ok ?S (Denom (pa_Token a)) \<and> 0 \<le> Amount (pa_Token a)"
    using pools(2) by (simp add: pool_funds_ok_def)
  note book = exit_coins_book [OF E(1-3) R(2) cs coins_ok_Nil [OF E(1)] assets]
  have sorted: "pool_sorted snap" using pools(2) by (simp add: pool_funds_ok_def)
  have amt: "AmountOf ?S (eq_Coins q) d = pool_amt snap d * r div big_one" for d
    using book [of d] pool_sorted_distinct [OF sorted]
    by (simp add: AmountOf_Nil [OF E(1)] part_sum o_def pool_amt_coin_sum [OF sorted] mult.commute)
  have less: "AmountOf ?S (eq_Coins q) d < pool_amt p d"
    if pos: "0 < AmountOf ?S (eq_Coins q) d" "0 < pool_amt p d" for d
  proof -
    have "pool_amt snap d \<noteq> 0" using pos(1) amt [of d] by auto
    then obtain a where "assets_map (am_PoolAssets snap) d = Some a" and A: "pool_amt snap d = Amount (pa_Token a)"
      by (auto simp: pool_amt_def GetPoolAssetByDenom_map split: option.splits)
    then have a: "a \<in> set (am_PoolAssets snap)" "Denom (pa_Token a) = d" using assets_map_mem by simp_all
    have e: "Amount (part_of r a) = AmountOf ?S (eq_Coins q) d" by (simp add: part_of_def amt A mult.commute)
    have liq: "coins_ok ?S (GetTotalPoolLiquidity ?S p)" "AmountOf ?S (GetTotalPoolLiquidity ?S p) d = pool_amt p d"
      using liquidity_book [OF E(1) pools(1)] by simp_all
    have "d \<in> Denom ` set (GetTotalPoolLiquidity ?S p)"
      using coins_ok_list(3) [OF E(1) liq(1), of d] liq(2) pos(2) by fastforce
    then obtain c where c: "c \<in> set (GetTotalPoolLiquidity ?S p)" "Denom c = d" by auto
    have "Amount c = pool_amt p d" using coins_ok_list(2) [OF E(1) liq(1) c(1)] c(2) liq(2) by simp
    moreover have "\<not> Amount (part_of r a) \<ge> Amount c"
      using book [of d] a c pos(1) unfolding e [symmetric] by (auto simp: list_ex_iff)
    ultimately show ?thesis using e by simp
  qed
  show thesis by (rule that [OF lt r _ amt less]) (use book in simp_all)
qed

lemma processExitPool_book:
  assumes E: "sdk_laws S" and p: "pool_funds_ok S p" and cs: "coins_ok S cs"
    and part: "\<And>d. 0 < AmountOf S cs d \<Longrightarrow> AmountOf S cs d < pool_amt p d"
    and exit: "processExitPool S cs s p = Inr p'"
  shows "pool_sorted p'" "pool_amt p' d = pool_amt p d - AmountOf S cs d"
    "Amount (am_TotalShares p') = Amount (am_TotalShares p) - s"
proof -
  have sorted: "pool_sorted p" using p by (simp add: pool_funds_ok_def)
  note liq = liquidity_book [OF E p]
  have le: "AmountOf S cs d \<le> AmountOf S (GetTotalPoolLiquidity S p) d" for d
    using part [of d] AmountOf_nonneg [OF E cs, of d] AmountOf_nonneg [OF E liq(1), of d] liq(2) [of d]
    by (cases "0 < AmountOf S cs d") simp_all
  obtain bal where bal: "CoinsSub S (GetTotalPoolLiquidity S p) cs = Inr bal" "coins_ok S bal"
    "\<And>d. AmountOf S bal d = AmountOf S (GetTotalPoolLiquidity S p) d - AmountOf S cs d"
    using CoinsSub_set [OF E liq(1) cs le] by blast
  obtain p1 where p1: "UpdatePoolAssetBalances S bal p = Inr p1"
    and p': "NewCoin S (Denom (am_TotalShares p1)) (Amount (am_TotalShares p1) - s) = Inr (am_TotalShares p')"
      "am_PoolAssets p' = am_PoolAssets p1"
    using exit bal(1) by (auto simp: processExitPool_def)
  have "update_balances bal p = Inr p1"
    using p1 by (simp add: UpdatePoolAssetBalances_def split: sum.splits)
  note B = update_book [OF this sorted coins_ok_list(1) [OF E bal(2)]]
  show "pool_sorted p'" using B p'(2) sorted by (simp add: same_frame_def pool_sorted_def)
  show "Amount (am_TotalShares p') = Amount (am_TotalShares p) - s"
    using B p'(1) by (auto simp: same_frame_def NewCoin_Inr [OF E])
  have "pool_amt p' d = pool_amt p1 d" by (simp add: pool_amt_def p'(2))
  also have "\<dots> = pool_amt p d - AmountOf S cs d"
  proof (cases "d \<in> Denom ` set bal")
    case True
    then show ?thesis using B bal(3) [of d] liq(2) [of d] by (simp add: coin_sum_AmountOf [OF E bal(2)])
  next
    case False
    then have "AmountOf S cs d = pool_amt p d"
      using coins_ok_list(3) [OF E bal(2), of d] bal(3) [of d] liq(2) [of d] by simp
    then have "AmountOf S cs d = 0" using part [of d] AmountOf_nonneg [OF E cs, of d] by fastforce
    then show ?thesis using B False by simp
  qed
  finally show "pool_amt p' d = pool_amt p d - AmountOf S cs d" .
qed

end
