(* ===== verification/AmmJoin.thy ===== *)
theory AmmJoin
  imports AmmShares
begin

text \<open>
  Joining with every asset, without a swap: the shares given are no more than the coins taken
  pay for.
\<close>

lemma share_ratios_list:
  "share_ratios B L cs = Inr rs \<Longrightarrow>
     list_all2 (\<lambda>c r. L (Denom c) \<noteq> 0 \<and>
       BQuo B (BigDecFromSDKInt (Amount c)) (BigDecFromSDKInt (L (Denom c))) = Inr r) cs rs"
  by (induction cs arbitrary: rs) (auto split: if_splits)

lemma fold_min_le: "fold min rs m \<le> m \<and> (\<forall>r\<in>set rs. fold min rs m \<le> r)" for m :: int
proof (induction rs arbitrary: m)
  case (Cons r rs)
  have "fold min rs (min r m) \<le> min r m" "\<forall>r'\<in>set rs. fold min rs (min r m) \<le> r'" using Cons by blast+
  then show ?case by auto
qed simp

lemma fold_max_ge: "m \<le> fold max rs m \<and> (\<forall>r\<in>set rs. r \<le> fold max rs m)" for m :: int
proof (induction rs arbitrary: m)
  case (Cons r rs)
  have "max r m \<le> fold max rs (max r m)" "\<forall>r'\<in>set rs. r' \<le> fold max rs (max r m)" using Cons by blast+
  then show ?case by auto
qed simp

lemma BCeil_le: "x \<le> k * big_one \<Longrightarrow> BCeil x \<le> k * big_one"
proof -
  assume "x \<le> k * big_one"
  then have "- k * big_one \<le> - x" by simp
  then have "- k * big_one div big_one \<le> - x div big_one" by (rule zdiv_mono1) simp
  moreover have "- k * big_one div big_one = - k" by (rule nonzero_mult_div_cancel_right) simp
  ultimately have "- (- x div big_one) \<le> k" by linarith
  then show ?thesis unfolding BCeil_def by (rule mult_right_mono) simp
qed

text \<open>What remains of one coin: nothing of the scarcest, otherwise what the ratio does not use.\<close>

definition used_of :: "int \<Rightarrow> int \<Rightarrow> int" where
  "used_of m L = BCeil (m * L) div big_one"

definition rest_of :: "int \<Rightarrow> (string \<Rightarrow> int) \<Rightarrow> coin \<times> int \<Rightarrow> int" where
  "rest_of m L = (\<lambda>(c, r). if r = m then 0 else Amount c - used_of m (L (Denom c)))"

lemma used_of_eq: "used_of m L * big_one = BCeil (m * L)"
  by (simp add: used_of_def BCeil_def)

text \<open>The loop over the coins that collects what remains.\<close>

definition rest_step :: "amm_env \<Rightarrow> int \<Rightarrow> (string \<Rightarrow> int) \<Rightarrow> coin \<times> int \<Rightarrow> coins \<Rightarrow> coins" where
  "rest_step E m L = (\<lambda>(c, r) rem.
     if r = m then rem
     else let usedAmount = DTruncateInt (ae_dec E) (BDec (ae_big E) (BCeil (BMul (ae_big E) m (BigDecFromSDKInt (L (Denom c))))));
              newAmt = Amount c - usedAmount
       in if newAmt = 0 then rem else CoinsAdd (ae_sdk E) rem [\<lparr>Denom = Denom c, Amount = newAmt\<rparr>])"

lemma rest_book:
  assumes E: "sdk_laws (ae_sdk E)" "bigdec_laws (ae_big E)" "dec_laws (ae_dec E)" and m: "0 \<le> m"
  shows "\<forall>x\<in>set xs. 0 \<le> L (Denom (fst x)) \<and> 0 \<le> rest_of m L x \<and> denom_ok (ae_sdk E) (Denom (fst x)) \<Longrightarrow>
     coins_ok (ae_sdk E) rem \<Longrightarrow>
     coins_ok (ae_sdk E) (fold (rest_step E m L) xs rem) \<and>
     AmountOf (ae_sdk E) (fold (rest_step E m L) xs rem) d =
       AmountOf (ae_sdk E) rem d + coin_sum (map (\<lambda>x. \<lparr>Denom = Denom (fst x), Amount = rest_of m L x\<rparr>) xs) d"
proof (induction xs arbitrary: rem)
  case (Cons x xs)
  obtain c r where x: "x = (c, r)" by (cases x)
  let ?S = "ae_sdk E"
  have "0 \<le> BCeil (m * L (Denom c))"
    using BCeil_ge [of "m * L (Denom c)"] m Cons.prems(1) x by (auto intro: order.trans [OF mult_nonneg_nonneg])
  then have used: "DTruncateInt (ae_dec E) (BDec (ae_big E) (BCeil (BMul (ae_big E) m (BigDecFromSDKInt (L (Denom c))))))
      = used_of m (L (Denom c))"
    using truncate_int [OF E(2,3)] by (simp add: BMul_int_right [OF E(2)] used_of_def mult.commute)
  have step: "rest_step E m L x rem =
      (if rest_of m L x = 0 then rem else CoinsAdd ?S rem [\<lparr>Denom = Denom c, Amount = rest_of m L x\<rparr>])"
    by (simp add: rest_step_def rest_of_def x used)
  have "coins_ok ?S (rest_step E m L x rem)"
    and "AmountOf ?S (rest_step E m L x rem) d = AmountOf ?S rem d + (if Denom c = d then rest_of m L x else 0)"
    using Cons.prems x E(1) unfolding step by (auto simp: coins_ok_add1 AmountOf_add1)
  then show ?case using Cons.IH [of "rest_step E m L x rem"] Cons.prems x by simp
qed simp

lemma if_Inl_Inr: "(if b then Inl e else Inr (x, y)) = Inr (n, r) \<longleftrightarrow> \<not> b \<and> n = x \<and> r = y"
  by auto

text \<open>What \<open>MaximalExactRatioJoin\<close> returns, by its least ratio.\<close>

lemma Maximal_eq:
  "MaximalExactRatioJoin E p tokensIn = Inr (n, rem) \<longleftrightarrow>
     (\<exists>rs. share_ratios (ae_big E) (AmountOf (ae_sdk E) (GetTotalPoolLiquidity (ae_sdk E) p)) tokensIn = Inr rs \<and>
       (let m = fold min rs maxRatio in
        m \<noteq> maxRatio \<and>
        n = DTruncateInt (ae_dec E) (BDec (ae_big E) (BMul (ae_big E) m (BigDecFromSDKInt (Amount (am_TotalShares p))))) \<and>
        rem = (if m = fold max rs 0 then []
               else fold (rest_step E m (AmountOf (ae_sdk E) (GetTotalPoolLiquidity (ae_sdk E) p))) (zip tokensIn rs) [])))"
  unfolding MaximalExactRatioJoin_def rest_step_def Let_def by (simp only: rbind_eq_Inr if_Inl_Inr)

text \<open>One coin's part: the shares that the least ratio gives against what is taken of the coin.\<close>

lemma join_part:
  assumes B: "bigdec_laws B" and A: "0 \<le> a" "0 < L" and S: "0 \<le> S" "L * S \<le> big_one"
    and r: "BQuo B (BigDecFromSDKInt a) (BigDecFromSDKInt L) = Inr r" and m: "0 \<le> m" "m \<le> r"
  shows "S * m div big_one * L \<le> (if r = m then a else used_of m L) * S"
    and "r \<noteq> m \<Longrightarrow> used_of m L \<le> a"
proof -
  note R = ratio_sides(1) [OF B A r]
  have N: "S * m div big_one * big_one \<le> S * m"
    using mult_div_mod_eq [of big_one "S * m"] by (simp add: mult.commute)
  then have NL: "S * m div big_one * L * big_one \<le> S * (m * L)"
    using mult_right_mono [OF N, of L] A(2) by (simp add: ac_simps)
  show "r \<noteq> m \<Longrightarrow> used_of m L \<le> a"
  proof -
    assume "r \<noteq> m"
    then have "L * (2 * m) \<le> L * (2 * r - 2)" using m A(2) by (intro mult_left_mono) simp_all
    then have "m * L \<le> a * big_one" using R A(2) by (simp add: algebra_simps)
    then have "used_of m L * big_one \<le> a * big_one" unfolding used_of_eq by (rule BCeil_le)
    then show "used_of m L \<le> a" by simp
  qed
  show "S * m div big_one * L \<le> (if r = m then a else used_of m L) * S"
  proof (cases "r = m")
    case False
    have "m * L \<le> used_of m L * big_one" unfolding used_of_eq by (rule BCeil_ge)
    then have "S * (m * L) \<le> S * (used_of m L * big_one)" using S(1) by (rule mult_left_mono)
    then have "S * m div big_one * L * big_one \<le> used_of m L * S * big_one"
      using NL by (simp add: ac_simps)
    then show ?thesis using False by (simp only: if_False mult_le_cancel_right_pos)
  next
    case True
    have "2 * (S * (m * L)) \<le> S * (2 * (a * big_one) + L)"
      using mult_left_mono [OF R S(1)] by (simp add: True ac_simps)
    then have "2 * (S * (m * L)) \<le> 2 * (a * S * big_one) + L * S" by (simp add: algebra_simps)
    with NL have "2 * (S * m div big_one * L * big_one) \<le> 2 * (a * S * big_one) + big_one" using S(2) by linarith
    then have "S * m div big_one * L \<le> a * S" by linarith
    then show ?thesis using True by simp
  qed
qed

lemma coin_sum_zero: "\<forall>c\<in>set cs. Amount c = 0 \<Longrightarrow> coin_sum cs d = 0"
  by (induction cs) auto

lemma maxratio_min: "fold min rs maxRatio \<noteq> maxRatio \<Longrightarrow> \<forall>r\<in>set rs. 0 \<le> r \<Longrightarrow> 0 \<le> fold min rs maxRatio"
proof -
  have "0 \<le> m \<Longrightarrow> \<forall>r\<in>set rs. 0 \<le> r \<Longrightarrow> 0 \<le> fold min rs m" for m :: int
    by (induction rs arbitrary: m) simp_all
  then show "\<forall>r\<in>set rs. 0 \<le> r \<Longrightarrow> 0 \<le> fold min rs maxRatio" by (simp add: maxRatio_def)
qed

lemma join_fair:
  assumes E: "sdk_laws (ae_sdk E)" "bigdec_laws (ae_big E)" "dec_laws (ae_dec E)"
    and p: "pool_funds_ok (ae_sdk E) p" and cs: "coins_ok (ae_sdk E) tokensIn"
    and S: "0 \<le> Amount (am_TotalShares p)" "\<And>d. pool_amt p d * Amount (am_TotalShares p) \<le> big_one"
    and join: "MaximalExactRatioJoin E p tokensIn = Inr (n, rem)"
    and sub: "CoinsSub (ae_sdk E) tokensIn rem = Inr joined"
  shows "coins_ok (ae_sdk E) joined" "0 \<le> n"
    "c \<in> set tokensIn \<Longrightarrow>
       n * pool_amt p (Denom c) \<le> AmountOf (ae_sdk E) joined (Denom c) * Amount (am_TotalShares p)"
    "AmountOf (ae_sdk E) joined d \<le> AmountOf (ae_sdk E) tokensIn d"
proof -
  let ?S = "ae_sdk E"
  note liq = liquidity_book [OF E(1) p]
  define L where "L = AmountOf ?S (GetTotalPoolLiquidity ?S p)"
  have L: "L d = pool_amt p d" "0 \<le> L d" for d
    using liq AmountOf_nonneg [OF E(1) liq(1)] by (simp_all add: L_def)
  define T where "T = Amount (am_TotalShares p)"
  obtain rs where rs: "share_ratios (ae_big E) L tokensIn = Inr rs"
    and M: "let m = fold min rs maxRatio in m \<noteq> maxRatio \<and>
        n = DTruncateInt (ae_dec E) (BDec (ae_big E) (BMul (ae_big E) m (BigDecFromSDKInt T))) \<and>
        rem = (if m = fold max rs 0 then [] else fold (rest_step E m L) (zip tokensIn rs) [])"
    using join unfolding Maximal_eq L_def T_def by blast
  define m where "m = fold min rs maxRatio"
  have all: "list_all2 (\<lambda>c r. L (Denom c) \<noteq> 0 \<and>
       BQuo (ae_big E) (BigDecFromSDKInt (Amount c)) (BigDecFromSDKInt (L (Denom c))) = Inr r) tokensIn rs"
    by (rule share_ratios_list [OF rs])
  then have len: "length tokensIn = length rs" by (rule list_all2_lengthD)
  have pair: "0 \<le> Amount c \<and> 0 < L (Denom c) \<and>
      BQuo (ae_big E) (BigDecFromSDKInt (Amount c)) (BigDecFromSDKInt (L (Denom c))) = Inr r \<and> 0 \<le> r \<and> m \<le> r"
    if "(c, r) \<in> set (zip tokensIn rs)" for c r
  proof -
    have q: "L (Denom c) \<noteq> 0" "BQuo (ae_big E) (BigDecFromSDKInt (Amount c)) (BigDecFromSDKInt (L (Denom c))) = Inr r"
      using all that by (auto simp: list_all2_iff)
    have "c \<in> set tokensIn" "r \<in> set rs" using that by (auto dest: set_zip_leftD set_zip_rightD)
    then have "0 \<le> Amount c" "m \<le> r" using coins_ok_list(2) [OF E(1) cs] fold_min_le [of rs maxRatio] by (auto simp: m_def less_imp_le)
    moreover have "0 < L (Denom c)" using q(1) L(2) [of "Denom c"] by simp
    ultimately show ?thesis using q(2) ratio_sides(2) [OF E(2) _ _ q(2)] by simp
  qed
  have "\<forall>r\<in>set rs. 0 \<le> r"
  proof
    fix r assume "r \<in> set rs"
    then obtain i where "i < length rs" "rs ! i = r" by (auto simp: in_set_conv_nth)
    then have "(tokensIn ! i, r) \<in> set (zip tokensIn rs)" using len by (auto simp: set_zip)
    then show "0 \<le> r" using pair by blast
  qed
  then have m0: "0 \<le> m" using maxratio_min [of rs] M by (simp add: m_def Let_def)
  have "0 \<le> T * m" using S(1) m0 by (simp add: T_def)
  then have n: "n = T * m div big_one"
    using M truncate_int [OF E(2,3)] by (simp add: Let_def m_def BMul_int_right [OF E(2)])
  show "0 \<le> n" using \<open>0 \<le> T * m\<close> unfolding n by simp
  have part: "n * L (Denom c) \<le> (if r = m then Amount c else used_of m (L (Denom c))) * T"
      "0 \<le> rest_of m L (c, r)"
    if "(c, r) \<in> set (zip tokensIn rs)" for c r
    using join_part [OF E(2) _ _ _ _ _ m0, of "Amount c" "L (Denom c)" T r] pair [OF that] S by (auto simp: n T_def L(1) rest_of_def)
  define R where "R d = coin_sum (map (\<lambda>x. \<lparr>Denom = Denom (fst x), Amount = rest_of m L x\<rparr>) (zip tokensIn rs)) d" for d
  have dist: "distinct (map Denom (map (\<lambda>x. \<lparr>Denom = Denom (fst x), Amount = rest_of m L x\<rparr>) (zip tokensIn rs)))"
  proof -
    have "map Denom (map (\<lambda>x. \<lparr>Denom = Denom (fst x), Amount = rest_of m L x\<rparr>) (zip tokensIn rs))
        = map Denom (map fst (zip tokensIn rs))" by simp
    then show ?thesis using coins_ok_list(1) [OF E(1) cs] len by simp
  qed
  have Rc: "R (Denom c) = rest_of m L (c, r)" if "(c, r) \<in> set (zip tokensIn rs)" for c r
    using coin_sum_mem [OF dist, of "\<lparr>Denom = Denom c, Amount = rest_of m L (c, r)\<rparr>"] that by (force simp: R_def)
  have rem: "coins_ok ?S rem \<and> AmountOf ?S rem d = R d" for d
  proof (cases "m = fold max rs 0")
    case True
    have "rest_of m L x = 0" if "x \<in> set (zip tokensIn rs)" for x
    proof -
      obtain c r where x: "x = (c, r)" by (cases x)
      have "r \<in> set rs" using that by (auto simp: x dest: set_zip_rightD)
      then have "r \<le> m" using fold_max_ge [of 0 rs] True by auto
      then have "r = m" using pair [of c r] that x by simp
      then show ?thesis by (simp add: x rest_of_def)
    qed
    then have "R d = 0" unfolding R_def by (intro coin_sum_zero) auto
    then show ?thesis using M True by (simp add: Let_def m_def [symmetric] coins_ok_Nil [OF E(1)] AmountOf_Nil [OF E(1)])
  next
    case False
    then have f: "rem = fold (rest_step E m L) (zip tokensIn rs) []" using M by (simp add: Let_def m_def [symmetric])
    have "\<forall>x\<in>set (zip tokensIn rs). 0 \<le> L (Denom (fst x)) \<and> 0 \<le> rest_of m L x \<and> denom_ok ?S (Denom (fst x))"
      using part(2) L(2) coins_ok_list(2) [OF E(1) cs] by (auto dest: set_zip_leftD)
    then show ?thesis
      using rest_book [OF E m0 _ coins_ok_Nil [OF E(1)]] by (simp add: f R_def AmountOf_Nil [OF E(1)])
  qed
  have "AmountOf ?S rem d \<le> AmountOf ?S tokensIn d" for d
    using CoinsSub_panic [OF E(1) cs conjunct1 [OF rem], of d] sub by fastforce
  then obtain j where j: "CoinsSub ?S tokensIn rem = Inr j" "coins_ok ?S j"
    "\<And>d. AmountOf ?S j d = AmountOf ?S tokensIn d - AmountOf ?S rem d"
    using CoinsSub_set [OF E(1) cs conjunct1 [OF rem]] by blast
  have jj: "joined = j" using j(1) sub by simp
  show "coins_ok ?S joined" using j(2) jj by simp
  show "AmountOf ?S joined d \<le> AmountOf ?S tokensIn d"
    using j(3) [of d] AmountOf_nonneg [OF E(1) conjunct1 [OF rem], of d] jj by simp
  show "n * pool_amt p (Denom c) \<le> AmountOf ?S joined (Denom c) * Amount (am_TotalShares p)" if c: "c \<in> set tokensIn"
  proof -
    obtain i where "i < length tokensIn" "tokensIn ! i = c" using c by (auto simp: in_set_conv_nth)
    then have x: "(c, rs ! i) \<in> set (zip tokensIn rs)" using len by (auto simp: set_zip)
    have "AmountOf ?S joined (Denom c) = (if rs ! i = m then Amount c else used_of m (L (Denom c)))"
      using j(3) [of "Denom c"] rem [of "Denom c"] Rc [OF x] coins_ok_list(2) [OF E(1) cs c] jj
      by (simp add: rest_of_def)
    then show ?thesis using part(1) [OF x] by (simp add: T_def L(1))
  qed
qed

end
