(* ===== verification/AmmShareProps.thy ===== *)
theory AmmShareProps
  imports AmmProps
begin

text \<open>
  The properties of joining and leaving a pool with every asset, and of the book of balances.
\<close>

section \<open>The book of balances\<close>

lemma add_shares_sel [simp]:
  "pool_sorted (add_shares n p) = pool_sorted p" "pool_amt (add_shares n p) = pool_amt p"
  "Amount (am_TotalShares (add_shares n p)) = Amount (am_TotalShares p) + n"
  "am_PoolAssets (add_shares n p) = am_PoolAssets p"
  by (simp_all add: add_shares_def pool_sorted_def pool_amt_def fun_eq_iff)

text \<open>C32: the two operations on a pool's liquidity refine the map from denominations to balances:
  \<open>IncreaseLiquidity\<close> adds the coins' amounts to the balances, \<open>DecreaseLiquidity\<close> takes them
  away, and the shares move by the given number; taking out what was put in gives the balances and
  the shares back.\<close>

theorem liquidity_refines:
  assumes "pool_sorted p" "IncreaseLiquidity n cs p = Inr p'" "DecreaseLiquidity S m cs' p' = Inr p''"
  shows "pool_amt p' = (\<lambda>d. pool_amt p d + coin_sum cs d)
    \<and> Amount (am_TotalShares p') = Amount (am_TotalShares p) + n
    \<and> pool_amt p'' = (\<lambda>d. pool_amt p' d - coin_sum cs' d)
    \<and> Amount (am_TotalShares p'') = Amount (am_TotalShares p') - m
    \<and> 0 \<le> m \<and> 0 \<le> Amount (am_TotalShares p'') \<and> pool_sorted p''
    \<and> (cs' = cs \<and> m = n \<longrightarrow> pool_amt p'' = pool_amt p \<and> Amount (am_TotalShares p'') = Amount (am_TotalShares p))"
proof -
  obtain p1 where p1: "addToPoolAssetBalances p cs = Inr p1" "p' = add_shares n p1"
    using assms(2) by (auto simp: IncreaseLiquidity_def)
  note A = addTo_book [OF p1(1) assms(1)]
  have sorted': "pool_sorted p'" using A by (simp add: p1(2) same_frame_def)
  obtain p2 where p2: "subtractFromPoolAssetBalances p' cs' = Inr p2" "p'' = add_shares (- m) p2" "0 \<le> m"
    "0 \<le> Amount (am_TotalShares p'')"
    using assms(3) by (auto simp: DecreaseLiquidity_def Let_def split: if_splits)
  note B = subtractFrom_book [OF p2(1) sorted']
  have "pool_amt p'' = pool_amt p" if "cs' = cs"
    using A B that by (simp add: p1(2) p2(2) fun_eq_iff)
  then show ?thesis using A B p2(3,4) by (simp add: same_frame_def p1(2) p2(2) fun_eq_iff)
qed

lemma liquidity_refines_witness:
  "\<exists>p' p''. IncreaseLiquidity 5 [\<lparr>Denom = ''b'', Amount = 3\<rparr>] ex_pool = Inr p'
     \<and> DecreaseLiquidity std_sdk 5 [\<lparr>Denom = ''b'', Amount = 3\<rparr>] p' = Inr p'' \<and> pool_amt p'' = pool_amt ex_pool"
proof -
  let ?B = "rbind (IncreaseLiquidity 5 [\<lparr>Denom = ''b'', Amount = 3\<rparr>] ex_pool)
     (DecreaseLiquidity std_sdk 5 [\<lparr>Denom = ''b'', Amount = 3\<rparr>])"
  have "map_sum (\<lambda>e. ()) (\<lambda>x. ()) ?B = Inr ()" by code_simp
  then obtain p'' where "?B = Inr p''" by (cases ?B) auto
  then obtain p' where p': "IncreaseLiquidity 5 [\<lparr>Denom = ''b'', Amount = 3\<rparr>] ex_pool = Inr p'"
    "DecreaseLiquidity std_sdk 5 [\<lparr>Denom = ''b'', Amount = 3\<rparr>] p' = Inr p''" by auto
  then show ?thesis using liquidity_refines [OF ex_pool_sorted p'] by blast
qed

section \<open>Joining\<close>

text \<open>The denominations given are those of the pool.\<close>

lemma joined_denoms:
  assumes "CalcJoinPoolNoSwapShares E p tokensIn = Inr r" "coins_ok (ae_sdk E) tokensIn" "sdk_laws (ae_sdk E)"
    and "d \<notin> Denom ` set tokensIn"
  shows "pool_amt p d = 0"
proof (rule ccontr)
  assume "pool_amt p d \<noteq> 0"
  then obtain a where "assets_map (am_PoolAssets p) d = Some a"
    by (auto simp: pool_amt_def GetPoolAssetByDenom_map split: option.splits)
  then have d: "d \<in> (\<lambda>a. Denom (pa_Token a)) ` set (am_PoolAssets p)" using assets_map_mem by fastforce
  obtain m where m: "GetPoolAssetsByDenom (am_PoolAssets p) = Inr m" "EnsureDenomInPool m tokensIn = Inr ()"
    "length tokensIn = length (am_PoolAssets p)"
    using assms(1) by (auto simp: CalcJoinPoolNoSwapShares_def split: if_splits)
  have "m = GetPoolAssetByDenom (am_PoolAssets p)" using m(1) by (auto simp: GetPoolAssetsByDenom_def split: if_splits)
  then have "Denom ` set tokensIn \<subseteq> (\<lambda>a. Denom (pa_Token a)) ` set (am_PoolAssets p)"
    using m(2) by (auto simp: EnsureDenomInPool_def list_all_iff GetPoolAssetByDenom_map split: if_splits)
      (metis assets_map_mem image_eqI)
  moreover have "card (Denom ` set tokensIn) = length tokensIn"
    using coins_ok_list(1) [OF assms(3,2)] distinct_card [of "map Denom tokensIn"] by simp
  moreover have "card ((\<lambda>a. Denom (pa_Token a)) ` set (am_PoolAssets p)) \<le> length (am_PoolAssets p)"
    using card_length [of "map (\<lambda>a. Denom (pa_Token a)) (am_PoolAssets p)"] by simp
  ultimately have "Denom ` set tokensIn = (\<lambda>a. Denom (pa_Token a)) ` set (am_PoolAssets p)"
    using m(3) by (intro card_seteq) simp_all
  then show False using d assms(4) by simp
qed


lemma ex_pool_amt: "pool_amt ex_pool d = (if d = ''a'' \<or> d = ''b'' then 4 else 0)"
  by (simp add: pool_amt_def ex_pool_def GetPoolAssetByDenom_def)

text \<open>What the concrete pool's ratios come to, all exact.\<close>

lemma ex_ratio:
  "BQuo (pe_big std_pow) (2 * big_one) (8 * big_one) = Inr (25 * 10 ^ 34)"
  by (rule BQuo_exact; simp add: std_pow_sel std_bigdec_laws)

lemma ex_mul_right: "BMul (pe_big std_pow) x (4 * big_one) = 4 * x" "BMul (pe_big std_pow) x (8 * big_one) = 8 * x"
  by (rule BMul_exact; simp add: std_pow_sel std_bigdec_laws)+

lemma ex_trunc_one: "DTruncateInt (pe_dec std_pow) (BDec (pe_big std_pow) big_one) = 1"
  by (simp add: truncate_int std_pow_sel std_bigdec_laws std_dec_laws)

lemmas ex_share_simps = ex_swap_simps ex_ratio [simplified] ex_mul_right [simplified] ex_trunc_one ex_pool_def
  JoinPool_def CalcJoinPoolNoSwapShares_def MaximalExactRatioJoin_def GetPoolAssetsByDenom_def EnsureDenomInPool_def
  maxRatio_def IsAnyGT_def std_sub_def IncreaseLiquidity_def add_shares_def
  ExitPool_def CalcExitPool_def processExitPool_def UpdatePoolAssetBalances_def UpdatePoolAssetBalance_def
  GetTotalPoolLiquidity_def poolAssetsCoins_def std_valid_def GetPoolAssetAndIndex_def sort_search.simps


section \<open>Leaving\<close>



end
