(* ===== verification/Tokenomics.thy ===== *)
theory Tokenomics
  imports CommitmentMsgs "HOL-Library.Product_Lexorder"
begin

text \<open>
  The tokenomics module (x/tokenomics): airdrops that its governance authority registers and a
  sender claims as Eden, inflation schedules by block range, and the genesis inflation. A claim
  writes the claimant's commitments through the keeper of the commitment module.
\<close>

section \<open>Data and store\<close>

text \<open>The create and update messages carry the fields of the stored records, with the authority
  that signs them: they are values of the same types.\<close>

record Airdrop =
  air_Intent :: string
  air_Amount :: int
  air_Authority :: string
  air_Expiry :: int

record InflationEntry =
  ie_LmRewards :: int
  ie_IcsStakingRewards :: int
  ie_CommunityFund :: int
  ie_StrategicReserve :: int
  ie_TeamTokensVested :: int

record TimeBasedInflation =
  tbi_StartBlockHeight :: int
  tbi_EndBlockHeight :: int
  tbi_Description :: string
  tbi_Inflation :: "InflationEntry option"
  tbi_Authority :: string

record GenesisInflation =
  gi_Inflation :: "InflationEntry option"
  gi_SeedVesting :: int
  gi_StrategicSalesVesting :: int
  gi_Authority :: string

text \<open>The module's store, and the commitment module's state. An inflation lies under its two
  heights in big endian: the order is that of the pairs. The parameters have no field.\<close>

record 'e tkstate =
  tk_airdrops :: "(string, Airdrop) kvs"
  tk_inflations :: "(int \<times> int, TimeBasedInflation) kvs"
  tk_genesis :: "GenesisInflation option"
  tk_cs :: "'e cstate"

record 'e tkkeeper =
  tk_commitment :: "'e keeper"
  tk_authority :: string

definition ErrAirdropExpired :: err where
  "ErrAirdropExpired = Sentinel ''tokenomics'' 1"
definition sdk_ErrInvalidRequest :: err where
  "sdk_ErrInvalidRequest = Sentinel ''sdk'' 18"
definition sdk_ErrKeyNotFound :: err where
  "sdk_ErrKeyNotFound = Sentinel ''sdk'' 38"
definition sdk_ErrUnauthorized :: err where
  "sdk_ErrUnauthorized = Sentinel ''sdk'' 4"
definition sdk_ErrUnknownRequest :: err where
  "sdk_ErrUnknownRequest = Sentinel ''sdk'' 6"
definition sdk_ErrInvalidCoins :: err where
  "sdk_ErrInvalidCoins = Sentinel ''sdk'' 10"

section \<open>The keeper's stores\<close>

definition AirdropKey :: "string \<Rightarrow> string" where
  "AirdropKey intent = intent @ ''/''"

definition SetAirdrop :: "Airdrop \<Rightarrow> 'e tkstate \<Rightarrow> 'e tkstate" where
  "SetAirdrop airdrop s =
     s\<lparr>tk_airdrops := kv_set (AirdropKey (air_Intent airdrop)) airdrop (tk_airdrops s)\<rparr>"

definition GetAirdrop :: "'e tkstate \<Rightarrow> string \<Rightarrow> Airdrop option" where
  "GetAirdrop s intent = kv_get (tk_airdrops s) (AirdropKey intent)"

definition RemoveAirdrop :: "string \<Rightarrow> 'e tkstate \<Rightarrow> 'e tkstate" where
  "RemoveAirdrop intent s = s\<lparr>tk_airdrops := kv_del (AirdropKey intent) (tk_airdrops s)\<rparr>"

definition GetAllAirdrop :: "'e tkstate \<Rightarrow> Airdrop list" where
  "GetAllAirdrop s = map snd (tk_airdrops s)"

definition TimeBasedInflationKey :: "int \<Rightarrow> int \<Rightarrow> int \<times> int" where
  "TimeBasedInflationKey startBlockHeight endBlockHeight = (startBlockHeight, endBlockHeight)"

definition SetTimeBasedInflation :: "TimeBasedInflation \<Rightarrow> 'e tkstate \<Rightarrow> 'e tkstate" where
  "SetTimeBasedInflation t s =
     s\<lparr>tk_inflations := kv_set (TimeBasedInflationKey (tbi_StartBlockHeight t) (tbi_EndBlockHeight t)) t
         (tk_inflations s)\<rparr>"

definition GetTimeBasedInflation :: "'e tkstate \<Rightarrow> int \<Rightarrow> int \<Rightarrow> TimeBasedInflation option" where
  "GetTimeBasedInflation s startBlockHeight endBlockHeight =
     kv_get (tk_inflations s) (TimeBasedInflationKey startBlockHeight endBlockHeight)"

definition RemoveTimeBasedInflation :: "int \<Rightarrow> int \<Rightarrow> 'e tkstate \<Rightarrow> 'e tkstate" where
  "RemoveTimeBasedInflation startBlockHeight endBlockHeight s =
     s\<lparr>tk_inflations := kv_del (TimeBasedInflationKey startBlockHeight endBlockHeight) (tk_inflations s)\<rparr>"

definition GetAllTimeBasedInflation :: "'e tkstate \<Rightarrow> TimeBasedInflation list" where
  "GetAllTimeBasedInflation s = map snd (tk_inflations s)"

definition SetGenesisInflation :: "GenesisInflation \<Rightarrow> 'e tkstate \<Rightarrow> 'e tkstate" where
  "SetGenesisInflation g s = s\<lparr>tk_genesis := Some g\<rparr>"

definition GetGenesisInflation :: "'e tkstate \<Rightarrow> GenesisInflation option" where
  "GetGenesisInflation s = tk_genesis s"

definition RemoveGenesisInflation :: "'e tkstate \<Rightarrow> 'e tkstate" where
  "RemoveGenesisInflation s = s\<lparr>tk_genesis := None\<rparr>"

section \<open>Messages\<close>

definition CreateAirdrop :: "'e tkkeeper \<Rightarrow> Airdrop \<Rightarrow> 'e tkstate \<Rightarrow> 'e tkstate result" where
  "CreateAirdrop k msg s =
     (if tk_authority k \<noteq> air_Authority msg then Inl gov_ErrInvalidSigner
      else if GetAirdrop s (air_Intent msg) \<noteq> None then Inl sdk_ErrInvalidRequest
      else Inr (SetAirdrop msg s))"

definition UpdateAirdrop :: "'e tkkeeper \<Rightarrow> Airdrop \<Rightarrow> 'e tkstate \<Rightarrow> 'e tkstate result" where
  "UpdateAirdrop k msg s =
     (if tk_authority k \<noteq> air_Authority msg then Inl gov_ErrInvalidSigner
      else case GetAirdrop s (air_Intent msg) of
        None \<Rightarrow> Inl sdk_ErrKeyNotFound
      | Some valFound \<Rightarrow>
          if air_Authority msg \<noteq> air_Authority valFound then Inl sdk_ErrUnauthorized
          else Inr (SetAirdrop msg s))"

definition DeleteAirdrop :: "'e tkkeeper \<Rightarrow> string \<Rightarrow> string \<Rightarrow> 'e tkstate \<Rightarrow> 'e tkstate result" where
  "DeleteAirdrop k msg_Authority msg_Intent s =
     (if tk_authority k \<noteq> msg_Authority then Inl gov_ErrInvalidSigner
      else case GetAirdrop s msg_Intent of
        None \<Rightarrow> Inl sdk_ErrKeyNotFound
      | Some valFound \<Rightarrow>
          if msg_Authority \<noteq> air_Authority valFound then Inl sdk_ErrUnauthorized
          else Inr (RemoveAirdrop msg_Intent s))"

text \<open>The airdrop is looked up under the sender's address. The conversions \<open>int64(...)\<close> of the
  unsigned expiry and amount wrap.\<close>

definition tk_ClaimAirdrop ::
    "'e tkkeeper \<Rightarrow> block_ctx \<Rightarrow> string \<Rightarrow> 'e tkstate \<Rightarrow> 'e tkstate result" where
  "tk_ClaimAirdrop k ctx msg_Sender s =
     (case GetAirdrop s msg_Sender of
        None \<Rightarrow> Inl sdk_ErrKeyNotFound
      | Some airdrop \<Rightarrow>
          if msg_Sender \<noteq> air_Authority airdrop then Inl sdk_ErrUnauthorized
          else if Unix (BlockTime ctx) > i64 (air_Expiry airdrop) then Inl ErrAirdropExpired
          else let ck = tk_commitment k
            in rbind (MustAccAddress (k_sdk ck) msg_Sender) (\<lambda>sender.
               let commitments = GetCommitments ck (tk_cs s) sender
               in rbind (NewCoin (k_sdk ck) Eden (i64 (air_Amount airdrop))) (\<lambda>coin.
                  rbind (SetCommitments ck (AddClaimed (k_sdk ck) coin commitments) (tk_cs s)) (\<lambda>cs.
                  Inr (RemoveAirdrop msg_Sender (s\<lparr>tk_cs := cs\<rparr>))))))"

definition CreateTimeBasedInflation ::
    "'e tkkeeper \<Rightarrow> TimeBasedInflation \<Rightarrow> 'e tkstate \<Rightarrow> 'e tkstate result" where
  "CreateTimeBasedInflation k msg s =
     (if tk_authority k \<noteq> tbi_Authority msg then Inl gov_ErrInvalidSigner
      else if GetTimeBasedInflation s (tbi_StartBlockHeight msg) (tbi_EndBlockHeight msg) \<noteq> None
      then Inl sdk_ErrInvalidRequest
      else Inr (SetTimeBasedInflation msg s))"

definition UpdateTimeBasedInflation ::
    "'e tkkeeper \<Rightarrow> TimeBasedInflation \<Rightarrow> 'e tkstate \<Rightarrow> 'e tkstate result" where
  "UpdateTimeBasedInflation k msg s =
     (if tk_authority k \<noteq> tbi_Authority msg then Inl gov_ErrInvalidSigner
      else case GetTimeBasedInflation s (tbi_StartBlockHeight msg) (tbi_EndBlockHeight msg) of
        None \<Rightarrow> Inl sdk_ErrKeyNotFound
      | Some valFound \<Rightarrow>
          if tbi_Authority msg \<noteq> tbi_Authority valFound then Inl sdk_ErrUnauthorized
          else Inr (SetTimeBasedInflation msg s))"

definition DeleteTimeBasedInflation ::
    "'e tkkeeper \<Rightarrow> string \<Rightarrow> int \<Rightarrow> int \<Rightarrow> 'e tkstate \<Rightarrow> 'e tkstate result" where
  "DeleteTimeBasedInflation k msg_Authority msg_Start msg_End s =
     (if tk_authority k \<noteq> msg_Authority then Inl gov_ErrInvalidSigner
      else case GetTimeBasedInflation s msg_Start msg_End of
        None \<Rightarrow> Inl sdk_ErrKeyNotFound
      | Some valFound \<Rightarrow>
          if msg_Authority \<noteq> tbi_Authority valFound then Inl sdk_ErrUnauthorized
          else Inr (RemoveTimeBasedInflation msg_Start msg_End s))"

definition UpdateGenesisInflation ::
    "'e tkkeeper \<Rightarrow> GenesisInflation \<Rightarrow> 'e tkstate \<Rightarrow> 'e tkstate result" where
  "UpdateGenesisInflation k msg s =
     (if tk_authority k \<noteq> gi_Authority msg then Inl gov_ErrInvalidSigner
      else Inr (SetGenesisInflation msg s))"

section \<open>Basic validation\<close>

definition tk_address_ok :: "sdk \<Rightarrow> string \<Rightarrow> unit result" where
  "tk_address_ok S a =
     (case AccAddressFromBech32 S a of Inl e \<Rightarrow> Inl sdk_ErrInvalidAddress | Inr _ \<Rightarrow> Inr ())"

definition MsgCreateAirdrop_ValidateBasic :: "sdk \<Rightarrow> Airdrop \<Rightarrow> unit result" where
  "MsgCreateAirdrop_ValidateBasic S msg =
     rbind (tk_address_ok S (air_Authority msg)) (\<lambda>_.
     if air_Intent msg = [] then Inl sdk_ErrUnknownRequest else Inr ())"

definition MsgUpdateAirdrop_ValidateBasic :: "sdk \<Rightarrow> Airdrop \<Rightarrow> unit result" where
  "MsgUpdateAirdrop_ValidateBasic S msg =
     rbind (tk_address_ok S (air_Authority msg)) (\<lambda>_.
     if air_Intent msg = [] then Inl sdk_ErrUnknownRequest
     else if air_Amount msg \<le> 0 then Inl sdk_ErrInvalidCoins
     else if air_Expiry msg \<le> 0 then Inl sdk_ErrInvalidRequest
     else Inr ())"

definition MsgDeleteAirdrop_ValidateBasic :: "sdk \<Rightarrow> string \<Rightarrow> string \<Rightarrow> unit result" where
  "MsgDeleteAirdrop_ValidateBasic S msg_Authority msg_Intent =
     rbind (tk_address_ok S msg_Authority) (\<lambda>_.
     if msg_Intent = [] then Inl sdk_ErrUnknownRequest else Inr ())"

definition tk_MsgClaimAirdrop_ValidateBasic :: "sdk \<Rightarrow> string \<Rightarrow> unit result" where
  "tk_MsgClaimAirdrop_ValidateBasic S msg_Sender = tk_address_ok S msg_Sender"

definition validateInflationEntry :: "InflationEntry option \<Rightarrow> unit result" where
  "validateInflationEntry inflation =
     (case inflation of
        None \<Rightarrow> Inl sdk_ErrInvalidRequest
      | Some i \<Rightarrow>
          if ie_LmRewards i \<le> 0 then Inl sdk_ErrInvalidRequest
          else if ie_IcsStakingRewards i \<le> 0 then Inl sdk_ErrInvalidRequest
          else if ie_CommunityFund i \<le> 0 then Inl sdk_ErrInvalidRequest
          else if ie_StrategicReserve i \<le> 0 then Inl sdk_ErrInvalidRequest
          else if ie_TeamTokensVested i \<le> 0 then Inl sdk_ErrInvalidRequest
          else Inr ())"

definition MsgCreateTimeBasedInflation_ValidateBasic :: "sdk \<Rightarrow> TimeBasedInflation \<Rightarrow> unit result" where
  "MsgCreateTimeBasedInflation_ValidateBasic S msg =
     rbind (tk_address_ok S (tbi_Authority msg)) (\<lambda>_.
     if tbi_EndBlockHeight msg \<le> tbi_StartBlockHeight msg then Inl sdk_ErrInvalidRequest
     else if tbi_Description msg = [] then Inl sdk_ErrInvalidRequest
     else validateInflationEntry (tbi_Inflation msg))"

definition MsgUpdateTimeBasedInflation_ValidateBasic :: "sdk \<Rightarrow> TimeBasedInflation \<Rightarrow> unit result" where
  "MsgUpdateTimeBasedInflation_ValidateBasic S msg =
     rbind (tk_address_ok S (tbi_Authority msg)) (\<lambda>_.
     if tbi_StartBlockHeight msg \<le> 0 then Inl sdk_ErrInvalidRequest
     else if tbi_EndBlockHeight msg \<le> tbi_StartBlockHeight msg then Inl sdk_ErrInvalidRequest
     else if tbi_Description msg = [] then Inl sdk_ErrInvalidRequest
     else if tbi_Inflation msg = None then Inl sdk_ErrInvalidRequest
     else validateInflationEntry (tbi_Inflation msg))"

definition MsgDeleteTimeBasedInflation_ValidateBasic :: "sdk \<Rightarrow> string \<Rightarrow> int \<Rightarrow> int \<Rightarrow> unit result" where
  "MsgDeleteTimeBasedInflation_ValidateBasic S msg_Authority msg_Start msg_End =
     rbind (tk_address_ok S msg_Authority) (\<lambda>_.
     if msg_Start \<le> 0 then Inl sdk_ErrInvalidRequest
     else if msg_End \<le> msg_Start then Inl sdk_ErrInvalidRequest
     else Inr ())"

text \<open>The checks on the inflation entry are repeated here in the code, in the same order.\<close>

definition MsgUpdateGenesisInflation_ValidateBasic :: "sdk \<Rightarrow> GenesisInflation \<Rightarrow> unit result" where
  "MsgUpdateGenesisInflation_ValidateBasic S msg =
     rbind (tk_address_ok S (gi_Authority msg)) (\<lambda>_.
     rbind (validateInflationEntry (gi_Inflation msg)) (\<lambda>_.
     if gi_SeedVesting msg \<le> 0 then Inl sdk_ErrInvalidRequest
     else if gi_StrategicSalesVesting msg \<le> 0 then Inl sdk_ErrInvalidRequest
     else Inr ()))"

section \<open>Genesis and queries\<close>

record tk_genesis_state =
  tg_AirdropList :: "Airdrop list"
  tg_GenesisInflation :: "GenesisInflation option"
  tg_TimeBasedInflationList :: "TimeBasedInflation list"

definition tk_DefaultGenesis :: tk_genesis_state where
  "tk_DefaultGenesis =
     \<lparr>tg_AirdropList = [], tg_GenesisInflation = None, tg_TimeBasedInflationList = []\<rparr>"

definition tk_InitGenesis :: "tk_genesis_state \<Rightarrow> 'e tkstate \<Rightarrow> 'e tkstate" where
  "tk_InitGenesis g s =
     (let s1 = fold SetAirdrop (tg_AirdropList g) s;
          s2 = (case tg_GenesisInflation g of None \<Rightarrow> s1 | Some i \<Rightarrow> SetGenesisInflation i s1)
      in fold SetTimeBasedInflation (tg_TimeBasedInflationList g) s2)"

definition tk_ExportGenesis :: "'e tkstate \<Rightarrow> tk_genesis_state" where
  "tk_ExportGenesis s =
     tk_DefaultGenesis\<lparr>tg_AirdropList := GetAllAirdrop s,
       tg_GenesisInflation := GetGenesisInflation s,
       tg_TimeBasedInflationList := GetAllTimeBasedInflation s\<rparr>"

definition tk_genesis_Validate :: "tk_genesis_state \<Rightarrow> unit result" where
  "tk_genesis_Validate gs =
     (if \<not> distinct (map (\<lambda>a. AirdropKey (air_Intent a)) (tg_AirdropList gs))
      then Inl (Plain ''duplicated index for airdrop'')
      else if \<not> distinct (map (\<lambda>t. TimeBasedInflationKey (tbi_StartBlockHeight t) (tbi_EndBlockHeight t))
                (tg_TimeBasedInflationList gs))
      then Inl (Plain ''duplicated index for timeBasedInflation'')
      else Inr ())"

text \<open>The queries for one item; the request is never nil over gRPC.\<close>

definition grpc_NotFound :: err where
  "grpc_NotFound = Sentinel ''grpc'' 5"

definition query_Airdrop :: "'e tkstate \<Rightarrow> string \<Rightarrow> Airdrop result" where
  "query_Airdrop s intent =
     (case GetAirdrop s intent of None \<Rightarrow> Inl grpc_NotFound | Some val \<Rightarrow> Inr val)"

definition query_TimeBasedInflation :: "'e tkstate \<Rightarrow> int \<Rightarrow> int \<Rightarrow> TimeBasedInflation result" where
  "query_TimeBasedInflation s startBlockHeight endBlockHeight =
     (case GetTimeBasedInflation s startBlockHeight endBlockHeight of
        None \<Rightarrow> Inl grpc_NotFound | Some val \<Rightarrow> Inr val)"

definition query_GenesisInflation :: "'e tkstate \<Rightarrow> GenesisInflation result" where
  "query_GenesisInflation s =
     (case GetGenesisInflation s of None \<Rightarrow> Inl grpc_NotFound | Some val \<Rightarrow> Inr val)"

definition V2Migration :: "'e tkstate \<Rightarrow> 'e tkstate" where
  "V2Migration s = SetGenesisInflation
     \<lparr>gi_Inflation = Some \<lparr>ie_LmRewards = 0, ie_IcsStakingRewards = 0,
        ie_CommunityFund = 9750000000000, ie_StrategicReserve = 18750000000000,
        ie_TeamTokensVested = 0\<rparr>,
      gi_SeedVesting = 6000000000000, gi_StrategicSalesVesting = 180000000000000,
      gi_Authority = ''elys10d07y265gmmuvt4z0w9aw880jnsr700j6z2zm3''\<rparr> s"

end
