(* ===== verification/TokenomicsProps.thy ===== *)
theory TokenomicsProps
  imports Tokenomics CommitmentProps
begin

text \<open>
  Who can claim an airdrop of the tokenomics module, over runs of all its messages, and what a
  claim does to the commitments it writes.
\<close>

datatype tk_msg =
    MCreateAirdrop Airdrop
  | MUpdateAirdrop Airdrop
  | MDeleteAirdrop string string
  | MClaimAirdrop block_ctx string
  | MCreateTimeBasedInflation TimeBasedInflation
  | MUpdateTimeBasedInflation TimeBasedInflation
  | MDeleteTimeBasedInflation string int int
  | MUpdateGenesisInflation GenesisInflation

fun tk_handle :: "'e tkkeeper \<Rightarrow> tk_msg \<Rightarrow> 'e tkstate \<Rightarrow> 'e tkstate result" where
  "tk_handle k (MCreateAirdrop m) s = CreateAirdrop k m s"
| "tk_handle k (MUpdateAirdrop m) s = UpdateAirdrop k m s"
| "tk_handle k (MDeleteAirdrop a i) s = DeleteAirdrop k a i s"
| "tk_handle k (MClaimAirdrop ctx a) s = tk_ClaimAirdrop k ctx a s"
| "tk_handle k (MCreateTimeBasedInflation m) s = CreateTimeBasedInflation k m s"
| "tk_handle k (MUpdateTimeBasedInflation m) s = UpdateTimeBasedInflation k m s"
| "tk_handle k (MDeleteTimeBasedInflation a x y) s = DeleteTimeBasedInflation k a x y s"
| "tk_handle k (MUpdateGenesisInflation m) s = UpdateGenesisInflation k m s"

section \<open>The stored airdrops\<close>

text \<open>Every airdrop lies under its own intent and is owned by the governance authority.\<close>

definition airdrops_owned :: "'e tkkeeper \<Rightarrow> 'e tkstate \<Rightarrow> bool" where
  "airdrops_owned k s \<longleftrightarrow>
     (\<forall>i a. GetAirdrop s i = Some a \<longrightarrow> air_Intent a = i \<and> air_Authority a = tk_authority k)"

lemma AirdropKey_inject [simp]: "AirdropKey a = AirdropKey b \<longleftrightarrow> a = b"
  by (simp add: AirdropKey_def)

lemma GetAirdrop_Set [simp]:
  "GetAirdrop (SetAirdrop a s) i = (if i = air_Intent a then Some a else GetAirdrop s i)"
  by (simp add: GetAirdrop_def SetAirdrop_def kv_get_set)

lemma GetAirdrop_Remove [simp]:
  "GetAirdrop (RemoveAirdrop j s) i = (if i = j then None else GetAirdrop s i)"
  by (simp add: GetAirdrop_def RemoveAirdrop_def kv_get_del)

lemma GetAirdrop_frames [simp]:
  "GetAirdrop (SetTimeBasedInflation t s) i = GetAirdrop s i"
  "GetAirdrop (RemoveTimeBasedInflation x y s) i = GetAirdrop s i"
  "GetAirdrop (SetGenesisInflation g s) i = GetAirdrop s i"
  "GetAirdrop (s\<lparr>tk_cs := c\<rparr>) i = GetAirdrop s i"
  by (simp_all add: GetAirdrop_def SetTimeBasedInflation_def RemoveTimeBasedInflation_def
      SetGenesisInflation_def)

lemma tk_cs_frames [simp]:
  "tk_cs (SetAirdrop a s) = tk_cs s"
  "tk_cs (RemoveAirdrop i s) = tk_cs s"
  "tk_cs (SetTimeBasedInflation t s) = tk_cs s"
  "tk_cs (RemoveTimeBasedInflation x y s) = tk_cs s"
  "tk_cs (SetGenesisInflation g s) = tk_cs s"
  by (simp_all add: SetAirdrop_def RemoveAirdrop_def SetTimeBasedInflation_def
      RemoveTimeBasedInflation_def SetGenesisInflation_def)

lemmas tk_msg_defs = CreateAirdrop_def UpdateAirdrop_def DeleteAirdrop_def
  CreateTimeBasedInflation_def UpdateTimeBasedInflation_def DeleteTimeBasedInflation_def
  UpdateGenesisInflation_def

text \<open>A claim, when it succeeds: whose it is, and what it writes.\<close>

lemma ClaimAirdrop_Inr:
  assumes "sdk_laws (k_sdk (tk_commitment k))" and "store_inv (tk_commitment k) (tk_cs s)"
    and "tk_ClaimAirdrop k ctx x s = Inr t"
  obtains a air where "GetAirdrop s x = Some air" "air_Authority air = x"
    "Unix (BlockTime ctx) \<le> i64 (air_Expiry air)" "0 \<le> i64 (air_Amount air)"
    "denom_ok (k_sdk (tk_commitment k)) Eden"
    "AccAddressFromBech32 (k_sdk (tk_commitment k)) x = Inr a"
    "t = RemoveAirdrop x (s\<lparr>tk_cs := put_commitments a
       (AddClaimed (k_sdk (tk_commitment k)) \<lparr>Denom = Eden, Amount = i64 (air_Amount air)\<rparr>
         (GetCommitments (tk_commitment k) (tk_cs s) a)) (tk_cs s)\<rparr>)"
proof -
  let ?ck = "tk_commitment k"
  obtain air a cs where r: "GetAirdrop s x = Some air" "air_Authority air = x"
      "Unix (BlockTime ctx) \<le> i64 (air_Expiry air)" "0 \<le> i64 (air_Amount air)" "denom_ok (k_sdk ?ck) Eden"
      "AccAddressFromBech32 (k_sdk ?ck) x = Inr a"
    and set: "SetCommitments ?ck (AddClaimed (k_sdk ?ck) \<lparr>Denom = Eden, Amount = i64 (air_Amount air)\<rparr>
         (GetCommitments ?ck (tk_cs s) a)) (tk_cs s) = Inr cs"
    and t: "t = RemoveAirdrop x (s\<lparr>tk_cs := cs\<rparr>)"
    using assms(3)
    by (auto simp: tk_ClaimAirdrop_def MustAccAddress_def NewCoin_Inr [OF assms(1)] Let_def
        split: option.splits if_splits sum.splits)
  have "AccAddressFromBech32 (k_sdk ?ck) (cm_Creator (GetCommitments ?ck (tk_cs s) a)) = Inr a"
    using GetCommitments_ok [OF assms(1,2)] by (simp add: entry_ok_def)
  then have "cs = put_commitments a (AddClaimed (k_sdk ?ck) \<lparr>Denom = Eden, Amount = i64 (air_Amount air)\<rparr>
         (GetCommitments ?ck (tk_cs s) a)) (tk_cs s)"
    using set by (simp add: SetCommitments_ok)
  then show ?thesis using r t that by blast
qed

section \<open>The invariant of a run\<close>

text \<open>Airdrops stay the authority's, the commitments stay well formed, and against a state at the
  start only the authority's own account has gained, in Eden alone.\<close>

definition only_authority_gains :: "'e tkkeeper \<Rightarrow> 'e cstate \<Rightarrow> 'e tkstate \<Rightarrow> bool" where
  "only_authority_gains k cs0 s \<longleftrightarrow>
     (\<forall>a. AccAddressFromBech32 (k_sdk (tk_commitment k)) (tk_authority k) \<noteq> Inr a \<longrightarrow>
        GetCommitments (tk_commitment k) (tk_cs s) a = GetCommitments (tk_commitment k) cs0 a) \<and>
     (\<forall>a d. GetClaimedForDenom (GetCommitments (tk_commitment k) cs0 a) d
          \<le> GetClaimedForDenom (GetCommitments (tk_commitment k) (tk_cs s) a) d \<and>
        (d \<noteq> Eden \<longrightarrow> GetClaimedForDenom (GetCommitments (tk_commitment k) (tk_cs s) a) d =
           GetClaimedForDenom (GetCommitments (tk_commitment k) cs0 a) d))"

definition tk_inv :: "'e tkkeeper \<Rightarrow> 'e cstate \<Rightarrow> 'e tkstate \<Rightarrow> bool" where
  "tk_inv k cs0 s \<longleftrightarrow> sdk_laws (k_sdk (tk_commitment k)) \<and> airdrops_owned k s \<and>
     store_inv (tk_commitment k) (tk_cs s) \<and> only_authority_gains k cs0 s"

lemma tk_inv_claim:
  assumes "tk_inv k cs0 s" and "tk_ClaimAirdrop k ctx x s = Inr t"
  shows "tk_inv k cs0 t"
proof -
  let ?ck = "tk_commitment k"
  have laws: "sdk_laws (k_sdk ?ck)" and inv: "store_inv ?ck (tk_cs s)"
    using assms(1) by (simp_all add: tk_inv_def)
  obtain a air where r: "GetAirdrop s x = Some air" "air_Authority air = x" "0 \<le> i64 (air_Amount air)"
      "denom_ok (k_sdk ?ck) Eden" "AccAddressFromBech32 (k_sdk ?ck) x = Inr a"
    and t: "t = RemoveAirdrop x (s\<lparr>tk_cs := put_commitments a
       (AddClaimed (k_sdk ?ck) \<lparr>Denom = Eden, Amount = i64 (air_Amount air)\<rparr>
         (GetCommitments ?ck (tk_cs s) a)) (tk_cs s)\<rparr>)"
    using ClaimAirdrop_Inr [OF laws inv assms(2)] by metis
  note add = AddClaimed_ok [OF laws GetCommitments_ok [OF laws inv, of a] r(4,3)]
  have x: "x = tk_authority k" using assms(1) r(1,2) by (simp add: tk_inv_def airdrops_owned_def)
  have "airdrops_owned k t" using assms(1) by (auto simp: t tk_inv_def airdrops_owned_def split: if_splits)
  moreover have "store_inv ?ck (tk_cs t)" by (simp add: t store_inv_put [OF inv add(1)])
  moreover have "only_authority_gains k cs0 t"
    using assms(1) r(5) r(3) by (auto simp: tk_inv_def only_authority_gains_def t GetCommitments_put add(2) x
        intro: add_increasing2)
  ultimately show ?thesis using laws by (simp add: tk_inv_def)
qed

lemma tk_inv_writes:
  "tk_inv k cs0 s \<Longrightarrow> air_Authority a = tk_authority k \<Longrightarrow> tk_inv k cs0 (SetAirdrop a s)"
  "tk_inv k cs0 s \<Longrightarrow> tk_inv k cs0 (RemoveAirdrop i s)"
  "tk_inv k cs0 s \<Longrightarrow> tk_inv k cs0 (SetTimeBasedInflation t s)"
  "tk_inv k cs0 s \<Longrightarrow> tk_inv k cs0 (RemoveTimeBasedInflation x y s)"
  "tk_inv k cs0 s \<Longrightarrow> tk_inv k cs0 (SetGenesisInflation g s)"
  by (auto simp: tk_inv_def airdrops_owned_def only_authority_gains_def split: if_splits)

lemma tk_inv_step:
  assumes "tk_inv k cs0 s" and "tk_handle k m s = Inr t"
  shows "tk_inv k cs0 t"
proof (cases m)
  case (MClaimAirdrop ctx x)
  then show ?thesis using assms tk_inv_claim by simp
qed (use assms in \<open>auto simp: tk_msg_defs tk_inv_writes split: if_splits option.splits\<close>)

interpretation tk_run: invariant_step "tk_handle k" "tk_inv k cs0" for k cs0
  by unfold_locales (rule tk_inv_step)

section \<open>The property\<close>

text \<open>C37: in a state whose airdrops all belong to the governance authority, as every airdrop does
  that a message registers, no run of messages lets anybody else claim one: every claim by another
  sender fails, no other account's commitments change, and the authority's claimed Eden is all
  that grows. A claim of the authority itself pays exactly the amount, read as a signed integer,
  and only once.\<close>

theorem airdrops_only_reach_authority:
  assumes "sdk_laws (k_sdk (tk_commitment k))" and "store_inv (tk_commitment k) (tk_cs s)"
    and "airdrops_owned k s" and "t = run_ops (tk_handle k) ms s"
  shows "(x \<noteq> tk_authority k \<longrightarrow> \<not> is_ok (tk_ClaimAirdrop k ctx x t)) \<and>
    (AccAddressFromBech32 (k_sdk (tk_commitment k)) (tk_authority k) \<noteq> Inr b \<longrightarrow>
      GetCommitments (tk_commitment k) (tk_cs t) b = GetCommitments (tk_commitment k) (tk_cs s) b) \<and>
    (d \<noteq> Eden \<longrightarrow> GetClaimedForDenom (GetCommitments (tk_commitment k) (tk_cs t) b) d =
       GetClaimedForDenom (GetCommitments (tk_commitment k) (tk_cs s) b) d) \<and>
    (\<forall>u. tk_ClaimAirdrop k ctx x t = Inr u \<longrightarrow>
       \<not> is_ok (tk_ClaimAirdrop k ctx' x u) \<and>
       (\<exists>a air. AccAddressFromBech32 (k_sdk (tk_commitment k)) x = Inr a \<and> GetAirdrop t x = Some air \<and>
          Unix (BlockTime ctx) \<le> i64 (air_Expiry air) \<and>
          GetClaimedForDenom (GetCommitments (tk_commitment k) (tk_cs u) a) Eden =
            GetClaimedForDenom (GetCommitments (tk_commitment k) (tk_cs t) a) Eden + i64 (air_Amount air)))"
proof -
  let ?ck = "tk_commitment k"
  have "tk_inv k (tk_cs s) s" using assms by (simp add: tk_inv_def only_authority_gains_def)
  then have t: "tk_inv k (tk_cs s) t" unfolding assms(4) by (rule tk_run.run_inv)
  then have inv: "store_inv ?ck (tk_cs t)" by (simp add: tk_inv_def)
  have once: "\<not> is_ok (tk_ClaimAirdrop k ctx' x u) \<and> (\<exists>a air. AccAddressFromBech32 (k_sdk ?ck) x = Inr a \<and>
      GetAirdrop t x = Some air \<and> Unix (BlockTime ctx) \<le> i64 (air_Expiry air) \<and>
      GetClaimedForDenom (GetCommitments ?ck (tk_cs u) a) Eden =
        GetClaimedForDenom (GetCommitments ?ck (tk_cs t) a) Eden + i64 (air_Amount air))"
    if claim: "tk_ClaimAirdrop k ctx x t = Inr u" for u
  proof -
    obtain a air where r: "GetAirdrop t x = Some air" "AccAddressFromBech32 (k_sdk ?ck) x = Inr a"
        "Unix (BlockTime ctx) \<le> i64 (air_Expiry air)" "0 \<le> i64 (air_Amount air)" "denom_ok (k_sdk ?ck) Eden"
      and u: "u = RemoveAirdrop x (t\<lparr>tk_cs := put_commitments a
       (AddClaimed (k_sdk ?ck) \<lparr>Denom = Eden, Amount = i64 (air_Amount air)\<rparr>
         (GetCommitments ?ck (tk_cs t) a)) (tk_cs t)\<rparr>)"
      using ClaimAirdrop_Inr [OF assms(1) inv claim] by metis
    have "\<not> is_ok (tk_ClaimAirdrop k ctx' x u)" by (simp add: tk_ClaimAirdrop_def u)
    then show ?thesis
      using r AddClaimed_ok(2) [OF assms(1) GetCommitments_ok [OF assms(1) inv, of a] r(5,4)]
      by (auto simp: u GetCommitments_put)
  qed
  have "x \<noteq> tk_authority k \<Longrightarrow> \<not> is_ok (tk_ClaimAirdrop k ctx x t)"
    using t by (auto simp: tk_inv_def airdrops_owned_def is_ok_iff tk_ClaimAirdrop_def
        split: option.splits if_splits)
  then show ?thesis using once t unfolding tk_inv_def only_authority_gains_def by blast
qed

text \<open>The authority registers an airdrop for \<open>alice\<close>, who cannot claim it, and one for itself.\<close>

definition tk_gov :: "ledger tkkeeper" where
  "tk_gov = \<lparr>tk_commitment = std_keeper, tk_authority = ''gov''\<rparr>"

definition tk_empty :: "ledger tkstate" where
  "tk_empty = \<lparr>tk_airdrops = [], tk_inflations = [], tk_genesis = None, tk_cs = sample_state\<rparr>"

definition tk_sample_run :: "tk_msg list" where
  "tk_sample_run =
     [MCreateAirdrop \<lparr>air_Intent = ''alice'', air_Amount = 70, air_Authority = ''gov'', air_Expiry = 900\<rparr>,
      MCreateAirdrop \<lparr>air_Intent = ''gov'', air_Amount = 30, air_Authority = ''gov'', air_Expiry = 900\<rparr>]"

lemma tk_sample_state:
  "GetAirdrop (run_ops (tk_handle tk_gov) tk_sample_run tk_empty) i =
     (if i = ''gov'' then Some \<lparr>air_Intent = ''gov'', air_Amount = 30, air_Authority = ''gov'', air_Expiry = 900\<rparr>
      else if i = ''alice'' then Some \<lparr>air_Intent = ''alice'', air_Amount = 70, air_Authority = ''gov'', air_Expiry = 900\<rparr>
      else None)"
  "tk_cs (run_ops (tk_handle tk_gov) tk_sample_run tk_empty) = sample_state"
  by (simp_all add: tk_sample_run_def CreateAirdrop_def tk_gov_def)
    (simp_all add: tk_empty_def GetAirdrop_def)

theorem airdrops_only_reach_authority_witness:
  "\<exists>t u. t = run_ops (tk_handle tk_gov) tk_sample_run tk_empty \<and>
     GetAirdrop t ''alice'' \<noteq> None \<and> \<not> is_ok (tk_ClaimAirdrop tk_gov (at_height 5) ''alice'' t) \<and>
     tk_ClaimAirdrop tk_gov (at_height 5) ''gov'' t = Inr u \<and>
     GetClaimedForDenom (GetCommitments std_keeper (tk_cs u) ''gov'') Eden = 30"
proof -
  let ?t = "run_ops (tk_handle tk_gov) tk_sample_run tk_empty"
  have laws: "sdk_laws (k_sdk (tk_commitment tk_gov))" "store_inv (tk_commitment tk_gov) (tk_cs tk_empty)"
      "airdrops_owned tk_gov tk_empty"
    using sample_state_inv
    by (simp_all add: tk_gov_def tk_empty_def std_sdk_laws airdrops_owned_def GetAirdrop_def)
  note A = airdrops_only_reach_authority [OF laws refl, of _ _ tk_sample_run]
  have "\<not> is_ok (tk_ClaimAirdrop tk_gov (at_height 5) ''alice'' ?t)"
    using A [of "''alice''" "at_height 5"] by (simp add: tk_gov_def)
  moreover have "is_ok (tk_ClaimAirdrop tk_gov (at_height 5) ''gov'' ?t)"
    by (simp add: tk_ClaimAirdrop_def tk_sample_state)
      (simp add: tk_gov_def at_height_def Unix_def i64_def is_ok_iff SetCommitments_Inr MustAccAddress_def
        std_new_coin_def Eden_def GetCommitments_def sample_state_def kv_get_def)
  then obtain u where u: "tk_ClaimAirdrop tk_gov (at_height 5) ''gov'' ?t = Inr u" by (auto simp: is_ok_iff)
  moreover have "GetClaimedForDenom (GetCommitments std_keeper (tk_cs u) ''gov'') Eden = 30"
  proof -
    have "AccAddressFromBech32 (k_sdk (tk_commitment tk_gov)) ''gov'' = Inr ''gov''" by (simp add: tk_gov_def)
    then have "GetClaimedForDenom (GetCommitments (tk_commitment tk_gov) (tk_cs u) ''gov'') Eden =
        GetClaimedForDenom (GetCommitments (tk_commitment tk_gov) sample_state ''gov'') Eden + i64 30"
      using A [of "''gov''" "at_height 5", THEN conjunct2, THEN conjunct2, THEN conjunct2, rule_format, OF u]
      by (auto simp: tk_sample_state)
    then show ?thesis by (simp add: tk_gov_def i64_def GetCommitments_def sample_state_def kv_get_def
        GetClaimedForDenom_def)
  qed
  ultimately show ?thesis by (auto simp: tk_sample_state)
qed

end
