(* ===== verification/Burner.thy ===== *)
theory Burner
  imports CommitmentMsgs Epochs
begin

text \<open>
  The burner module (x/burner): at the end of the epoch its parameter names, it burns what the
  zero address holds in the denominations the bank has metadata of, and records what it burned
  under the block's height.
\<close>

section \<open>Data and store\<close>

record History =
  hi_Block :: int
  hi_BurnedCoins :: coins

text \<open>The parameters are the epoch's identifier. Histories lie under their blocks in big endian.\<close>

record BurnerParams =
  bp_EpochIdentifier :: string

record 'e bstate =
  bu_params :: "BurnerParams option"
  bu_history :: "(int, History) kvs"
  bu_ext :: 'e

text \<open>The expected bank keeper; \<open>bk_DenomMetaData\<close> lists the base denominations that
  \<open>IterateAllDenomMetaData\<close> visits.\<close>

record 'e bkeeper =
  bk_sdk :: sdk
  bk_bank :: "'e bank"
  bk_DenomMetaData :: "'e \<Rightarrow> string list"
  bk_authority :: string

definition bu_ModuleName :: string where
  "bu_ModuleName = ''burner''"

definition ErrInvalidEpochIdentifier :: err where
  "ErrInvalidEpochIdentifier = Sentinel ''burner'' 1"

definition GetZeroAddress :: addr where
  "GetZeroAddress = replicate 20 (CHR 0x00)"

section \<open>The keeper\<close>

definition bu_GetParams :: "'e bstate \<Rightarrow> BurnerParams" where
  "bu_GetParams s = (case bu_params s of None \<Rightarrow> \<lparr>bp_EpochIdentifier = []\<rparr> | Some p \<Rightarrow> p)"

definition bu_SetParams :: "BurnerParams \<Rightarrow> 'e bstate \<Rightarrow> 'e bstate" where
  "bu_SetParams p s = s\<lparr>bu_params := Some p\<rparr>"

definition GetHistoryKey :: "int \<Rightarrow> int" where
  "GetHistoryKey block = block"

definition SetHistory :: "History \<Rightarrow> 'e bstate \<Rightarrow> 'e bstate" where
  "SetHistory history s =
     s\<lparr>bu_history := kv_set (GetHistoryKey (hi_Block history)) history (bu_history s)\<rparr>"

definition GetHistory :: "'e bstate \<Rightarrow> int \<Rightarrow> History option" where
  "GetHistory s block = kv_get (bu_history s) (GetHistoryKey block)"

definition RemoveHistory :: "int \<Rightarrow> 'e bstate \<Rightarrow> 'e bstate" where
  "RemoveHistory block s = s\<lparr>bu_history := kv_del (GetHistoryKey block) (bu_history s)\<rparr>"

definition GetAllHistory :: "'e bstate \<Rightarrow> History list" where
  "GetAllHistory s = map snd (bu_history s)"

definition ShouldBurnTokens :: "'e bstate \<Rightarrow> string \<Rightarrow> bool" where
  "ShouldBurnTokens s epochIdentifier \<longleftrightarrow> epochIdentifier = bp_EpochIdentifier (bu_GetParams s)"

text \<open>The callback of the iteration adds what the zero address holds to \<open>coinsToBurn\<close>.\<close>

fun coins_to_burn :: "'e bkeeper \<Rightarrow> 'e \<Rightarrow> string list \<Rightarrow> coins \<Rightarrow> coins" where
  "coins_to_burn k e [] coinsToBurn = coinsToBurn"
| "coins_to_burn k e (base # bs) coinsToBurn =
     (let balance = BkBalance (bk_bank k) GetZeroAddress base e
      in coins_to_burn k e bs
           (if 0 < balance then CoinsAdd (bk_sdk k) coinsToBurn [\<lparr>Denom = base, Amount = balance\<rparr>]
            else coinsToBurn))"

definition BurnTokensForAllDenoms :: "'e bkeeper \<Rightarrow> block_ctx \<Rightarrow> 'e bstate \<Rightarrow> 'e bstate result" where
  "BurnTokensForAllDenoms k ctx s =
     (let coinsToBurn = coins_to_burn k (bu_ext s) (bk_DenomMetaData k (bu_ext s)) []
      in if \<not> list_all (\<lambda>c. Amount c = 0) coinsToBurn
         then rbind (BkAccToMod (bk_bank k) GetZeroAddress bu_ModuleName coinsToBurn (bu_ext s)) (\<lambda>e1.
              rbind (BkBurn (bk_bank k) bu_ModuleName coinsToBurn e1) (\<lambda>e2.
              Inr (SetHistory \<lparr>hi_Block = u64 (BlockHeight ctx), hi_BurnedCoins = coinsToBurn\<rparr>
                    (s\<lparr>bu_ext := e2\<rparr>))))
         else Inr s)"

definition bu_AfterEpochEnd ::
    "'e bkeeper \<Rightarrow> block_ctx \<Rightarrow> string \<Rightarrow> int \<Rightarrow> 'e bstate \<Rightarrow> 'e bstate result" where
  "bu_AfterEpochEnd k ctx epochIdentifier n s =
     (if \<not> ShouldBurnTokens s epochIdentifier then Inr s else BurnTokensForAllDenoms k ctx s)"

definition bu_BeforeEpochStart :: "string \<Rightarrow> int \<Rightarrow> 'e bstate \<Rightarrow> 'e bstate result" where
  "bu_BeforeEpochStart epochIdentifier n s = Inr s"

text \<open>The wrapper \<open>Hooks\<close> that the epochs module gets, in the block it runs in.\<close>

definition burner_Hooks :: "'e bkeeper \<Rightarrow> block_ctx \<Rightarrow> 'e bstate epoch_hooks" where
  "burner_Hooks k ctx =
     \<lparr>eh_AfterEpochEnd = bu_AfterEpochEnd k ctx, eh_BeforeEpochStart = bu_BeforeEpochStart\<rparr>"

section \<open>Messages, validation, genesis\<close>

definition bu_UpdateParams ::
    "'e bkeeper \<Rightarrow> string \<Rightarrow> BurnerParams \<Rightarrow> 'e bstate \<Rightarrow> 'e bstate result" where
  "bu_UpdateParams k msg_Authority msg_Params s =
     (if bk_authority k \<noteq> msg_Authority then Inl gov_ErrInvalidSigner
      else if bp_EpochIdentifier msg_Params = [] then Inl ErrInvalidEpochIdentifier
      else Inr (bu_SetParams ((bu_GetParams s)\<lparr>bp_EpochIdentifier := bp_EpochIdentifier msg_Params\<rparr>) s))"

definition BurnerParams_Validate :: "BurnerParams \<Rightarrow> unit result" where
  "BurnerParams_Validate p =
     (if bp_EpochIdentifier p = [] then Inl (Plain ''epoch_identifier is required'') else Inr ())"

definition bu_DefaultParams :: BurnerParams where
  "bu_DefaultParams = \<lparr>bp_EpochIdentifier = ''epoch_identifier''\<rparr>"

definition bu_MsgUpdateParams_ValidateBasic :: "sdk \<Rightarrow> string \<Rightarrow> BurnerParams \<Rightarrow> unit result" where
  "bu_MsgUpdateParams_ValidateBasic S msg_Authority msg_Params =
     (case AccAddressFromBech32 S msg_Authority of
        Inl e \<Rightarrow> Inl sdk_ErrInvalidAddress
      | Inr _ \<Rightarrow> BurnerParams_Validate msg_Params)"

definition bu_InitGenesis :: "History list \<Rightarrow> BurnerParams \<Rightarrow> 'e bstate \<Rightarrow> 'e bstate" where
  "bu_InitGenesis historyList params s = bu_SetParams params (fold SetHistory historyList s)"

definition bu_ExportGenesis :: "'e bstate \<Rightarrow> History list \<times> BurnerParams" where
  "bu_ExportGenesis s = (GetAllHistory s, bu_GetParams s)"

definition bu_genesis_Validate :: "History list \<Rightarrow> BurnerParams \<Rightarrow> unit result" where
  "bu_genesis_Validate historyList params =
     (if \<not> distinct (map hi_Block historyList) then Inl (Plain ''duplicated index for history'')
      else BurnerParams_Validate params)"

section \<open>What one burn does\<close>

text \<open>The metadata the burner reads: valid denominations, each once, whatever the ledger; no
  balance is negative; and the zero address is not the module's.\<close>

definition burner_laws :: "'e bkeeper \<Rightarrow> string list \<Rightarrow> bool" where
  "burner_laws k ds \<longleftrightarrow> sdk_laws (bk_sdk k) \<and> bank_laws (bk_sdk k) (bk_bank k) \<and>
     (\<forall>e. bk_DenomMetaData k e = ds) \<and> distinct ds \<and> (\<forall>d\<in>set ds. denom_ok (bk_sdk k) d) \<and>
     NewModuleAddress (bk_sdk k) bu_ModuleName \<noteq> GetZeroAddress"

lemma coins_to_burn_amount:
  assumes "sdk_laws (bk_sdk k)" "coins_ok (bk_sdk k) cs" "distinct ds" "\<forall>d\<in>set ds. denom_ok (bk_sdk k) d"
  shows "coins_ok (bk_sdk k) (coins_to_burn k e ds cs) \<and>
    AmountOf (bk_sdk k) (coins_to_burn k e ds cs) d = AmountOf (bk_sdk k) cs d +
      (if d \<in> set ds then max 0 (BkBalance (bk_bank k) GetZeroAddress d e) else 0)"
  using assms(2-4)
proof (induction ds arbitrary: cs)
  case Nil
  then show ?case by simp
next
  case (Cons b bs)
  let ?cs = "if 0 < BkBalance (bk_bank k) GetZeroAddress b e
    then CoinsAdd (bk_sdk k) cs [\<lparr>Denom = b, Amount = BkBalance (bk_bank k) GetZeroAddress b e\<rparr>] else cs"
  have "coins_ok (bk_sdk k) ?cs"
    using Cons.prems by (simp add: coins_ok_add1 [OF assms(1)])
  note IH = Cons.IH [OF this]
  show ?case using IH Cons.prems by (auto simp: Let_def AmountOf_add1 [OF assms(1)])
qed

definition zero_empty :: "'e bkeeper \<Rightarrow> string list \<Rightarrow> 'e \<Rightarrow> bool" where
  "zero_empty k ds e \<longleftrightarrow> (\<forall>d\<in>set ds. BkBalance (bk_bank k) GetZeroAddress d e \<le> 0)"

text \<open>Between two ledgers only the zero address has changed, and only in listed denominations.\<close>

definition only_zero_changed :: "'e bkeeper \<Rightarrow> string list \<Rightarrow> 'e \<Rightarrow> 'e \<Rightarrow> bool" where
  "only_zero_changed k ds e e' \<longleftrightarrow>
     (\<forall>x d. x \<noteq> GetZeroAddress \<or> d \<notin> set ds \<longrightarrow> BkBalance (bk_bank k) x d e' = BkBalance (bk_bank k) x d e)"

lemma coins_zero_iff:
  assumes "sdk_laws S" "coins_ok S cs"
  shows "list_all (\<lambda>c. Amount c = 0) cs \<longleftrightarrow> cs = []"
  using coins_ok_list(2) [OF assms] by (cases cs) fastforce+

lemma BurnTokens_Inr:
  assumes "burner_laws k ds" and "BurnTokensForAllDenoms k ctx s = Inr t"
  shows "zero_empty k ds (bu_ext t)" and "only_zero_changed k ds (bu_ext s) (bu_ext t)"
    and "bu_params t = bu_params s"
proof -
  let ?S = "bk_sdk k" and ?B = "bk_bank k"
  have laws: "sdk_laws ?S" "bank_laws ?S ?B" "bk_DenomMetaData k (bu_ext s) = ds" "distinct ds"
      "\<forall>d\<in>set ds. denom_ok ?S d" "NewModuleAddress ?S bu_ModuleName \<noteq> GetZeroAddress"
    using assms(1) by (simp_all add: burner_laws_def)
  define cs where "cs = coins_to_burn k (bu_ext s) ds []"
  have ok: "coins_ok ?S cs" and amt: "AmountOf ?S cs d =
      (if d \<in> set ds then max 0 (BkBalance ?B GetZeroAddress d (bu_ext s)) else 0)" for d
    using coins_to_burn_amount [OF laws(1) coins_ok_Nil [OF laws(1)] laws(4,5)]
    by (simp_all add: cs_def AmountOf_Nil [OF laws(1)])
  show "zero_empty k ds (bu_ext t)" "only_zero_changed k ds (bu_ext s) (bu_ext t)" "bu_params t = bu_params s"
  proof -
    consider (none) "cs = []" "t = s"
      | (some) e1 where "BkAccToMod ?B GetZeroAddress bu_ModuleName cs (bu_ext s) = Inr e1"
          "BkBurn ?B bu_ModuleName cs e1 = Inr (bu_ext t)" "bu_params t = bu_params s"
      using assms(2)
      by (auto simp: BurnTokensForAllDenoms_def Let_def laws(3) cs_def [symmetric] SetHistory_def
          coins_zero_iff [OF laws(1) ok] split: if_splits)
    then have "zero_empty k ds (bu_ext t) \<and> only_zero_changed k ds (bu_ext s) (bu_ext t) \<and>
        bu_params t = bu_params s"
    proof cases
      case none
      have "AmountOf ?S cs d = 0" for d using none(1) AmountOf_Nil [OF laws(1)] by simp
      then have "max 0 (BkBalance ?B GetZeroAddress d (bu_ext s)) = 0" if "d \<in> set ds" for d
        using amt [of d] that by metis
      then show ?thesis
        using none(2) by (force simp: zero_empty_def only_zero_changed_def max_def split: if_splits)
    next
      case some
      have "BkBalance ?B x d (bu_ext t) =
          BkBalance ?B x d (bu_ext s) - (if x = GetZeroAddress then AmountOf ?S cs d else 0)" for x d
        using BkAccToMod_balance [OF laws(2) ok some(1), of x d]
          BkBurn_balance [OF laws(2) ok some(2), of x d] laws(6)
        by (auto simp: moved_def)
      then show ?thesis using some(3) by (auto simp: zero_empty_def only_zero_changed_def amt max_def)
    qed
    then show "zero_empty k ds (bu_ext t)" "only_zero_changed k ds (bu_ext s) (bu_ext t)"
      "bu_params t = bu_params s" by auto
  qed
qed

section \<open>What a block does\<close>

lemma begin_epoch_burner:
  assumes "begin_epoch (Some (burner_Hooks k ctx)) ctx e s = Inr t"
  shows "(if shouldEpochEnd ctx e \<and> ep_Identifier e = bp_EpochIdentifier (bu_GetParams (es_ext s))
     then BurnTokensForAllDenoms k ctx (es_ext s) = Inr (es_ext t) else es_ext t = es_ext s)"
  using assms
  by (auto simp: begin_epoch_def Let_def or_panic_def RunHooksAfterEpochEnd_def burner_Hooks_def
      RunHooksBeforeEpochStart_def SetEpochInfo_def StartInitialEpoch_def EndEpoch_def
      bu_AfterEpochEnd_def bu_BeforeEpochStart_def ShouldBurnTokens_def shouldEpochEnd_def
      split: if_splits sum.splits)

lemma only_zero_trans:
  "only_zero_changed k ds e e' \<Longrightarrow> only_zero_changed k ds e' e'' \<Longrightarrow> only_zero_changed k ds e e''"
  by (simp add: only_zero_changed_def)

lemma begin_epochs_burner:
  assumes "burner_laws k ds" and "begin_epochs (Some (burner_Hooks k ctx)) ctx es s = Inr t"
    and "i = bp_EpochIdentifier (bu_GetParams (es_ext s))"
  shows "only_zero_changed k ds (bu_ext (es_ext s)) (bu_ext (es_ext t)) \<and>
    (zero_empty k ds (bu_ext (es_ext s)) \<or> (\<exists>e\<in>set es. shouldEpochEnd ctx e \<and> ep_Identifier e = i) \<longrightarrow>
      zero_empty k ds (bu_ext (es_ext t))) \<and>
    ((\<forall>e\<in>set es. shouldEpochEnd ctx e \<longrightarrow> ep_Identifier e \<noteq> i) \<longrightarrow> es_ext t = es_ext s)"
  using assms(2,3)
proof (induction es arbitrary: s)
  case Nil
  then show ?case by (simp add: only_zero_changed_def)
next
  case (Cons e es)
  obtain u where u: "begin_epoch (Some (burner_Hooks k ctx)) ctx e s = Inr u"
      "begin_epochs (Some (burner_Hooks k ctx)) ctx es u = Inr t"
    using Cons.prems(1) by auto
  note step = begin_epoch_burner [OF u(1)]
  show ?case
  proof (cases "shouldEpochEnd ctx e \<and> ep_Identifier e = i")
    case True
    then have "BurnTokensForAllDenoms k ctx (es_ext s) = Inr (es_ext u)"
      using step Cons.prems(2) by auto
    note burn = BurnTokens_Inr [OF assms(1) this]
    have "i = bp_EpochIdentifier (bu_GetParams (es_ext u))"
      using Cons.prems(2) burn(3) by (simp add: bu_GetParams_def)
    from Cons.IH [OF u(2) this] show ?thesis using burn True only_zero_trans [OF burn(2)] by auto
  next
    case False
    then have same: "es_ext u = es_ext s" using step Cons.prems(2) by (auto split: if_splits)
    from Cons.IH [OF u(2)] Cons.prems(2) False show ?thesis unfolding same by auto
  qed
qed

section \<open>The property\<close>

text \<open>C38: in a block of the epochs module with the burner's hooks, the zero address ends up with
  nothing of any denomination with metadata if an epoch with the parameters' identifier ends in the
  block, however many timers fire; no other balance of any account changes, and in a block
  without such an epoch end the burner changes nothing at all.\<close>

theorem burn_at_epoch_end:
  assumes "burner_laws k ds" and "BeginBlocker (Some (burner_Hooks k ctx)) ctx s = Inr t"
    and "i = bp_EpochIdentifier (bu_GetParams (es_ext s))"
  shows "((\<exists>e\<in>set (AllEpochInfos s). shouldEpochEnd ctx e \<and> ep_Identifier e = i) \<longrightarrow>
      (\<forall>d\<in>set ds. BkBalance (bk_bank k) GetZeroAddress d (bu_ext (es_ext t)) \<le> 0)) \<and>
    (\<forall>x d. x \<noteq> GetZeroAddress \<or> d \<notin> set ds \<longrightarrow>
      BkBalance (bk_bank k) x d (bu_ext (es_ext t)) = BkBalance (bk_bank k) x d (bu_ext (es_ext s))) \<and>
    ((\<forall>e\<in>set (AllEpochInfos s). shouldEpochEnd ctx e \<longrightarrow> ep_Identifier e \<noteq> i) \<longrightarrow> es_ext t = es_ext s)"
  using begin_epochs_burner [OF assms(1) assms(2) [unfolded BeginBlocker_def] assms(3)]
  unfolding only_zero_changed_def zero_empty_def by blast

definition std_burner :: "ledger bkeeper" where
  "std_burner = \<lparr>bk_sdk = std_sdk, bk_bank = std_bank, bk_DenomMetaData = (\<lambda>e. [''uatom'', ''uelys'']),
     bk_authority = ''gov''\<rparr>"

lemma std_burner_laws: "burner_laws std_burner [''uatom'', ''uelys'']"
  by (auto simp: burner_laws_def std_burner_def std_sdk_laws std_bank_laws bu_ModuleName_def
      GetZeroAddress_def denom_ok_def numeral_eq_Suc)

definition burner_day :: EpochInfo where
  "burner_day = (default_epoch ''day'' 10)\<lparr>ep_StartTime := 100, ep_CurrentEpoch := 1,
     ep_CurrentEpochStartTime := 100, ep_EpochCountingStarted := True\<rparr>"

definition burner_state :: "ledger bstate estate" where
  "burner_state = \<lparr>es_epochs = [(''day'', burner_day)],
     es_ext = \<lparr>bu_params = Some \<lparr>bp_EpochIdentifier = ''day''\<rparr>, bu_history = [],
       bu_ext = [((GetZeroAddress, ''uelys''), 50), ((''alice'', ''uelys''), 7)]\<rparr>\<rparr>"

definition burner_block :: block_ctx where
  "burner_block = \<lparr>BlockHeight = 9, BlockTime = 111, ChainID = ''elys''\<rparr>"

theorem burn_at_epoch_end_witness:
  "lg_bal GetZeroAddress ''uelys'' (bu_ext (es_ext burner_state)) = 50 \<and>
   (\<exists>t. BeginBlocker (Some (burner_Hooks std_burner burner_block)) burner_block burner_state = Inr t \<and>
      lg_bal GetZeroAddress ''uelys'' (bu_ext (es_ext t)) \<le> 0 \<and>
      lg_bal ''alice'' ''uelys'' (bu_ext (es_ext t)) = 7)"
proof -
  have "is_ok (BeginBlocker (Some (burner_Hooks std_burner burner_block)) burner_block burner_state)"
    by code_simp
  then obtain t where t: "BeginBlocker (Some (burner_Hooks std_burner burner_block)) burner_block burner_state = Inr t"
    by (auto simp: is_ok_iff)
  have "\<exists>e\<in>set (AllEpochInfos burner_state). shouldEpochEnd burner_block e \<and> ep_Identifier e = ''day''"
    by (simp add: burner_state_def AllEpochInfos_def burner_day_def default_epoch_def shouldEpochEnd_def
        shouldInitialEpochStart_def burner_block_def)
  moreover have "''day'' = bp_EpochIdentifier (bu_GetParams (es_ext burner_state))"
    by (simp add: burner_state_def bu_GetParams_def)
  ultimately have "lg_bal GetZeroAddress ''uelys'' (bu_ext (es_ext t)) \<le> 0 \<and>
      lg_bal ''alice'' ''uelys'' (bu_ext (es_ext t)) = lg_bal ''alice'' ''uelys'' (bu_ext (es_ext burner_state))"
    using burn_at_epoch_end [OF std_burner_laws t]
    by (auto simp: std_burner_def GetZeroAddress_def numeral_eq_Suc)
  then show ?thesis
    using t by (auto simp: burner_state_def lg_bal_def kv_get_def GetZeroAddress_def numeral_eq_Suc)
qed

end
