(* ===== verification/Parameter.thy ===== *)
theory Parameter
  imports CommitmentMsgs Dec
begin

text \<open>
  The chain's shared parameters (x/parameter): the stored record, the messages by which the
  governance authority changes one field or another, and their validation.
\<close>

section \<open>Data and store\<close>

text \<open>A \<open>LegacyDec\<close> or \<open>math.Int\<close> of the record may be nil, \<open>None\<close> here.\<close>

record PrParams =
  pr_MinCommissionRate :: "int option"
  pr_MaxVotingPower :: "int option"
  pr_MinSelfDelegation :: "int option"
  pr_TotalBlocksPerYear :: int
  pr_RewardsDataLifetime :: int
  pr_TakerFees :: "int option"
  pr_TakerFeeCollectionAddress :: string
  pr_EnableTakerFeeSwap :: bool
  pr_TakerFeeCollectionInterval :: int

record 'e pstate =
  ps_params :: "PrParams option"
  ps_ext :: 'e

record prkeeper =
  pk_sdk :: sdk
  pk_authority :: string

definition ErrInvalidMinCommissionRate :: err where
  "ErrInvalidMinCommissionRate = Sentinel ''parameter'' 1101"
definition ErrInvalidMaxVotingPower :: err where
  "ErrInvalidMaxVotingPower = Sentinel ''parameter'' 1102"
definition ErrInvalidMinSelfDelegation :: err where
  "ErrInvalidMinSelfDelegation = Sentinel ''parameter'' 1103"

definition zero_pr_params :: PrParams where
  "zero_pr_params =
     \<lparr>pr_MinCommissionRate = None, pr_MaxVotingPower = None, pr_MinSelfDelegation = None,
      pr_TotalBlocksPerYear = 0, pr_RewardsDataLifetime = 0, pr_TakerFees = None,
      pr_TakerFeeCollectionAddress = [], pr_EnableTakerFeeSwap = False,
      pr_TakerFeeCollectionInterval = 0\<rparr>"

text \<open>The codec writes a nil decimal or integer as zero, so what is read back is never nil.\<close>

definition stored_num :: "int option \<Rightarrow> int option" where
  "stored_num x = (case x of None \<Rightarrow> Some 0 | Some n \<Rightarrow> Some n)"

definition stored_params :: "PrParams \<Rightarrow> PrParams" where
  "stored_params p =
     p\<lparr>pr_MinCommissionRate := stored_num (pr_MinCommissionRate p),
       pr_MaxVotingPower := stored_num (pr_MaxVotingPower p),
       pr_MinSelfDelegation := stored_num (pr_MinSelfDelegation p),
       pr_TakerFees := stored_num (pr_TakerFees p)\<rparr>"

definition pr_GetParams :: "'e pstate \<Rightarrow> PrParams" where
  "pr_GetParams s = (case ps_params s of None \<Rightarrow> zero_pr_params | Some p \<Rightarrow> p)"

definition pr_SetParams :: "PrParams \<Rightarrow> 'e pstate \<Rightarrow> 'e pstate" where
  "pr_SetParams p s = s\<lparr>ps_params := Some (stored_params p)\<rparr>"

section \<open>Parameters\<close>

definition pr_DefaultParams :: "sdk \<Rightarrow> PrParams" where
  "pr_DefaultParams S =
     \<lparr>pr_MinCommissionRate = Some (5 * dec_one div 100), pr_MaxVotingPower = Some (100 * dec_one),
      pr_MinSelfDelegation = Some 1, pr_TotalBlocksPerYear = 6307200, pr_RewardsDataLifetime = 86400,
      pr_TakerFees = Some 0,
      pr_TakerFeeCollectionAddress = AccAddressString S (NewModuleAddress S ''taker_fee_collection''),
      pr_EnableTakerFeeSwap = True, pr_TakerFeeCollectionInterval = 100\<rparr>"

text \<open>The third check is of the minimum commission rate again, as the code has it.\<close>

definition pr_Validate :: "PrParams \<Rightarrow> unit result" where
  "pr_Validate p =
     (case pr_MinCommissionRate p of
        None \<Rightarrow> Inl (Plain ''minimum commission rate cannot be nil'')
      | Some minCommissionRate \<Rightarrow>
        if minCommissionRate < 0 then Inl ErrInvalidMinCommissionRate
        else case pr_MaxVotingPower p of
          None \<Rightarrow> Inl (Plain ''maximum voting power cannot be nil'')
        | Some maxVotingPower \<Rightarrow>
          if maxVotingPower < 0 then Inl ErrInvalidMaxVotingPower
          else if minCommissionRate < 0 then Inl ErrInvalidMinSelfDelegation
          else if pr_TotalBlocksPerYear p \<le> 0
          then Inl (Plain ''total blocks per year cannot be negative or zero'')
          else if pr_RewardsDataLifetime p \<le> 0
          then Inl (Plain ''rewards data lifetime cannot be negative or zero'')
          else if pr_EnableTakerFeeSwap p \<and> pr_TakerFeeCollectionInterval p \<le> 0
          then Inl (Plain ''taker fee collection interval cannot be negative or zero'')
          else Inr ())"

section \<open>Messages\<close>

datatype pr_msg =
    MsgUpdateMinCommission string "int option"
  | MsgUpdateMaxVotingPower string "int option"
  | MsgUpdateMinSelfDelegation string "int option"
  | MsgUpdateTotalBlocksPerYear string int
  | MsgUpdateTakerFees string "int option" bool int
  | MsgUpdateRewardsDataLifetime string int

definition UpdateMinCommission :: "prkeeper \<Rightarrow> string \<Rightarrow> int option \<Rightarrow> 'e pstate \<Rightarrow> 'e pstate result" where
  "UpdateMinCommission k msg_Creator msg_MinCommission s =
     (if pk_authority k \<noteq> msg_Creator then Inl gov_ErrInvalidSigner
      else Inr (pr_SetParams ((pr_GetParams s)\<lparr>pr_MinCommissionRate := msg_MinCommission\<rparr>) s))"

definition UpdateMaxVotingPower :: "prkeeper \<Rightarrow> string \<Rightarrow> int option \<Rightarrow> 'e pstate \<Rightarrow> 'e pstate result" where
  "UpdateMaxVotingPower k msg_Creator msg_MaxVotingPower s =
     (if pk_authority k \<noteq> msg_Creator then Inl gov_ErrInvalidSigner
      else Inr (pr_SetParams ((pr_GetParams s)\<lparr>pr_MaxVotingPower := msg_MaxVotingPower\<rparr>) s))"

definition UpdateMinSelfDelegation :: "prkeeper \<Rightarrow> string \<Rightarrow> int option \<Rightarrow> 'e pstate \<Rightarrow> 'e pstate result" where
  "UpdateMinSelfDelegation k msg_Creator msg_MinSelfDelegation s =
     (if pk_authority k \<noteq> msg_Creator then Inl gov_ErrInvalidSigner
      else Inr (pr_SetParams ((pr_GetParams s)\<lparr>pr_MinSelfDelegation := msg_MinSelfDelegation\<rparr>) s))"

definition UpdateTotalBlocksPerYear :: "prkeeper \<Rightarrow> string \<Rightarrow> int \<Rightarrow> 'e pstate \<Rightarrow> 'e pstate result" where
  "UpdateTotalBlocksPerYear k msg_Creator msg_TotalBlocksPerYear s =
     (if pk_authority k \<noteq> msg_Creator then Inl gov_ErrInvalidSigner
      else Inr (pr_SetParams ((pr_GetParams s)\<lparr>pr_TotalBlocksPerYear := msg_TotalBlocksPerYear\<rparr>) s))"

definition UpdateTakerFees ::
    "prkeeper \<Rightarrow> string \<Rightarrow> int option \<Rightarrow> bool \<Rightarrow> int \<Rightarrow> 'e pstate \<Rightarrow> 'e pstate result" where
  "UpdateTakerFees k msg_Creator msg_TakerFees msg_EnableTakerFeeSwap msg_TakerFeeCollectionInterval s =
     (if pk_authority k \<noteq> msg_Creator then Inl gov_ErrInvalidSigner
      else Inr (pr_SetParams ((pr_GetParams s)
        \<lparr>pr_TakerFees := msg_TakerFees, pr_EnableTakerFeeSwap := msg_EnableTakerFeeSwap,
         pr_TakerFeeCollectionInterval := msg_TakerFeeCollectionInterval\<rparr>) s))"

definition UpdateRewardsDataLifetime :: "prkeeper \<Rightarrow> string \<Rightarrow> int \<Rightarrow> 'e pstate \<Rightarrow> 'e pstate result" where
  "UpdateRewardsDataLifetime k msg_Creator msg_RewardsDataLifetime s =
     (if pk_authority k \<noteq> msg_Creator then Inl gov_ErrInvalidSigner
      else Inr (pr_SetParams ((pr_GetParams s)\<lparr>pr_RewardsDataLifetime := msg_RewardsDataLifetime\<rparr>) s))"

definition pr_address_ok :: "sdk \<Rightarrow> string \<Rightarrow> unit result" where
  "pr_address_ok S a =
     (case AccAddressFromBech32 S a of Inl e \<Rightarrow> Inl sdk_ErrInvalidAddress | Inr _ \<Rightarrow> Inr ())"

definition positive_number :: "string \<Rightarrow> int option \<Rightarrow> unit result" where
  "positive_number what x =
     (case x of None \<Rightarrow> Inl (Plain (what @ '' cannot be nil''))
      | Some n \<Rightarrow> if n \<le> 0 then Inl (Plain (what @ '' cannot be <= 0'')) else Inr ())"

definition MsgUpdateMinCommission_ValidateBasic :: "sdk \<Rightarrow> string \<Rightarrow> int option \<Rightarrow> unit result" where
  "MsgUpdateMinCommission_ValidateBasic S msg_Creator msg_MinCommission =
     rbind (pr_address_ok S msg_Creator) (\<lambda>_. positive_number ''min commission'' msg_MinCommission)"

definition MsgUpdateMaxVotingPower_ValidateBasic :: "sdk \<Rightarrow> string \<Rightarrow> int option \<Rightarrow> unit result" where
  "MsgUpdateMaxVotingPower_ValidateBasic S msg_Creator msg_MaxVotingPower =
     rbind (pr_address_ok S msg_Creator) (\<lambda>_. positive_number ''max voting power'' msg_MaxVotingPower)"

definition MsgUpdateMinSelfDelegation_ValidateBasic :: "sdk \<Rightarrow> string \<Rightarrow> int option \<Rightarrow> unit result" where
  "MsgUpdateMinSelfDelegation_ValidateBasic S msg_Creator msg_MinSelfDelegation =
     rbind (pr_address_ok S msg_Creator) (\<lambda>_. positive_number ''min self delegation'' msg_MinSelfDelegation)"

definition MsgUpdateTotalBlocksPerYear_ValidateBasic :: "sdk \<Rightarrow> string \<Rightarrow> int \<Rightarrow> unit result" where
  "MsgUpdateTotalBlocksPerYear_ValidateBasic S msg_Creator msg_TotalBlocksPerYear =
     rbind (pr_address_ok S msg_Creator) (\<lambda>_.
     if msg_TotalBlocksPerYear = 0 then Inl (Plain ''invalid total blocks per year'') else Inr ())"

definition MsgUpdateRewardsDataLifetime_ValidateBasic :: "sdk \<Rightarrow> string \<Rightarrow> int \<Rightarrow> unit result" where
  "MsgUpdateRewardsDataLifetime_ValidateBasic S msg_Creator msg_RewardsDataLifetime =
     rbind (pr_address_ok S msg_Creator) (\<lambda>_.
     if msg_RewardsDataLifetime \<le> 0 then Inl (Plain ''rewards_data_lifetime must be > 0'') else Inr ())"

text \<open>A message on its way through the application: basic validation where the type has any, then
  the handler. \<open>MsgUpdateTakerFees\<close> has none.\<close>

fun pr_handle :: "prkeeper \<Rightarrow> pr_msg \<Rightarrow> 'e pstate \<Rightarrow> 'e pstate result" where
  "pr_handle k (MsgUpdateMinCommission c x) s =
     rbind (MsgUpdateMinCommission_ValidateBasic (pk_sdk k) c x) (\<lambda>_. UpdateMinCommission k c x s)"
| "pr_handle k (MsgUpdateMaxVotingPower c x) s =
     rbind (MsgUpdateMaxVotingPower_ValidateBasic (pk_sdk k) c x) (\<lambda>_. UpdateMaxVotingPower k c x s)"
| "pr_handle k (MsgUpdateMinSelfDelegation c x) s =
     rbind (MsgUpdateMinSelfDelegation_ValidateBasic (pk_sdk k) c x) (\<lambda>_. UpdateMinSelfDelegation k c x s)"
| "pr_handle k (MsgUpdateTotalBlocksPerYear c n) s =
     rbind (MsgUpdateTotalBlocksPerYear_ValidateBasic (pk_sdk k) c n) (\<lambda>_. UpdateTotalBlocksPerYear k c n s)"
| "pr_handle k (MsgUpdateTakerFees c f b n) s = UpdateTakerFees k c f b n s"
| "pr_handle k (MsgUpdateRewardsDataLifetime c n) s =
     rbind (MsgUpdateRewardsDataLifetime_ValidateBasic (pk_sdk k) c n) (\<lambda>_. UpdateRewardsDataLifetime k c n s)"

text \<open>The integers of a message are in the range of \<open>uint64\<close>.\<close>

fun pr_msg_ok :: "pr_msg \<Rightarrow> bool" where
  "pr_msg_ok (MsgUpdateTotalBlocksPerYear c n) \<longleftrightarrow> 0 \<le> n \<and> n < 2 ^ 64"
| "pr_msg_ok (MsgUpdateTakerFees c f b n) \<longleftrightarrow> 0 \<le> n \<and> n < 2 ^ 64"
| "pr_msg_ok (MsgUpdateRewardsDataLifetime c n) \<longleftrightarrow> 0 \<le> n \<and> n < 2 ^ 64"
| "pr_msg_ok m \<longleftrightarrow> True"

section \<open>Genesis\<close>

definition pr_InitGenesis :: "PrParams \<Rightarrow> 'e pstate \<Rightarrow> 'e pstate" where
  "pr_InitGenesis params s = pr_SetParams params s"

definition pr_ExportGenesis :: "'e pstate \<Rightarrow> PrParams" where
  "pr_ExportGenesis s = pr_GetParams s"

definition pr_genesis_Validate :: "PrParams \<Rightarrow> unit result" where
  "pr_genesis_Validate params = pr_Validate params"

section \<open>The parameters over a run\<close>

definition pr_inv :: "'e pstate \<Rightarrow> bool" where
  "pr_inv s \<longleftrightarrow> (\<exists>a b c p. ps_params s = Some p \<and> pr_MinCommissionRate p = Some a \<and> 0 < a \<and>
     pr_MaxVotingPower p = Some b \<and> 0 < b \<and> pr_MinSelfDelegation p = Some c \<and> 0 < c \<and>
     0 < pr_TotalBlocksPerYear p \<and> pr_TotalBlocksPerYear p < 2 ^ 64 \<and>
     0 < pr_RewardsDataLifetime p \<and> pr_RewardsDataLifetime p < 2 ^ 64 \<and>
     0 \<le> pr_TakerFeeCollectionInterval p \<and> pr_TakerFeeCollectionInterval p < 2 ^ 64)"

lemmas pr_message_defs = UpdateMinCommission_def UpdateMaxVotingPower_def UpdateMinSelfDelegation_def
  UpdateTotalBlocksPerYear_def UpdateTakerFees_def UpdateRewardsDataLifetime_def

lemmas pr_validation_defs = MsgUpdateMinCommission_ValidateBasic_def
  MsgUpdateMaxVotingPower_ValidateBasic_def MsgUpdateMinSelfDelegation_ValidateBasic_def
  MsgUpdateTotalBlocksPerYear_ValidateBasic_def MsgUpdateRewardsDataLifetime_ValidateBasic_def

lemma positive_number_ok: "positive_number w x = Inr u \<longleftrightarrow> (\<exists>n. x = Some n \<and> 0 < n)"
  by (auto simp: positive_number_def split: option.splits)

lemma pr_handle_inv: "pr_inv s \<Longrightarrow> pr_msg_ok m \<Longrightarrow> pr_handle k m s = Inr t \<Longrightarrow> pr_inv t"
  by (cases m) (auto simp: pr_inv_def pr_message_defs pr_validation_defs positive_number_ok pr_SetParams_def
      pr_GetParams_def stored_params_def stored_num_def split: if_splits option.splits)

lemma pr_inv_Validate:
  "pr_inv s \<Longrightarrow> pr_Validate (pr_GetParams s) = Inr () \<longleftrightarrow>
     \<not> (pr_EnableTakerFeeSwap (pr_GetParams s) \<and> pr_TakerFeeCollectionInterval (pr_GetParams s) = 0)"
  by (auto simp: pr_inv_def pr_Validate_def pr_GetParams_def)

text \<open>The minimum self delegation is not checked: parameters with a negative one validate.\<close>

lemma negative_self_delegation_validates:
  "pr_Validate ((pr_DefaultParams S)\<lparr>pr_MinSelfDelegation := Some (- 1)\<rparr>) = Inr ()"
  by (simp add: pr_Validate_def pr_DefaultParams_def)

end
