(* ===== verification/TakerFee.thy ===== *)
theory TakerFee
  imports Parameter SdkBank BigDec
begin

text \<open>
  The begin blocker of the masterchef module (x/masterchef/keeper/abci.go): every
  \<open>TakerFeeCollectionInterval\<close> blocks the collected taker fees are swapped into Elys and burned. It
  reads the parameters of the module parameter, which the governance authority sets.
\<close>

section \<open>Collecting the taker fees\<close>

text \<open>What the keeper needs of the bank and of the amm: the value of coins in dollars, as a
  \<open>BigDec\<close>, and a swap by denomination.\<close>

record MsgSwapByDenom =
  sb_Sender :: string
  sb_Recipient :: string
  sb_Amount :: coin
  sb_DenomIn :: string
  sb_DenomOut :: string
  sb_MinAmount :: coin
  sb_MaxAmount :: coin

record 'e tfkeeper =
  tf_sdk :: sdk
  tf_bank :: "'e bank"
  tf_CalculateCoinsUSDValue :: "'e \<Rightarrow> coins \<Rightarrow> int result"
  tf_SwapByDenom :: "block_ctx \<Rightarrow> MsgSwapByDenom \<Rightarrow> 'e \<Rightarrow> 'e result"

definition tf_ModuleName :: string where
  "tf_ModuleName = ''masterchef''"

text \<open>\<open>CacheContext\<close>: the writes of a call that returns an error are dropped and the code goes
  on; a panic is not caught.\<close>

definition cached :: "('e \<Rightarrow> 'e result) \<Rightarrow> 'e \<Rightarrow> 'e result" where
  "cached f e =
     (case f e of Inr e' \<Rightarrow> Inr e' | Inl x \<Rightarrow> (case x of Panic p \<Rightarrow> Inl (Panic p) | _ \<Rightarrow> Inr e))"

fun swap_balances ::
    "'e tfkeeper \<Rightarrow> block_ctx \<Rightarrow> string \<Rightarrow> coins \<Rightarrow> 'e \<Rightarrow> 'e result" where
  "swap_balances k ctx adr [] e = Inr e"
| "swap_balances k ctx adr (balance # balances) e =
     rbind (NewCoins (tf_sdk k) [balance]) (\<lambda>cs.
     rbind (tf_CalculateCoinsUSDValue k e cs) (\<lambda>usdValue.
     if Denom balance = Elys \<or> usdValue < 5 * big_one div 10 then swap_balances k ctx adr balances e
     else rbind (NewCoin (tf_sdk k) (Denom balance) (Amount balance)) (\<lambda>amount.
          rbind (NewCoin (tf_sdk k) Elys 0) (\<lambda>minAmount.
          rbind (cached (tf_SwapByDenom k ctx
             \<lparr>sb_Sender = adr, sb_Recipient = adr, sb_Amount = amount, sb_DenomIn = Denom balance,
              sb_DenomOut = Elys, sb_MinAmount = minAmount, sb_MaxAmount = \<lparr>Denom = [], Amount = 0\<rparr>\<rparr>) e) (\<lambda>e1.
          swap_balances k ctx adr balances e1)))))"

definition ProcessTakerFee :: "'e tfkeeper \<Rightarrow> block_ctx \<Rightarrow> 'e pstate \<Rightarrow> 'e pstate result" where
  "ProcessTakerFee k ctx s =
     (let collectionAddressString = pr_TakerFeeCollectionAddress (pr_GetParams s)
      in case AccAddressFromBech32 (tf_sdk k) collectionAddressString of
        Inl err \<Rightarrow> Inr s
      | Inr collectionAddress \<Rightarrow>
        rbind (swap_balances k ctx collectionAddressString
                (BkAllBalances (tf_bank k) collectionAddress (ps_ext s)) (ps_ext s)) (\<lambda>e1.
        let elysBalance = BkBalance (tf_bank k) collectionAddress Elys e1
        in if 0 < elysBalance
           then rbind (NewCoins (tf_sdk k) [\<lparr>Denom = Elys, Amount = elysBalance\<rparr>]) (\<lambda>cs.
                case BkAccToMod (tf_bank k) collectionAddress tf_ModuleName cs e1 of
                  Inl x \<Rightarrow> (case x of Panic p \<Rightarrow> Inl (Panic p) | _ \<Rightarrow> Inr (s\<lparr>ps_ext := e1\<rparr>))
                | Inr e2 \<Rightarrow>
                    rbind (cached (BkBurn (tf_bank k) tf_ModuleName cs) e2) (\<lambda>e3.
                    Inr (s\<lparr>ps_ext := e3\<rparr>)))
           else Inr (s\<lparr>ps_ext := e1\<rparr>)))"

section \<open>The begin blocker\<close>

text \<open>Go's remainder, with the sign of the dividend; a zero divisor panics.\<close>

definition go_rem :: "int \<Rightarrow> int \<Rightarrow> int result" where
  "go_rem a b = (if b = 0 then Inl (Panic ''integer divide by zero'') else Inr (a smod b))"

text \<open>The remainder is taken before the flag is looked at.\<close>

definition mc_BeginBlocker :: "'e tfkeeper \<Rightarrow> block_ctx \<Rightarrow> 'e pstate \<Rightarrow> 'e pstate result" where
  "mc_BeginBlocker k ctx s =
     (let params = pr_GetParams s
      in rbind (go_rem (BlockHeight ctx) (i64 (pr_TakerFeeCollectionInterval params))) (\<lambda>r.
         if r = 0 \<and> pr_EnableTakerFeeSwap params then ProcessTakerFee k ctx s else Inr s))"

section \<open>The property\<close>

interpretation pr_run: budget_step "pr_handle k" pr_msg_ok "\<lambda>b. pr_inv" limit for k limit
  by unfold_locales (auto intro: pr_handle_inv)

lemma pr_run_inv: "list_all pr_msg_ok ms \<Longrightarrow> pr_inv s \<Longrightarrow> pr_inv (run_ops (pr_handle k) ms s)"
  using pr_run.run_inv [of ms s 0 "int (length ms)" k] by simp

lemma i64_eq_0:
  assumes "0 \<le> n" "n < 2 ^ 64"
  shows "i64 n = 0 \<longleftrightarrow> n = 0"
proof (cases "n < 2 ^ 63")
  case True
  then show ?thesis using assms by (simp add: i64_id)
next
  case False
  have "(n + 2 ^ 63) mod 2 ^ 64 = ((n - 2 ^ 63) + 2 ^ 64) mod 2 ^ 64" by (simp add: add.commute)
  also have "\<dots> = (n - 2 ^ 63) mod 2 ^ 64" by (rule mod_add_self2)
  also have "\<dots> = n - 2 ^ 63" using assms False by (intro mod_pos_pos_trivial) auto
  finally show ?thesis using assms False by (simp add: i64_def)
qed

lemma mc_BeginBlocker_zero:
  "pr_TakerFeeCollectionInterval (pr_GetParams s) = 0 \<Longrightarrow>
     mc_BeginBlocker K ctx s = Inl (Panic ''integer divide by zero'')"
  by (simp add: mc_BeginBlocker_def go_rem_def i64_def)

lemma mc_BeginBlocker_idle:
  assumes "0 \<le> n" "n < 2 ^ 64" "n \<noteq> 0" "n = pr_TakerFeeCollectionInterval (pr_GetParams s)"
    and "pr_EnableTakerFeeSwap (pr_GetParams s) \<longrightarrow> BlockHeight ctx smod i64 n \<noteq> 0"
  shows "mc_BeginBlocker K ctx s = Inr s"
  using assms i64_eq_0 [of n] by (auto simp: mc_BeginBlocker_def go_rem_def)

text \<open>C39: whatever messages run, the minimum commission, the voting power, the self delegation,
  the blocks per year and the data lifetime stay positive, and the parameters stay valid but
  for the collection interval. The message that sets the interval is not validated: governance can set
  it to zero, with the swap enabled or not, and from then on the begin blocker of the masterchef module
  panics in every block; with any other interval and the swap disabled it returns and changes nothing.\<close>

theorem zero_interval_panics:
  assumes "pr_inv s" and "list_all pr_msg_ok ms" and "t = run_ops (pr_handle k) ms s"
    and "p = pr_GetParams t"
  shows "(\<exists>a b c. pr_MinCommissionRate p = Some a \<and> 0 < a \<and> pr_MaxVotingPower p = Some b \<and> 0 < b \<and>
      pr_MinSelfDelegation p = Some c \<and> 0 < c) \<and> 0 < pr_TotalBlocksPerYear p \<and> 0 < pr_RewardsDataLifetime p \<and>
    (pr_Validate p = Inr () \<longleftrightarrow> \<not> (pr_EnableTakerFeeSwap p \<and> pr_TakerFeeCollectionInterval p = 0)) \<and>
    (mc_BeginBlocker K ctx t = Inl (Panic ''integer divide by zero'') \<or> pr_TakerFeeCollectionInterval p \<noteq> 0) \<and>
    (\<not> pr_EnableTakerFeeSwap p \<longrightarrow>
      mc_BeginBlocker K ctx t = (if pr_TakerFeeCollectionInterval p = 0
        then Inl (Panic ''integer divide by zero'') else Inr t)) \<and>
    (\<exists>u. pr_handle k (MsgUpdateTakerFees (pk_authority k) f b 0) t = Inr u \<and>
      (\<forall>ctx. mc_BeginBlocker K ctx u = Inl (Panic ''integer divide by zero'')))"
proof -
  have inv: "pr_inv t" unfolding assms(3) by (rule pr_run_inv [OF assms(2,1)])
  have range: "0 \<le> pr_TakerFeeCollectionInterval p" "pr_TakerFeeCollectionInterval p < 2 ^ 64"
    using inv by (auto simp: pr_inv_def pr_GetParams_def assms(4))
  have "pr_TakerFeeCollectionInterval (pr_GetParams (pr_SetParams (p\<lparr>pr_TakerFees := f,
      pr_EnableTakerFeeSwap := b, pr_TakerFeeCollectionInterval := 0\<rparr>) t)) = 0"
    by (simp add: pr_GetParams_def pr_SetParams_def stored_params_def)
  then have "\<exists>u. pr_handle k (MsgUpdateTakerFees (pk_authority k) f b 0) t = Inr u \<and>
      (\<forall>ctx. mc_BeginBlocker K ctx u = Inl (Panic ''integer divide by zero''))"
    by (simp add: UpdateTakerFees_def mc_BeginBlocker_zero assms(4))
  moreover have "(\<exists>a b c. pr_MinCommissionRate p = Some a \<and> 0 < a \<and> pr_MaxVotingPower p = Some b \<and> 0 < b \<and>
      pr_MinSelfDelegation p = Some c \<and> 0 < c) \<and> 0 < pr_TotalBlocksPerYear p \<and> 0 < pr_RewardsDataLifetime p"
    using inv by (auto simp: pr_inv_def pr_GetParams_def assms(4))
  moreover have "mc_BeginBlocker K ctx t = Inl (Panic ''integer divide by zero'') \<or>
      pr_TakerFeeCollectionInterval p \<noteq> 0"
    using mc_BeginBlocker_zero by (auto simp: assms(4))
  moreover have "\<not> pr_EnableTakerFeeSwap p \<longrightarrow> mc_BeginBlocker K ctx t =
      (if pr_TakerFeeCollectionInterval p = 0 then Inl (Panic ''integer divide by zero'') else Inr t)"
    using mc_BeginBlocker_zero [of t K ctx] mc_BeginBlocker_idle [OF range, of t ctx K]
    by (simp add: assms(4))
  ultimately show ?thesis using pr_inv_Validate [OF inv] by (simp add: assms(4))
qed

definition std_pr :: prkeeper where
  "std_pr = \<lparr>pk_sdk = std_sdk, pk_authority = ''gov''\<rparr>"

definition std_taker :: "ledger tfkeeper" where
  "std_taker = \<lparr>tf_sdk = std_sdk, tf_bank = std_bank, tf_CalculateCoinsUSDValue = (\<lambda>e cs. Inr 0),
     tf_SwapByDenom = (\<lambda>ctx m e. Inl (Plain ''no pool''))\<rparr>"

definition pr_genesis :: "ledger pstate" where
  "pr_genesis = pr_InitGenesis (pr_DefaultParams std_sdk) \<lparr>ps_params = None, ps_ext = []\<rparr>"

definition block_seven :: block_ctx where
  "block_seven = \<lparr>BlockHeight = 7, BlockTime = 0, ChainID = ''elys''\<rparr>"

lemma pr_genesis_inv: "pr_inv pr_genesis"
  by (simp add: pr_inv_def pr_genesis_def pr_InitGenesis_def pr_SetParams_def pr_DefaultParams_def
      stored_params_def stored_num_def)

theorem zero_interval_panics_witness:
  "\<exists>u. pr_handle std_pr (MsgUpdateTakerFees ''gov'' (Some 0) False 0)
      (run_ops (pr_handle std_pr) [MsgUpdateTotalBlocksPerYear ''gov'' 6000000] pr_genesis) = Inr u \<and>
     mc_BeginBlocker std_taker block_seven u = Inl (Panic ''integer divide by zero'')"
  using zero_interval_panics [OF pr_genesis_inv, of "[MsgUpdateTotalBlocksPerYear ''gov'' 6000000]", OF _ refl refl,
      where k = std_pr and f = "Some 0" and b = False and K = std_taker]
  by (auto simp: std_pr_def)

end
