(* ===== verification/PerpTypes.thy ===== *)
theory PerpTypes
  imports AmmCreate CommitmentMsgs
begin

text \<open>
  The data of the perpetual module (x/perpetual/types: \<open>pool.go\<close>, \<open>mtp.go\<close>, \<open>types.go\<close>,
  \<open>calc_take_amount.go\<close>, \<open>has_sufficient_pool_balance.go\<close>, \<open>perp_fees.go\<close>): the pool that totals
  the liabilities, custody and collateral of the positions on an amm pool, and a position, an
  \<open>MTP\<close>.
\<close>

section \<open>Pools\<close>

datatype Position = Position_UNSPECIFIED | Position_LONG | Position_SHORT

definition GetPositionFromString :: "string \<Rightarrow> Position" where
  "GetPositionFromString s =
     (if s = ''long'' then Position_LONG else if s = ''short'' then Position_SHORT
      else Position_UNSPECIFIED)"

record PerpAsset =
  pe_AssetDenom :: string
  pe_Liabilities :: int
  pe_Custody :: int
  pe_Collateral :: int

record PerpPool =
  pl_AmmPoolId :: int
  pl_BaseAssetLiabilitiesRatio :: int
  pl_QuoteAssetLiabilitiesRatio :: int
  pl_BorrowInterestRate :: int
  pl_PoolAssetsLong :: "PerpAsset list"
  pl_PoolAssetsShort :: "PerpAsset list"
  pl_LastHeightBorrowInterestRateComputed :: int
  pl_FundingRate :: int
  pl_FeesCollected :: "coin list"
  pl_LeverageMax :: int

text \<open>A nil \<open>Collateral\<close> is stored as zero, which is what it is written as here.\<close>

definition perp_asset :: "PoolAsset \<Rightarrow> PerpAsset" where
  "perp_asset asset = \<lparr>pe_AssetDenom = Denom (pa_Token asset), pe_Liabilities = 0, pe_Custody = 0, pe_Collateral = 0\<rparr>"

definition perp_NewPool :: "amm_Pool \<Rightarrow> int \<Rightarrow> PerpPool" where
  "perp_NewPool ammPool leverageMax =
     \<lparr>pl_AmmPoolId = am_PoolId ammPool, pl_BaseAssetLiabilitiesRatio = 0,
      pl_QuoteAssetLiabilitiesRatio = 0, pl_BorrowInterestRate = 0,
      pl_PoolAssetsLong = map perp_asset (am_PoolAssets ammPool),
      pl_PoolAssetsShort = map perp_asset (am_PoolAssets ammPool),
      pl_LastHeightBorrowInterestRateComputed = 0, pl_FundingRate = 0, pl_FeesCollected = [],
      pl_LeverageMax = leverageMax\<rparr>"

text \<open>\<open>GetPoolAssets\<close> returns a pointer to one of the two slices; writing through it is the
  second definition.\<close>

definition GetPoolAssets :: "PerpPool \<Rightarrow> Position \<Rightarrow> PerpAsset list" where
  "GetPoolAssets p position =
     (if position = Position_LONG then pl_PoolAssetsLong p else pl_PoolAssetsShort p)"

definition put_pool_assets :: "PerpPool \<Rightarrow> Position \<Rightarrow> PerpAsset list \<Rightarrow> PerpPool" where
  "put_pool_assets p position assets =
     (if position = Position_LONG then p\<lparr>pl_PoolAssetsLong := assets\<rparr>
      else p\<lparr>pl_PoolAssetsShort := assets\<rparr>)"

definition perp_GetPoolAsset :: "PerpPool \<Rightarrow> Position \<Rightarrow> string \<Rightarrow> PerpAsset option" where
  "perp_GetPoolAsset p position assetDenom =
     find (\<lambda>asset. pe_AssetDenom asset = assetDenom) (GetPoolAssets p position)"

text \<open>The three updates write the first asset with the denomination in place.\<close>

fun update_first :: "string \<Rightarrow> (PerpAsset \<Rightarrow> PerpAsset) \<Rightarrow> PerpAsset list \<Rightarrow> PerpAsset list" where
  "update_first d f [] = []"
| "update_first d f (a # as) = (if pe_AssetDenom a = d then f a # as else a # update_first d f as)"

definition update_pool_asset ::
    "PerpPool \<Rightarrow> Position \<Rightarrow> string \<Rightarrow> (PerpAsset \<Rightarrow> PerpAsset) \<Rightarrow> PerpPool result" where
  "update_pool_asset p position assetDenom f =
     (case perp_GetPoolAsset p position assetDenom of
        None \<Rightarrow> Inl (Sentinel ''sdk'' 10)
      | Some poolAsset \<Rightarrow>
          Inr (put_pool_assets p position (update_first assetDenom f (GetPoolAssets p position))))"

definition UpdateLiabilities :: "PerpPool \<Rightarrow> string \<Rightarrow> int \<Rightarrow> bool \<Rightarrow> Position \<Rightarrow> PerpPool result" where
  "UpdateLiabilities p assetDenom amount isIncrease position =
     update_pool_asset p position assetDenom (\<lambda>a. a\<lparr>pe_Liabilities :=
       (if isIncrease then pe_Liabilities a + amount else pe_Liabilities a - amount)\<rparr>)"

definition UpdateCollateral :: "PerpPool \<Rightarrow> string \<Rightarrow> int \<Rightarrow> bool \<Rightarrow> Position \<Rightarrow> PerpPool result" where
  "UpdateCollateral p assetDenom amount isIncrease position =
     update_pool_asset p position assetDenom (\<lambda>a. a\<lparr>pe_Collateral :=
       (if isIncrease then pe_Collateral a + amount else pe_Collateral a - amount)\<rparr>)"

definition UpdateCustody :: "PerpPool \<Rightarrow> string \<Rightarrow> int \<Rightarrow> bool \<Rightarrow> Position \<Rightarrow> PerpPool result" where
  "UpdateCustody p assetDenom amount isIncrease position =
     update_pool_asset p position assetDenom (\<lambda>a. a\<lparr>pe_Custody :=
       (if isIncrease then pe_Custody a + amount else pe_Custody a - amount)\<rparr>)"

text \<open>The loops of \<open>UpdateFeesCollected\<close> assign to the loop variable, a copy of the coin: a
  denomination that is there already is found, and the slice stays as it was.\<close>

definition UpdateFeesCollected :: "sdk \<Rightarrow> PerpPool \<Rightarrow> string \<Rightarrow> int \<Rightarrow> bool \<Rightarrow> PerpPool result" where
  "UpdateFeesCollected S p assetDenom amount isIncrease =
     (if list_ex (\<lambda>coin. Denom coin = assetDenom) (pl_FeesCollected p) then Inr p
      else rbind (NewCoin S assetDenom amount) (\<lambda>coin.
           Inr (p\<lparr>pl_FeesCollected := pl_FeesCollected p @ [coin]\<rparr>)))"

definition GetTotalLongOpenInterest :: "PerpPool \<Rightarrow> int" where
  "GetTotalLongOpenInterest pool =
     fold (\<lambda>asset total. if pe_Custody asset \<noteq> 0 then total + pe_Custody asset - pe_Collateral asset else total)
       (pl_PoolAssetsLong pool) 0"

definition GetTotalShortOpenInterest :: "PerpPool \<Rightarrow> int" where
  "GetTotalShortOpenInterest pool =
     fold (\<lambda>asset total. total + pe_Liabilities asset) (pl_PoolAssetsShort pool) 0"

definition GetNetOpenInterest :: "PerpPool \<Rightarrow> int" where
  "GetNetOpenInterest pool = GetTotalLongOpenInterest pool - GetTotalShortOpenInterest pool"

definition GetInsuranceAccount :: "sdk \<Rightarrow> PerpPool \<Rightarrow> addr" where
  "GetInsuranceAccount S pool =
     NewModuleAddress S (''perpetual/pool/insurance_fund/'' @ FormatNat (nat (pl_AmmPoolId pool)))"

text \<open>No asset of the denomination is a nil pointer, whose fields are read.\<close>

definition GetPerpetualPoolBalancesByPosition :: "PerpPool \<Rightarrow> string \<Rightarrow> Position \<Rightarrow> (int \<times> int) result" where
  "GetPerpetualPoolBalancesByPosition perpetualPool denom position =
     (case perp_GetPoolAsset perpetualPool position denom of
        None \<Rightarrow> Inl (Panic ''nil pointer dereference'')
      | Some poolAsset \<Rightarrow> Inr (pe_Liabilities poolAsset, pe_Custody poolAsset))"

definition GetPerpetualPoolBalances :: "PerpPool \<Rightarrow> string \<Rightarrow> (int \<times> int) result" where
  "GetPerpetualPoolBalances perpetualPool denom =
     rbind (GetPerpetualPoolBalancesByPosition perpetualPool denom Position_LONG) (\<lambda>(liabilitiesLong, custodyLong).
     rbind (GetPerpetualPoolBalancesByPosition perpetualPool denom Position_SHORT) (\<lambda>(liabilitiesShort, custodyShort).
     Inr (liabilitiesLong + liabilitiesShort, custodyLong + custodyShort)))"

definition GetTradingAsset :: "PerpPool \<Rightarrow> string \<Rightarrow> string result" where
  "GetTradingAsset p baseCurrency =
     (case find (\<lambda>asset. pe_AssetDenom asset \<noteq> baseCurrency) (pl_PoolAssetsLong p) of
        Some asset \<Rightarrow> Inr (pe_AssetDenom asset)
      | None \<Rightarrow> Inl (Plain ''trading asset not found''))"

definition HasSufficientPoolBalance :: "amm_Pool \<Rightarrow> string \<Rightarrow> int \<Rightarrow> bool" where
  "HasSufficientPoolBalance ammPool assetDenom requiredAmount =
     (case GetAmmPoolBalance ammPool assetDenom of
        Inl err \<Rightarrow> False
      | Inr balance \<Rightarrow> balance \<ge> requiredAmount)"

text \<open>\<open>fundingRate.Abs().MulInt(custodyAmount).TruncateInt()\<close>.\<close>

definition CalcTakeAmount :: "dec_ops \<Rightarrow> int \<Rightarrow> int \<Rightarrow> int" where
  "CalcTakeAmount D custodyAmount fundingRate = DTruncateInt D (\<bar>fundingRate\<bar> * custodyAmount)"

record PerpetualFees =
  pf_PerpFees :: coins
  pf_SlippageFees :: coins
  pf_WeightBreakingFees :: coins
  pf_TakerFees :: coins

definition NewPerpetualFeesWithEmptyCoins :: PerpetualFees where
  "NewPerpetualFeesWithEmptyCoins =
     \<lparr>pf_PerpFees = [], pf_SlippageFees = [], pf_WeightBreakingFees = [], pf_TakerFees = []\<rparr>"

definition PerpetualFees_Add :: "sdk \<Rightarrow> PerpetualFees \<Rightarrow> PerpetualFees \<Rightarrow> PerpetualFees" where
  "PerpetualFees_Add S p other =
     \<lparr>pf_PerpFees = CoinsAdd S (pf_PerpFees p) (pf_PerpFees other),
      pf_SlippageFees = CoinsAdd S (pf_SlippageFees p) (pf_SlippageFees other),
      pf_WeightBreakingFees = CoinsAdd S (pf_WeightBreakingFees p) (pf_WeightBreakingFees other),
      pf_TakerFees = CoinsAdd S (pf_TakerFees p) (pf_TakerFees other)\<rparr>"

section \<open>Positions\<close>

text \<open>A stop loss or take profit price may be nil.\<close>

record MTP =
  mt_Address :: string
  mt_CollateralAsset :: string
  mt_TradingAsset :: string
  mt_LiabilitiesAsset :: string
  mt_CustodyAsset :: string
  mt_Collateral :: int
  mt_Liabilities :: int
  mt_BorrowInterestPaidCustody :: int
  mt_BorrowInterestUnpaidLiability :: int
  mt_Custody :: int
  mt_MtpHealth :: int
  mt_Position :: Position
  mt_Id :: int
  mt_AmmPoolId :: int
  mt_TakeProfitPrice :: "int option"
  mt_TakeProfitBorrowFactor :: int
  mt_FundingFeePaidCustody :: int
  mt_FundingFeeReceivedCustody :: int
  mt_OpenPrice :: int
  mt_StopLossPrice :: "int option"
  mt_LastInterestCalcTime :: int
  mt_LastInterestCalcBlock :: int
  mt_LastFundingCalcTime :: int
  mt_LastFundingCalcBlock :: int

definition TakeProfitPriceDefault :: int where
  "TakeProfitPriceDefault = 10 ^ 40 * dec_one"

definition ErrMTPInvalid :: err where
  "ErrMTPInvalid = Sentinel ''perpetual'' 2"

definition NewMTP ::
    "block_ctx \<Rightarrow> string \<Rightarrow> string \<Rightarrow> string \<Rightarrow> string \<Rightarrow> string \<Rightarrow> Position \<Rightarrow> int option \<Rightarrow> int \<Rightarrow> MTP" where
  "NewMTP ctx signer collateralAsset tradingAsset liabilitiesAsset custodyAsset position takeProfitPrice poolId =
     \<lparr>mt_Address = signer, mt_CollateralAsset = collateralAsset, mt_TradingAsset = tradingAsset,
      mt_LiabilitiesAsset = liabilitiesAsset, mt_CustodyAsset = custodyAsset, mt_Collateral = 0,
      mt_Liabilities = 0, mt_BorrowInterestPaidCustody = 0, mt_BorrowInterestUnpaidLiability = 0,
      mt_Custody = 0, mt_MtpHealth = 0, mt_Position = position, mt_Id = 0, mt_AmmPoolId = poolId,
      mt_TakeProfitPrice = takeProfitPrice, mt_TakeProfitBorrowFactor = dec_one,
      mt_FundingFeePaidCustody = 0, mt_FundingFeeReceivedCustody = 0, mt_OpenPrice = 0,
      mt_StopLossPrice = Some 0,
      mt_LastInterestCalcTime = u64 (Unix (BlockTime ctx)), mt_LastInterestCalcBlock = u64 (BlockHeight ctx),
      mt_LastFundingCalcTime = u64 (Unix (BlockTime ctx)), mt_LastFundingCalcBlock = u64 (BlockHeight ctx)\<rparr>"

definition MTP_Validate :: "MTP \<Rightarrow> unit result" where
  "MTP_Validate mtp =
     (if mt_CollateralAsset mtp = [] then Inl ErrMTPInvalid
      else if mt_CustodyAsset mtp = [] then Inl ErrMTPInvalid
      else if mt_Address mtp = [] then Inl ErrMTPInvalid
      else if mt_Position mtp = Position_UNSPECIFIED then Inl ErrMTPInvalid
      else if mt_Id mtp = 0 then Inl ErrMTPInvalid
      else Inr ())"

definition GetAccountAddress :: "sdk \<Rightarrow> MTP \<Rightarrow> addr result" where
  "GetAccountAddress S mtp = MustAccAddress S (mt_Address mtp)"

definition GetBorrowInterestAmountAsCustodyAsset :: "dec_ops \<Rightarrow> bigdec_ops \<Rightarrow> MTP \<Rightarrow> int \<Rightarrow> int result" where
  "GetBorrowInterestAmountAsCustodyAsset D B mtp tradingAssetPriceInBaseUnits =
     (if mt_Position mtp = Position_LONG
      then if tradingAssetPriceInBaseUnits = 0
           then Inl (Plain ''trading asset price is zero in GetBorrowInterestAmountAsCustodyAsset'')
           else rbind (BQuo B (BigDecFromSDKInt (mt_BorrowInterestUnpaidLiability mtp)) tradingAssetPriceInBaseUnits)
                  (\<lambda>q. Inr (DTruncateInt D (BDec B q)))
      else Inr (DTruncateInt D (BDec B (BMul B (BigDecFromSDKInt (mt_BorrowInterestUnpaidLiability mtp))
             tradingAssetPriceInBaseUnits))))"

definition CheckForStopLoss :: "MTP \<Rightarrow> int \<Rightarrow> bool" where
  "CheckForStopLoss mtp tradingAssetPrice =
     (case mt_StopLossPrice mtp of
        None \<Rightarrow> False
      | Some stopLossPrice \<Rightarrow>
          if stopLossPrice = 0 then False
          else (case mt_Position mtp of
              Position_LONG \<Rightarrow> tradingAssetPrice \<le> stopLossPrice
            | Position_SHORT \<Rightarrow> tradingAssetPrice \<ge> stopLossPrice
            | Position_UNSPECIFIED \<Rightarrow> False))"

definition CheckForTakeProfit :: "MTP \<Rightarrow> int \<Rightarrow> bool" where
  "CheckForTakeProfit mtp tradingAssetPrice =
     (case mt_TakeProfitPrice mtp of
        None \<Rightarrow> False
      | Some takeProfitPrice \<Rightarrow>
          if takeProfitPrice = 0 then False
          else (case mt_Position mtp of
              Position_LONG \<Rightarrow> tradingAssetPrice \<ge> takeProfitPrice
            | Position_SHORT \<Rightarrow> tradingAssetPrice \<le> takeProfitPrice
            | Position_UNSPECIFIED \<Rightarrow> False))"

text \<open>\<open>Equal\<close> on a nil decimal dereferences it.\<close>

definition IsTakeProfitPriceInfinite :: "MTP \<Rightarrow> bool result" where
  "IsTakeProfitPriceInfinite mtp =
     (case mt_TakeProfitPrice mtp of
        None \<Rightarrow> Inl (Panic ''nil pointer dereference'')
      | Some takeProfitPrice \<Rightarrow> Inr (takeProfitPrice = TakeProfitPriceDefault))"

definition IsLong :: "MTP \<Rightarrow> bool" where
  "IsLong mtp \<longleftrightarrow> mt_Position mtp = Position_LONG"

definition IsShort :: "MTP \<Rightarrow> bool" where
  "IsShort mtp \<longleftrightarrow> mt_Position mtp = Position_SHORT"

text \<open>\<open>MulDec\<close> of a \<open>BigDec\<close> by the decimal of an integer.\<close>

definition GetMTPValue :: "bigdec_ops \<Rightarrow> MTP \<Rightarrow> int \<Rightarrow> int" where
  "GetMTPValue B mtp tradingAssetDenomPrice =
     BDec B (BMulDec B tradingAssetDenomPrice
       (dec_of_int (if IsLong mtp then mt_Custody mtp else mt_Liabilities mtp)))"

end
