(* ===== verification/AccountedPool.thy ===== *)
theory AccountedPool
  imports PerpTypes
begin

text \<open>
  The accounted pools (x/accountedpool): for an amm pool on which positions are traded, the
  balances that count as the pool's: those of the amm pool and, per denomination, what the
  perpetual module's positions owe the pool less what it holds for them. The hooks of the
  amm, leveragelp and perpetual modules keep them up to date.
\<close>

section \<open>Data and store\<close>

record AccountedPool =
  ap_PoolId :: int
  ap_TotalTokens :: "coin list"
  ap_NonAmmPoolTokens :: "coin list"

text \<open>A pool lies under its identifier in big endian.\<close>

record 'e apstate =
  as_pools :: "(int, AccountedPool) kvs"
  as_ext :: 'e

text \<open>The oracle of the price feeder, to which the pools are copied.\<close>

record 'e apkeeper =
  apk_sdk :: sdk
  apk_SetOraclePool :: "int \<Rightarrow> coin list \<Rightarrow> 'e \<Rightarrow> 'e"

definition acc_ErrPoolDoesNotExist :: err where
  "acc_ErrPoolDoesNotExist = Sentinel ''poolaccounted'' 1"
definition acc_ErrPoolAlreadyExist :: err where
  "acc_ErrPoolAlreadyExist = Sentinel ''poolaccounted'' 2"
definition acc_ErrDuplicatedAccountedPoolId :: err where
  "acc_ErrDuplicatedAccountedPoolId = Sentinel ''poolaccounted'' 3"

definition AccountedPoolKey :: "int \<Rightarrow> int" where
  "AccountedPoolKey poolId = poolId"

definition SetAccountedPool :: "AccountedPool \<Rightarrow> 'e apstate \<Rightarrow> 'e apstate" where
  "SetAccountedPool accountedPool s =
     s\<lparr>as_pools := kv_set (AccountedPoolKey (ap_PoolId accountedPool)) accountedPool (as_pools s)\<rparr>"

definition GetAccountedPool :: "'e apstate \<Rightarrow> int \<Rightarrow> AccountedPool option" where
  "GetAccountedPool s poolId = kv_get (as_pools s) (AccountedPoolKey poolId)"

definition RemoveAccountedPool :: "int \<Rightarrow> 'e apstate \<Rightarrow> 'e apstate" where
  "RemoveAccountedPool poolId s = s\<lparr>as_pools := kv_del (AccountedPoolKey poolId) (as_pools s)\<rparr>"

definition GetAllAccountedPool :: "'e apstate \<Rightarrow> AccountedPool list" where
  "GetAllAccountedPool s = map snd (as_pools s)"

definition PoolExists :: "'e apstate \<Rightarrow> int \<Rightarrow> bool" where
  "PoolExists s poolId \<longleftrightarrow> kv_has (as_pools s) (AccountedPoolKey poolId)"

definition coin_lookup :: "coin list \<Rightarrow> string \<Rightarrow> coin option" where
  "coin_lookup tokens denom = find (\<lambda>token. Denom token = denom) tokens"

definition acc_GetAccountedBalance :: "'e apstate \<Rightarrow> int \<Rightarrow> string \<Rightarrow> int" where
  "acc_GetAccountedBalance s poolId denom =
     (case GetAccountedPool s poolId of
        None \<Rightarrow> 0
      | Some pool \<Rightarrow> (case coin_lookup (ap_TotalTokens pool) denom of None \<Rightarrow> 0 | Some token \<Rightarrow> Amount token))"

definition GetNonAmmTokenBalance :: "AccountedPool \<Rightarrow> string \<Rightarrow> int result" where
  "GetNonAmmTokenBalance ap denom =
     (case coin_lookup (ap_NonAmmPoolTokens ap) denom of
        None \<Rightarrow> Inl (Plain ''denom not exist in accounted pool'')
      | Some nonAmmToken \<Rightarrow> Inr (Amount nonAmmToken))"

section \<open>The hooks\<close>

text \<open>The first coin of the denomination is replaced, none added.\<close>

fun replace_coin :: "string \<Rightarrow> (coin \<Rightarrow> coin) \<Rightarrow> coin list \<Rightarrow> coin list" where
  "replace_coin d f [] = []"
| "replace_coin d f (c # cs) = (if Denom c = d then f c # cs else c # replace_coin d f cs)"

definition amm_change_asset :: "PoolAsset \<Rightarrow> AccountedPool \<Rightarrow> AccountedPool" where
  "amm_change_asset ammPoolAsset accountedPool =
     (let token = pa_Token ammPoolAsset;
          nonAmmTokenBalance = (case coin_lookup (ap_NonAmmPoolTokens accountedPool) (Denom token) of
            None \<Rightarrow> 0 | Some c \<Rightarrow> Amount c)
      in accountedPool\<lparr>ap_TotalTokens := replace_coin (Denom token)
           (\<lambda>_. token\<lparr>Amount := Amount token + nonAmmTokenBalance\<rparr>) (ap_TotalTokens accountedPool)\<rparr>)"

definition UpdateAccountedPoolOnAmmChange :: "amm_Pool \<Rightarrow> 'e apstate \<Rightarrow> 'e apstate result" where
  "UpdateAccountedPoolOnAmmChange ammPool s =
     (case GetAccountedPool s (am_PoolId ammPool) of
        None \<Rightarrow> Inr s
      | Some accountedPool \<Rightarrow>
          Inr (SetAccountedPool (fold amm_change_asset (am_PoolAssets ammPool) accountedPool) s))"

definition OnLeverageLpPoolEnable :: "'e apkeeper \<Rightarrow> amm_Pool \<Rightarrow> 'e apstate \<Rightarrow> 'e apstate result" where
  "OnLeverageLpPoolEnable k ammPool s =
     (if PoolExists s (am_PoolId ammPool) then Inl acc_ErrPoolAlreadyExist
      else rbind (fold (\<lambda>poolAsset acc. rbind acc (\<lambda>tokens.
               rbind (NewCoin (apk_sdk k) (Denom (pa_Token poolAsset)) 0) (\<lambda>c. Inr (tokens @ [c]))))
             (am_PoolAssets ammPool) (Inr [])) (\<lambda>nonAmmPoolTokens.
           Inr (SetAccountedPool
             \<lparr>ap_PoolId = am_PoolId ammPool, ap_TotalTokens = map pa_Token (am_PoolAssets ammPool),
              ap_NonAmmPoolTokens = nonAmmPoolTokens\<rparr> s)))"

definition OnLeverageLpPoolDisable :: "amm_Pool \<Rightarrow> 'e apstate \<Rightarrow> 'e apstate result" where
  "OnLeverageLpPoolDisable ammPool s =
     (case GetAccountedPool s (am_PoolId ammPool) of
        None \<Rightarrow> Inl acc_ErrPoolDoesNotExist
      | Some accountedPool \<Rightarrow>
          if list_ex (\<lambda>c. Amount c \<noteq> 0) (ap_NonAmmPoolTokens accountedPool)
          then Inl (Plain ''all positions are not closed'')
          else Inr (RemoveAccountedPool (am_PoolId ammPool) s))"

text \<open>The loop reads a token and writes its place in the list; nothing is written past the
  first failure, and the pool is stored at the end.\<close>

fun perpetual_tokens ::
    "sdk \<Rightarrow> amm_Pool \<Rightarrow> PerpPool \<Rightarrow> coin list \<Rightarrow> coin list \<Rightarrow> (coin list \<times> coin list) result" where
  "perpetual_tokens S ammPool perpetualPool [] nonAmm = Inr ([], nonAmm)"
| "perpetual_tokens S ammPool perpetualPool (asset # assets) nonAmm =
     rbind (GetAmmPoolBalance ammPool (Denom asset)) (\<lambda>ammBalance.
     rbind (GetPerpetualPoolBalances perpetualPool (Denom asset)) (\<lambda>(totalLiabilities, totalCustody).
     let accountedPoolAmt = ammBalance + totalLiabilities - totalCustody
     in rbind (NewCoin S (Denom asset) accountedPoolAmt) (\<lambda>c.
        rbind (perpetual_tokens S ammPool perpetualPool assets
             (replace_coin (Denom asset) (\<lambda>c. c\<lparr>Amount := accountedPoolAmt - ammBalance\<rparr>) nonAmm))
        (\<lambda>(total, nonAmm'). Inr (c # total, nonAmm')))))"

definition PerpetualUpdates ::
    "'e apkeeper \<Rightarrow> amm_Pool \<Rightarrow> PerpPool \<Rightarrow> 'e apstate \<Rightarrow> 'e apstate result" where
  "PerpetualUpdates k ammPool perpetualPool s =
     (case GetAccountedPool s (am_PoolId ammPool) of
        None \<Rightarrow> Inl acc_ErrPoolDoesNotExist
      | Some accountedPool \<Rightarrow>
          rbind (perpetual_tokens (apk_sdk k) ammPool perpetualPool (ap_TotalTokens accountedPool)
                  (ap_NonAmmPoolTokens accountedPool)) (\<lambda>(total, nonAmm).
          Inr (SetAccountedPool (accountedPool\<lparr>ap_TotalTokens := total, ap_NonAmmPoolTokens := nonAmm\<rparr>) s)))"

section \<open>End of a block, genesis, query\<close>

definition UpdateOjoOracleAccountedPool :: "'e apkeeper \<Rightarrow> 'e apstate \<Rightarrow> 'e apstate" where
  "UpdateOjoOracleAccountedPool k s =
     s\<lparr>as_ext := fold (\<lambda>p e. apk_SetOraclePool k (ap_PoolId p) (ap_TotalTokens p) e)
         (GetAllAccountedPool s) (as_ext s)\<rparr>"

definition acc_EndBlocker :: "'e apkeeper \<Rightarrow> 'e apstate \<Rightarrow> 'e apstate" where
  "acc_EndBlocker k s = UpdateOjoOracleAccountedPool k s"

definition acc_InitGenesis :: "AccountedPool list \<Rightarrow> 'e apstate \<Rightarrow> 'e apstate" where
  "acc_InitGenesis accountedPoolList s = fold SetAccountedPool accountedPoolList s"

definition acc_ExportGenesis :: "'e apstate \<Rightarrow> AccountedPool list" where
  "acc_ExportGenesis s = GetAllAccountedPool s"

definition acc_genesis_Validate :: "AccountedPool list \<Rightarrow> unit result" where
  "acc_genesis_Validate accountedPoolList =
     (if distinct (map (\<lambda>p. AccountedPoolKey (ap_PoolId p)) accountedPoolList) then Inr ()
      else Inl acc_ErrDuplicatedAccountedPoolId)"

definition query_AccountedPool :: "'e apstate \<Rightarrow> int \<Rightarrow> AccountedPool result" where
  "query_AccountedPool s poolId =
     (case GetAccountedPool s poolId of None \<Rightarrow> Inl (Sentinel ''grpc'' 5) | Some val \<Rightarrow> Inr val)"

end
