(* ===== verification/AccountedProps.thy ===== *)
theory AccountedProps
  imports AccountedPool
begin

text \<open>
  The balance sheet of the accounted pools: whatever the amm, leveragelp and perpetual modules do,
  an accounted pool holds, denomination by denomination, the balance of the amm pool plus what the
  positions owe less what is held for them. The three modules appear by the hooks they call: a
  state pairs the accounted pools with the amm's pools and the perpetual pools as of their last
  call.
\<close>

section \<open>Coins by denomination\<close>

lemma coin_lookup_Cons [simp]:
  "coin_lookup (c # cs) d = (if Denom c = d then Some c else coin_lookup cs d)"
  by (simp add: coin_lookup_def)

lemma coin_lookup_Nil [simp]: "coin_lookup [] d = None"
  by (simp add: coin_lookup_def)

lemma coin_lookup_None: "coin_lookup cs d = None \<longleftrightarrow> d \<notin> Denom ` set cs"
  by (induction cs) auto

lemma replace_coin_denoms:
  "(\<And>c. Denom c = d \<Longrightarrow> Denom (f c) = d) \<Longrightarrow> map Denom (replace_coin d f cs) = map Denom cs"
  by (induction cs) auto

lemma lookup_replace:
  "(\<And>c. Denom c = d \<Longrightarrow> Denom (f c) = d) \<Longrightarrow>
     coin_lookup (replace_coin d f cs) d' = (if d' = d then map_option f (coin_lookup cs d) else coin_lookup cs d')"
  by (induction cs) auto

abbreviation asset_denoms :: "amm_Pool \<Rightarrow> string list" where
  "asset_denoms p \<equiv> map (\<lambda>a. Denom (pa_Token a)) (am_PoolAssets p)"

definition amm_amt :: "amm_Pool \<Rightarrow> string \<Rightarrow> int" where
  "amm_amt p d = (case GetAmmPoolBalance p d of Inl e \<Rightarrow> 0 | Inr n \<Rightarrow> n)"

lemma find_map_token:
  "find (\<lambda>a. Denom (pa_Token a) = d) as = Some a \<Longrightarrow> coin_lookup (map pa_Token as) d = Some (pa_Token a)"
  by (induction as) (auto split: if_splits)

lemma GetAmmPoolBalance_in:
  assumes "d \<in> set (asset_denoms p)"
  shows "GetAmmPoolBalance p d = Inr (amm_amt p d)"
    and "coin_lookup (map pa_Token (am_PoolAssets p)) d = Some \<lparr>Denom = d, Amount = amm_amt p d\<rparr>"
proof -
  have "find (\<lambda>a. Denom (pa_Token a) = d) (am_PoolAssets p) \<noteq> None"
    using assms by (auto simp: find_None_iff)
  then obtain a where a: "find (\<lambda>a. Denom (pa_Token a) = d) (am_PoolAssets p) = Some a" by auto
  then have "Denom (pa_Token a) = d" by (auto simp: find_Some_iff)
  then show "GetAmmPoolBalance p d = Inr (amm_amt p d)"
    "coin_lookup (map pa_Token (am_PoolAssets p)) d = Some \<lparr>Denom = d, Amount = amm_amt p d\<rparr>"
    using find_map_token [OF a] by (simp_all add: amm_amt_def GetAmmPoolBalance_def a)
qed

section \<open>The effect of the hooks on one pool\<close>

definition coin_amt :: "coin list \<Rightarrow> string \<Rightarrow> int" where
  "coin_amt cs d = (case coin_lookup cs d of None \<Rightarrow> 0 | Some c \<Rightarrow> Amount c)"

lemma amm_change_fold:
  assumes "distinct (map (\<lambda>a. Denom (pa_Token a)) as)"
  shows "ap_PoolId (fold amm_change_asset as acc) = ap_PoolId acc"
    and "ap_NonAmmPoolTokens (fold amm_change_asset as acc) = ap_NonAmmPoolTokens acc"
    and "map Denom (ap_TotalTokens (fold amm_change_asset as acc)) = map Denom (ap_TotalTokens acc)"
    and "coin_amt (ap_TotalTokens (fold amm_change_asset as acc)) d =
      (case coin_lookup (map pa_Token as) d of
         None \<Rightarrow> coin_amt (ap_TotalTokens acc) d
       | Some c \<Rightarrow> if coin_lookup (ap_TotalTokens acc) d = None then 0
           else Amount c + coin_amt (ap_NonAmmPoolTokens acc) d)"
proof -
  have "ap_PoolId (fold amm_change_asset as acc) = ap_PoolId acc \<and>
    ap_NonAmmPoolTokens (fold amm_change_asset as acc) = ap_NonAmmPoolTokens acc \<and>
    map Denom (ap_TotalTokens (fold amm_change_asset as acc)) = map Denom (ap_TotalTokens acc) \<and>
    coin_amt (ap_TotalTokens (fold amm_change_asset as acc)) d =
      (case coin_lookup (map pa_Token as) d of
         None \<Rightarrow> coin_amt (ap_TotalTokens acc) d
       | Some c \<Rightarrow> if coin_lookup (ap_TotalTokens acc) d = None then 0
           else Amount c + coin_amt (ap_NonAmmPoolTokens acc) d)"
    using assms
  proof (induction as arbitrary: acc)
    case Nil
    then show ?case by simp
  next
    case (Cons a as)
    have own: "Denom (pa_Token a) \<notin> Denom ` set (map pa_Token as)"
      using Cons.prems by (auto simp: image_image)
    then have notin: "coin_lookup (map pa_Token as) (Denom (pa_Token a)) = None"
      by (simp add: coin_lookup_None)
    note IH = Cons.IH [of "amm_change_asset a acc"]
    show ?case
      using IH Cons.prems notin
      by (auto simp: amm_change_asset_def Let_def replace_coin_denoms lookup_replace coin_amt_def
          split: option.splits)
  qed
  then show "ap_PoolId (fold amm_change_asset as acc) = ap_PoolId acc"
    "ap_NonAmmPoolTokens (fold amm_change_asset as acc) = ap_NonAmmPoolTokens acc"
    "map Denom (ap_TotalTokens (fold amm_change_asset as acc)) = map Denom (ap_TotalTokens acc)"
    "coin_amt (ap_TotalTokens (fold amm_change_asset as acc)) d =
      (case coin_lookup (map pa_Token as) d of
         None \<Rightarrow> coin_amt (ap_TotalTokens acc) d
       | Some c \<Rightarrow> if coin_lookup (ap_TotalTokens acc) d = None then 0
           else Amount c + coin_amt (ap_NonAmmPoolTokens acc) d)" by auto
qed

lemma coin_amt_Cons: "coin_amt (c # cs) d = (if Denom c = d then Amount c else coin_amt cs d)"
  by (simp add: coin_amt_def)

lemma replace_amount:
  "map Denom (replace_coin d (\<lambda>c. c\<lparr>Amount := v\<rparr>) cs) = map Denom cs"
  "Denom ` set (replace_coin d (\<lambda>c. c\<lparr>Amount := v\<rparr>) cs) = Denom ` set cs"
  "coin_amt (replace_coin d (\<lambda>c. c\<lparr>Amount := v\<rparr>) cs) d' =
     (if d' = d \<and> d \<in> Denom ` set cs then v else coin_amt cs d')"
proof -
  show den: "map Denom (replace_coin d (\<lambda>c. c\<lparr>Amount := v\<rparr>) cs) = map Denom cs"
    by (rule replace_coin_denoms) simp
  show "Denom ` set (replace_coin d (\<lambda>c. c\<lparr>Amount := v\<rparr>) cs) = Denom ` set cs"
    using arg_cong [OF den, of set] by simp
  show "coin_amt (replace_coin d (\<lambda>c. c\<lparr>Amount := v\<rparr>) cs) d' =
     (if d' = d \<and> d \<in> Denom ` set cs then v else coin_amt cs d')"
    by (induction cs) (auto simp: coin_amt_Cons)
qed

text \<open>What the positions of a perpetual pool owe less what is held for them.\<close>

definition perp_net :: "PerpPool option \<Rightarrow> string \<Rightarrow> int" where
  "perp_net pp d = (case pp of None \<Rightarrow> 0 | Some p \<Rightarrow>
     (case GetPerpetualPoolBalances p d of Inl e \<Rightarrow> 0 | Inr (l, c) \<Rightarrow> l - c))"

lemma perpetual_tokens_Inr:
  assumes "sdk_laws S" and "distinct (map Denom tokens)"
    and "perpetual_tokens S p pp tokens nonAmm = Inr (tot, nonAmm')"
  shows "map Denom tot = map Denom tokens \<and> map Denom nonAmm' = map Denom nonAmm \<and>
    (\<forall>d\<in>Denom ` set tokens. coin_amt tot d = amm_amt p d + perp_net (Some pp) d) \<and>
    (\<forall>d. coin_amt nonAmm' d = (if d \<in> Denom ` set tokens \<and> d \<in> Denom ` set nonAmm
       then perp_net (Some pp) d else coin_amt nonAmm d))"
  using assms(2,3)
proof (induction tokens arbitrary: nonAmm tot)
  case Nil
  then show ?case by simp
next
  case (Cons a tokens)
  let ?d = "Denom a"
  obtain n l c rest where r: "GetAmmPoolBalance p ?d = Inr n" "GetPerpetualPoolBalances pp ?d = Inr (l, c)"
      "perpetual_tokens S p pp tokens
         (replace_coin ?d (\<lambda>x. x\<lparr>Amount := n + l - c - n\<rparr>) nonAmm) = Inr (rest, nonAmm')"
    and tot: "tot = \<lparr>Denom = ?d, Amount = n + l - c\<rparr> # rest"
    using Cons.prems(2) by (auto simp: Let_def NewCoin_Inr [OF assms(1)])
  have amts: "amm_amt p ?d = n" "perp_net (Some pp) ?d = l - c"
    using r by (simp_all add: amm_amt_def perp_net_def)
  have notin: "?d \<notin> Denom ` set tokens" using Cons.prems(1) by auto
  have IH: "map Denom rest = map Denom tokens" "map Denom nonAmm' = map Denom nonAmm"
      "\<forall>d\<in>Denom ` set tokens. coin_amt rest d = amm_amt p d + perp_net (Some pp) d"
      "\<And>d. coin_amt nonAmm' d = (if d \<in> Denom ` set tokens \<and> d \<in> Denom ` set nonAmm then perp_net (Some pp) d
         else if d = ?d \<and> ?d \<in> Denom ` set nonAmm then n + l - c - n else coin_amt nonAmm d)"
    using Cons.IH [OF _ r(3)] Cons.prems(1) unfolding replace_amount by auto
  show ?case
  proof (intro conjI)
    show "map Denom tot = map Denom (a # tokens)" by (simp add: tot IH(1))
    show "map Denom nonAmm' = map Denom nonAmm" by (rule IH(2))
    show "\<forall>d\<in>Denom ` set (a # tokens). coin_amt tot d = amm_amt p d + perp_net (Some pp) d"
      using IH(3) notin amts by (simp add: tot coin_amt_Cons) fastforce
    show "\<forall>d. coin_amt nonAmm' d = (if d \<in> Denom ` set (a # tokens) \<and> d \<in> Denom ` set nonAmm
       then perp_net (Some pp) d else coin_amt nonAmm d)"
      using IH(4) notin amts by simp
  qed
qed

section \<open>Runs of the three modules\<close>

text \<open>The amm's pools, and the perpetual pools as last passed since the pool was enabled. The amm
  gives a new pool a fresh identifier and never changes the denominations of one: what the first
  checks of a step say.\<close>

record 'e acc_sys =
  sy_acc :: "'e apstate"
  sy_amm :: "int \<Rightarrow> amm_Pool option"
  sy_perp :: "int \<Rightarrow> PerpPool option"

datatype acc_op =
    AmmPoolCreated amm_Pool
  | AmmPoolChanged amm_Pool
  | PoolEnabled int
  | PoolDisabled int
  | PerpetualUpdated amm_Pool PerpPool
  | BlockEnded

definition known_pool :: "'e acc_sys \<Rightarrow> amm_Pool \<Rightarrow> bool" where
  "known_pool sy p \<longleftrightarrow> (case sy_amm sy (am_PoolId p) of None \<Rightarrow> False | Some q \<Rightarrow> asset_denoms p = asset_denoms q)"

definition put_pool :: "'e apstate \<Rightarrow> amm_Pool \<Rightarrow> 'e acc_sys \<Rightarrow> 'e acc_sys" where
  "put_pool acc p sy = sy\<lparr>sy_acc := acc, sy_amm := (sy_amm sy)(am_PoolId p \<mapsto> p)\<rparr>"

fun acc_step :: "'e apkeeper \<Rightarrow> acc_op \<Rightarrow> 'e acc_sys \<Rightarrow> 'e acc_sys result" where
  "acc_step k (AmmPoolCreated p) sy =
     (if sy_amm sy (am_PoolId p) \<noteq> None \<or> \<not> distinct (asset_denoms p) then Inl (Plain ''pool'')
      else Inr (put_pool (sy_acc sy) p sy))"
| "acc_step k (AmmPoolChanged p) sy =
     (if \<not> known_pool sy p then Inl (Plain ''pool'')
      else rbind (UpdateAccountedPoolOnAmmChange p (sy_acc sy)) (\<lambda>acc. Inr (put_pool acc p sy)))"
| "acc_step k (PoolEnabled i) sy =
     (case sy_amm sy i of
        None \<Rightarrow> Inl (Plain ''pool'')
      | Some p \<Rightarrow> rbind (OnLeverageLpPoolEnable k p (sy_acc sy)) (\<lambda>acc.
          Inr (sy\<lparr>sy_acc := acc, sy_perp := (sy_perp sy)(i := None)\<rparr>)))"
| "acc_step k (PoolDisabled i) sy =
     (case sy_amm sy i of
        None \<Rightarrow> Inl (Plain ''pool'')
      | Some p \<Rightarrow> rbind (OnLeverageLpPoolDisable p (sy_acc sy)) (\<lambda>acc. Inr (sy\<lparr>sy_acc := acc\<rparr>)))"
| "acc_step k (PerpetualUpdated p pp) sy =
     (if \<not> known_pool sy p then Inl (Plain ''pool'')
      else rbind (PerpetualUpdates k p pp (sy_acc sy)) (\<lambda>acc.
           Inr ((put_pool acc p sy)\<lparr>sy_perp := (sy_perp sy)(am_PoolId p \<mapsto> pp)\<rparr>)))"
| "acc_step k BlockEnded sy = Inr (sy\<lparr>sy_acc := acc_EndBlocker k (sy_acc sy)\<rparr>)"

definition sheet :: "AccountedPool \<Rightarrow> amm_Pool \<Rightarrow> PerpPool option \<Rightarrow> bool" where
  "sheet acc p pp \<longleftrightarrow> ap_PoolId acc = am_PoolId p \<and> map Denom (ap_TotalTokens acc) = asset_denoms p \<and>
     map Denom (ap_NonAmmPoolTokens acc) = asset_denoms p \<and>
     (\<forall>d\<in>set (asset_denoms p). coin_amt (ap_TotalTokens acc) d = amm_amt p d + perp_net pp d \<and>
        coin_amt (ap_NonAmmPoolTokens acc) d = perp_net pp d)"

definition acc_inv :: "'e apkeeper \<Rightarrow> 'e acc_sys \<Rightarrow> bool" where
  "acc_inv k sy \<longleftrightarrow> sdk_laws (apk_sdk k) \<and>
     (\<forall>i p. sy_amm sy i = Some p \<longrightarrow> am_PoolId p = i \<and> distinct (asset_denoms p)) \<and>
     (\<forall>i acc. GetAccountedPool (sy_acc sy) i = Some acc \<longrightarrow>
        (\<exists>p. sy_amm sy i = Some p \<and> sheet acc p (sy_perp sy i)))"

section \<open>Every step keeps the balance sheet\<close>

lemma GetAccounted_Set:
  "GetAccountedPool (SetAccountedPool a s) i = (if i = ap_PoolId a then Some a else GetAccountedPool s i)"
  by (simp add: GetAccountedPool_def SetAccountedPool_def AccountedPoolKey_def kv_get_set)

lemma GetAccounted_Remove:
  "GetAccountedPool (RemoveAccountedPool j s) i = (if i = j then None else GetAccountedPool s i)"
  by (simp add: GetAccountedPool_def RemoveAccountedPool_def AccountedPoolKey_def kv_get_del)

lemma lookup_tokens:
  "coin_lookup (map pa_Token as) d = None \<longleftrightarrow> d \<notin> (\<lambda>a. Denom (pa_Token a)) ` set as"
  by (simp add: coin_lookup_None image_image)

lemma sheet_amm_change:
  assumes "sheet acc q pp" "asset_denoms p = asset_denoms q" "am_PoolId p = am_PoolId q" "distinct (asset_denoms q)"
  shows "sheet (fold amm_change_asset (am_PoolAssets p) acc) p pp"
proof -
  have dist: "distinct (map (\<lambda>a. Denom (pa_Token a)) (am_PoolAssets p))" using assms(2,4) by simp
  note F = amm_change_fold [OF dist, of acc]
  have "coin_amt (ap_TotalTokens (fold amm_change_asset (am_PoolAssets p) acc)) d = amm_amt p d + perp_net pp d"
    if d: "d \<in> set (asset_denoms p)" for d
  proof -
    have "d \<in> set (map Denom (ap_TotalTokens acc))" using assms(1,2) d by (simp only: sheet_def)
    then have "coin_lookup (ap_TotalTokens acc) d \<noteq> None" by (simp add: coin_lookup_None)
    moreover have "coin_amt (ap_NonAmmPoolTokens acc) d = perp_net pp d"
      using assms(1) d unfolding sheet_def assms(2) [symmetric] by blast
    ultimately show ?thesis using F(4) [of d] GetAmmPoolBalance_in(2) [OF d] by auto
  qed
  then show ?thesis using assms(1-3) by (simp add: sheet_def F(1-3))
qed

lemma sheet_perpetual:
  assumes "sdk_laws S" "sheet acc q old" "asset_denoms p = asset_denoms q" "am_PoolId p = am_PoolId q"
    and "distinct (asset_denoms q)"
    and "perpetual_tokens S p pp (ap_TotalTokens acc) (ap_NonAmmPoolTokens acc) = Inr (tot, nonAmm)"
  shows "sheet (acc\<lparr>ap_TotalTokens := tot, ap_NonAmmPoolTokens := nonAmm\<rparr>) p (Some pp)"
proof -
  have maps: "map Denom (ap_TotalTokens acc) = asset_denoms p" "map Denom (ap_NonAmmPoolTokens acc) = asset_denoms p"
    using assms(2,3) by (simp_all add: sheet_def)
  have sets: "Denom ` set (ap_TotalTokens acc) = set (asset_denoms p)"
      "Denom ` set (ap_NonAmmPoolTokens acc) = set (asset_denoms p)"
    using arg_cong [OF maps(1), of set] arg_cong [OF maps(2), of set] by simp_all
  have "distinct (map Denom (ap_TotalTokens acc))" using assms(3,5) by (simp add: maps)
  from perpetual_tokens_Inr [OF assms(1) this assms(6)] show ?thesis
    unfolding sheet_def sets maps using assms(2,4) by (simp add: sheet_def)
qed

lemma enable_tokens:
  assumes "sdk_laws S"
    and "fold (\<lambda>poolAsset acc. rbind acc (\<lambda>tokens. rbind (NewCoin S (Denom (pa_Token poolAsset)) 0) (\<lambda>c. Inr (tokens @ [c]))))
      as (Inr ts) = Inr cs"
  shows "cs = ts @ map (\<lambda>a. \<lparr>Denom = Denom (pa_Token a), Amount = 0\<rparr>) as"
  using assms(2)
proof (induction as arbitrary: ts)
  case Nil
  then show ?case by simp
next
  case (Cons a as)
  have err: "fold (\<lambda>poolAsset acc. rbind acc (\<lambda>tokens. rbind (NewCoin S (Denom (pa_Token poolAsset)) 0) (\<lambda>c. Inr (tokens @ [c]))))
      bs (Inl e) = Inl e" for bs and e
    by (induction bs) simp_all
  show ?case
  proof (cases "NewCoin S (Denom (pa_Token a)) 0")
    case (Inl e)
    then show ?thesis using Cons.prems by (simp add: err)
  next
    case (Inr c)
    then have "c = \<lparr>Denom = Denom (pa_Token a), Amount = 0\<rparr>" by (simp add: NewCoin_Inr [OF assms(1)])
    then show ?thesis using Cons.IH [of "ts @ [c]"] Cons.prems Inr by simp
  qed
qed

lemma coin_amt_zero: "coin_amt (map (\<lambda>a. \<lparr>Denom = f a, Amount = 0\<rparr>) as) d = 0"
  by (induction as) (simp_all add: coin_amt_def)

lemma sheet_enable:
  "sheet \<lparr>ap_PoolId = am_PoolId p, ap_TotalTokens = map pa_Token (am_PoolAssets p),
     ap_NonAmmPoolTokens = map (\<lambda>a. \<lparr>Denom = Denom (pa_Token a), Amount = 0\<rparr>) (am_PoolAssets p)\<rparr> p None"
proof -
  have "coin_amt (map pa_Token (am_PoolAssets p)) d = amm_amt p d" if "d \<in> set (asset_denoms p)" for d
    using GetAmmPoolBalance_in(2) [OF that] by (simp add: coin_amt_def)
  then show ?thesis by (simp add: sheet_def comp_def coin_amt_zero perp_net_def)
qed

lemma known_pool_E:
  assumes "known_pool sy p"
  obtains q where "sy_amm sy (am_PoolId p) = Some q" "asset_denoms p = asset_denoms q"
  using assms by (auto simp: known_pool_def split: option.splits)

lemma acc_inv_put:
  assumes inv: "acc_inv k sy" and p: "distinct (asset_denoms p)"
    and same: "\<And>i. i \<noteq> am_PoolId p \<Longrightarrow> GetAccountedPool acc' i = GetAccountedPool (sy_acc sy) i"
    and own: "\<And>acc. GetAccountedPool acc' (am_PoolId p) = Some acc \<Longrightarrow> sheet acc p (perp (am_PoolId p))"
    and perp: "\<And>i. i \<noteq> am_PoolId p \<Longrightarrow> perp i = sy_perp sy i"
  shows "acc_inv k \<lparr>sy_acc = acc', sy_amm = (sy_amm sy)(am_PoolId p \<mapsto> p), sy_perp = perp\<rparr>"
  unfolding acc_inv_def
proof (intro conjI allI impI)
  show "sdk_laws (apk_sdk k)" using inv by (simp add: acc_inv_def)
next
  fix i q assume "sy_amm \<lparr>sy_acc = acc', sy_amm = (sy_amm sy)(am_PoolId p \<mapsto> p), sy_perp = perp\<rparr> i = Some q"
  then show "am_PoolId q = i" "distinct (asset_denoms q)"
    using inv p by (auto simp: acc_inv_def split: if_splits)
next
  fix i acc
  let ?sy = "\<lparr>sy_acc = acc', sy_amm = (sy_amm sy)(am_PoolId p \<mapsto> p), sy_perp = perp\<rparr>"
  assume "GetAccountedPool (sy_acc ?sy) i = Some acc"
  then show "\<exists>q. sy_amm ?sy i = Some q \<and> sheet acc q (sy_perp ?sy i)"
    using inv own same [of i] perp [of i] by (cases "i = am_PoolId p") (auto simp: acc_inv_def)
qed

lemma acc_inv_sheet:
  "acc_inv k sy \<Longrightarrow> GetAccountedPool (sy_acc sy) i = Some a \<Longrightarrow> sy_amm sy i = Some q \<Longrightarrow>
     sheet a q (sy_perp sy i)"
  unfolding acc_inv_def by fastforce

lemma put_pool_eq:
  "put_pool acc p sy = \<lparr>sy_acc = acc, sy_amm = (sy_amm sy)(am_PoolId p \<mapsto> p), sy_perp = sy_perp sy\<rparr>"
  by (simp add: put_pool_def)

lemma acc_inv_amm:
  assumes inv: "acc_inv k sy" and known: "known_pool sy p"
    and upd: "UpdateAccountedPoolOnAmmChange p (sy_acc sy) = Inr acc'"
  shows "acc_inv k (put_pool acc' p sy)"
proof -
  obtain q where q: "sy_amm sy (am_PoolId p) = Some q" "asset_denoms p = asset_denoms q"
    using known by (rule known_pool_E)
  then have Q: "am_PoolId q = am_PoolId p" "distinct (asset_denoms q)" using inv by (simp_all add: acc_inv_def)
  show ?thesis
    unfolding put_pool_eq
  proof (rule acc_inv_put [OF inv])
    show "distinct (asset_denoms p)" using q(2) Q(2) by simp
    show "GetAccountedPool acc' i = GetAccountedPool (sy_acc sy) i" if "i \<noteq> am_PoolId p" for i
    proof (cases "GetAccountedPool (sy_acc sy) (am_PoolId p)")
      case None
      then show ?thesis using upd by (simp add: UpdateAccountedPoolOnAmmChange_def)
    next
      case (Some a)
      have "ap_PoolId a = am_PoolId p" using acc_inv_sheet [OF inv Some q(1)] Q(1) by (simp add: sheet_def)
      moreover have "ap_PoolId (fold amm_change_asset (am_PoolAssets p) a) = ap_PoolId a"
        by (rule amm_change_fold(1)) (use q(2) Q(2) in simp)
      ultimately show ?thesis
        using upd Some that by (auto simp: UpdateAccountedPoolOnAmmChange_def GetAccounted_Set)
    qed
    show "sheet acc p (sy_perp sy (am_PoolId p))" if acc: "GetAccountedPool acc' (am_PoolId p) = Some acc" for acc
    proof (cases "GetAccountedPool (sy_acc sy) (am_PoolId p)")
      case None
      then show ?thesis using upd acc by (simp add: UpdateAccountedPoolOnAmmChange_def)
    next
      case (Some a)
      have a: "sheet a q (sy_perp sy (am_PoolId p))" by (rule acc_inv_sheet [OF inv Some q(1)])
      note new = sheet_amm_change [OF a q(2) _ Q(2)]
      have "ap_PoolId (fold amm_change_asset (am_PoolAssets p) a) = am_PoolId p"
        using new Q(1) by (simp add: sheet_def)
      then have "acc = fold amm_change_asset (am_PoolAssets p) a"
        using upd acc Some by (auto simp: UpdateAccountedPoolOnAmmChange_def GetAccounted_Set)
      then show ?thesis using new Q(1) by simp
    qed
  qed simp
qed

lemma acc_inv_perp:
  assumes inv: "acc_inv k sy" and known: "known_pool sy p"
    and upd: "PerpetualUpdates k p pp (sy_acc sy) = Inr acc'"
  shows "acc_inv k ((put_pool acc' p sy)\<lparr>sy_perp := (sy_perp sy)(am_PoolId p \<mapsto> pp)\<rparr>)"
proof -
  obtain q where q: "sy_amm sy (am_PoolId p) = Some q" "asset_denoms p = asset_denoms q"
    using known by (rule known_pool_E)
  then have Q: "am_PoolId p = am_PoolId q" "distinct (asset_denoms q)" using inv by (simp_all add: acc_inv_def)
  obtain a tot nonAmm where a: "GetAccountedPool (sy_acc sy) (am_PoolId p) = Some a"
      and tokens: "perpetual_tokens (apk_sdk k) p pp (ap_TotalTokens a) (ap_NonAmmPoolTokens a) = Inr (tot, nonAmm)"
      and acc': "acc' = SetAccountedPool (a\<lparr>ap_TotalTokens := tot, ap_NonAmmPoolTokens := nonAmm\<rparr>) (sy_acc sy)"
    using upd by (auto simp: PerpetualUpdates_def split: option.splits)
  have sh: "sheet a q (sy_perp sy (am_PoolId p))" by (rule acc_inv_sheet [OF inv a q(1)])
  have S: "sdk_laws (apk_sdk k)" using inv by (simp add: acc_inv_def)
  note new = sheet_perpetual [OF S sh q(2) Q tokens]
  have id: "ap_PoolId a = am_PoolId p" using sh Q(1) by (simp add: sheet_def)
  have "acc_inv k \<lparr>sy_acc = acc', sy_amm = (sy_amm sy)(am_PoolId p \<mapsto> p), sy_perp = (sy_perp sy)(am_PoolId p \<mapsto> pp)\<rparr>"
  proof (rule acc_inv_put [OF inv])
    show "distinct (asset_denoms p)" using q(2) Q(2) by simp
    show "GetAccountedPool acc' i = GetAccountedPool (sy_acc sy) i" if "i \<noteq> am_PoolId p" for i
      using that id by (simp add: acc' GetAccounted_Set)
    show "sheet acc p (((sy_perp sy)(am_PoolId p \<mapsto> pp)) (am_PoolId p))"
      if "GetAccountedPool acc' (am_PoolId p) = Some acc" for acc
      using that new id by (auto simp: acc' GetAccounted_Set)
  qed simp
  then show ?thesis by (simp add: put_pool_eq)
qed

lemma acc_step_inv: "acc_inv k sy \<Longrightarrow> acc_step k x sy = Inr sy' \<Longrightarrow> acc_inv k sy'"
proof (cases x)
  case (AmmPoolCreated p)
  assume inv: "acc_inv k sy" and st: "acc_step k x sy = Inr sy'"
  have new: "sy_amm sy (am_PoolId p) = None" "distinct (asset_denoms p)" "sy' = put_pool (sy_acc sy) p sy"
    using st AmmPoolCreated by (auto split: if_splits)
  then have "GetAccountedPool (sy_acc sy) (am_PoolId p) = None"
    using inv unfolding acc_inv_def by (metis not_Some_eq)
  then show ?thesis unfolding new(3) put_pool_eq by (intro acc_inv_put [OF inv new(2)]) simp_all
next
  case (PoolEnabled i)
  assume inv: "acc_inv k sy" and st: "acc_step k x sy = Inr sy'"
  obtain p acc' where p: "sy_amm sy i = Some p" "OnLeverageLpPoolEnable k p (sy_acc sy) = Inr acc'"
      "sy' = sy\<lparr>sy_acc := acc', sy_perp := (sy_perp sy)(i := None)\<rparr>"
    using st PoolEnabled by (auto split: option.splits)
  have P: "am_PoolId p = i" "distinct (asset_denoms p)" and S: "sdk_laws (apk_sdk k)"
    using inv p(1) by (simp_all add: acc_inv_def)
  have acc': "acc' = SetAccountedPool
      \<lparr>ap_PoolId = am_PoolId p, ap_TotalTokens = map pa_Token (am_PoolAssets p),
       ap_NonAmmPoolTokens = map (\<lambda>a. \<lparr>Denom = Denom (pa_Token a), Amount = 0\<rparr>) (am_PoolAssets p)\<rparr> (sy_acc sy)"
    using p(2) enable_tokens [OF S, of "am_PoolAssets p" "[]"]
    by (auto simp: OnLeverageLpPoolEnable_def split: if_splits)
  have eq: "sy' = \<lparr>sy_acc = acc', sy_amm = (sy_amm sy)(am_PoolId p \<mapsto> p), sy_perp = (sy_perp sy)(i := None)\<rparr>"
    using p(1,3) P(1) by (cases sy) (simp add: fun_upd_idem)
  show ?thesis unfolding eq
  proof (rule acc_inv_put [OF inv P(2)])
    show "sheet acc p (((sy_perp sy)(i := None)) (am_PoolId p))"
      if "GetAccountedPool acc' (am_PoolId p) = Some acc" for acc
      using that sheet_enable [of p] P(1) by (simp add: acc' GetAccounted_Set)
  qed (simp_all add: acc' GetAccounted_Set P(1))
next
  case (PoolDisabled i)
  assume inv: "acc_inv k sy" and st: "acc_step k x sy = Inr sy'"
  obtain p where "sy_amm sy i = Some p"
      "sy' = sy\<lparr>sy_acc := RemoveAccountedPool (am_PoolId p) (sy_acc sy)\<rparr>"
    using st PoolDisabled by (auto simp: OnLeverageLpPoolDisable_def split: option.splits if_splits)
  then show ?thesis using inv by (auto simp: acc_inv_def GetAccounted_Remove split: if_splits)
next
  case BlockEnded
  assume "acc_inv k sy" and "acc_step k x sy = Inr sy'"
  then show ?thesis using BlockEnded
    by (auto simp: acc_inv_def acc_EndBlocker_def UpdateOjoOracleAccountedPool_def GetAccountedPool_def)
qed (auto simp: acc_inv_amm acc_inv_perp split: if_splits)

interpretation acc_run: invariant_step "acc_step k" "acc_inv k" for k
  by unfold_locales (rule acc_step_inv)

section \<open>The property\<close>

lemma coin_amt_mem: "distinct (map Denom cs) \<Longrightarrow> c \<in> set cs \<Longrightarrow> coin_amt cs (Denom c) = Amount c"
  by (induction cs) (auto simp: coin_amt_Cons)

lemma all_zero_iff:
  assumes "distinct (map Denom cs)"
  shows "\<not> list_ex (\<lambda>c. Amount c \<noteq> 0) cs \<longleftrightarrow> (\<forall>d\<in>Denom ` set cs. coin_amt cs d = 0)"
  using coin_amt_mem [OF assms] by (auto simp: list_ex_iff)

text \<open>C40: through any run of pool changes in the amm, positions in the perpetual module and
  pools enabled and disabled by leveragelp, the accounted balance of a pool is, in each of its
  denominations, the balance of the amm pool plus the positions' liabilities less their custody,
  as the perpetual module last reported them; the part that is not the amm's is recorded as
  that difference, and a pool can be disabled exactly when the difference is zero everywhere.\<close>

theorem accounted_balance_sheet:
  assumes "acc_inv k sy" and "t = run_ops (acc_step k) xs sy" and "GetAccountedPool (sy_acc t) i = Some acc"
  shows "\<exists>p. sy_amm t i = Some p \<and>
    (\<forall>d\<in>set (asset_denoms p).
       acc_GetAccountedBalance (sy_acc t) i d = amm_amt p d + perp_net (sy_perp t i) d \<and>
       GetNonAmmTokenBalance acc d = Inr (perp_net (sy_perp t i) d)) \<and>
    (is_ok (OnLeverageLpPoolDisable p (sy_acc t)) \<longleftrightarrow> (\<forall>d\<in>set (asset_denoms p). perp_net (sy_perp t i) d = 0))"
proof -
  have inv: "acc_inv k t" unfolding assms(2) by (rule acc_run.run_inv [OF assms(1)])
  obtain p where p: "sy_amm t i = Some p" "sheet acc p (sy_perp t i)"
    using inv assms(3) unfolding acc_inv_def by blast
  have id: "am_PoolId p = i" "distinct (asset_denoms p)" using inv p(1) by (simp_all add: acc_inv_def)
  have non: "map Denom (ap_NonAmmPoolTokens acc) = asset_denoms p" using p(2) by (simp add: sheet_def)
  have nonset: "Denom ` set (ap_NonAmmPoolTokens acc) = set (asset_denoms p)"
    using arg_cong [OF non, of set] by simp
  have bal: "acc_GetAccountedBalance (sy_acc t) i d = amm_amt p d + perp_net (sy_perp t i) d \<and>
       GetNonAmmTokenBalance acc d = Inr (perp_net (sy_perp t i) d)" if d: "d \<in> set (asset_denoms p)" for d
  proof -
    have "coin_lookup (ap_NonAmmPoolTokens acc) d \<noteq> None" using d nonset by (simp add: coin_lookup_None)
    then obtain c where "coin_lookup (ap_NonAmmPoolTokens acc) d = Some c" by auto
    moreover have "coin_amt (ap_TotalTokens acc) d = amm_amt p d + perp_net (sy_perp t i) d"
        "coin_amt (ap_NonAmmPoolTokens acc) d = perp_net (sy_perp t i) d"
      using p(2) d unfolding sheet_def by blast+
    ultimately show ?thesis
      using assms(3) by (simp add: acc_GetAccountedBalance_def GetNonAmmTokenBalance_def coin_amt_def)
  qed
  have "\<not> list_ex (\<lambda>c. Amount c \<noteq> 0) (ap_NonAmmPoolTokens acc) \<longleftrightarrow>
      (\<forall>d\<in>set (asset_denoms p). coin_amt (ap_NonAmmPoolTokens acc) d = 0)"
    using all_zero_iff [of "ap_NonAmmPoolTokens acc"] id(2) unfolding non nonset by simp
  also have "\<dots> \<longleftrightarrow> (\<forall>d\<in>set (asset_denoms p). perp_net (sy_perp t i) d = 0)"
    using p(2) unfolding sheet_def by (intro ball_cong refl) fastforce
  finally have "is_ok (OnLeverageLpPoolDisable p (sy_acc t)) \<longleftrightarrow>
      (\<forall>d\<in>set (asset_denoms p). perp_net (sy_perp t i) d = 0)"
    using assms(3) id(1) by (cases "list_ex (\<lambda>c. Amount c \<noteq> 0) (ap_NonAmmPoolTokens acc)")
      (simp_all add: OnLeverageLpPoolDisable_def)
  then show ?thesis using p(1) bal by blast
qed

definition acc_keeper :: "unit apkeeper" where
  "acc_keeper = \<lparr>apk_sdk = std_sdk, apk_SetOraclePool = (\<lambda>i cs e. e)\<rparr>"

definition atom_usdc :: "int \<Rightarrow> int \<Rightarrow> amm_Pool" where
  "atom_usdc x y =
     \<lparr>am_PoolId = 1, am_Address = ''pool1'',
      am_PoolParams = \<lparr>pp_SwapFee = 0, pp_UseOracle = True, pp_FeeDenom = ''uusdc''\<rparr>,
      am_TotalShares = \<lparr>Denom = ''amm/pool/1'', Amount = 1000\<rparr>,
      am_PoolAssets = [\<lparr>pa_Token = \<lparr>Denom = ''uatom'', Amount = x\<rparr>, pa_Weight = 1, pa_ExternalLiquidityRatio = dec_one\<rparr>,
        \<lparr>pa_Token = \<lparr>Denom = ''uusdc'', Amount = y\<rparr>, pa_Weight = 1, pa_ExternalLiquidityRatio = dec_one\<rparr>],
      am_TotalWeight = 2, am_RebalanceTreasury = ''treasury1''\<rparr>"

text \<open>A long position: 30 uusdc owed to the pool, 5 uatom held for it.\<close>

definition long_pool :: PerpPool where
  "long_pool = (perp_NewPool (atom_usdc 100 1000) dec_one)\<lparr>pl_PoolAssetsLong :=
     [\<lparr>pe_AssetDenom = ''uatom'', pe_Liabilities = 0, pe_Custody = 5, pe_Collateral = 0\<rparr>,
      \<lparr>pe_AssetDenom = ''uusdc'', pe_Liabilities = 30, pe_Custody = 0, pe_Collateral = 0\<rparr>]\<rparr>"

definition acc_start :: "unit acc_sys" where
  "acc_start = \<lparr>sy_acc = \<lparr>as_pools = [], as_ext = ()\<rparr>, sy_amm = (\<lambda>i. None), sy_perp = (\<lambda>i. None)\<rparr>"

definition acc_ops :: "acc_op list" where
  "acc_ops = [AmmPoolCreated (atom_usdc 100 1000), PoolEnabled 1,
     PerpetualUpdated (atom_usdc 100 1000) long_pool, AmmPoolChanged (atom_usdc 120 900)]"

lemmas acc_eval = acc_ops_def acc_start_def atom_usdc_def long_pool_def perp_NewPool_def perp_asset_def
  OnLeverageLpPoolEnable_def PoolExists_def kv_has_def GetAccountedPool_def SetAccountedPool_def
  AccountedPoolKey_def acc_keeper_def std_new_coin_def put_pool_def known_pool_def PerpetualUpdates_def
  GetAmmPoolBalance_def GetPerpetualPoolBalances_def GetPerpetualPoolBalancesByPosition_def
  perp_GetPoolAsset_def GetPoolAssets_def UpdateAccountedPoolOnAmmChange_def amm_change_asset_def Let_def

theorem accounted_balance_sheet_witness:
  "\<exists>t. t = run_ops (acc_step acc_keeper) acc_ops acc_start \<and>
     acc_GetAccountedBalance (sy_acc t) 1 ''uatom'' = 115 \<and>
     acc_GetAccountedBalance (sy_acc t) 1 ''uusdc'' = 930"
proof -
  let ?t = "run_ops (acc_step acc_keeper) acc_ops acc_start"
  have "GetAccountedPool (sy_acc ?t) 1 \<noteq> None \<and> sy_amm ?t 1 = Some (atom_usdc 120 900) \<and> sy_perp ?t 1 = Some long_pool"
    by (simp add: acc_eval kv_get_def)
  then obtain acc where run: "GetAccountedPool (sy_acc ?t) 1 = Some acc" "sy_amm ?t 1 = Some (atom_usdc 120 900)"
    "sy_perp ?t 1 = Some long_pool" by auto
  have inv: "acc_inv acc_keeper acc_start"
    by (simp add: acc_inv_def acc_start_def acc_keeper_def std_sdk_laws GetAccountedPool_def)
  have "acc_GetAccountedBalance (sy_acc ?t) 1 ''uatom'' = 120 - 5 \<and>
      acc_GetAccountedBalance (sy_acc ?t) 1 ''uusdc'' = 900 + 30"
    using accounted_balance_sheet [OF inv refl run(1)] run(2,3)
    by (simp add: amm_amt_def GetAmmPoolBalance_def perp_net_def GetPerpetualPoolBalances_def
        GetPerpetualPoolBalancesByPosition_def perp_GetPoolAsset_def GetPoolAssets_def long_pool_def
        perp_NewPool_def atom_usdc_def perp_asset_def)
  then show ?thesis by simp
qed

end
