(* ===== verification/AmmStore.thy ===== *)
theory AmmStore
  imports AmmLp TakerFee AssetProfileMsgs
begin

text \<open>
  The store of the amm keeper (x/amm/keeper: \<open>keeper.go\<close>, \<open>pool.go\<close>, \<open>params.go\<close>,
  \<open>denom_liquidity.go\<close>, \<open>oracle_pool_slippage_track.go\<close>, \<open>track_weight_breaking_slippage.go\<close>,
  \<open>batch_processing.go\<close>; x/amm/types: \<open>keys.go\<close>, \<open>new_pool_address.go\<close>, \<open>hooks.go\<close>): pools, the
  liquidity of each denomination over all pools, tracked slippage, and the swap requests that wait
  for the end of the block.
\<close>

section \<open>Data\<close>

record DenomLiquidity =
  dl_Denom :: string
  dl_Liquidity :: int

record OraclePoolSlippageTrack =
  ot_PoolId :: int
  ot_Timestamp :: int
  ot_Tracked :: coins

record WeightBreakingSlippage =
  ws_PoolId :: int
  ws_Date :: string
  ws_Amount :: int

record SwapAmountInRoute =
  ri_PoolId :: int
  ri_TokenOutDenom :: string

record SwapAmountOutRoute =
  ro_PoolId :: int
  ro_TokenInDenom :: string

record MsgSwapExactAmountIn =
  si_Sender :: string
  si_Routes :: "SwapAmountInRoute list"
  si_TokenIn :: coin
  si_TokenOutMinAmount :: int
  si_Recipient :: string

record MsgSwapExactAmountOut =
  so_Sender :: string
  so_Routes :: "SwapAmountOutRoute list"
  so_TokenOut :: coin
  so_TokenInMaxAmount :: int
  so_Recipient :: string

text \<open>The keys of pools and tracks are identifiers and times in big endian; the swap requests, whose
  order depends on their bytes, have their keys as strings. \<open>mm_commit\<close> is the state of the
  commitment module, whose \<open>cs_ext\<close> is that of the bank, the oracle and the other modules.\<close>

record 'e mstate =
  mm_params :: "amm_Params option"
  mm_pools :: "(int, amm_Pool) kvs"
  mm_liquidity :: "(string, DenomLiquidity) kvs"
  mm_tracks :: "(int \<times> int, OraclePoolSlippageTrack) kvs"
  mm_fees :: "(int \<times> string, WeightBreakingSlippage) kvs"
  mm_last_index :: "int option"
  mm_swaps_in :: "(string, MsgSwapExactAmountIn) kvs"
  mm_swaps_out :: "(string, MsgSwapExactAmountOut) kvs"
  mm_commit :: "'e cstate"

record 's amm_hooks =
  ah_AfterPoolCreated :: "addr \<Rightarrow> amm_Pool \<Rightarrow> 's \<Rightarrow> 's result"
  ah_AfterJoinPool :: "addr \<Rightarrow> amm_Pool \<Rightarrow> coins \<Rightarrow> int \<Rightarrow> 's \<Rightarrow> 's result"
  ah_AfterExitPool :: "addr \<Rightarrow> amm_Pool \<Rightarrow> int \<Rightarrow> coins \<Rightarrow> 's \<Rightarrow> 's result"
  ah_AfterSwap :: "addr \<Rightarrow> amm_Pool \<Rightarrow> coins \<Rightarrow> coins \<Rightarrow> 's \<Rightarrow> 's result"

definition MultiAmmHooks :: "'s amm_hooks list \<Rightarrow> 's amm_hooks" where
  "MultiAmmHooks hs =
     \<lparr>ah_AfterPoolCreated = (\<lambda>a p. run_hooks (map (\<lambda>h. ah_AfterPoolCreated h a p) hs)),
      ah_AfterJoinPool = (\<lambda>a p cs n. run_hooks (map (\<lambda>h. ah_AfterJoinPool h a p cs n) hs)),
      ah_AfterExitPool = (\<lambda>a p n cs. run_hooks (map (\<lambda>h. ah_AfterExitPool h a p n cs) hs)),
      ah_AfterSwap = (\<lambda>a p ins outs. run_hooks (map (\<lambda>h. ah_AfterSwap h a p ins outs) hs))\<rparr>"

text \<open>The keepers the module is given, in the block it runs in, and two comparisons of coin sets of
  the SDK. An account is its sequence, whether it has a public key and whether its type may be
  overridden; an asset of the oracle its display name and decimals; a provider of a currency pair
  its base, provider and pool.\<close>

record provider =
  cp_BaseDenom :: string
  cp_ExternLiquidityProvider :: string
  cp_PoolId :: int

record 'e mkeeper =
  mk_authority :: string
  mk_hooks :: "'e mstate amm_hooks option"
  mk_parameter :: "'e \<Rightarrow> PrParams"
  mk_commitment :: "'e keeper"
  mk_pow :: pow_env
  mk_AddressModule :: "string \<Rightarrow> string list \<Rightarrow> addr"
  mk_GetAccount :: "'e \<Rightarrow> addr \<Rightarrow> (int \<times> bool \<times> bool) option"
  mk_SetModuleAccount :: "addr \<Rightarrow> string \<Rightarrow> 'e \<Rightarrow> 'e"
  mk_SetDenomMetaData :: "string \<Rightarrow> string \<Rightarrow> 'e \<Rightarrow> 'e"
  mk_GetDenomPrice :: "'e \<Rightarrow> string \<Rightarrow> int"
  mk_GetAssetInfo :: "'e \<Rightarrow> string \<Rightarrow> (string \<times> int) option"
  mk_GetAssetPrice :: "'e \<Rightarrow> string \<Rightarrow> int option"
  mk_GetPriceFeeder :: "'e \<Rightarrow> addr \<Rightarrow> bool option"
  mk_SetOraclePool :: "int \<Rightarrow> PoolAsset list \<Rightarrow> 'e \<Rightarrow> 'e"
  mk_CurrencyPairProviders :: "'e \<Rightarrow> provider list"
  mk_SetCurrencyPairProviders :: "provider list \<Rightarrow> 'e \<Rightarrow> 'e"
  mk_SetEntry :: "Entry \<Rightarrow> 'e \<Rightarrow> 'e"
  mk_GetEntryByDenom :: "'e \<Rightarrow> string \<Rightarrow> Entry option"
  mk_GetAccountedBalance :: "'e \<Rightarrow> int \<Rightarrow> string \<Rightarrow> int"
  mk_Discount :: "'e \<Rightarrow> addr \<Rightarrow> int"
  mk_DenomsSubsetOf :: "coins \<Rightarrow> coins \<Rightarrow> bool"
  mk_IsAllGTE :: "coins \<Rightarrow> coins \<Rightarrow> bool"

abbreviation mk_sdk :: "'e mkeeper \<Rightarrow> sdk" where
  "mk_sdk k \<equiv> k_sdk (mk_commitment k)"

abbreviation mk_bank :: "'e mkeeper \<Rightarrow> 'e bank" where
  "mk_bank k \<equiv> k_bank (mk_commitment k)"

abbreviation mk_big :: "'e mkeeper \<Rightarrow> bigdec_ops" where
  "mk_big k \<equiv> pe_big (mk_pow k)"

abbreviation mk_dec :: "'e mkeeper \<Rightarrow> dec_ops" where
  "mk_dec k \<equiv> pe_dec (mk_pow k)"

abbreviation mm_ext :: "'e mstate \<Rightarrow> 'e" where
  "mm_ext s \<equiv> cs_ext (mm_commit s)"

definition set_mm_ext :: "'e \<Rightarrow> 'e mstate \<Rightarrow> 'e mstate" where
  "set_mm_ext e s = s\<lparr>mm_commit := (mm_commit s)\<lparr>cs_ext := e\<rparr>\<rparr>"

text \<open>A call of the bank, and one of the commitment keeper.\<close>

definition mm_bank :: "('e \<Rightarrow> 'e result) \<Rightarrow> 'e mstate \<Rightarrow> 'e mstate result" where
  "mm_bank f s = rbind (f (mm_ext s)) (\<lambda>e. Inr (set_mm_ext e s))"

definition mm_commit_call :: "('e cstate \<Rightarrow> 'e cstate result) \<Rightarrow> 'e mstate \<Rightarrow> 'e mstate result" where
  "mm_commit_call f s = rbind (f (mm_commit s)) (\<lambda>c. Inr (s\<lparr>mm_commit := c\<rparr>))"

definition amm_ModuleName :: string where
  "amm_ModuleName = ''amm''"

definition amm_ErrTooManyTokensOut :: err where "amm_ErrTooManyTokensOut = Sentinel ''amm'' 31"
definition amm_ErrInvalidPoolId :: err where "amm_ErrInvalidPoolId = Sentinel ''amm'' 91"
definition amm_ErrInvalidSwapMsgType :: err where "amm_ErrInvalidSwapMsgType = Sentinel ''amm'' 92"
definition amm_ErrSameDenom :: err where "amm_ErrSameDenom = Sentinel ''amm'' 101"
definition amm_ErrPoolNotFound :: err where "amm_ErrPoolNotFound = Sentinel ''amm'' 102"
definition amm_ErrInvalidDenom :: err where "amm_ErrInvalidDenom = Sentinel ''amm'' 104"
definition amm_ErrSpotPriceIsZero :: err where "amm_ErrSpotPriceIsZero = Sentinel ''amm'' 107"
definition amm_ErrOnlyBaseAssetsPoolAllowed :: err where "amm_ErrOnlyBaseAssetsPoolAllowed = Sentinel ''amm'' 114"
definition amm_ErrUnauthorizedUpFrontSwap :: err where "amm_ErrUnauthorizedUpFrontSwap = Sentinel ''amm'' 116"

section \<open>Keys and addresses\<close>

text \<open>\<open>sdk.Uint64ToBigEndian\<close> and its inverse.\<close>

definition be64 :: "int \<Rightarrow> string" where
  "be64 n = map (\<lambda>i. char_of (nat (n div 256 ^ (7 - i) mod 256))) [0..<8]"

definition from_be64 :: "string \<Rightarrow> int" where
  "from_be64 s = fold (\<lambda>c acc. acc * 256 + of_char c) s 0"

definition DenomLiquidityKey :: "string \<Rightarrow> string" where
  "DenomLiquidityKey denom = denom @ ''/''"

definition GetPoolIdModuleName :: "int \<Rightarrow> string" where
  "GetPoolIdModuleName poolId = amm_ModuleName @ ''/pool/account/'' @ FormatNat (nat poolId)"

definition NewPoolAddress :: "'e mkeeper \<Rightarrow> int \<Rightarrow> addr" where
  "NewPoolAddress k poolId = mk_AddressModule k (GetPoolIdModuleName poolId) []"

definition NewPoolRebalanceTreasury :: "'e mkeeper \<Rightarrow> int \<Rightarrow> addr" where
  "NewPoolRebalanceTreasury k poolId = mk_AddressModule k amm_ModuleName [''pool_treasury'' @ be64 poolId]"

definition NewPoolRevenueAddress :: "'e mkeeper \<Rightarrow> int \<Rightarrow> addr" where
  "NewPoolRevenueAddress k poolId = mk_AddressModule k amm_ModuleName [''pool_revenue'' @ be64 poolId]"

text \<open>What the computations on a pool are given in a state.\<close>

definition amm_env_of :: "'e mkeeper \<Rightarrow> 'e mstate \<Rightarrow> amm_env" where
  "amm_env_of k s =
     \<lparr>ae_pow = mk_pow k, ae_sdk = mk_sdk k, ae_NewPoolAddress = NewPoolAddress k,
      ae_NewPoolRebalanceTreasury = NewPoolRebalanceTreasury k,
      ae_GetDenomPrice = mk_GetDenomPrice k (mm_ext s),
      ae_GetAssetDecimal = (\<lambda>d. map_option snd (mk_GetAssetInfo k (mm_ext s) d)),
      ae_GetAccountedBalance = Some (mk_GetAccountedBalance k (mm_ext s))\<rparr>"

section \<open>Parameters\<close>

text \<open>An empty store gives Go's zero value, whose numbers are nil: as what they are, zero.\<close>

definition amm_zero_params :: amm_Params where
  "amm_zero_params =
     \<lparr>mp_PoolCreationFee = 0, mp_SlippageTrackDuration = 0, mp_BaseAssets = [],
      mp_WeightBreakingFeeExponent = 0, mp_WeightBreakingFeeMultiplier = 0, mp_WeightBreakingFeePortion = 0,
      mp_WeightRecoveryFeePortion = 0, mp_ThresholdWeightDifference = 0, mp_AllowedPoolCreators = [],
      mp_ThresholdWeightDifferenceSwapFee = 0, mp_LpLockupDuration = 0, mp_MinSlippage = 0,
      mp_AllowedUpfrontSwapMakers = []\<rparr>"

definition amm_GetParams :: "'e mstate \<Rightarrow> amm_Params" where
  "amm_GetParams s = (case mm_params s of None \<Rightarrow> amm_zero_params | Some p \<Rightarrow> p)"

definition amm_SetParams :: "amm_Params \<Rightarrow> 'e mstate \<Rightarrow> 'e mstate" where
  "amm_SetParams p s = s\<lparr>mm_params := Some p\<rparr>"

text \<open>The asset profile's \<open>GetUsdcDenom\<close>, over the interface of the commitment keeper.\<close>

definition usdc_denom :: "'e mkeeper \<Rightarrow> 'e mstate \<Rightarrow> string option" where
  "usdc_denom k s = map_option en_Denom (k_GetEntry (mk_commitment k) (mm_ext s) BaseCurrency)"

definition CheckBaseAssetExist :: "'e mkeeper \<Rightarrow> string \<Rightarrow> 'e mstate \<Rightarrow> bool \<times> 'e mstate" where
  "CheckBaseAssetExist k denom s =
     (let params = amm_GetParams s
      in if mp_BaseAssets params = []
         then case usdc_denom k s of
             None \<Rightarrow> (denom \<in> set (mp_BaseAssets params), s)
           | Some baseCurrencyDenom \<Rightarrow>
               let params' = params\<lparr>mp_BaseAssets := [baseCurrencyDenom]\<rparr>
               in (denom \<in> set (mp_BaseAssets params'), amm_SetParams params' s)
         else (denom \<in> set (mp_BaseAssets params), s))"

section \<open>Pools\<close>

definition amm_SetPool :: "amm_Pool \<Rightarrow> 'e mstate \<Rightarrow> 'e mstate" where
  "amm_SetPool pool s = s\<lparr>mm_pools := kv_set (am_PoolId pool) pool (mm_pools s)\<rparr>"

definition amm_GetPool :: "'e mstate \<Rightarrow> int \<Rightarrow> amm_Pool option" where
  "amm_GetPool s poolId = kv_get (mm_pools s) poolId"

definition amm_RemovePool :: "int \<Rightarrow> 'e mstate \<Rightarrow> 'e mstate" where
  "amm_RemovePool poolId s = s\<lparr>mm_pools := kv_del poolId (mm_pools s)\<rparr>"

definition amm_GetAllPool :: "'e mstate \<Rightarrow> amm_Pool list" where
  "amm_GetAllPool s = map snd (mm_pools s)"

definition amm_GetLatestPool :: "'e mstate \<Rightarrow> amm_Pool option" where
  "amm_GetLatestPool s = (if mm_pools s = [] then None else Some (snd (last (mm_pools s))))"

definition amm_GetNextPoolId :: "'e mstate \<Rightarrow> int" where
  "amm_GetNextPoolId s = (case amm_GetLatestPool s of None \<Rightarrow> 1 | Some latestPool \<Rightarrow> u64 (am_PoolId latestPool + 1))"

definition amm_PoolExists :: "'e mstate \<Rightarrow> int \<Rightarrow> bool" where
  "amm_PoolExists s poolId = kv_has (mm_pools s) poolId"

text \<open>The loop of \<open>GetBestPoolWithDenoms\<close>: the greatest value so far, as a \<open>LegacyDec\<close>, and its
  pool. The value of a pool is computed for those without the denominations, too.\<close>

fun best_pool ::
    "'e mkeeper \<Rightarrow> 'e mstate \<Rightarrow> string list \<Rightarrow> bool \<Rightarrow> amm_Pool list \<Rightarrow> int \<times> amm_Pool option \<Rightarrow>
       (int \<times> amm_Pool option) result" where
  "best_pool k s denoms usesOracle [] acc = Inr acc"
| "best_pool k s denoms usesOracle (p # ps) (maxTvl, bestPool) =
     (if (usesOracle \<and> \<not> pp_UseOracle (am_PoolParams p)) \<or> length (am_PoolAssets p) < length denoms
      then best_pool k s denoms usesOracle ps (maxTvl, bestPool)
      else let allDenomsFound = list_all (\<lambda>denom. list_ex (\<lambda>asset. denom = Denom (pa_Token asset)) (am_PoolAssets p)) denoms
        in rbind (or_else (amm_TVL (amm_env_of k s) p) 0) (\<lambda>poolTvl.
           if allDenomsFound \<and> maxTvl < BDec (mk_big k) poolTvl
           then best_pool k s denoms usesOracle ps (BDec (mk_big k) poolTvl, Some p)
           else best_pool k s denoms usesOracle ps (maxTvl, bestPool)))"

definition GetBestPoolWithDenoms :: "'e mkeeper \<Rightarrow> 'e mstate \<Rightarrow> string list \<Rightarrow> bool \<Rightarrow> amm_Pool option result" where
  "GetBestPoolWithDenoms k s denoms usesOracle =
     rbind (best_pool k s denoms usesOracle (amm_GetAllPool s) (- dec_one, None)) (\<lambda>(maxTvl, bestPool).
       Inr (if maxTvl < 0 then None else bestPool))"

definition GetPoolWithAccountedBalance :: "'e mkeeper \<Rightarrow> 'e mstate \<Rightarrow> int \<Rightarrow> amm_Pool result" where
  "GetPoolWithAccountedBalance k s poolId =
     (case amm_GetPool s poolId of
        None \<Rightarrow> Inl (Panic ''pool not found'')
      | Some snapshot \<Rightarrow>
          if pp_UseOracle (am_PoolParams snapshot)
          then Inr (snapshot\<lparr>am_PoolAssets := map (\<lambda>asset.
                 let accAmount = mk_GetAccountedBalance k (mm_ext s) poolId (Denom (pa_Token asset))
                 in if 0 < accAmount then set_asset_amount accAmount asset else asset) (am_PoolAssets snapshot)\<rparr>)
          else Inr snapshot)"

section \<open>The liquidity of a denomination\<close>

definition SetDenomLiquidity :: "DenomLiquidity \<Rightarrow> 'e mstate \<Rightarrow> 'e mstate" where
  "SetDenomLiquidity denomLiquidity s =
     s\<lparr>mm_liquidity := kv_set (DenomLiquidityKey (dl_Denom denomLiquidity)) denomLiquidity (mm_liquidity s)\<rparr>"

definition GetDenomLiquidity :: "'e mstate \<Rightarrow> string \<Rightarrow> DenomLiquidity option" where
  "GetDenomLiquidity s denom = kv_get (mm_liquidity s) (DenomLiquidityKey denom)"

definition RemoveDenomLiquidity :: "string \<Rightarrow> 'e mstate \<Rightarrow> 'e mstate" where
  "RemoveDenomLiquidity denom s = s\<lparr>mm_liquidity := kv_del (DenomLiquidityKey denom) (mm_liquidity s)\<rparr>"

definition GetAllDenomLiquidity :: "'e mstate \<Rightarrow> DenomLiquidity list" where
  "GetAllDenomLiquidity s = map snd (mm_liquidity s)"

definition IncreaseDenomLiquidity :: "string \<Rightarrow> int \<Rightarrow> 'e mstate \<Rightarrow> 'e mstate result" where
  "IncreaseDenomLiquidity denom amount s =
     (case kv_get (mm_liquidity s) (DenomLiquidityKey denom) of
        None \<Rightarrow> Inl (Plain ''denom not found'')
      | Some denomLiquidity \<Rightarrow>
          Inr (s\<lparr>mm_liquidity := kv_set (DenomLiquidityKey denom)
             (denomLiquidity\<lparr>dl_Liquidity := dl_Liquidity denomLiquidity + amount\<rparr>) (mm_liquidity s)\<rparr>))"

definition DecreaseDenomLiquidity :: "string \<Rightarrow> int \<Rightarrow> 'e mstate \<Rightarrow> 'e mstate result" where
  "DecreaseDenomLiquidity denom amount s =
     (case kv_get (mm_liquidity s) (DenomLiquidityKey denom) of
        None \<Rightarrow> Inl (Plain ''denom not found'')
      | Some denomLiquidity \<Rightarrow>
          if dl_Liquidity denomLiquidity < amount then Inl (Plain ''not enough liquidity'')
          else Inr (s\<lparr>mm_liquidity := kv_set (DenomLiquidityKey denom)
             (denomLiquidity\<lparr>dl_Liquidity := dl_Liquidity denomLiquidity - amount\<rparr>) (mm_liquidity s)\<rparr>))"

text \<open>Both loops first make sure that the denomination has an entry.\<close>

definition with_denom :: "string \<Rightarrow> 'e mstate \<Rightarrow> 'e mstate" where
  "with_denom denom s =
     (case GetDenomLiquidity s denom of
        None \<Rightarrow> SetDenomLiquidity \<lparr>dl_Denom = denom, dl_Liquidity = 0\<rparr> s
      | Some d \<Rightarrow> s)"

fun RecordTotalLiquidityIncrease :: "coins \<Rightarrow> 'e mstate \<Rightarrow> 'e mstate result" where
  "RecordTotalLiquidityIncrease [] s = Inr s"
| "RecordTotalLiquidityIncrease (c # cs) s =
     rbind (IncreaseDenomLiquidity (Denom c) (Amount c) (with_denom (Denom c) s)) (RecordTotalLiquidityIncrease cs)"

fun RecordTotalLiquidityDecrease :: "coins \<Rightarrow> 'e mstate \<Rightarrow> 'e mstate result" where
  "RecordTotalLiquidityDecrease [] s = Inr s"
| "RecordTotalLiquidityDecrease (c # cs) s =
     rbind (DecreaseDenomLiquidity (Denom c) (Amount c) (with_denom (Denom c) s)) (RecordTotalLiquidityDecrease cs)"

section \<open>Tracked slippage\<close>

text \<open>The time of the block in seconds, as the \<open>uint64\<close> it is stored as.\<close>

definition block_seconds :: "block_ctx \<Rightarrow> int" where
  "block_seconds ctx = u64 (Unix (BlockTime ctx))"

definition GetSlippageTrack :: "block_ctx \<Rightarrow> 'e mstate \<Rightarrow> int \<Rightarrow> int \<Rightarrow> OraclePoolSlippageTrack" where
  "GetSlippageTrack ctx s poolId timestamp =
     (case kv_get (mm_tracks s) (poolId, timestamp) of
        None \<Rightarrow> \<lparr>ot_PoolId = poolId, ot_Timestamp = block_seconds ctx, ot_Tracked = []\<rparr>
      | Some track \<Rightarrow> track)"

definition SetSlippageTrack :: "OraclePoolSlippageTrack \<Rightarrow> 'e mstate \<Rightarrow> 'e mstate" where
  "SetSlippageTrack track s =
     s\<lparr>mm_tracks := kv_set (ot_PoolId track, ot_Timestamp track) track (mm_tracks s)\<rparr>"

definition DeleteSlippageTrack :: "OraclePoolSlippageTrack \<Rightarrow> 'e mstate \<Rightarrow> 'e mstate" where
  "DeleteSlippageTrack track s =
     s\<lparr>mm_tracks := kv_del (ot_PoolId track, ot_Timestamp track) (mm_tracks s)\<rparr>"

definition AllSlippageTracks :: "'e mstate \<Rightarrow> OraclePoolSlippageTrack list" where
  "AllSlippageTracks s = map snd (mm_tracks s)"

definition pool_tracks :: "'e mstate \<Rightarrow> int \<Rightarrow> OraclePoolSlippageTrack list" where
  "pool_tracks s poolId = map snd (filter (\<lambda>kv. fst (fst kv) = poolId) (mm_tracks s))"

definition GetLastSlippageTrack :: "block_ctx \<Rightarrow> 'e mstate \<Rightarrow> int \<Rightarrow> OraclePoolSlippageTrack" where
  "GetLastSlippageTrack ctx s poolId =
     (if pool_tracks s poolId = [] then \<lparr>ot_PoolId = poolId, ot_Timestamp = block_seconds ctx, ot_Tracked = []\<rparr>
      else last (pool_tracks s poolId))"

definition GetFirstSlippageTrack :: "block_ctx \<Rightarrow> 'e mstate \<Rightarrow> int \<Rightarrow> OraclePoolSlippageTrack" where
  "GetFirstSlippageTrack ctx s poolId =
     (if pool_tracks s poolId = [] then \<lparr>ot_PoolId = poolId, ot_Timestamp = block_seconds ctx, ot_Tracked = []\<rparr>
      else hd (pool_tracks s poolId))"

definition GetTrackedSlippageDiff :: "'e mkeeper \<Rightarrow> block_ctx \<Rightarrow> 'e mstate \<Rightarrow> int \<Rightarrow> coins result" where
  "GetTrackedSlippageDiff k ctx s poolId =
     CoinsSub (mk_sdk k) (ot_Tracked (GetLastSlippageTrack ctx s poolId)) (ot_Tracked (GetFirstSlippageTrack ctx s poolId))"

definition TrackSlippage :: "'e mkeeper \<Rightarrow> block_ctx \<Rightarrow> int \<Rightarrow> coin \<Rightarrow> 'e mstate \<Rightarrow> 'e mstate" where
  "TrackSlippage k ctx poolId amount s =
     (let lastTrack = GetLastSlippageTrack ctx s poolId
      in SetSlippageTrack (lastTrack\<lparr>ot_Tracked := CoinsAdd (mk_sdk k) (ot_Tracked lastTrack) [amount],
           ot_Timestamp := block_seconds ctx\<rparr>) s)"

fun clear_tracks :: "int \<Rightarrow> int \<Rightarrow> OraclePoolSlippageTrack list \<Rightarrow> 'e mstate \<Rightarrow> 'e mstate" where
  "clear_tracks duration now [] s = s"
| "clear_tracks duration now (track # tracks) s =
     clear_tracks duration now tracks
       (if u64 (ot_Timestamp track + duration) < now then DeleteSlippageTrack track s else s)"

definition ClearOutdatedSlippageTrack :: "block_ctx \<Rightarrow> 'e mstate \<Rightarrow> 'e mstate" where
  "ClearOutdatedSlippageTrack ctx s =
     clear_tracks (mp_SlippageTrackDuration (amm_GetParams s)) (block_seconds ctx) (AllSlippageTracks s) s"

text \<open>\<open>time.Time.Format("2006-01-02")\<close> of a time in UTC, from the days since the epoch.\<close>

definition civil_date :: "int \<Rightarrow> int \<times> int \<times> int" where
  "civil_date days =
     (let z = days + 719468; era = z div 146097; doe = z mod 146097;
          yoe = (doe - doe div 1460 + doe div 36524 - doe div 146096) div 365;
          doy = doe - (365 * yoe + yoe div 4 - yoe div 100); mp = (5 * doy + 2) div 153;
          d = doy - (153 * mp + 2) div 5 + 1; m = (if mp < 10 then mp + 3 else mp - 9);
          y = yoe + era * 400 + (if m \<le> 2 then 1 else 0)
      in (y, m, d))"

definition pad_zero :: "nat \<Rightarrow> string \<Rightarrow> string" where
  "pad_zero n s = replicate (n - length s) (CHR ''0'') @ s"

definition format_date :: "int \<Rightarrow> string" where
  "format_date days =
     (case civil_date days of (y, m, d) \<Rightarrow>
        pad_zero 4 (FormatNat (nat y)) @ ''-'' @ pad_zero 2 (FormatNat (nat m)) @ ''-'' @ pad_zero 2 (FormatNat (nat d)))"

definition block_day :: "block_ctx \<Rightarrow> int" where
  "block_day ctx = Unix (BlockTime ctx) div 86400"

definition GetWeightAndSlippageFee :: "'e mstate \<Rightarrow> int \<Rightarrow> string \<Rightarrow> WeightBreakingSlippage" where
  "GetWeightAndSlippageFee s poolId date =
     (case kv_get (mm_fees s) (poolId, date) of
        None \<Rightarrow> \<lparr>ws_PoolId = poolId, ws_Date = date, ws_Amount = 0\<rparr>
      | Some track \<Rightarrow> track)"

definition SetWeightAndSlippageFee :: "WeightBreakingSlippage \<Rightarrow> 'e mstate \<Rightarrow> 'e mstate" where
  "SetWeightAndSlippageFee track s = s\<lparr>mm_fees := kv_set (ws_PoolId track, ws_Date track) track (mm_fees s)\<rparr>"

definition DeleteWeightAndSlippageFee :: "int \<Rightarrow> string \<Rightarrow> 'e mstate \<Rightarrow> 'e mstate" where
  "DeleteWeightAndSlippageFee poolId date s = s\<lparr>mm_fees := kv_del (poolId, date) (mm_fees s)\<rparr>"

definition AddWeightAndSlippageFee :: "WeightBreakingSlippage \<Rightarrow> 'e mstate \<Rightarrow> 'e mstate" where
  "AddWeightAndSlippageFee track s =
     (let trackTotal = (case kv_get (mm_fees s) (ws_PoolId track, ws_Date track) of
            None \<Rightarrow> track
          | Some t \<Rightarrow> t\<lparr>ws_Amount := ws_Amount t + ws_Amount track\<rparr>)
      in s\<lparr>mm_fees := kv_set (ws_PoolId track, ws_Date track) trackTotal (mm_fees s)\<rparr>)"

definition TrackWeightBreakingSlippage :: "'e mkeeper \<Rightarrow> block_ctx \<Rightarrow> int \<Rightarrow> coin \<Rightarrow> 'e mstate \<Rightarrow> 'e mstate" where
  "TrackWeightBreakingSlippage k ctx poolId token s =
     AddWeightAndSlippageFee \<lparr>ws_PoolId = poolId, ws_Date = format_date (block_day ctx),
       ws_Amount = BDec (mk_big k) (BMul (mk_big k) (mk_GetDenomPrice k (mm_ext s) (Denom token))
         (BigDecFromSDKInt (Amount token)))\<rparr> s"

fun slippage_days :: "'e mstate \<Rightarrow> int \<Rightarrow> int \<Rightarrow> nat \<Rightarrow> int \<times> int" where
  "slippage_days s poolId today 0 = (0, 0)"
| "slippage_days s poolId today (Suc n) =
     (let (total0, count) = slippage_days s poolId today n;
          info = GetWeightAndSlippageFee s poolId (format_date (today - int n))
      in if 0 < ws_Amount info then (total0 + BigDecFromDec (ws_Amount info), count + 1) else (total0, count))"

definition GetWeightBreakingSlippageAvg :: "'e mkeeper \<Rightarrow> block_ctx \<Rightarrow> 'e mstate \<Rightarrow> int \<Rightarrow> int \<Rightarrow> int result" where
  "GetWeightBreakingSlippageAvg k ctx s poolId days =
     (let (total0, count) = slippage_days s poolId (block_day ctx) (nat days)
      in if count = 0 then Inr 0 else BQuo (mk_big k) total0 (BigDecFromSDKInt count))"

section \<open>Swap requests\<close>

definition GetLastSwapRequestIndex :: "'e mstate \<Rightarrow> int" where
  "GetLastSwapRequestIndex s = (case mm_last_index s of None \<Rightarrow> 0 | Some n \<Rightarrow> n)"

definition SetLastSwapRequestIndex :: "int \<Rightarrow> 'e mstate \<Rightarrow> 'e mstate" where
  "SetLastSwapRequestIndex index s = s\<lparr>mm_last_index := Some index\<rparr>"

text \<open>The denomination in, the first pool and the denomination out of it; a message without routes
  is out of range. The key adds the sender's bytes and the index.\<close>

definition TKeyPrefixSwapExactAmountInPrefix :: "MsgSwapExactAmountIn \<Rightarrow> string result" where
  "TKeyPrefixSwapExactAmountInPrefix m =
     (case si_Routes m of
        [] \<Rightarrow> Inl (Panic ''slice bounds out of range'')
      | route # _ \<Rightarrow> Inr (Denom (si_TokenIn m) @ ''/'' @ FormatNat (nat (ri_PoolId route)) @ ''/'' @ ri_TokenOutDenom route))"

definition TKeyPrefixSwapExactAmountIn :: "sdk \<Rightarrow> MsgSwapExactAmountIn \<Rightarrow> int \<Rightarrow> string result" where
  "TKeyPrefixSwapExactAmountIn S m index =
     rbind (TKeyPrefixSwapExactAmountInPrefix m) (\<lambda>prefix.
     rbind (MustAccAddress S (si_Sender m)) (\<lambda>sender. Inr (prefix @ sender @ be64 index)))"

text \<open>For an exact amount out it is the last route; without routes only the denomination is left.\<close>

definition TKeyPrefixSwapExactAmountOutPrefix :: "MsgSwapExactAmountOut \<Rightarrow> string" where
  "TKeyPrefixSwapExactAmountOutPrefix m =
     (if so_Routes m = [] then [] else
        ro_TokenInDenom (last (so_Routes m)) @ ''/'' @ FormatNat (nat (ro_PoolId (last (so_Routes m))))) @
     ''/'' @ Denom (so_TokenOut m)"

definition TKeyPrefixSwapExactAmountOut :: "sdk \<Rightarrow> MsgSwapExactAmountOut \<Rightarrow> int \<Rightarrow> string result" where
  "TKeyPrefixSwapExactAmountOut S m index =
     rbind (MustAccAddress S (so_Sender m)) (\<lambda>sender.
       Inr (TKeyPrefixSwapExactAmountOutPrefix m @ sender @ be64 index))"

definition FirstPoolIdFromSwapExactAmountIn :: "MsgSwapExactAmountIn \<Rightarrow> int" where
  "FirstPoolIdFromSwapExactAmountIn m = (case si_Routes m of [] \<Rightarrow> 0 | route # _ \<Rightarrow> ri_PoolId route)"

definition FirstPoolIdFromSwapExactAmountOut :: "MsgSwapExactAmountOut \<Rightarrow> int" where
  "FirstPoolIdFromSwapExactAmountOut m = (if so_Routes m = [] then 0 else ro_PoolId (last (so_Routes m)))"

definition SetSwapExactAmountInRequests :: "sdk \<Rightarrow> MsgSwapExactAmountIn \<Rightarrow> int \<Rightarrow> 'e mstate \<Rightarrow> 'e mstate result" where
  "SetSwapExactAmountInRequests S msg index s =
     rbind (TKeyPrefixSwapExactAmountIn S msg index) (\<lambda>key. Inr (s\<lparr>mm_swaps_in := kv_set key msg (mm_swaps_in s)\<rparr>))"

definition DeleteSwapExactAmountInRequest :: "sdk \<Rightarrow> MsgSwapExactAmountIn \<Rightarrow> int \<Rightarrow> 'e mstate \<Rightarrow> 'e mstate result" where
  "DeleteSwapExactAmountInRequest S msg index s =
     rbind (TKeyPrefixSwapExactAmountIn S msg index) (\<lambda>key. Inr (s\<lparr>mm_swaps_in := kv_del key (mm_swaps_in s)\<rparr>))"

definition GetAllSwapExactAmountInRequests :: "'e mstate \<Rightarrow> MsgSwapExactAmountIn list" where
  "GetAllSwapExactAmountInRequests s = map snd (mm_swaps_in s)"

text \<open>The first entry, in the order of keys, under a prefix, and the number in its last eight bytes;
  the index is 0 when there is none.\<close>

definition first_under :: "string \<Rightarrow> (string, 'm) kvs \<Rightarrow> ('m \<times> int) option" where
  "first_under sprefix m =
     map_option (\<lambda>(key, val). (val, from_be64 (drop (length key - 8) key))) (find (\<lambda>kv. is_prefix sprefix (fst kv)) m)"

definition GetFirstSwapExactAmountInRequest :: "'e mstate \<Rightarrow> string \<Rightarrow> (MsgSwapExactAmountIn \<times> int) option" where
  "GetFirstSwapExactAmountInRequest s sprefix = first_under sprefix (mm_swaps_in s)"

definition SetSwapExactAmountOutRequests :: "sdk \<Rightarrow> MsgSwapExactAmountOut \<Rightarrow> int \<Rightarrow> 'e mstate \<Rightarrow> 'e mstate result" where
  "SetSwapExactAmountOutRequests S msg index s =
     rbind (TKeyPrefixSwapExactAmountOut S msg index) (\<lambda>key. Inr (s\<lparr>mm_swaps_out := kv_set key msg (mm_swaps_out s)\<rparr>))"

definition DeleteSwapExactAmountOutRequest :: "sdk \<Rightarrow> MsgSwapExactAmountOut \<Rightarrow> int \<Rightarrow> 'e mstate \<Rightarrow> 'e mstate result" where
  "DeleteSwapExactAmountOutRequest S msg index s =
     rbind (TKeyPrefixSwapExactAmountOut S msg index) (\<lambda>key. Inr (s\<lparr>mm_swaps_out := kv_del key (mm_swaps_out s)\<rparr>))"

definition GetAllSwapExactAmountOutRequests :: "'e mstate \<Rightarrow> MsgSwapExactAmountOut list" where
  "GetAllSwapExactAmountOutRequests s = map snd (mm_swaps_out s)"

definition GetFirstSwapExactAmountOutRequest :: "'e mstate \<Rightarrow> string \<Rightarrow> (MsgSwapExactAmountOut \<times> int) option" where
  "GetFirstSwapExactAmountOutRequest s sprefix = first_under sprefix (mm_swaps_out s)"

section \<open>Genesis\<close>

definition amm_InitGenesis ::
    "amm_Pool list \<Rightarrow> DenomLiquidity list \<Rightarrow> OraclePoolSlippageTrack list \<Rightarrow> amm_Params \<Rightarrow> 'e mstate \<Rightarrow> 'e mstate" where
  "amm_InitGenesis poolList denomLiquidityList slippageTracks params s =
     amm_SetParams params (fold SetSlippageTrack slippageTracks
       (fold SetDenomLiquidity denomLiquidityList (fold amm_SetPool poolList s)))"

definition amm_ExportGenesis ::
    "'e mstate \<Rightarrow> amm_Pool list \<times> DenomLiquidity list \<times> OraclePoolSlippageTrack list \<times> amm_Params" where
  "amm_ExportGenesis s = (amm_GetAllPool s, GetAllDenomLiquidity s, AllSlippageTracks s, amm_GetParams s)"

end
