(* ===== verification/AmmSettle.thy ===== *)
theory AmmSettle
  imports AmmStore
begin

text \<open>
  Settling a swap (x/amm/keeper: \<open>update_pool_for_swap.go\<close>, \<open>fee.go\<close>, and the balance updates of
  \<open>pool.go\<close>). A \<open>types.Pool\<close> is passed by value but its slice of assets is shared: what a callee
  writes into the slice the caller sees, also when the callee fails and its writes to the store are
  dropped. So a function that writes into the slice returns the pool next to its result.
\<close>

section \<open>Pools next to results\<close>

definition pbind ::
    "amm_Pool \<times> 'a result \<Rightarrow> (amm_Pool \<Rightarrow> 'a \<Rightarrow> amm_Pool \<times> 'b result) \<Rightarrow> amm_Pool \<times> 'b result" where
  "pbind m f = (case snd m of Inl e \<Rightarrow> (fst m, Inl e) | Inr x \<Rightarrow> f (fst m) x)"

lemma pbind_Inl [simp]: "pbind (p, Inl e) f = (p, Inl e)"
  by (simp add: pbind_def)

lemma pbind_Inr [simp]: "pbind (p, Inr x) f = f p x"
  by (simp add: pbind_def)

lemma pbind_eq_Inr: "pbind m f = (q, Inr y) \<longleftrightarrow> (\<exists>p x. m = (p, Inr x) \<and> f p x = (q, Inr y))"
  by (cases m; cases "snd m") auto

text \<open>\<open>recover()\<close>: a panic becomes an error.\<close>

definition recovered :: "'a result \<Rightarrow> 'a result" where
  "recovered m = (case m of Inl (Panic w) \<Rightarrow> Inl (Plain w) | _ \<Rightarrow> m)"

text \<open>The balances of a pool with the liquidity counters. An error in the middle of several coins
  leaves the pool as it was here: it ends the transaction, and the swap of \<open>OnCollectFee\<close>, whose
  errors do not, moves one coin at a time.\<close>

definition AddToPoolBalanceAndUpdateLiquidity ::
    "int \<Rightarrow> coins \<Rightarrow> amm_Pool \<Rightarrow> 'e mstate \<Rightarrow> amm_Pool \<times> 'e mstate result" where
  "AddToPoolBalanceAndUpdateLiquidity addShares cs pool s =
     (case IncreaseLiquidity addShares cs pool of
        Inl e \<Rightarrow> (pool, Inl e)
      | Inr pool' \<Rightarrow> (pool', RecordTotalLiquidityIncrease cs (amm_SetPool pool' s)))"

definition RemoveFromPoolBalanceAndUpdateLiquidity ::
    "'e mkeeper \<Rightarrow> int \<Rightarrow> coins \<Rightarrow> amm_Pool \<Rightarrow> 'e mstate \<Rightarrow> amm_Pool \<times> 'e mstate result" where
  "RemoveFromPoolBalanceAndUpdateLiquidity k removeShares cs pool s =
     (case DecreaseLiquidity (mk_sdk k) removeShares cs pool of
        Inl e \<Rightarrow> (pool, Inl e)
      | Inr pool' \<Rightarrow> (pool', RecordTotalLiquidityDecrease cs (amm_SetPool pool' s)))"

section \<open>Portions\<close>

definition portion_of :: "'e mkeeper \<Rightarrow> int \<Rightarrow> int \<Rightarrow> int" where
  "portion_of k n portion = DRoundInt (mk_dec k) (BDec (mk_big k) (BMul (mk_big k) (BigDecFromSDKInt n) portion))"

fun portion_loop :: "'e mkeeper \<Rightarrow> int \<Rightarrow> coins \<Rightarrow> coins \<Rightarrow> coins result" where
  "portion_loop k portion [] portionCoins = Inr portionCoins"
| "portion_loop k portion (coin # cs) portionCoins =
     rbind (NewCoin (mk_sdk k) (Denom coin) (portion_of k (Amount coin) portion)) (\<lambda>c.
       portion_loop k portion cs (CoinsAdd (mk_sdk k) portionCoins [c]))"

definition PortionCoins :: "'e mkeeper \<Rightarrow> coins \<Rightarrow> int \<Rightarrow> coins result" where
  "PortionCoins k cs portion = portion_loop k portion cs []"

text \<open>\<open>GetBigDecTakerFees\<close> of the parameter module; a nil decimal is dereferenced.\<close>

definition taker_fees :: "'e mkeeper \<Rightarrow> 'e mstate \<Rightarrow> int result" where
  "taker_fees k s =
     (case pr_TakerFees (mk_parameter k (mm_ext s)) of
        None \<Rightarrow> Inl (Panic ''nil decimal'')
      | Some f \<Rightarrow> Inr (BigDecFromDec f))"

definition send :: "'e mkeeper \<Rightarrow> addr \<Rightarrow> addr \<Rightarrow> coins \<Rightarrow> 'e mstate \<Rightarrow> 'e mstate result" where
  "send k src dst cs s = mm_bank (BkSend (mk_bank k) src dst cs) s"

section \<open>The swap\<close>

text \<open>The arguments of \<open>UpdatePoolForSwap\<close> but for the pool.\<close>

record swap_order =
  sw_sender :: addr
  sw_recipient :: addr
  sw_tokenIn :: coin
  sw_tokenOut :: coin
  sw_swapFee :: int
  sw_slippageAmount :: int
  sw_oracleInAmount :: int
  sw_oracleOutAmount :: int
  sw_weightBalanceBonus :: int
  sw_takerFees :: int
  sw_givenOut :: bool

text \<open>Coins that leave the pool: the transfer, then the pool's balances and the counters.\<close>

definition pay_out ::
    "'e mkeeper \<Rightarrow> addr \<Rightarrow> addr \<Rightarrow> coins \<Rightarrow> amm_Pool \<Rightarrow> 'e mstate \<Rightarrow> amm_Pool \<times> 'e mstate result" where
  "pay_out k poolAddr dst cs p s =
     pbind (p, send k poolAddr dst cs s) (RemoveFromPoolBalanceAndUpdateLiquidity k 0 cs)"

definition settle_tokens ::
    "'e mkeeper \<Rightarrow> swap_order \<Rightarrow> addr \<Rightarrow> amm_Pool \<Rightarrow> 'e mstate \<Rightarrow> amm_Pool \<times> 'e mstate result" where
  "settle_tokens k w poolAddr p s =
     pbind (p, send k (sw_sender w) poolAddr [sw_tokenIn w] s) (\<lambda>p s1.
     pbind (AddToPoolBalanceAndUpdateLiquidity 0 [sw_tokenIn w] p s1)
       (pay_out k poolAddr (sw_recipient w) [sw_tokenOut w]))"

text \<open>The coins of a fee: a portion of what came in, or of the amount at the oracle's rate when an
  oracle pool gives an exact amount out.\<close>

definition fee_coins :: "'e mkeeper \<Rightarrow> swap_order \<Rightarrow> amm_Pool \<Rightarrow> int \<Rightarrow> coins result" where
  "fee_coins k w p fee =
     (if \<not> 0 < fee then Inr []
      else if sw_givenOut w
      then rbind (NewCoin (mk_sdk k) (Denom (sw_tokenIn w)) (sw_oracleInAmount w)) (\<lambda>c.
           rbind (NewCoins (mk_sdk k) [c]) (\<lambda>takeFeesFrom.
             PortionCoins k (if \<not> pp_UseOracle (am_PoolParams p) then [sw_tokenIn w] else takeFeesFrom) fee))
      else PortionCoins k [sw_tokenIn w] fee)"

definition settle_taker ::
    "'e mkeeper \<Rightarrow> swap_order \<Rightarrow> addr \<Rightarrow> amm_Pool \<Rightarrow> 'e mstate \<Rightarrow> amm_Pool \<times> 'e mstate result" where
  "settle_taker k w poolAddr p s =
     pbind (p, fee_coins k w p (sw_takerFees w)) (\<lambda>p takerFeesInCoins.
       if \<not> IsAllPositive (mk_sdk k) takerFeesInCoins then (p, Inr s)
       else pbind (p, AccAddressFromBech32 (mk_sdk k) (pr_TakerFeeCollectionAddress (mk_parameter k (mm_ext s))))
              (\<lambda>p protocolAddress. pay_out k poolAddr protocolAddress takerFeesInCoins p s))"

text \<open>The swap fee goes to the rebalance treasury, and \<open>OnCollectFee\<close>, here \<open>collect\<close>, turns it into
  revenue.\<close>

definition settle_fee ::
    "(amm_Pool \<Rightarrow> coins \<Rightarrow> 'e mstate \<Rightarrow> amm_Pool \<times> 'e mstate result) \<Rightarrow>
     'e mkeeper \<Rightarrow> swap_order \<Rightarrow> addr \<Rightarrow> amm_Pool \<Rightarrow> 'e mstate \<Rightarrow> amm_Pool \<times> 'e mstate result" where
  "settle_fee collect k w poolAddr p s =
     pbind (p, fee_coins k w p (sw_swapFee w)) (\<lambda>p swapFeeInCoins.
       if \<not> IsAllPositive (mk_sdk k) swapFeeInCoins then (p, Inr s)
       else pbind (p, MustAccAddress (mk_sdk k) (am_RebalanceTreasury p)) (\<lambda>p rebalanceTreasury.
            pbind (pay_out k poolAddr rebalanceTreasury swapFeeInCoins p s) (\<lambda>p s1.
              collect p swapFeeInCoins s1)))"

definition settle_recovery ::
    "'e mkeeper \<Rightarrow> block_ctx \<Rightarrow> swap_order \<Rightarrow> addr \<Rightarrow> amm_Pool \<Rightarrow> 'e mstate \<Rightarrow> amm_Pool \<times> 'e mstate result" where
  "settle_recovery k ctx w poolAddr p s =
     (if pp_UseOracle (am_PoolParams p) \<and> sw_weightBalanceBonus w < 0
      then let portion = BigDecFromDec (mp_WeightBreakingFeePortion (amm_GetParams s));
               bonus = \<bar>sw_weightBalanceBonus w\<bar>;
               base = (if sw_givenOut w then sw_oracleInAmount w else Amount (sw_tokenIn w));
               d = Denom (sw_tokenIn w);
               weightRecoveryFeeAmount = portion_of k base (BMul (mk_big k) bonus portion)
           in pbind (p, MustAccAddress (mk_sdk k) (am_RebalanceTreasury p)) (\<lambda>p rebalanceTreasury.
              if \<not> 0 < weightRecoveryFeeAmount then (p, Inr s)
              else pbind (p, NewCoin (mk_sdk k) d weightRecoveryFeeAmount) (\<lambda>p c.
                   pbind (pay_out k poolAddr rebalanceTreasury [c] p s) (\<lambda>p s1.
                   pbind (p, NewCoin (mk_sdk k) d (portion_of k base (BMul (mk_big k) bonus (big_one - portion)))) (\<lambda>p c'.
                     (p, Inr (TrackWeightBreakingSlippage k ctx (am_PoolId p) c' s1))))))
      else (p, Inr s))"

text \<open>The bonus is paid by the treasury, as far as it reaches.\<close>

definition settle_bonus ::
    "'e mkeeper \<Rightarrow> swap_order \<Rightarrow> amm_Pool \<Rightarrow> 'e mstate \<Rightarrow> ('e mstate \<times> coin) result" where
  "settle_bonus k w p s =
     (let d = Denom (sw_tokenOut w) in
      rbind (NewCoin (mk_sdk k) d 0) (\<lambda>zero.
      if pp_UseOracle (am_PoolParams p) \<and> 0 < sw_weightBalanceBonus w
      then rbind (MustAccAddress (mk_sdk k) (am_RebalanceTreasury p)) (\<lambda>rebalanceTreasuryAddr.
           let treasuryTokenAmount = BkBalance (mk_bank k) rebalanceTreasuryAddr d (mm_ext s);
               bonus0 = DTruncateInt (mk_dec k) (BDec (mk_big k) (BMul (mk_big k)
                 (BigDecFromSDKInt (if sw_givenOut w then Amount (sw_tokenOut w) else sw_oracleOutAmount w))
                 (sw_weightBalanceBonus w)));
               bonusTokenAmount = (if treasuryTokenAmount < bonus0 then treasuryTokenAmount else bonus0)
           in if 0 < bonusTokenAmount
              then rbind (NewCoin (mk_sdk k) d bonusTokenAmount) (\<lambda>bonusToken.
                   rbind (send k rebalanceTreasuryAddr (sw_recipient w) [bonusToken] s) (\<lambda>s1. Inr (s1, bonusToken)))
              else Inr (s, zero))
      else Inr (s, zero)))"

definition AfterSwap_hook ::
    "'e mkeeper \<Rightarrow> addr \<Rightarrow> amm_Pool \<Rightarrow> coins \<Rightarrow> coins \<Rightarrow> 'e mstate \<Rightarrow> 'e mstate result" where
  "AfterSwap_hook k sender p ins outs s =
     (case mk_hooks k of None \<Rightarrow> Inr s | Some h \<Rightarrow> ah_AfterSwap h sender p ins outs s)"

text \<open>The end: the pool is stored, the pair is looked up again for the price event, the hooks run.\<close>

definition settle_end :: "'e mkeeper \<Rightarrow> swap_order \<Rightarrow> amm_Pool \<Rightarrow> 'e mstate \<Rightarrow> 'e mstate result" where
  "settle_end k w p s =
     rbind (if pp_UseOracle (am_PoolParams p) then Inr ()
            else rbind (ParsePoolAssetsByDenoms p (Denom (sw_tokenIn w)) (Denom (sw_tokenOut w))) (\<lambda>_. Inr ())) (\<lambda>_.
       AfterSwap_hook k (sw_sender w) p [sw_tokenIn w] [sw_tokenOut w] (amm_SetPool p s))"

definition UpdatePoolForSwap_with ::
    "(amm_Pool \<Rightarrow> coins \<Rightarrow> 'e mstate \<Rightarrow> amm_Pool \<times> 'e mstate result) \<Rightarrow>
     'e mkeeper \<Rightarrow> block_ctx \<Rightarrow> swap_order \<Rightarrow> amm_Pool \<Rightarrow> 'e mstate \<Rightarrow> amm_Pool \<times> ('e mstate \<times> coin) result" where
  "UpdatePoolForSwap_with collect k ctx w p s =
     pbind (p, MustAccAddress (mk_sdk k) (am_Address p)) (\<lambda>p poolAddr.
     pbind (settle_tokens k w poolAddr p s) (\<lambda>p s1.
     pbind (settle_taker k w poolAddr p s1) (\<lambda>p s2.
     pbind (settle_fee collect k w poolAddr p s2) (\<lambda>p s3.
     pbind (settle_recovery k ctx w poolAddr p s3) (\<lambda>p s4.
     pbind (p, settle_bonus k w p s4) (\<lambda>p (s5, bonusToken).
     pbind (p, settle_end k w p s5) (\<lambda>p s6. (p, Inr (s6, bonusToken)))))))))"

section \<open>Fees become revenue\<close>

text \<open>What \<open>UpdatePoolForSwap\<close> wrote into the assets is there in the caller's pool.\<close>

definition share_assets :: "amm_Pool \<Rightarrow> amm_Pool \<Rightarrow> amm_Pool" where
  "share_assets p q = p\<lparr>am_PoolAssets := am_PoolAssets q\<rparr>"

definition fee_order :: "'e mkeeper \<Rightarrow> addr \<Rightarrow> coin \<Rightarrow> swap_quote \<Rightarrow> swap_order" where
  "fee_order k poolRevenueAddress tokenIn q =
     \<lparr>sw_sender = poolRevenueAddress, sw_recipient = poolRevenueAddress, sw_tokenIn = tokenIn,
      sw_tokenOut = sq_Token q, sw_swapFee = 0, sw_slippageAmount = sq_SlippageAmount q, sw_oracleInAmount = 0,
      sw_oracleOutAmount = DTruncateInt (mk_dec k) (BDec (mk_big k) (sq_OracleAmount q)),
      sw_weightBalanceBonus = 0, sw_takerFees = 0, sw_givenOut = False\<rparr>"

fun SwapFees_loop ::
    "(swap_order \<Rightarrow> amm_Pool \<Rightarrow> 'e mstate \<Rightarrow> amm_Pool \<times> ('e mstate \<times> coin) result) \<Rightarrow>
     'e mkeeper \<Rightarrow> amm_Params \<Rightarrow> int \<Rightarrow> coins \<Rightarrow> amm_Pool \<Rightarrow> 'e mstate \<Rightarrow> amm_Pool \<times> 'e mstate result" where
  "SwapFees_loop settle k params takersFees [] p s = (p, Inr s)"
| "SwapFees_loop settle k params takersFees (tokenIn # fee) p s =
     (if Denom tokenIn = pp_FeeDenom (am_PoolParams p) then SwapFees_loop settle k params takersFees fee p s
      else
      pbind (p, GetPoolWithAccountedBalance k s (am_PoolId p)) (\<lambda>p snapshot.
      pbind (p, SwapOutAmtGivenIn (amm_env_of k s) p snapshot [tokenIn] (pp_FeeDenom (am_PoolParams p)) 0 big_one
                  params takersFees) (\<lambda>p q.
      if \<not> 0 < Amount (sq_Token q) then (p, Inl amm_ErrInvalidMathApprox)
      else
      pbind (map_prod (share_assets p) id
               (settle (fee_order k (NewPoolRevenueAddress k (am_PoolId p)) tokenIn q) p s)) (\<lambda>p (s1, _).
      SwapFees_loop settle k params takersFees fee p s1))))"

definition SwapFeesToRevenueToken_with ::
    "(swap_order \<Rightarrow> amm_Pool \<Rightarrow> 'e mstate \<Rightarrow> amm_Pool \<times> ('e mstate \<times> coin) result) \<Rightarrow>
     'e mkeeper \<Rightarrow> amm_Pool \<Rightarrow> coins \<Rightarrow> 'e mstate \<Rightarrow> amm_Pool \<times> 'e mstate result" where
  "SwapFeesToRevenueToken_with settle k p fee s =
     pbind (p, taker_fees k s) (\<lambda>p takersFees. SwapFees_loop settle k (amm_GetParams s) takersFees fee p s)"

text \<open>What is taken from the fee is the portion that stays in the treasury. The swap runs in a
  \<open>CacheContext\<close>: its writes to the store count only when it succeeds, those to the pool's assets
  always.\<close>

definition revenue_amount :: "'e mkeeper \<Rightarrow> amm_Pool \<Rightarrow> coins \<Rightarrow> 'e mstate \<Rightarrow> coins result" where
  "revenue_amount k p fee s =
     (if pp_UseOracle (am_PoolParams p)
      then rbind (PortionCoins k fee (BigDecFromDec (mp_WeightRecoveryFeePortion (amm_GetParams s)))) (\<lambda>weightRecoveryFee.
           CoinsSub (mk_sdk k) fee weightRecoveryFee)
      else Inr fee)"

definition OnCollectFee_with ::
    "(swap_order \<Rightarrow> amm_Pool \<Rightarrow> 'e mstate \<Rightarrow> amm_Pool \<times> ('e mstate \<times> coin) result) \<Rightarrow>
     'e mkeeper \<Rightarrow> amm_Pool \<Rightarrow> coins \<Rightarrow> 'e mstate \<Rightarrow> amm_Pool \<times> 'e mstate result" where
  "OnCollectFee_with settle k p fee s =
     pbind (p, revenue_amount k p fee s) (\<lambda>p revenueAmount.
     pbind (p, MustAccAddress (mk_sdk k) (am_RebalanceTreasury p)) (\<lambda>p treasury.
     pbind (p, send k treasury (NewPoolRevenueAddress k (am_PoolId p)) revenueAmount s) (\<lambda>p s1.
     case SwapFeesToRevenueToken_with settle k p revenueAmount s1 of
       (q, Inr s2) \<Rightarrow> (share_assets p q, Inr s2)
     | (q, Inl e) \<Rightarrow> (share_assets p q, case e of Panic x \<Rightarrow> Inl (Panic x) | _ \<Rightarrow> Inr s1))))"

text \<open>\<open>UpdatePoolForSwap\<close> and \<open>OnCollectFee\<close> call each other, but the inner swap has no swap fee and
  does not collect again: two levels are all there are.\<close>

definition no_collect :: "amm_Pool \<Rightarrow> coins \<Rightarrow> 'e mstate \<Rightarrow> amm_Pool \<times> 'e mstate result" where
  "no_collect p fee s = (p, Inl (Plain ''depth''))"

definition OnCollectFee :: "'e mkeeper \<Rightarrow> block_ctx \<Rightarrow> amm_Pool \<Rightarrow> coins \<Rightarrow> 'e mstate \<Rightarrow> amm_Pool \<times> 'e mstate result" where
  "OnCollectFee k ctx = OnCollectFee_with (UpdatePoolForSwap_with no_collect k ctx) k"

definition UpdatePoolForSwap ::
    "'e mkeeper \<Rightarrow> block_ctx \<Rightarrow> swap_order \<Rightarrow> amm_Pool \<Rightarrow> 'e mstate \<Rightarrow> amm_Pool \<times> ('e mstate \<times> coin) result" where
  "UpdatePoolForSwap k ctx = UpdatePoolForSwap_with (OnCollectFee k ctx) k ctx"

definition SwapFeesToRevenueToken ::
    "'e mkeeper \<Rightarrow> block_ctx \<Rightarrow> amm_Pool \<Rightarrow> coins \<Rightarrow> 'e mstate \<Rightarrow> amm_Pool \<times> 'e mstate result" where
  "SwapFeesToRevenueToken k ctx = SwapFeesToRevenueToken_with (UpdatePoolForSwap k ctx) k"

text \<open>Without a swap fee the collector does not matter, so the three satisfy the equations of the
  code.\<close>

lemma settle_fee_none:
  "sdk_laws (mk_sdk k) \<Longrightarrow> \<not> 0 < sw_swapFee w \<Longrightarrow> settle_fee collect k w poolAddr p s = (p, Inr s)"
  by (simp add: settle_fee_def fee_coins_def IsAllPositive_iff coins_ok_Nil)

lemma UpdatePoolForSwap_no_fee:
  "sdk_laws (mk_sdk k) \<Longrightarrow> \<not> 0 < sw_swapFee w \<Longrightarrow>
     UpdatePoolForSwap_with c k ctx w p s = UpdatePoolForSwap_with c' k ctx w p s"
  by (simp add: UpdatePoolForSwap_with_def settle_fee_none)

lemma SwapFees_loop_depth:
  "sdk_laws (mk_sdk k) \<Longrightarrow>
     SwapFees_loop (UpdatePoolForSwap_with c k ctx) k params f fee p s =
       SwapFees_loop (UpdatePoolForSwap_with c' k ctx) k params f fee p s"
proof (induction fee arbitrary: p s)
  case (Cons tokenIn fee)
  have U: "UpdatePoolForSwap_with c k ctx (fee_order k a t q) = UpdatePoolForSwap_with c' k ctx (fee_order k a t q)"
    for a t q by (intro ext UpdatePoolForSwap_no_fee) (simp_all add: fee_order_def Cons.prems)
  show ?case by (simp add: Cons.IH [OF Cons.prems] U cong: if_cong)
qed simp

lemma SwapFeesToRevenueToken_depth:
  "sdk_laws (mk_sdk k) \<Longrightarrow>
     SwapFeesToRevenueToken_with (UpdatePoolForSwap_with c k ctx) k p fee s =
       SwapFeesToRevenueToken_with (UpdatePoolForSwap_with c' k ctx) k p fee s"
  unfolding SwapFeesToRevenueToken_with_def using SwapFees_loop_depth [where c = c and c' = c'] by simp

lemma OnCollectFee_eq:
  assumes "sdk_laws (mk_sdk k)"
  shows "OnCollectFee k ctx p fee s = OnCollectFee_with (UpdatePoolForSwap k ctx) k p fee s"
proof -
  have "SwapFeesToRevenueToken_with (UpdatePoolForSwap_with no_collect k ctx) k =
      SwapFeesToRevenueToken_with (UpdatePoolForSwap k ctx) k"
    unfolding UpdatePoolForSwap_def by (intro ext SwapFeesToRevenueToken_depth assms)
  then show ?thesis unfolding OnCollectFee_def OnCollectFee_with_def by metis
qed

end
