(* ===== verification/AmmLiquidity.thy ===== *)
theory AmmLiquidity
  imports AmmSettle
begin

text \<open>
  Creating, joining and leaving pools in the keeper (x/amm/keeper: \<open>keeper_create_pool.go\<close>,
  \<open>keeper_join_pool_no_swap.go\<close>, \<open>keeper_exit_pool.go\<close>, \<open>apply_join_pool_state_change.go\<close>,
  \<open>apply_exit_pool_state_change.go\<close>, \<open>pool_share.go\<close>, \<open>oracle.go\<close>; x/amm/utils). Shares are minted to the
  account and committed at once; leaving uncommits and burns them.
\<close>

section \<open>Shares\<close>

definition pool_share_entry :: "amm_Pool \<Rightarrow> Entry" where
  "pool_share_entry pool =
     (let poolShareDenom = GetPoolShareDenom (am_PoolId pool)
      in empty_entry\<lparr>en_Authority := am_Address pool, en_BaseDenom := poolShareDenom, en_Decimals := 6,
           en_Denom := poolShareDenom, en_DisplayName := poolShareDenom,
           en_CommitEnabled := True, en_WithdrawEnabled := True\<rparr>)"

definition MintPoolShareToAccount ::
    "'e mkeeper \<Rightarrow> block_ctx \<Rightarrow> amm_Pool \<Rightarrow> addr \<Rightarrow> int \<Rightarrow> 'e mstate \<Rightarrow> 'e mstate result" where
  "MintPoolShareToAccount k ctx pool adr amount s =
     (let poolShareDenom = GetPoolShareDenom (am_PoolId pool) in
      rbind (NewCoin (mk_sdk k) poolShareDenom amount) (\<lambda>c.
      rbind (NewCoins (mk_sdk k) [c]) (\<lambda>amt.
      rbind (mm_bank (BkMint (mk_bank k) amm_ModuleName amt) s) (\<lambda>s1.
      rbind (mm_bank (BkModToAcc (mk_bank k) amm_ModuleName adr amt) s1) (\<lambda>s2.
      let s3 = (if k_GetEntry (mk_commitment k) (mm_ext s2) poolShareDenom = None
                then set_mm_ext (mk_SetEntry k (pool_share_entry pool) (mm_ext s2)) s2 else s2);
          lockUntil = (if pp_UseOracle (am_PoolParams pool)
                then u64 (block_seconds ctx + mp_LpLockupDuration (amm_GetParams s3)) else 0)
      in mm_commit_call (CommitLiquidTokens (mk_commitment k) ctx adr poolShareDenom amount lockUntil) s3)))))"

definition BurnPoolShareFromAccount :: "'e mkeeper \<Rightarrow> amm_Pool \<Rightarrow> addr \<Rightarrow> int \<Rightarrow> 'e mstate \<Rightarrow> 'e mstate result" where
  "BurnPoolShareFromAccount k pool adr amount s =
     rbind (NewCoin (mk_sdk k) (GetPoolShareDenom (am_PoolId pool)) amount) (\<lambda>c.
     rbind (NewCoins (mk_sdk k) [c]) (\<lambda>cs.
     rbind (mm_bank (BkAccToMod (mk_bank k) adr amm_ModuleName cs) s) (\<lambda>s1.
       mm_bank (BkBurn (mk_bank k) amm_ModuleName cs) s1)))"

section \<open>Leaving\<close>

text \<open>The swap fee of coins that leave: they pay it on top, to the treasury and into revenue. The
  fees of a join are portions of what came in.\<close>

definition collect_swap_fee ::
    "'e mkeeper \<Rightarrow> block_ctx \<Rightarrow> addr \<Rightarrow> coins \<Rightarrow> amm_Pool \<Rightarrow> 'e mstate \<Rightarrow> amm_Pool \<times> 'e mstate result" where
  "collect_swap_fee k ctx poolAddr swapFeeInCoins p s =
     (if \<not> IsAllPositive (mk_sdk k) swapFeeInCoins then (p, Inr s)
      else pbind (p, MustAccAddress (mk_sdk k) (am_RebalanceTreasury p)) (\<lambda>p rebalanceTreasury.
           pbind (pay_out k poolAddr rebalanceTreasury swapFeeInCoins p s) (\<lambda>p s1.
             OnCollectFee k ctx p swapFeeInCoins s1)))"

definition collect_taker_fee ::
    "'e mkeeper \<Rightarrow> addr \<Rightarrow> coins \<Rightarrow> int \<Rightarrow> amm_Pool \<Rightarrow> 'e mstate \<Rightarrow> amm_Pool \<times> 'e mstate result" where
  "collect_taker_fee k poolAddr cs takerFees p s =
     pbind (p, if 0 < takerFees then PortionCoins k cs takerFees else Inr []) (\<lambda>p takerFeesInCoins.
       if \<not> IsAllPositive (mk_sdk k) takerFeesInCoins then (p, Inr s)
       else pbind (p, AccAddressFromBech32 (mk_sdk k) (pr_TakerFeeCollectionAddress (mk_parameter k (mm_ext s))))
              (\<lambda>p protocolAddress. pay_out k poolAddr protocolAddress takerFeesInCoins p s))"

definition exit_swap_fee :: "'e mkeeper \<Rightarrow> coins \<Rightarrow> int \<Rightarrow> coins result" where
  "exit_swap_fee k exitCoins swapFee =
     (if \<not> 0 < swapFee then Inr []
      else case exitCoins of
        [] \<Rightarrow> Inl (Panic ''index out of range'')
      | c # _ \<Rightarrow>
          rbind (BQuo (mk_big k) (BMul (mk_big k) (BigDecFromSDKInt (Amount c)) swapFee) (big_one - swapFee)) (\<lambda>swapFeeAmount.
          rbind (NewCoin (mk_sdk k) (Denom c) (DRoundInt (mk_dec k) (BDec (mk_big k) swapFeeAmount))) (\<lambda>fee. Inr [fee])))"

definition AfterExitPool_hook :: "'e mkeeper \<Rightarrow> addr \<Rightarrow> amm_Pool \<Rightarrow> int \<Rightarrow> coins \<Rightarrow> 'e mstate \<Rightarrow> 'e mstate result" where
  "AfterExitPool_hook k a p n cs s = (case mk_hooks k of None \<Rightarrow> Inr s | Some h \<Rightarrow> ah_AfterExitPool h a p n cs s)"

definition AfterJoinPool_hook :: "'e mkeeper \<Rightarrow> addr \<Rightarrow> amm_Pool \<Rightarrow> coins \<Rightarrow> int \<Rightarrow> 'e mstate \<Rightarrow> 'e mstate result" where
  "AfterJoinPool_hook k a p cs n s = (case mk_hooks k of None \<Rightarrow> Inr s | Some h \<Rightarrow> ah_AfterJoinPool h a p cs n s)"

definition ApplyExitPoolStateChange ::
    "'e mkeeper \<Rightarrow> block_ctx \<Rightarrow> amm_Pool \<Rightarrow> addr \<Rightarrow> int \<Rightarrow> coins \<Rightarrow> bool \<Rightarrow> int \<Rightarrow> int \<Rightarrow> 'e mstate \<Rightarrow>
       amm_Pool \<times> 'e mstate result" where
  "ApplyExitPoolStateChange k ctx pool exiter numShares exitCoins isLiquidation takerFees swapFee s =
     pbind (pool, mm_commit_call (UncommitTokens (mk_commitment k) ctx exiter (GetPoolShareDenom (am_PoolId pool))
               numShares isLiquidation) s) (\<lambda>p s1.
     pbind (p, MustAccAddress (mk_sdk k) (am_Address p)) (\<lambda>p poolAddr.
     pbind (p, send k poolAddr exiter exitCoins s1) (\<lambda>p s2.
     pbind (p, BurnPoolShareFromAccount k p exiter numShares s2) (\<lambda>p s3.
     let s4 = amm_SetPool p s3 in
     pbind (p, exit_swap_fee k exitCoins swapFee) (\<lambda>p swapFeeInCoins.
     pbind (collect_swap_fee k ctx poolAddr swapFeeInCoins p s4) (\<lambda>p s5.
     pbind (collect_taker_fee k poolAddr exitCoins takerFees p s5) (\<lambda>p s6.
       (p, AfterExitPool_hook k exiter p numShares exitCoins s6))))))))"

text \<open>What leaving returns: coins, bonus, swap fee, slippage and taker fees.\<close>

type_synonym exit_out = "coins \<times> int \<times> int \<times> int \<times> int"

definition cap_exit_bonus :: "'e mkeeper \<Rightarrow> amm_Pool \<Rightarrow> coins \<Rightarrow> int \<Rightarrow> 'e mstate \<Rightarrow> int result" where
  "cap_exit_bonus k pool exitCoins weightBalanceBonus s =
     (if 0 < weightBalanceBonus \<and> length exitCoins = 1
      then rbind (MustAccAddress (mk_sdk k) (am_RebalanceTreasury pool)) (\<lambda>rebalanceTreasuryAddr.
           let c = exitCoins ! 0;
               treasuryTokenAmount = BkBalance (mk_bank k) rebalanceTreasuryAddr (Denom c) (mm_ext s);
               bonusTokenAmount = DTruncateInt (mk_dec k) (BDec (mk_big k)
                 (BMul (mk_big k) (BigDecFromSDKInt (Amount c)) weightBalanceBonus))
           in if treasuryTokenAmount < bonusTokenAmount
              then BQuo (mk_big k) (BigDecFromSDKInt treasuryTokenAmount) (BigDecFromSDKInt (Amount c))
              else Inr weightBalanceBonus)
      else Inr weightBalanceBonus)"

definition keeper_ExitPool ::
    "'e mkeeper \<Rightarrow> block_ctx \<Rightarrow> addr \<Rightarrow> int \<Rightarrow> int \<Rightarrow> coins \<Rightarrow> string \<Rightarrow> bool \<Rightarrow> bool \<Rightarrow> 'e mstate \<Rightarrow>
       ('e mstate \<times> exit_out) result" where
  "keeper_ExitPool k ctx sender poolId shareInAmount tokenOutMins tokenOutDenom isLiquidation applyWeightBreakingFee s =
     (case amm_GetPool s poolId of
        None \<Rightarrow> Inl amm_ErrInvalidPoolId
      | Some pool \<Rightarrow>
          if shareInAmount \<ge> Amount (am_TotalShares pool) then Inl amm_ErrInvalidMathApprox
          else if shareInAmount \<le> 0 then Inl amm_ErrInvalidMathApprox
          else
          rbind (taker_fees k s) (\<lambda>takersFees.
          rbind (GetPoolWithAccountedBalance k s (am_PoolId pool)) (\<lambda>snapshot.
          rbind (ExitPool (amm_env_of k s) pool snapshot shareInAmount tokenOutDenom (amm_GetParams s) takersFees
                   applyWeightBreakingFee) (\<lambda>(pool1, q).
          rbind (cap_exit_bonus k pool1 (eq_Coins q) (eq_WeightBalanceBonus q) s) (\<lambda>weightBalanceBonus.
          rbind (if pp_UseOracle (am_PoolParams pool1) \<and> IsAllPositive (mk_sdk k) (eq_SlippageCoins q)
                 then rbind (NewCoin (mk_sdk k) (Denom (eq_SlippageCoins q ! 0)) (Amount (eq_SlippageCoins q ! 0))) (\<lambda>c.
                      Inr (TrackWeightBreakingSlippage k ctx (am_PoolId pool1) c s))
                 else Inr s) (\<lambda>s1.
          if \<not> mk_DenomsSubsetOf k tokenOutMins (eq_Coins q) \<or> IsAnyGT (mk_sdk k) tokenOutMins (eq_Coins q)
          then Inl amm_ErrLimitMinAmount
          else
          rbind (snd (ApplyExitPoolStateChange k ctx pool1 sender shareInAmount (eq_Coins q) isLiquidation
                   (eq_TakerFees q) (eq_SwapFee q) s1)) (\<lambda>s2.
          rbind (RecordTotalLiquidityDecrease (eq_Coins q) s2) (\<lambda>s3.
            Inr (s3, eq_Coins q, weightBalanceBonus, eq_SwapFee q, eq_Slippage q, eq_TakerFees q)))))))))"

section \<open>Joining\<close>

text \<open>The amount of the bonus for a join: the coin's, times the bonus, in the other asset.\<close>

definition join_bonus_amount :: "'e mkeeper \<Rightarrow> string \<Rightarrow> coin \<Rightarrow> int \<Rightarrow> 'e mstate \<Rightarrow> int result" where
  "join_bonus_amount k otherDenom c weightBalanceBonus s =
     (let B = mk_big k; inTokenPrice = mk_GetDenomPrice k (mm_ext s) (Denom c);
          outTokenPrice = mk_GetDenomPrice k (mm_ext s) otherDenom
      in if inTokenPrice = 0 then Inl (Plain ''price for inToken not set'')
         else if outTokenPrice = 0 then Inl (Plain ''price for outToken not set'')
         else rbind (BQuo B (BMul B (BMul B (BigDecFromSDKInt (Amount c)) weightBalanceBonus) inTokenPrice) outTokenPrice)
                (\<lambda>q. Inr (DTruncateInt (mk_dec k) (BDec B q))))"

text \<open>The part of the weight breaking fee that goes to the treasury, coin by coin.\<close>

fun join_recovery ::
    "'e mkeeper \<Rightarrow> block_ctx \<Rightarrow> int \<Rightarrow> int \<Rightarrow> addr \<Rightarrow> addr \<Rightarrow> coins \<Rightarrow> amm_Pool \<Rightarrow> 'e mstate \<Rightarrow> amm_Pool \<times> 'e mstate result" where
  "join_recovery k ctx bonus portion poolAddr rebalanceTreasury [] p s = (p, Inr s)"
| "join_recovery k ctx bonus portion poolAddr rebalanceTreasury (coin # cs) p s =
     (let B = mk_big k; amount = portion_of k (Amount coin) (BMul B bonus portion)
      in if \<not> 0 < amount then join_recovery k ctx bonus portion poolAddr rebalanceTreasury cs p s
         else
         pbind (p, NewCoin (mk_sdk k) (Denom coin) amount) (\<lambda>p c.
         pbind (pay_out k poolAddr rebalanceTreasury [c] p s) (\<lambda>p s1.
         pbind (p, NewCoin (mk_sdk k) (Denom coin) (DTruncateInt (mk_dec k) (BDec B
                   (BMul B (BMul B bonus (big_one - portion)) (BigDecFromSDKInt (Amount coin)))))) (\<lambda>p c'.
         join_recovery k ctx bonus portion poolAddr rebalanceTreasury cs p
           (TrackWeightBreakingSlippage k ctx (am_PoolId p) c' s1)))))"

definition join_bonus ::
    "'e mkeeper \<Rightarrow> addr \<Rightarrow> coins \<Rightarrow> int \<Rightarrow> amm_Pool \<Rightarrow> 'e mstate \<Rightarrow> 'e mstate result" where
  "join_bonus k joiner joinCoins weightBalanceBonus p s =
     (if 0 < weightBalanceBonus \<and> length joinCoins = 1
      then rbind (MustAccAddress (mk_sdk k) (am_RebalanceTreasury p)) (\<lambda>rebalanceTreasuryAddr.
           let otherDenom = other_denom_of p (Denom (joinCoins ! 0));
               treasuryTokenAmount = BkBalance (mk_bank k) rebalanceTreasuryAddr otherDenom (mm_ext s)
           in rbind (join_bonus_amount k otherDenom (joinCoins ! 0) weightBalanceBonus s) (\<lambda>bonus0.
              rbind (NewCoin (mk_sdk k) otherDenom (if treasuryTokenAmount < bonus0 then treasuryTokenAmount else bonus0)) (\<lambda>c.
              if IsAllPositive (mk_sdk k) [c] then send k rebalanceTreasuryAddr joiner [c] s else Inr s)))
      else Inr s)"

definition ApplyJoinPoolStateChange ::
    "'e mkeeper \<Rightarrow> block_ctx \<Rightarrow> amm_Pool \<Rightarrow> addr \<Rightarrow> int \<Rightarrow> coins \<Rightarrow> int \<Rightarrow> int \<Rightarrow> int \<Rightarrow> 'e mstate \<Rightarrow>
       amm_Pool \<times> 'e mstate result" where
  "ApplyJoinPoolStateChange k ctx pool joiner numShares joinCoins weightBalanceBonus takerFees swapFee s =
     pbind (pool, MustAccAddress (mk_sdk k) (am_Address pool)) (\<lambda>p poolAddr.
     pbind (p, send k joiner poolAddr joinCoins s) (\<lambda>p s1.
     pbind (p, MintPoolShareToAccount k ctx p joiner numShares s1) (\<lambda>p s2.
     let s3 = amm_SetPool p s2 in
     pbind (p, if 0 < swapFee then PortionCoins k joinCoins swapFee else Inr []) (\<lambda>p swapFeeInCoins.
     pbind (collect_swap_fee k ctx poolAddr swapFeeInCoins p s3) (\<lambda>p s4.
     pbind (if pp_UseOracle (am_PoolParams p) \<and> weightBalanceBonus < 0
            then pbind (p, MustAccAddress (mk_sdk k) (am_RebalanceTreasury p)) (\<lambda>p rebalanceTreasury.
                 join_recovery k ctx \<bar>weightBalanceBonus\<bar>
                   (BigDecFromDec (mp_WeightBreakingFeePortion (amm_GetParams s4))) poolAddr rebalanceTreasury joinCoins p s4)
            else (p, Inr s4)) (\<lambda>p s5.
     pbind (p, join_bonus k joiner joinCoins weightBalanceBonus p s5) (\<lambda>p s6.
     pbind (collect_taker_fee k poolAddr joinCoins takerFees p s6) (\<lambda>p s7.
       (p, AfterJoinPool_hook k joiner p joinCoins numShares s7)))))))))"

text \<open>What a weighted pool asks for the shares, against what the sender allows.\<close>

definition needed_tokens :: "'e mkeeper \<Rightarrow> amm_Pool \<Rightarrow> int \<Rightarrow> coins \<Rightarrow> 'e mstate \<Rightarrow> coins result" where
  "needed_tokens k pool shareOutAmount tokenInMaxs s =
     (if length tokenInMaxs = 1 then Inr tokenInMaxs
      else rbind (GetMaximalNoSwapLPAmount (amm_env_of k s) pool shareOutAmount) (\<lambda>neededLpLiquidity.
           if tokenInMaxs \<noteq> [] \<and> \<not> mk_DenomsSubsetOf k neededLpLiquidity tokenInMaxs then Inl amm_ErrLimitMaxAmount
           else if tokenInMaxs \<noteq> [] \<and> \<not> mk_DenomsSubsetOf k tokenInMaxs neededLpLiquidity then Inl amm_ErrDenomNotFoundInPool
           else if tokenInMaxs \<noteq> [] \<and> \<not> mk_IsAllGTE k tokenInMaxs neededLpLiquidity then Inl amm_ErrLimitMaxAmount
           else Inr neededLpLiquidity))"

definition cap_join_bonus :: "'e mkeeper \<Rightarrow> amm_Pool \<Rightarrow> coins \<Rightarrow> int \<Rightarrow> 'e mstate \<Rightarrow> int result" where
  "cap_join_bonus k pool tokensJoined weightBalanceBonus s =
     (if 0 < weightBalanceBonus \<and> length tokensJoined = 1
      then rbind (MustAccAddress (mk_sdk k) (am_RebalanceTreasury pool)) (\<lambda>rebalanceTreasuryAddr.
           let c = tokensJoined ! 0; otherDenom = other_denom_of pool (Denom c);
               treasuryTokenAmount = BkBalance (mk_bank k) rebalanceTreasuryAddr otherDenom (mm_ext s)
           in rbind (join_bonus_amount k otherDenom c weightBalanceBonus s) (\<lambda>bonusTokenAmount.
              if treasuryTokenAmount < bonusTokenAmount
              then BQuo (mk_big k) (BigDecFromSDKInt treasuryTokenAmount) (BigDecFromSDKInt (Amount c))
              else Inr weightBalanceBonus))
      else Inr weightBalanceBonus)"

definition join_slippage_track ::
    "'e mkeeper \<Rightarrow> block_ctx \<Rightarrow> amm_Pool \<Rightarrow> coins \<Rightarrow> int \<Rightarrow> 'e mstate \<Rightarrow> 'e mstate result" where
  "join_slippage_track k ctx pool tokenInMaxs slippage s =
     (if pp_UseOracle (am_PoolParams pool) \<and> length tokenInMaxs = 1
      then let c = tokenInMaxs ! 0;
               slippageAmount = DRoundInt (mk_dec k) (BDec (mk_big k) (BMul (mk_big k) slippage (BigDecFromSDKInt (Amount c))))
           in if 0 < slippageAmount
              then rbind (NewCoin (mk_sdk k) (Denom c) slippageAmount) (\<lambda>c'.
                   Inr (TrackWeightBreakingSlippage k ctx (am_PoolId pool) c' s))
              else Inr s
      else Inr s)"

text \<open>A weighted pool takes what the shares need, an oracle pool all that is offered; of the latter
  the bonus is capped by the treasury and the slippage is tracked.\<close>

definition JoinPoolNoSwap ::
    "'e mkeeper \<Rightarrow> block_ctx \<Rightarrow> addr \<Rightarrow> int \<Rightarrow> int \<Rightarrow> coins \<Rightarrow> 'e mstate \<Rightarrow> ('e mstate \<times> coins \<times> int) result" where
  "JoinPoolNoSwap k ctx sender poolId shareOutAmount tokenInMaxs s =
     recovered
       (case amm_GetPool s poolId of
          None \<Rightarrow> Inl amm_ErrInvalidPoolId
        | Some pool \<Rightarrow>
            rbind (if pp_UseOracle (am_PoolParams pool) then Inr tokenInMaxs
                   else needed_tokens k pool shareOutAmount tokenInMaxs s) (\<lambda>tokensIn.
            rbind (taker_fees k s) (\<lambda>takerFees.
            rbind (GetPoolWithAccountedBalance k s (am_PoolId pool)) (\<lambda>snapshot.
            rbind (JoinPool (amm_env_of k s) pool snapshot tokensIn (amm_GetParams s) takerFees) (\<lambda>(pool1, q).
            rbind (if pp_UseOracle (am_PoolParams pool1)
                   then rbind (cap_join_bonus k pool1 (jq_Joined q) (jq_WeightBalanceBonus q) s) (\<lambda>bonus.
                        rbind (join_slippage_track k ctx pool1 tokenInMaxs (jq_Slippage q) s) (\<lambda>s1. Inr (bonus, s1)))
                   else Inr (jq_WeightBalanceBonus q, s)) (\<lambda>(weightBalanceBonus, s1).
            rbind (snd (ApplyJoinPoolStateChange k ctx pool1 sender (jq_Shares q) (jq_Joined q) weightBalanceBonus
                     (jq_TakerFees q) (jq_SwapFee q) s1)) (\<lambda>s2.
            rbind (RecordTotalLiquidityIncrease (jq_Joined q) s2) (\<lambda>s3.
              Inr (s3, jq_Joined q, jq_Shares q)))))))))"

section \<open>Creating\<close>

record MsgCreatePool =
  cm_Sender :: string
  cm_PoolParams :: amm_PoolParams
  cm_PoolAssets :: "PoolAsset list"

definition InitialLiquidity :: "MsgCreatePool \<Rightarrow> coins result" where
  "InitialLiquidity msg =
     (if cm_PoolAssets msg = [] then Inl (Panic ''InitialLiquidity coins is equal to nil'')
      else Inr (sort_key Denom (map pa_Token (cm_PoolAssets msg))))"

definition CanCreateModuleAccountAtAddr :: "'e mkeeper \<Rightarrow> 'e mstate \<Rightarrow> addr \<Rightarrow> unit result" where
  "CanCreateModuleAccountAtAddr k s adr =
     (case mk_GetAccount k (mm_ext s) adr of
        None \<Rightarrow> Inr ()
      | Some (sequence, hasPubKey, overridable) \<Rightarrow>
          if sequence \<noteq> 0 \<or> hasPubKey then Inl (Plain ''cannot create module account: having sent txs'')
          else if overridable then Inr ()
          else Inl (Plain ''cannot create module account: not being an overridable type''))"

definition CreateModuleAccount :: "'e mkeeper \<Rightarrow> addr \<Rightarrow> string \<Rightarrow> 'e mstate \<Rightarrow> 'e mstate result" where
  "CreateModuleAccount k adr name s =
     rbind (CanCreateModuleAccountAtAddr k s adr) (\<lambda>_. Inr (set_mm_ext (mk_SetModuleAccount k adr name (mm_ext s)) s))"

definition AfterPoolCreated_hook :: "'e mkeeper \<Rightarrow> addr \<Rightarrow> amm_Pool \<Rightarrow> 'e mstate \<Rightarrow> 'e mstate result" where
  "AfterPoolCreated_hook k a p s = (case mk_hooks k of None \<Rightarrow> Inr s | Some h \<Rightarrow> ah_AfterPoolCreated h a p s)"

text \<open>Of the share's metadata the base and the displayed denomination.\<close>

definition InitializePool :: "'e mkeeper \<Rightarrow> block_ctx \<Rightarrow> amm_Pool \<Rightarrow> addr \<Rightarrow> 'e mstate \<Rightarrow> 'e mstate result" where
  "InitializePool k ctx pool sender s =
     rbind (amm_TVL (amm_env_of k s) pool) (\<lambda>tvl.
     rbind (if 0 < tvl
            then rbind (NewCoin (mk_sdk k) (Denom (am_TotalShares pool)) (DRoundInt (mk_dec k) (BDec (mk_big k)
                   (BMul (mk_big k) tvl (BigDecFromSDKInt OneShare))))) (\<lambda>c. Inr (pool\<lparr>am_TotalShares := c\<rparr>))
            else Inr pool) (\<lambda>pool1.
     rbind (MintPoolShareToAccount k ctx pool1 sender (Amount (am_TotalShares pool1)) s) (\<lambda>s1.
     let s2 = set_mm_ext (mk_SetDenomMetaData k (GetPoolShareDenom (am_PoolId pool1))
                (''AMM-'' @ FormatNat (nat (am_PoolId pool1))) (mm_ext s1)) s1
     in rbind (amm_Pool_Validate (amm_env_of k s2) pool1) (\<lambda>_.
          AfterPoolCreated_hook k sender pool1 (amm_SetPool pool1 s2)))))"

text \<open>The display name of the asset that is not the base currency names the oracle's pair.\<close>

fun oracle_base_denom :: "'e mkeeper \<Rightarrow> 'e mstate \<Rightarrow> PoolAsset list \<Rightarrow> string \<Rightarrow> string result" where
  "oracle_base_denom k s [] baseDenom = Inr baseDenom"
| "oracle_base_denom k s (poolAsset # as) baseDenom =
     (case mk_GetAssetInfo k (mm_ext s) (Denom (pa_Token poolAsset)) of
        None \<Rightarrow> Inl (Plain ''asset info not found for pool asset'')
      | Some (display, _) \<Rightarrow> oracle_base_denom k s as (if display \<noteq> ''USDC'' then display else baseDenom))"

definition UpdateOraclePoolId :: "'e mkeeper \<Rightarrow> int \<Rightarrow> 'e mstate \<Rightarrow> 'e mstate result" where
  "UpdateOraclePoolId k poolId s =
     (case amm_GetPool s poolId of
        None \<Rightarrow> Inl amm_ErrPoolNotFound
      | Some ammPool \<Rightarrow>
          if \<not> pp_UseOracle (am_PoolParams ammPool) then Inr s
          else if length (am_PoolAssets ammPool) > 2 then Inl (Plain ''cannot use more than two oracle pool assets'')
          else rbind (oracle_base_denom k s (am_PoolAssets ammPool) []) (\<lambda>baseDenom.
               if baseDenom = [] then Inl (Plain ''invalid asset for oracle pool update id'')
               else Inr (set_mm_ext (mk_SetCurrencyPairProviders k
                      (map (\<lambda>p. if cp_BaseDenom p = baseDenom \<and> cp_ExternLiquidityProvider p \<noteq> []
                         then p\<lparr>cp_PoolId := poolId\<rparr> else p) (mk_CurrencyPairProviders k (mm_ext s))) (mm_ext s)) s)))"

definition keeper_CreatePool :: "'e mkeeper \<Rightarrow> block_ctx \<Rightarrow> MsgCreatePool \<Rightarrow> 'e mstate \<Rightarrow> ('e mstate \<times> int) result" where
  "keeper_CreatePool k ctx msg s =
     rbind (MustAccAddress (mk_sdk k) (cm_Sender msg)) (\<lambda>sender.
     case usdc_denom k s of
       None \<Rightarrow> Inl ErrAssetProfileNotFound
     | Some baseCurrency \<Rightarrow>
         let params = (if pp_FeeDenom (cm_PoolParams msg) = [] then (cm_PoolParams msg)\<lparr>pp_FeeDenom := baseCurrency\<rparr>
                       else cm_PoolParams msg);
             poolId = amm_GetNextPoolId s in
         rbind (NewBalancerPool (amm_env_of k s) poolId params (cm_PoolAssets msg)) (\<lambda>pool.
         case AccAddressFromBech32 (mk_sdk k) (am_Address pool) of
           Inl e \<Rightarrow> Inl (Plain ''invalid pool address'')
         | Inr adr \<Rightarrow>
             rbind (CreateModuleAccount k adr (GetPoolIdModuleName (am_PoolId pool)) s) (\<lambda>s1.
             rbind (InitializePool k ctx pool sender s1) (\<lambda>s2.
             rbind (InitialLiquidity msg) (\<lambda>initialPoolLiquidity.
             rbind (send k sender adr initialPoolLiquidity s2) (\<lambda>s3.
             rbind (RecordTotalLiquidityIncrease (map pa_Token (cm_PoolAssets msg)) s3) (\<lambda>s4.
             rbind (UpdateOraclePoolId k poolId s4) (\<lambda>s5. Inr (s5, am_PoolId pool)))))))))"

end
