(* ===== verification/AmmRoutes.thy ===== *)
theory AmmRoutes
  imports AmmLiquidity
begin

text \<open>
  Swaps through one or several pools (x/amm/keeper: \<open>keeper_swap_exact_amount_in.go\<close>,
  \<open>keeper_swap_exact_amount_out.go\<close>, \<open>route_exact_amount_in.go\<close>, \<open>route_exact_amount_out.go\<close>,
  \<open>create_multihop_expected_swap_outs.go\<close>, the \<open>calc_*\<close> and \<open>swap_*\<close> wrappers; \<open>types/route.go\<close>).
\<close>

section \<open>Quotes of a stored pool\<close>

definition keeper_CalcOutAmtGivenIn ::
    "'e mkeeper \<Rightarrow> 'e mstate \<Rightarrow> int \<Rightarrow> amm_Pool \<Rightarrow> coins \<Rightarrow> string \<Rightarrow> int \<Rightarrow> (coin \<times> int \<times> int) result" where
  "keeper_CalcOutAmtGivenIn k s poolId snapshot tokensIn tokenOutDenom swapFee =
     (case amm_GetPool s poolId of
        None \<Rightarrow> Inl amm_ErrInvalidPool
      | Some p \<Rightarrow> CalcOutAmtGivenIn (amm_env_of k s) p snapshot tokensIn tokenOutDenom swapFee)"

definition keeper_CalcInAmtGivenOut ::
    "'e mkeeper \<Rightarrow> 'e mstate \<Rightarrow> int \<Rightarrow> amm_Pool \<Rightarrow> coins \<Rightarrow> string \<Rightarrow> int \<Rightarrow> (coin \<times> int \<times> int) result" where
  "keeper_CalcInAmtGivenOut k s poolId snapshot tokensOut tokenInDenom swapFee =
     (case amm_GetPool s poolId of
        None \<Rightarrow> Inl amm_ErrInvalidPool
      | Some p \<Rightarrow> CalcInAmtGivenOut (amm_env_of k s) p snapshot tokensOut tokenInDenom swapFee)"

definition keeper_SwapOutAmtGivenIn ::
    "'e mkeeper \<Rightarrow> 'e mstate \<Rightarrow> int \<Rightarrow> amm_Pool \<Rightarrow> coins \<Rightarrow> string \<Rightarrow> int \<Rightarrow> int \<Rightarrow> int \<Rightarrow> swap_quote result" where
  "keeper_SwapOutAmtGivenIn k s poolId snapshot tokensIn tokenOutDenom swapFee factor takersFee =
     (case amm_GetPool s poolId of
        None \<Rightarrow> Inl (Plain ''invalid pool'')
      | Some ammPool \<Rightarrow>
          SwapOutAmtGivenIn (amm_env_of k s) ammPool snapshot tokensIn tokenOutDenom swapFee factor (amm_GetParams s) takersFee)"

definition keeper_SwapInAmtGivenOut ::
    "'e mkeeper \<Rightarrow> 'e mstate \<Rightarrow> int \<Rightarrow> amm_Pool \<Rightarrow> coins \<Rightarrow> string \<Rightarrow> int \<Rightarrow> int \<Rightarrow> int \<Rightarrow> swap_quote result" where
  "keeper_SwapInAmtGivenOut k s poolId snapshot tokensOut tokenInDenom swapFee factor takersFee =
     (case amm_GetPool s poolId of
        None \<Rightarrow> Inl (Plain ''invalid pool'')
      | Some ammPool \<Rightarrow>
          SwapInAmtGivenOut (amm_env_of k s) ammPool snapshot tokensOut tokenInDenom swapFee factor (amm_GetParams s) takersFee)"

section \<open>One pool\<close>

definition InternalSwapExactAmountIn ::
    "'e mkeeper \<Rightarrow> block_ctx \<Rightarrow> addr \<Rightarrow> addr \<Rightarrow> amm_Pool \<Rightarrow> coin \<Rightarrow> string \<Rightarrow> int \<Rightarrow> int \<Rightarrow> int \<Rightarrow> 'e mstate \<Rightarrow>
       ('e mstate \<times> int \<times> coin) result" where
  "InternalSwapExactAmountIn k ctx sender recipient pool tokenIn tokenOutDenom tokenOutMinAmount swapFee takersFee s =
     (if Denom tokenIn = tokenOutDenom then Inl (Plain ''cannot trade the same denomination in and out'')
      else recovered (
      rbind (GetPoolWithAccountedBalance k s (am_PoolId pool)) (\<lambda>snapshot.
      rbind (SwapOutAmtGivenIn (amm_env_of k s) pool snapshot [tokenIn] tokenOutDenom swapFee big_one
               (amm_GetParams s) takersFee) (\<lambda>q.
      let tokenOutAmount = Amount (sq_Token q) in
      if \<not> 0 < tokenOutAmount then Inl amm_ErrTokenOutAmountZero
      else if tokenOutAmount < tokenOutMinAmount then Inl amm_ErrLimitMinAmount
      else
      rbind (snd (UpdatePoolForSwap k ctx
               \<lparr>sw_sender = sender, sw_recipient = recipient, sw_tokenIn = tokenIn, sw_tokenOut = sq_Token q,
                sw_swapFee = sq_SwapFee q, sw_slippageAmount = sq_SlippageAmount q, sw_oracleInAmount = 0,
                sw_oracleOutAmount = DTruncateInt (mk_dec k) (BDec (mk_big k) (sq_OracleAmount q)),
                sw_weightBalanceBonus = sq_WeightBalanceBonus q, sw_takerFees = takersFee, sw_givenOut = False\<rparr>
               pool s)) (\<lambda>(s1, bonusToken).
      rbind (NewCoin (mk_sdk k) (Denom (sq_Token q)) (DRoundInt (mk_dec k) (BDec (mk_big k) (sq_SlippageAmount q)))) (\<lambda>c.
      let s2 = TrackSlippage k ctx (am_PoolId pool) c s1
      in Inr (if pp_UseOracle (am_PoolParams pool) then TrackWeightBreakingSlippage k ctx (am_PoolId pool) c s2 else s2,
              tokenOutAmount, bonusToken)))))))"

definition InternalSwapExactAmountOut ::
    "'e mkeeper \<Rightarrow> block_ctx \<Rightarrow> addr \<Rightarrow> addr \<Rightarrow> amm_Pool \<Rightarrow> string \<Rightarrow> int \<Rightarrow> coin \<Rightarrow> int \<Rightarrow> int \<Rightarrow> 'e mstate \<Rightarrow>
       ('e mstate \<times> int \<times> coin) result" where
  "InternalSwapExactAmountOut k ctx sender recipient pool tokenInDenom tokenInMaxAmount tokenOut swapFee takersFee s =
     (if tokenInDenom = Denom tokenOut then Inl (Plain ''cannot trade the same denomination in and out'')
      else recovered (
      if Amount tokenOut \<ge> AmountOf (mk_sdk k) (GetTotalPoolLiquidity (mk_sdk k) pool) (Denom tokenOut)
      then Inl amm_ErrTooManyTokensOut
      else
      rbind (GetPoolWithAccountedBalance k s (am_PoolId pool)) (\<lambda>snapshot.
      rbind (SwapInAmtGivenOut (amm_env_of k s) pool snapshot [tokenOut] tokenInDenom swapFee big_one
               (amm_GetParams s) takersFee) (\<lambda>q.
      let tokenInAmount = Amount (sq_Token q) in
      if tokenInAmount \<le> 0 then Inl amm_ErrTokenOutAmountZero
      else if tokenInAmount > tokenInMaxAmount then Inl amm_ErrLimitMaxAmount
      else
      rbind (snd (UpdatePoolForSwap k ctx
               \<lparr>sw_sender = sender, sw_recipient = recipient, sw_tokenIn = sq_Token q, sw_tokenOut = tokenOut,
                sw_swapFee = sq_SwapFee q, sw_slippageAmount = sq_SlippageAmount q,
                sw_oracleInAmount = DTruncateInt (mk_dec k) (BDec (mk_big k) (sq_OracleAmount q)),
                sw_oracleOutAmount = 0,
                sw_weightBalanceBonus = sq_WeightBalanceBonus q, sw_takerFees = takersFee, sw_givenOut = True\<rparr>
               pool s)) (\<lambda>(s1, bonusToken).
      rbind (NewCoin (mk_sdk k) (Denom (sq_Token q)) (DRoundInt (mk_dec k) (BDec (mk_big k) (sq_SlippageAmount q)))) (\<lambda>c.
        Inr (TrackSlippage k ctx (am_PoolId pool) c s1, tokenInAmount, bonusToken)))))))"

section \<open>Routes\<close>

definition SwapAmountInRoutes_Validate :: "sdk \<Rightarrow> SwapAmountInRoute list \<Rightarrow> unit result" where
  "SwapAmountInRoutes_Validate S routes =
     (if routes = [] then Inl amm_ErrEmptyRoutes
      else first_error (\<lambda>route. ValidateDenom S (ri_TokenOutDenom route)) routes)"

definition SwapAmountOutRoutes_Validate :: "sdk \<Rightarrow> SwapAmountOutRoute list \<Rightarrow> unit result" where
  "SwapAmountOutRoutes_Validate S routes =
     (if routes = [] then Inl amm_ErrEmptyRoutes
      else first_error (\<lambda>route. ValidateDenom S (ro_TokenInDenom route)) routes)"

text \<open>The fees of one pool of \<open>n\<close>: the pool's and the takers', divided by \<open>n\<close>, and the first
  discounted.\<close>

definition route_fees :: "'e mkeeper \<Rightarrow> 'e mstate \<Rightarrow> int \<Rightarrow> int \<Rightarrow> amm_Pool \<Rightarrow> (int \<times> int) result" where
  "route_fees k s n discount pool =
     rbind (BQuo (mk_big k) (BigDecFromDec (pp_SwapFee (am_PoolParams pool))) (BigDecFromSDKInt n)) (\<lambda>swapFee.
     rbind (taker_fees k s) (\<lambda>takers.
     rbind (BQuo (mk_big k) takers (BigDecFromSDKInt n)) (\<lambda>takersFee.
       Inr (ApplyDiscount (mk_big k) swapFee (BigDecFromDec discount), takersFee))))"

text \<open>All but the last pool pay the sender, and must return one unit; the bonus is swapped on.\<close>

fun route_in_loop ::
    "'e mkeeper \<Rightarrow> block_ctx \<Rightarrow> addr \<Rightarrow> addr \<Rightarrow> int \<Rightarrow> int \<Rightarrow> int \<Rightarrow> SwapAmountInRoute list \<Rightarrow> coin \<Rightarrow> int \<Rightarrow> int \<Rightarrow>
       'e mstate \<Rightarrow> ('e mstate \<times> int \<times> int) result" where
  "route_in_loop k ctx sender recipient n tokenOutMinAmount discount [] tokenIn tokenOutAmount totalFee s =
     Inr (s, tokenOutAmount, totalFee)"
| "route_in_loop k ctx sender recipient n tokenOutMinAmount discount (route # routes) tokenIn tokenOutAmount totalFee s =
     (case amm_GetPool s (ri_PoolId route) of
        None \<Rightarrow> Inl amm_ErrInvalidPoolId
      | Some pool \<Rightarrow>
          rbind (route_fees k s n discount pool) (\<lambda>(swapFee, takersFee).
          rbind (InternalSwapExactAmountIn k ctx sender (if routes = [] then recipient else sender) pool tokenIn
                   (ri_TokenOutDenom route) (if routes = [] then tokenOutMinAmount else 1) swapFee takersFee s)
            (\<lambda>(s1, out, weightBalanceReward).
          let out' = (if 0 < Amount weightBalanceReward \<and> Denom weightBalanceReward = ri_TokenOutDenom route
                      then out + Amount weightBalanceReward else out)
          in rbind (NewCoin (mk_sdk k) (ri_TokenOutDenom route) out') (\<lambda>tokenIn'.
             route_in_loop k ctx sender recipient n tokenOutMinAmount discount routes tokenIn' out'
               (totalFee + swapFee) s1))))"

definition RouteExactAmountIn ::
    "'e mkeeper \<Rightarrow> block_ctx \<Rightarrow> addr \<Rightarrow> addr \<Rightarrow> SwapAmountInRoute list \<Rightarrow> coin \<Rightarrow> int \<Rightarrow> 'e mstate \<Rightarrow>
       ('e mstate \<times> int \<times> int \<times> int) result" where
  "RouteExactAmountIn k ctx sender recipient routes tokenIn tokenOutMinAmount s =
     rbind (SwapAmountInRoutes_Validate (mk_sdk k) routes) (\<lambda>_.
     let discount = mk_Discount k (mm_ext s) sender
     in rbind (route_in_loop k ctx sender recipient (int (length routes)) tokenOutMinAmount discount routes tokenIn 0 0 s)
          (\<lambda>(s1, tokenOutAmount, totalDiscountedSwapFee).
            Inr (s1, tokenOutAmount, totalDiscountedSwapFee, BigDecFromDec discount)))"

text \<open>The amounts in, from the last pool to the first: the amount each pool asks for is the amount out
  of the pool before.\<close>

fun createMultihopExpectedSwapOuts ::
    "'e mkeeper \<Rightarrow> 'e mstate \<Rightarrow> int \<Rightarrow> SwapAmountOutRoute list \<Rightarrow> coin \<Rightarrow> (int list \<times> coin) result" where
  "createMultihopExpectedSwapOuts k s n [] tokenOut = Inr ([], tokenOut)"
| "createMultihopExpectedSwapOuts k s n (route # routes) tokenOut =
     rbind (createMultihopExpectedSwapOuts k s n routes tokenOut) (\<lambda>(insExpected, tokenOut').
     case amm_GetPool s (ro_PoolId route) of
       None \<Rightarrow> Inl amm_ErrInvalidPoolId
     | Some pool \<Rightarrow>
         rbind (GetPoolWithAccountedBalance k s (am_PoolId pool)) (\<lambda>snapshot.
         rbind (NewCoins (mk_sdk k) [tokenOut']) (\<lambda>tokensOut.
         rbind (BQuo (mk_big k) (BigDecFromDec (pp_SwapFee (am_PoolParams pool))) (BigDecFromSDKInt n)) (\<lambda>swapFee.
         rbind (CalcInAmtGivenOut (amm_env_of k s) pool snapshot tokensOut (ro_TokenInDenom route) swapFee)
           (\<lambda>(tokenIn, _, _). Inr (Amount tokenIn # insExpected, tokenIn))))))"

text \<open>The amount in is nil until the first pool has run.\<close>

definition add_reward :: "coin \<Rightarrow> string \<Rightarrow> int option \<Rightarrow> int option result" where
  "add_reward weightBalanceReward tokenInDenom tokenInAmount =
     (if 0 < Amount weightBalanceReward \<and> Denom weightBalanceReward = tokenInDenom
      then case tokenInAmount of
          None \<Rightarrow> Inl (Panic ''nil integer'')
        | Some n \<Rightarrow> Inr (Some (n + Amount weightBalanceReward))
      else Inr tokenInAmount)"

fun route_out_loop ::
    "'e mkeeper \<Rightarrow> block_ctx \<Rightarrow> addr \<Rightarrow> addr \<Rightarrow> int \<Rightarrow> int \<Rightarrow> coin \<Rightarrow> SwapAmountOutRoute list \<Rightarrow> int list \<Rightarrow> int option \<Rightarrow>
       int \<Rightarrow> 'e mstate \<Rightarrow> ('e mstate \<times> int option \<times> int) result" where
  "route_out_loop k ctx sender recipient n discount tokenOut [] ins tokenInAmount totalFee s =
     Inr (s, tokenInAmount, totalFee)"
| "route_out_loop k ctx sender recipient n discount tokenOut (route # routes) ins tokenInAmount totalFee s =
     (case ins of
        [] \<Rightarrow> Inl (Panic ''index out of range'')
      | expected # ins' \<Rightarrow>
          rbind (case (routes, ins') of
                   (next_route # _, next_in # _) \<Rightarrow> NewCoin (mk_sdk k) (ro_TokenInDenom next_route) next_in
                 | _ \<Rightarrow> Inr tokenOut) (\<lambda>poolTokenOut.
          case amm_GetPool s (ro_PoolId route) of
            None \<Rightarrow> Inl amm_ErrInvalidPoolId
          | Some pool \<Rightarrow>
              rbind (route_fees k s n discount pool) (\<lambda>(swapFee, takersFee).
              rbind (InternalSwapExactAmountOut k ctx sender recipient pool (ro_TokenInDenom route) expected poolTokenOut
                       swapFee takersFee s) (\<lambda>(s1, poolTokenIn, weightBalanceReward).
              rbind (add_reward weightBalanceReward (ro_TokenInDenom route) tokenInAmount) (\<lambda>tokenInAmount1.
              route_out_loop k ctx sender recipient n discount tokenOut routes ins'
                (if tokenInAmount1 = None then Some poolTokenIn else tokenInAmount1) (totalFee + swapFee) s1)))))"

definition RouteExactAmountOut ::
    "'e mkeeper \<Rightarrow> block_ctx \<Rightarrow> addr \<Rightarrow> addr \<Rightarrow> SwapAmountOutRoute list \<Rightarrow> int \<Rightarrow> coin \<Rightarrow> 'e mstate \<Rightarrow>
       ('e mstate \<times> int option \<times> int \<times> int) result" where
  "RouteExactAmountOut k ctx sender recipient routes tokenInMaxAmount tokenOut s =
     rbind (SwapAmountOutRoutes_Validate (mk_sdk k) routes) (\<lambda>_.
     recovered (
     rbind (createMultihopExpectedSwapOuts k s (int (length routes)) routes tokenOut) (\<lambda>(insExpected, _).
     if insExpected = [] then Inr (s, None, 0, 0)
     else let discount = mk_Discount k (mm_ext s) sender
       in rbind (route_out_loop k ctx sender recipient (int (length routes)) discount tokenOut routes
               (tokenInMaxAmount # tl insExpected) None 0 s) (\<lambda>(s1, tokenInAmount, totalDiscountedSwapFee).
          Inr (s1, tokenInAmount, totalDiscountedSwapFee, BigDecFromDec discount)))))"

section \<open>Routes by denomination\<close>

text \<open>A pool of both denominations, or two pools through the base currency.\<close>

definition CalcInRouteByDenom :: "'e mkeeper \<Rightarrow> 'e mstate \<Rightarrow> string \<Rightarrow> string \<Rightarrow> string \<Rightarrow> SwapAmountInRoute list result" where
  "CalcInRouteByDenom k s denomIn denomOut baseCurrency =
     rbind (GetBestPoolWithDenoms k s [denomIn, denomOut] False) (\<lambda>direct.
     case direct of
       Some pool \<Rightarrow> Inr [\<lparr>ri_PoolId = am_PoolId pool, ri_TokenOutDenom = denomOut\<rparr>]
     | None \<Rightarrow>
         rbind (GetBestPoolWithDenoms k s [denomIn, baseCurrency] False) (\<lambda>found1.
         case found1 of
           None \<Rightarrow> Inl (Plain ''no available pool to base currency'')
         | Some pool1 \<Rightarrow>
             rbind (GetBestPoolWithDenoms k s [baseCurrency, denomOut] False) (\<lambda>found2.
             case found2 of
               None \<Rightarrow> Inl (Plain ''no available pool for base currency'')
             | Some pool2 \<Rightarrow>
                 Inr [\<lparr>ri_PoolId = am_PoolId pool1, ri_TokenOutDenom = baseCurrency\<rparr>,
                      \<lparr>ri_PoolId = am_PoolId pool2, ri_TokenOutDenom = denomOut\<rparr>])))"

definition CalcOutRouteByDenom :: "'e mkeeper \<Rightarrow> 'e mstate \<Rightarrow> string \<Rightarrow> string \<Rightarrow> string \<Rightarrow> SwapAmountOutRoute list result" where
  "CalcOutRouteByDenom k s denomOut denomIn baseCurrency =
     (if denomIn = denomOut then Inl amm_ErrSameDenom
      else
      rbind (GetBestPoolWithDenoms k s [denomOut, denomIn] False) (\<lambda>direct.
      case direct of
        Some pool \<Rightarrow> Inr [\<lparr>ro_PoolId = am_PoolId pool, ro_TokenInDenom = denomIn\<rparr>]
      | None \<Rightarrow>
          rbind (GetBestPoolWithDenoms k s [denomOut, baseCurrency] False) (\<lambda>found1.
          case found1 of
            None \<Rightarrow> Inl (Plain ''no available pool to base currency'')
          | Some pool1 \<Rightarrow>
              rbind (GetBestPoolWithDenoms k s [baseCurrency, denomIn] False) (\<lambda>found2.
              case found2 of
                None \<Rightarrow> Inl (Plain ''no available pool for base currency'')
              | Some pool2 \<Rightarrow>
                  Inr [\<lparr>ro_PoolId = am_PoolId pool1, ro_TokenInDenom = baseCurrency\<rparr>,
                       \<lparr>ro_PoolId = am_PoolId pool2, ro_TokenInDenom = denomIn\<rparr>]))))"

end
