(* ===== verification/AmmPrices.thy ===== *)
theory AmmPrices
  imports AmmRoutes
begin

text \<open>
  Prices and estimates (x/amm/keeper: \<open>estimate_price.go\<close>, \<open>calc_in_route_spot_price.go\<close>,
  \<open>calc_out_route_spot_price.go\<close>, \<open>calc_swap_estimation_by_denom.go\<close> and the queries). Nothing here
  writes to the store.
\<close>

section \<open>Spot prices along routes\<close>

text \<open>What the loops over the routes add up: the discounted fees, the liquidity of the last asset, the
  bonuses and the slippage.\<close>

record spot_sums =
  su_SwapFee :: int
  su_AvailableLiquidity :: coin
  su_WeightBalance :: int
  su_Slippage :: int

definition no_sums :: spot_sums where
  "no_sums = \<lparr>su_SwapFee = 0, su_AvailableLiquidity = \<lparr>Denom = [], Amount = 0\<rparr>, su_WeightBalance = 0, su_Slippage = 0\<rparr>"

definition spot_fees :: "'e mkeeper \<Rightarrow> 'e mstate \<Rightarrow> int \<Rightarrow> int \<Rightarrow> int \<Rightarrow> amm_Pool \<Rightarrow> (int \<times> int) result" where
  "spot_fees k s n discount overrideSwapFee pool =
     rbind (BQuo (mk_big k) (BigDecFromDec (pp_SwapFee (am_PoolParams pool))) (BigDecFromSDKInt n)) (\<lambda>swapFee.
     rbind (taker_fees k s) (\<lambda>takers.
     rbind (BQuo (mk_big k) takers (BigDecFromSDKInt n)) (\<lambda>takersFee.
       Inr (ApplyDiscount (mk_big k) (if 0 < overrideSwapFee then overrideSwapFee else swapFee) discount, takersFee))))"

text \<open>A bonus, capped by what the treasury holds, on the given amount (a \<open>BigDec\<close>): the bonus ratio
  and its amount.\<close>

definition spot_bonus :: "'e mkeeper \<Rightarrow> 'e mstate \<Rightarrow> amm_Pool \<Rightarrow> string \<Rightarrow> int \<Rightarrow> int \<Rightarrow> (int \<times> int) result" where
  "spot_bonus k s pool denom amount weightBalanceBonus =
     (if \<not> 0 < weightBalanceBonus then Inr (weightBalanceBonus, 0)
      else rbind (MustAccAddress (mk_sdk k) (am_RebalanceTreasury pool)) (\<lambda>rebalanceTreasuryAddr.
           let treasuryTokenAmount = BkBalance (mk_bank k) rebalanceTreasuryAddr denom (mm_ext s);
               bonusTokenAmount = DTruncateInt (mk_dec k) (BDec (mk_big k) (BMul (mk_big k) amount weightBalanceBonus))
           in if treasuryTokenAmount < bonusTokenAmount
              then rbind (BQuo (mk_big k) (BigDecFromSDKInt treasuryTokenAmount) amount) (\<lambda>r. Inr (r, treasuryTokenAmount))
              else Inr (weightBalanceBonus, bonusTokenAmount)))"

definition add_bonus :: "sdk \<Rightarrow> coin \<Rightarrow> int \<Rightarrow> coin result" where
  "add_bonus S c bonusTokenAmount =
     (if 0 < bonusTokenAmount then NewCoin S (Denom c) (Amount c + bonusTokenAmount) else Inr c)"

fun in_route_spot ::
    "'e mkeeper \<Rightarrow> 'e mstate \<Rightarrow> int \<Rightarrow> int \<Rightarrow> int \<Rightarrow> SwapAmountInRoute list \<Rightarrow> coin \<Rightarrow> spot_sums \<Rightarrow> (coin \<times> spot_sums) result" where
  "in_route_spot k s n discount overrideSwapFee [] tokenIn u = Inr (tokenIn, u)"
| "in_route_spot k s n discount overrideSwapFee (route # routes) tokenIn u =
     (case amm_GetPool s (ri_PoolId route) of
        None \<Rightarrow> Inl amm_ErrPoolNotFound
      | Some pool \<Rightarrow>
          rbind (spot_fees k s n discount overrideSwapFee pool) (\<lambda>(swapFee, takersFee).
          rbind (GetPoolWithAccountedBalance k s (am_PoolId pool)) (\<lambda>snapshot.
          rbind (keeper_SwapOutAmtGivenIn k s (am_PoolId pool) snapshot [tokenIn] (ri_TokenOutDenom route) swapFee big_one
                   takersFee) (\<lambda>q.
          rbind (spot_bonus k s pool (Denom (sq_Token q)) (sq_OracleAmount q) (sq_WeightBalanceBonus q)) (\<lambda>(bonus, bonusAmount).
          if Amount (sq_Token q) = 0 then Inl amm_ErrAmountTooLow
          else
          rbind (add_bonus (mk_sdk k) (sq_Token q) bonusAmount) (\<lambda>tokenOut.
          rbind (GetPoolAssetAndIndex pool (ri_TokenOutDenom route)) (\<lambda>(_, poolAsset).
          let d = Denom (pa_Token poolAsset); accAmount = mk_GetAccountedBalance k (mm_ext s) (am_PoolId pool) d
          in in_route_spot k s n discount overrideSwapFee routes tokenOut
               \<lparr>su_SwapFee = su_SwapFee u + sq_SwapFee q,
                su_AvailableLiquidity = \<lparr>Denom = d, Amount = if 0 < accAmount then accAmount else Amount (pa_Token poolAsset)\<rparr>,
                su_WeightBalance = su_WeightBalance u + bonus, su_Slippage = su_Slippage u + sq_Slippage q\<rparr>)))))))"

fun in_route_rate :: "'e mkeeper \<Rightarrow> 'e mstate \<Rightarrow> SwapAmountInRoute list \<Rightarrow> string \<Rightarrow> int \<Rightarrow> int result" where
  "in_route_rate k s [] tokenInDenom spotPrice = Inr spotPrice"
| "in_route_rate k s (route # routes) tokenInDenom spotPrice =
     (case amm_GetPool s (ri_PoolId route) of
        None \<Rightarrow> Inl amm_ErrPoolNotFound
      | Some pool \<Rightarrow>
          rbind (GetTokenARateNormalized (amm_env_of k s) pool tokenInDenom (ri_TokenOutDenom route)) (\<lambda>rate.
            in_route_rate k s routes (ri_TokenOutDenom route) (BMul (mk_big k) spotPrice rate)))"

text \<open>The spot price, the price with its impact, the last coin, and the sums.\<close>

type_synonym spot_result = "int \<times> int \<times> coin \<times> spot_sums"

definition CalcInRouteSpotPrice ::
    "'e mkeeper \<Rightarrow> 'e mstate \<Rightarrow> coin \<Rightarrow> SwapAmountInRoute list \<Rightarrow> int \<Rightarrow> int \<Rightarrow> spot_result result" where
  "CalcInRouteSpotPrice k s tokenIn routes discount overrideSwapFee =
     (if routes = [] then Inl amm_ErrEmptyRoutes
      else
      rbind (SwapAmountInRoutes_Validate (mk_sdk k) routes) (\<lambda>_.
      rbind (in_route_spot k s (int (length routes)) discount overrideSwapFee routes tokenIn no_sums) (\<lambda>(tokenOut, u).
      if Amount tokenIn = 0 then Inl amm_ErrAmountTooLow
      else
      rbind (BQuo (mk_big k) (BigDecFromSDKInt (Amount tokenOut)) (BigDecFromSDKInt (Amount tokenIn))) (\<lambda>impactedPrice.
      rbind (in_route_rate k s routes (Denom tokenIn) big_one) (\<lambda>spotPrice.
      if \<not> 0 < spotPrice then Inl amm_ErrSpotPriceIsZero else Inr (spotPrice, impactedPrice, tokenOut, u))))))"

text \<open>For an exact amount out the bonus is reckoned, at every pool, on the coin asked for at the start.\<close>

fun out_route_spot ::
    "'e mkeeper \<Rightarrow> 'e mstate \<Rightarrow> int \<Rightarrow> int \<Rightarrow> int \<Rightarrow> coin \<Rightarrow> SwapAmountOutRoute list \<Rightarrow> coin \<Rightarrow> spot_sums \<Rightarrow>
       (coin \<times> spot_sums) result" where
  "out_route_spot k s n discount overrideSwapFee tokenOut [] c u = Inr (c, u)"
| "out_route_spot k s n discount overrideSwapFee tokenOut (route # routes) c u =
     (case amm_GetPool s (ro_PoolId route) of
        None \<Rightarrow> Inl amm_ErrPoolNotFound
      | Some pool \<Rightarrow>
          rbind (spot_fees k s n discount overrideSwapFee pool) (\<lambda>(swapFee, takersFee).
          rbind (GetPoolWithAccountedBalance k s (am_PoolId pool)) (\<lambda>snapshot.
          rbind (keeper_SwapInAmtGivenOut k s (am_PoolId pool) snapshot [c] (ro_TokenInDenom route) swapFee big_one
                   takersFee) (\<lambda>q.
          rbind (spot_bonus k s pool (Denom tokenOut) (BigDecFromSDKInt (Amount tokenOut)) (sq_WeightBalanceBonus q))
            (\<lambda>(bonus, bonusAmount).
          if Amount (sq_Token q) = 0 then Inl amm_ErrAmountTooLow
          else
          rbind (add_bonus (mk_sdk k) (sq_Token q) bonusAmount) (\<lambda>swapResult.
          rbind (GetPoolAssetAndIndex pool (ro_TokenInDenom route)) (\<lambda>(_, poolAsset).
          out_route_spot k s n discount overrideSwapFee tokenOut routes swapResult
            \<lparr>su_SwapFee = su_SwapFee u + sq_SwapFee q, su_AvailableLiquidity = pa_Token poolAsset,
             su_WeightBalance = su_WeightBalance u + bonus, su_Slippage = su_Slippage u + sq_Slippage q\<rparr>)))))))"

fun out_route_rate :: "'e mkeeper \<Rightarrow> 'e mstate \<Rightarrow> SwapAmountOutRoute list \<Rightarrow> string \<Rightarrow> int \<Rightarrow> int result" where
  "out_route_rate k s [] tokenOutDenom spotPrice = Inr spotPrice"
| "out_route_rate k s (route # routes) tokenOutDenom spotPrice =
     (case amm_GetPool s (ro_PoolId route) of
        None \<Rightarrow> Inl amm_ErrPoolNotFound
      | Some pool \<Rightarrow>
          rbind (GetTokenARateNormalized (amm_env_of k s) pool (ro_TokenInDenom route) tokenOutDenom) (\<lambda>rate.
            out_route_rate k s routes (ro_TokenInDenom route) (BMul (mk_big k) spotPrice rate)))"

definition CalcOutRouteSpotPrice ::
    "'e mkeeper \<Rightarrow> 'e mstate \<Rightarrow> coin \<Rightarrow> SwapAmountOutRoute list \<Rightarrow> int \<Rightarrow> int \<Rightarrow> spot_result result" where
  "CalcOutRouteSpotPrice k s tokenOut routes discount overrideSwapFee =
     (if routes = [] then Inl amm_ErrEmptyRoutes
      else
      rbind (out_route_spot k s (int (length routes)) discount overrideSwapFee tokenOut routes tokenOut no_sums) (\<lambda>(tokenIn, u).
      if Amount tokenOut = 0 then Inl amm_ErrAmountTooLow
      else
      rbind (BQuo (mk_big k) (BigDecFromSDKInt (Amount tokenIn)) (BigDecFromSDKInt (Amount tokenOut))) (\<lambda>impactedPrice.
      rbind (out_route_rate k s routes (Denom tokenOut) big_one) (\<lambda>spotPrice.
        Inr (spotPrice, impactedPrice, tokenIn, u)))))"

text \<open>The routes (one of the two), the prices and the sums, the discount and the price impact. An
  address that is none has the discount of the empty address.\<close>

record swap_estimation =
  se_InRoute :: "SwapAmountInRoute list option"
  se_OutRoute :: "SwapAmountOutRoute list option"
  se_Spot :: spot_result
  se_Discount :: int
  se_PriceImpact :: int

definition price_impact :: "'e mkeeper \<Rightarrow> int \<Rightarrow> spot_result \<Rightarrow> int result" where
  "price_impact k decimals r =
     (case r of (spotPrice, impactedPrice, _, _) \<Rightarrow>
        if decimals = 0 then Inr 0
        else if spotPrice = 0 then Inl (Plain ''spot price is zero in CalcSwapEstimationByDenom'')
        else BQuo (mk_big k) (spotPrice - impactedPrice) spotPrice)"

definition CalcSwapEstimationByDenom ::
    "'e mkeeper \<Rightarrow> 'e mstate \<Rightarrow> coin \<Rightarrow> string \<Rightarrow> string \<Rightarrow> string \<Rightarrow> string \<Rightarrow> int \<Rightarrow> int \<Rightarrow> swap_estimation result" where
  "CalcSwapEstimationByDenom k s amount denomIn denomOut baseCurrency adr overrideSwapFee decimals =
     (let a = (case AccAddressFromBech32 (mk_sdk k) adr of Inl e \<Rightarrow> [] | Inr a \<Rightarrow> a);
          discount = BigDecFromDec (mk_Discount k (mm_ext s) a)
      in if Denom amount = denomIn
         then rbind (CalcInRouteByDenom k s denomIn denomOut baseCurrency) (\<lambda>inRoute.
              rbind (CalcInRouteSpotPrice k s amount inRoute discount overrideSwapFee) (\<lambda>r.
              rbind (price_impact k decimals r) (\<lambda>priceImpact.
                Inr \<lparr>se_InRoute = Some inRoute, se_OutRoute = None, se_Spot = r, se_Discount = discount,
                     se_PriceImpact = priceImpact\<rparr>)))
         else if Denom amount = denomOut
         then rbind (CalcOutRouteByDenom k s denomOut denomIn baseCurrency) (\<lambda>outRoute.
              rbind (CalcOutRouteSpotPrice k s amount outRoute discount overrideSwapFee) (\<lambda>r.
              rbind (price_impact k decimals r) (\<lambda>priceImpact.
                Inr \<lparr>se_InRoute = None, se_OutRoute = Some outRoute, se_Spot = r, se_Discount = discount,
                     se_PriceImpact = priceImpact\<rparr>)))
         else Inl amm_ErrInvalidDenom)"

section \<open>Prices\<close>

definition EstimatePrice :: "'e mkeeper \<Rightarrow> 'e mstate \<Rightarrow> string \<Rightarrow> string \<Rightarrow> int result" where
  "EstimatePrice k s tokenInDenom baseCurrency =
     rbind (GetBestPoolWithDenoms k s [tokenInDenom, baseCurrency] False) (\<lambda>found.
     case found of
       None \<Rightarrow> Inr 0
     | Some pool \<Rightarrow> or_else (GetTokenARate (amm_env_of k s) pool tokenInDenom baseCurrency) 0)"

text \<open>The price of the base currency: the oracle's, or one unit in its decimals, a \<open>BigDec\<close> of
  \<open>10 ^ (36 - decimals)\<close>; \<open>NewBigDecWithPrec\<close> panics above 36.\<close>

definition usdc_price :: "'e mkeeper \<Rightarrow> 'e mstate \<Rightarrow> string \<Rightarrow> int result" where
  "usdc_price k s baseCurrency =
     (let usdcDenomPrice = mk_GetDenomPrice k (mm_ext s) baseCurrency;
          usdcDecimal = (case k_GetEntry (mk_commitment k) (mm_ext s) BaseCurrency of None \<Rightarrow> 6 | Some e \<Rightarrow> en_Decimals e)
      in if usdcDenomPrice \<noteq> 0 then Inr usdcDenomPrice
         else if usdcDecimal > 36 then Inl (Panic ''too much precision'')
         else Inr (10 ^ nat (36 - usdcDecimal)))"

definition GetEdenDenomPrice :: "'e mkeeper \<Rightarrow> 'e mstate \<Rightarrow> string \<Rightarrow> int result" where
  "GetEdenDenomPrice k s baseCurrency =
     rbind (EstimatePrice k s Elys baseCurrency) (\<lambda>rate.
     rbind (usdc_price k s baseCurrency) (\<lambda>usdcDenomPrice.
       Inr (BMul (mk_big k) (if rate = 0 then big_one else rate) usdcDenomPrice)))"

definition GetTokenPrice :: "'e mkeeper \<Rightarrow> 'e mstate \<Rightarrow> string \<Rightarrow> string \<Rightarrow> int result" where
  "GetTokenPrice k s tokenInDenom baseCurrency =
     (let oraclePrice = mk_GetDenomPrice k (mm_ext s) tokenInDenom
      in if oraclePrice \<noteq> 0 then Inr oraclePrice
         else rbind (EstimatePrice k s tokenInDenom baseCurrency) (\<lambda>tokenUsdcRate.
              rbind (usdc_price k s baseCurrency) (\<lambda>usdcDenomPrice.
                Inr (BMul (mk_big k) tokenUsdcRate usdcDenomPrice))))"

definition CalcAmmPrice :: "'e mkeeper \<Rightarrow> 'e mstate \<Rightarrow> string \<Rightarrow> int \<Rightarrow> int result" where
  "CalcAmmPrice k s denom decimal =
     (case usdc_denom k s of
        None \<Rightarrow> Inr 0
      | Some usdcDenom \<Rightarrow>
          if denom = usdcDenom then Inr 0
          else let usdcPrice = mk_GetDenomPrice k (mm_ext s) usdcDenom in
            case CalcInRouteByDenom k s denom usdcDenom usdcDenom of
              Inl e \<Rightarrow> (case e of Panic x \<Rightarrow> Inl e | _ \<Rightarrow> Inr 0)
            | Inr routes \<Rightarrow>
                rbind (Pow10Int64 decimal) (\<lambda>unit.
                rbind (NewCoin (mk_sdk k) denom unit) (\<lambda>tokenIn.
                case CalcInRouteSpotPrice k s tokenIn routes big_one 0 of
                  Inl e \<Rightarrow> (case e of Panic x \<Rightarrow> Inl e | _ \<Rightarrow> Inr 0)
                | Inr (spotPrice, _) \<Rightarrow> Inr (BMul (mk_big k) spotPrice usdcPrice))))"

text \<open>A denomination without an entry goes on with the zero entry: the value that was meant to be
  returned is dropped.\<close>

definition CalculateUSDValue :: "'e mkeeper \<Rightarrow> 'e mstate \<Rightarrow> string \<Rightarrow> int \<Rightarrow> int result" where
  "CalculateUSDValue k s denom amount =
     (let asset = (case mk_GetEntryByDenom k (mm_ext s) denom of None \<Rightarrow> empty_entry | Some e \<Rightarrow> e);
          oraclePrice = mk_GetDenomPrice k (mm_ext s) denom
      in rbind (if oraclePrice = 0 then CalcAmmPrice k s (en_Denom asset) (en_Decimals asset) else Inr oraclePrice)
           (\<lambda>tokenPrice. Inr (BMul (mk_big k) (BigDecFromSDKInt amount) tokenPrice)))"

fun CalculateCoinsUSDValue :: "'e mkeeper \<Rightarrow> 'e mstate \<Rightarrow> coins \<Rightarrow> int \<Rightarrow> int result" where
  "CalculateCoinsUSDValue k s [] totalValueInUSD = Inr totalValueInUSD"
| "CalculateCoinsUSDValue k s (coin # cs) totalValueInUSD =
     rbind (CalculateUSDValue k s (Denom coin) (Amount coin)) (\<lambda>v. CalculateCoinsUSDValue k s cs (totalValueInUSD + v))"

section \<open>Queries\<close>

definition InRouteByDenom :: "'e mkeeper \<Rightarrow> 'e mstate \<Rightarrow> string \<Rightarrow> string \<Rightarrow> SwapAmountInRoute list result" where
  "InRouteByDenom k s denomIn denomOut =
     (case usdc_denom k s of
        None \<Rightarrow> Inl ErrAssetProfileNotFound
      | Some baseCurrency \<Rightarrow> CalcInRouteByDenom k s denomIn denomOut baseCurrency)"

definition OutRouteByDenom :: "'e mkeeper \<Rightarrow> 'e mstate \<Rightarrow> string \<Rightarrow> string \<Rightarrow> SwapAmountOutRoute list result" where
  "OutRouteByDenom k s denomIn denomOut =
     (case usdc_denom k s of
        None \<Rightarrow> Inl ErrAssetProfileNotFound
      | Some baseCurrency \<Rightarrow> CalcOutRouteByDenom k s denomOut denomIn baseCurrency)"

definition query_SwapEstimation ::
    "'e mkeeper \<Rightarrow> 'e mstate \<Rightarrow> SwapAmountInRoute list \<Rightarrow> coin \<Rightarrow> int option \<Rightarrow> (spot_result \<times> int option) result" where
  "query_SwapEstimation k s routes tokenIn discount =
     rbind (CalcInRouteSpotPrice k s tokenIn routes (case discount of None \<Rightarrow> 0 | Some d \<Rightarrow> BigDecFromDec d) 0) (\<lambda>r.
       Inr (r, pr_TakerFees (mk_parameter k (mm_ext s))))"

definition query_SwapEstimationExactAmountOut ::
    "'e mkeeper \<Rightarrow> 'e mstate \<Rightarrow> SwapAmountOutRoute list \<Rightarrow> coin \<Rightarrow> int option \<Rightarrow> spot_result result" where
  "query_SwapEstimationExactAmountOut k s routes tokenOut discount =
     CalcOutRouteSpotPrice k s tokenOut routes (case discount of None \<Rightarrow> 0 | Some d \<Rightarrow> BigDecFromDec d) 0"

definition query_SwapEstimationByDenom ::
    "'e mkeeper \<Rightarrow> 'e mstate \<Rightarrow> coin \<Rightarrow> string \<Rightarrow> string \<Rightarrow> string \<Rightarrow> (swap_estimation \<times> int option) result" where
  "query_SwapEstimationByDenom k s amount denomIn denomOut adr =
     (case usdc_denom k s of
        None \<Rightarrow> Inl ErrAssetProfileNotFound
      | Some baseCurrency \<Rightarrow>
          (case mk_GetEntryByDenom k (mm_ext s) denomIn of
             None \<Rightarrow> Inl ErrAssetProfileNotFound
           | Some entry \<Rightarrow>
               rbind (CalcSwapEstimationByDenom k s amount denomIn denomOut baseCurrency adr 0 (en_Decimals entry)) (\<lambda>r.
                 Inr (r, pr_TakerFees (mk_parameter k (mm_ext s))))))"

definition query_Balance :: "'e mkeeper \<Rightarrow> 'e mstate \<Rightarrow> string \<Rightarrow> string \<Rightarrow> coin result" where
  "query_Balance k s adr denom =
     (case AccAddressFromBech32 (mk_sdk k) adr of
        Inl e \<Rightarrow> Inl sdk_ErrInvalidAddress
      | Inr a \<Rightarrow>
          if denom = Eden \<or> denom = EdenB
          then NewCoin (mk_sdk k) denom (GetClaimedForDenom (GetCommitments (mk_commitment k) (mm_commit s) a) denom)
          else Inr \<lparr>Denom = denom, Amount = BkBalance (mk_bank k) a denom (mm_ext s)\<rparr>)"

definition query_DenomLiquidity :: "'e mstate \<Rightarrow> string \<Rightarrow> DenomLiquidity result" where
  "query_DenomLiquidity s denom =
     (case GetDenomLiquidity s denom of None \<Rightarrow> Inl (Sentinel ''grpc'' 5) | Some val \<Rightarrow> Inr val)"

definition query_SlippageTrack :: "'e mkeeper \<Rightarrow> block_ctx \<Rightarrow> 'e mstate \<Rightarrow> int \<Rightarrow> OraclePoolSlippageTrack result" where
  "query_SlippageTrack k ctx s poolId =
     rbind (GetTrackedSlippageDiff k ctx s poolId) (\<lambda>tracked.
       Inr \<lparr>ot_PoolId = poolId, ot_Timestamp = block_seconds ctx, ot_Tracked = tracked\<rparr>)"

definition query_SlippageTrackAll :: "'e mkeeper \<Rightarrow> block_ctx \<Rightarrow> 'e mstate \<Rightarrow> OraclePoolSlippageTrack list result" where
  "query_SlippageTrackAll k ctx s = rmap (\<lambda>pool. query_SlippageTrack k ctx s (am_PoolId pool)) (amm_GetAllPool s)"

definition ExitPoolEst :: "'e mkeeper \<Rightarrow> 'e mstate \<Rightarrow> int \<Rightarrow> int \<Rightarrow> string \<Rightarrow> exit_quote result" where
  "ExitPoolEst k s poolId shareInAmount tokenOutDenom =
     (case amm_GetPool s poolId of
        None \<Rightarrow> Inl amm_ErrInvalidPoolId
      | Some pool \<Rightarrow>
          if shareInAmount \<ge> Amount (am_TotalShares pool) then Inl amm_ErrInvalidMathApprox
          else if shareInAmount \<le> 0 then Inl amm_ErrInvalidMathApprox
          else rbind (taker_fees k s) (\<lambda>takerFees.
               rbind (GetPoolWithAccountedBalance k s (am_PoolId pool)) (\<lambda>snapshot.
                 CalcExitPool (amm_env_of k s) pool snapshot shareInAmount tokenOutDenom (amm_GetParams s) takerFees True)))"

text \<open>The quote of a join and the bonus it would be paid. The shares that a join of several coins is
  checked with are computed and dropped.\<close>

definition JoinPoolEst :: "'e mkeeper \<Rightarrow> 'e mstate \<Rightarrow> int \<Rightarrow> coins \<Rightarrow> (join_quote \<times> coin) result" where
  "JoinPoolEst k s poolId tokenInMaxs =
     (let no_coin = \<lparr>Denom = [], Amount = 0\<rparr> in
      case amm_GetPool s poolId of
        None \<Rightarrow> Inl amm_ErrInvalidPoolId
      | Some pool \<Rightarrow>
          rbind (if \<not> pp_UseOracle (am_PoolParams pool) \<and> length tokenInMaxs \<noteq> 1
                 then rbind (CalcJoinPoolNoSwapShares (amm_env_of k s) pool tokenInMaxs) (\<lambda>_. Inr ()) else Inr ()) (\<lambda>_.
          rbind (taker_fees k s) (\<lambda>takerFees.
          rbind (GetPoolWithAccountedBalance k s (am_PoolId pool)) (\<lambda>snapshot.
          rbind (JoinPool (amm_env_of k s) pool snapshot tokenInMaxs (amm_GetParams s) takerFees) (\<lambda>(pool1, q).
          if \<not> pp_UseOracle (am_PoolParams pool) then Inr (q, no_coin)
          else if 0 < jq_WeightBalanceBonus q \<and> length (jq_Joined q) = 1
          then rbind (MustAccAddress (mk_sdk k) (am_RebalanceTreasury pool1)) (\<lambda>rebalanceTreasuryAddr.
               let c = jq_Joined q ! 0; otherDenom = other_denom_of pool1 (Denom c);
                   treasuryTokenAmount = BkBalance (mk_bank k) rebalanceTreasuryAddr otherDenom (mm_ext s)
               in rbind (join_bonus_amount k otherDenom c (jq_WeightBalanceBonus q) s) (\<lambda>bonus0.
                  let bonusTokenAmount = (if treasuryTokenAmount < bonus0 then treasuryTokenAmount else bonus0)
                  in rbind (if otherDenom \<noteq> [] \<and> 0 < bonusTokenAmount
                            then NewCoin (mk_sdk k) otherDenom bonusTokenAmount else Inr no_coin) (\<lambda>rewards.
                     Inr (q, rewards))))
          else Inr (q, no_coin))))))"

definition query_JoinPoolEstimation ::
    "'e mkeeper \<Rightarrow> 'e mstate \<Rightarrow> int \<Rightarrow> coins \<Rightarrow> (coin \<times> join_quote \<times> coin) result" where
  "query_JoinPoolEstimation k s poolId amountsIn =
     rbind (JoinPoolEst k s poolId amountsIn) (\<lambda>(q, rewards).
     rbind (NewCoin (mk_sdk k) (GetPoolShareDenom poolId) (jq_Shares q)) (\<lambda>shares. Inr (shares, q, rewards)))"

text \<open>The value, the price of a share and the yearly part of the value saved as slippage. On an error
  of either the value is Go's zero value, here 0.\<close>

definition PoolExtraInfo :: "'e mkeeper \<Rightarrow> block_ctx \<Rightarrow> 'e mstate \<Rightarrow> amm_Pool \<Rightarrow> int \<Rightarrow> (int \<times> int \<times> int) result" where
  "PoolExtraInfo k ctx s pool days =
     rbind (or_else (amm_TVL (amm_env_of k s) pool) 0) (\<lambda>tvl.
     rbind (or_else (LpTokenPriceForShare (amm_env_of k s) pool) 0) (\<lambda>lpTokenPrice.
     rbind (GetWeightBreakingSlippageAvg k ctx s (am_PoolId pool) days) (\<lambda>avg.
     rbind (if 0 < tvl then BQuo (mk_big k) (BMul (mk_big k) avg (BigDecFromSDKInt 365)) tvl else Inr 0) (\<lambda>apr.
       Inr (BDec (mk_big k) tvl, BDec (mk_big k) lpTokenPrice, BDec (mk_big k) apr)))))"

definition query_amm_Pool :: "'e mkeeper \<Rightarrow> block_ctx \<Rightarrow> 'e mstate \<Rightarrow> int \<Rightarrow> int \<Rightarrow> (amm_Pool \<times> int \<times> int \<times> int) result" where
  "query_amm_Pool k ctx s poolId days =
     (case amm_GetPool s poolId of
        None \<Rightarrow> Inl (Sentinel ''grpc'' 5)
      | Some pool \<Rightarrow> rbind (PoolExtraInfo k ctx s pool days) (\<lambda>info. Inr (pool, info)))"

end
