(* ===== verification/AmmBatch.thy ===== *)
theory AmmBatch
  imports AmmPrices
begin

text \<open>
  The messages of the amm module and the swaps it runs at the end of a block (x/amm/keeper:
  \<open>msg_server_*.go\<close>, \<open>abci.go\<close>; basic validation in x/amm/types). A swap message is tried on a copy of
  the state and queued; the end blocker runs the queue in the order of its keys, choosing between a
  request and one in the opposite direction.
\<close>

section \<open>Messages that queue\<close>

definition recipient_of :: "sdk \<Rightarrow> string \<Rightarrow> addr \<Rightarrow> addr" where
  "recipient_of S recipient sender = (case AccAddressFromBech32 S recipient of Inl e \<Rightarrow> sender | Inr a \<Rightarrow> a)"

text \<open>What the two messages respond: an amount, the fee and the discount.\<close>

type_synonym swap_response = "int option \<times> int \<times> int"

definition SwapExactAmountIn ::
    "'e mkeeper \<Rightarrow> block_ctx \<Rightarrow> MsgSwapExactAmountIn \<Rightarrow> 'e mstate \<Rightarrow> ('e mstate \<times> swap_response) result" where
  "SwapExactAmountIn k ctx msg s =
     rbind (AccAddressFromBech32 (mk_sdk k) (si_Sender msg)) (\<lambda>sender.
     rbind (RouteExactAmountIn k ctx sender (recipient_of (mk_sdk k) (si_Recipient msg) sender) (si_Routes msg)
              (si_TokenIn msg) (si_TokenOutMinAmount msg) s) (\<lambda>(_, tokenOutAmount, swapFee, discount).
     let index = u64 (GetLastSwapRequestIndex s + 1)
     in rbind (SetSwapExactAmountInRequests (mk_sdk k) msg index s) (\<lambda>s1.
        Inr (SetLastSwapRequestIndex index s1,
             Some tokenOutAmount, BDec (mk_big k) swapFee, BDec (mk_big k) discount))))"

definition SwapExactAmountOut ::
    "'e mkeeper \<Rightarrow> block_ctx \<Rightarrow> MsgSwapExactAmountOut \<Rightarrow> 'e mstate \<Rightarrow> ('e mstate \<times> swap_response) result" where
  "SwapExactAmountOut k ctx msg s =
     rbind (AccAddressFromBech32 (mk_sdk k) (so_Sender msg)) (\<lambda>sender.
     rbind (RouteExactAmountOut k ctx sender (recipient_of (mk_sdk k) (so_Recipient msg) sender) (so_Routes msg)
              (so_TokenInMaxAmount msg) (so_TokenOut msg) s) (\<lambda>(_, tokenInAmount, swapFee, discount).
     let index = u64 (GetLastSwapRequestIndex s + 1)
     in rbind (SetSwapExactAmountOutRequests (mk_sdk k) msg index s) (\<lambda>s1.
        Inr (SetLastSwapRequestIndex index s1,
             tokenInAmount, BDec (mk_big k) swapFee, BDec (mk_big k) discount))))"

text \<open>A swap by denomination becomes one of the two; of an exact amount out neither the recipient is
  passed on, nor is the denomination of the greatest amount in compared with that of the coin in.\<close>

definition SwapByDenom ::
    "'e mkeeper \<Rightarrow> block_ctx \<Rightarrow> MsgSwapByDenom \<Rightarrow> 'e mstate \<Rightarrow> ('e mstate \<times> coin \<times> swap_estimation) result" where
  "SwapByDenom k ctx msg s =
     rbind (AccAddressFromBech32 (mk_sdk k) (sb_Sender msg)) (\<lambda>_.
     case usdc_denom k s of
       None \<Rightarrow> Inl ErrAssetProfileNotFound
     | Some baseCurrency \<Rightarrow>
         rbind (CalcSwapEstimationByDenom k s (sb_Amount msg) (sb_DenomIn msg) (sb_DenomOut msg) baseCurrency
                  (sb_Sender msg) 0 0) (\<lambda>est.
         case (se_InRoute est, se_OutRoute est) of
           (Some inRoute, _) \<Rightarrow>
             if Denom (sb_MinAmount msg) \<noteq> sb_DenomOut msg then Inl amm_ErrInvalidDenom
             else rbind (SwapExactAmountIn k ctx
                    \<lparr>si_Sender = sb_Sender msg, si_Routes = inRoute, si_TokenIn = sb_Amount msg,
                     si_TokenOutMinAmount = Amount (sb_MinAmount msg), si_Recipient = sb_Recipient msg\<rparr> s) (\<lambda>(s1, amount, _).
                  rbind (case amount of None \<Rightarrow> Inl (Panic ''nil integer'')
                         | Some n \<Rightarrow> NewCoin (mk_sdk k) (sb_DenomOut msg) n) (\<lambda>c. Inr (s1, c, est)))
         | (None, Some outRoute) \<Rightarrow>
             if Denom (sb_MaxAmount msg) \<noteq> sb_DenomOut msg then Inl amm_ErrInvalidDenom
             else rbind (SwapExactAmountOut k ctx
                    \<lparr>so_Sender = sb_Sender msg, so_Routes = outRoute, so_TokenOut = sb_Amount msg,
                     so_TokenInMaxAmount = Amount (sb_MaxAmount msg), so_Recipient = []\<rparr> s) (\<lambda>(s1, amount, _).
                  rbind (case amount of None \<Rightarrow> Inl (Panic ''nil integer'')
                         | Some n \<Rightarrow> NewCoin (mk_sdk k) (sb_DenomIn msg) n) (\<lambda>c. Inr (s1, c, est)))
         | (None, None) \<Rightarrow> Inl amm_ErrInvalidSwapMsgType))"

section \<open>Messages that act\<close>

definition UpFrontSwapExactAmountIn ::
    "'e mkeeper \<Rightarrow> block_ctx \<Rightarrow> string \<Rightarrow> SwapAmountInRoute list \<Rightarrow> coin \<Rightarrow> int \<Rightarrow> 'e mstate \<Rightarrow>
       ('e mstate \<times> int \<times> int \<times> int) result" where
  "UpFrontSwapExactAmountIn k ctx msg_Sender routes tokenIn tokenOutMinAmount s =
     rbind (AccAddressFromBech32 (mk_sdk k) msg_Sender) (\<lambda>sender.
     if msg_Sender \<notin> set (mp_AllowedUpfrontSwapMakers (amm_GetParams s)) then Inl amm_ErrUnauthorizedUpFrontSwap
     else RouteExactAmountIn k ctx sender sender routes tokenIn tokenOutMinAmount s)"

definition msg_JoinPool ::
    "'e mkeeper \<Rightarrow> block_ctx \<Rightarrow> string \<Rightarrow> int \<Rightarrow> int \<Rightarrow> coins \<Rightarrow> 'e mstate \<Rightarrow> ('e mstate \<times> coins \<times> int) result" where
  "msg_JoinPool k ctx msg_Sender poolId shareAmountOut maxAmountsIn s =
     rbind (AccAddressFromBech32 (mk_sdk k) msg_Sender) (\<lambda>sender.
       JoinPoolNoSwap k ctx sender poolId shareAmountOut maxAmountsIn s)"

definition msg_ExitPool ::
    "'e mkeeper \<Rightarrow> block_ctx \<Rightarrow> string \<Rightarrow> int \<Rightarrow> int \<Rightarrow> coins \<Rightarrow> string \<Rightarrow> 'e mstate \<Rightarrow> ('e mstate \<times> exit_out) result" where
  "msg_ExitPool k ctx msg_Sender poolId shareAmountIn minAmountsOut tokenOutDenom s =
     rbind (AccAddressFromBech32 (mk_sdk k) msg_Sender) (\<lambda>sender.
       keeper_ExitPool k ctx sender poolId shareAmountIn minAmountsOut tokenOutDenom False True s)"

text \<open>The loop over the assets stops at the first base asset; the check may set the parameter.\<close>

fun base_asset_exists :: "'e mkeeper \<Rightarrow> PoolAsset list \<Rightarrow> 'e mstate \<Rightarrow> bool \<times> 'e mstate" where
  "base_asset_exists k [] s = (False, s)"
| "base_asset_exists k (asset # as) s =
     (case CheckBaseAssetExist k (Denom (pa_Token asset)) s of
        (True, s1) \<Rightarrow> (True, s1)
      | (False, s1) \<Rightarrow> base_asset_exists k as s1)"

definition msg_CreatePool :: "'e mkeeper \<Rightarrow> block_ctx \<Rightarrow> MsgCreatePool \<Rightarrow> 'e mstate \<Rightarrow> ('e mstate \<times> int) result" where
  "msg_CreatePool k ctx msg s =
     (let params = amm_GetParams s in
      if \<not> amm_IsCreatorAllowed params (cm_Sender msg) then Inl (Plain ''sender is not allowed to create pool'')
      else
      rbind (MustAccAddress (mk_sdk k) (cm_Sender msg)) (\<lambda>sender.
      case base_asset_exists k (cm_PoolAssets msg) s of
        (False, _) \<Rightarrow> Inl amm_ErrOnlyBaseAssetsPoolAllowed
      | (True, s1) \<Rightarrow>
          (case CheckBaseAssetExist k (pp_FeeDenom (cm_PoolParams msg)) s1 of
             (False, _) \<Rightarrow> Inl (Plain ''fee denom must be from base assets'')
           | (True, s2) \<Rightarrow>
               rbind (if 0 < mp_PoolCreationFee params
                      then rbind (NewCoin (mk_sdk k) Elys (mp_PoolCreationFee params)) (\<lambda>c.
                           mm_bank (BkAccToMod (mk_bank k) sender amm_ModuleName [c]) s2)
                      else Inr s2) (\<lambda>s3.
               keeper_CreatePool k ctx msg s3))))"

definition amm_UpdateParams :: "'e mkeeper \<Rightarrow> string \<Rightarrow> amm_Params \<Rightarrow> 'e mstate \<Rightarrow> 'e mstate result" where
  "amm_UpdateParams k msg_Authority msg_Params s =
     (if mk_authority k \<noteq> msg_Authority then Inl gov_ErrInvalidSigner else Inr (amm_SetParams msg_Params s))"

text \<open>A pool becomes an oracle pool only with the base currency and a priced other asset.\<close>

definition oracle_switch_ok :: "'e mkeeper \<Rightarrow> 'e mstate \<Rightarrow> amm_Pool \<Rightarrow> string \<Rightarrow> unit result" where
  "oracle_switch_ok k s pool baseCurrency =
     (let nonBaseCurrencyDenom = other_denom_of pool baseCurrency
      in if \<not> list_ex (\<lambda>asset. Denom (pa_Token asset) = baseCurrency) (am_PoolAssets pool)
         then Inl (Plain ''no usdc denom in the amm pool'')
         else if nonBaseCurrencyDenom = [] then Inl (Plain ''no non-usdc denom in the amm pool'')
         else case mk_GetEntryByDenom k (mm_ext s) nonBaseCurrencyDenom of
             None \<Rightarrow> Inl (Plain ''asset profile not found'')
           | Some entry \<Rightarrow> if mk_GetAssetPrice k (mm_ext s) (en_DisplayName entry) = None
               then Inl (Plain ''oracle price not found'') else Inr ())"

definition UpdatePoolParams :: "'e mkeeper \<Rightarrow> int \<Rightarrow> amm_PoolParams \<Rightarrow> 'e mstate \<Rightarrow> 'e mstate result" where
  "UpdatePoolParams k poolId newPoolParams s =
     (case amm_GetPool s poolId of
        None \<Rightarrow> Inl amm_ErrPoolNotFound
      | Some pool \<Rightarrow>
          (case usdc_denom k s of
             None \<Rightarrow> Inl ErrAssetProfileNotFound
           | Some baseCurrency \<Rightarrow>
               let params = (if pp_FeeDenom newPoolParams = [] then newPoolParams\<lparr>pp_FeeDenom := baseCurrency\<rparr>
                             else newPoolParams)
               in rbind (if \<not> pp_UseOracle (am_PoolParams pool) \<and> pp_UseOracle params
                         then oracle_switch_ok k s pool baseCurrency else Inr ()) (\<lambda>_.
                  let pool' = pool\<lparr>am_PoolParams := params\<rparr>
                  in rbind (amm_Pool_Validate (amm_env_of k s) pool') (\<lambda>_. Inr (amm_SetPool pool' s)))))"

definition msg_UpdatePoolParams :: "'e mkeeper \<Rightarrow> string \<Rightarrow> int \<Rightarrow> amm_PoolParams \<Rightarrow> 'e mstate \<Rightarrow> 'e mstate result" where
  "msg_UpdatePoolParams k msg_Authority poolId params s =
     (if mk_authority k \<noteq> msg_Authority then Inl gov_ErrInvalidSigner else UpdatePoolParams k poolId params s)"

section \<open>Feeding external liquidity\<close>

record AssetAmountDepth =
  ad_Asset :: string
  ad_Depth_Amount :: int
  ad_Depth :: int

text \<open>\<open>ApproxSqrt\<close> of the library is an argument. The comparison with one compares pointers of two
  different values: it is never true.\<close>

definition LiquidityRatioFromPriceDepth :: "(int \<Rightarrow> int result) \<Rightarrow> int \<Rightarrow> int result" where
  "LiquidityRatioFromPriceDepth ApproxSqrt depth =
     rbind (ApproxSqrt (big_one - depth)) (\<lambda>sqrt. Inr (big_one - sqrt))"

fun asset_external_ratio ::
    "'e mkeeper \<Rightarrow> (int \<Rightarrow> int result) \<Rightarrow> 'e mstate \<Rightarrow> AssetAmountDepth list \<Rightarrow> PoolAsset \<Rightarrow> PoolAsset result" where
  "asset_external_ratio k ApproxSqrt s [] asset = Inr asset"
| "asset_external_ratio k ApproxSqrt s (el # els) asset =
     (case mk_GetEntryByDenom k (mm_ext s) (Denom (pa_Token asset)) of
        None \<Rightarrow> Inl ErrAssetProfileNotFound
      | Some entry \<Rightarrow>
          if en_DisplayName entry \<noteq> ad_Asset el then asset_external_ratio k ApproxSqrt s els asset
          else let O_Tvl = BigDecFromDec (ad_Depth_Amount el); P_Tvl = BigDecFromSDKInt (Amount (pa_Token asset))
            in if P_Tvl = 0 then Inl amm_ErrAmountTooLow
               else rbind (LiquidityRatioFromPriceDepth ApproxSqrt (BigDecFromDec (ad_Depth el))) (\<lambda>liquidityRatio.
                    if liquidityRatio = 0 then Inl amm_ErrAmountTooLow
                    else rbind (BQuo (mk_big k) O_Tvl P_Tvl) (\<lambda>q1. rbind (BQuo (mk_big k) q1 liquidityRatio) (\<lambda>q2.
                         let r = BDec (mk_big k) q2
                         in asset_external_ratio k ApproxSqrt s els
                              (asset\<lparr>pa_ExternalLiquidityRatio := if r < dec_one then dec_one else r\<rparr>)))))"

definition GetExternalLiquidityRatio ::
    "'e mkeeper \<Rightarrow> (int \<Rightarrow> int result) \<Rightarrow> 'e mstate \<Rightarrow> amm_Pool \<Rightarrow> AssetAmountDepth list \<Rightarrow> PoolAsset list result" where
  "GetExternalLiquidityRatio k ApproxSqrt s pool amountDepthInfo =
     rmap (asset_external_ratio k ApproxSqrt s amountDepthInfo) (am_PoolAssets pool)"

fun feed_liquidity ::
    "'e mkeeper \<Rightarrow> (int \<Rightarrow> int result) \<Rightarrow> (int \<times> AssetAmountDepth list) list \<Rightarrow> 'e mstate \<Rightarrow> 'e mstate result" where
  "feed_liquidity k ApproxSqrt [] s = Inr s"
| "feed_liquidity k ApproxSqrt ((poolId, amountDepthInfo) # els) s =
     (case amm_GetPool s poolId of
        None \<Rightarrow> Inl amm_ErrInvalidPoolId
      | Some pool \<Rightarrow>
          rbind (GetExternalLiquidityRatio k ApproxSqrt s pool amountDepthInfo) (\<lambda>poolAssets.
            feed_liquidity k ApproxSqrt els (amm_SetPool (pool\<lparr>am_PoolAssets := poolAssets\<rparr>) s)))"

definition FeedMultipleExternalLiquidity ::
    "'e mkeeper \<Rightarrow> (int \<Rightarrow> int result) \<Rightarrow> string \<Rightarrow> (int \<times> AssetAmountDepth list) list \<Rightarrow> 'e mstate \<Rightarrow> 'e mstate result" where
  "FeedMultipleExternalLiquidity k ApproxSqrt msg_Sender liquidity s =
     rbind (MustAccAddress (mk_sdk k) msg_Sender) (\<lambda>sender.
     case mk_GetPriceFeeder k (mm_ext s) sender of
       None \<Rightarrow> Inl (Plain ''oracle.ErrNotAPriceFeeder'')
     | Some isActive \<Rightarrow>
         if \<not> isActive then Inl (Plain ''oracle.ErrPriceFeederNotActive'') else feed_liquidity k ApproxSqrt liquidity s)"

section \<open>Basic validation\<close>

text \<open>The checks go route by route: the denomination, then the route before.\<close>

fun in_routes_ok :: "sdk \<Rightarrow> string option \<Rightarrow> SwapAmountInRoute list \<Rightarrow> unit result" where
  "in_routes_ok S prev [] = Inr ()"
| "in_routes_ok S prev (r # rs) =
     rbind (ValidateDenom S (ri_TokenOutDenom r)) (\<lambda>_.
     if prev = Some (ri_TokenOutDenom r) then Inl (Plain ''sdk.ErrInvalidRequest'')
     else in_routes_ok S (Some (ri_TokenOutDenom r)) rs)"

fun out_routes_ok :: "sdk \<Rightarrow> SwapAmountOutRoute list \<Rightarrow> unit result" where
  "out_routes_ok S [] = Inr ()"
| "out_routes_ok S (r # rs) =
     rbind (ValidateDenom S (ro_TokenInDenom r)) (\<lambda>_.
     if rs \<noteq> [] \<and> ro_TokenInDenom (hd rs) = ro_TokenInDenom r then Inl (Plain ''sdk.ErrInvalidRequest'')
     else out_routes_ok S rs)"

definition MsgSwapExactAmountIn_ValidateBasic :: "sdk \<Rightarrow> MsgSwapExactAmountIn \<Rightarrow> unit result" where
  "MsgSwapExactAmountIn_ValidateBasic S msg =
     rbind (ss_address_ok S (si_Sender msg)) (\<lambda>_.
     rbind (if si_Recipient msg \<noteq> [] then ss_address_ok S (si_Recipient msg) else Inr ()) (\<lambda>_.
     rbind (in_routes_ok S None (si_Routes msg)) (\<lambda>_.
     rbind (coin_Validate S (si_TokenIn msg)) (\<lambda>_.
     if Amount (si_TokenIn msg) = 0 then Inl (Plain ''token in is zero'') else Inr ()))))"

definition MsgSwapExactAmountOut_ValidateBasic :: "sdk \<Rightarrow> MsgSwapExactAmountOut \<Rightarrow> unit result" where
  "MsgSwapExactAmountOut_ValidateBasic S msg =
     rbind (ss_address_ok S (so_Sender msg)) (\<lambda>_.
     rbind (if so_Recipient msg \<noteq> [] then ss_address_ok S (so_Recipient msg) else Inr ()) (\<lambda>_.
     rbind (out_routes_ok S (so_Routes msg)) (\<lambda>_.
     rbind (coin_Validate S (so_TokenOut msg)) (\<lambda>_.
     if Amount (so_TokenOut msg) = 0 then Inl (Plain ''token out is zero'')
     else if \<not> 0 < so_TokenInMaxAmount msg then Inl (Plain ''TokenInMaxAmount must be positive'')
     else Inr ()))))"

definition MsgUpFrontSwap_ValidateBasic :: "sdk \<Rightarrow> string \<Rightarrow> SwapAmountInRoute list \<Rightarrow> coin \<Rightarrow> unit result" where
  "MsgUpFrontSwap_ValidateBasic S msg_Sender routes tokenIn =
     rbind (ss_address_ok S msg_Sender) (\<lambda>_.
     rbind (in_routes_ok S None routes) (\<lambda>_.
     rbind (coin_Validate S tokenIn) (\<lambda>_.
     if Amount tokenIn = 0 then Inl (Plain ''token in is zero'') else Inr ())))"

definition MsgFeedMultipleExternalLiquidity_ValidateBasic ::
    "sdk \<Rightarrow> string \<Rightarrow> (int \<times> AssetAmountDepth list) list \<Rightarrow> unit result" where
  "MsgFeedMultipleExternalLiquidity_ValidateBasic S msg_Sender liquidity =
     rbind (ss_address_ok S msg_Sender) (\<lambda>_.
     first_error (\<lambda>depthInfo.
       if ad_Asset depthInfo = [] then Inl (Plain ''asset cannot be empty'')
       else if ad_Depth depthInfo < 0 then Inl (Plain ''depth cannot be negative or nil'')
       else if ad_Depth_Amount depthInfo < 0 then Inl (Plain ''depth amount cannot be negative or nil'')
       else Inr ()) (concat (map snd liquidity)))"

definition amm_MsgUpdateParams_ValidateBasic :: "sdk \<Rightarrow> string \<Rightarrow> amm_Params \<Rightarrow> unit result" where
  "amm_MsgUpdateParams_ValidateBasic S msg_Authority params =
     rbind (ss_address_ok S msg_Authority) (\<lambda>_. amm_Params_Validate S params)"

end
