(* ===== verification/AmmEndBlock.thy ===== *)
theory AmmEndBlock
  imports AmmBatch
begin

text \<open>
  The end of a block in the amm module (x/amm/keeper/abci.go): the queued swaps are executed, the
  oracle pools copied to the price feeder, outdated slippage tracks removed.
\<close>

section \<open>Requests\<close>

datatype swap_msg = SwapIn MsgSwapExactAmountIn | SwapOut MsgSwapExactAmountOut

definition ApplySwapRequest :: "'e mkeeper \<Rightarrow> block_ctx \<Rightarrow> swap_msg \<Rightarrow> 'e mstate \<Rightarrow> 'e mstate result" where
  "ApplySwapRequest k ctx msg s =
     (case msg of
        SwapIn m \<Rightarrow>
          rbind (AccAddressFromBech32 (mk_sdk k) (si_Sender m)) (\<lambda>sender.
          rbind (RouteExactAmountIn k ctx sender (recipient_of (mk_sdk k) (si_Recipient m) sender) (si_Routes m)
                   (si_TokenIn m) (si_TokenOutMinAmount m) s) (\<lambda>(s1, _). Inr s1))
      | SwapOut m \<Rightarrow>
          rbind (AccAddressFromBech32 (mk_sdk k) (so_Sender m)) (\<lambda>sender.
          rbind (RouteExactAmountOut k ctx sender (recipient_of (mk_sdk k) (so_Recipient m) sender) (so_Routes m)
                   (so_TokenInMaxAmount m) (so_TokenOut m) s) (\<lambda>(s1, _). Inr s1)))"

definition DeleteSwapRequest :: "sdk \<Rightarrow> swap_msg \<Rightarrow> int \<Rightarrow> 'e mstate \<Rightarrow> 'e mstate result" where
  "DeleteSwapRequest S msg index s =
     (case msg of
        SwapIn m \<Rightarrow> DeleteSwapExactAmountInRequest S m index s
      | SwapOut m \<Rightarrow> DeleteSwapExactAmountOutRequest S m index s)"

text \<open>An index of 0 counts as no request.\<close>

definition SelectOneSwapRequest :: "'e mstate \<Rightarrow> string \<Rightarrow> (swap_msg \<times> int) option" where
  "SelectOneSwapRequest s sprefix =
     (let out = (case GetFirstSwapExactAmountOutRequest s sprefix of
            None \<Rightarrow> None
          | Some (m, index) \<Rightarrow> if index = 0 then None else Some (SwapOut m, index))
      in case GetFirstSwapExactAmountInRequest s sprefix of
           None \<Rightarrow> out
         | Some (m, index) \<Rightarrow> if index = 0 then out else Some (SwapIn m, index))"

text \<open>\<open>strings.Join(split, "/")\<close>.\<close>

fun join_slash :: "string list \<Rightarrow> string" where
  "join_slash [] = []"
| "join_slash [w] = w"
| "join_slash (w # ws) = w @ ''/'' @ join_slash ws"

definition reverse_prefix :: "string \<Rightarrow> string" where
  "reverse_prefix sprefix = join_slash (rev (split_slash sprefix))"

definition SelectReverseSwapRequest :: "'e mstate \<Rightarrow> swap_msg \<Rightarrow> (swap_msg \<times> int) option result" where
  "SelectReverseSwapRequest s msg =
     rbind (case msg of
              SwapIn m \<Rightarrow> TKeyPrefixSwapExactAmountInPrefix m
            | SwapOut m \<Rightarrow> Inr (TKeyPrefixSwapExactAmountOutPrefix m)) (\<lambda>sprefix.
       Inr (SelectOneSwapRequest s (reverse_prefix sprefix)))"

definition FirstPoolId :: "swap_msg \<Rightarrow> int" where
  "FirstPoolId msg =
     (case msg of SwapIn m \<Rightarrow> FirstPoolIdFromSwapExactAmountIn m | SwapOut m \<Rightarrow> FirstPoolIdFromSwapExactAmountOut m)"

definition GetStackedSlippage :: "'e mkeeper \<Rightarrow> 'e mstate \<Rightarrow> int \<Rightarrow> int result" where
  "GetStackedSlippage k s poolId =
     (case amm_GetPool s poolId of
        None \<Rightarrow> Inr 0
      | Some pool \<Rightarrow>
          rbind (GetPoolWithAccountedBalance k s (am_PoolId pool)) (\<lambda>snapshot.
            StackedRatioFromSnapshot (mk_big k) pool snapshot))"

section \<open>The queue\<close>

text \<open>An attempt on a \<open>CacheContext\<close>: the state it would leave, or none; a panic is not caught.\<close>

definition attempt :: "'e mkeeper \<Rightarrow> block_ctx \<Rightarrow> swap_msg \<Rightarrow> 'e mstate \<Rightarrow> 'e mstate option result" where
  "attempt k ctx msg s =
     (case ApplySwapRequest k ctx msg s of
        Inr s' \<Rightarrow> Inr (Some s')
      | Inl e \<Rightarrow> (case e of Panic x \<Rightarrow> Inl (Panic x) | _ \<Rightarrow> Inr None))"

text \<open>One round: the first request; without an opposite one it is run and removed. With one, both are
  tried: if both succeed the one with the lower stacked slippage is run and removed, if one fails it
  is removed, if both fail both are. The stacked slippage matters only when both succeed.\<close>

definition swap_round ::
    "'e mkeeper \<Rightarrow> block_ctx \<Rightarrow> swap_msg \<times> int \<Rightarrow> 'e mstate \<Rightarrow> ('e mstate \<times> swap_msg list) result" where
  "swap_round k ctx mi s =
     (let S = mk_sdk k; (msg1, index1) = mi in
      rbind (SelectReverseSwapRequest s msg1) (\<lambda>other.
      case other of
        None \<Rightarrow>
          rbind (attempt k ctx msg1 s) (\<lambda>r.
          rbind (DeleteSwapRequest S msg1 index1 (case r of None \<Rightarrow> s | Some s' \<Rightarrow> s')) (\<lambda>s1. Inr (s1, [msg1])))
      | Some (msg2, index2) \<Rightarrow>
          rbind (attempt k ctx msg1 s) (\<lambda>r1.
          rbind (attempt k ctx msg2 s) (\<lambda>r2.
          case (r1, r2) of
            (Some s1, Some s2) \<Rightarrow>
              rbind (GetStackedSlippage k s1 (FirstPoolId msg1)) (\<lambda>stackedSlippage1.
              rbind (GetStackedSlippage k s2 (FirstPoolId msg1)) (\<lambda>stackedSlippage2.
              if stackedSlippage1 < stackedSlippage2
              then rbind (DeleteSwapRequest S msg1 index1 s1) (\<lambda>s3. Inr (s3, [msg1]))
              else rbind (DeleteSwapRequest S msg2 index2 s2) (\<lambda>s3. Inr (s3, [msg2]))))
          | (Some _, None) \<Rightarrow> rbind (DeleteSwapRequest S msg2 index2 s) (\<lambda>s3. Inr (s3, [msg2]))
          | (None, Some _) \<Rightarrow> rbind (DeleteSwapRequest S msg1 index1 s) (\<lambda>s3. Inr (s3, [msg1]))
          | (None, None) \<Rightarrow>
              rbind (DeleteSwapRequest S msg1 index1 s) (\<lambda>s3.
              rbind (DeleteSwapRequest S msg2 index2 s3) (\<lambda>s4. Inr (s4, [msg1, msg2])))))))"

text \<open>The loop has no bound of its own; its fuel here is one more than the number of requests.\<close>

fun swap_rounds ::
    "nat \<Rightarrow> 'e mkeeper \<Rightarrow> block_ctx \<Rightarrow> 'e mstate \<Rightarrow> swap_msg list \<Rightarrow> ('e mstate \<times> swap_msg list) result" where
  "swap_rounds 0 k ctx s requests = Inl (Plain ''out of fuel'')"
| "swap_rounds (Suc fuel) k ctx s requests =
     (case SelectOneSwapRequest s [] of
        None \<Rightarrow> Inr (s, requests)
      | Some mi \<Rightarrow> rbind (swap_round k ctx mi s) (\<lambda>(s1, removed). swap_rounds fuel k ctx s1 (requests @ removed)))"

definition queue_length :: "'e mstate \<Rightarrow> nat" where
  "queue_length s = length (mm_swaps_in s) + length (mm_swaps_out s)"

definition ExecuteSwapRequests :: "'e mkeeper \<Rightarrow> block_ctx \<Rightarrow> 'e mstate \<Rightarrow> ('e mstate \<times> swap_msg list) result" where
  "ExecuteSwapRequests k ctx s = swap_rounds (Suc (queue_length s)) k ctx s []"

definition amm_EndBlocker :: "'e mkeeper \<Rightarrow> block_ctx \<Rightarrow> 'e mstate \<Rightarrow> 'e mstate result" where
  "amm_EndBlocker k ctx s =
     rbind (ExecuteSwapRequests k ctx s) (\<lambda>(s1, msgs).
       let s2 = set_mm_ext (fold (\<lambda>ammPool e. if pp_UseOracle (am_PoolParams ammPool)
                  then mk_SetOraclePool k (am_PoolId ammPool) (am_PoolAssets ammPool) e else e) (amm_GetAllPool s1) (mm_ext s1)) s1
       in Inr (ClearOutdatedSlippageTrack ctx s2))"

end
