(* ===== verification/AmmKeep.thy ===== *)
theory AmmKeep
  imports AmmEndBlock AmmBook
begin

text \<open>
  What the operations of the amm keeper leave alone. The layout of a pool is all of it but its
  balances and the number of its shares. The locale \<open>amm_keeps\<close> is the interface of an invariant of
  the keeper's state that is kept by writing a pool of the same layout, by the counters, the tracks
  and the other modules: every operation on pools keeps it. It is interpreted twice, on the swap
  requests that wait and on the layouts of all pools.
\<close>

section \<open>The layout of a pool\<close>

definition blank :: "PoolAsset \<Rightarrow> PoolAsset" where
  "blank a = set_asset_amount 0 a"

type_synonym pool_layout = "int \<times> string \<times> amm_PoolParams \<times> PoolAsset list \<times> int \<times> string"

definition layout :: "amm_Pool \<Rightarrow> pool_layout" where
  "layout p = (am_PoolId p, am_Address p, am_PoolParams p, map blank (am_PoolAssets p),
     am_TotalWeight p, am_RebalanceTreasury p)"

lemma layout_fields:
  assumes "layout p = layout q"
  shows "am_PoolId p = am_PoolId q" "am_Address p = am_Address q" "am_PoolParams p = am_PoolParams q"
    "am_RebalanceTreasury p = am_RebalanceTreasury q"
  using assms by (simp_all add: layout_def)

lemma blank_denom: "Denom (pa_Token (blank a)) = Denom (pa_Token a)"
  by (simp add: blank_def)

lemma layout_sorted:
  assumes "layout p = layout q"
  shows "pool_sorted p = pool_sorted q"
proof -
  have M: "map blank (am_PoolAssets p) = map blank (am_PoolAssets q)" using assms by (simp add: layout_def)
  have "map (\<lambda>a. Denom (pa_Token a)) (am_PoolAssets p) = map (\<lambda>a. Denom (pa_Token a)) (am_PoolAssets q)"
    using arg_cong [OF M, of "map (\<lambda>a. Denom (pa_Token a))"] by (simp add: o_def blank_denom)
  then show ?thesis by (simp add: pool_sorted_def denoms_of_assets_def o_def)
qed

lemma layout_set_asset:
  assumes "GetPoolAssetAndIndex p d = Inr (i, a)" "blank a' = blank a"
  shows "layout (p\<lparr>am_PoolAssets := (am_PoolAssets p)[i := a']\<rparr>) = layout p"
proof -
  have "i < length (am_PoolAssets p)" "am_PoolAssets p ! i = a"
    using asset_search_Inr [OF assms(1)] by auto
  then have "(map blank (am_PoolAssets p))[i := blank a'] = map blank (am_PoolAssets p)"
    using assms(2) by (metis list_update_id nth_map)
  then show ?thesis by (simp add: layout_def map_update)
qed

lemma layout_addTo: "addToPoolAssetBalances p cs = Inr p' \<Longrightarrow> layout p' = layout p"
proof (induction p cs rule: addToPoolAssetBalances.induct)
  case (2 p coin cs)
  then obtain i a where ia: "GetPoolAssetAndIndex p (Denom coin) = Inr (i, a)" by auto
  have "blank (set_asset_amount n a) = blank a" for n by (simp add: blank_def)
  then show ?case using 2(1) [OF ia refl refl] 2(2) ia layout_set_asset [OF ia] by simp
qed simp

lemma layout_subtractFrom: "subtractFromPoolAssetBalances p cs = Inr p' \<Longrightarrow> layout p' = layout p"
proof (induction p cs rule: subtractFromPoolAssetBalances.induct)
  case (2 p coin cs)
  then obtain i a where ia: "GetPoolAssetAndIndex p (Denom coin) = Inr (i, a)" by auto
  have "blank (set_asset_amount n a) = blank a" for n by (simp add: blank_def)
  then show ?case using 2(1) [OF ia refl refl] 2(2) ia layout_set_asset [OF ia]
    by (simp add: Let_def split: if_splits)
qed simp

lemma layout_Increase: "IncreaseLiquidity n cs p = Inr p' \<Longrightarrow> layout p' = layout p"
  by (auto simp: IncreaseLiquidity_def dest!: layout_addTo) (simp add: layout_def add_shares_def)

lemma layout_Decrease: "DecreaseLiquidity S n cs p = Inr p' \<Longrightarrow> layout p' = layout p"
  by (auto simp: DecreaseLiquidity_def Let_def split: if_splits dest!: layout_subtractFrom)
    (simp add: layout_def add_shares_def)

lemma layout_update: "update_balances cs p = Inr p' \<Longrightarrow> layout p' = layout p"
proof (induction cs p rule: update_balances.induct)
  case (2 coin cs p)
  obtain p1 where p1: "UpdatePoolAssetBalance coin p = Inr p1" "update_balances cs p1 = Inr p'" using 2(2) by auto
  then obtain i a where ia: "GetPoolAssetAndIndex p (Denom coin) = Inr (i, a)"
    and p1_eq: "p1 = p\<lparr>am_PoolAssets := (am_PoolAssets p)[i := a\<lparr>pa_Token := coin\<rparr>]\<rparr>"
    by (auto simp: UpdatePoolAssetBalance_def split: if_splits)
  have "blank (a\<lparr>pa_Token := coin\<rparr>) = blank a"
    using asset_search_denom [OF ia] by (cases coin; cases "pa_Token a") (simp add: blank_def)
  then show ?case using 2(1) [OF p1] layout_set_asset [OF ia] by (simp add: p1_eq)
qed simp

lemma layout_updates: "UpdatePoolAssetBalances S cs p = Inr p' \<Longrightarrow> layout p' = layout p"
  by (cases "CoinsValidate S cs") (simp_all add: UpdatePoolAssetBalances_def layout_update)

lemma layout_exit: "processExitPool S cs n p = Inr p' \<Longrightarrow> layout p' = layout p"
  by (auto simp: processExitPool_def dest!: layout_updates) (simp add: layout_def)

lemma layout_ExitPool:
  "ExitPool E p sn n d params f b = Inr (p', q) \<Longrightarrow> layout p' = layout p"
  by (auto simp: ExitPool_def dest: layout_exit)

lemma layout_JoinPool: "JoinPool E p sn cs params f = Inr (p', q) \<Longrightarrow> layout p' = layout p"
  by (auto simp: JoinPool_def Let_def split: if_splits option.splits prod.splits dest: layout_Increase)

lemma layout_share: "layout q = layout p \<Longrightarrow> layout (share_assets p q) = layout p"
  by (simp add: share_assets_def layout_def)

section \<open>The interface of a kept invariant\<close>

lemma on_ok_fst: "on_ok (\<lambda>x. Q (fst x)) m \<Longrightarrow> on_ok Q (rbind m (\<lambda>x. Inr (fst x)))"
  by (auto simp: on_ok_def)

text \<open>A result with a pool next to it: the pool has the layout of \<open>p0\<close>, and a value that is
  returned satisfies \<open>Q\<close>.\<close>

definition kept :: "amm_Pool \<Rightarrow> ('a \<Rightarrow> bool) \<Rightarrow> amm_Pool \<times> 'a result \<Rightarrow> bool" where
  "kept p0 Q m \<longleftrightarrow> layout (fst m) = layout p0 \<and> on_ok Q (snd m)"

lemma kept_Pair [simp]: "kept p0 Q (p, r) \<longleftrightarrow> layout p = layout p0 \<and> on_ok Q r"
  by (simp add: kept_def)

lemma kept_snd: "kept p0 Q m \<Longrightarrow> on_ok Q (snd m)"
  by (simp add: kept_def)

lemma kept_pbind:
  "kept p0 Q m \<Longrightarrow> (\<And>p x. layout p = layout p0 \<Longrightarrow> Q x \<Longrightarrow> kept p0 R (f p x)) \<Longrightarrow> kept p0 R (pbind m f)"
  by (cases m; cases "snd m") auto

lemma kept_mono: "kept p0 Q m \<Longrightarrow> (\<And>x. Q x \<Longrightarrow> R x) \<Longrightarrow> kept p0 R m"
  by (simp add: kept_def on_ok_def)

lemma on_ok_True: "on_ok (\<lambda>_. True) m"
  by (simp add: on_ok_def)

lemma on_ok_bind: "on_ok Q m \<Longrightarrow> (\<And>x. Q x \<Longrightarrow> on_ok R (f x)) \<Longrightarrow> on_ok R (rbind m f)"
  by (auto simp: on_ok_def)

lemma on_ok_recovered: "on_ok Q m \<Longrightarrow> on_ok Q (recovered m)"
  by (auto simp: on_ok_def recovered_def split: sum.splits err.splits)

text \<open>A step of a computation next to a pool that does not touch the state.\<close>

lemma kept_look: "layout p = layout p0 \<Longrightarrow> (\<And>x. kept p0 R (f p x)) \<Longrightarrow> kept p0 R (pbind (p, r) f)"
  by (cases r) simp_all

lemma kept_if:
  "(b \<Longrightarrow> kept p0 Q m) \<Longrightarrow> (\<not> b \<Longrightarrow> kept p0 Q m') \<Longrightarrow> kept p0 Q (if b then m else m')"
  by simp

definition hooks_keep :: "'e mkeeper \<Rightarrow> ('e mstate \<Rightarrow> bool) \<Rightarrow> bool" where
  "hooks_keep k I \<longleftrightarrow> (\<forall>h s. mk_hooks k = Some h \<and> I s \<longrightarrow>
     (\<forall>a p cs cs'. on_ok I (ah_AfterSwap h a p cs cs' s)) \<and>
     (\<forall>a p cs n. on_ok I (ah_AfterJoinPool h a p cs n s)) \<and>
     (\<forall>a p n cs. on_ok I (ah_AfterExitPool h a p n cs s)))"

text \<open>Hooks that break an invariant void what is promised of it: under this condition every
  invariant is kept by the hooks.\<close>

definition if_hooks_keep :: "'e mkeeper \<Rightarrow> ('e mstate \<Rightarrow> bool) \<Rightarrow> 'e mstate \<Rightarrow> bool" where
  "if_hooks_keep k I s \<longleftrightarrow> (hooks_keep k I \<longrightarrow> I s)"

lemma if_hooks_keep_keeps: "hooks_keep k (if_hooks_keep k I)"
proof (cases "hooks_keep k I")
  case True
  then have "if_hooks_keep k I = I" by (simp add: if_hooks_keep_def fun_eq_iff)
  then show ?thesis using True by simp
next
  case False
  then have "if_hooks_keep k I = (\<lambda>s. True)" by (simp add: if_hooks_keep_def fun_eq_iff)
  then show ?thesis by (simp add: hooks_keep_def on_ok_def)
qed

lemma on_ok_send: "(\<And>c. I (s\<lparr>mm_commit := c\<rparr>)) \<Longrightarrow> on_ok I (send k a b cs s)"
  by (auto simp: send_def mm_bank_def set_mm_ext_def on_ok_def)

locale amm_swaps =
  fixes k :: "'e mkeeper" and I :: "'e mstate \<Rightarrow> bool" and good :: "amm_Pool \<Rightarrow> bool"
  assumes keeps_send: "I s \<Longrightarrow> on_ok I (send k a b cs s)"
    and liquidity: "I s \<Longrightarrow> I (s\<lparr>mm_liquidity := l\<rparr>)"
    and tracks: "I s \<Longrightarrow> I (s\<lparr>mm_tracks := t\<rparr>)"
    and fees: "I s \<Longrightarrow> I (s\<lparr>mm_fees := f\<rparr>)"
    and set_pool: "I s \<Longrightarrow> good p \<Longrightarrow> I (amm_SetPool p s)"
    and stored: "I s \<Longrightarrow> amm_GetPool s i = Some p \<Longrightarrow> good p"
    and same_layout: "good p \<Longrightarrow> layout p' = layout p \<Longrightarrow> good p'"
    and hooks: "hooks_keep k I"
begin

lemma good_of: "good p0 \<Longrightarrow> layout p = layout p0 \<Longrightarrow> good p"
  by (rule same_layout)

lemma keeps_with_denom: "I s \<Longrightarrow> I (with_denom d s)"
  by (auto simp: with_denom_def SetDenomLiquidity_def liquidity split: option.splits)

lemma keeps_RecordIncrease: "I s \<Longrightarrow> on_ok I (RecordTotalLiquidityIncrease cs s)"
proof (induction cs arbitrary: s)
  case (Cons c cs)
  have "on_ok I (IncreaseDenomLiquidity (Denom c) (Amount c) (with_denom (Denom c) s))"
    using keeps_with_denom [OF Cons.prems] by (auto simp: IncreaseDenomLiquidity_def on_ok_def liquidity split: option.splits)
  then show ?case by (auto intro: on_ok_bind Cons.IH)
qed simp

lemma keeps_RecordDecrease: "I s \<Longrightarrow> on_ok I (RecordTotalLiquidityDecrease cs s)"
proof (induction cs arbitrary: s)
  case (Cons c cs)
  have "on_ok I (DecreaseDenomLiquidity (Denom c) (Amount c) (with_denom (Denom c) s))"
    using keeps_with_denom [OF Cons.prems] by (auto simp: DecreaseDenomLiquidity_def on_ok_def liquidity split: option.splits)
  then show ?case by (auto intro: on_ok_bind Cons.IH)
qed simp

lemma keeps_Add:
  "I s \<Longrightarrow> good p0 \<Longrightarrow> layout p = layout p0 \<Longrightarrow> kept p0 I (AddToPoolBalanceAndUpdateLiquidity n cs p s)"
  unfolding AddToPoolBalanceAndUpdateLiquidity_def
  by (cases "IncreaseLiquidity n cs p")
    (auto simp: layout_Increase intro!: keeps_RecordIncrease set_pool intro: good_of)

lemma keeps_Remove:
  "I s \<Longrightarrow> good p0 \<Longrightarrow> layout p = layout p0 \<Longrightarrow> kept p0 I (RemoveFromPoolBalanceAndUpdateLiquidity k n cs p s)"
  unfolding RemoveFromPoolBalanceAndUpdateLiquidity_def
  by (cases "DecreaseLiquidity (mk_sdk k) n cs p")
    (auto simp: layout_Decrease intro!: keeps_RecordDecrease set_pool intro: good_of)

lemma keeps_pay_out: "I s \<Longrightarrow> good p0 \<Longrightarrow> layout p = layout p0 \<Longrightarrow> kept p0 I (pay_out k a b cs p s)"
  unfolding pay_out_def by (rule kept_pbind [where Q = I]) (simp_all add: keeps_send keeps_Remove)

lemma keeps_TrackSlippage: "I s \<Longrightarrow> I (TrackSlippage k ctx i c s)"
  by (simp add: TrackSlippage_def SetSlippageTrack_def Let_def tracks)

lemma keeps_TrackWeight: "I s \<Longrightarrow> I (TrackWeightBreakingSlippage k ctx i c s)"
  by (simp add: TrackWeightBreakingSlippage_def AddWeightAndSlippageFee_def Let_def fees)

lemma keeps_AfterSwap: "I s \<Longrightarrow> on_ok I (AfterSwap_hook k a p cs cs' s)"
  using hooks by (auto simp: AfterSwap_hook_def hooks_keep_def split: option.splits)

lemma keeps_AfterJoin: "I s \<Longrightarrow> on_ok I (AfterJoinPool_hook k a p cs n s)"
  using hooks by (auto simp: AfterJoinPool_hook_def hooks_keep_def split: option.splits)

lemma keeps_AfterExit: "I s \<Longrightarrow> on_ok I (AfterExitPool_hook k a p n cs s)"
  using hooks by (auto simp: AfterExitPool_hook_def hooks_keep_def split: option.splits)

lemmas keeps_basic = keeps_send keeps_Add keeps_Remove keeps_pay_out keeps_TrackSlippage keeps_TrackWeight
  keeps_AfterSwap keeps_AfterJoin keeps_AfterExit keeps_RecordIncrease keeps_RecordDecrease

end

section \<open>Swaps keep it\<close>

context amm_swaps begin

lemma keeps_tokens:
  "I s \<Longrightarrow> good p0 \<Longrightarrow> layout p = layout p0 \<Longrightarrow> kept p0 I (settle_tokens k w a p s)"
  unfolding settle_tokens_def
  by (rule kept_pbind [where Q = I], simp add: keeps_send, rule kept_pbind [where Q = I])
    (simp_all add: keeps_Add keeps_pay_out)

lemma keeps_taker:
  "I s \<Longrightarrow> good p0 \<Longrightarrow> layout p = layout p0 \<Longrightarrow> kept p0 I (settle_taker k w a p s)"
  unfolding settle_taker_def by (intro kept_look kept_if keeps_pay_out) simp_all

lemma keeps_fee:
  assumes C: "\<And>p cs s. I s \<Longrightarrow> layout p = layout p0 \<Longrightarrow> kept p0 I (collect p cs s)"
    and "I s" "good p0" "layout p = layout p0"
  shows "kept p0 I (settle_fee collect k w a p s)"
proof -
  have "kept p0 I (pbind (pay_out k a t cs p s) (\<lambda>p. collect p cs))" for t cs
    by (rule kept_pbind [where Q = I], rule keeps_pay_out [OF assms(2-4)]) (rule C)
  then show ?thesis unfolding settle_fee_def using assms by (intro kept_look kept_if) simp_all
qed

lemma keeps_recovery:
  assumes "I s" "good p0" "layout p = layout p0"
  shows "kept p0 I (settle_recovery k ctx w a p s)"
proof -
  have "kept p0 I (pbind (pay_out k a t cs p s) (\<lambda>p s1. pbind (p, r) (\<lambda>p c.
      (p, Inr (TrackWeightBreakingSlippage k ctx (am_PoolId p) c s1)))))" for t cs r
    by (rule kept_pbind [where Q = I], rule keeps_pay_out [OF assms], rule kept_look) (simp_all add: keeps_TrackWeight)
  then show ?thesis unfolding settle_recovery_def Let_def using assms by (intro kept_look kept_if) simp_all
qed

lemma keeps_bonus: "I s \<Longrightarrow> on_ok (\<lambda>x. I (fst x)) (settle_bonus k w p s)"
  unfolding settle_bonus_def Let_def
  by (intro on_ok_rbind on_ok_if) (auto dest: keeps_send [THEN on_okD])

lemma keeps_end: "I s \<Longrightarrow> good p \<Longrightarrow> on_ok I (settle_end k w p s)"
  unfolding settle_end_def by (intro on_ok_rbind) (simp add: keeps_AfterSwap set_pool)

lemma keeps_UpdatePoolForSwap_with:
  assumes C: "\<And>p cs s. I s \<Longrightarrow> layout p = layout p0 \<Longrightarrow> kept p0 I (collect p cs s)"
    and "I s" "good p0" "layout p = layout p0"
  shows "kept p0 (\<lambda>x. I (fst x)) (UpdatePoolForSwap_with collect k ctx w p s)"
proof -
  have B: "kept p0 (\<lambda>x. I (fst x)) (pbind (q, settle_bonus k w q t) (\<lambda>p (s5, bonusToken).
      pbind (p, settle_end k w p s5) (\<lambda>p s6. (p, Inr (s6, bonusToken)))))"
    if "I t" "layout q = layout p0" for q t
    by (rule kept_pbind [where Q = "\<lambda>x. I (fst x)"])
      (auto simp: that keeps_bonus intro!: kept_pbind [where Q = I] keeps_end intro: good_of [OF assms(3)])
  show ?thesis unfolding UpdatePoolForSwap_with_def
    by (rule kept_look, fact assms, rule kept_pbind [where Q = I], rule keeps_tokens [OF assms(2-4)],
      rule kept_pbind [where Q = I], rule keeps_taker [OF _ assms(3)], assumption+,
      rule kept_pbind [where Q = I], rule keeps_fee [OF C _ assms(3)], assumption+,
      rule kept_pbind [where Q = I], rule keeps_recovery [OF _ assms(3)], assumption+, rule B)
qed

lemma keeps_SwapFees_loop:
  assumes S: "\<And>w p s. I s \<Longrightarrow> layout p = layout p0 \<Longrightarrow> kept p0 (\<lambda>x. I (fst x)) (settle w p s)"
  shows "I s \<Longrightarrow> layout p = layout p0 \<Longrightarrow> kept p0 I (SwapFees_loop settle k params f cs p s)"
proof (induction cs arbitrary: p s)
  case (Cons c cs)
  have "kept p0 (\<lambda>x. I (fst x)) (map_prod (share_assets p) id (settle w p s))" for w
    using S [OF Cons.prems, of w] Cons.prems by (simp add: kept_def layout_share)
  then have "kept p0 I (pbind (map_prod (share_assets p) id (settle w p s)) (\<lambda>p (s1, _). SwapFees_loop settle k params f cs p s1))"
    for w by (rule kept_pbind) (auto intro: Cons.IH)
  then show ?case unfolding SwapFees_loop.simps using Cons.prems by (intro kept_look kept_if Cons.IH) simp_all
qed simp

lemma keeps_OnCollectFee_with:
  assumes S: "\<And>w p s. I s \<Longrightarrow> layout p = layout p0 \<Longrightarrow> kept p0 (\<lambda>x. I (fst x)) (settle w p s)"
    and "I s" "layout p = layout p0"
  shows "kept p0 I (OnCollectFee_with settle k p fee s)"
proof -
  have T: "kept p0 I (case SwapFeesToRevenueToken_with settle k p cs s1 of
      (q, Inr s2) \<Rightarrow> (share_assets p q, Inr s2)
    | (q, Inl e) \<Rightarrow> (share_assets p q, case e of Panic x \<Rightarrow> Inl (Panic x) | _ \<Rightarrow> Inr s1))"
    if "I s1" "layout p = layout p0" for p cs s1
  proof -
    have "kept p0 I (SwapFeesToRevenueToken_with settle k p cs s1)"
      unfolding SwapFeesToRevenueToken_with_def
      by (rule kept_look) (simp_all add: keeps_SwapFees_loop S that)
    then show ?thesis using that
      by (auto simp: kept_def layout_share split: prod.splits sum.splits err.splits)
  qed
  show ?thesis unfolding OnCollectFee_with_def
    by (rule kept_look, fact assms, rule kept_look, fact assms, rule kept_pbind [where Q = I])
      (simp_all add: assms keeps_send T)
qed

lemma keeps_OnCollectFee:
  assumes "good p0" "I s" "layout p = layout p0"
  shows "kept p0 I (OnCollectFee k ctx p fee s)"
  unfolding OnCollectFee_def
  by (rule keeps_OnCollectFee_with [OF keeps_UpdatePoolForSwap_with]) (simp_all add: assms no_collect_def)

lemma keeps_UpdatePoolForSwap:
  "I s \<Longrightarrow> good p \<Longrightarrow> kept p (\<lambda>x. I (fst x)) (UpdatePoolForSwap k ctx w p s)"
  unfolding UpdatePoolForSwap_def
  by (rule keeps_UpdatePoolForSwap_with) (simp_all add: keeps_OnCollectFee)

lemma keeps_InternalIn:
  assumes "I s" "good p"
  shows "on_ok (\<lambda>x. I (fst x)) (InternalSwapExactAmountIn k ctx a b p c d m f t s)"
proof -
  have U: "snd (UpdatePoolForSwap k ctx w p s) = Inr (s1, x) \<Longrightarrow> I s1" for w s1 x
    using on_okD [OF kept_snd [OF keeps_UpdatePoolForSwap [OF assms]]] by fastforce
  show ?thesis unfolding InternalSwapExactAmountIn_def Let_def
    by (intro on_ok_if on_ok_recovered on_ok_rbind on_ok_prod) (auto intro: keeps_TrackSlippage keeps_TrackWeight dest: U)
qed

lemma keeps_InternalOut:
  assumes "I s" "good p"
  shows "on_ok (\<lambda>x. I (fst x)) (InternalSwapExactAmountOut k ctx a b p d m c f t s)"
proof -
  have U: "snd (UpdatePoolForSwap k ctx w p s) = Inr (s1, x) \<Longrightarrow> I s1" for w s1 x
    using on_okD [OF kept_snd [OF keeps_UpdatePoolForSwap [OF assms]]] by fastforce
  show ?thesis unfolding InternalSwapExactAmountOut_def Let_def
    by (intro on_ok_if on_ok_recovered on_ok_rbind on_ok_prod) (auto intro: keeps_TrackSlippage dest: U)
qed

lemma keeps_route_in:
  "I s \<Longrightarrow> on_ok (\<lambda>x. I (fst x)) (route_in_loop k ctx a b n m d rs c out f s)"
proof (induction rs arbitrary: c out f s)
  case (Cons r rs)
  have U: "I s1" if "amm_GetPool s (ri_PoolId r) = Some p"
    and "InternalSwapExactAmountIn k ctx a x p c y z f1 f2 s = Inr (s1, w)" for p x y z f1 f2 s1 w
    using on_okD [OF keeps_InternalIn [OF Cons.prems stored [OF Cons.prems that(1)]] that(2)] by simp
  show ?case unfolding route_in_loop.simps Let_def
    by (intro on_ok_option on_ok_rbind on_ok_prod Cons.IH; simp) (rule U; assumption)
qed simp

lemma keeps_route_out:
  "I s \<Longrightarrow> on_ok (\<lambda>x. I (fst x)) (route_out_loop k ctx a b n d c rs ins t f s)"
proof (induction rs arbitrary: ins t f s)
  case (Cons r rs)
  have U: "I s1" if "amm_GetPool s (ro_PoolId r) = Some p"
    and "InternalSwapExactAmountOut k ctx a x p y z o' f1 f2 s = Inr (s1, w)" for p x y z o' f1 f2 s1 w
    using on_okD [OF keeps_InternalOut [OF Cons.prems stored [OF Cons.prems that(1)]] that(2)] by simp
  show ?case
  proof (cases ins)
    case (Cons e ins')
    show ?thesis unfolding route_out_loop.simps Cons list.case
      by (intro on_ok_option on_ok_rbind on_ok_prod Cons.IH; simp) (rule U; assumption)
  qed simp
qed simp

lemma keeps_RouteIn: "I s \<Longrightarrow> on_ok (\<lambda>x. I (fst x)) (RouteExactAmountIn k ctx a b rs c m s)"
  unfolding RouteExactAmountIn_def Let_def
  by (rule on_ok_rbind, rule on_ok_bind [OF keeps_route_in]) auto

lemma keeps_RouteOut:
  assumes "I s"
  shows "on_ok (\<lambda>x. I (fst x)) (RouteExactAmountOut k ctx a b rs m c s)"
proof -
  have U: "route_out_loop k ctx a b n d c rs ins t f s = Inr (s1, x) \<Longrightarrow> I s1" for n d ins t f s1 x
    using on_okD [OF keeps_route_out [OF assms]] by fastforce
  show ?thesis unfolding RouteExactAmountOut_def Let_def
    by (intro on_ok_rbind on_ok_recovered on_ok_prod on_ok_if) (auto simp: assms dest: U)
qed

end

section \<open>Joins and exits keep it\<close>

text \<open>Joins and exits write the shares in the commitment module, so that the invariant must not look at
  what is outside of the amm.\<close>

locale amm_keeps = amm_swaps k I good for k :: "'e mkeeper" and I :: "'e mstate \<Rightarrow> bool" and good :: "amm_Pool \<Rightarrow> bool" +
  assumes commit: "I s \<Longrightarrow> I (s\<lparr>mm_commit := c\<rparr>)"
begin

lemma keeps_ext: "I s \<Longrightarrow> I (set_mm_ext e s)"
  by (simp add: set_mm_ext_def commit)

lemma keeps_bank: "I s \<Longrightarrow> on_ok I (mm_bank f s)"
  by (auto simp: mm_bank_def on_ok_def keeps_ext)

lemma keeps_commit_call: "I s \<Longrightarrow> on_ok I (mm_commit_call f s)"
  by (auto simp: mm_commit_call_def on_ok_def commit)

lemma keeps_Mint: "I s \<Longrightarrow> on_ok I (MintPoolShareToAccount k ctx p a n s)"
  unfolding MintPoolShareToAccount_def Let_def
  by (intro on_ok_rbind) (auto intro!: keeps_commit_call keeps_ext dest!: keeps_bank [THEN on_okD, rotated])

lemma keeps_Burn: "I s \<Longrightarrow> on_ok I (BurnPoolShareFromAccount k p a n s)"
  unfolding BurnPoolShareFromAccount_def
  by (intro on_ok_rbind) (auto intro!: keeps_bank dest!: keeps_bank [THEN on_okD, rotated])

lemma keeps_collect_swap_fee:
  assumes "good p0" "I s" "layout p = layout p0"
  shows "kept p0 I (collect_swap_fee k ctx a cs p s)"
proof -
  have "kept p0 I (pbind (pay_out k a t cs p s) (\<lambda>p. OnCollectFee k ctx p cs))" for t
    by (rule kept_pbind [where Q = I], rule keeps_pay_out [OF assms(2,1,3)]) (rule keeps_OnCollectFee [OF assms(1)])
  then show ?thesis unfolding collect_swap_fee_def by (intro kept_look kept_if) (simp_all add: assms)
qed

lemma keeps_collect_taker_fee:
  "good p0 \<Longrightarrow> I s \<Longrightarrow> layout p = layout p0 \<Longrightarrow> kept p0 I (collect_taker_fee k a cs f p s)"
  unfolding collect_taker_fee_def by (intro kept_look kept_if keeps_pay_out) simp_all

lemma keeps_ApplyExit:
  assumes "I s" "good p"
  shows "kept p I (ApplyExitPoolStateChange k ctx p a n cs l f g s)"
  unfolding ApplyExitPoolStateChange_def Let_def
  by (rule kept_pbind [where Q = I], simp add: assms keeps_commit_call, rule kept_look, assumption,
      rule kept_pbind [where Q = I], simp add: keeps_send,
      rule kept_pbind [where Q = I], simp add: keeps_Burn, rule kept_look, assumption,
      rule kept_pbind [where Q = I], rule keeps_collect_swap_fee [OF assms(2)], rule set_pool, assumption,
      erule good_of [OF assms(2)], assumption,
      rule kept_pbind [where Q = I], rule keeps_collect_taker_fee [OF assms(2)], assumption+)
    (simp add: keeps_AfterExit)

lemma keeps_join_recovery:
  assumes "good p0"
  shows "I s \<Longrightarrow> layout p = layout p0 \<Longrightarrow> kept p0 I (join_recovery k ctx b g a t cs p s)"
proof (induction cs arbitrary: p s)
  case (Cons c cs)
  have "kept p0 I (pbind (pay_out k a t [c1] p s) (\<lambda>p s1. pbind (p, r) (\<lambda>p c'.
      join_recovery k ctx b g a t cs p (TrackWeightBreakingSlippage k ctx (am_PoolId p) c' s1))))" for c1 r
    by (rule kept_pbind [where Q = I], rule keeps_pay_out [OF Cons.prems(1) assms Cons.prems(2)], rule kept_look)
      (simp_all add: Cons.IH keeps_TrackWeight)
  then show ?case unfolding join_recovery.simps Let_def using Cons.prems
    by (intro kept_look kept_if Cons.IH) simp_all
qed simp

lemma keeps_join_bonus: "I s \<Longrightarrow> on_ok I (join_bonus k a cs b p s)"
  unfolding join_bonus_def Let_def by (intro on_ok_rbind on_ok_if) (simp_all add: keeps_send)

lemma keeps_ApplyJoin:
  assumes "I s" "good p"
  shows "kept p I (ApplyJoinPoolStateChange k ctx p a n cs b f g s)"
proof -
  have R: "kept p I (if pp_UseOracle (am_PoolParams q) \<and> b < 0
        then pbind (q, r) (\<lambda>p t. join_recovery k ctx \<bar>b\<bar> x adr t cs p s') else (q, Inr s'))"
    if "I s'" "layout q = layout p" for q s' r x adr
    using that by (intro kept_if kept_look keeps_join_recovery [OF assms(2)]) simp_all
  show ?thesis unfolding ApplyJoinPoolStateChange_def Let_def
    by (rule kept_look, rule refl, rule kept_pbind [where Q = I], simp add: assms keeps_send,
        rule kept_pbind [where Q = I], simp add: keeps_Mint, rule kept_look, assumption,
        rule kept_pbind [where Q = I], rule keeps_collect_swap_fee [OF assms(2)], rule set_pool, assumption,
        erule good_of [OF assms(2)], assumption,
        rule kept_pbind [where Q = I], rule R, assumption+,
        rule kept_pbind [where Q = I], simp add: keeps_join_bonus,
        rule kept_pbind [where Q = I], rule keeps_collect_taker_fee [OF assms(2)], assumption+)
      (simp add: keeps_AfterJoin)
qed

lemma keeps_ExitPool:
  assumes "I s"
  shows "on_ok (\<lambda>x. I (fst x)) (keeper_ExitPool k ctx a i n mins d l w s)"
proof -
  have E: "I s2" if "amm_GetPool s i = Some p" and "ExitPool (amm_env_of k s) p sn n d params f w = Inr (p1, q)"
    and "I s1" and "snd (ApplyExitPoolStateChange k ctx p1 a n cs l g h s1) = Inr s2"
    for p sn params f p1 q s1 cs g h s2
  proof -
    have "layout p1 = layout p" using that(2) by (rule layout_ExitPool)
    then have "good p1" using stored [OF assms that(1)] by (rule good_of [rotated])
    then show ?thesis using on_okD [OF kept_snd [OF keeps_ApplyExit [OF that(3)]] that(4)] by simp
  qed
  have W: "I s1" if "(if c then rbind r (\<lambda>c. Inr (TrackWeightBreakingSlippage k ctx j c s)) else Inr s) = Inr s1"
    for c r j s1
    using that assms by (auto simp: keeps_TrackWeight split: if_splits)
  show ?thesis unfolding keeper_ExitPool_def
    by (intro on_ok_option on_ok_if on_ok_rbind on_ok_prod)
      (auto dest: W dest!: keeps_RecordDecrease [THEN on_okD, rotated] intro: E)
qed

end

end
