(* ===== verification/AmmLayout.thy ===== *)
theory AmmLayout
  imports AmmKeep
begin

text \<open>
  Trading changes balances and nothing else of a pool: over any run of swaps, joins and exits, and
  whatever the other modules do in between, no pool appears, disappears or changes its identifier,
  addresses, parameters, weights or assets. The invariant is an instance of \<open>amm_keeps\<close>.
\<close>

context amm_keeps begin

lemma keeps_join_slippage: "I s \<Longrightarrow> on_ok I (join_slippage_track k ctx p cs n s)"
  unfolding join_slippage_track_def Let_def by (intro on_ok_if on_ok_rbind) (simp_all add: keeps_TrackWeight)

lemma keeps_Join:
  assumes "I s"
  shows "on_ok (\<lambda>x. I (fst x)) (JoinPoolNoSwap k ctx a i n cs s)"
proof -
  have J: "I s2" if "amm_GetPool s i = Some p" and "JoinPool (amm_env_of k s) p sn c params f = Inr (p1, q)"
    and "I s1" and "snd (ApplyJoinPoolStateChange k ctx p1 a m js b g h s1) = Inr s2"
    for p sn c params f p1 q s1 m js b g h s2
  proof -
    have "good p1" using stored [OF assms that(1)] layout_JoinPool [OF that(2)] by (rule good_of)
    then show ?thesis using on_okD [OF kept_snd [OF keeps_ApplyJoin [OF that(3)]] that(4)] by simp
  qed
  have W: "I s1" if "(if c then rbind r (\<lambda>x. rbind (join_slippage_track k ctx p cs n s) (\<lambda>s1. Inr (x, s1)))
      else Inr (y, s)) = Inr (z, s1)" for c r p n y z s1
    using that assms by (auto dest: keeps_join_slippage [THEN on_okD] split: if_splits)
  show ?thesis unfolding JoinPoolNoSwap_def
    by (intro on_ok_recovered on_ok_option on_ok_rbind on_ok_prod)
      (auto dest: W dest!: keeps_RecordIncrease [THEN on_okD, rotated] intro: J)
qed

lemma keeps_ApplySwapRequest: "I s \<Longrightarrow> on_ok I (ApplySwapRequest k ctx msg s)"
  unfolding ApplySwapRequest_def
  by (cases msg) (auto intro!: on_ok_rbind dest!: keeps_RouteIn [THEN on_okD, rotated] keeps_RouteOut [THEN on_okD, rotated])

end

section \<open>Trading\<close>

datatype trade =
    Trade_in addr addr "SwapAmountInRoute list" coin int
  | Trade_out addr addr "SwapAmountOutRoute list" int coin
  | Trade_join addr int int coins
  | Trade_exit addr int int coins string bool bool
  | Trade_other

text \<open>\<open>other\<close> is whatever happens to the state that the commitment module and all modules but the amm
  hold; a trade in a block has its context.\<close>

definition trade_step ::
    "'e mkeeper \<Rightarrow> (block_ctx \<Rightarrow> 'e cstate \<Rightarrow> 'e cstate) \<Rightarrow> block_ctx \<times> trade \<Rightarrow> 'e mstate \<Rightarrow> 'e mstate result" where
  "trade_step k other x s =
     (case snd x of
        Trade_in a b routes tokenIn tokenOutMinAmount \<Rightarrow>
          rbind (RouteExactAmountIn k (fst x) a b routes tokenIn tokenOutMinAmount s) (\<lambda>r. Inr (fst r))
      | Trade_out a b routes tokenInMaxAmount tokenOut \<Rightarrow>
          rbind (RouteExactAmountOut k (fst x) a b routes tokenInMaxAmount tokenOut s) (\<lambda>r. Inr (fst r))
      | Trade_join a poolId n maxs \<Rightarrow> rbind (JoinPoolNoSwap k (fst x) a poolId n maxs s) (\<lambda>r. Inr (fst r))
      | Trade_exit a poolId n mins d l f \<Rightarrow> rbind (keeper_ExitPool k (fst x) a poolId n mins d l f s) (\<lambda>r. Inr (fst r))
      | Trade_other \<Rightarrow> Inr (s\<lparr>mm_commit := other (fst x) (mm_commit s)\<rparr>))"

context amm_keeps begin

lemma keeps_trade: "I s \<Longrightarrow> on_ok I (trade_step k other x s)"
  unfolding trade_step_def
  by (cases "snd x") (simp_all add: on_ok_fst keeps_RouteIn keeps_RouteOut keeps_Join keeps_ExitPool commit)

sublocale trades: invariant_step "trade_step k other" I for other
proof
  show "I s \<Longrightarrow> trade_step k other x s = Inr t \<Longrightarrow> I t" for s x t
    by (rule on_okD [OF keeps_trade])
qed

end

section \<open>The layouts of all pools\<close>

definition layouts :: "'e mstate \<Rightarrow> int \<Rightarrow> pool_layout option" where
  "layouts s i = map_option layout (amm_GetPool s i)"

definition pools_keyed :: "'e mstate \<Rightarrow> bool" where
  "pools_keyed s \<longleftrightarrow> (\<forall>i p. amm_GetPool s i = Some p \<longrightarrow> am_PoolId p = i)"

definition layouts_are :: "(int \<Rightarrow> pool_layout option) \<Rightarrow> 'e mstate \<Rightarrow> bool" where
  "layouts_are L s \<longleftrightarrow> layouts s = L \<and> pools_keyed s"

lemma layouts_commit [simp]: "layouts (s\<lparr>mm_commit := c\<rparr>) = layouts s" "layouts (s\<lparr>mm_liquidity := l\<rparr>) = layouts s"
    "layouts (s\<lparr>mm_tracks := t\<rparr>) = layouts s" "layouts (s\<lparr>mm_fees := f\<rparr>) = layouts s"
  by (auto simp: layouts_def amm_GetPool_def)

lemma pools_keyed_frame [simp]: "pools_keyed (s\<lparr>mm_commit := c\<rparr>) = pools_keyed s"
    "pools_keyed (s\<lparr>mm_liquidity := l\<rparr>) = pools_keyed s" "pools_keyed (s\<lparr>mm_tracks := t\<rparr>) = pools_keyed s"
    "pools_keyed (s\<lparr>mm_fees := f\<rparr>) = pools_keyed s"
  by (auto simp: pools_keyed_def amm_GetPool_def)

lemma amm_GetPool_SetPool: "amm_GetPool (amm_SetPool p s) i = (if i = am_PoolId p then Some p else amm_GetPool s i)"
  by (simp add: amm_GetPool_def amm_SetPool_def kv_get_set)

lemma pools_keyed_SetPool: "pools_keyed s \<Longrightarrow> pools_keyed (amm_SetPool p s)"
  by (simp add: pools_keyed_def amm_GetPool_SetPool)

lemma layouts_SetPool: "layouts (amm_SetPool p s) = (layouts s)(am_PoolId p \<mapsto> layout p)"
  by (auto simp: layouts_def amm_GetPool_SetPool)

definition layout_in :: "'e mkeeper \<Rightarrow> (int \<Rightarrow> pool_layout option) \<Rightarrow> amm_Pool \<Rightarrow> bool" where
  "layout_in k L p \<longleftrightarrow> (hooks_keep k (layouts_are L) \<longrightarrow> L (am_PoolId p) = Some (layout p))"

interpretation lay: amm_keeps k "if_hooks_keep k (layouts_are L)" "layout_in k L" for k :: "'e mkeeper" and L
proof
  show "if_hooks_keep k (layouts_are L) s \<Longrightarrow> layout_in k L p \<Longrightarrow> if_hooks_keep k (layouts_are L) (amm_SetPool p s)"
    for s :: "'e mstate" and p
    by (auto simp: if_hooks_keep_def layout_in_def layouts_are_def layouts_SetPool pools_keyed_SetPool)
  show "if_hooks_keep k (layouts_are L) s \<Longrightarrow> amm_GetPool s i = Some p \<Longrightarrow> layout_in k L p" for s :: "'e mstate" and i p
    by (auto simp: if_hooks_keep_def layout_in_def layouts_are_def layouts_def pools_keyed_def)
  show "layout_in k L p \<Longrightarrow> layout p' = layout p \<Longrightarrow> layout_in k L p'" for p p'
    using layout_fields(1) [of p' p] by (simp add: layout_in_def)
qed (auto intro: on_ok_send simp: if_hooks_keep_def layouts_are_def if_hooks_keep_keeps)

end
