(* ===== verification/AmmQueue.thy ===== *)
theory AmmQueue
  imports AmmLayout StableText
begin

text \<open>
  The queue of swap requests: every request sits under the key its message and its index give, so
  the request a selection returns is the one its deletion removes; running a swap leaves the queue
  alone, by an instance of \<open>amm_keeps\<close>. So each round of \<open>ExecuteSwapRequests\<close> shortens the queue,
  and the loop, which has no bound in the code, ends.
\<close>

section \<open>Indices as bytes\<close>

lemma from_be64_snoc: "from_be64 (s @ [c]) = from_be64 s * 256 + of_char c"
  by (simp add: from_be64_def)

lemma length_be64 [simp]: "length (be64 n) = 8"
  by (simp add: be64_def)

lemma be64_byte: "of_char (char_of (nat (x mod 256)) :: char) = (x mod 256 :: int)"
proof -
  have "(of_char (char_of (nat (x mod 256)) :: char) :: int) = int (of_char (char_of (nat (x mod 256)) :: char))"
    by (simp only: of_nat_of_char)
  also have "... = int (nat (x mod 256) mod 256)" by (simp only: of_char_of)
  also have "... = x mod 256" by (simp add: zmod_int)
  finally show ?thesis .
qed

lemma from_be64_digits:
  assumes "0 \<le> n" "n < 256 ^ 8"
  shows "m \<le> 8 \<Longrightarrow> from_be64 (map (\<lambda>i. char_of (nat (n div 256 ^ (7 - i) mod 256))) [0..<m]) = n div 256 ^ (8 - m)"
proof (induction m)
  case 0
  then show ?case using assms by (simp add: from_be64_def)
next
  case (Suc m)
  define y where "y = n div 256 ^ (7 - m)"
  have "8 - m = Suc (7 - m)" using Suc.prems by simp
  then have "n div 256 ^ (8 - m) = y div 256" by (simp add: y_def zdiv_zmult2_eq mult.commute [of 256])
  moreover have "y div 256 * 256 + y mod 256 = y" by simp
  ultimately show ?case using Suc by (simp add: from_be64_snoc be64_byte y_def)
qed

lemma from_be64_be64: "0 \<le> n \<Longrightarrow> n < 2 ^ 64 \<Longrightarrow> from_be64 (be64 n) = n"
  unfolding be64_def using from_be64_digits [of n 8] by simp

section \<open>The entries of the queue\<close>

type_synonym entries = "(string \<times> swap_msg) list"

definition queue :: "'e mstate \<Rightarrow> entries" where
  "queue s = map (\<lambda>(key, m). (key, SwapIn m)) (mm_swaps_in s) @ map (\<lambda>(key, m). (key, SwapOut m)) (mm_swaps_out s)"

definition key_of :: "sdk \<Rightarrow> swap_msg \<Rightarrow> int \<Rightarrow> string result" where
  "key_of S msg index =
     (case msg of SwapIn m \<Rightarrow> TKeyPrefixSwapExactAmountIn S m index | SwapOut m \<Rightarrow> TKeyPrefixSwapExactAmountOut S m index)"

definition prefix_of :: "swap_msg \<Rightarrow> string result" where
  "prefix_of msg =
     (case msg of SwapIn m \<Rightarrow> TKeyPrefixSwapExactAmountInPrefix m | SwapOut m \<Rightarrow> Inr (TKeyPrefixSwapExactAmountOutPrefix m))"

definition requests_ok :: "sdk \<Rightarrow> 'e mstate \<Rightarrow> bool" where
  "requests_ok S s \<longleftrightarrow> kv_ok (mm_swaps_in s) \<and> kv_ok (mm_swaps_out s) \<and>
     (\<forall>(key, msg) \<in> set (queue s). \<exists>i. 0 < i \<and> i < 2 ^ 64 \<and> key_of S msg i = Inr key)"

lemma queue_Nil: "queue s = [] \<longleftrightarrow> mm_swaps_in s = [] \<and> mm_swaps_out s = []"
  by (simp add: queue_def)

lemma queue_length: "length (queue s) = queue_length s"
  by (simp add: queue_def queue_length_def)

lemma key_of_prefix:
  assumes "key_of S msg i = Inr key"
  obtains pre a where "prefix_of msg = Inr pre" "key = pre @ a @ be64 i"
  using assms that by (cases msg) (auto simp: key_of_def prefix_of_def TKeyPrefixSwapExactAmountIn_def TKeyPrefixSwapExactAmountOut_def)

lemma key_index: "key_of S msg i = Inr key \<Longrightarrow> 0 \<le> i \<Longrightarrow> i < 2 ^ 64 \<Longrightarrow> from_be64 (drop (length key - 8) key) = i"
  by (erule key_of_prefix) (simp add: from_be64_be64)

lemma first_under_Some:
  assumes "first_under pre m = Some (v, i)"
  shows "\<exists>key. (key, v) \<in> set m \<and> is_prefix pre key \<and> i = from_be64 (drop (length key - 8) key)"
proof -
  obtain key where F: "find (\<lambda>kv. is_prefix pre (fst kv)) m = Some (key, v)"
    and i: "i = from_be64 (drop (length key - 8) key)"
    using assms by (auto simp: first_under_def)
  then obtain j where "j < length m" "is_prefix pre (fst (m ! j))" "(key, v) = m ! j" by (auto simp: find_Some_iff)
  then have "(key, v) \<in> set m \<and> is_prefix pre key" by (metis fst_conv nth_mem)
  then show ?thesis using i by blast
qed

lemma first_under_None: "first_under pre m = None \<longleftrightarrow> (\<forall>kv\<in>set m. \<not> is_prefix pre (fst kv))"
  unfolding first_under_def by (simp only: map_option_is_None find_None_iff) blast

lemma entry_index:
  assumes "requests_ok S s" "(key, msg) \<in> set (queue s)"
  shows "0 < from_be64 (drop (length key - 8) key)" "key_of S msg (from_be64 (drop (length key - 8) key)) = Inr key"
proof -
  obtain i where i: "0 < i" "i < 2 ^ 64" "key_of S msg i = Inr key"
    using assms unfolding requests_ok_def by blast
  then have "from_be64 (drop (length key - 8) key) = i" using key_index [OF i(3)] by simp
  then show "0 < from_be64 (drop (length key - 8) key)" "key_of S msg (from_be64 (drop (length key - 8) key)) = Inr key"
    using i by simp_all
qed

lemma in_queue:
  "(key, m) \<in> set (mm_swaps_in s) \<Longrightarrow> (key, SwapIn m) \<in> set (queue s)"
  "(key, m') \<in> set (mm_swaps_out s) \<Longrightarrow> (key, SwapOut m') \<in> set (queue s)"
  by (force simp: queue_def)+

text \<open>A selection: the first request with an exact amount in, else the first with one out.\<close>

lemma Select_cases:
  assumes "requests_ok S s"
  shows "SelectOneSwapRequest s pre =
     (case first_under pre (mm_swaps_in s) of
        Some (m, i) \<Rightarrow> Some (SwapIn m, i)
      | None \<Rightarrow> map_option (\<lambda>(m, i). (SwapOut m, i)) (first_under pre (mm_swaps_out s)))"
proof -
  have "i \<noteq> 0" if "first_under pre (mm_swaps_in s) = Some (m, i)" for m i
    using first_under_Some [OF that] entry_index(1) [OF assms in_queue(1)] by force
  moreover have "i \<noteq> 0" if "first_under pre (mm_swaps_out s) = Some (m, i)" for m i
    using first_under_Some [OF that] entry_index(1) [OF assms in_queue(2)] by force
  ultimately show ?thesis
    by (auto simp: SelectOneSwapRequest_def GetFirstSwapExactAmountInRequest_def GetFirstSwapExactAmountOutRequest_def
        Let_def split: option.splits)
qed

text \<open>What a selection returns is in the queue, under the prefix and with its own index.\<close>

lemma Select_in:
  assumes "requests_ok S s" "SelectOneSwapRequest s pre = Some (msg, i)"
  shows "\<exists>key. (key, msg) \<in> set (queue s) \<and> key_of S msg i = Inr key \<and> is_prefix pre key"
proof -
  have "\<exists>key. (key, msg) \<in> set (queue s) \<and> is_prefix pre key \<and> i = from_be64 (drop (length key - 8) key)"
  proof (cases "first_under pre (mm_swaps_in s)")
    case None
    then obtain m where "first_under pre (mm_swaps_out s) = Some (m, i)" "msg = SwapOut m"
      using assms(2) by (auto simp: Select_cases [OF assms(1)])
    then show ?thesis using first_under_Some [of pre "mm_swaps_out s" m i] in_queue(2) by blast
  next
    case (Some r)
    then obtain m where "first_under pre (mm_swaps_in s) = Some (m, i)" "msg = SwapIn m"
      using assms(2) by (cases r) (auto simp: Select_cases [OF assms(1)])
    then show ?thesis using first_under_Some [of pre "mm_swaps_in s" m i] in_queue(1) by blast
  qed
  then show ?thesis using entry_index(2) [OF assms(1)] by blast
qed

lemma Select_None:
  assumes "requests_ok S s"
  shows "SelectOneSwapRequest s [] = None \<longleftrightarrow> queue s = []"
proof -
  have "first_under [] (mm_swaps_in s) = None \<longleftrightarrow> mm_swaps_in s = []"
    by (cases "mm_swaps_in s") (auto simp: first_under_def)
  moreover have "first_under [] (mm_swaps_out s) = None \<longleftrightarrow> mm_swaps_out s = []"
    by (cases "mm_swaps_out s") (auto simp: first_under_def)
  ultimately show ?thesis
    by (cases "first_under [] (mm_swaps_in s)") (simp_all add: Select_cases [OF assms] queue_Nil split_beta)
qed

text \<open>A deletion removes the entry of the key, and no other.\<close>

lemma kv_del_set:
  assumes "\<And>w. (key, w) \<in> set m \<Longrightarrow> w = v"
  shows "set (kv_del key m) = set m - {(key, v)}"
  by (auto simp: kv_del_def dest: assms)

lemma one_value: "kv_ok m \<Longrightarrow> (key, v) \<in> set m \<Longrightarrow> (key, w) \<in> set m \<Longrightarrow> w = v"
  using kv_get_mem [of m key v] kv_get_mem [of m key w] by simp

lemma queue_iff:
  "(key, msg) \<in> set (queue s) \<longleftrightarrow>
     (case msg of SwapIn m \<Rightarrow> (key, m) \<in> set (mm_swaps_in s) | SwapOut m \<Rightarrow> (key, m) \<in> set (mm_swaps_out s))"
  by (cases msg) (force simp: queue_def)+

lemma Delete_queue:
  assumes "requests_ok S s" "requests_ok S s0" "set (queue s) \<subseteq> set (queue s0)"
    and "key_of S msg i = Inr key" "(key, msg) \<in> set (queue s0)"
  shows "\<exists>t. DeleteSwapRequest S msg i s = Inr t \<and> requests_ok S t \<and> set (queue t) = set (queue s) - {(key, msg)}"
proof -
  have K: "kv_ok (mm_swaps_in s)" "kv_ok (mm_swaps_out s)" using assms(1) by (simp_all add: requests_ok_def)
  have K0: "kv_ok (mm_swaps_in s0)" "kv_ok (mm_swaps_out s0)" using assms(2) by (simp_all add: requests_ok_def)
  have sub: "set (mm_swaps_in s) \<subseteq> set (mm_swaps_in s0)" "set (mm_swaps_out s) \<subseteq> set (mm_swaps_out s0)"
    using assms(3) by (auto simp: subset_iff queue_iff split: swap_msg.splits)
  have "\<exists>t. DeleteSwapRequest S msg i s = Inr t \<and> kv_ok (mm_swaps_in t) \<and> kv_ok (mm_swaps_out t) \<and>
      set (queue t) = set (queue s) - {(key, msg)}"
  proof (cases msg)
    case (SwapIn m)
    then have "(key, m) \<in> set (mm_swaps_in s0)" using assms(5) by (auto simp: queue_def)
    then have D: "set (kv_del key (mm_swaps_in s)) = set (mm_swaps_in s) - {(key, m)}"
      using sub(1) by (intro kv_del_set one_value [OF K0(1)]) auto
    have "DeleteSwapRequest S msg i s = Inr (s\<lparr>mm_swaps_in := kv_del key (mm_swaps_in s)\<rparr>)"
      using assms(4) SwapIn by (simp add: DeleteSwapRequest_def DeleteSwapExactAmountInRequest_def key_of_def)
    moreover have "set (queue (s\<lparr>mm_swaps_in := kv_del key (mm_swaps_in s)\<rparr>)) = set (queue s) - {(key, msg)}"
      using SwapIn by (auto simp: queue_def D)
    ultimately show ?thesis using K by (simp add: kv_ok_del)
  next
    case (SwapOut m)
    then have "(key, m) \<in> set (mm_swaps_out s0)" using assms(5) by (auto simp: queue_def)
    then have D: "set (kv_del key (mm_swaps_out s)) = set (mm_swaps_out s) - {(key, m)}"
      using sub(2) by (intro kv_del_set one_value [OF K0(2)]) auto
    have "DeleteSwapRequest S msg i s = Inr (s\<lparr>mm_swaps_out := kv_del key (mm_swaps_out s)\<rparr>)"
      using assms(4) SwapOut by (simp add: DeleteSwapRequest_def DeleteSwapExactAmountOutRequest_def key_of_def)
    moreover have "set (queue (s\<lparr>mm_swaps_out := kv_del key (mm_swaps_out s)\<rparr>)) = set (queue s) - {(key, msg)}"
      using SwapOut by (auto simp: queue_def D)
    ultimately show ?thesis using K by (simp add: kv_ok_del)
  qed
  then obtain t where t: "DeleteSwapRequest S msg i s = Inr t" "kv_ok (mm_swaps_in t)" "kv_ok (mm_swaps_out t)"
    "set (queue t) = set (queue s) - {(key, msg)}" by blast
  then have "requests_ok S t" using assms(1) by (auto simp: requests_ok_def)
  then show ?thesis using t by blast
qed

section \<open>A swap leaves the queue alone\<close>

definition queue_is :: "(string, MsgSwapExactAmountIn) kvs \<times> (string, MsgSwapExactAmountOut) kvs \<Rightarrow> 'e mstate \<Rightarrow> bool" where
  "queue_is q s \<longleftrightarrow> (mm_swaps_in s, mm_swaps_out s) = q"

text \<open>The hooks, which belong to other modules, do not touch the queue.\<close>

definition hooks_keep_queue :: "'e mkeeper \<Rightarrow> bool" where
  "hooks_keep_queue k \<longleftrightarrow> (\<forall>q. hooks_keep k (queue_is q))"

interpretation que: amm_keeps k "if_hooks_keep k (queue_is q)" "\<lambda>p. True" for k :: "'e mkeeper" and q
  by unfold_locales (auto simp: if_hooks_keep_def queue_is_def amm_SetPool_def if_hooks_keep_keeps intro: on_ok_send)

lemma attempt_queue:
  assumes "hooks_keep_queue k" "attempt k ctx msg s = Inr (Some t)"
  shows "queue t = queue s" "requests_ok S t = requests_ok S s"
proof -
  define q where "q = (mm_swaps_in s, mm_swaps_out s)"
  have "ApplySwapRequest k ctx msg s = Inr t"
    using assms(2) by (auto simp: attempt_def split: sum.splits err.splits)
  moreover have "if_hooks_keep k (queue_is q) s" by (simp add: if_hooks_keep_def queue_is_def q_def)
  ultimately have "if_hooks_keep k (queue_is q) t" using on_okD [OF que.keeps_ApplySwapRequest] by blast
  then have "mm_swaps_in t = mm_swaps_in s" "mm_swaps_out t = mm_swaps_out s"
    using assms(1) by (simp_all add: if_hooks_keep_def hooks_keep_queue_def queue_is_def q_def)
  then show "queue t = queue s" "requests_ok S t = requests_ok S s" by (simp_all add: queue_def requests_ok_def)
qed

text \<open>The errors of a round are panics.\<close>

definition panics_only :: "'a result \<Rightarrow> bool" where
  "panics_only m \<longleftrightarrow> (\<forall>e. m = Inl e \<longrightarrow> (\<exists>w. e = Panic w))"

lemma panics_only_simps [simp]: "panics_only (Inr x)" "panics_only (Inl (Panic w))"
  by (simp_all add: panics_only_def)

lemma panics_only_rbind:
  "panics_only m \<Longrightarrow> (\<And>x. m = Inr x \<Longrightarrow> panics_only (f x)) \<Longrightarrow> panics_only (rbind m f)"
  by (cases m) (auto simp: panics_only_def)

lemma panics_only_attempt: "panics_only (attempt k ctx msg s)"
  by (simp add: attempt_def panics_only_def split: sum.splits err.splits)

lemma panics_only_BQuo: "bigdec_laws B \<Longrightarrow> panics_only (BQuo B a b)"
  by (cases "b = 0") (simp add: BQuo_zero, metis BQuo_Inr panics_only_simps(1))

lemma panics_only_stacked: "bigdec_laws B \<Longrightarrow> panics_only (stacked_loop B own as r)"
  by (induction B own as r rule: stacked_loop.induct)
    (auto simp: Let_def intro!: panics_only_rbind panics_only_BQuo)

lemma panics_only_slippage: "bigdec_laws (mk_big k) \<Longrightarrow> panics_only (GetStackedSlippage k s i)"
  by (auto simp: GetStackedSlippage_def GetPoolWithAccountedBalance_def StackedRatioFromSnapshot_def Let_def
      intro!: panics_only_rbind panics_only_stacked split: option.splits)

section \<open>A round\<close>

text \<open>A round returns a panic, or the messages of some entries, which it has removed; the entries are
  different when no request is found as its own opposite.\<close>

definition no_self_match :: "(string \<times> swap_msg) set \<Rightarrow> bool" where
  "no_self_match Q \<longleftrightarrow> (\<forall>(key, msg) \<in> Q. \<forall>pre. prefix_of msg = Inr pre \<longrightarrow> \<not> is_prefix (reverse_prefix pre) key)"

definition took :: "sdk \<Rightarrow> 'e mstate \<Rightarrow> ('e mstate \<times> swap_msg list) result \<Rightarrow> bool" where
  "took S s m \<longleftrightarrow> panics_only m \<and> (\<forall>t msgs. m = Inr (t, msgs) \<longrightarrow> requests_ok S t \<and>
     (\<exists>es. msgs = map snd es \<and> es \<noteq> [] \<and> set es \<subseteq> set (queue s) \<and> set (queue t) = set (queue s) - set es \<and>
        (no_self_match (set (queue s)) \<longrightarrow> distinct es)))"

lemma took_rbind: "panics_only m \<Longrightarrow> (\<And>x. m = Inr x \<Longrightarrow> took S s (f x)) \<Longrightarrow> took S s (rbind m f)"
  by (cases m) (auto simp: took_def panics_only_def)

lemma took_Delete:
  assumes "requests_ok S s" "requests_ok S t" "queue t = queue s" "key_of S msg i = Inr key" "(key, msg) \<in> set (queue s)"
  shows "took S s (rbind (DeleteSwapRequest S msg i t) (\<lambda>u. Inr (u, [msg])))"
proof -
  obtain u where u: "DeleteSwapRequest S msg i t = Inr u" "requests_ok S u" "set (queue u) = set (queue s) - {(key, msg)}"
    using Delete_queue [OF assms(2,1) _ assms(4,5)] assms(3) by auto
  then have "\<exists>es. [msg] = map snd es \<and> es \<noteq> [] \<and> set es \<subseteq> set (queue s) \<and> set (queue u) = set (queue s) - set es \<and>
      (no_self_match (set (queue s)) \<longrightarrow> distinct es)"
    using assms(5) by (intro exI [of _ "[(key, msg)]"]) simp
  then show ?thesis using u by (simp add: took_def)
qed

lemma took_Delete2:
  assumes s: "requests_ok S s" and k1: "key_of S msg1 i1 = Inr key1" "(key1, msg1) \<in> set (queue s)"
    and k2: "key_of S msg2 i2 = Inr key2" "(key2, msg2) \<in> set (queue s)"
    and ne: "no_self_match (set (queue s)) \<Longrightarrow> (key1, msg1) \<noteq> (key2, msg2)"
  shows "took S s (rbind (DeleteSwapRequest S msg1 i1 s) (\<lambda>t. rbind (DeleteSwapRequest S msg2 i2 t) (\<lambda>u. Inr (u, [msg1, msg2]))))"
proof -
  obtain t where t: "DeleteSwapRequest S msg1 i1 s = Inr t" "requests_ok S t" "set (queue t) = set (queue s) - {(key1, msg1)}"
    using Delete_queue [OF s s _ k1] by auto
  obtain u where u: "DeleteSwapRequest S msg2 i2 t = Inr u" "requests_ok S u" "set (queue u) = set (queue t) - {(key2, msg2)}"
    using Delete_queue [OF t(2) s _ k2] t(3) by auto
  have "\<exists>es. [msg1, msg2] = map snd es \<and> es \<noteq> [] \<and> set es \<subseteq> set (queue s) \<and> set (queue u) = set (queue s) - set es \<and>
      (no_self_match (set (queue s)) \<longrightarrow> distinct es)"
    using k1 k2 t(3) u(3) ne by (intro exI [of _ "[(key1, msg1), (key2, msg2)]"]) auto
  then show ?thesis using t u by (simp add: took_def)
qed

lemma SelectReverse_eq: "SelectReverseSwapRequest s msg = rbind (prefix_of msg) (\<lambda>pre. Inr (SelectOneSwapRequest s (reverse_prefix pre)))"
  by (simp add: SelectReverseSwapRequest_def prefix_of_def)

lemma swap_round_took:
  assumes B: "bigdec_laws (mk_big k)" and H: "hooks_keep_queue k" and s: "requests_ok (mk_sdk k) s"
    and k1: "key_of (mk_sdk k) msg1 i1 = Inr key1" "(key1, msg1) \<in> set (queue s)"
  shows "took (mk_sdk k) s (swap_round k ctx (msg1, i1) s)"
proof -
  obtain pre where pre: "prefix_of msg1 = Inr pre" by (rule key_of_prefix [OF k1(1)])
  have one: "took (mk_sdk k) s (rbind (DeleteSwapRequest (mk_sdk k) msg1 i1 t) (\<lambda>u. Inr (u, [msg1])))"
    if "t = s \<or> (\<exists>m. attempt k ctx m s = Inr (Some t))" for t
    using that attempt_queue [OF H] s by (auto intro!: took_Delete [OF s _ _ k1])
  show ?thesis
  proof (cases "SelectOneSwapRequest s (reverse_prefix pre)")
    case None
    then show ?thesis
      by (auto simp: swap_round_def SelectReverse_eq pre split: option.splits
          intro!: took_rbind [OF panics_only_attempt] one)
  next
    case (Some r)
    then obtain msg2 i2 where r: "SelectOneSwapRequest s (reverse_prefix pre) = Some (msg2, i2)" by (cases r) auto
    obtain key2 where k2: "key_of (mk_sdk k) msg2 i2 = Inr key2" "(key2, msg2) \<in> set (queue s)" "is_prefix (reverse_prefix pre) key2"
      using Select_in [OF s r] by blast
    have ne: "(key1, msg1) \<noteq> (key2, msg2)" if "no_self_match (set (queue s))"
      using that k1 k2(3) pre by (auto simp: no_self_match_def)
    have two: "took (mk_sdk k) s (rbind (DeleteSwapRequest (mk_sdk k) msg2 i2 t) (\<lambda>u. Inr (u, [msg2])))"
      if "t = s \<or> (\<exists>m. attempt k ctx m s = Inr (Some t))" for t
      using that attempt_queue [OF H] s by (auto intro!: took_Delete [OF s _ _ k2(1,2)])
    note slip = took_rbind [OF panics_only_slippage [OF B]]
    note att = took_rbind [OF panics_only_attempt]
    have both: "took (mk_sdk k) s
         (rbind (GetStackedSlippage k s1 (FirstPoolId msg1)) (\<lambda>stackedSlippage1.
          rbind (GetStackedSlippage k s2 (FirstPoolId msg1)) (\<lambda>stackedSlippage2.
          if stackedSlippage1 < stackedSlippage2
          then rbind (DeleteSwapRequest (mk_sdk k) msg1 i1 s1) (\<lambda>s3. Inr (s3, [msg1]))
          else rbind (DeleteSwapRequest (mk_sdk k) msg2 i2 s2) (\<lambda>s3. Inr (s3, [msg2])))))"
      if "attempt k ctx msg1 s = Inr (Some s1)" "attempt k ctx msg2 s = Inr (Some s2)" for s1 s2
      by (intro slip) (use that one two in auto)
    have pick: "took (mk_sdk k) s (case r1 of
          None \<Rightarrow> (case r2 of None \<Rightarrow> a | Some s2 \<Rightarrow> b s2) | Some s1 \<Rightarrow> (case r2 of None \<Rightarrow> c s1 | Some s2 \<Rightarrow> d s1 s2))"
      if "r1 = None \<Longrightarrow> r2 = None \<Longrightarrow> took (mk_sdk k) s a" "\<And>s2. r2 = Some s2 \<Longrightarrow> took (mk_sdk k) s (b s2)"
        "\<And>s1. took (mk_sdk k) s (c s1)" "\<And>s1 s2. r1 = Some s1 \<Longrightarrow> r2 = Some s2 \<Longrightarrow> took (mk_sdk k) s (d s1 s2)"
      for r1 r2 a b c d
      using that by (simp split: option.split)
    show ?thesis unfolding swap_round_def Let_def prod.case SelectReverse_eq pre rbind_Inr r option.case
      by (rule att, rule att, rule pick)
        (simp_all add: one two both took_Delete2 [OF s k1 k2(1,2) ne])
  qed
qed

section \<open>The loop\<close>

lemma swap_rounds_drain:
  assumes B: "bigdec_laws (mk_big k)" and H: "hooks_keep_queue k"
  shows "requests_ok (mk_sdk k) s \<Longrightarrow> card (set (queue s)) < fuel \<Longrightarrow>
    panics_only (swap_rounds fuel k ctx s msgs) \<and>
    (\<forall>t out. swap_rounds fuel k ctx s msgs = Inr (t, out) \<longrightarrow> queue t = [] \<and>
      (\<exists>es. out = msgs @ map snd es \<and> set es = set (queue s) \<and> (no_self_match (set (queue s)) \<longrightarrow> distinct es)))"
proof (induction fuel arbitrary: s msgs)
  case (Suc fuel)
  show ?case
  proof (cases "SelectOneSwapRequest s []")
    case None
    then have "queue s = []" using Select_None [OF Suc.prems(1)] by simp
    then show ?thesis using None by simp
  next
    case (Some r)
    then obtain msg i where r: "SelectOneSwapRequest s [] = Some (msg, i)" by (cases r) auto
    obtain key where key: "key_of (mk_sdk k) msg i = Inr key" "(key, msg) \<in> set (queue s)"
      using Select_in [OF Suc.prems(1) r] by blast
    note T = swap_round_took [OF B H Suc.prems(1) key, of ctx]
    show ?thesis
    proof (cases "swap_round k ctx (msg, i) s")
      case (Inl e)
      then show ?thesis using T by (auto simp: r took_def panics_only_def)
    next
      case (Inr q)
      then obtain t removed where q: "swap_round k ctx (msg, i) s = Inr (t, removed)" by (cases q) auto
      obtain es where es: "removed = map snd es" "es \<noteq> []" "set es \<subseteq> set (queue s)"
          "set (queue t) = set (queue s) - set es" "no_self_match (set (queue s)) \<longrightarrow> distinct es"
        and t: "requests_ok (mk_sdk k) t"
        using T q by (auto simp: took_def)
      have "set (queue t) \<subset> set (queue s)" using es(3,4) hd_in_set [OF es(2)] by blast
      then have "card (set (queue t)) < card (set (queue s))" by (simp add: psubset_card_mono)
      then have "card (set (queue t)) < fuel" using Suc.prems(2) by linarith
      note IH = Suc.IH [OF t this, of "msgs @ removed"]
      have sub: "no_self_match (set (queue t))" if "no_self_match (set (queue s))"
        using that es(4) by (auto simp: no_self_match_def)
      have join: "\<exists>es'. out = msgs @ map snd es' \<and> set es' = set (queue s) \<and> (no_self_match (set (queue s)) \<longrightarrow> distinct es')"
        if "out = (msgs @ removed) @ map snd fs" "set fs = set (queue t)" "no_self_match (set (queue t)) \<longrightarrow> distinct fs"
        for out fs
        using that es sub by (intro exI [of _ "es @ fs"]) auto
      have step: "swap_rounds (Suc fuel) k ctx s msgs = swap_rounds fuel k ctx t (msgs @ removed)" by (simp add: r q)
      show ?thesis unfolding step using IH join by blast
    qed
  qed
qed simp

end
