(* ===== verification/AmmExample.thy ===== *)
theory AmmExample
  imports AmmQueue AmmProps
begin

text \<open>
  A concrete keeper of the amm module and states on which the witnesses evaluate: the standard coins,
  bank and decimals, no hooks, no taker fee, one pool of two assets.
\<close>

definition std_mk :: "ledger mkeeper" where
  "std_mk =
     \<lparr>mk_authority = ''gov'', mk_hooks = None, mk_parameter = (\<lambda>e. (pr_DefaultParams std_sdk)\<lparr>pr_TakerFees := Some 0\<rparr>),
      mk_commitment = \<lparr>k_sdk = std_sdk, k_dec = std_dec, k_bank = std_bank,
        k_GetEntry = (\<lambda>e d. Some (empty_entry\<lparr>en_Denom := ''b'', en_CommitEnabled := True, en_WithdrawEnabled := True\<rparr>)),
        k_Delegate = (\<lambda>a v c e. Inr e), k_Undelegate = (\<lambda>a v c e. Inr e), k_IsVestingAccount = (\<lambda>e a. False),
        k_hooks = None, k_authority = ''gov''\<rparr>,
      mk_pow = std_pow, mk_AddressModule = (\<lambda>m ks. m @ concat ks), mk_GetAccount = (\<lambda>e a. None),
      mk_SetModuleAccount = (\<lambda>a n e. e), mk_SetDenomMetaData = (\<lambda>b d e. e), mk_GetDenomPrice = (\<lambda>e d. big_one),
      mk_GetAssetInfo = (\<lambda>e d. Some (d, 6)), mk_GetAssetPrice = (\<lambda>e d. Some dec_one),
      mk_GetPriceFeeder = (\<lambda>e a. None), mk_SetOraclePool = (\<lambda>i as e. e), mk_CurrencyPairProviders = (\<lambda>e. []),
      mk_SetCurrencyPairProviders = (\<lambda>ps e. e), mk_SetEntry = (\<lambda>en e. e),
      mk_GetEntryByDenom = (\<lambda>e d. Some (empty_entry\<lparr>en_Denom := d\<rparr>)), mk_GetAccountedBalance = (\<lambda>e i d. 0),
      mk_Discount = (\<lambda>e a. 0), mk_DenomsSubsetOf = (\<lambda>as bs. set (map Denom as) \<subseteq> set (map Denom bs)),
      mk_IsAllGTE = (\<lambda>as bs. True)\<rparr>"

lemma std_mk_sel [simp]:
  "mk_sdk std_mk = std_sdk" "mk_big std_mk = std_bigdec" "mk_dec std_mk = std_dec" "mk_bank std_mk = std_bank"
  "mk_hooks std_mk = None" "mk_pow std_mk = std_pow"
  by (simp_all add: std_mk_def std_pow_sel)

lemma hooks_keep_None: "mk_hooks k = None \<Longrightarrow> hooks_keep k I"
  by (simp add: hooks_keep_def)

lemma std_mk_hooks: "hooks_keep_queue std_mk"
  by (simp add: hooks_keep_queue_def hooks_keep_None)

definition ex_commit :: "ledger \<Rightarrow> ledger cstate" where
  "ex_commit e =
     \<lparr>cs_commitments = [], cs_params = Some DefaultParams, cs_supply = None, cs_atom = [], cs_nft = [],
      cs_cadet = [], cs_governor = [], cs_airdrop_claimed = [], cs_total_claimed = None,
      cs_kol = [], cs_reward = [], cs_total_reward = None, cs_ext = e\<rparr>"

text \<open>The pool's coins are in the bank; alice has coins to trade with.\<close>

definition ex_amm :: "ledger mstate" where
  "ex_amm =
     \<lparr>mm_params = Some ex_params, mm_pools = [(1, ex_pool)],
      mm_liquidity = [(''a/'', \<lparr>dl_Denom = ''a'', dl_Liquidity = 4\<rparr>), (''b/'', \<lparr>dl_Denom = ''b'', dl_Liquidity = 4\<rparr>)],
      mm_tracks = [], mm_fees = [], mm_last_index = None, mm_swaps_in = [], mm_swaps_out = [],
      mm_commit = ex_commit [((''pool'', ''a''), 4), ((''pool'', ''b''), 4), ((''alice'', ''a''), 10), ((''alice'', ''b''), 10)]\<rparr>"

definition ex_ctx :: block_ctx where
  "ex_ctx = \<lparr>BlockHeight = 10, BlockTime = 50 * 10 ^ 9, ChainID = ''elys''\<rparr>"

lemma ex_amm_pool [simp]: "amm_GetPool ex_amm i = (if i = 1 then Some ex_pool else None)"
  by (simp add: amm_GetPool_def ex_amm_def kv_get_def)

lemma ex_amm_keyed: "pools_keyed ex_amm"
  by (simp add: pools_keyed_def ex_pool_def)

lemma ex_amm_queue: "queue ex_amm = []" "mm_last_index ex_amm = None"
  by (simp_all add: ex_amm_def queue_def)

end
