(* ===== verification/AmmKeeperProps.thy ===== *)
theory AmmKeeperProps
  imports AmmExample
begin

text \<open>
  The properties of the amm keeper: what trading leaves alone, and how a block runs the swaps that
  were queued in it.
\<close>

section \<open>Layouts\<close>

text \<open>C35: trading moves balances and nothing else. Over any run of swaps, joins and exits, failed ones
  included, and of changes by other modules, no pool appears or disappears, and every pool keeps its
  identifier, address, treasury, parameters, weights and list of assets, as long as the hooks of the
  other modules do.\<close>

theorem trades_keep_layouts:
  assumes "hooks_keep k (layouts_are (layouts s))" "pools_keyed s"
  shows "layouts (run_ops (trade_step k other) xs s) = layouts s \<and> pools_keyed (run_ops (trade_step k other) xs s)"
proof -
  have "if_hooks_keep k (layouts_are (layouts s)) (run_ops (trade_step k other) xs s)"
    by (rule lay.trades.run_inv) (simp add: if_hooks_keep_def layouts_are_def assms(2))
  then show ?thesis using assms(1) by (simp add: if_hooks_keep_def layouts_are_def)
qed

lemma trades_keep_layouts_witness:
  "\<exists>p. amm_GetPool (run_ops (trade_step std_mk (\<lambda>ctx c. c))
       [(ex_ctx, Trade_in ''alice'' ''alice'' [\<lparr>ri_PoolId = 1, ri_TokenOutDenom = ''b''\<rparr>] \<lparr>Denom = ''a'', Amount = 4\<rparr> 1),
        (ex_ctx, Trade_exit ''alice'' 1 2 [] [] False True)] ex_amm) 1 = Some p \<and> layout p = layout ex_pool"
proof -
  let ?t = "run_ops (trade_step std_mk (\<lambda>ctx c. c))
       [(ex_ctx, Trade_in ''alice'' ''alice'' [\<lparr>ri_PoolId = 1, ri_TokenOutDenom = ''b''\<rparr>] \<lparr>Denom = ''a'', Amount = 4\<rparr> 1),
        (ex_ctx, Trade_exit ''alice'' 1 2 [] [] False True)] ex_amm"
  have "layouts ?t = layouts ex_amm"
    by (rule conjunct1 [OF trades_keep_layouts [OF hooks_keep_None ex_amm_keyed]]) (rule std_mk_sel)
  moreover have "layouts ex_amm 1 = Some (layout ex_pool)" by (simp add: layouts_def)
  ultimately have "layouts ?t 1 = Some (layout ex_pool)" by (simp only:)
  then show ?thesis by (simp only: layouts_def map_option_eq_Some)
qed

section \<open>The queue over a block\<close>

text \<open>A message that asks for a swap, in a block.\<close>

definition request_step :: "'e mkeeper \<Rightarrow> block_ctx \<times> swap_msg \<Rightarrow> 'e mstate \<Rightarrow> 'e mstate result" where
  "request_step k x s =
     (case snd x of
        SwapIn m \<Rightarrow> rbind (SwapExactAmountIn k (fst x) m s) (\<lambda>r. Inr (fst r))
      | SwapOut m \<Rightarrow> rbind (SwapExactAmountOut k (fst x) m s) (\<lambda>r. Inr (fst r)))"

definition only_queued :: "'e mstate \<Rightarrow> 'e mstate \<Rightarrow> bool" where
  "only_queued s0 s \<longleftrightarrow>
     mm_params s = mm_params s0 \<and> mm_pools s = mm_pools s0 \<and> mm_liquidity s = mm_liquidity s0 \<and>
     mm_tracks s = mm_tracks s0 \<and> mm_fees s = mm_fees s0 \<and> mm_commit s = mm_commit s0"

definition queue_inv :: "'e mkeeper \<Rightarrow> 'e mstate \<Rightarrow> int \<Rightarrow> 'e mstate \<Rightarrow> bool" where
  "queue_inv k s0 b s \<longleftrightarrow> requests_ok (mk_sdk k) s \<and> only_queued s0 s \<and>
     0 \<le> GetLastSwapRequestIndex s \<and> GetLastSwapRequestIndex s \<le> b"

lemma kv_set_subset: "set (kv_set k v m) \<subseteq> insert (k, v) (set m)"
  by (induction k v m rule: kv_set.induct) auto

lemma request_in:
  assumes "queue_inv k s0 b s" "b < 2 ^ 64 - 1" "SwapExactAmountIn k ctx m s = Inr (t, r)"
  shows "queue_inv k s0 (b + 1) t"
proof -
  define i where "i = GetLastSwapRequestIndex s + 1"
  have i: "0 < i" "i \<le> b + 1" "i < 2 ^ 64" "u64 (GetLastSwapRequestIndex s + 1) = i"
    using assms(1,2) by (simp_all add: queue_inv_def i_def u64_id)
  obtain key where key: "TKeyPrefixSwapExactAmountIn (mk_sdk k) m i = Inr key"
    and t: "t = s\<lparr>mm_swaps_in := kv_set key m (mm_swaps_in s), mm_last_index := Some i\<rparr>"
    using assms(3) by (auto simp: SwapExactAmountIn_def i(4) SetSwapExactAmountInRequests_def SetLastSwapRequestIndex_def)
  have "set (queue t) \<subseteq> insert (key, SwapIn m) (set (queue s))"
    using kv_set_subset [of key m "mm_swaps_in s"] by (auto simp: queue_def t)
  moreover have "key_of (mk_sdk k) (SwapIn m) i = Inr key" using key by (simp add: key_of_def)
  ultimately have "requests_ok (mk_sdk k) t"
    using assms(1) i(1,3) by (auto simp: queue_inv_def requests_ok_def t kv_ok_set)
  moreover have "only_queued s0 t" using assms(1) unfolding queue_inv_def only_queued_def t by simp
  ultimately show ?thesis using i by (simp add: queue_inv_def t GetLastSwapRequestIndex_def)
qed

lemma request_out:
  assumes "queue_inv k s0 b s" "b < 2 ^ 64 - 1" "SwapExactAmountOut k ctx m s = Inr (t, r)"
  shows "queue_inv k s0 (b + 1) t"
proof -
  define i where "i = GetLastSwapRequestIndex s + 1"
  have i: "0 < i" "i \<le> b + 1" "i < 2 ^ 64" "u64 (GetLastSwapRequestIndex s + 1) = i"
    using assms(1,2) by (simp_all add: queue_inv_def i_def u64_id)
  obtain key where key: "TKeyPrefixSwapExactAmountOut (mk_sdk k) m i = Inr key"
    and t: "t = s\<lparr>mm_swaps_out := kv_set key m (mm_swaps_out s), mm_last_index := Some i\<rparr>"
    using assms(3) by (auto simp: SwapExactAmountOut_def i(4) SetSwapExactAmountOutRequests_def SetLastSwapRequestIndex_def)
  have "set (queue t) \<subseteq> insert (key, SwapOut m) (set (queue s))"
    using kv_set_subset [of key m "mm_swaps_out s"] by (auto simp: queue_def t)
  moreover have "key_of (mk_sdk k) (SwapOut m) i = Inr key" using key by (simp add: key_of_def)
  ultimately have "requests_ok (mk_sdk k) t"
    using assms(1) i(1,3) by (auto simp: queue_inv_def requests_ok_def t kv_ok_set)
  moreover have "only_queued s0 t" using assms(1) unfolding queue_inv_def only_queued_def t by simp
  ultimately show ?thesis using i by (simp add: queue_inv_def t GetLastSwapRequestIndex_def)
qed

interpretation requests: budget_step "request_step k" "\<lambda>x. True" "queue_inv k s0" "2 ^ 64 - 1" for k :: "'e mkeeper" and s0
proof
  show "queue_inv k s0 b s \<Longrightarrow> b < 2 ^ 64 - 1 \<Longrightarrow> True \<Longrightarrow> request_step k x s = Inr t \<Longrightarrow> queue_inv k s0 (b + 1) t" for b s x t
    by (auto simp: request_step_def split: swap_msg.splits intro: request_in request_out)
qed (simp add: queue_inv_def)

text \<open>What the end of a block does with the queue: it is emptied, or the block panics; each request
  leaves it exactly once, tried, when none is found as the opposite of itself.\<close>

definition runs_once :: "'e mstate \<Rightarrow> ('e mstate \<times> swap_msg list) result \<Rightarrow> bool" where
  "runs_once s m \<longleftrightarrow> panics_only m \<and> (\<forall>t out. m = Inr (t, out) \<longrightarrow> queue t = [] \<and>
     (\<exists>es. out = map snd es \<and> set es = set (queue s) \<and> (no_self_match (set (queue s)) \<longrightarrow> distinct es)))"

lemma Execute_runs_once:
  assumes "bigdec_laws (mk_big k)" "hooks_keep_queue k" "requests_ok (mk_sdk k) s"
  shows "runs_once s (ExecuteSwapRequests k ctx s)"
proof -
  have "card (set (queue s)) < Suc (queue_length s)"
    using card_length [of "queue s"] by (simp add: queue_length)
  from swap_rounds_drain [OF assms this, of ctx "[]"] show ?thesis
    by (simp add: runs_once_def ExecuteSwapRequests_def)
qed



end
