(* ===== verification/PerpStore.thy ===== *)
theory PerpStore
  imports AmmEndBlock PerpTypes
begin

text \<open>
  The store of the perpetual keeper (x/perpetual/keeper: \<open>keeper.go\<close>, \<open>params.go\<close>, \<open>pool.go\<close>,
  \<open>mtp.go\<close>, \<open>perpetual_counter.go\<close>, \<open>whitelist.go\<close>, \<open>asset_price.go\<close>; x/perpetual/types:
  \<open>params.go\<close>, \<open>keys.go\<close>, \<open>errors.go\<close>, \<open>hooks.go\<close>): parameters, positions, counters, pools, and
  the accumulated interest and funding rates of the blocks. The module trades on the pools of the
  amm keeper, whose hooks call it back: so its store is a part of the state outside of the amm,
  read and written through two functions of the keeper record.
\<close>

section \<open>Data\<close>

record PerpParams =
  pv_LeverageMax :: int
  pv_BorrowInterestRateMax :: int
  pv_BorrowInterestRateMin :: int
  pv_BorrowInterestRateIncrease :: int
  pv_BorrowInterestRateDecrease :: int
  pv_HealthGainFactor :: int
  pv_MaxOpenPositions :: int
  pv_PoolMaxLiabilitiesThreshold :: int
  pv_BorrowInterestPaymentFundPercentage :: int
  pv_SafetyFactor :: int
  pv_BorrowInterestPaymentEnabled :: bool
  pv_WhitelistingEnabled :: bool
  pv_PerpetualSwapFee :: int
  pv_MaxLimitOrder :: int
  pv_FixedFundingRate :: int
  pv_MinimumLongTakeProfitPriceRatio :: int
  pv_MaximumLongTakeProfitPriceRatio :: int
  pv_MaximumShortTakeProfitPriceRatio :: int
  pv_WeightBreakingFeeFactor :: int
  pv_EnabledPools :: "int list"
  pv_MinimumNotionalValue :: int
  pv_LongMinimumLiabilityAmount :: int
  pv_ExitBuffer :: int
  pv_TakerFee :: int

record PerpetualCounter =
  pc_AmmPoolId :: int
  pc_Counter :: int
  pc_TotalOpen :: int

record PerpInterestBlock =
  pi_InterestRate :: int
  pi_BlockHeight :: int
  pi_BlockTime :: int

record FundingRateBlock =
  fr_FundingRateLong :: int
  fr_FundingRateShort :: int
  fr_FundingShareShort :: int
  fr_FundingShareLong :: int
  fr_BlockHeight :: int
  fr_BlockTime :: int

text \<open>The key of a position holds the address behind its length, the pool and the identifier; a block
  rate lies under its height and pool.\<close>

type_synonym mtp_key = "int \<times> addr \<times> int \<times> int"

record perp_store =
  vs_params :: "PerpParams option"
  vs_mtps :: "(mtp_key, MTP) kvs"
  vs_counters :: "(int, PerpetualCounter) kvs"
  vs_whitelist :: "(int \<times> addr, addr) kvs"
  vs_pools :: "(int, PerpPool) kvs"
  vs_rates :: "(int \<times> int, PerpInterestBlock) kvs"
  vs_fundings :: "(int \<times> int, FundingRateBlock) kvs"

record 's perp_hooks =
  vh_AfterParamsChange :: "amm_Pool \<Rightarrow> PerpPool \<Rightarrow> 's \<Rightarrow> 's result"
  vh_AfterPositionOpen :: "amm_Pool \<Rightarrow> PerpPool \<Rightarrow> addr \<Rightarrow> 's \<Rightarrow> 's result"
  vh_AfterPositionModified :: "amm_Pool \<Rightarrow> PerpPool \<Rightarrow> addr \<Rightarrow> 's \<Rightarrow> 's result"
  vh_AfterPositionClosed :: "amm_Pool \<Rightarrow> PerpPool \<Rightarrow> addr \<Rightarrow> int \<Rightarrow> int \<Rightarrow> 's \<Rightarrow> 's result"

definition MultiPerpetualHooks :: "'s perp_hooks list \<Rightarrow> 's perp_hooks" where
  "MultiPerpetualHooks hs =
     \<lparr>vh_AfterParamsChange = (\<lambda>a p. run_hooks (map (\<lambda>h. vh_AfterParamsChange h a p) hs)),
      vh_AfterPositionOpen = (\<lambda>a p x. run_hooks (map (\<lambda>h. vh_AfterPositionOpen h a p x) hs)),
      vh_AfterPositionModified = (\<lambda>a p x. run_hooks (map (\<lambda>h. vh_AfterPositionModified h a p x) hs)),
      vh_AfterPositionClosed = (\<lambda>a p x r i. run_hooks (map (\<lambda>h. vh_AfterPositionClosed h a p x r i) hs))\<rparr>"

text \<open>The keeper: the amm keeper below it, the hooks above it, and where its store is.\<close>

record 'e vkeeper =
  vk_amm :: "'e mkeeper"
  vk_authority :: string
  vk_hooks :: "'e mstate perp_hooks option"
  vk_get :: "'e \<Rightarrow> perp_store"
  vk_put :: "perp_store \<Rightarrow> 'e \<Rightarrow> 'e"

abbreviation vk_sdk :: "'e vkeeper \<Rightarrow> sdk" where
  "vk_sdk k \<equiv> mk_sdk (vk_amm k)"

abbreviation vk_big :: "'e vkeeper \<Rightarrow> bigdec_ops" where
  "vk_big k \<equiv> mk_big (vk_amm k)"

abbreviation vk_dec :: "'e vkeeper \<Rightarrow> dec_ops" where
  "vk_dec k \<equiv> mk_dec (vk_amm k)"

definition vstore :: "'e vkeeper \<Rightarrow> 'e mstate \<Rightarrow> perp_store" where
  "vstore k s = vk_get k (mm_ext s)"

definition with_vstore :: "'e vkeeper \<Rightarrow> (perp_store \<Rightarrow> perp_store) \<Rightarrow> 'e mstate \<Rightarrow> 'e mstate" where
  "with_vstore k f s = set_mm_ext (vk_put k (f (vstore k s)) (mm_ext s)) s"

definition perp_ErrMTPDoesNotExist :: err where "perp_ErrMTPDoesNotExist = Sentinel ''perpetual'' 1"
definition perp_ErrInvalidPosition :: err where "perp_ErrInvalidPosition = Sentinel ''perpetual'' 6"
definition perp_ErrMaxOpenPositions :: err where "perp_ErrMaxOpenPositions = Sentinel ''perpetual'' 7"
definition perp_ErrUnauthorised :: err where "perp_ErrUnauthorised = Sentinel ''perpetual'' 8"
definition perp_ErrBorrowTooHigh :: err where "perp_ErrBorrowTooHigh = Sentinel ''perpetual'' 10"
definition perp_ErrCustodyTooHigh :: err where "perp_ErrCustodyTooHigh = Sentinel ''perpetual'' 11"
definition perp_ErrMTPUnhealthy :: err where "perp_ErrMTPUnhealthy = Sentinel ''perpetual'' 12"
definition perp_ErrInvalidCollateralAsset :: err where "perp_ErrInvalidCollateralAsset = Sentinel ''perpetual'' 13"
definition perp_ErrPoolDoesNotExist :: err where "perp_ErrPoolDoesNotExist = Sentinel ''perpetual'' 15"
definition perp_ErrBalanceNotAvailable :: err where "perp_ErrBalanceNotAvailable = Sentinel ''perpetual'' 18"
definition perp_ErrAmountTooLow :: err where "perp_ErrAmountTooLow = Sentinel ''perpetual'' 32"
definition perp_ErrInvalidLeverage :: err where "perp_ErrInvalidLeverage = Sentinel ''perpetual'' 35"
definition perp_ErrInvalidAmount :: err where "perp_ErrInvalidAmount = Sentinel ''perpetual'' 40"
definition perp_ErrZeroCustodyAmount :: err where "perp_ErrZeroCustodyAmount = Sentinel ''perpetual'' 43"
definition perp_ErrPoolNotEnabled :: err where "perp_ErrPoolNotEnabled = Sentinel ''perpetual'' 44"

text \<open>Reading a nil decimal dereferences it.\<close>

definition deref :: "'a option \<Rightarrow> 'a result" where
  "deref x = (case x of None \<Rightarrow> Inl (Panic ''nil pointer dereference'') | Some a \<Rightarrow> Inr a)"

section \<open>Parameters\<close>

definition perp_DefaultParams :: PerpParams where
  "perp_DefaultParams =
     \<lparr>pv_LeverageMax = 25 * dec_one, pv_BorrowInterestRateMax = 3 * 10 ^ 17, pv_BorrowInterestRateMin = 10 ^ 17,
      pv_BorrowInterestRateIncrease = 3 * 10 ^ 14, pv_BorrowInterestRateDecrease = 3 * 10 ^ 14,
      pv_HealthGainFactor = 22 * 10 ^ 10, pv_MaxOpenPositions = 100000,
      pv_PoolMaxLiabilitiesThreshold = 65 * 10 ^ 16, pv_BorrowInterestPaymentFundPercentage = 10 ^ 17,
      pv_SafetyFactor = 1025 * 10 ^ 15, pv_BorrowInterestPaymentEnabled = True, pv_WhitelistingEnabled = False,
      pv_PerpetualSwapFee = 10 ^ 15, pv_MaxLimitOrder = 100000, pv_FixedFundingRate = 5 * 10 ^ 17,
      pv_MinimumLongTakeProfitPriceRatio = 102 * 10 ^ 16, pv_MaximumLongTakeProfitPriceRatio = 11 * dec_one,
      pv_MaximumShortTakeProfitPriceRatio = 98 * 10 ^ 16, pv_WeightBreakingFeeFactor = 5 * 10 ^ 17,
      pv_EnabledPools = [], pv_MinimumNotionalValue = 0, pv_LongMinimumLiabilityAmount = 1,
      pv_ExitBuffer = 15 * 10 ^ 16, pv_TakerFee = 75 * 10 ^ 13\<rparr>"

text \<open>The checks in their order; decimals are not nil in the model.\<close>

definition perp_Params_Validate :: "PerpParams \<Rightarrow> unit result" where
  "perp_Params_Validate p =
     (let negative = (\<lambda>v rest. if v < 0 then Inl (Plain ''parameter is negative'') else rest) in
      negative (pv_BorrowInterestRateMax p) (
      negative (pv_BorrowInterestRateMin p) (
      if pv_BorrowInterestRateMax p < pv_BorrowInterestRateMin p
      then Inl (Plain ''BorrowInterestRateMin must be less than BorrowInterestRateMax'') else
      negative (pv_BorrowInterestRateIncrease p) (
      negative (pv_BorrowInterestRateDecrease p) (
      negative (pv_FixedFundingRate p) (
      negative (pv_HealthGainFactor p) (
      negative (pv_BorrowInterestPaymentFundPercentage p) (
      negative (pv_LeverageMax p) (
      negative (pv_MaximumLongTakeProfitPriceRatio p) (
      if pv_MaximumLongTakeProfitPriceRatio p \<le> dec_one
      then Inl (Plain ''MaximumLongTakeProfitPriceRatio must be greater than 1'') else
      negative (pv_MaximumShortTakeProfitPriceRatio p) (
      if dec_one \<le> pv_MaximumShortTakeProfitPriceRatio p
      then Inl (Plain ''MaximumShortTakeProfitPriceRatio must be less than 1'') else
      negative (pv_MinimumLongTakeProfitPriceRatio p) (
      if pv_MinimumLongTakeProfitPriceRatio p \<le> dec_one
      then Inl (Plain ''MinimumLongTakeProfitPriceRatio must be greater than 1'') else
      if pv_MaximumLongTakeProfitPriceRatio p \<le> pv_MinimumLongTakeProfitPriceRatio p
      then Inl (Plain ''MaximumLongTakeProfitPriceRatio must be greater than MinimumLongTakeProfitPriceRatio'') else
      negative (pv_PerpetualSwapFee p) (
      negative (pv_PoolMaxLiabilitiesThreshold p) (
      negative (pv_SafetyFactor p) (
      negative (pv_WeightBreakingFeeFactor p) (
      if \<not> distinct (pv_EnabledPools p) then Inl (Plain ''array must not contain duplicate values'') else
      negative (pv_ExitBuffer p) (
      negative (pv_TakerFee p) (
      if dec_one \<le> pv_TakerFee p then Inl (Plain ''TakerFee must be less than 1'') else Inr ()
      ))))))))))))))))))"

text \<open>An empty store gives Go's zero value, whose numbers are nil: as what they are, zero.\<close>

definition zero_perp_params :: PerpParams where
  "zero_perp_params =
     \<lparr>pv_LeverageMax = 0, pv_BorrowInterestRateMax = 0, pv_BorrowInterestRateMin = 0,
      pv_BorrowInterestRateIncrease = 0, pv_BorrowInterestRateDecrease = 0, pv_HealthGainFactor = 0,
      pv_MaxOpenPositions = 0, pv_PoolMaxLiabilitiesThreshold = 0, pv_BorrowInterestPaymentFundPercentage = 0,
      pv_SafetyFactor = 0, pv_BorrowInterestPaymentEnabled = False, pv_WhitelistingEnabled = False,
      pv_PerpetualSwapFee = 0, pv_MaxLimitOrder = 0, pv_FixedFundingRate = 0,
      pv_MinimumLongTakeProfitPriceRatio = 0, pv_MaximumLongTakeProfitPriceRatio = 0,
      pv_MaximumShortTakeProfitPriceRatio = 0, pv_WeightBreakingFeeFactor = 0, pv_EnabledPools = [],
      pv_MinimumNotionalValue = 0, pv_LongMinimumLiabilityAmount = 0, pv_ExitBuffer = 0, pv_TakerFee = 0\<rparr>"

definition perp_GetParams :: "'e vkeeper \<Rightarrow> 'e mstate \<Rightarrow> PerpParams" where
  "perp_GetParams k s = (case vs_params (vstore k s) of None \<Rightarrow> zero_perp_params | Some p \<Rightarrow> p)"

definition perp_SetParams :: "'e vkeeper \<Rightarrow> PerpParams \<Rightarrow> 'e mstate \<Rightarrow> 'e mstate result" where
  "perp_SetParams k params s =
     rbind (perp_Params_Validate params) (\<lambda>_. Inr (with_vstore k (vs_params_update (\<lambda>_. Some params)) s))"

section \<open>Pools\<close>

definition perp_GetPool :: "'e vkeeper \<Rightarrow> 'e mstate \<Rightarrow> int \<Rightarrow> PerpPool option" where
  "perp_GetPool k s poolId = kv_get (vs_pools (vstore k s)) poolId"

definition perp_SetPool :: "'e vkeeper \<Rightarrow> PerpPool \<Rightarrow> 'e mstate \<Rightarrow> 'e mstate" where
  "perp_SetPool k pool = with_vstore k (vs_pools_update (kv_set (pl_AmmPoolId pool) pool))"

definition perp_RemovePool :: "'e vkeeper \<Rightarrow> int \<Rightarrow> 'e mstate \<Rightarrow> 'e mstate" where
  "perp_RemovePool k index = with_vstore k (vs_pools_update (kv_del index))"

definition perp_GetAllPools :: "'e vkeeper \<Rightarrow> 'e mstate \<Rightarrow> PerpPool list" where
  "perp_GetAllPools k s = map snd (vs_pools (vstore k s))"

definition GetBaseCurreny :: "'e vkeeper \<Rightarrow> 'e mstate \<Rightarrow> Entry option" where
  "GetBaseCurreny k s = k_GetEntry (mk_commitment (vk_amm k)) (mm_ext s) BaseCurrency"

definition keeper_GetTradingAsset :: "'e vkeeper \<Rightarrow> 'e mstate \<Rightarrow> int \<Rightarrow> string result" where
  "keeper_GetTradingAsset k s poolId =
     (case perp_GetPool k s poolId of
        None \<Rightarrow> Inl (Plain ''pool not found'')
      | Some pool \<Rightarrow>
          (case GetBaseCurreny k s of
             None \<Rightarrow> Inl ErrAssetProfileNotFound
           | Some entry \<Rightarrow> GetTradingAsset pool (en_Denom entry)))"

definition perp_GetAmmPool :: "'e mstate \<Rightarrow> int \<Rightarrow> amm_Pool result" where
  "perp_GetAmmPool s poolId =
     (case amm_GetPool s poolId of None \<Rightarrow> Inl perp_ErrPoolDoesNotExist | Some p \<Rightarrow> Inr p)"

section \<open>Counters, positions, the whitelist\<close>

text \<open>A counter that is not there is stored as zero when it is read.\<close>

definition GetPerpetualCounter :: "'e vkeeper \<Rightarrow> int \<Rightarrow> 'e mstate \<Rightarrow> 'e mstate \<times> PerpetualCounter" where
  "GetPerpetualCounter k poolId s =
     (case kv_get (vs_counters (vstore k s)) poolId of
        Some v \<Rightarrow> (s, v)
      | None \<Rightarrow>
          let v = \<lparr>pc_AmmPoolId = poolId, pc_Counter = 0, pc_TotalOpen = 0\<rparr>
          in (with_vstore k (vs_counters_update (kv_set poolId v)) s, v))"

definition SetPerpetualCounter :: "'e vkeeper \<Rightarrow> PerpetualCounter \<Rightarrow> 'e mstate \<Rightarrow> 'e mstate" where
  "SetPerpetualCounter k v = with_vstore k (vs_counters_update (kv_set (pc_AmmPoolId v) v))"

definition GetAllPerpetualCounter :: "'e vkeeper \<Rightarrow> 'e mstate \<Rightarrow> PerpetualCounter list" where
  "GetAllPerpetualCounter k s = map snd (vs_counters (vstore k s))"

definition GetMTPKey :: "addr \<Rightarrow> int \<Rightarrow> int \<Rightarrow> mtp_key" where
  "GetMTPKey address poolId i = (int (length address), address, poolId, i)"

text \<open>\<open>SetMTP\<close> gives a position without an identifier the next one of its pool, in place.\<close>

definition SetMTP :: "'e vkeeper \<Rightarrow> MTP \<Rightarrow> 'e mstate \<Rightarrow> ('e mstate \<times> MTP) result" where
  "SetMTP k mtp s =
     (let (s1, mtp1) =
        (if mt_Id mtp = 0
         then let (s1, perpetualCounter) = GetPerpetualCounter k (mt_AmmPoolId mtp) s;
                  i = u64 (pc_Counter perpetualCounter + 1)
              in (SetPerpetualCounter k (perpetualCounter\<lparr>pc_Counter := i,
                    pc_TotalOpen := u64 (pc_TotalOpen perpetualCounter + 1)\<rparr>) s1, mtp\<lparr>mt_Id := i\<rparr>)
         else (s, mtp))
      in rbind (MTP_Validate mtp1) (\<lambda>_.
         rbind (GetAccountAddress (vk_sdk k) mtp1) (\<lambda>address.
           Inr (with_vstore k (vs_mtps_update (kv_set (GetMTPKey address (mt_AmmPoolId mtp1) (mt_Id mtp1)) mtp1)) s1,
                mtp1))))"

definition DestroyMTP :: "'e vkeeper \<Rightarrow> MTP \<Rightarrow> 'e mstate \<Rightarrow> 'e mstate result" where
  "DestroyMTP k mtp s =
     rbind (GetAccountAddress (vk_sdk k) mtp) (\<lambda>address.
       let s1 = with_vstore k (vs_mtps_update (kv_del (GetMTPKey address (mt_AmmPoolId mtp) (mt_Id mtp)))) s;
           (s2, perpetualCounter) = GetPerpetualCounter k (mt_AmmPoolId mtp) s1
       in Inr (SetPerpetualCounter k (perpetualCounter\<lparr>pc_TotalOpen := u64 (pc_TotalOpen perpetualCounter - 1)\<rparr>) s2))"

definition GetMTP :: "'e vkeeper \<Rightarrow> 'e mstate \<Rightarrow> int \<Rightarrow> addr \<Rightarrow> int \<Rightarrow> MTP result" where
  "GetMTP k s poolId mtpAddress i =
     (case kv_get (vs_mtps (vstore k s)) (GetMTPKey mtpAddress poolId i) of
        None \<Rightarrow> Inl perp_ErrMTPDoesNotExist
      | Some mtp \<Rightarrow> Inr mtp)"

definition GetAllMTPs :: "'e vkeeper \<Rightarrow> 'e mstate \<Rightarrow> MTP list" where
  "GetAllMTPs k s = map snd (vs_mtps (vstore k s))"

definition GetAllMTPsForAddress :: "'e vkeeper \<Rightarrow> 'e mstate \<Rightarrow> addr \<Rightarrow> MTP list" where
  "GetAllMTPsForAddress k s mtpAddress =
     map snd (filter (\<lambda>((n, a, p, i), mtp). a = mtpAddress) (vs_mtps (vstore k s)))"

definition GetAllMTPsForAddressAndByPool :: "'e vkeeper \<Rightarrow> 'e mstate \<Rightarrow> addr \<Rightarrow> int \<Rightarrow> MTP list" where
  "GetAllMTPsForAddressAndByPool k s mtpAddress poolId =
     map snd (filter (\<lambda>((n, a, p, i), mtp). a = mtpAddress \<and> p = poolId) (vs_mtps (vstore k s)))"

definition CheckIfWhitelisted :: "'e vkeeper \<Rightarrow> 'e mstate \<Rightarrow> addr \<Rightarrow> bool" where
  "CheckIfWhitelisted k s address \<longleftrightarrow> kv_has (vs_whitelist (vstore k s)) (int (length address), address)"

definition WhitelistAddress :: "'e vkeeper \<Rightarrow> addr \<Rightarrow> 'e mstate \<Rightarrow> 'e mstate" where
  "WhitelistAddress k address = with_vstore k (vs_whitelist_update (kv_set (int (length address), address) address))"

definition DewhitelistAddress :: "'e vkeeper \<Rightarrow> addr \<Rightarrow> 'e mstate \<Rightarrow> 'e mstate" where
  "DewhitelistAddress k address = with_vstore k (vs_whitelist_update (kv_del (int (length address), address)))"

definition GetAllWhitelistedAddress :: "'e vkeeper \<Rightarrow> 'e mstate \<Rightarrow> addr list" where
  "GetAllWhitelistedAddress k s = map snd (vs_whitelist (vstore k s))"

section \<open>Prices\<close>

text \<open>The price of an asset in base currency: in dollars, and as a ratio of smallest units.\<close>

definition unit_ratio :: "'e vkeeper \<Rightarrow> int \<Rightarrow> int \<Rightarrow> int \<Rightarrow> int result" where
  "unit_ratio k assetDecimal usdcDecimal price =
     (if assetDecimal < usdcDecimal
      then rbind (Pow10Int64 (usdcDecimal - assetDecimal)) (\<lambda>m. Inr (BigDecFromDec price * m))
      else rbind (Pow10Int64 (assetDecimal - usdcDecimal)) (\<lambda>m. BQuoInt64 (vk_big k) (BigDecFromDec price) m))"

definition GetAssetPriceAndAssetUsdcDenomRatio :: "'e vkeeper \<Rightarrow> 'e mstate \<Rightarrow> string \<Rightarrow> (int \<times> int) result" where
  "GetAssetPriceAndAssetUsdcDenomRatio k s asset =
     (case mk_GetAssetInfo (vk_amm k) (mm_ext s) asset of
        None \<Rightarrow> Inl (Plain ''asset info not found'')
      | Some (display, assetDecimal) \<Rightarrow>
     (case GetBaseCurreny k s of
        None \<Rightarrow> Inl (Plain ''asset info not found'')
      | Some USDCInfo \<Rightarrow>
     (case mk_GetAssetPrice (vk_amm k) (mm_ext s) display of
        None \<Rightarrow> Inl (Plain ''asset price not found'')
      | Some assetPrice \<Rightarrow>
     if assetPrice = 0 then Inl (Plain ''asset price is zero'') else
     (case mk_GetAssetPrice (vk_amm k) (mm_ext s) (en_DisplayName USDCInfo) of
        None \<Rightarrow> Inl (Plain ''asset price not found'')
      | Some USDCPrice \<Rightarrow>
     if USDCPrice = 0 then Inl (Plain ''asset price is zero'') else
     rbind (DQuo (vk_dec k) assetPrice USDCPrice) (\<lambda>price.
     rbind (unit_ratio k assetDecimal (en_Decimals USDCInfo) price) (\<lambda>ratio. Inr (assetPrice, ratio)))))))"

definition ConvertPriceToAssetUsdcDenomRatio :: "'e vkeeper \<Rightarrow> 'e mstate \<Rightarrow> string \<Rightarrow> int \<Rightarrow> int result" where
  "ConvertPriceToAssetUsdcDenomRatio k s asset price =
     (case mk_GetAssetInfo (vk_amm k) (mm_ext s) asset of
        None \<Rightarrow> Inl (Plain ''asset info not found'')
      | Some (display, assetDecimal) \<Rightarrow>
     (case GetBaseCurreny k s of
        None \<Rightarrow> Inl (Plain ''asset info not found'')
      | Some USDCInfo \<Rightarrow>
     (case mk_GetAssetPrice (vk_amm k) (mm_ext s) (en_DisplayName USDCInfo) of
        None \<Rightarrow> Inl (Plain ''asset price not found'')
      | Some USDCPrice \<Rightarrow>
     rbind (DQuo (vk_dec k) price USDCPrice) (\<lambda>q. unit_ratio k assetDecimal (en_Decimals USDCInfo) q))))"

definition perp_GetDenomPrice :: "'e vkeeper \<Rightarrow> 'e mstate \<Rightarrow> string \<Rightarrow> int result" where
  "perp_GetDenomPrice k s denom =
     (let price = mk_GetDenomPrice (vk_amm k) (mm_ext s) denom
      in if price = 0 then Inl (Plain ''denom price is zero'') else Inr price)"

definition GetDenomDecimal :: "'e vkeeper \<Rightarrow> 'e mstate \<Rightarrow> string \<Rightarrow> int result" where
  "GetDenomDecimal k s denom =
     (case mk_GetAssetInfo (vk_amm k) (mm_ext s) denom of
        None \<Rightarrow> Inl (Plain ''asset info not found'')
      | Some (display, assetDecimal) \<Rightarrow> Inr assetDecimal)"

definition ConvertDenomRatioPriceToUSDPrice :: "'e vkeeper \<Rightarrow> 'e mstate \<Rightarrow> int \<Rightarrow> string \<Rightarrow> int result" where
  "ConvertDenomRatioPriceToUSDPrice k s denomRatioPrice tradingAssetDenom =
     (case GetBaseCurreny k s of
        None \<Rightarrow> Inl (Plain ''asset info not found'')
      | Some USDCInfo \<Rightarrow>
     rbind (perp_GetDenomPrice k s (en_Denom USDCInfo)) (\<lambda>baseCurrencyDenomPrice.
     rbind (GetDenomDecimal k s tradingAssetDenom) (\<lambda>decimal.
     rbind (Pow10Int64 decimal) (\<lambda>m.
       Inr (BDec (vk_big k) (BMul (vk_big k) denomRatioPrice baseCurrencyDenomPrice * m))))))"

definition GetUSDCPrice :: "'e vkeeper \<Rightarrow> 'e mstate \<Rightarrow> int result" where
  "GetUSDCPrice k s =
     (case GetBaseCurreny k s of
        None \<Rightarrow> Inl (Plain ''asset info not found'')
      | Some USDCInfo \<Rightarrow>
     (case mk_GetAssetPrice (vk_amm k) (mm_ext s) (en_DisplayName USDCInfo) of
        None \<Rightarrow> Inl (Plain ''asset price not found'')
      | Some USDCPrice \<Rightarrow> Inr USDCPrice))"

end
