(* ===== verification/PerpSwap.thy ===== *)
theory PerpSwap
  imports PerpStore
begin

text \<open>
  What the perpetual keeper does with the amm (x/perpetual/keeper: \<open>amm.go\<close>, the transfers and fees
  of \<open>keeper.go\<close>, \<open>pool_health.go\<close>, \<open>hooks_amm.go\<close>, \<open>hooks_leveragelp.go\<close>): estimates of swaps,
  coins that enter and leave an amm pool, the fees of a trade, and the health of a pool.
\<close>

section \<open>Estimates\<close>

definition getWeightBreakingFee :: "int \<Rightarrow> int" where
  "getWeightBreakingFee weightBalanceBonus = (if weightBalanceBonus < 0 then - weightBalanceBonus else 0)"

record swap_estimate =
  ve_Amount :: int
  ve_Slippage :: int
  ve_SlippageAmount :: int
  ve_WeightBreakingFee :: int
  ve_OracleAmount :: int
  ve_PerpetualFees :: int
  ve_TakerFees :: int

text \<open>The discount of the owner's tier; an address that does not parse has that of the empty one.\<close>

definition perpetual_fee :: "'e vkeeper \<Rightarrow> 'e mstate \<Rightarrow> addr \<Rightarrow> int" where
  "perpetual_fee k s address =
     ApplyDiscount (vk_big k) (BigDecFromDec (pv_PerpetualSwapFee (perp_GetParams k s)))
       (BigDecFromDec (mk_Discount (vk_amm k) (mm_ext s) address))"

definition estimate_of :: "'e vkeeper \<Rightarrow> 'e mstate \<Rightarrow> string \<Rightarrow> swap_quote \<Rightarrow> swap_estimate" where
  "estimate_of k s owner q =
     \<lparr>ve_Amount = Amount (sq_Token q), ve_Slippage = sq_Slippage q, ve_SlippageAmount = sq_SlippageAmount q,
      ve_WeightBreakingFee = getWeightBreakingFee (sq_WeightBalanceBonus q), ve_OracleAmount = sq_OracleAmount q,
      ve_PerpetualFees = BDec (vk_big k) (perpetual_fee k s
        (case AccAddressFromBech32 (vk_sdk k) owner of Inl e \<Rightarrow> [] | Inr address \<Rightarrow> address)),
      ve_TakerFees = BDec (vk_big k) (BigDecFromDec (pv_TakerFee (perp_GetParams k s)))\<rparr>"

definition EstimateSwapGivenIn ::
    "'e vkeeper \<Rightarrow> 'e mstate \<Rightarrow> coin \<Rightarrow> string \<Rightarrow> amm_Pool \<Rightarrow> string \<Rightarrow> swap_estimate result" where
  "EstimateSwapGivenIn k s tokenInAmount tokenOutDenom ammPool owner =
     (if Amount tokenInAmount = 0 then Inl (Plain ''tokenInAmount is zero for EstimateSwapGivenIn'')
      else rbind (GetPoolWithAccountedBalance (vk_amm k) s (am_PoolId ammPool)) (\<lambda>snapshot.
           rbind (keeper_SwapOutAmtGivenIn (vk_amm k) s (am_PoolId ammPool) snapshot [tokenInAmount] tokenOutDenom 0
                    (BigDecFromDec (pv_WeightBreakingFeeFactor (perp_GetParams k s))) 0) (\<lambda>q.
           if Amount (sq_Token q) = 0 then Inl perp_ErrAmountTooLow else Inr (estimate_of k s owner q))))"

definition EstimateSwapGivenOut ::
    "'e vkeeper \<Rightarrow> 'e mstate \<Rightarrow> coin \<Rightarrow> string \<Rightarrow> amm_Pool \<Rightarrow> string \<Rightarrow> swap_estimate result" where
  "EstimateSwapGivenOut k s tokenOutAmount tokenInDenom ammPool owner =
     (if Amount tokenOutAmount = 0 then Inl (Plain ''tokenOutAmount is zero for EstimateSwapGivenOut'')
      else rbind (GetPoolWithAccountedBalance (vk_amm k) s (am_PoolId ammPool)) (\<lambda>snapshot.
           rbind (keeper_SwapInAmtGivenOut (vk_amm k) s (am_PoolId ammPool) snapshot [tokenOutAmount] tokenInDenom 0
                    (BigDecFromDec (pv_WeightBreakingFeeFactor (perp_GetParams k s))) 0) (\<lambda>q.
           if Amount (sq_Token q) = 0 then Inl perp_ErrAmountTooLow else Inr (estimate_of k s owner q))))"

text \<open>\<open>x.Dec().RoundInt()\<close> of a \<open>BigDec\<close>.\<close>

definition round_big :: "'e vkeeper \<Rightarrow> int \<Rightarrow> int" where
  "round_big k x = DRoundInt (vk_dec k) (BDec (vk_big k) x)"

definition CalculatePerpetualFees ::
    "'e vkeeper \<Rightarrow> bool \<Rightarrow> coin \<Rightarrow> coin \<Rightarrow> int \<Rightarrow> int \<Rightarrow> int \<Rightarrow> int \<Rightarrow> int \<Rightarrow> bool \<Rightarrow> bool \<Rightarrow> PerpetualFees result" where
  "CalculatePerpetualFees k poolIsOracle tokenIn tokenOut slippageAmount weightBreakingFee perpetualFees
       perpsTakersFee oracleInAmount isSwapGivenIn calculatePerpAndTakerFees =
     (let B = vk_big k; D = vk_dec k; S = vk_sdk k in
      rbind (if \<not> calculatePerpAndTakerFees then Inr ([], [])
             else rbind (if \<not> isSwapGivenIn \<and> poolIsOracle
                         then rbind (NewCoin S (Denom tokenIn) (DTruncateInt D (BDec B oracleInAmount))) (\<lambda>c. NewCoins S [c])
                         else Inr [tokenIn]) (\<lambda>takeFeesFrom.
                  rbind (if 0 < perpetualFees then PortionCoins (vk_amm k) takeFeesFrom (BigDecFromDec perpetualFees)
                         else Inr []) (\<lambda>perpFeesCoins.
                  rbind (if 0 < perpsTakersFee then PortionCoins (vk_amm k) takeFeesFrom (BigDecFromDec perpsTakersFee)
                         else Inr []) (\<lambda>takerFeesCoins. Inr (perpFeesCoins, takerFeesCoins))))) (\<lambda>(perpFeesCoins, takerFeesCoins).
      rbind (NewCoin S (Denom (if isSwapGivenIn then tokenOut else tokenIn)) (round_big k slippageAmount)) (\<lambda>slippage.
      rbind (if weightBreakingFee = 0 then Inr []
             else rbind (NewCoin S (Denom tokenIn) (round_big k (BMul B
                    (if isSwapGivenIn then BigDecFromSDKInt (Amount tokenIn) else oracleInAmount) weightBreakingFee)))
                    (\<lambda>c. Inr [c])) (\<lambda>weightBreakingFeesCoins.
        Inr \<lparr>pf_PerpFees = perpFeesCoins, pf_SlippageFees = [slippage], pf_WeightBreakingFees = weightBreakingFeesCoins,
             pf_TakerFees = takerFeesCoins\<rparr>))))"

text \<open>The amm's records of slippage and weight breaking fees, which every trade updates.\<close>

definition track_fees :: "'e vkeeper \<Rightarrow> block_ctx \<Rightarrow> int \<Rightarrow> PerpetualFees \<Rightarrow> 'e mstate \<Rightarrow> 'e mstate" where
  "track_fees k ctx poolId fees s =
     fold (\<lambda>c s. if 0 < Amount c then TrackWeightBreakingSlippage (vk_amm k) ctx poolId c s else s)
       (pf_WeightBreakingFees fees)
       (fold (\<lambda>c s. TrackWeightBreakingSlippage (vk_amm k) ctx poolId c (TrackSlippage (vk_amm k) ctx poolId c s))
         (pf_SlippageFees fees) s)"

section \<open>Coins in and out of the amm pool\<close>

text \<open>A result next to a pool, where an error drops the pool with the transaction.\<close>

definition pool_result :: "amm_Pool \<times> 's result \<Rightarrow> ('s \<times> amm_Pool) result" where
  "pool_result m = rbind (snd m) (\<lambda>s. Inr (s, fst m))"

definition SendToAmmPool ::
    "'e vkeeper \<Rightarrow> addr \<Rightarrow> amm_Pool \<Rightarrow> coins \<Rightarrow> 'e mstate \<Rightarrow> ('e mstate \<times> amm_Pool) result" where
  "SendToAmmPool k senderAddress ammPool cs s =
     rbind (AccAddressFromBech32 (vk_sdk k) (am_Address ammPool)) (\<lambda>ammPoolAddr.
     rbind (send (vk_amm k) senderAddress ammPoolAddr cs s) (\<lambda>s1.
       pool_result (AddToPoolBalanceAndUpdateLiquidity 0 cs ammPool s1)))"

definition SendFromAmmPool ::
    "'e vkeeper \<Rightarrow> amm_Pool \<Rightarrow> addr \<Rightarrow> coins \<Rightarrow> 'e mstate \<Rightarrow> ('e mstate \<times> amm_Pool) result" where
  "SendFromAmmPool k ammPool receiverAddress cs s =
     rbind (AccAddressFromBech32 (vk_sdk k) (am_Address ammPool)) (\<lambda>ammPoolAddr.
     rbind (send (vk_amm k) ammPoolAddr receiverAddress cs s) (\<lambda>s1.
       pool_result (RemoveFromPoolBalanceAndUpdateLiquidity (vk_amm k) 0 cs ammPool s1)))"

definition CollectInsuranceFund ::
    "'e vkeeper \<Rightarrow> int \<Rightarrow> string \<Rightarrow> amm_Pool \<Rightarrow> PerpPool \<Rightarrow> 'e mstate \<Rightarrow> ('e mstate \<times> amm_Pool \<times> int) result" where
  "CollectInsuranceFund k amount returnAsset ammPool pool s =
     (let insuranceAmount = DTruncateInt (vk_dec k) (pv_BorrowInterestPaymentFundPercentage (perp_GetParams k s) * amount)
      in if insuranceAmount = 0 then Inr (s, ammPool, insuranceAmount)
         else rbind (NewCoin (vk_sdk k) returnAsset insuranceAmount) (\<lambda>c.
              rbind (NewCoins (vk_sdk k) [c]) (\<lambda>takeCoins.
              rbind (SendFromAmmPool k ammPool (GetInsuranceAccount (vk_sdk k) pool) takeCoins s) (\<lambda>(s1, ammPool1).
                Inr (s1, ammPool1, insuranceAmount)))))"

text \<open>The sender pays two fees on an amount: the swap fee to the treasury, turned into revenue, and
  the taker fee; together at most \<open>maxTotalFees\<close>. The pool's own balances are not changed here, also
  when the sender is the pool's account.\<close>

definition fee_parts :: "'e vkeeper \<Rightarrow> 'e mstate \<Rightarrow> addr \<Rightarrow> int \<Rightarrow> int \<Rightarrow> (int \<times> int) result" where
  "fee_parts k s tierAddress amount maxTotalFees =
     (let D = vk_dec k;
          toMasterchef = DTruncateInt D (DMul D (BDec (vk_big k) (perpetual_fee k s tierAddress)) (dec_of_int amount));
          toTakers = DTruncateInt D (DMul D (BDec (vk_big k) (BigDecFromDec (pv_TakerFee (perp_GetParams k s)))) (dec_of_int amount));
          totalCalcFees = toMasterchef + toTakers
      in if 0 < maxTotalFees \<and> maxTotalFees < totalCalcFees
         then rbind (int_quo (maxTotalFees * toMasterchef) totalCalcFees) (\<lambda>m.
              rbind (int_quo (maxTotalFees * toTakers) totalCalcFees) (\<lambda>t. Inr (m, t)))
         else Inr (toMasterchef, toTakers))"

definition pay_swap_fee ::
    "'e vkeeper \<Rightarrow> block_ctx \<Rightarrow> addr \<Rightarrow> string \<Rightarrow> int \<Rightarrow> amm_Pool \<Rightarrow> PerpetualFees \<Rightarrow> 'e mstate \<Rightarrow>
       ('e mstate \<times> amm_Pool \<times> PerpetualFees) result" where
  "pay_swap_fee k ctx senderAddress denom n ammPool perpFees s =
     (if \<not> 0 < n then Inr (s, ammPool, perpFees)
      else rbind (MustAccAddress (vk_sdk k) (am_RebalanceTreasury ammPool)) (\<lambda>rebalanceTreasury.
           rbind (NewCoin (vk_sdk k) denom n) (\<lambda>c.
           rbind (NewCoins (vk_sdk k) [c]) (\<lambda>cs.
           rbind (send (vk_amm k) senderAddress rebalanceTreasury cs s) (\<lambda>s1.
           rbind (pool_result (OnCollectFee (vk_amm k) ctx ammPool cs s1)) (\<lambda>(s2, ammPool1).
             Inr (s2, ammPool1, perpFees\<lparr>pf_PerpFees := CoinsAdd (vk_sdk k) (pf_PerpFees perpFees) [c]\<rparr>)))))))"

definition pay_taker_fee ::
    "'e vkeeper \<Rightarrow> addr \<Rightarrow> string \<Rightarrow> int \<Rightarrow> PerpetualFees \<Rightarrow> 'e mstate \<Rightarrow> ('e mstate \<times> PerpetualFees) result" where
  "pay_taker_fee k senderAddress denom n perpFees s =
     (if \<not> 0 < n then Inr (s, perpFees)
      else rbind (AccAddressFromBech32 (vk_sdk k) (pr_TakerFeeCollectionAddress (mk_parameter (vk_amm k) (mm_ext s)))) (\<lambda>takerAddress.
           rbind (NewCoin (vk_sdk k) denom n) (\<lambda>c.
           rbind (NewCoins (vk_sdk k) [c]) (\<lambda>cs.
           rbind (send (vk_amm k) senderAddress takerAddress cs s) (\<lambda>s1.
             Inr (s1, perpFees\<lparr>pf_TakerFees := CoinsAdd (vk_sdk k) (pf_TakerFees perpFees) [c]\<rparr>))))))"

definition SendFeesToPoolRevenueAndTakerCollection ::
    "'e vkeeper \<Rightarrow> block_ctx \<Rightarrow> addr \<Rightarrow> string \<Rightarrow> int \<Rightarrow> string \<Rightarrow> amm_Pool \<Rightarrow> PerpetualFees \<Rightarrow> int \<Rightarrow> 'e mstate \<Rightarrow>
       ('e mstate \<times> amm_Pool \<times> PerpetualFees \<times> int) result" where
  "SendFeesToPoolRevenueAndTakerCollection k ctx senderAddress tierAddressStr liabilitiesInCollateral collateralDenom
       ammPool perpFees maxTotalFees s =
     rbind (AccAddressFromBech32 (vk_sdk k) tierAddressStr) (\<lambda>tierAddress.
     rbind (fee_parts k s tierAddress liabilitiesInCollateral maxTotalFees) (\<lambda>(toMasterchef, toTakers).
     rbind (pay_swap_fee k ctx senderAddress collateralDenom toMasterchef ammPool perpFees s) (\<lambda>(s1, ammPool1, perpFees1).
     rbind (pay_taker_fee k senderAddress collateralDenom toTakers perpFees1 s1) (\<lambda>(s2, perpFees2).
       Inr (s2, ammPool1, perpFees2, toMasterchef + toTakers)))))"

text \<open>The values of the fees in dollars go into events only, but a panic on the way ends the
  message.\<close>

definition GetPerpFeesInUSD :: "'e vkeeper \<Rightarrow> 'e mstate \<Rightarrow> PerpetualFees \<Rightarrow> (int \<times> int \<times> int \<times> int) result" where
  "GetPerpFeesInUSD k s perpFeesCoins =
     (let usd = (\<lambda>cs. rbind (CalculateCoinsUSDValue (vk_amm k) s cs 0) (\<lambda>v. Inr (BDec (vk_big k) v)))
      in rbind (usd (pf_PerpFees perpFeesCoins)) (\<lambda>a.
         rbind (usd (pf_SlippageFees perpFeesCoins)) (\<lambda>b.
         rbind (usd (pf_WeightBreakingFees perpFeesCoins)) (\<lambda>c.
         rbind (usd (pf_TakerFees perpFeesCoins)) (\<lambda>d. Inr (a, b, c, d))))))"

section \<open>The health of a pool\<close>

text \<open>The ratio of the last asset with liabilities; an asset that the amm pool does not have makes it
  zero.\<close>

fun liabilities_ratio :: "'e vkeeper \<Rightarrow> amm_Pool \<Rightarrow> PerpAsset list \<Rightarrow> int \<Rightarrow> int result" where
  "liabilities_ratio k ammPool [] H = Inr H"
| "liabilities_ratio k ammPool (asset # assets) H =
     (if pe_Liabilities asset = 0 then liabilities_ratio k ammPool assets H
      else (case GetAmmPoolBalance ammPool (pe_AssetDenom asset) of
              Inl e \<Rightarrow> Inr 0
            | Inr ammBalance \<Rightarrow>
                if ammBalance + pe_Liabilities asset = 0 then Inr 0
                else rbind (DQuo (vk_dec k) (dec_of_int (pe_Liabilities asset)) (dec_of_int (ammBalance + pe_Liabilities asset)))
                       (\<lambda>r. liabilities_ratio k ammPool assets r)))"

definition CalculateLiabilitiesRatioByPosition ::
    "'e vkeeper \<Rightarrow> PerpPool \<Rightarrow> amm_Pool \<Rightarrow> Position \<Rightarrow> int result" where
  "CalculateLiabilitiesRatioByPosition k pool ammPool position =
     liabilities_ratio k ammPool (GetPoolAssets pool position) 0"

definition UpdatePoolHealth :: "'e vkeeper \<Rightarrow> PerpPool \<Rightarrow> 'e mstate \<Rightarrow> ('e mstate \<times> PerpPool) result" where
  "UpdatePoolHealth k pool s =
     (case amm_GetPool s (pl_AmmPoolId pool) of
        None \<Rightarrow> Inl (Plain ''amm pool not found while calculating pool health'')
      | Some ammPool \<Rightarrow>
          rbind (CalculateLiabilitiesRatioByPosition k pool ammPool Position_LONG) (\<lambda>base.
          rbind (CalculateLiabilitiesRatioByPosition k pool ammPool Position_SHORT) (\<lambda>quote.
            let pool1 = pool\<lparr>pl_BaseAssetLiabilitiesRatio := base, pl_QuoteAssetLiabilitiesRatio := quote\<rparr>
            in Inr (perp_SetPool k pool1 s, pool1))))"

text \<open>No asset of the amm pool may be held in custody beyond what the pool has of it.\<close>

fun custody_covered :: "PerpPool \<Rightarrow> PoolAsset list \<Rightarrow> unit result" where
  "custody_covered pool [] = Inr ()"
| "custody_covered pool (asset # assets) =
     rbind (GetPerpetualPoolBalances pool (Denom (pa_Token asset))) (\<lambda>(_, totalCustody).
       if Amount (pa_Token asset) < totalCustody
       then Inl (Plain ''real amm pool balance is less than total custody'')
       else custody_covered pool assets)"

definition CheckMinimumCustodyAmt :: "'e vkeeper \<Rightarrow> 'e mstate \<Rightarrow> int \<Rightarrow> unit result" where
  "CheckMinimumCustodyAmt k s poolId =
     (case perp_GetPool k s poolId of
        None \<Rightarrow> Inl perp_ErrPoolDoesNotExist
      | Some pool \<Rightarrow>
          rbind (perp_GetAmmPool s (pl_AmmPoolId pool)) (\<lambda>ammPool. custody_covered pool (am_PoolAssets ammPool)))"

definition CheckLowPoolHealthAndMinimumCustody :: "'e vkeeper \<Rightarrow> 'e mstate \<Rightarrow> int \<Rightarrow> bool \<Rightarrow> unit result" where
  "CheckLowPoolHealthAndMinimumCustody k s poolId openedPosition =
     (case perp_GetPool k s poolId of
        None \<Rightarrow> Inl perp_ErrPoolDoesNotExist
      | Some pool \<Rightarrow>
          let params = perp_GetParams k s;
              allowed = (if openedPosition then pv_PoolMaxLiabilitiesThreshold params
                         else pv_PoolMaxLiabilitiesThreshold params + pv_ExitBuffer params)
          in if allowed \<le> pl_BaseAssetLiabilitiesRatio pool then Inl perp_ErrInvalidPosition
             else if allowed \<le> pl_QuoteAssetLiabilitiesRatio pool then Inl perp_ErrInvalidPosition
             else CheckMinimumCustodyAmt k s poolId)"

definition GetPoolTotalBaseCurrencyLiabilities :: "'e vkeeper \<Rightarrow> 'e mstate \<Rightarrow> PerpPool \<Rightarrow> coin result" where
  "GetPoolTotalBaseCurrencyLiabilities k s pool =
     (case GetBaseCurreny k s of
        None \<Rightarrow> Inl ErrAssetProfileNotFound
      | Some entry \<Rightarrow>
          let baseCurrency = en_Denom entry;
              tradingAsset = (case GetTradingAsset pool baseCurrency of Inl e \<Rightarrow> [] | Inr d \<Rightarrow> d)
          in rbind (GetAssetPriceAndAssetUsdcDenomRatio k s tradingAsset) (\<lambda>(_, price).
             NewCoin (vk_sdk k) baseCurrency
               (sum_list (map pe_Liabilities (pl_PoolAssetsLong pool)) +
                sum_list (map (\<lambda>a. DTruncateInt (vk_dec k) (BDec (vk_big k) (BMul (vk_big k)
                  (BigDecFromSDKInt (pe_Liabilities a)) price))) (pl_PoolAssetsShort pool)))))"

section \<open>Hooks\<close>

text \<open>What the amm's joins, exits and swaps call, and what the leveragelp's positions do: the second
  demands a perpetual pool.\<close>

definition recheck :: "'e vkeeper \<Rightarrow> PerpPool \<Rightarrow> int \<Rightarrow> 'e mstate \<Rightarrow> 'e mstate result" where
  "recheck k perpetualPool poolId s =
     rbind (UpdatePoolHealth k perpetualPool s) (\<lambda>(s1, _).
     rbind (CheckLowPoolHealthAndMinimumCustody k s1 poolId False) (\<lambda>_. Inr s1))"

definition after_amm_change :: "'e vkeeper \<Rightarrow> amm_Pool \<Rightarrow> 'e mstate \<Rightarrow> 'e mstate result" where
  "after_amm_change k ammPool s =
     (case perp_GetPool k s (am_PoolId ammPool) of
        None \<Rightarrow> Inr s
      | Some perpetualPool \<Rightarrow> recheck k perpetualPool (am_PoolId ammPool) s)"

definition perp_AmmHooks :: "'e vkeeper \<Rightarrow> 'e mstate amm_hooks" where
  "perp_AmmHooks k =
     \<lparr>ah_AfterPoolCreated = (\<lambda>sender p s. Inr s),
      ah_AfterJoinPool = (\<lambda>sender p enterCoins shareOutAmount. after_amm_change k p),
      ah_AfterExitPool = (\<lambda>sender p shareInAmount exitCoins. after_amm_change k p),
      ah_AfterSwap = (\<lambda>sender p input output. after_amm_change k p)\<rparr>"

definition AfterLeverageLpPosition :: "'e vkeeper \<Rightarrow> addr \<Rightarrow> amm_Pool \<Rightarrow> 'e mstate \<Rightarrow> 'e mstate result" where
  "AfterLeverageLpPosition k sender ammPool s =
     (case perp_GetPool k s (am_PoolId ammPool) of
        None \<Rightarrow> Inl (Plain ''perpetual pool not found'')
      | Some perpetualPool \<Rightarrow> recheck k perpetualPool (am_PoolId ammPool) s)"

definition OnLeverageLpEnablePool :: "'e vkeeper \<Rightarrow> amm_Pool \<Rightarrow> 'e mstate \<Rightarrow> 'e mstate result" where
  "OnLeverageLpEnablePool k ammPool s =
     Inr (perp_SetPool k (perp_NewPool ammPool (pv_LeverageMax (perp_GetParams k s))) s)"

definition OnLeverageLpDisablePool :: "'e vkeeper \<Rightarrow> amm_Pool \<Rightarrow> 'e mstate \<Rightarrow> 'e mstate result" where
  "OnLeverageLpDisablePool k ammPool s = Inr (perp_RemovePool k (am_PoolId ammPool) s)"

end
