(* ===== verification/PerpRates.thy ===== *)
theory PerpRates
  imports PerpSwap
begin

text \<open>
  The rates of the perpetual keeper (x/perpetual/keeper: the rates of \<open>keeper.go\<close> and \<open>pool.go\<close>,
  \<open>begin_blocker.go\<close>, \<open>get_net_open_interest.go\<close>): every block each pool gets an interest rate and
  a funding rate, which are summed up over the blocks; what a position owes is the difference of
  two sums, scaled to its time.
\<close>

section \<open>Sums over blocks\<close>

definition secondsPerYear :: int where
  "secondsPerYear = 31536000"

definition GetInterestRateKey :: "int \<Rightarrow> int \<Rightarrow> int \<times> int" where
  "GetInterestRateKey block pool = (block, pool)"

definition SetBorrowRate :: "'e vkeeper \<Rightarrow> int \<Rightarrow> int \<Rightarrow> PerpInterestBlock \<Rightarrow> 'e mstate \<Rightarrow> 'e mstate" where
  "SetBorrowRate k block pool interest s =
     (let interest1 = (case kv_get (vs_rates (vstore k s)) (GetInterestRateKey (u64 (block - 1)) pool) of
            None \<Rightarrow> interest
          | Some lastBlock \<Rightarrow> interest\<lparr>pi_InterestRate := pi_InterestRate interest + pi_InterestRate lastBlock\<rparr>)
      in with_vstore k (vs_rates_update (kv_set (GetInterestRateKey block pool) interest1)) s)"

definition DeleteBorrowRate :: "'e vkeeper \<Rightarrow> int \<Rightarrow> 'e mstate \<Rightarrow> 'e mstate" where
  "DeleteBorrowRate k delBlock = with_vstore k (vs_rates_update (filter (\<lambda>((block, pool), b). block \<noteq> delBlock)))"

definition GetAllBorrowRate :: "'e vkeeper \<Rightarrow> 'e mstate \<Rightarrow> PerpInterestBlock list" where
  "GetAllBorrowRate k s = map snd (vs_rates (vstore k s))"

definition SetFundingRate :: "'e vkeeper \<Rightarrow> int \<Rightarrow> int \<Rightarrow> FundingRateBlock \<Rightarrow> 'e mstate \<Rightarrow> 'e mstate" where
  "SetFundingRate k block pool funding s =
     (let funding1 = (case kv_get (vs_fundings (vstore k s)) (GetInterestRateKey (u64 (block - 1)) pool) of
            None \<Rightarrow> funding
          | Some lastBlock \<Rightarrow> funding\<lparr>
              fr_FundingRateLong := fr_FundingRateLong funding + fr_FundingRateLong lastBlock,
              fr_FundingRateShort := fr_FundingRateShort funding + fr_FundingRateShort lastBlock,
              fr_FundingShareLong := fr_FundingShareLong funding + fr_FundingShareLong lastBlock,
              fr_FundingShareShort := fr_FundingShareShort funding + fr_FundingShareShort lastBlock\<rparr>)
      in with_vstore k (vs_fundings_update (kv_set (GetInterestRateKey block pool) funding1)) s)"

definition DeleteFundingRate :: "'e vkeeper \<Rightarrow> int \<Rightarrow> 'e mstate \<Rightarrow> 'e mstate" where
  "DeleteFundingRate k delBlock = with_vstore k (vs_fundings_update (filter (\<lambda>((block, pool), b). block \<noteq> delBlock)))"

definition GetAllFundingRate :: "'e vkeeper \<Rightarrow> 'e mstate \<Rightarrow> FundingRateBlock list" where
  "GetAllFundingRate k s = map snd (vs_fundings (vstore k s))"

definition DeleteAllFundingRate :: "'e vkeeper \<Rightarrow> 'e mstate \<Rightarrow> 'e mstate" where
  "DeleteAllFundingRate k = with_vstore k (vs_fundings_update (\<lambda>_. []))"

text \<open>The sums at a start block and now. With the start block in the store they are a difference
  over the blocks between; when the store begins after the start, the whole sum; else nothing.\<close>

datatype 'b window = Between 'b 'b int | Since 'b int | Outside

definition window_of :: "block_ctx \<Rightarrow> (int \<times> int, 'b) kvs \<Rightarrow> int \<Rightarrow> int \<Rightarrow> 'b window" where
  "window_of ctx m startBlock poolId =
     (case (kv_get m (GetInterestRateKey startBlock poolId), kv_get m (GetInterestRateKey (u64 (BlockHeight ctx)) poolId)) of
        (_, None) \<Rightarrow> Outside
      | (Some a, Some b) \<Rightarrow>
          if startBlock \<noteq> u64 (BlockHeight ctx) then Between a b (i64 (BlockHeight ctx - i64 startBlock)) else Outside
      | (None, Some b) \<Rightarrow>
          let firstStoredBlock = (case m of [] \<Rightarrow> 0 | ((block, pool), _) # _ \<Rightarrow> block)
          in if startBlock < firstStoredBlock then Since b (i64 (i64 (BlockHeight ctx - i64 startBlock) + 1)) else Outside)"

definition elapsed :: "block_ctx \<Rightarrow> int \<Rightarrow> int" where
  "elapsed ctx startTime = i64 (Unix (BlockTime ctx) - i64 startTime)"

text \<open>\<open>rate.MulInt64(elapsed).QuoInt64(numberOfBlocks).QuoInt64(secondsPerYear)\<close>.\<close>

definition per_block :: "'e vkeeper \<Rightarrow> block_ctx \<Rightarrow> int \<Rightarrow> int \<Rightarrow> int \<Rightarrow> int result" where
  "per_block k ctx startTime numberOfBlocks rate =
     rbind (DQuoInt (vk_dec k) (rate * elapsed ctx startTime) numberOfBlocks) (\<lambda>q. DQuoInt (vk_dec k) q secondsPerYear)"

definition floor_rate :: "'e vkeeper \<Rightarrow> block_ctx \<Rightarrow> 'e mstate \<Rightarrow> int \<Rightarrow> int \<Rightarrow> int \<Rightarrow> int result" where
  "floor_rate k ctx s startTime rate takeProfitBorrowFactor =
     rbind (DQuoInt (vk_dec k) (pv_BorrowInterestRateMin (perp_GetParams k s) * elapsed ctx startTime) secondsPerYear) (\<lambda>least.
       Inr (max (DMul (vk_dec k) rate takeProfitBorrowFactor) least))"

definition GetBorrowInterestRate ::
    "'e vkeeper \<Rightarrow> block_ctx \<Rightarrow> 'e mstate \<Rightarrow> int \<Rightarrow> int \<Rightarrow> int \<Rightarrow> int \<Rightarrow> int result" where
  "GetBorrowInterestRate k ctx s startBlock startTime poolId takeProfitBorrowFactor =
     (case window_of ctx (vs_rates (vstore k s)) startBlock poolId of
        Between a b numberOfBlocks \<Rightarrow>
          rbind (per_block k ctx startTime numberOfBlocks (pi_InterestRate b - pi_InterestRate a)) (\<lambda>rate.
            floor_rate k ctx s startTime rate takeProfitBorrowFactor)
      | Since b numberOfBlocks \<Rightarrow>
          rbind (per_block k ctx startTime numberOfBlocks (pi_InterestRate b)) (\<lambda>rate.
            floor_rate k ctx s startTime rate takeProfitBorrowFactor)
      | Outside \<Rightarrow>
          (case perp_GetPool k s poolId of
             None \<Rightarrow> Inr 0
           | Some pool \<Rightarrow> DQuoInt (vk_dec k) (pl_BorrowInterestRate pool * elapsed ctx startTime) secondsPerYear))"

text \<open>Outside of the stored blocks the pool's own rate counts, for the longs when its interest rate
  is positive.\<close>

definition GetFundingRate :: "'e vkeeper \<Rightarrow> block_ctx \<Rightarrow> 'e mstate \<Rightarrow> int \<Rightarrow> int \<Rightarrow> int \<Rightarrow> (int \<times> int) result" where
  "GetFundingRate k ctx s startBlock startTime poolId =
     (let both = (\<lambda>numberOfBlocks longRate shortRate.
        rbind (per_block k ctx startTime numberOfBlocks longRate) (\<lambda>longQ.
        rbind (per_block k ctx startTime numberOfBlocks shortRate) (\<lambda>shortQ. Inr (longQ, shortQ))))
      in case window_of ctx (vs_fundings (vstore k s)) startBlock poolId of
        Between a b numberOfBlocks \<Rightarrow>
          both numberOfBlocks (fr_FundingRateLong b - fr_FundingRateLong a) (fr_FundingRateShort b - fr_FundingRateShort a)
      | Since b numberOfBlocks \<Rightarrow> both numberOfBlocks (fr_FundingRateLong b) (fr_FundingRateShort b)
      | Outside \<Rightarrow>
          (case perp_GetPool k s poolId of
             None \<Rightarrow> Inl (Panic ''perpetual pool not found'')
           | Some pool \<Rightarrow>
               rbind (DQuoInt (vk_dec k) (pl_FundingRate pool * elapsed ctx startTime) secondsPerYear) (\<lambda>q.
                 Inr (if 0 < pl_BorrowInterestRate pool then (q, 0) else (0, q)))))"

definition GetFundingDistributionValue :: "'e vkeeper \<Rightarrow> block_ctx \<Rightarrow> 'e mstate \<Rightarrow> int \<Rightarrow> int \<Rightarrow> int \<times> int" where
  "GetFundingDistributionValue k ctx s startBlock pool =
     (case window_of ctx (vs_fundings (vstore k s)) startBlock pool of
        Between a b numberOfBlocks \<Rightarrow> (fr_FundingShareLong b - fr_FundingShareLong a, fr_FundingShareShort b - fr_FundingShareShort a)
      | Since b numberOfBlocks \<Rightarrow> (fr_FundingShareLong b, fr_FundingShareShort b)
      | Outside \<Rightarrow> (0, 0))"

section \<open>The interest rate of a block\<close>

text \<open>The product over the assets of (balance + liabilities) / balance, where what the pool holds in
  custody does not count as balance; nothing left to lend makes it zero.\<close>

fun lending_pressure :: "'e vkeeper \<Rightarrow> amm_Pool \<Rightarrow> PerpAsset list \<Rightarrow> int \<Rightarrow> int result" where
  "lending_pressure k ammPool [] rate = Inr rate"
| "lending_pressure k ammPool (asset # assets) rate =
     rbind (GetAmmPoolBalance ammPool (pe_AssetDenom asset)) (\<lambda>ammBalance.
       let balance = ammBalance - pe_Custody asset
       in if balance = 0 then Inr 0
          else if balance + pe_Liabilities asset = 0 then Inr 0
          else rbind (DQuo (vk_dec k) (dec_of_int (balance + pe_Liabilities asset)) (dec_of_int balance)) (\<lambda>mul.
               lending_pressure k ammPool assets (DMul (vk_dec k) rate mul)))"

definition BorrowInterestRateComputationByPosition ::
    "'e vkeeper \<Rightarrow> PerpPool \<Rightarrow> amm_Pool \<Rightarrow> Position \<Rightarrow> int result" where
  "BorrowInterestRateComputationByPosition k pool ammPool position =
     lending_pressure k ammPool (GetPoolAssets pool position) dec_one"

text \<open>One step towards the target, then into the range.\<close>

definition step_rate :: "dec_ops \<Rightarrow> int \<Rightarrow> int \<Rightarrow> int \<Rightarrow> int \<Rightarrow> int" where
  "step_rate D increase decrease prev target =
     (let change = target - prev
      in if DMul D decrease (- dec_one) \<le> change \<and> change \<le> increase then target
         else if increase < change then prev + increase
         else if change < DMul D decrease (- dec_one) then prev - decrease
         else prev)"

definition clamp_rate :: "int \<Rightarrow> int \<Rightarrow> int \<Rightarrow> int" where
  "clamp_rate rateMin rateMax rate =
     (if rateMin < rate \<and> rate < rateMax then rate
      else if rate \<le> rateMin then rateMin
      else if rateMax \<le> rate then rateMax
      else rate)"

definition BorrowInterestRateComputation :: "'e vkeeper \<Rightarrow> 'e mstate \<Rightarrow> PerpPool \<Rightarrow> int result" where
  "BorrowInterestRateComputation k s pool =
     (case amm_GetPool s (pl_AmmPoolId pool) of
        None \<Rightarrow> Inl (Plain ''amm pool not found'')
      | Some ammPool \<Rightarrow>
          let params = perp_GetParams k s in
          rbind (BorrowInterestRateComputationByPosition k pool ammPool Position_LONG) (\<lambda>targetLong.
          rbind (BorrowInterestRateComputationByPosition k pool ammPool Position_SHORT) (\<lambda>targetShort.
            let target = DMul (vk_dec k) (DMul (vk_dec k) (pv_HealthGainFactor params) targetLong) targetShort
            in Inr (clamp_rate (pv_BorrowInterestRateMin params) (pv_BorrowInterestRateMax params)
                 (step_rate (vk_dec k) (pv_BorrowInterestRateIncrease params) (pv_BorrowInterestRateDecrease params)
                   (pl_BorrowInterestRate pool) target)))))"

section \<open>The funding rate of a block\<close>

text \<open>The side with more open interest pays the fixed rate, scaled by how much more it is.\<close>

definition ComputeFundingRate :: "'e vkeeper \<Rightarrow> 'e mstate \<Rightarrow> PerpPool \<Rightarrow> (int \<times> int) result" where
  "ComputeFundingRate k s pool =
     (let longs = GetTotalLongOpenInterest pool;
          shorts = GetTotalShortOpenInterest pool;
          fixedRate = pv_FixedFundingRate (perp_GetParams k s);
          ratio = (\<lambda>n. rbind (DQuo (vk_dec k) (dec_of_int n) (dec_of_int (longs + shorts))) (\<lambda>r. Inr (DMul (vk_dec k) r fixedRate)))
      in if longs = 0 \<or> shorts = 0 then Inr (0, 0)
         else if shorts < longs then rbind (ratio (longs - shorts)) (\<lambda>r. Inr (r, 0))
         else rbind (ratio (shorts - longs)) (\<lambda>r. Inr (0, r)))"

definition GetFundingPaymentRates :: "'e vkeeper \<Rightarrow> 'e mstate \<Rightarrow> PerpPool \<Rightarrow> (int \<times> int) result" where
  "GetFundingPaymentRates k s pool =
     rbind (ComputeFundingRate k s pool) (\<lambda>(fundingRateLong, fundingRateShort).
       let D = vk_dec k;
           longs = GetTotalLongOpenInterest pool;
           shorts = GetTotalShortOpenInterest pool;
           other = (\<lambda>rate n m. if m = 0 then Inr 0 else DQuo D (DMul D rate (dec_of_int n)) (dec_of_int m))
       in if fundingRateLong = 0
          then rbind (other fundingRateShort shorts longs) (\<lambda>r. Inr (- r, fundingRateShort))
          else rbind (other fundingRateLong longs shorts) (\<lambda>r. Inr (fundingRateLong, - r)))"

text \<open>What one side pays in a block, spread over the other side's open interest.\<close>

definition funding_share :: "'e vkeeper \<Rightarrow> int \<Rightarrow> int \<Rightarrow> int \<Rightarrow> int \<Rightarrow> int result" where
  "funding_share k blocksPerYear payers rate receivers =
     rbind (DQuoInt (vk_dec k) (dec_of_int (CalcTakeAmount (vk_dec k) payers rate)) blocksPerYear) (\<lambda>fundingAmount.
       if 0 < receivers then DQuo (vk_dec k) fundingAmount (dec_of_int receivers) else Inr 0)"

definition funding_block :: "'e vkeeper \<Rightarrow> block_ctx \<Rightarrow> PerpPool \<Rightarrow> int \<Rightarrow> int \<Rightarrow> 'e mstate \<Rightarrow> 'e mstate result" where
  "funding_block k ctx pool rateLong rateShort s =
     (let longs = GetTotalLongOpenInterest pool;
          shorts = GetTotalShortOpenInterest pool;
          blocksPerYear = i64 (pr_TotalBlocksPerYear (mk_parameter (vk_amm k) (mm_ext s)))
      in rbind (funding_share k blocksPerYear longs rateLong shorts) (\<lambda>shareLong.
         rbind (funding_share k blocksPerYear shorts rateShort longs) (\<lambda>shareShort.
           Inr (SetFundingRate k (u64 (BlockHeight ctx)) (pl_AmmPoolId pool)
             \<lparr>fr_FundingRateLong = rateLong, fr_FundingRateShort = rateShort, fr_FundingShareShort = shareShort,
              fr_FundingShareLong = shareLong, fr_BlockHeight = BlockHeight ctx, fr_BlockTime = Unix (BlockTime ctx)\<rparr> s))))"

text \<open>A pool whose interest rate cannot be computed is skipped; a failing health update only leaves
  the health as it was.\<close>

definition begin_pool :: "'e vkeeper \<Rightarrow> block_ctx \<Rightarrow> PerpPool \<Rightarrow> 'e mstate \<Rightarrow> 'e mstate result" where
  "begin_pool k ctx pool s =
     (case BorrowInterestRateComputation k s pool of
        Inl (Panic w) \<Rightarrow> Inl (Panic w)
      | Inl e \<Rightarrow> Inr s
      | Inr rate \<Rightarrow>
          let pool1 = pool\<lparr>pl_BorrowInterestRate := rate, pl_LastHeightBorrowInterestRateComputed := BlockHeight ctx\<rparr>;
              s1 = SetBorrowRate k (u64 (BlockHeight ctx)) (pl_AmmPoolId pool)
                \<lparr>pi_InterestRate = rate, pi_BlockHeight = BlockHeight ctx, pi_BlockTime = Unix (BlockTime ctx)\<rparr> s
          in rbind (case UpdatePoolHealth k pool1 s1 of
                 Inl (Panic w) \<Rightarrow> Inl (Panic w) | Inl e \<Rightarrow> Inr (s1, pool1) | Inr r \<Rightarrow> Inr r) (\<lambda>(s2, pool2).
             rbind (ComputeFundingRate k s2 pool2) (\<lambda>(rateLong, rateShort).
             let pool3 = pool2\<lparr>pl_FundingRate := (if rateLong = 0 then - rateShort else rateLong)\<rparr>
             in rbind (funding_block k ctx pool3 rateLong rateShort s2) (\<lambda>s3. Inr (perp_SetPool k pool3 s3)))))"

fun begin_pools :: "'e vkeeper \<Rightarrow> block_ctx \<Rightarrow> PerpPool list \<Rightarrow> 'e mstate \<Rightarrow> 'e mstate result" where
  "begin_pools k ctx [] s = Inr s"
| "begin_pools k ctx (pool # pools) s = rbind (begin_pool k ctx pool s) (begin_pools k ctx pools)"

definition perp_BeginBlocker :: "'e vkeeper \<Rightarrow> block_ctx \<Rightarrow> 'e mstate \<Rightarrow> 'e mstate result" where
  "perp_BeginBlocker k ctx s = begin_pools k ctx (perp_GetAllPools k s) s"

definition GetEpochPosition :: "block_ctx \<Rightarrow> int \<Rightarrow> int result" where
  "GetEpochPosition ctx epochLength = go_rem (BlockHeight ctx) (if epochLength \<le> 0 then 1 else epochLength)"

end
