(* ===== verification/PerpPosition.thy ===== *)
theory PerpPosition
  imports PerpRates
begin

text \<open>
  What happens to a position of the perpetual module (x/perpetual/keeper: \<open>mtp_health.go\<close>,
  \<open>mtp_leverage.go\<close>, \<open>mtp_open_price.go\<close>, \<open>mtp_borrow_interest.go\<close>, \<open>settle_funding_fee*.go\<close>,
  \<open>repay.go\<close>, \<open>estimate_and_repay.go\<close>, \<open>force_close.go\<close>, \<open>mtp_trigger.go\<close>, the prices and gains of
  \<open>mtp.go\<close>): interest and funding are settled, the position is repaid in part or closed. The code
  passes pointers to the position, its pool and the amm pool; here they are returned.
\<close>

text \<open>A position, its pool and the amm pool.\<close>

type_synonym desk = "MTP \<times> PerpPool \<times> amm_Pool"

definition trunc_big :: "'e vkeeper \<Rightarrow> int \<Rightarrow> int" where
  "trunc_big k x = DTruncateInt (vk_dec k) (BDec (vk_big k) x)"

section \<open>Health, leverage, prices\<close>

text \<open>Health is custody over liabilities, in base currency.\<close>

definition GetMTPHealth :: "'e vkeeper \<Rightarrow> 'e mstate \<Rightarrow> MTP \<Rightarrow> int result" where
  "GetMTPHealth k s mtp =
     (if mt_Custody mtp \<le> 0 then Inr 0
      else if mt_Liabilities mtp = 0 then DQuo (vk_dec k) dec_one 1
      else rbind (GetAssetPriceAndAssetUsdcDenomRatio k s (mt_TradingAsset mtp)) (\<lambda>(_, ratio).
           let inBase = (\<lambda>n. BDec (vk_big k) (BMul (vk_big k) ratio (BigDecFromDec n)));
               liab0 = dec_of_int (mt_Liabilities mtp + mt_BorrowInterestUnpaidLiability mtp);
               totalLiabilities = (if mt_Position mtp = Position_SHORT then inBase liab0 else liab0);
               custody0 = dec_of_int (mt_Custody mtp);
               custody = (if mt_Position mtp = Position_LONG then inBase custody0 else custody0)
           in if mt_Position mtp = Position_SHORT \<and> totalLiabilities = 0 then Inr 0
              else if \<not> 0 < custody0 then Inr 0
              else DQuo (vk_dec k) custody totalLiabilities))"

definition GetEffectiveLeverage :: "'e vkeeper \<Rightarrow> 'e mstate \<Rightarrow> MTP \<Rightarrow> int result" where
  "GetEffectiveLeverage k s mtp =
     (let B = vk_big k; custody = BigDecFromSDKInt (mt_Custody mtp); liabilities = BigDecFromSDKInt (mt_Liabilities mtp) in
      rbind (GetAssetPriceAndAssetUsdcDenomRatio k s (mt_TradingAsset mtp)) (\<lambda>(_, ratio).
      if mt_Position mtp = Position_LONG
      then rbind (BQuo B (BMul B custody ratio) (BMul B custody ratio - liabilities)) (\<lambda>l. Inr (BDec B l))
      else rbind (BQuo B custody (custody - BMul B liabilities ratio)) (\<lambda>l. Inr (BDec B (l - big_one)))))"

definition GetAndSetOpenPrice :: "'e vkeeper \<Rightarrow> 'e mstate \<Rightarrow> MTP \<Rightarrow> bool \<Rightarrow> MTP result" where
  "GetAndSetOpenPrice k s mtp isLeverageZero =
     (let B = vk_big k in
      if isLeverageZero then Inr (mtp\<lparr>mt_OpenPrice := 0\<rparr>)
      else if mt_Position mtp \<noteq> Position_LONG \<and> mt_Liabilities mtp = 0 then Inr (mtp\<lparr>mt_OpenPrice := 0\<rparr>)
      else rbind (if mt_Position mtp = Position_LONG
                  then if mt_CollateralAsset mtp = mt_TradingAsset mtp
                       then if BigDecFromSDKInt (mt_Custody mtp - mt_Collateral mtp) = 0
                            then Inl (Plain ''(custody - collateral) is zero while calculating open price'')
                            else BQuo B (BigDecFromSDKInt (mt_Liabilities mtp)) (BigDecFromSDKInt (mt_Custody mtp - mt_Collateral mtp))
                       else if mt_Custody mtp = 0 then Inl (Plain ''custody is zero while calculating open price'')
                            else BQuo B (BigDecFromSDKInt (mt_Collateral mtp + mt_Liabilities mtp)) (BigDecFromSDKInt (mt_Custody mtp))
                  else BQuo B (BigDecFromSDKInt (mt_Custody mtp - mt_Collateral mtp)) (BigDecFromSDKInt (mt_Liabilities mtp)))
           (\<lambda>openPriceDenomRatio.
           rbind (ConvertDenomRatioPriceToUSDPrice k s openPriceDenomRatio (mt_TradingAsset mtp)) (\<lambda>openPrice.
             Inr (mtp\<lparr>mt_OpenPrice := openPrice\<rparr>))))"

definition GetLiquidationPrice :: "'e vkeeper \<Rightarrow> 'e mstate \<Rightarrow> MTP \<Rightarrow> int result" where
  "GetLiquidationPrice k s mtp =
     (let B = vk_big k; safety = BigDecFromDec (pv_SafetyFactor (perp_GetParams k s));
          custody = BigDecFromSDKInt (mt_Custody mtp); liabilities = BigDecFromSDKInt (mt_Liabilities mtp)
      in rbind (if mt_Position mtp = Position_LONG \<and> mt_Custody mtp \<noteq> 0 then BQuo B (BMul B safety liabilities) custody
                else if mt_Position mtp = Position_SHORT \<and> mt_Liabilities mtp \<noteq> 0 then BQuo B custody (BMul B liabilities safety)
                else Inr 0) (\<lambda>ratio. ConvertDenomRatioPriceToUSDPrice k s ratio (mt_TradingAsset mtp)))"

definition UpdateMTPTakeProfitBorrowFactor :: "'e vkeeper \<Rightarrow> 'e mstate \<Rightarrow> MTP \<Rightarrow> MTP result" where
  "UpdateMTPTakeProfitBorrowFactor k s mtp =
     (let B = vk_big k; custody = BigDecFromSDKInt (mt_Custody mtp); liabilities = BigDecFromSDKInt (mt_Liabilities mtp) in
      if mt_Custody mtp = 0 then Inl perp_ErrZeroCustodyAmount
      else rbind (IsTakeProfitPriceInfinite mtp) (\<lambda>infinite.
           rbind (deref (mt_TakeProfitPrice mtp)) (\<lambda>takeProfitPrice.
           if infinite \<or> takeProfitPrice = 0 then Inr (mtp\<lparr>mt_TakeProfitBorrowFactor := dec_one\<rparr>)
           else rbind (ConvertPriceToAssetUsdcDenomRatio k s (mt_TradingAsset mtp) takeProfitPrice) (\<lambda>ratio.
                rbind (if mt_Position mtp = Position_LONG then BQuo B liabilities (BMul B custody ratio)
                       else BQuo B (BMul B liabilities ratio) custody) (\<lambda>q.
                  Inr (mtp\<lparr>mt_TakeProfitBorrowFactor := BDec B (big_one - q)\<rparr>))))))"

definition GetEstimatedPnL :: "'e vkeeper \<Rightarrow> 'e mstate \<Rightarrow> MTP \<Rightarrow> string \<Rightarrow> bool \<Rightarrow> int result" where
  "GetEstimatedPnL k s mtp baseCurrency useTakeProfitPrice =
     (let inBase = (\<lambda>n ratio. trunc_big k (BMul (vk_big k) (BigDecFromSDKInt n) ratio));
          totalLiabilities = mt_Liabilities mtp + mt_BorrowInterestUnpaidLiability mtp;
          pnl = (\<lambda>ratio.
            if mt_Position mtp = Position_SHORT then mt_Custody mtp - inBase totalLiabilities ratio - mt_Collateral mtp
            else if mt_CollateralAsset mtp \<noteq> baseCurrency
                 then inBase (mt_Custody mtp - mt_Collateral mtp) ratio - totalLiabilities
                 else inBase (mt_Custody mtp) ratio - totalLiabilities - mt_Collateral mtp)
      in if useTakeProfitPrice
         then rbind (deref (mt_TakeProfitPrice mtp)) (\<lambda>takeProfitPrice.
              if \<not> 0 < takeProfitPrice then Inr 0
              else rbind (ConvertPriceToAssetUsdcDenomRatio k s (mt_TradingAsset mtp) takeProfitPrice) (\<lambda>ratio. Inr (pnl ratio)))
         else rbind (GetAssetPriceAndAssetUsdcDenomRatio k s (mt_TradingAsset mtp)) (\<lambda>(_, ratio). Inr (pnl ratio)))"

section \<open>Interest\<close>

definition GetBorrowInterestAmount :: "'e vkeeper \<Rightarrow> block_ctx \<Rightarrow> 'e mstate \<Rightarrow> MTP \<Rightarrow> (MTP \<times> int) result" where
  "GetBorrowInterestAmount k ctx s mtp =
     rbind (UpdateMTPTakeProfitBorrowFactor k s mtp) (\<lambda>mtp1.
     rbind (GetBorrowInterestRate k ctx s (mt_LastInterestCalcBlock mtp1) (mt_LastInterestCalcTime mtp1)
              (mt_AmmPoolId mtp1) (mt_TakeProfitBorrowFactor mtp1)) (\<lambda>borrowInterestRate.
       Inr (mtp1, DTruncateInt (vk_dec k) (DMul (vk_dec k)
         (dec_of_int (mt_Liabilities mtp1 + mt_BorrowInterestUnpaidLiability mtp1)) borrowInterestRate))))"

definition UpdateMTPBorrowInterestUnpaidLiability :: "'e vkeeper \<Rightarrow> block_ctx \<Rightarrow> 'e mstate \<Rightarrow> MTP \<Rightarrow> MTP result" where
  "UpdateMTPBorrowInterestUnpaidLiability k ctx s mtp =
     rbind (GetBorrowInterestAmount k ctx s mtp) (\<lambda>(mtp1, payment).
       Inr (mtp1\<lparr>mt_BorrowInterestUnpaidLiability := mt_BorrowInterestUnpaidLiability mtp1 + payment,
                 mt_LastInterestCalcBlock := u64 (BlockHeight ctx),
                 mt_LastInterestCalcTime := u64 (Unix (BlockTime ctx))\<rparr>))"

text \<open>What the custody does not cover stays unpaid: for a long it is written back as a liability, for
  a short the code assigns it to the payment, which the next line overwrites, and the liability is
  lost. The insurance fund pays it to the amm pool if it can.\<close>

definition unpaid_interest :: "'e vkeeper \<Rightarrow> MTP \<Rightarrow> int \<Rightarrow> int \<Rightarrow> int result" where
  "unpaid_interest k mtp ratio unpaidInterestCustody =
     (if mt_Position mtp = Position_LONG
      then Inr (trunc_big k (BMul (vk_big k) (BigDecFromSDKInt unpaidInterestCustody) ratio))
      else if ratio = 0 then Inl (Plain ''trading asset price is zero in SettleMTPBorrowInterestUnpaidLiability'')
      else rbind (BQuo (vk_big k) (BigDecFromSDKInt unpaidInterestCustody) ratio) (\<lambda>_. Inr 0))"

definition insurance_pays ::
    "'e vkeeper \<Rightarrow> MTP \<Rightarrow> PerpPool \<Rightarrow> amm_Pool \<Rightarrow> int \<Rightarrow> 'e mstate \<Rightarrow> ('e mstate \<times> amm_Pool) result" where
  "insurance_pays k mtp pool ammPool amount s =
     (if BkBalance (mk_bank (vk_amm k)) (GetInsuranceAccount (vk_sdk k) pool) (mt_CustodyAsset mtp) (mm_ext s) \<ge> amount
      then rbind (NewCoin (vk_sdk k) (mt_CustodyAsset mtp) amount) (\<lambda>c.
           rbind (NewCoins (vk_sdk k) [c]) (\<lambda>cs. SendToAmmPool k (GetInsuranceAccount (vk_sdk k) pool) ammPool cs s))
      else Inr (s, ammPool))"

definition SettleMTPBorrowInterestUnpaidLiability ::
    "'e vkeeper \<Rightarrow> desk \<Rightarrow> 'e mstate \<Rightarrow> ('e mstate \<times> desk \<times> int \<times> int \<times> bool) result" where
  "SettleMTPBorrowInterestUnpaidLiability k d s =
     (case d of (mtp, pool, ammPool) \<Rightarrow>
      if mt_BorrowInterestUnpaidLiability mtp = 0 then Inr (s, d, 0, 0, True)
      else rbind (GetAssetPriceAndAssetUsdcDenomRatio k s (mt_TradingAsset mtp)) (\<lambda>(_, ratio).
      rbind (GetBorrowInterestAmountAsCustodyAsset (vk_dec k) (vk_big k) mtp ratio) (\<lambda>payment0.
      let fullyPaid = \<not> mt_Custody mtp < payment0;
          payment = (if fullyPaid then payment0 else mt_Custody mtp) in
      rbind (if fullyPaid then Inr (s, ammPool, 0)
             else rbind (unpaid_interest k mtp ratio (payment0 - mt_Custody mtp)) (\<lambda>unpaid.
                  rbind (insurance_pays k mtp pool ammPool (payment0 - mt_Custody mtp) s) (\<lambda>(s1, ammPool1).
                    Inr (s1, ammPool1, unpaid)))) (\<lambda>(s1, ammPool1, unpaid).
      let mtp1 = mtp\<lparr>mt_BorrowInterestUnpaidLiability := unpaid,
                     mt_BorrowInterestPaidCustody := mt_BorrowInterestPaidCustody mtp + payment,
                     mt_Custody := mt_Custody mtp - payment\<rparr> in
      rbind (if fullyPaid then CollectInsuranceFund k payment (mt_CustodyAsset mtp) ammPool1 pool s1
             else Inr (s1, ammPool1, 0)) (\<lambda>(s2, ammPool2, insuranceAmount).
      rbind (UpdateCustody pool (mt_CustodyAsset mtp) payment False (mt_Position mtp)) (\<lambda>pool1.
        Inr (s2, (mtp1, pool1, ammPool2), payment, insuranceAmount, fullyPaid)))))))"

section \<open>Funding\<close>

text \<open>A long pays in its custody; a short's fee is on its liabilities, turned into custody at the
  market price.\<close>

definition FundingFeeCollection ::
    "'e vkeeper \<Rightarrow> block_ctx \<Rightarrow> 'e mstate \<Rightarrow> MTP \<Rightarrow> PerpPool \<Rightarrow> (MTP \<times> PerpPool \<times> bool \<times> int) result" where
  "FundingFeeCollection k ctx s mtp pool =
     rbind (GetFundingRate k ctx s (mt_LastFundingCalcBlock mtp) (mt_LastFundingCalcTime mtp) (mt_AmmPoolId mtp)) (\<lambda>(longRate, shortRate).
     let pay = (\<lambda>pool amount fee.
           rbind (UpdateCustody pool (mt_CustodyAsset mtp) amount False (mt_Position mtp)) (\<lambda>pool1.
             Inr (mtp\<lparr>mt_Custody := mt_Custody mtp - amount,
                      mt_FundingFeePaidCustody := mt_FundingFeePaidCustody mtp + amount\<rparr>, pool1, \<not> mt_Custody mtp < fee, amount)))
     in if mt_Position mtp = Position_LONG
        then let fee = CalcTakeAmount (vk_dec k) (mt_Custody mtp) longRate;
                 amount = (if mt_Custody mtp < fee then mt_Custody mtp else fee)
             in if \<not> 0 < fee then Inr (mtp, pool, True, 0)
                else rbind (UpdateFeesCollected (vk_sdk k) pool (mt_CustodyAsset mtp) amount True) (\<lambda>pool1. pay pool1 amount fee)
        else let liabilityFee = CalcTakeAmount (vk_dec k) (mt_Liabilities mtp) shortRate
             in if \<not> 0 < liabilityFee then Inr (mtp, pool, True, 0)
                else rbind (UpdateFeesCollected (vk_sdk k) pool (mt_LiabilitiesAsset mtp) liabilityFee True) (\<lambda>pool1.
                     rbind (GetAssetPriceAndAssetUsdcDenomRatio k s (mt_TradingAsset mtp)) (\<lambda>(_, ratio).
                     let fee = trunc_big k (BMul (vk_big k) (BigDecFromSDKInt liabilityFee) ratio)
                     in pay pool1 (if mt_Custody mtp < fee then mt_Custody mtp else fee) fee)))"

definition FundingFeeDistribution ::
    "'e vkeeper \<Rightarrow> block_ctx \<Rightarrow> 'e mstate \<Rightarrow> MTP \<Rightarrow> PerpPool \<Rightarrow> (MTP \<times> PerpPool \<times> int) result" where
  "FundingFeeDistribution k ctx s mtp pool =
     (let (longShare, shortShare) = GetFundingDistributionValue k ctx s (mt_LastFundingCalcBlock mtp) (pl_AmmPoolId pool);
          receive = (\<lambda>pool amount.
            rbind (UpdateCustody pool (mt_CustodyAsset mtp) amount True (mt_Position mtp)) (\<lambda>pool1.
              Inr (mtp\<lparr>mt_Custody := mt_Custody mtp + amount,
                       mt_FundingFeeReceivedCustody := mt_FundingFeeReceivedCustody mtp + amount\<rparr>, pool1, amount)))
      in if mt_Position mtp = Position_LONG
         then let amount = DTruncateInt (vk_dec k) (shortShare * mt_Custody mtp)
              in if amount = 0 then Inr (mtp, pool, 0)
                 else rbind (UpdateFeesCollected (vk_sdk k) pool (mt_CustodyAsset mtp) amount False) (\<lambda>pool1. receive pool1 amount)
         else let liabilityAmount = DTruncateInt (vk_dec k) (longShare * mt_Liabilities mtp)
              in if liabilityAmount = 0 then Inr (mtp, pool, 0)
                 else rbind (UpdateFeesCollected (vk_sdk k) pool (mt_LiabilitiesAsset mtp) liabilityAmount False) (\<lambda>pool1.
                      rbind (GetAssetPriceAndAssetUsdcDenomRatio k s (mt_TradingAsset mtp)) (\<lambda>(_, ratio).
                        receive pool1 (trunc_big k (BMul (vk_big k) (BigDecFromSDKInt liabilityAmount) ratio)))))"

definition UpdateFundingFee ::
    "'e vkeeper \<Rightarrow> block_ctx \<Rightarrow> 'e mstate \<Rightarrow> MTP \<Rightarrow> PerpPool \<Rightarrow> (MTP \<times> PerpPool \<times> bool \<times> int \<times> int) result" where
  "UpdateFundingFee k ctx s mtp pool =
     rbind (FundingFeeCollection k ctx s mtp pool) (\<lambda>(mtp1, pool1, full, fundingFeeAmt).
     rbind (FundingFeeDistribution k ctx s mtp1 pool1) (\<lambda>(mtp2, pool2, amountDistributed).
       Inr (mtp2\<lparr>mt_LastFundingCalcBlock := u64 (BlockHeight ctx), mt_LastFundingCalcTime := u64 (Unix (BlockTime ctx))\<rparr>,
            pool2, full, fundingFeeAmt, amountDistributed)))"

definition SettleFunding ::
    "'e vkeeper \<Rightarrow> block_ctx \<Rightarrow> MTP \<Rightarrow> PerpPool \<Rightarrow> 'e mstate \<Rightarrow> ('e mstate \<times> MTP \<times> PerpPool \<times> bool \<times> int \<times> int) result" where
  "SettleFunding k ctx mtp pool s =
     rbind (UpdateFundingFee k ctx s mtp pool) (\<lambda>(mtp1, pool1, full, fundingFeeAmt, amountDistributed).
     rbind (SetMTP k mtp1 s) (\<lambda>(s1, mtp2).
       Inr (perp_SetPool k pool1 s1, mtp2, pool1, full, fundingFeeAmt, amountDistributed)))"

section \<open>Repaying\<close>

text \<open>What is returned to the owner leaves the amm pool, less the fees; then the ratio of the
  position is taken off it and off the totals of the pool.\<close>

definition repay_return ::
    "'e vkeeper \<Rightarrow> block_ctx \<Rightarrow> MTP \<Rightarrow> amm_Pool \<Rightarrow> int \<Rightarrow> PerpetualFees \<Rightarrow> int \<Rightarrow> 'e mstate \<Rightarrow>
       ('e mstate \<times> amm_Pool \<times> PerpetualFees) result" where
  "repay_return k ctx mtp ammPool returnAmount perpFees repayAmount s =
     (if \<not> 0 < returnAmount then Inr (s, ammPool, perpFees)
      else rbind (AccAddressFromBech32 (vk_sdk k) (am_Address ammPool)) (\<lambda>ammPoolAddr.
           rbind (SendFeesToPoolRevenueAndTakerCollection k ctx ammPoolAddr (mt_Address mtp) repayAmount
                    (mt_CustodyAsset mtp) ammPool perpFees returnAmount s) (\<lambda>(s1, ammPool1, perpFees1, totalFees).
           if \<not> totalFees < returnAmount then Inr (s1, ammPool1, perpFees1)
           else rbind (NewCoin (vk_sdk k) (mt_CustodyAsset mtp) (returnAmount - totalFees)) (\<lambda>c.
                rbind (NewCoins (vk_sdk k) [c]) (\<lambda>returnCoins.
                rbind (GetAccountAddress (vk_sdk k) mtp) (\<lambda>owner.
                rbind (SendFromAmmPool k ammPool1 owner returnCoins s1) (\<lambda>(s2, ammPool2).
                  Inr (s2, ammPool2, perpFees1))))))))"

definition perp_Repay ::
    "'e vkeeper \<Rightarrow> block_ctx \<Rightarrow> desk \<Rightarrow> int \<Rightarrow> int \<Rightarrow> int \<Rightarrow> PerpetualFees \<Rightarrow> int \<Rightarrow> 'e mstate \<Rightarrow>
       ('e mstate \<times> desk \<times> PerpetualFees) result" where
  "perp_Repay k ctx d returnAmount payingLiabilities closingRatio perpFees repayAmount s =
     (case d of (mtp, pool, ammPool) \<Rightarrow>
      rbind (repay_return k ctx mtp ammPool returnAmount perpFees repayAmount s) (\<lambda>(s1, ammPool1, perpFees1).
      let closingCustodyAmount = DTruncateInt (vk_dec k) (closingRatio * mt_Custody mtp);
          reducingCollateralAmt = DTruncateInt (vk_dec k) (closingRatio * mt_Collateral mtp);
          mtp1 = mtp\<lparr>mt_Liabilities := mt_Liabilities mtp - payingLiabilities,
                     mt_Custody := mt_Custody mtp - closingCustodyAmount,
                     mt_Collateral := mt_Collateral mtp - reducingCollateralAmt\<rparr> in
      rbind (UpdateCustody pool (mt_CustodyAsset mtp) closingCustodyAmount False (mt_Position mtp)) (\<lambda>pool1.
      rbind (UpdateLiabilities pool1 (mt_LiabilitiesAsset mtp) payingLiabilities False (mt_Position mtp)) (\<lambda>pool2.
      rbind (UpdateCollateral pool2 (mt_CollateralAsset mtp) reducingCollateralAmt False (mt_Position mtp)) (\<lambda>pool3.
      rbind (if mt_Custody mtp1 \<le> 0
             then rbind (DestroyMTP k mtp1 s1) (\<lambda>s2. Inr (s2, mtp1))
             else rbind (GetMTPHealth k s1 mtp1) (\<lambda>health. SetMTP k (mtp1\<lparr>mt_MtpHealth := health\<rparr>) s1)) (\<lambda>(s2, mtp2).
        Inr (perp_SetPool k pool3 s2, (mtp2, pool3, ammPool1), perpFees1)))))))"

text \<open>What the liabilities cost, by a swap from custody; a position of neither side costs nothing and
  has a nil closing price.\<close>

definition CalcRepayAmount ::
    "'e vkeeper \<Rightarrow> 'e mstate \<Rightarrow> MTP \<Rightarrow> amm_Pool \<Rightarrow> int \<Rightarrow> (swap_estimate \<times> int \<times> int) result" where
  "CalcRepayAmount k s mtp ammPool closingRatio =
     (let payingLiabilities = DTruncateInt (vk_dec k) (closingRatio * mt_Liabilities mtp) in
      if mt_Position mtp = Position_UNSPECIFIED then Inl (Panic ''nil pointer dereference'')
      else rbind (NewCoin (vk_sdk k) (mt_LiabilitiesAsset mtp) payingLiabilities) (\<lambda>c.
           rbind (EstimateSwapGivenOut k s c (mt_CustodyAsset mtp) ammPool (mt_Address mtp)) (\<lambda>est.
           let paying = BigDecFromSDKInt payingLiabilities; repaying = BigDecFromSDKInt (ve_Amount est) in
           rbind (if mt_Position mtp = Position_LONG then BQuo (vk_big k) paying repaying
                  else BQuo (vk_big k) repaying paying) (\<lambda>closingPriceDenom.
           rbind (ConvertDenomRatioPriceToUSDPrice k s closingPriceDenom (mt_TradingAsset mtp)) (\<lambda>closingPrice.
             Inr (est, payingLiabilities, closingPrice))))))"

definition CalcReturnAmount :: "'e vkeeper \<Rightarrow> MTP \<Rightarrow> int \<Rightarrow> int \<Rightarrow> int" where
  "CalcReturnAmount k mtp repayAmount closingRatio =
     (let closingAmount = DTruncateInt (vk_dec k) (closingRatio * mt_Custody mtp)
      in if closingAmount < repayAmount then 0 else closingAmount - repayAmount)"

definition CalcNetPnLAtClosing :: "'e vkeeper \<Rightarrow> 'e mstate \<Rightarrow> int \<Rightarrow> string \<Rightarrow> coin \<Rightarrow> int \<Rightarrow> int result" where
  "CalcNetPnLAtClosing k s returnAmount custodyAsset closingCollatoralCoin closingRatio =
     rbind (CalculateUSDValue (vk_amm k) s (Denom closingCollatoralCoin)
              (DTruncateInt (vk_dec k) (closingRatio * Amount closingCollatoralCoin))) (\<lambda>closedCollateral.
     rbind (CalculateUSDValue (vk_amm k) s custodyAsset returnAmount) (\<lambda>returned.
       Inr (BDec (vk_big k) returned - BDec (vk_big k) closedCollateral)))"

record close_out =
  co_repayAmt :: int
  co_returnAmt :: int
  co_perpFees :: PerpetualFees
  co_closingPrice :: int

definition EstimateAndRepay ::
    "'e vkeeper \<Rightarrow> block_ctx \<Rightarrow> desk \<Rightarrow> int \<Rightarrow> 'e mstate \<Rightarrow> ('e mstate \<times> desk \<times> close_out) result" where
  "EstimateAndRepay k ctx d closingRatio s =
     (case d of (mtp, pool, ammPool) \<Rightarrow>
      if closingRatio \<le> 0 \<or> dec_one < closingRatio then Inl (Plain ''invalid closing ratio'')
      else rbind (CalcRepayAmount k s mtp ammPool closingRatio) (\<lambda>(est, payingLiabilities, closingPrice).
      rbind (NewCoin (vk_sdk k) (mt_CustodyAsset mtp) (ve_Amount est)) (\<lambda>tokenIn.
      rbind (NewCoin (vk_sdk k) (mt_LiabilitiesAsset mtp) payingLiabilities) (\<lambda>tokenOut.
      rbind (CalculatePerpetualFees k (pp_UseOracle (am_PoolParams ammPool)) tokenIn tokenOut (ve_SlippageAmount est)
               (ve_WeightBreakingFee est) (ve_PerpetualFees est) (ve_TakerFees est) (ve_OracleAmount est) False False) (\<lambda>perpFees.
      let s1 = track_fees k ctx (am_PoolId ammPool) perpFees s;
          returnAmount = CalcReturnAmount k mtp (ve_Amount est) closingRatio
      in case GetBaseCurreny k s1 of
           None \<Rightarrow> Inl ErrAssetProfileNotFound
         | Some entry \<Rightarrow>
             rbind (perp_Repay k ctx d returnAmount payingLiabilities closingRatio perpFees (ve_Amount est) s1) (\<lambda>(s2, d1, perpFees1).
               Inr (s2, d1, \<lparr>co_repayAmt = ve_Amount est, co_returnAmt = returnAmount, co_perpFees = perpFees1,
                             co_closingPrice = closingPrice\<rparr>)))))))"

definition AfterPositionClosed_hook ::
    "'e vkeeper \<Rightarrow> amm_Pool \<Rightarrow> PerpPool \<Rightarrow> addr \<Rightarrow> int \<Rightarrow> int \<Rightarrow> 'e mstate \<Rightarrow> 'e mstate result" where
  "AfterPositionClosed_hook k ammPool pool address ratio i s =
     (case vk_hooks k of None \<Rightarrow> Inr s | Some h \<Rightarrow> vh_AfterPositionClosed h ammPool pool address ratio i s)"

definition ForceClose ::
    "'e vkeeper \<Rightarrow> block_ctx \<Rightarrow> desk \<Rightarrow> 'e mstate \<Rightarrow> ('e mstate \<times> desk \<times> close_out) result" where
  "ForceClose k ctx d s =
     rbind (EstimateAndRepay k ctx d dec_one s) (\<lambda>(s1, (mtp, pool, ammPool), out).
     rbind (MustAccAddress (vk_sdk k) (mt_Address mtp)) (\<lambda>address.
     rbind (AfterPositionClosed_hook k ammPool pool address dec_one (mt_Id mtp) s1) (\<lambda>s2.
       Inr (s2, (mtp, pool, ammPool), out))))"

section \<open>The checks before anything else\<close>

text \<open>Interest is accrued, funding and interest are settled, and a position that cannot pay, or whose
  health is not above the safety factor, is closed.\<close>

record trigger_out =
  tr_close :: "close_out option"
  tr_fundingFeeAmt :: int
  tr_fundingAmtDistributed :: int
  tr_interestAmt :: int
  tr_insuranceAmt :: int
  tr_allInterestsPaid :: bool

definition tr_forceClosed :: "trigger_out \<Rightarrow> bool" where
  "tr_forceClosed out \<longleftrightarrow> tr_close out \<noteq> None"

definition force_out ::
    "'e vkeeper \<Rightarrow> block_ctx \<Rightarrow> desk \<Rightarrow> trigger_out \<Rightarrow> 'e mstate \<Rightarrow> ('e mstate \<times> desk \<times> trigger_out) result" where
  "force_out k ctx d out s = rbind (ForceClose k ctx d s) (\<lambda>(s1, d1, close). Inr (s1, d1, out\<lparr>tr_close := Some close\<rparr>))"

definition check_health ::
    "'e vkeeper \<Rightarrow> block_ctx \<Rightarrow> desk \<Rightarrow> trigger_out \<Rightarrow> 'e mstate \<Rightarrow> ('e mstate \<times> desk \<times> trigger_out) result" where
  "check_health k ctx d out s =
     (case d of (mtp, pool, ammPool) \<Rightarrow>
      rbind (GetMTPHealth k s mtp) (\<lambda>health.
      rbind (SetMTP k (mtp\<lparr>mt_MtpHealth := health\<rparr>) s) (\<lambda>(s1, mtp1).
      let s2 = perp_SetPool k pool s1 in
      if health \<le> pv_SafetyFactor (perp_GetParams k s2) then force_out k ctx (mtp1, pool, ammPool) out s2
      else Inr (s2, (mtp1, pool, ammPool), out))))"

definition check_interest ::
    "'e vkeeper \<Rightarrow> block_ctx \<Rightarrow> desk \<Rightarrow> trigger_out \<Rightarrow> 'e mstate \<Rightarrow> ('e mstate \<times> desk \<times> trigger_out) result" where
  "check_interest k ctx d out s =
     rbind (SettleMTPBorrowInterestUnpaidLiability k d s) (\<lambda>(s1, d1, interestAmt, insuranceAmt, interestFullyPaid).
     let out1 = out\<lparr>tr_interestAmt := interestAmt, tr_insuranceAmt := insuranceAmt, tr_allInterestsPaid := interestFullyPaid\<rparr> in
     if interestFullyPaid then check_health k ctx d1 out1 s1 else force_out k ctx d1 out1 s1)"

definition MTPTriggerChecksAndUpdates ::
    "'e vkeeper \<Rightarrow> block_ctx \<Rightarrow> desk \<Rightarrow> 'e mstate \<Rightarrow> ('e mstate \<times> desk \<times> trigger_out) result" where
  "MTPTriggerChecksAndUpdates k ctx d s =
     (case d of (mtp, pool, ammPool) \<Rightarrow>
      rbind (UpdateMTPBorrowInterestUnpaidLiability k ctx s mtp) (\<lambda>mtp1.
      rbind (SettleFunding k ctx mtp1 pool s) (\<lambda>(s1, mtp2, pool1, fundingFeeFullyPaid, fundingFeeAmt, fundingAmtDistributed).
      let out = \<lparr>tr_close = None, tr_fundingFeeAmt = fundingFeeAmt, tr_fundingAmtDistributed = fundingAmtDistributed,
                 tr_interestAmt = 0, tr_insuranceAmt = 0, tr_allInterestsPaid = fundingFeeFullyPaid\<rparr> in
      if fundingFeeFullyPaid then check_interest k ctx (mtp2, pool1, ammPool) out s1
      else force_out k ctx (mtp2, pool1, ammPool) out s1)))"

section \<open>Events\<close>

text \<open>The values in dollars that events show are not kept, but what cannot be computed ends the
  message.\<close>

definition tr_fees :: "trigger_out \<Rightarrow> PerpetualFees" where
  "tr_fees out = (case tr_close out of None \<Rightarrow> NewPerpetualFeesWithEmptyCoins | Some c \<Rightarrow> co_perpFees c)"

definition tr_returnAmt :: "trigger_out \<Rightarrow> int" where
  "tr_returnAmt out = (case tr_close out of None \<Rightarrow> 0 | Some c \<Rightarrow> co_returnAmt c)"

definition event_values :: "'e vkeeper \<Rightarrow> 'e mstate \<Rightarrow> MTP \<Rightarrow> PerpetualFees \<Rightarrow> int \<Rightarrow> unit result" where
  "event_values k s mtp fees interestAmt =
     rbind (GetPerpFeesInUSD k s fees) (\<lambda>_.
     rbind (CalculateUSDValue (vk_amm k) s (mt_CustodyAsset mtp) interestAmt) (\<lambda>_. Inr ()))"

definition EmitForceClose ::
    "'e vkeeper \<Rightarrow> 'e mstate \<Rightarrow> MTP \<Rightarrow> int \<Rightarrow> int \<Rightarrow> PerpetualFees \<Rightarrow> coin \<Rightarrow> unit result" where
  "EmitForceClose k s closedMTP returnAmt interestAmt fees initialCollateral =
     rbind (GetPerpFeesInUSD k s fees) (\<lambda>_.
     rbind (CalcNetPnLAtClosing k s returnAmt (mt_CustodyAsset closedMTP) initialCollateral dec_one) (\<lambda>_.
     rbind (CalculateUSDValue (vk_amm k) s (mt_CustodyAsset closedMTP) interestAmt) (\<lambda>_. Inr ())))"

end
