(* ===== verification/PerpOpen.thy ===== *)
theory PerpOpen
  imports PerpPosition
begin

text \<open>
  Opening positions of the perpetual module (x/perpetual/keeper: \<open>open.go\<close>, \<open>process_open.go\<close>,
  \<open>Borrow\<close> of \<open>keeper.go\<close>, \<open>open_consolidate*.go\<close>, \<open>check_*.go\<close>; x/perpetual/types:
  \<open>message_open.go\<close>): the collateral enters the amm pool, custody and liabilities are set aside,
  and a second position of the same side and collateral is merged into the first.
\<close>

section \<open>The message\<close>

text \<open>A nil leverage, which the basic check refuses, is not represented.\<close>

record MsgOpen =
  mo_Creator :: string
  mo_Position :: Position
  mo_Leverage :: int
  mo_Collateral :: coin
  mo_TakeProfitPrice :: "int option"
  mo_StopLossPrice :: "int option"
  mo_PoolId :: int

definition CheckNilAndNegative :: "int option \<Rightarrow> unit result" where
  "CheckNilAndNegative value =
     (case value of None \<Rightarrow> Inl (Plain ''value is nil'')
      | Some v \<Rightarrow> if v < 0 then Inl (Plain ''value is negative'') else Inr ())"

definition MsgOpen_ValidateBasic :: "sdk \<Rightarrow> MsgOpen \<Rightarrow> unit result" where
  "MsgOpen_ValidateBasic S msg =
     rbind (ss_address_ok S (mo_Creator msg)) (\<lambda>_.
     if mo_Position msg \<noteq> Position_LONG \<and> mo_Position msg \<noteq> Position_SHORT then Inl perp_ErrInvalidPosition
     else if mo_PoolId msg = 0 then Inl (Plain ''pool id cannot be 0'')
     else if \<not> (dec_one < mo_Leverage msg \<or> mo_Leverage msg = 0) then Inl perp_ErrInvalidLeverage
     else rbind (coin_Validate S (mo_Collateral msg)) (\<lambda>_.
     if Amount (mo_Collateral msg) = 0 then Inl (Plain ''collateral cannot be 0'')
     else rbind (CheckNilAndNegative (mo_TakeProfitPrice msg)) (\<lambda>_.
     rbind (CheckNilAndNegative (mo_StopLossPrice msg)) (\<lambda>_.
     rbind (deref (mo_TakeProfitPrice msg)) (\<lambda>takeProfit.
     rbind (deref (mo_StopLossPrice msg)) (\<lambda>stopLoss.
     if mo_Position msg = Position_LONG \<and> stopLoss \<noteq> 0 \<and> takeProfit \<noteq> 0 \<and> takeProfit \<le> stopLoss
     then Inl (Plain ''TakeProfitPrice cannot be <= StopLossPrice for LONG'')
     else if mo_Position msg = Position_SHORT \<and> stopLoss \<noteq> 0 \<and> takeProfit \<noteq> 0 \<and> stopLoss \<le> takeProfit
     then Inl (Plain ''TakeProfitPrice cannot be >= StopLossPrice for SHORT'')
     else Inr ()))))))"

text \<open>A long borrows base currency and holds the trading asset, a short the other way round.\<close>

definition GetCustodyAndLiabilitiesAsset :: "Position \<Rightarrow> string \<Rightarrow> string \<Rightarrow> (string \<times> string) result" where
  "GetCustodyAndLiabilitiesAsset position tradingAsset baseCurrency =
     (case position of
        Position_LONG \<Rightarrow> Inr (tradingAsset, baseCurrency)
      | Position_SHORT \<Rightarrow> Inr (baseCurrency, tradingAsset)
      | Position_UNSPECIFIED \<Rightarrow> Inl perp_ErrInvalidPosition)"

definition ValidatePosition :: "MsgOpen \<Rightarrow> string \<Rightarrow> string \<Rightarrow> unit result" where
  "ValidatePosition msg tradingAsset baseCurrency =
     (case mo_Position msg of
        Position_LONG \<Rightarrow>
          if Denom (mo_Collateral msg) \<noteq> tradingAsset \<and> Denom (mo_Collateral msg) \<noteq> baseCurrency
          then Inl perp_ErrInvalidCollateralAsset else Inr ()
      | Position_SHORT \<Rightarrow>
          if Denom (mo_Collateral msg) \<noteq> baseCurrency then Inl perp_ErrInvalidCollateralAsset else Inr ()
      | Position_UNSPECIFIED \<Rightarrow> Inl perp_ErrInvalidPosition)"

definition ValidateTakeProfitAndStopLossPrice :: "dec_ops \<Rightarrow> MsgOpen \<Rightarrow> PerpParams \<Rightarrow> int \<Rightarrow> unit result" where
  "ValidateTakeProfitAndStopLossPrice D msg params tradingAssetPrice =
     rbind (deref (mo_TakeProfitPrice msg)) (\<lambda>takeProfit.
     if \<not> 0 < takeProfit then Inr ()
     else rbind (DQuo D takeProfit tradingAssetPrice) (\<lambda>ratio.
     case mo_Position msg of
       Position_LONG \<Rightarrow>
         if ratio < pv_MinimumLongTakeProfitPriceRatio params \<or> pv_MaximumLongTakeProfitPriceRatio params < ratio
         then Inl (Plain ''take profit price out of range for long'')
         else rbind (deref (mo_StopLossPrice msg)) (\<lambda>stopLoss.
              if stopLoss \<noteq> 0 \<and> tradingAssetPrice \<le> stopLoss
              then Inl (Plain ''stop loss price cannot be greater than equal to tradingAssetPrice for long'') else Inr ())
     | Position_SHORT \<Rightarrow>
         if pv_MaximumShortTakeProfitPriceRatio params < ratio
         then Inl (Plain ''take profit price out of range for short'')
         else rbind (deref (mo_StopLossPrice msg)) (\<lambda>stopLoss.
              if stopLoss \<noteq> 0 \<and> stopLoss \<le> tradingAssetPrice
              then Inl (Plain ''stop loss price cannot be less than equal to tradingAssetPrice for short'') else Inr ())
     | Position_UNSPECIFIED \<Rightarrow> Inr ()))"

section \<open>Checks\<close>

definition CheckUserAuthorization :: "'e vkeeper \<Rightarrow> 'e mstate \<Rightarrow> MsgOpen \<Rightarrow> unit result" where
  "CheckUserAuthorization k s msg =
     (if \<not> pv_WhitelistingEnabled (perp_GetParams k s) then Inr ()
      else rbind (MustAccAddress (vk_sdk k) (mo_Creator msg)) (\<lambda>creator.
           if CheckIfWhitelisted k s creator then Inr () else Inl perp_ErrUnauthorised))"

definition CheckMaxOpenPositions :: "'e vkeeper \<Rightarrow> int \<Rightarrow> 'e mstate \<Rightarrow> 'e mstate result" where
  "CheckMaxOpenPositions k poolId s =
     (let most = pv_MaxOpenPositions (perp_GetParams k s) in
      if most < 0 then Inr s
      else let (s1, perpetualCounter) = GetPerpetualCounter k poolId s
           in if u64 most \<le> pc_TotalOpen perpetualCounter then Inl perp_ErrMaxOpenPositions else Inr s1)"

definition GetExistingPosition :: "'e vkeeper \<Rightarrow> 'e mstate \<Rightarrow> MsgOpen \<Rightarrow> MTP option result" where
  "GetExistingPosition k s msg =
     rbind (MustAccAddress (vk_sdk k) (mo_Creator msg)) (\<lambda>creator.
       Inr (find (\<lambda>mtp. mt_Position mtp = mo_Position msg \<and> mt_CollateralAsset mtp = Denom (mo_Collateral msg))
              (GetAllMTPsForAddressAndByPool k s creator (mo_PoolId msg))))"

definition GetProxyLeverage :: "Position \<Rightarrow> int \<Rightarrow> PerpPool \<Rightarrow> int" where
  "GetProxyLeverage position leverage pool =
     (if leverage = 0 then dec_one
      else if position = Position_SHORT then min leverage (pl_LeverageMax pool) + dec_one
      else min leverage (pl_LeverageMax pool))"

section \<open>Borrowing\<close>

text \<open>The liabilities of the leverage beyond one, in the liabilities' asset, with the fees of the swap
  that turns them into it.\<close>

definition borrow_swap ::
    "'e vkeeper \<Rightarrow> 'e mstate \<Rightarrow> coin \<Rightarrow> string \<Rightarrow> amm_Pool \<Rightarrow> string \<Rightarrow> (int \<times> PerpetualFees) result" where
  "borrow_swap k s tokenOut tokenInDenom ammPool owner =
     rbind (EstimateSwapGivenOut k s tokenOut tokenInDenom ammPool owner) (\<lambda>est.
     rbind (NewCoin (vk_sdk k) tokenInDenom (ve_Amount est)) (\<lambda>tokenIn.
     rbind (CalculatePerpetualFees k (pp_UseOracle (am_PoolParams ammPool)) tokenIn tokenOut (ve_SlippageAmount est)
              (ve_WeightBreakingFee est) (ve_PerpetualFees est) (ve_TakerFees est) (ve_OracleAmount est) False False) (\<lambda>fees.
       Inr (ve_Amount est, fees))))"

definition borrow_liabilities ::
    "'e vkeeper \<Rightarrow> 'e mstate \<Rightarrow> MTP \<Rightarrow> amm_Pool \<Rightarrow> int \<Rightarrow> string \<Rightarrow> (int \<times> PerpetualFees) result" where
  "borrow_liabilities k s mtp ammPool liabilitiesInCollateral baseCurrency =
     rbind (if mt_CollateralAsset mtp \<noteq> baseCurrency \<and> liabilitiesInCollateral \<noteq> 0
            then rbind (NewCoin (vk_sdk k) (mt_CollateralAsset mtp) liabilitiesInCollateral) (\<lambda>c.
                 borrow_swap k s c baseCurrency ammPool (mt_Address mtp))
            else Inr (liabilitiesInCollateral, NewPerpetualFeesWithEmptyCoins)) (\<lambda>(liabilities, fees).
     if mt_Position mtp = Position_SHORT \<and> liabilities \<noteq> 0
     then rbind (NewCoin (vk_sdk k) baseCurrency liabilities) (\<lambda>c.
          rbind (borrow_swap k s c (mt_LiabilitiesAsset mtp) ammPool (mt_Address mtp)) (\<lambda>(liabilities1, fees1).
            Inr (liabilities1, PerpetualFees_Add (vk_sdk k) fees fees1)))
     else Inr (liabilities, fees))"

text \<open>The totals of the pool follow the position.\<close>

definition book_position :: "MTP \<Rightarrow> PerpPool \<Rightarrow> PerpPool result" where
  "book_position mtp pool =
     rbind (UpdateCustody pool (mt_CustodyAsset mtp) (mt_Custody mtp) True (mt_Position mtp)) (\<lambda>pool1.
     rbind (UpdateLiabilities pool1 (mt_LiabilitiesAsset mtp) (mt_Liabilities mtp) True (mt_Position mtp)) (\<lambda>pool2.
     UpdateCollateral pool2 (mt_CollateralAsset mtp) (mt_Collateral mtp) True (mt_Position mtp)))"

definition perp_Borrow ::
    "'e vkeeper \<Rightarrow> block_ctx \<Rightarrow> int \<Rightarrow> int \<Rightarrow> desk \<Rightarrow> int \<Rightarrow> string \<Rightarrow> 'e mstate \<Rightarrow>
       ('e mstate \<times> desk \<times> PerpetualFees) result" where
  "perp_Borrow k ctx collateralAmount custodyAmount d proxyLeverage baseCurrency s =
     (case d of (mtp, pool, ammPool) \<Rightarrow>
      let S = vk_sdk k in
      rbind (AccAddressFromBech32 S (mt_Address mtp)) (\<lambda>senderAddress.
      rbind (NewCoin S (mt_CollateralAsset mtp) collateralAmount) (\<lambda>collateralCoin.
      if \<not> BkBalance (mk_bank (vk_amm k)) senderAddress (Denom collateralCoin) (mm_ext s) \<ge> Amount collateralCoin
      then Inl perp_ErrBalanceNotAvailable
      else
      let liabilitiesInCollateral = DTruncateInt (vk_dec k) ((proxyLeverage - dec_one) * collateralAmount) in
      rbind (borrow_liabilities k s mtp ammPool liabilitiesInCollateral baseCurrency) (\<lambda>(liabilities, totalPerpFees).
      let s1 = track_fees k ctx (am_PoolId ammPool) totalPerpFees s;
          mtp1 = mtp\<lparr>mt_Collateral := collateralAmount, mt_Liabilities := liabilities, mt_Custody := custodyAmount\<rparr> in
      rbind (GetMTPHealth k s1 mtp1) (\<lambda>health.
      let mtp2 = mtp1\<lparr>mt_MtpHealth := health\<rparr> in
      rbind (NewCoins S [collateralCoin]) (\<lambda>collateralCoins.
      rbind (SendToAmmPool k senderAddress ammPool collateralCoins s1) (\<lambda>(s2, ammPool1).
      let totalAmount = (if mt_Position mtp = Position_LONG \<and> mt_CollateralAsset mtp = baseCurrency
                         then DTruncateInt (vk_dec k) (proxyLeverage * collateralAmount) else liabilitiesInCollateral) in
      rbind (SendFeesToPoolRevenueAndTakerCollection k ctx senderAddress (mt_Address mtp) totalAmount
               (mt_CollateralAsset mtp) ammPool1 totalPerpFees totalAmount s2) (\<lambda>(s3, ammPool2, totalPerpFees1, _).
      rbind (book_position mtp2 pool) (\<lambda>pool1.
      rbind (SetMTP k mtp2 (perp_SetPool k pool1 s3)) (\<lambda>(s4, mtp3).
        Inr (s4, (mtp3, pool1, ammPool2), totalPerpFees1)))))))))))"

section \<open>A new position\<close>

text \<open>Is there enough to borrow, and what custody does the leveraged collateral buy?\<close>

definition open_custody ::
    "'e vkeeper \<Rightarrow> block_ctx \<Rightarrow> MTP \<Rightarrow> amm_Pool \<Rightarrow> MsgOpen \<Rightarrow> int \<Rightarrow> string \<Rightarrow> 'e mstate \<Rightarrow>
       ('e mstate \<times> int \<times> PerpetualFees) result" where
  "open_custody k ctx mtp ammPool msg leveragedAmount baseCurrency s =
     (let S = vk_sdk k in
      case mo_Position msg of
        Position_LONG \<Rightarrow>
          if mt_CollateralAsset mtp \<noteq> baseCurrency
          then rbind (NewCoin S (mt_CollateralAsset mtp) leveragedAmount) (\<lambda>custodyAmtToken.
               rbind (EstimateSwapGivenOut k s custodyAmtToken baseCurrency ammPool (mt_Address mtp)) (\<lambda>est.
               if \<not> HasSufficientPoolBalance ammPool baseCurrency (ve_Amount est) then Inl perp_ErrBorrowTooHigh
               else Inr (s, leveragedAmount, NewPerpetualFeesWithEmptyCoins)))
          else if \<not> HasSufficientPoolBalance ammPool (mt_CollateralAsset mtp) leveragedAmount then Inl perp_ErrBorrowTooHigh
          else rbind (NewCoin S (mt_CollateralAsset mtp) leveragedAmount) (\<lambda>tokenIn.
               rbind (EstimateSwapGivenIn k s tokenIn (mt_CustodyAsset mtp) ammPool (mt_Address mtp)) (\<lambda>est.
               rbind (NewCoin S (mt_CustodyAsset mtp) (ve_Amount est)) (\<lambda>tokenOut.
               rbind (CalculatePerpetualFees k (pp_UseOracle (am_PoolParams ammPool)) tokenIn tokenOut (ve_SlippageAmount est)
                        (ve_WeightBreakingFee est) (ve_PerpetualFees est) (ve_TakerFees est) 0 True False) (\<lambda>fees.
                 Inr (track_fees k ctx (am_PoolId ammPool) fees s, ve_Amount est,
                      PerpetualFees_Add S NewPerpetualFeesWithEmptyCoins fees)))))
      | Position_SHORT \<Rightarrow>
          if mt_CollateralAsset mtp \<noteq> baseCurrency then Inl perp_ErrInvalidCollateralAsset
          else if \<not> HasSufficientPoolBalance ammPool (mt_CustodyAsset mtp) leveragedAmount then Inl perp_ErrBorrowTooHigh
          else Inr (s, leveragedAmount, NewPerpetualFeesWithEmptyCoins)
      | Position_UNSPECIFIED \<Rightarrow> Inl perp_ErrInvalidPosition)"

definition stop_loss_or_liquidation :: "'e vkeeper \<Rightarrow> 'e mstate \<Rightarrow> MsgOpen \<Rightarrow> MTP \<Rightarrow> int result" where
  "stop_loss_or_liquidation k s msg mtp =
     (case mo_StopLossPrice msg of
        Some p \<Rightarrow> if p = 0 then GetLiquidationPrice k s mtp else Inr p
      | None \<Rightarrow> GetLiquidationPrice k s mtp)"

definition ProcessOpen ::
    "'e vkeeper \<Rightarrow> block_ctx \<Rightarrow> desk \<Rightarrow> int \<Rightarrow> MsgOpen \<Rightarrow> string \<Rightarrow> 'e mstate \<Rightarrow>
       ('e mstate \<times> desk \<times> PerpetualFees) result" where
  "ProcessOpen k ctx d proxyLeverage msg baseCurrency s =
     (case d of (mtp, pool, ammPool) \<Rightarrow>
      let leveragedAmount = DTruncateInt (vk_dec k) (proxyLeverage * Amount (mo_Collateral msg)) in
      rbind (open_custody k ctx mtp ammPool msg leveragedAmount baseCurrency s) (\<lambda>(s1, custodyAmount, fees).
      if \<not> HasSufficientPoolBalance ammPool (mt_CustodyAsset mtp) custodyAmount then Inl perp_ErrCustodyTooHigh
      else
      rbind (perp_Borrow k ctx (Amount (mo_Collateral msg)) custodyAmount d proxyLeverage baseCurrency s1) (\<lambda>(s2, (mtp1, pool1, ammPool1), fees1).
      rbind (UpdatePoolHealth k pool1 s2) (\<lambda>(s3, pool2).
      rbind (GetMTPHealth k s3 mtp1) (\<lambda>health.
      let mtp2 = mtp1\<lparr>mt_MtpHealth := health\<rparr> in
      if health \<le> pv_SafetyFactor (perp_GetParams k s3) then Inl perp_ErrMTPUnhealthy
      else
      rbind (stop_loss_or_liquidation k s3 msg mtp2) (\<lambda>stopLossPrice.
      rbind (GetAndSetOpenPrice k s3 (mtp2\<lparr>mt_StopLossPrice := Some stopLossPrice\<rparr>) (mo_Leverage msg = 0)) (\<lambda>mtp3.
      rbind (SetMTP k mtp3 s3) (\<lambda>(s4, mtp4).
        Inr (s4, (mtp4, pool2, ammPool1), PerpetualFees_Add (vk_sdk k) fees fees1)))))))))"

section \<open>Merging into an existing position\<close>

text \<open>The new position is taken out of the store; its identifier is used up.\<close>

definition OpenConsolidateMergeMtp :: "'e vkeeper \<Rightarrow> MTP \<Rightarrow> MTP \<Rightarrow> 'e mstate \<Rightarrow> ('e mstate \<times> MTP) result" where
  "OpenConsolidateMergeMtp k existingMtp newMtp s =
     rbind (DestroyMTP k newMtp s) (\<lambda>s1.
       Inr (s1, existingMtp\<lparr>mt_Collateral := mt_Collateral existingMtp + mt_Collateral newMtp,
                            mt_Custody := mt_Custody existingMtp + mt_Custody newMtp,
                            mt_Liabilities := mt_Liabilities existingMtp + mt_Liabilities newMtp\<rparr>))"

definition AfterPositionModified_hook ::
    "'e vkeeper \<Rightarrow> amm_Pool \<Rightarrow> PerpPool \<Rightarrow> addr \<Rightarrow> 'e mstate \<Rightarrow> 'e mstate result" where
  "AfterPositionModified_hook k ammPool pool creator s =
     (case vk_hooks k of None \<Rightarrow> Inr s | Some h \<Rightarrow> vh_AfterPositionModified h ammPool pool creator s)"

text \<open>The average of the two open prices, by what was already the sum of the two custodies and the new
  one.\<close>

definition consolidated_price :: "'e vkeeper \<Rightarrow> MTP \<Rightarrow> MTP \<Rightarrow> MTP result" where
  "consolidated_price k existingMtp newMtp =
     (if mt_Liabilities newMtp = 0 then Inr existingMtp
      else rbind (DQuoInt (vk_dec k)
                    (mt_OpenPrice existingMtp * mt_Custody existingMtp + mt_OpenPrice newMtp * mt_Custody newMtp)
                    (mt_Custody existingMtp + mt_Custody newMtp)) (\<lambda>price. Inr (existingMtp\<lparr>mt_OpenPrice := price\<rparr>)))"

definition OpenConsolidate ::
    "'e vkeeper \<Rightarrow> block_ctx \<Rightarrow> MTP \<Rightarrow> MTP \<Rightarrow> MsgOpen \<Rightarrow> string \<Rightarrow> PerpetualFees \<Rightarrow> 'e mstate \<Rightarrow> ('e mstate \<times> int) result" where
  "OpenConsolidate k ctx existingMtp newMtp msg tradingAsset prevPerpFeesCoins s =
     rbind (perp_GetAmmPool s (mt_AmmPoolId existingMtp)) (\<lambda>ammPool.
     rbind (NewCoin (vk_sdk k) (mt_CollateralAsset existingMtp) (mt_Collateral existingMtp)) (\<lambda>existingMtpCollateralCoin.
     case perp_GetPool k s (mt_AmmPoolId existingMtp) of
       None \<Rightarrow> Inl perp_ErrPoolDoesNotExist
     | Some pool \<Rightarrow>
     rbind (MTPTriggerChecksAndUpdates k ctx (existingMtp, pool, ammPool) s) (\<lambda>(s1, (mtp1, pool1, ammPool1), out).
     if tr_forceClosed out
     then rbind (GetAssetPriceAndAssetUsdcDenomRatio k s1 tradingAsset) (\<lambda>_.
          rbind (GetUSDCPrice k s1) (\<lambda>_.
          rbind (EmitForceClose k s1 mtp1 (tr_returnAmt out) (tr_interestAmt out)
                   (PerpetualFees_Add (vk_sdk k) (tr_fees out) prevPerpFeesCoins) existingMtpCollateralCoin) (\<lambda>_.
            Inr (s1, mt_Id mtp1))))
     else
     rbind (OpenConsolidateMergeMtp k mtp1 newMtp s1) (\<lambda>(s2, mtp2).
     rbind (consolidated_price k mtp2 newMtp) (\<lambda>mtp3.
     rbind (deref (mo_TakeProfitPrice msg)) (\<lambda>takeProfitPrice.
     let mtp4 = (if 0 < takeProfitPrice then mtp3\<lparr>mt_TakeProfitPrice := Some takeProfitPrice\<rparr> else mtp3) in
     rbind (GetMTPHealth k s2 mtp4) (\<lambda>health.
     let mtp5 = mtp4\<lparr>mt_MtpHealth := health\<rparr> in
     if health \<le> pv_SafetyFactor (perp_GetParams k s2) then Inl perp_ErrMTPUnhealthy
     else
     rbind (stop_loss_or_liquidation k s2 msg mtp5) (\<lambda>stopLossPrice.
     rbind (SetMTP k (mtp5\<lparr>mt_StopLossPrice := Some stopLossPrice\<rparr>) s2) (\<lambda>(s3, mtp6).
     rbind (MustAccAddress (vk_sdk k) (mo_Creator msg)) (\<lambda>creator.
     rbind (AfterPositionModified_hook k ammPool1 pool1 creator s3) (\<lambda>s4.
     rbind (CheckLowPoolHealthAndMinimumCustody k s4 (mt_AmmPoolId existingMtp) True) (\<lambda>_.
     rbind (event_values k s4 mtp6 (PerpetualFees_Add (vk_sdk k) (tr_fees out) prevPerpFeesCoins) (tr_interestAmt out)) (\<lambda>_.
     rbind (GetAssetPriceAndAssetUsdcDenomRatio k s4 (mt_TradingAsset mtp6)) (\<lambda>_.
     rbind (GetUSDCPrice k s4) (\<lambda>_. Inr (s4, mt_Id mtp6))))))))))))))))"

section \<open>Open\<close>

definition AfterPositionOpen_hook ::
    "'e vkeeper \<Rightarrow> amm_Pool \<Rightarrow> PerpPool \<Rightarrow> addr \<Rightarrow> 'e mstate \<Rightarrow> 'e mstate result" where
  "AfterPositionOpen_hook k ammPool pool creator s =
     (case vk_hooks k of None \<Rightarrow> Inr s | Some h \<Rightarrow> vh_AfterPositionOpen h ammPool pool creator s)"

text \<open>What a second position of the same side and collateral may do differently: have no leverage, and
  then it keeps the take profit price.\<close>

definition admit_open :: "'e vkeeper \<Rightarrow> MsgOpen \<Rightarrow> MTP option \<Rightarrow> 'e mstate \<Rightarrow> ('e mstate \<times> MsgOpen) result" where
  "admit_open k msg existingMtp s =
     (case existingMtp of
        None \<Rightarrow>
          if mo_Leverage msg \<le> dec_one then Inl (Plain ''cannot open new position with leverage <= 1'')
          else rbind (CheckMaxOpenPositions k (mo_PoolId msg) s) (\<lambda>s1. Inr (s1, msg))
      | Some mtp \<Rightarrow> Inr (s, if mo_Leverage msg = 0 then msg\<lparr>mo_TakeProfitPrice := mt_TakeProfitPrice mtp\<rparr> else msg))"

definition perp_Open :: "'e vkeeper \<Rightarrow> block_ctx \<Rightarrow> MsgOpen \<Rightarrow> 'e mstate \<Rightarrow> ('e mstate \<times> int) result" where
  "perp_Open k ctx msg0 s =
     (case GetBaseCurreny k s of
        None \<Rightarrow> Inl ErrAssetProfileNotFound
      | Some entry \<Rightarrow>
     (case perp_GetPool k s (mo_PoolId msg0) of
        None \<Rightarrow> Inl perp_ErrPoolDoesNotExist
      | Some pool \<Rightarrow>
     let baseCurrency = en_Denom entry; params = perp_GetParams k s in
     rbind (GetTradingAsset pool baseCurrency) (\<lambda>tradingAsset.
     rbind (ValidatePosition msg0 tradingAsset baseCurrency) (\<lambda>_.
     rbind (GetAssetPriceAndAssetUsdcDenomRatio k s tradingAsset) (\<lambda>(tradingAssetPrice, _).
     if tradingAssetPrice = 0 then Inl (Plain ''trading asset price is zero while opening perpetual'')
     else
     rbind (ValidateTakeProfitAndStopLossPrice (vk_dec k) msg0 params tradingAssetPrice) (\<lambda>_.
     rbind (CheckUserAuthorization k s msg0) (\<lambda>_.
     rbind (GetExistingPosition k s msg0) (\<lambda>existingMtp.
     rbind (admit_open k msg0 existingMtp s) (\<lambda>(s1, msg).
     rbind (CheckLowPoolHealthAndMinimumCustody k s1 (mo_PoolId msg) True) (\<lambda>_.
     rbind (GetCustodyAndLiabilitiesAsset (mo_Position msg) tradingAsset baseCurrency) (\<lambda>(custodyAsset, liabilitiesAsset).
     rbind (perp_GetAmmPool s1 (mo_PoolId msg)) (\<lambda>ammPool.
     let mtp = NewMTP ctx (mo_Creator msg) (Denom (mo_Collateral msg)) tradingAsset liabilitiesAsset custodyAsset
                 (mo_Position msg) (mo_TakeProfitPrice msg) (mo_PoolId msg) in
     rbind (ProcessOpen k ctx (mtp, pool, ammPool) (GetProxyLeverage (mo_Position msg) (mo_Leverage msg) pool) msg baseCurrency s1)
       (\<lambda>(s2, (mtp1, pool1, ammPool1), totalPerpFeesCoins).
     case existingMtp of
       Some existing \<Rightarrow> OpenConsolidate k ctx existing mtp1 msg tradingAsset totalPerpFeesCoins s2
     | None \<Rightarrow>
         rbind (CheckLowPoolHealthAndMinimumCustody k s2 (mo_PoolId msg) True) (\<lambda>_.
         rbind (perp_GetDenomPrice k s2 tradingAsset) (\<lambda>denomPrice.
         if GetMTPValue (vk_big k) mtp1 denomPrice < pv_MinimumNotionalValue params
         then Inl (Plain ''not enough notional value for the mtp'')
         else
         rbind (MustAccAddress (vk_sdk k) (mo_Creator msg)) (\<lambda>creator.
         rbind (AfterPositionOpen_hook k ammPool1 pool1 creator s2) (\<lambda>s3.
         rbind (GetPerpFeesInUSD k s3 totalPerpFeesCoins) (\<lambda>_. Inr (s3, mt_Id mtp1)))))))))))))))))))"

end
