(* ===== verification/PerpMsgs.thy ===== *)
theory PerpMsgs
  imports PerpOpen
begin

text \<open>
  The messages of the perpetual module (x/perpetual/keeper: \<open>msg_server_*.go\<close>, \<open>close.go\<close>,
  \<open>close_position.go\<close>, \<open>process_mtp.go\<close>; x/perpetual/types: \<open>message_*.go\<close>, \<open>genesis.go\<close>;
  x/perpetual/genesis.go).
\<close>

section \<open>Closing\<close>

record MsgClose =
  mc_Creator :: string
  mc_Id :: int
  mc_Amount :: int
  mc_PoolId :: int

record closed =
  cl_mtp :: MTP
  cl_repayAmt :: int
  cl_closingRatio :: int
  cl_returnAmt :: int
  cl_out :: trigger_out
  cl_fees :: PerpetualFees
  cl_initialCollateral :: coin

text \<open>The amount to close is in custody for a long and in liabilities for a short; the ratio is at most
  one.\<close>

definition closing_ratio :: "'e vkeeper \<Rightarrow> MTP \<Rightarrow> int \<Rightarrow> int result" where
  "closing_ratio k mtp amount =
     rbind (DQuo (vk_dec k) (dec_of_int amount) (dec_of_int (mt_Custody mtp))) (\<lambda>r.
     rbind (if mt_Position mtp = Position_SHORT then DQuo (vk_dec k) (dec_of_int amount) (dec_of_int (mt_Liabilities mtp))
            else Inr r) (\<lambda>ratio. Inr (if dec_one < ratio then dec_one else ratio)))"

definition ClosePosition :: "'e vkeeper \<Rightarrow> block_ctx \<Rightarrow> MsgClose \<Rightarrow> 'e mstate \<Rightarrow> ('e mstate \<times> closed) result" where
  "ClosePosition k ctx msg s =
     rbind (MustAccAddress (vk_sdk k) (mc_Creator msg)) (\<lambda>creator.
     rbind (GetMTP k s (mc_PoolId msg) creator (mc_Id msg)) (\<lambda>mtp.
     rbind (NewCoin (vk_sdk k) (mt_CollateralAsset mtp) (mt_Collateral mtp)) (\<lambda>initialCollateral.
     case perp_GetPool k s (mt_AmmPoolId mtp) of
       None \<Rightarrow> Inl perp_ErrPoolDoesNotExist
     | Some pool \<Rightarrow>
     rbind (perp_GetAmmPool s (mt_AmmPoolId mtp)) (\<lambda>ammPool.
     rbind (MTPTriggerChecksAndUpdates k ctx (mtp, pool, ammPool) s) (\<lambda>(s1, (mtp1, pool1, ammPool1), out).
     case tr_close out of
       Some c \<Rightarrow>
         Inr (s1, \<lparr>cl_mtp = mtp1, cl_repayAmt = co_repayAmt c, cl_closingRatio = dec_one, cl_returnAmt = co_returnAmt c,
                   cl_out = out, cl_fees = co_perpFees c, cl_initialCollateral = initialCollateral\<rparr>)
     | None \<Rightarrow>
         rbind (closing_ratio k mtp1 (mc_Amount msg)) (\<lambda>closingRatio.
         rbind (EstimateAndRepay k ctx (mtp1, pool1, ammPool1) closingRatio s1) (\<lambda>(s2, (mtp2, pool2, ammPool2), c).
         rbind (AfterPositionClosed_hook k ammPool2 pool2 creator closingRatio (mt_Id mtp2) s2) (\<lambda>s3.
           Inr (s3, \<lparr>cl_mtp = mtp2, cl_repayAmt = co_repayAmt c, cl_closingRatio = closingRatio, cl_returnAmt = co_returnAmt c,
                     cl_out = out, cl_fees = PerpetualFees_Add (vk_sdk k) (tr_fees out) (co_perpFees c),
                     cl_initialCollateral = initialCollateral\<rparr>)))))))))"

definition perp_Close :: "'e vkeeper \<Rightarrow> block_ctx \<Rightarrow> MsgClose \<Rightarrow> 'e mstate \<Rightarrow> ('e mstate \<times> int \<times> int) result" where
  "perp_Close k ctx msg s =
     rbind (ClosePosition k ctx msg s) (\<lambda>(s1, c).
     rbind (GetAssetPriceAndAssetUsdcDenomRatio k s1 (mt_TradingAsset (cl_mtp c))) (\<lambda>_.
     rbind (event_values k s1 (cl_mtp c) (cl_fees c) (tr_interestAmt (cl_out c))) (\<lambda>_.
     rbind (CalcNetPnLAtClosing k s1 (cl_returnAmt c) (mt_CustodyAsset (cl_mtp c)) (cl_initialCollateral c) (cl_closingRatio c)) (\<lambda>_.
     rbind (GetUSDCPrice k s1) (\<lambda>_.
       Inr (s1, mt_Id (cl_mtp c), cl_repayAmt c))))))"

section \<open>Liquidation by anyone\<close>

text \<open>A position that the checks did not close may be at its stop loss or take profit price.\<close>

definition CheckAndLiquidatePosition :: "'e vkeeper \<Rightarrow> block_ctx \<Rightarrow> desk \<Rightarrow> 'e mstate \<Rightarrow> 'e mstate result" where
  "CheckAndLiquidatePosition k ctx d s =
     recovered (
       rbind (NewCoin (vk_sdk k) (mt_CollateralAsset (fst d)) (mt_Collateral (fst d))) (\<lambda>initialCollateralCoin.
       rbind (MTPTriggerChecksAndUpdates k ctx d s) (\<lambda>(s1, (mtp, pool, ammPool), out).
       rbind (GetAssetPriceAndAssetUsdcDenomRatio k s1 (mt_TradingAsset mtp)) (\<lambda>(tradingAssetPrice, _).
       rbind (GetUSDCPrice k s1) (\<lambda>_.
       if tr_forceClosed out
       then rbind (EmitForceClose k s1 mtp (tr_returnAmt out) (tr_interestAmt out) (tr_fees out) initialCollateralCoin) (\<lambda>_. Inr s1)
       else if CheckForStopLoss mtp tradingAssetPrice \<or> CheckForTakeProfit mtp tradingAssetPrice
       then rbind (ForceClose k ctx (mtp, pool, ammPool) s1) (\<lambda>(s2, (mtp1, pool1, ammPool1), c).
            rbind (EmitForceClose k s2 mtp1 (co_returnAmt c) (tr_interestAmt out)
                     (PerpetualFees_Add (vk_sdk k) (tr_fees out) (co_perpFees c)) initialCollateralCoin) (\<lambda>_. Inr s2))
       else Inl (Plain ''position cannot be liquidated''))))))"

record PositionRequest =
  pq_Address :: string
  pq_Id :: int
  pq_PoolId :: int

text \<open>Each request in a \<open>CacheContext\<close>: one that fails changes nothing.\<close>

definition close_one :: "'e vkeeper \<Rightarrow> block_ctx \<Rightarrow> PositionRequest \<Rightarrow> 'e mstate \<Rightarrow> 'e mstate result" where
  "close_one k ctx val s =
     rbind (MustAccAddress (vk_sdk k) (pq_Address val)) (\<lambda>owner.
     case GetMTP k s (pq_PoolId val) owner (pq_Id val) of
       Inl e \<Rightarrow> Inr s
     | Inr position \<Rightarrow>
     (case perp_GetPool k s (mt_AmmPoolId position) of
        None \<Rightarrow> Inr s
      | Some pool \<Rightarrow>
     (case perp_GetAmmPool s (mt_AmmPoolId position) of
        Inl e \<Rightarrow> Inr s
      | Inr ammPool \<Rightarrow>
          (case CheckAndLiquidatePosition k ctx (position, pool, ammPool) s of
             Inl (Panic w) \<Rightarrow> Inl (Panic w)
           | Inl e \<Rightarrow> Inr s
           | Inr s1 \<Rightarrow> Inr s1))))"

fun close_all :: "'e vkeeper \<Rightarrow> block_ctx \<Rightarrow> PositionRequest list \<Rightarrow> 'e mstate \<Rightarrow> 'e mstate result" where
  "close_all k ctx [] s = Inr s"
| "close_all k ctx (val # vals) s = rbind (close_one k ctx val s) (close_all k ctx vals)"

record MsgClosePositions =
  mp_Creator :: string
  mp_Liquidate :: "PositionRequest list"
  mp_StopLoss :: "PositionRequest list"
  mp_TakeProfit :: "PositionRequest list"

definition ClosePositions :: "'e vkeeper \<Rightarrow> block_ctx \<Rightarrow> MsgClosePositions \<Rightarrow> 'e mstate \<Rightarrow> 'e mstate result" where
  "ClosePositions k ctx msg s =
     rbind (close_all k ctx (mp_Liquidate msg) s) (\<lambda>s1.
     rbind (close_all k ctx (mp_StopLoss msg) s1) (\<lambda>s2.
       close_all k ctx (mp_TakeProfit msg) s2))"

section \<open>Changing a position\<close>

definition perp_msg_Open :: "'e vkeeper \<Rightarrow> block_ctx \<Rightarrow> MsgOpen \<Rightarrow> 'e mstate \<Rightarrow> ('e mstate \<times> int) result" where
  "perp_msg_Open k ctx msg s =
     (if mo_PoolId msg \<notin> set (pv_EnabledPools (perp_GetParams k s)) then Inl perp_ErrPoolNotEnabled
      else perp_Open k ctx msg s)"

text \<open>Collateral of a long in base currency pays off liabilities, down to a minimum; any other position
  is opened again with no leverage and so merged.\<close>

definition reduce_liabilities ::
    "'e vkeeper \<Rightarrow> addr \<Rightarrow> string \<Rightarrow> int \<Rightarrow> desk \<Rightarrow> 'e mstate \<Rightarrow> ('e mstate \<times> desk) result" where
  "reduce_liabilities k creator denom finalAmount d s =
     (case d of (mtp, pool, ammPool) \<Rightarrow>
      rbind (UpdateLiabilities pool (mt_LiabilitiesAsset mtp) finalAmount False (mt_Position mtp)) (\<lambda>pool1.
      rbind (UpdateCollateral pool1 (mt_CollateralAsset mtp) finalAmount True (mt_Position mtp)) (\<lambda>pool2.
      rbind (NewCoin (vk_sdk k) denom finalAmount) (\<lambda>c.
      rbind (NewCoins (vk_sdk k) [c]) (\<lambda>cs.
      rbind (SendToAmmPool k creator ammPool cs s) (\<lambda>(s1, ammPool1).
      rbind (SetMTP k (mtp\<lparr>mt_Liabilities := mt_Liabilities mtp - finalAmount,
                          mt_Collateral := mt_Collateral mtp + finalAmount\<rparr>) s1) (\<lambda>(s2, mtp1).
        Inr (perp_SetPool k pool2 s2, (mtp1, pool2, ammPool1)))))))))"

definition AddCollateral ::
    "'e vkeeper \<Rightarrow> block_ctx \<Rightarrow> string \<Rightarrow> int \<Rightarrow> coin \<Rightarrow> int \<Rightarrow> 'e mstate \<Rightarrow> 'e mstate result" where
  "AddCollateral k ctx msg_Creator i addCollateral poolId s =
     rbind (AccAddressFromBech32 (vk_sdk k) msg_Creator) (\<lambda>creator.
     rbind (GetMTP k s poolId creator i) (\<lambda>mtp.
     rbind (NewCoin (vk_sdk k) (mt_CollateralAsset mtp) (mt_Collateral mtp)) (\<lambda>initialCollateralCoin.
     case GetBaseCurreny k s of
       None \<Rightarrow> Inl ErrAssetProfileNotFound
     | Some entry \<Rightarrow>
     if mt_Position mtp = Position_LONG \<and> mt_CollateralAsset mtp = en_Denom entry
     then
       if Denom addCollateral \<noteq> mt_CollateralAsset mtp then Inl (Plain ''denom not same as collateral asset'')
       else if Denom addCollateral \<noteq> mt_LiabilitiesAsset mtp then Inl (Plain ''denom not same as liabilities asset'')
       else case perp_GetPool k s (mt_AmmPoolId mtp) of
         None \<Rightarrow> Inl (Plain ''pool not found'')
       | Some pool \<Rightarrow>
       rbind (perp_GetAmmPool s (mt_AmmPoolId mtp)) (\<lambda>ammPool.
       rbind (MTPTriggerChecksAndUpdates k ctx (mtp, pool, ammPool) s) (\<lambda>(s1, (mtp1, pool1, ammPool1), out).
       rbind (GetAssetPriceAndAssetUsdcDenomRatio k s1 (mt_TradingAsset mtp1)) (\<lambda>_.
       if tr_forceClosed out
       then rbind (GetUSDCPrice k s1) (\<lambda>_.
            rbind (EmitForceClose k s1 mtp1 (tr_returnAmt out) (tr_interestAmt out) (tr_fees out) initialCollateralCoin) (\<lambda>_. Inr s1))
       else
       let maxAmount = mt_Liabilities mtp1 - pv_LongMinimumLiabilityAmount (perp_GetParams k s1) in
       if \<not> 0 < maxAmount then Inl (Plain ''cannot reduce liabilties'')
       else
       rbind (reduce_liabilities k creator (Denom addCollateral) (min (Amount addCollateral) maxAmount)
                (mtp1, pool1, ammPool1) s1) (\<lambda>(s2, (mtp2, pool2, ammPool2)).
       rbind (AfterPositionModified_hook k ammPool2 pool2 creator s2) (\<lambda>s3.
       rbind (event_values k s3 mtp2 (tr_fees out) (tr_interestAmt out)) (\<lambda>_. Inr s3))))))
     else
       let msgOpen = \<lparr>mo_Creator = msg_Creator, mo_Position = mt_Position mtp, mo_Leverage = 0,
             mo_Collateral = addCollateral, mo_TakeProfitPrice = Some 0, mo_StopLossPrice = Some 0,
             mo_PoolId = mt_AmmPoolId mtp\<rparr>
       in rbind (MsgOpen_ValidateBasic (vk_sdk k) msgOpen) (\<lambda>_.
          rbind (perp_msg_Open k ctx msgOpen s) (\<lambda>(s1, _). Inr s1)))))"

text \<open>The two prices: both messages settle the position first, and do no more when that closes it.\<close>

definition settle_first ::
    "'e vkeeper \<Rightarrow> block_ctx \<Rightarrow> string \<Rightarrow> int \<Rightarrow> int \<Rightarrow> 'e mstate \<Rightarrow>
       ('e mstate \<times> desk \<times> trigger_out \<times> int) result" where
  "settle_first k ctx msg_Creator poolId i s =
     rbind (MustAccAddress (vk_sdk k) msg_Creator) (\<lambda>creator.
     rbind (GetMTP k s poolId creator i) (\<lambda>mtp.
     rbind (NewCoin (vk_sdk k) (mt_CollateralAsset mtp) (mt_Collateral mtp)) (\<lambda>initialCollateralCoin.
     case perp_GetPool k s (mt_AmmPoolId mtp) of
       None \<Rightarrow> Inl perp_ErrPoolDoesNotExist
     | Some pool \<Rightarrow>
     rbind (perp_GetAmmPool s (pl_AmmPoolId pool)) (\<lambda>ammPool.
     rbind (MTPTriggerChecksAndUpdates k ctx (mtp, pool, ammPool) s) (\<lambda>(s1, d, out).
     rbind (GetAssetPriceAndAssetUsdcDenomRatio k s1 (mt_TradingAsset (fst d))) (\<lambda>(tradingAssetPrice, _).
     if tr_forceClosed out
     then rbind (GetUSDCPrice k s1) (\<lambda>_.
          rbind (EmitForceClose k s1 (fst d) (tr_returnAmt out) (tr_interestAmt out) (tr_fees out) initialCollateralCoin) (\<lambda>_.
            Inr (s1, d, out, tradingAssetPrice)))
     else Inr (s1, d, out, tradingAssetPrice)))))))"

definition UpdateStopLoss ::
    "'e vkeeper \<Rightarrow> block_ctx \<Rightarrow> string \<Rightarrow> int \<Rightarrow> int \<Rightarrow> int \<Rightarrow> 'e mstate \<Rightarrow> 'e mstate result" where
  "UpdateStopLoss k ctx msg_Creator i price poolId s =
     rbind (settle_first k ctx msg_Creator poolId i s) (\<lambda>(s1, (mtp, pool, ammPool), out, tradingAssetPrice).
     if tr_forceClosed out then Inr s1
     else if mt_Position mtp = Position_LONG \<and> price \<noteq> 0 \<and> tradingAssetPrice \<le> price
     then Inl (Plain ''stop loss price cannot be greater than equal to tradingAssetPrice for long'')
     else if mt_Position mtp = Position_SHORT \<and> price \<noteq> 0 \<and> price \<le> tradingAssetPrice
     then Inl (Plain ''stop loss price cannot be less than equal to tradingAssetPrice for short'')
     else rbind (SetMTP k (mtp\<lparr>mt_StopLossPrice := Some price\<rparr>) s1) (\<lambda>(s2, mtp1).
          rbind (event_values k s2 mtp1 (tr_fees out) (tr_interestAmt out)) (\<lambda>_. Inr s2)))"

definition UpdateTakeProfitPrice ::
    "'e vkeeper \<Rightarrow> block_ctx \<Rightarrow> string \<Rightarrow> int \<Rightarrow> int \<Rightarrow> int \<Rightarrow> 'e mstate \<Rightarrow> 'e mstate result" where
  "UpdateTakeProfitPrice k ctx msg_Creator i price poolId s =
     rbind (settle_first k ctx msg_Creator poolId i s) (\<lambda>(s1, (mtp, pool, ammPool), out, tradingAssetPrice).
     if tr_forceClosed out then Inr s1
     else
     let params = perp_GetParams k s1 in
     rbind (DQuo (vk_dec k) price tradingAssetPrice) (\<lambda>ratio.
     if mt_Position mtp = Position_LONG \<and>
        (ratio < pv_MinimumLongTakeProfitPriceRatio params \<or> pv_MaximumLongTakeProfitPriceRatio params < ratio)
     then Inl (Plain ''take profit price out of range for long'')
     else if mt_Position mtp = Position_SHORT \<and> pv_MaximumShortTakeProfitPriceRatio params < ratio
     then Inl (Plain ''take profit price out of range for short'')
     else rbind (SetMTP k (mtp\<lparr>mt_TakeProfitPrice := Some price\<rparr>) s1) (\<lambda>(s2, mtp1).
          rbind (MustAccAddress (vk_sdk k) msg_Creator) (\<lambda>creator.
          rbind (AfterPositionModified_hook k ammPool pool creator (perp_SetPool k pool s2)) (\<lambda>s3.
          rbind (event_values k s3 mtp1 (tr_fees out) (tr_interestAmt out)) (\<lambda>_. Inr s3))))))"

section \<open>Messages of the authority\<close>

definition only_authority :: "'e vkeeper \<Rightarrow> string \<Rightarrow> 'a result \<Rightarrow> 'a result" where
  "only_authority k authority m = (if vk_authority k \<noteq> authority then Inl gov_ErrInvalidSigner else m)"

definition perp_Whitelist :: "'e vkeeper \<Rightarrow> string \<Rightarrow> string \<Rightarrow> 'e mstate \<Rightarrow> 'e mstate result" where
  "perp_Whitelist k authority address s =
     only_authority k authority (rbind (AccAddressFromBech32 (vk_sdk k) address) (\<lambda>acc. Inr (WhitelistAddress k acc s)))"

definition perp_Dewhitelist :: "'e vkeeper \<Rightarrow> string \<Rightarrow> string \<Rightarrow> 'e mstate \<Rightarrow> 'e mstate result" where
  "perp_Dewhitelist k authority address s =
     only_authority k authority (rbind (AccAddressFromBech32 (vk_sdk k) address) (\<lambda>acc. Inr (DewhitelistAddress k acc s)))"

definition UpdateEnabledPools :: "'e vkeeper \<Rightarrow> string \<Rightarrow> int list \<Rightarrow> int list \<Rightarrow> 'e mstate \<Rightarrow> 'e mstate result" where
  "UpdateEnabledPools k authority addPools removePools s =
     only_authority k authority (
       let params = perp_GetParams k s;
           added = fold (\<lambda>p ps. if p \<in> set ps then ps else ps @ [p]) addPools (pv_EnabledPools params)
       in perp_SetParams k (params\<lparr>pv_EnabledPools := sort (filter (\<lambda>p. p \<notin> set removePools) added)\<rparr>) s)"

definition UpdateMaxLeverageForPool :: "'e vkeeper \<Rightarrow> string \<Rightarrow> int \<Rightarrow> int \<Rightarrow> 'e mstate \<Rightarrow> 'e mstate result" where
  "UpdateMaxLeverageForPool k authority poolId leverageMax s =
     only_authority k authority (
       case perp_GetPool k s poolId of
         None \<Rightarrow> Inl (Plain ''pool does not exists'')
       | Some pool \<Rightarrow>
           if pv_LeverageMax (perp_GetParams k s) < leverageMax
           then Inl (Plain ''max leverage allowed is less than the leverage max'')
           else Inr (perp_SetPool k (pool\<lparr>pl_LeverageMax := leverageMax\<rparr>) s))"

fun params_changed :: "'e vkeeper \<Rightarrow> 'e mstate perp_hooks \<Rightarrow> PerpPool list \<Rightarrow> 'e mstate \<Rightarrow> 'e mstate result" where
  "params_changed k h [] s = Inr s"
| "params_changed k h (pool # pools) s =
     (case amm_GetPool s (pl_AmmPoolId pool) of
        None \<Rightarrow> Inl (Plain ''amm pool not found'')
      | Some ammPool \<Rightarrow> rbind (vh_AfterParamsChange h ammPool pool s) (params_changed k h pools))"

definition perp_UpdateParams :: "'e vkeeper \<Rightarrow> string \<Rightarrow> PerpParams \<Rightarrow> 'e mstate \<Rightarrow> 'e mstate result" where
  "perp_UpdateParams k authority params s =
     only_authority k authority (rbind (perp_SetParams k params s) (\<lambda>s1.
       case vk_hooks k of None \<Rightarrow> Inr s1 | Some h \<Rightarrow> params_changed k h (perp_GetAllPools k s1) s1))"

section \<open>Basic checks\<close>

definition MsgClose_ValidateBasic :: "sdk \<Rightarrow> MsgClose \<Rightarrow> unit result" where
  "MsgClose_ValidateBasic S msg =
     rbind (ss_address_ok S (mc_Creator msg)) (\<lambda>_.
     if mc_Amount msg < 0 \<or> mc_Amount msg = 0 then Inl perp_ErrInvalidAmount
     else if mc_PoolId msg = 0 then Inl (Plain ''invalid pool id'') else Inr ())"

definition MsgAddCollateral_ValidateBasic :: "sdk \<Rightarrow> string \<Rightarrow> int \<Rightarrow> coin \<Rightarrow> int \<Rightarrow> unit result" where
  "MsgAddCollateral_ValidateBasic S msg_Creator i addCollateral poolId =
     rbind (ss_address_ok S msg_Creator) (\<lambda>_.
     rbind (coin_Validate S addCollateral) (\<lambda>_.
     if Amount addCollateral = 0 then Inl (Plain ''add collateral cannot be zero'')
     else if i = 0 then Inl (Plain ''id cannot be zero'')
     else if poolId = 0 then Inl (Plain ''invalid pool id'') else Inr ()))"

definition MsgUpdateStopLoss_ValidateBasic :: "sdk \<Rightarrow> string \<Rightarrow> int option \<Rightarrow> int \<Rightarrow> unit result" where
  "MsgUpdateStopLoss_ValidateBasic S msg_Creator price poolId =
     rbind (ss_address_ok S msg_Creator) (\<lambda>_.
     rbind (CheckNilAndNegative price) (\<lambda>_.
     if poolId = 0 then Inl (Plain ''invalid pool id'') else Inr ()))"

definition MsgUpdateTakeProfitPrice_ValidateBasic :: "sdk \<Rightarrow> string \<Rightarrow> int option \<Rightarrow> int \<Rightarrow> unit result" where
  "MsgUpdateTakeProfitPrice_ValidateBasic S msg_Creator price poolId =
     rbind (ss_address_ok S msg_Creator) (\<lambda>_.
     rbind (CheckNilAndNegative price) (\<lambda>_.
     if poolId = 0 then Inl (Plain ''invalid pool id'') else Inr ()))"

definition MsgClosePositions_ValidateBasic :: "sdk \<Rightarrow> MsgClosePositions \<Rightarrow> unit result" where
  "MsgClosePositions_ValidateBasic S msg =
     rbind (ss_address_ok S (mp_Creator msg)) (\<lambda>_.
     if mp_Liquidate msg = [] \<and> mp_StopLoss msg = [] \<and> mp_TakeProfit msg = []
     then Inl (Plain ''liquidate, stop loss, take profit all are empty'')
     else first_error (\<lambda>position. ss_address_ok S (pq_Address position)) (mp_Liquidate msg @ mp_StopLoss msg @ mp_TakeProfit msg))"

definition perp_MsgUpdateParams_ValidateBasic :: "sdk \<Rightarrow> string \<Rightarrow> PerpParams \<Rightarrow> unit result" where
  "perp_MsgUpdateParams_ValidateBasic S authority params =
     rbind (ss_address_ok S authority) (\<lambda>_. perp_Params_Validate params)"

section \<open>Genesis\<close>

record perp_GenesisState =
  vg_Params :: PerpParams
  vg_PoolList :: "PerpPool list"
  vg_MtpList :: "MTP list"
  vg_AddressWhitelist :: "string list"
  vg_PerpetualCounter :: "PerpetualCounter list"

definition perp_DefaultGenesis :: perp_GenesisState where
  "perp_DefaultGenesis =
     \<lparr>vg_Params = perp_DefaultParams, vg_PoolList = [], vg_MtpList = [], vg_AddressWhitelist = [],
      vg_PerpetualCounter = []\<rparr>"

text \<open>The whitelist is looked up among the keys of the positions, whose bytes no address is: its
  duplicates pass.\<close>

definition perp_GenesisState_Validate :: "sdk \<Rightarrow> perp_GenesisState \<Rightarrow> unit result" where
  "perp_GenesisState_Validate S gs =
     (if \<not> distinct (map pl_AmmPoolId (vg_PoolList gs)) then Inl (Plain ''duplicated index for pool'')
      else rbind (fold (\<lambda>elem acc. rbind acc (\<lambda>keys.
             rbind (GetAccountAddress S elem) (\<lambda>address.
             let key = GetMTPKey address (mt_AmmPoolId elem) (mt_Id elem)
             in if key \<in> set keys then Inl (Plain ''duplicated index for pool'') else Inr (key # keys))))
             (vg_MtpList gs) (Inr [])) (\<lambda>_. perp_Params_Validate (vg_Params gs)))"

definition perp_InitGenesis :: "'e vkeeper \<Rightarrow> perp_GenesisState \<Rightarrow> 'e mstate \<Rightarrow> 'e mstate result" where
  "perp_InitGenesis k genState s =
     (let panics = (\<lambda>m. case m of Inl e \<Rightarrow> Inl (Panic ''genesis'') | Inr x \<Rightarrow> Inr x);
          s1 = fold (perp_SetPool k) (vg_PoolList genState) s
      in rbind (panics (fold (\<lambda>elem acc. rbind acc (\<lambda>s. rbind (SetMTP k elem s) (\<lambda>r. Inr (fst r)))) (vg_MtpList genState) (Inr s1))) (\<lambda>s2.
         let s3 = fold (SetPerpetualCounter k) (vg_PerpetualCounter genState) s2
         in rbind (fold (\<lambda>elem acc. rbind acc (\<lambda>s. rbind (MustAccAddress (vk_sdk k) elem) (\<lambda>acc'. Inr (WhitelistAddress k acc' s))))
              (vg_AddressWhitelist genState) (Inr s3)) (\<lambda>s4. panics (perp_SetParams k (vg_Params genState) s4))))"

definition perp_ExportGenesis :: "'e vkeeper \<Rightarrow> 'e mstate \<Rightarrow> perp_GenesisState" where
  "perp_ExportGenesis k s =
     \<lparr>vg_Params = perp_GetParams k s, vg_PoolList = perp_GetAllPools k s, vg_MtpList = GetAllMTPs k s,
      vg_AddressWhitelist = map (AccAddressString (vk_sdk k)) (GetAllWhitelistedAddress k s),
      vg_PerpetualCounter = GetAllPerpetualCounter k s\<rparr>"

end
