(* ===== verification/PerpLedger.thy ===== *)
theory PerpLedger
  imports PerpMsgs AmmKeep
begin

text \<open>
  The books of the perpetual module: a pool totals, per side and denomination, the liabilities,
  collateral and custody of its positions. The messages change a position and its pool in memory by
  the same amounts and then write both; \<open>moved\<close> is that relation between what was read and what is
  in memory. The first part shows it for every step of the code that does not write.
\<close>

section \<open>Totals and shares\<close>

datatype kind = Liability | Collateral | Custody

primrec held :: "kind \<Rightarrow> PerpAsset \<Rightarrow> int" where
  "held Liability = pe_Liabilities"
| "held Collateral = pe_Collateral"
| "held Custody = pe_Custody"

primrec own :: "kind \<Rightarrow> MTP \<Rightarrow> int" where
  "own Liability = mt_Liabilities"
| "own Collateral = mt_Collateral"
| "own Custody = mt_Custody"

primrec own_asset :: "kind \<Rightarrow> MTP \<Rightarrow> string" where
  "own_asset Liability = mt_LiabilitiesAsset"
| "own_asset Collateral = mt_CollateralAsset"
| "own_asset Custody = mt_CustodyAsset"

text \<open>A line of the books: what is counted, for the longs or not, in which denomination.\<close>

type_synonym line = "kind \<times> bool \<times> string"

definition side :: "PerpPool \<Rightarrow> bool \<Rightarrow> PerpAsset list" where
  "side p longs = (if longs then pl_PoolAssetsLong p else pl_PoolAssetsShort p)"

definition sum_held :: "kind \<Rightarrow> string \<Rightarrow> PerpAsset list \<Rightarrow> int" where
  "sum_held c d as = sum_list (map (\<lambda>a. if pe_AssetDenom a = d then held c a else 0) as)"

definition pool_total :: "PerpPool \<Rightarrow> line \<Rightarrow> int" where
  "pool_total p x = (case x of (c, longs, d) \<Rightarrow> sum_held c d (side p longs))"

definition share :: "int \<Rightarrow> line \<Rightarrow> MTP \<Rightarrow> int" where
  "share i x m = (case x of (c, longs, d) \<Rightarrow>
     if mt_AmmPoolId m = i \<and> (mt_Position m = Position_LONG) = longs \<and> own_asset c m = d then own c m else 0)"

text \<open>What no operation changes of a position but its identifier, and the denominations of a pool.\<close>

definition same_position :: "MTP \<Rightarrow> MTP \<Rightarrow> bool" where
  "same_position m m' \<longleftrightarrow> mt_Address m' = mt_Address m \<and> mt_AmmPoolId m' = mt_AmmPoolId m \<and>
     mt_Position m' = mt_Position m \<and> mt_TradingAsset m' = mt_TradingAsset m \<and> (\<forall>c. own_asset c m' = own_asset c m)"

definition pool_denoms :: "PerpPool \<Rightarrow> string list" where
  "pool_denoms p = map pe_AssetDenom (pl_PoolAssetsLong p)"

lemma find_denom:
  "(case find (\<lambda>a. pe_AssetDenom a \<noteq> d) as of None \<Rightarrow> Inl e | Some a \<Rightarrow> Inr (pe_AssetDenom a))
     = (case find (\<lambda>n. n \<noteq> d) (map pe_AssetDenom as) of None \<Rightarrow> Inl e | Some n \<Rightarrow> (Inr n :: string result))"
  by (induction as) simp_all

lemma GetTradingAsset_denoms:
  "pool_denoms p' = pool_denoms p \<Longrightarrow> GetTradingAsset p' d = GetTradingAsset p d"
  unfolding GetTradingAsset_def pool_denoms_def find_denom by simp

definition moved :: "MTP \<times> PerpPool \<Rightarrow> MTP \<times> PerpPool \<Rightarrow> bool" where
  "moved d d' \<longleftrightarrow> (case (d, d') of ((m, p), (m', p')) \<Rightarrow>
     same_position m m' \<and> mt_Id m' = mt_Id m \<and> pl_AmmPoolId p' = pl_AmmPoolId p \<and> pool_denoms p' = pool_denoms p \<and>
     (\<forall>x. pool_total p' x - pool_total p x = share (mt_AmmPoolId m) x m' - share (mt_AmmPoolId m) x m))"

lemma moved_refl [simp]: "moved d d"
  by (cases d) (simp add: moved_def same_position_def)

lemma moved_trans: "moved d d' \<Longrightarrow> moved d' d'' \<Longrightarrow> moved d d''"
proof -
  assume A: "moved d d'" and B: "moved d' d''"
  obtain m p m' p' m'' p'' where d: "d = (m, p)" "d' = (m', p')" "d'' = (m'', p'')"
    by (cases d; cases d'; cases d'') simp
  have "pool_total p'' x - pool_total p x = share (mt_AmmPoolId m) x m'' - share (mt_AmmPoolId m) x m" for x
  proof -
    have "pool_total p' x - pool_total p x = share (mt_AmmPoolId m) x m' - share (mt_AmmPoolId m) x m"
      "pool_total p'' x - pool_total p' x = share (mt_AmmPoolId m) x m'' - share (mt_AmmPoolId m) x m'"
      using A B by (cases x; simp add: d moved_def same_position_def)+
    then show ?thesis by simp
  qed
  then show ?thesis using A B by (simp add: d moved_def same_position_def)
qed

lemma moved_idD: "moved (m, p) (m', p') \<Longrightarrow> same_position m m' \<and> mt_Id m' = mt_Id m"
  by (simp add: moved_def)

section \<open>The updates of a pool\<close>

lemma sum_held_update:
  assumes "find (\<lambda>a. pe_AssetDenom a = d) as = Some a0" "pe_AssetDenom (f a0) = d"
  shows "sum_held c d' (update_first d f as) =
    sum_held c d' as + (if d' = d then held c (f a0) - held c a0 else 0)"
  using assms by (induction as) (auto simp: sum_held_def split: if_splits)

lemma update_first_denoms:
  "(\<And>a. pe_AssetDenom (f a) = pe_AssetDenom a) \<Longrightarrow> map pe_AssetDenom (update_first d f as) = map pe_AssetDenom as"
  by (induction as) simp_all

text \<open>How an update of one line shows in the totals.\<close>

definition booked :: "PerpPool \<Rightarrow> PerpPool \<Rightarrow> line \<Rightarrow> int \<Rightarrow> bool" where
  "booked p p' x n \<longleftrightarrow> pl_AmmPoolId p' = pl_AmmPoolId p \<and> pool_denoms p' = pool_denoms p \<and>
     (\<forall>y. pool_total p' y = pool_total p y + (if y = x then n else 0))"

lemma booked_update:
  assumes "update_pool_asset p pos d f = Inr p'"
    and "\<And>a. pe_AssetDenom (f a) = pe_AssetDenom a"
    and "\<And>a c'. held c' (f a) = held c' a + (if c' = c then n else 0)"
  shows "booked p p' (c, pos = Position_LONG, d) n"
proof -
  obtain a0 where a0: "find (\<lambda>a. pe_AssetDenom a = d) (GetPoolAssets p pos) = Some a0"
    and p': "p' = put_pool_assets p pos (update_first d f (GetPoolAssets p pos))"
    using assms(1) by (auto simp: update_pool_asset_def perp_GetPoolAsset_def split: option.splits)
  have S: "sum_held c' d' (update_first d f (GetPoolAssets p pos)) =
      sum_held c' d' (GetPoolAssets p pos) + (if c' = c \<and> d' = d then n else 0)" for c' d'
  proof -
    have "pe_AssetDenom a0 = d" using a0 by (simp add: find_Some_iff) metis
    then show ?thesis using sum_held_update [OF a0, of f c' d'] assms(2) [of a0] assms(3) [of c' a0] by auto
  qed
  show ?thesis
    using S by (auto simp: booked_def p' put_pool_assets_def GetPoolAssets_def pool_total_def side_def pool_denoms_def
        update_first_denoms assms(2))
qed

lemma booked_Custody:
  "UpdateCustody p d n inc pos = Inr p' \<Longrightarrow> booked p p' (Custody, pos = Position_LONG, d) (if inc then n else - n)"
proof (unfold UpdateCustody_def, erule booked_update)
  show "held c' (a\<lparr>pe_Custody := (if inc then pe_Custody a + n else pe_Custody a - n)\<rparr>) =
      held c' a + (if c' = Custody then if inc then n else - n else 0)" for a c' by (cases c') simp_all
qed simp

lemma booked_Liabilities:
  "UpdateLiabilities p d n inc pos = Inr p' \<Longrightarrow> booked p p' (Liability, pos = Position_LONG, d) (if inc then n else - n)"
proof (unfold UpdateLiabilities_def, erule booked_update)
  show "held c' (a\<lparr>pe_Liabilities := (if inc then pe_Liabilities a + n else pe_Liabilities a - n)\<rparr>) =
      held c' a + (if c' = Liability then if inc then n else - n else 0)" for a c' by (cases c') simp_all
qed simp

lemma booked_Collateral:
  "UpdateCollateral p d n inc pos = Inr p' \<Longrightarrow> booked p p' (Collateral, pos = Position_LONG, d) (if inc then n else - n)"
proof (unfold UpdateCollateral_def, erule booked_update)
  show "held c' (a\<lparr>pe_Collateral := (if inc then pe_Collateral a + n else pe_Collateral a - n)\<rparr>) =
      held c' a + (if c' = Collateral then if inc then n else - n else 0)" for a c' by (cases c') simp_all
qed simp

lemma booked_fees: "UpdateFeesCollected S p d n inc = Inr p' \<Longrightarrow> booked p p' x 0"
  by (auto simp: UpdateFeesCollected_def booked_def pool_denoms_def pool_total_def side_def split: if_splits)

text \<open>A position moves with its pool when the line is its own and the amount is what it gains.\<close>

lemma moved_booked:
  assumes "booked p p' (c, mt_Position m = Position_LONG, own_asset c m) n"
    and "same_position m m'" "mt_Id m' = mt_Id m"
    and "\<And>c'. own c' m' = own c' m + (if c' = c then n else 0)"
  shows "moved (m, p) (m', p')"
proof -
  have "share (mt_AmmPoolId m) y m' = share (mt_AmmPoolId m) y m
      + (if y = (c, mt_Position m = Position_LONG, own_asset c m) then n else 0)" for y
    using assms(2,4) by (cases y) (auto simp: share_def same_position_def)
  then show ?thesis using assms(1-3) by (simp add: moved_def booked_def)
qed

lemma moved_same:
  "booked p p' x 0 \<Longrightarrow> same_position m m' \<Longrightarrow> mt_Id m' = mt_Id m \<Longrightarrow> (\<And>c. own c m' = own c m) \<Longrightarrow> moved (m, p) (m', p')"
  by (auto simp: moved_def booked_def share_def same_position_def)

lemma moved_keep:
  "same_position m m' \<Longrightarrow> mt_Id m' = mt_Id m \<Longrightarrow> (\<And>c. own c m' = own c m) \<Longrightarrow> moved (m, p) (m', p)"
  by (rule moved_same [of _ _ undefined]) (simp_all add: booked_def)

lemma own_custody:
  "own c (m\<lparr>mt_Custody := x\<rparr>) = own c m + (if c = Custody then x - mt_Custody m else 0)"
  "own c (m\<lparr>mt_Liabilities := x\<rparr>) = own c m + (if c = Liability then x - mt_Liabilities m else 0)"
  "own c (m\<lparr>mt_Collateral := x\<rparr>) = own c m + (if c = Collateral then x - mt_Collateral m else 0)"
  by (cases c; simp)+

lemma own_asset_fields:
  "own_asset c (m\<lparr>mt_Custody := x\<rparr>) = own_asset c m" "own_asset c (m\<lparr>mt_Liabilities := x\<rparr>) = own_asset c m"
  "own_asset c (m\<lparr>mt_Collateral := x\<rparr>) = own_asset c m"
  by (cases c; simp)+

section \<open>Steps in memory\<close>

lemmas same_fields = same_position_def own_asset_fields

lemma own_any:
  assumes "mt_Custody m' = mt_Custody m" "mt_Liabilities m' = mt_Liabilities m" "mt_Collateral m' = mt_Collateral m"
  shows "own c m' = own c m"
  using assms by (cases c) simp_all

lemma own_asset_any:
  assumes "mt_CustodyAsset m' = mt_CustodyAsset m" "mt_LiabilitiesAsset m' = mt_LiabilitiesAsset m"
    "mt_CollateralAsset m' = mt_CollateralAsset m"
  shows "own_asset c m' = own_asset c m"
  using assms by (cases c) simp_all

lemma moved_other_fields:
  assumes "mt_Address m' = mt_Address m" "mt_AmmPoolId m' = mt_AmmPoolId m" "mt_Position m' = mt_Position m"
    "mt_TradingAsset m' = mt_TradingAsset m" "mt_CustodyAsset m' = mt_CustodyAsset m"
    "mt_LiabilitiesAsset m' = mt_LiabilitiesAsset m" "mt_CollateralAsset m' = mt_CollateralAsset m" "mt_Id m' = mt_Id m"
    "mt_Custody m' = mt_Custody m" "mt_Liabilities m' = mt_Liabilities m" "mt_Collateral m' = mt_Collateral m"
  shows "moved (m, p) (m', p)"
  by (rule moved_keep) (simp_all add: same_position_def assms(1-4,8) own_asset_any [OF assms(5-7)] own_any [OF assms(9-11)])

text \<open>A field that is in neither the books nor the identity of a position.\<close>

lemma moved_fields [intro, simp]:
  "moved (m, p) (m\<lparr>mt_TakeProfitBorrowFactor := x\<rparr>, p)"
  "moved (m, p) (m\<lparr>mt_OpenPrice := x\<rparr>, p)"
  "moved (m, p) (m\<lparr>mt_MtpHealth := x\<rparr>, p)"
  "moved (m, p) (m\<lparr>mt_StopLossPrice := v\<rparr>, p)"
  "moved (m, p) (m\<lparr>mt_TakeProfitPrice := v\<rparr>, p)"
  "moved (m, p) (m\<lparr>mt_FundingFeePaidCustody := x\<rparr>, p)"
  "moved (m, p) (m\<lparr>mt_FundingFeeReceivedCustody := x\<rparr>, p)"
  "moved (m, p) (m\<lparr>mt_BorrowInterestUnpaidLiability := x, mt_LastInterestCalcBlock := y, mt_LastInterestCalcTime := z\<rparr>, p)"
  "moved (m, p) (m\<lparr>mt_BorrowInterestUnpaidLiability := x, mt_BorrowInterestPaidCustody := y\<rparr>, p)"
  "moved (m, p) (m\<lparr>mt_LastFundingCalcBlock := y, mt_LastFundingCalcTime := z\<rparr>, p)"
  by (rule moved_other_fields; simp)+

lemma moved_TakeProfitBorrowFactor: "on_ok (\<lambda>m'. moved (m, p) (m', p)) (UpdateMTPTakeProfitBorrowFactor k s m)"
  unfolding UpdateMTPTakeProfitBorrowFactor_def Let_def by (intro on_ok_intros) simp_all

lemma moved_interest: "on_ok (\<lambda>m'. moved (m, p) (m', p)) (UpdateMTPBorrowInterestUnpaidLiability k ctx s m)"
proof (rule on_okI)
  fix m' assume "UpdateMTPBorrowInterestUnpaidLiability k ctx s m = Inr m'"
  then obtain m1 n where m1: "UpdateMTPTakeProfitBorrowFactor k s m = Inr m1"
    and m': "m' = m1\<lparr>mt_BorrowInterestUnpaidLiability := n, mt_LastInterestCalcBlock := u64 (BlockHeight ctx),
        mt_LastInterestCalcTime := u64 (Unix (BlockTime ctx))\<rparr>"
    unfolding UpdateMTPBorrowInterestUnpaidLiability_def GetBorrowInterestAmount_def by auto
  show "moved (m, p) (m', p)" unfolding m'
    by (rule moved_trans [OF on_okD [OF moved_TakeProfitBorrowFactor m1]]) (rule moved_fields)
qed

lemma moved_OpenPrice: "on_ok (\<lambda>m'. moved (m, p) (m', p)) (GetAndSetOpenPrice k s m b)"
  unfolding GetAndSetOpenPrice_def Let_def by (intro on_ok_intros) simp_all

text \<open>Custody that leaves or enters a position, in its pool too.\<close>

lemma moved_custody:
  assumes "UpdateCustody p (mt_CustodyAsset m) n inc (mt_Position m) = Inr p'"
    and "m' = f (m\<lparr>mt_Custody := mt_Custody m + (if inc then n else - n)\<rparr>)"
    and "\<And>m p. moved (m, p) (f m, p)"
  shows "moved (m, p) (m', p')"
proof -
  have "moved (m, p) (m\<lparr>mt_Custody := mt_Custody m + (if inc then n else - n)\<rparr>, p')"
    by (rule moved_booked [where c = Custody], use booked_Custody [OF assms(1)] in simp)
      (simp_all add: same_fields own_custody)
  then show ?thesis using assms(2,3) moved_trans by blast
qed

lemma moved_collected: "UpdateFeesCollected S p d n inc = Inr p' \<Longrightarrow> moved (m, p) (m, p')"
  by (rule moved_same [OF booked_fees [where x = undefined]]) (simp_all add: same_position_def)

lemma moved_FundingFeeCollection:
  assumes "FundingFeeCollection k ctx s m p = Inr (m', p', full, n)"
  shows "moved (m, p) (m', p')"
proof -
  have P: "moved (m, p) (m\<lparr>mt_Custody := c, mt_FundingFeePaidCustody := mt_FundingFeePaidCustody m + a\<rparr>, p2)"
    if "UpdateFeesCollected S p d x inc = Inr p1" "UpdateCustody p1 (mt_CustodyAsset m) a False pos = Inr p2"
      "pos = mt_Position m" "c = mt_Custody m - a" for S d x inc p1 p2 a c pos
  proof -
    have "moved (m, p1) (m\<lparr>mt_Custody := c, mt_FundingFeePaidCustody := mt_FundingFeePaidCustody m + a\<rparr>, p2)"
      by (rule moved_custody [OF that(2) [unfolded that(3)], where f = "\<lambda>m'. m'\<lparr>mt_FundingFeePaidCustody := mt_FundingFeePaidCustody m + a\<rparr>"])
        (simp_all add: that(4))
    then show ?thesis by (rule moved_trans [OF moved_collected [OF that(1)]])
  qed
  show ?thesis using assms by (auto simp: FundingFeeCollection_def Let_def split: if_splits intro: P)
qed

lemma moved_FundingFeeDistribution:
  assumes "FundingFeeDistribution k ctx s m p = Inr (m', p', n)"
  shows "moved (m, p) (m', p')"
proof -
  have P: "moved (m, p) (m\<lparr>mt_Custody := c, mt_FundingFeeReceivedCustody := mt_FundingFeeReceivedCustody m + a\<rparr>, p2)"
    if "UpdateFeesCollected S p d x inc = Inr p1" "UpdateCustody p1 (mt_CustodyAsset m) a True pos = Inr p2"
      "pos = mt_Position m" "c = mt_Custody m + a" for S d x inc p1 p2 a c pos
  proof -
    have "moved (m, p1) (m\<lparr>mt_Custody := c, mt_FundingFeeReceivedCustody := mt_FundingFeeReceivedCustody m + a\<rparr>, p2)"
      by (rule moved_custody [OF that(2) [unfolded that(3)], where f = "\<lambda>m'. m'\<lparr>mt_FundingFeeReceivedCustody := mt_FundingFeeReceivedCustody m + a\<rparr>"])
        (simp_all add: that(4))
    then show ?thesis by (rule moved_trans [OF moved_collected [OF that(1)]])
  qed
  show ?thesis using assms
    by (auto simp: FundingFeeDistribution_def Let_def split: if_splits prod.splits intro: P)
qed

lemma moved_UpdateFundingFee:
  assumes "UpdateFundingFee k ctx s m p = Inr (m', p', full, n, r)"
  shows "moved (m, p) (m', p')"
proof -
  obtain m1 p1 f a m2 p2 b where "FundingFeeCollection k ctx s m p = Inr (m1, p1, f, a)"
    and "FundingFeeDistribution k ctx s m1 p1 = Inr (m2, p2, b)"
    and m': "m' = m2\<lparr>mt_LastFundingCalcBlock := u64 (BlockHeight ctx), mt_LastFundingCalcTime := u64 (Unix (BlockTime ctx))\<rparr>"
      "p' = p2"
    using assms by (auto simp: UpdateFundingFee_def)
  then have "moved (m, p) (m2, p2)" by (metis moved_FundingFeeCollection moved_FundingFeeDistribution moved_trans)
  then show ?thesis unfolding m' by (rule moved_trans) (rule moved_other_fields; simp)
qed

text \<open>
  The books in the store of the perpetual keeper: every pool totals its positions, every position lies
  under the key of its own address, pool and identifier, the counter of a pool is at least every
  identifier and knows how many positions are open. First what writing a position, a new one, a closed
  one or a merged one does to them, then that nothing outside of the module touches them.
\<close>

section \<open>The invariant\<close>

definition counter_of :: "perp_store \<Rightarrow> int \<Rightarrow> int" where
  "counter_of v i = (case kv_get (vs_counters v) i of None \<Rightarrow> 0 | Some c \<Rightarrow> pc_Counter c)"

definition open_of :: "perp_store \<Rightarrow> int \<Rightarrow> int" where
  "open_of v i = (case kv_get (vs_counters v) i of None \<Rightarrow> 0 | Some c \<Rightarrow> pc_TotalOpen c)"

definition in_pool :: "int \<Rightarrow> MTP \<Rightarrow> int" where
  "in_pool i m = (if mt_AmmPoolId m = i then 1 else 0)"

definition tidy :: "perp_store \<Rightarrow> bool" where
  "tidy v \<longleftrightarrow> kv_ok (vs_mtps v) \<and> kv_ok (vs_pools v) \<and>
     (\<forall>i p. kv_get (vs_pools v) i = Some p \<longrightarrow> pl_AmmPoolId p = i)"

definition keyed :: "sdk \<Rightarrow> perp_store \<Rightarrow> bool" where
  "keyed S v \<longleftrightarrow> (\<forall>key m. kv_get (vs_mtps v) key = Some m \<longrightarrow>
     (\<exists>a. GetAccountAddress S m = Inr a \<and> key = GetMTPKey a (mt_AmmPoolId m) (mt_Id m)) \<and>
     0 < mt_Id m \<and> mt_Id m \<le> counter_of v (mt_AmmPoolId m))"

text \<open>The bound \<open>b\<close> on the counters is the number of positions that were ever opened.\<close>

definition counted :: "int \<Rightarrow> perp_store \<Rightarrow> bool" where
  "counted b v \<longleftrightarrow> (\<forall>i. (\<forall>c. kv_get (vs_counters v) i = Some c \<longrightarrow> pc_AmmPoolId c = i) \<and>
     open_of v i = kv_sum (in_pool i) (vs_mtps v) \<and>
     0 \<le> open_of v i \<and> open_of v i \<le> counter_of v i \<and> counter_of v i \<le> b)"

definition totals :: "perp_store \<Rightarrow> bool" where
  "totals v \<longleftrightarrow> (\<forall>i p. kv_get (vs_pools v) i = Some p \<longrightarrow> (\<forall>x. pool_total p x = kv_sum (share i x) (vs_mtps v)))"

text \<open>Custody and liabilities are in the assets that the side of the position asks for.\<close>

definition matched :: "perp_store \<Rightarrow> string option \<Rightarrow> bool" where
  "matched v base \<longleftrightarrow> (\<forall>key m p d. kv_get (vs_mtps v) key = Some m \<and>
     kv_get (vs_pools v) (mt_AmmPoolId m) = Some p \<and> base = Some d \<longrightarrow>
     (\<exists>t. GetTradingAsset p d = Inr t \<and>
        GetCustodyAndLiabilitiesAsset (mt_Position m) t d = Inr (mt_CustodyAsset m, mt_LiabilitiesAsset m)))"

definition safe_params :: "perp_store \<Rightarrow> bool" where
  "safe_params v \<longleftrightarrow> (case vs_params v of None \<Rightarrow> True | Some q \<Rightarrow> 0 \<le> pv_SafetyFactor q)"

definition on_books :: "sdk \<Rightarrow> int \<Rightarrow> perp_store \<Rightarrow> string option \<Rightarrow> bool" where
  "on_books S b v base \<longleftrightarrow> tidy v \<and> keyed S v \<and> counted b v \<and> totals v \<and> matched v base \<and> safe_params v"

lemmas books_parts = on_books_def tidy_def keyed_def counted_def totals_def matched_def safe_params_def
  counter_of_def open_of_def

lemma on_books_tidy: "on_books S b v base \<Longrightarrow> tidy v"
  by (simp add: on_books_def)

lemma counters_only [simp]:
  "counter_of (v\<lparr>vs_mtps := x\<rparr>) = counter_of v" "counter_of (v\<lparr>vs_pools := y\<rparr>) = counter_of v"
  "open_of (v\<lparr>vs_mtps := x\<rparr>) = open_of v" "open_of (v\<lparr>vs_pools := y\<rparr>) = open_of v"
  by (simp_all add: counter_of_def open_of_def fun_eq_iff)

lemma matchedD:
  "matched v base \<Longrightarrow> kv_get (vs_mtps v) key = Some m \<Longrightarrow> kv_get (vs_pools v) (mt_AmmPoolId m) = Some p \<Longrightarrow>
     base = Some d \<Longrightarrow> \<exists>t. GetTradingAsset p d = Inr t \<and>
       GetCustodyAndLiabilitiesAsset (mt_Position m) t d = Inr (mt_CustodyAsset m, mt_LiabilitiesAsset m)"
  unfolding matched_def by blast

lemma same_position_in_pool: "same_position m m' \<Longrightarrow> in_pool i m' = in_pool i m"
  by (simp add: same_position_def in_pool_def)

lemma GetAccountAddress_same: "same_position m m' \<Longrightarrow> GetAccountAddress S m' = GetAccountAddress S m"
  by (simp add: same_position_def GetAccountAddress_def)

lemma share_other: "mt_AmmPoolId m \<noteq> i \<Longrightarrow> share i x m = 0"
  by (simp add: share_def split: prod.splits)

section \<open>Writing positions, pools and counters\<close>

text \<open>What is asked of a position that is written, and of a pool.\<close>

definition fits :: "sdk \<Rightarrow> perp_store \<Rightarrow> string option \<Rightarrow> mtp_key \<Rightarrow> MTP \<Rightarrow> bool" where
  "fits S v base key n \<longleftrightarrow>
     (\<exists>a. GetAccountAddress S n = Inr a \<and> key = GetMTPKey a (mt_AmmPoolId n) (mt_Id n)) \<and> 0 < mt_Id n \<and>
     (\<forall>q d. kv_get (vs_pools v) (mt_AmmPoolId n) = Some q \<and> base = Some d \<longrightarrow>
        (\<exists>t. GetTradingAsset q d = Inr t \<and>
           GetCustodyAndLiabilitiesAsset (mt_Position n) t d = Inr (mt_CustodyAsset n, mt_LiabilitiesAsset n)))"

definition follows :: "int \<Rightarrow> PerpPool \<Rightarrow> PerpPool \<Rightarrow> (line \<Rightarrow> int) \<Rightarrow> bool" where
  "follows i q q' change \<longleftrightarrow> pl_AmmPoolId q' = pl_AmmPoolId q \<and> pool_denoms q' = pool_denoms q \<and>
     (\<forall>x. pool_total q' x = pool_total q x + change x)"

lemma fits_stored:
  "on_books S b v base \<Longrightarrow> kv_get (vs_mtps v) key = Some m \<Longrightarrow> fits S v base key m"
  unfolding fits_def on_books_def keyed_def using matchedD by blast

lemma fits_same:
  assumes "fits S v base key m" "same_position m m'" "mt_Id m' = mt_Id m"
  shows "fits S v base key m'"
proof -
  have "own_asset Custody m' = own_asset Custody m" "own_asset Liability m' = own_asset Liability m"
    "mt_Position m' = mt_Position m" "mt_AmmPoolId m' = mt_AmmPoolId m"
    using assms(2) unfolding same_position_def by blast+
  then show ?thesis using assms(1,3) GetAccountAddress_same [OF assms(2), of S] by (simp add: fits_def)
qed

text \<open>One lemma for all writes: new entries fit, pools follow the sums, and so do the counters.\<close>

lemma books_change:
  assumes B: "on_books S b v base" and "kv_ok M'" "kv_ok P'"
    and M: "\<And>key n. kv_get M' key = Some n \<Longrightarrow>
      (kv_get (vs_mtps v) key = Some n \<or> fits S v base key n) \<and> mt_Id n \<le> counter_of w (mt_AmmPoolId n)"
    and P: "\<And>i q'. kv_get P' i = Some q' \<Longrightarrow> \<exists>q. kv_get (vs_pools v) i = Some q \<and>
      follows i q q' (\<lambda>x. kv_sum (share i x) M' - kv_sum (share i x) (vs_mtps v))"
    and C: "counted b' w"
    and w: "vs_mtps w = M'" "vs_pools w = P'" "vs_params w = vs_params v"
  shows "on_books S b' w base"
proof -
  have F: "fits S v base key n" if "kv_get M' key = Some n" for key n
    using M [OF that] fits_stored [OF B] by blast
  have "tidy w"
    unfolding tidy_def w using assms(2,3) P B [unfolded on_books_def tidy_def] by (fastforce simp: follows_def)
  moreover have "keyed S w" unfolding keyed_def w using F M unfolding fits_def by blast
  moreover have "totals w" unfolding totals_def w
  proof (intro allI impI)
    fix i q' and x :: line assume "kv_get P' i = Some q'"
    from P [OF this] obtain q where "kv_get (vs_pools v) i = Some q"
      "pool_total q' x = pool_total q x + (kv_sum (share i x) M' - kv_sum (share i x) (vs_mtps v))"
      unfolding follows_def by blast
    then show "pool_total q' x = kv_sum (share i x) M'" using B by (cases x) (simp add: on_books_def totals_def)
  qed
  moreover have "matched w base" unfolding matched_def w
  proof (intro allI impI, elim conjE)
    fix key n q' d assume A: "kv_get M' key = Some n" "kv_get P' (mt_AmmPoolId n) = Some q'" "base = Some d"
    from P [OF A(2)] obtain q where q: "kv_get (vs_pools v) (mt_AmmPoolId n) = Some q" "pool_denoms q' = pool_denoms q"
      unfolding follows_def by blast
    then show "\<exists>t. GetTradingAsset q' d = Inr t \<and>
        GetCustodyAndLiabilitiesAsset (mt_Position n) t d = Inr (mt_CustodyAsset n, mt_LiabilitiesAsset n)"
      using F [OF A(1)] A(3) GetTradingAsset_denoms [OF q(2)] unfolding fits_def by metis
  qed
  moreover have "safe_params w" using B by (simp add: on_books_def safe_params_def w)
  ultimately show ?thesis using C by (simp add: on_books_def)
qed

lemma countedD:
  assumes "counted b v"
  shows "open_of v j = kv_sum (in_pool j) (vs_mtps v)" "0 \<le> open_of v j" "open_of v j \<le> counter_of v j"
    "counter_of v j \<le> b" "kv_get (vs_counters v) j = Some c \<Longrightarrow> pc_AmmPoolId c = j"
  using assms unfolding counted_def by blast+

lemma books_counted: "on_books S b v base \<Longrightarrow> counted b v"
  by (simp add: on_books_def)

lemma follows_none: "change = (\<lambda>x. 0) \<Longrightarrow> follows i q q change"
  by (simp add: follows_def)

lemma counted_keep:
  assumes "counted b v" "vs_counters w = vs_counters v" "\<And>i. kv_sum (in_pool i) (vs_mtps w) = kv_sum (in_pool i) (vs_mtps v)"
  shows "counted b w"
proof -
  have "counter_of w = counter_of v" "open_of w = open_of v"
    using assms(2) by (simp_all add: counter_of_def open_of_def fun_eq_iff)
  then show ?thesis using assms unfolding counted_def by metis
qed

lemma books_ids: "on_books S b v base \<Longrightarrow> kv_get (vs_mtps v) key = Some m \<Longrightarrow> mt_Id m \<le> counter_of v (mt_AmmPoolId m)"
  unfolding on_books_def keyed_def by blast

text \<open>A position is written back, with its pool.\<close>

lemma books_save:
  assumes B: "on_books S b v base"
    and m: "kv_get (vs_mtps v) key = Some m" and p: "kv_get (vs_pools v) (mt_AmmPoolId m) = Some p"
    and M: "moved (m, p) (m', p')"
    and w: "vs_mtps w = kv_set key m' (vs_mtps v)" "vs_pools w = kv_set (mt_AmmPoolId m) p' (vs_pools v)"
      "vs_params w = vs_params v" "vs_counters w = vs_counters v"
  shows "on_books S b w base"
proof (rule books_change [OF B _ _ _ _ _ w(1-3)])
  have sp: "same_position m m'" "mt_Id m' = mt_Id m" "mt_AmmPoolId m' = mt_AmmPoolId m"
    using M by (simp_all add: moved_def same_position_def)
  have ok: "kv_ok (vs_mtps v)" "kv_ok (vs_pools v)" using B by (simp_all add: on_books_def tidy_def)
  have sum: "kv_sum f (kv_set key m' (vs_mtps v)) = kv_sum f (vs_mtps v) + f m' - f m" for f
    using ok(1) m by (simp add: kv_sum_set)
  show "kv_ok (kv_set key m' (vs_mtps v))" "kv_ok (kv_set (mt_AmmPoolId m) p' (vs_pools v))"
    using ok by (simp_all add: kv_ok_set)
  have "counter_of w = counter_of v" using w(4) by (simp add: counter_of_def fun_eq_iff)
  then show "(kv_get (vs_mtps v) key' = Some n \<or> fits S v base key' n) \<and> mt_Id n \<le> counter_of w (mt_AmmPoolId n)"
    if "kv_get (kv_set key m' (vs_mtps v)) key' = Some n" for key' n
    using that fits_same [OF fits_stored [OF B m] sp(1,2)] books_ids [OF B] m sp
    by (cases "key' = key") (auto simp: kv_get_set)
  show "\<exists>q. kv_get (vs_pools v) i = Some q \<and>
      follows i q q' (\<lambda>x. kv_sum (share i x) (kv_set key m' (vs_mtps v)) - kv_sum (share i x) (vs_mtps v))"
    if "kv_get (kv_set (mt_AmmPoolId m) p' (vs_pools v)) i = Some q'" for i q'
  proof (cases "i = mt_AmmPoolId m")
    case True
    have "pool_total p' x = pool_total p x + share i x m' - share i x m" for x
      using M True by (cases x) (simp add: moved_def algebra_simps)
    then show ?thesis using that p M True by (auto simp: kv_get_set follows_def sum moved_def)
  next
    case False
    then show ?thesis using that sp(3) by (auto simp: kv_get_set sum share_other intro: follows_none)
  qed
  show "counted b w"
    by (rule counted_keep [of b v])
      (use B w in \<open>simp_all add: on_books_def sum same_position_in_pool [OF sp(1)]\<close>)
qed

text \<open>A counter that is read is stored as zero when it was not there.\<close>

lemma books_counter_read:
  assumes "on_books S b v base" "kv_get (vs_counters v) i = None"
  shows "on_books S b (v\<lparr>vs_counters := kv_set i \<lparr>pc_AmmPoolId = i, pc_Counter = 0, pc_TotalOpen = 0\<rparr> (vs_counters v)\<rparr>) base"
    (is "on_books S b ?w base")
proof -
  have same: "counter_of ?w = counter_of v" "open_of ?w = open_of v"
    using assms(2) by (auto simp: counter_of_def open_of_def kv_get_set fun_eq_iff)
  have "counted b ?w"
    using countedD [OF books_counted [OF assms(1)]] unfolding counted_def same by (auto simp: kv_get_set)
  then show ?thesis
    by (rule books_change [OF assms(1), where M' = "vs_mtps v" and P' = "vs_pools v", rotated 4])
      (use assms(1) books_ids [OF assms(1)] in \<open>auto simp: same on_books_def tidy_def intro: follows_none\<close>)
qed

text \<open>A new position, with the identifier after the last one of its pool.\<close>

lemma books_new:
  assumes B: "on_books S b v base" and p: "kv_get (vs_pools v) (mt_AmmPoolId m) = Some p"
    and fit: "fits S v base key m" and i: "mt_Id m = counter_of v (mt_AmmPoolId m) + 1"
    and F: "follows (mt_AmmPoolId m) p p' (\<lambda>x. share (mt_AmmPoolId m) x m)"
    and C: "\<And>j. kv_get (vs_counters w) j = (if j = mt_AmmPoolId m
        then Some \<lparr>pc_AmmPoolId = j, pc_Counter = counter_of v j + 1, pc_TotalOpen = open_of v j + 1\<rparr>
        else kv_get (vs_counters v) j)"
    and w: "vs_mtps w = kv_set key m (vs_mtps v)" "vs_pools w = kv_set (mt_AmmPoolId m) p' (vs_pools v)" "vs_params w = vs_params v"
  shows "on_books S (b + 1) w base" "kv_get (vs_mtps v) key = None"
proof -
  show fresh: "kv_get (vs_mtps v) key = None"
  proof (rule ccontr)
    assume "kv_get (vs_mtps v) key \<noteq> None"
    then obtain n where n: "kv_get (vs_mtps v) key = Some n" by auto
    have "mt_AmmPoolId n = mt_AmmPoolId m \<and> mt_Id n = mt_Id m"
      using fits_stored [OF B n] fit by (auto simp: fits_def GetMTPKey_def)
    then show False using books_ids [OF B n] i by simp
  qed
  have ok: "kv_ok (vs_mtps v)" "kv_ok (vs_pools v)" using B by (simp_all add: on_books_def tidy_def)
  have sum: "kv_sum f (kv_set key m (vs_mtps v)) = kv_sum f (vs_mtps v) + f m" for f
    using ok(1) fresh by (simp add: kv_sum_set)
  have cnt: "counter_of w j = counter_of v j + in_pool j m" "open_of w j = open_of v j + in_pool j m" for j
    using C [of j] by (simp_all add: counter_of_def open_of_def in_pool_def)
  show "on_books S (b + 1) w base"
  proof (rule books_change [OF B _ _ _ _ _ w])
    show "kv_ok (kv_set key m (vs_mtps v))" "kv_ok (kv_set (mt_AmmPoolId m) p' (vs_pools v))"
      using ok by (simp_all add: kv_ok_set)
    show "(kv_get (vs_mtps v) key' = Some n \<or> fits S v base key' n) \<and> mt_Id n \<le> counter_of w (mt_AmmPoolId n)"
      if "kv_get (kv_set key m (vs_mtps v)) key' = Some n" for key' n
    proof (cases "key' = key")
      case True
      then show ?thesis using that fit i by (simp add: kv_get_set cnt in_pool_def)
    next
      case False
      then have n: "kv_get (vs_mtps v) key' = Some n" using that by (simp add: kv_get_set)
      moreover have "0 \<le> in_pool (mt_AmmPoolId n) m" by (simp add: in_pool_def)
      ultimately show ?thesis using books_ids [OF B n] by (simp add: cnt)
    qed
    show "\<exists>q. kv_get (vs_pools v) i = Some q \<and>
        follows i q q' (\<lambda>x. kv_sum (share i x) (kv_set key m (vs_mtps v)) - kv_sum (share i x) (vs_mtps v))"
      if "kv_get (kv_set (mt_AmmPoolId m) p' (vs_pools v)) i = Some q'" for i q'
      using that p F by (auto simp: kv_get_set sum share_other split: if_splits intro: follows_none)
    show "counted (b + 1) w"
      unfolding counted_def
    proof (intro allI conjI)
      fix j
      note V = countedD [OF books_counted [OF B], of j]
      show "kv_get (vs_counters w) j = Some c \<longrightarrow> pc_AmmPoolId c = j" for c using C [of j] V(5) by auto
      have "0 \<le> in_pool j m" "in_pool j m \<le> 1" by (simp_all add: in_pool_def)
      then show "open_of w j = kv_sum (in_pool j) (vs_mtps w)" "0 \<le> open_of w j" "open_of w j \<le> counter_of w j"
        "counter_of w j \<le> b + 1"
        using V(1-4) by (simp_all add: cnt w(1) sum)
    qed
  qed
qed

text \<open>A position leaves the store; what it held was moved out of the pool before, or goes to another
  position of the same kind.\<close>

lemma counted_gone:
  assumes B: "counted b v" and ok: "kv_ok (vs_mtps v)" and m: "kv_get (vs_mtps v) key = Some m" and i: "i = mt_AmmPoolId m"
    and C: "\<And>j. kv_get (vs_counters w) j = (if j = i
        then Some \<lparr>pc_AmmPoolId = j, pc_Counter = counter_of v j, pc_TotalOpen = open_of v j - 1\<rparr>
        else kv_get (vs_counters v) j)"
    and w: "\<And>j. kv_sum (in_pool j) (vs_mtps w) = kv_sum (in_pool j) (vs_mtps v) - in_pool j m"
    and pos: "0 < open_of v i"
  shows "counted b w" "counter_of w = counter_of v"
proof -
  have cnt: "counter_of w j = counter_of v j" "open_of w j = open_of v j - in_pool j m" for j
    using C [of j] i by (simp_all add: counter_of_def open_of_def in_pool_def)
  then show "counter_of w = counter_of v" by (simp add: fun_eq_iff)
  show "counted b w"
    unfolding counted_def
  proof (intro allI conjI)
    fix j
    note V = countedD [OF B, of j]
    show "kv_get (vs_counters w) j = Some c \<longrightarrow> pc_AmmPoolId c = j" for c using C [of j] V(5) by auto
    have "0 \<le> in_pool j m" by (simp add: in_pool_def)
    moreover have "0 \<le> open_of v j - in_pool j m" using V(2) pos i by (auto simp: in_pool_def)
    ultimately show "open_of w j = kv_sum (in_pool j) (vs_mtps w)" "0 \<le> open_of w j" "open_of w j \<le> counter_of w j"
      "counter_of w j \<le> b"
      using V(1-4) by (simp_all add: cnt w)
  qed
qed

lemma kv_sum_nonneg: "(\<And>x. 0 \<le> f x) \<Longrightarrow> 0 \<le> kv_sum f m"
  by (induction m) (simp_all add: kv_sum_def)

lemma open_pos:
  assumes "on_books S b v base" "kv_get (vs_mtps v) key = Some m"
  shows "0 < open_of v (mt_AmmPoolId m)"
proof -
  have ok: "kv_ok (vs_mtps v)" using assms(1) by (simp add: on_books_def tidy_def)
  have "kv_sum (in_pool (mt_AmmPoolId m)) (vs_mtps v) = kv_sum (in_pool (mt_AmmPoolId m)) (kv_del key (vs_mtps v)) + 1"
    using kv_sum_del [OF ok, of "in_pool (mt_AmmPoolId m)" key] assms(2) by (simp add: in_pool_def)
  moreover have "0 \<le> kv_sum (in_pool (mt_AmmPoolId m)) (kv_del key (vs_mtps v))"
    by (rule kv_sum_nonneg) (simp add: in_pool_def)
  ultimately show ?thesis using assms(1) by (simp add: on_books_def counted_def)
qed

lemma books_gone:
  assumes B: "on_books S b v base"
    and m: "kv_get (vs_mtps v) key = Some m" and p: "kv_get (vs_pools v) (mt_AmmPoolId m) = Some p"
    and M: "moved (m, p) (m', p')" and empty: "\<And>c. own c m' = 0"
    and C: "\<And>j. kv_get (vs_counters w) j = (if j = mt_AmmPoolId m
        then Some \<lparr>pc_AmmPoolId = j, pc_Counter = counter_of v j, pc_TotalOpen = open_of v j - 1\<rparr>
        else kv_get (vs_counters v) j)"
    and w: "vs_mtps w = kv_del key (vs_mtps v)" "vs_pools w = kv_set (mt_AmmPoolId m) p' (vs_pools v)" "vs_params w = vs_params v"
  shows "on_books S b w base"
proof -
  have ok: "kv_ok (vs_mtps v)" "kv_ok (vs_pools v)" using B by (simp_all add: on_books_def tidy_def)
  have sum: "kv_sum f (kv_del key (vs_mtps v)) = kv_sum f (vs_mtps v) - f m" for f
    using ok(1) m by (simp add: kv_sum_del)
  have "kv_sum (in_pool j) (vs_mtps w) = kv_sum (in_pool j) (vs_mtps v) - in_pool j m" for j by (simp add: w(1) sum)
  note G = counted_gone [OF books_counted [OF B] ok(1) m refl C this open_pos [OF B m]]
  show ?thesis
  proof (rule books_change [OF B _ _ _ _ _ w])
    show "kv_ok (kv_del key (vs_mtps v))" "kv_ok (kv_set (mt_AmmPoolId m) p' (vs_pools v))"
      using ok by (simp_all add: kv_ok_set kv_ok_del)
    show "counted b w" using G by simp
    show "(kv_get (vs_mtps v) key' = Some n \<or> fits S v base key' n) \<and> mt_Id n \<le> counter_of w (mt_AmmPoolId n)"
      if "kv_get (kv_del key (vs_mtps v)) key' = Some n" for key' n
      using that books_ids [OF B] G by (auto simp: kv_get_del split: if_splits)
    show "\<exists>q. kv_get (vs_pools v) i = Some q \<and>
        follows i q q' (\<lambda>x. kv_sum (share i x) (kv_del key (vs_mtps v)) - kv_sum (share i x) (vs_mtps v))"
      if "kv_get (kv_set (mt_AmmPoolId m) p' (vs_pools v)) i = Some q'" for i q'
    proof (cases "i = mt_AmmPoolId m")
      case True
      have "share i x m' = 0" for x using empty by (simp add: share_def split: prod.splits)
      then have "pool_total p' x = pool_total p x - share i x m" for x
        using M True by (cases x) (simp add: moved_def algebra_simps)
      then show ?thesis using that p M True by (auto simp: kv_get_set follows_def sum moved_def)
    next
      case False
      then show ?thesis using that by (auto simp: kv_get_set sum share_other intro: follows_none)
    qed
  qed
qed

text \<open>A position takes over what another of the same kind held, which leaves the store.\<close>

lemma books_merge:
  assumes B: "on_books S b v base"
    and e: "kv_get (vs_mtps v) key = Some e" and n: "kv_get (vs_mtps v) key' = Some n" and k: "key' \<noteq> key"
    and sp: "same_position e e'" "mt_Id e' = mt_Id e"
    and same: "mt_AmmPoolId n = mt_AmmPoolId e" "mt_Position n = mt_Position e" "\<And>c. own_asset c n = own_asset c e"
    and own: "\<And>c. own c e' = own c e + own c n"
    and C: "\<And>j. kv_get (vs_counters w) j = (if j = mt_AmmPoolId n
        then Some \<lparr>pc_AmmPoolId = j, pc_Counter = counter_of v j, pc_TotalOpen = open_of v j - 1\<rparr>
        else kv_get (vs_counters v) j)"
    and w: "vs_mtps w = kv_set key e' (kv_del key' (vs_mtps v))" "vs_pools w = vs_pools v" "vs_params w = vs_params v"
  shows "on_books S b w base"
proof -
  have ok: "kv_ok (vs_mtps v)" "kv_ok (vs_pools v)" using B by (simp_all add: on_books_def tidy_def)
  have e1: "kv_get (kv_del key' (vs_mtps v)) key = Some e" using e k by (simp add: kv_get_del)
  have sum: "kv_sum f (kv_set key e' (kv_del key' (vs_mtps v))) = kv_sum f (vs_mtps v) - f n + f e' - f e" for f
    using ok(1) n e1 by (simp add: kv_sum_set kv_sum_del kv_ok_del)
  have A: "own_asset c e' = own_asset c e" "mt_Position e' = mt_Position e" "mt_AmmPoolId e' = mt_AmmPoolId e" for c
    using sp(1) unfolding same_position_def by blast+
  have share: "share i x e' = share i x e + share i x n" for i x
    by (cases x) (simp add: share_def A same own)
  have "in_pool j e' = in_pool j e" for j using sp(1) by (rule same_position_in_pool)
  then have "kv_sum (in_pool j) (vs_mtps w) = kv_sum (in_pool j) (vs_mtps v) - in_pool j n" for j by (simp add: w(1) sum)
  note G = counted_gone [OF books_counted [OF B] ok(1) n refl C this open_pos [OF B n]]
  show ?thesis
  proof (rule books_change [OF B _ _ _ _ _ w])
    show "kv_ok (kv_set key e' (kv_del key' (vs_mtps v)))" "kv_ok (vs_pools v)"
      using ok by (simp_all add: kv_ok_set kv_ok_del)
    show "counted b w" using G by simp
    show "(kv_get (vs_mtps v) key'' = Some m \<or> fits S v base key'' m) \<and> mt_Id m \<le> counter_of w (mt_AmmPoolId m)"
      if "kv_get (kv_set key e' (kv_del key' (vs_mtps v))) key'' = Some m" for key'' m
    proof (cases "key'' = key")
      case True
      then have "m = e'" using that by (simp add: kv_get_set)
      then show ?thesis using fits_same [OF fits_stored [OF B e] sp] books_ids [OF B e] by (simp add: True G(2) sp(2) A)
    next
      case False
      then have "kv_get (vs_mtps v) key'' = Some m" using that by (simp add: kv_get_set kv_get_del split: if_splits)
      then show ?thesis using books_ids [OF B] by (simp add: G(2))
    qed
    show "\<exists>q. kv_get (vs_pools v) i = Some q \<and>
        follows i q q' (\<lambda>x. kv_sum (share i x) (kv_set key e' (kv_del key' (vs_mtps v))) - kv_sum (share i x) (vs_mtps v))"
      if "kv_get (vs_pools v) i = Some q'" for i q'
      using that by (auto simp: sum share intro: follows_none)
  qed
qed

section \<open>What the books look at\<close>

text \<open>The rates and the health of a pool are not in the books.\<close>

definition strip :: "PerpPool \<Rightarrow> PerpPool" where
  "strip p = p\<lparr>pl_BaseAssetLiabilitiesRatio := 0, pl_QuoteAssetLiabilitiesRatio := 0, pl_BorrowInterestRate := 0,
     pl_LastHeightBorrowInterestRateComputed := 0, pl_FundingRate := 0, pl_FeesCollected := [], pl_LeverageMax := 0\<rparr>"

definition bare :: "perp_store \<Rightarrow> perp_store" where
  "bare v = v\<lparr>vs_pools := map (map_prod id strip) (vs_pools v), vs_whitelist := [], vs_rates := [], vs_fundings := []\<rparr>"

lemma bare_sel [simp]:
  "vs_mtps (bare v) = vs_mtps v" "vs_counters (bare v) = vs_counters v" "vs_params (bare v) = vs_params v"
  "vs_pools (bare v) = map (map_prod id strip) (vs_pools v)"
  by (simp_all add: bare_def)

lemma kv_get_map: "kv_get (map (map_prod id f) m) i = map_option f (kv_get m i)"
  by (induction m) (auto simp: kv_get_def)

lemma kv_ok_map: "kv_ok (map (map_prod id f) m) = kv_ok m"
  by (simp add: kv_ok_def)

lemma strip_sel [simp]: "pl_AmmPoolId (strip p) = pl_AmmPoolId p" "pool_total (strip p) = pool_total p"
  "pool_denoms (strip p) = pool_denoms p" "GetTradingAsset (strip p) d = GetTradingAsset p d"
  by (simp_all add: strip_def pool_total_def side_def pool_denoms_def GetTradingAsset_def fun_eq_iff)

lemma counters_bare: "counter_of (bare v) = counter_of v" "open_of (bare v) = open_of v"
  by (simp_all add: counter_of_def open_of_def fun_eq_iff)

lemma stored_bare:
  "(\<forall>i p. kv_get (vs_pools (bare v)) i = Some p \<longrightarrow> Q i p) \<longleftrightarrow> (\<forall>i p. kv_get (vs_pools v) i = Some p \<longrightarrow> Q i (strip p))"
  by (auto simp: kv_get_map)

lemma tidy_bare: "tidy (bare v) = tidy v"
  unfolding tidy_def stored_bare by (simp add: kv_ok_map)

lemma totals_bare: "totals (bare v) = totals v"
  unfolding totals_def stored_bare by simp

lemma matched_mono:
  assumes "matched w base" "vs_mtps u = vs_mtps w"
    and "\<And>i p. kv_get (vs_pools u) i = Some p \<Longrightarrow> \<exists>q. kv_get (vs_pools w) i = Some q \<and> pool_denoms p = pool_denoms q"
  shows "matched u base"
  unfolding matched_def
proof (intro allI impI, elim conjE)
  fix key m p d assume A: "kv_get (vs_mtps u) key = Some m" "kv_get (vs_pools u) (mt_AmmPoolId m) = Some p" "base = Some d"
  from assms(3) [OF A(2)] obtain q where q: "kv_get (vs_pools w) (mt_AmmPoolId m) = Some q" "pool_denoms p = pool_denoms q"
    by blast
  from matchedD [OF assms(1) A(1) [unfolded assms(2)] q(1) A(3)]
  show "\<exists>t. GetTradingAsset p d = Inr t \<and>
      GetCustodyAndLiabilitiesAsset (mt_Position m) t d = Inr (mt_CustodyAsset m, mt_LiabilitiesAsset m)"
    using GetTradingAsset_denoms [OF q(2)] by simp
qed

lemma matched_bare: "matched (bare v) base = matched v base"
proof
  show "matched (bare v) base \<Longrightarrow> matched v base" by (rule matched_mono [of "bare v"]) (auto simp: kv_get_map)
  show "matched v base \<Longrightarrow> matched (bare v) base" by (rule matched_mono [of v]) (auto simp: kv_get_map)
qed

lemma books_bare: "on_books S b (bare v) base = on_books S b v base"
  by (simp add: on_books_def tidy_bare totals_bare matched_bare)
    (simp add: keyed_def counted_def safe_params_def counters_bare del: split_paired_All)

lemma moved_strip: "strip p' = strip p \<Longrightarrow> moved (m, p) (m, p')"
proof -
  assume "strip p' = strip p"
  then have "pl_AmmPoolId p' = pl_AmmPoolId p" "pool_total p' = pool_total p" "pool_denoms p' = pool_denoms p"
    by (metis strip_sel)+
  then show ?thesis by (simp add: moved_def same_position_def)
qed

end
