(* ===== verification/PerpDesk.thy ===== *)
theory PerpDesk
  imports PerpLedger
begin

text \<open>
  The books of the perpetual keeper over the state of the chain. What is outside of the module is asked
  to leave its store alone (\<open>desk_laws\<close>); the amm's swaps, transfers and records then do too, since
  \<open>amm_swaps\<close> is interpreted on the page of the books. A \<open>desk\<close> holds a position and its pool as they
  are in memory, moved from what is stored.
\<close>

section \<open>The page\<close>

definition base_denom :: "'e vkeeper \<Rightarrow> 'e mstate \<Rightarrow> string option" where
  "base_denom k s = map_option en_Denom (GetBaseCurreny k s)"

definition page :: "'e vkeeper \<Rightarrow> 'e mstate \<Rightarrow> perp_store \<times> string option" where
  "page k s = (bare (vstore k s), base_denom k s)"

definition perp_sheet :: "'e vkeeper \<Rightarrow> int \<Rightarrow> 'e mstate \<Rightarrow> bool" where
  "perp_sheet k b s \<longleftrightarrow> on_books (vk_sdk k) b (vstore k s) (base_denom k s)"

text \<open>The store is a part of the outer state; the bank's transfers and the entry of the base currency are
  apart from it, and so are the hooks of other modules. The last law is of whole decimals.\<close>

definition lens_ok :: "'e vkeeper \<Rightarrow> bool" where
  "lens_ok k \<longleftrightarrow> (\<forall>v e. vk_get k (vk_put k v e) = v \<and>
     k_GetEntry (mk_commitment (vk_amm k)) (vk_put k v e) = k_GetEntry (mk_commitment (vk_amm k)) e)"

definition bank_apart :: "'e vkeeper \<Rightarrow> bool" where
  "bank_apart k \<longleftrightarrow> (\<forall>a b cs e e'. BkSend (mk_bank (vk_amm k)) a b cs e = Inr e' \<longrightarrow>
     vk_get k e' = vk_get k e \<and> k_GetEntry (mk_commitment (vk_amm k)) e' = k_GetEntry (mk_commitment (vk_amm k)) e)"

definition perp_hooks_keep :: "'e vkeeper \<Rightarrow> ('e mstate \<Rightarrow> bool) \<Rightarrow> bool" where
  "perp_hooks_keep k I \<longleftrightarrow> (\<forall>h s. vk_hooks k = Some h \<and> I s \<longrightarrow>
     (\<forall>a p. on_ok I (vh_AfterParamsChange h a p s)) \<and>
     (\<forall>a p x. on_ok I (vh_AfterPositionOpen h a p x s)) \<and>
     (\<forall>a p x. on_ok I (vh_AfterPositionModified h a p x s)) \<and>
     (\<forall>a p x r i. on_ok I (vh_AfterPositionClosed h a p x r i s)))"

definition hooks_apart :: "'e vkeeper \<Rightarrow> bool" where
  "hooks_apart k \<longleftrightarrow> (\<forall>b. tidy (fst b) \<longrightarrow>
     hooks_keep (vk_amm k) (\<lambda>s. page k s = b) \<and> perp_hooks_keep k (\<lambda>s. page k s = b))"

definition desk_laws :: "'e vkeeper \<Rightarrow> bool" where
  "desk_laws k \<longleftrightarrow> lens_ok k \<and> bank_apart k \<and> hooks_apart k \<and> dec_laws (vk_dec k) \<and>
     (\<forall>n. DTruncateInt (vk_dec k) (dec_one * n) = n)"

definition calm :: "'e vkeeper \<Rightarrow> 'e mstate \<Rightarrow> bool" where
  "calm k s \<longleftrightarrow> desk_laws k \<and> tidy (vstore k s)"

lemma hooks_apartD:
  "desk_laws k \<Longrightarrow> tidy (fst b) \<Longrightarrow>
     hooks_keep (vk_amm k) (\<lambda>s. page k s = b) \<and> perp_hooks_keep k (\<lambda>s. page k s = b)"
  unfolding desk_laws_def hooks_apart_def by blast

lemma sheet_calm: "desk_laws k \<Longrightarrow> perp_sheet k b s \<Longrightarrow> calm k s"
  by (simp add: calm_def perp_sheet_def on_books_def)

lemma sheet_page: "page k t = page k s \<Longrightarrow> perp_sheet k b t = perp_sheet k b s"
  by (metis books_bare fst_conv page_def perp_sheet_def snd_conv)

lemma calm_page: "page k t = page k s \<Longrightarrow> calm k t = calm k s"
  by (metis tidy_bare fst_conv page_def calm_def)

lemma vstore_with: "lens_ok k \<Longrightarrow> vstore k (with_vstore k f s) = f (vstore k s)"
  by (simp add: vstore_def with_vstore_def lens_ok_def set_mm_ext_def)

lemma base_with: "lens_ok k \<Longrightarrow> base_denom k (with_vstore k f s) = base_denom k s"
  by (simp add: base_denom_def GetBaseCurreny_def with_vstore_def lens_ok_def set_mm_ext_def)

lemma desk_lens: "desk_laws k \<Longrightarrow> lens_ok k"
  by (simp add: desk_laws_def)

lemmas with_simps = vstore_with [OF desk_lens] base_with [OF desk_lens]

lemma page_ext: "mm_ext t = mm_ext s \<Longrightarrow> page k t = page k s"
  by (simp add: page_def vstore_def base_denom_def GetBaseCurreny_def)

section \<open>What the amm leaves alone\<close>

lemma page_send: "bank_apart k \<Longrightarrow> on_ok (\<lambda>t. page k t = page k s) (send (vk_amm k) a b cs s)"
  by (auto simp: on_ok_def send_def mm_bank_def set_mm_ext_def page_def vstore_def base_denom_def GetBaseCurreny_def bank_apart_def)

interpretation apart: amm_swaps "vk_amm k" "\<lambda>s. desk_laws k \<and> tidy (fst b) \<longrightarrow> page k s = b" "\<lambda>_. True"
  for k :: "'e vkeeper" and b
proof
  show "on_ok (\<lambda>s. desk_laws k \<and> tidy (fst b) \<longrightarrow> page k s = b) (send (vk_amm k) x y cs s)"
    if "desk_laws k \<and> tidy (fst b) \<longrightarrow> page k s = b" for s x y cs
    using that page_send [of k s x y cs] by (auto simp: on_ok_def desk_laws_def)
  show "hooks_keep (vk_amm k) (\<lambda>s. desk_laws k \<and> tidy (fst b) \<longrightarrow> page k s = b)"
  proof (cases "desk_laws k \<and> tidy (fst b)")
    case True
    then show ?thesis using hooks_apartD [THEN conjunct1, of k b] by simp
  next
    case False
    then show ?thesis by (auto simp: hooks_keep_def on_ok_def)
  qed
qed (simp_all add: page_ext amm_SetPool_def page_def vstore_def base_denom_def GetBaseCurreny_def)

text \<open>The same for a result next to which a state is returned.\<close>

abbreviation same_page :: "'e vkeeper \<Rightarrow> 'e mstate \<Rightarrow> 'e mstate \<Rightarrow> bool" where
  "same_page k s t \<equiv> page k t = page k s"

lemma calm_tidy: "calm k s \<Longrightarrow> desk_laws k \<and> tidy (fst (page k s))"
  by (simp add: calm_def page_def tidy_bare)

lemma apart_state: "calm k s \<Longrightarrow> (desk_laws k \<and> tidy (fst (page k s)) \<longrightarrow> page k t = page k s) = same_page k s t"
  using calm_tidy by blast

lemma page_bind:
  fixes m :: "('e mstate \<times> 'c) result" and f :: "'e mstate \<times> 'c \<Rightarrow> ('e mstate \<times> 'd) result"
  assumes "calm k s" "on_ok (\<lambda>r. same_page k s (fst r)) m"
    and "\<And>t x. calm k t \<Longrightarrow> on_ok (\<lambda>r. same_page k t (fst r)) (f (t, x))"
  shows "on_ok (\<lambda>r. same_page k s (fst r)) (rbind m f)"
proof (rule on_ok_bind [OF assms(2)])
  fix r :: "'e mstate \<times> 'c" assume r: "same_page k s (fst r)"
  obtain t x where tx: "r = (t, x)" by (cases r)
  then have "calm k t" using r assms(1) calm_page [of k t s] by simp
  from assms(3) [OF this, of x] r show "on_ok (\<lambda>r. same_page k s (fst r)) (f r)" by (simp add: tx)
qed

lemma page_track: "calm k s \<Longrightarrow> same_page k s (track_fees k ctx i fees s)"
proof -
  have A: "same_page k s (fold f xs t)" if "same_page k s t" "\<And>c t. same_page k s t \<Longrightarrow> same_page k s (f c t)"
    for f :: "coin \<Rightarrow> 'a mstate \<Rightarrow> 'a mstate" and xs t
    using that by (induction xs arbitrary: t) simp_all
  have B: "page k (TrackWeightBreakingSlippage (vk_amm k) ctx i c t) = page k t" "page k (TrackSlippage (vk_amm k) ctx i c t) = page k t" for c t
    by (rule page_ext, simp add: TrackWeightBreakingSlippage_def AddWeightAndSlippageFee_def Let_def TrackSlippage_def SetSlippageTrack_def)+
  show ?thesis unfolding track_fees_def by (intro A) (simp_all add: B)
qed

lemma page_pool_result:
  assumes "kept p (\<lambda>t. desk_laws k \<and> tidy (fst (page k s)) \<longrightarrow> page k t = page k s) m" "calm k s"
  shows "on_ok (\<lambda>r. same_page k s (fst r)) (pool_result m)"
  using kept_snd [OF assms(1)] unfolding apart_state [OF assms(2)] by (auto simp: pool_result_def on_ok_def)

lemma page_SendToAmmPool: "calm k s \<Longrightarrow> on_ok (\<lambda>r. same_page k s (fst r)) (SendToAmmPool k a p cs s)"
  unfolding SendToAmmPool_def
proof (rule on_ok_rbind, rule on_ok_bind [where Q = "same_page k s"])
  fix s1 assume c: "calm k s" and s1: "same_page k s s1"
  show "on_ok (\<lambda>r. same_page k s (fst r)) (pool_result (AddToPoolBalanceAndUpdateLiquidity 0 cs p s1))"
    by (rule page_pool_result [OF apart.keeps_Add [of k "page k s" s1 p p] c]) (simp_all add: s1)
qed (simp add: page_send calm_def desk_laws_def)

lemma page_SendFromAmmPool: "calm k s \<Longrightarrow> on_ok (\<lambda>r. same_page k s (fst r)) (SendFromAmmPool k p a cs s)"
  unfolding SendFromAmmPool_def
proof (rule on_ok_rbind, rule on_ok_bind [where Q = "same_page k s"])
  fix s1 assume c: "calm k s" and s1: "same_page k s s1"
  show "on_ok (\<lambda>r. same_page k s (fst r)) (pool_result (RemoveFromPoolBalanceAndUpdateLiquidity (vk_amm k) 0 cs p s1))"
    by (rule page_pool_result [OF apart.keeps_Remove [of k "page k s" s1 p p] c]) (simp_all add: s1)
qed (simp add: page_send calm_def desk_laws_def)

lemma page_Collect: "calm k s \<Longrightarrow> on_ok (\<lambda>r. same_page k s (fst r)) (CollectInsuranceFund k n d p q s)"
  unfolding CollectInsuranceFund_def Let_def
  by (intro on_ok_if on_ok_rbind on_ok_prod) (auto dest: page_SendFromAmmPool [THEN on_okD])

lemma page_swap_fee: "calm k s \<Longrightarrow> on_ok (\<lambda>r. same_page k s (fst r)) (pay_swap_fee k ctx a d n p fees s)"
  unfolding pay_swap_fee_def
proof (intro on_ok_if on_ok_rbind on_ok_prod; simp)
  fix t c cs s1 s2 q
  assume c: "calm k s" and "send (vk_amm k) a t cs s = Inr s1"
    and q: "pool_result (OnCollectFee (vk_amm k) ctx p cs s1) = Inr (s2, q)"
  then have s1: "same_page k s s1" using on_okD [OF page_send] by (auto simp: calm_def desk_laws_def)
  show "same_page k s s2"
    using on_okD [OF page_pool_result [OF apart.keeps_OnCollectFee [where b = "page k s" and p = p and s = s1] c] q] s1
    by simp
qed

lemma page_taker_fee: "calm k s \<Longrightarrow> on_ok (\<lambda>r. same_page k s (fst r)) (pay_taker_fee k a d n fees s)"
  unfolding pay_taker_fee_def
  by (intro on_ok_if on_ok_rbind on_ok_prod; simp) (auto simp: calm_def desk_laws_def dest: page_send [THEN on_okD, rotated])

lemma page_fees:
  assumes "calm k s"
  shows "on_ok (\<lambda>r. same_page k s (fst r)) (SendFeesToPoolRevenueAndTakerCollection k ctx a str n d p fees most s)"
  unfolding SendFeesToPoolRevenueAndTakerCollection_def
proof (intro on_ok_rbind [of "AccAddressFromBech32 _ _"] on_ok_rbind [of "fee_parts _ _ _ _ _"] on_ok_prod)
  fix m t
  show "on_ok (\<lambda>r. same_page k s (fst r)) (rbind (pay_swap_fee k ctx a d m p fees s) (\<lambda>(s1, q, f1).
      rbind (pay_taker_fee k a d t f1 s1) (\<lambda>(s2, f2). Inr (s2, q, f2, m + t))))"
  proof (rule page_bind [OF assms page_swap_fee [OF assms]])
    fix s1 and x :: "amm_Pool \<times> PerpetualFees" assume c: "calm k s1"
    have "on_ok (\<lambda>r. same_page k s1 (fst r)) (rbind (pay_taker_fee k a d t f1 s1) (\<lambda>(s2, f2). Inr (s2, q, f2, m + t)))" for q :: amm_Pool and f1
      by (rule page_bind [OF c page_taker_fee [OF c]]) simp
    then show "on_ok (\<lambda>r. same_page k s1 (fst r)) (case (s1, x) of (s1, q, f1) \<Rightarrow>
        rbind (pay_taker_fee k a d t f1 s1) (\<lambda>(s2, f2). Inr (s2, q, f2, m + t)))" by (simp add: split_def)
  qed
qed

lemma page_insurance: "calm k s \<Longrightarrow> on_ok (\<lambda>r. same_page k s (fst r)) (insurance_pays k m p q n s)"
  unfolding insurance_pays_def by (intro on_ok_if on_ok_rbind) (auto intro: page_SendToAmmPool)

lemma page_repay_return:
  assumes "calm k s"
  shows "on_ok (\<lambda>r. same_page k s (fst r)) (repay_return k ctx m q n fees r s)"
  unfolding repay_return_def
proof (intro on_ok_if on_ok_rbind [of "AccAddressFromBech32 _ _"])
  fix a
  show "on_ok (\<lambda>r. same_page k s (fst r)) (rbind (SendFeesToPoolRevenueAndTakerCollection k ctx a (mt_Address m) r
      (mt_CustodyAsset m) q fees n s) (\<lambda>(s1, ammPool1, perpFees1, totalFees).
           if \<not> totalFees < n then Inr (s1, ammPool1, perpFees1)
           else rbind (NewCoin (vk_sdk k) (mt_CustodyAsset m) (n - totalFees)) (\<lambda>c.
                rbind (NewCoins (vk_sdk k) [c]) (\<lambda>returnCoins.
                rbind (GetAccountAddress (vk_sdk k) m) (\<lambda>owner.
                rbind (SendFromAmmPool k ammPool1 owner returnCoins s1) (\<lambda>(s2, ammPool2).
                  Inr (s2, ammPool2, perpFees1)))))))"
  proof (rule page_bind [OF assms page_fees [OF assms]])
    fix s1 and x :: "amm_Pool \<times> PerpetualFees \<times> int" assume c: "calm k s1"
    obtain p1 f1 t where x: "x = (p1, f1, t)" by (cases x)
    have "on_ok (\<lambda>r. same_page k s1 (fst r)) (rbind (SendFromAmmPool k p1 o' cs s1) (\<lambda>(s2, p2). Inr (s2, p2, f1)))" for o' cs
      by (rule page_bind [OF c page_SendFromAmmPool [OF c]]) simp
    then show "on_ok (\<lambda>r. same_page k s1 (fst r)) (case (s1, x) of (s1, ammPool1, perpFees1, totalFees) \<Rightarrow>
           if \<not> totalFees < n then Inr (s1, ammPool1, perpFees1)
           else rbind (NewCoin (vk_sdk k) (mt_CustodyAsset m) (n - totalFees)) (\<lambda>c.
                rbind (NewCoins (vk_sdk k) [c]) (\<lambda>returnCoins.
                rbind (GetAccountAddress (vk_sdk k) m) (\<lambda>owner.
                rbind (SendFromAmmPool k ammPool1 owner returnCoins s1) (\<lambda>(s2, ammPool2).
                  Inr (s2, ammPool2, perpFees1))))))"
      unfolding x prod.case by (intro on_ok_if on_ok_rbind [of "NewCoin _ _ _"] on_ok_rbind [of "NewCoins _ _"]
        on_ok_rbind [of "GetAccountAddress _ _"]) simp_all
  qed
qed simp_all

lemma page_hooks:
  assumes "calm k s"
  shows "on_ok (same_page k s) (AfterPositionClosed_hook k a p x r i s)"
    "on_ok (same_page k s) (AfterPositionModified_hook k a p x s)"
    "on_ok (same_page k s) (AfterPositionOpen_hook k a p x s)"
proof -
  have "perp_hooks_keep k (\<lambda>t. page k t = page k s)" using calm_tidy [OF assms] hooks_apartD by blast
  then show "on_ok (same_page k s) (AfterPositionClosed_hook k a p x r i s)"
    "on_ok (same_page k s) (AfterPositionModified_hook k a p x s)"
    "on_ok (same_page k s) (AfterPositionOpen_hook k a p x s)"
    by (auto simp: AfterPositionClosed_hook_def AfterPositionModified_hook_def AfterPositionOpen_hook_def
      perp_hooks_keep_def split: option.splits)
qed

text \<open>
  The writes of the perpetual keeper on its books: health and rates do not show, a position is saved
  with its pool, opened, closed or merged into another.
\<close>

section \<open>Writes that do not show\<close>

lemma kv_set_same: "kv_ok m \<Longrightarrow> kv_get m i = Some x \<Longrightarrow> kv_set i x m = m"
proof (induction m)
  case (Cons c m)
  obtain j y where c: "c = (j, y)" by (cases c)
  show ?case
  proof (cases "i = j")
    case True
    then show ?thesis using Cons.prems by (simp add: c kv_get_def)
  next
    case False
    then have i: "kv_get m i = Some x" using Cons.prems(2) by (simp add: c kv_get_def)
    have "\<not> i < j" using kv_get_below [of j y m i] Cons.prems(1) i by (auto simp: c dest: less_imp_le)
    moreover have "kv_ok m" using Cons.prems(1) by (simp add: kv_ok_def)
    ultimately show ?thesis using Cons.IH i False by (simp add: c)
  qed
qed simp

lemma map_kv_set: "map (map_prod id f) (kv_set i x m) = kv_set i (f x) (map (map_prod id f) m)"
  by (induction i x m rule: kv_set.induct) simp_all

lemma calm_sel: "calm k s \<Longrightarrow> desk_laws k" "calm k s \<Longrightarrow> kv_ok (vs_mtps (vstore k s))" "calm k s \<Longrightarrow> kv_ok (vs_pools (vstore k s))"
  "calm k s \<Longrightarrow> perp_GetPool k s i = Some p \<Longrightarrow> pl_AmmPoolId p = i"
  by (simp_all add: calm_def tidy_def perp_GetPool_def)

lemma page_with:
  assumes "desk_laws k" "bare (f (vstore k s)) = bare (vstore k s)"
  shows "page k (with_vstore k f s) = page k s"
  by (simp add: page_def with_simps [OF assms(1)] assms(2))

lemma page_SetPool:
  assumes "calm k s" "perp_GetPool k s (pl_AmmPoolId p) = Some p0" "strip p = strip p0"
  shows "page k (perp_SetPool k p s) = page k s"
  unfolding perp_SetPool_def
proof (rule page_with [OF calm_sel(1) [OF assms(1)]])
  let ?P = "map (map_prod id strip) (vs_pools (vstore k s))"
  have "kv_set (pl_AmmPoolId p) (strip p) ?P = ?P"
    using assms(2,3) calm_sel(3) [OF assms(1)] by (intro kv_set_same) (simp_all add: kv_ok_map kv_get_map perp_GetPool_def)
  then show "bare (vs_pools_update (kv_set (pl_AmmPoolId p) p) (vstore k s)) = bare (vstore k s)"
    by (simp add: bare_def map_kv_set)
qed

lemma stored_page:
  assumes "page k t = page k s" "perp_GetPool k s i = Some p"
  obtains q where "perp_GetPool k t i = Some q" "strip q = strip p"
proof -
  have "vs_pools (bare (vstore k t)) = vs_pools (bare (vstore k s))" using assms(1) by (simp add: page_def)
  then have "kv_get (vs_pools (bare (vstore k t))) i = kv_get (vs_pools (bare (vstore k s))) i" by (simp only:)
  then show thesis using assms(2) that by (auto simp: kv_get_map perp_GetPool_def)
qed

lemma page_sel:
  assumes "page k t = page k s"
  shows "vs_mtps (vstore k t) = vs_mtps (vstore k s)" "vs_counters (vstore k t) = vs_counters (vstore k s)"
    "vs_params (vstore k t) = vs_params (vstore k s)" "base_denom k t = base_denom k s"
proof -
  have "bare (vstore k t) = bare (vstore k s)" using assms by (simp add: page_def)
  then show "vs_mtps (vstore k t) = vs_mtps (vstore k s)" "vs_counters (vstore k t) = vs_counters (vstore k s)"
    "vs_params (vstore k t) = vs_params (vstore k s)" by (metis bare_sel)+
  show "base_denom k t = base_denom k s" using assms by (simp add: page_def)
qed

text \<open>The pool is refreshed in place.\<close>

lemma health_page:
  assumes "calm k s" "perp_GetPool k s (pl_AmmPoolId p) = Some p0" "strip p = strip p0"
    and "UpdatePoolHealth k p s = Inr (t, p')"
  shows "page k t = page k s" "strip p' = strip p" "perp_GetPool k t (pl_AmmPoolId p) = Some p'" "pl_AmmPoolId p' = pl_AmmPoolId p"
proof -
  obtain x y where p': "p' = p\<lparr>pl_BaseAssetLiabilitiesRatio := x, pl_QuoteAssetLiabilitiesRatio := y\<rparr>" and t: "t = perp_SetPool k p' s"
    using assms(4) by (auto simp: UpdatePoolHealth_def Let_def split: option.splits)
  show st: "strip p' = strip p" and i: "pl_AmmPoolId p' = pl_AmmPoolId p" by (simp_all add: p' strip_def)
  show "page k t = page k s" unfolding t
    by (rule page_SetPool [OF assms(1)]) (simp_all add: i st assms(2,3))
  show "perp_GetPool k t (pl_AmmPoolId p) = Some p'"
    by (simp add: t perp_SetPool_def perp_GetPool_def with_simps [OF calm_sel(1) [OF assms(1)]] kv_get_set i)
qed

lemma page_recheck:
  assumes "calm k s" "perp_GetPool k s i = Some p"
  shows "on_ok (same_page k s) (recheck k p i s)"
proof (rule on_okI)
  fix t assume "recheck k p i s = Inr t"
  then obtain p' where "UpdatePoolHealth k p s = Inr (t, p')" by (auto simp: recheck_def)
  then show "same_page k s t"
    using health_page [OF assms(1) _ refl] assms calm_sel(4) [OF assms] by blast
qed

text \<open>The hooks of this module on the amm are among those that leave the books alone.\<close>

lemma perp_AmmHooks_apart:
  assumes "desk_laws k" "tidy (fst b)" "page k s = b"
  shows "on_ok (\<lambda>t. page k t = b) (ah_AfterSwap (perp_AmmHooks k) a p cs cs' s)"
    "on_ok (\<lambda>t. page k t = b) (ah_AfterJoinPool (perp_AmmHooks k) a p cs n s)"
    "on_ok (\<lambda>t. page k t = b) (ah_AfterExitPool (perp_AmmHooks k) a p n cs s)"
proof -
  have "calm k s" using assms by (auto simp: calm_def page_def tidy_bare)
  then have "on_ok (\<lambda>t. page k t = b) (after_amm_change k p s)"
    using page_recheck assms(3) unfolding after_amm_change_def by (auto intro!: on_ok_option)
  then show "on_ok (\<lambda>t. page k t = b) (ah_AfterSwap (perp_AmmHooks k) a p cs cs' s)"
    "on_ok (\<lambda>t. page k t = b) (ah_AfterJoinPool (perp_AmmHooks k) a p cs n s)"
    "on_ok (\<lambda>t. page k t = b) (ah_AfterExitPool (perp_AmmHooks k) a p n cs s)"
    by (simp_all add: perp_AmmHooks_def)
qed

section \<open>A position and its pool in memory\<close>

text \<open>What is on the desk was moved from what is stored under the key.\<close>

definition on_desk :: "'e vkeeper \<Rightarrow> 'e mstate \<Rightarrow> mtp_key \<Rightarrow> MTP \<Rightarrow> PerpPool \<Rightarrow> bool" where
  "on_desk k s key m p \<longleftrightarrow> (\<exists>m0 p0. kv_get (vs_mtps (vstore k s)) key = Some m0 \<and>
     perp_GetPool k s (mt_AmmPoolId m0) = Some p0 \<and> moved (m0, p0) (m, p))"

text \<open>What a step on one position may do to the rest of the module.\<close>

definition only_at :: "'e vkeeper \<Rightarrow> mtp_key \<Rightarrow> 'e mstate \<Rightarrow> 'e mstate \<Rightarrow> bool" where
  "only_at k key s t \<longleftrightarrow> base_denom k t = base_denom k s \<and> vs_params (vstore k t) = vs_params (vstore k s) \<and>
     (\<forall>key'. key' \<noteq> key \<longrightarrow> kv_get (vs_mtps (vstore k t)) key' = kv_get (vs_mtps (vstore k s)) key') \<and>
     (\<forall>i p. perp_GetPool k s i = Some p \<longrightarrow> (\<exists>q. perp_GetPool k t i = Some q \<and> pool_denoms q = pool_denoms p))"

lemma only_at_page:
  assumes "page k t = page k s"
  shows "only_at k key s t"
proof -
  have "\<exists>q. perp_GetPool k t i = Some q \<and> pool_denoms q = pool_denoms p" if "perp_GetPool k s i = Some p" for i p
    using stored_page [OF assms that] strip_sel(3) by metis
  then show ?thesis by (simp add: only_at_def page_sel [OF assms])
qed

lemma only_at_trans: "only_at k key s t \<Longrightarrow> only_at k key t u \<Longrightarrow> only_at k key s u"
  unfolding only_at_def by metis

lemma on_desk_page:
  assumes "page k t = page k s" "on_desk k s key m p"
  shows "on_desk k t key m p"
proof -
  obtain m0 p0 where st: "kv_get (vs_mtps (vstore k s)) key = Some m0" "perp_GetPool k s (mt_AmmPoolId m0) = Some p0"
    "moved (m0, p0) (m, p)" using assms(2) by (auto simp: on_desk_def)
  from stored_page [OF assms(1) st(2)] obtain q where q: "perp_GetPool k t (mt_AmmPoolId m0) = Some q" "strip q = strip p0" .
  have "moved (m0, q) (m, p)" by (rule moved_trans [OF moved_strip [OF q(2) [symmetric]] st(3)])
  then show ?thesis using st(1) q(1) page_sel(1) [OF assms(1)] by (auto simp: on_desk_def)
qed

lemma on_desk_moved: "on_desk k s key m p \<Longrightarrow> moved (m, p) (m', p') \<Longrightarrow> on_desk k s key m' p'"
  unfolding on_desk_def by (metis moved_trans)

lemma on_desk_stored:
  "kv_get (vs_mtps (vstore k s)) key = Some m \<Longrightarrow> perp_GetPool k s (mt_AmmPoolId m) = Some p \<Longrightarrow> on_desk k s key m p"
  unfolding on_desk_def by (metis moved_refl)

lemma on_desk_key:
  assumes "perp_sheet k b s" "on_desk k s key m p"
  obtains a where "GetAccountAddress (vk_sdk k) m = Inr a" "key = GetMTPKey a (mt_AmmPoolId m) (mt_Id m)" "0 < mt_Id m"
    "pl_AmmPoolId p = mt_AmmPoolId m"
proof -
  obtain m0 p0 where st: "kv_get (vs_mtps (vstore k s)) key = Some m0" "perp_GetPool k s (mt_AmmPoolId m0) = Some p0"
    "moved (m0, p0) (m, p)" using assms(2) by (auto simp: on_desk_def)
  have sp: "same_position m0 m" "mt_Id m = mt_Id m0" "pl_AmmPoolId p = pl_AmmPoolId p0" "mt_AmmPoolId m = mt_AmmPoolId m0"
    using st(3) by (simp_all add: moved_def same_position_def)
  have "pl_AmmPoolId p0 = mt_AmmPoolId m0"
    using assms(1) st(2) by (simp add: perp_sheet_def on_books_def tidy_def perp_GetPool_def)
  then show thesis
    using fits_stored [OF assms(1) [unfolded perp_sheet_def] st(1)] sp GetAccountAddress_same [OF sp(1), of "vk_sdk k"] that
    by (auto simp: fits_def)
qed

section \<open>Saving\<close>

lemma SetMTP_old:
  assumes "SetMTP k m s = Inr (t, m')" "mt_Id m \<noteq> 0"
  obtains a where "GetAccountAddress (vk_sdk k) m = Inr a" "m' = m" "MTP_Validate m = Inr ()"
    "t = with_vstore k (vs_mtps_update (kv_set (GetMTPKey a (mt_AmmPoolId m) (mt_Id m)) m)) s"
  using assms by (auto simp: SetMTP_def Let_def)

lemma save_desk:
  assumes L: "desk_laws k" and B: "perp_sheet k b s" and D: "on_desk k s key m p" and S: "SetMTP k m s = Inr (s1, m1)"
    and t: "t = perp_SetPool k p s1"
  shows "perp_sheet k b t" "m1 = m" "only_at k key s t" "on_desk k t key m p"
    "kv_get (vs_mtps (vstore k t)) key = Some m" "perp_GetPool k t (mt_AmmPoolId m) = Some p"
proof -
  obtain a where a: "GetAccountAddress (vk_sdk k) m = Inr a" "key = GetMTPKey a (mt_AmmPoolId m) (mt_Id m)" "0 < mt_Id m"
    and i: "pl_AmmPoolId p = mt_AmmPoolId m" using on_desk_key [OF B D] .
  have s1: "s1 = with_vstore k (vs_mtps_update (kv_set key m)) s" and m1: "m1 = m"
    using SetMTP_old [OF S] a by auto
  have v: "vstore k t = (vstore k s)\<lparr>vs_mtps := kv_set key m (vs_mtps (vstore k s)),
      vs_pools := kv_set (mt_AmmPoolId m) p (vs_pools (vstore k s))\<rparr>" and b: "base_denom k t = base_denom k s"
    by (simp_all add: t s1 perp_SetPool_def with_simps [OF L] i)
  obtain m0 p0 where st: "kv_get (vs_mtps (vstore k s)) key = Some m0" "perp_GetPool k s (mt_AmmPoolId m0) = Some p0"
    "moved (m0, p0) (m, p)" using D by (auto simp: on_desk_def)
  have id: "mt_AmmPoolId m = mt_AmmPoolId m0" "pool_denoms p = pool_denoms p0"
    using st(3) by (simp_all add: moved_def same_position_def)
  show "perp_sheet k b t"
    unfolding perp_sheet_def b
    by (rule books_save [OF B [unfolded perp_sheet_def] st(1) st(2) [unfolded perp_GetPool_def] st(3)]) (simp_all add: v id)
  show "m1 = m" by (rule m1)
  show key: "kv_get (vs_mtps (vstore k t)) key = Some m" and pool: "perp_GetPool k t (mt_AmmPoolId m) = Some p"
    by (simp_all add: v kv_get_set perp_GetPool_def)
  show "on_desk k t key m p" by (rule on_desk_stored [OF key pool])
  show "only_at k key s t"
    using st(2) id by (auto simp: only_at_def b v kv_get_set perp_GetPool_def)
qed

text \<open>Saving a position alone, when it moved nothing in its pool.\<close>

lemma save_alone:
  assumes L: "desk_laws k" and B: "perp_sheet k b s" and p: "perp_GetPool k s (mt_AmmPoolId m) = Some p"
    and D: "on_desk k s key m p" and S: "SetMTP k m s = Inr (t, m1)"
  shows "perp_sheet k b t" "m1 = m" "only_at k key s t" "on_desk k t key m p"
    "kv_get (vs_mtps (vstore k t)) key = Some m" "perp_GetPool k t (mt_AmmPoolId m) = Some p"
proof -
  obtain a where a: "0 < mt_Id m" "pl_AmmPoolId p = mt_AmmPoolId m" using on_desk_key [OF B D] .
  obtain x where t: "t = with_vstore k (vs_mtps_update x) s" using SetMTP_old [OF S] a by auto
  have "kv_ok (vs_pools (vstore k s))" using B by (simp add: perp_sheet_def on_books_def tidy_def)
  then have same: "kv_set (pl_AmmPoolId p) p (vs_pools (vstore k s)) = vs_pools (vstore k s)"
    using p a by (simp add: kv_set_same perp_GetPool_def)
  have "vstore k (perp_SetPool k p t) = vstore k t"
    using same by (simp add: perp_SetPool_def with_simps [OF L] t)
  moreover have "base_denom k (perp_SetPool k p t) = base_denom k t" by (simp add: perp_SetPool_def with_simps [OF L])
  ultimately show "perp_sheet k b t" "m1 = m" "only_at k key s t" "on_desk k t key m p"
    "kv_get (vs_mtps (vstore k t)) key = Some m" "perp_GetPool k t (mt_AmmPoolId m) = Some p"
    using save_desk [OF L B D S refl] by (simp_all add: perp_sheet_def only_at_def on_desk_def perp_GetPool_def)
qed

section \<open>Opening and closing\<close>

lemma pc_record: "pc_AmmPoolId c = i \<Longrightarrow> c\<lparr>pc_Counter := x, pc_TotalOpen := y\<rparr> = \<lparr>pc_AmmPoolId = i, pc_Counter = x, pc_TotalOpen = y\<rparr>"
  "pc_AmmPoolId c = i \<Longrightarrow> c\<lparr>pc_TotalOpen := y\<rparr> = \<lparr>pc_AmmPoolId = i, pc_Counter = pc_Counter c, pc_TotalOpen = y\<rparr>"
  by (cases c; simp)+

text \<open>Reading a counter gives what the books know of it.\<close>

lemma counter_read:
  assumes "desk_laws k" "counted b (vstore k s)" "GetPerpetualCounter k i s = (t, c)"
  shows "c = \<lparr>pc_AmmPoolId = i, pc_Counter = counter_of (vstore k s) i, pc_TotalOpen = open_of (vstore k s) i\<rparr>"
    "base_denom k t = base_denom k s"
    "\<exists>C. vstore k t = (vstore k s)\<lparr>vs_counters := C\<rparr> \<and> (\<forall>j. j \<noteq> i \<longrightarrow> kv_get C j = kv_get (vs_counters (vstore k s)) j)"
proof -
  have "c = \<lparr>pc_AmmPoolId = i, pc_Counter = counter_of (vstore k s) i, pc_TotalOpen = open_of (vstore k s) i\<rparr> \<and>
    base_denom k t = base_denom k s \<and>
    (\<exists>C. vstore k t = (vstore k s)\<lparr>vs_counters := C\<rparr> \<and> (\<forall>j. j \<noteq> i \<longrightarrow> kv_get C j = kv_get (vs_counters (vstore k s)) j))"
  proof (cases "kv_get (vs_counters (vstore k s)) i")
    case None
    then have t: "t = with_vstore k (vs_counters_update (kv_set i \<lparr>pc_AmmPoolId = i, pc_Counter = 0, pc_TotalOpen = 0\<rparr>)) s"
      and c: "c = \<lparr>pc_AmmPoolId = i, pc_Counter = 0, pc_TotalOpen = 0\<rparr>"
      using assms(3) by (auto simp: GetPerpetualCounter_def Let_def)
    show ?thesis using None
      by (auto simp: t c with_simps [OF assms(1)] counter_of_def open_of_def kv_get_set
          intro!: exI [of _ "kv_set i \<lparr>pc_AmmPoolId = i, pc_Counter = 0, pc_TotalOpen = 0\<rparr> (vs_counters (vstore k s))"])
  next
    case (Some d)
    then have "t = s" "c = d" using assms(3) by (auto simp: GetPerpetualCounter_def)
    moreover have "pc_AmmPoolId d = i" using countedD(5) [OF assms(2) Some] .
    ultimately show ?thesis using Some
      by (cases d) (auto simp: counter_of_def open_of_def intro!: exI [of _ "vs_counters (vstore k s)"])
  qed
  then show "c = \<lparr>pc_AmmPoolId = i, pc_Counter = counter_of (vstore k s) i, pc_TotalOpen = open_of (vstore k s) i\<rparr>"
    "base_denom k t = base_denom k s"
    "\<exists>C. vstore k t = (vstore k s)\<lparr>vs_counters := C\<rparr> \<and> (\<forall>j. j \<noteq> i \<longrightarrow> kv_get C j = kv_get (vs_counters (vstore k s)) j)"
    by blast+
qed

lemma Destroy_store:
  assumes L: "desk_laws k" and B: "perp_sheet k b s" and b: "b < 2 ^ 64"
    and m: "kv_get (vs_mtps (vstore k s)) key = Some m0" and same: "same_position m0 m" "mt_Id m = mt_Id m0"
    and S: "DestroyMTP k m s = Inr t"
  obtains C where "vstore k t = (vstore k s)\<lparr>vs_mtps := kv_del key (vs_mtps (vstore k s)), vs_counters := C\<rparr>"
    "base_denom k t = base_denom k s"
    "\<forall>j. kv_get C j = (if j = mt_AmmPoolId m0
        then Some \<lparr>pc_AmmPoolId = j, pc_Counter = counter_of (vstore k s) j, pc_TotalOpen = open_of (vstore k s) j - 1\<rparr>
        else kv_get (vs_counters (vstore k s)) j)"
proof -
  note B' = B [unfolded perp_sheet_def]
  define i where "i = mt_AmmPoolId m0"
  have i: "mt_AmmPoolId m = i" using same(1) by (simp add: same_position_def i_def)
  obtain a where a: "GetAccountAddress (vk_sdk k) m = Inr a" "key = GetMTPKey a i (mt_Id m)"
    using fits_stored [OF B' m] same i [folded i_def] GetAccountAddress_same [OF same(1), of "vk_sdk k"]
    by (auto simp: fits_def i_def)
  define s1 where "s1 = with_vstore k (vs_mtps_update (kv_del key)) s"
  have v1: "vstore k s1 = (vstore k s)\<lparr>vs_mtps := kv_del key (vs_mtps (vstore k s))\<rparr>" and b1: "base_denom k s1 = base_denom k s"
    by (simp_all add: s1_def with_simps [OF L])
  obtain s2 c where c: "GetPerpetualCounter k i s1 = (s2, c)" by (cases "GetPerpetualCounter k i s1")
  have t: "t = SetPerpetualCounter k (c\<lparr>pc_TotalOpen := u64 (pc_TotalOpen c - 1)\<rparr>) s2"
    using S a c i by (simp add: DestroyMTP_def Let_def s1_def)
  have O: "0 < open_of (vstore k s) i" "open_of (vstore k s) i \<le> b"
    using open_pos [OF B' m] countedD [OF books_counted [OF B'], of i] by (simp_all add: i_def)
  then obtain d where d: "kv_get (vs_counters (vstore k s)) i = Some d" by (auto simp: open_of_def split: option.splits)
  have d': "pc_AmmPoolId d = i" using countedD(5) [OF books_counted [OF B'] d] .
  have "s2 = s1" "c = d" using c d by (auto simp: GetPerpetualCounter_def v1)
  moreover have "u64 (pc_TotalOpen d - 1) = pc_TotalOpen d - 1"
    using O b d by (simp add: u64_id open_of_def)
  ultimately have "vstore k t = (vstore k s)\<lparr>vs_mtps := kv_del key (vs_mtps (vstore k s)),
      vs_counters := kv_set i (d\<lparr>pc_TotalOpen := pc_TotalOpen d - 1\<rparr>) (vs_counters (vstore k s))\<rparr>"
    "base_denom k t = base_denom k s"
    by (simp_all add: t SetPerpetualCounter_def with_simps [OF L] d' v1 b1)
  then show thesis
    by (rule that) (simp add: kv_get_set d i_def [symmetric] pc_record(2) [OF d'] counter_of_def open_of_def)
qed

lemma close_desk:
  assumes L: "desk_laws k" and B: "perp_sheet k b s" and b: "b < 2 ^ 64" and D: "on_desk k s key m p"
    and empty: "\<And>c. own c m = 0" and S: "DestroyMTP k m s = Inr s1" and t: "t = perp_SetPool k p s1"
  shows "perp_sheet k b t \<and> only_at k key s t \<and> kv_get (vs_mtps (vstore k t)) key = None"
proof -
  obtain m0 p0 where st: "kv_get (vs_mtps (vstore k s)) key = Some m0" "perp_GetPool k s (mt_AmmPoolId m0) = Some p0"
    "moved (m0, p0) (m, p)" using D by (auto simp: on_desk_def)
  have sp: "same_position m0 m" "mt_Id m = mt_Id m0" and den: "pool_denoms p = pool_denoms p0"
    using st(3) by (simp_all add: moved_def)
  have i: "pl_AmmPoolId p = mt_AmmPoolId m0" using on_desk_key [OF B D] sp(1) by (auto simp: same_position_def)
  obtain C where v1: "vstore k s1 = (vstore k s)\<lparr>vs_mtps := kv_del key (vs_mtps (vstore k s)), vs_counters := C\<rparr>"
    and b1: "base_denom k s1 = base_denom k s"
    and C: "\<forall>j. kv_get C j = (if j = mt_AmmPoolId m0
        then Some \<lparr>pc_AmmPoolId = j, pc_Counter = counter_of (vstore k s) j, pc_TotalOpen = open_of (vstore k s) j - 1\<rparr>
        else kv_get (vs_counters (vstore k s)) j)"
    by (rule Destroy_store [OF L B b st(1) sp S])
  have v: "vstore k t = (vstore k s)\<lparr>vs_mtps := kv_del key (vs_mtps (vstore k s)), vs_counters := C,
      vs_pools := kv_set (mt_AmmPoolId m0) p (vs_pools (vstore k s))\<rparr>" and bt: "base_denom k t = base_denom k s"
    by (simp_all add: t perp_SetPool_def with_simps [OF L] v1 b1 i)
  have "perp_sheet k b t"
    unfolding perp_sheet_def bt
    by (rule books_gone [OF B [unfolded perp_sheet_def] st(1) st(2) [unfolded perp_GetPool_def] st(3) empty])
      (simp_all add: v C)
  moreover have "only_at k key s t" using st(2) den by (auto simp: only_at_def bt v kv_get_del kv_get_set perp_GetPool_def)
  moreover have "kv_get (vs_mtps (vstore k t)) key = None" by (simp add: v kv_get_del)
  ultimately show ?thesis by blast
qed

text \<open>One position is destroyed, the other saved with what both held.\<close>

lemma merge_desk:
  assumes L: "desk_laws k" and B: "perp_sheet k b s" and b: "b < 2 ^ 64"
    and e: "kv_get (vs_mtps (vstore k s)) key = Some e" and n: "kv_get (vs_mtps (vstore k s)) key' = Some n" and ne: "key' \<noteq> key"
    and sp: "same_position e e'" "mt_Id e' = mt_Id e"
    and same: "mt_AmmPoolId n = mt_AmmPoolId e" "mt_Position n = mt_Position e" "\<And>c. own_asset c n = own_asset c e"
    and own: "\<And>c. own c e' = own c e + own c n"
    and S: "DestroyMTP k n s = Inr s1" "SetMTP k e' s1 = Inr (t, m1)"
  shows "perp_sheet k b t" "\<And>key''. key'' \<noteq> key \<Longrightarrow> key'' \<noteq> key' \<Longrightarrow> kv_get (vs_mtps (vstore k t)) key'' = kv_get (vs_mtps (vstore k s)) key''"
    "m1 = e'" "base_denom k t = base_denom k s" "vs_pools (vstore k t) = vs_pools (vstore k s)"
    "vs_params (vstore k t) = vs_params (vstore k s)" "kv_get (vs_mtps (vstore k t)) key' = None"
proof -
  obtain C where v1: "vstore k s1 = (vstore k s)\<lparr>vs_mtps := kv_del key' (vs_mtps (vstore k s)), vs_counters := C\<rparr>"
    and b1: "base_denom k s1 = base_denom k s"
    and C: "\<forall>j. kv_get C j = (if j = mt_AmmPoolId n
        then Some \<lparr>pc_AmmPoolId = j, pc_Counter = counter_of (vstore k s) j, pc_TotalOpen = open_of (vstore k s) j - 1\<rparr>
        else kv_get (vs_counters (vstore k s)) j)"
    by (rule Destroy_store [OF L B b n _ _ S(1)]) (simp_all add: same_position_def)
  have "fits (vk_sdk k) (vstore k s) (base_denom k s) key e'" by (rule fits_same [OF fits_stored [OF B [unfolded perp_sheet_def] e] sp])
  then obtain a where a: "GetAccountAddress (vk_sdk k) e' = Inr a" "key = GetMTPKey a (mt_AmmPoolId e') (mt_Id e')" "0 < mt_Id e'"
    by (auto simp: fits_def)
  have t: "t = with_vstore k (vs_mtps_update (kv_set key e')) s1" and m1: "m1 = e'"
    using SetMTP_old [OF S(2)] a by auto
  have v: "vstore k t = (vstore k s)\<lparr>vs_mtps := kv_set key e' (kv_del key' (vs_mtps (vstore k s))), vs_counters := C\<rparr>"
    and bt: "base_denom k t = base_denom k s" by (simp_all add: t with_simps [OF L] v1 b1)
  show "perp_sheet k b t"
    unfolding perp_sheet_def bt
    by (rule books_merge [OF B [unfolded perp_sheet_def] e n ne sp same own]) (simp_all add: v C)
  show "m1 = e'" "base_denom k t = base_denom k s" "vs_pools (vstore k t) = vs_pools (vstore k s)"
    "vs_params (vstore k t) = vs_params (vstore k s)" "kv_get (vs_mtps (vstore k t)) key' = None"
    using m1 bt ne by (simp_all add: v kv_get_set kv_get_del)
  show "kv_get (vs_mtps (vstore k t)) key'' = kv_get (vs_mtps (vstore k s)) key''" if "key'' \<noteq> key" "key'' \<noteq> key'" for key''
    using that by (simp add: v kv_get_set kv_get_del)
qed

text \<open>A position without an identifier gets the next one of its pool.\<close>

lemma open_desk:
  assumes L: "desk_laws k" and B: "perp_sheet k b s" and b: "b < 2 ^ 64 - 1" and id: "mt_Id m = 0"
    and p: "perp_GetPool k s (mt_AmmPoolId m) = Some p"
    and F: "follows (mt_AmmPoolId m) p p' (\<lambda>x. share (mt_AmmPoolId m) x m)"
    and A: "\<And>d. base_denom k s = Some d \<Longrightarrow> \<exists>t. GetTradingAsset p d = Inr t \<and>
      GetCustodyAndLiabilitiesAsset (mt_Position m) t d = Inr (mt_CustodyAsset m, mt_LiabilitiesAsset m)"
    and S: "SetMTP k m (perp_SetPool k p' s) = Inr (t, m1)"
  obtains a where "GetAccountAddress (vk_sdk k) m = Inr a"
    "m1 = m\<lparr>mt_Id := counter_of (vstore k s) (mt_AmmPoolId m) + 1\<rparr>"
    "perp_sheet k (b + 1) t" "only_at k (GetMTPKey a (mt_AmmPoolId m) (mt_Id m1)) s t"
    "kv_get (vs_mtps (vstore k s)) (GetMTPKey a (mt_AmmPoolId m) (mt_Id m1)) = None"
    "kv_get (vs_mtps (vstore k t)) (GetMTPKey a (mt_AmmPoolId m) (mt_Id m1)) = Some m1"
    "perp_GetPool k t (mt_AmmPoolId m) = Some p'"
proof -
  note B' = B [unfolded perp_sheet_def]
  define i where "i = mt_AmmPoolId m"
  define s0 where "s0 = perp_SetPool k p' s"
  have pi: "pl_AmmPoolId p' = i" using F p B' by (simp add: follows_def on_books_def tidy_def perp_GetPool_def i_def)
  have v0: "vstore k s0 = (vstore k s)\<lparr>vs_pools := kv_set i p' (vs_pools (vstore k s))\<rparr>" and b0: "base_denom k s0 = base_denom k s"
    by (simp_all add: s0_def perp_SetPool_def with_simps [OF L] pi)
  have c0: "counted b (vstore k s0)" by (rule counted_keep [OF books_counted [OF B']]) (simp_all add: v0)
  obtain s1 c where c: "GetPerpetualCounter k i s0 = (s1, c)" by (cases "GetPerpetualCounter k i s0")
  from counter_read [OF L c0 c] obtain C where
    ceq: "c = \<lparr>pc_AmmPoolId = i, pc_Counter = counter_of (vstore k s) i, pc_TotalOpen = open_of (vstore k s) i\<rparr>"
    and b1: "base_denom k s1 = base_denom k s0"
    and C: "vstore k s1 = (vstore k s0)\<lparr>vs_counters := C\<rparr>" "\<And>j. j \<noteq> i \<Longrightarrow> kv_get C j = kv_get (vs_counters (vstore k s)) j"
    by (auto simp: v0)
  define n where "n = counter_of (vstore k s) i + 1"
  have K: "0 \<le> open_of (vstore k s) i" "open_of (vstore k s) i \<le> counter_of (vstore k s) i" "counter_of (vstore k s) i \<le> b"
    using countedD [OF books_counted [OF B'], of i] by simp_all
  then have u: "u64 (counter_of (vstore k s) i + 1) = n" "u64 (open_of (vstore k s) i + 1) = open_of (vstore k s) i + 1"
    using b by (simp_all add: u64_id n_def)
  define s2 where "s2 = SetPerpetualCounter k \<lparr>pc_AmmPoolId = i, pc_Counter = n, pc_TotalOpen = open_of (vstore k s) i + 1\<rparr> s1"
  obtain a where a: "GetAccountAddress (vk_sdk k) m = Inr a" and m1: "m1 = m\<lparr>mt_Id := n\<rparr>"
    and t: "t = with_vstore k (vs_mtps_update (kv_set (GetMTPKey a i n) m1)) s2"
    using S c by (auto simp: SetMTP_def Let_def id ceq u [unfolded i_def] s2_def i_def s0_def GetAccountAddress_def)
  define key where "key = GetMTPKey a i n"
  have v: "vstore k t = (vstore k s)\<lparr>vs_pools := kv_set i p' (vs_pools (vstore k s)),
      vs_counters := kv_set i \<lparr>pc_AmmPoolId = i, pc_Counter = n, pc_TotalOpen = open_of (vstore k s) i + 1\<rparr> C,
      vs_mtps := kv_set key m1 (vs_mtps (vstore k s))\<rparr>" and bt: "base_denom k t = base_denom k s"
    by (simp_all add: t s2_def SetPerpetualCounter_def with_simps [OF L] C(1) v0 b1 b0 key_def)
  have own: "own c m1 = own c m" "own_asset c m1 = own_asset c m" for c by (cases c; simp add: m1)+
  have share: "share j x m1 = share j x m" for j x by (simp add: share_def m1 own [unfolded m1] split: prod.splits)
  have fit: "fits (vk_sdk k) (vstore k s) (base_denom k s) key m1"
    using a A K p by (auto simp: fits_def m1 key_def i_def n_def perp_GetPool_def GetAccountAddress_def)
  have F1: "follows (mt_AmmPoolId m1) p p' (\<lambda>x. share (mt_AmmPoolId m1) x m1)" using F by (simp add: share) (simp add: m1)
  have p1: "kv_get (vs_pools (vstore k s)) (mt_AmmPoolId m1) = Some p" using p by (simp add: perp_GetPool_def m1)
  have "perp_sheet k (b + 1) t" unfolding perp_sheet_def bt
    by (rule books_new(1) [OF B' p1 fit _ F1]) (simp_all add: v m1 n_def i_def kv_get_set C(2) [unfolded i_def])
  moreover have fresh: "kv_get (vs_mtps (vstore k s)) key = None"
    by (rule books_new(2) [OF B' p1 fit _ F1, where w = "vstore k t"]) (simp_all add: v m1 n_def i_def kv_get_set C(2) [unfolded i_def])
  moreover have "only_at k key s t"
    using p F by (auto simp: only_at_def bt v kv_get_set perp_GetPool_def i_def follows_def)
  moreover have "perp_GetPool k t i = Some p'" "kv_get (vs_mtps (vstore k t)) key = Some m1"
    by (simp_all add: perp_GetPool_def v kv_get_set)
  ultimately show thesis using that [OF a] by (simp add: m1 n_def i_def key_def)
qed

end
