(* ===== verification/PerpTurns.thy ===== *)
theory PerpTurns
  imports PerpDesk
begin

text \<open>
  What the perpetual keeper does with a position keeps the books: settling funding and interest,
  repaying, closing, liquidating; then opening, merging and the messages of an owner.
\<close>

section \<open>Settling and closing\<close>

definition ready :: "'e vkeeper \<Rightarrow> int \<Rightarrow> 'e mstate \<Rightarrow> bool" where
  "ready k b s \<longleftrightarrow> desk_laws k \<and> perp_sheet k b s \<and> b < 2 ^ 64"

definition turned :: "'e vkeeper \<Rightarrow> int \<Rightarrow> mtp_key \<Rightarrow> 'e mstate \<Rightarrow> 'e mstate \<Rightarrow> bool" where
  "turned k b key s t \<longleftrightarrow> ready k b t \<and> only_at k key s t"

lemma ready_sel:
  assumes "ready k b s"
  shows "desk_laws k" "perp_sheet k b s" "b < 2 ^ 64" "calm k s"
proof -
  show L: "desk_laws k" and B: "perp_sheet k b s" and "b < 2 ^ 64" using assms unfolding ready_def by blast+
  show "calm k s" by (rule sheet_calm [OF L B])
qed

lemma ready_page: "page k t = page k s \<Longrightarrow> ready k b t = ready k b s"
  unfolding ready_def using sheet_page [of k t s b] by simp

lemma turned_page: "ready k b s \<Longrightarrow> page k t = page k s \<Longrightarrow> turned k b key s t"
  unfolding turned_def using ready_page [of k t s b] only_at_page [of k t s key] by simp

lemma turned_trans: "turned k b key s t \<Longrightarrow> turned k b key t u \<Longrightarrow> turned k b key s u"
  unfolding turned_def by (blast intro: only_at_trans)

lemma turned_ready: "turned k b key s t \<Longrightarrow> ready k b t"
  by (simp add: turned_def)

lemma turned_then: "turned k b key s t \<Longrightarrow> page k u = page k t \<Longrightarrow> turned k b key s u"
  by (blast intro: turned_trans turned_page turned_ready)

lemma turn_SettleFunding:
  assumes R: "ready k b s" and D: "on_desk k s key m p" and S: "SettleFunding k ctx m p s = Inr (t, m', p', x)"
  shows "turned k b key s t" "on_desk k t key m' p'" "perp_GetPool k t (mt_AmmPoolId m') = Some p'"
proof -
  obtain m1 f n r s1 where U: "UpdateFundingFee k ctx s m p = Inr (m1, p', f, n, r)" and W: "SetMTP k m1 s = Inr (s1, m')"
    and t: "t = perp_SetPool k p' s1" using S by (auto simp: SettleFunding_def)
  have D1: "on_desk k s key m1 p'" by (rule on_desk_moved [OF D moved_UpdateFundingFee [OF U]])
  note V = save_desk [OF ready_sel(1,2) [OF R] D1 W t]
  show "turned k b key s t" using V(1,3) R by (simp add: turned_def ready_def)
  show "on_desk k t key m' p'" "perp_GetPool k t (mt_AmmPoolId m') = Some p'" using V by simp_all
qed

lemma moved_interest_paid:
  assumes "UpdateCustody p (mt_CustodyAsset m) pay False (mt_Position m) = Inr p'"
  shows "moved (m, p) (m\<lparr>mt_BorrowInterestUnpaidLiability := u, mt_BorrowInterestPaidCustody := v, mt_Custody := mt_Custody m - pay\<rparr>, p')"
  by (rule moved_custody [OF assms, where f = "\<lambda>m. m\<lparr>mt_BorrowInterestUnpaidLiability := u, mt_BorrowInterestPaidCustody := v\<rparr>"])
    simp_all

lemma page_interest_source:
  assumes "calm k s"
  shows "on_ok (\<lambda>r. same_page k s (fst r)) (if full then Inr (s, a, 0) else rbind (unpaid_interest k m w y) (\<lambda>unpaid.
      rbind (insurance_pays k m p a y s) (\<lambda>(s1, ammPool1). Inr (s1, ammPool1, unpaid))))"
  by (intro on_ok_if on_ok_rbind [of "unpaid_interest _ _ _ _"] page_bind [OF assms page_insurance [OF assms]]) simp_all

lemma turn_SettleInterest:
  assumes c: "calm k s" and S: "SettleMTPBorrowInterestUnpaidLiability k (m, p, a) s = Inr (t, (m', p', a'), x)"
  shows "page k t = page k s \<and> moved (m, p) (m', p')"
proof (cases "mt_BorrowInterestUnpaidLiability m = 0")
  case True
  then show ?thesis using S by (simp add: SettleMTPBorrowInterestUnpaidLiability_def)
next
  case False
  obtain w n where "GetBorrowInterestAmountAsCustodyAsset (vk_dec k) (vk_big k) m w = Inr n"
    and S1: "rbind (if \<not> mt_Custody m < n then Inr (s, a, 0)
             else rbind (unpaid_interest k m w (n - mt_Custody m)) (\<lambda>unpaid.
                  rbind (insurance_pays k m p a (n - mt_Custody m) s) (\<lambda>(s1, ammPool1).
                    Inr (s1, ammPool1, unpaid)))) (\<lambda>(s1, ammPool1, unpaid).
      rbind (if \<not> mt_Custody m < n then CollectInsuranceFund k (if \<not> mt_Custody m < n then n else mt_Custody m) (mt_CustodyAsset m) ammPool1 p s1
             else Inr (s1, ammPool1, 0)) (\<lambda>(s2, ammPool2, insuranceAmount).
      rbind (UpdateCustody p (mt_CustodyAsset m) (if \<not> mt_Custody m < n then n else mt_Custody m) False (mt_Position m)) (\<lambda>pool1.
        Inr (s2, (m\<lparr>mt_BorrowInterestUnpaidLiability := unpaid,
                     mt_BorrowInterestPaidCustody := mt_BorrowInterestPaidCustody m + (if \<not> mt_Custody m < n then n else mt_Custody m),
                     mt_Custody := mt_Custody m - (if \<not> mt_Custody m < n then n else mt_Custody m)\<rparr>, pool1, ammPool2),
             (if \<not> mt_Custody m < n then n else mt_Custody m), insuranceAmount, \<not> mt_Custody m < n)))) = Inr (t, (m', p', a'), x)"
    using S False by (auto simp: SettleMTPBorrowInterestUnpaidLiability_def Let_def simp del: if_not_P not_less split del: if_split)
  define full where "full \<longleftrightarrow> \<not> mt_Custody m < n"
  define pay where "pay = (if full then n else mt_Custody m)"
  note S2 = S1 [folded full_def, folded pay_def]
  obtain s1 a1 u s2 a2 i where
    one: "(if full then Inr (s, a, 0) else rbind (unpaid_interest k m w (n - mt_Custody m)) (\<lambda>unpaid.
        rbind (insurance_pays k m p a (n - mt_Custody m) s) (\<lambda>(s1, ammPool1). Inr (s1, ammPool1, unpaid)))) = Inr (s1, a1, u)"
    and two: "(if full then CollectInsuranceFund k pay (mt_CustodyAsset m) a1 p s1 else Inr (s1, a1, 0)) = Inr (s2, a2, i)"
    and U: "UpdateCustody p (mt_CustodyAsset m) pay False (mt_Position m) = Inr p'" and t: "t = s2"
    and m': "m' = m\<lparr>mt_BorrowInterestUnpaidLiability := u, mt_BorrowInterestPaidCustody := mt_BorrowInterestPaidCustody m + pay,
      mt_Custody := mt_Custody m - pay\<rparr>"
    using S2 by (auto simp del: if_not_P split del: if_split)
  have s1: "page k s1 = page k s" using on_okD [OF page_interest_source [OF c] one] by simp
  have "calm k s1" using c calm_page [OF s1] by simp
  then have "page k s2 = page k s1"
    using two on_okD [OF page_Collect, of k s1 pay "mt_CustodyAsset m" a1 p "(s2, a2, i)"] by (simp split: if_splits)
  then show ?thesis using s1 moved_interest_paid [OF U] by (simp add: t m')
qed

text \<open>What is closed is a part of a position that has custody, or all of it.\<close>

definition closes :: "'e vkeeper \<Rightarrow> int \<Rightarrow> MTP \<Rightarrow> bool" where
  "closes k r m \<longleftrightarrow> r = dec_one \<or> 0 < r \<and> r < dec_one \<and> 0 < mt_Custody m"

definition reduced :: "'e vkeeper \<Rightarrow> int \<Rightarrow> MTP \<Rightarrow> MTP" where
  "reduced k r m = m\<lparr>mt_Liabilities := mt_Liabilities m - DTruncateInt (vk_dec k) (r * mt_Liabilities m),
     mt_Custody := mt_Custody m - DTruncateInt (vk_dec k) (r * mt_Custody m),
     mt_Collateral := mt_Collateral m - DTruncateInt (vk_dec k) (r * mt_Collateral m)\<rparr>"

lemma reduced_all: "desk_laws k \<Longrightarrow> own c (reduced k dec_one m) = 0"
  by (cases c) (simp_all add: reduced_def desk_laws_def)

lemma reduced_part:
  assumes "desk_laws k" "0 < r" "r < dec_one" "0 < mt_Custody m"
  shows "0 < mt_Custody (reduced k r m)"
proof -
  have "0 \<le> r * mt_Custody m" using assms(2,4) by simp
  then have "DTruncateInt (vk_dec k) (r * mt_Custody m) = r * mt_Custody m div dec_one"
    using assms(1) by (intro DTruncateInt_eq) (simp_all add: desk_laws_def)
  moreover have "r * mt_Custody m < dec_one * mt_Custody m" using assms(3,4) by (intro mult_strict_right_mono)
  then have "r * mt_Custody m div dec_one < mt_Custody m" by (simp add: div_less_iff_less_mult mult.commute)
  ultimately show ?thesis by (simp add: reduced_def)
qed

lemma moved_reduced:
  assumes "UpdateCustody p (mt_CustodyAsset m) (DTruncateInt (vk_dec k) (r * mt_Custody m)) False (mt_Position m) = Inr p1"
    and "UpdateLiabilities p1 (mt_LiabilitiesAsset m) (DTruncateInt (vk_dec k) (r * mt_Liabilities m)) False (mt_Position m) = Inr p2"
    and "UpdateCollateral p2 (mt_CollateralAsset m) (DTruncateInt (vk_dec k) (r * mt_Collateral m)) False (mt_Position m) = Inr p3"
  shows "moved (m, p) (reduced k r m, p3)"
proof -
  define m1 where "m1 = m\<lparr>mt_Custody := mt_Custody m - DTruncateInt (vk_dec k) (r * mt_Custody m)\<rparr>"
  define m2 where "m2 = m1\<lparr>mt_Liabilities := mt_Liabilities m - DTruncateInt (vk_dec k) (r * mt_Liabilities m)\<rparr>"
  have "moved (m, p) (m1, p1)"
    by (rule moved_booked [where c = Custody], use booked_Custody [OF assms(1)] in simp)
      (simp_all add: same_fields own_custody m1_def)
  moreover have "moved (m1, p1) (m2, p2)"
    by (rule moved_booked [where c = Liability], use booked_Liabilities [OF assms(2)] in \<open>simp add: m1_def\<close>)
      (simp_all add: same_fields own_custody m1_def m2_def)
  moreover have "moved (m2, p2) (reduced k r m, p3)"
    by (rule moved_booked [where c = Collateral], use booked_Collateral [OF assms(3)] in \<open>simp add: m1_def m2_def\<close>)
      (simp_all add: same_fields own_custody m1_def m2_def reduced_def)
  ultimately show ?thesis by (blast intro: moved_trans)
qed

definition repaid :: "'e vkeeper \<Rightarrow> int \<Rightarrow> mtp_key \<Rightarrow> int \<Rightarrow> 'e mstate \<Rightarrow> 'e mstate \<Rightarrow> bool" where
  "repaid k b key r s t \<longleftrightarrow> turned k b key s t \<and> (r = dec_one \<longrightarrow> kv_get (vs_mtps (vstore k t)) key = None)"

lemma turn_Repay:
  assumes R: "ready k b s" and D: "on_desk k s key m p" and c: "closes k r m"
    and pay: "paying = DTruncateInt (vk_dec k) (r * mt_Liabilities m)"
    and S: "perp_Repay k ctx (m, p, a) n paying r fees q s = Inr (t, (m', p', a'), fees')"
  shows "repaid k b key r s t"
proof -
  obtain s1 f p1 p2 s2 where
    one: "repay_return k ctx m a n fees q s = Inr (s1, a', f)"
    and U: "UpdateCustody p (mt_CustodyAsset m) (DTruncateInt (vk_dec k) (r * mt_Custody m)) False (mt_Position m) = Inr p1"
      "UpdateLiabilities p1 (mt_LiabilitiesAsset m) paying False (mt_Position m) = Inr p2"
      "UpdateCollateral p2 (mt_CollateralAsset m) (DTruncateInt (vk_dec k) (r * mt_Collateral m)) False (mt_Position m) = Inr p'"
    and W: "(if mt_Custody (reduced k r m) \<le> 0
             then rbind (DestroyMTP k (reduced k r m) s1) (\<lambda>s2. Inr (s2, reduced k r m))
             else rbind (GetMTPHealth k s1 (reduced k r m)) (\<lambda>health. SetMTP k ((reduced k r m)\<lparr>mt_MtpHealth := health\<rparr>) s1)) = Inr (s2, m')"
    and t: "t = perp_SetPool k p' s2"
    using S unfolding perp_Repay_def reduced_def pay Let_def prod.case by (auto split del: if_split)
  note L = ready_sel(1) [OF R]
  have pg: "page k s1 = page k s" using on_okD [OF page_repay_return [OF ready_sel(4) [OF R]] one] by simp
  have R1: "ready k b s1" using R ready_page [OF pg] by simp
  have M: "moved (m, p) (reduced k r m, p')" by (rule moved_reduced [OF U(1) U(2) [unfolded pay] U(3)])
  have D1: "on_desk k s1 key (reduced k r m) p'" by (rule on_desk_moved [OF on_desk_page [OF pg D] M])
  have "repaid k b key r s1 t"
  proof (cases "mt_Custody (reduced k r m) \<le> 0")
    case True
    then have "r = dec_one" using c reduced_part [OF L, of r m] by (auto simp: closes_def)
    then have E: "own x (reduced k r m) = 0" for x using reduced_all [OF L] by simp
    have "DestroyMTP k (reduced k r m) s1 = Inr s2" using W True by auto
    from close_desk [OF L ready_sel(2,3) [OF R1] D1 E this t] show ?thesis using R1 by (simp add: repaid_def turned_def ready_def)
  next
    case False
    then obtain h where "SetMTP k ((reduced k r m)\<lparr>mt_MtpHealth := h\<rparr>) s1 = Inr (s2, m')" using W by auto
    from save_desk [OF L ready_sel(2) [OF R1] on_desk_moved [OF D1] this t] have "turned k b key s1 t"
      using R1 by (simp add: turned_def ready_def)
    moreover have "r \<noteq> dec_one" using False reduced_all [OF L, of Custody m] by auto
    ultimately show ?thesis by (simp add: repaid_def)
  qed
  then show ?thesis using turned_page [OF R pg] turned_trans unfolding repaid_def by blast
qed

lemma turn_EstimateAndRepay:
  assumes R: "ready k b s" and D: "on_desk k s key m p" and c: "r = dec_one \<or> 0 < mt_Custody m"
    and S: "EstimateAndRepay k ctx (m, p, a) r s = Inr (t, d, out)"
  shows "repaid k b key r s t"
proof -
  obtain est pay price fees bc m' p' a' fees' where r: "0 < r" "r \<le> dec_one"
    and pay: "CalcRepayAmount k s m a r = Inr (est, pay, price)"
    and W: "perp_Repay k ctx (m, p, a) (CalcReturnAmount k m (ve_Amount est) r) pay r fees (ve_Amount est)
        (track_fees k ctx (am_PoolId a) fees s) = Inr (t, (m', p', a'), fees')"
    using S by (auto simp: EstimateAndRepay_def Let_def not_le split: if_splits option.splits)
  have pg: "page k (track_fees k ctx (am_PoolId a) fees s) = page k s" by (rule page_track [OF ready_sel(4) [OF R]])
  have "pay = DTruncateInt (vk_dec k) (r * mt_Liabilities m)"
    using pay by (auto simp: CalcRepayAmount_def Let_def split: if_splits)
  moreover have "closes k r m" using r c by (auto simp: closes_def)
  moreover have "ready k b (track_fees k ctx (am_PoolId a) fees s)" using R ready_page [OF pg] by simp
  ultimately have "repaid k b key r (track_fees k ctx (am_PoolId a) fees s) t"
    using turn_Repay [OF _ on_desk_page [OF pg D] _ _ W] by blast
  then show ?thesis using turned_page [OF R pg] turned_trans unfolding repaid_def by blast
qed

lemma hook_page:
  "ready k b t \<Longrightarrow> AfterPositionClosed_hook k a p x r i t = Inr u \<Longrightarrow> page k u = page k t"
  "ready k b t \<Longrightarrow> AfterPositionModified_hook k a p x t = Inr u \<Longrightarrow> page k u = page k t"
  using on_okD [OF page_hooks(1)] on_okD [OF page_hooks(2)] ready_sel(4) by blast+

lemma turn_closed_hook:
  "turned k b key s t \<Longrightarrow> AfterPositionClosed_hook k a p x r i t = Inr u \<Longrightarrow> turned k b key s u"
  "turned k b key s t \<Longrightarrow> AfterPositionModified_hook k a p x t = Inr u \<Longrightarrow> turned k b key s u"
  using hook_page turned_ready turned_then by metis+

lemma turn_ForceClose:
  assumes "ready k b s" "on_desk k s key m p" "ForceClose k ctx (m, p, a) s = Inr (t, d, out)"
  shows "turned k b key s t \<and> kv_get (vs_mtps (vstore k t)) key = None"
proof -
  obtain s1 m' p' a' x where E: "EstimateAndRepay k ctx (m, p, a) dec_one s = Inr (s1, (m', p', a'), out)"
    and H: "AfterPositionClosed_hook k a' p' x dec_one (mt_Id m') s1 = Inr t"
    using assms(3) by (auto simp: ForceClose_def)
  have R: "repaid k b key dec_one s s1" by (rule turn_EstimateAndRepay [OF assms(1,2) _ E]) simp
  then have "turned k b key s s1" "kv_get (vs_mtps (vstore k s1)) key = None" by (simp_all add: repaid_def)
  then show ?thesis using turn_closed_hook(1) [OF _ H] page_sel(1) [OF hook_page(1) [OF turned_ready H]] by metis
qed

section \<open>The checks before anything else\<close>

lemma health_custody: "GetMTPHealth k s m = Inr h \<Longrightarrow> 0 < h \<Longrightarrow> 0 < mt_Custody m"
  by (auto simp: GetMTPHealth_def split: if_splits)

lemma safety_nonneg: "perp_sheet k b s \<Longrightarrow> 0 \<le> pv_SafetyFactor (perp_GetParams k s)"
  by (auto simp: perp_sheet_def on_books_def safe_params_def perp_GetParams_def zero_perp_params_def split: option.splits)

text \<open>A position that the checks leave open is stored with its pool, and has custody.\<close>

definition left_open :: "'e vkeeper \<Rightarrow> 'e mstate \<Rightarrow> mtp_key \<Rightarrow> MTP \<Rightarrow> PerpPool \<Rightarrow> bool" where
  "left_open k t key m p \<longleftrightarrow> on_desk k t key m p \<and> kv_get (vs_mtps (vstore k t)) key = Some m \<and>
     perp_GetPool k t (mt_AmmPoolId m) = Some p \<and> 0 < mt_Custody m \<and>
     pv_SafetyFactor (perp_GetParams k t) < mt_MtpHealth m"

lemma turn_force_out:
  assumes "turned k b key s t" "on_desk k t key m p" "force_out k ctx (m, p, a) out t = Inr (u, d, out')"
  shows "turned k b key s u \<and> tr_close out' \<noteq> None \<and> kv_get (vs_mtps (vstore k u)) key = None"
proof -
  obtain c where "ForceClose k ctx (m, p, a) t = Inr (u, d, c)" and o: "out' = out\<lparr>tr_close := Some c\<rparr>"
    using assms(3) by (auto simp: force_out_def)
  from turn_ForceClose [OF turned_ready [OF assms(1)] assms(2) this(1)] show ?thesis
    using turned_trans [OF assms(1)] by (simp add: o)
qed

text \<open>What the checks leave: the state has turned, and the position is open or was closed.\<close>

definition checked ::
    "'e vkeeper \<Rightarrow> int \<Rightarrow> mtp_key \<Rightarrow> 'e mstate \<Rightarrow> MTP \<Rightarrow> 'e mstate \<times> desk \<times> trigger_out \<Rightarrow> bool" where
  "checked k b key s m r \<longleftrightarrow> (case r of (t, (m', p', a'), out) \<Rightarrow> turned k b key s t \<and>
     (tr_close out \<noteq> None \<longrightarrow> kv_get (vs_mtps (vstore k t)) key = None) \<and>
     (tr_close out = None \<longrightarrow> left_open k t key m' p' \<and> same_position m m' \<and> mt_Id m' = mt_Id m))"

lemma checked_force:
  assumes "turned k b key s t" "on_desk k t key m p"
  shows "on_ok (checked k b key s n) (force_out k ctx (m, p, a) out t)"
proof (rule on_okI)
  fix r assume F: "force_out k ctx (m, p, a) out t = Inr r"
  obtain u d o' where r: "r = (u, d, o')" by (cases r)
  show "checked k b key s n r" using turn_force_out [OF assms F [unfolded r]] by (cases d) (auto simp: checked_def r)
qed

lemma checked_health:
  assumes T: "turned k b key s s1" and D: "on_desk k s1 key m p" and o: "tr_close out = None"
    and same: "same_position n m" "mt_Id m = mt_Id n"
  shows "on_ok (checked k b key s n) (check_health k ctx (m, p, a) out s1)"
proof (rule on_okI)
  fix r assume S: "check_health k ctx (m, p, a) out s1 = Inr r"
  note R = turned_ready [OF T]
  obtain h s2 m1 where h: "GetMTPHealth k s1 m = Inr h" and W: "SetMTP k (m\<lparr>mt_MtpHealth := h\<rparr>) s1 = Inr (s2, m1)"
    and r: "(if h \<le> pv_SafetyFactor (perp_GetParams k (perp_SetPool k p s2)) then force_out k ctx (m1, p, a) out (perp_SetPool k p s2)
      else Inr (perp_SetPool k p s2, (m1, p, a), out)) = Inr r"
    using S unfolding check_health_def Let_def prod.case by (auto split del: if_split)
  note V = save_desk [OF ready_sel(1,2) [OF R] on_desk_moved [OF D moved_fields(3)] W refl]
  have T1: "turned k b key s (perp_SetPool k p s2)"
    using T V(1,3) R only_at_trans unfolding turned_def ready_def by blast
  show "checked k b key s n r"
  proof (cases "h \<le> pv_SafetyFactor (perp_GetParams k (perp_SetPool k p s2))")
    case True
    have D1: "on_desk k (perp_SetPool k p s2) key m1 p" using V(2,4) by simp
    show ?thesis using on_okD [OF checked_force [OF T1 D1]] r True by simp
  next
    case False
    then have r: "r = (perp_SetPool k p s2, (m1, p, a), out)" using r by simp
    have "0 < h" using False safety_nonneg [OF ready_sel(2) [OF turned_ready [OF T1]]] by simp
    then have "0 < mt_Custody m1" using health_custody [OF h] by (simp add: V(2))
    then have "left_open k (perp_SetPool k p s2) key m1 p" using V False by (simp add: left_open_def)
    moreover have "same_position n m1 \<and> mt_Id m1 = mt_Id n"
      using same unfolding V(2) by (simp add: same_position_def own_asset_any [of "m\<lparr>mt_MtpHealth := h\<rparr>" m])
    ultimately show ?thesis using T1 by (simp add: checked_def r o)
  qed
qed

lemma checked_interest:
  assumes T: "turned k b key s s1" and D: "on_desk k s1 key m p" and o: "tr_close out = None"
    and same: "same_position n m" "mt_Id m = mt_Id n"
  shows "on_ok (checked k b key s n) (check_interest k ctx (m, p, a) out s1)"
  unfolding check_interest_def
proof (rule on_ok_rbind)
  fix x assume "SettleMTPBorrowInterestUnpaidLiability k (m, p, a) s1 = Inr x"
  moreover obtain s2 m1 p1 a1 i j paid where x: "x = (s2, (m1, p1, a1), i, j, paid)" by (cases x) auto
  ultimately have S: "SettleMTPBorrowInterestUnpaidLiability k (m, p, a) s1 = Inr (s2, (m1, p1, a1), i, j, paid)" by simp
  note J = turn_SettleInterest [OF ready_sel(4) [OF turned_ready [OF T]] S]
  have T1: "turned k b key s s2" using turned_then [OF T] J by simp
  have D1: "on_desk k s2 key m1 p1" using on_desk_moved [OF on_desk_page [OF _ D]] J by simp
  have "moved (m, p) (m1, p1)" using J by simp
  then have "same_position n m1" "mt_Id m1 = mt_Id n" using same by (simp_all add: moved_def same_position_def)
  then show "on_ok (checked k b key s n) (case x of (s1, d1, interestAmt, insuranceAmt, interestFullyPaid) \<Rightarrow>
     let out1 = out\<lparr>tr_interestAmt := interestAmt, tr_insuranceAmt := insuranceAmt, tr_allInterestsPaid := interestFullyPaid\<rparr> in
     if interestFullyPaid then check_health k ctx d1 out1 s1 else force_out k ctx d1 out1 s1)"
    using checked_health [OF T1 D1] checked_force [OF T1 D1] o by (simp add: x Let_def)
qed

lemma turn_Trigger:
  assumes R: "ready k b s" and D: "on_desk k s key m p"
  shows "on_ok (checked k b key s m) (MTPTriggerChecksAndUpdates k ctx (m, p, a) s)"
  unfolding MTPTriggerChecksAndUpdates_def prod.case
proof (rule on_ok_rbind, rule on_ok_rbind)
  fix m1 x assume I: "UpdateMTPBorrowInterestUnpaidLiability k ctx s m = Inr m1" and "SettleFunding k ctx m1 p s = Inr x"
  moreover obtain s1 m2 p1 full f d where x: "x = (s1, m2, p1, full, f, d)" by (cases x) auto
  ultimately have F: "SettleFunding k ctx m1 p s = Inr (s1, m2, p1, full, f, d)" by simp
  have M1: "moved (m, p) (m1, p)" by (rule on_okD [OF moved_interest I])
  have D1: "on_desk k s key m1 p" by (rule on_desk_moved [OF D M1])
  note T1 = turn_SettleFunding [OF R D1 F]
  obtain m3 n r s' where U: "UpdateFundingFee k ctx s m1 p = Inr (m3, p1, full, n, r)" and W: "SetMTP k m3 s = Inr (s', m2)"
    using F by (auto simp: SettleFunding_def)
  have "m2 = m3" by (rule save_desk(2) [OF ready_sel(1,2) [OF R] on_desk_moved [OF D1 moved_UpdateFundingFee [OF U]] W refl])
  then have "moved (m, p) (m2, p1)" using moved_trans [OF M1 moved_UpdateFundingFee [OF U]] by simp
  then have "same_position m m2" "mt_Id m2 = mt_Id m" by (simp_all add: moved_def)
  then show "on_ok (checked k b key s m) (case x of (s1, mtp2, pool1, fundingFeeFullyPaid, fundingFeeAmt, fundingAmtDistributed) \<Rightarrow>
      let out = \<lparr>tr_close = None, tr_fundingFeeAmt = fundingFeeAmt, tr_fundingAmtDistributed = fundingAmtDistributed,
                 tr_interestAmt = 0, tr_insuranceAmt = 0, tr_allInterestsPaid = fundingFeeFullyPaid\<rparr> in
      if fundingFeeFullyPaid then check_interest k ctx (mtp2, pool1, a) out s1
      else force_out k ctx (mtp2, pool1, a) out s1)"
    using checked_interest [OF T1(1,2)] checked_force [OF T1(1,2)] by (simp add: x Let_def)
qed

text \<open>
  The messages of the perpetual module keep the books, and a message of an account changes the
  positions of that account only.
\<close>

section \<open>The positions of an account\<close>

definition key_owner :: "mtp_key \<Rightarrow> addr" where
  "key_owner key = fst (snd key)"

lemma key_owner_GetMTPKey [simp]: "key_owner (GetMTPKey a i n) = a"
  by (simp add: key_owner_def GetMTPKey_def)

definition only_of :: "'e vkeeper \<Rightarrow> addr \<Rightarrow> 'e mstate \<Rightarrow> 'e mstate \<Rightarrow> bool" where
  "only_of k a s t \<longleftrightarrow> base_denom k t = base_denom k s \<and> vs_params (vstore k t) = vs_params (vstore k s) \<and>
     (\<forall>key. key_owner key \<noteq> a \<longrightarrow> kv_get (vs_mtps (vstore k t)) key = kv_get (vs_mtps (vstore k s)) key) \<and>
     (\<forall>i p. perp_GetPool k s i = Some p \<longrightarrow> (\<exists>q. perp_GetPool k t i = Some q \<and> pool_denoms q = pool_denoms p))"

lemma only_of_trans: "only_of k a s t \<Longrightarrow> only_of k a t u \<Longrightarrow> only_of k a s u"
  unfolding only_of_def by metis

lemma only_of_at: "only_at k key s t \<Longrightarrow> key_owner key = a \<Longrightarrow> only_of k a s t"
  unfolding only_at_def only_of_def by metis

text \<open>A message of \<open>a\<close>: the books are kept, up to \<open>n\<close> new positions.\<close>

definition served :: "'e vkeeper \<Rightarrow> int \<Rightarrow> addr \<Rightarrow> 'e mstate \<Rightarrow> 'e mstate \<Rightarrow> bool" where
  "served k b a s t \<longleftrightarrow> ready k b t \<and> only_of k a s t"

lemma served_turned: "turned k b key s t \<Longrightarrow> key_owner key = a \<Longrightarrow> served k b a s t"
  unfolding turned_def served_def using only_of_at by blast

lemma served_trans: "served k b a s t \<Longrightarrow> served k b' a t u \<Longrightarrow> served k b' a s u"
  unfolding served_def using only_of_trans by blast

lemma served_page: "ready k b s \<Longrightarrow> page k t = page k s \<Longrightarrow> served k b a s t"
  unfolding served_def using ready_page [of k t s b] only_of_at [OF only_at_page [of k t s "GetMTPKey a 0 0"]] by simp

section \<open>Closing\<close>

lemma GetMTP_desk:
  assumes "GetMTP k s i a n = Inr m" "perp_GetPool k s (mt_AmmPoolId m) = Some p"
  shows "on_desk k s (GetMTPKey a i n) m p"
  using assms by (auto simp: GetMTP_def split: option.splits intro: on_desk_stored)

lemma MustAcc: "MustAccAddress S b = Inr a \<longleftrightarrow> AccAddressFromBech32 S b = Inr a"
  by (auto simp: MustAccAddress_def split: sum.splits)

lemma turn_ClosePosition:
  assumes R: "ready k b s" and S: "ClosePosition k ctx msg s = Inr (t, c)"
  obtains a where "MustAccAddress (vk_sdk k) (mc_Creator msg) = Inr a"
    "turned k b (GetMTPKey a (mc_PoolId msg) (mc_Id msg)) s t"
proof -
  obtain a m where acc: "MustAccAddress (vk_sdk k) (mc_Creator msg) = Inr a"
    and m: "GetMTP k s (mc_PoolId msg) a (mc_Id msg) = Inr m" using S by (auto simp: ClosePosition_def)
  obtain p where p: "perp_GetPool k s (mt_AmmPoolId m) = Some p"
    using S acc m by (cases "perp_GetPool k s (mt_AmmPoolId m)") (auto simp: ClosePosition_def)
  obtain ap where ap: "perp_GetAmmPool s (mt_AmmPoolId m) = Inr ap" using S acc m p by (auto simp: ClosePosition_def)
  obtain s1 m1 p1 a1 out where T: "MTPTriggerChecksAndUpdates k ctx (m, p, ap) s = Inr (s1, (m1, p1, a1), out)"
    using S acc m p ap by (auto simp: ClosePosition_def)
  have C: "checked k b (GetMTPKey a (mc_PoolId msg) (mc_Id msg)) s m (s1, (m1, p1, a1), out)"
    by (rule on_okD [OF turn_Trigger [OF R GetMTP_desk [OF m p]] T])
  have "turned k b (GetMTPKey a (mc_PoolId msg) (mc_Id msg)) s t"
  proof (cases "tr_close out")
    case (Some d)
    then have "s1 = t" using S acc m p ap T by (auto simp: ClosePosition_def)
    then show ?thesis using C by (simp add: checked_def)
  next
    case None
    then obtain r s2 m2 p2 a2 c where E: "EstimateAndRepay k ctx (m1, p1, a1) r s1 = Inr (s2, (m2, p2, a2), c)"
      and H: "AfterPositionClosed_hook k a2 p2 a r (mt_Id m2) s2 = Inr t"
      using S acc m p ap T by (auto simp: ClosePosition_def)
    have T1: "turned k b (GetMTPKey a (mc_PoolId msg) (mc_Id msg)) s s1"
      and L: "left_open k s1 (GetMTPKey a (mc_PoolId msg) (mc_Id msg)) m1 p1" using C None by (auto simp: checked_def)
    have "turned k b (GetMTPKey a (mc_PoolId msg) (mc_Id msg)) s1 s2"
      using turn_EstimateAndRepay [OF turned_ready [OF T1] _ _ E] L by (simp add: left_open_def repaid_def)
    from turn_closed_hook(1) [OF turned_trans [OF T1 this] H] show ?thesis .
  qed
  then show thesis by (rule that [OF acc])
qed

lemma serve_Close:
  assumes "ready k b s" "perp_Close k ctx msg s = Inr (t, x)"
  shows "\<exists>a. MustAccAddress (vk_sdk k) (mc_Creator msg) = Inr a \<and> served k b a s t"
proof -
  obtain c where "ClosePosition k ctx msg s = Inr (t, c)" using assms(2) by (auto simp: perp_Close_def)
  from turn_ClosePosition [OF assms(1) this] show ?thesis using served_turned by (metis key_owner_GetMTPKey)
qed

lemma recovered_Inr [simp]: "recovered m = Inr t \<longleftrightarrow> m = Inr t"
  by (auto simp: recovered_def split: sum.splits err.splits)

lemma turn_Liquidate:
  assumes R: "ready k b s" and D: "on_desk k s key m p" and S: "CheckAndLiquidatePosition k ctx (m, p, a) s = Inr t"
  shows "turned k b key s t \<and> kv_get (vs_mtps (vstore k t)) key = None"
proof -
  obtain s1 m1 p1 a1 out where T: "MTPTriggerChecksAndUpdates k ctx (m, p, a) s = Inr (s1, (m1, p1, a1), out)"
    and S1: "if tr_forceClosed out then s1 = t else \<exists>d c. ForceClose k ctx (m1, p1, a1) s1 = Inr (t, d, c)"
    using S unfolding CheckAndLiquidatePosition_def recovered_Inr by (auto split: if_split_asm)
  have C: "checked k b key s m (s1, (m1, p1, a1), out)" by (rule on_okD [OF turn_Trigger [OF R D] T])
  show ?thesis
  proof (cases "tr_close out")
    case (Some c)
    then show ?thesis using C S1 by (simp add: checked_def tr_forceClosed_def)
  next
    case None
    then obtain d c where F: "ForceClose k ctx (m1, p1, a1) s1 = Inr (t, d, c)" using S1 by (auto simp: tr_forceClosed_def)
    have T1: "turned k b key s s1" and L: "left_open k s1 key m1 p1" using C None by (auto simp: checked_def)
    have "turned k b key s1 t \<and> kv_get (vs_mtps (vstore k t)) key = None"
      using turn_ForceClose [OF turned_ready [OF T1] _ F] L by (simp add: left_open_def)
    with T1 show ?thesis using turned_trans by blast
  qed
qed

lemma ready_close_one:
  assumes R: "ready k b s" and S: "close_one k ctx val s = Inr t"
  shows "ready k b t"
proof -
  obtain a where acc: "MustAccAddress (vk_sdk k) (pq_Address val) = Inr a" using S by (auto simp: close_one_def)
  show ?thesis
  proof (cases "GetMTP k s (pq_PoolId val) a (pq_Id val)")
    case (Inl e)
    then show ?thesis using R S acc by (simp add: close_one_def)
  next
    case m: (Inr m)
    show ?thesis
    proof (cases "\<exists>p ap. perp_GetPool k s (mt_AmmPoolId m) = Some p \<and> perp_GetAmmPool s (mt_AmmPoolId m) = Inr ap \<and>
        CheckAndLiquidatePosition k ctx (m, p, ap) s = Inr t")
      case True
      then show ?thesis using turned_ready [OF conjunct1 [OF turn_Liquidate [OF R GetMTP_desk [OF m]]]] by blast
    next
      case False
      then have "t = s" using S acc m by (auto simp: close_one_def split: option.splits sum.splits err.splits)
      then show ?thesis using R by simp
    qed
  qed
qed

lemma ready_close_all: "ready k b s \<Longrightarrow> close_all k ctx vals s = Inr t \<Longrightarrow> ready k b t"
proof (induction vals arbitrary: s)
  case (Cons val vals)
  then obtain u where "close_one k ctx val s = Inr u" "close_all k ctx vals u = Inr t" by auto
  with Cons ready_close_one show ?case by blast
qed simp

lemma ready_ClosePositions:
  assumes "ready k b s" "ClosePositions k ctx msg s = Inr t"
  shows "ready k b t"
proof -
  obtain u v where "close_all k ctx (mp_Liquidate msg) s = Inr u" "close_all k ctx (mp_StopLoss msg) u = Inr v"
    "close_all k ctx (mp_TakeProfit msg) v = Inr t" using assms(2) by (auto simp: ClosePositions_def)
  with assms(1) show ?thesis using ready_close_all by blast
qed

section \<open>The two prices\<close>

lemma turn_settle_first:
  assumes R: "ready k b s" and S: "settle_first k ctx c i n s = Inr (t, (m, p, a), out, x)"
  shows "\<exists>acc. MustAccAddress (vk_sdk k) c = Inr acc \<and> turned k b (GetMTPKey acc i n) s t \<and>
    (\<not> tr_forceClosed out \<longrightarrow> left_open k t (GetMTPKey acc i n) m p)"
proof -
  obtain acc m0 p0 a0 where acc: "MustAccAddress (vk_sdk k) c = Inr acc" "GetMTP k s i acc n = Inr m0"
      "perp_GetPool k s (mt_AmmPoolId m0) = Some p0"
    and T: "MTPTriggerChecksAndUpdates k ctx (m0, p0, a0) s = Inr (t, (m, p, a), out)"
    using S by (auto simp: settle_first_def split: option.splits if_splits)
  have "checked k b (GetMTPKey acc i n) s m0 (t, (m, p, a), out)"
    by (rule on_okD [OF turn_Trigger [OF R GetMTP_desk [OF acc(2,3)]] T])
  then show ?thesis using acc(1) by (auto simp: checked_def tr_forceClosed_def)
qed

lemma turn_save:
  assumes T: "turned k b key s t" and L: "left_open k t key m p" and M: "moved (m, p) (m', p)" and S: "SetMTP k m' t = Inr (u, m1)"
  shows "turned k b key s u" "turned k b key s (perp_SetPool k p u)"
proof -
  note R = ready_sel(1,2) [OF turned_ready [OF T]]
  have D: "on_desk k t key m' p" by (rule on_desk_moved [OF _ M]) (use L in \<open>simp add: left_open_def\<close>)
  have p: "perp_GetPool k t (mt_AmmPoolId m') = Some p" using L M by (simp add: left_open_def moved_def same_position_def)
  show "turned k b key s u" using T save_alone(1,3) [OF R p D S] unfolding turned_def ready_def by (blast intro: only_at_trans)
  show "turned k b key s (perp_SetPool k p u)"
    using T save_desk(1,3) [OF R D S refl] unfolding turned_def ready_def by (blast intro: only_at_trans)
qed

lemma turn_UpdateStopLoss:
  assumes R: "ready k b s" and S: "UpdateStopLoss k ctx c n x i s = Inr t"
  shows "\<exists>acc. MustAccAddress (vk_sdk k) c = Inr acc \<and> turned k b (GetMTPKey acc i n) s t"
proof -
  obtain s1 m p a out y where F: "settle_first k ctx c i n s = Inr (s1, (m, p, a), out, y)"
    and S1: "tr_forceClosed out \<and> s1 = t \<or> \<not> tr_forceClosed out \<and> (\<exists>m1. SetMTP k (m\<lparr>mt_StopLossPrice := Some x\<rparr>) s1 = Inr (t, m1))"
    using S by (auto simp: UpdateStopLoss_def split: if_splits)
  from turn_settle_first [OF R F] obtain acc where acc: "MustAccAddress (vk_sdk k) c = Inr acc"
    and T: "turned k b (GetMTPKey acc i n) s s1" and L: "\<not> tr_forceClosed out \<longrightarrow> left_open k s1 (GetMTPKey acc i n) m p" by blast
  then show ?thesis using S1 turn_save(1) [OF T _ moved_fields(4)] by blast
qed

lemma turn_UpdateTakeProfitPrice:
  assumes R: "ready k b s" and S: "UpdateTakeProfitPrice k ctx c n x i s = Inr t"
  shows "\<exists>acc. MustAccAddress (vk_sdk k) c = Inr acc \<and> turned k b (GetMTPKey acc i n) s t"
proof -
  obtain s1 m p a out y where F: "settle_first k ctx c i n s = Inr (s1, (m, p, a), out, y)"
    and S1: "tr_forceClosed out \<and> s1 = t \<or> \<not> tr_forceClosed out \<and> (\<exists>m1 s2 o'. SetMTP k (m\<lparr>mt_TakeProfitPrice := Some x\<rparr>) s1 = Inr (s2, m1) \<and>
       AfterPositionModified_hook k a p o' (perp_SetPool k p s2) = Inr t)"
    using S by (auto simp: UpdateTakeProfitPrice_def Let_def split: if_splits)
  from turn_settle_first [OF R F] obtain acc where acc: "MustAccAddress (vk_sdk k) c = Inr acc"
    and T: "turned k b (GetMTPKey acc i n) s s1" and L: "\<not> tr_forceClosed out \<longrightarrow> left_open k s1 (GetMTPKey acc i n) m p" by blast
  then show ?thesis using S1 turn_closed_hook(2) [OF turn_save(2) [OF T _ moved_fields(5)]] by blast
qed

text \<open>
  Opening a position keeps the books of the perpetual module: borrowing books the new position in its
  pool, and a second position of the same side and collateral is merged into the first.
\<close>

section \<open>Borrowing\<close>

lemma if_Inl_result: "(if b then Inl e else m) = Inr x \<longleftrightarrow> \<not> b \<and> m = Inr x"
  by simp

lemma follows_strip: "strip q = strip p \<Longrightarrow> follows i p p' f \<Longrightarrow> follows i q p' f"
  unfolding follows_def by (metis strip_sel)

lemma book_follows:
  assumes "book_position m p = Inr p'"
  shows "follows (mt_AmmPoolId m) p p' (\<lambda>x. share (mt_AmmPoolId m) x m)"
proof -
  obtain p1 p2 where U: "UpdateCustody p (mt_CustodyAsset m) (mt_Custody m) True (mt_Position m) = Inr p1"
    "UpdateLiabilities p1 (mt_LiabilitiesAsset m) (mt_Liabilities m) True (mt_Position m) = Inr p2"
    "UpdateCollateral p2 (mt_CollateralAsset m) (mt_Collateral m) True (mt_Position m) = Inr p'"
    using assms by (auto simp: book_position_def)
  have B: "booked p p1 (Custody, mt_Position m = Position_LONG, mt_CustodyAsset m) (mt_Custody m)"
    "booked p1 p2 (Liability, mt_Position m = Position_LONG, mt_LiabilitiesAsset m) (mt_Liabilities m)"
    "booked p2 p' (Collateral, mt_Position m = Position_LONG, mt_CollateralAsset m) (mt_Collateral m)"
    using booked_Custody [OF U(1)] booked_Liabilities [OF U(2)] booked_Collateral [OF U(3)] by simp_all
  have "pool_total p' x = pool_total p x + share (mt_AmmPoolId m) x m" for x
  proof -
    obtain c l d where x: "x = (c, l, d)" by (cases x)
    show ?thesis using B by (cases c) (auto simp: booked_def share_def x)
  qed
  then show ?thesis using B by (simp add: follows_def booked_def)
qed

text \<open>What a step that opened a position has done.\<close>

definition opened ::
    "'e vkeeper \<Rightarrow> int \<Rightarrow> addr \<Rightarrow> mtp_key \<Rightarrow> MTP \<Rightarrow> 'e mstate \<Rightarrow> 'e mstate \<Rightarrow> MTP \<Rightarrow> PerpPool \<Rightarrow> bool" where
  "opened k b acc key m s t m' p' \<longleftrightarrow> perp_sheet k b t \<and> only_at k key s t \<and> key_owner key = acc \<and>
     kv_get (vs_mtps (vstore k s)) key = None \<and> kv_get (vs_mtps (vstore k t)) key = Some m' \<and>
     perp_GetPool k t (mt_AmmPoolId m) = Some p' \<and> same_position m m'"

lemma opened_page:
  assumes "page k s = page k r" "opened k b acc key m s t m' p'"
  shows "opened k b acc key m r t m' p'"
  using assms(2) only_at_trans [OF only_at_page [OF assms(1)]] page_sel(1) [OF assms(1)]
  unfolding opened_def by (simp del: split_paired_All)

definition asks_for :: "'e vkeeper \<Rightarrow> 'e mstate \<Rightarrow> MTP \<Rightarrow> PerpPool \<Rightarrow> bool" where
  "asks_for k s m p \<longleftrightarrow> (\<forall>d. base_denom k s = Some d \<longrightarrow> (\<exists>t. GetTradingAsset p d = Inr t \<and>
      GetCustodyAndLiabilitiesAsset (mt_Position m) t d = Inr (mt_CustodyAsset m, mt_LiabilitiesAsset m)))"

lemma open_Borrow:
  assumes L: "desk_laws k" and B: "perp_sheet k b s" and b: "b < 2 ^ 64 - 1" and id: "mt_Id m = 0"
    and p: "perp_GetPool k s (mt_AmmPoolId m) = Some p0" "strip p0 = strip p" and A: "asks_for k s m p"
    and acc: "GetAccountAddress (vk_sdk k) m = Inr acc"
    and S: "perp_Borrow k ctx n c (m, p, a) lev base s = Inr (t, (m', p', a'), fees)"
  shows "\<exists>key. opened k (b + 1) acc key m s t m' p'"
proof -
  obtain x h snd cs fe s2 a1 s3 w v u where
    two: "SendToAmmPool k snd a cs (track_fees k ctx (am_PoolId a) fe s) = Inr (s2, a1)"
    and three: "SendFeesToPoolRevenueAndTakerCollection k ctx snd (mt_Address m) w (mt_CollateralAsset m) a1 fe v s2 =
        Inr (s3, a', fees, u)"
    and four: "book_position (m\<lparr>mt_Collateral := n, mt_Liabilities := x, mt_Custody := c, mt_MtpHealth := h\<rparr>) p = Inr p'"
    and five: "SetMTP k (m\<lparr>mt_Collateral := n, mt_Liabilities := x, mt_Custody := c, mt_MtpHealth := h\<rparr>)
        (perp_SetPool k p' s3) = Inr (t, m')"
    using S unfolding perp_Borrow_def Let_def prod.case by (clarsimp simp: if_Inl_result split del: if_split)
  define m2 where "m2 = m\<lparr>mt_Collateral := n, mt_Liabilities := x, mt_Custody := c, mt_MtpHealth := h\<rparr>"
  have m2: "mt_AmmPoolId m2 = mt_AmmPoolId m" "mt_Id m2 = 0" "GetAccountAddress (vk_sdk k) m2 = Inr acc"
    "same_position m m2" "mt_Position m2 = mt_Position m" "mt_CustodyAsset m2 = mt_CustodyAsset m"
    "mt_LiabilitiesAsset m2 = mt_LiabilitiesAsset m"
    using id acc by (simp_all add: m2_def GetAccountAddress_def same_position_def own_asset_fields own_asset_any [of "_\<lparr>mt_MtpHealth := h\<rparr>"])
  define s1 where "s1 = track_fees k ctx (am_PoolId a) fe s"
  have s1: "page k s1 = page k s" unfolding s1_def by (rule page_track [OF sheet_calm [OF L B]])
  have s2: "page k s2 = page k s1"
    using on_okD [OF page_SendToAmmPool two [folded s1_def]] sheet_calm [OF L B] calm_page [OF s1] by simp
  have "page k s3 = page k s2"
    using on_okD [OF page_fees three] sheet_calm [OF L B] calm_page [OF s1] calm_page [OF s2] by simp
  then have pg: "page k s3 = page k s" using s1 s2 by simp
  then have B3: "perp_sheet k b s3" using B sheet_page by blast
  obtain q where q: "perp_GetPool k s3 (mt_AmmPoolId m2) = Some q" "strip q = strip p"
    using stored_page [OF pg p(1)] p(2) m2(1) by metis
  have F: "follows (mt_AmmPoolId m2) q p' (\<lambda>x. share (mt_AmmPoolId m2) x m2)"
    by (rule follows_strip [OF q(2) book_follows [OF four [folded m2_def]]])
  have A3: "\<exists>t. GetTradingAsset q d = Inr t \<and>
      GetCustodyAndLiabilitiesAsset (mt_Position m2) t d = Inr (mt_CustodyAsset m2, mt_LiabilitiesAsset m2)"
    if "base_denom k s3 = Some d" for d
  proof -
    have "base_denom k s = Some d" using that page_sel(4) [OF pg] by simp
    moreover have "GetTradingAsset q d = GetTradingAsset p d" using q(2) strip_sel(4) by metis
    ultimately show ?thesis using A m2 by (simp add: asks_for_def)
  qed
  obtain a where a: "GetAccountAddress (vk_sdk k) m2 = Inr a" "m' = m2\<lparr>mt_Id := counter_of (vstore k s3) (mt_AmmPoolId m2) + 1\<rparr>"
    "perp_sheet k (b + 1) t" "only_at k (GetMTPKey a (mt_AmmPoolId m2) (mt_Id m')) s3 t"
    "kv_get (vs_mtps (vstore k s3)) (GetMTPKey a (mt_AmmPoolId m2) (mt_Id m')) = None"
    "kv_get (vs_mtps (vstore k t)) (GetMTPKey a (mt_AmmPoolId m2) (mt_Id m')) = Some m'"
    "perp_GetPool k t (mt_AmmPoolId m2) = Some p'"
    by (rule open_desk [OF L B3 b m2(2) q(1) F A3 five [folded m2_def]])
  have "same_position m m'" using m2(4) by (simp add: a(2) same_position_def own_asset_any [of "m2\<lparr>mt_Id := _\<rparr>" m2])
  then have "opened k (b + 1) acc (GetMTPKey a (mt_AmmPoolId m2) (mt_Id m')) m s3 t m' p'"
    using a m2(1,3) by (simp add: opened_def)
  from opened_page [OF pg this] show ?thesis by blast
qed

text \<open>A step on the opened position that saves it keeps it opened.\<close>

lemma opened_save:
  assumes O: "opened k b acc key m s t m1 p1" and B: "perp_sheet k b u" and K: "only_at k key t u"
    and st: "kv_get (vs_mtps (vstore k u)) key = Some m2" "perp_GetPool k u (mt_AmmPoolId m) = Some p2"
    and sp: "same_position m1 m2"
  shows "opened k b acc key m s u m2 p2"
proof -
  have "only_at k key s u" using O K only_at_trans unfolding opened_def by blast
  moreover have "same_position m m2" using O sp by (simp add: opened_def same_position_def)
  ultimately show ?thesis using O B st by (simp add: opened_def)
qed

lemma page_open_custody:
  assumes "calm k s"
  shows "on_ok (\<lambda>r. same_page k s (fst r)) (open_custody k ctx m a msg n base s)"
  unfolding open_custody_def Let_def
  by (cases "mo_Position msg"; simp split del: if_split)
    (intro on_ok_if on_ok_rbind; simp add: page_track [OF assms])+

lemma open_ProcessOpen:
  assumes L: "desk_laws k" and B: "perp_sheet k b s" and b: "b < 2 ^ 64 - 1" and id: "mt_Id m = 0"
    and p: "perp_GetPool k s (mt_AmmPoolId m) = Some p" and A: "asks_for k s m p"
    and acc: "GetAccountAddress (vk_sdk k) m = Inr acc"
    and S: "ProcessOpen k ctx (m, p, a) lev msg base s = Inr (t, (m', p', a'), fees)"
  shows "\<exists>key. opened k (b + 1) acc key m s t m' p'"
proof -
  obtain s1 c f s2 m1 p1 f1 s3 h v m2 n where
    one: "open_custody k ctx m a msg n base s = Inr (s1, c, f)"
    and two: "perp_Borrow k ctx (Amount (mo_Collateral msg)) c (m, p, a) lev base s1 = Inr (s2, (m1, p1, a'), f1)"
    and three: "UpdatePoolHealth k p1 s2 = Inr (s3, p')"
    and four: "GetAndSetOpenPrice k s3 (m1\<lparr>mt_MtpHealth := h, mt_StopLossPrice := Some v\<rparr>) (mo_Leverage msg = 0) = Inr m2"
    and five: "SetMTP k m2 s3 = Inr (t, m')"
    using S unfolding ProcessOpen_def Let_def prod.case by (clarsimp simp: if_Inl_result split del: if_split)
  have s1: "page k s1 = page k s" using on_okD [OF page_open_custody [OF sheet_calm [OF L B]] one] by simp
  then have B1: "perp_sheet k b s1" using B sheet_page by blast
  obtain q where q: "perp_GetPool k s1 (mt_AmmPoolId m) = Some q" "strip q = strip p" using stored_page [OF s1 p] .
  moreover have "asks_for k s1 m p" using A page_sel(4) [OF s1] by (simp add: asks_for_def)
  ultimately obtain key where "opened k (b + 1) acc key m s1 s2 m1 p1" using open_Borrow [OF L B1 b id _ _ _ acc two] by blast
  then have O: "opened k (b + 1) acc key m s s2 m1 p1" by (rule opened_page [OF s1])
  then have O': "perp_sheet k (b + 1) s2" "kv_get (vs_mtps (vstore k s2)) key = Some m1" "perp_GetPool k s2 (mt_AmmPoolId m1) = Some p1"
    "mt_AmmPoolId m1 = mt_AmmPoolId m" by (simp_all add: opened_def same_position_def)
  note C2 = sheet_calm [OF L O'(1)]
  have i: "pl_AmmPoolId p1 = mt_AmmPoolId m1" using calm_sel(4) [OF C2 O'(3)] .
  note H = health_page [OF C2 O'(3) [folded i] refl three]
  have B3: "perp_sheet k (b + 1) s3" using O'(1) sheet_page [OF H(1)] by simp
  have M: "moved (m1, p') (m2, p')"
    by (rule moved_trans [OF moved_trans [OF moved_fields(3) moved_fields(4)] on_okD [OF moved_OpenPrice four]])
  have K: "only_at k key s2 s3" by (rule only_at_page [OF H(1)])
  have "on_desk k s3 key m1 p'"
    by (rule on_desk_stored) (use O'(2) page_sel(1) [OF H(1)] H(3) i in simp_all)
  then have D: "on_desk k s3 key m2 p'" by (rule on_desk_moved [OF _ M])
  have sp: "same_position m1 m2" using M by (simp add: moved_def)
  then have "perp_GetPool k s3 (mt_AmmPoolId m2) = Some p'" using H(3) i by (simp add: same_position_def)
  note V = save_alone [OF L B3 this D five]
  show ?thesis
    using opened_save [OF O V(1) only_at_trans [OF K V(3)] _ _ sp [folded V(2)]] V(2,5,6) sp O'(4)
    by (auto simp: same_position_def simp del: split_paired_Ex)
qed

section \<open>Merging\<close>

lemma consolidated_own:
  assumes "consolidated_price k (m\<lparr>mt_Collateral := mt_Collateral m + mt_Collateral n, mt_Custody := mt_Custody m + mt_Custody n,
      mt_Liabilities := mt_Liabilities m + mt_Liabilities n\<rparr>) n = Inr m3"
    and "e = (if 0 < x then m3\<lparr>mt_TakeProfitPrice := Some x\<rparr> else m3)\<lparr>mt_MtpHealth := h, mt_StopLossPrice := v\<rparr>"
  shows "same_position m e \<and> mt_Id e = mt_Id m \<and> (\<forall>c. own c e = own c m + own c n)"
proof -
  obtain q where m3: "m3 = m\<lparr>mt_Collateral := mt_Collateral m + mt_Collateral n, mt_Custody := mt_Custody m + mt_Custody n,
      mt_Liabilities := mt_Liabilities m + mt_Liabilities n, mt_OpenPrice := q\<rparr>"
    using assms(1) by (cases m) (auto simp: consolidated_price_def split: if_splits)
  have "own_asset c e = own_asset c m" "own c e = own c m + own c n" for c by (cases c; simp add: assms(2) m3)+
  then show ?thesis by (simp add: same_position_def assms(2) m3)
qed

text \<open>Two positions of a pool, a side and a collateral have the same assets.\<close>

lemma same_assets:
  assumes B: "perp_sheet k b s" and d: "base_denom k s = Some d" and p: "perp_GetPool k s (mt_AmmPoolId m) = Some p"
    and st: "kv_get (vs_mtps (vstore k s)) key = Some m" "kv_get (vs_mtps (vstore k s)) key' = Some n"
    and same: "mt_AmmPoolId n = mt_AmmPoolId m" "mt_Position n = mt_Position m" "mt_CollateralAsset n = mt_CollateralAsset m"
  shows "own_asset c n = own_asset c m"
proof -
  have M: "matched (vstore k s) (base_denom k s)" using B by (simp add: perp_sheet_def on_books_def)
  have "mt_CustodyAsset n = mt_CustodyAsset m \<and> mt_LiabilitiesAsset n = mt_LiabilitiesAsset m"
    using matchedD [OF M st(1) _ d, of p] matchedD [OF M st(2) _ d, of p] p same by (auto simp: perp_GetPool_def)
  then show ?thesis using same(3) by (cases c) simp_all
qed

lemma serve_Consolidate:
  assumes R: "ready k b s" and e: "kv_get (vs_mtps (vstore k s)) key = Some e" and n: "kv_get (vs_mtps (vstore k s)) key' = Some n"
    and owner: "key_owner key = acc" "key_owner key' = acc" "key' \<noteq> key" and d: "base_denom k s = Some d"
    and same: "mt_AmmPoolId n = mt_AmmPoolId e" "mt_Position n = mt_Position e" "mt_CollateralAsset n = mt_CollateralAsset e"
    and S: "OpenConsolidate k ctx e n msg ta fees s = Inr (t, i)"
  shows "served k b acc s t"
proof -
  obtain a where a: "perp_GetAmmPool s (mt_AmmPoolId e) = Inr a" using S by (auto simp: OpenConsolidate_def)
  obtain p where p: "perp_GetPool k s (mt_AmmPoolId e) = Some p"
    using S a by (cases "perp_GetPool k s (mt_AmmPoolId e)") (auto simp: OpenConsolidate_def)
  obtain s1 m1 p1 a1 out where T: "MTPTriggerChecksAndUpdates k ctx (e, p, a) s = Inr (s1, (m1, p1, a1), out)"
    using S a p by (auto simp: OpenConsolidate_def)
  have C: "checked k b key s e (s1, (m1, p1, a1), out)"
    by (rule on_okD [OF turn_Trigger [OF R on_desk_stored [OF e p]] T])
  then have T1: "turned k b key s s1" by (simp add: checked_def)
  show ?thesis
  proof (cases "tr_forceClosed out")
    case True
    then have "t = s1" using S a p T by (auto simp: OpenConsolidate_def)
    then show ?thesis using served_turned [OF T1 owner(1)] by simp
  next
    case False
    then have L: "left_open k s1 key m1 p1" "same_position e m1" "mt_Id m1 = mt_Id e"
      using C by (simp_all add: checked_def tr_forceClosed_def)
    obtain s2 m3 x h v s3 m6 acc' where
      one: "DestroyMTP k n s1 = Inr s2"
      and two: "consolidated_price k (m1\<lparr>mt_Collateral := mt_Collateral m1 + mt_Collateral n,
          mt_Custody := mt_Custody m1 + mt_Custody n, mt_Liabilities := mt_Liabilities m1 + mt_Liabilities n\<rparr>) n = Inr m3"
      and three: "SetMTP k ((if 0 < x then m3\<lparr>mt_TakeProfitPrice := Some x\<rparr> else m3)\<lparr>mt_MtpHealth := h, mt_StopLossPrice := Some v\<rparr>) s2
          = Inr (s3, m6)"
      and four: "AfterPositionModified_hook k a1 p1 acc' s3 = Inr t"
      using S False unfolding OpenConsolidate_def a rbind_Inr p option.case T Let_def prod.case OpenConsolidateMergeMtp_def
      by (clarsimp simp: if_Inl_result split del: if_split)
    define e' where "e' = (if 0 < x then m3\<lparr>mt_TakeProfitPrice := Some x\<rparr> else m3)\<lparr>mt_MtpHealth := h, mt_StopLossPrice := Some v\<rparr>"
    note E = consolidated_own [OF two e'_def]
    have st: "kv_get (vs_mtps (vstore k s1)) key = Some m1" "perp_GetPool k s1 (mt_AmmPoolId m1) = Some p1"
      using L by (simp_all add: left_open_def)
    have n1: "kv_get (vs_mtps (vstore k s1)) key' = Some n" "base_denom k s1 = Some d"
      using T1 n owner(3) d unfolding turned_def only_at_def by metis+
    have sm: "mt_AmmPoolId n = mt_AmmPoolId m1" "mt_Position n = mt_Position m1" "mt_CollateralAsset n = mt_CollateralAsset m1"
    proof -
      have "own_asset Collateral m1 = own_asset Collateral e" using L(2) unfolding same_position_def by blast
      then show "mt_AmmPoolId n = mt_AmmPoolId m1" "mt_Position n = mt_Position m1" "mt_CollateralAsset n = mt_CollateralAsset m1"
        using same L(2) by (simp_all add: same_position_def)
    qed
    have R1: "ready k b s1" using T1 by (rule turned_ready)
    note as = same_assets [OF ready_sel(2) [OF R1] n1(2) st(2) st(1) n1(1) sm]
    have own: "own c e' = own c m1 + own c n" for c using E by blast
    note M = merge_desk [OF ready_sel(1-3) [OF R1] st(1) n1(1) owner(3) conjunct1 [OF E] conjunct1 [OF conjunct2 [OF E]]
        sm(1,2) as own one three [folded e'_def]]
    have "ready k b s3" using M(1) R1 by (simp add: ready_def)
    moreover have "only_of k acc s1 s3" using M owner unfolding only_of_def perp_GetPool_def by metis
    ultimately have V: "served k b acc s1 s3" by (simp add: served_def)
    have "page k t = page k s3" using on_okD [OF page_hooks(2) four] ready_sel(4) \<open>ready k b s3\<close> by blast
    then have "served k b acc s3 t" by (rule served_page [OF \<open>ready k b s3\<close>])
    then show ?thesis using served_turned [OF T1 owner(1)] V served_trans by blast
  qed
qed

section \<open>Open\<close>

lemma existing_position:
  assumes B: "perp_sheet k b s" and S: "GetExistingPosition k s msg = Inr (Some e)"
  obtains acc key where "MustAccAddress (vk_sdk k) (mo_Creator msg) = Inr acc" "kv_get (vs_mtps (vstore k s)) key = Some e"
    "key_owner key = acc" "mt_AmmPoolId e = mo_PoolId msg" "mt_Position e = mo_Position msg"
    "mt_CollateralAsset e = Denom (mo_Collateral msg)"
proof -
  obtain acc where acc: "MustAccAddress (vk_sdk k) (mo_Creator msg) = Inr acc"
    and f: "find (\<lambda>m. mt_Position m = mo_Position msg \<and> mt_CollateralAsset m = Denom (mo_Collateral msg))
        (GetAllMTPsForAddressAndByPool k s acc (mo_PoolId msg)) = Some e" using S by (auto simp: GetExistingPosition_def)
  then have e: "e \<in> set (GetAllMTPsForAddressAndByPool k s acc (mo_PoolId msg))" "mt_Position e = mo_Position msg"
    "mt_CollateralAsset e = Denom (mo_Collateral msg)" by (auto simp: find_Some_iff)
  then obtain n i where m: "((n, acc, mo_PoolId msg, i), e) \<in> set (vs_mtps (vstore k s))"
    by (auto simp: GetAllMTPsForAddressAndByPool_def)
  have "kv_ok (vs_mtps (vstore k s))" using B by (simp add: perp_sheet_def on_books_def tidy_def)
  then have k: "kv_get (vs_mtps (vstore k s)) (n, acc, mo_PoolId msg, i) = Some e" using m by (simp add: kv_get_mem)
  moreover have "mt_AmmPoolId e = mo_PoolId msg"
    using fits_stored [OF B [unfolded perp_sheet_def] k] by (auto simp: fits_def GetMTPKey_def)
  ultimately show thesis using that [OF acc k] e by (simp add: key_owner_def)
qed

text \<open>Reading the counter of a pool may store it.\<close>

lemma vs_counters_set: "vs_counters_update f v = v\<lparr>vs_counters := f (vs_counters v)\<rparr>"
  by (cases v) simp

lemma counter_page:
  assumes L: "desk_laws k" and B: "perp_sheet k b s" and S: "GetPerpetualCounter k i s = (t, c)"
  shows "perp_sheet k b t" "vs_mtps (vstore k t) = vs_mtps (vstore k s)" "vs_pools (vstore k t) = vs_pools (vstore k s)"
    "vs_params (vstore k t) = vs_params (vstore k s)" "base_denom k t = base_denom k s"
proof -
  have "t = s \<or> kv_get (vs_counters (vstore k s)) i = None \<and>
      t = with_vstore k (vs_counters_update (kv_set i \<lparr>pc_AmmPoolId = i, pc_Counter = 0, pc_TotalOpen = 0\<rparr>)) s"
    using S by (auto simp: GetPerpetualCounter_def Let_def split: option.splits)
  then show "perp_sheet k b t" "vs_mtps (vstore k t) = vs_mtps (vstore k s)" "vs_pools (vstore k t) = vs_pools (vstore k s)"
    "vs_params (vstore k t) = vs_params (vstore k s)" "base_denom k t = base_denom k s"
    using B books_counter_read [OF B [unfolded perp_sheet_def], of i] by (auto simp: with_simps [OF L] perp_sheet_def vs_counters_set [of "kv_set i _"])
qed

lemma admitted:
  assumes R: "ready k b s" and S: "admit_open k msg e s = Inr (t, msg')"
  shows "ready k b t" "\<And>key. only_at k key s t" "vs_mtps (vstore k t) = vs_mtps (vstore k s)"
    "vs_pools (vstore k t) = vs_pools (vstore k s)" "\<exists>x. msg' = msg\<lparr>mo_TakeProfitPrice := x\<rparr>"
proof -
  have "t = s \<or> (\<exists>i c. GetPerpetualCounter k i s = (t, c))"
    using S by (auto simp: admit_open_def CheckMaxOpenPositions_def Let_def split: option.splits if_splits prod.splits)
  then show "ready k b t" "only_at k key s t" "vs_mtps (vstore k t) = vs_mtps (vstore k s)"
    "vs_pools (vstore k t) = vs_pools (vstore k s)" for key
    using R counter_page [OF ready_sel(1,2) [OF R]] by (auto simp: ready_def only_at_def perp_GetPool_def)
  show "\<exists>x. msg' = msg\<lparr>mo_TakeProfitPrice := x\<rparr>" using S
    by (auto simp: admit_open_def split: option.splits if_splits intro: exI [of _ "mo_TakeProfitPrice msg"])
qed

lemma opened_served:
  "ready k b s \<Longrightarrow> b + 1 < 2 ^ 64 \<Longrightarrow> opened k (b + 1) acc key m s t m' p' \<Longrightarrow> served k (b + 1) acc s t \<and> ready k (b + 1) t"
  using only_of_at unfolding opened_def served_def ready_def by blast

lemma serve_Open:
  assumes R: "ready k b s" and b: "b + 1 < 2 ^ 64" and S: "perp_Open k ctx msg s = Inr (t, i)"
  shows "\<exists>acc. MustAccAddress (vk_sdk k) (mo_Creator msg) = Inr acc \<and> served k (b + 1) acc s t"
proof -
  obtain en where en: "GetBaseCurreny k s = Some en" using S by (auto simp: perp_Open_def split: option.splits)
  obtain p where p: "perp_GetPool k s (mo_PoolId msg) = Some p"
    using S en by (cases "perp_GetPool k s (mo_PoolId msg)") (auto simp: perp_Open_def)
  obtain ta ex s1 msg1 ca la a s2 m1 p1 a1 fees lev where
    ta: "GetTradingAsset p (en_Denom en) = Inr ta" and ex: "GetExistingPosition k s msg = Inr ex"
    and one: "admit_open k msg ex s = Inr (s1, msg1)"
    and as: "GetCustodyAndLiabilitiesAsset (mo_Position msg1) ta (en_Denom en) = Inr (ca, la)"
    and two: "ProcessOpen k ctx (NewMTP ctx (mo_Creator msg1) (Denom (mo_Collateral msg1)) ta la ca (mo_Position msg1)
        (mo_TakeProfitPrice msg1) (mo_PoolId msg1), p, a) lev msg1 (en_Denom en) s1 = Inr (s2, (m1, p1, a1), fees)"
    and three: "(case ex of
       Some existing \<Rightarrow> OpenConsolidate k ctx existing m1 msg1 ta fees s2
     | None \<Rightarrow>
         rbind (CheckLowPoolHealthAndMinimumCustody k s2 (mo_PoolId msg1) True) (\<lambda>_.
         rbind (perp_GetDenomPrice k s2 ta) (\<lambda>denomPrice.
         if GetMTPValue (vk_big k) m1 denomPrice < pv_MinimumNotionalValue (perp_GetParams k s)
         then Inl (Plain ''not enough notional value for the mtp'')
         else
         rbind (MustAccAddress (vk_sdk k) (mo_Creator msg1)) (\<lambda>creator.
         rbind (AfterPositionOpen_hook k a1 p1 creator s2) (\<lambda>s3.
         rbind (GetPerpFeesInUSD k s3 fees) (\<lambda>_. Inr (s3, mt_Id m1))))))) = Inr (t, i)"
    using S unfolding perp_Open_def en p option.case Let_def
    by (clarsimp simp: if_Inl_result split del: if_split)
  obtain x where msg1: "msg1 = msg\<lparr>mo_TakeProfitPrice := x\<rparr>" using admitted(5) [OF R one] by blast
  obtain acc where acc: "MustAccAddress (vk_sdk k) (mo_Creator msg) = Inr acc" using ex by (auto simp: GetExistingPosition_def)
  define m where "m = NewMTP ctx (mo_Creator msg1) (Denom (mo_Collateral msg1)) ta la ca (mo_Position msg1)
      (mo_TakeProfitPrice msg1) (mo_PoolId msg1)"
  have m: "mt_Id m = 0" "mt_AmmPoolId m = mo_PoolId msg" "mt_Position m = mo_Position msg" "mt_CustodyAsset m = ca"
    "mt_LiabilitiesAsset m = la" "mt_CollateralAsset m = Denom (mo_Collateral msg)" "GetAccountAddress (vk_sdk k) m = Inr acc"
    using acc by (simp_all add: m_def NewMTP_def msg1 GetAccountAddress_def)
  note R1 = admitted(1) [OF R one]
  have d: "base_denom k s1 = Some (en_Denom en)"
    using admitted(2) [OF R one] en by (simp add: only_at_def base_denom_def)
  have p1: "perp_GetPool k s1 (mt_AmmPoolId m) = Some p" using p admitted(4) [OF R one] by (simp add: perp_GetPool_def m)
  have A: "asks_for k s1 m p" using ta as by (simp add: asks_for_def d m msg1)
  obtain key where O: "opened k (b + 1) acc key m s1 s2 m1 p1"
    using open_ProcessOpen [OF ready_sel(1,2) [OF R1] _ m(1) p1 A m(7) two [folded m_def]] b by auto
  have V: "served k b acc s s1" "served k (b + 1) acc s1 s2" and R2: "ready k (b + 1) s2"
    using served_turned [of k b "GetMTPKey acc 0 0" s s1 acc] R1 admitted(2) [OF R one] opened_served [OF R1 b O]
    by (simp_all add: turned_def)
  have "served k (b + 1) acc s2 t"
  proof (cases ex)
    case None
    then obtain creator where "AfterPositionOpen_hook k a1 p1 creator s2 = Inr t"
      using three by (auto simp: if_Inl_result)
    then have "page k t = page k s2" using on_okD [OF page_hooks(3)] ready_sel(4) [OF R2] by blast
    then show ?thesis by (rule served_page [OF R2])
  next
    case (Some e)
    obtain acc' key' where e: "MustAccAddress (vk_sdk k) (mo_Creator msg) = Inr acc'" "kv_get (vs_mtps (vstore k s)) key' = Some e"
      "key_owner key' = acc'" "mt_AmmPoolId e = mo_PoolId msg" "mt_Position e = mo_Position msg"
      "mt_CollateralAsset e = Denom (mo_Collateral msg)"
      using existing_position [OF ready_sel(2) [OF R] ex [unfolded Some]] .
    have e1: "kv_get (vs_mtps (vstore k s1)) key' = Some e" using e(2) admitted(3) [OF R one] by simp
    then have ne: "key \<noteq> key'" using O unfolding opened_def by auto
    have e2: "kv_get (vs_mtps (vstore k s2)) key' = Some e" "base_denom k s2 = Some (en_Denom en)"
      using O e1 ne d unfolding opened_def only_at_def by metis+
    have sm: "same_position m m1" "kv_get (vs_mtps (vstore k s2)) key = Some m1" "key_owner key = acc" using O by (simp_all add: opened_def)
    have "own_asset Collateral m1 = own_asset Collateral m" using sm(1) unfolding same_position_def by blast
    then have sm': "mt_AmmPoolId m1 = mt_AmmPoolId e" "mt_Position m1 = mt_Position e" "mt_CollateralAsset m1 = mt_CollateralAsset e"
      using sm(1) m e by (simp_all add: same_position_def)
    show ?thesis
      by (rule serve_Consolidate [OF R2 e2(1) sm(2) _ sm(3) ne e2(2) sm']) (use e(1,3) acc three Some in simp_all)
  qed
  then show ?thesis using acc V served_trans by blast
qed

section \<open>Adding collateral\<close>

lemma turn_reduce:
  assumes T: "turned k b key s t" and L: "left_open k t key m p"
    and S: "reduce_liabilities k creator den n (m, p, a) t = Inr (u, (m', p', a'))"
  shows "turned k b key s u"
proof -
  obtain p1 cs s1 s2 where
    one: "UpdateLiabilities p (mt_LiabilitiesAsset m) n False (mt_Position m) = Inr p1"
    and two: "UpdateCollateral p1 (mt_CollateralAsset m) n True (mt_Position m) = Inr p'"
    and three: "SendToAmmPool k creator a cs t = Inr (s1, a')"
    and four: "SetMTP k (m\<lparr>mt_Liabilities := mt_Liabilities m - n, mt_Collateral := mt_Collateral m + n\<rparr>) s1 = Inr (s2, m')"
    and u: "u = perp_SetPool k p' s2"
    using S unfolding reduce_liabilities_def prod.case by clarsimp
  have "moved (m, p) (m\<lparr>mt_Liabilities := mt_Liabilities m - n\<rparr>, p1)"
    by (rule moved_booked [where c = Liability], use booked_Liabilities [OF one] in simp)
      (simp_all add: same_fields own_custody)
  moreover have "moved (m\<lparr>mt_Liabilities := mt_Liabilities m - n\<rparr>, p1)
      (m\<lparr>mt_Liabilities := mt_Liabilities m - n, mt_Collateral := mt_Collateral m + n\<rparr>, p')"
    by (rule moved_booked [where c = Collateral], use booked_Collateral [OF two] in simp)
      (simp_all add: same_fields own_custody)
  ultimately have M: "moved (m, p) (m\<lparr>mt_Liabilities := mt_Liabilities m - n, mt_Collateral := mt_Collateral m + n\<rparr>, p')"
    by (rule moved_trans)
  note R = turned_ready [OF T]
  have pg: "page k s1 = page k t" using on_okD [OF page_SendToAmmPool [OF ready_sel(4) [OF R]] three] by simp
  note T1 = turned_then [OF T pg]
  have "on_desk k s1 key (m\<lparr>mt_Liabilities := mt_Liabilities m - n, mt_Collateral := mt_Collateral m + n\<rparr>) p'"
    by (rule on_desk_moved [OF on_desk_page [OF pg] M]) (use L in \<open>simp add: left_open_def\<close>)
  from save_desk(1,3) [OF ready_sel(1,2) [OF turned_ready [OF T1]] this four u]
  have "turned k b key s1 u" using turned_ready [OF T1] by (simp add: turned_def ready_def)
  with T1 show ?thesis by (rule turned_trans)
qed

lemma counted_mono: "counted b v \<Longrightarrow> counted (b + 1) v"
  unfolding counted_def by (meson add_increasing2 zero_le_one order_trans le_add_same_cancel1)

lemma ready_mono: "ready k b s \<Longrightarrow> b + 1 < 2 ^ 64 \<Longrightarrow> ready k (b + 1) s"
  using counted_mono unfolding ready_def perp_sheet_def on_books_def by blast

lemma served_mono: "served k b a s t \<Longrightarrow> b + 1 < 2 ^ 64 \<Longrightarrow> served k (b + 1) a s t"
  unfolding served_def using ready_mono by blast

lemma serve_AddCollateral:
  assumes R: "ready k b s" and b: "b + 1 < 2 ^ 64" and S: "AddCollateral k ctx c i coin n s = Inr t"
  shows "\<exists>acc. MustAccAddress (vk_sdk k) c = Inr acc \<and> served k (b + 1) acc s t"
proof -
  obtain acc m where acc: "AccAddressFromBech32 (vk_sdk k) c = Inr acc" and m: "GetMTP k s n acc i = Inr m"
    using S by (auto simp: AddCollateral_def)
  obtain en where en: "GetBaseCurreny k s = Some en"
    using S acc m by (cases "GetBaseCurreny k s") (auto simp: AddCollateral_def)
  have acc': "MustAccAddress (vk_sdk k) c = Inr acc" using acc by (simp add: MustAcc)
  show ?thesis
  proof (cases "mt_Position m = Position_LONG \<and> mt_CollateralAsset m = en_Denom en")
    case False
    have "\<exists>x. perp_Open k ctx \<lparr>mo_Creator = c, mo_Position = mt_Position m, mo_Leverage = 0, mo_Collateral = coin,
        mo_TakeProfitPrice = Some 0, mo_StopLossPrice = Some 0, mo_PoolId = mt_AmmPoolId m\<rparr> s = Inr (t, x)"
      using S acc m en False by (auto simp: AddCollateral_def Let_def perp_msg_Open_def if_Inl_result split del: if_split)
    then show ?thesis using serve_Open [OF R b] by fastforce
  next
    case True
    have den: "Denom coin = mt_CollateralAsset m" "Denom coin = mt_LiabilitiesAsset m"
      using S acc m en True unfolding AddCollateral_def
      by (auto simp: if_Inl_result split del: if_split)
    obtain p where p: "perp_GetPool k s (mt_AmmPoolId m) = Some p"
      using S acc m en True den by (cases "perp_GetPool k s (mt_AmmPoolId m)") (auto simp: AddCollateral_def)
    obtain a where a: "perp_GetAmmPool s (mt_AmmPoolId m) = Inr a"
      using S acc m en True den p by (auto simp: AddCollateral_def)
    obtain s1 m1 p1 a1 out where T: "MTPTriggerChecksAndUpdates k ctx (m, p, a) s = Inr (s1, (m1, p1, a1), out)"
      using S acc m en True den p a by (auto simp: AddCollateral_def)
    have C: "checked k b (GetMTPKey acc n i) s m (s1, (m1, p1, a1), out)"
      by (rule on_okD [OF turn_Trigger [OF R GetMTP_desk [OF m p]] T])
    then have T1: "turned k b (GetMTPKey acc n i) s s1" by (simp add: checked_def)
    have "turned k b (GetMTPKey acc n i) s t"
    proof (cases "tr_forceClosed out")
      case closed: True
      then have "s1 = t" using S acc m en True den p a T by (auto simp: AddCollateral_def)
      then show ?thesis using T1 by simp
    next
      case False
      then have L: "left_open k s1 (GetMTPKey acc n i) m1 p1" using C by (simp add: checked_def tr_forceClosed_def)
      obtain d x s2 m2 p2 a2 where "reduce_liabilities k acc d x (m1, p1, a1) s1 = Inr (s2, (m2, p2, a2))"
        and H: "AfterPositionModified_hook k a2 p2 acc s2 = Inr t"
        using S acc m en True den p a T False by (auto simp: AddCollateral_def Let_def if_Inl_result split del: if_split)
      from turn_closed_hook(2) [OF turn_reduce [OF T1 L this(1)] H] show ?thesis .
    qed
    from served_mono [OF served_turned [OF this key_owner_GetMTPKey] b] acc' show ?thesis by blast
  qed
qed

end
