(* ===== verification/PerpProps.thy ===== *)
theory PerpProps
  imports PerpTurns AmmExample
begin

text \<open>
  The properties of the perpetual module. Housekeeping keeps the books: the rates of a block, the hooks of
  the amm and of leveragelp, the messages of the authority. Then all calls are one step function, whose runs
  keep the books, and the properties follow, with their witnesses on a concrete keeper.
\<close>

section \<open>The rates of a block\<close>

lemma page_rates:
  assumes "desk_laws k"
  shows "page k (SetBorrowRate k h i x s) = page k s" "page k (SetFundingRate k h i y s) = page k s"
  unfolding SetBorrowRate_def SetFundingRate_def Let_def by (rule page_with [OF assms]; simp add: bare_def)+

lemma GetPool_rates:
  assumes "desk_laws k"
  shows "perp_GetPool k (SetBorrowRate k h i x s) j = perp_GetPool k s j"
    "perp_GetPool k (SetFundingRate k h i y s) j = perp_GetPool k s j"
  by (simp_all add: SetBorrowRate_def SetFundingRate_def Let_def perp_GetPool_def with_simps [OF assms])

lemma stored_SetPool:
  "desk_laws k \<Longrightarrow> perp_GetPool k (perp_SetPool k p s) j = (if j = pl_AmmPoolId p then Some p else perp_GetPool k s j)"
  by (simp add: perp_GetPool_def perp_SetPool_def with_simps kv_get_set)

text \<open>What a block does to a pool: its totals stay, and its interest rate is what was computed.\<close>

lemma begin_pool_keeps:
  assumes C: "calm k s" and p: "perp_GetPool k s (pl_AmmPoolId p) = Some p0" "strip p0 = strip p"
    and S: "begin_pool k ctx p s = Inr t"
  shows "page k t = page k s \<and> (\<forall>j. j \<noteq> pl_AmmPoolId p \<longrightarrow> perp_GetPool k t j = perp_GetPool k s j) \<and>
    (t = s \<or> (\<exists>q. perp_GetPool k t (pl_AmmPoolId p) = Some q \<and> BorrowInterestRateComputation k s p = Inr (pl_BorrowInterestRate q)))"
proof (cases "BorrowInterestRateComputation k s p")
  case (Inl e)
  then have "t = s" using S by (cases e) (simp_all add: begin_pool_def)
  then show ?thesis by simp
next
  case (Inr rate)
  note L = calm_sel(1) [OF C]
  define p1 where "p1 = p\<lparr>pl_BorrowInterestRate := rate, pl_LastHeightBorrowInterestRateComputed := BlockHeight ctx\<rparr>"
  define s1 where "s1 = SetBorrowRate k (u64 (BlockHeight ctx)) (pl_AmmPoolId p)
      \<lparr>pi_InterestRate = rate, pi_BlockHeight = BlockHeight ctx, pi_BlockTime = Unix (BlockTime ctx)\<rparr> s"
  obtain s2 p2 x y s3 where
    one: "(case UpdatePoolHealth k p1 s1 of Inl (Panic w) \<Rightarrow> Inl (Panic w) | Inl e \<Rightarrow> Inr (s1, p1) | Inr r \<Rightarrow> Inr r) = Inr (s2, p2)"
    and two: "funding_block k ctx (p2\<lparr>pl_FundingRate := if x = 0 then - y else x\<rparr>) x y s2 = Inr s3"
    and t: "t = perp_SetPool k (p2\<lparr>pl_FundingRate := if x = 0 then - y else x\<rparr>) s3"
    using S unfolding begin_pool_def Inr sum.case Let_def p1_def s1_def by (clarsimp split del: if_split)
  have i1: "pl_AmmPoolId p1 = pl_AmmPoolId p" "strip p1 = strip p" "pl_BorrowInterestRate p1 = rate" by (simp_all add: p1_def strip_def)
  have pg1: "page k s1 = page k s" unfolding s1_def by (rule page_rates(1) [OF L])
  have C1: "calm k s1" using C calm_page [OF pg1] by simp
  have p1s: "perp_GetPool k s1 (pl_AmmPoolId p1) = Some p0" "\<And>j. perp_GetPool k s1 j = perp_GetPool k s j"
    using p(1) by (simp_all add: s1_def GetPool_rates [OF L] i1)
  have H: "page k s2 = page k s1 \<and> strip p2 = strip p1 \<and> pl_AmmPoolId p2 = pl_AmmPoolId p1 \<and>
      pl_BorrowInterestRate p2 = rate \<and> (\<forall>j. j \<noteq> pl_AmmPoolId p \<longrightarrow> perp_GetPool k s2 j = perp_GetPool k s j)"
  proof (cases "UpdatePoolHealth k p1 s1")
    case (Inl e)
    then show ?thesis using one p1s(2) i1 by (cases e) simp_all
  next
    case r: (Inr r)
    then have U: "UpdatePoolHealth k p1 s1 = Inr (s2, p2)" using one by simp
    obtain a c where "p2 = p1\<lparr>pl_BaseAssetLiabilitiesRatio := a, pl_QuoteAssetLiabilitiesRatio := c\<rparr>" "s2 = perp_SetPool k p2 s1"
      using U by (auto simp: UpdatePoolHealth_def Let_def split: option.splits)
    then show ?thesis using health_page [OF C1 p1s(1) _ U] p(2) i1 p1s(2) by (simp add: stored_SetPool [OF L])
  qed
  define p3 where "p3 = p2\<lparr>pl_FundingRate := if x = 0 then - y else x\<rparr>"
  have i3: "pl_AmmPoolId p3 = pl_AmmPoolId p" "strip p3 = strip p" "pl_BorrowInterestRate p3 = rate"
    using H i1 by (simp_all add: p3_def strip_def)
  have pg2: "page k s2 = page k s" using H pg1 by simp
  obtain z where s3: "s3 = SetFundingRate k (u64 (BlockHeight ctx)) (pl_AmmPoolId p3) z s2"
    using two by (auto simp: funding_block_def Let_def p3_def)
  have pg3: "page k s3 = page k s" using page_rates(2) [OF L] pg2 by (simp add: s3)
  have C3: "calm k s3" using C calm_page [OF pg3] by simp
  obtain q where q: "perp_GetPool k s3 (pl_AmmPoolId p) = Some q" "strip q = strip p" using stored_page [OF pg3 p(1)] p(2) by metis
  have "page k t = page k s3" unfolding t p3_def [symmetric]
    by (rule page_SetPool [OF C3, of p3 q]) (use q i3 in simp_all)
  moreover have "perp_GetPool k t j = perp_GetPool k s j" if "j \<noteq> pl_AmmPoolId p" for j
    using that H by (simp add: t p3_def [symmetric] stored_SetPool [OF L] i3 s3 GetPool_rates [OF L])
  moreover have "perp_GetPool k t (pl_AmmPoolId p) = Some p3"
    by (simp add: t p3_def [symmetric] stored_SetPool [OF L] i3)
  ultimately show ?thesis using pg3 Inr i3 by auto
qed

definition current :: "'e vkeeper \<Rightarrow> 'e mstate \<Rightarrow> PerpPool \<Rightarrow> bool" where
  "current k s p \<longleftrightarrow> (\<exists>p0. perp_GetPool k s (pl_AmmPoolId p) = Some p0 \<and> strip p0 = strip p)"

lemma current_page: "page k t = page k s \<Longrightarrow> current k s p \<Longrightarrow> current k t p"
  unfolding current_def by (metis stored_page)

lemma begin_pools_keep:
  assumes "calm k s" "\<forall>p\<in>set ps. current k s p" "begin_pools k ctx ps s = Inr t"
  shows "page k t = page k s \<and> (\<forall>i q. perp_GetPool k t i = Some q \<longrightarrow> perp_GetPool k s i = Some q \<or>
    (\<exists>u p. page k u = page k s \<and> BorrowInterestRateComputation k u p = Inr (pl_BorrowInterestRate q)))"
  using assms
proof (induction ps arbitrary: s)
  case (Cons p ps)
  obtain u where u: "begin_pool k ctx p s = Inr u" "begin_pools k ctx ps u = Inr t" using Cons.prems(3) by auto
  obtain p0 where "perp_GetPool k s (pl_AmmPoolId p) = Some p0" "strip p0 = strip p"
    using Cons.prems(2) by (auto simp: current_def)
  note K = begin_pool_keeps [OF Cons.prems(1) this u(1)]
  have pg: "page k u = page k s" using K by blast
  have "calm k u" "\<forall>p\<in>set ps. current k u p"
    using Cons.prems(1,2) calm_page [OF pg] current_page [OF pg] by auto
  from Cons.IH [OF this u(2)] have IH: "page k t = page k s" "\<And>i q. perp_GetPool k t i = Some q \<Longrightarrow>
      perp_GetPool k u i = Some q \<or> (\<exists>v p. page k v = page k s \<and> BorrowInterestRateComputation k v p = Inr (pl_BorrowInterestRate q))"
    using pg by simp_all
  show ?case using IH K by (metis option.inject)
qed simp

lemma all_current:
  assumes "calm k s"
  shows "\<forall>p\<in>set (perp_GetAllPools k s). current k s p"
proof
  fix p assume "p \<in> set (perp_GetAllPools k s)"
  then obtain i where "(i, p) \<in> set (vs_pools (vstore k s))" by (auto simp: perp_GetAllPools_def)
  then have g: "perp_GetPool k s i = Some p" using calm_sel(3) [OF assms] by (simp add: perp_GetPool_def kv_get_mem)
  then show "current k s p" using calm_sel(4) [OF assms g] by (simp add: current_def)
qed

lemmas begin_keeps = begin_pools_keep [OF _ all_current, folded perp_BeginBlocker_def]

lemma clamped: "lo \<le> hi \<Longrightarrow> lo \<le> clamp_rate lo hi r \<and> clamp_rate lo hi r \<le> hi"
  by (auto simp: clamp_rate_def)

lemma computed_rate:
  assumes "BorrowInterestRateComputation k s p = Inr r" "perp_GetParams k s = q"
    "pv_BorrowInterestRateMin q \<le> pv_BorrowInterestRateMax q"
  shows "pv_BorrowInterestRateMin q \<le> r \<and> r \<le> pv_BorrowInterestRateMax q"
  using assms by (auto simp: BorrowInterestRateComputation_def Let_def clamped split: option.splits)

section \<open>Pools of leveragelp\<close>

text \<open>A pool comes or goes at a time when no position is in it.\<close>

definition unused :: "'e vkeeper \<Rightarrow> int \<Rightarrow> 'e mstate \<Rightarrow> bool" where
  "unused k i s \<longleftrightarrow> (\<forall>m\<in>set (GetAllMTPs k s). mt_AmmPoolId m \<noteq> i)"

lemma unused_stored: "calm k s \<Longrightarrow> unused k i s \<Longrightarrow> kv_get (vs_mtps (vstore k s)) key = Some m \<Longrightarrow> mt_AmmPoolId m \<noteq> i"
  using calm_sel(2) by (fastforce simp: unused_def GetAllMTPs_def kv_get_mem)

lemma unused_share: "unused k i s \<Longrightarrow> kv_sum (share i x) (vs_mtps (vstore k s)) = 0"
  unfolding unused_def GetAllMTPs_def kv_sum_def
  by (induction "vs_mtps (vstore k s)" rule: list.induct) (auto simp: share_other sum_list_0 cong: map_cong)

lemma books_pools:
  assumes B: "on_books S b v base" and P: "kv_ok P"
    and Q: "\<And>j p. kv_get P j = Some p \<Longrightarrow> j \<noteq> i \<Longrightarrow> kv_get (vs_pools v) j = Some p"
    and I: "\<And>p. kv_get P i = Some p \<Longrightarrow> pl_AmmPoolId p = i \<and> (\<forall>x. pool_total p x = kv_sum (share i x) (vs_mtps v))"
    and U: "\<And>key m. kv_get (vs_mtps v) key = Some m \<Longrightarrow> mt_AmmPoolId m \<noteq> i"
  shows "on_books S b (v\<lparr>vs_pools := P\<rparr>) base"
proof -
  note T = B [unfolded on_books_def tidy_def]
  have "tidy (v\<lparr>vs_pools := P\<rparr>)" unfolding tidy_def
  proof (intro conjI allI impI; simp)
    show "kv_ok (vs_mtps v)" "kv_ok P" using T P by blast+
    show "pl_AmmPoolId p = j" if "kv_get P j = Some p" for j p
      using that I Q T by (cases "j = i") blast+
  qed
  moreover have "totals (v\<lparr>vs_pools := P\<rparr>)" unfolding totals_def
  proof (intro allI impI; simp)
    show "pool_total p x = kv_sum (share j x) (vs_mtps v)" if "kv_get P j = Some p" for j p x
      using that I Q T [unfolded totals_def] by (cases "j = i") blast+
  qed
  moreover have "matched (v\<lparr>vs_pools := P\<rparr>) base" unfolding matched_def
  proof (intro allI impI; elim conjE; simp del: split_paired_All)
    fix key m p d assume m: "kv_get (vs_mtps v) key = Some m" and p: "kv_get P (mt_AmmPoolId m) = Some p" and d: "base = Some d"
    have "matched v base" using T by blast
    from matchedD [OF this m Q [OF p U [OF m]] d]
    show "\<exists>t. GetTradingAsset p d = Inr t \<and>
        GetCustodyAndLiabilitiesAsset (mt_Position m) t d = Inr (mt_CustodyAsset m, mt_LiabilitiesAsset m)" .
  qed
  moreover have "counted b (v\<lparr>vs_pools := P\<rparr>)" by (rule counted_keep [OF books_counted [OF B]]) simp_all
  moreover have "keyed S (v\<lparr>vs_pools := P\<rparr>)" "safe_params (v\<lparr>vs_pools := P\<rparr>)"
    using T by (simp_all add: keyed_def safe_params_def del: split_paired_All)
  ultimately show ?thesis by (simp add: on_books_def)
qed

lemma NewPool_empty: "pool_total (perp_NewPool a n) x = 0" "pl_AmmPoolId (perp_NewPool a n) = am_PoolId a"
proof -
  have "sum_held c d (map perp_asset as) = 0" for c d as
    by (induction as) (cases c; simp add: sum_held_def perp_asset_def)+
  then show "pool_total (perp_NewPool a n) x = 0" by (cases x) (simp add: pool_total_def side_def perp_NewPool_def)
qed (simp add: perp_NewPool_def)

lemma sheet_EnablePool:
  assumes L: "desk_laws k" and B: "perp_sheet k b s" and U: "unused k (am_PoolId a) s" and S: "OnLeverageLpEnablePool k a s = Inr t"
  shows "perp_sheet k b t"
proof -
  note C = sheet_calm [OF L B]
  have t: "vstore k t = (vstore k s)\<lparr>vs_pools := kv_set (am_PoolId a) (perp_NewPool a (pv_LeverageMax (perp_GetParams k s))) (vs_pools (vstore k s))\<rparr>"
    "base_denom k t = base_denom k s"
    using S by (auto simp: OnLeverageLpEnablePool_def perp_SetPool_def with_simps [OF L] NewPool_empty)
  show ?thesis unfolding perp_sheet_def t
    by (rule books_pools [OF B [unfolded perp_sheet_def] _ _ _ unused_stored [OF C U]])
      (auto simp: kv_get_set kv_ok_set calm_sel(3) [OF C] NewPool_empty unused_share [OF U] split: if_splits)
qed

lemma sheet_DisablePool:
  assumes L: "desk_laws k" and B: "perp_sheet k b s" and U: "unused k (am_PoolId a) s" and S: "OnLeverageLpDisablePool k a s = Inr t"
  shows "perp_sheet k b t"
proof -
  note C = sheet_calm [OF L B]
  have t: "vstore k t = (vstore k s)\<lparr>vs_pools := kv_del (am_PoolId a) (vs_pools (vstore k s))\<rparr>" "base_denom k t = base_denom k s"
    using S by (auto simp: OnLeverageLpDisablePool_def perp_RemovePool_def with_simps [OF L])
  show ?thesis unfolding perp_sheet_def t
    by (rule books_pools [OF B [unfolded perp_sheet_def] _ _ _ unused_stored [OF C U]])
      (auto simp: kv_get_del kv_ok_del calm_sel(3) [OF C] split: if_splits)
qed

section \<open>Messages of the authority\<close>

lemma page_whitelist:
  assumes "desk_laws k"
  shows "page k (WhitelistAddress k a s) = page k s" "page k (DewhitelistAddress k a s) = page k s"
  unfolding WhitelistAddress_def DewhitelistAddress_def by (rule page_with [OF assms]; simp add: bare_def)+

lemma only_authority_Inr [simp]: "only_authority k a m = Inr t \<longleftrightarrow> a = vk_authority k \<and> m = Inr t"
  by (auto simp: only_authority_def)

lemma Validate_safe: "perp_Params_Validate q = Inr u \<Longrightarrow> 0 \<le> pv_SafetyFactor q"
  by (simp add: perp_Params_Validate_def Let_def split: if_split_asm)

lemma sheet_SetParams:
  assumes L: "desk_laws k" and B: "perp_sheet k b s" and S: "perp_SetParams k q s = Inr t"
  shows "perp_sheet k b t"
proof -
  have v: "vstore k t = (vstore k s)\<lparr>vs_params := Some q\<rparr>" "base_denom k t = base_denom k s" and q: "0 \<le> pv_SafetyFactor q"
    using S Validate_safe by (auto simp: perp_SetParams_def with_simps [OF L])
  have "counted b (vstore k t)" by (rule counted_keep [OF books_counted [OF B [unfolded perp_sheet_def]]]) (simp_all add: v)
  moreover have "counter_of (vstore k t) = counter_of (vstore k s)" by (simp add: counter_of_def v fun_eq_iff)
  moreover have "matched (vstore k t) (base_denom k s)"
    by (rule matched_mono [of "vstore k s"]) (use B in \<open>simp_all add: perp_sheet_def on_books_def v\<close>)
  ultimately show ?thesis using B q
    by (simp add: perp_sheet_def on_books_def tidy_def keyed_def totals_def safe_params_def v del: split_paired_All)
qed

lemma sheet_page_step: "perp_sheet k b s \<Longrightarrow> page k t = page k s \<Longrightarrow> perp_sheet k b t"
  using sheet_page by blast

lemma sheet_params_changed:
  assumes L: "desk_laws k" and h: "vk_hooks k = Some h"
  shows "perp_sheet k b s \<Longrightarrow> params_changed k h ps s = Inr t \<Longrightarrow> perp_sheet k b t"
proof (induction ps arbitrary: s)
  case (Cons p ps)
  obtain a u where u: "vh_AfterParamsChange h a p s = Inr u" "params_changed k h ps u = Inr t"
    using Cons.prems(2) by (auto split: option.splits)
  have "perp_hooks_keep k (\<lambda>t. page k t = page k s)"
    using calm_tidy [OF sheet_calm [OF L Cons.prems(1)]] hooks_apartD by blast
  then have "on_ok (same_page k s) (vh_AfterParamsChange h a p s)" using h unfolding perp_hooks_keep_def by blast
  then have "page k u = page k s" by (rule on_okD [OF _ u(1)])
  then show ?case using Cons.IH [OF sheet_page_step [OF Cons.prems(1)] u(2)] by simp
qed simp

lemma sheet_authority:
  assumes L: "desk_laws k" and B: "perp_sheet k b s"
  shows "perp_Whitelist k c a s = Inr t \<Longrightarrow> perp_sheet k b t"
    "perp_Dewhitelist k c a s = Inr t \<Longrightarrow> perp_sheet k b t"
    "UpdateEnabledPools k c xs ys s = Inr t \<Longrightarrow> perp_sheet k b t"
    "UpdateMaxLeverageForPool k c i n s = Inr t \<Longrightarrow> perp_sheet k b t"
    "perp_UpdateParams k c q s = Inr t \<Longrightarrow> perp_sheet k b t"
proof -
  note C = sheet_calm [OF L B]
  show "perp_Whitelist k c a s = Inr t \<Longrightarrow> perp_sheet k b t" "perp_Dewhitelist k c a s = Inr t \<Longrightarrow> perp_sheet k b t"
    using sheet_page_step [OF B] page_whitelist [OF L] by (auto simp: perp_Whitelist_def perp_Dewhitelist_def)
  show "UpdateEnabledPools k c xs ys s = Inr t \<Longrightarrow> perp_sheet k b t"
    using sheet_SetParams [OF L B] by (auto simp: UpdateEnabledPools_def Let_def)
  show "perp_sheet k b t" if S: "UpdateMaxLeverageForPool k c i n s = Inr t"
  proof -
    obtain p where p: "perp_GetPool k s i = Some p" and t: "t = perp_SetPool k (p\<lparr>pl_LeverageMax := n\<rparr>) s"
      using S by (auto simp: UpdateMaxLeverageForPool_def split: option.splits if_splits)
    have "perp_GetPool k s (pl_AmmPoolId (p\<lparr>pl_LeverageMax := n\<rparr>)) = Some p" using p calm_sel(4) [OF C p] by simp
    then have "page k t = page k s" unfolding t by (rule page_SetPool [OF C]) (simp add: strip_def)
    then show ?thesis by (rule sheet_page_step [OF B])
  qed
  show "perp_sheet k b t" if S: "perp_UpdateParams k c q s = Inr t"
  proof -
    obtain u where u: "perp_SetParams k q s = Inr u"
      and w: "(case vk_hooks k of None \<Rightarrow> Inr u | Some h \<Rightarrow> params_changed k h (perp_GetAllPools k u) u) = Inr t"
      using S by (auto simp: perp_UpdateParams_def)
    show ?thesis using sheet_SetParams [OF L B u] w sheet_params_changed [OF L] by (cases "vk_hooks k") auto
  qed
qed

text \<open>
  The calls of the perpetual module as one step function, and its books over any sequence of calls.
\<close>

section \<open>Calls\<close>

datatype perp_call =
    Call_Open block_ctx MsgOpen
  | Call_Close block_ctx MsgClose
  | Call_ClosePositions block_ctx MsgClosePositions
  | Call_AddCollateral block_ctx string int coin int
  | Call_UpdateStopLoss block_ctx string int int int
  | Call_UpdateTakeProfitPrice block_ctx string int int int
  | Call_Whitelist string string
  | Call_Dewhitelist string string
  | Call_UpdateEnabledPools string "int list" "int list"
  | Call_UpdateMaxLeverageForPool string int int
  | Call_UpdateParams string PerpParams
  | Call_BeginBlock block_ctx
  | Call_AmmChange amm_Pool
  | Call_LeveragePosition addr amm_Pool
  | Call_EnablePool amm_Pool
  | Call_DisablePool amm_Pool

text \<open>A pool comes with leveragelp enabling it and goes with leveragelp disabling it. Neither hook of this
  module asks whether positions are open in the pool; the hook of the accounted pool refuses to let it go
  while the positions hold balances. Here both happen only while no position is stored in the pool.\<close>

fun perp_handle :: "'e vkeeper \<Rightarrow> perp_call \<Rightarrow> 'e mstate \<Rightarrow> 'e mstate result" where
  "perp_handle k (Call_Open ctx msg) s = rbind (perp_msg_Open k ctx msg s) (\<lambda>r. Inr (fst r))"
| "perp_handle k (Call_Close ctx msg) s = rbind (perp_Close k ctx msg s) (\<lambda>r. Inr (fst r))"
| "perp_handle k (Call_ClosePositions ctx msg) s = ClosePositions k ctx msg s"
| "perp_handle k (Call_AddCollateral ctx w i c n) s = AddCollateral k ctx w i c n s"
| "perp_handle k (Call_UpdateStopLoss ctx w i x n) s = UpdateStopLoss k ctx w i x n s"
| "perp_handle k (Call_UpdateTakeProfitPrice ctx w i x n) s = UpdateTakeProfitPrice k ctx w i x n s"
| "perp_handle k (Call_Whitelist w a) s = perp_Whitelist k w a s"
| "perp_handle k (Call_Dewhitelist w a) s = perp_Dewhitelist k w a s"
| "perp_handle k (Call_UpdateEnabledPools w xs ys) s = UpdateEnabledPools k w xs ys s"
| "perp_handle k (Call_UpdateMaxLeverageForPool w i n) s = UpdateMaxLeverageForPool k w i n s"
| "perp_handle k (Call_UpdateParams w q) s = perp_UpdateParams k w q s"
| "perp_handle k (Call_BeginBlock ctx) s = perp_BeginBlocker k ctx s"
| "perp_handle k (Call_AmmChange a) s = after_amm_change k a s"
| "perp_handle k (Call_LeveragePosition w a) s = AfterLeverageLpPosition k w a s"
| "perp_handle k (Call_EnablePool a) s =
     (if unused k (am_PoolId a) s then OnLeverageLpEnablePool k a s else Inl (Plain ''positions are open''))"
| "perp_handle k (Call_DisablePool a) s =
     (if unused k (am_PoolId a) s then OnLeverageLpDisablePool k a s else Inl (Plain ''positions are open''))"

text \<open>The account whose positions a call may change: all of them for a liquidation, none for the rest.\<close>

fun caller :: "perp_call \<Rightarrow> string option" where
  "caller (Call_Open ctx msg) = Some (mo_Creator msg)"
| "caller (Call_Close ctx msg) = Some (mc_Creator msg)"
| "caller (Call_AddCollateral ctx w i c n) = Some w"
| "caller (Call_UpdateStopLoss ctx w i x n) = Some w"
| "caller (Call_UpdateTakeProfitPrice ctx w i x n) = Some w"
| "caller _ = None"

section \<open>A call keeps the books\<close>

lemma page_amm_change:
  assumes "calm k s"
  shows "on_ok (same_page k s) (after_amm_change k a s)" "on_ok (same_page k s) (AfterLeverageLpPosition k w a s)"
  using page_recheck [OF assms] unfolding after_amm_change_def AfterLeverageLpPosition_def
  by (auto intro!: on_ok_option)

lemma served_own: "turned k b (GetMTPKey a i n) s t \<Longrightarrow> served k b a s t"
  by (rule served_turned [OF _ key_owner_GetMTPKey])

lemma serve_prices:
  assumes "ready k b s"
  shows "UpdateStopLoss k ctx w i x n s = Inr t \<Longrightarrow> \<exists>acc. MustAccAddress (vk_sdk k) w = Inr acc \<and> served k b acc s t"
    "UpdateTakeProfitPrice k ctx w i x n s = Inr t \<Longrightarrow> \<exists>acc. MustAccAddress (vk_sdk k) w = Inr acc \<and> served k b acc s t"
  by (blast dest: turn_UpdateStopLoss [OF assms] turn_UpdateTakeProfitPrice [OF assms] intro: served_own)+

lemma serve_caller:
  assumes R: "ready k b s" and b: "b + 1 < 2 ^ 64" and w: "caller c = Some w" and S: "perp_handle k c s = Inr t"
  shows "\<exists>acc. MustAccAddress (vk_sdk k) w = Inr acc \<and> served k (b + 1) acc s t"
proof (cases c)
  case (Call_Open ctx msg)
  then obtain x where "perp_Open k ctx msg s = Inr (t, x)" using S by (auto simp: perp_msg_Open_def if_Inl_result split del: if_split)
  from serve_Open [OF R b this] show ?thesis using w Call_Open by simp
next
  case (Call_Close ctx msg)
  then obtain x where "perp_Close k ctx msg s = Inr (t, x)" using S by auto
  from serve_Close [OF R this] show ?thesis using served_mono [OF _ b] w Call_Close by auto
next
  case (Call_AddCollateral ctx w' i x n)
  then have "AddCollateral k ctx w i x n s = Inr t" using S w by simp
  from serve_AddCollateral [OF R b this] show ?thesis .
next
  case (Call_UpdateStopLoss ctx w' i x n)
  then have "UpdateStopLoss k ctx w i x n s = Inr t" using S w by simp
  from serve_prices(1) [OF R this] show ?thesis using served_mono [OF _ b] by blast
next
  case (Call_UpdateTakeProfitPrice ctx w' i x n)
  then have "UpdateTakeProfitPrice k ctx w i x n s = Inr t" using S w by simp
  from serve_prices(2) [OF R this] show ?thesis using served_mono [OF _ b] by blast
qed (use w in simp_all)

lemma sheet_mono: "perp_sheet k b s \<Longrightarrow> perp_sheet k (b + 1) s"
  using counted_mono unfolding perp_sheet_def on_books_def by blast

lemma sheet_handle:
  assumes L: "desk_laws k" and B: "perp_sheet k b s" and b: "b + 1 < 2 ^ 64" and S: "perp_handle k c s = Inr t"
  shows "perp_sheet k (b + 1) t"
proof (cases "caller c")
  case (Some w)
  have "ready k b s" using L B b by (simp add: ready_def)
  from serve_caller [OF this b Some S] show ?thesis by (auto simp: served_def ready_def)
next
  case None
  note C = sheet_calm [OF L B] and P = sheet_page_step [OF B]
  have "perp_sheet k b t"
  proof (cases c)
    case (Call_ClosePositions ctx msg)
    moreover have "ready k b s" using L B b by (simp add: ready_def)
    ultimately have "ready k b t" using ready_ClosePositions S by auto
    then show ?thesis by (rule ready_sel(2))
  next
    case (Call_BeginBlock ctx)
    then have "page k t = page k s" using begin_keeps [OF C C] S by simp
    then show ?thesis by (rule P)
  next
    case (Call_AmmChange a)
    then show ?thesis using P on_okD [OF page_amm_change(1) [OF C]] S by simp
  next
    case (Call_LeveragePosition w a)
    then show ?thesis using P on_okD [OF page_amm_change(2) [OF C]] S by simp
  next
    case (Call_EnablePool a)
    then show ?thesis using sheet_EnablePool [OF L B] S by (simp split: if_splits)
  next
    case (Call_DisablePool a)
    then show ?thesis using sheet_DisablePool [OF L B] S by (simp split: if_splits)
  qed (use S None sheet_authority [OF L B] in simp_all)
  then show ?thesis by (rule sheet_mono)
qed

interpretation perp: budget_step "perp_handle k" "\<lambda>c. True" "\<lambda>b s. desk_laws k \<and> perp_sheet k b s" "2 ^ 64 - 1"
  for k :: "'e vkeeper"
  by unfold_locales (auto intro: sheet_handle sheet_mono)

section \<open>The books in plain terms\<close>

lemma sum_in_pool: "kv_sum (in_pool i) m = int (length (filter (\<lambda>m. mt_AmmPoolId m = i) (map snd m)))"
  by (induction m) (auto simp: kv_sum_def in_pool_def)

lemma kv_sum_list: "kv_sum f m = sum_list (map f (map snd m))"
  by (induction m) (auto simp: kv_sum_def)

lemma sheet_totals:
  assumes "perp_sheet k b s"
  shows "perp_GetPool k s i = Some p \<Longrightarrow> pool_total p x = sum_list (map (share i x) (GetAllMTPs k s))"
    "kv_get (vs_counters (vstore k s)) i = Some c \<Longrightarrow>
       pc_TotalOpen c = int (length (filter (\<lambda>m. mt_AmmPoolId m = i) (GetAllMTPs k s)))"
proof -
  have T: "totals (vstore k s)" "counted b (vstore k s)" using assms by (simp_all add: perp_sheet_def on_books_def)
  show "perp_GetPool k s i = Some p \<Longrightarrow> pool_total p x = sum_list (map (share i x) (GetAllMTPs k s))"
    using T(1) unfolding totals_def perp_GetPool_def GetAllMTPs_def kv_sum_list [symmetric] by blast
  show "kv_get (vs_counters (vstore k s)) i = Some c \<Longrightarrow>
       pc_TotalOpen c = int (length (filter (\<lambda>m. mt_AmmPoolId m = i) (GetAllMTPs k s)))"
    using countedD(1) [OF T(2), of i] by (simp add: open_of_def sum_in_pool GetAllMTPs_def)
qed

text \<open>
  A concrete keeper, on which the witnesses are evaluated: the standard bank beside a perpetual store, the module's own hooks on the amm, one pool and one long position.
\<close>

section \<open>A concrete keeper\<close>

definition beside :: "('a \<Rightarrow> 'a result) \<Rightarrow> 'a \<times> 'b \<Rightarrow> ('a \<times> 'b) result" where
  "beside f e = rbind (f (fst e)) (\<lambda>x. Inr (x, snd e))"

definition pair_bank :: "(ledger \<times> perp_store) bank" where
  "pair_bank =
     \<lparr>BkMint = (\<lambda>m cs. beside (BkMint std_bank m cs)), BkBurn = (\<lambda>m cs. beside (BkBurn std_bank m cs)),
      BkModToAcc = (\<lambda>m a cs. beside (BkModToAcc std_bank m a cs)), BkAccToMod = (\<lambda>a m cs. beside (BkAccToMod std_bank a m cs)),
      BkModToMod = (\<lambda>m n cs. beside (BkModToMod std_bank m n cs)), BkSend = (\<lambda>a b cs. beside (BkSend std_bank a b cs)),
      BkBalance = (\<lambda>a d e. BkBalance std_bank a d (fst e)), BkAllBalances = (\<lambda>a e. BkAllBalances std_bank a (fst e)),
      BkSpendable = (\<lambda>a e. BkSpendable std_bank a (fst e))\<rparr>"

definition pair_mk :: "(ledger \<times> perp_store) mstate amm_hooks option \<Rightarrow> (ledger \<times> perp_store) mkeeper" where
  "pair_mk h =
     \<lparr>mk_authority = ''gov'', mk_hooks = h, mk_parameter = (\<lambda>e. (pr_DefaultParams std_sdk)\<lparr>pr_TakerFees := Some 0\<rparr>),
      mk_commitment = \<lparr>k_sdk = std_sdk, k_dec = std_dec, k_bank = pair_bank,
        k_GetEntry = (\<lambda>e d. Some (empty_entry\<lparr>en_Denom := ''b'', en_Decimals := 6, en_DisplayName := ''b''\<rparr>)),
        k_Delegate = (\<lambda>a v c e. Inr e), k_Undelegate = (\<lambda>a v c e. Inr e), k_IsVestingAccount = (\<lambda>e a. False),
        k_hooks = None, k_authority = ''gov''\<rparr>,
      mk_pow = std_pow, mk_AddressModule = (\<lambda>m ks. m @ concat ks), mk_GetAccount = (\<lambda>e a. None),
      mk_SetModuleAccount = (\<lambda>a n e. e), mk_SetDenomMetaData = (\<lambda>b d e. e), mk_GetDenomPrice = (\<lambda>e d. big_one),
      mk_GetAssetInfo = (\<lambda>e d. Some (d, 6)), mk_GetAssetPrice = (\<lambda>e d. Some dec_one),
      mk_GetPriceFeeder = (\<lambda>e a. None), mk_SetOraclePool = (\<lambda>i as e. e), mk_CurrencyPairProviders = (\<lambda>e. []),
      mk_SetCurrencyPairProviders = (\<lambda>ps e. e), mk_SetEntry = (\<lambda>en e. e),
      mk_GetEntryByDenom = (\<lambda>e d. Some (empty_entry\<lparr>en_Denom := d\<rparr>)), mk_GetAccountedBalance = (\<lambda>e i d. 0),
      mk_Discount = (\<lambda>e a. 0), mk_DenomsSubsetOf = (\<lambda>as bs. set (map Denom as) \<subseteq> set (map Denom bs)),
      mk_IsAllGTE = (\<lambda>as bs. True)\<rparr>"

definition ex_perp_hookless :: "(ledger \<times> perp_store) vkeeper" where
  "ex_perp_hookless = \<lparr>vk_amm = pair_mk None, vk_authority = ''gov'', vk_hooks = None, vk_get = snd, vk_put = (\<lambda>v e. (fst e, v))\<rparr>"

definition ex_perp :: "(ledger \<times> perp_store) vkeeper" where
  "ex_perp = ex_perp_hookless\<lparr>vk_amm := pair_mk (Some (perp_AmmHooks ex_perp_hookless))\<rparr>"

lemma ex_perp_apart:
  "lens_ok ex_perp_hookless" "lens_ok ex_perp" "bank_apart ex_perp_hookless" "bank_apart ex_perp"
  by (auto simp: lens_ok_def bank_apart_def ex_perp_def ex_perp_hookless_def pair_mk_def pair_bank_def beside_def)

lemma ex_perp_dec: "vk_dec ex_perp = std_dec" "vk_dec ex_perp_hookless = std_dec"
  by (simp_all add: ex_perp_def ex_perp_hookless_def pair_mk_def std_pow_sel)

lemma truncate_whole: "DTruncateInt std_dec (dec_one * n) = n"
  by (simp add: std_dec_def signed_divide_int_def abs_mult sgn_mult sgn_mult_abs)

lemma ex_hookless_laws: "desk_laws ex_perp_hookless"
  using ex_perp_apart
  by (simp add: desk_laws_def ex_perp_dec std_dec_laws truncate_whole hooks_apart_def hooks_keep_None perp_hooks_keep_def)
    (simp add: ex_perp_hookless_def pair_mk_def hooks_keep_None)

lemma ex_perp_page: "page ex_perp s = page ex_perp_hookless s"
  by (simp add: page_def vstore_def base_denom_def GetBaseCurreny_def ex_perp_def ex_perp_hookless_def pair_mk_def)

lemma ex_perp_laws: "desk_laws ex_perp"
proof -
  have "hooks_keep (vk_amm ex_perp) (\<lambda>s. page ex_perp s = b)" if "tidy (fst b)" for b
  proof -
    have "mk_hooks (vk_amm ex_perp) = Some (perp_AmmHooks ex_perp_hookless)" by (simp add: ex_perp_def pair_mk_def)
    then show ?thesis unfolding hooks_keep_def ex_perp_page
      using perp_AmmHooks_apart [OF ex_hookless_laws that] by simp
  qed
  moreover have "perp_hooks_keep ex_perp (\<lambda>s. page ex_perp s = b)" for b
    by (simp add: perp_hooks_keep_def ex_perp_def ex_perp_hookless_def)
  ultimately show ?thesis using ex_perp_apart
    by (simp add: desk_laws_def ex_perp_dec std_dec_laws truncate_whole hooks_apart_def)
qed

text \<open>A pool that holds a thousand of each asset, a long of alice with custody in \<open>a\<close> and liabilities in
  \<open>b\<close>, settled in the current block.\<close>

definition ex_perp_amm :: amm_Pool where
  "ex_perp_amm = ex_pool\<lparr>am_PoolAssets :=
     [\<lparr>pa_Token = \<lparr>Denom = ''a'', Amount = 1000\<rparr>, pa_Weight = 1, pa_ExternalLiquidityRatio = dec_one\<rparr>,
      \<lparr>pa_Token = \<lparr>Denom = ''b'', Amount = 1000\<rparr>, pa_Weight = 1, pa_ExternalLiquidityRatio = dec_one\<rparr>]\<rparr>"

definition ex_mtp :: MTP where
  "ex_mtp = (NewMTP ex_ctx ''alice'' ''b'' ''a'' ''b'' ''a'' Position_LONG (Some (2 * dec_one)) 1)\<lparr>
     mt_Collateral := 50, mt_Liabilities := 60, mt_Custody := 100, mt_Id := 1, mt_OpenPrice := dec_one\<rparr>"

definition ex_perp_pool :: PerpPool where
  "ex_perp_pool = (perp_NewPool ex_perp_amm (10 * dec_one))\<lparr>pl_PoolAssetsLong :=
     [\<lparr>pe_AssetDenom = ''a'', pe_Liabilities = 0, pe_Custody = 100, pe_Collateral = 0\<rparr>,
      \<lparr>pe_AssetDenom = ''b'', pe_Liabilities = 60, pe_Custody = 0, pe_Collateral = 50\<rparr>]\<rparr>"

definition ex_vstore :: perp_store where
  "ex_vstore =
     \<lparr>vs_params = Some (perp_DefaultParams\<lparr>pv_EnabledPools := [1]\<rparr>), vs_mtps = [(GetMTPKey ''alice'' 1 1, ex_mtp)],
      vs_counters = [(1, \<lparr>pc_AmmPoolId = 1, pc_Counter = 1, pc_TotalOpen = 1\<rparr>)], vs_whitelist = [],
      vs_pools = [(1, ex_perp_pool)], vs_rates = [], vs_fundings = []\<rparr>"

definition ex_desk :: "(ledger \<times> perp_store) mstate" where
  "ex_desk =
     \<lparr>mm_params = Some ex_params, mm_pools = [(1, ex_perp_amm)], mm_liquidity = [], mm_tracks = [], mm_fees = [],
      mm_last_index = None, mm_swaps_in = [], mm_swaps_out = [],
      mm_commit =
        \<lparr>cs_commitments = [], cs_params = Some DefaultParams, cs_supply = None, cs_atom = [], cs_nft = [],
         cs_cadet = [], cs_governor = [], cs_airdrop_claimed = [], cs_total_claimed = None,
         cs_kol = [], cs_reward = [], cs_total_reward = None,
         cs_ext = ([((''pool'', ''a''), 1000), ((''pool'', ''b''), 1000), ((''alice'', ''b''), 500)], ex_vstore)\<rparr>\<rparr>"

lemma ex_desk_store: "vstore ex_perp ex_desk = ex_vstore" "base_denom ex_perp ex_desk = Some ''b''" "vk_sdk ex_perp = std_sdk"
  by (simp_all add: vstore_def base_denom_def GetBaseCurreny_def ex_desk_def ex_perp_def ex_perp_hookless_def pair_mk_def)

lemma ex_sheet: "perp_sheet ex_perp 1 ex_desk"
proof -
  have "tidy ex_vstore" "keyed std_sdk ex_vstore" "counted 1 ex_vstore" "totals ex_vstore" "matched ex_vstore (Some ''b'')"
    "safe_params ex_vstore"
  proof -
    show "tidy ex_vstore" by (simp add: tidy_def ex_vstore_def kv_ok_def kv_get_def ex_perp_pool_def perp_NewPool_def ex_perp_amm_def ex_pool_def)
    show "keyed std_sdk ex_vstore"
      by (simp add: keyed_def ex_vstore_def kv_get_def counter_of_def ex_mtp_def NewMTP_def GetAccountAddress_def MustAccAddress_def)
    show "counted 1 ex_vstore"
      by (simp add: counted_def ex_vstore_def kv_get_def counter_of_def open_of_def kv_sum_def in_pool_def ex_mtp_def NewMTP_def)
    show "matched ex_vstore (Some ''b'')"
      by (simp add: matched_def ex_vstore_def kv_get_def ex_mtp_def NewMTP_def GetCustodyAndLiabilitiesAsset_def GetTradingAsset_def
          ex_perp_pool_def)
    show "safe_params ex_vstore" by (simp add: safe_params_def ex_vstore_def perp_DefaultParams_def)
    have "pool_total ex_perp_pool x = share 1 x ex_mtp" for x
    proof -
      obtain c l d where x: "x = (c, l, d)" by (cases x)
      show ?thesis by (cases c) (auto simp: x pool_total_def side_def sum_held_def share_def ex_perp_pool_def perp_NewPool_def
          ex_perp_amm_def ex_pool_def ex_mtp_def NewMTP_def perp_asset_def)
    qed
    then show "totals ex_vstore" by (simp add: totals_def ex_vstore_def kv_get_def kv_sum_def)
  qed
  then show ?thesis by (simp add: perp_sheet_def on_books_def ex_desk_store)
qed

section \<open>Properties\<close>

lemma run_sheet:
  assumes "desk_laws k" "perp_sheet k b s" "b + int (length calls) < 2 ^ 64"
  shows "perp_sheet k (b + int (length calls)) (run_ops (perp_handle k) calls s)"
  using perp.run_inv [of calls k b s] assms by (simp add: list_all_iff)

text \<open>C1: whatever calls the perpetual module serves, in any order and with failed ones leaving the
  state as it was, every pool's total of liabilities, collateral and custody, per side and denomination,
  is the sum over the positions stored in that pool, and every counter of open positions counts them.\<close>

theorem perp_books_kept:
  assumes "desk_laws k" "perp_sheet k b s" "b + int (length calls) < 2 ^ 64"
    and "t = run_ops (perp_handle k) calls s"
  shows "(\<forall>i p x. perp_GetPool k t i = Some p \<longrightarrow> pool_total p x = sum_list (map (share i x) (GetAllMTPs k t))) \<and>
    (\<forall>i c. kv_get (vs_counters (vstore k t)) i = Some c \<longrightarrow>
       pc_TotalOpen c = int (length (filter (\<lambda>m. mt_AmmPoolId m = i) (GetAllMTPs k t))))"
  using sheet_totals [OF run_sheet [OF assms(1-3)]] unfolding assms(4) by blast


text \<open>C5: the checks that come before anything else is done to a position either close it and take
  it out of the store, or leave it stored with its pool, with custody, and healthier than the safety
  factor asks.\<close>

theorem perp_checks_decide:
  assumes "desk_laws k" "perp_sheet k b s" "b < 2 ^ 64"
    and "GetMTP k s i a n = Inr m" "perp_GetPool k s (mt_AmmPoolId m) = Some p"
    and "MTPTriggerChecksAndUpdates k ctx (m, p, ammPool) s = Inr (t, (m', p', ammPool'), out)"
  shows "if tr_forceClosed out then GetMTP k t i a n = Inl perp_ErrMTPDoesNotExist
    else GetMTP k t i a n = Inr m' \<and> perp_GetPool k t (mt_AmmPoolId m') = Some p' \<and> 0 < mt_Custody m' \<and>
      pv_SafetyFactor (perp_GetParams k t) < mt_MtpHealth m'"
proof -
  have R: "ready k b s" using assms(1-3) by (simp add: ready_def)
  have "checked k b (GetMTPKey a i n) s m (t, (m', p', ammPool'), out)"
    by (rule on_okD [OF turn_Trigger [OF R GetMTP_desk [OF assms(4,5)]] assms(6)])
  then show ?thesis by (auto simp: checked_def tr_forceClosed_def GetMTP_def left_open_def)
qed

text \<open>C23: a block gives every pool an interest rate between the parameters' minimum and maximum, or
  leaves the pool as it was.\<close>

theorem perp_block_rates:
  assumes "desk_laws k" "perp_sheet k b s"
    and "pv_BorrowInterestRateMin (perp_GetParams k s) \<le> pv_BorrowInterestRateMax (perp_GetParams k s)"
    and "perp_GetPool k (run_ops (perp_handle k) [Call_BeginBlock ctx] s) i = Some q"
  shows "perp_GetPool k s i = Some q \<or>
    pv_BorrowInterestRateMin (perp_GetParams k s) \<le> pl_BorrowInterestRate q \<and>
    pl_BorrowInterestRate q \<le> pv_BorrowInterestRateMax (perp_GetParams k s)"
proof (cases "perp_BeginBlocker k ctx s")
  case (Inr t)
  note C = sheet_calm [OF assms(1,2)]
  have q: "perp_GetPool k t i = Some q" using assms(4) Inr by simp
  have "perp_GetParams k u = perp_GetParams k s" if "page k u = page k s" for u
    using page_sel(3) [OF that] by (simp add: perp_GetParams_def)
  then show ?thesis using begin_keeps [OF C C Inr] q computed_rate assms(3) by metis
qed (use assms(4) in simp)

section \<open>Witnesses\<close>

lemma ex_GetMTP: "GetMTP ex_perp ex_desk 1 ''alice'' 1 = Inr ex_mtp" "perp_GetPool ex_perp ex_desk 1 = Some ex_perp_pool"
  "mt_AmmPoolId ex_mtp = 1"
  by (simp_all add: GetMTP_def perp_GetPool_def ex_desk_store ex_vstore_def kv_get_def ex_mtp_def NewMTP_def)

definition ex_open :: "string \<Rightarrow> MsgOpen" where
  "ex_open creator = \<lparr>mo_Creator = creator, mo_Position = Position_LONG, mo_Leverage = 2 * dec_one,
     mo_Collateral = \<lparr>Denom = ''b'', Amount = 20\<rparr>, mo_TakeProfitPrice = Some 0, mo_StopLossPrice = Some 0, mo_PoolId = 1\<rparr>"

theorem perp_books_kept_witness:
  "perp_GetPool ex_perp ex_desk 1 = Some ex_perp_pool \<and> pool_total ex_perp_pool (Custody, True, ''a'') = 100 \<and>
   (let t = run_ops (perp_handle ex_perp) [Call_BeginBlock ex_ctx, Call_Open ex_ctx (ex_open ''bob''), Call_Open ex_ctx (ex_open ''alice'')] ex_desk
    in \<forall>i p x. perp_GetPool ex_perp t i = Some p \<longrightarrow> pool_total p x = sum_list (map (share i x) (GetAllMTPs ex_perp t)))"
  using perp_books_kept [OF ex_perp_laws ex_sheet _ refl,
      of "[Call_BeginBlock ex_ctx, Call_Open ex_ctx (ex_open ''bob''), Call_Open ex_ctx (ex_open ''alice'')]"]
  by (simp add: Let_def ex_GetMTP pool_total_def side_def sum_held_def ex_perp_pool_def del: run_ops.simps)


text \<open>Alice's position is above the safety factor.\<close>

lemma ex_checks: "case MTPTriggerChecksAndUpdates ex_perp ex_ctx (ex_mtp, ex_perp_pool, ex_perp_amm) ex_desk of
    Inl e \<Rightarrow> False | Inr (s, (m, p, a), out) \<Rightarrow> \<not> tr_forceClosed out"
  by code_simp

theorem perp_checks_decide_witness:
  "\<exists>t d out. MTPTriggerChecksAndUpdates ex_perp ex_ctx (ex_mtp, ex_perp_pool, ex_perp_amm) ex_desk = Inr (t, d, out) \<and>
     \<not> tr_forceClosed out \<and> GetMTP ex_perp t 1 ''alice'' 1 = Inr (fst d) \<and> 0 < mt_Custody (fst d)"
proof -
  obtain t m p a out where T: "MTPTriggerChecksAndUpdates ex_perp ex_ctx (ex_mtp, ex_perp_pool, ex_perp_amm) ex_desk = Inr (t, (m, p, a), out)"
    and o: "\<not> tr_forceClosed out" using ex_checks by (auto split: sum.splits prod.splits)
  from perp_checks_decide [OF ex_perp_laws ex_sheet _ ex_GetMTP(1) _ T] o show ?thesis using T by (simp add: ex_GetMTP)
qed

lemma ex_block: "case perp_BeginBlocker ex_perp ex_ctx ex_desk of Inl e \<Rightarrow> False
    | Inr t \<Rightarrow> map_option pl_BorrowInterestRate (perp_GetPool ex_perp t 1) = Some (10 ^ 17)"
  by code_simp

theorem perp_block_rates_witness:
  "\<exists>q. perp_GetPool ex_perp (run_ops (perp_handle ex_perp) [Call_BeginBlock ex_ctx] ex_desk) 1 = Some q \<and> pl_BorrowInterestRate q = 10 ^ 17 \<and>
     pv_BorrowInterestRateMin (perp_GetParams ex_perp ex_desk) \<le> pl_BorrowInterestRate q"
proof -
  obtain q where q: "perp_GetPool ex_perp (run_ops (perp_handle ex_perp) [Call_BeginBlock ex_ctx] ex_desk) 1 = Some q"
    "pl_BorrowInterestRate q = 10 ^ 17" using ex_block by (auto split: sum.splits)
  have "pl_BorrowInterestRate ex_perp_pool = 0" by (simp add: ex_perp_pool_def perp_NewPool_def)
  then have "perp_GetPool ex_perp ex_desk 1 \<noteq> Some q" using q(2) by (auto simp: ex_GetMTP)
  moreover have "pv_BorrowInterestRateMin (perp_GetParams ex_perp ex_desk) \<le> pv_BorrowInterestRateMax (perp_GetParams ex_perp ex_desk)"
    by (simp add: perp_GetParams_def ex_desk_store ex_vstore_def perp_DefaultParams_def)
  ultimately show ?thesis using perp_block_rates [OF ex_perp_laws ex_sheet _ q(1)] q by blast
qed

end
